(* ===== verification/Go_Prelude.thy ===== *)
theory Go_Prelude
  imports Complex_Main "HOL-Library.AList" "HOL-Library.Multiset" "HOL-Library.Sublist"
    "HOL-Library.Word" "HOL-Library.Char_ord" "HOL-Library.List_Lexorder"
    "HOL-Library.Product_Lexorder"
begin

text \<open>
  What every component of the model shares: the collections its lemmas are declared into,
  Go's 64-bit integers with their wrap-around, instants of time, Go maps as association
  lists, the interface of a map as a locale, and a few list facts.
\<close>

named_theorems clone_simps \<open>deep copies are the identity on values\<close>
named_theorems guard_simps \<open>boolean guards of the operations, unfolded\<close>

section \<open>64-bit integers\<close>

text \<open>
  Go's \<open>int\<close> (on the 64-bit platforms the repository targets) and \<open>int64\<close> wrap around.
  Values are \<^typ>\<open>int\<close>; every addition, subtraction and multiplication of the source is
  written with the wrap-around of two's complement.
\<close>

definition wrap64 :: "int \<Rightarrow> int" where
  "wrap64 x = (x + 2 ^ 63) mod 2 ^ 64 - 2 ^ 63"

definition add64 :: "int \<Rightarrow> int \<Rightarrow> int" where
  "add64 x y = wrap64 (x + y)"

definition sub64 :: "int \<Rightarrow> int \<Rightarrow> int" where
  "sub64 x y = wrap64 (x - y)"

definition mul64 :: "int \<Rightarrow> int \<Rightarrow> int" where
  "mul64 x y = wrap64 (x * y)"

definition int64 :: "int \<Rightarrow> bool" where
  "int64 x \<longleftrightarrow> - (2 ^ 63) \<le> x \<and> x < 2 ^ 63"

lemma wrap64_word: "wrap64 x = sint (word_of_int x :: 64 word)"
  by (simp add: wrap64_def signed_take_bit_eq_take_bit_shift take_bit_eq_mod sint_sbintrunc')

lemma wrap64_id [simp]: "int64 x \<Longrightarrow> wrap64 x = x"
  by (simp add: wrap64_def int64_def)

lemma int64_wrap64 [simp]: "int64 (wrap64 x)"
proof -
  have "0 \<le> (x + 2 ^ 63) mod 2 ^ 64" "(x + 2 ^ 63) mod 2 ^ 64 < (2 ^ 64 :: int)"
    by simp_all
  then show ?thesis by (simp add: wrap64_def int64_def)
qed

lemma wrap64_add_left: "wrap64 (wrap64 x + y) = wrap64 (x + y)"
proof -
  have "(wrap64 x + y + 2 ^ 63) mod 2 ^ 64 = ((x + 2 ^ 63) mod 2 ^ 64 + y) mod 2 ^ 64"
    by (simp add: wrap64_def)
  also have "\<dots> = (x + y + 2 ^ 63) mod 2 ^ 64"
    by (simp only: mod_add_left_eq) (simp add: algebra_simps)
  finally show ?thesis by (simp add: wrap64_def)
qed

lemma add64_id: "int64 (x + y) \<Longrightarrow> add64 x y = x + y"
  by (simp add: add64_def)

lemma sub64_id: "int64 (x - y) \<Longrightarrow> sub64 x y = x - y"
  by (simp add: sub64_def)

lemma mul64_id: "int64 (x * y) \<Longrightarrow> mul64 x y = x * y"
  by (simp add: mul64_def)

lemma int64_add64 [simp]: "int64 (add64 x y)"
  by (simp add: add64_def)

lemma int64_sub64 [simp]: "int64 (sub64 x y)"
  by (simp add: sub64_def)

lemma int64_diff_nonneg: "int64 x \<Longrightarrow> int64 y \<Longrightarrow> 0 \<le> x \<Longrightarrow> 0 \<le> y \<Longrightarrow> int64 (x - y)"
  by (simp add: int64_def)

lemma int64_between: "int64 y \<Longrightarrow> 0 \<le> x \<Longrightarrow> x \<le> y \<Longrightarrow> int64 x"
  by (simp add: int64_def)

lemma add64_one_neq [simp]: "add64 x 1 = x \<longleftrightarrow> False"
proof
  assume eq: "add64 x 1 = x"
  then have r: "int64 x" by (metis int64_add64)
  show False
  proof (cases "x = 2 ^ 63 - 1")
    case True
    with eq show False by (simp add: add64_def wrap64_def)
  next
    case False
    with r have "int64 (x + 1)" by (simp add: int64_def)
    with eq show False by (simp add: add64_id)
  qed
qed simp

section \<open>Floating point\<close>

text \<open>
  A \<open>float64\<close> as the value it denotes. The code modelled here only compares such values with
  constants, so the finite ones are rationals; the two zeros are one.
\<close>

datatype float64 = NaN | PosInf | NegInf | Finite rat

primrec float_between :: "float64 \<Rightarrow> rat \<Rightarrow> rat \<Rightarrow> bool" where
  "float_between NaN lo hi = False"
| "float_between PosInf lo hi = False"
| "float_between NegInf lo hi = False"
| "float_between (Finite x) lo hi = (lo \<le> x \<and> x \<le> hi)"

section \<open>Instants\<close>

text \<open>
  A \<open>time.Time\<close> is used for its instant only: nanoseconds since Go's zero time, so
  \<open>IsZero\<close> is equality with 0, \<open>Before\<close>, \<open>After\<close> and \<open>Equal\<close> are the order and the
  equality of \<^typ>\<open>int\<close>, and \<open>UTC()\<close>, which changes the location and keeps the instant,
  is the identity. A \<open>time.Duration\<close> is a number of nanoseconds.
\<close>

type_synonym time = int
type_synonym duration = int

definition is_zero_time :: "time \<Rightarrow> bool" where
  "is_zero_time t \<longleftrightarrow> t = 0"

definition utc :: "time \<Rightarrow> time" where
  [simp]: "utc t = t"

definition second_ns :: int where
  "second_ns = 1000000000"

section \<open>Go maps\<close>

text \<open>
  A Go map is an association list with distinct keys. The order of the list is the order
  in which a \<open>for ... range\<close> visits the map, which Go leaves open: a theorem about every
  list with distinct keys is a theorem about every iteration order.
\<close>

type_synonym ('k, 'v) gomap = "('k \<times> 'v) list"

definition gomap_ok :: "('k, 'v) gomap \<Rightarrow> bool" where
  "gomap_ok m \<longleftrightarrow> distinct (map fst m)"

definition gomap_put :: "'k \<Rightarrow> 'v \<Rightarrow> ('k, 'v) gomap \<Rightarrow> ('k, 'v) gomap" where
  "gomap_put k v m = AList.update k v m"

definition gomap_has :: "('k, 'v) gomap \<Rightarrow> 'k \<Rightarrow> bool" where
  "gomap_has m k \<longleftrightarrow> map_of m k \<noteq> None"

text \<open>What a client of a map relies on, whatever the map is.\<close>

locale finite_map_api =
  fixes look :: "'m \<Rightarrow> 'k \<Rightarrow> 'v option"
    and store :: "'k \<Rightarrow> 'v \<Rightarrow> 'm \<Rightarrow> 'm"
    and keys :: "'m \<Rightarrow> 'k set"
    and size_of :: "'m \<Rightarrow> nat"
    and ok :: "'m \<Rightarrow> bool"
  assumes look_store: "look (store k v m) k' = (if k' = k then Some v else look m k')"
    and keys_look: "k \<in> keys m \<longleftrightarrow> look m k \<noteq> None"
    and ok_store: "ok m \<Longrightarrow> ok (store k v m)"
    and ok_card: "ok m \<Longrightarrow> card (keys m) = size_of m"
    and keys_finite: "finite (keys m)"
begin

lemma keys_store: "keys (store k v m) = insert k (keys m)"
  by (auto simp: keys_look look_store split: if_splits)

lemma look_store_same [simp]: "look (store k v m) k = Some v"
  by (simp add: look_store)

lemma look_store_other [simp]: "k' \<noteq> k \<Longrightarrow> look (store k v m) k' = look m k'"
  by (simp add: look_store)

lemma size_store_fresh: "ok m \<Longrightarrow> look m k = None \<Longrightarrow> size_of (store k v m) = Suc (size_of m)"
  by (simp add: ok_card [symmetric] ok_store keys_store keys_finite keys_look)

lemma size_store_old: "ok m \<Longrightarrow> look m k \<noteq> None \<Longrightarrow> size_of (store k v m) = size_of m"
  by (metis insert_absorb keys_look keys_store ok_card ok_store)

end

interpretation amap: finite_map_api map_of gomap_put "\<lambda>m. fst ` set m" length gomap_ok
proof unfold_locales
  fix k k' :: 'k and v :: 'v and m :: "('k, 'v) gomap"
  show "map_of (gomap_put k v m) k' = (if k' = k then Some v else map_of m k')"
    by (simp add: gomap_put_def update_conv)
  show "k \<in> fst ` set m \<longleftrightarrow> map_of m k \<noteq> None"
    by (simp add: map_of_eq_None_iff)
  show "gomap_ok m \<Longrightarrow> gomap_ok (gomap_put k v m)"
    by (simp add: gomap_ok_def gomap_put_def distinct_update)
  show "gomap_ok m \<Longrightarrow> card (fst ` set m) = length m"
    by (metis distinct_card gomap_ok_def length_map list.set_map)
  show "finite (fst ` set m)" by simp
qed

lemma gomap_okD: "gomap_ok m \<Longrightarrow> (k, v) \<in> set m \<Longrightarrow> map_of m k = Some v"
  by (simp add: gomap_ok_def)

lemma gomap_ok_Nil [simp]: "gomap_ok []"
  by (simp add: gomap_ok_def)

lemma gomap_ok_put [simp]: "gomap_ok m \<Longrightarrow> gomap_ok (gomap_put k v m)"
  by (rule amap.ok_store)

lemma gomap_set_put:
  assumes "gomap_ok m"
  shows "set (gomap_put k v m) = insert (k, v) {p \<in> set m. fst p \<noteq> k}"
proof -
  have "(a, b) \<in> set (gomap_put k v m) \<longleftrightarrow> map_of (gomap_put k v m) a = Some b" for a b
    using gomap_ok_put [OF assms] by (simp add: gomap_ok_def)
  moreover have "(a, b) \<in> set m \<longleftrightarrow> map_of m a = Some b" for a b
    using assms by (simp add: gomap_ok_def)
  ultimately show ?thesis by (auto simp: amap.look_store split: if_splits)
qed

text \<open>A sum over the values of a map, and how storing a value moves it.\<close>

definition gomap_sum :: "('v \<Rightarrow> int) \<Rightarrow> ('k, 'v) gomap \<Rightarrow> int" where
  "gomap_sum f m = sum_list (map (f \<circ> snd) m)"

lemma gomap_sum_put_fresh: "map_of m k = None \<Longrightarrow> gomap_sum f (gomap_put k v m) = gomap_sum f m + f v"
  unfolding gomap_sum_def gomap_put_def by (induction m) (auto split: if_splits)

lemma gomap_sum_put_old:
  "map_of m k = Some w \<Longrightarrow> gomap_sum f (gomap_put k v m) = gomap_sum f m - f w + f v"
  unfolding gomap_sum_def gomap_put_def by (induction m) (auto split: if_splits)

lemma gomap_sum_nonneg: "(\<And>k v. (k, v) \<in> set m \<Longrightarrow> 0 \<le> f v) \<Longrightarrow> 0 \<le> gomap_sum f m"
  unfolding gomap_sum_def by (auto intro!: sum_list_nonneg)

lemma gomap_sum_ge:
  assumes "map_of m k = Some v" and "\<And>k v. (k, v) \<in> set m \<Longrightarrow> 0 \<le> f v"
  shows "f v \<le> gomap_sum f m"
proof -
  from assms(1) have "(k, v) \<in> set m" by (rule map_of_SomeD)
  then have "f v \<in> set (map (f \<circ> snd) m)" by force
  moreover have "\<forall>x \<in> set (map (f \<circ> snd) m). 0 \<le> x" using assms(2) by auto
  ultimately show ?thesis unfolding gomap_sum_def by (metis member_le_sum_list)
qed

section \<open>Lists\<close>

text \<open>The \<open>seen\<close>-map loops of the source: an empty or repeated element ends them.\<close>

fun scan_distinct :: "('a \<Rightarrow> bool) \<Rightarrow> 'a list \<Rightarrow> 'a list \<Rightarrow> bool" where
  "scan_distinct bad seen [] = True"
| "scan_distinct bad seen (x # xs) =
     (if bad x \<or> x \<in> set seen then False else scan_distinct bad (x # seen) xs)"

lemma scan_distinct_iff:
  "scan_distinct bad seen xs \<longleftrightarrow>
     (\<forall>x \<in> set xs. \<not> bad x) \<and> distinct xs \<and> set xs \<inter> set seen = {}"
  by (induction xs arbitrary: seen) auto

end
