(* ===== verification/Go_Strings.thy ===== *)
theory Go_Strings
  imports Go_Prelude
begin

text \<open>
  The functions of Go's \<open>strings\<close>, \<open>path\<close> and \<open>regexp\<close> packages that the modelled code
  calls. A Go string is a sequence of bytes, and so is a HOL \<^typ>\<open>string\<close>
  (a \<^typ>\<open>char\<close> is one byte): \<^const>\<open>length\<close> is \<open>len\<close>, equality is byte equality and
  the lexicographic order of \<open>List_Lexorder\<close> is Go's order on strings.
\<close>

section \<open>Searching and cutting\<close>

definition contains_any :: "string \<Rightarrow> string \<Rightarrow> bool" where
  \<comment> \<open>\<open>strings.ContainsAny\<close> with a cut set of ASCII characters\<close>
  "contains_any s cutset \<longleftrightarrow> list_ex (\<lambda>c. c \<in> set cutset) s"

definition crlf_nul :: string where
  "crlf_nul = [CHR 0x0D, CHR 0x0A, CHR 0x00]"

definition has_prefix :: "string \<Rightarrow> string \<Rightarrow> bool" where
  "has_prefix s p \<longleftrightarrow> take (length p) s = p"

definition has_suffix :: "string \<Rightarrow> string \<Rightarrow> bool" where
  "has_suffix s p \<longleftrightarrow> length p \<le> length s \<and> drop (length s - length p) s = p"

definition trim_prefix :: "string \<Rightarrow> string \<Rightarrow> string" where
  "trim_prefix s p = (if has_prefix s p then drop (length p) s else s)"

definition trim_suffix :: "string \<Rightarrow> string \<Rightarrow> string" where
  "trim_suffix s p = (if has_suffix s p then take (length s - length p) s else s)"

fun contains_sub :: "string \<Rightarrow> string \<Rightarrow> bool" where
  "contains_sub [] p \<longleftrightarrow> p = []"
| "contains_sub (c # s) p \<longleftrightarrow> has_prefix (c # s) p \<or> contains_sub s p"

definition replace_byte :: "char \<Rightarrow> char \<Rightarrow> string \<Rightarrow> string" where
  \<comment> \<open>\<open>strings.ReplaceAll\<close> of one ASCII character by another\<close>
  "replace_byte a b s = map (\<lambda>c. if c = a then b else c) s"

fun split_byte :: "char \<Rightarrow> string \<Rightarrow> string list" where
  \<comment> \<open>\<open>strings.Split\<close> at an ASCII character\<close>
  "split_byte d [] = [[]]"
| "split_byte d (c # s) =
     (if c = d then [] # split_byte d s
      else (case split_byte d s of [] \<Rightarrow> [[c]] | p # ps \<Rightarrow> (c # p) # ps))"

fun join_with :: "string \<Rightarrow> string list \<Rightarrow> string" where
  "join_with sep [] = []"
| "join_with sep [x] = x"
| "join_with sep (x # y # zs) = x @ sep @ join_with sep (y # zs)"

lemma has_prefix_iff: "has_prefix s p \<longleftrightarrow> (\<exists>t. s = p @ t)"
  unfolding has_prefix_def by (metis append_eq_conv_conj append_take_drop_id)

lemma has_prefix_prefix: "has_prefix s p \<longleftrightarrow> prefix p s"
  by (simp add: has_prefix_iff prefix_def)

lemma has_prefix_append [simp]: "has_prefix (p @ t) p"
  by (auto simp: has_prefix_iff)

lemma trim_prefix_append [simp]: "trim_prefix (p @ t) p = t"
  by (simp add: trim_prefix_def)

lemma has_suffix_append [simp]: "has_suffix (s @ p) p"
  by (simp add: has_suffix_def)

lemma split_byte_not_Nil [simp]: "split_byte d s \<noteq> []"
  by (induction s) (auto split: list.splits)

lemma join_split_byte: "join_with [d] (split_byte d s) = s"
proof (induction s)
  case (Cons c s)
  obtain p ps where ps: "split_byte d s = p # ps" by (cases "split_byte d s") auto
  with Cons show ?case by (cases ps) auto
qed simp

lemma split_byte_no_sep: "p \<in> set (split_byte d s) \<Longrightarrow> d \<notin> set p"
  by (induction s arbitrary: p) (auto split: if_splits list.splits)

lemma split_byte_join:
  "ps \<noteq> [] \<Longrightarrow> (\<And>p. p \<in> set ps \<Longrightarrow> d \<notin> set p) \<Longrightarrow> split_byte d (join_with [d] ps) = ps"
proof (induction ps rule: induct_list012)
  case (2 x)
  then have "d \<notin> set x" by simp
  then show ?case by (induction x) auto
next
  case (3 x y zs)
  have rest: "split_byte d (join_with [d] (y # zs)) = y # zs" using 3 by simp
  have "d \<notin> set x" using 3 by simp
  then have "split_byte d (x @ d # join_with [d] (y # zs)) = x # split_byte d (join_with [d] (y # zs))"
    by (induction x) auto
  with rest show ?case by simp
qed simp

section \<open>White space\<close>

text \<open>
  The UTF-8 encodings of the characters \<open>unicode.IsSpace\<close> accepts. A lead byte never
  occurs inside the encoding of another character, so looking for these encodings byte by
  byte finds exactly the white space Go's decoder finds, in valid and in invalid UTF-8.
\<close>

definition space_runes :: "string list" where
  "space_runes =
     [[CHR 0x09], [CHR 0x0A], [CHR 0x0B], [CHR 0x0C], [CHR 0x0D], [CHR 0x20],
      [CHR 0xC2, CHR 0x85], [CHR 0xC2, CHR 0xA0], [CHR 0xE1, CHR 0x9A, CHR 0x80],
      [CHR 0xE2, CHR 0x80, CHR 0x80], [CHR 0xE2, CHR 0x80, CHR 0x81],
      [CHR 0xE2, CHR 0x80, CHR 0x82], [CHR 0xE2, CHR 0x80, CHR 0x83],
      [CHR 0xE2, CHR 0x80, CHR 0x84], [CHR 0xE2, CHR 0x80, CHR 0x85],
      [CHR 0xE2, CHR 0x80, CHR 0x86], [CHR 0xE2, CHR 0x80, CHR 0x87],
      [CHR 0xE2, CHR 0x80, CHR 0x88], [CHR 0xE2, CHR 0x80, CHR 0x89],
      [CHR 0xE2, CHR 0x80, CHR 0x8A], [CHR 0xE2, CHR 0x80, CHR 0xA8],
      [CHR 0xE2, CHR 0x80, CHR 0xA9], [CHR 0xE2, CHR 0x80, CHR 0xAF],
      [CHR 0xE2, CHR 0x81, CHR 0x9F], [CHR 0xE3, CHR 0x80, CHR 0x80]]"

definition leading_rune :: "string list \<Rightarrow> string \<Rightarrow> string option" where
  "leading_rune rs s = find (\<lambda>r. r \<noteq> [] \<and> has_prefix s r) rs"

lemma leading_rune_Some: "leading_rune rs s = Some r \<Longrightarrow> r \<noteq> [] \<and> has_prefix s r \<and> r \<in> set rs"
  unfolding leading_rune_def find_Some_iff by auto

function strip_front :: "string list \<Rightarrow> string \<Rightarrow> string" where
  "strip_front rs s =
     (case leading_rune rs s of None \<Rightarrow> s | Some r \<Rightarrow> strip_front rs (drop (length r) s))"
  by pat_completeness auto
termination
proof (relation "measure (\<lambda>(rs, s). length s)")
  fix rs s r
  assume "leading_rune rs s = Some r"
  then have "r \<noteq> []" "prefix r s" by (auto dest: leading_rune_Some simp: has_prefix_prefix)
  then show "((rs, drop (length r) s), rs, s) \<in> measure (\<lambda>(rs, s). length s)"
    by (cases s; cases r) auto
qed simp

declare strip_front.simps [simp del]

definition trim_space :: "string \<Rightarrow> string" where
  "trim_space s =
     rev (strip_front (map rev space_runes) (rev (strip_front space_runes s)))"

fun str_fields_from :: "string \<Rightarrow> nat \<Rightarrow> string \<Rightarrow> string list" where
  \<comment> \<open>\<open>strings.Fields\<close>: the current field (reversed), bytes of a separator still to skip\<close>
  "str_fields_from acc k [] = (if acc = [] then [] else [rev acc])"
| "str_fields_from acc (Suc k) (c # s) = str_fields_from acc k s"
| "str_fields_from acc 0 (c # s) =
     (case leading_rune space_runes (c # s) of
        None \<Rightarrow> str_fields_from (c # acc) 0 s
      | Some r \<Rightarrow> (if acc = [] then [] else [rev acc]) @ str_fields_from [] (length r - 1) s)"

definition str_fields :: "string \<Rightarrow> string list" where
  "str_fields s = str_fields_from [] 0 s"

lemma strip_front_done: "leading_rune rs (strip_front rs s) = None"
proof (induction rs s rule: strip_front.induct)
  case (1 rs s)
  show ?case
  proof (cases "leading_rune rs s")
    case None
    then show ?thesis by (subst strip_front.simps) simp
  next
    case (Some r)
    then show ?thesis using "1.IH" [OF Some] by (subst strip_front.simps) simp
  qed
qed

lemma strip_front_id: "leading_rune rs s = None \<Longrightarrow> strip_front rs s = s"
  by (subst strip_front.simps) simp

lemma strip_front_suffix: "suffix (strip_front rs s) s"
proof (induction rs s rule: strip_front.induct)
  case (1 rs s)
  show ?case
  proof (cases "leading_rune rs s")
    case None
    then show ?thesis by (simp add: strip_front_id)
  next
    case (Some r)
    then have "strip_front rs s = strip_front rs (drop (length r) s)"
      by (subst strip_front.simps) simp
    with "1.IH" [OF Some] show ?thesis
      by (metis suffix_drop suffix_order.trans)
  qed
qed

lemma trim_space_Nil [simp]: "trim_space [] = []"
  by (simp add: trim_space_def strip_front_suffix [of _ "[]", simplified])

section \<open>Letter case\<close>

text \<open>
  \<open>strings.ToLower\<close>. Two characters outside ASCII have an ASCII lower case: the Kelvin sign
  (\<open>k\<close>) and the capital I with a dot (\<open>i\<close>). Other characters outside ASCII stay outside
  ASCII, so a comparison of the result with an ASCII literal is exact; their own folding is
  not modelled.
\<close>

definition lower_byte :: "char \<Rightarrow> char" where
  "lower_byte c =
     (if (65 :: nat) \<le> of_char c \<and> of_char c \<le> (90 :: nat) then char_of (of_char c + (32 :: nat)) else c)"

fun to_lower :: "string \<Rightarrow> string" where
  "to_lower [] = []"
| "to_lower (c # s) =
     (if has_prefix (c # s) [CHR 0xE2, CHR 0x84, CHR 0xAA] then CHR ''k'' # to_lower (drop 2 s)
      else if has_prefix (c # s) [CHR 0xC4, CHR 0xB0] then CHR ''i'' # to_lower (drop 1 s)
      else lower_byte c # to_lower s)"

section \<open>Character classes\<close>

definition is_lower_hex :: "char \<Rightarrow> bool" where
  "is_lower_hex c \<longleftrightarrow> c \<in> set ''0123456789abcdef''"

definition is_digit :: "char \<Rightarrow> bool" where
  "is_digit c \<longleftrightarrow> c \<in> set ''0123456789''"

definition is_upper_letter :: "char \<Rightarrow> bool" where
  "is_upper_letter c \<longleftrightarrow> c \<in> set ''ABCDEFGHIJKLMNOPQRSTUVWXYZ''"

definition is_lower_letter :: "char \<Rightarrow> bool" where
  "is_lower_letter c \<longleftrightarrow> c \<in> set ''abcdefghijklmnopqrstuvwxyz''"

section \<open>Decimal numbers\<close>

definition digit_char :: "nat \<Rightarrow> char" where
  "digit_char d = char_of (48 + d)"

fun show_nat :: "nat \<Rightarrow> string" where
  "show_nat n = (if n < 10 then [digit_char n] else show_nat (n div 10) @ [digit_char (n mod 10)])"

declare show_nat.simps [simp del]

definition show_int :: "int \<Rightarrow> string" where
  \<comment> \<open>the decimal text \<open>fmt\<close> and \<open>strconv\<close> print\<close>
  "show_int i = (if i < 0 then CHR ''-'' # show_nat (nat (- i)) else show_nat (nat i))"

section \<open>Slash-separated paths\<close>

text \<open>
  \<open>path.Clean\<close>: empty and \<open>.\<close> elements disappear, \<open>..\<close> removes the element before it, a
  rooted path swallows the \<open>..\<close> at its root, and the empty result is \<open>.\<close>.
\<close>

fun clean_push :: "bool \<Rightarrow> string list \<Rightarrow> string \<Rightarrow> string list" where
  "clean_push rooted st part =
     (if part = [] \<or> part = ''.'' then st
      else if part = ''..'' then
        (case st of
           [] \<Rightarrow> if rooted then [] else [part]
         | prev # rest \<Rightarrow> if prev = ''..'' then part # st else rest)
      else part # st)"

definition path_clean :: "string \<Rightarrow> string" where
  "path_clean p =
     (let rooted = has_prefix p ''/'';
          st = foldl (clean_push rooted) [] (split_byte (CHR ''/'') p);
          out = (if rooted then ''/'' else []) @ join_with ''/'' (rev st)
      in if out = [] then ''.'' else out)"

text \<open>A string that a NUL byte can end without ambiguity.\<close>

definition nul_free :: "string \<Rightarrow> bool" where
  "nul_free s \<longleftrightarrow> CHR 0x00 \<notin> set s"

end
