(* ===== verification/Aor_Errors.thy ===== *)
theory Aor_Errors
  imports Go_Strings
begin

text \<open>
  The stable, redacted errors of \<open>pkg/errors/errors.go\<close>: the wire codes, the metadata
  table, the constructors that filter the details, and the HTTP problem document.
\<close>

section \<open>Codes\<close>

text \<open>
  \<open>Code\<close> is a string type with a constant per code. \<open>CodeOther\<close> stands for a string that
  is none of the constants.
\<close>

datatype (plugins only: code size) aor_code =
    CodeInternalError
  | CodeInvalidArgument
  | CodeContextWindowExceeded
  | CodeNotFound
  | CodeConflict
  | CodeUnauthorized
  | CodeForbidden
  | CodeRateLimited
  | CodeTimeout
  | CodeDependencyUnavailable
  | CodeStateVersionConflict
  | CodeInvalidStateTransition
  | CodeGoalNotApproved
  | CodeGoalHashMismatch
  | CodeSpecSuperseded
  | CodeTaskBlocked
  | CodeAttemptLimitReached
  | CodeLeaseExpired
  | CodeIdempotencyConflict
  | CodeBudgetExceeded
  | CodeBudgetReservationFailed
  | CodeModelNotAllowed
  | CodeModelCapabilityMissing
  | CodeProviderRateLimited
  | CodeProviderResultUnknown
  | CodeModelOutputSchemaInvalid
  | CodeToolNotAllowed
  | CodeToolInputInvalid
  | CodeToolOutputTooLarge
  | CodePolicyDenied
  | CodeApprovalRequired
  | CodeSandboxLevelInsufficient
  | CodeSandboxCreateFailed
  | CodeSandboxExecTimeout
  | CodeUnauthorizedPath
  | CodeNetworkDestinationDenied
  | CodeArtifactHashMismatch
  | CodeArtifactNotAvailable
  | CodeKnowledgeRevisionUnavailable
  | CodeKnowledgeWriteForbidden
  | CodeAuditEvidenceInvalid
  | CodeAuditorContextViolation
  | CodeHiddenTestAccessDenied
  | CodeIntegrationConflict
  | CodeOther string

fun code_string :: "aor_code \<Rightarrow> string" where
  "code_string CodeInternalError = ''AOR_INTERNAL_ERROR''"
| "code_string CodeInvalidArgument = ''AOR_INVALID_ARGUMENT''"
| "code_string CodeContextWindowExceeded = ''AOR_CONTEXT_WINDOW_EXCEEDED''"
| "code_string CodeNotFound = ''AOR_NOT_FOUND''"
| "code_string CodeConflict = ''AOR_CONFLICT''"
| "code_string CodeUnauthorized = ''AOR_UNAUTHORIZED''"
| "code_string CodeForbidden = ''AOR_FORBIDDEN''"
| "code_string CodeRateLimited = ''AOR_RATE_LIMITED''"
| "code_string CodeTimeout = ''AOR_TIMEOUT''"
| "code_string CodeDependencyUnavailable = ''AOR_DEPENDENCY_UNAVAILABLE''"
| "code_string CodeStateVersionConflict = ''AOR_STATE_VERSION_CONFLICT''"
| "code_string CodeInvalidStateTransition = ''AOR_INVALID_STATE_TRANSITION''"
| "code_string CodeGoalNotApproved = ''AOR_GOAL_NOT_APPROVED''"
| "code_string CodeGoalHashMismatch = ''AOR_GOAL_HASH_MISMATCH''"
| "code_string CodeSpecSuperseded = ''AOR_SPEC_SUPERSEDED''"
| "code_string CodeTaskBlocked = ''AOR_TASK_BLOCKED''"
| "code_string CodeAttemptLimitReached = ''AOR_ATTEMPT_LIMIT_REACHED''"
| "code_string CodeLeaseExpired = ''AOR_LEASE_EXPIRED''"
| "code_string CodeIdempotencyConflict = ''AOR_IDEMPOTENCY_CONFLICT''"
| "code_string CodeBudgetExceeded = ''AOR_BUDGET_EXCEEDED''"
| "code_string CodeBudgetReservationFailed = ''AOR_BUDGET_RESERVATION_FAILED''"
| "code_string CodeModelNotAllowed = ''AOR_MODEL_NOT_ALLOWED''"
| "code_string CodeModelCapabilityMissing = ''AOR_MODEL_CAPABILITY_MISSING''"
| "code_string CodeProviderRateLimited = ''AOR_PROVIDER_RATE_LIMITED''"
| "code_string CodeProviderResultUnknown = ''AOR_PROVIDER_RESULT_UNKNOWN''"
| "code_string CodeModelOutputSchemaInvalid = ''AOR_MODEL_OUTPUT_SCHEMA_INVALID''"
| "code_string CodeToolNotAllowed = ''AOR_TOOL_NOT_ALLOWED''"
| "code_string CodeToolInputInvalid = ''AOR_TOOL_INPUT_INVALID''"
| "code_string CodeToolOutputTooLarge = ''AOR_TOOL_OUTPUT_TOO_LARGE''"
| "code_string CodePolicyDenied = ''AOR_POLICY_DENIED''"
| "code_string CodeApprovalRequired = ''AOR_APPROVAL_REQUIRED''"
| "code_string CodeSandboxLevelInsufficient = ''AOR_SANDBOX_LEVEL_INSUFFICIENT''"
| "code_string CodeSandboxCreateFailed = ''AOR_SANDBOX_CREATE_FAILED''"
| "code_string CodeSandboxExecTimeout = ''AOR_SANDBOX_EXEC_TIMEOUT''"
| "code_string CodeUnauthorizedPath = ''AOR_UNAUTHORIZED_PATH''"
| "code_string CodeNetworkDestinationDenied = ''AOR_NETWORK_DESTINATION_DENIED''"
| "code_string CodeArtifactHashMismatch = ''AOR_ARTIFACT_HASH_MISMATCH''"
| "code_string CodeArtifactNotAvailable = ''AOR_ARTIFACT_NOT_AVAILABLE''"
| "code_string CodeKnowledgeRevisionUnavailable = ''AOR_KNOWLEDGE_REVISION_NOT_AVAILABLE''"
| "code_string CodeKnowledgeWriteForbidden = ''AOR_KNOWLEDGE_WRITE_FORBIDDEN''"
| "code_string CodeAuditEvidenceInvalid = ''AOR_AUDIT_EVIDENCE_INVALID''"
| "code_string CodeAuditorContextViolation = ''AOR_AUDITOR_CONTEXT_VIOLATION''"
| "code_string CodeHiddenTestAccessDenied = ''AOR_HIDDEN_TEST_ACCESS_DENIED''"
| "code_string CodeIntegrationConflict = ''AOR_INTEGRATION_CONFLICT''"
| "code_string (CodeOther s) = s"

record Metadata =
  md_Message :: string
  md_HTTPStatus :: int
  md_Retryable :: bool

definition mk_metadata :: "string \<Rightarrow> int \<Rightarrow> bool \<Rightarrow> Metadata" where
  "mk_metadata m s r = \<lparr>md_Message = m, md_HTTPStatus = s, md_Retryable = r\<rparr>"

definition codes :: "aor_code list" where
  "codes = [
    CodeInternalError, CodeInvalidArgument, CodeContextWindowExceeded, CodeNotFound,
    CodeConflict, CodeUnauthorized, CodeForbidden, CodeRateLimited, CodeTimeout,
    CodeDependencyUnavailable, CodeStateVersionConflict, CodeInvalidStateTransition,
    CodeGoalNotApproved, CodeGoalHashMismatch, CodeSpecSuperseded, CodeTaskBlocked,
    CodeAttemptLimitReached, CodeLeaseExpired, CodeIdempotencyConflict, CodeBudgetExceeded,
    CodeBudgetReservationFailed, CodeModelNotAllowed, CodeModelCapabilityMissing,
    CodeProviderRateLimited, CodeProviderResultUnknown, CodeModelOutputSchemaInvalid,
    CodeToolNotAllowed, CodeToolInputInvalid, CodeToolOutputTooLarge, CodePolicyDenied,
    CodeApprovalRequired, CodeSandboxLevelInsufficient, CodeSandboxCreateFailed,
    CodeSandboxExecTimeout, CodeUnauthorizedPath, CodeNetworkDestinationDenied,
    CodeArtifactHashMismatch, CodeArtifactNotAvailable, CodeKnowledgeRevisionUnavailable,
    CodeKnowledgeWriteForbidden, CodeAuditEvidenceInvalid, CodeAuditorContextViolation,
    CodeHiddenTestAccessDenied, CodeIntegrationConflict]"

definition AllCodes :: "aor_code list" where
  "AllCodes = codes"

text \<open>The table \<open>metadata\<close>, as the partial function a lookup in it is.\<close>

fun metadata :: "aor_code \<Rightarrow> Metadata option" where
  "metadata CodeInternalError = Some (mk_metadata ''Internal error'' 500 False)"
| "metadata CodeInvalidArgument = Some (mk_metadata ''Invalid argument'' 400 False)"
| "metadata CodeContextWindowExceeded = Some (mk_metadata ''Model context window exceeded'' 422 False)"
| "metadata CodeNotFound = Some (mk_metadata ''Resource not found'' 404 False)"
| "metadata CodeConflict = Some (mk_metadata ''Resource conflict'' 409 False)"
| "metadata CodeUnauthorized = Some (mk_metadata ''Authentication required'' 401 False)"
| "metadata CodeForbidden = Some (mk_metadata ''Operation forbidden'' 403 False)"
| "metadata CodeRateLimited = Some (mk_metadata ''Rate limit exceeded'' 429 True)"
| "metadata CodeTimeout = Some (mk_metadata ''Operation timed out'' 504 True)"
| "metadata CodeDependencyUnavailable = Some (mk_metadata ''Dependency unavailable'' 503 True)"
| "metadata CodeStateVersionConflict = Some (mk_metadata ''Aggregate version conflict'' 409 False)"
| "metadata CodeInvalidStateTransition = Some (mk_metadata ''Invalid state transition'' 409 False)"
| "metadata CodeGoalNotApproved = Some (mk_metadata ''Goal is not approved'' 409 False)"
| "metadata CodeGoalHashMismatch = Some (mk_metadata ''Goal digest mismatch'' 409 False)"
| "metadata CodeSpecSuperseded = Some (mk_metadata ''Specification was superseded'' 409 False)"
| "metadata CodeTaskBlocked = Some (mk_metadata ''Task is blocked'' 409 False)"
| "metadata CodeAttemptLimitReached = Some (mk_metadata ''Attempt limit reached'' 409 False)"
| "metadata CodeLeaseExpired = Some (mk_metadata ''Capability lease expired'' 410 False)"
| "metadata CodeIdempotencyConflict = Some (mk_metadata ''Idempotency key conflicts with prior request'' 409 False)"
| "metadata CodeBudgetExceeded = Some (mk_metadata ''Budget exceeded'' 402 False)"
| "metadata CodeBudgetReservationFailed = Some (mk_metadata ''Budget reservation failed'' 409 False)"
| "metadata CodeModelNotAllowed = Some (mk_metadata ''Model is not allowed'' 403 False)"
| "metadata CodeModelCapabilityMissing = Some (mk_metadata ''Required model capability is missing'' 422 False)"
| "metadata CodeProviderRateLimited = Some (mk_metadata ''Provider rate limit exceeded'' 429 True)"
| "metadata CodeProviderResultUnknown = Some (mk_metadata ''Provider result is unknown'' 502 False)"
| "metadata CodeModelOutputSchemaInvalid = Some (mk_metadata ''Model output does not match Schema'' 422 False)"
| "metadata CodeToolNotAllowed = Some (mk_metadata ''Tool is not allowed'' 403 False)"
| "metadata CodeToolInputInvalid = Some (mk_metadata ''Tool input is invalid'' 422 False)"
| "metadata CodeToolOutputTooLarge = Some (mk_metadata ''Tool output exceeds the inline limit'' 413 False)"
| "metadata CodePolicyDenied = Some (mk_metadata ''Operation denied by policy'' 403 False)"
| "metadata CodeApprovalRequired = Some (mk_metadata ''Explicit approval is required'' 428 False)"
| "metadata CodeSandboxLevelInsufficient = Some (mk_metadata ''Sandbox level is insufficient'' 412 False)"
| "metadata CodeSandboxCreateFailed = Some (mk_metadata ''Sandbox creation failed'' 500 False)"
| "metadata CodeSandboxExecTimeout = Some (mk_metadata ''Sandbox execution timed out'' 504 True)"
| "metadata CodeUnauthorizedPath = Some (mk_metadata ''Path is outside the authorized scope'' 403 False)"
| "metadata CodeNetworkDestinationDenied = Some (mk_metadata ''Network destination denied'' 403 False)"
| "metadata CodeArtifactHashMismatch = Some (mk_metadata ''Artifact digest mismatch'' 409 False)"
| "metadata CodeArtifactNotAvailable = Some (mk_metadata ''Artifact not available'' 404 False)"
| "metadata CodeKnowledgeRevisionUnavailable = Some (mk_metadata ''Knowledge revision not available'' 410 False)"
| "metadata CodeKnowledgeWriteForbidden = Some (mk_metadata ''Knowledge write forbidden'' 403 False)"
| "metadata CodeAuditEvidenceInvalid = Some (mk_metadata ''Audit evidence is invalid'' 422 False)"
| "metadata CodeAuditorContextViolation = Some (mk_metadata ''Auditor context violates blind-review policy'' 403 False)"
| "metadata CodeHiddenTestAccessDenied = Some (mk_metadata ''Hidden test access denied'' 403 False)"
| "metadata CodeIntegrationConflict = Some (mk_metadata ''Integration conflict'' 409 False)"
| "metadata (CodeOther s) = None"

definition MetadataFor :: "aor_code \<Rightarrow> Metadata" where
  "MetadataFor code =
     (case metadata code of Some v \<Rightarrow> v
      | None \<Rightarrow> (case metadata CodeInternalError of Some v \<Rightarrow> v
                 | None \<Rightarrow> mk_metadata [] 0 False))"

section \<open>Errors\<close>

text \<open>
  The values a detail map is built from, with the text \<open>fmt.Sprint\<close> gives them. The
  filtered details hold only such texts. An absent map (\<open>nil\<close>) is \<open>None\<close>.
\<close>

datatype detail = DString string | DInt int | DBool bool

primrec sprint :: "detail \<Rightarrow> string" where
  "sprint (DString s) = s"
| "sprint (DInt i) = show_int i"
| "sprint (DBool b) = (if b then ''true'' else ''false'')"

definition safeDetailKeys :: "string list" where
  "safeDetailKeys =
     [''actualVersion'', ''expectedVersion'', ''limit'', ''policyVersion'', ''ruleId'',
      ''scope'', ''subjectType'']"

fun safe_details_loop :: "(string, detail) gomap \<Rightarrow> (string, string) gomap" where
  "safe_details_loop [] = []"
| "safe_details_loop ((key, value) # rest) =
     (if key \<in> set safeDetailKeys then (key, sprint value) # safe_details_loop rest
      else safe_details_loop rest)"

definition safeDetails :: "(string, detail) gomap \<Rightarrow> (string, string) gomap option" where
  "safeDetails input =
     (if length input = 0 then None
      else (let output = safe_details_loop input
            in if length output = 0 then None else Some output))"

datatype aor_error =
  AorError (err_Code: aor_code) (err_CorrelationID: string)
    (err_Details: "(string, string) gomap option") (err_cause: "go_error option")
and go_error = GoAor aor_error | GoPlain string

definition New :: "aor_code \<Rightarrow> string \<Rightarrow> (string, detail) gomap \<Rightarrow> aor_error" where
  "New code correlationID details = AorError code correlationID (safeDetails details) None"

definition Wrap :: "aor_code \<Rightarrow> string \<Rightarrow> go_error option \<Rightarrow> (string, detail) gomap \<Rightarrow> aor_error" where
  "Wrap code correlationID cause details =
     (case New code correlationID details of
        AorError c i d _ \<Rightarrow> AorError c i d cause)"

definition error_text :: "aor_error \<Rightarrow> string" where
  "error_text e = code_string (err_Code e) @ '': '' @ md_Message (MetadataFor (err_Code e))"

definition Unwrap :: "aor_error \<Rightarrow> go_error option" where
  "Unwrap e = err_cause e"

definition NonRetryable :: "aor_error option \<Rightarrow> bool" where
  \<comment> \<open>the method may be called on a nil pointer\<close>
  "NonRetryable e = (case e of None \<Rightarrow> False | Some x \<Rightarrow> \<not> md_Retryable (MetadataFor (err_Code x)))"

record ProblemBody =
  pb_Code :: aor_code
  pb_Message :: string
  pb_Retryable :: bool
  pb_Details :: "(string, string) gomap option"
  pb_CorrelationID :: string

record Problem =
  pr_Type :: string
  pr_Title :: string
  pr_Status :: int
  pr_Detail :: string
  pr_Instance :: string
  pr_Error :: ProblemBody

definition as_details :: "(string, string) gomap option \<Rightarrow> (string, detail) gomap" where
  \<comment> \<open>the stored texts, read back as details (a nil map has no entries)\<close>
  "as_details d = (case d of None \<Rightarrow> [] | Some m \<Rightarrow> map (\<lambda>(k, v). (k, DString v)) m)"

definition problem :: "aor_error \<Rightarrow> Problem" where
  "problem e =
     (let meta = MetadataFor (err_Code e) in
      \<lparr>pr_Type = ''https://errors.aor.local/'' @ code_string (err_Code e),
       pr_Title = md_Message meta,
       pr_Status = md_HTTPStatus meta,
       pr_Detail = md_Message meta,
       pr_Instance = [],
       pr_Error = \<lparr>pb_Code = err_Code e, pb_Message = md_Message meta,
                   pb_Retryable = md_Retryable meta,
                   pb_Details = safeDetails (as_details (err_Details e)),
                   pb_CorrelationID = err_CorrelationID e\<rparr>\<rparr>)"

section \<open>Facts\<close>

lemma err_Code_New [simp]: "err_Code (New c i d) = c"
  by (simp add: New_def)

lemma safe_details_keys: "k \<in> fst ` set (safe_details_loop m) \<Longrightarrow> k \<in> set safeDetailKeys \<and> k \<in> fst ` set m"
  by (induction m rule: safe_details_loop.induct) (auto split: if_splits)

lemma safe_details_strings:
  "(\<And>k v. (k, v) \<in> set m \<Longrightarrow> k \<in> set safeDetailKeys) \<Longrightarrow>
   safe_details_loop (map (\<lambda>(k, v). (k, DString v)) m) = m"
proof (induction m)
  case (Cons p m)
  obtain k v where p: "p = (k, v)" by (cases p)
  have "safe_details_loop (map (\<lambda>(k, v). (k, DString v)) m) = m"
    using Cons(2) by (intro Cons(1)) auto
  moreover have "k \<in> set safeDetailKeys" using Cons(2) [of k v] p by simp
  ultimately show ?case using p by simp
qed simp

lemma safeDetails_again: "safeDetails (as_details (safeDetails d)) = safeDetails d"
proof (cases "safe_details_loop d = []")
  case True
  then show ?thesis by (simp add: safeDetails_def as_details_def)
next
  case False
  have safe: "k \<in> set safeDetailKeys" if "(k, v) \<in> set (safe_details_loop d)" for k v
    using safe_details_keys [of k d] that by force
  from False have "d \<noteq> []" by auto
  with False safe_details_strings [OF safe] show ?thesis
    by (simp add: safeDetails_def as_details_def)
qed

text \<open>
  The wire contract: a code of the list has its own metadata; a details map that leaves the
  package holds only allowed keys; the problem document of a constructed error repeats its
  details unchanged, and its status is an HTTP error status.
\<close>

lemma metadata_codes: "metadata c \<noteq> None \<longleftrightarrow> c \<in> set codes"
  by (cases c) (simp_all add: codes_def)

lemma codes_distinct: "distinct codes"
  by (simp add: codes_def)

lemma status_range: "400 \<le> md_HTTPStatus (MetadataFor c) \<and> md_HTTPStatus (MetadataFor c) \<le> 504"
  by (cases c) (simp_all add: MetadataFor_def mk_metadata_def)

text \<open>
  What leaves the process in a problem document. Its details are the filtered details of
  the error, built once more from the stored texts without loss; they hold only the seven
  allowed keys, and only keys the caller supplied; an absent map stays absent and an empty
  one is never sent; the status is an HTTP error status and the retry flag is the one the
  code has in the table.
\<close>

lemma problem_redacted:
  "pb_Details (pr_Error (problem (New c corr d))) = safeDetails d
   \<and> (case safeDetails d of None \<Rightarrow> True
      | Some m \<Rightarrow> m \<noteq> [] \<and> fst ` set m \<subseteq> set safeDetailKeys \<inter> fst ` set d)
   \<and> pr_Status (problem (New c corr d)) \<in> {400..599}
   \<and> NonRetryable (Some (New c corr d)) = (\<not> pb_Retryable (pr_Error (problem (New c corr d))))"
proof -
  have details: "err_Details (New c corr d) = safeDetails d" by (simp add: New_def)
  have keys: "fst ` set m \<subseteq> set safeDetailKeys \<inter> fst ` set d" if "safeDetails d = Some m" for m
    using that safe_details_keys [of _ d] by (auto simp: safeDetails_def Let_def split: if_splits)
  have ne: "m \<noteq> []" if "safeDetails d = Some m" for m
    using that by (auto simp: safeDetails_def Let_def split: if_splits)
  from status_range [of c] details keys ne show ?thesis
    by (simp add: problem_def Let_def safeDetails_again NonRetryable_def split: option.split)
qed

end
