(* ===== verification/Aggregate.thy ===== *)
theory Aggregate
  imports Aor_Errors
begin

text \<open>
  How every aggregate of the program runs: a command is decided against the current state,
  giving an error or an event, and the event is applied to the state. The pattern is the one
  of \<open>conformanceProjectStep\<close> and \<open>conformanceTaskStep\<close> in \<open>internal/state/conformance.go\<close>.
\<close>

section \<open>Running commands and replaying events\<close>

type_synonym ('s, 'c, 'e) decider = "'s \<Rightarrow> 'c \<Rightarrow> aor_error + 'e"
type_synonym ('s, 'e) applier = "'s \<Rightarrow> 'e \<Rightarrow> string + 's"

definition aggregate_step ::
  "('s, 'c, 'e) decider \<Rightarrow> ('s, 'e) applier \<Rightarrow> 's \<Rightarrow> 'c \<Rightarrow> (go_error + 'e) \<times> 's" where
  \<comment> \<open>the outcome and the state afterwards; a rejected command leaves the state as it was\<close>
  "aggregate_step decide apply_ev current command =
     (case decide current command of
        Inl err \<Rightarrow> (Inl (GoAor err), current)
      | Inr event \<Rightarrow>
          (case apply_ev current event of
             Inl msg \<Rightarrow> (Inl (GoPlain msg), current)
           | Inr next_state \<Rightarrow> (Inr event, next_state)))"

fun run_commands ::
  "('s, 'c, 'e) decider \<Rightarrow> ('s, 'e) applier \<Rightarrow> 's \<Rightarrow> 'c list \<Rightarrow> 's \<times> 'e list" where
  "run_commands decide apply_ev s [] = (s, [])"
| "run_commands decide apply_ev s (c # cs) =
     (case aggregate_step decide apply_ev s c of
        (Inl err, s') \<Rightarrow> run_commands decide apply_ev s' cs
      | (Inr e, s') \<Rightarrow>
          (case run_commands decide apply_ev s' cs of (s'', es) \<Rightarrow> (s'', e # es)))"

fun replay :: "('s, 'e) applier \<Rightarrow> 's \<Rightarrow> 'e list \<Rightarrow> string + 's" where
  "replay apply_ev s [] = Inr s"
| "replay apply_ev s (e # es) =
     (case apply_ev s e of Inl msg \<Rightarrow> Inl msg | Inr s' \<Rightarrow> replay apply_ev s' es)"

text \<open>A history: the accepted commands, latest first, that lead from one state to another.\<close>

inductive history ::
  "('s, 'c, 'e) decider \<Rightarrow> ('s, 'e) applier \<Rightarrow> 's \<Rightarrow> 'c list \<Rightarrow> 's \<Rightarrow> bool"
  for decide apply_ev s0 where
  start: "history decide apply_ev s0 [] s0"
| step: "history decide apply_ev s0 cs s \<Longrightarrow> decide s c = Inr e \<Longrightarrow> apply_ev s e = Inr s' \<Longrightarrow>
     history decide apply_ev s0 (c # cs) s'"

inductive_cases history_NilE: "history decide apply_ev s0 [] s"
inductive_cases history_ConsE: "history decide apply_ev s0 (c # cs) s"

text \<open>The commands a run accepts, in order.\<close>

fun accepted ::
  "('s, 'c, 'e) decider \<Rightarrow> ('s, 'e) applier \<Rightarrow> 's \<Rightarrow> 'c list \<Rightarrow> 'c list" where
  "accepted decide apply_ev s [] = []"
| "accepted decide apply_ev s (c # cs) =
     (case aggregate_step decide apply_ev s c of
        (Inl err, s') \<Rightarrow> accepted decide apply_ev s' cs
      | (Inr e, s') \<Rightarrow> c # accepted decide apply_ev s' cs)"

lemma aggregate_step_accepts:
  "aggregate_step decide apply_ev s c = (Inr e, s') \<longleftrightarrow>
     decide s c = Inr e \<and> apply_ev s e = Inr s'"
  by (auto simp: aggregate_step_def split: sum.splits)

lemma aggregate_step_rejects:
  "aggregate_step decide apply_ev s c = (Inl err, s') \<Longrightarrow> s' = s"
  by (auto simp: aggregate_step_def split: sum.splits)

lemma history_app:
  "history decide apply_ev s1 cs2 s2 \<Longrightarrow> history decide apply_ev s0 cs1 s1 \<Longrightarrow>
     history decide apply_ev s0 (cs2 @ cs1) s2"
  by (induction rule: history.induct) (auto intro: history.intros)

lemma run_history:
  "history decide apply_ev s (rev (accepted decide apply_ev s cs)) (fst (run_commands decide apply_ev s cs))"
proof (induction cs arbitrary: s)
  case Nil
  show ?case by (simp add: history.start)
next
  case (Cons c cs)
  obtain r s' where step: "aggregate_step decide apply_ev s c = (r, s')" by force
  show ?case
  proof (cases r)
    case (Inl err)
    then show ?thesis using step Cons [of s] aggregate_step_rejects [of decide apply_ev s c err s'] by simp
  next
    case (Inr e)
    then have acc: "decide s c = Inr e" "apply_ev s e = Inr s'"
      using step aggregate_step_accepts [of decide apply_ev s c e s'] by simp_all
    have "history decide apply_ev s [c] s'" by (rule history.step) (rule history.start acc)+
    from history_app [OF Cons this] show ?thesis
      using step Inr by (auto split: prod.split)
  qed
qed

lemma history_invariant:
  assumes "history decide apply_ev s0 cs s" and "I [] s0"
    and "\<And>cs s c e s'. I cs s \<Longrightarrow> decide s c = Inr e \<Longrightarrow> apply_ev s e = Inr s' \<Longrightarrow> I (c # cs) s'"
  shows "I cs s"
  using assms by (induction rule: history.induct) blast+

lemma run_commands_count: "length (snd (run_commands decide apply_ev s cs)) \<le> length cs"
proof (induction cs arbitrary: s)
  case (Cons c cs)
  show ?case
    using Cons [of "snd (aggregate_step decide apply_ev s c)"] by (auto split: prod.splits sum.splits)
qed simp

lemma replay_last: "replay apply_ev s (es @ [e]) = Inr t \<longleftrightarrow> (\<exists>s'. replay apply_ev s es = Inr s' \<and> apply_ev s' e = Inr t)"
  by (induction es arbitrary: s) (auto split: sum.splits)

section \<open>The contract of an event-sourced aggregate\<close>

text \<open>
  An aggregate counts its events. An event is decided for the next version, is applied only
  to the version it was decided for, and its effect depends on nothing else of the state.
\<close>

locale event_sourced =
  fixes decide :: "('s, 'c, 'e) decider" and apply_ev :: "('s, 'e) applier"
    and ver :: "'s \<Rightarrow> int" and ev_ver :: "'e \<Rightarrow> int"
  assumes decide_ver: "decide s c = Inr e \<Longrightarrow> ev_ver e = add64 (ver s) 1"
    and apply_ver: "apply_ev s e = Inr s' \<Longrightarrow> ev_ver e = add64 (ver s) 1 \<and> ver s' = ev_ver e"
    and apply_same_ver: "apply_ev s e = Inr s' \<Longrightarrow> ver t = ver s \<Longrightarrow> apply_ev t e = Inr s'"
begin

lemma step_ver: "aggregate_step decide apply_ev s c = (Inr e, s') \<Longrightarrow> ver s' = add64 (ver s) 1"
  by (auto simp: aggregate_step_accepts dest: apply_ver)

lemma apply_twice_rejected: "apply_ev s e = Inr s' \<Longrightarrow> apply_ev s' e = Inr s'' \<Longrightarrow> False"
  using apply_ver [of s e s'] apply_ver [of s' e s''] by (metis add64_one_neq)

lemma stale_event_rejected:
  "decide s c = Inr e \<Longrightarrow> apply_ev t e = Inr t' \<Longrightarrow> add64 (ver t) 1 = add64 (ver s) 1"
  using decide_ver apply_ver by metis

lemma replay_run:
  "replay apply_ev s (snd (run_commands decide apply_ev s cs)) = Inr (fst (run_commands decide apply_ev s cs))"
proof (induction cs arbitrary: s)
  case (Cons c cs)
  obtain r s' where step: "aggregate_step decide apply_ev s c = (r, s')" by force
  show ?case
  proof (cases r)
    case (Inl err)
    then show ?thesis using step Cons [of s'] aggregate_step_rejects [of decide apply_ev s c err s'] by simp
  next
    case (Inr e)
    then have "apply_ev s e = Inr s'" using step aggregate_step_accepts [of decide apply_ev s c e s'] by simp
    then show ?thesis using step Inr Cons [of s'] by (auto split: prod.split)
  qed
qed simp

lemma run_versions:
  "map ev_ver (snd (run_commands decide apply_ev s cs))
     = map (\<lambda>k. wrap64 (ver s + int k + 1)) [0..<length (snd (run_commands decide apply_ev s cs))]"
proof (induction cs arbitrary: s)
  case (Cons c cs)
  obtain r s' where step: "aggregate_step decide apply_ev s c = (r, s')" by force
  show ?case
  proof (cases r)
    case (Inl err)
    then show ?thesis using step Cons [of s'] aggregate_step_rejects [of decide apply_ev s c err s'] by simp
  next
    case (Inr e)
    then have v: "ev_ver e = add64 (ver s) 1" "ver s' = add64 (ver s) 1"
      using step aggregate_step_accepts [of decide apply_ev s c e s'] apply_ver [of s e s'] by simp_all
    have shift: "wrap64 (ver s' + int k + 1) = wrap64 (ver s + int (Suc k) + 1)" for k
      using wrap64_add_left [of "ver s + 1" "int k + 1"] by (simp add: v(2) add64_def algebra_simps)
    obtain t es where rest: "run_commands decide apply_ev s' cs = (t, es)" by force
    have "map ev_ver es = map (\<lambda>k. wrap64 (ver s' + int k + 1)) [0..<length es]"
      using Cons [of s'] rest by simp
    moreover have "[0..<length (e # es)] = 0 # map Suc [0..<length es]"
      by (simp add: map_Suc_upt upt_conv_Cons del: upt_Suc)
    ultimately show ?thesis
      using step Inr rest v(1) shift by (simp add: add64_def comp_def del: upt_Suc)
  qed
qed simp

lemma replay_bounded:
  assumes "replay apply_ev s es = Inr t" and "\<And>e. e \<in> set es \<Longrightarrow> ev_ver e \<le> n" and "0 \<le> ver s" "ver s \<le> n" "n + 1 < 2 ^ 63"
  shows "int (length es) \<le> n - ver s"
  using assms
proof (induction es arbitrary: s)
  case (Cons e es)
  from Cons.prems(1) obtain s1 where e: "apply_ev s e = Inr s1" and rest: "replay apply_ev s1 es = Inr t"
    by (auto split: sum.splits)
  have "add64 (ver s) 1 = ver s + 1" using Cons.prems(3-5) by (simp add: add64_id int64_def)
  with apply_ver [OF e] have v: "ev_ver e = ver s + 1" "ver s1 = ver s + 1" by simp_all
  have "int (length es) \<le> n - ver s1"
    by (rule Cons.IH [OF rest]) (use Cons.prems(2) [of e] Cons.prems v in simp_all)
  with v show ?case by simp
qed simp

lemma replay_versions:
  assumes "replay apply_ev s es = Inr t" and "0 \<le> ver s" and "ver s + int (length es) < 2 ^ 63"
  shows "map ev_ver es = [ver s + 1..ver s + int (length es)] \<and> ver t = ver s + int (length es)"
  using assms
proof (induction es arbitrary: s)
  case (Cons e es)
  from Cons.prems(1) obtain s1 where e: "apply_ev s e = Inr s1" and rest: "replay apply_ev s1 es = Inr t"
    by (auto split: sum.splits)
  have "add64 (ver s) 1 = ver s + 1" using Cons.prems(2,3) by (simp add: add64_id int64_def)
  with apply_ver [OF e] have v: "ev_ver e = ver s + 1" "ver s1 = ver s + 1" by simp_all
  with Cons.IH [OF rest] Cons.prems(2,3)
  have "map ev_ver es = [ver s1 + 1..ver s1 + int (length es)] \<and> ver t = ver s1 + int (length es)" by simp
  moreover have "[ver s + 1..ver s + int (length (e # es))] = (ver s + 1) # [ver s1 + 1..ver s1 + int (length es)]"
    by (subst upto_rec1) (simp_all add: v algebra_simps)
  ultimately show ?case using v by simp
qed simp

lemma replay_prefix:
  assumes es: "replay apply_ev s es = Inr t" and fs: "replay apply_ev s fs = Inr u" and sub: "set fs \<subseteq> set es"
    and s: "0 \<le> ver s" and n: "ver s + int (length es) + 1 < 2 ^ 63"
  shows "fs = take (length fs) es"
proof -
  have ve: "map ev_ver es = [ver s + 1..ver s + int (length es)]" using replay_versions [OF es s] n by simp
  have "ev_ver f \<le> ver s + int (length es)" if "f \<in> set fs" for f
  proof -
    have "ev_ver f \<in> set (map ev_ver es)" using that sub by auto
    then show ?thesis unfolding ve by simp
  qed
  from replay_bounded [OF fs this s] n have len: "length fs \<le> length es" by simp
  with replay_versions [OF fs s] n have vf: "map ev_ver fs = [ver s + 1..ver s + int (length fs)]" by simp
  have at: "ev_ver (es ! i) = ver s + 1 + int i" if "i < length es" for i
    using that arg_cong [OF ve, of "\<lambda>l. l ! i"] by simp
  show ?thesis
  proof (rule nth_equalityI)
    show "length fs = length (take (length fs) es)" using len by simp
    fix i assume i: "i < length fs"
    then have "ev_ver (fs ! i) = ver s + 1 + int i" using arg_cong [OF vf, of "\<lambda>l. l ! i"] by simp
    moreover obtain j where j: "j < length es" "es ! j = fs ! i" using i sub by (metis in_set_conv_nth nth_mem subsetD)
    ultimately have "j = i" using at [of j] by simp
    with j i show "fs ! i = take (length fs) es ! i" by simp
  qed
qed

end

end
