(* ===== verification/Contract_Types.thy ===== *)
theory Contract_Types
  imports Go_Strings
begin

text \<open>
  The enumerations of \<open>pkg/contracts/types.go\<close> and \<open>audit_results.go\<close> and the references the
  state machines use. An enumeration is a string type with named constants: one constructor
  per constant, and a last one for a string that is none of them (the zero value of the type
  is the last one at the empty string).
\<close>

section \<open>Enumerations\<close>

datatype ProjectState =
    ProjectCreated
  | ProjectGoalNegotiating
  | ProjectGoalSuspended
  | ProjectPlanning
  | ProjectExecuting
  | ProjectIntegrating
  | ProjectGlobalAudit
  | ProjectBlockedUserDecision
  | ProjectPaused
  | ProjectCompleted
  | ProjectAborted
  | ProjectFailedSystem
  | ProjectArchived
  | ProjectStateOther string

primrec projectState_string :: "ProjectState \<Rightarrow> string" where
  "projectState_string ProjectCreated = ''CREATED''"
| "projectState_string ProjectGoalNegotiating = ''GOAL_NEGOTIATING''"
| "projectState_string ProjectGoalSuspended = ''GOAL_SUSPENDED''"
| "projectState_string ProjectPlanning = ''PLANNING''"
| "projectState_string ProjectExecuting = ''EXECUTING''"
| "projectState_string ProjectIntegrating = ''INTEGRATING''"
| "projectState_string ProjectGlobalAudit = ''GLOBAL_AUDIT''"
| "projectState_string ProjectBlockedUserDecision = ''BLOCKED_USER_DECISION''"
| "projectState_string ProjectPaused = ''PAUSED''"
| "projectState_string ProjectCompleted = ''COMPLETED''"
| "projectState_string ProjectAborted = ''ABORTED''"
| "projectState_string ProjectFailedSystem = ''FAILED_SYSTEM''"
| "projectState_string ProjectArchived = ''ARCHIVED''"
| "projectState_string (ProjectStateOther s) = s"

datatype ModuleTaskState =
    TaskDefined
  | TaskQueuedPlanning
  | TaskPlanning
  | TaskReadyExecution
  | TaskQueuedExecution
  | TaskExecuting
  | TaskSubmitted
  | TaskDeterministicAudit
  | TaskLLMAudit
  | TaskReworkRequired
  | TaskBlockedDependency
  | TaskBlockedUserDecision
  | TaskPassed
  | TaskIntegrated
  | TaskCanceled
  | TaskSuperseded
  | TaskStateOther string

primrec moduleTaskState_string :: "ModuleTaskState \<Rightarrow> string" where
  "moduleTaskState_string TaskDefined = ''DEFINED''"
| "moduleTaskState_string TaskQueuedPlanning = ''QUEUED_PLANNING''"
| "moduleTaskState_string TaskPlanning = ''PLANNING''"
| "moduleTaskState_string TaskReadyExecution = ''READY_EXECUTION''"
| "moduleTaskState_string TaskQueuedExecution = ''QUEUED_EXECUTION''"
| "moduleTaskState_string TaskExecuting = ''EXECUTING''"
| "moduleTaskState_string TaskSubmitted = ''SUBMITTED''"
| "moduleTaskState_string TaskDeterministicAudit = ''DETERMINISTIC_AUDIT''"
| "moduleTaskState_string TaskLLMAudit = ''LLM_AUDIT''"
| "moduleTaskState_string TaskReworkRequired = ''REWORK_REQUIRED''"
| "moduleTaskState_string TaskBlockedDependency = ''BLOCKED_DEPENDENCY''"
| "moduleTaskState_string TaskBlockedUserDecision = ''BLOCKED_USER_DECISION''"
| "moduleTaskState_string TaskPassed = ''PASSED''"
| "moduleTaskState_string TaskIntegrated = ''INTEGRATED''"
| "moduleTaskState_string TaskCanceled = ''CANCELED''"
| "moduleTaskState_string TaskSuperseded = ''SUPERSEDED''"
| "moduleTaskState_string (TaskStateOther s) = s"

datatype GoalStatus =
    GoalDraft
  | GoalApproved
  | GoalSuperseded
  | GoalRejected
  | GoalStatusOther string

datatype RiskTolerance =
    RiskLow
  | RiskMedium
  | RiskHigh
  | RiskToleranceOther string

datatype DataClassification =
    DataPublic
  | DataInternal
  | DataConfidential
  | DataRestricted
  | DataClassificationOther string

datatype ExecutionPlatform =
    PlatformLinux
  | PlatformWindows
  | ExecutionPlatformOther string

primrec executionPlatform_string :: "ExecutionPlatform \<Rightarrow> string" where
  "executionPlatform_string PlatformLinux = ''LINUX''"
| "executionPlatform_string PlatformWindows = ''WINDOWS''"
| "executionPlatform_string (ExecutionPlatformOther s) = s"

datatype ToolchainSource =
    ToolchainInstalled
  | ToolchainInstallRequired
  | ToolchainSourceOther string

datatype ToolchainInstallMethod =
    ToolchainInstallManual
  | ToolchainInstallUserArchive
  | ToolchainInstallCrosstoolNGArchive
  | ToolchainInstallMethodOther string

datatype ToolchainKind =
    ToolchainCompiler
  | ToolchainRuntime
  | ToolchainSDK
  | ToolchainBuild
  | ToolchainInterop
  | ToolchainTest
  | ToolchainKindOther string

primrec toolchainKind_string :: "ToolchainKind \<Rightarrow> string" where
  "toolchainKind_string ToolchainCompiler = ''COMPILER''"
| "toolchainKind_string ToolchainRuntime = ''RUNTIME''"
| "toolchainKind_string ToolchainSDK = ''SDK''"
| "toolchainKind_string ToolchainBuild = ''BUILD''"
| "toolchainKind_string ToolchainInterop = ''INTEROP''"
| "toolchainKind_string ToolchainTest = ''TEST''"
| "toolchainKind_string (ToolchainKindOther s) = s"

datatype IsolationLevel =
    IsolationContainer
  | IsolationNone
  | IsolationLevelOther string

datatype NetworkMode =
    NetworkDenyAll
  | NetworkAllowlist
  | NetworkUnrestricted
  | NetworkModeOther string

datatype WorkloadTrust =
    WorkloadTrusted
  | WorkloadUntrusted
  | WorkloadTrustOther string

datatype FindingSeverity =
    FindingInfo
  | FindingLow
  | FindingMedium
  | FindingHigh
  | FindingCritical
  | FindingSeverityOther string

datatype FindingStatus =
    FindingOpen
  | FindingFixed
  | FindingAccepted
  | FindingFalsePositive
  | FindingStatusOther string

datatype CriterionStatus =
    CriterionPass
  | CriterionFail
  | CriterionNotTested
  | CriterionStatusOther string

datatype UserDecision =
    DecisionAbortProject
  | DecisionAbortModule
  | DecisionReviseGoal
  | DecisionReviseModuleSpec
  | DecisionHandOffToHuman
  | DecisionAuthorizeNewAttemptSeries
  | DecisionOther string

primrec decision_string :: "UserDecision \<Rightarrow> string" where
  "decision_string DecisionAbortProject = ''ABORT_PROJECT''"
| "decision_string DecisionAbortModule = ''ABORT_MODULE''"
| "decision_string DecisionReviseGoal = ''REVISE_GOAL''"
| "decision_string DecisionReviseModuleSpec = ''REVISE_MODULE_SPEC''"
| "decision_string DecisionHandOffToHuman = ''HAND_OFF_TO_HUMAN''"
| "decision_string DecisionAuthorizeNewAttemptSeries = ''AUTHORIZE_NEW_ATTEMPT_SERIES''"
| "decision_string (DecisionOther s) = s"

section \<open>References\<close>

record SpecRef =
  sr_Version :: int
  sr_SHA256 :: string

text \<open>A check of the source returns an \<open>error\<close>: \<open>None\<close> is nil, \<open>Some\<close> carries the message.\<close>

type_synonym check = "string option"

text \<open>
  The regular expressions \<open>^sha256:[0-9a-f]{64}$\<close>, \<open>^[0-9a-f]{40}$\<close> and
  \<open>^[0-9]+\.[0-9]+\.[0-9]+$\<close>; without the multi-line flag \<open>$\<close> is the end of the text.
\<close>

definition digest_pattern :: "string \<Rightarrow> bool" where
  "digest_pattern s \<longleftrightarrow>
     has_prefix s ''sha256:'' \<and> length s = 71 \<and> list_all is_lower_hex (drop 7 s)"

definition commit_pattern :: "string \<Rightarrow> bool" where
  "commit_pattern s \<longleftrightarrow> length s = 40 \<and> list_all is_lower_hex s"

definition pipeline_version_pattern :: "string \<Rightarrow> bool" where
  "pipeline_version_pattern s \<longleftrightarrow>
     (let ps = split_byte (CHR ''.'') s
      in length ps = 3 \<and> list_all (\<lambda>p. p \<noteq> [] \<and> list_all is_digit p) ps)"

definition validateDigest :: "string \<Rightarrow> check" where
  "validateDigest value =
     (if \<not> digest_pattern value then Some ''invalid sha256 digest'' else None)"

definition validateCommit :: "string \<Rightarrow> check" where
  "validateCommit value =
     (if \<not> commit_pattern value then Some ''commit must be 40 lowercase hexadecimal characters''
      else None)"

definition SpecRef_Validate :: "SpecRef \<Rightarrow> check" where
  "SpecRef_Validate r =
     (if sr_Version r < 1 then Some ''spec version must be positive''
      else validateDigest (sr_SHA256 r))"

definition zero_SpecRef :: SpecRef where
  "zero_SpecRef = \<lparr>sr_Version = 0, sr_SHA256 = []\<rparr>"

text \<open>\<open>validDigest\<close> of \<open>internal/state/project.go\<close>, the check both state machines use.\<close>

definition validDigest :: "string \<Rightarrow> bool" where
  "validDigest value \<longleftrightarrow> SpecRef_Validate \<lparr>sr_Version = 1, sr_SHA256 = value\<rparr> = None"

lemma validateDigest_iff: "validateDigest s = None \<longleftrightarrow> digest_pattern s"
  by (simp add: validateDigest_def)

lemma validDigest_iff: "validDigest s \<longleftrightarrow> digest_pattern s"
  by (simp add: validDigest_def SpecRef_Validate_def validateDigest_iff)

lemma SpecRef_Validate_iff:
  "SpecRef_Validate r = None \<longleftrightarrow> 1 \<le> sr_Version r \<and> digest_pattern (sr_SHA256 r)"
  by (simp add: SpecRef_Validate_def validateDigest_iff)

lemma digest_pattern_Nil [simp]: "\<not> digest_pattern []"
  by (simp add: digest_pattern_def)

lemma zero_SpecRef_invalid [simp]: "SpecRef_Validate zero_SpecRef \<noteq> None"
  by (simp add: SpecRef_Validate_def zero_SpecRef_def)

lemma digest_artifact: "digest_pattern s \<Longrightarrow> s = ''sha256:'' @ drop 7 s"
  by (auto simp: digest_pattern_def has_prefix_iff)

text \<open>A digest used in the examples of the development.\<close>

definition zero_digest :: string where
  "zero_digest = ''sha256:0000000000000000000000000000000000000000000000000000000000000000''"

lemma digest_pattern_zero [simp]: "digest_pattern zero_digest"
  by (simp add: digest_pattern_def zero_digest_def has_prefix_def is_lower_hex_def)

end
