(* ===== verification/Approval.thy ===== *)
theory Approval
  imports Contract_Types
begin

text \<open>
  A recorded human approval and when it binds: \<open>internal/state/approval.go\<close>.
\<close>

record ApprovalBinding =
  ab_RecordID :: string
  ab_ApprovalType :: string
  ab_SubjectType :: string
  ab_SubjectID :: string
  ab_SubjectVersion :: int
  ab_SubjectSHA256 :: string
  ab_PrincipalID :: string
  ab_Reason :: string
  ab_IssuedAt :: time
  ab_ExpiresAt :: "time option"
  ab_RevokedAt :: "time option"
  ab_Signature :: string

definition validAt ::
  "ApprovalBinding \<Rightarrow> time \<Rightarrow> string \<Rightarrow> string \<Rightarrow> string \<Rightarrow> string \<Rightarrow> int \<Rightarrow> string \<Rightarrow> bool" where
  "validAt a now actorID approvalType subjectType subjectID subjectVersion subjectSHA256 =
     (if ab_RecordID a = [] \<or> ab_ApprovalType a \<noteq> approvalType \<or> ab_SubjectType a \<noteq> subjectType
         \<or> ab_SubjectID a \<noteq> subjectID \<or> ab_SubjectVersion a \<noteq> subjectVersion
         \<or> ab_SubjectSHA256 a \<noteq> subjectSHA256 then False
      else if ab_PrincipalID a = [] \<or> ab_PrincipalID a \<noteq> actorID \<or> ab_Reason a = []
         \<or> ab_Signature a = [] \<or> is_zero_time (ab_IssuedAt a) \<or> ab_IssuedAt a > now
         \<or> ab_RevokedAt a \<noteq> None then False
      else if (case ab_ExpiresAt a of None \<Rightarrow> False | Some e \<Rightarrow> \<not> e > now) then False
      else SpecRef_Validate \<lparr>sr_Version = ab_SubjectVersion a, sr_SHA256 = ab_SubjectSHA256 a\<rparr> = None)"

text \<open>What a valid approval fixes, in one place for the proofs that need it.\<close>

definition approval_window :: "ApprovalBinding \<Rightarrow> time \<Rightarrow> bool" where
  "approval_window a now \<longleftrightarrow>
     ab_IssuedAt a \<noteq> 0 \<and> ab_IssuedAt a \<le> now \<and> ab_RevokedAt a = None
     \<and> (case ab_ExpiresAt a of None \<Rightarrow> True | Some e \<Rightarrow> now < e)"

lemma validAt_iff:
  "validAt a now actor atype stype sid sver sha \<longleftrightarrow>
     ab_RecordID a \<noteq> [] \<and> ab_ApprovalType a = atype \<and> ab_SubjectType a = stype
     \<and> ab_SubjectID a = sid \<and> ab_SubjectVersion a = sver \<and> ab_SubjectSHA256 a = sha
     \<and> ab_PrincipalID a = actor \<and> actor \<noteq> [] \<and> ab_Reason a \<noteq> [] \<and> ab_Signature a \<noteq> []
     \<and> approval_window a now \<and> 1 \<le> sver \<and> digest_pattern sha"
  by (auto simp: validAt_def approval_window_def SpecRef_Validate_iff is_zero_time_def
      split: option.splits)

lemma validAt_unique_subject:
  "validAt a t x ty st sid sv sh \<Longrightarrow> validAt a t' x' ty' st' sid' sv' sh' \<Longrightarrow>
     ty = ty' \<and> st = st' \<and> sid = sid' \<and> sv = sv' \<and> sh = sh' \<and> x = x'"
  by (simp add: validAt_iff)

end
