(* ===== verification/Dag.thy ===== *)
theory Dag
  imports Go_Prelude
begin

text \<open>
  The dependency check of a plan: \<open>ValidateDAG\<close> of \<open>internal/state/project.go\<close>, which
  \<open>PlanSpec.Validate\<close> of \<open>pkg/contracts/types.go\<close> repeats on its modules. Both count the
  dependencies of every node, then remove nodes without open dependencies (Kahn's algorithm).
  A graph is a Go map from a node to the list of its dependencies. Every \<open>range\<close> over a map
  may visit it in another order, so the order of the second one is an argument.
\<close>

section \<open>The algorithm\<close>

definition count_of :: "('a, int) gomap \<Rightarrow> 'a \<Rightarrow> int" where
  \<comment> \<open>an \<open>int\<close> map read at an absent key gives 0\<close>
  "count_of m k = (case map_of m k of None \<Rightarrow> 0 | Some v \<Rightarrow> v)"

definition list_of :: "('a, 'a list) gomap \<Rightarrow> 'a \<Rightarrow> 'a list" where
  \<comment> \<open>a slice map read at an absent key gives the nil slice\<close>
  "list_of m k = (case map_of m k of None \<Rightarrow> [] | Some v \<Rightarrow> v)"

type_synonym 'a dag_state = "('a, int) gomap \<times> ('a, 'a list) gomap"

fun dag_dependencies ::
  "('a \<Rightarrow> bool) \<Rightarrow> 'a \<Rightarrow> 'a list \<Rightarrow> 'a list \<Rightarrow> 'a dag_state \<Rightarrow> 'a dag_state option" where
  "dag_dependencies known node seen [] st = Some st"
| "dag_dependencies known node seen (d # ds) (indegree, rvs) =
     (if d = node \<or> d \<in> set seen then None
      else if \<not> known d then None
      else dag_dependencies known node (d # seen) ds
             (gomap_put node (count_of indegree node + 1) indegree,
              gomap_put d (list_of rvs d @ [node]) rvs))"

fun dag_nodes :: "('a \<Rightarrow> bool) \<Rightarrow> ('a \<times> 'a list) list \<Rightarrow> 'a dag_state \<Rightarrow> 'a dag_state option" where
  "dag_nodes known [] st = Some st"
| "dag_nodes known ((node, dependencies) # rest) st =
     (case dag_dependencies known node [] dependencies st of
        None \<Rightarrow> None
      | Some st' \<Rightarrow> dag_nodes known rest st')"

fun kahn_relax :: "'a list \<Rightarrow> ('a, int) gomap \<Rightarrow> ('a, int) gomap \<times> 'a list" where
  \<comment> \<open>the inner loop: the new counts, and the dependents that join the queue\<close>
  "kahn_relax [] indegree = (indegree, [])"
| "kahn_relax (d # ds) indegree =
     (let indegree1 = gomap_put d (count_of indegree d - 1) indegree;
          (indegree2, queue) = kahn_relax ds indegree1
      in (indegree2, (if count_of indegree1 d = 0 then d # queue else queue)))"

definition open_entries :: "('a, int) gomap \<Rightarrow> nat" where
  "open_entries m = length (filter (\<lambda>p. 0 < snd p) m)"

lemma open_entries_dec:
  "open_entries (gomap_put d (count_of m d - 1) m) + (if count_of m d = 1 then 1 else 0)
     \<le> open_entries m"
proof (induction m)
  case Nil
  show ?case by (simp add: open_entries_def gomap_put_def count_of_def)
next
  case (Cons p m)
  obtain k v where p: "p = (k, v)" by (cases p)
  from Cons show ?case
    by (cases "k = d") (auto simp: p open_entries_def gomap_put_def count_of_def split: if_splits)
qed

lemma kahn_relax_measure:
  "kahn_relax ds m = (m', queue) \<Longrightarrow> length queue + open_entries m' \<le> open_entries m"
proof (induction ds arbitrary: m m' queue)
  case (Cons d ds)
  let ?m1 = "gomap_put d (count_of m d - 1) m"
  obtain m2 q2 where rec: "kahn_relax ds ?m1 = (m2, q2)" by force
  have "count_of ?m1 d = count_of m d - 1" by (simp add: count_of_def)
  with Cons.prems rec have "m' = m2" "queue = (if count_of m d = 1 then d # q2 else q2)"
    by (simp_all add: Let_def)
  with Cons.IH [OF rec] open_entries_dec [of d m] show ?case by (auto split: if_splits)
qed simp

function kahn :: "('a, 'a list) gomap \<Rightarrow> ('a, int) gomap \<Rightarrow> 'a list \<Rightarrow> int \<Rightarrow> int" where
  "kahn rvs indegree [] visited = visited"
| "kahn rvs indegree (node # queue) visited =
     (case kahn_relax (list_of rvs node) indegree of
        (indegree', new) \<Rightarrow> kahn rvs indegree' (queue @ new) (visited + 1))"
  by pat_completeness auto
termination
  by (relation "measure (\<lambda>(rvs, indegree, queue, visited). length queue + open_entries indegree)")
    (auto dest: kahn_relax_measure [OF sym])

definition ValidateDAG_order :: "'a list \<Rightarrow> ('a, 'a list) gomap \<Rightarrow> bool" where
  \<comment> \<open>\<open>order\<close>: the order in which \<open>range indegree\<close> visits its keys\<close>
  "ValidateDAG_order order graph =
     (if length graph = 0 then False
      else (case dag_nodes (gomap_has graph) graph (map (\<lambda>p. (fst p, 0)) graph, []) of
              None \<Rightarrow> False
            | Some (indegree, rvs) \<Rightarrow>
                kahn rvs indegree (filter (\<lambda>n. count_of indegree n = 0) order) 0
                  = int (length graph)))"

definition ValidateDAG :: "('a, 'a list) gomap \<Rightarrow> bool" where
  "ValidateDAG graph = ValidateDAG_order (map fst graph) graph"

section \<open>The specification\<close>

definition dag_spec :: "('a, 'a list) gomap \<Rightarrow> bool" where
  "dag_spec g \<longleftrightarrow>
     g \<noteq> []
     \<and> (\<forall>(n, ds) \<in> set g. distinct ds \<and> n \<notin> set ds \<and> set ds \<subseteq> fst ` set g)
     \<and> acyclic {(d, n). d \<in> set (list_of g n)}"

section \<open>Counting\<close>

lemma count_of_put: "count_of (gomap_put k v m) x = (if x = k then v else count_of m x)"
  by (simp add: count_of_def amap.look_store)

lemma list_of_put: "list_of (gomap_put k v m) x = (if x = k then v else list_of m x)"
  by (simp add: list_of_def amap.look_store)

lemma dag_dependencies_None:
  "dag_dependencies known node seen ds (ind, rvs) = None \<longleftrightarrow>
     \<not> (distinct ds \<and> node \<notin> set ds \<and> set ds \<inter> set seen = {} \<and> (\<forall>d \<in> set ds. known d))"
  by (induction ds arbitrary: seen ind rvs) auto

lemma dag_dependencies_Some:
  "dag_dependencies known node seen ds (ind, rvs) = Some (ind', rvs') \<Longrightarrow>
     count_of ind' x = count_of ind x + (if x = node then int (length ds) else 0)
     \<and> list_of rvs' d = list_of rvs d @ (if d \<in> set ds then [node] else [])"
proof (induction ds arbitrary: seen ind rvs)
  case (Cons a ds)
  from Cons.prems have ok: "a \<noteq> node" "a \<notin> set seen"
    and step: "dag_dependencies known node (a # seen) ds
       (gomap_put node (count_of ind node + 1) ind, gomap_put a (list_of rvs a @ [node]) rvs)
       = Some (ind', rvs')"
    by (auto split: if_splits)
  from step have "a \<notin> set ds"
    using dag_dependencies_None [of known node "a # seen" ds] by fastforce
  with Cons.IH [OF step] show ?case by (auto simp: count_of_put list_of_put)
qed simp

lemma dag_nodes_None:
  "dag_nodes known ns st = None \<longleftrightarrow>
     \<not> (\<forall>(n, ds) \<in> set ns. distinct ds \<and> n \<notin> set ds \<and> (\<forall>d \<in> set ds. known d))"
proof (induction ns arbitrary: st)
  case (Cons p ns)
  obtain n ds where p: "p = (n, ds)" by (cases p)
  obtain ind rvs where st: "st = (ind, rvs)" by (cases st)
  show ?case
  proof (cases "dag_dependencies known n [] ds st")
    case None
    then show ?thesis using dag_dependencies_None [of known n "[]" ds ind rvs] by (auto simp: p st)
  next
    case (Some st')
    then show ?thesis
      using Cons.IH dag_dependencies_None [of known n "[]" ds ind rvs] by (auto simp: p st)
  qed
qed simp

lemma dag_nodes_Some:
  "dag_nodes known ns (ind, rvs) = Some (ind', rvs') \<Longrightarrow> distinct (map fst ns) \<Longrightarrow>
     count_of ind' x = count_of ind x + int (length (list_of ns x))
     \<and> list_of rvs' d = list_of rvs d @ map fst (filter (\<lambda>(n, ds). d \<in> set ds) ns)"
proof (induction ns arbitrary: ind rvs)
  case (Cons p ns)
  obtain n ds where p: "p = (n, ds)" by (cases p)
  from Cons.prems obtain ind1 rvs1
    where one: "dag_dependencies known n [] ds (ind, rvs) = Some (ind1, rvs1)"
      and rest: "dag_nodes known ns (ind1, rvs1) = Some (ind', rvs')"
    by (auto simp: p split: option.splits)
  have "n \<notin> fst ` set ns" using Cons.prems(2) p by simp
  then have "list_of ns n = []" by (metis list_of_def map_of_eq_None_iff option.simps(4))
  with Cons.IH [OF rest] Cons.prems(2) dag_dependencies_Some [OF one, of x d] show ?case
    by (auto simp: p list_of_def)
qed (simp add: list_of_def)

lemma kahn_relax_spec:
  "distinct ds \<Longrightarrow> kahn_relax ds m = (m', queue) \<Longrightarrow>
     queue = filter (\<lambda>d. count_of m d = 1) ds
     \<and> (\<forall>x. count_of m' x = count_of m x - (if x \<in> set ds then 1 else 0))"
proof (induction ds arbitrary: m m' queue)
  case (Cons d ds)
  let ?m1 = "gomap_put d (count_of m d - 1) m"
  obtain m2 q2 where rec: "kahn_relax ds ?m1 = (m2, q2)" by force
  from Cons.prems have "d \<notin> set ds" "distinct ds" by simp_all
  with Cons.IH [OF _ rec] have q2: "q2 = filter (\<lambda>x. count_of m x = 1) ds"
    and m2: "\<And>x. count_of m2 x = count_of ?m1 x - (if x \<in> set ds then 1 else 0)"
    by (auto simp: count_of_put intro!: filter_cong)
  from Cons.prems(2) rec have "m' = m2" "queue = (if count_of ?m1 d = 0 then d # q2 else q2)"
    by (simp_all add: Let_def)
  then have "queue = filter (\<lambda>x. count_of m x = 1) (d # ds)" using q2 by (simp add: count_of_put)
  moreover have "count_of m' x = count_of m x - (if x \<in> set (d # ds) then 1 else 0)" for x
    using \<open>m' = m2\<close> m2 [of x] \<open>d \<notin> set ds\<close> by (cases "x = d") (simp_all add: count_of_put)
  ultimately show ?case by blast
qed simp

section \<open>Correctness\<close>

text \<open>A list in which every node comes after (to the left of) its dependencies.\<close>

fun dep_order :: "('a \<Rightarrow> 'a list) \<Rightarrow> 'a list \<Rightarrow> bool" where
  "dep_order deps [] = True"
| "dep_order deps (n # ps) = (n \<notin> set ps \<and> set (deps n) \<subseteq> set ps \<and> dep_order deps ps)"

lemma dep_order_wf: "dep_order deps ps \<Longrightarrow> wf {(d, n). n \<in> set ps \<and> d \<in> set (deps n)}"
proof (induction ps)
  case (Cons n ps)
  let ?R = "{(d, k). k \<in> set ps \<and> d \<in> set (deps k)}" and ?S = "set (deps n) \<times> {n}"
  have closed: "dep_order deps qs \<Longrightarrow> k \<in> set qs \<Longrightarrow> set (deps k) \<subseteq> set qs" for k qs
    by (induction qs) auto
  from Cons.prems have n: "n \<notin> set ps" "set (deps n) \<subseteq> set ps" and ord: "dep_order deps ps" by simp_all
  have "?S \<subseteq> measure (\<lambda>x. if x = n then 1 else 0)" using n by auto
  then have "wf ?S" by (rule wf_subset [OF wf_measure])
  moreover have "wf ?R" using Cons.IH ord by simp
  moreover have "Domain ?R \<inter> Range ?S = {}"
  proof -
    have "Domain ?R \<subseteq> set ps" using closed [OF ord] by (auto dest: subsetD)
    moreover have "Range ?S \<subseteq> {n}" by auto
    ultimately show ?thesis using n(1) by auto
  qed
  ultimately have "wf (?R \<union> ?S)" using wf_Un [of ?R ?S] by simp
  moreover have "{(d, k). k \<in> set (n # ps) \<and> d \<in> set (deps k)} = ?R \<union> ?S" by auto
  ultimately show ?case by simp
qed simp

text \<open>The loop invariant: \<open>P\<close> has been visited, \<open>Q\<close> is the queue, \<open>m\<close> counts what is open.\<close>

definition kahn_inv :: "'a set \<Rightarrow> ('a \<Rightarrow> 'a list) \<Rightarrow> 'a list \<Rightarrow> 'a list \<Rightarrow> ('a, int) gomap \<Rightarrow> bool" where
  "kahn_inv V deps P Q m \<longleftrightarrow>
     dep_order deps P \<and> distinct (P @ Q) \<and> set (P @ Q) \<subseteq> V
     \<and> (\<forall>x \<in> V. count_of m x = int (card (set (deps x) - set P)))
     \<and> (\<forall>x \<in> V. x \<in> set (P @ Q) \<longleftrightarrow> count_of m x = 0)"

lemma kahn_inv_step:
  assumes inv: "kahn_inv V deps P (n # Q) m"
    and rv: "distinct ds" "set ds = {x \<in> V. n \<in> set (deps x)}"
    and relax: "kahn_relax ds m = (m', new)"
  shows "kahn_inv V deps (n # P) (Q @ new) m'"
proof -
  from inv have ord: "dep_order deps P" and dist: "distinct (P @ n # Q)" and sub: "set (P @ n # Q) \<subseteq> V"
    and cnt: "\<And>x. x \<in> V \<Longrightarrow> count_of m x = int (card (set (deps x) - set P))"
    and zero: "\<And>x. x \<in> V \<Longrightarrow> x \<in> set (P @ n # Q) \<longleftrightarrow> count_of m x = 0"
    by (auto simp: kahn_inv_def)
  from kahn_relax_spec [OF rv(1) relax] have new: "new = filter (\<lambda>x. count_of m x = 1) ds"
    and m': "\<And>x. count_of m' x = count_of m x - (if x \<in> set ds then 1 else 0)" by auto
  have "n \<in> V" "n \<notin> set P" using sub dist by auto
  have "count_of m n = 0" using zero [OF \<open>n \<in> V\<close>] by simp
  with cnt [OF \<open>n \<in> V\<close>] have deps_n: "set (deps n) \<subseteq> set P" by simp
  have cnt': "count_of m' x = int (card (set (deps x) - set (n # P)))" if "x \<in> V" for x
  proof (cases "n \<in> set (deps x)")
    case True
    then have "n \<in> set (deps x) - set P" using \<open>n \<notin> set P\<close> by simp
    moreover have "set (deps x) - set (n # P) = set (deps x) - set P - {n}" by auto
    moreover have "0 < card (set (deps x) - set P)" using calculation(1) by (auto simp: card_gt_0_iff)
    ultimately show ?thesis using m' [of x] cnt [OF that] rv(2) that True
      by (simp add: card_Diff_singleton)
  next
    case False
    then have "set (deps x) - set (n # P) = set (deps x) - set P" by auto
    then show ?thesis using m' [of x] cnt [OF that] rv(2) False by simp
  qed
  have new_iff: "x \<in> set new \<longleftrightarrow> x \<in> V \<and> n \<in> set (deps x) \<and> count_of m x = 1" for x
    using new rv(2) by auto
  have "distinct new" using new rv(1) by simp
  moreover have "set new \<inter> set (P @ n # Q) = {}" using new_iff zero by fastforce
  ultimately have "distinct ((n # P) @ Q @ new)" using dist by auto
  moreover have "x \<in> set ((n # P) @ Q @ new) \<longleftrightarrow> count_of m' x = 0" if "x \<in> V" for x
    using zero [OF that] new_iff [of x] m' [of x] rv(2) that cnt' [OF that] by auto
  moreover have "set ((n # P) @ Q @ new) \<subseteq> V" using sub new_iff by auto
  moreover have "dep_order deps (n # P)" using deps_n ord \<open>n \<notin> set P\<close> by simp
  ultimately have "dep_order deps (n # P) \<and> distinct ((n # P) @ Q @ new) \<and> set ((n # P) @ Q @ new) \<subseteq> V
      \<and> (\<forall>x \<in> V. count_of m' x = int (card (set (deps x) - set (n # P))))
      \<and> (\<forall>x \<in> V. x \<in> set ((n # P) @ Q @ new) \<longleftrightarrow> count_of m' x = 0)"
    using cnt' by (intro conjI ballI) assumption+
  then show ?thesis by (rule kahn_inv_def [THEN iffD2])
qed

lemma kahn_result:
  assumes "kahn_inv V deps P Q m"
    and "\<And>n. n \<in> V \<Longrightarrow> distinct (list_of rvs n) \<and> set (list_of rvs n) = {x \<in> V. n \<in> set (deps x)}"
  shows "\<exists>P' m'. kahn rvs m Q (int (length P)) = int (length P') \<and> kahn_inv V deps P' [] m'"
  using assms
proof (induction rvs m Q "int (length P)" arbitrary: P rule: kahn.induct)
  case (1 rvs m)
  then show ?case by auto
next
  case (2 rvs m n Q)
  obtain m' new where relax: "kahn_relax (list_of rvs n) m = (m', new)" by force
  have "n \<in> V" using 2(2) by (simp add: kahn_inv_def)
  with 2(3) have rv: "distinct (list_of rvs n)" "set (list_of rvs n) = {x \<in> V. n \<in> set (deps x)}"
    by auto
  have "kahn_inv V deps (n # P) (Q @ new) m'" by (rule kahn_inv_step [OF 2(2) rv relax])
  from 2(1) [OF relax [symmetric] _ this 2(3)] relax show ?case by (simp add: add.commute)
qed

lemma kahn_inv_done:
  assumes inv: "kahn_inv V deps P [] m" and fin: "finite V"
    and closed: "\<And>x. x \<in> V \<Longrightarrow> set (deps x) \<subseteq> V" and out: "\<And>x. x \<notin> V \<Longrightarrow> deps x = []"
  shows "length P = card V \<longleftrightarrow> acyclic {(d, n). d \<in> set (deps n)}"
proof
  from inv have P: "dep_order deps P" "distinct P" "set P \<subseteq> V" by (simp_all add: kahn_inv_def)
  {
    assume "length P = card V"
    then have "set P = V" using P fin by (metis card_subset_eq distinct_card)
    moreover have "{(d, n). d \<in> set (deps n)} = {(d, n). n \<in> V \<and> d \<in> set (deps n)}"
      using out by force
    ultimately show "acyclic {(d, n). d \<in> set (deps n)}"
      using wf_acyclic [OF dep_order_wf [OF P(1)]] by simp
  next
    assume acyc: "acyclic {(d, n). d \<in> set (deps n)}"
    let ?E = "{(d, n). d \<in> set (deps n)}"
    have "?E \<subseteq> V \<times> V" using closed out by force
    then have "finite ?E" using fin by (metis finite_SigmaI finite_subset)
    then have wf: "wf ?E" using acyc by (rule finite_acyclic_wf)
    have "x \<in> V \<Longrightarrow> x \<in> set P" for x
    proof (induction x rule: wf_induct_rule [OF wf])
      case (1 x)
      then have "set (deps x) \<subseteq> set P" using closed by blast
      then have "count_of m x = 0" using inv 1(2) by (simp add: kahn_inv_def)
      then show ?case using inv 1(2) by (simp add: kahn_inv_def)
    qed
    with P have "set P = V" by blast
    then show "length P = card V" using P(2) distinct_card by fastforce
  }
qed

lemma list_of_cases: "list_of g x = [] \<or> (x, list_of g x) \<in> set g"
  by (cases "map_of g x") (auto simp: list_of_def dest: map_of_SomeD)

lemma list_of_eq: "distinct (map fst g) \<Longrightarrow> (n, ds) \<in> set g \<Longrightarrow> list_of g n = ds"
  by (simp add: list_of_def)

text \<open>
  After the first loop has built the counts and the reverse edges from nothing, the second
  loop visits every node exactly when the dependency relation has no cycle.
\<close>

definition locally_ok :: "('a, 'a list) gomap \<Rightarrow> bool" where
  "locally_ok g \<longleftrightarrow> (\<forall>(n, ds) \<in> set g. distinct ds \<and> n \<notin> set ds \<and> set ds \<subseteq> fst ` set g)"

lemma dag_nodes_local: "dag_nodes (gomap_has g) g st = None \<longleftrightarrow> \<not> locally_ok g"
proof -
  have has: "gomap_has g d \<longleftrightarrow> d \<in> fst ` set g" for d by (simp add: gomap_has_def amap.keys_look)
  show ?thesis by (simp only: dag_nodes_None has locally_ok_def) blast
qed

lemma kahn_decides:
  assumes ok: "gomap_ok g" and order: "distinct order" "set order = fst ` set g"
    and zero: "\<And>x. count_of ind0 x = 0"
    and nodes: "dag_nodes (gomap_has g) g (ind0, []) = Some (ind, rvs)"
  shows "kahn rvs ind (filter (\<lambda>n. count_of ind n = 0) order) 0 = int (length g)
    \<longleftrightarrow> acyclic {(d, n). d \<in> set (list_of g n)}"
proof -
  let ?V = "fst ` set g" and ?deps = "list_of g"
  from ok have dist: "distinct (map fst g)" by (simp add: gomap_ok_def)
  from nodes dag_nodes_local [of g "(ind0, [])"] have loc: "locally_ok g" by auto
  have ind: "count_of ind x = int (length (?deps x))"
    and rvs: "list_of rvs d = map fst (filter (\<lambda>(n, ds). d \<in> set ds) g)" for x d
    using dag_nodes_Some [OF nodes dist, of x d] zero by (simp_all add: list_of_def)
  have deps_in: "distinct (?deps x)" "x \<notin> set (?deps x)" "set (?deps x) \<subseteq> ?V" for x
    using loc list_of_cases [of g x] by (auto simp: locally_ok_def)
  have out: "x \<notin> ?V \<Longrightarrow> ?deps x = []" for x
    by (metis list_of_def map_of_eq_None_iff option.simps(4))
  have rv: "distinct (list_of rvs n) \<and> set (list_of rvs n) = {x \<in> ?V. n \<in> set (?deps x)}" for n
  proof -
    have "x \<in> set (list_of rvs n) \<longleftrightarrow> x \<in> ?V \<and> n \<in> set (?deps x)" for x
      unfolding rvs using list_of_eq [OF dist, of x] by force
    then show ?thesis using distinct_map_filter [OF dist] by (auto simp: rvs)
  qed
  let ?Q = "filter (\<lambda>n. count_of ind n = 0) order"
  have "kahn_inv ?V ?deps [] ?Q ind"
    using order ind deps_in(1) by (auto simp: kahn_inv_def distinct_card)
  from kahn_result [OF this rv] obtain P m
    where res: "kahn rvs ind ?Q 0 = int (length P)" and inv: "kahn_inv ?V ?deps P [] m"
    by auto
  have "length P = card ?V \<longleftrightarrow> acyclic {(d, n). d \<in> set (?deps n)}"
    by (rule kahn_inv_done [OF inv _ deps_in(3) out]) simp_all
  moreover have "card ?V = length g" using ok by (rule amap.ok_card)
  ultimately show ?thesis using res by simp
qed

text \<open>
  C18: \<open>ValidateDAG\<close> answers exactly whether the map is a non-empty graph whose nodes have
  distinct, known dependencies other than themselves and whose dependency relation has no
  cycle; the orders in which Go visits the two maps make no difference.
\<close>

theorem ValidateDAG_order_spec:
  assumes "gomap_ok g" and "distinct order" and "set order = fst ` set g"
  shows "ValidateDAG_order order g = dag_spec g"
proof -
  let ?init = "map (\<lambda>p. (fst p, 0)) g"
  have zero: "count_of ?init x = 0" for x
    unfolding count_of_def by (induction g) auto
  show ?thesis
  proof (cases "dag_nodes (gomap_has g) g (?init, [])")
    case None
    then show ?thesis
      using dag_nodes_local [of g "(?init, [])"] by (auto simp: ValidateDAG_order_def dag_spec_def locally_ok_def)
  next
    case (Some st)
    obtain ind rvs where st: "st = (ind, rvs)" by (cases st)
    from Some have "locally_ok g" using dag_nodes_local [of g "(?init, [])"] by auto
    with Some kahn_decides [OF assms zero Some [unfolded st]] show ?thesis
      by (cases "g = []") (simp_all add: ValidateDAG_order_def dag_spec_def locally_ok_def st)
  qed
qed

theorem ValidateDAG_order_spec_witness:
  "dag_spec [(''a'', []), (''b'', [''a'']), (''c'', [''a'', ''b''])]
   \<and> \<not> dag_spec [(''a'', [''b'']), (''b'', [''a''])]"
proof
  have "ValidateDAG_order [''c'', ''a'', ''b''] [(''a'', []), (''b'', [''a'']), (''c'', [''a'', ''b''])]"
    by code_simp
  then show "dag_spec [(''a'', []), (''b'', [''a'']), (''c'', [''a'', ''b''])]"
    by (subst (asm) ValidateDAG_order_spec) (auto simp: gomap_ok_def)
  have "\<not> ValidateDAG_order [''b'', ''a''] [(''a'', [''b'']), (''b'', [''a''])]"
    by code_simp
  then show "\<not> dag_spec [(''a'', [''b'']), (''b'', [''a''])]"
    by (subst (asm) ValidateDAG_order_spec) (auto simp: gomap_ok_def)
qed

end
