(* ===== verification/Contract_Documents.thy ===== *)
theory Contract_Documents
  imports Contract_Types
begin

text \<open>
  The documents of \<open>pkg/contracts/types.go\<close> and \<open>audit_results.go\<close> as records, field by
  field. A pointer is an option; a slice is a list, and an option of a list where the code
  tells the nil slice from the empty one.
\<close>

record AgentIdentity =
  ai_AgentInstanceID :: string
  ai_Role :: string
  ai_Provider :: string
  ai_Model :: string
  ai_LeaseID :: string

record ApprovalActor =
  aa_ActorID :: string
  aa_ApprovedAt :: string

record SpecSignature =
  sg_Type :: string
  sg_KID :: string
  sg_JWS :: string

record Outcome =
  oc_ID :: string
  oc_Statement :: string

record GoalScope =
  sc_Included :: "string list"
  sc_Excluded :: "string list"

record NonFunctionalRequirements =
  nf_Security :: "string list"
  nf_Privacy :: "string list"
  nf_Performance :: "string list"
  nf_Reliability :: "string list"
  nf_Operability :: "string list"

record AcceptanceCriterion =
  ac_ID :: string
  ac_Statement :: string
  ac_EvidenceType :: string

record GoalAssumption =
  as_ID :: string
  as_Statement :: string
  as_Status :: string

record LanguageRequirement =
  lr_Name :: string
  lr_Version :: string

record ToolchainInstall =
  ti_Method :: ToolchainInstallMethod
  ti_Authorized :: bool
  ti_EvidenceRef :: string
  ti_ArtifactID :: string
  ti_ArtifactRef :: string
  ti_DownloadURL :: string
  ti_SourceSHA256 :: string

record VersionedTool =
  vt_InventoryID :: string
  vt_Kind :: ToolchainKind
  vt_Name :: string
  vt_Version :: string
  vt_Platform :: ExecutionPlatform
  vt_Architecture :: string
  vt_Source :: ToolchainSource
  vt_Install :: "ToolchainInstall option"

record GoalToolchain =
  gt_Languages :: "LanguageRequirement list"
  gt_Tools :: "VersionedTool list"

record GoalContent =
  gc_GoalSpecVersion :: int
  gc_ProjectID :: string
  gc_Version :: int
  gc_Title :: string
  gc_Summary :: string
  gc_ProblemStatement :: string
  gc_BusinessOutcomes :: "Outcome list"
  gc_Scope :: GoalScope
  gc_UserPersonas :: "string list"
  gc_FunctionalRequirements :: "string list"
  gc_NonFunctionalRequirements :: NonFunctionalRequirements
  gc_Constraints :: "string list"
  gc_Assumptions :: "GoalAssumption list"
  gc_Decisions :: "string list"
  gc_UnresolvedItems :: "string list"
  gc_AcceptanceCriteria :: "AcceptanceCriterion list"
  gc_RiskTolerance :: RiskTolerance
  gc_HumanApprovalPoints :: "string list"
  gc_DataClassification :: DataClassification
  gc_DeploymentTargets :: "string list"
  gc_SourceReferences :: "string list"
  gc_Toolchain :: "GoalToolchain option"
  gc_CreatedAt :: string
  gc_CreatedBy :: AgentIdentity

record GoalSpec =
  gs_Content :: GoalContent
  gs_Status :: GoalStatus
  gs_ApprovedBy :: "ApprovalActor option"
  gs_ContentSHA256 :: string
  gs_Signature :: "SpecSignature option"

record Architecture =
  ar_Style :: string
  ar_Components :: "string list"
  ar_DataFlows :: "string list"
  ar_TrustBoundaries :: "string list"
  ar_DeploymentUnits :: "string list"

record PlanModule =
  pm_ModuleID :: string
  pm_Name :: string
  pm_Responsibility :: string
  pm_ExecutionPlatform :: ExecutionPlatform
  pm_SandboxLevel :: IsolationLevel
  pm_OwnedPaths :: "string list"
  pm_ForbiddenPaths :: "string list"
  pm_PublicInterfaces :: "string list"
  pm_Dependencies :: "string list"
  pm_AcceptanceCriteria :: "string list"
  pm_ToolchainIDs :: "string list option"
  pm_VerificationEntrypoint :: string
  pm_Risk :: string

record PlanSpec =
  ps_PlanSpecVersion :: int
  ps_ProjectID :: string
  ps_GoalSpecRef :: SpecRef
  ps_Architecture :: Architecture
  ps_QualityAttributes :: "string list"
  ps_Modules :: "PlanModule list"
  ps_IntegrationPlan :: "string list"
  ps_ReleasePlan :: "string list"
  ps_TestStrategy :: "string list"
  ps_RollbackStrategy :: "string list"
  ps_OpenDecisions :: "string list"
  ps_SHA256 :: string

record NetworkPolicy =
  np_Mode :: NetworkMode
  np_Destinations :: "string list"

record WorkloadProfile =
  wp_Trust :: WorkloadTrust
  wp_HostileMultiTenant :: bool
  wp_RequiresNetworkIsolation :: bool
  wp_RequiresHiddenTestConfidentiality :: bool

record ModuleBudget =
  bu_MaxInputTokens :: int
  bu_MaxOutputTokens :: int
  bu_MaxCost :: string
  bu_Currency :: string

record ModuleSpec =
  ms_ModuleSpecVersion :: int
  ms_ModuleID :: string
  ms_ProjectID :: string
  ms_PlanVersion :: int
  ms_Name :: string
  ms_Purpose :: string
  ms_Responsibilities :: "string list"
  ms_NonResponsibilities :: "string list"
  ms_Inputs :: "string list"
  ms_Outputs :: "string list"
  ms_Interfaces :: "string list"
  ms_DataOwnership :: "string list"
  ms_Dependencies :: "string list"
  ms_AllowedPaths :: "string list"
  ms_ForbiddenPaths :: "string list"
  ms_ExecutionPlatform :: ExecutionPlatform
  ms_SandboxLevel :: IsolationLevel
  ms_NetworkPolicy :: NetworkPolicy
  ms_WorkloadProfile :: WorkloadProfile
  ms_ToolCapabilities :: "string list"
  ms_ToolchainIDs :: "string list option"
  ms_Toolchains :: "VersionedTool list option"
  ms_VerificationEntrypoint :: string
  ms_KnowledgeRefs :: "string list"
  ms_AcceptanceCriteria :: "string list"
  ms_TestRequirements :: "string list"
  ms_ObservabilityRequirements :: "string list"
  ms_SecurityRequirements :: "string list"
  ms_Budget :: ModuleBudget
  ms_SHA256 :: string

record SubmissionManifest =
  sm_SubmissionVersion :: int
  sm_ProjectID :: string
  sm_ModuleTaskID :: string
  sm_AttemptSeriesID :: string
  sm_Attempt :: int
  sm_ModuleSpecRef :: SpecRef
  sm_BaseCommit :: string
  sm_HeadCommit :: string
  sm_ChangedFiles :: "string list"
  sm_DeletedFiles :: "string list"
  sm_CreatedFiles :: "string list"
  sm_ClaimedCriteria :: "string list"
  sm_LocalTestEvidenceRefs :: "string list"
  sm_AgentIdentity :: AgentIdentity
  sm_CreatedAt :: string
  sm_SHA256 :: string
  sm_Signature :: "SpecSignature option"

record CheckTool =
  ct_Name :: string
  ct_Version :: string
  ct_Digest :: string

record EvidenceCheck =
  ec_CheckID :: string
  ec_Ordinal :: int
  ec_Type :: string
  ec_Status :: string
  ec_Tool :: CheckTool
  ec_StartedAt :: string
  ec_CompletedAt :: string
  ec_StdoutURI :: string
  ec_StderrURI :: string
  ec_ResultURI :: string
  ec_ResultSHA256 :: string

record LLMAudit =
  la_AuditorRunID :: string
  la_ModelIdentity :: string
  la_PromptDigest :: string
  la_ContextManifestDigest :: string
  la_Verdict :: string

record AuditFinding =
  af_FindingID :: string
  af_StableFingerprint :: string
  af_Severity :: FindingSeverity
  af_Category :: string
  af_RuleID :: string
  af_File :: string
  af_LineStart :: int
  af_LineEnd :: int
  af_Status :: FindingStatus
  af_SemanticLocation :: string
  af_EvidencePattern :: string
  af_EvidenceRefs :: "string list option"
  af_ExpectedBehavior :: string
  af_ObservedBehavior :: string
  af_RemediationConstraint :: string

record CriterionResult =
  cr_CriterionID :: string
  cr_Status :: CriterionStatus
  cr_EvidenceRefs :: "string list option"

record EvidenceBundle =
  eb_EvidenceBundleVersion :: int
  eb_ProjectID :: string
  eb_TaskID :: string
  eb_AttemptSeriesID :: string
  eb_Attempt :: int
  eb_SpecVersion :: int
  eb_BaseCommit :: string
  eb_SubmissionCommit :: string
  eb_PipelineVersion :: string
  eb_PolicyBundleDigest :: string
  eb_ExecutionPlatform :: ExecutionPlatform
  eb_IsolationLevel :: IsolationLevel
  eb_SandboxAttestation :: string
  eb_Checks :: "EvidenceCheck list"
  eb_Findings :: "AuditFinding list option"
  eb_CriteriaResults :: "CriterionResult list option"
  eb_ResidualRisks :: "string list option"
  eb_Confidence :: float64
  eb_Artifacts :: "string list option"
  eb_LLMAudit :: LLMAudit
  eb_ManifestSHA256 :: string
  eb_Signature :: "SpecSignature option"

record DecisionDependencyImpact =
  dd_FrozenTaskIDs :: "string list"
  dd_CriticalPathImpact :: bool

record DecisionCostSummary =
  dc_InputTokens :: int
  dc_OutputTokens :: int
  dc_EstimatedCost :: string
  dc_Currency :: string

record AttemptSummary =
  at_Attempt :: int
  at_SubmissionCommit :: string
  at_FailureStage :: string
  at_FindingIDs :: "string list"
  at_EvidenceURI :: string

record BlockingFinding =
  bf_ID :: string
  bf_Severity :: string
  bf_Category :: string
  bf_Summary :: string
  bf_Location :: string
  bf_ReproductionURI :: string
  bf_FirstObservedAttempt :: int
  bf_LastObservedAttempt :: int

record UserDecisionReport =
  ud_ReportVersion :: string
  ud_ProjectID :: string
  ud_GoalSpec :: SpecRef
  ud_ModuleTaskID :: string
  ud_ModuleName :: string
  ud_State :: ModuleTaskState
  ud_AttemptLimit :: int
  ud_Attempts :: "AttemptSummary list"
  ud_BlockingFindings :: "BlockingFinding list"
  ud_DependencyImpact :: DecisionDependencyImpact
  ud_CostSummary :: DecisionCostSummary
  ud_AllowedDecisions :: "UserDecision list"
  ud_GeneratedAt :: string
  ud_Signature :: "SpecSignature option"

record CompletionEvidence =
  ce_SubmissionImmutable :: bool
  ce_AuditPassed :: bool
  ce_MergeQueued :: bool
  ce_NoBlockingFindings :: bool
  ce_RequiredEvidence :: bool

end
