(* ===== verification/Project_State.thy ===== *)
theory Project_State
  imports Aggregate Approval Dag Contract_Documents
begin

text \<open>
  The project aggregate of \<open>internal/state/project.go\<close>: its records, the validators, one
  definition per command of \<open>DecideProject\<close>, and \<open>ApplyProject\<close>. A pointer is an option, a
  map whose nil value is tested is an option of a map. The two clone functions copy values
  so that the caller's slices and pointers are not shared; on values they are identities.
\<close>

section \<open>Data\<close>

record ProjectModelRoute =
  rt_Provider :: string
  rt_Model :: string
  rt_ReasoningEffort :: string
  rt_ContextWindowTokens :: int
  rt_CompactionThresholdTokens :: int
  rt_MaxOutputTokens :: int
  rt_ThinkingBudget :: int
  rt_Temperature :: float64
  rt_Seed :: "int option"
  rt_ProviderPolicy :: string
  rt_CachePolicy :: string
  rt_WorstCaseCostMicros :: int
  rt_MaxAttempts :: int

record CoreModuleOutcome =
  cm_TaskID :: string
  cm_ModuleID :: string
  cm_State :: ModuleTaskState
  cm_Version :: int
  cm_ModuleSpecRef :: SpecRef
  cm_Attempt :: int
  cm_AttemptSeriesID :: string

record CoreSummary =
  cs_SummaryVersion :: int
  cs_TenantID :: string
  cs_ProjectID :: string
  cs_Status :: string
  cs_GoalSpecRef :: SpecRef
  cs_PlanSpecRef :: SpecRef
  cs_Modules :: "CoreModuleOutcome list"
  cs_SummarySHA256 :: string
  cs_CreatedAt :: time

datatype ProjectDeletionStatus =
    ProjectDeletionBlocked
  | ProjectDeletionReady
  | ProjectDeletionErasing
  | ProjectDeletionCompleted
  | ProjectDeletionStatusOther string

record ProjectDeletion =
  dl_ID :: string
  dl_Status :: ProjectDeletionStatus
  dl_RequestedBy :: string
  dl_RequestedAt :: time
  dl_EarliestExecutionAt :: time
  dl_StartedAt :: "time option"
  dl_CompletedAt :: "time option"
  dl_ProofSHA256 :: string
  dl_ProofArtifactURI :: string
  dl_BackupExpiresAt :: "time option"

record ProjectLegalHold =
  lh_ID :: string
  lh_Reason :: string
  lh_PlacedBy :: string
  lh_PlacedAt :: time
  lh_ReleasedBy :: string
  lh_ReleasedAt :: "time option"
  lh_ReleaseReason :: string

record GoalRecord =
  gr_ID :: string
  gr_Version :: int
  gr_SHA256 :: string
  gr_UnresolvedItems :: "string list"
  gr_Status :: GoalStatus
  gr_ApprovedBy :: string
  gr_ApprovalRecordID :: string

record Project =
  prj_TenantID :: string
  prj_ID :: string
  prj_Name :: string
  prj_CreatedBy :: string
  prj_DataClassification :: string
  prj_DeploymentTargets :: "string list"
  prj_BudgetCurrency :: string
  prj_BudgetHardLimitMinor :: int
  prj_BudgetSoftLimitMinor :: int
  prj_PromptBundleVersion :: string
  prj_RiskTolerance :: string
  prj_State :: ProjectState
  prj_Version :: int
  prj_GoalAgentCount :: int
  prj_GoalProcessing :: bool
  prj_ModelRoutes :: "(string, ProjectModelRoute) gomap option"
  prj_Goal :: "GoalRecord option"
  prj_Plan :: "SpecRef option"
  prj_CoreSummary :: "CoreSummary option"
  prj_ReleaseApprovalRecordID :: string
  prj_PausedFromState :: ProjectState
  prj_Deletion :: "ProjectDeletion option"
  prj_LegalHolds :: "ProjectLegalHold list"

datatype GoalMessageKind =
    GoalMessageUser
  | GoalMessageRejection
  | GoalMessageChangeRequest
  | GoalMessageKindOther string

record GoalMessage =
  gm_ID :: string
  gm_TenantID :: string
  gm_ProjectID :: string
  gm_Kind :: GoalMessageKind
  gm_Message :: string
  gm_ContentSHA256 :: string
  gm_ArtifactURI :: string
  gm_CreatedAt :: time
  gm_CreatedBy :: string

record CompletionFacts =
  cf_AllTasksIntegrated :: bool
  cf_AllIntegrationTasksDone :: bool
  cf_IntegrationAuditPassed :: bool
  cf_GoalCriteriaSatisfied :: bool
  cf_GlobalAuditPassed :: bool
  cf_ReleaseGatesPassed :: bool
  cf_ReleaseArtifactsSigned :: bool
  cf_SBOMGenerated :: bool
  cf_ProvenanceGenerated :: bool
  cf_NoBlockedOrRework :: bool
  cf_NoBlockingFindings :: bool
  cf_RiskAcceptancesValid :: bool
  cf_OperationalSummariesGenerated :: bool
  cf_PlanSupervisorSummaryGenerated :: bool
  cf_GoalSummaryVerified :: bool
  cf_FinalResultDelivered :: bool
  cf_EvidenceSHA256 :: string

record ProjectGuardFacts =
  gf_AllTasksPassed :: bool
  gf_AllTasksIntegrated :: bool
  gf_IntegrationAuditPassed :: bool
  gf_EvidenceSHA256 :: string

datatype ProjectCommandType =
    ProjectCommandCreate
  | ProjectCommandStartGoalNegotiation
  | ProjectCommandResumeToolchainGoal
  | ProjectCommandSubmitGoalMessage
  | ProjectCommandProposeGoal
  | ProjectCommandApproveGoal
  | ProjectCommandRejectGoal
  | ProjectCommandRequestGoalChange
  | ProjectCommandSupersedeGoal
  | ProjectCommandPublishPlan
  | ProjectCommandRecordCoreProgress
  | ProjectCommandPublishCoreSummary
  | ProjectCommandBeginIntegration
  | ProjectCommandBeginGlobalAudit
  | ProjectCommandReopenExecution
  | ProjectCommandReopenIntegration
  | ProjectCommandApproveRelease
  | ProjectCommandComplete
  | ProjectCommandPause
  | ProjectCommandResume
  | ProjectCommandAbort
  | ProjectCommandArchive
  | ProjectCommandRequestDeletion
  | ProjectCommandPlaceLegalHold
  | ProjectCommandReleaseLegalHold
  | ProjectCommandBeginDeletion
  | ProjectCommandCompleteDeletion
  | ProjectCommandOther string

primrec projectCommandType_string :: "ProjectCommandType \<Rightarrow> string" where
  "projectCommandType_string ProjectCommandCreate = ''CREATE_PROJECT''"
| "projectCommandType_string ProjectCommandStartGoalNegotiation = ''START_GOAL_NEGOTIATION''"
| "projectCommandType_string ProjectCommandResumeToolchainGoal = ''RESUME_TOOLCHAIN_GOAL''"
| "projectCommandType_string ProjectCommandSubmitGoalMessage = ''SUBMIT_GOAL_MESSAGE''"
| "projectCommandType_string ProjectCommandProposeGoal = ''PROPOSE_GOAL''"
| "projectCommandType_string ProjectCommandApproveGoal = ''APPROVE_GOAL''"
| "projectCommandType_string ProjectCommandRejectGoal = ''REJECT_GOAL''"
| "projectCommandType_string ProjectCommandRequestGoalChange = ''REQUEST_GOAL_CHANGE''"
| "projectCommandType_string ProjectCommandSupersedeGoal = ''SUPERSEDE_GOAL''"
| "projectCommandType_string ProjectCommandPublishPlan = ''PUBLISH_PLAN''"
| "projectCommandType_string ProjectCommandRecordCoreProgress = ''RECORD_CORE_PROGRESS''"
| "projectCommandType_string ProjectCommandPublishCoreSummary = ''PUBLISH_CORE_SUMMARY''"
| "projectCommandType_string ProjectCommandBeginIntegration = ''BEGIN_INTEGRATION''"
| "projectCommandType_string ProjectCommandBeginGlobalAudit = ''BEGIN_GLOBAL_AUDIT''"
| "projectCommandType_string ProjectCommandReopenExecution = ''REOPEN_EXECUTION''"
| "projectCommandType_string ProjectCommandReopenIntegration = ''REOPEN_INTEGRATION''"
| "projectCommandType_string ProjectCommandApproveRelease = ''APPROVE_RELEASE''"
| "projectCommandType_string ProjectCommandComplete = ''COMPLETE_PROJECT''"
| "projectCommandType_string ProjectCommandPause = ''PAUSE_PROJECT''"
| "projectCommandType_string ProjectCommandResume = ''RESUME_PROJECT''"
| "projectCommandType_string ProjectCommandAbort = ''ABORT_PROJECT''"
| "projectCommandType_string ProjectCommandArchive = ''ARCHIVE_PROJECT''"
| "projectCommandType_string ProjectCommandRequestDeletion = ''REQUEST_PROJECT_DELETION''"
| "projectCommandType_string ProjectCommandPlaceLegalHold = ''PLACE_PROJECT_LEGAL_HOLD''"
| "projectCommandType_string ProjectCommandReleaseLegalHold = ''RELEASE_PROJECT_LEGAL_HOLD''"
| "projectCommandType_string ProjectCommandBeginDeletion = ''BEGIN_PROJECT_DELETION''"
| "projectCommandType_string ProjectCommandCompleteDeletion = ''COMPLETE_PROJECT_DELETION''"
| "projectCommandType_string (ProjectCommandOther s) = s"

record ProjectCommand =
  pc_Type :: ProjectCommandType
  pc_TenantID :: string
  pc_ProjectID :: string
  pc_ActorID :: string
  pc_GoalAgentCount :: int
  pc_AsyncGoalProcessing :: bool
  pc_StartGoalNegotiation :: bool
  pc_Goal :: "GoalRecord option"
  pc_GoalSpec :: "GoalSpec option"
  pc_GoalMessage :: "GoalMessage option"
  pc_Plan :: "SpecRef option"
  pc_CoreSummary :: "CoreSummary option"
  pc_GoalSpecRef :: "SpecRef option"
  pc_DAG :: "(string, string list) gomap"
  pc_Approval :: "ApprovalBinding option"
  pc_Completion :: "CompletionFacts option"
  pc_Guard :: "ProjectGuardFacts option"
  pc_ImpactedTaskIDs :: "string list"
  pc_Name :: string
  pc_DataClassification :: string
  pc_DeploymentTargets :: "string list"
  pc_BudgetCurrency :: string
  pc_BudgetHardLimitMinor :: int
  pc_BudgetSoftLimitMinor :: int
  pc_PromptBundleVersion :: string
  pc_RiskTolerance :: string
  pc_ModelRoutes :: "(string, ProjectModelRoute) gomap option"
  pc_Deletion :: "ProjectDeletion option"
  pc_LegalHold :: "ProjectLegalHold option"
  pc_LegalHoldID :: string
  pc_ReleaseReason :: string
  pc_At :: time

record ProjectEvent =
  pe_Type :: string
  pe_AggregateVersion :: int
  pe_OccurredAt :: time
  pe_Projection :: Project

definition zero_Project :: Project where
  "zero_Project =
     \<lparr>prj_TenantID = [],
      prj_ID = [],
      prj_Name = [],
      prj_CreatedBy = [],
      prj_DataClassification = [],
      prj_DeploymentTargets = [],
      prj_BudgetCurrency = [],
      prj_BudgetHardLimitMinor = 0,
      prj_BudgetSoftLimitMinor = 0,
      prj_PromptBundleVersion = [],
      prj_RiskTolerance = [],
      prj_State = ProjectStateOther [],
      prj_Version = 0,
      prj_GoalAgentCount = 0,
      prj_GoalProcessing = False,
      prj_ModelRoutes = None,
      prj_Goal = None,
      prj_Plan = None,
      prj_CoreSummary = None,
      prj_ReleaseApprovalRecordID = [],
      prj_PausedFromState = ProjectStateOther [],
      prj_Deletion = None,
      prj_LegalHolds = []\<rparr>"

text \<open>A command literal that sets only its type, actor and time.\<close>

definition bare_command :: "ProjectCommandType \<Rightarrow> string \<Rightarrow> time \<Rightarrow> ProjectCommand" where
  "bare_command ty actor at_time =
     \<lparr>pc_Type = ty,
      pc_TenantID = [],
      pc_ProjectID = [],
      pc_ActorID = actor,
      pc_GoalAgentCount = 0,
      pc_AsyncGoalProcessing = False,
      pc_StartGoalNegotiation = False,
      pc_Goal = None,
      pc_GoalSpec = None,
      pc_GoalMessage = None,
      pc_Plan = None,
      pc_CoreSummary = None,
      pc_GoalSpecRef = None,
      pc_DAG = [],
      pc_Approval = None,
      pc_Completion = None,
      pc_Guard = None,
      pc_ImpactedTaskIDs = [],
      pc_Name = [],
      pc_DataClassification = [],
      pc_DeploymentTargets = [],
      pc_BudgetCurrency = [],
      pc_BudgetHardLimitMinor = 0,
      pc_BudgetSoftLimitMinor = 0,
      pc_PromptBundleVersion = [],
      pc_RiskTolerance = [],
      pc_ModelRoutes = None,
      pc_Deletion = None,
      pc_LegalHold = None,
      pc_LegalHoldID = [],
      pc_ReleaseReason = [],
      pc_At = at_time\<rparr>"

section \<open>Model routes\<close>

definition requiredProjectModelRoles :: "string list" where
  "requiredProjectModelRoles =
     [''GOAL_PROPOSER'', ''GOAL_CHALLENGER'', ''PLAN_SUPERVISOR'', ''MODULE_PLANNER'',
      ''EXECUTOR'', ''MODULE_AUDITOR'', ''GLOBAL_AUDITOR'', ''KNOWLEDGE_CURATOR'']"

definition ValidModelReasoningEffort :: "string \<Rightarrow> string \<Rightarrow> bool" where
  "ValidModelReasoningEffort provider effort =
     (let p = to_lower provider in
      if p = ''openai'' \<or> p = ''openai-primary'' then
        effort = ''none'' \<or> effort = ''low'' \<or> effort = ''medium'' \<or> effort = ''high''
        \<or> effort = ''xhigh'' \<or> effort = ''max''
      else if p = ''claude'' then
        effort = ''low'' \<or> effort = ''medium'' \<or> effort = ''high'' \<or> effort = ''xhigh'' \<or> effort = ''max''
      else if p = ''deepseek'' \<or> p = ''deepseek-audit'' then effort = ''high'' \<or> effort = ''max''
      else if p = ''grok'' then effort = []
      else effort = [] \<or> effort = ''none'' \<or> effort = ''low'' \<or> effort = ''medium'' \<or> effort = ''high''
        \<or> effort = ''xhigh'' \<or> effort = ''max'')"

definition DefaultModelReasoningEffort :: "string \<Rightarrow> string" where
  "DefaultModelReasoningEffort provider =
     (let p = to_lower provider in
      if p = ''openai'' \<or> p = ''openai-primary'' \<or> p = ''claude'' then ''medium''
      else if p = ''deepseek'' \<or> p = ''deepseek-audit'' then ''high''
      else [])"

definition validProjectModelIdentity :: "string \<Rightarrow> int \<Rightarrow> bool" where
  "validProjectModelIdentity value maximum \<longleftrightarrow>
     value \<noteq> [] \<and> int (length value) \<le> maximum \<and> trim_space value = value
     \<and> \<not> contains_any value crlf_nul"

definition validProjectModelRoute :: "ProjectModelRoute \<Rightarrow> bool" where
  "validProjectModelRoute route \<longleftrightarrow>
     validProjectModelIdentity (rt_Provider route) 128
     \<and> validProjectModelIdentity (rt_Model route) 256 \<and> rt_Model route \<noteq> ''*''
     \<and> ValidModelReasoningEffort (rt_Provider route) (rt_ReasoningEffort route)
     \<and> (rt_ContextWindowTokens route = 0
        \<or> rt_ContextWindowTokens route \<ge> add64 (rt_MaxOutputTokens route) 1
          \<and> rt_ContextWindowTokens route \<le> 64000000)
     \<and> (rt_CompactionThresholdTokens route = 0
        \<or> rt_ContextWindowTokens route > 0
          \<and> rt_CompactionThresholdTokens route \<ge> add64 (rt_MaxOutputTokens route) 1
          \<and> rt_CompactionThresholdTokens route \<le> mul64 (rt_ContextWindowTokens route) 9 div 10)
     \<and> rt_MaxOutputTokens route \<ge> 1 \<and> rt_MaxOutputTokens route \<le> 1000000
     \<and> rt_ThinkingBudget route \<ge> 0 \<and> rt_ThinkingBudget route < rt_MaxOutputTokens route
     \<and> float_between (rt_Temperature route) 0 2
     \<and> validProjectModelIdentity (rt_ProviderPolicy route) 256
     \<and> validProjectModelIdentity (rt_CachePolicy route) 128
     \<and> rt_WorstCaseCostMicros route \<ge> 0
     \<and> rt_MaxAttempts route \<ge> 1 \<and> rt_MaxAttempts route \<le> 5"

fun check_model_roles :: "(string, ProjectModelRoute) gomap \<Rightarrow> string list \<Rightarrow> check" where
  "check_model_roles routes [] = None"
| "check_model_roles routes (role # rest) =
     (case map_of routes role of
        None \<Rightarrow> Some (''invalid project model route for '' @ role)
      | Some route \<Rightarrow>
          if \<not> validProjectModelRoute route then Some (''invalid project model route for '' @ role)
          else check_model_roles routes rest)"

definition ValidateProjectModelRoutes :: "(string, ProjectModelRoute) gomap \<Rightarrow> check" where
  "ValidateProjectModelRoutes routes =
     (if length routes \<noteq> length requiredProjectModelRoles
      then Some ''project model routes must define all roles''
      else check_model_roles routes requiredProjectModelRoles)"

section \<open>Cloning\<close>

definition cloneTimePointer :: "time option \<Rightarrow> time option" where
  "cloneTimePointer value = (case value of None \<Rightarrow> None | Some t \<Rightarrow> Some (utc t))"

definition clone_route :: "ProjectModelRoute \<Rightarrow> ProjectModelRoute" where
  "clone_route route =
     route\<lparr>rt_Seed := (case rt_Seed route of None \<Rightarrow> None | Some seed \<Rightarrow> Some seed)\<rparr>"

definition cloneProjectModelRoutes ::
  "(string, ProjectModelRoute) gomap option \<Rightarrow> (string, ProjectModelRoute) gomap option" where
  "cloneProjectModelRoutes routes =
     (case routes of None \<Rightarrow> None
      | Some m \<Rightarrow> Some (map (\<lambda>(role, route). (role, clone_route route)) m))"

definition cloneCoreSummary :: "CoreSummary option \<Rightarrow> CoreSummary option" where
  "cloneCoreSummary value =
     (case value of None \<Rightarrow> None | Some v \<Rightarrow> Some (v\<lparr>cs_Modules := [] @ cs_Modules v\<rparr>))"

definition cloneProject :: "Project \<Rightarrow> Project" where
  "cloneProject project =
     project\<lparr>
       prj_DeploymentTargets := [] @ prj_DeploymentTargets project,
       prj_ModelRoutes := cloneProjectModelRoutes (prj_ModelRoutes project),
       prj_Goal := (case prj_Goal project of None \<Rightarrow> None
                    | Some g \<Rightarrow> Some (g\<lparr>gr_UnresolvedItems := [] @ gr_UnresolvedItems g\<rparr>)),
       prj_Plan := (case prj_Plan project of None \<Rightarrow> None | Some plan \<Rightarrow> Some plan),
       prj_CoreSummary := (case prj_CoreSummary project of None \<Rightarrow> None
                           | Some c \<Rightarrow> cloneCoreSummary (Some c)),
       prj_Deletion := (case prj_Deletion project of None \<Rightarrow> None
                        | Some d \<Rightarrow> Some (d\<lparr>dl_StartedAt := cloneTimePointer (dl_StartedAt d),
                                           dl_CompletedAt := cloneTimePointer (dl_CompletedAt d),
                                           dl_BackupExpiresAt := cloneTimePointer (dl_BackupExpiresAt d)\<rparr>)),
       prj_LegalHolds := map (\<lambda>h. h\<lparr>lh_ReleasedAt := cloneTimePointer (lh_ReleasedAt h)\<rparr>)
                           (prj_LegalHolds project)\<rparr>"

lemma cloneTimePointer_id [clone_simps, simp]: "cloneTimePointer t = t"
  by (simp add: cloneTimePointer_def split: option.split)

lemma cloneProjectModelRoutes_id [clone_simps, simp]: "cloneProjectModelRoutes m = m"
proof -
  have "clone_route r = r" for r by (simp add: clone_route_def split: option.split)
  then show ?thesis by (cases m) (simp_all add: cloneProjectModelRoutes_def case_prod_unfold)
qed

lemma cloneCoreSummary_id [clone_simps, simp]: "cloneCoreSummary c = c"
  by (simp add: cloneCoreSummary_def split: option.split)

lemma cloneProject_id [clone_simps, simp]: "cloneProject p = p"
  by (cases p) (simp add: cloneProject_def split: option.split)

section \<open>Guards\<close>

definition safeLifecycleText :: "string \<Rightarrow> int \<Rightarrow> bool" where
  "safeLifecycleText value limit \<longleftrightarrow>
     value \<noteq> [] \<and> int (length value) \<le> limit \<and> trim_space value = value
     \<and> \<not> contains_any value crlf_nul"

definition validProjectCurrency :: "string \<Rightarrow> bool" where
  "validProjectCurrency value = (if length value \<noteq> 3 then False else list_all is_upper_letter value)"

definition allSatisfied :: "CompletionFacts \<Rightarrow> bool" where
  "allSatisfied f \<longleftrightarrow>
     cf_AllTasksIntegrated f \<and> cf_AllIntegrationTasksDone f \<and> cf_IntegrationAuditPassed f
     \<and> cf_GoalCriteriaSatisfied f \<and> cf_GlobalAuditPassed f \<and> cf_ReleaseGatesPassed f
     \<and> cf_ReleaseArtifactsSigned f \<and> cf_SBOMGenerated f \<and> cf_ProvenanceGenerated f
     \<and> cf_NoBlockedOrRework f \<and> (cf_NoBlockingFindings f \<or> cf_RiskAcceptancesValid f)
     \<and> cf_OperationalSummariesGenerated f \<and> cf_PlanSupervisorSummaryGenerated f
     \<and> cf_GoalSummaryVerified f \<and> cf_FinalResultDelivered f \<and> validDigest (cf_EvidenceSHA256 f)"

definition terminalProjectState :: "ProjectState \<Rightarrow> bool" where
  "terminalProjectState s \<longleftrightarrow> s = ProjectCompleted \<or> s = ProjectAborted \<or> s = ProjectArchived"

definition goalChangeAllowedState :: "ProjectState \<Rightarrow> bool" where
  "goalChangeAllowedState s \<longleftrightarrow>
     s \<in> {ProjectPlanning, ProjectExecuting, ProjectIntegrating, ProjectGlobalAudit,
          ProjectBlockedUserDecision}"

definition projectLifecycleCommand :: "ProjectCommandType \<Rightarrow> bool" where
  "projectLifecycleCommand c \<longleftrightarrow>
     c \<in> {ProjectCommandPlaceLegalHold, ProjectCommandReleaseLegalHold,
          ProjectCommandBeginDeletion, ProjectCommandCompleteDeletion}"

definition hasDuplicateStrings :: "string list \<Rightarrow> bool" where
  \<comment> \<open>an empty string counts as a duplicate\<close>
  "hasDuplicateStrings values \<longleftrightarrow> \<not> scan_distinct (\<lambda>v. v = []) [] values"

definition artifact_uri :: "string \<Rightarrow> string" where
  "artifact_uri hex = ''artifact://sha256/'' @ hex"

definition validGoalMessage :: "GoalMessage option \<Rightarrow> Project \<Rightarrow> ProjectCommand \<Rightarrow> bool" where
  "validGoalMessage message current command =
     (case message of None \<Rightarrow> False
      | Some m \<Rightarrow>
          if gm_ID m = [] \<or> gm_TenantID m \<noteq> prj_TenantID current \<or> gm_ProjectID m \<noteq> prj_ID current
             \<or> gm_CreatedBy m \<noteq> pc_ActorID command \<or> is_zero_time (gm_CreatedAt m)
             \<or> gm_CreatedAt m \<noteq> pc_At command \<or> gm_Message m = [] \<or> gm_ContentSHA256 m = []
             \<or> gm_ArtifactURI m = [] then False
          else if gm_Kind m \<in> {GoalMessageUser, GoalMessageRejection, GoalMessageChangeRequest} then
            validDigest (gm_ContentSHA256 m)
            \<and> gm_ArtifactURI m = artifact_uri (drop (length ''sha256:'') (gm_ContentSHA256 m))
          else False)"

fun check_core_modules :: "CoreModuleOutcome list \<Rightarrow> string list \<Rightarrow> bool" where
  "check_core_modules [] seen = True"
| "check_core_modules (m # ms) seen =
     (if cm_TaskID m = [] \<or> cm_ModuleID m = [] \<or> cm_State m \<noteq> TaskPassed \<or> cm_Version m < 1
         \<or> cm_Attempt m < 1 \<or> cm_Attempt m > 3 \<or> cm_AttemptSeriesID m = []
         \<or> SpecRef_Validate (cm_ModuleSpecRef m) \<noteq> None then False
      else if cm_TaskID m \<in> set seen then False
      else check_core_modules ms (cm_TaskID m # seen))"

definition CoreSummary_validFor :: "CoreSummary \<Rightarrow> Project \<Rightarrow> bool" where
  "CoreSummary_validFor summary project =
     (case (prj_Goal project, prj_Plan project) of
        (Some goal, Some plan) \<Rightarrow>
          if cs_SummaryVersion summary \<noteq> 1 \<or> cs_TenantID summary \<noteq> prj_TenantID project
             \<or> cs_ProjectID summary \<noteq> prj_ID project \<or> cs_Status summary \<noteq> ''COMPLETED''
             \<or> cs_GoalSpecRef summary \<noteq> \<lparr>sr_Version = gr_Version goal, sr_SHA256 = gr_SHA256 goal\<rparr>
             \<or> cs_PlanSpecRef summary \<noteq> plan \<or> \<not> validDigest (cs_SummarySHA256 summary)
             \<or> is_zero_time (cs_CreatedAt summary) \<or> length (cs_Modules summary) = 0 then False
          else check_core_modules (cs_Modules summary) []
      | _ \<Rightarrow> False)"

definition validDeletionRequest :: "ProjectDeletion \<Rightarrow> ProjectCommand \<Rightarrow> bool" where
  "validDeletionRequest d command \<longleftrightarrow>
     safeLifecycleText (dl_ID d) 128 \<and> dl_RequestedBy d = pc_ActorID command
     \<and> dl_RequestedAt d = pc_At command \<and> \<not> is_zero_time (dl_EarliestExecutionAt d)
     \<and> \<not> dl_EarliestExecutionAt d < pc_At command \<and> dl_Status d = ProjectDeletionStatusOther []
     \<and> dl_StartedAt d = None \<and> dl_CompletedAt d = None \<and> dl_ProofSHA256 d = []
     \<and> dl_ProofArtifactURI d = []"

definition validDeletionCompletion :: "ProjectDeletion \<Rightarrow> time \<Rightarrow> bool" where
  "validDeletionCompletion d at_time =
     (if \<not> validDigest (dl_ProofSHA256 d)
         \<or> dl_ProofArtifactURI d \<noteq> artifact_uri (trim_prefix (dl_ProofSHA256 d) ''sha256:'') then False
      else (case dl_BackupExpiresAt d of None \<Rightarrow> True | Some b \<Rightarrow> \<not> b < at_time))"

definition validLegalHold :: "ProjectLegalHold \<Rightarrow> ProjectCommand \<Rightarrow> bool" where
  "validLegalHold hold command \<longleftrightarrow>
     safeLifecycleText (lh_ID hold) 128 \<and> safeLifecycleText (lh_Reason hold) 1024
     \<and> lh_PlacedBy hold = pc_ActorID command \<and> lh_PlacedAt hold = pc_At command
     \<and> lh_ReleasedBy hold = [] \<and> lh_ReleasedAt hold = None \<and> lh_ReleaseReason hold = []"

fun legal_hold_scan :: "ProjectLegalHold list \<Rightarrow> string \<Rightarrow> int \<Rightarrow> int" where
  "legal_hold_scan [] hold_id index = - 1"
| "legal_hold_scan (h # hs) hold_id index =
     (if lh_ID h = hold_id then index else legal_hold_scan hs hold_id (index + 1))"

definition legalHoldIndex :: "ProjectLegalHold list \<Rightarrow> string \<Rightarrow> int" where
  "legalHoldIndex holds hold_id = legal_hold_scan holds hold_id 0"

definition hasActiveLegalHold :: "ProjectLegalHold list \<Rightarrow> bool" where
  "hasActiveLegalHold holds = list_ex (\<lambda>h. lh_ReleasedAt h = None) holds"

definition invalidProject :: "ProjectCommand \<Rightarrow> string \<Rightarrow> aor_error" where
  "invalidProject command reason =
     New CodeInvalidArgument []
       [(''scope'', DString (projectCommandType_string (pc_Type command) @ '': '' @ reason))]"

definition transitionProject :: "ProjectCommand \<Rightarrow> ProjectState \<Rightarrow> aor_error" where
  "transitionProject command current =
     New CodeInvalidStateTransition []
       [(''scope'', DString (projectCommandType_string (pc_Type command))),
        (''actualVersion'', DString (projectState_string current))]"

section \<open>Commands\<close>

text \<open>
  Each command takes the current project and gives the event type and the next project, whose
  version \<open>DecideProject\<close> then sets. \<open>next\<close> starts as a clone of the current project.
\<close>

type_synonym project_outcome = "aor_error + string \<times> Project"

fun check_deployment_targets :: "string list \<Rightarrow> string list \<Rightarrow> bool" where
  "check_deployment_targets [] seen = True"
| "check_deployment_targets (target # rest) seen =
     (if target = [] \<or> length target > 128 \<or> trim_space target \<noteq> target
         \<or> contains_any target crlf_nul \<or> target \<in> set seen then False
      else check_deployment_targets rest (target # seen))"

definition or_default :: "string \<Rightarrow> string \<Rightarrow> string" where
  "or_default value fallback = (if value = [] then fallback else value)"

definition project_create :: "Project \<Rightarrow> ProjectCommand \<Rightarrow> project_outcome" where
  "project_create current command =
     (if prj_Version current \<noteq> 0 \<or> prj_ID current \<noteq> [] \<or> pc_TenantID command = []
         \<or> pc_ProjectID command = [] \<or> pc_GoalAgentCount command < 1 \<or> pc_GoalAgentCount command > 2
         \<or> (case pc_ModelRoutes command of None \<Rightarrow> False
            | Some routes \<Rightarrow> ValidateProjectModelRoutes routes \<noteq> None)
      then Inl (invalidProject command ''project creation guard'')
      else
        (let name = or_default (pc_Name command) (pc_ProjectID command);
             dataClassification = or_default (pc_DataClassification command) ''INTERNAL'';
             riskTolerance = or_default (pc_RiskTolerance command) ''MEDIUM'';
             currency = or_default (pc_BudgetCurrency command) ''USD''
         in
         if pc_BudgetHardLimitMinor command < 0 \<or> pc_BudgetSoftLimitMinor command < 0
            \<or> pc_BudgetSoftLimitMinor command > pc_BudgetHardLimitMinor command
            \<or> \<not> validProjectCurrency currency
            \<or> pc_StartGoalNegotiation command \<and> pc_PromptBundleVersion command = []
         then Inl (invalidProject command ''project budget'')
         else if \<not> check_deployment_targets (pc_DeploymentTargets command) []
         then Inl (invalidProject command ''deployment target'')
         else
           Inr (if pc_StartGoalNegotiation command then ''io.aor.goal.negotiation-started.v1''
                else ''io.aor.project.created.v1'',
                zero_Project\<lparr>
                  prj_TenantID := pc_TenantID command, prj_ID := pc_ProjectID command,
                  prj_Name := name, prj_CreatedBy := pc_ActorID command,
                  prj_DataClassification := dataClassification,
                  prj_DeploymentTargets := pc_DeploymentTargets command,
                  prj_BudgetCurrency := currency,
                  prj_BudgetHardLimitMinor := pc_BudgetHardLimitMinor command,
                  prj_BudgetSoftLimitMinor := pc_BudgetSoftLimitMinor command,
                  prj_PromptBundleVersion := pc_PromptBundleVersion command,
                  prj_RiskTolerance := riskTolerance,
                  prj_State := (if pc_StartGoalNegotiation command then ProjectGoalNegotiating
                                else ProjectCreated),
                  prj_GoalAgentCount := pc_GoalAgentCount command,
                  prj_ModelRoutes := cloneProjectModelRoutes (pc_ModelRoutes command)\<rparr>)))"

definition project_start_goal_negotiation :: "Project \<Rightarrow> ProjectCommand \<Rightarrow> project_outcome" where
  "project_start_goal_negotiation current command =
     (if prj_State current \<noteq> ProjectCreated then Inl (transitionProject command (prj_State current))
      else Inr (''io.aor.goal.negotiation-started.v1'',
                (cloneProject current)\<lparr>prj_State := ProjectGoalNegotiating\<rparr>))"

definition same_goal :: "GoalRecord \<Rightarrow> GoalRecord \<Rightarrow> bool" where
  "same_goal a b \<longleftrightarrow> gr_ID a = gr_ID b \<and> gr_Version a = gr_Version b \<and> gr_SHA256 a = gr_SHA256 b"

definition project_resume_toolchain_goal :: "Project \<Rightarrow> ProjectCommand \<Rightarrow> project_outcome" where
  "project_resume_toolchain_goal current command =
     (case (prj_Goal current, pc_Goal command) of
        (Some g, Some g') \<Rightarrow>
          if prj_State current \<noteq> ProjectGoalNegotiating \<or> prj_GoalProcessing current
             \<or> \<not> same_goal g g' \<or> gr_ApprovedBy g \<noteq> []
          then Inl (transitionProject command (prj_State current))
          else Inr (''io.aor.goal.toolchain-ready.v1'', (cloneProject current)\<lparr>prj_GoalProcessing := True\<rparr>)
      | _ \<Rightarrow> Inl (transitionProject command (prj_State current)))"

definition project_submit_goal_message :: "Project \<Rightarrow> ProjectCommand \<Rightarrow> project_outcome" where
  "project_submit_goal_message current command =
     (if prj_State current \<noteq> ProjectCreated \<and> prj_State current \<noteq> ProjectGoalNegotiating
         \<and> prj_State current \<noteq> ProjectGoalSuspended
      then Inl (transitionProject command (prj_State current))
      else if prj_GoalProcessing current
      then Inl (New CodeConflict [] [(''scope'', DString ''goal processing'')])
      else if \<not> validGoalMessage (pc_GoalMessage command) current command
      then Inl (invalidProject command ''goal message artifact'')
      else Inr (''io.aor.goal.message-received.v1'',
                (cloneProject current)\<lparr>prj_State := ProjectGoalNegotiating,
                  prj_GoalProcessing := pc_AsyncGoalProcessing command\<rparr>))"

definition draft_goal :: "GoalRecord \<Rightarrow> GoalRecord" where
  \<comment> \<open>the copy of a command's goal that becomes the project's, with its approval erased\<close>
  "draft_goal g =
     g\<lparr>gr_UnresolvedItems := [] @ gr_UnresolvedItems g, gr_Status := GoalDraft,
       gr_ApprovedBy := [], gr_ApprovalRecordID := []\<rparr>"

definition project_propose_goal :: "Project \<Rightarrow> ProjectCommand \<Rightarrow> project_outcome" where
  "project_propose_goal current command =
     (case pc_Goal command of
        None \<Rightarrow> Inl (transitionProject command (prj_State current))
      | Some g \<Rightarrow>
          if prj_State current \<noteq> ProjectGoalNegotiating \<or> gr_ID g = [] \<or> gr_Version g < 1 \<or> gr_SHA256 g = []
          then Inl (transitionProject command (prj_State current))
          else if (case prj_Goal current of None \<Rightarrow> False | Some old \<Rightarrow> gr_Version g \<le> gr_Version old)
          then Inl (New CodeSpecSuperseded [] [])
          else Inr (''io.aor.goal.proposed.v1'',
                    (cloneProject current)\<lparr>prj_Goal := Some (draft_goal g), prj_GoalProcessing := False\<rparr>))"

definition project_approve_goal :: "Project \<Rightarrow> ProjectCommand \<Rightarrow> project_outcome" where
  "project_approve_goal current command =
     (case (prj_Goal current, pc_Goal command, pc_Approval command) of
        (Some g, Some g', Some approval) \<Rightarrow>
          if prj_State current \<noteq> ProjectGoalNegotiating
          then Inl (transitionProject command (prj_State current))
          else if \<not> same_goal g g' then Inl (New CodeGoalHashMismatch [] [])
          else if length (gr_UnresolvedItems g) \<noteq> 0 \<or> length (gr_UnresolvedItems g') \<noteq> 0
          then Inl (New CodeGoalNotApproved [] [])
          else if \<not> validAt approval (pc_At command) (pc_ActorID command) ''GOAL_APPROVAL'' ''GOAL_SPEC''
                    (gr_ID g) (gr_Version g) (gr_SHA256 g)
          then Inl (New CodeApprovalRequired [] [])
          else Inr (''io.aor.goal.approved.v1'',
                    (cloneProject current)\<lparr>
                      prj_Goal := Some (g\<lparr>gr_ApprovedBy := pc_ActorID command,
                                          gr_ApprovalRecordID := ab_RecordID approval,
                                          gr_Status := GoalApproved\<rparr>),
                      prj_State := ProjectPlanning\<rparr>)
      | _ \<Rightarrow> Inl (transitionProject command (prj_State current)))"

definition project_reject_goal :: "Project \<Rightarrow> ProjectCommand \<Rightarrow> project_outcome" where
  "project_reject_goal current command =
     (case (prj_Goal current, pc_Goal command) of
        (Some g, Some g') \<Rightarrow>
          if prj_State current \<noteq> ProjectGoalNegotiating \<or> gr_ApprovedBy g \<noteq> []
          then Inl (transitionProject command (prj_State current))
          else if \<not> same_goal g g' then Inl (New CodeGoalHashMismatch [] [])
          else if pc_GoalMessage command \<noteq> None
                  \<and> \<not> validGoalMessage (pc_GoalMessage command) current command
          then Inl (invalidProject command ''goal rejection message artifact'')
          else Inr (''io.aor.goal.rejected.v1'',
                    (cloneProject current)\<lparr>prj_Goal := Some (g\<lparr>gr_Status := GoalRejected\<rparr>)\<rparr>)
      | _ \<Rightarrow> Inl (transitionProject command (prj_State current)))"

definition project_request_goal_change :: "Project \<Rightarrow> ProjectCommand \<Rightarrow> project_outcome" where
  "project_request_goal_change current command =
     (case (prj_Goal current, pc_Goal command) of
        (Some g, Some g') \<Rightarrow>
          if \<not> goalChangeAllowedState (prj_State current) \<or> gr_ApprovedBy g = []
          then Inl (transitionProject command (prj_State current))
          else if \<not> same_goal g g' then Inl (New CodeGoalHashMismatch [] [])
          else if hasDuplicateStrings (pc_ImpactedTaskIDs command)
                  \<or> \<not> validGoalMessage (pc_GoalMessage command) current command
          then Inl (invalidProject command ''goal change request'')
          else Inr (''io.aor.goal.change-requested.v1'',
                    (cloneProject current)\<lparr>
                      prj_Goal := Some (g\<lparr>gr_Status := GoalSuperseded\<rparr>),
                      prj_Plan := None, prj_CoreSummary := None, prj_ReleaseApprovalRecordID := [],
                      prj_State := ProjectGoalNegotiating\<rparr>)
      | _ \<Rightarrow> Inl (transitionProject command (prj_State current)))"

definition project_supersede_goal :: "Project \<Rightarrow> ProjectCommand \<Rightarrow> project_outcome" where
  "project_supersede_goal current command =
     (case (prj_Goal current, pc_Goal command) of
        (Some g, Some g') \<Rightarrow>
          if terminalProjectState (prj_State current) \<or> gr_ApprovedBy g = []
             \<or> gr_Version g' \<le> gr_Version g \<or> gr_SHA256 g' = []
          then Inl (transitionProject command (prj_State current))
          else if hasDuplicateStrings (pc_ImpactedTaskIDs command)
          then Inl (invalidProject command ''duplicate impacted task'')
          else Inr (''io.aor.goal.superseded.v1'',
                    (cloneProject current)\<lparr>
                      prj_Goal := Some (draft_goal g'), prj_GoalProcessing := False,
                      prj_Plan := None, prj_CoreSummary := None, prj_ReleaseApprovalRecordID := [],
                      prj_State := ProjectGoalNegotiating\<rparr>)
      | _ \<Rightarrow> Inl (transitionProject command (prj_State current)))"

definition project_publish_plan :: "Project \<Rightarrow> ProjectCommand \<Rightarrow> project_outcome" where
  "project_publish_plan current command =
     (case (prj_Goal current, pc_Plan command, pc_GoalSpecRef command) of
        (Some g, Some plan, Some ref) \<Rightarrow>
          if prj_State current \<noteq> ProjectPlanning \<or> gr_ApprovedBy g = []
          then Inl (transitionProject command (prj_State current))
          else if \<not> ValidateDAG (pc_DAG command)
          then Inl (invalidProject command ''plan dependency graph is not a DAG'')
          else if sr_Version ref \<noteq> gr_Version g \<or> sr_SHA256 ref \<noteq> gr_SHA256 g
          then Inl (New CodeGoalHashMismatch [] [])
          else (case SpecRef_Validate plan of
                  Some err \<Rightarrow> Inl (invalidProject command err)
                | None \<Rightarrow>
                    Inr (''io.aor.plan.published.v1'',
                         (cloneProject current)\<lparr>prj_Plan := Some plan, prj_CoreSummary := None,
                           prj_State := ProjectExecuting\<rparr>))
      | _ \<Rightarrow> Inl (transitionProject command (prj_State current)))"

definition project_record_core_progress :: "Project \<Rightarrow> ProjectCommand \<Rightarrow> project_outcome" where
  "project_record_core_progress current command =
     (if prj_State current \<noteq> ProjectExecuting \<or> prj_CoreSummary current \<noteq> None
      then Inl (transitionProject command (prj_State current))
      else Inr (''io.aor.plan.core-progress-recorded.v1'', cloneProject current))"

definition project_publish_core_summary :: "Project \<Rightarrow> ProjectCommand \<Rightarrow> project_outcome" where
  "project_publish_core_summary current command =
     (case pc_CoreSummary command of
        None \<Rightarrow> Inl (transitionProject command (prj_State current))
      | Some summary \<Rightarrow>
          if prj_State current \<noteq> ProjectExecuting \<or> prj_CoreSummary current \<noteq> None
             \<or> \<not> CoreSummary_validFor summary current
          then Inl (transitionProject command (prj_State current))
          else Inr (''io.aor.plan.core-summary-published.v1'',
                    (cloneProject current)\<lparr>prj_CoreSummary := cloneCoreSummary (Some summary)\<rparr>))"

definition project_begin_integration :: "Project \<Rightarrow> ProjectCommand \<Rightarrow> project_outcome" where
  "project_begin_integration current command =
     (case pc_Guard command of
        None \<Rightarrow> Inl (transitionProject command (prj_State current))
      | Some guard \<Rightarrow>
          if prj_State current \<noteq> ProjectExecuting \<or> \<not> gf_AllTasksPassed guard
             \<or> \<not> validDigest (gf_EvidenceSHA256 guard)
          then Inl (transitionProject command (prj_State current))
          else Inr (''io.aor.project.integration-started.v1'',
                    (cloneProject current)\<lparr>prj_State := ProjectIntegrating\<rparr>))"

definition project_begin_global_audit :: "Project \<Rightarrow> ProjectCommand \<Rightarrow> project_outcome" where
  "project_begin_global_audit current command =
     (case pc_Guard command of
        None \<Rightarrow> Inl (transitionProject command (prj_State current))
      | Some guard \<Rightarrow>
          if prj_State current \<noteq> ProjectIntegrating \<or> \<not> gf_AllTasksIntegrated guard
             \<or> \<not> gf_IntegrationAuditPassed guard \<or> \<not> validDigest (gf_EvidenceSHA256 guard)
          then Inl (transitionProject command (prj_State current))
          else Inr (''io.aor.project.global-audit-started.v1'',
                    (cloneProject current)\<lparr>prj_State := ProjectGlobalAudit\<rparr>))"

definition project_reopen_execution :: "Project \<Rightarrow> ProjectCommand \<Rightarrow> project_outcome" where
  "project_reopen_execution current command =
     (case pc_Guard command of
        None \<Rightarrow> Inl (transitionProject command (prj_State current))
      | Some guard \<Rightarrow>
          if prj_State current \<noteq> ProjectGlobalAudit \<or> \<not> validDigest (gf_EvidenceSHA256 guard)
          then Inl (transitionProject command (prj_State current))
          else Inr (''io.aor.project.global-audit-remediation-started.v1'',
                    (cloneProject current)\<lparr>prj_State := ProjectExecuting,
                      prj_ReleaseApprovalRecordID := []\<rparr>))"

definition project_reopen_integration :: "Project \<Rightarrow> ProjectCommand \<Rightarrow> project_outcome" where
  "project_reopen_integration current command =
     (case pc_Guard command of
        None \<Rightarrow> Inl (transitionProject command (prj_State current))
      | Some guard \<Rightarrow>
          if prj_State current \<noteq> ProjectGlobalAudit \<or> \<not> validDigest (gf_EvidenceSHA256 guard)
          then Inl (transitionProject command (prj_State current))
          else Inr (''io.aor.project.global-audit-remediation-started.v1'',
                    (cloneProject current)\<lparr>prj_State := ProjectIntegrating,
                      prj_ReleaseApprovalRecordID := []\<rparr>))"

definition project_approve_release :: "Project \<Rightarrow> ProjectCommand \<Rightarrow> project_outcome" where
  "project_approve_release current command =
     (case (prj_Plan current, pc_Approval command) of
        (Some plan, Some approval) \<Rightarrow>
          if prj_State current \<noteq> ProjectGlobalAudit
             \<or> \<not> validAt approval (pc_At command) (pc_ActorID command) ''RELEASE_APPROVAL'' ''PROJECT''
                   (prj_ID current) (prj_Version current) (sr_SHA256 plan)
          then Inl (transitionProject command (prj_State current))
          else Inr (''io.aor.approval.committed.v1'',
                    (cloneProject current)\<lparr>prj_ReleaseApprovalRecordID := ab_RecordID approval\<rparr>)
      | _ \<Rightarrow> Inl (transitionProject command (prj_State current)))"

definition project_complete :: "Project \<Rightarrow> ProjectCommand \<Rightarrow> project_outcome" where
  "project_complete current command =
     (case (prj_Goal current, pc_Completion command) of
        (Some g, Some facts) \<Rightarrow>
          if prj_State current \<noteq> ProjectGlobalAudit \<or> gr_Status g \<noteq> GoalApproved \<or> gr_ApprovedBy g = []
             \<or> gr_ApprovalRecordID g = [] \<or> prj_Plan current = None
             \<or> prj_ReleaseApprovalRecordID current = [] \<or> \<not> allSatisfied facts
          then Inl (transitionProject command (prj_State current))
          else Inr (''io.aor.project.completed.v1'', (cloneProject current)\<lparr>prj_State := ProjectCompleted\<rparr>)
      | _ \<Rightarrow> Inl (transitionProject command (prj_State current)))"

definition project_pause :: "Project \<Rightarrow> ProjectCommand \<Rightarrow> project_outcome" where
  "project_pause current command =
     (if terminalProjectState (prj_State current) \<or> prj_State current = ProjectPaused
      then Inl (transitionProject command (prj_State current))
      else Inr (''io.aor.project.paused.v1'',
                (cloneProject current)\<lparr>
                  prj_PausedFromState := prj_State current,
                  prj_State := (if prj_State current = ProjectGoalNegotiating then ProjectGoalSuspended
                                else ProjectPaused),
                  prj_GoalProcessing := False\<rparr>))"

definition resume_state :: "Project \<Rightarrow> ProjectState" where
  "resume_state current =
     (if prj_State current = ProjectGoalSuspended then ProjectGoalNegotiating
      else if prj_PausedFromState current \<noteq> ProjectStateOther [] then prj_PausedFromState current
      else if (case prj_Goal current of None \<Rightarrow> True | Some g \<Rightarrow> gr_ApprovedBy g = [])
      then ProjectGoalNegotiating
      else if prj_Plan current = None then ProjectPlanning
      else ProjectExecuting)"

definition project_resume :: "Project \<Rightarrow> ProjectCommand \<Rightarrow> project_outcome" where
  "project_resume current command =
     (if prj_State current \<noteq> ProjectPaused \<and> prj_State current \<noteq> ProjectGoalSuspended
      then Inl (transitionProject command (prj_State current))
      else Inr (''io.aor.project.resumed.v1'',
                (cloneProject current)\<lparr>prj_State := resume_state current,
                  prj_PausedFromState := ProjectStateOther []\<rparr>))"

definition project_abort :: "Project \<Rightarrow> ProjectCommand \<Rightarrow> project_outcome" where
  "project_abort current command =
     (if terminalProjectState (prj_State current)
      then Inl (transitionProject command (prj_State current))
      else Inr (''io.aor.project.aborted.v1'', (cloneProject current)\<lparr>prj_State := ProjectAborted\<rparr>))"

definition project_archive :: "Project \<Rightarrow> ProjectCommand \<Rightarrow> project_outcome" where
  "project_archive current command =
     (if prj_State current \<noteq> ProjectCompleted \<and> prj_State current \<noteq> ProjectAborted
      then Inl (transitionProject command (prj_State current))
      else Inr (''io.aor.project.archived.v1'', (cloneProject current)\<lparr>prj_State := ProjectArchived\<rparr>))"

definition project_request_deletion :: "Project \<Rightarrow> ProjectCommand \<Rightarrow> project_outcome" where
  "project_request_deletion current command =
     (case pc_Deletion command of
        None \<Rightarrow> Inl (invalidProject command ''deletion request'')
      | Some d \<Rightarrow>
          if prj_ID current = [] \<or> prj_Deletion current \<noteq> None \<or> \<not> validDeletionRequest d command
          then Inl (invalidProject command ''deletion request'')
          else
            (let deletion = d\<lparr>dl_Status := (if hasActiveLegalHold (prj_LegalHolds current)
                                            then ProjectDeletionBlocked else ProjectDeletionReady)\<rparr>;
                 next1 = (cloneProject current)\<lparr>prj_Deletion := Some deletion\<rparr>;
                 next2 = (if \<not> terminalProjectState (prj_State current)
                          then next1\<lparr>prj_PausedFromState := prj_State current, prj_State := ProjectPaused\<rparr>
                          else if prj_State current \<noteq> ProjectArchived
                          then next1\<lparr>prj_State := ProjectArchived\<rparr>
                          else next1)
             in Inr (''io.aor.project.deletion-requested.v1'', next2)))"

definition set_deletion_status :: "ProjectDeletionStatus \<Rightarrow> ProjectDeletionStatus \<Rightarrow> Project \<Rightarrow> Project" where
  \<comment> \<open>if the deletion has the one status, give it the other\<close>
  "set_deletion_status from_status to_status p =
     (case prj_Deletion p of None \<Rightarrow> p
      | Some d \<Rightarrow> if dl_Status d = from_status then p\<lparr>prj_Deletion := Some (d\<lparr>dl_Status := to_status\<rparr>)\<rparr>
                  else p)"

definition project_place_legal_hold :: "Project \<Rightarrow> ProjectCommand \<Rightarrow> project_outcome" where
  "project_place_legal_hold current command =
     (case pc_LegalHold command of
        None \<Rightarrow> Inl (invalidProject command ''legal hold'')
      | Some hold \<Rightarrow>
          if prj_ID current = [] \<or> \<not> validLegalHold hold command
             \<or> legalHoldIndex (prj_LegalHolds current) (lh_ID hold) \<ge> 0
          then Inl (invalidProject command ''legal hold'')
          else
            Inr (''io.aor.project.legal-hold-placed.v1'',
                 set_deletion_status ProjectDeletionReady ProjectDeletionBlocked
                   ((cloneProject current)\<lparr>prj_LegalHolds := prj_LegalHolds current @ [hold]\<rparr>)))"

definition project_release_legal_hold :: "Project \<Rightarrow> ProjectCommand \<Rightarrow> project_outcome" where
  "project_release_legal_hold current command =
     (let index = legalHoldIndex (prj_LegalHolds current) (pc_LegalHoldID command) in
      if index < 0 \<or> lh_ReleasedAt (prj_LegalHolds current ! nat index) \<noteq> None
         \<or> \<not> safeLifecycleText (pc_ReleaseReason command) 1024
      then Inl (invalidProject command ''legal hold release'')
      else
        (let holds = (prj_LegalHolds current)[nat index :=
               (prj_LegalHolds current ! nat index)\<lparr>
                  lh_ReleasedAt := Some (utc (pc_At command)),
                  lh_ReleasedBy := pc_ActorID command,
                  lh_ReleaseReason := pc_ReleaseReason command\<rparr>];
             next1 = (cloneProject current)\<lparr>prj_LegalHolds := holds\<rparr>
         in Inr (''io.aor.project.legal-hold-released.v1'',
                 if hasActiveLegalHold holds then next1
                 else set_deletion_status ProjectDeletionBlocked ProjectDeletionReady next1)))"

definition project_begin_deletion :: "Project \<Rightarrow> ProjectCommand \<Rightarrow> project_outcome" where
  "project_begin_deletion current command =
     (case prj_Deletion current of
        None \<Rightarrow> Inl (transitionProject command (prj_State current))
      | Some d \<Rightarrow>
          if dl_Status d \<noteq> ProjectDeletionReady \<or> hasActiveLegalHold (prj_LegalHolds current)
             \<or> pc_At command < dl_EarliestExecutionAt d
          then Inl (transitionProject command (prj_State current))
          else Inr (''io.aor.project.deletion-started.v1'',
                    (cloneProject current)\<lparr>prj_Deletion :=
                      Some (d\<lparr>dl_Status := ProjectDeletionErasing,
                              dl_StartedAt := Some (utc (pc_At command))\<rparr>)\<rparr>))"

definition project_complete_deletion :: "Project \<Rightarrow> ProjectCommand \<Rightarrow> project_outcome" where
  "project_complete_deletion current command =
     (case (prj_Deletion current, pc_Deletion command) of
        (Some d, Some proof_record) \<Rightarrow>
          if dl_Status d \<noteq> ProjectDeletionErasing \<or> \<not> validDeletionCompletion proof_record (pc_At command)
          then Inl (transitionProject command (prj_State current))
          else
            (let deletion = d\<lparr>dl_Status := ProjectDeletionCompleted,
                              dl_CompletedAt := Some (utc (pc_At command)),
                              dl_ProofSHA256 := dl_ProofSHA256 proof_record,
                              dl_ProofArtifactURI := dl_ProofArtifactURI proof_record,
                              dl_BackupExpiresAt := (case dl_BackupExpiresAt proof_record of
                                  None \<Rightarrow> dl_BackupExpiresAt d | Some b \<Rightarrow> Some (utc b))\<rparr>
             in Inr (''io.aor.project.deletion-completed.v1'',
                     (cloneProject current)\<lparr>
                       prj_Deletion := Some deletion, prj_State := ProjectArchived,
                       prj_PausedFromState := ProjectStateOther [], prj_Goal := None,
                       prj_Plan := None, prj_DeploymentTargets := [], prj_ModelRoutes := None,
                       prj_PromptBundleVersion := [], prj_ReleaseApprovalRecordID := []\<rparr>))
      | _ \<Rightarrow> Inl (transitionProject command (prj_State current)))"

primrec project_command :: "ProjectCommandType \<Rightarrow> Project \<Rightarrow> ProjectCommand \<Rightarrow> project_outcome" where
  "project_command ProjectCommandCreate = project_create"
| "project_command ProjectCommandStartGoalNegotiation = project_start_goal_negotiation"
| "project_command ProjectCommandResumeToolchainGoal = project_resume_toolchain_goal"
| "project_command ProjectCommandSubmitGoalMessage = project_submit_goal_message"
| "project_command ProjectCommandProposeGoal = project_propose_goal"
| "project_command ProjectCommandApproveGoal = project_approve_goal"
| "project_command ProjectCommandRejectGoal = project_reject_goal"
| "project_command ProjectCommandRequestGoalChange = project_request_goal_change"
| "project_command ProjectCommandSupersedeGoal = project_supersede_goal"
| "project_command ProjectCommandPublishPlan = project_publish_plan"
| "project_command ProjectCommandRecordCoreProgress = project_record_core_progress"
| "project_command ProjectCommandPublishCoreSummary = project_publish_core_summary"
| "project_command ProjectCommandBeginIntegration = project_begin_integration"
| "project_command ProjectCommandBeginGlobalAudit = project_begin_global_audit"
| "project_command ProjectCommandReopenExecution = project_reopen_execution"
| "project_command ProjectCommandReopenIntegration = project_reopen_integration"
| "project_command ProjectCommandApproveRelease = project_approve_release"
| "project_command ProjectCommandComplete = project_complete"
| "project_command ProjectCommandPause = project_pause"
| "project_command ProjectCommandResume = project_resume"
| "project_command ProjectCommandAbort = project_abort"
| "project_command ProjectCommandArchive = project_archive"
| "project_command ProjectCommandRequestDeletion = project_request_deletion"
| "project_command ProjectCommandPlaceLegalHold = project_place_legal_hold"
| "project_command ProjectCommandReleaseLegalHold = project_release_legal_hold"
| "project_command ProjectCommandBeginDeletion = project_begin_deletion"
| "project_command ProjectCommandCompleteDeletion = project_complete_deletion"
| "project_command (ProjectCommandOther s) =
     (\<lambda>current command. Inl (invalidProject command ''unknown command''))"

definition deletion_pending :: "Project \<Rightarrow> bool" where
  "deletion_pending p \<longleftrightarrow>
     (case prj_Deletion p of None \<Rightarrow> False | Some d \<Rightarrow> dl_Status d \<noteq> ProjectDeletionCompleted)"

definition DecideProject :: "Project \<Rightarrow> ProjectCommand \<Rightarrow> aor_error + ProjectEvent" where
  "DecideProject current command =
     (if is_zero_time (pc_At command) \<or> pc_ActorID command = []
      then Inl (invalidProject command ''actor and trusted time are required'')
      else if deletion_pending current \<and> \<not> projectLifecycleCommand (pc_Type command)
      then Inl (transitionProject command (prj_State current))
      else (case project_command (pc_Type command) current command of
              Inl err \<Rightarrow> Inl err
            | Inr (eventType, nxt) \<Rightarrow>
                Inr \<lparr>pe_Type = eventType,
                     pe_AggregateVersion = add64 (prj_Version current) 1,
                     pe_OccurredAt = utc (pc_At command),
                     pe_Projection = nxt\<lparr>prj_Version := add64 (prj_Version current) 1\<rparr>\<rparr>))"

definition ApplyProject :: "Project \<Rightarrow> ProjectEvent \<Rightarrow> string + Project" where
  "ApplyProject current event =
     (if pe_AggregateVersion event \<noteq> add64 (prj_Version current) 1
         \<or> prj_Version (pe_Projection event) \<noteq> pe_AggregateVersion event
         \<or> prj_ID (pe_Projection event) = [] \<or> is_zero_time (pe_OccurredAt event)
      then Inl ''project event version or projection is invalid''
      else Inr (cloneProject (pe_Projection event)))"

end
