(* ===== verification/Project_Safety.thy ===== *)
theory Project_Safety
  imports Project_State
begin

text \<open>
  What holds of every project that commands and events can produce: the event-sourcing
  contract, the approval of the goal a project works on, the gate of completion, the
  finality of the terminal states, and the life cycle of a deletion.
\<close>

section \<open>Decide, then apply\<close>

lemma DecideProject_InrE:
  assumes "DecideProject p c = Inr e"
  obtains ty nxt where "project_command (pc_Type c) p c = Inr (ty, nxt)"
    and "pc_At c \<noteq> 0" and "pc_ActorID c \<noteq> []"
    and "deletion_pending p \<longrightarrow> projectLifecycleCommand (pc_Type c)"
    and "e = \<lparr>pe_Type = ty, pe_AggregateVersion = add64 (prj_Version p) 1, pe_OccurredAt = pc_At c,
             pe_Projection = nxt\<lparr>prj_Version := add64 (prj_Version p) 1\<rparr>\<rparr>"
  using assms
  by (auto simp: DecideProject_def is_zero_time_def split: if_splits sum.splits prod.splits)

lemma ApplyProject_iff:
  "ApplyProject p e = Inr p' \<longleftrightarrow>
     pe_AggregateVersion e = add64 (prj_Version p) 1 \<and> prj_Version (pe_Projection e) = pe_AggregateVersion e
     \<and> prj_ID (pe_Projection e) \<noteq> [] \<and> pe_OccurredAt e \<noteq> 0 \<and> p' = pe_Projection e"
  by (auto simp: ApplyProject_def is_zero_time_def)

interpretation project: event_sourced DecideProject ApplyProject prj_Version pe_AggregateVersion
proof unfold_locales
  fix s :: Project and c e
  assume "DecideProject s c = Inr e"
  then show "pe_AggregateVersion e = add64 (prj_Version s) 1" by (auto elim: DecideProject_InrE)
qed (auto simp: ApplyProject_iff)

text \<open>A step of a project's life, as the rules below take it apart.\<close>

lemma project_stepE:
  assumes "DecideProject p c = Inr e" and "ApplyProject p e = Inr p'"
  obtains ty nxt where "project_command (pc_Type c) p c = Inr (ty, nxt)"
    and "p' = nxt\<lparr>prj_Version := add64 (prj_Version p) 1\<rparr>" and "prj_ID nxt \<noteq> []"
    and "deletion_pending p \<longrightarrow> projectLifecycleCommand (pc_Type c)"
  using assms by (auto simp: ApplyProject_iff elim!: DecideProject_InrE)

text \<open>The definitions of the commands, for proofs that go through all of them.\<close>

lemmas project_commands [guard_simps] =
  project_create_def project_start_goal_negotiation_def project_resume_toolchain_goal_def
  project_submit_goal_message_def project_propose_goal_def project_approve_goal_def
  project_reject_goal_def project_request_goal_change_def project_supersede_goal_def
  project_publish_plan_def project_record_core_progress_def project_publish_core_summary_def
  project_begin_integration_def project_begin_global_audit_def project_reopen_execution_def
  project_reopen_integration_def project_approve_release_def project_complete_def
  project_pause_def project_resume_def project_abort_def project_archive_def
  project_request_deletion_def project_place_legal_hold_def project_release_legal_hold_def
  project_begin_deletion_def project_complete_deletion_def

section \<open>Deletion status\<close>

lemma set_deletion_status_sel [simp]:
  "prj_State (set_deletion_status a b p) = prj_State p"
  "prj_PausedFromState (set_deletion_status a b p) = prj_PausedFromState p"
  "prj_ID (set_deletion_status a b p) = prj_ID p"
  "prj_TenantID (set_deletion_status a b p) = prj_TenantID p"
  "prj_Goal (set_deletion_status a b p) = prj_Goal p"
  "prj_Plan (set_deletion_status a b p) = prj_Plan p"
  "prj_CoreSummary (set_deletion_status a b p) = prj_CoreSummary p"
  "prj_ReleaseApprovalRecordID (set_deletion_status a b p) = prj_ReleaseApprovalRecordID p"
  "prj_LegalHolds (set_deletion_status a b p) = prj_LegalHolds p"
  "prj_DeploymentTargets (set_deletion_status a b p) = prj_DeploymentTargets p"
  "prj_ModelRoutes (set_deletion_status a b p) = prj_ModelRoutes p"
  "prj_PromptBundleVersion (set_deletion_status a b p) = prj_PromptBundleVersion p"
  "prj_Version (set_deletion_status a b p) = prj_Version p"
  by (simp_all add: set_deletion_status_def split: option.split)

section \<open>The phase invariant\<close>

text \<open>
  What a state promises. The arguments say whether the goal is approved, whether there is a
  valid plan, whether there is no core summary and whether no release is approved.
\<close>

definition approved_goal :: "GoalRecord option \<Rightarrow> bool" where
  "approved_goal goal \<longleftrightarrow>
     (case goal of None \<Rightarrow> False
      | Some g \<Rightarrow> gr_Status g = GoalApproved \<and> gr_ApprovedBy g \<noteq> [] \<and> gr_ApprovalRecordID g \<noteq> []
          \<and> gr_UnresolvedItems g = [] \<and> 1 \<le> gr_Version g \<and> digest_pattern (gr_SHA256 g))"

definition valid_plan :: "SpecRef option \<Rightarrow> bool" where
  "valid_plan plan \<longleftrightarrow> (case plan of None \<Rightarrow> False | Some r \<Rightarrow> SpecRef_Validate r = None)"

primrec state_promise :: "ProjectState \<Rightarrow> bool \<Rightarrow> bool \<Rightarrow> bool \<Rightarrow> bool \<Rightarrow> bool" where
  "state_promise ProjectCreated goal plan no_summary no_release = (no_summary \<and> no_release)"
| "state_promise ProjectGoalNegotiating goal plan no_summary no_release = (no_summary \<and> no_release)"
| "state_promise ProjectGoalSuspended goal plan no_summary no_release = (no_summary \<and> no_release)"
| "state_promise ProjectPlanning goal plan no_summary no_release = (goal \<and> no_summary \<and> no_release)"
| "state_promise ProjectExecuting goal plan no_summary no_release = (goal \<and> plan \<and> no_release)"
| "state_promise ProjectIntegrating goal plan no_summary no_release = (goal \<and> plan \<and> no_release)"
| "state_promise ProjectGlobalAudit goal plan no_summary no_release = (goal \<and> plan)"
| "state_promise ProjectCompleted goal plan no_summary no_release = (goal \<and> plan \<and> \<not> no_release)"
| "state_promise ProjectAborted goal plan no_summary no_release = True"
| "state_promise ProjectArchived goal plan no_summary no_release = True"
| "state_promise ProjectBlockedUserDecision goal plan no_summary no_release = False"
| "state_promise ProjectPaused goal plan no_summary no_release = False"
| "state_promise ProjectFailedSystem goal plan no_summary no_release = False"
| "state_promise (ProjectStateOther s) goal plan no_summary no_release = False"

definition pausable :: "ProjectState \<Rightarrow> bool" where
  "pausable s \<longleftrightarrow> \<not> terminalProjectState s \<and> s \<noteq> ProjectGoalNegotiating"

definition promise :: "ProjectState \<Rightarrow> Project \<Rightarrow> bool" where
  "promise s p = state_promise s (approved_goal (prj_Goal p)) (valid_plan (prj_Plan p))
     (prj_CoreSummary p = None) (prj_ReleaseApprovalRecordID p = [])"

definition open_deletion :: "ProjectDeletion option \<Rightarrow> bool" where
  "open_deletion d \<longleftrightarrow> (case d of None \<Rightarrow> False | Some x \<Rightarrow> dl_Status x \<noteq> ProjectDeletionCompleted)"

text \<open>
  The invariant: under an open deletion the project is paused or archived; otherwise the
  state, or the state a paused project comes from, keeps its promise.
\<close>

definition phase_inv :: "Project \<Rightarrow> bool" where
  "phase_inv p \<longleftrightarrow>
     (if open_deletion (prj_Deletion p) then prj_State p = ProjectPaused \<or> prj_State p = ProjectArchived
      else if prj_Deletion p \<noteq> None then prj_State p = ProjectArchived
      else if prj_State p = ProjectPaused
      then pausable (prj_PausedFromState p) \<and> promise (prj_PausedFromState p) p
      else promise (prj_State p) p)"

lemma deletion_pending_open: "deletion_pending p = open_deletion (prj_Deletion p)"
  by (simp add: deletion_pending_def open_deletion_def)

lemma open_deletion_simps [simp]:
  "\<not> open_deletion None"
  "open_deletion (Some d) \<longleftrightarrow> dl_Status d \<noteq> ProjectDeletionCompleted"
  by (simp_all add: open_deletion_def)

lemma promise_not_pseudo: "promise s p \<Longrightarrow> s \<noteq> ProjectStateOther [] \<and> s \<noteq> ProjectPaused"
  by (auto simp: promise_def)

text \<open>A command that finds the project in a given state finds the promise of the state.\<close>

lemma phase_inv_at:
  "phase_inv p \<Longrightarrow> \<not> deletion_pending p \<Longrightarrow> prj_State p = s \<Longrightarrow> s \<noteq> ProjectPaused \<Longrightarrow> s \<noteq> ProjectArchived \<Longrightarrow>
     prj_Deletion p = None \<and> promise s p"
  by (auto simp: phase_inv_def deletion_pending_open split: if_splits)

lemma phase_inv_to:
  "prj_Deletion n = None \<Longrightarrow> prj_State n \<noteq> ProjectPaused \<Longrightarrow> promise (prj_State n) n \<Longrightarrow> phase_inv n"
  by (simp add: phase_inv_def)

lemma terminal_simps [simp]:
  "terminalProjectState ProjectCompleted" "terminalProjectState ProjectAborted"
  "terminalProjectState ProjectArchived" "\<not> terminalProjectState ProjectPaused"
  "\<not> goalChangeAllowedState ProjectPaused" "\<not> goalChangeAllowedState ProjectArchived"
  by (simp_all add: terminalProjectState_def goalChangeAllowedState_def)

lemma phase_inv_alive:
  "phase_inv p \<Longrightarrow> \<not> deletion_pending p \<Longrightarrow> prj_State p \<noteq> ProjectArchived \<Longrightarrow> prj_Deletion p = None"
  by (auto simp: phase_inv_def deletion_pending_open split: if_splits)

lemmas promise_simps = promise_def approved_goal_def valid_plan_def

lemma phase_inv_start_goal_negotiation:
  "project_start_goal_negotiation p c = Inr (t, n) \<Longrightarrow> phase_inv p \<Longrightarrow> \<not> deletion_pending p \<Longrightarrow> phase_inv (n\<lparr>prj_Version := v\<rparr>)"
  by (auto simp: project_start_goal_negotiation_def Let_def intro!: phase_inv_to dest!: phase_inv_at
      split: option.splits if_splits)
    (auto simp: promise_simps validAt_iff SpecRef_Validate_iff draft_goal_def)

lemma phase_inv_resume_toolchain_goal:
  "project_resume_toolchain_goal p c = Inr (t, n) \<Longrightarrow> phase_inv p \<Longrightarrow> \<not> deletion_pending p \<Longrightarrow> phase_inv (n\<lparr>prj_Version := v\<rparr>)"
  by (auto simp: project_resume_toolchain_goal_def Let_def intro!: phase_inv_to dest!: phase_inv_at
      split: option.splits if_splits)
    (auto simp: promise_simps validAt_iff SpecRef_Validate_iff draft_goal_def)

lemma phase_inv_submit_goal_message:
  "project_submit_goal_message p c = Inr (t, n) \<Longrightarrow> phase_inv p \<Longrightarrow> \<not> deletion_pending p \<Longrightarrow> phase_inv (n\<lparr>prj_Version := v\<rparr>)"
  by (auto simp: project_submit_goal_message_def Let_def intro!: phase_inv_to dest!: phase_inv_at
      split: option.splits if_splits)
    (auto simp: promise_simps validAt_iff SpecRef_Validate_iff draft_goal_def)

lemma phase_inv_propose_goal:
  "project_propose_goal p c = Inr (t, n) \<Longrightarrow> phase_inv p \<Longrightarrow> \<not> deletion_pending p \<Longrightarrow> phase_inv (n\<lparr>prj_Version := v\<rparr>)"
  by (auto simp: project_propose_goal_def Let_def intro!: phase_inv_to dest!: phase_inv_at
      split: option.splits if_splits)
    (auto simp: promise_simps validAt_iff SpecRef_Validate_iff draft_goal_def)

lemma phase_inv_approve_goal:
  "project_approve_goal p c = Inr (t, n) \<Longrightarrow> phase_inv p \<Longrightarrow> \<not> deletion_pending p \<Longrightarrow> phase_inv (n\<lparr>prj_Version := v\<rparr>)"
  by (auto simp: project_approve_goal_def Let_def intro!: phase_inv_to dest!: phase_inv_at
      split: option.splits if_splits)
    (auto simp: promise_simps validAt_iff SpecRef_Validate_iff draft_goal_def)

lemma phase_inv_reject_goal:
  "project_reject_goal p c = Inr (t, n) \<Longrightarrow> phase_inv p \<Longrightarrow> \<not> deletion_pending p \<Longrightarrow> phase_inv (n\<lparr>prj_Version := v\<rparr>)"
  by (auto simp: project_reject_goal_def Let_def intro!: phase_inv_to dest!: phase_inv_at
      split: option.splits if_splits)
    (auto simp: promise_simps validAt_iff SpecRef_Validate_iff draft_goal_def)

lemma phase_inv_request_goal_change:
  "project_request_goal_change p c = Inr (t, n) \<Longrightarrow> phase_inv p \<Longrightarrow> \<not> deletion_pending p \<Longrightarrow> phase_inv (n\<lparr>prj_Version := v\<rparr>)"
  by (auto simp: project_request_goal_change_def Let_def intro!: phase_inv_to dest!: phase_inv_at
      split: option.splits if_splits)
    (auto simp: promise_simps validAt_iff SpecRef_Validate_iff draft_goal_def)

lemma phase_inv_publish_plan:
  "project_publish_plan p c = Inr (t, n) \<Longrightarrow> phase_inv p \<Longrightarrow> \<not> deletion_pending p \<Longrightarrow> phase_inv (n\<lparr>prj_Version := v\<rparr>)"
  by (auto simp: project_publish_plan_def Let_def intro!: phase_inv_to dest!: phase_inv_at
      split: option.splits if_splits)
    (auto simp: promise_simps validAt_iff SpecRef_Validate_iff draft_goal_def)

lemma phase_inv_record_core_progress:
  "project_record_core_progress p c = Inr (t, n) \<Longrightarrow> phase_inv p \<Longrightarrow> \<not> deletion_pending p \<Longrightarrow> phase_inv (n\<lparr>prj_Version := v\<rparr>)"
  by (auto simp: project_record_core_progress_def Let_def intro!: phase_inv_to dest!: phase_inv_at
      split: option.splits if_splits)
    (auto simp: promise_simps validAt_iff SpecRef_Validate_iff draft_goal_def)

lemma phase_inv_publish_core_summary:
  "project_publish_core_summary p c = Inr (t, n) \<Longrightarrow> phase_inv p \<Longrightarrow> \<not> deletion_pending p \<Longrightarrow> phase_inv (n\<lparr>prj_Version := v\<rparr>)"
  by (auto simp: project_publish_core_summary_def Let_def intro!: phase_inv_to dest!: phase_inv_at
      split: option.splits if_splits)
    (auto simp: promise_simps validAt_iff SpecRef_Validate_iff draft_goal_def)

lemma phase_inv_begin_integration:
  "project_begin_integration p c = Inr (t, n) \<Longrightarrow> phase_inv p \<Longrightarrow> \<not> deletion_pending p \<Longrightarrow> phase_inv (n\<lparr>prj_Version := v\<rparr>)"
  by (auto simp: project_begin_integration_def Let_def intro!: phase_inv_to dest!: phase_inv_at
      split: option.splits if_splits)
    (auto simp: promise_simps validAt_iff SpecRef_Validate_iff draft_goal_def)

lemma phase_inv_begin_global_audit:
  "project_begin_global_audit p c = Inr (t, n) \<Longrightarrow> phase_inv p \<Longrightarrow> \<not> deletion_pending p \<Longrightarrow> phase_inv (n\<lparr>prj_Version := v\<rparr>)"
  by (auto simp: project_begin_global_audit_def Let_def intro!: phase_inv_to dest!: phase_inv_at
      split: option.splits if_splits)
    (auto simp: promise_simps validAt_iff SpecRef_Validate_iff draft_goal_def)

lemma phase_inv_reopen_execution:
  "project_reopen_execution p c = Inr (t, n) \<Longrightarrow> phase_inv p \<Longrightarrow> \<not> deletion_pending p \<Longrightarrow> phase_inv (n\<lparr>prj_Version := v\<rparr>)"
  by (auto simp: project_reopen_execution_def Let_def intro!: phase_inv_to dest!: phase_inv_at
      split: option.splits if_splits)
    (auto simp: promise_simps validAt_iff SpecRef_Validate_iff draft_goal_def)

lemma phase_inv_reopen_integration:
  "project_reopen_integration p c = Inr (t, n) \<Longrightarrow> phase_inv p \<Longrightarrow> \<not> deletion_pending p \<Longrightarrow> phase_inv (n\<lparr>prj_Version := v\<rparr>)"
  by (auto simp: project_reopen_integration_def Let_def intro!: phase_inv_to dest!: phase_inv_at
      split: option.splits if_splits)
    (auto simp: promise_simps validAt_iff SpecRef_Validate_iff draft_goal_def)

lemma phase_inv_approve_release:
  "project_approve_release p c = Inr (t, n) \<Longrightarrow> phase_inv p \<Longrightarrow> \<not> deletion_pending p \<Longrightarrow> phase_inv (n\<lparr>prj_Version := v\<rparr>)"
  by (auto simp: project_approve_release_def Let_def intro!: phase_inv_to dest!: phase_inv_at
      split: option.splits if_splits)
    (auto simp: promise_simps validAt_iff SpecRef_Validate_iff draft_goal_def)

lemma phase_inv_complete:
  "project_complete p c = Inr (t, n) \<Longrightarrow> phase_inv p \<Longrightarrow> \<not> deletion_pending p \<Longrightarrow> phase_inv (n\<lparr>prj_Version := v\<rparr>)"
  by (auto simp: project_complete_def Let_def intro!: phase_inv_to dest!: phase_inv_at
      split: option.splits if_splits)
    (auto simp: promise_simps validAt_iff SpecRef_Validate_iff draft_goal_def)

lemma phase_inv_archive:
  "project_archive p c = Inr (t, n) \<Longrightarrow> phase_inv p \<Longrightarrow> \<not> deletion_pending p \<Longrightarrow> phase_inv (n\<lparr>prj_Version := v\<rparr>)"
  by (auto simp: project_archive_def Let_def intro!: phase_inv_to dest!: phase_inv_at
      split: option.splits if_splits)
    (auto simp: promise_simps validAt_iff SpecRef_Validate_iff draft_goal_def)

lemma phase_inv_supersede_goal:
  assumes "project_supersede_goal p c = Inr (t, n)" and "phase_inv p" and "\<not> deletion_pending p"
  shows "phase_inv (n\<lparr>prj_Version := v\<rparr>)"
proof (rule phase_inv_to)
  from assms(1) have "prj_State p \<noteq> ProjectArchived" and n: "prj_Deletion n = prj_Deletion p"
    "prj_State n = ProjectGoalNegotiating" "prj_CoreSummary n = None" "prj_ReleaseApprovalRecordID n = []"
    by (auto simp: project_supersede_goal_def split: option.splits if_splits)
  with phase_inv_alive [OF assms(2,3)] show "prj_Deletion (n\<lparr>prj_Version := v\<rparr>) = None" by simp
  from n show "prj_State (n\<lparr>prj_Version := v\<rparr>) \<noteq> ProjectPaused"
    "promise (prj_State (n\<lparr>prj_Version := v\<rparr>)) (n\<lparr>prj_Version := v\<rparr>)"
    by (simp_all add: promise_def)
qed

lemma phase_inv_pause:
  assumes "project_pause p c = Inr (t, n)" and "phase_inv p" and "\<not> deletion_pending p"
  shows "phase_inv (n\<lparr>prj_Version := v\<rparr>)"
proof -
  from assms(1) have live: "\<not> terminalProjectState (prj_State p)" "prj_State p \<noteq> ProjectPaused"
    and n: "n = p\<lparr>prj_PausedFromState := prj_State p,
         prj_State := (if prj_State p = ProjectGoalNegotiating then ProjectGoalSuspended else ProjectPaused),
         prj_GoalProcessing := False\<rparr>"
    by (simp_all add: project_pause_def split: if_splits)
  then have "prj_State p \<noteq> ProjectArchived" by (auto simp: terminalProjectState_def)
  then have "prj_Deletion p = None" "promise (prj_State p) p"
    using phase_inv_at [OF assms(2,3) refl live(2)] by simp_all
  with live show ?thesis
    by (cases "prj_State p") (simp_all add: n phase_inv_def pausable_def promise_def terminalProjectState_def)
qed

lemma phase_inv_resume:
  assumes "project_resume p c = Inr (t, n)" and "phase_inv p" and "\<not> deletion_pending p"
  shows "phase_inv (n\<lparr>prj_Version := v\<rparr>)"
proof -
  from assms(1) have st: "prj_State p = ProjectPaused \<or> prj_State p = ProjectGoalSuspended"
    and n: "n = p\<lparr>prj_State := resume_state p, prj_PausedFromState := ProjectStateOther []\<rparr>"
    by (auto simp: project_resume_def split: if_splits)
  then have del: "prj_Deletion p = None" using phase_inv_alive [OF assms(2,3)] by auto
  from st have "promise (resume_state p) p"
  proof
    assume "prj_State p = ProjectPaused"
    then show ?thesis using assms(2) del promise_not_pseudo [of "prj_PausedFromState p" p]
      by (simp add: phase_inv_def resume_state_def)
  qed (use assms(2) del in \<open>simp add: phase_inv_def resume_state_def promise_def\<close>)
  then show ?thesis using del promise_not_pseudo [of "resume_state p" p]
    by (simp add: n phase_inv_def) (simp add: promise_def)
qed

lemma phase_inv_abort:
  assumes "project_abort p c = Inr (t, n)" and "phase_inv p" and "\<not> deletion_pending p"
  shows "phase_inv (n\<lparr>prj_Version := v\<rparr>)"
proof (rule phase_inv_to)
  from assms(1) have "prj_State p \<noteq> ProjectArchived" and n: "n = p\<lparr>prj_State := ProjectAborted\<rparr>"
    by (auto simp: project_abort_def split: if_splits)
  with phase_inv_alive [OF assms(2,3)] show "prj_Deletion (n\<lparr>prj_Version := v\<rparr>) = None" by simp
  from n show "prj_State (n\<lparr>prj_Version := v\<rparr>) \<noteq> ProjectPaused"
    "promise (prj_State (n\<lparr>prj_Version := v\<rparr>)) (n\<lparr>prj_Version := v\<rparr>)"
    by (simp_all add: promise_def)
qed

lemma phase_inv_cong:
  assumes "phase_inv p" and "prj_State n = prj_State p" and "prj_PausedFromState n = prj_PausedFromState p"
    and "prj_Goal n = prj_Goal p" and "prj_Plan n = prj_Plan p" and "prj_CoreSummary n = prj_CoreSummary p"
    and "prj_ReleaseApprovalRecordID n = prj_ReleaseApprovalRecordID p"
    and "open_deletion (prj_Deletion n) = open_deletion (prj_Deletion p)"
    and "prj_Deletion n = None \<longleftrightarrow> prj_Deletion p = None"
  shows "phase_inv n"
proof -
  have "promise s n = promise s p" for s using assms by (simp add: promise_def)
  with assms show ?thesis by (simp add: phase_inv_def)
qed

lemma set_deletion_status_open:
  "a \<noteq> ProjectDeletionCompleted \<Longrightarrow> b \<noteq> ProjectDeletionCompleted \<Longrightarrow>
     open_deletion (prj_Deletion (set_deletion_status a b p)) = open_deletion (prj_Deletion p)"
  "prj_Deletion (set_deletion_status a b p) = None \<longleftrightarrow> prj_Deletion p = None"
  by (auto simp: set_deletion_status_def open_deletion_def split: option.split)

lemma phase_inv_place_legal_hold:
  "project_place_legal_hold p c = Inr (t, n) \<Longrightarrow> phase_inv p \<Longrightarrow> phase_inv (n\<lparr>prj_Version := v\<rparr>)"
  by (rule phase_inv_cong [where p = p]; auto simp: project_place_legal_hold_def set_deletion_status_open
      split: option.splits if_splits)

lemma phase_inv_release_legal_hold:
  "project_release_legal_hold p c = Inr (t, n) \<Longrightarrow> phase_inv p \<Longrightarrow> phase_inv (n\<lparr>prj_Version := v\<rparr>)"
  by (rule phase_inv_cong [where p = p]; auto simp: project_release_legal_hold_def Let_def set_deletion_status_open
      split: option.splits if_splits)

lemma phase_inv_begin_deletion:
  "project_begin_deletion p c = Inr (t, n) \<Longrightarrow> phase_inv p \<Longrightarrow> phase_inv (n\<lparr>prj_Version := v\<rparr>)"
  by (rule phase_inv_cong [where p = p]; auto simp: project_begin_deletion_def split: option.splits if_splits)

lemma phase_inv_complete_deletion:
  "project_complete_deletion p c = Inr (t, n) \<Longrightarrow> phase_inv (n\<lparr>prj_Version := v\<rparr>)"
  by (auto simp: project_complete_deletion_def phase_inv_def Let_def promise_def split: option.splits if_splits)

lemma phase_inv_request_deletion:
  "project_request_deletion p c = Inr (t, n) \<Longrightarrow> phase_inv (n\<lparr>prj_Version := v\<rparr>)"
  by (auto simp: project_request_deletion_def phase_inv_def terminalProjectState_def Let_def
      split: option.splits if_splits)

lemma phase_inv_create:
  assumes "project_create p c = Inr (t, n)"
  shows "phase_inv (n\<lparr>prj_Version := v\<rparr>)"
  using assms by (auto simp: project_create_def phase_inv_def promise_def zero_Project_def Let_def split: if_splits)

text \<open>Only a creation gives a project with an identity from nothing.\<close>

lemma only_create_names:
  assumes "project_command ty zero_Project c = Inr (t, n)" and "prj_ID n \<noteq> []"
  shows "ty = ProjectCommandCreate"
  using assms
  by (cases ty) (auto simp: project_commands zero_Project_def legalHoldIndex_def Let_def goalChangeAllowedState_def
      split: option.splits if_splits)

lemmas phase_inv_commands = phase_inv_create phase_inv_start_goal_negotiation
  phase_inv_resume_toolchain_goal phase_inv_submit_goal_message phase_inv_propose_goal
  phase_inv_approve_goal phase_inv_reject_goal phase_inv_request_goal_change phase_inv_supersede_goal
  phase_inv_publish_plan phase_inv_record_core_progress phase_inv_publish_core_summary
  phase_inv_begin_integration phase_inv_begin_global_audit phase_inv_reopen_execution
  phase_inv_reopen_integration phase_inv_approve_release phase_inv_complete phase_inv_pause
  phase_inv_resume phase_inv_abort phase_inv_archive phase_inv_request_deletion
  phase_inv_place_legal_hold phase_inv_release_legal_hold phase_inv_begin_deletion
  phase_inv_complete_deletion

lemma phase_inv_command:
  assumes "project_command ty p c = Inr (t, n)" and "phase_inv p"
    and "deletion_pending p \<longrightarrow> projectLifecycleCommand ty"
  shows "phase_inv (n\<lparr>prj_Version := v\<rparr>)"
  using assms
  by (cases ty) (simp_all add: projectLifecycleCommand_def, (blast intro: phase_inv_commands)+)

lemma phase_inv_history:
  "history DecideProject ApplyProject zero_Project cs p \<Longrightarrow> p = zero_Project \<or> phase_inv p"
proof (induction rule: history_invariant [where I = "\<lambda>cs p. p = zero_Project \<or> phase_inv p", consumes 1])
  case (2 cs p c e p')
  from 2(2,3) obtain t n where cmd: "project_command (pc_Type c) p c = Inr (t, n)"
    and p': "p' = n\<lparr>prj_Version := add64 (prj_Version p) 1\<rparr>" and named: "prj_ID n \<noteq> []"
    and life: "deletion_pending p \<longrightarrow> projectLifecycleCommand (pc_Type c)"
    by (rule project_stepE)
  from 2(1) show ?case
  proof
    assume zero: "p = zero_Project"
    with only_create_names cmd named have "pc_Type c = ProjectCommandCreate" by blast
    with cmd p' show ?thesis by (simp add: phase_inv_create)
  qed (use phase_inv_command [OF cmd _ life] p' in blast)
qed simp

section \<open>Where an approval comes from\<close>

text \<open>The command that approved exactly this goal, by a valid approval of its actor.\<close>

definition approves :: "ProjectCommand \<Rightarrow> GoalRecord \<Rightarrow> bool" where
  "approves c g \<longleftrightarrow>
     pc_Type c = ProjectCommandApproveGoal
     \<and> (case pc_Approval c of None \<Rightarrow> False
        | Some a \<Rightarrow> validAt a (pc_At c) (pc_ActorID c) ''GOAL_APPROVAL'' ''GOAL_SPEC''
                      (gr_ID g) (gr_Version g) (gr_SHA256 g)
                    \<and> gr_ApprovedBy g = pc_ActorID c \<and> gr_ApprovalRecordID g = ab_RecordID a)"

lemma approves_status [simp]: "approves c (g\<lparr>gr_Status := s\<rparr>) = approves c g"
  by (simp add: approves_def split: option.split)

lemma goal_step:
  assumes "project_command (pc_Type c) p c = Inr (t, n)" and "prj_Goal n = Some g" and "gr_ApprovedBy g \<noteq> []"
  shows "approves c g \<or> (\<exists>g0. prj_Goal p = Some g0 \<and> g = g0\<lparr>gr_Status := gr_Status g\<rparr>)"
  using assms
  by (cases "pc_Type c")
    (auto simp: project_commands draft_goal_def approves_def zero_Project_def Let_def
      split: option.splits if_splits)

lemma approval_in_history:
  assumes "history DecideProject ApplyProject zero_Project cs p"
  shows "prj_Goal p = Some g \<Longrightarrow> gr_ApprovedBy g \<noteq> [] \<Longrightarrow> \<exists>c \<in> set cs. approves c g"
  using assms
proof (induction arbitrary: g rule: history.induct)
  case start
  then show ?case by (simp add: zero_Project_def)
next
  case (step cs p c e p')
  from step.hyps(2,3) obtain t n where cmd: "project_command (pc_Type c) p c = Inr (t, n)"
    and p': "p' = n\<lparr>prj_Version := add64 (prj_Version p) 1\<rparr>"
    by (rule project_stepE)
  with step.prems have "approves c g \<or> (\<exists>g0. prj_Goal p = Some g0 \<and> g = g0\<lparr>gr_Status := gr_Status g\<rparr>)"
    by (intro goal_step [OF cmd]) simp_all
  then show ?case
  proof
    assume "\<exists>g0. prj_Goal p = Some g0 \<and> g = g0\<lparr>gr_Status := gr_Status g\<rparr>"
    then obtain g0 where g0: "prj_Goal p = Some g0" "g = g0\<lparr>gr_Status := gr_Status g\<rparr>" by blast
    with step.prems(2) have "gr_ApprovedBy g0 \<noteq> []" by (metis GoalRecord.simps(6) GoalRecord.surjective GoalRecord.update_convs(5))
    with step.IH [OF g0(1)] show ?thesis using g0(2) by (metis approves_status list.set_intros(2))
  qed simp
qed

text \<open>The same for releases: the approval names the project and the digest of its plan.\<close>

definition approves_release :: "ProjectCommand \<Rightarrow> Project \<Rightarrow> bool" where
  "approves_release c p \<longleftrightarrow>
     pc_Type c = ProjectCommandApproveRelease
     \<and> (case (pc_Approval c, prj_Plan p) of
          (Some a, Some plan) \<Rightarrow>
            validAt a (pc_At c) (pc_ActorID c) ''RELEASE_APPROVAL'' ''PROJECT'' (prj_ID p)
              (ab_SubjectVersion a) (sr_SHA256 plan)
            \<and> prj_ReleaseApprovalRecordID p = ab_RecordID a
        | _ \<Rightarrow> False)"

definition completes :: "ProjectCommand \<Rightarrow> bool" where
  "completes c \<longleftrightarrow>
     pc_Type c = ProjectCommandComplete
     \<and> (case pc_Completion c of None \<Rightarrow> False | Some f \<Rightarrow> allSatisfied f)"

lemma release_step:
  assumes "project_command (pc_Type c) p c = Inr (t, n)" and "phase_inv p"
    and "deletion_pending p \<longrightarrow> projectLifecycleCommand (pc_Type c)"
    and "prj_ReleaseApprovalRecordID n \<noteq> []"
  shows "approves_release c n
    \<or> prj_ReleaseApprovalRecordID n = prj_ReleaseApprovalRecordID p \<and> prj_Plan n = prj_Plan p \<and> prj_ID n = prj_ID p"
proof (cases "pc_Type c = ProjectCommandPublishPlan")
  case True
  then have "\<not> deletion_pending p" using assms(3) by (auto simp: projectLifecycleCommand_def)
  moreover have "prj_State p = ProjectPlanning" "prj_ReleaseApprovalRecordID n = prj_ReleaseApprovalRecordID p"
    using assms(1) True by (auto simp: project_publish_plan_def split: option.splits if_splits)
  ultimately have "prj_ReleaseApprovalRecordID n = []"
    using phase_inv_at [OF assms(2), of ProjectPlanning] by (simp add: promise_def)
  with assms(4) show ?thesis by simp
next
  case False
  with assms(1,4) show ?thesis
    by (cases "pc_Type c")
      (auto simp: project_commands zero_Project_def Let_def approves_release_def validAt_iff
        split: option.splits if_splits)
qed

lemma completed_step:
  assumes "project_command (pc_Type c) p c = Inr (t, n)" and "phase_inv p"
    and "deletion_pending p \<longrightarrow> projectLifecycleCommand (pc_Type c)"
    and "prj_State n = ProjectCompleted"
  shows "completes c \<or> prj_State p = ProjectCompleted"
proof (cases "pc_Type c = ProjectCommandResume")
  case True
  then have nd: "\<not> deletion_pending p" using assms(3) by (auto simp: projectLifecycleCommand_def)
  from True assms(1,4) have r: "resume_state p = ProjectCompleted" "prj_State p = ProjectPaused \<or> prj_State p = ProjectGoalSuspended"
    by (auto simp: project_resume_def split: if_splits)
  then have "prj_State p = ProjectPaused" by (auto simp: resume_state_def)
  moreover have "prj_Deletion p = None" using phase_inv_alive [OF assms(2) nd] calculation by simp
  ultimately have "pausable (prj_PausedFromState p)" "prj_PausedFromState p \<noteq> ProjectStateOther []"
    using assms(2) promise_not_pseudo by (auto simp: phase_inv_def)
  with r \<open>prj_State p = ProjectPaused\<close> show ?thesis by (simp add: resume_state_def pausable_def)
next
  case False
  with assms(1,4) show ?thesis
    by (cases "pc_Type c")
      (auto simp: project_commands zero_Project_def Let_def completes_def split: option.splits if_splits)
qed

lemma completion_in_history:
  assumes "history DecideProject ApplyProject zero_Project cs p"
  shows "(prj_ReleaseApprovalRecordID p \<noteq> [] \<longrightarrow> (\<exists>c \<in> set cs. approves_release c p))
    \<and> (prj_State p = ProjectCompleted \<longrightarrow> (\<exists>c \<in> set cs. completes c))"
  using assms
proof (induction rule: history.induct)
  case start
  then show ?case by (simp add: zero_Project_def)
next
  case (step cs p c e p')
  from step.hyps(2,3) obtain t n where cmd: "project_command (pc_Type c) p c = Inr (t, n)"
    and p': "p' = n\<lparr>prj_Version := add64 (prj_Version p) 1\<rparr>" and named: "prj_ID n \<noteq> []"
    and life: "deletion_pending p \<longrightarrow> projectLifecycleCommand (pc_Type c)"
    by (rule project_stepE)
  have rel: "approves_release x p' \<longleftrightarrow> approves_release x n" for x
    by (simp add: p' approves_release_def split: option.split)
  show ?case
  proof (cases "p = zero_Project")
    case True
    then have "pc_Type c = ProjectCommandCreate" using only_create_names cmd named by blast
    with cmd show ?thesis by (auto simp: p' project_create_def zero_Project_def Let_def split: if_splits)
  next
    case False
    then have inv: "phase_inv p" using phase_inv_history [OF step.hyps(1)] by simp
    have "\<exists>x \<in> set (c # cs). approves_release x p'" if "prj_ReleaseApprovalRecordID p' \<noteq> []"
    proof -
      from that have "prj_ReleaseApprovalRecordID n \<noteq> []" by (simp add: p')
      from release_step [OF cmd inv life this] show ?thesis
      proof
        assume same: "prj_ReleaseApprovalRecordID n = prj_ReleaseApprovalRecordID p \<and> prj_Plan n = prj_Plan p \<and> prj_ID n = prj_ID p"
        with that step.IH obtain x where "x \<in> set cs" "approves_release x p" by (auto simp: p')
        moreover from same have "approves_release x n = approves_release x p"
          by (simp add: approves_release_def split: option.split)
        ultimately show ?thesis using rel by auto
      qed (simp add: rel)
    qed
    moreover have "\<exists>x \<in> set (c # cs). completes x" if "prj_State p' = ProjectCompleted"
      using completed_step [OF cmd inv life] that step.IH by (auto simp: p')
    ultimately show ?thesis by blast
  qed
qed

section \<open>Terminal states\<close>

lemma terminal_step:
  assumes "project_command ty p c = Inr (t, n)" and "prj_ID p \<noteq> []" and "terminalProjectState (prj_State p)"
  shows "prj_State n = prj_State p \<or> prj_State n = ProjectArchived"
  using assms
  by (cases ty)
    (auto simp: project_commands terminalProjectState_def goalChangeAllowedState_def Let_def
      split: option.splits if_splits)

section \<open>The life cycle of a deletion\<close>

definition erased :: "Project \<Rightarrow> bool" where
  "erased p \<longleftrightarrow> prj_Goal p = None \<and> prj_Plan p = None \<and> prj_DeploymentTargets p = []
     \<and> prj_ModelRoutes p = None \<and> prj_PromptBundleVersion p = [] \<and> prj_ReleaseApprovalRecordID p = []"

primrec deletion_promise :: "ProjectDeletionStatus \<Rightarrow> ProjectDeletion \<Rightarrow> Project \<Rightarrow> bool" where
  "deletion_promise ProjectDeletionBlocked d p =
     (hasActiveLegalHold (prj_LegalHolds p) \<and> dl_StartedAt d = None \<and> dl_CompletedAt d = None)"
| "deletion_promise ProjectDeletionReady d p =
     (\<not> hasActiveLegalHold (prj_LegalHolds p) \<and> dl_StartedAt d = None \<and> dl_CompletedAt d = None)"
| "deletion_promise ProjectDeletionErasing d p =
     ((case dl_StartedAt d of None \<Rightarrow> False | Some t \<Rightarrow> dl_EarliestExecutionAt d \<le> t) \<and> dl_CompletedAt d = None)"
| "deletion_promise ProjectDeletionCompleted d p =
     ((case dl_StartedAt d of None \<Rightarrow> False | Some t \<Rightarrow> dl_EarliestExecutionAt d \<le> t)
      \<and> dl_CompletedAt d \<noteq> None \<and> digest_pattern (dl_ProofSHA256 d)
      \<and> dl_ProofArtifactURI d = artifact_uri (drop 7 (dl_ProofSHA256 d)) \<and> erased p
      \<and> prj_State p = ProjectArchived)"
| "deletion_promise (ProjectDeletionStatusOther s) d p = False"

definition deletion_inv :: "Project \<Rightarrow> bool" where
  "deletion_inv p \<longleftrightarrow>
     distinct (map lh_ID (prj_LegalHolds p))
     \<and> (case prj_Deletion p of None \<Rightarrow> True
        | Some d \<Rightarrow> dl_RequestedAt d \<le> dl_EarliestExecutionAt d \<and> deletion_promise (dl_Status d) d p)"

lemma trim_digest: "digest_pattern s \<Longrightarrow> trim_prefix s ''sha256:'' = drop 7 s"
  by (auto simp: digest_pattern_def trim_prefix_def has_prefix_iff)

lemma legal_hold_scan_none: "0 \<le> i \<Longrightarrow> legal_hold_scan hs x i < 0 \<longleftrightarrow> x \<notin> lh_ID ` set hs"
  by (induction hs x i rule: legal_hold_scan.induct) auto

lemma legal_hold_scan_some:
  "0 \<le> i \<Longrightarrow> 0 \<le> legal_hold_scan hs x i \<Longrightarrow>
     i \<le> legal_hold_scan hs x i \<and> nat (legal_hold_scan hs x i - i) < length hs
     \<and> lh_ID (hs ! nat (legal_hold_scan hs x i - i)) = x"
proof (induction hs x i rule: legal_hold_scan.induct)
  case (2 h hs x i)
  show ?case
  proof (cases "lh_ID h = x")
    case False
    with 2 have "i + 1 \<le> legal_hold_scan hs x (i + 1)" "nat (legal_hold_scan hs x (i + 1) - (i + 1)) < length hs"
      "lh_ID (hs ! nat (legal_hold_scan hs x (i + 1) - (i + 1))) = x" by simp_all
    moreover have "nat (legal_hold_scan hs x (i + 1) - i) = Suc (nat (legal_hold_scan hs x (i + 1) - (i + 1)))"
      using calculation(1) by simp
    ultimately show ?thesis using False by simp
  qed simp
qed simp

text \<open>The index of a hold is within the list and is the first with that identifier.\<close>

lemma legalHoldIndex_none: "legalHoldIndex hs x < 0 \<longleftrightarrow> x \<notin> lh_ID ` set hs"
  by (simp add: legalHoldIndex_def legal_hold_scan_none)

lemma legalHoldIndex_some:
  "\<not> legalHoldIndex hs x < 0 \<Longrightarrow>
     nat (legalHoldIndex hs x) < length hs \<and> lh_ID (hs ! nat (legalHoldIndex hs x)) = x"
  using legal_hold_scan_some [of 0 hs x] by (simp add: legalHoldIndex_def)

lemma archived_deleted_frozen:
  assumes "project_command ty p c = Inr (t, n)" and "prj_ID p \<noteq> []" and "prj_State p = ProjectArchived"
    and "prj_Deletion p \<noteq> None"
  shows "projectLifecycleCommand ty"
  using assms
  by (cases ty) (auto simp: project_commands projectLifecycleCommand_def Let_def split: option.splits if_splits)

lemma lifecycle_data_unchanged:
  assumes "project_command ty p c = Inr (t, n)" and "\<not> projectLifecycleCommand ty"
    and "ty \<noteq> ProjectCommandCreate" and "ty \<noteq> ProjectCommandRequestDeletion"
  shows "prj_LegalHolds n = prj_LegalHolds p \<and> prj_Deletion n = prj_Deletion p"
  using assms
  by (cases ty) (auto simp: project_commands projectLifecycleCommand_def Let_def split: option.splits if_splits)

lemma deletion_inv_place:
  assumes "project_place_legal_hold p c = Inr (t, n)" and "deletion_inv p"
  shows "deletion_inv (n\<lparr>prj_Version := v\<rparr>)"
proof -
  from assms(1) obtain hold where hold: "lh_ReleasedAt hold = None" "legalHoldIndex (prj_LegalHolds p) (lh_ID hold) < 0"
    and n: "n = set_deletion_status ProjectDeletionReady ProjectDeletionBlocked
                  (p\<lparr>prj_LegalHolds := prj_LegalHolds p @ [hold]\<rparr>)"
    by (auto simp: project_place_legal_hold_def validLegalHold_def split: option.splits if_splits)
  from hold(2) have "lh_ID hold \<notin> lh_ID ` set (prj_LegalHolds p)" by (simp add: legalHoldIndex_none)
  moreover have "hasActiveLegalHold (prj_LegalHolds p @ [hold])" using hold(1) by (simp add: hasActiveLegalHold_def)
  ultimately show ?thesis using assms(2)
    by (cases "prj_Deletion p"; cases "dl_Status (the (prj_Deletion p))")
      (auto simp: n deletion_inv_def set_deletion_status_def erased_def)
qed

lemma deletion_inv_release:
  assumes "project_release_legal_hold p c = Inr (t, n)" and "deletion_inv p"
  shows "deletion_inv (n\<lparr>prj_Version := v\<rparr>)"
proof -
  let ?i = "nat (legalHoldIndex (prj_LegalHolds p) (pc_LegalHoldID c))"
  let ?h = "(prj_LegalHolds p ! ?i)\<lparr>lh_ReleasedAt := Some (pc_At c), lh_ReleasedBy := pc_ActorID c,
              lh_ReleaseReason := pc_ReleaseReason c\<rparr>"
  let ?hs = "(prj_LegalHolds p)[?i := ?h]"
  from assms(1) have i: "?i < length (prj_LegalHolds p)" and active: "lh_ReleasedAt (prj_LegalHolds p ! ?i) = None"
    and n: "n = (if hasActiveLegalHold ?hs then p\<lparr>prj_LegalHolds := ?hs\<rparr>
                 else set_deletion_status ProjectDeletionBlocked ProjectDeletionReady (p\<lparr>prj_LegalHolds := ?hs\<rparr>))"
    using legalHoldIndex_some [of "prj_LegalHolds p" "pc_LegalHoldID c"]
    by (auto simp: project_release_legal_hold_def Let_def split: if_splits)
  have ids: "map lh_ID ?hs = map lh_ID (prj_LegalHolds p)"
    using i by (simp add: map_update list_update_same_conv)
  have "hasActiveLegalHold (prj_LegalHolds p)"
    using i active by (auto simp: hasActiveLegalHold_def list_ex_iff)
  with ids assms(2) show ?thesis
    by (cases "prj_Deletion p"; cases "dl_Status (the (prj_Deletion p))")
      (auto simp: n deletion_inv_def set_deletion_status_def erased_def)
qed

lemma deletion_inv_request:
  "project_request_deletion p c = Inr (t, n) \<Longrightarrow> deletion_inv p \<Longrightarrow> deletion_inv (n\<lparr>prj_Version := v\<rparr>)"
  by (auto simp: project_request_deletion_def deletion_inv_def validDeletionRequest_def Let_def
      split: option.splits if_splits)

lemma deletion_inv_begin:
  "project_begin_deletion p c = Inr (t, n) \<Longrightarrow> deletion_inv p \<Longrightarrow> deletion_inv (n\<lparr>prj_Version := v\<rparr>)"
  by (auto simp: project_begin_deletion_def deletion_inv_def split: option.splits if_splits)

lemma deletion_inv_complete:
  "project_complete_deletion p c = Inr (t, n) \<Longrightarrow> deletion_inv p \<Longrightarrow> deletion_inv (n\<lparr>prj_Version := v\<rparr>)"
  by (auto simp: project_complete_deletion_def deletion_inv_def erased_def validDeletionCompletion_def
      validDigest_iff trim_digest Let_def split: option.splits if_splits)

lemma deletion_inv_command:
  assumes cmd: "project_command ty p c = Inr (t, n)" and inv: "deletion_inv p"
    and life: "deletion_pending p \<longrightarrow> projectLifecycleCommand ty" and named: "prj_ID p \<noteq> [] \<or> p = zero_Project"
  shows "deletion_inv (n\<lparr>prj_Version := v\<rparr>)"
proof (cases "projectLifecycleCommand ty \<or> ty = ProjectCommandRequestDeletion")
  case True
  with cmd inv show ?thesis
    by (auto simp: projectLifecycleCommand_def intro: deletion_inv_place deletion_inv_release
        deletion_inv_request deletion_inv_begin deletion_inv_complete)
next
  case False
  show ?thesis
  proof (cases "ty = ProjectCommandCreate")
    case True
    with cmd show ?thesis
      by (auto simp: project_create_def deletion_inv_def zero_Project_def Let_def split: if_splits)
  next
    case other: False
    with cmd False have same: "prj_LegalHolds n = prj_LegalHolds p" "prj_Deletion n = prj_Deletion p"
      using lifecycle_data_unchanged by blast+
    have "prj_Deletion p = None"
    proof (rule ccontr)
      assume ex: "prj_Deletion p \<noteq> None"
      then obtain d where d: "prj_Deletion p = Some d" by blast
      with life False have "dl_Status d = ProjectDeletionCompleted" by (simp add: deletion_pending_open)
      with inv d have "prj_State p = ProjectArchived" by (simp add: deletion_inv_def)
      moreover have "prj_ID p \<noteq> []" using named d by (auto simp: zero_Project_def)
      ultimately show False using archived_deleted_frozen [OF cmd] ex False by blast
    qed
    with same inv show ?thesis by (simp add: deletion_inv_def)
  qed
qed

lemma history_named: "history DecideProject ApplyProject zero_Project cs p \<Longrightarrow> prj_ID p \<noteq> [] \<or> p = zero_Project"
  by (erule history.cases) (auto simp: ApplyProject_iff)

lemma deletion_inv_history:
  "history DecideProject ApplyProject zero_Project cs p \<Longrightarrow> deletion_inv p"
proof (induction rule: history.induct)
  case start
  then show ?case by (simp add: deletion_inv_def zero_Project_def)
next
  case (step cs p c e p')
  from step.hyps(2,3) obtain t n where "project_command (pc_Type c) p c = Inr (t, n)"
    and "p' = n\<lparr>prj_Version := add64 (prj_Version p) 1\<rparr>"
    and "deletion_pending p \<longrightarrow> projectLifecycleCommand (pc_Type c)"
    by (rule project_stepE)
  with deletion_inv_command [OF _ step.IH _ history_named [OF step.hyps(1)]] show ?case by simp
qed

section \<open>What creation fixes\<close>

definition config_ok :: "Project \<Rightarrow> bool" where
  "config_ok p \<longleftrightarrow>
     0 \<le> prj_BudgetSoftLimitMinor p \<and> prj_BudgetSoftLimitMinor p \<le> prj_BudgetHardLimitMinor p
     \<and> length (prj_BudgetCurrency p) = 3 \<and> list_all is_upper_letter (prj_BudgetCurrency p)
     \<and> prj_GoalAgentCount p \<in> {1, 2} \<and> prj_TenantID p \<noteq> [] \<and> prj_CreatedBy p \<noteq> []
     \<and> prj_Name p \<noteq> [] \<and> distinct (prj_DeploymentTargets p)
     \<and> (case prj_ModelRoutes p of None \<Rightarrow> True | Some m \<Rightarrow> ValidateProjectModelRoutes m = None)"

lemma check_deployment_targets_distinct:
  "check_deployment_targets ts seen \<Longrightarrow> distinct ts \<and> set ts \<inter> set seen = {}"
  by (induction ts seen rule: check_deployment_targets.induct) (auto split: if_splits)

lemma config_create:
  assumes "project_create p c = Inr (t, n)" and "pc_ActorID c \<noteq> []"
  shows "config_ok (n\<lparr>prj_Version := v\<rparr>)"
proof -
  let ?currency = "or_default (pc_BudgetCurrency c) ''USD''"
  from assms(1) have ids: "pc_TenantID c \<noteq> []" "pc_ProjectID c \<noteq> []"
    and agents: "1 \<le> pc_GoalAgentCount c" "pc_GoalAgentCount c \<le> 2"
    and routes: "case pc_ModelRoutes c of None \<Rightarrow> True | Some m \<Rightarrow> ValidateProjectModelRoutes m = None"
    and budget: "0 \<le> pc_BudgetSoftLimitMinor c" "pc_BudgetSoftLimitMinor c \<le> pc_BudgetHardLimitMinor c"
    and currency: "validProjectCurrency ?currency"
    and targets: "check_deployment_targets (pc_DeploymentTargets c) []"
    by (simp_all add: project_create_def Let_def split: if_splits option.splits)
  from assms(1) have n: "prj_BudgetSoftLimitMinor n = pc_BudgetSoftLimitMinor c"
    "prj_BudgetHardLimitMinor n = pc_BudgetHardLimitMinor c" "prj_BudgetCurrency n = ?currency"
    "prj_GoalAgentCount n = pc_GoalAgentCount c" "prj_TenantID n = pc_TenantID c"
    "prj_CreatedBy n = pc_ActorID c" "prj_Name n = or_default (pc_Name c) (pc_ProjectID c)"
    "prj_DeploymentTargets n = pc_DeploymentTargets c" "prj_ModelRoutes n = pc_ModelRoutes c"
    by (auto simp: project_create_def Let_def split: if_splits)
  from currency have "length ?currency = 3 \<and> list_all is_upper_letter ?currency"
    by (simp add: validProjectCurrency_def split: if_splits)
  moreover have "distinct (pc_DeploymentTargets c)"
    using check_deployment_targets_distinct [OF targets] by simp
  moreover have "pc_GoalAgentCount c \<in> {1, 2}" using agents by auto
  moreover have "or_default (pc_Name c) (pc_ProjectID c) \<noteq> []" using ids(2) by (simp add: or_default_def)
  ultimately show ?thesis using ids(1) routes budget assms(2) by (simp add: config_ok_def n)
qed

lemma set_deletion_status_config [simp]:
  "prj_BudgetSoftLimitMinor (set_deletion_status a b p) = prj_BudgetSoftLimitMinor p"
  "prj_BudgetHardLimitMinor (set_deletion_status a b p) = prj_BudgetHardLimitMinor p"
  "prj_BudgetCurrency (set_deletion_status a b p) = prj_BudgetCurrency p"
  "prj_GoalAgentCount (set_deletion_status a b p) = prj_GoalAgentCount p"
  "prj_CreatedBy (set_deletion_status a b p) = prj_CreatedBy p"
  "prj_Name (set_deletion_status a b p) = prj_Name p"
  by (simp_all add: set_deletion_status_def split: option.split)

lemma config_ok_cong:
  assumes "config_ok p" and "prj_BudgetSoftLimitMinor n = prj_BudgetSoftLimitMinor p"
    and "prj_BudgetHardLimitMinor n = prj_BudgetHardLimitMinor p" and "prj_BudgetCurrency n = prj_BudgetCurrency p"
    and "prj_GoalAgentCount n = prj_GoalAgentCount p" and "prj_TenantID n = prj_TenantID p"
    and "prj_CreatedBy n = prj_CreatedBy p" and "prj_Name n = prj_Name p"
    and "prj_DeploymentTargets n = prj_DeploymentTargets p \<or> prj_DeploymentTargets n = []"
    and "prj_ModelRoutes n = prj_ModelRoutes p \<or> prj_ModelRoutes n = None"
  shows "config_ok (n\<lparr>prj_Version := v\<rparr>)"
  using assms by (auto simp: config_ok_def split: option.splits)

lemma config_unchanged:
  assumes "project_command ty p c = Inr (t, n)" and "ty \<noteq> ProjectCommandCreate" and "config_ok p"
  shows "config_ok (n\<lparr>prj_Version := v\<rparr>)"
  by (rule config_ok_cong [OF assms(3)];
      use assms(1,2) in \<open>cases ty; auto simp: project_commands Let_def split: option.splits if_splits\<close>)

lemma config_history:
  "history DecideProject ApplyProject zero_Project cs p \<Longrightarrow> p = zero_Project \<or> config_ok p"
proof (induction rule: history.induct)
  case (step cs p c e p')
  from step.hyps(2,3) obtain t n where cmd: "project_command (pc_Type c) p c = Inr (t, n)"
    and p': "p' = n\<lparr>prj_Version := add64 (prj_Version p) 1\<rparr>" and named: "prj_ID n \<noteq> []"
    by (rule project_stepE)
  have "pc_ActorID c \<noteq> []" using step.hyps(2) by (auto elim: DecideProject_InrE)
  then show ?case
    using config_create [of p c t n] config_unchanged [OF cmd] only_create_names [of "pc_Type c" c t n]
      step.IH cmd p' named
    by (cases "pc_Type c = ProjectCommandCreate") auto
qed simp

end
