(* ===== verification/Project_Properties.thy ===== *)
theory Project_Properties
  imports Project_Safety
begin

text \<open>
  The properties of the project aggregate, each with a concrete history at which its
  hypotheses hold. The proofs are in \<open>Project_Safety\<close>.
\<close>

section \<open>A worked example\<close>

text \<open>
  Concrete histories: the commands that take a project from nothing to completion, and the
  ones that delete it. Evaluating them shows that the hypotheses of the theorems can hold.
\<close>

definition ex_goal :: GoalRecord where
  "ex_goal = \<lparr>gr_ID = ''goal'', gr_Version = 1, gr_SHA256 = zero_digest, gr_UnresolvedItems = [],
     gr_Status = GoalDraft, gr_ApprovedBy = [], gr_ApprovalRecordID = []\<rparr>"

definition ex_approval :: "string \<Rightarrow> string \<Rightarrow> string \<Rightarrow> int \<Rightarrow> ApprovalBinding" where
  "ex_approval ty subject sid version =
     \<lparr>ab_RecordID = ''record'', ab_ApprovalType = ty, ab_SubjectType = subject, ab_SubjectID = sid,
      ab_SubjectVersion = version, ab_SubjectSHA256 = zero_digest, ab_PrincipalID = ''user'',
      ab_Reason = ''reviewed'', ab_IssuedAt = 1, ab_ExpiresAt = None, ab_RevokedAt = None,
      ab_Signature = ''signature''\<rparr>"

definition ex_ref :: SpecRef where
  "ex_ref = \<lparr>sr_Version = 1, sr_SHA256 = zero_digest\<rparr>"

definition ex_guard :: ProjectGuardFacts where
  "ex_guard = \<lparr>gf_AllTasksPassed = True, gf_AllTasksIntegrated = True, gf_IntegrationAuditPassed = True,
     gf_EvidenceSHA256 = zero_digest\<rparr>"

definition ex_completion :: CompletionFacts where
  "ex_completion =
     \<lparr>cf_AllTasksIntegrated = True, cf_AllIntegrationTasksDone = True, cf_IntegrationAuditPassed = True,
      cf_GoalCriteriaSatisfied = True, cf_GlobalAuditPassed = True, cf_ReleaseGatesPassed = True,
      cf_ReleaseArtifactsSigned = True, cf_SBOMGenerated = True, cf_ProvenanceGenerated = True,
      cf_NoBlockedOrRework = True, cf_NoBlockingFindings = True, cf_RiskAcceptancesValid = False,
      cf_OperationalSummariesGenerated = True, cf_PlanSupervisorSummaryGenerated = True,
      cf_GoalSummaryVerified = True, cf_FinalResultDelivered = True, cf_EvidenceSHA256 = zero_digest\<rparr>"

definition ex_module :: CoreModuleOutcome where
  "ex_module = \<lparr>cm_TaskID = ''task'', cm_ModuleID = ''module'', cm_State = TaskPassed, cm_Version = 9,
     cm_ModuleSpecRef = ex_ref, cm_Attempt = 1, cm_AttemptSeriesID = ''series''\<rparr>"

definition ex_summary :: CoreSummary where
  "ex_summary = \<lparr>cs_SummaryVersion = 1, cs_TenantID = ''tenant'', cs_ProjectID = ''project'',
     cs_Status = ''COMPLETED'', cs_GoalSpecRef = ex_ref, cs_PlanSpecRef = ex_ref,
     cs_Modules = [ex_module], cs_SummarySHA256 = zero_digest, cs_CreatedAt = 5\<rparr>"

definition ex_planned :: "ProjectCommand list" where
  "ex_planned =
     [(bare_command ProjectCommandCreate ''user'' 1)
        \<lparr>pc_TenantID := ''tenant'', pc_ProjectID := ''project'', pc_GoalAgentCount := 2\<rparr>,
      bare_command ProjectCommandStartGoalNegotiation ''service'' 2,
      (bare_command ProjectCommandProposeGoal ''agent'' 3)\<lparr>pc_Goal := Some ex_goal\<rparr>,
      (bare_command ProjectCommandApproveGoal ''user'' 4)
        \<lparr>pc_Goal := Some ex_goal, pc_Approval := Some (ex_approval ''GOAL_APPROVAL'' ''GOAL_SPEC'' ''goal'' 1)\<rparr>,
      (bare_command ProjectCommandPublishPlan ''agent'' 5)
        \<lparr>pc_Plan := Some ex_ref, pc_GoalSpecRef := Some ex_ref, pc_DAG := [(''task'', [])]\<rparr>]"

definition ex_completed :: "ProjectCommand list" where
  "ex_completed = ex_planned @
     [(bare_command ProjectCommandBeginIntegration ''agent'' 6)\<lparr>pc_Guard := Some ex_guard\<rparr>,
      (bare_command ProjectCommandBeginGlobalAudit ''agent'' 7)\<lparr>pc_Guard := Some ex_guard\<rparr>,
      (bare_command ProjectCommandApproveRelease ''user'' 8)
        \<lparr>pc_Approval := Some (ex_approval ''RELEASE_APPROVAL'' ''PROJECT'' ''project'' 7)\<rparr>,
      (bare_command ProjectCommandComplete ''agent'' 9)\<lparr>pc_Completion := Some ex_completion\<rparr>]"

definition ex_deletion :: ProjectDeletion where
  "ex_deletion = \<lparr>dl_ID = ''deletion'', dl_Status = ProjectDeletionStatusOther [], dl_RequestedBy = ''user'',
     dl_RequestedAt = 10, dl_EarliestExecutionAt = 20, dl_StartedAt = None, dl_CompletedAt = None,
     dl_ProofSHA256 = [], dl_ProofArtifactURI = [], dl_BackupExpiresAt = None\<rparr>"

definition ex_deleted :: "ProjectCommand list" where
  "ex_deleted = ex_planned @
     [(bare_command ProjectCommandPublishCoreSummary ''agent'' 6)\<lparr>pc_CoreSummary := Some ex_summary\<rparr>,
      (bare_command ProjectCommandRequestDeletion ''user'' 10)\<lparr>pc_Deletion := Some ex_deletion\<rparr>,
      bare_command ProjectCommandBeginDeletion ''service'' 20,
      (bare_command ProjectCommandCompleteDeletion ''service'' 21)
        \<lparr>pc_Deletion := Some (ex_deletion\<lparr>dl_ProofSHA256 := zero_digest,
           dl_ProofArtifactURI := artifact_uri (drop 7 zero_digest)\<rparr>)\<rparr>]"

definition run_project :: "ProjectCommand list \<Rightarrow> Project" where
  "run_project cs = fst (run_commands DecideProject ApplyProject zero_Project cs)"

definition accepted_project :: "ProjectCommand list \<Rightarrow> ProjectCommand list" where
  "accepted_project cs = rev (accepted DecideProject ApplyProject zero_Project cs)"

lemma run_project_history: "history DecideProject ApplyProject zero_Project (accepted_project cs) (run_project cs)"
  unfolding run_project_def accepted_project_def by (rule run_history)

lemma ex_completed_state: "prj_State (run_project ex_completed) = ProjectCompleted"
  by code_simp

lemma ex_deleted_state:
  "prj_State (run_project ex_deleted) = ProjectArchived
   \<and> map_option dl_Status (prj_Deletion (run_project ex_deleted)) = Some ProjectDeletionCompleted
   \<and> prj_CoreSummary (run_project ex_deleted) \<noteq> None \<and> prj_ID (run_project ex_deleted) = ''project''"
  by code_simp

section \<open>Properties of the project aggregate\<close>

text \<open>
  C1: the goal a project works on was approved. In every project that accepted commands
  produce, planning, executing, integrating, auditing or having completed means that the goal
  is approved without unresolved items, and that one of the commands approved it: an approval
  of that goal's identifier, version and digest, valid at the command's time, issued by the
  command's actor, whose record the goal names.
\<close>

theorem project_goal_provenance:
  assumes "history DecideProject ApplyProject zero_Project cs p"
    and "prj_State p \<in> {ProjectPlanning, ProjectExecuting, ProjectIntegrating, ProjectGlobalAudit, ProjectCompleted}"
  shows "\<exists>g. prj_Goal p = Some g \<and> gr_Status g = GoalApproved \<and> gr_UnresolvedItems g = []
           \<and> (\<exists>c \<in> set cs. approves c g)"
proof -
  from assms(2) have "p \<noteq> zero_Project" by (auto simp: zero_Project_def)
  with phase_inv_history [OF assms(1)] have inv: "phase_inv p" by simp
  have "approved_goal (prj_Goal p)"
    using inv assms(2) by (auto simp: phase_inv_def promise_def split: if_splits)
  then obtain g where g: "prj_Goal p = Some g" "gr_Status g = GoalApproved" "gr_UnresolvedItems g = []"
    "gr_ApprovedBy g \<noteq> []" by (auto simp: approved_goal_def split: option.splits)
  with approval_in_history [OF assms(1)] show ?thesis by blast
qed

theorem project_goal_provenance_witness:
  "\<exists>g. prj_Goal (run_project ex_completed) = Some g
     \<and> (\<exists>c \<in> set (accepted_project ex_completed). approves c g)"
  using project_goal_provenance [OF run_project_history [of ex_completed]] ex_completed_state by auto

text \<open>
  C2: a project completes only through its gate. A completed project has an approved goal and
  a valid plan, one of its commands approved a release of exactly this project with the digest
  of exactly this plan, and one completed it with every completion fact satisfied.
\<close>

theorem project_completion_gate:
  assumes "history DecideProject ApplyProject zero_Project cs p"
    and "prj_State p = ProjectCompleted"
  shows "approved_goal (prj_Goal p) \<and> valid_plan (prj_Plan p)
    \<and> (\<exists>c \<in> set cs. approves_release c p) \<and> (\<exists>c \<in> set cs. completes c)"
proof -
  from assms(2) have "p \<noteq> zero_Project" by (auto simp: zero_Project_def)
  with phase_inv_history [OF assms(1)] have "promise ProjectCompleted p"
    using assms(2) by (auto simp: phase_inv_def split: if_splits)
  with completion_in_history [OF assms(1)] assms(2) show ?thesis by (simp add: promise_def)
qed

theorem project_completion_gate_witness:
  "approved_goal (prj_Goal (run_project ex_completed))
   \<and> (\<exists>c \<in> set (accepted_project ex_completed). completes c)"
  using project_completion_gate [OF run_project_history [of ex_completed] ex_completed_state] by simp

text \<open>
  Every reachable project keeps the promise of its state (approved goal, valid plan, no
  early summary, no early release), also while it is paused, and is never in the two states the
  enumeration lists and no command enters.
\<close>

lemma project_phase_invariant:
  assumes "history DecideProject ApplyProject zero_Project cs p" and "prj_ID p \<noteq> []"
  shows "phase_inv p \<and> prj_State p \<noteq> ProjectBlockedUserDecision \<and> prj_State p \<noteq> ProjectFailedSystem"
proof -
  from assms have inv: "phase_inv p" using phase_inv_history by (force simp: zero_Project_def)
  moreover from inv have "prj_State p \<noteq> ProjectBlockedUserDecision \<and> prj_State p \<noteq> ProjectFailedSystem"
    by (auto simp: phase_inv_def promise_def split: if_splits)
  ultimately show ?thesis by blast
qed

text \<open>
  Completed, aborted and archived projects stay so, except that the first two may be
  archived; an archived project stays archived.
\<close>

lemma project_terminal_final:
  assumes "DecideProject p c = Inr e" and "ApplyProject p e = Inr p'"
    and "prj_ID p \<noteq> []" and "prj_State p \<in> {ProjectCompleted, ProjectAborted, ProjectArchived}"
  shows "prj_State p' = prj_State p \<or> prj_State p' = ProjectArchived"
proof -
  from assms(1,2) obtain t n where "project_command (pc_Type c) p c = Inr (t, n)"
    and "p' = n\<lparr>prj_Version := add64 (prj_Version p) 1\<rparr>" by (rule project_stepE)
  with terminal_step [of "pc_Type c" p c t n] assms(3,4) show ?thesis by (auto simp: terminalProjectState_def)
qed

text \<open>
  The life cycle of a deletion. In every reachable project legal holds have distinct
  identifiers; a deletion is blocked exactly while a hold is active and ready only when none
  is; erasure starts no earlier than the execution time it was requested for, which is not
  before the request; a completed deletion has a proof digest with its artifact address, and
  goal, plan, targets, routes, prompt version and release approval are gone for good.
\<close>

lemma project_deletion_lifecycle:
  assumes "history DecideProject ApplyProject zero_Project cs p"
  shows "deletion_inv p"
  using assms by (rule deletion_inv_history)

text \<open>
  C22: a project is the replay of its events. Whatever commands are run, every event that is decided is
  accepted: the events are numbered 1, 2, 3 and so on without a gap, replaying them gives the project,
  which is exactly the projection the last of them carries, and the next event that is decided, for a
  project that exists or is created, applies to it, gives exactly the projection it carries and has the
  next number. The log cannot be replayed otherwise: a selection of its events, in any order and with
  any repetitions, is accepted only if it is the beginning of the log.
\<close>

theorem project_replay:
  assumes "run_commands DecideProject ApplyProject zero_Project cs = (p, es)" and "int (length cs) + 1 < 2 ^ 63"
  shows "replay ApplyProject zero_Project es = Inr p
    \<and> map pe_AggregateVersion es = [1..int (length es)] \<and> prj_Version p = int (length es)
    \<and> p = (if es = [] then zero_Project else pe_Projection (last es))
    \<and> (\<forall>c e. DecideProject p c = Inr e \<and> (es \<noteq> [] \<or> pc_Type c = ProjectCommandCreate) \<longrightarrow>
         ApplyProject p e = Inr (pe_Projection e)
         \<and> pe_AggregateVersion e = int (length es) + 1 \<and> prj_Version (pe_Projection e) = int (length es) + 1)
    \<and> (\<forall>fs q. set fs \<subseteq> set es \<and> replay ApplyProject zero_Project fs = Inr q \<longrightarrow> fs = take (length fs) es)"
proof -
  have z: "prj_Version zero_Project = 0" by (simp add: zero_Project_def)
  have len: "int (length es) + 1 < 2 ^ 63"
    using run_commands_count [of DecideProject ApplyProject zero_Project cs] assms by simp
  have replayed: "replay ApplyProject zero_Project es = Inr p"
    using project.replay_run [of zero_Project cs] assms(1) by simp
  have versions: "map pe_AggregateVersion es = [1..int (length es)]" "prj_Version p = int (length es)"
    using project.replay_versions [OF replayed] len by (simp_all add: z)
  have last: "p = pe_Projection (last es) \<and> prj_ID p \<noteq> []" if "es \<noteq> []"
  proof -
    from that replayed replay_last [of ApplyProject zero_Project "butlast es" "last es" p]
    obtain q where "ApplyProject q (last es) = Inr p" by auto
    then show ?thesis by (simp add: ApplyProject_iff)
  qed
  have accepted: "ApplyProject p e = Inr (pe_Projection e)
      \<and> pe_AggregateVersion e = int (length es) + 1 \<and> prj_Version (pe_Projection e) = int (length es) + 1"
    if dec: "DecideProject p c = Inr e" and c: "es \<noteq> [] \<or> pc_Type c = ProjectCommandCreate" for c e
  proof -
    from dec obtain t n where cmd: "project_command (pc_Type c) p c = Inr (t, n)" and at: "pc_At c \<noteq> 0"
      and e: "e = \<lparr>pe_Type = t, pe_AggregateVersion = add64 (prj_Version p) 1, pe_OccurredAt = pc_At c,
                 pe_Projection = n\<lparr>prj_Version := add64 (prj_Version p) 1\<rparr>\<rparr>"
      by (rule DecideProject_InrE)
    have "prj_ID n \<noteq> []"
    proof (cases "pc_Type c = ProjectCommandCreate")
      case True
      with cmd show ?thesis by (auto simp: project_commands Let_def split: option.splits if_splits)
    next
      case False
      with c last have "prj_ID p \<noteq> []" by blast
      with cmd show ?thesis
        by (cases "pc_Type c") (auto simp: project_commands Let_def split: option.splits if_splits)
    qed
    moreover have "add64 (prj_Version p) 1 = int (length es) + 1"
      using len by (simp add: versions(2) add64_id int64_def)
    ultimately show ?thesis using at by (simp add: ApplyProject_iff e)
  qed
  have prefix: "fs = take (length fs) es" if "set fs \<subseteq> set es" "replay ApplyProject zero_Project fs = Inr q" for fs q
    using project.replay_prefix [OF replayed that(2,1)] len by (simp add: z)
  from replayed versions last accepted prefix show ?thesis by auto
qed

text \<open>
  What is decided for a project applies to it: the event is accepted, the version rises by
  one, and the same event is refused by the project it has been applied to.
\<close>

lemma project_decided_applies:
  assumes "DecideProject p c = Inr e" and "prj_ID p \<noteq> []"
  shows "\<exists>p'. ApplyProject p e = Inr p' \<and> prj_Version p' = add64 (prj_Version p) 1
    \<and> prj_ID p' = prj_ID p \<and> isl (ApplyProject p' e)"
proof -
  from assms(1) obtain t n where cmd: "project_command (pc_Type c) p c = Inr (t, n)" and at: "pc_At c \<noteq> 0"
    and e: "e = \<lparr>pe_Type = t, pe_AggregateVersion = add64 (prj_Version p) 1, pe_OccurredAt = pc_At c,
               pe_Projection = n\<lparr>prj_Version := add64 (prj_Version p) 1\<rparr>\<rparr>"
    by (rule DecideProject_InrE)
  have same: "prj_ID n = prj_ID p"
    using cmd assms(2)
    by (cases "pc_Type c") (auto simp: project_commands Let_def split: option.splits if_splits)
  let ?p' = "n\<lparr>prj_Version := add64 (prj_Version p) 1\<rparr>"
  have ok: "ApplyProject p e = Inr ?p'" using same assms(2) at by (simp add: ApplyProject_iff e)
  moreover have "isl (ApplyProject ?p' e)" using project.apply_twice_rejected [OF ok] by (metis sum.disc(1) sum.exhaust)
  ultimately show ?thesis using same by auto
qed

lemma check_model_roles_None:
  "check_model_roles m roles = None \<longleftrightarrow>
     (\<forall>r \<in> set roles. \<exists>route. map_of m r = Some route \<and> validProjectModelRoute route)"
  by (induction m roles rule: check_model_roles.induct) (auto split: option.split)

text \<open>
  The routes of a project are accepted exactly when they cover the eight roles, no other,
  and every route is valid; so the order of the map does not matter.
\<close>

lemma model_routes_exact:
  assumes "gomap_ok m"
  shows "ValidateProjectModelRoutes m = None \<longleftrightarrow>
     fst ` set m = set requiredProjectModelRoles \<and> (\<forall>(role, route) \<in> set m. validProjectModelRoute route)"
proof -
  let ?R = "requiredProjectModelRoles"
  have card: "card (fst ` set m) = length m" using assms by (rule amap.ok_card)
  have "distinct ?R" by (simp add: requiredProjectModelRoles_def)
  then have cardR: "card (set ?R) = length ?R" by (rule distinct_card)
  have entry: "(r, route) \<in> set m \<longleftrightarrow> map_of m r = Some route" for r route
    using assms by (simp add: gomap_ok_def)
  show ?thesis
  proof
    assume "ValidateProjectModelRoutes m = None"
    then have len: "length m = length ?R" and all: "\<forall>r \<in> set ?R. \<exists>route. map_of m r = Some route \<and> validProjectModelRoute route"
      by (auto simp: ValidateProjectModelRoutes_def check_model_roles_None split: if_splits)
    then have "set ?R \<subseteq> fst ` set m" using entry by force
    with card cardR len have eq: "fst ` set m = set ?R" by (metis List.finite_set card_subset_eq finite_imageI)
    moreover have "validProjectModelRoute route" if "(r, route) \<in> set m" for r route
    proof -
      from that eq have "r \<in> set ?R" by force
      with all that entry show ?thesis by force
    qed
    ultimately show "fst ` set m = set ?R \<and> (\<forall>(role, route) \<in> set m. validProjectModelRoute route)" by blast
  next
    assume r: "fst ` set m = set ?R \<and> (\<forall>(role, route) \<in> set m. validProjectModelRoute route)"
    then have "length m = length ?R" using card cardR by simp
    moreover have "\<exists>route. map_of m x = Some route \<and> validProjectModelRoute route" if "x \<in> set ?R" for x
    proof -
      from that r obtain route where "(x, route) \<in> set m" by force
      with r entry show ?thesis by blast
    qed
    ultimately show "ValidateProjectModelRoutes m = None"
      by (simp add: ValidateProjectModelRoutes_def check_model_roles_None)
  qed
qed

definition ex_route :: ProjectModelRoute where
  "ex_route = \<lparr>rt_Provider = ''OpenAI'', rt_Model = ''model'', rt_ReasoningEffort = ''high'',
     rt_ContextWindowTokens = 1000, rt_CompactionThresholdTokens = 900, rt_MaxOutputTokens = 100,
     rt_ThinkingBudget = 10, rt_Temperature = Finite 1, rt_Seed = None, rt_ProviderPolicy = ''policy'',
     rt_CachePolicy = ''cache'', rt_WorstCaseCostMicros = 5, rt_MaxAttempts = 3\<rparr>"

text \<open>
  What creation fixes stays: in every reachable project the soft budget limit is between
  zero and the hard limit, the currency is three capital letters, there are one or two goal
  agents, tenant, creator and name are present, deployment targets are distinct, and routes
  that are present are valid.
\<close>

lemma project_configuration:
  assumes "history DecideProject ApplyProject zero_Project cs p" and "prj_ID p \<noteq> []"
  shows "config_ok p"
  using config_history [OF assms(1)] assms(2) by (auto simp: zero_Project_def)

text \<open>
  The core summary outlives the deletion. The record of a completed deletion is
  documented as a content-free index, and goal, plan and routes are erased, but a project whose
  core summary was published keeps it.
\<close>

lemma core_summary_survives_deletion:
  "\<exists>cs p. history DecideProject ApplyProject zero_Project cs p \<and> erased p
     \<and> map_option dl_Status (prj_Deletion p) = Some ProjectDeletionCompleted \<and> prj_CoreSummary p \<noteq> None"
proof -
  have "erased (run_project ex_deleted)"
    using deletion_inv_history [OF run_project_history [of ex_deleted]] ex_deleted_state
    by (auto simp: deletion_inv_def)
  with run_project_history [of ex_deleted] ex_deleted_state show ?thesis by blast
qed

lemma ex_planned_run:
  "map pe_AggregateVersion (snd (run_commands DecideProject ApplyProject zero_Project ex_planned)) = [1, 2, 3, 4, 5]"
  by code_simp

theorem project_replay_witness:
  "prj_Version (run_project ex_planned) = 5
     \<and> run_project ex_planned = pe_Projection (last (snd (run_commands DecideProject ApplyProject zero_Project ex_planned)))"
proof -
  let ?run = "run_commands DecideProject ApplyProject zero_Project ex_planned"
  have "length (map pe_AggregateVersion (snd ?run)) = 5" unfolding ex_planned_run by simp
  then have len: "length (snd ?run) = 5" "snd ?run \<noteq> []" by auto
  have "int (length ex_planned) + 1 < 2 ^ 63" by (simp add: ex_planned_def)
  note replayed = project_replay [OF prod.collapse [symmetric] this]
  from replayed have "prj_Version (fst ?run) = int (length (snd ?run))" by (elim conjE)
  then have "prj_Version (fst ?run) = 5" using len(1) by simp
  moreover from replayed have "fst ?run = (if snd ?run = [] then zero_Project else pe_Projection (last (snd ?run)))"
    by (elim conjE)
  then have "fst ?run = pe_Projection (last (snd ?run))" using len(2) by (simp only: if_False)
  ultimately show ?thesis unfolding run_project_def by blast
qed

end
