(* ===== verification/Task_State.thy ===== *)
theory Task_State
  imports Aggregate Approval
begin

text \<open>
  The module task aggregate of \<open>internal/state/task.go\<close>: one definition per command of
  \<open>DecideTask\<close>, and \<open>ApplyTask\<close>.
\<close>

section \<open>Data\<close>

record ModuleTask =
  mt_TenantID :: string
  mt_ProjectID :: string
  mt_ID :: string
  mt_ModuleID :: string
  mt_State :: ModuleTaskState
  mt_Version :: int
  mt_PlanningSpecRef :: SpecRef
  mt_ModuleSpecRef :: SpecRef
  mt_AttemptSeriesID :: string
  mt_AttemptSeriesIDs :: "string list"
  mt_Attempt :: int
  mt_FencingToken :: int
  mt_DependentTaskIDs :: "string list"
  mt_FrozenDependentIDs :: "string list"
  mt_BlockingTaskIDs :: "string list"
  mt_BlockedFromState :: ModuleTaskState
  mt_ModuleSpecSourceTaskID :: string

datatype TaskCommandType =
    TaskCommandDefine
  | TaskCommandQueuePlanning
  | TaskCommandStartPlanning
  | TaskCommandAttachModuleSpec
  | TaskCommandReadyExecution
  | TaskCommandLeaseExecution
  | TaskCommandSubmit
  | TaskCommandStartAudit
  | TaskCommandDeterministicSuccess
  | TaskCommandDeterministicFailure
  | TaskCommandLLMSuccess
  | TaskCommandLLMFailure
  | TaskCommandQueueRework
  | TaskCommandIntegrate
  | TaskCommandBlockDependency
  | TaskCommandUnblockDependency
  | TaskCommandAuthorizeNewSeries
  | TaskCommandSupersede
  | TaskCommandOther string

primrec taskCommandType_string :: "TaskCommandType \<Rightarrow> string" where
  "taskCommandType_string TaskCommandDefine = ''DEFINE_TASK''"
| "taskCommandType_string TaskCommandQueuePlanning = ''QUEUE_PLANNING''"
| "taskCommandType_string TaskCommandStartPlanning = ''START_PLANNING''"
| "taskCommandType_string TaskCommandAttachModuleSpec = ''ATTACH_MODULE_SPEC''"
| "taskCommandType_string TaskCommandReadyExecution = ''READY_EXECUTION''"
| "taskCommandType_string TaskCommandLeaseExecution = ''LEASE_EXECUTION''"
| "taskCommandType_string TaskCommandSubmit = ''SUBMIT_IMPLEMENTATION''"
| "taskCommandType_string TaskCommandStartAudit = ''START_AUDIT''"
| "taskCommandType_string TaskCommandDeterministicSuccess = ''DETERMINISTIC_SUCCESS''"
| "taskCommandType_string TaskCommandDeterministicFailure = ''DETERMINISTIC_FAILURE''"
| "taskCommandType_string TaskCommandLLMSuccess = ''LLM_SUCCESS''"
| "taskCommandType_string TaskCommandLLMFailure = ''LLM_FAILURE''"
| "taskCommandType_string TaskCommandQueueRework = ''QUEUE_REWORK''"
| "taskCommandType_string TaskCommandIntegrate = ''INTEGRATE''"
| "taskCommandType_string TaskCommandBlockDependency = ''BLOCK_DEPENDENCY''"
| "taskCommandType_string TaskCommandUnblockDependency = ''UNBLOCK_DEPENDENCY''"
| "taskCommandType_string TaskCommandAuthorizeNewSeries = ''AUTHORIZE_NEW_ATTEMPT_SERIES''"
| "taskCommandType_string TaskCommandSupersede = ''SUPERSEDE''"
| "taskCommandType_string (TaskCommandOther s) = s"

record TaskCommand =
  tc_Type :: TaskCommandType
  tc_TenantID :: string
  tc_ProjectID :: string
  tc_TaskID :: string
  tc_ModuleID :: string
  tc_PlanningSpecRef :: SpecRef
  tc_ModuleSpecRef :: SpecRef
  tc_AttemptSeriesID :: string
  tc_FencingToken :: int
  tc_Recover :: bool
  tc_DependentTaskIDs :: "string list"
  tc_FrozenDependentIDs :: "string list"
  tc_BlockingTaskIDs :: "string list"
  tc_BlockedFromState :: ModuleTaskState
  tc_ModuleSpecSourceTaskID :: string
  tc_BlockingTaskID :: string
  tc_ActorID :: string
  tc_Decision :: UserDecision
  tc_DecisionRecordID :: string
  tc_DecisionReportSHA256 :: string
  tc_NewAttemptSeriesID :: string
  tc_Approval :: "ApprovalBinding option"
  tc_SubmissionValidated :: bool
  tc_AuditEvidenceSHA256 :: string
  tc_FreshAuditor :: bool
  tc_BlindAuditContext :: bool
  tc_NoBlockingFindings :: bool
  tc_DependenciesSatisfied :: bool
  tc_MergeGatePassed :: bool
  tc_At :: time

record TaskEvent =
  te_Type :: string
  te_AggregateVersion :: int
  te_OccurredAt :: time
  te_Projection :: ModuleTask

definition zero_ModuleTask :: ModuleTask where
  "zero_ModuleTask =
     \<lparr>mt_TenantID = [],
      mt_ProjectID = [],
      mt_ID = [],
      mt_ModuleID = [],
      mt_State = TaskStateOther [],
      mt_Version = 0,
      mt_PlanningSpecRef = zero_SpecRef,
      mt_ModuleSpecRef = zero_SpecRef,
      mt_AttemptSeriesID = [],
      mt_AttemptSeriesIDs = [],
      mt_Attempt = 0,
      mt_FencingToken = 0,
      mt_DependentTaskIDs = [],
      mt_FrozenDependentIDs = [],
      mt_BlockingTaskIDs = [],
      mt_BlockedFromState = TaskStateOther [],
      mt_ModuleSpecSourceTaskID = []\<rparr>"

text \<open>A command literal that sets only its type and time.\<close>

definition bare_task_command :: "TaskCommandType \<Rightarrow> time \<Rightarrow> TaskCommand" where
  "bare_task_command ty at_time =
     \<lparr>tc_Type = ty,
      tc_TenantID = [],
      tc_ProjectID = [],
      tc_TaskID = [],
      tc_ModuleID = [],
      tc_PlanningSpecRef = zero_SpecRef,
      tc_ModuleSpecRef = zero_SpecRef,
      tc_AttemptSeriesID = [],
      tc_FencingToken = 0,
      tc_Recover = False,
      tc_DependentTaskIDs = [],
      tc_FrozenDependentIDs = [],
      tc_BlockingTaskIDs = [],
      tc_BlockedFromState = TaskStateOther [],
      tc_ModuleSpecSourceTaskID = [],
      tc_BlockingTaskID = [],
      tc_ActorID = [],
      tc_Decision = DecisionOther [],
      tc_DecisionRecordID = [],
      tc_DecisionReportSHA256 = [],
      tc_NewAttemptSeriesID = [],
      tc_Approval = None,
      tc_SubmissionValidated = False,
      tc_AuditEvidenceSHA256 = [],
      tc_FreshAuditor = False,
      tc_BlindAuditContext = False,
      tc_NoBlockingFindings = False,
      tc_DependenciesSatisfied = False,
      tc_MergeGatePassed = False,
      tc_At = at_time\<rparr>"

section \<open>Guards\<close>

definition cloneTask :: "ModuleTask \<Rightarrow> ModuleTask" where
  "cloneTask task =
     task\<lparr>mt_AttemptSeriesIDs := [] @ mt_AttemptSeriesIDs task,
          mt_DependentTaskIDs := [] @ mt_DependentTaskIDs task,
          mt_FrozenDependentIDs := [] @ mt_FrozenDependentIDs task,
          mt_BlockingTaskIDs := [] @ mt_BlockingTaskIDs task\<rparr>"

lemma cloneTask_id [clone_simps, simp]: "cloneTask t = t"
  by (simp add: cloneTask_def)

definition invalidDependents :: "string \<Rightarrow> string list \<Rightarrow> bool" where
  "invalidDependents taskID values \<longleftrightarrow> \<not> scan_distinct (\<lambda>v. v = [] \<or> v = taskID) [] values"

definition invalidTaskMetadata :: "string \<Rightarrow> string list \<Rightarrow> bool" where
  "invalidTaskMetadata taskID values \<longleftrightarrow> length values \<noteq> 0 \<and> invalidDependents taskID values"

definition optionalSpecRefInvalid :: "SpecRef \<Rightarrow> bool" where
  "optionalSpecRefInvalid ref \<longleftrightarrow> ref \<noteq> zero_SpecRef \<and> SpecRef_Validate ref \<noteq> None"

fun containsString :: "string list \<Rightarrow> string \<Rightarrow> bool" where
  "containsString [] wanted = False"
| "containsString (v # vs) wanted = (if v = wanted then True else containsString vs wanted)"

fun removeString :: "string list \<Rightarrow> string \<Rightarrow> string list" where
  \<comment> \<open>the source allocates one element less than it is given; it only calls this when the
    element is in the list\<close>
  "removeString [] removed = []"
| "removeString (v # vs) removed =
     (if v \<noteq> removed then v # removeString vs removed else removeString vs removed)"

definition invalidTask :: "TaskCommand \<Rightarrow> string \<Rightarrow> aor_error" where
  "invalidTask command reason =
     New CodeInvalidArgument []
       [(''scope'', DString (taskCommandType_string (tc_Type command) @ '': '' @ reason))]"

definition transitionTask :: "TaskCommand \<Rightarrow> ModuleTaskState \<Rightarrow> aor_error" where
  "transitionTask command current =
     New CodeInvalidStateTransition []
       [(''scope'', DString (taskCommandType_string (tc_Type command))),
        (''actualVersion'', DString (moduleTaskState_string current))]"

section \<open>Commands\<close>

type_synonym task_outcome = "aor_error + string \<times> ModuleTask"

definition task_define :: "ModuleTask \<Rightarrow> TaskCommand \<Rightarrow> task_outcome" where
  "task_define current command =
     (if mt_Version current \<noteq> 0 \<or> mt_ID current \<noteq> [] \<or> tc_TenantID command = []
         \<or> tc_ProjectID command = [] \<or> tc_TaskID command = [] \<or> tc_AttemptSeriesID command = []
         \<or> SpecRef_Validate (tc_ModuleSpecRef command) \<noteq> None
         \<or> optionalSpecRefInvalid (tc_PlanningSpecRef command)
         \<or> invalidDependents (tc_TaskID command) (tc_DependentTaskIDs command)
         \<or> invalidTaskMetadata (tc_TaskID command) (tc_FrozenDependentIDs command)
         \<or> invalidTaskMetadata (tc_TaskID command) (tc_BlockingTaskIDs command)
         \<or> tc_ModuleSpecSourceTaskID command = tc_TaskID command
         \<or> tc_ModuleSpecSourceTaskID command \<noteq> [] \<and> tc_PlanningSpecRef command = zero_SpecRef
      then Inl (invalidTask command ''task definition guard'')
      else Inr (''io.aor.module.defined.v1'',
                zero_ModuleTask\<lparr>
                  mt_TenantID := tc_TenantID command, mt_ProjectID := tc_ProjectID command,
                  mt_ID := tc_TaskID command, mt_State := TaskDefined,
                  mt_ModuleID := tc_ModuleID command,
                  mt_PlanningSpecRef := tc_PlanningSpecRef command,
                  mt_ModuleSpecRef := tc_ModuleSpecRef command,
                  mt_AttemptSeriesID := tc_AttemptSeriesID command,
                  mt_AttemptSeriesIDs := [tc_AttemptSeriesID command],
                  mt_DependentTaskIDs := tc_DependentTaskIDs command,
                  mt_FrozenDependentIDs := tc_FrozenDependentIDs command,
                  mt_BlockingTaskIDs := tc_BlockingTaskIDs command,
                  mt_BlockedFromState := tc_BlockedFromState command,
                  mt_ModuleSpecSourceTaskID := tc_ModuleSpecSourceTaskID command\<rparr>))"

definition task_queue_planning :: "ModuleTask \<Rightarrow> TaskCommand \<Rightarrow> task_outcome" where
  "task_queue_planning current command =
     (if mt_Version current \<noteq> 0 \<or> mt_ID current \<noteq> [] \<or> tc_TenantID command = []
         \<or> tc_ProjectID command = [] \<or> tc_TaskID command = [] \<or> tc_ModuleID command = []
         \<or> SpecRef_Validate (tc_PlanningSpecRef command) \<noteq> None
         \<or> invalidDependents (tc_TaskID command) (tc_DependentTaskIDs command)
      then Inl (invalidTask command ''planning task guard'')
      else Inr (''io.aor.module.planning-queued.v1'',
                zero_ModuleTask\<lparr>
                  mt_TenantID := tc_TenantID command, mt_ProjectID := tc_ProjectID command,
                  mt_ID := tc_TaskID command, mt_ModuleID := tc_ModuleID command,
                  mt_State := TaskQueuedPlanning,
                  mt_PlanningSpecRef := tc_PlanningSpecRef command,
                  mt_DependentTaskIDs := tc_DependentTaskIDs command\<rparr>))"

definition task_start_planning :: "ModuleTask \<Rightarrow> TaskCommand \<Rightarrow> task_outcome" where
  "task_start_planning current command =
     (if mt_State current \<noteq> TaskQueuedPlanning \<or> mt_ModuleID current = []
         \<or> SpecRef_Validate (mt_PlanningSpecRef current) \<noteq> None
         \<or> mt_ModuleSpecRef current \<noteq> zero_SpecRef \<or> mt_AttemptSeriesID current \<noteq> []
         \<or> length (mt_AttemptSeriesIDs current) \<noteq> 0
      then Inl (transitionTask command (mt_State current))
      else Inr (''io.aor.module.planning-started.v1'', (cloneTask current)\<lparr>mt_State := TaskPlanning\<rparr>))"

definition task_attach_module_spec :: "ModuleTask \<Rightarrow> TaskCommand \<Rightarrow> task_outcome" where
  "task_attach_module_spec current command =
     (if mt_State current \<noteq> TaskPlanning \<or> mt_ModuleID current = []
         \<or> SpecRef_Validate (mt_PlanningSpecRef current) \<noteq> None
         \<or> mt_ModuleSpecRef current \<noteq> zero_SpecRef
         \<or> SpecRef_Validate (tc_ModuleSpecRef command) \<noteq> None \<or> tc_AttemptSeriesID command = []
      then Inl (transitionTask command (mt_State current))
      else Inr (''io.aor.module.spec-attached.v1'',
                (cloneTask current)\<lparr>mt_ModuleSpecRef := tc_ModuleSpecRef command,
                  mt_AttemptSeriesID := tc_AttemptSeriesID command,
                  mt_AttemptSeriesIDs := [tc_AttemptSeriesID command],
                  mt_State := TaskDefined\<rparr>))"

definition task_ready_execution :: "ModuleTask \<Rightarrow> TaskCommand \<Rightarrow> task_outcome" where
  "task_ready_execution current command =
     (if mt_State current \<noteq> TaskDefined \<and> mt_State current \<noteq> TaskReworkRequired then
        (if mt_State current = TaskBlockedUserDecision then Inl (New CodeAttemptLimitReached [] [])
         else Inl (transitionTask command (mt_State current)))
      else if mt_Attempt current \<ge> 3 then Inl (New CodeAttemptLimitReached [] [])
      else Inr (''io.aor.module.execution-ready.v1'', (cloneTask current)\<lparr>mt_State := TaskReadyExecution\<rparr>))"

definition task_lease_execution :: "ModuleTask \<Rightarrow> TaskCommand \<Rightarrow> task_outcome" where
  "task_lease_execution current command =
     (let leased = Inr (if tc_Recover command then ''io.aor.module.execution-recovered.v1''
                        else ''io.aor.module.execution-leased.v1'',
                        (cloneTask current)\<lparr>mt_FencingToken := tc_FencingToken command,
                          mt_State := TaskExecuting\<rparr>)
      in
      if mt_State current = TaskReadyExecution then
        (if tc_Recover command \<or> tc_FencingToken command \<le> mt_FencingToken current
         then Inl (New CodeLeaseExpired [] []) else leased)
      else if mt_State current = TaskExecuting then
        (if \<not> tc_Recover command \<or> tc_FencingToken command \<le> mt_FencingToken current
         then Inl (New CodeLeaseExpired [] []) else leased)
      else Inl (transitionTask command (mt_State current)))"

definition task_submit :: "ModuleTask \<Rightarrow> TaskCommand \<Rightarrow> task_outcome" where
  "task_submit current command =
     (if mt_State current \<noteq> TaskExecuting then Inl (transitionTask command (mt_State current))
      else if tc_FencingToken command \<noteq> mt_FencingToken current then Inl (New CodeLeaseExpired [] [])
      else if tc_ModuleSpecRef command \<noteq> mt_ModuleSpecRef current
              \<or> tc_AttemptSeriesID command \<noteq> mt_AttemptSeriesID current
      then Inl (New CodeSpecSuperseded [] [])
      else if mt_Attempt current \<ge> 3 then Inl (New CodeAttemptLimitReached [] [])
      else Inr (''io.aor.module.implementation-submitted.v1'',
                (cloneTask current)\<lparr>mt_Attempt := add64 (mt_Attempt current) 1,
                  mt_State := TaskSubmitted\<rparr>))"

definition task_start_audit :: "ModuleTask \<Rightarrow> TaskCommand \<Rightarrow> task_outcome" where
  "task_start_audit current command =
     (if mt_State current \<noteq> TaskSubmitted \<or> \<not> tc_SubmissionValidated command
         \<or> \<not> validDigest (tc_AuditEvidenceSHA256 command)
      then Inl (transitionTask command (mt_State current))
      else Inr (''io.aor.module.deterministic-audit-started.v1'',
                (cloneTask current)\<lparr>mt_State := TaskDeterministicAudit\<rparr>))"

definition task_deterministic_success :: "ModuleTask \<Rightarrow> TaskCommand \<Rightarrow> task_outcome" where
  "task_deterministic_success current command =
     (if mt_State current \<noteq> TaskDeterministicAudit \<or> \<not> validDigest (tc_AuditEvidenceSHA256 command)
      then Inl (transitionTask command (mt_State current))
      else Inr (''io.aor.module.deterministic-audit-passed.v1'',
                (cloneTask current)\<lparr>mt_State := TaskLLMAudit\<rparr>))"

definition audit_failed :: "ModuleTask \<Rightarrow> string \<Rightarrow> string \<times> ModuleTask" where
  \<comment> \<open>what both audit failures do: the third one blocks the task and freezes its dependents\<close>
  "audit_failed current rework_event =
     (if mt_Attempt current = 3
      then (''io.aor.module.blocked-user-decision.v1'',
            (cloneTask current)\<lparr>mt_State := TaskBlockedUserDecision,
              mt_FrozenDependentIDs := [] @ mt_DependentTaskIDs current\<rparr>)
      else (rework_event, (cloneTask current)\<lparr>mt_State := TaskReworkRequired\<rparr>))"

definition task_deterministic_failure :: "ModuleTask \<Rightarrow> TaskCommand \<Rightarrow> task_outcome" where
  "task_deterministic_failure current command =
     (if mt_State current \<noteq> TaskDeterministicAudit \<or> \<not> validDigest (tc_AuditEvidenceSHA256 command)
      then Inl (transitionTask command (mt_State current))
      else Inr (audit_failed current ''io.aor.module.deterministic-audit-failed.v1''))"

definition task_llm_success :: "ModuleTask \<Rightarrow> TaskCommand \<Rightarrow> task_outcome" where
  "task_llm_success current command =
     (if mt_State current \<noteq> TaskLLMAudit \<or> \<not> tc_FreshAuditor command \<or> \<not> tc_BlindAuditContext command
         \<or> \<not> tc_NoBlockingFindings command \<or> \<not> validDigest (tc_AuditEvidenceSHA256 command)
      then Inl (transitionTask command (mt_State current))
      else Inr (''io.aor.module.llm-audit-passed.v1'', (cloneTask current)\<lparr>mt_State := TaskPassed\<rparr>))"

definition task_llm_failure :: "ModuleTask \<Rightarrow> TaskCommand \<Rightarrow> task_outcome" where
  "task_llm_failure current command =
     (if mt_State current \<noteq> TaskLLMAudit \<or> \<not> tc_FreshAuditor command \<or> \<not> tc_BlindAuditContext command
         \<or> \<not> validDigest (tc_AuditEvidenceSHA256 command)
      then Inl (transitionTask command (mt_State current))
      else Inr (audit_failed current ''io.aor.module.llm-audit-failed.v1''))"

definition task_queue_rework :: "ModuleTask \<Rightarrow> TaskCommand \<Rightarrow> task_outcome" where
  "task_queue_rework current command =
     (if mt_State current = TaskBlockedUserDecision \<or> mt_Attempt current \<ge> 3
      then Inl (New CodeAttemptLimitReached [] [])
      else if mt_State current \<noteq> TaskReworkRequired then Inl (transitionTask command (mt_State current))
      else Inr (''io.aor.module.rework-queued.v1'', (cloneTask current)\<lparr>mt_State := TaskReadyExecution\<rparr>))"

definition task_integrate :: "ModuleTask \<Rightarrow> TaskCommand \<Rightarrow> task_outcome" where
  "task_integrate current command =
     (if mt_State current \<noteq> TaskPassed \<or> \<not> tc_DependenciesSatisfied command
         \<or> \<not> tc_MergeGatePassed command \<or> \<not> validDigest (tc_AuditEvidenceSHA256 command)
      then Inl (transitionTask command (mt_State current))
      else Inr (''io.aor.module.integrated.v1'', (cloneTask current)\<lparr>mt_State := TaskIntegrated\<rparr>))"

definition task_block_dependency :: "ModuleTask \<Rightarrow> TaskCommand \<Rightarrow> task_outcome" where
  "task_block_dependency current command =
     (if tc_BlockingTaskID command = [] \<or> tc_BlockingTaskID command = mt_ID current
         \<or> containsString (mt_BlockingTaskIDs current) (tc_BlockingTaskID command)
         \<or> mt_State current = TaskIntegrated \<or> mt_State current = TaskCanceled
         \<or> mt_State current = TaskSuperseded \<or> mt_State current = TaskBlockedUserDecision
      then Inl (transitionTask command (mt_State current))
      else Inr (''io.aor.module.blocked-dependency.v1'',
                (cloneTask current)\<lparr>
                  mt_BlockedFromState := (if mt_State current \<noteq> TaskBlockedDependency
                                          then mt_State current else mt_BlockedFromState current),
                  mt_BlockingTaskIDs := mt_BlockingTaskIDs current @ [tc_BlockingTaskID command],
                  mt_State := TaskBlockedDependency\<rparr>))"

definition task_unblock_dependency :: "ModuleTask \<Rightarrow> TaskCommand \<Rightarrow> task_outcome" where
  "task_unblock_dependency current command =
     (if mt_State current \<noteq> TaskBlockedDependency \<or> tc_BlockingTaskID command = []
         \<or> \<not> containsString (mt_BlockingTaskIDs current) (tc_BlockingTaskID command)
      then Inl (transitionTask command (mt_State current))
      else
        (let rest = removeString (mt_BlockingTaskIDs current) (tc_BlockingTaskID command);
             next1 = (cloneTask current)\<lparr>mt_BlockingTaskIDs := rest\<rparr>
         in Inr (''io.aor.module.unblocked-dependency.v1'',
                 if length rest = 0
                 then next1\<lparr>mt_State := mt_BlockedFromState current, mt_BlockedFromState := TaskStateOther []\<rparr>
                 else next1)))"

definition task_authorize_new_series :: "ModuleTask \<Rightarrow> TaskCommand \<Rightarrow> task_outcome" where
  "task_authorize_new_series current command =
     (case tc_Approval command of
        None \<Rightarrow> Inl (New CodeApprovalRequired [] [])
      | Some approval \<Rightarrow>
          if mt_State current \<noteq> TaskBlockedUserDecision
             \<or> tc_Decision command \<noteq> DecisionAuthorizeNewAttemptSeries \<or> tc_ActorID command = []
             \<or> tc_DecisionRecordID command = [] \<or> \<not> validDigest (tc_DecisionReportSHA256 command)
             \<or> tc_NewAttemptSeriesID command = []
             \<or> containsString (mt_AttemptSeriesIDs current) (tc_NewAttemptSeriesID command)
          then Inl (transitionTask command (mt_State current))
          else if SpecRef_Validate (tc_ModuleSpecRef command) \<noteq> None
          then Inl (invalidTask command ''new ModuleSpec reference'')
          else if \<not> validAt approval (tc_At command) (tc_ActorID command) ''AUTHORIZE_NEW_ATTEMPT_SERIES''
                    ''MODULE_TASK'' (mt_ID current) (sr_Version (mt_ModuleSpecRef current))
                    (sr_SHA256 (mt_ModuleSpecRef current))
          then Inl (New CodeApprovalRequired [] [])
          else Inr (''io.aor.module.attempt-series-authorized.v1'',
                    (cloneTask current)\<lparr>
                      mt_AttemptSeriesID := tc_NewAttemptSeriesID command,
                      mt_AttemptSeriesIDs := mt_AttemptSeriesIDs current @ [tc_NewAttemptSeriesID command],
                      mt_ModuleSpecRef := tc_ModuleSpecRef command,
                      mt_Attempt := 0, mt_State := TaskReadyExecution,
                      mt_FrozenDependentIDs := []\<rparr>))"

definition task_supersede :: "ModuleTask \<Rightarrow> TaskCommand \<Rightarrow> task_outcome" where
  "task_supersede current command =
     (if mt_State current = TaskCanceled \<or> mt_State current = TaskSuperseded
      then Inl (transitionTask command (mt_State current))
      else Inr (''io.aor.module.superseded.v1'', (cloneTask current)\<lparr>mt_State := TaskSuperseded\<rparr>))"

primrec task_command :: "TaskCommandType \<Rightarrow> ModuleTask \<Rightarrow> TaskCommand \<Rightarrow> task_outcome" where
  "task_command TaskCommandDefine = task_define"
| "task_command TaskCommandQueuePlanning = task_queue_planning"
| "task_command TaskCommandStartPlanning = task_start_planning"
| "task_command TaskCommandAttachModuleSpec = task_attach_module_spec"
| "task_command TaskCommandReadyExecution = task_ready_execution"
| "task_command TaskCommandLeaseExecution = task_lease_execution"
| "task_command TaskCommandSubmit = task_submit"
| "task_command TaskCommandStartAudit = task_start_audit"
| "task_command TaskCommandDeterministicSuccess = task_deterministic_success"
| "task_command TaskCommandDeterministicFailure = task_deterministic_failure"
| "task_command TaskCommandLLMSuccess = task_llm_success"
| "task_command TaskCommandLLMFailure = task_llm_failure"
| "task_command TaskCommandQueueRework = task_queue_rework"
| "task_command TaskCommandIntegrate = task_integrate"
| "task_command TaskCommandBlockDependency = task_block_dependency"
| "task_command TaskCommandUnblockDependency = task_unblock_dependency"
| "task_command TaskCommandAuthorizeNewSeries = task_authorize_new_series"
| "task_command TaskCommandSupersede = task_supersede"
| "task_command (TaskCommandOther s) = (\<lambda>current command. Inl (invalidTask command ''unknown command''))"

definition DecideTask :: "ModuleTask \<Rightarrow> TaskCommand \<Rightarrow> aor_error + TaskEvent" where
  "DecideTask current command =
     (if is_zero_time (tc_At command) then Inl (invalidTask command ''trusted time is required'')
      else (case task_command (tc_Type command) current command of
              Inl err \<Rightarrow> Inl err
            | Inr (eventType, nxt) \<Rightarrow>
                Inr \<lparr>te_Type = eventType,
                     te_AggregateVersion = add64 (mt_Version current) 1,
                     te_OccurredAt = utc (tc_At command),
                     te_Projection = nxt\<lparr>mt_Version := add64 (mt_Version current) 1\<rparr>\<rparr>))"

definition ApplyTask :: "ModuleTask \<Rightarrow> TaskEvent \<Rightarrow> string + ModuleTask" where
  "ApplyTask current event =
     (if te_AggregateVersion event \<noteq> add64 (mt_Version current) 1
         \<or> mt_Version (te_Projection event) \<noteq> te_AggregateVersion event
         \<or> mt_ID (te_Projection event) = [] \<or> is_zero_time (te_OccurredAt event)
      then Inl ''task event version or projection is invalid''
      else Inr (cloneTask (te_Projection event)))"

lemma containsString_iff [simp]: "containsString vs w \<longleftrightarrow> w \<in> set vs"
  by (induction vs) auto

lemma removeString_filter: "removeString vs r = filter (\<lambda>v. v \<noteq> r) vs"
  by (induction vs) auto

end
