(* ===== verification/Task_Safety.thy ===== *)
theory Task_Safety
  imports Task_State
begin

text \<open>
  What holds of every module task: the event-sourcing contract, the invariant of its state,
  the bound on attempts, the fencing of leases, and the audits behind an integration.
\<close>

section \<open>Decide, then apply\<close>

lemma DecideTask_InrE:
  assumes "DecideTask t c = Inr e"
  obtains ty nxt where "task_command (tc_Type c) t c = Inr (ty, nxt)" and "tc_At c \<noteq> 0"
    and "e = \<lparr>te_Type = ty, te_AggregateVersion = add64 (mt_Version t) 1, te_OccurredAt = tc_At c,
             te_Projection = nxt\<lparr>mt_Version := add64 (mt_Version t) 1\<rparr>\<rparr>"
  using assms by (auto simp: DecideTask_def is_zero_time_def split: if_splits sum.splits prod.splits)

lemma ApplyTask_iff:
  "ApplyTask t e = Inr t' \<longleftrightarrow>
     te_AggregateVersion e = add64 (mt_Version t) 1 \<and> mt_Version (te_Projection e) = te_AggregateVersion e
     \<and> mt_ID (te_Projection e) \<noteq> [] \<and> te_OccurredAt e \<noteq> 0 \<and> t' = te_Projection e"
  by (auto simp: ApplyTask_def is_zero_time_def)

interpretation task: event_sourced DecideTask ApplyTask mt_Version te_AggregateVersion
proof unfold_locales
  fix s :: ModuleTask and c e
  assume "DecideTask s c = Inr e"
  then show "te_AggregateVersion e = add64 (mt_Version s) 1" by (auto elim: DecideTask_InrE)
qed (auto simp: ApplyTask_iff)

lemma task_stepE:
  assumes "DecideTask t c = Inr e" and "ApplyTask t e = Inr t'"
  obtains ty nxt where "task_command (tc_Type c) t c = Inr (ty, nxt)"
    and "t' = nxt\<lparr>mt_Version := add64 (mt_Version t) 1\<rparr>" and "mt_ID nxt \<noteq> []"
  using assms by (auto simp: ApplyTask_iff elim!: DecideTask_InrE)

lemmas task_commands [guard_simps] =
  task_define_def task_queue_planning_def task_start_planning_def task_attach_module_spec_def
  task_ready_execution_def task_lease_execution_def task_submit_def task_start_audit_def
  task_deterministic_success_def task_deterministic_failure_def task_llm_success_def
  task_llm_failure_def task_queue_rework_def task_integrate_def task_block_dependency_def
  task_unblock_dependency_def task_authorize_new_series_def task_supersede_def audit_failed_def

section \<open>The state invariant\<close>

text \<open>
  The phase of a task is its state, or the state a blocked task was blocked in. A phase
  promises the range of the attempt counter, and whether there is an attempt series.
\<close>

definition task_phase :: "ModuleTask \<Rightarrow> ModuleTaskState" where
  "task_phase t = (if mt_State t = TaskBlockedDependency then mt_BlockedFromState t else mt_State t)"

definition in_series :: "ModuleTask \<Rightarrow> bool" where
  "in_series t \<longleftrightarrow>
     mt_AttemptSeriesIDs t \<noteq> [] \<and> distinct (mt_AttemptSeriesIDs t) \<and> [] \<notin> set (mt_AttemptSeriesIDs t)
     \<and> mt_AttemptSeriesID t = last (mt_AttemptSeriesIDs t) \<and> SpecRef_Validate (mt_ModuleSpecRef t) = None"

definition before_series :: "ModuleTask \<Rightarrow> bool" where
  "before_series t \<longleftrightarrow>
     mt_AttemptSeriesIDs t = [] \<and> mt_AttemptSeriesID t = [] \<and> mt_ModuleSpecRef t = zero_SpecRef
     \<and> mt_Attempt t = 0"

primrec task_promise :: "ModuleTaskState \<Rightarrow> ModuleTask \<Rightarrow> bool" where
  "task_promise TaskDefined t = (mt_Attempt t = 0 \<and> in_series t)"
| "task_promise TaskQueuedPlanning t = before_series t"
| "task_promise TaskPlanning t = before_series t"
| "task_promise TaskReadyExecution t = (mt_Attempt t \<in> {0, 1, 2} \<and> in_series t)"
| "task_promise TaskQueuedExecution t = False"
| "task_promise TaskExecuting t = (mt_Attempt t \<in> {0, 1, 2} \<and> in_series t)"
| "task_promise TaskSubmitted t = (mt_Attempt t \<in> {1, 2, 3} \<and> in_series t)"
| "task_promise TaskDeterministicAudit t = (mt_Attempt t \<in> {1, 2, 3} \<and> in_series t)"
| "task_promise TaskLLMAudit t = (mt_Attempt t \<in> {1, 2, 3} \<and> in_series t)"
| "task_promise TaskReworkRequired t = (mt_Attempt t \<in> {1, 2} \<and> in_series t)"
| "task_promise TaskBlockedDependency t = False"
| "task_promise TaskBlockedUserDecision t =
     (mt_Attempt t = 3 \<and> in_series t \<and> mt_FrozenDependentIDs t = mt_DependentTaskIDs t)"
| "task_promise TaskPassed t = (mt_Attempt t \<in> {1, 2, 3} \<and> in_series t)"
| "task_promise TaskIntegrated t = (mt_Attempt t \<in> {1, 2, 3} \<and> in_series t)"
| "task_promise TaskCanceled t = False"
| "task_promise TaskSuperseded t = (mt_Attempt t \<in> {0, 1, 2, 3})"
| "task_promise (TaskStateOther s) t = False"

definition blocking_ok :: "ModuleTask \<Rightarrow> bool" where
  "blocking_ok t \<longleftrightarrow>
     distinct (mt_BlockingTaskIDs t) \<and> [] \<notin> set (mt_BlockingTaskIDs t) \<and> mt_ID t \<notin> set (mt_BlockingTaskIDs t)
     \<and> (mt_State t = TaskBlockedDependency \<longrightarrow> mt_BlockingTaskIDs t \<noteq> [])"

definition task_inv :: "ModuleTask \<Rightarrow> bool" where
  "task_inv t \<longleftrightarrow> task_promise (task_phase t) t \<and> blocking_ok t"

lemma in_series_upd [simp]:
  "in_series (t\<lparr>mt_State := s\<rparr>) = in_series t" "in_series (t\<lparr>mt_Version := v\<rparr>) = in_series t"
  "in_series (t\<lparr>mt_Attempt := a\<rparr>) = in_series t" "in_series (t\<lparr>mt_FencingToken := k\<rparr>) = in_series t"
  "in_series (t\<lparr>mt_FrozenDependentIDs := f\<rparr>) = in_series t"
  "in_series (t\<lparr>mt_BlockingTaskIDs := f\<rparr>) = in_series t" "in_series (t\<lparr>mt_BlockedFromState := b\<rparr>) = in_series t"
  by (simp_all add: in_series_def)

lemma before_series_upd [simp]:
  "before_series (t\<lparr>mt_State := s\<rparr>) = before_series t" "before_series (t\<lparr>mt_Version := v\<rparr>) = before_series t"
  "before_series (t\<lparr>mt_BlockingTaskIDs := f\<rparr>) = before_series t"
  "before_series (t\<lparr>mt_BlockedFromState := b\<rparr>) = before_series t"
  by (simp_all add: before_series_def)

lemma task_promise_upd [simp]:
  "task_promise p (t\<lparr>mt_State := s\<rparr>) = task_promise p t"
  "task_promise p (t\<lparr>mt_Version := v\<rparr>) = task_promise p t"
  "task_promise p (t\<lparr>mt_BlockingTaskIDs := f\<rparr>) = task_promise p t"
  "task_promise p (t\<lparr>mt_BlockedFromState := b\<rparr>) = task_promise p t"
  by (cases p; simp)+

lemma attempt_range: "task_promise p t \<Longrightarrow> mt_Attempt t \<in> {0, 1, 2, 3}"
  by (cases p) (auto simp: before_series_def)

lemma attempt_next [simp]: "add64 0 1 = 1" "add64 1 1 = 2" "add64 2 1 = 3"
  by (simp_all add: add64_id int64_def)

lemma task_inv_version [simp]: "task_inv (t\<lparr>mt_Version := v\<rparr>) = task_inv t"
  by (simp add: task_inv_def task_phase_def blocking_ok_def)

lemma task_inv_at: "task_inv t \<Longrightarrow> mt_State t = s \<Longrightarrow> s \<noteq> TaskBlockedDependency \<Longrightarrow> task_promise s t \<and> blocking_ok t"
  by (auto simp: task_inv_def task_phase_def)

lemma blocking_ok_cong:
  "blocking_ok t \<Longrightarrow> mt_BlockingTaskIDs n = mt_BlockingTaskIDs t \<Longrightarrow> mt_ID n = mt_ID t \<Longrightarrow>
     mt_State n \<noteq> TaskBlockedDependency \<Longrightarrow> blocking_ok n"
  by (simp add: blocking_ok_def)

text \<open>A command that neither starts from nor ends in the blocked state.\<close>

lemma task_inv_move:
  assumes "task_inv t" and "mt_State t \<noteq> TaskBlockedDependency" and "mt_State n \<noteq> TaskBlockedDependency"
    and "mt_BlockingTaskIDs n = mt_BlockingTaskIDs t" and "mt_ID n = mt_ID t"
    and "task_promise (mt_State t) t \<Longrightarrow> task_promise (mt_State n) n"
  shows "task_inv n"
  using assms by (auto simp: task_inv_def task_phase_def blocking_ok_def)

lemma task_inv_define:
  assumes "task_define t c = Inr (e, n)"
  shows "task_inv n"
proof -
  from assms have c: "tc_AttemptSeriesID c \<noteq> []" "SpecRef_Validate (tc_ModuleSpecRef c) = None"
    "\<not> invalidTaskMetadata (tc_TaskID c) (tc_BlockingTaskIDs c)"
    and n: "mt_State n = TaskDefined" "mt_Attempt n = 0" "mt_AttemptSeriesIDs n = [tc_AttemptSeriesID c]"
    "mt_AttemptSeriesID n = tc_AttemptSeriesID c" "mt_ModuleSpecRef n = tc_ModuleSpecRef c"
    "mt_BlockingTaskIDs n = tc_BlockingTaskIDs c" "mt_ID n = tc_TaskID c"
    by (auto simp: task_define_def zero_ModuleTask_def split: if_splits)
  from c(3) have "distinct (tc_BlockingTaskIDs c) \<and> [] \<notin> set (tc_BlockingTaskIDs c)
      \<and> tc_TaskID c \<notin> set (tc_BlockingTaskIDs c)"
    by (auto simp: invalidTaskMetadata_def invalidDependents_def scan_distinct_iff)
  with c(1,2) show ?thesis by (simp add: n task_inv_def task_phase_def blocking_ok_def in_series_def)
qed

lemma task_inv_queue_planning:
  "task_queue_planning t c = Inr (e, n) \<Longrightarrow> task_inv n"
  by (auto simp: task_queue_planning_def task_inv_def task_phase_def blocking_ok_def before_series_def
      zero_ModuleTask_def split: if_splits)

lemma task_inv_attach:
  "task_attach_module_spec t c = Inr (e, n) \<Longrightarrow> task_inv t \<Longrightarrow> task_inv n"
  by (rule task_inv_move [of t])
    (auto simp: task_attach_module_spec_def before_series_def in_series_def split: if_splits)

lemma task_inv_authorize:
  "task_authorize_new_series t c = Inr (e, n) \<Longrightarrow> task_inv t \<Longrightarrow> task_inv n"
  by (rule task_inv_move [of t])
    (auto simp: task_authorize_new_series_def in_series_def split: if_splits option.splits)

lemma task_inv_block:
  assumes "task_block_dependency t c = Inr (e, n)" and "task_inv t"
  shows "task_inv n"
proof -
  from assms(1) have id: "tc_BlockingTaskID c \<noteq> []" "tc_BlockingTaskID c \<noteq> mt_ID t"
    "tc_BlockingTaskID c \<notin> set (mt_BlockingTaskIDs t)"
    and n: "n = t\<lparr>mt_BlockedFromState := (if mt_State t \<noteq> TaskBlockedDependency then mt_State t
                                          else mt_BlockedFromState t),
                  mt_BlockingTaskIDs := mt_BlockingTaskIDs t @ [tc_BlockingTaskID c],
                  mt_State := TaskBlockedDependency\<rparr>"
    by (auto simp: task_block_dependency_def split: if_splits)
  from assms(2) id show ?thesis by (auto simp: n task_inv_def task_phase_def blocking_ok_def)
qed

lemma task_inv_unblock:
  assumes "task_unblock_dependency t c = Inr (e, n)" and "task_inv t"
  shows "task_inv n"
proof -
  let ?rest = "removeString (mt_BlockingTaskIDs t) (tc_BlockingTaskID c)"
  from assms(1) have blocked: "mt_State t = TaskBlockedDependency"
    and n: "n = (if ?rest = [] then t\<lparr>mt_BlockingTaskIDs := ?rest, mt_State := mt_BlockedFromState t,
                                      mt_BlockedFromState := TaskStateOther []\<rparr>
                 else t\<lparr>mt_BlockingTaskIDs := ?rest\<rparr>)"
    by (auto simp: task_unblock_dependency_def Let_def split: if_splits)
  from assms(2) blocked have promise: "task_promise (mt_BlockedFromState t) t" and ok: "blocking_ok t"
    by (simp_all add: task_inv_def task_phase_def)
  from promise have "mt_BlockedFromState t \<noteq> TaskBlockedDependency" by auto
  with promise ok blocked show ?thesis
    by (auto simp: n task_inv_def task_phase_def blocking_ok_def removeString_filter)
qed

lemma task_inv_supersede:
  assumes "task_supersede t c = Inr (e, n)" and "task_inv t"
  shows "task_inv n"
proof -
  from assms(1) have n: "n = t\<lparr>mt_State := TaskSuperseded\<rparr>" by (auto simp: task_supersede_def split: if_splits)
  from assms(2) have "mt_Attempt t \<in> {0, 1, 2, 3}" using attempt_range by (auto simp: task_inv_def)
  with assms(2) show ?thesis by (simp add: n task_inv_def task_phase_def blocking_ok_def)
qed

lemma task_inv_command:
  assumes "task_command ty t c = Inr (e, n)" and "task_inv t"
  shows "task_inv n"
  using assms
proof (cases "ty \<in> {TaskCommandDefine, TaskCommandQueuePlanning, TaskCommandAttachModuleSpec,
      TaskCommandAuthorizeNewSeries, TaskCommandBlockDependency, TaskCommandUnblockDependency, TaskCommandSupersede}")
  case True
  with assms show ?thesis
    by (auto intro: task_inv_define task_inv_queue_planning task_inv_attach task_inv_authorize task_inv_block
        task_inv_unblock task_inv_supersede)
next
  case False
  show ?thesis
    by (rule task_inv_move [OF assms(2)]; insert assms(1) False; cases ty;
      auto simp: task_commands Let_def before_series_def split: if_splits)
qed

lemma task_only_creation_names:
  assumes "task_command ty zero_ModuleTask c = Inr (e, n)" and "mt_ID n \<noteq> []"
  shows "ty = TaskCommandDefine \<or> ty = TaskCommandQueuePlanning"
  using assms
  by (cases ty) (auto simp: task_commands zero_ModuleTask_def Let_def split: option.splits if_splits)

lemma task_inv_history:
  "history DecideTask ApplyTask zero_ModuleTask cs t \<Longrightarrow> t = zero_ModuleTask \<or> task_inv t"
proof (induction rule: history.induct)
  case (step cs t c e t')
  from step.hyps(2,3) obtain ev n where cmd: "task_command (tc_Type c) t c = Inr (ev, n)"
    and t': "t' = n\<lparr>mt_Version := add64 (mt_Version t) 1\<rparr>" and named: "mt_ID n \<noteq> []" by (rule task_stepE)
  from step.IH show ?case
  proof
    assume "t = zero_ModuleTask"
    with task_only_creation_names cmd named have "tc_Type c = TaskCommandDefine \<or> tc_Type c = TaskCommandQueuePlanning"
      by blast
    with cmd t' show ?thesis by (auto intro: task_inv_define task_inv_queue_planning)
  qed (use task_inv_command [OF cmd] t' in simp)
qed simp

lemma task_named: "task_command ty t c = Inr (e, n) \<Longrightarrow> mt_ID t \<noteq> [] \<Longrightarrow> mt_ID n = mt_ID t"
  by (cases ty) (auto simp: task_commands Let_def split: option.splits if_splits)

section \<open>Fencing\<close>

lemma fence_step:
  assumes "task_command (tc_Type c) t c = Inr (e, n)" and "mt_ID t \<noteq> []"
  shows "mt_FencingToken t \<le> mt_FencingToken n
    \<and> (tc_Type c = TaskCommandLeaseExecution \<longrightarrow> mt_FencingToken t < mt_FencingToken n)"
  using assms
  by (cases "tc_Type c") (auto simp: task_commands Let_def split: option.splits if_splits)

lemma fence_history:
  assumes "history DecideTask ApplyTask t0 cs t" and "mt_ID t0 \<noteq> []"
  shows "mt_ID t \<noteq> [] \<and> mt_FencingToken t0 \<le> mt_FencingToken t
    \<and> ((\<exists>c \<in> set cs. tc_Type c = TaskCommandLeaseExecution) \<longrightarrow> mt_FencingToken t0 < mt_FencingToken t)"
  using assms
proof (induction rule: history.induct)
  case (step cs t c e t')
  from step.hyps(2,3) obtain ev n where cmd: "task_command (tc_Type c) t c = Inr (ev, n)"
    and t': "t' = n\<lparr>mt_Version := add64 (mt_Version t) 1\<rparr>" by (rule task_stepE)
  with fence_step [OF cmd] task_named [OF cmd] step.IH step.prems show ?case by auto
qed simp

section \<open>The audits behind an integration\<close>

text \<open>What the commands on the way to an integration establish, in their order.\<close>

definition audit_path :: "(TaskCommand \<Rightarrow> bool) list" where
  "audit_path =
     [\<lambda>c. tc_Type c = TaskCommandLeaseExecution,
      \<lambda>c. tc_Type c = TaskCommandSubmit,
      \<lambda>c. tc_Type c = TaskCommandStartAudit \<and> tc_SubmissionValidated c \<and> digest_pattern (tc_AuditEvidenceSHA256 c),
      \<lambda>c. tc_Type c = TaskCommandDeterministicSuccess \<and> digest_pattern (tc_AuditEvidenceSHA256 c),
      \<lambda>c. tc_Type c = TaskCommandLLMSuccess \<and> tc_FreshAuditor c \<and> tc_BlindAuditContext c
          \<and> tc_NoBlockingFindings c \<and> digest_pattern (tc_AuditEvidenceSHA256 c),
      \<lambda>c. tc_Type c = TaskCommandIntegrate \<and> tc_DependenciesSatisfied c \<and> tc_MergeGatePassed c
          \<and> digest_pattern (tc_AuditEvidenceSHA256 c)]"

definition went_through :: "(TaskCommand \<Rightarrow> bool) list \<Rightarrow> TaskCommand list \<Rightarrow> bool" where
  \<comment> \<open>some of the commands, in order, meet the conditions one by one\<close>
  "went_through ps cs \<longleftrightarrow> (\<exists>ds. subseq ds cs \<and> list_all2 (\<lambda>P c. P c) ps ds)"

primrec audit_stage :: "ModuleTaskState \<Rightarrow> nat" where
  "audit_stage TaskDefined = 0"
| "audit_stage TaskQueuedPlanning = 0"
| "audit_stage TaskPlanning = 0"
| "audit_stage TaskReadyExecution = 0"
| "audit_stage TaskQueuedExecution = 0"
| "audit_stage TaskExecuting = 1"
| "audit_stage TaskSubmitted = 2"
| "audit_stage TaskDeterministicAudit = 3"
| "audit_stage TaskLLMAudit = 4"
| "audit_stage TaskReworkRequired = 0"
| "audit_stage TaskBlockedDependency = 0"
| "audit_stage TaskBlockedUserDecision = 0"
| "audit_stage TaskPassed = 5"
| "audit_stage TaskIntegrated = 6"
| "audit_stage TaskCanceled = 0"
| "audit_stage TaskSuperseded = 0"
| "audit_stage (TaskStateOther s) = 0"

lemma went_through_Nil [simp]: "went_through [] cs"
  unfolding went_through_def by (rule exI [of _ "[]"]) simp

lemma went_through_prefix:
  assumes "went_through (ps @ qs) cs"
  shows "went_through ps cs"
proof -
  from assms obtain ds where ds: "subseq ds cs" "list_all2 (\<lambda>P c. P c) (ps @ qs) ds"
    unfolding went_through_def by blast
  then obtain d1 d2 where d: "ds = d1 @ d2" "list_all2 (\<lambda>P c. P c) ps d1" by (auto simp: list_all2_append1)
  have "subseq d1 ds" by (simp add: d(1) list_emb_append2 subseq_rev_drop_many)
  with ds(1) d(2) show ?thesis unfolding went_through_def using subseq_order.trans by blast
qed

lemma went_through_more: "went_through ps cs \<Longrightarrow> went_through ps (cs @ [c])"
  unfolding went_through_def by (meson subseq_rev_drop_many)

lemma went_through_snoc: "went_through ps cs \<Longrightarrow> P c \<Longrightarrow> went_through (ps @ [P]) (cs @ [c])"
  unfolding went_through_def
  by (metis list_all2_Cons list_all2_Nil list_all2_appendI list_emb_append_mono subseq_order.refl)

lemma audit_path_simps [simp]:
  "(audit_path ! 0) c \<longleftrightarrow> tc_Type c = TaskCommandLeaseExecution"
  "(audit_path ! Suc 0) c \<longleftrightarrow> tc_Type c = TaskCommandSubmit"
  "(audit_path ! 2) c \<longleftrightarrow> tc_Type c = TaskCommandStartAudit \<and> tc_SubmissionValidated c
     \<and> digest_pattern (tc_AuditEvidenceSHA256 c)"
  "(audit_path ! 3) c \<longleftrightarrow> tc_Type c = TaskCommandDeterministicSuccess \<and> digest_pattern (tc_AuditEvidenceSHA256 c)"
  "(audit_path ! 4) c \<longleftrightarrow> tc_Type c = TaskCommandLLMSuccess \<and> tc_FreshAuditor c \<and> tc_BlindAuditContext c
     \<and> tc_NoBlockingFindings c \<and> digest_pattern (tc_AuditEvidenceSHA256 c)"
  "(audit_path ! 5) c \<longleftrightarrow> tc_Type c = TaskCommandIntegrate \<and> tc_DependenciesSatisfied c \<and> tc_MergeGatePassed c
     \<and> digest_pattern (tc_AuditEvidenceSHA256 c)"
  "length audit_path = 6"
  by (simp_all add: audit_path_def)

lemma phase_of_block:
  "task_block_dependency t c = Inr (e, n) \<Longrightarrow> task_phase n = task_phase t"
  by (auto simp: task_block_dependency_def task_phase_def split: if_splits)

lemma phase_of_unblock:
  assumes "task_unblock_dependency t c = Inr (e, n)" and "task_inv t"
  shows "task_phase n = task_phase t"
proof -
  from assms have blocked: "mt_State t = TaskBlockedDependency"
    by (auto simp: task_unblock_dependency_def split: if_splits)
  with assms(2) have "mt_BlockedFromState t \<noteq> TaskBlockedDependency" by (auto simp: task_inv_def task_phase_def)
  with assms(1) blocked show ?thesis
    by (auto simp: task_unblock_dependency_def task_phase_def Let_def split: if_splits)
qed

lemma phase_of_creation:
  "task_define t c = Inr (e, n) \<Longrightarrow> task_phase n = TaskDefined"
  "task_queue_planning t c = Inr (e, n) \<Longrightarrow> task_phase n = TaskQueuedPlanning"
  by (auto simp: task_define_def task_queue_planning_def task_phase_def split: if_splits)

lemma audit_stage_step:
  assumes "task_command (tc_Type c) t c = Inr (e, n)" and "task_inv t"
  shows "audit_stage (task_phase n) \<le> audit_stage (task_phase t)
    \<or> (audit_stage (task_phase n) = Suc (audit_stage (task_phase t))
        \<and> (audit_path ! audit_stage (task_phase t)) c \<and> audit_stage (task_phase t) < length audit_path)"
proof (cases "tc_Type c \<in> {TaskCommandDefine, TaskCommandQueuePlanning, TaskCommandBlockDependency,
    TaskCommandUnblockDependency}")
  case True
  then consider "tc_Type c = TaskCommandDefine \<or> tc_Type c = TaskCommandQueuePlanning"
    | "task_phase n = task_phase t"
    using assms phase_of_block phase_of_unblock by auto
  then show ?thesis
  proof cases
    case 1
    with assms(1) have "audit_stage (task_phase n) = 0" using phase_of_creation by auto
    then show ?thesis by simp
  qed simp
next
  case False
  with assms(1) show ?thesis
    by (cases "tc_Type c"; auto simp: task_commands Let_def task_phase_def validDigest_iff
        split: option.splits if_splits)
qed

lemma audit_path_history:
  "history DecideTask ApplyTask zero_ModuleTask cs t \<Longrightarrow>
     went_through (take (audit_stage (task_phase t)) audit_path) (rev cs)"
proof (induction rule: history.induct)
  case start
  then show ?case by (simp add: zero_ModuleTask_def task_phase_def)
next
  case (step cs t c e t')
  from step.hyps(2,3) obtain ev n where cmd: "task_command (tc_Type c) t c = Inr (ev, n)"
    and t': "t' = n\<lparr>mt_Version := add64 (mt_Version t) 1\<rparr>" and named: "mt_ID n \<noteq> []" by (rule task_stepE)
  have phase: "task_phase t' = task_phase n" by (simp add: t' task_phase_def)
  show ?case
  proof (cases "t = zero_ModuleTask")
    case True
    with task_only_creation_names cmd named have "tc_Type c = TaskCommandDefine \<or> tc_Type c = TaskCommandQueuePlanning"
      by blast
    with cmd have "audit_stage (task_phase n) = 0"
      by (auto simp: task_define_def task_queue_planning_def task_phase_def zero_ModuleTask_def split: if_splits)
    then show ?thesis by (simp add: phase)
  next
    case False
    with task_inv_history [OF step.hyps(1)] have "task_inv t" by simp
    from audit_stage_step [OF cmd this] show ?thesis
    proof
      assume le: "audit_stage (task_phase n) \<le> audit_stage (task_phase t)"
      let ?a = "audit_stage (task_phase n)" and ?b = "audit_stage (task_phase t)"
      have "take ?b audit_path = take ?a audit_path @ drop ?a (take ?b audit_path)"
        using le by (metis append_take_drop_id min.absorb1 take_take)
      with step.IH have "went_through (take ?a audit_path) (rev cs)"
        by (metis went_through_prefix)
      then show ?thesis by (simp add: phase went_through_more)
    next
      assume up: "audit_stage (task_phase n) = Suc (audit_stage (task_phase t))
        \<and> (audit_path ! audit_stage (task_phase t)) c \<and> audit_stage (task_phase t) < length audit_path"
      then have "take (audit_stage (task_phase n)) audit_path
          = take (audit_stage (task_phase t)) audit_path @ [audit_path ! audit_stage (task_phase t)]"
        by (simp add: take_Suc_conv_app_nth)
      with went_through_snoc [OF step.IH] up show ?thesis by (simp add: phase)
    qed
  qed
qed

end
