(* ===== verification/Task_Properties.thy ===== *)
theory Task_Properties
  imports Task_Safety
begin

text \<open>
  The properties of the module task aggregate, each with a concrete history at which its
  hypotheses hold. The proofs are in \<open>Task_Safety\<close>.
\<close>

section \<open>Worked examples\<close>

definition ex_spec :: SpecRef where
  "ex_spec = \<lparr>sr_Version = 1, sr_SHA256 = zero_digest\<rparr>"

definition ex_ready :: "TaskCommand list" where
  "ex_ready =
     [(bare_task_command TaskCommandDefine 1)
        \<lparr>tc_TenantID := ''tenant'', tc_ProjectID := ''project'', tc_TaskID := ''task'',
         tc_ModuleSpecRef := ex_spec, tc_AttemptSeriesID := ''series'', tc_DependentTaskIDs := [''dependent'']\<rparr>,
      bare_task_command TaskCommandReadyExecution 2]"

definition ex_attempt :: "int \<Rightarrow> TaskCommand list" where
  "ex_attempt k =
     [(bare_task_command TaskCommandLeaseExecution 3)\<lparr>tc_FencingToken := k\<rparr>,
      (bare_task_command TaskCommandSubmit 4)
        \<lparr>tc_FencingToken := k, tc_ModuleSpecRef := ex_spec, tc_AttemptSeriesID := ''series''\<rparr>,
      (bare_task_command TaskCommandStartAudit 5)
        \<lparr>tc_SubmissionValidated := True, tc_AuditEvidenceSHA256 := zero_digest\<rparr>]"

definition ex_failure :: TaskCommand where
  "ex_failure = (bare_task_command TaskCommandDeterministicFailure 6)\<lparr>tc_AuditEvidenceSHA256 := zero_digest\<rparr>"

definition ex_integrated :: "TaskCommand list" where
  "ex_integrated = ex_ready @ ex_attempt 1 @
     [(bare_task_command TaskCommandDeterministicSuccess 6)\<lparr>tc_AuditEvidenceSHA256 := zero_digest\<rparr>,
      (bare_task_command TaskCommandLLMSuccess 7)
        \<lparr>tc_AuditEvidenceSHA256 := zero_digest, tc_FreshAuditor := True, tc_BlindAuditContext := True,
         tc_NoBlockingFindings := True\<rparr>,
      (bare_task_command TaskCommandIntegrate 8)
        \<lparr>tc_AuditEvidenceSHA256 := zero_digest, tc_DependenciesSatisfied := True, tc_MergeGatePassed := True\<rparr>]"

definition ex_blocked :: "TaskCommand list" where
  "ex_blocked = ex_ready @ ex_attempt 1 @ [ex_failure, bare_task_command TaskCommandQueueRework 7]
     @ ex_attempt 2 @ [ex_failure, bare_task_command TaskCommandQueueRework 7] @ ex_attempt 3 @ [ex_failure]"

definition run_task :: "TaskCommand list \<Rightarrow> ModuleTask" where
  "run_task cs = fst (run_commands DecideTask ApplyTask zero_ModuleTask cs)"

definition accepted_task :: "TaskCommand list \<Rightarrow> TaskCommand list" where
  "accepted_task cs = rev (accepted DecideTask ApplyTask zero_ModuleTask cs)"

lemma run_task_history: "history DecideTask ApplyTask zero_ModuleTask (accepted_task cs) (run_task cs)"
  unfolding run_task_def accepted_task_def by (rule run_history)

lemma ex_integrated_state: "mt_State (run_task ex_integrated) = TaskIntegrated \<and> mt_ID (run_task ex_integrated) = ''task''"
  by code_simp

lemma ex_blocked_state:
  "mt_State (run_task ex_blocked) = TaskBlockedUserDecision \<and> mt_Attempt (run_task ex_blocked) = 3
   \<and> mt_FencingToken (run_task ex_blocked) = 3 \<and> mt_ID (run_task ex_blocked) = ''task''"
  by code_simp

section \<open>Properties of the task aggregate\<close>

text \<open>
  Every reachable task keeps the promise of its phase: at most three attempts, none left
  over when it is ready or executing, exactly three with the dependents frozen when it waits
  for the user, attempt series that are distinct with the current one last, a valid module
  specification from the first series on; the tasks that block it are distinct and not itself.
\<close>

lemma task_state_invariant:
  assumes "history DecideTask ApplyTask zero_ModuleTask cs t" and "mt_ID t \<noteq> []"
  shows "task_inv t \<and> 0 \<le> mt_Attempt t \<and> mt_Attempt t \<le> 3"
proof -
  from assms have inv: "task_inv t" using task_inv_history by (force simp: zero_ModuleTask_def)
  then have "mt_Attempt t \<in> {0, 1, 2, 3}" using attempt_range by (auto simp: task_inv_def)
  with inv show ?thesis by auto
qed

text \<open>
  C27: an integrated task went through its audits. Among the accepted commands there are, in this
  order, a lease, a submission, the start of an audit on a validated submission, a deterministic
  success, a success of a fresh and blind auditor without blocking findings, and an integration
  with satisfied dependencies and a passed merge gate, each audit with an evidence digest.
\<close>

theorem task_integration_path:
  assumes "history DecideTask ApplyTask zero_ModuleTask cs t" and "mt_State t = TaskIntegrated"
  shows "went_through audit_path (rev cs)"
proof -
  have "take (audit_stage (task_phase t)) audit_path = audit_path"
    using assms(2) by (simp add: task_phase_def audit_path_def)
  with audit_path_history [OF assms(1)] show ?thesis by simp
qed

theorem task_integration_path_witness: "went_through audit_path (rev (accepted_task ex_integrated))"
  using task_integration_path [OF run_task_history [of ex_integrated]] ex_integrated_state by simp

text \<open>
  C26: fencing. Once a task has been leased again, a submission that carries the fencing token
  the task had before, or an older one, is rejected in every later state.
\<close>

theorem task_stale_lease_rejected:
  assumes "history DecideTask ApplyTask t0 cs t" and "mt_ID t0 \<noteq> []"
    and "\<exists>c \<in> set cs. tc_Type c = TaskCommandLeaseExecution"
    and "tc_Type c = TaskCommandSubmit" and "tc_FencingToken c \<le> mt_FencingToken t0"
  shows "\<exists>err. DecideTask t c = Inl err \<and> err_Code err \<in> {CodeLeaseExpired, CodeInvalidStateTransition, CodeInvalidArgument}"
proof -
  from fence_history [OF assms(1,2)] assms(3,5) have "tc_FencingToken c \<noteq> mt_FencingToken t" by auto
  with assms(4) show ?thesis
    by (auto simp: DecideTask_def task_submit_def transitionTask_def invalidTask_def)
qed

theorem task_stale_lease_rejected_witness:
  "isl (DecideTask (fst (run_commands DecideTask ApplyTask (run_task ex_ready) (ex_attempt 2)))
      ((bare_task_command TaskCommandSubmit 9)\<lparr>tc_FencingToken := 0\<rparr>))"
proof -
  let ?t0 = "run_task ex_ready"
  let ?cs = "rev (accepted DecideTask ApplyTask ?t0 (ex_attempt 2))"
  have "list_ex (\<lambda>c. tc_Type c = TaskCommandLeaseExecution) ?cs \<and> mt_ID ?t0 \<noteq> [] \<and> mt_FencingToken ?t0 = 0"
    by code_simp
  with task_stale_lease_rejected [OF run_history [of DecideTask ApplyTask ?t0 "ex_attempt 2"],
      of "(bare_task_command TaskCommandSubmit 9)\<lparr>tc_FencingToken := 0\<rparr>"]
  show ?thesis by (auto simp: list_ex_iff bare_task_command_def)
qed

text \<open>
  After the third failure only a human moves the task. A task that waits for the user's
  decision accepts only to be superseded, or a new attempt series that an approval for exactly
  this task and its specification authorizes, issued by the acting principal, with a series
  identifier never used before; then the attempts start again at zero.
\<close>

lemma task_user_decision_exit:
  assumes "DecideTask t c = Inr e" and "mt_State t = TaskBlockedUserDecision" and "mt_ID t \<noteq> []"
  shows "mt_State (te_Projection e) = TaskSuperseded
    \<or> (mt_State (te_Projection e) = TaskReadyExecution \<and> mt_Attempt (te_Projection e) = 0
       \<and> mt_AttemptSeriesIDs (te_Projection e) = mt_AttemptSeriesIDs t @ [tc_NewAttemptSeriesID c]
       \<and> tc_NewAttemptSeriesID c \<notin> set (mt_AttemptSeriesIDs t)
       \<and> (\<exists>a. tc_Approval c = Some a
            \<and> validAt a (tc_At c) (tc_ActorID c) ''AUTHORIZE_NEW_ATTEMPT_SERIES'' ''MODULE_TASK'' (mt_ID t)
                (sr_Version (mt_ModuleSpecRef t)) (sr_SHA256 (mt_ModuleSpecRef t))))"
proof -
  from assms(1) obtain ev n where cmd: "task_command (tc_Type c) t c = Inr (ev, n)"
    and e: "te_Projection e = n\<lparr>mt_Version := add64 (mt_Version t) 1\<rparr>" by (auto elim: DecideTask_InrE)
  from cmd assms(2,3) have "tc_Type c = TaskCommandAuthorizeNewSeries \<or> tc_Type c = TaskCommandSupersede"
    by (cases "tc_Type c") (auto simp: task_commands split: if_splits option.splits)
  with cmd show ?thesis
    by (auto simp: e task_authorize_new_series_def task_supersede_def split: if_splits option.splits)
qed

text \<open>
  Event sourcing of tasks. Running any commands and replaying the events they produced give
  the same task, and the events carry consecutive versions from one on.
\<close>

lemma task_replay:
  "replay ApplyTask zero_ModuleTask (snd (run_commands DecideTask ApplyTask zero_ModuleTask cs)) = Inr (run_task cs)
   \<and> map te_AggregateVersion (snd (run_commands DecideTask ApplyTask zero_ModuleTask cs))
     = map (\<lambda>k. wrap64 (int k + 1))
         [0..<length (snd (run_commands DecideTask ApplyTask zero_ModuleTask cs))]"
  using task.replay_run [of zero_ModuleTask cs] task.run_versions [of zero_ModuleTask cs]
  by (simp add: run_task_def) (simp add: zero_ModuleTask_def)

end
