(* ===== verification/Conformance.thy ===== *)
theory Conformance
  imports Project_State Task_State
begin

text \<open>
  The self-check of the state machines, \<open>internal/state/conformance.go\<close>: it drives a project
  to an approved goal and a task through three failed attempts, and collects findings.
\<close>

definition conformanceDigest :: string where
  "conformanceDigest = ''sha256:'' @ replicate 64 (CHR ''0'')"

definition testConformanceTime :: time where
  \<comment> \<open>midnight of 1 January 2030 in UTC\<close>
  "testConformanceTime = 64029052800 * second_ns"

definition show_go_error :: "go_error \<Rightarrow> string" where
  "show_go_error e = (case e of GoAor a \<Rightarrow> error_text a | GoPlain s \<Rightarrow> s)"

definition show_optional_error :: "go_error option \<Rightarrow> string" where
  \<comment> \<open>the verb \<open>%v\<close> prints a nil error as \<open><nil>\<close>\<close>
  "show_optional_error e = (case e of None \<Rightarrow> ''<nil>'' | Some x \<Rightarrow> show_go_error x)"

definition conformanceTaskStep ::
  "ModuleTask \<Rightarrow> TaskCommand \<Rightarrow> go_error list \<Rightarrow> ModuleTask \<times> go_error list" where
  "conformanceTaskStep current command findings =
     (case aggregate_step DecideTask ApplyTask current command of
        (Inl err, _) \<Rightarrow> (current, findings @ [err])
      | (Inr event, next_state) \<Rightarrow> (next_state, findings))"

definition conformanceProjectStep ::
  "Project \<Rightarrow> ProjectCommand \<Rightarrow> go_error list \<Rightarrow> Project \<times> go_error list" where
  "conformanceProjectStep current command findings =
     (case aggregate_step DecideProject ApplyProject current command of
        (Inl err, _) \<Rightarrow> (current, findings @ [err])
      | (Inr event, next_state) \<Rightarrow> (next_state, findings))"

definition conformanceApproval :: "GoalRecord \<Rightarrow> ApprovalBinding" where
  "conformanceApproval goal =
     \<lparr>ab_RecordID = ''approval_conformance'', ab_ApprovalType = ''GOAL_APPROVAL'',
      ab_SubjectType = ''GOAL_SPEC'', ab_SubjectID = gr_ID goal, ab_SubjectVersion = gr_Version goal,
      ab_SubjectSHA256 = gr_SHA256 goal, ab_PrincipalID = ''user_conformance'',
      ab_Reason = ''conformance approval'', ab_IssuedAt = testConformanceTime, ab_ExpiresAt = None,
      ab_RevokedAt = None, ab_Signature = ''conformance-signature''\<rparr>"

definition conformance_goal :: GoalRecord where
  "conformance_goal =
     \<lparr>gr_ID = ''goal_conformance'', gr_Version = 1, gr_SHA256 = conformanceDigest, gr_UnresolvedItems = [],
      gr_Status = GoalStatusOther [], gr_ApprovedBy = [], gr_ApprovalRecordID = []\<rparr>"

definition conformance_ref :: SpecRef where
  "conformance_ref = \<lparr>sr_Version = 1, sr_SHA256 = conformanceDigest\<rparr>"

definition conformance_define :: "string \<Rightarrow> string \<Rightarrow> string list \<Rightarrow> TaskCommand" where
  "conformance_define task series dependents =
     (bare_task_command TaskCommandDefine testConformanceTime)
       \<lparr>tc_TenantID := ''tenant_conformance'', tc_ProjectID := ''project_conformance'', tc_TaskID := task,
        tc_ModuleSpecRef := conformance_ref, tc_AttemptSeriesID := series, tc_DependentTaskIDs := dependents\<rparr>"

text \<open>The part on the goal, from a created project on.\<close>

definition conformance_project :: "Project \<Rightarrow> go_error list" where
  "conformance_project project0 =
     (let now = testConformanceTime;
          goal = conformance_goal;
          (project1, f1) = conformanceProjectStep project0
             (bare_command ProjectCommandStartGoalNegotiation ''service_orchestrator'' now) [];
          (project2, f2) = conformanceProjectStep project1
             ((bare_command ProjectCommandProposeGoal ''agent_goal'' now)\<lparr>pc_Goal := Some goal\<rparr>) f1;
          wrongGoal = goal\<lparr>gr_SHA256 := ''sha256:'' @ replicate 64 (CHR ''1'')\<rparr>;
          wrong = DecideProject project2
             ((bare_command ProjectCommandApproveGoal ''user_conformance'' now)
                \<lparr>pc_Goal := Some wrongGoal, pc_Approval := Some (conformanceApproval goal)\<rparr>);
          f3 = f2 @ (case wrong of
                 Inr _ \<Rightarrow> [GoPlain (''wrong goal digest was not rejected: '' @ show_optional_error None)]
               | Inl err \<Rightarrow> if err_Code err \<noteq> CodeGoalHashMismatch
                   then [GoPlain (''wrong goal digest was not rejected: '' @ show_optional_error (Some (GoAor err)))]
                   else []);
          (project3, f4) = conformanceProjectStep project2
             ((bare_command ProjectCommandApproveGoal ''user_conformance'' now)
                \<lparr>pc_Goal := Some goal, pc_Approval := Some (conformanceApproval goal)\<rparr>) f3
      in if prj_State project3 \<noteq> ProjectPlanning
         then f4 @ [GoPlain (''approved goal state = '' @ projectState_string (prj_State project3))] else f4)"

text \<open>One attempt of the loop, and the loop.\<close>

definition conformance_attempt :: "int \<Rightarrow> ModuleTask \<times> go_error list \<Rightarrow> ModuleTask \<times> go_error list" where
  "conformance_attempt attempt s =
     (let now = testConformanceTime;
          (t1, f1) = conformanceTaskStep (fst s)
             ((bare_task_command TaskCommandLeaseExecution now)\<lparr>tc_FencingToken := attempt\<rparr>) (snd s);
          (t2, f2) = conformanceTaskStep t1
             ((bare_task_command TaskCommandSubmit now)\<lparr>tc_FencingToken := attempt,
                tc_ModuleSpecRef := conformance_ref, tc_AttemptSeriesID := mt_AttemptSeriesID t1\<rparr>) f1;
          (t3, f3) = conformanceTaskStep t2
             ((bare_task_command TaskCommandStartAudit now)\<lparr>tc_SubmissionValidated := True,
                tc_AuditEvidenceSHA256 := conformanceDigest\<rparr>) f2;
          (t4, f4) = conformanceTaskStep t3
             ((bare_task_command TaskCommandDeterministicFailure now)
                \<lparr>tc_AuditEvidenceSHA256 := conformanceDigest\<rparr>) f3
      in if attempt < 3 then conformanceTaskStep t4 (bare_task_command TaskCommandQueueRework now) f4
         else (t4, f4))"

definition conformance_attempts :: "ModuleTask \<Rightarrow> go_error list \<Rightarrow> ModuleTask \<times> go_error list" where
  "conformance_attempts task findings = foldl (\<lambda>s k. conformance_attempt k s) (task, findings) [1, 2, 3]"

text \<open>The part on tasks. A rejected definition leaves the zero task to be applied, which fails.\<close>

definition zero_TaskEvent :: TaskEvent where
  "zero_TaskEvent = \<lparr>te_Type = [], te_AggregateVersion = 0, te_OccurredAt = 0, te_Projection = zero_ModuleTask\<rparr>"

definition conformance_blocked :: "ModuleTask \<Rightarrow> ModuleTask \<Rightarrow> go_error list \<Rightarrow> go_error list" where
  "conformance_blocked dependent_task task f0 =
     (let now = testConformanceTime;
          f1 = (if mt_State task \<noteq> TaskBlockedUserDecision \<or> mt_Attempt task \<noteq> 3
                then f0 @ [GoPlain (''third failure state = '' @ moduleTaskState_string (mt_State task)
                                     @ '' attempt='' @ show_int (mt_Attempt task))]
                else f0);
          f2 = (case DecideTask task (bare_task_command TaskCommandQueueRework now) of
                  Inl _ \<Rightarrow> f1
                | Inr _ \<Rightarrow> f1 @ [GoPlain ''blocked task accepted automatic rework''])
      in (case DecideTask dependent_task
                 ((bare_task_command TaskCommandBlockDependency now)\<lparr>tc_BlockingTaskID := mt_ID task\<rparr>) of
            Inl err \<Rightarrow> f2 @ [GoAor err]
          | Inr blockedEvent \<Rightarrow>
              (case ApplyTask dependent_task blockedEvent of
                 Inl msg \<Rightarrow> f2 @ [GoPlain (''dependent freeze failed: '' @ show_optional_error (Some (GoPlain msg)))]
               | Inr blocked \<Rightarrow>
                   if mt_State blocked \<noteq> TaskBlockedDependency
                   then f2 @ [GoPlain (''dependent freeze failed: '' @ show_optional_error None)] else f2)))"

definition conformance_tasks :: "go_error list \<Rightarrow> go_error list" where
  "conformance_tasks f0 =
     (let (dependentEvent, f1) =
            (case DecideTask zero_ModuleTask (conformance_define ''dependent_conformance'' ''series_dependent'' []) of
               Inl err \<Rightarrow> (zero_TaskEvent, f0 @ [GoAor err]) | Inr e \<Rightarrow> (e, f0));
          (dependent_task, f2) =
            (case ApplyTask zero_ModuleTask dependentEvent of
               Inl msg \<Rightarrow> (zero_ModuleTask, f1 @ [GoPlain msg]) | Inr t \<Rightarrow> (t, f1))
      in (case DecideTask zero_ModuleTask
                 (conformance_define ''task_conformance'' ''series_conformance'' [''dependent_conformance'']) of
            Inl err \<Rightarrow> f2 @ [GoAor err]
          | Inr taskEvent \<Rightarrow>
              (case ApplyTask zero_ModuleTask taskEvent of
                 Inl msg \<Rightarrow> f2 @ [GoPlain msg]
               | Inr task0 \<Rightarrow>
                   if mt_State task0 \<noteq> TaskDefined
                   then f2 @ [GoPlain (''defined task state = '' @ moduleTaskState_string (mt_State task0))]
                   else
                     (let (task1, f3) = conformanceTaskStep task0
                            (bare_task_command TaskCommandReadyExecution testConformanceTime) f2;
                          (task2, f4) = conformance_attempts task1 f3
                      in conformance_blocked dependent_task task2 f4))))"

definition Conformance :: "go_error list" where
  "Conformance =
     (case DecideProject zero_Project
             ((bare_command ProjectCommandCreate ''user_conformance'' testConformanceTime)
                \<lparr>pc_TenantID := ''tenant_conformance'', pc_ProjectID := ''project_conformance'',
                 pc_GoalAgentCount := 2\<rparr>) of
        Inl err \<Rightarrow> [GoAor err]
      | Inr projectEvent \<Rightarrow>
          (case ApplyProject zero_Project projectEvent of
             Inl msg \<Rightarrow> [GoPlain msg]
           | Inr project \<Rightarrow> conformance_tasks (conformance_project project)))"

text \<open>The self-check of the state machines finds nothing.\<close>

lemma Conformance_clean: "Conformance = []"
  by code_simp

end
