(* ===== verification/Go_Time.thy ===== *)
theory Go_Time
  imports Go_Strings
begin

text \<open>
  \<open>time.Parse(time.RFC3339, s)\<close> of Go's standard library: a scanner along the layout
  \<open>2006-01-02T15:04:05Z07:00\<close>. As in Go the hour may have one digit, a fraction of the second
  may follow with a period or a comma, an offset may go up to 24 hours and 60 minutes, and the
  day must exist in its month. The result is the instant in nanoseconds since Go's zero time.
\<close>

definition digit_value :: "char \<Rightarrow> int" where
  "digit_value c = of_char c - 48"

definition number_value :: "string \<Rightarrow> int" where
  "number_value s = foldl (\<lambda>n c. n * 10 + digit_value c) 0 s"

text \<open>A scanner takes the rest of the text and gives a value and what follows it.\<close>

definition scan_fixed :: "nat \<Rightarrow> string \<Rightarrow> (int \<times> string) option" where
  \<comment> \<open>exactly so many digits\<close>
  "scan_fixed n s =
     (if length s \<ge> n \<and> list_all is_digit (take n s) then Some (number_value (take n s), drop n s) else None)"

definition scan_range :: "int \<Rightarrow> int \<Rightarrow> (int \<times> string) option \<Rightarrow> (int \<times> string) option" where
  "scan_range lo hi r =
     (case r of None \<Rightarrow> None | Some (v, s) \<Rightarrow> if lo \<le> v \<and> v \<le> hi then Some (v, s) else None)"

definition scan_hour :: "string \<Rightarrow> (int \<times> string) option" where
  \<comment> \<open>one digit when no second one follows\<close>
  "scan_hour s =
     (case scan_fixed 2 s of Some r \<Rightarrow> Some r | None \<Rightarrow> scan_fixed 1 s)"

fun skip_literal :: "char \<Rightarrow> string \<Rightarrow> string option" where
  "skip_literal c [] = None"
| "skip_literal c (d # s) = (if d = c then Some s else None)"

fun take_digits :: "string \<Rightarrow> string \<times> string" where
  "take_digits [] = ([], [])"
| "take_digits (c # s) = (if is_digit c then (case take_digits s of (d, r) \<Rightarrow> (c # d, r)) else ([], c # s))"

definition scan_fraction :: "string \<Rightarrow> int \<times> string" where
  \<comment> \<open>nanoseconds of a fraction, if one follows; digits beyond the ninth are dropped\<close>
  "scan_fraction s =
     (case s of
        c # d # rest \<Rightarrow>
          if (c = CHR ''.'' \<or> c = CHR '','') \<and> is_digit d then
            (case take_digits (d # rest) of
               (ds, r) \<Rightarrow> (number_value (take 9 ds) * 10 ^ (9 - length (take 9 ds)), r))
          else (0, s)
      | _ \<Rightarrow> (0, s))"

definition scan_zone :: "string \<Rightarrow> (int \<times> string) option" where
  \<comment> \<open>seconds east of UTC\<close>
  "scan_zone s =
     (case s of
        [] \<Rightarrow> None
      | c # rest \<Rightarrow>
          if c = CHR ''Z'' then Some (0, rest)
          else if length s < 6 \<or> s ! 3 \<noteq> CHR '':'' then None
          else (case (scan_range 0 24 (scan_fixed 2 (take 2 rest)),
                      scan_range 0 60 (scan_fixed 2 (take 2 (drop 3 rest)))) of
                  (Some (hh, _), Some (mm, _)) \<Rightarrow>
                    if c = CHR ''+'' then Some ((hh * 60 + mm) * 60, drop 5 rest)
                    else if c = CHR ''-'' then Some (- ((hh * 60 + mm) * 60), drop 5 rest)
                    else None
                | _ \<Rightarrow> None))"

definition leap_year :: "int \<Rightarrow> bool" where
  "leap_year y \<longleftrightarrow> y mod 4 = 0 \<and> (y mod 100 \<noteq> 0 \<or> y mod 400 = 0)"

definition month_days :: "int \<Rightarrow> int \<Rightarrow> int" where
  "month_days y m =
     (if m = 2 then (if leap_year y then 29 else 28) else if m \<in> {4, 6, 9, 11} then 30 else 31)"

definition days_before_year :: "int \<Rightarrow> int" where
  \<comment> \<open>days from 1 January of year 1 to 1 January of the year\<close>
  "days_before_year y = (y - 1) * 365 + (y - 1) div 4 - (y - 1) div 100 + (y - 1) div 400"

definition days_before_month :: "int \<Rightarrow> int \<Rightarrow> int" where
  "days_before_month y m = sum_list (map (month_days y) [1..m - 1])"

definition instant :: "int \<Rightarrow> int \<Rightarrow> int \<Rightarrow> int \<Rightarrow> int \<Rightarrow> int \<Rightarrow> int \<Rightarrow> int \<Rightarrow> time" where
  "instant y mo d hh mi ss ns zone =
     ((days_before_year y + days_before_month y mo + d - 1) * 86400 + hh * 3600 + mi * 60 + ss - zone)
       * second_ns + ns"

definition parse_date :: "string \<Rightarrow> ((int \<times> int \<times> int) \<times> string) option" where
  "parse_date s =
     (case scan_fixed 4 s of None \<Rightarrow> None | Some (y, s1) \<Rightarrow>
      (case skip_literal (CHR ''-'') s1 of None \<Rightarrow> None | Some s2 \<Rightarrow>
      (case scan_range 1 12 (scan_fixed 2 s2) of None \<Rightarrow> None | Some (mo, s3) \<Rightarrow>
      (case skip_literal (CHR ''-'') s3 of None \<Rightarrow> None | Some s4 \<Rightarrow>
      (case scan_fixed 2 s4 of None \<Rightarrow> None | Some (d, s5) \<Rightarrow> Some ((y, mo, d), s5))))))"

definition parse_clock :: "string \<Rightarrow> ((int \<times> int \<times> int \<times> int) \<times> string) option" where
  "parse_clock s =
     (case scan_range 0 23 (scan_hour s) of None \<Rightarrow> None | Some (hh, s1) \<Rightarrow>
      (case skip_literal (CHR '':'') s1 of None \<Rightarrow> None | Some s2 \<Rightarrow>
      (case scan_range 0 59 (scan_fixed 2 s2) of None \<Rightarrow> None | Some (mi, s3) \<Rightarrow>
      (case skip_literal (CHR '':'') s3 of None \<Rightarrow> None | Some s4 \<Rightarrow>
      (case scan_range 0 59 (scan_fixed 2 s4) of None \<Rightarrow> None | Some (ss, s5) \<Rightarrow>
      (case scan_fraction s5 of (ns, s6) \<Rightarrow> Some ((hh, mi, ss, ns), s6)))))))"

definition parse_rfc3339 :: "string \<Rightarrow> time option" where
  "parse_rfc3339 s =
     (case parse_date s of None \<Rightarrow> None | Some ((y, mo, d), s1) \<Rightarrow>
      (case skip_literal (CHR ''T'') s1 of None \<Rightarrow> None | Some s2 \<Rightarrow>
      (case parse_clock s2 of None \<Rightarrow> None | Some ((hh, mi, ss, ns), s3) \<Rightarrow>
      (case scan_zone s3 of None \<Rightarrow> None | Some (zone, s4) \<Rightarrow>
         if s4 \<noteq> [] then None
         else if d < 1 \<or> d > month_days y mo then None
         else Some (instant y mo d hh mi ss ns zone)))))"

lemma parse_rfc3339_sample: "parse_rfc3339 ''2030-01-01T00:00:00Z'' = Some 64029052800000000000"
  by code_simp

lemma parse_rfc3339_offset:
  "parse_rfc3339 ''2030-01-01T01:30:00.5+01:30'' = Some (64029052800000000000 + 500000000)"
  by code_simp

lemma parse_rfc3339_no_day: "parse_rfc3339 ''2029-02-29T00:00:00Z'' = None"
  by code_simp

end
