(* ===== verification/Contract_Validate.thy ===== *)
theory Contract_Validate
  imports Contract_Documents Go_Time Dag
begin

text \<open>
  The \<open>Validate\<close> methods of \<open>pkg/contracts/types.go\<close>. A check gives the message of the first
  guard that fails, as the code does. \<open>url.Parse\<close> is a parameter: which texts it accepts
  changes between releases of Go, and the code reads four facts of its result.
\<close>

section \<open>Platforms, paths and entry points\<close>

definition opt_list :: "'a list option \<Rightarrow> 'a list" where
  \<comment> \<open>the nil slice has no elements\<close>
  "opt_list x = (case x of None \<Rightarrow> [] | Some l \<Rightarrow> l)"

definition validPlatformIsolation :: "ExecutionPlatform \<Rightarrow> IsolationLevel \<Rightarrow> bool" where
  "validPlatformIsolation platform isolation \<longleftrightarrow>
     (platform = PlatformLinux \<and> isolation = IsolationContainer)
     \<or> (platform = PlatformWindows \<and> isolation = IsolationNone)"

definition slashes :: "string \<Rightarrow> string" where
  \<comment> \<open>\<open>strings.ReplaceAll\<close> of the backslash by the slash\<close>
  "slashes s = replace_byte (CHR 0x5C) (CHR ''/'') s"

definition confined_path :: "string \<Rightarrow> bool" where
  \<comment> \<open>the path test the entry points and the audit findings share\<close>
  "confined_path p \<longleftrightarrow>
     path_clean p = p \<and> p \<noteq> ''.'' \<and> \<not> has_prefix p ''/'' \<and> p \<noteq> ''..'' \<and> \<not> has_prefix p ''../''
     \<and> p \<noteq> ''.git'' \<and> \<not> has_prefix p ''.git/''"

definition validVerificationEntrypoint :: "string \<Rightarrow> bool" where
  "validVerificationEntrypoint value =
     (if value = [] \<or> contains_any value crlf_nul \<or> contains_any value ''*?['' then False
      else (let normalized = slashes value; clean = path_clean normalized in
            clean = normalized \<and> clean \<noteq> ''.'' \<and> \<not> has_prefix clean ''/'' \<and> clean \<noteq> ''..''
            \<and> \<not> has_prefix clean ''../'' \<and> clean \<noteq> ''.git'' \<and> \<not> has_prefix clean ''.git/''))"

definition validVerificationEntrypointForPlatform :: "ExecutionPlatform \<Rightarrow> string \<Rightarrow> bool" where
  "validVerificationEntrypointForPlatform platform value =
     (if \<not> validVerificationEntrypoint value then False
      else (case platform of
              PlatformLinux \<Rightarrow> has_suffix (to_lower value) ''.sh''
            | PlatformWindows \<Rightarrow> has_suffix (to_lower value) ''.ps1''
            | ExecutionPlatformOther _ \<Rightarrow> False))"

definition ownedPathCoversEntrypoint :: "string \<Rightarrow> string \<Rightarrow> bool" where
  "ownedPathCoversEntrypoint owned entrypoint =
     (let s0 = slashes owned;
          s1 = (if has_suffix s0 ''/...'' then trim_suffix s0 ''/...''
                else if has_suffix s0 ''/**'' then trim_suffix s0 ''/**'' else s0);
          normalized = path_clean s1
      in entrypoint = normalized \<or> has_prefix entrypoint (normalized @ ''/''))"

fun entrypointOwned :: "string \<Rightarrow> string list \<Rightarrow> bool" where
  "entrypointOwned entrypoint [] = False"
| "entrypointOwned entrypoint (candidate # rest) =
     (if ownedPathCoversEntrypoint candidate entrypoint then True else entrypointOwned entrypoint rest)"

section \<open>Toolchains\<close>

definition validExactToolchainValue :: "string \<Rightarrow> int \<Rightarrow> bool" where
  "validExactToolchainValue value maximum \<longleftrightarrow>
     value \<noteq> [] \<and> int (length value) \<le> maximum \<and> trim_space value = value
     \<and> \<not> contains_any value (crlf_nul @ ''*?'')"

fun check_toolchain_ids :: "string list \<Rightarrow> string list \<Rightarrow> bool" where
  "check_toolchain_ids [] seen = True"
| "check_toolchain_ids (x # xs) seen =
     (if \<not> validExactToolchainValue x 128 \<or> contains_any x [CHR ''/'', CHR 0x5C] then False
      else if x \<in> set seen then False
      else check_toolchain_ids xs (x # seen))"

definition validToolchainIDs :: "string list \<Rightarrow> bool" where
  "validToolchainIDs ids = (if length ids = 0 then False else check_toolchain_ids ids [])"

definition floating_versions :: "string list" where
  "floating_versions =
     [''latest'', ''stable'', ''current'', ''default'', ''nightly'', ''next'', ''head'', ''main'',
      ''master'', ''dev'', ''snapshot'', ''preview'']"

definition validExactToolchainVersion :: "string \<Rightarrow> int \<Rightarrow> bool" where
  "validExactToolchainVersion value maximum =
     (if \<not> validExactToolchainValue value maximum \<or> contains_any value ''<>^~|,'' \<or> contains_sub value '' - ''
      then False
      else if to_lower value \<in> set floating_versions then False
      else (let segments = str_fields (map (\<lambda>c. if c \<in> set ''.-_+'' then CHR '' '' else c) (to_lower value))
            in \<not> list_ex (\<lambda>segment. segment = ''x'') segments))"

definition normalizeGCCToolName :: "string \<Rightarrow> string" where
  "normalizeGCCToolName name =
     (let lowered = to_lower (trim_space name);
          spaced = map (\<lambda>c. if c \<in> set (''()[]{}/-_:,'' @ [CHR 0x5C]) then CHR '' '' else c) lowered
      in join_with '' '' (str_fields spaced))"

definition gcc_names :: "string list" where
  "gcc_names =
     [''gcc'', ''g++'', ''gnu gcc'', ''gnu g++'', ''gnu c++'',
      ''gcc compiler'', ''g++ compiler'', ''gnu gcc compiler'', ''gnu g++ compiler'', ''gnu c++ compiler'',
      ''gnu c compiler'', ''gnu compiler collection'', ''gnu compiler collection gcc'',
      ''gnu compiler collection g++'', ''gnu compiler collection c compiler'',
      ''gnu compiler collection c++ compiler'', ''gnu compiler collection c compiler gcc'',
      ''gnu compiler collection c++ compiler g++'']"

definition IsGCCTool :: "VersionedTool \<Rightarrow> bool" where
  "IsGCCTool tool =
     (if vt_Kind tool \<noteq> ToolchainCompiler then False
      else normalizeGCCToolName (vt_Name tool) \<in> set gcc_names)"

definition artifact_prefix :: string where
  "artifact_prefix = ''artifact://sha256/''"

definition validToolchainEvidenceRef :: "string \<Rightarrow> bool" where
  "validToolchainEvidenceRef value \<longleftrightarrow>
     has_prefix value artifact_prefix \<and> length value = length artifact_prefix + 64
     \<and> validateDigest (''sha256:'' @ drop (length artifact_prefix) value) = None"

definition is_alphanumeric :: "char \<Rightarrow> bool" where
  "is_alphanumeric c \<longleftrightarrow> is_lower_letter c \<or> is_upper_letter c \<or> is_digit c"

fun check_artifact_id :: "nat \<Rightarrow> string \<Rightarrow> bool" where
  "check_artifact_id index [] = True"
| "check_artifact_id index (c # s) =
     (if is_alphanumeric c \<or> index > 0 \<and> c \<in> set ''._:-'' then check_artifact_id (Suc index) s else False)"

definition validToolchainArtifactID :: "string \<Rightarrow> bool" where
  "validToolchainArtifactID value =
     (if length value < 1 \<or> length value > 128 then False else check_artifact_id 0 value)"

record parsed_url =
  url_Scheme :: string
  url_Host :: string
  url_has_User :: bool
  url_Fragment :: string

type_synonym url_parser = "string \<Rightarrow> parsed_url option"

definition matching_artifact :: "ToolchainInstall \<Rightarrow> bool" where
  "matching_artifact install \<longleftrightarrow>
     ti_ArtifactRef install = artifact_prefix @ trim_prefix (ti_SourceSHA256 install) ''sha256:''"

definition check_user_archive :: "url_parser \<Rightarrow> VersionedTool \<Rightarrow> ToolchainInstall \<Rightarrow> check" where
  "check_user_archive url_parse tool install =
     (if IsGCCTool tool \<or> ti_ArtifactID install \<noteq> [] \<or> ti_ArtifactRef install \<noteq> []
      then Some ''user archive installation is restricted to non-GCC HTTPS releases''
      else if ti_DownloadURL install = [] then
        (if ti_Authorized install
         then Some ''authorized user archive installation requires an HTTPS download URL and SHA-256 digest''
         else if ti_SourceSHA256 install \<noteq> []
         then Some ''unauthorized user archive installation cannot claim a SHA-256 digest''
         else None)
      else if (case url_parse (ti_DownloadURL install) of
                 None \<Rightarrow> True
               | Some u \<Rightarrow> url_Scheme u \<noteq> ''https'' \<or> url_Host u = [] \<or> url_has_User u \<or> url_Fragment u \<noteq> []
                           \<or> \<not> ti_Authorized install)
      then Some ''user archive installation requires an HTTPS download URL''
      else if validateDigest (ti_SourceSHA256 install) \<noteq> None
      then Some ''authorized user archive installation requires a lowercase SHA-256 digest''
      else None)"

definition check_crosstool_archive :: "VersionedTool \<Rightarrow> ToolchainInstall \<Rightarrow> check" where
  "check_crosstool_archive tool install =
     (if \<not> IsGCCTool tool \<or> ti_DownloadURL install \<noteq> []
      then Some ''crosstool-ng archive installation is restricted to uploaded GCC toolchains''
      else if \<not> ti_Authorized install then
        (if ti_ArtifactID install \<noteq> [] \<or> ti_ArtifactRef install \<noteq> [] \<or> ti_SourceSHA256 install \<noteq> []
         then Some ''unauthorized crosstool-ng archive installation cannot claim an uploaded artifact''
         else None)
      else if \<not> validToolchainArtifactID (ti_ArtifactID install)
              \<or> \<not> validToolchainEvidenceRef (ti_ArtifactRef install)
              \<or> validateDigest (ti_SourceSHA256 install) \<noteq> None \<or> \<not> matching_artifact install
      then Some ''authorized crosstool-ng archive installation requires a matching uploaded artifact and SHA-256 digest''
      else None)"

definition validateToolchainInstall :: "url_parser \<Rightarrow> VersionedTool \<Rightarrow> check" where
  "validateToolchainInstall url_parse tool =
     (case vt_Install tool of
        None \<Rightarrow> Some ''toolchain installation descriptor is required''
      | Some install \<Rightarrow>
          if ti_Method install = ToolchainInstallManual then
            (if ti_DownloadURL install \<noteq> [] \<or> ti_SourceSHA256 install \<noteq> [] \<or> ti_ArtifactID install \<noteq> []
                \<or> ti_ArtifactRef install \<noteq> [] \<or> \<not> IsGCCTool tool \<or> ti_Authorized install
                \<or> ti_EvidenceRef install \<noteq> []
             then Some ''manual installation is restricted to GCC without runtime authorization'' else None)
          else if ti_Authorized install \<and> \<not> validToolchainEvidenceRef (ti_EvidenceRef install)
          then Some ''authorized toolchain installation requires immutable user evidence''
          else if \<not> ti_Authorized install \<and> ti_EvidenceRef install \<noteq> []
          then Some ''unauthorized toolchain installation cannot claim evidence''
          else (case ti_Method install of
                  ToolchainInstallUserArchive \<Rightarrow> check_user_archive url_parse tool install
                | ToolchainInstallCrosstoolNGArchive \<Rightarrow> check_crosstool_archive tool install
                | _ \<Rightarrow> Some ''toolchain installation method is invalid''))"

definition validateVersionedTool :: "url_parser \<Rightarrow> VersionedTool \<Rightarrow> check" where
  "validateVersionedTool url_parse tool =
     (if \<not> validExactToolchainValue (vt_Name tool) 128 \<or> \<not> validExactToolchainVersion (vt_Version tool) 256
         \<or> \<not> validExactToolchainValue (vt_Architecture tool) 128
         \<or> vt_Platform tool \<noteq> PlatformLinux \<and> vt_Platform tool \<noteq> PlatformWindows
      then Some ''goal toolchain metadata must be exact''
      else if vt_Kind tool \<notin> {ToolchainCompiler, ToolchainRuntime, ToolchainSDK, ToolchainBuild,
                               ToolchainInterop, ToolchainTest}
      then Some ''goal toolchain kind is invalid''
      else (case vt_Source tool of
              ToolchainInstalled \<Rightarrow>
                if \<not> validExactToolchainValue (vt_InventoryID tool) 128 \<or> vt_Install tool \<noteq> None
                then Some ''installed toolchain requires an inventory ID'' else None
            | ToolchainInstallRequired \<Rightarrow>
                if vt_InventoryID tool \<noteq> [] \<or> validateToolchainInstall url_parse tool \<noteq> None
                then Some ''uninstalled toolchain cannot claim an inventory ID'' else None
            | ToolchainSourceOther _ \<Rightarrow> Some ''goal toolchain source is invalid''))"

definition tool_ReadyToProvision :: "VersionedTool \<Rightarrow> bool" where
  "tool_ReadyToProvision tool =
     (case vt_Install tool of
        None \<Rightarrow> False
      | Some install \<Rightarrow>
          if vt_Source tool \<noteq> ToolchainInstallRequired \<or> \<not> ti_Authorized install
             \<or> validateDigest (ti_SourceSHA256 install) \<noteq> None then False
          else (case ti_Method install of
                  ToolchainInstallUserArchive \<Rightarrow> ti_DownloadURL install \<noteq> [] \<and> \<not> IsGCCTool tool
                | ToolchainInstallCrosstoolNGArchive \<Rightarrow>
                    IsGCCTool tool \<and> validToolchainArtifactID (ti_ArtifactID install)
                    \<and> validToolchainEvidenceRef (ti_ArtifactRef install) \<and> matching_artifact install
                | _ \<Rightarrow> False))"

definition tool_NeedsInstallationInput :: "VersionedTool \<Rightarrow> bool" where
  "tool_NeedsInstallationInput tool \<longleftrightarrow>
     vt_Source tool = ToolchainInstallRequired \<and> \<not> tool_ReadyToProvision tool"

fun pinned_tools :: "url_parser \<Rightarrow> VersionedTool list \<Rightarrow> string list \<Rightarrow> string list option" where
  \<comment> \<open>the inventory identifiers of the tools, if all are installed, valid and distinct\<close>
  "pinned_tools url_parse [] byID = Some byID"
| "pinned_tools url_parse (tool # rest) byID =
     (if validateVersionedTool url_parse tool \<noteq> None \<or> vt_Source tool \<noteq> ToolchainInstalled then None
      else if vt_InventoryID tool \<in> set byID then None
      else pinned_tools url_parse rest (vt_InventoryID tool # byID))"

definition validPinnedToolchains :: "url_parser \<Rightarrow> string list \<Rightarrow> VersionedTool list \<Rightarrow> bool" where
  "validPinnedToolchains url_parse ids tools =
     (if \<not> validToolchainIDs ids \<or> length tools \<noteq> length ids then False
      else (case pinned_tools url_parse tools [] of
              None \<Rightarrow> False
            | Some byID \<Rightarrow> list_all (\<lambda>x. x \<in> set byID) ids))"

definition RequiresInstallation :: "GoalToolchain \<Rightarrow> bool" where
  "RequiresInstallation selection = list_ex (\<lambda>tool. vt_Source tool = ToolchainInstallRequired) (gt_Tools selection)"

fun tools_ready :: "VersionedTool list \<Rightarrow> bool \<Rightarrow> bool" where
  "tools_ready [] ready = ready"
| "tools_ready (tool # rest) ready =
     (if vt_Source tool \<noteq> ToolchainInstallRequired then tools_ready rest ready
      else if \<not> tool_ReadyToProvision tool then False
      else tools_ready rest True)"

definition toolchain_ReadyToProvision :: "GoalToolchain \<Rightarrow> bool" where
  "toolchain_ReadyToProvision selection = tools_ready (gt_Tools selection) False"

definition toolchain_NeedsInstallationInput :: "GoalToolchain \<Rightarrow> bool" where
  "toolchain_NeedsInstallationInput selection = list_ex tool_NeedsInstallationInput (gt_Tools selection)"

fun check_languages :: "LanguageRequirement list \<Rightarrow> string list \<Rightarrow> check" where
  "check_languages [] seen = None"
| "check_languages (l # ls) seen =
     (if \<not> validExactToolchainValue (lr_Name l) 128 \<or> \<not> validExactToolchainVersion (lr_Version l) 256
      then Some ''goal language and version must be exact''
      else if to_lower (lr_Name l) \<in> set seen then Some ''goal languages must be unique''
      else check_languages ls (to_lower (lr_Name l) # seen))"

definition nul :: string where
  "nul = [CHR 0x00]"

definition tool_key :: "VersionedTool \<Rightarrow> string" where
  "tool_key tool =
     to_lower (toolchainKind_string (vt_Kind tool) @ nul @ vt_Name tool @ nul @ vt_Version tool @ nul
       @ executionPlatform_string (vt_Platform tool) @ nul @ vt_Architecture tool)"

definition suite_key :: "VersionedTool \<Rightarrow> string" where
  "suite_key tool =
     to_lower (vt_Version tool @ nul @ executionPlatform_string (vt_Platform tool) @ nul @ vt_Architecture tool)"

fun check_tools :: "url_parser \<Rightarrow> VersionedTool list \<Rightarrow> string list \<Rightarrow> string list \<Rightarrow> check" where
  "check_tools url_parse [] tools suites = None"
| "check_tools url_parse (tool # rest) tools suites =
     (case validateVersionedTool url_parse tool of
        Some err \<Rightarrow> Some err
      | None \<Rightarrow>
          if tool_key tool \<in> set tools then Some ''goal toolchains must be unique''
          else if IsGCCTool tool then
            (if suite_key tool \<in> set suites
             then Some ''a GCC toolchain suite must be represented by one compiler entry''
             else check_tools url_parse rest (tool_key tool # tools) (suite_key tool # suites))
          else check_tools url_parse rest (tool_key tool # tools) suites)"

definition GoalToolchain_Validate :: "url_parser \<Rightarrow> GoalToolchain \<Rightarrow> check" where
  "GoalToolchain_Validate url_parse selection =
     (if length (gt_Languages selection) = 0 \<or> length (gt_Tools selection) = 0
      then Some ''goal toolchain languages and tools are required''
      else (case check_languages (gt_Languages selection) [] of
              Some err \<Rightarrow> Some err
            | None \<Rightarrow> check_tools url_parse (gt_Tools selection) [] []))"

section \<open>Documents\<close>

definition CompletionEvidence_Done :: "CompletionEvidence \<Rightarrow> ModuleTaskState \<Rightarrow> bool" where
  "CompletionEvidence_Done e s \<longleftrightarrow>
     s = TaskIntegrated \<and> ce_SubmissionImmutable e \<and> ce_AuditPassed e \<and> ce_MergeQueued e
     \<and> ce_NoBlockingFindings e \<and> ce_RequiredEvidence e"

definition ModuleSpec_Validate :: "url_parser \<Rightarrow> ModuleSpec \<Rightarrow> check" where
  "ModuleSpec_Validate url_parse m =
     (if ms_ModuleSpecVersion m < 1 \<or> ms_PlanVersion m < 1 \<or> ms_ModuleID m = [] \<or> ms_ProjectID m = []
      then Some ''module identity and versions are required''
      else if \<not> validPlatformIsolation (ms_ExecutionPlatform m) (ms_SandboxLevel m)
      then Some ''execution platform and sandbox level do not match''
      else if ms_ExecutionPlatform m = PlatformWindows
              \<and> (np_Mode (ms_NetworkPolicy m) \<noteq> NetworkUnrestricted
                 \<or> length (np_Destinations (ms_NetworkPolicy m)) \<noteq> 0)
      then Some ''windows NONE provider cannot claim network isolation''
      else if ms_ExecutionPlatform m = PlatformWindows
              \<and> (wp_Trust (ms_WorkloadProfile m) \<noteq> WorkloadTrusted
                 \<or> wp_HostileMultiTenant (ms_WorkloadProfile m)
                 \<or> wp_RequiresNetworkIsolation (ms_WorkloadProfile m)
                 \<or> wp_RequiresHiddenTestConfidentiality (ms_WorkloadProfile m))
      then Some ''windows NONE provider accepts only trusted work without isolation or hidden-test requirements''
      else if ms_ExecutionPlatform m \<noteq> PlatformWindows \<and> np_Mode (ms_NetworkPolicy m) = NetworkUnrestricted
      then Some ''unrestricted network is only valid for windows NONE disclosure''
      else if wp_Trust (ms_WorkloadProfile m) \<noteq> WorkloadTrusted \<and> wp_Trust (ms_WorkloadProfile m) \<noteq> WorkloadUntrusted
      then Some ''workload trust must be declared''
      else if (ms_VerificationEntrypoint m \<noteq> [] \<or> ms_ToolchainIDs m \<noteq> None \<or> ms_Toolchains m \<noteq> None)
              \<and> (\<not> validVerificationEntrypointForPlatform (ms_ExecutionPlatform m) (ms_VerificationEntrypoint m)
                 \<or> \<not> validPinnedToolchains url_parse (opt_list (ms_ToolchainIDs m)) (opt_list (ms_Toolchains m))
                 \<or> \<not> entrypointOwned (ms_VerificationEntrypoint m) (ms_AllowedPaths m))
      then Some ''module verification entrypoint or toolchains are invalid''
      else validateDigest (ms_SHA256 m))"

definition wrap_error :: "string \<Rightarrow> check \<Rightarrow> check" where
  \<comment> \<open>\<open>fmt.Errorf\<close> with a prefix and \<open>%w\<close>\<close>
  "wrap_error context r = map_option (\<lambda>msg. context @ '': '' @ msg) r"

definition first_error :: "check list \<Rightarrow> check" where
  \<comment> \<open>a sequence of checks, each returning at its first error\<close>
  "first_error cs = (case filter (\<lambda>c. c \<noteq> None) cs of [] \<Rightarrow> None | c # _ \<Rightarrow> c)"

definition require :: "bool \<Rightarrow> string \<Rightarrow> check" where
  "require ok message = (if ok then None else Some message)"

definition SubmissionManifest_Validate :: "SubmissionManifest \<Rightarrow> check" where
  "SubmissionManifest_Validate s =
     first_error
       [require (\<not> (sm_SubmissionVersion s < 1 \<or> sm_ProjectID s = [] \<or> sm_ModuleTaskID s = []
           \<or> sm_AttemptSeriesID s = [] \<or> sm_Attempt s < 1 \<or> sm_Attempt s > 3))
          ''submission identity or attempt is invalid'',
        SpecRef_Validate (sm_ModuleSpecRef s),
        wrap_error ''base commit'' (validateCommit (sm_BaseCommit s)),
        wrap_error ''head commit'' (validateCommit (sm_HeadCommit s)),
        require (sm_BaseCommit s \<noteq> sm_HeadCommit s) ''submission must change the head commit'',
        require (\<not> (ai_AgentInstanceID (sm_AgentIdentity s) = [] \<or> ai_Role (sm_AgentIdentity s) \<noteq> ''EXECUTOR''
           \<or> ai_LeaseID (sm_AgentIdentity s) = []))
          ''submission requires a lease-bound Executor identity'',
        require (parse_rfc3339 (sm_CreatedAt s) \<noteq> None) ''submission createdAt must be RFC3339'',
        validateDigest (sm_SHA256 s)]"

definition GoalSpec_Validate :: "url_parser \<Rightarrow> GoalSpec \<Rightarrow> check" where
  "GoalSpec_Validate url_parse g =
     (let content = gs_Content g in
      first_error
       [require (\<not> (gc_GoalSpecVersion content < 1 \<or> gc_GoalSpecVersion content > 2 \<or> gc_ProjectID content = []
           \<or> gc_Version content < 1 \<or> gc_Title content = [] \<or> gc_Summary content = []
           \<or> gc_ProblemStatement content = []))
          ''goal identity and versions are required'',
        (if gc_GoalSpecVersion content = 2 then
           (case gc_Toolchain content of
              None \<Rightarrow> Some ''goal toolchain is required''
            | Some selection \<Rightarrow> GoalToolchain_Validate url_parse selection)
         else None),
        require (gs_Status g \<in> {GoalDraft, GoalApproved, GoalSuperseded, GoalRejected}) ''unknown GoalStatus'',
        require (\<not> (length (gc_BusinessOutcomes content) = 0 \<or> length (gc_AcceptanceCriteria content) = 0
           \<or> ai_AgentInstanceID (gc_CreatedBy content) = [] \<or> ai_Role (gc_CreatedBy content) = []))
          ''goal outcomes, acceptance criteria, and creator are required'',
        require (parse_rfc3339 (gc_CreatedAt content) \<noteq> None) ''goal createdAt must be RFC3339'',
        require (\<not> (gs_Status g = GoalApproved
           \<and> (length (gc_UnresolvedItems content) \<noteq> 0 \<or> gs_ApprovedBy g = None
              \<or> gc_GoalSpecVersion content = 2
                \<and> (case gc_Toolchain content of None \<Rightarrow> False | Some t \<Rightarrow> RequiresInstallation t))))
          ''approved goal must have no unresolved items and must be user approved'',
        validateDigest (gs_ContentSHA256 g)])"

section \<open>Plans\<close>

definition check_plan_module :: "PlanModule \<Rightarrow> check" where
  "check_plan_module m =
     (if pm_ModuleID m = [] \<or> pm_Name m = [] \<or> pm_Responsibility m = [] \<or> length (pm_AcceptanceCriteria m) = 0
         \<or> \<not> validPlatformIsolation (pm_ExecutionPlatform m) (pm_SandboxLevel m)
      then Some ''plan module identity, ownership, acceptance, or platform is invalid''
      else if (pm_VerificationEntrypoint m \<noteq> [] \<or> pm_ToolchainIDs m \<noteq> None)
              \<and> (\<not> validVerificationEntrypointForPlatform (pm_ExecutionPlatform m) (pm_VerificationEntrypoint m)
                 \<or> \<not> validToolchainIDs (opt_list (pm_ToolchainIDs m))
                 \<or> \<not> entrypointOwned (pm_VerificationEntrypoint m) (pm_OwnedPaths m))
      then Some ''plan module verification entrypoint or toolchains are invalid''
      else if pm_Risk m \<notin> {''LOW'', ''MEDIUM'', ''HIGH'', ''CRITICAL''} then Some ''plan module risk is invalid''
      else None)"

fun check_plan_modules :: "PlanModule list \<Rightarrow> (string, PlanModule) gomap \<Rightarrow> string + (string, PlanModule) gomap" where
  "check_plan_modules [] modules = Inr modules"
| "check_plan_modules (m # ms) modules =
     (case check_plan_module m of
        Some err \<Rightarrow> Inl err
      | None \<Rightarrow>
          if gomap_has modules (pm_ModuleID m) then Inl ''plan module IDs must be unique''
          else check_plan_modules ms (gomap_put (pm_ModuleID m) m modules))"

fun plan_dependencies ::
  "(string \<Rightarrow> bool) \<Rightarrow> string \<Rightarrow> string list \<Rightarrow> string list \<Rightarrow> string dag_state \<Rightarrow> string + string dag_state" where
  "plan_dependencies known node seen [] st = Inr st"
| "plan_dependencies known node seen (d # ds) (indegree, rvs) =
     (if d = node \<or> d \<in> set seen then Inl ''plan module dependency is cyclic or duplicated''
      else if \<not> known d then Inl ''plan module dependency is unknown''
      else plan_dependencies known node (d # seen) ds
             (gomap_put node (count_of indegree node + 1) indegree,
              gomap_put d (list_of rvs d @ [node]) rvs))"

fun plan_nodes ::
  "(string \<Rightarrow> bool) \<Rightarrow> (string \<times> string list) list \<Rightarrow> string dag_state \<Rightarrow> string + string dag_state" where
  "plan_nodes known [] st = Inr st"
| "plan_nodes known ((node, dependencies) # rest) st =
     (case plan_dependencies known node [] dependencies st of
        Inl err \<Rightarrow> Inl err
      | Inr st' \<Rightarrow> plan_nodes known rest st')"

definition module_dependencies :: "(string, PlanModule) gomap \<Rightarrow> string \<Rightarrow> string list" where
  "module_dependencies modules node = (case map_of modules node of None \<Rightarrow> [] | Some m \<Rightarrow> pm_Dependencies m)"

definition PlanSpec_Validate_order :: "string list \<Rightarrow> string list \<Rightarrow> PlanSpec \<Rightarrow> check" where
  \<comment> \<open>the two orders in which the map of modules is visited\<close>
  "PlanSpec_Validate_order order1 order2 p =
     (if ps_PlanSpecVersion p < 1 \<or> ps_ProjectID p = [] \<or> ar_Style (ps_Architecture p) = []
         \<or> length (ps_Modules p) = 0
      then Some ''plan identity, architecture, and modules are required''
      else (case wrap_error ''goal reference'' (SpecRef_Validate (ps_GoalSpecRef p)) of
              Some err \<Rightarrow> Some err
            | None \<Rightarrow>
                (case check_plan_modules (ps_Modules p) [] of
                   Inl err \<Rightarrow> Some err
                 | Inr modules \<Rightarrow>
                     (case plan_nodes (gomap_has modules)
                             (map (\<lambda>node. (node, module_dependencies modules node)) order1) ([], []) of
                        Inl err \<Rightarrow> Some err
                      | Inr (indegree, rvs) \<Rightarrow>
                          if kahn rvs indegree (filter (\<lambda>n. count_of indegree n = 0) order2) 0
                               \<noteq> int (length modules)
                          then Some ''plan module dependency graph must be acyclic''
                          else validateDigest (ps_SHA256 p)))))"

definition PlanSpec_Validate :: "PlanSpec \<Rightarrow> check" where
  "PlanSpec_Validate p =
     PlanSpec_Validate_order (map pm_ModuleID (ps_Modules p)) (map pm_ModuleID (ps_Modules p)) p"

end
