(* ===== verification/Contract_Properties.thy ===== *)
theory Contract_Properties
  imports Contract_Validate
begin

text \<open>
  What the contract checks establish: accepted paths stay inside their tree, an accepted plan
  is an acyclic graph of known modules, a pinned toolchain is what its identifiers say.
\<close>

section \<open>Paths\<close>

text \<open>
  The stack of \<open>path.Clean\<close> on an unrooted path: plain elements on top of a block of \<open>..\<close>.
\<close>

definition plain_element :: "string \<Rightarrow> bool" where
  "plain_element e \<longleftrightarrow> e \<noteq> [] \<and> e \<noteq> ''.'' \<and> e \<noteq> ''..''"

definition clean_stack :: "string list \<Rightarrow> bool" where
  "clean_stack st \<longleftrightarrow> (\<exists>xs k. st = xs @ replicate k ''..'' \<and> list_all plain_element xs)"

lemma clean_push_stack: "clean_stack st \<Longrightarrow> clean_stack (clean_push False st e)"
proof -
  assume "clean_stack st"
  then obtain xs k where st: "st = xs @ replicate k ''..''" and xs: "list_all plain_element xs"
    unfolding clean_stack_def by blast
  show ?thesis
  proof (cases "e = [] \<or> e = ''.''")
    case True
    then show ?thesis using \<open>clean_stack st\<close> by auto
  next
    case plain: False
    show ?thesis
    proof (cases "e = ''..''")
      case up: True
      show ?thesis
      proof (cases xs)
        case Nil
        have "clean_push False st e = [] @ replicate (Suc k) ''..''"
          by (cases k) (auto simp: st Nil up)
        then show ?thesis unfolding clean_stack_def by (metis list.pred_inject(1))
      next
        case (Cons y ys)
        with xs have "y \<noteq> ''..''" "list_all plain_element ys" by (simp_all add: plain_element_def)
        with Cons have "clean_push False st e = ys @ replicate k ''..''" by (simp add: st up)
        with \<open>list_all plain_element ys\<close> show ?thesis unfolding clean_stack_def by blast
      qed
    next
      case False
      with plain have "clean_push False st e = (e # xs) @ replicate k ''..''" "list_all plain_element (e # xs)"
        using xs by (auto simp: st plain_element_def)
      then show ?thesis unfolding clean_stack_def by blast
    qed
  qed
qed

lemma clean_stack_foldl: "clean_stack st \<Longrightarrow> clean_stack (foldl (clean_push False) st es)"
proof (induction es arbitrary: st)
  case (Cons e es)
  then show ?case using clean_push_stack by (simp del: clean_push.simps)
qed simp

lemma clean_push_subset: "set (clean_push r st e) \<subseteq> insert e (set st)"
  by (auto split: list.splits if_splits)

lemma clean_foldl_subset: "set (foldl (clean_push r) st es) \<subseteq> set st \<union> set es"
proof (induction es arbitrary: st)
  case (Cons e es)
  have "set (foldl (clean_push r) st (e # es)) \<subseteq> set (clean_push r st e) \<union> set es"
    using Cons by (simp del: clean_push.simps)
  also have "\<dots> \<subseteq> set st \<union> set (e # es)" using clean_push_subset [of r st e] by (auto simp del: clean_push.simps)
  finally show ?case .
qed simp

lemma has_prefix_dotdot: "has_prefix (join_with ''/'' (''..'' # e # es)) ''../''"
  using has_prefix_append [of "''../''" "join_with ''/'' (e # es)"] by simp

text \<open>A path that cleaning leaves alone consists of plain elements, and is not \<open>.git\<close> or under it.\<close>

lemma confined_path_elements:
  assumes "confined_path p"
  shows "list_all plain_element (split_byte (CHR ''/'') p) \<and> hd (split_byte (CHR ''/'') p) \<noteq> ''.git''"
proof -
  let ?parts = "split_byte (CHR ''/'') p"
  let ?st = "foldl (clean_push False) [] ?parts"
  from assms have clean: "path_clean p = p" and np: "p \<noteq> ''.''" "\<not> has_prefix p ''/''" "p \<noteq> ''..''"
    "\<not> has_prefix p ''../''" "p \<noteq> ''.git''" "\<not> has_prefix p ''.git/''"
    by (auto simp: confined_path_def)
  have out: "join_with ''/'' (rev ?st) = p" and ne: "?st \<noteq> []"
    using clean np(1,2) by (auto simp: path_clean_def Let_def split: if_splits)
  have "clean_stack ?st" by (rule clean_stack_foldl) (auto simp: clean_stack_def intro: exI [of _ 0])
  then obtain xs k where st: "?st = xs @ replicate k ''..''" and xs: "list_all plain_element xs"
    unfolding clean_stack_def by blast
  have "k = 0"
  proof (rule ccontr)
    assume "k \<noteq> 0"
    then obtain j where k: "k = Suc j" by (cases k) auto
    have "rev ?st = ''..'' # replicate j ''..'' @ rev xs"
      by (simp add: st k replicate_append_same [symmetric])
    then obtain rest where rest: "rev ?st = ''..'' # rest" by blast
    show False
    proof (cases rest)
      case Nil
      with out rest np(3) show False by simp
    next
      case (Cons e es)
      with out rest np(4) has_prefix_dotdot [of e es] show False by simp
    qed
  qed
  with st have st: "?st = xs" by simp
  have "\<And>e. e \<in> set (rev ?st) \<Longrightarrow> CHR ''/'' \<notin> set e"
    using clean_foldl_subset [of False "[]" ?parts] split_byte_no_sep by auto
  with ne have "split_byte (CHR ''/'') (join_with ''/'' (rev ?st)) = rev ?st"
    by (intro split_byte_join) auto
  with out have parts: "?parts = rev xs" by (simp add: st)
  have "hd ?parts \<noteq> ''.git''"
  proof
    assume git: "hd ?parts = ''.git''"
    obtain e es where es: "?parts = e # es" by (cases ?parts) auto
    have "p = join_with ''/'' ?parts" using join_split_byte [of "CHR ''/''" p] by simp
    with es git have p: "p = join_with ''/'' (''.git'' # es)" by simp
    show False
    proof (cases es)
      case Nil
      with p np(5) show False by simp
    next
      case (Cons f fs)
      with p have "p = ''.git/'' @ join_with ''/'' (f # fs)" by simp
      with np(6) show False using has_prefix_append by metis
    qed
  qed
  with xs parts show ?thesis by simp
qed

lemma entrypoint_confined:
  "validVerificationEntrypoint v \<Longrightarrow> confined_path (slashes v)"
  by (auto simp: validVerificationEntrypoint_def confined_path_def Let_def split: if_splits)

section \<open>Plans\<close>

lemma plan_dependencies_dag:
  "(case plan_dependencies known node seen ds st of Inl _ \<Rightarrow> None | Inr s \<Rightarrow> Some s)
     = dag_dependencies known node seen ds st"
  by (induction known node seen ds st rule: plan_dependencies.induct) auto

lemma plan_nodes_dag:
  "(case plan_nodes known ns st of Inl _ \<Rightarrow> None | Inr s \<Rightarrow> Some s) = dag_nodes known ns st"
proof (induction known ns st rule: plan_nodes.induct)
  case (2 known node ds rest st)
  then show ?case using plan_dependencies_dag [of known node "[]" ds st]
    by (auto split: sum.splits option.splits)
qed simp

lemma check_plan_modules_Inr:
  "check_plan_modules ms modules = Inr m' \<longleftrightarrow>
     (\<forall>m \<in> set ms. check_plan_module m = None \<and> map_of modules (pm_ModuleID m) = None)
     \<and> distinct (map pm_ModuleID ms)
     \<and> m' = foldl (\<lambda>acc m. gomap_put (pm_ModuleID m) m acc) modules ms"
proof (induction ms arbitrary: modules)
  case (Cons m ms)
  then show ?case
    by (auto simp: gomap_has_def amap.look_store image_iff split: option.splits if_splits)
qed auto

lemma put_modules:
  "distinct (map pm_ModuleID ms) \<Longrightarrow> (\<And>m. m \<in> set ms \<Longrightarrow> map_of acc (pm_ModuleID m) = None) \<Longrightarrow>
     foldl (\<lambda>acc m. gomap_put (pm_ModuleID m) m acc) acc ms = acc @ map (\<lambda>m. (pm_ModuleID m, m)) ms"
proof (induction ms arbitrary: acc)
  case (Cons m ms)
  have "gomap_put (pm_ModuleID m) m acc = acc @ [(pm_ModuleID m, m)]"
    using Cons.prems(2) [of m] unfolding gomap_put_def by (induction acc) (auto split: if_splits)
  moreover have "map_of (acc @ [(pm_ModuleID m, m)]) (pm_ModuleID x) = None" if "x \<in> set ms" for x
  proof -
    from that Cons.prems(1) have "pm_ModuleID x \<noteq> pm_ModuleID m" by (auto simp: image_iff)
    with that Cons.prems(2) [of x] show ?thesis by (simp add: map_add_def)
  qed
  ultimately show ?case using Cons by simp
qed simp

definition plan_ok :: "PlanSpec \<Rightarrow> bool" where
  "plan_ok p \<longleftrightarrow>
     1 \<le> ps_PlanSpecVersion p \<and> ps_ProjectID p \<noteq> [] \<and> ar_Style (ps_Architecture p) \<noteq> []
     \<and> ps_Modules p \<noteq> [] \<and> SpecRef_Validate (ps_GoalSpecRef p) = None
     \<and> (\<forall>m \<in> set (ps_Modules p). check_plan_module m = None)
     \<and> distinct (map pm_ModuleID (ps_Modules p))
     \<and> (\<forall>m \<in> set (ps_Modules p). distinct (pm_Dependencies m) \<and> pm_ModuleID m \<notin> set (pm_Dependencies m)
          \<and> set (pm_Dependencies m) \<subseteq> pm_ModuleID ` set (ps_Modules p))
     \<and> acyclic {(d, pm_ModuleID m) | d m. m \<in> set (ps_Modules p) \<and> d \<in> set (pm_Dependencies m)}
     \<and> digest_pattern (ps_SHA256 p)"

lemma plan_graph:
  assumes dist: "distinct (map pm_ModuleID ms)" and o: "distinct ord1" "set ord1 = pm_ModuleID ` set ms"
    and o2: "distinct ord2" "set ord2 = pm_ModuleID ` set ms"
  defines "modules \<equiv> map (\<lambda>m. (pm_ModuleID m, m)) ms"
  defines "g \<equiv> map (\<lambda>node. (node, module_dependencies modules node)) ord1"
  shows "(case plan_nodes (gomap_has modules) g ([], []) of
            Inl _ \<Rightarrow> False
          | Inr (ind, rvs) \<Rightarrow> kahn rvs ind (filter (\<lambda>n. count_of ind n = 0) ord2) 0 = int (length modules))
    \<longleftrightarrow> (\<forall>m \<in> set ms. distinct (pm_Dependencies m) \<and> pm_ModuleID m \<notin> set (pm_Dependencies m)
          \<and> set (pm_Dependencies m) \<subseteq> pm_ModuleID ` set ms)
        \<and> acyclic {(d, pm_ModuleID m) | d m. m \<in> set ms \<and> d \<in> set (pm_Dependencies m)}"
proof -
  have "distinct (map fst modules)" using dist by (simp add: modules_def comp_def)
  then have look: "map_of modules (pm_ModuleID m) = Some m" if "m \<in> set ms" for m
    using that by (intro map_of_is_SomeI) (auto simp: modules_def)
  have deps: "module_dependencies modules (pm_ModuleID m) = pm_Dependencies m" if "m \<in> set ms" for m
    using look [OF that] by (simp add: module_dependencies_def)
  have ids: "fst ` set modules = pm_ModuleID ` set ms" by (auto simp: modules_def image_image)
  have g_ok: "gomap_ok g" using o(1) by (simp add: gomap_ok_def g_def comp_def)
  have g_ids: "fst ` set g = pm_ModuleID ` set ms" using o(2) by (auto simp: g_def image_image)
  have g_set: "set g = (\<lambda>m. (pm_ModuleID m, pm_Dependencies m)) ` set ms"
    using o(2) deps by (auto simp: g_def image_iff)
  have known: "gomap_has modules = gomap_has g"
    by (rule ext) (metis gomap_has_def amap.keys_look ids g_ids)
  have len: "length modules = length g"
    using dist o by (metis distinct_card g_def length_map list.set_map modules_def)
  have loc: "locally_ok g \<longleftrightarrow> (\<forall>m \<in> set ms. distinct (pm_Dependencies m)
      \<and> pm_ModuleID m \<notin> set (pm_Dependencies m) \<and> set (pm_Dependencies m) \<subseteq> pm_ModuleID ` set ms)"
    unfolding locally_ok_def g_ids by (auto simp: g_set)
  have edges: "{(d, n). d \<in> set (list_of g n)}
      = {(d, pm_ModuleID m) | d m. m \<in> set ms \<and> d \<in> set (pm_Dependencies m)}"
  proof -
    have "list_of g (pm_ModuleID m) = pm_Dependencies m" if "m \<in> set ms" for m
      using g_ok that by (intro list_of_eq) (auto simp: gomap_ok_def g_set)
    moreover have "list_of g n = []" if "n \<notin> pm_ModuleID ` set ms" for n
      using list_of_cases [of g n] that g_ids by force
    ultimately show ?thesis by (auto simp: image_iff) (metis empty_iff list.set(1))
  qed
  show ?thesis
  proof (cases "plan_nodes (gomap_has modules) g ([], [])")
    case (Inl err)
    with plan_nodes_dag [of "gomap_has modules" g "([], [])"] dag_nodes_local [of g "([], [])"] known loc
    show ?thesis by auto
  next
    case (Inr st)
    obtain ind rvs where st: "st = (ind, rvs)" by (cases st)
    with Inr plan_nodes_dag [of "gomap_has modules" g "([], [])"] known
    have nodes: "dag_nodes (gomap_has g) g ([], []) = Some (ind, rvs)" by simp
    have "kahn rvs ind (filter (\<lambda>n. count_of ind n = 0) ord2) 0 = int (length g)
        \<longleftrightarrow> acyclic {(d, n). d \<in> set (list_of g n)}"
      by (rule kahn_decides [OF g_ok o2(1) _ _ nodes]) (use o2(2) g_ids in \<open>auto simp: count_of_def\<close>)
    with nodes dag_nodes_local [of g "([], [])"] loc edges len show ?thesis by (simp add: Inr st)
  qed
qed

lemma plan_modules_result:
  "check_plan_modules ms [] = Inr modules \<longleftrightarrow>
     (\<forall>m \<in> set ms. check_plan_module m = None) \<and> distinct (map pm_ModuleID ms)
     \<and> modules = map (\<lambda>m. (pm_ModuleID m, m)) ms"
  using put_modules [of ms "[]"] by (auto simp: check_plan_modules_Inr)

lemma wrap_error_None [simp]: "wrap_error c r = None \<longleftrightarrow> r = None"
  by (simp add: wrap_error_def)

lemma wrap_error_nil [simp]: "wrap_error c None = None"
  by (simp add: wrap_error_def)

section \<open>Toolchains\<close>

lemma pinned_tools_Some:
  "pinned_tools url tools byID = Some r \<Longrightarrow>
     set r = vt_InventoryID ` set tools \<union> set byID
     \<and> (\<forall>t \<in> set tools. validateVersionedTool url t = None \<and> vt_Source t = ToolchainInstalled)
     \<and> distinct (map vt_InventoryID tools)
     \<and> vt_InventoryID ` set tools \<inter> set byID = {}"
proof (induction tools arbitrary: byID)
  case (Cons t ts)
  then have t: "validateVersionedTool url t = None" "vt_Source t = ToolchainInstalled" "vt_InventoryID t \<notin> set byID"
    and rest: "pinned_tools url ts (vt_InventoryID t # byID) = Some r" by (auto split: if_splits)
  from Cons.IH [OF rest] t show ?case by simp
qed simp

lemma check_toolchain_ids_distinct: "check_toolchain_ids ids seen \<Longrightarrow> distinct ids \<and> set ids \<inter> set seen = {}"
  by (induction ids seen rule: check_toolchain_ids.induct) (auto split: if_splits)

section \<open>Properties\<close>

text \<open>
  An accepted verification entry point stays inside its tree. After the backslashes are
  read as slashes, none of its elements is empty, a dot or two dots, so it is not rooted and
  never climbs, and its first element is not the repository's own directory.
\<close>

lemma entrypoint_inside_tree:
  assumes "validVerificationEntrypointForPlatform platform v"
  shows "(\<forall>e \<in> set (split_byte (CHR ''/'') (slashes v)). e \<noteq> [] \<and> e \<noteq> ''.'' \<and> e \<noteq> ''..'')
    \<and> hd (split_byte (CHR ''/'') (slashes v)) \<noteq> ''.git'' \<and> platform \<in> {PlatformLinux, PlatformWindows}"
proof -
  from assms have v: "validVerificationEntrypoint v" and p: "platform \<in> {PlatformLinux, PlatformWindows}"
    by (auto simp: validVerificationEntrypointForPlatform_def split: if_splits ExecutionPlatform.splits)
  from confined_path_elements [OF entrypoint_confined [OF v]] p show ?thesis
    unfolding list_all_iff plain_element_def by blast
qed

text \<open>
  C28: a plan is accepted exactly when its fields are present, its modules are valid with
  distinct identifiers, every dependency is a known other module named once, the dependencies
  have no cycle and the digest is well-formed; the orders in which Go visits the map of modules
  make no difference to whether it is accepted.
\<close>

theorem plan_validation_exact:
  assumes "distinct ord1" and "set ord1 = pm_ModuleID ` set (ps_Modules p)"
    and "distinct ord2" and "set ord2 = pm_ModuleID ` set (ps_Modules p)"
  shows "PlanSpec_Validate_order ord1 ord2 p = None \<longleftrightarrow> plan_ok p"
proof (cases "check_plan_modules (ps_Modules p) []")
  case (Inl err)
  with plan_modules_result [of "ps_Modules p"] show ?thesis
    by (auto simp: PlanSpec_Validate_order_def plan_ok_def split: option.splits if_splits)
next
  case (Inr modules)
  with plan_modules_result [of "ps_Modules p" modules] have mods: "modules = map (\<lambda>m. (pm_ModuleID m, m)) (ps_Modules p)"
    and dist: "distinct (map pm_ModuleID (ps_Modules p))"
    and each: "\<forall>m \<in> set (ps_Modules p). check_plan_module m = None" by auto
  from plan_graph [OF dist assms] each dist mods Inr show ?thesis
    by (auto simp: PlanSpec_Validate_order_def plan_ok_def validateDigest_iff
        split: option.splits if_splits sum.splits prod.splits)
qed

definition ex_plan_module :: "string \<Rightarrow> string list \<Rightarrow> PlanModule" where
  "ex_plan_module name deps =
     \<lparr>pm_ModuleID = name, pm_Name = name, pm_Responsibility = ''work'', pm_ExecutionPlatform = PlatformLinux,
      pm_SandboxLevel = IsolationContainer, pm_OwnedPaths = [''src/...''], pm_ForbiddenPaths = [],
      pm_PublicInterfaces = [], pm_Dependencies = deps, pm_AcceptanceCriteria = [''builds''],
      pm_ToolchainIDs = Some [''go''], pm_VerificationEntrypoint = ''src/verify.sh'', pm_Risk = ''LOW''\<rparr>"

definition ex_plan :: "PlanModule list \<Rightarrow> PlanSpec" where
  "ex_plan modules =
     \<lparr>ps_PlanSpecVersion = 1, ps_ProjectID = ''project'',
      ps_GoalSpecRef = \<lparr>sr_Version = 1, sr_SHA256 = zero_digest\<rparr>,
      ps_Architecture = \<lparr>ar_Style = ''layered'', ar_Components = [], ar_DataFlows = [], ar_TrustBoundaries = [],
                         ar_DeploymentUnits = []\<rparr>,
      ps_QualityAttributes = [], ps_Modules = modules, ps_IntegrationPlan = [], ps_ReleasePlan = [],
      ps_TestStrategy = [], ps_RollbackStrategy = [], ps_OpenDecisions = [], ps_SHA256 = zero_digest\<rparr>"

theorem plan_validation_exact_witness:
  "plan_ok (ex_plan [ex_plan_module ''a'' [], ex_plan_module ''b'' [''a'']])
   \<and> \<not> plan_ok (ex_plan [ex_plan_module ''a'' [''b''], ex_plan_module ''b'' [''a'']])"
proof
  let ?p = "ex_plan [ex_plan_module ''a'' [], ex_plan_module ''b'' [''a'']]"
  have "PlanSpec_Validate_order [''b'', ''a''] [''a'', ''b''] ?p = None" by code_simp
  then show "plan_ok ?p"
    by (subst (asm) plan_validation_exact) (auto simp: ex_plan_def ex_plan_module_def)
  let ?q = "ex_plan [ex_plan_module ''a'' [''b''], ex_plan_module ''b'' [''a'']]"
  have "PlanSpec_Validate_order [''a'', ''b''] [''a'', ''b''] ?q \<noteq> None" by code_simp
  then show "\<not> plan_ok ?q"
    by (subst (asm) plan_validation_exact) (auto simp: ex_plan_def ex_plan_module_def)
qed

text \<open>
  A tool that passes validation and has to be installed is ready to provision exactly when
  its installation is authorized, whatever \<open>url.Parse\<close> accepts; so it needs further input
  exactly when it is not.
\<close>

lemma tool_ready_iff_authorized:
  assumes "validateVersionedTool url_parse tool = None" and "vt_Source tool = ToolchainInstallRequired"
    and "vt_Install tool = Some install"
  shows "tool_ReadyToProvision tool = ti_Authorized install
    \<and> tool_NeedsInstallationInput tool = (\<not> ti_Authorized install)"
proof -
  from assms(1,2) have v: "validateToolchainInstall url_parse tool = None"
    by (auto simp: validateVersionedTool_def split: if_splits)
  have "tool_ReadyToProvision tool = ti_Authorized install"
  proof (cases "ti_Authorized install")
    case True
    with v assms(2,3) show ?thesis
      by (cases "ti_Method install")
        (auto simp: validateToolchainInstall_def tool_ReadyToProvision_def check_user_archive_def
          check_crosstool_archive_def split: if_splits)
  qed (simp add: tool_ReadyToProvision_def assms(2,3))
  then show ?thesis by (simp add: tool_NeedsInstallationInput_def assms(2))
qed

definition ex_tool :: "string \<Rightarrow> ToolchainInstall \<Rightarrow> VersionedTool" where
  "ex_tool name install =
     \<lparr>vt_InventoryID = [], vt_Kind = ToolchainCompiler, vt_Name = name, vt_Version = ''14.1.0'',
      vt_Platform = PlatformLinux, vt_Architecture = ''amd64'', vt_Source = ToolchainInstallRequired,
      vt_Install = Some install\<rparr>"

definition ex_install :: ToolchainInstall where
  "ex_install =
     \<lparr>ti_Method = ToolchainInstallCrosstoolNGArchive, ti_Authorized = True,
      ti_EvidenceRef = artifact_prefix @ drop 7 zero_digest, ti_ArtifactID = ''upload-1'',
      ti_ArtifactRef = artifact_prefix @ drop 7 zero_digest, ti_DownloadURL = [], ti_SourceSHA256 = zero_digest\<rparr>"

text \<open>
  An accepted module specification pins its toolchains. If it names an entry point or
  toolchains at all, then the identifiers are distinct and are exactly the inventory identifiers
  of the listed tools, which are all installed and valid; the entry point is owned by an allowed
  path; and a Windows module is disclosed as trusted work without any isolation.
\<close>

lemma module_spec_pinned:
  assumes "ModuleSpec_Validate url_parse m = None"
    and "ms_VerificationEntrypoint m \<noteq> [] \<or> ms_ToolchainIDs m \<noteq> None \<or> ms_Toolchains m \<noteq> None"
  shows "distinct (opt_list (ms_ToolchainIDs m))
    \<and> set (opt_list (ms_ToolchainIDs m)) = vt_InventoryID ` set (opt_list (ms_Toolchains m))
    \<and> (\<forall>t \<in> set (opt_list (ms_Toolchains m)). validateVersionedTool url_parse t = None \<and> vt_Source t = ToolchainInstalled)
    \<and> entrypointOwned (ms_VerificationEntrypoint m) (ms_AllowedPaths m)
    \<and> (if ms_ExecutionPlatform m = PlatformWindows
       then ms_SandboxLevel m = IsolationNone \<and> wp_Trust (ms_WorkloadProfile m) = WorkloadTrusted
       else ms_SandboxLevel m = IsolationContainer \<and> np_Mode (ms_NetworkPolicy m) \<noteq> NetworkUnrestricted)"
proof -
  let ?ids = "opt_list (ms_ToolchainIDs m)" and ?tools = "opt_list (ms_Toolchains m)"
  from assms have pinned: "validPinnedToolchains url_parse ?ids ?tools"
    and owned: "entrypointOwned (ms_VerificationEntrypoint m) (ms_AllowedPaths m)"
    and platform: "validPlatformIsolation (ms_ExecutionPlatform m) (ms_SandboxLevel m)"
    and windows: "ms_ExecutionPlatform m = PlatformWindows \<Longrightarrow> wp_Trust (ms_WorkloadProfile m) = WorkloadTrusted"
    and linux: "ms_ExecutionPlatform m \<noteq> PlatformWindows \<Longrightarrow> np_Mode (ms_NetworkPolicy m) \<noteq> NetworkUnrestricted"
    by (simp_all add: ModuleSpec_Validate_def split: if_splits)
  from pinned obtain byID where ids: "validToolchainIDs ?ids" and len: "length ?tools = length ?ids"
    and tools: "pinned_tools url_parse ?tools [] = Some byID" and sub: "set ?ids \<subseteq> set byID"
    by (auto simp: validPinnedToolchains_def list_all_iff split: if_splits option.splits)
  from ids have dist: "distinct ?ids"
    using check_toolchain_ids_distinct by (auto simp: validToolchainIDs_def split: if_splits)
  from pinned_tools_Some [OF tools] have byID: "set byID = vt_InventoryID ` set ?tools"
    and each: "\<forall>t \<in> set ?tools. validateVersionedTool url_parse t = None \<and> vt_Source t = ToolchainInstalled"
    and dt: "distinct (map vt_InventoryID ?tools)" by auto
  have "card (set ?ids) = card (set byID)"
    using distinct_card [OF dist] distinct_card [OF dt] len byID by simp
  with sub have "set ?ids = set byID" by (simp add: card_subset_eq)
  with byID dist each owned platform windows linux show ?thesis
    by (auto simp: validPlatformIsolation_def)
qed

definition ex_installed :: VersionedTool where
  "ex_installed =
     \<lparr>vt_InventoryID = ''go-1'', vt_Kind = ToolchainSDK, vt_Name = ''go'', vt_Version = ''1.26.5'',
      vt_Platform = PlatformLinux, vt_Architecture = ''amd64'', vt_Source = ToolchainInstalled, vt_Install = None\<rparr>"

definition ex_module_spec :: ModuleSpec where
  "ex_module_spec =
     \<lparr>ms_ModuleSpecVersion = 1, ms_ModuleID = ''module'', ms_ProjectID = ''project'', ms_PlanVersion = 1,
      ms_Name = ''module'', ms_Purpose = ''work'', ms_Responsibilities = [], ms_NonResponsibilities = [],
      ms_Inputs = [], ms_Outputs = [], ms_Interfaces = [], ms_DataOwnership = [], ms_Dependencies = [],
      ms_AllowedPaths = [''src/...''], ms_ForbiddenPaths = [], ms_ExecutionPlatform = PlatformLinux,
      ms_SandboxLevel = IsolationContainer,
      ms_NetworkPolicy = \<lparr>np_Mode = NetworkDenyAll, np_Destinations = []\<rparr>,
      ms_WorkloadProfile = \<lparr>wp_Trust = WorkloadUntrusted, wp_HostileMultiTenant = False,
        wp_RequiresNetworkIsolation = True, wp_RequiresHiddenTestConfidentiality = True\<rparr>,
      ms_ToolCapabilities = [], ms_ToolchainIDs = Some [''go-1''], ms_Toolchains = Some [ex_installed],
      ms_VerificationEntrypoint = ''src/verify.sh'', ms_KnowledgeRefs = [], ms_AcceptanceCriteria = [],
      ms_TestRequirements = [], ms_ObservabilityRequirements = [], ms_SecurityRequirements = [],
      ms_Budget = \<lparr>bu_MaxInputTokens = 1, bu_MaxOutputTokens = 1, bu_MaxCost = ''1'', bu_Currency = ''USD''\<rparr>,
      ms_SHA256 = zero_digest\<rparr>"

end
