(* ===== verification/Go_Sha256.thy ===== *)
theory Go_Sha256
  imports Go_Strings
begin

text \<open>
  \<open>sha256.Sum256\<close> and \<open>hex.EncodeToString\<close> of Go's standard library, on words of 32 bits whose
  addition wraps around.
\<close>

unbundle bit_operations_syntax

type_synonym word32 = "32 word"

text \<open>
  The constants are fractional parts of roots of the first primes: 32 bits of the cube roots of
  64 primes for the rounds, of the square roots of eight primes for the initial state. The root
  is found bit by bit, from the highest one.
\<close>

fun root_digits :: "nat \<Rightarrow> int \<Rightarrow> nat \<Rightarrow> int \<Rightarrow> int" where
  "root_digits k n 0 acc = acc"
| "root_digits k n (Suc b) acc = root_digits k n b (if (acc + 2 ^ b) ^ k \<le> n then acc + 2 ^ b else acc)"

definition sha_primes :: "int list" where
  "sha_primes =
     [2, 3, 5, 7, 11, 13, 17, 19, 23, 29, 31, 37, 41, 43, 47, 53,
      59, 61, 67, 71, 73, 79, 83, 89, 97, 101, 103, 107, 109, 113, 127, 131,
      137, 139, 149, 151, 157, 163, 167, 173, 179, 181, 191, 193, 197, 199, 211, 223,
      227, 229, 233, 239, 241, 251, 257, 263, 269, 271, 277, 281, 283, 293, 307, 311]"

definition sha_k :: "word32 list" where
  "sha_k = map (\<lambda>p. word_of_int (root_digits 3 (p * 2 ^ 96) 35 0)) sha_primes"

definition sha_h0 :: "word32 list" where
  "sha_h0 = map (\<lambda>p. word_of_int (root_digits 2 (p * 2 ^ 64) 35 0)) (take 8 sha_primes)"

definition rotr32 :: "nat \<Rightarrow> word32 \<Rightarrow> word32" where
  "rotr32 n w = drop_bit n w OR push_bit (32 - n) w"

definition byte_nat :: "char \<Rightarrow> nat" where
  "byte_nat c = of_char c"

text \<open>Padding: a one bit, zeros up to 56 modulo 64, the length in bits in eight bytes.\<close>

definition be_bytes :: "nat \<Rightarrow> nat \<Rightarrow> nat list" where
  "be_bytes k n = map (\<lambda>i. (n div 256 ^ (k - 1 - i)) mod 256) [0..<k]"

definition sha_pad :: "nat list \<Rightarrow> nat list" where
  "sha_pad m = m @ [128] @ replicate ((119 - length m mod 64) mod 64) 0 @ be_bytes 8 (8 * length m)"

fun be_words :: "nat list \<Rightarrow> word32 list" where
  "be_words (a # b # c # d # rest) =
     word_of_nat (((a * 256 + b) * 256 + c) * 256 + d) # be_words rest"
| "be_words _ = []"

fun sha_blocks :: "nat \<Rightarrow> word32 list \<Rightarrow> word32 list list" where
  "sha_blocks 0 ws = []"
| "sha_blocks (Suc k) ws = take 16 ws # sha_blocks k (drop 16 ws)"

text \<open>The schedule, built from its last words (kept in reverse).\<close>

fun sha_extend :: "nat \<Rightarrow> word32 list \<Rightarrow> word32 list" where
  "sha_extend 0 r = r"
| "sha_extend (Suc k) r =
     (let w15 = r ! 14; w2 = r ! 1;
          s0 = rotr32 7 w15 XOR rotr32 18 w15 XOR drop_bit 3 w15;
          s1 = rotr32 17 w2 XOR rotr32 19 w2 XOR drop_bit 10 w2
      in sha_extend k ((r ! 15 + s0 + r ! 6 + s1) # r))"

definition sha_schedule :: "word32 list \<Rightarrow> word32 list" where
  "sha_schedule block = rev (sha_extend 48 (rev block))"

fun sha_round :: "word32 list \<Rightarrow> word32 \<times> word32 \<Rightarrow> word32 list" where
  "sha_round [a, b, c, d, e, f, g, h] (k, w) =
     (let s1 = rotr32 6 e XOR rotr32 11 e XOR rotr32 25 e;
          ch = (e AND f) XOR (NOT e AND g);
          t1 = h + s1 + ch + k + w;
          s0 = rotr32 2 a XOR rotr32 13 a XOR rotr32 22 a;
          maj = (a AND b) XOR (a AND c) XOR (b AND c)
      in [t1 + s0 + maj, a, b, c, d + t1, e, f, g])"
| "sha_round st _ = st"

definition sha_block :: "word32 list \<Rightarrow> word32 list \<Rightarrow> word32 list" where
  "sha_block h block = map2 (+) h (foldl sha_round h (zip sha_k (sha_schedule block)))"

definition sha256_words :: "string \<Rightarrow> word32 list" where
  "sha256_words s =
     (let padded = sha_pad (map byte_nat s)
      in foldl sha_block sha_h0 (sha_blocks (length padded div 64) (be_words padded)))"

definition hex_digit :: "nat \<Rightarrow> char" where
  "hex_digit n = ''0123456789abcdef'' ! (n mod 16)"

definition hex_word :: "word32 \<Rightarrow> string" where
  "hex_word w = map (\<lambda>i. hex_digit (unat (drop_bit (28 - 4 * i) w))) [0..<8]"

definition sha256_hex :: "string \<Rightarrow> string" where
  "sha256_hex s = concat (map hex_word (sha256_words s))"

text \<open>The result has the form every digest of the program has.\<close>

lemma sha_round_length: "length (sha_round st kw) = length st"
  by (cases "(st, kw)" rule: sha_round.cases) (simp_all add: Let_def)

lemma sha_rounds_length: "length (foldl sha_round st kws) = length st"
  by (induction kws arbitrary: st) (simp_all add: sha_round_length)

lemma sha_blocks_length: "length h = 8 \<Longrightarrow> length (foldl sha_block h bs) = 8"
  by (induction bs arbitrary: h) (simp_all add: sha_block_def sha_rounds_length)

lemma sha256_words_length: "length (sha256_words s) = 8"
  unfolding sha256_words_def Let_def by (rule sha_blocks_length) (simp add: sha_h0_def sha_primes_def)

lemma hex_digit_lower: "is_lower_hex (hex_digit n)"
proof -
  have "n mod 16 < length ''0123456789abcdef''" by simp
  then have "hex_digit n \<in> set ''0123456789abcdef''" unfolding hex_digit_def by (rule nth_mem)
  then show ?thesis by (simp add: is_lower_hex_def)
qed

lemma hex_word_length: "length (hex_word w) = 8"
  by (simp add: hex_word_def)

lemma sha256_hex_length: "length (sha256_hex s) = 64"
proof -
  have "length (concat (map hex_word ws)) = 8 * length ws" for ws
    by (induction ws) (simp_all add: hex_word_length)
  then show ?thesis by (simp add: sha256_hex_def sha256_words_length)
qed

lemma sha256_hex_lower: "list_all is_lower_hex (sha256_hex s)"
  by (auto simp: sha256_hex_def hex_word_def list_all_iff hex_digit_lower)

end
