(* ===== verification/Contract_Audit.thy ===== *)
theory Contract_Audit
  imports Contract_Validate Go_Sha256
begin

text \<open>
  Audit findings, evidence bundles and the audit gate: \<open>pkg/contracts/audit_results.go\<close> and
  \<open>EvidenceBundle.Validate\<close> of \<open>types.go\<close>.
\<close>

section \<open>Fields\<close>

definition validFindingSeverity :: "FindingSeverity \<Rightarrow> bool" where
  "validFindingSeverity v \<longleftrightarrow> v \<in> {FindingInfo, FindingLow, FindingMedium, FindingHigh, FindingCritical}"

definition validFindingStatus :: "FindingStatus \<Rightarrow> bool" where
  "validFindingStatus v \<longleftrightarrow> v \<in> {FindingOpen, FindingFixed, FindingAccepted, FindingFalsePositive}"

definition validCriterionStatus :: "CriterionStatus \<Rightarrow> bool" where
  "validCriterionStatus v \<longleftrightarrow> v = CriterionPass \<or> v = CriterionFail \<or> v = CriterionNotTested"

definition validAuditSingleLine :: "string \<Rightarrow> bool" where
  "validAuditSingleLine value \<longleftrightarrow> value \<noteq> [] \<and> trim_space value = value \<and> \<not> contains_any value crlf_nul"

definition validAuditNarrative :: "string \<Rightarrow> bool" where
  "validAuditNarrative value \<longleftrightarrow> value \<noteq> [] \<and> trim_space value = value \<and> CHR 0x00 \<notin> set value"

definition validateAuditRefs :: "string list \<Rightarrow> check" where
  "validateAuditRefs values =
     (if list_all validAuditSingleLine values then None else Some ''audit evidence reference is invalid'')"

definition validArtifactRef :: "string \<Rightarrow> bool" where
  "validArtifactRef value \<longleftrightarrow>
     length value > length ''artifact://'' \<and> has_prefix value ''artifact://'' \<and> validAuditSingleLine value"

definition validEvidenceTimeRange :: "string \<Rightarrow> string \<Rightarrow> bool" where
  \<comment> \<open>whether \<open>validateEvidenceTimeRange\<close> returns nil\<close>
  "validEvidenceTimeRange startedAt completedAt \<longleftrightarrow>
     (case parse_rfc3339 startedAt of
        None \<Rightarrow> False
      | Some started \<Rightarrow>
          (case parse_rfc3339 completedAt of None \<Rightarrow> False | Some completed \<Rightarrow> \<not> completed < started))"

definition normalizeAuditPath :: "string \<Rightarrow> string + string" where
  "normalizeAuditPath value =
     (if value = [] then Inr []
      else (let normalized = slashes value; clean = path_clean normalized in
            if clean \<noteq> normalized \<or> clean = ''.'' \<or> has_prefix clean ''/'' \<or> clean = ''..''
               \<or> has_prefix clean ''../'' \<or> clean = ''.git'' \<or> has_prefix clean ''.git/''
            then Inl ''finding file path is invalid'' else Inr clean))"

section \<open>Findings\<close>

definition AuditFindingFingerprint :: "string \<Rightarrow> string \<Rightarrow> string \<Rightarrow> string \<Rightarrow> string + string" where
  "AuditFindingFingerprint ruleID file semanticLocation evidencePattern =
     (if \<not> validAuditSingleLine ruleID \<or> \<not> validAuditSingleLine semanticLocation
         \<or> \<not> validAuditSingleLine evidencePattern
      then Inl ''finding fingerprint components are required''
      else (case normalizeAuditPath file of
              Inl err \<Rightarrow> Inl err
            | Inr normalizedPath \<Rightarrow>
                Inr (''sha256:'' @ sha256_hex
                  (join_with nul [ruleID, normalizedPath, semanticLocation, evidencePattern]))))"

definition valid_line_range :: "string \<Rightarrow> int \<Rightarrow> int \<Rightarrow> check" where
  "valid_line_range normalizedPath lineStart lineEnd =
     (if normalizedPath = [] then
        (if lineStart \<noteq> 0 \<or> lineEnd \<noteq> 0 then Some ''finding lines require a file'' else None)
      else if lineStart < 0 \<or> lineEnd < 0 \<or> (lineStart = 0) \<noteq> (lineEnd = 0)
              \<or> lineStart > 0 \<and> lineEnd < lineStart
      then Some ''finding line range is invalid'' else None)"

definition CanonicalAuditFinding :: "AuditFinding \<Rightarrow> string + AuditFinding" where
  "CanonicalAuditFinding finding =
     (if \<not> validFindingSeverity (af_Severity finding) \<or> \<not> validFindingStatus (af_Status finding)
         \<or> \<not> validAuditSingleLine (af_Category finding) \<or> \<not> validAuditSingleLine (af_RuleID finding)
         \<or> \<not> validAuditSingleLine (af_SemanticLocation finding)
         \<or> \<not> validAuditSingleLine (af_EvidencePattern finding)
         \<or> \<not> validAuditNarrative (af_ExpectedBehavior finding)
         \<or> \<not> validAuditNarrative (af_ObservedBehavior finding)
         \<or> \<not> validAuditNarrative (af_RemediationConstraint finding)
      then Inl ''finding fields are invalid''
      else (case normalizeAuditPath (af_File finding) of
              Inl err \<Rightarrow> Inl err
            | Inr normalizedPath \<Rightarrow>
                (case valid_line_range normalizedPath (af_LineStart finding) (af_LineEnd finding) of
                   Some err \<Rightarrow> Inl err
                 | None \<Rightarrow>
                     (case validateAuditRefs (opt_list (af_EvidenceRefs finding)) of
                        Some err \<Rightarrow> Inl err
                      | None \<Rightarrow>
                          (case AuditFindingFingerprint (af_RuleID finding) normalizedPath
                                  (af_SemanticLocation finding) (af_EvidencePattern finding) of
                             Inl err \<Rightarrow> Inl err
                           | Inr fingerprint \<Rightarrow>
                               Inr (finding\<lparr>af_File := normalizedPath,
                                      af_StableFingerprint := fingerprint,
                                      af_FindingID := ''FND-'' @ trim_prefix fingerprint ''sha256:'',
                                      af_EvidenceRefs := (case af_EvidenceRefs finding of
                                          None \<Rightarrow> Some [] | Some refs \<Rightarrow> Some refs)\<rparr>))))))"

definition AuditFinding_Validate :: "AuditFinding \<Rightarrow> check" where
  "AuditFinding_Validate finding =
     (case CanonicalAuditFinding finding of
        Inl err \<Rightarrow> Some err
      | Inr canonical \<Rightarrow>
          if af_FindingID finding \<noteq> af_FindingID canonical
             \<or> af_StableFingerprint finding \<noteq> af_StableFingerprint canonical
             \<or> af_File finding \<noteq> af_File canonical \<or> af_EvidenceRefs finding = None
          then Some ''finding is not canonical'' else None)"

definition CriterionResult_Validate :: "CriterionResult \<Rightarrow> check" where
  "CriterionResult_Validate criterion =
     (if \<not> validAuditSingleLine (cr_CriterionID criterion) \<or> \<not> validCriterionStatus (cr_Status criterion)
         \<or> cr_EvidenceRefs criterion = None
      then Some ''criterion result is invalid''
      else validateAuditRefs (opt_list (cr_EvidenceRefs criterion)))"

section \<open>Bundles\<close>

definition valid_evidence_check :: "int \<Rightarrow> EvidenceCheck \<Rightarrow> bool" where
  "valid_evidence_check ordinal c \<longleftrightarrow>
     ec_CheckID c \<noteq> [] \<and> ec_Ordinal c = ordinal \<and> ec_Type c \<noteq> []
     \<and> ec_Status c \<in> {''PASS'', ''FAIL'', ''ERROR'', ''SKIPPED''}
     \<and> ct_Name (ec_Tool c) \<noteq> [] \<and> ct_Version (ec_Tool c) \<noteq> [] \<and> validateDigest (ct_Digest (ec_Tool c)) = None
     \<and> validEvidenceTimeRange (ec_StartedAt c) (ec_CompletedAt c)
     \<and> validArtifactRef (ec_StdoutURI c) \<and> validArtifactRef (ec_StderrURI c) \<and> validArtifactRef (ec_ResultURI c)
     \<and> validateDigest (ec_ResultSHA256 c) = None"

fun check_evidence_checks :: "EvidenceCheck list \<Rightarrow> int \<Rightarrow> check" where
  "check_evidence_checks [] ordinal = None"
| "check_evidence_checks (c # cs) ordinal =
     (if \<not> valid_evidence_check ordinal c then Some (''evidence check '' @ show_int ordinal @ '' is invalid'')
      else check_evidence_checks cs (ordinal + 1))"

fun check_findings :: "AuditFinding list \<Rightarrow> string list \<Rightarrow> check" where
  "check_findings [] seen = None"
| "check_findings (f # fs) seen =
     (case AuditFinding_Validate f of
        Some err \<Rightarrow> Some err
      | None \<Rightarrow>
          if af_StableFingerprint f \<in> set seen then Some ''duplicate finding stable fingerprint''
          else check_findings fs (af_StableFingerprint f # seen))"

fun check_criteria :: "CriterionResult list \<Rightarrow> string list \<Rightarrow> check" where
  "check_criteria [] seen = None"
| "check_criteria (c # cs) seen =
     (case CriterionResult_Validate c of
        Some err \<Rightarrow> Some err
      | None \<Rightarrow>
          if cr_CriterionID c \<in> set seen then Some ''duplicate criterion result''
          else check_criteria cs (cr_CriterionID c # seen))"

fun check_artifacts :: "string list \<Rightarrow> string list \<Rightarrow> check" where
  "check_artifacts [] seen = None"
| "check_artifacts (a # rest) seen =
     (if \<not> validArtifactRef a then Some ''artifact reference is invalid''
      else if a \<in> set seen then Some ''duplicate artifact reference''
      else check_artifacts rest (a # seen))"

definition check_llm_audit :: "EvidenceBundle \<Rightarrow> check" where
  "check_llm_audit bundle =
     (let audit = eb_LLMAudit bundle;
          allChecksPass = list_all (\<lambda>c. ec_Status c = ''PASS'') (eb_Checks bundle) in
      if la_Verdict audit \<in> {''PASS'', ''FAIL'', ''INCONCLUSIVE''} then
        (if length (opt_list (eb_CriteriaResults bundle)) = 0 \<or> \<not> validAuditSingleLine (la_AuditorRunID audit)
            \<or> \<not> validAuditSingleLine (la_ModelIdentity audit) \<or> validateDigest (la_PromptDigest audit) \<noteq> None
            \<or> validateDigest (la_ContextManifestDigest audit) \<noteq> None
         then Some ''LLM audit identity is invalid'' else None)
      else if la_Verdict audit = ''NOT_RUN'' then
        (if allChecksPass \<or> length (opt_list (eb_Findings bundle)) = 0 \<or> la_AuditorRunID audit \<noteq> []
            \<or> la_ModelIdentity audit \<noteq> [] \<or> la_PromptDigest audit \<noteq> [] \<or> la_ContextManifestDigest audit \<noteq> []
            \<or> length (opt_list (eb_CriteriaResults bundle)) \<noteq> 0 \<or> eb_Confidence bundle \<noteq> Finite 0
         then Some ''NOT_RUN LLM audit is inconsistent'' else None)
      else Some ''LLM audit verdict is invalid'')"

definition validateAuditResults :: "EvidenceBundle \<Rightarrow> check" where
  "validateAuditResults bundle =
     first_error
       [require (\<not> (length (eb_Checks bundle) = 0 \<or> eb_Findings bundle = None \<or> eb_CriteriaResults bundle = None
           \<or> eb_ResidualRisks bundle = None \<or> eb_Artifacts bundle = None
           \<or> \<not> float_between (eb_Confidence bundle) 0 1))
          ''evidence audit result is incomplete'',
        check_evidence_checks (eb_Checks bundle) 1,
        check_findings (opt_list (eb_Findings bundle)) [],
        check_criteria (opt_list (eb_CriteriaResults bundle)) [],
        require (list_all validAuditNarrative (opt_list (eb_ResidualRisks bundle))) ''residual risk is invalid'',
        check_artifacts (opt_list (eb_Artifacts bundle)) [],
        check_llm_audit bundle]"

definition blocks_gate :: "AuditFinding \<Rightarrow> bool" where
  "blocks_gate f \<longleftrightarrow>
     af_Status f = FindingOpen \<and> (af_Severity f = FindingHigh \<or> af_Severity f = FindingCritical)"

definition PassesAuditGate :: "EvidenceBundle \<Rightarrow> bool" where
  "PassesAuditGate bundle =
     (if validateAuditResults bundle \<noteq> None \<or> la_Verdict (eb_LLMAudit bundle) \<noteq> ''PASS'' then False
      else if list_ex (\<lambda>c. ec_Status c \<noteq> ''PASS'') (eb_Checks bundle) then False
      else if list_ex blocks_gate (opt_list (eb_Findings bundle)) then False
      else if list_ex (\<lambda>c. cr_Status c \<noteq> CriterionPass) (opt_list (eb_CriteriaResults bundle)) then False
      else True)"

definition EvidenceBundle_Validate :: "EvidenceBundle \<Rightarrow> check" where
  "EvidenceBundle_Validate e =
     first_error
       [require (\<not> (eb_EvidenceBundleVersion e \<noteq> 1 \<or> eb_ProjectID e = [] \<or> eb_TaskID e = []
           \<or> eb_AttemptSeriesID e = [] \<or> eb_Attempt e < 1 \<or> eb_Attempt e > 3 \<or> eb_SpecVersion e < 1
           \<or> \<not> pipeline_version_pattern (eb_PipelineVersion e)))
          ''evidence identity or attempt is invalid'',
        require (validPlatformIsolation (eb_ExecutionPlatform e) (eb_IsolationLevel e))
          ''evidence platform and isolation level do not match'',
        wrap_error ''base commit'' (validateCommit (eb_BaseCommit e)),
        wrap_error ''submission commit'' (validateCommit (eb_SubmissionCommit e)),
        require (eb_BaseCommit e \<noteq> eb_SubmissionCommit e) ''evidence submission must change the head commit'',
        wrap_error ''policy bundle digest'' (validateDigest (eb_PolicyBundleDigest e)),
        require (\<not> (eb_ExecutionPlatform e = PlatformLinux \<and> \<not> has_prefix (eb_SandboxAttestation e) ''oci:''))
          ''linux evidence requires an OCI-bound sandbox attestation'',
        require (\<not> (eb_ExecutionPlatform e = PlatformWindows \<and> eb_SandboxAttestation e \<noteq> ''windows:none''))
          ''windows evidence must disclose NONE'',
        validateAuditResults e,
        validateDigest (eb_ManifestSHA256 e),
        require (case eb_Signature e of None \<Rightarrow> False
           | Some s \<Rightarrow> trim_space (sg_Type s) \<noteq> [] \<and> trim_space (sg_KID s) \<noteq> [] \<and> trim_space (sg_JWS s) \<noteq> [])
          ''evidence signature is required'']"

section \<open>Facts\<close>

lemma first_error_None: "first_error cs = None \<longleftrightarrow> (\<forall>c \<in> set cs. c = None)"
  unfolding first_error_def by (induction cs) auto

lemma require_None [simp]: "require ok msg = None \<longleftrightarrow> ok"
  by (simp add: require_def)

lemma slashes_again: "slashes (slashes s) = slashes s"
  by (induction s) (simp_all add: slashes_def replace_byte_def)

lemma normalizeAuditPath_confined:
  "normalizeAuditPath v = Inr p \<longleftrightarrow> (v = [] \<and> p = []) \<or> (v \<noteq> [] \<and> p = slashes v \<and> confined_path p)"
  by (auto simp: normalizeAuditPath_def confined_path_def Let_def split: if_splits)

lemma slashes_Nil: "slashes v = [] \<longleftrightarrow> v = []"
  by (simp add: slashes_def replace_byte_def)

lemma normalizeAuditPath_again: "normalizeAuditPath v = Inr p \<Longrightarrow> normalizeAuditPath p = Inr p"
  by (auto simp: normalizeAuditPath_confined slashes_again slashes_Nil)

lemma fingerprint_digest:
  "AuditFindingFingerprint r f s e = Inr fp \<Longrightarrow> digest_pattern fp \<and> fp = ''sha256:'' @ drop 7 fp"
  by (auto simp: AuditFindingFingerprint_def digest_pattern_def has_prefix_def sha256_hex_length sha256_hex_lower
      split: if_splits sum.splits)

lemma canonical_refs_again:
  "opt_list (case r of None \<Rightarrow> Some [] | Some x \<Rightarrow> Some x) = opt_list r"
  by (simp add: opt_list_def split: option.split)

text \<open>What a canonical finding is made of.\<close>

lemma canonical_finding_cases:
  assumes "CanonicalAuditFinding f = Inr g"
  obtains p fp where "normalizeAuditPath (af_File f) = Inr p"
    and "AuditFindingFingerprint (af_RuleID f) p (af_SemanticLocation f) (af_EvidencePattern f) = Inr fp"
    and "g = f\<lparr>af_File := p, af_StableFingerprint := fp,
                af_FindingID := ''FND-'' @ trim_prefix fp ''sha256:'',
                af_EvidenceRefs := (case af_EvidenceRefs f of None \<Rightarrow> Some [] | Some refs \<Rightarrow> Some refs)\<rparr>"
  using assms by (auto simp: CanonicalAuditFinding_def split: if_splits sum.splits option.splits)

lemma canonical_again:
  assumes "CanonicalAuditFinding f = Inr g"
  shows "CanonicalAuditFinding g = Inr g"
proof -
  from assms obtain p fp where p: "normalizeAuditPath (af_File f) = Inr p"
    and fp: "AuditFindingFingerprint (af_RuleID f) p (af_SemanticLocation f) (af_EvidencePattern f) = Inr fp"
    and g: "g = f\<lparr>af_File := p, af_StableFingerprint := fp,
                af_FindingID := ''FND-'' @ trim_prefix fp ''sha256:'',
                af_EvidenceRefs := (case af_EvidenceRefs f of None \<Rightarrow> Some [] | Some refs \<Rightarrow> Some refs)\<rparr>"
    by (rule canonical_finding_cases)
  from assms p fp normalizeAuditPath_again [OF p] show ?thesis
    by (simp add: CanonicalAuditFinding_def g canonical_refs_again split: if_splits option.splits)
qed

lemma check_evidence_checks_None:
  "check_evidence_checks cs k = None \<longleftrightarrow> (\<forall>i < length cs. valid_evidence_check (k + int i) (cs ! i))"
proof (induction cs arbitrary: k)
  case (Cons c cs)
  show ?case
  proof
    assume "check_evidence_checks (c # cs) k = None"
    then show "\<forall>i < length (c # cs). valid_evidence_check (k + int i) ((c # cs) ! i)"
      using Cons [of "k + 1"] by (auto simp: less_Suc_eq_0_disj algebra_simps split: if_splits)
  next
    assume all: "\<forall>i < length (c # cs). valid_evidence_check (k + int i) ((c # cs) ! i)"
    then have "valid_evidence_check k c" by force
    moreover have "valid_evidence_check (k + 1 + int i) (cs ! i)" if "i < length cs" for i
      using all that by (metis Suc_less_eq add.assoc length_Cons nth_Cons_Suc of_nat_Suc)
    ultimately show "check_evidence_checks (c # cs) k = None" using Cons [of "k + 1"] by simp
  qed
qed simp

lemma check_findings_None:
  "check_findings fs seen = None \<longleftrightarrow>
     (\<forall>f \<in> set fs. AuditFinding_Validate f = None) \<and> distinct (map af_StableFingerprint fs)
     \<and> af_StableFingerprint ` set fs \<inter> set seen = {}"
  by (induction fs arbitrary: seen) (auto split: option.splits)

lemma check_criteria_None:
  "check_criteria cs seen = None \<longleftrightarrow>
     (\<forall>c \<in> set cs. CriterionResult_Validate c = None) \<and> distinct (map cr_CriterionID cs)
     \<and> cr_CriterionID ` set cs \<inter> set seen = {}"
  by (induction cs arbitrary: seen) (auto split: option.splits)

section \<open>Properties\<close>

text \<open>
  Canonical findings. Making a finding canonical a second time changes nothing, and the
  result passes validation; its fingerprint is a digest, its identifier is derived from it, and
  its file, if any, is a path inside the tree.
\<close>

lemma canonical_finding_stable:
  assumes "CanonicalAuditFinding f = Inr g"
  shows "CanonicalAuditFinding g = Inr g \<and> AuditFinding_Validate g = None
    \<and> digest_pattern (af_StableFingerprint g)
    \<and> af_FindingID g = ''FND-'' @ drop 7 (af_StableFingerprint g)
    \<and> (af_File g = [] \<or> confined_path (af_File g))"
proof -
  have again: "CanonicalAuditFinding g = Inr g" by (rule canonical_again [OF assms])
  from assms obtain p fp where p: "normalizeAuditPath (af_File f) = Inr p"
    and fp: "AuditFindingFingerprint (af_RuleID f) p (af_SemanticLocation f) (af_EvidencePattern f) = Inr fp"
    and g: "g = f\<lparr>af_File := p, af_StableFingerprint := fp,
                af_FindingID := ''FND-'' @ trim_prefix fp ''sha256:'',
                af_EvidenceRefs := (case af_EvidenceRefs f of None \<Rightarrow> Some [] | Some refs \<Rightarrow> Some refs)\<rparr>"
    by (rule canonical_finding_cases)
  have "af_EvidenceRefs g \<noteq> None" by (simp add: g split: option.split)
  with again have "AuditFinding_Validate g = None" by (simp add: AuditFinding_Validate_def)
  moreover from fingerprint_digest [OF fp] have "digest_pattern fp" "trim_prefix fp ''sha256:'' = drop 7 fp"
    by (auto simp: digest_pattern_def trim_prefix_def has_prefix_iff)
  ultimately show ?thesis using again p by (auto simp: g normalizeAuditPath_confined)
qed

definition ex_finding :: AuditFinding where
  "ex_finding =
     \<lparr>af_FindingID = [], af_StableFingerprint = [], af_Severity = FindingHigh, af_Category = ''bug'',
      af_RuleID = ''rule'', af_File = ''src/main.go'', af_LineStart = 3, af_LineEnd = 4, af_Status = FindingOpen,
      af_SemanticLocation = ''main'', af_EvidencePattern = ''pattern'', af_EvidenceRefs = None,
      af_ExpectedBehavior = ''works'', af_ObservedBehavior = ''fails'', af_RemediationConstraint = ''none''\<rparr>"

lemma ex_finding_canonical: "\<exists>g. CanonicalAuditFinding ex_finding = Inr g"
proof -
  have path: "normalizeAuditPath ''src/main.go'' = Inr ''src/main.go''" by code_simp
  have valid: "validAuditSingleLine ''bug'' \<and> validAuditSingleLine ''rule'' \<and> validAuditSingleLine ''main''
      \<and> validAuditSingleLine ''pattern'' \<and> validAuditNarrative ''works'' \<and> validAuditNarrative ''fails''
      \<and> validAuditNarrative ''none''" by code_simp
  show ?thesis
    by (simp add: CanonicalAuditFinding_def ex_finding_def path valid AuditFindingFingerprint_def
        valid_line_range_def validateAuditRefs_def opt_list_def validFindingSeverity_def validFindingStatus_def)
qed

text \<open>
  A moved finding stays the same finding. Two canonical findings with the same rule, file,
  semantic location and evidence pattern have the same fingerprint and identifier, whatever
  their lines, severity, status and texts.
\<close>

lemma fingerprint_ignores_lines:
  assumes "CanonicalAuditFinding f = Inr g" and "CanonicalAuditFinding f' = Inr g'"
    and "af_RuleID f' = af_RuleID f" and "slashes (af_File f') = slashes (af_File f)"
    and "af_SemanticLocation f' = af_SemanticLocation f" and "af_EvidencePattern f' = af_EvidencePattern f"
  shows "af_StableFingerprint g' = af_StableFingerprint g \<and> af_FindingID g' = af_FindingID g"
proof -
  from assms(1) obtain p fp where 1: "normalizeAuditPath (af_File f) = Inr p"
    "AuditFindingFingerprint (af_RuleID f) p (af_SemanticLocation f) (af_EvidencePattern f) = Inr fp"
    "af_StableFingerprint g = fp" "af_FindingID g = ''FND-'' @ trim_prefix fp ''sha256:''"
    by (rule canonical_finding_cases) auto
  from assms(2) obtain p' fp' where 2: "normalizeAuditPath (af_File f') = Inr p'"
    "AuditFindingFingerprint (af_RuleID f') p' (af_SemanticLocation f') (af_EvidencePattern f') = Inr fp'"
    "af_StableFingerprint g' = fp'" "af_FindingID g' = ''FND-'' @ trim_prefix fp' ''sha256:''"
    by (rule canonical_finding_cases) auto
  from assms(4) have "af_File f' = [] \<longleftrightarrow> af_File f = []" by (metis slashes_Nil)
  with 1(1) 2(1) assms(4) have "p' = p" by (auto simp: normalizeAuditPath_confined)
  with 1 2 assms(3,5,6) show ?thesis by simp
qed

text \<open>
  C29: what passing the audit gate means. The auditor's verdict is a pass with its digests; there
  is at least one check, they are numbered from one and all pass; the criteria are not empty and
  all pass, each once; and every finding is canonical, none is reported twice and no open one is
  high or critical.
\<close>

theorem audit_gate_sound:
  assumes "PassesAuditGate bundle"
  shows "la_Verdict (eb_LLMAudit bundle) = ''PASS'' \<and> digest_pattern (la_PromptDigest (eb_LLMAudit bundle))
    \<and> eb_Checks bundle \<noteq> []
    \<and> (\<forall>i < length (eb_Checks bundle). ec_Ordinal (eb_Checks bundle ! i) = 1 + int i
          \<and> ec_Status (eb_Checks bundle ! i) = ''PASS'')
    \<and> (\<exists>cs. eb_CriteriaResults bundle = Some cs \<and> cs \<noteq> [] \<and> distinct (map cr_CriterionID cs)
          \<and> (\<forall>c \<in> set cs. cr_Status c = CriterionPass))
    \<and> (\<exists>fs. eb_Findings bundle = Some fs \<and> distinct (map af_StableFingerprint fs)
          \<and> (\<forall>f \<in> set fs. AuditFinding_Validate f = None
                \<and> \<not> (af_Status f = FindingOpen \<and> af_Severity f \<in> {FindingHigh, FindingCritical})))"
proof -
  from assms have valid: "validateAuditResults bundle = None" and verdict: "la_Verdict (eb_LLMAudit bundle) = ''PASS''"
    and checks: "\<forall>c \<in> set (eb_Checks bundle). ec_Status c = ''PASS''"
    and findings: "\<forall>f \<in> set (opt_list (eb_Findings bundle)).
        \<not> (af_Status f = FindingOpen \<and> af_Severity f \<in> {FindingHigh, FindingCritical})"
    and criteria: "\<forall>c \<in> set (opt_list (eb_CriteriaResults bundle)). cr_Status c = CriterionPass"
    by (simp_all add: PassesAuditGate_def blocks_gate_def list_ex_iff split: if_splits)
  from valid have present: "eb_Checks bundle \<noteq> []" "eb_Findings bundle \<noteq> None" "eb_CriteriaResults bundle \<noteq> None"
    and ordinals: "check_evidence_checks (eb_Checks bundle) 1 = None"
    and fs: "check_findings (opt_list (eb_Findings bundle)) [] = None"
    and cs: "check_criteria (opt_list (eb_CriteriaResults bundle)) [] = None"
    and llm: "check_llm_audit bundle = None"
    by (simp_all add: validateAuditResults_def first_error_None)
  obtain cl where cl: "eb_CriteriaResults bundle = Some cl" using present by auto
  obtain fl where fl: "eb_Findings bundle = Some fl" using present by auto
  from llm verdict cl have "cl \<noteq> []" "digest_pattern (la_PromptDigest (eb_LLMAudit bundle))"
    by (auto simp: check_llm_audit_def opt_list_def validateDigest_iff Let_def split: if_splits)
  moreover have "\<forall>i < length (eb_Checks bundle). ec_Ordinal (eb_Checks bundle ! i) = 1 + int i
      \<and> ec_Status (eb_Checks bundle ! i) = ''PASS''"
    using ordinals checks by (auto simp: check_evidence_checks_None valid_evidence_check_def)
  ultimately show ?thesis
    using verdict present(1) cl fl cs fs criteria findings
    by (auto simp: check_criteria_None check_findings_None opt_list_def)
qed

definition ex_check :: EvidenceCheck where
  "ex_check =
     \<lparr>ec_CheckID = ''build'', ec_Ordinal = 1, ec_Type = ''BUILD'', ec_Status = ''PASS'',
      ec_Tool = \<lparr>ct_Name = ''go'', ct_Version = ''1.26.5'', ct_Digest = zero_digest\<rparr>,
      ec_StartedAt = ''2030-01-01T00:00:00Z'', ec_CompletedAt = ''2030-01-01T00:00:01Z'',
      ec_StdoutURI = ''artifact://out'', ec_StderrURI = ''artifact://err'', ec_ResultURI = ''artifact://result'',
      ec_ResultSHA256 = zero_digest\<rparr>"

definition ex_bundle :: EvidenceBundle where
  "ex_bundle =
     \<lparr>eb_EvidenceBundleVersion = 1, eb_ProjectID = ''project'', eb_TaskID = ''task'', eb_AttemptSeriesID = ''series'',
      eb_Attempt = 1, eb_SpecVersion = 1, eb_BaseCommit = replicate 40 (CHR ''a''),
      eb_SubmissionCommit = replicate 40 (CHR ''b''), eb_PipelineVersion = ''1.0.0'',
      eb_PolicyBundleDigest = zero_digest, eb_ExecutionPlatform = PlatformLinux,
      eb_IsolationLevel = IsolationContainer, eb_SandboxAttestation = ''oci:image'', eb_Checks = [ex_check],
      eb_Findings = Some [],
      eb_CriteriaResults = Some [\<lparr>cr_CriterionID = ''criterion'', cr_Status = CriterionPass, cr_EvidenceRefs = Some []\<rparr>],
      eb_ResidualRisks = Some [], eb_Confidence = Finite 1, eb_Artifacts = Some [],
      eb_LLMAudit = \<lparr>la_AuditorRunID = ''run'', la_ModelIdentity = ''model'', la_PromptDigest = zero_digest,
        la_ContextManifestDigest = zero_digest, la_Verdict = ''PASS''\<rparr>,
      eb_ManifestSHA256 = zero_digest, eb_Signature = None\<rparr>"

theorem audit_gate_sound_witness: "ec_Status (eb_Checks ex_bundle ! 0) = ''PASS'' \<and> PassesAuditGate ex_bundle"
proof -
  have gate: "PassesAuditGate ex_bundle" by code_simp
  with audit_gate_sound [OF gate] show ?thesis by (auto simp: ex_bundle_def)
qed

end
