(* ===== verification/Trace_Context.thy ===== *)
theory Trace_Context
  imports Go_Sha256
begin

text \<open>
  The W3C trace context of \<open>internal/observability/propagation.go\<close>: its text form, the parser,
  and the carriers that take it from one process to the next.
\<close>

section \<open>Hexadecimal bytes\<close>

text \<open>\<open>encoding/hex\<close>: decoding accepts both letter cases, encoding writes lower case.\<close>

definition hex_value :: "char \<Rightarrow> nat option" where
  "hex_value c =
     (let n = (of_char c :: nat) in
      if 48 \<le> n \<and> n \<le> 57 then Some (n - 48)
      else if 97 \<le> n \<and> n \<le> 102 then Some (n - 87)
      else if 65 \<le> n \<and> n \<le> 70 then Some (n - 55)
      else None)"

fun hex_decode :: "string \<Rightarrow> nat list option" where
  "hex_decode [] = Some []"
| "hex_decode [c] = None"
| "hex_decode (c # d # s) =
     (case (hex_value c, hex_value d, hex_decode s) of
        (Some h, Some l, Some bs) \<Rightarrow> Some ((16 * h + l) # bs)
      | _ \<Rightarrow> None)"

definition hex_byte :: "8 word \<Rightarrow> string" where
  "hex_byte b = [hex_digit (unat b div 16), hex_digit (unat b mod 16)]"

section \<open>Trace contexts\<close>

datatype trace_error = ErrInvalidTraceContext | ErrTraceContextMissing

record TraceContext =
  tr_TraceID :: string
  tr_SpanID :: string
  tr_TraceFlags :: "8 word"
  tr_TraceState :: string

definition TraceContext_Empty :: "TraceContext \<Rightarrow> bool" where
  "TraceContext_Empty t \<longleftrightarrow>
     tr_TraceID t = [] \<and> tr_SpanID t = [] \<and> tr_TraceFlags t = 0 \<and> tr_TraceState t = []"

definition validHexID :: "string \<Rightarrow> nat \<Rightarrow> bool" where
  "validHexID value bytes =
     (if length value \<noteq> bytes * 2 \<or> to_lower value \<noteq> value then False
      else (case hex_decode value of
              None \<Rightarrow> False
            | Some decoded \<Rightarrow> list_ex (\<lambda>item. item \<noteq> 0) decoded))"

text \<open>
  The pattern \<open>^[a-z0-9][a-z0-9_*/-]{0,255}(?:@[a-z0-9][a-z0-9_*/-]{0,13})?$\<close>. Its classes do
  not contain \<open>@\<close>, so a match is decided on the parts the text has between its \<open>@\<close>.
\<close>

definition key_start :: "char \<Rightarrow> bool" where
  "key_start c \<longleftrightarrow> is_lower_letter c \<or> is_digit c"

definition key_char :: "char \<Rightarrow> bool" where
  "key_char c \<longleftrightarrow> is_lower_letter c \<or> is_digit c \<or> c \<in> set ''_*/-''"

fun key_part :: "nat \<Rightarrow> string \<Rightarrow> bool" where
  "key_part limit [] = False"
| "key_part limit (c # s) \<longleftrightarrow> key_start c \<and> list_all key_char s \<and> length s \<le> limit"

fun key_parts :: "string list \<Rightarrow> bool" where
  "key_parts [k] \<longleftrightarrow> key_part 255 k"
| "key_parts [k, v] \<longleftrightarrow> key_part 255 k \<and> key_part 13 v"
| "key_parts ps = False"

definition traceStateKeyPattern :: "string \<Rightarrow> bool" where
  "traceStateKeyPattern s = key_parts (split_byte (CHR ''@'') s)"

definition split_once :: "char \<Rightarrow> string \<Rightarrow> (string \<times> string) option" where
  \<comment> \<open>\<open>strings.SplitN(s, d, 2)\<close>, \<open>None\<close> when it has one part\<close>
  "split_once d s =
     (if d \<in> set s then Some (takeWhile (\<lambda>c. c \<noteq> d) s, drop 1 (dropWhile (\<lambda>c. c \<noteq> d) s)) else None)"

definition printable :: "char \<Rightarrow> bool" where
  "printable c \<longleftrightarrow> (0x20 :: nat) \<le> of_char c \<and> of_char c \<le> (0x7e :: nat)"

fun check_members :: "string list \<Rightarrow> string list \<Rightarrow> bool" where
  "check_members [] seen = True"
| "check_members (raw # rest) seen =
     (case split_once (CHR ''='') (trim_space raw) of
        None \<Rightarrow> False
      | Some (key, value) \<Rightarrow>
          if \<not> traceStateKeyPattern key \<or> value = [] \<or> length value > 256 \<or> contains_any value '',=''
          then False
          else if key \<in> set seen then False
          else if \<not> list_all printable value then False
          else check_members rest (key # seen))"

definition validTraceState :: "string \<Rightarrow> bool" where
  "validTraceState value =
     (if value = [] then True
      else if length value > 512 then False
      else (let members = split_byte (CHR '','') value in
            if length members > 32 then False else check_members members []))"

definition TraceContext_Validate :: "TraceContext \<Rightarrow> trace_error option" where
  "TraceContext_Validate t =
     (if \<not> validHexID (tr_TraceID t) 16 \<or> \<not> validHexID (tr_SpanID t) 8 \<or> \<not> validTraceState (tr_TraceState t)
      then Some ErrInvalidTraceContext else None)"

definition TraceParent :: "TraceContext \<Rightarrow> trace_error + string" where
  "TraceParent t =
     (case TraceContext_Validate t of
        Some err \<Rightarrow> Inl err
      | None \<Rightarrow> Inr (''00-'' @ tr_TraceID t @ ''-'' @ tr_SpanID t @ ''-'' @ hex_byte (tr_TraceFlags t)))"

definition ParseTraceParent :: "string \<Rightarrow> string \<Rightarrow> trace_error + TraceContext" where
  "ParseTraceParent value traceState =
     (if length value \<noteq> 55 \<or> value ! 2 \<noteq> CHR ''-'' \<or> value ! 35 \<noteq> CHR ''-'' \<or> value ! 52 \<noteq> CHR ''-''
         \<or> take 2 value \<noteq> ''00''
      then Inl ErrInvalidTraceContext
      else (case hex_decode (take 2 (drop 53 value)) of
              Some [flags] \<Rightarrow>
                (let parsed = \<lparr>tr_TraceID = take 32 (drop 3 value), tr_SpanID = take 16 (drop 36 value),
                               tr_TraceFlags = of_nat flags, tr_TraceState = traceState\<rparr> in
                 case TraceContext_Validate parsed of Some err \<Rightarrow> Inl err | None \<Rightarrow> Inr parsed)
            | _ \<Rightarrow> Inl ErrInvalidTraceContext))"

text \<open>
  \<open>NewRootTraceContext\<close> reads random bytes; they are arguments, \<open>None\<close> when reading fails with
  an error of the system, kept as its text.
\<close>

definition randomHex :: "string + 8 word list \<Rightarrow> string + string" where
  "randomHex data = (case data of Inl err \<Rightarrow> Inl err | Inr bs \<Rightarrow> Inr (concat (map hex_byte bs)))"

definition NewRootTraceContext ::
  "string + 8 word list \<Rightarrow> string + 8 word list \<Rightarrow> bool \<Rightarrow> string + TraceContext" where
  "NewRootTraceContext trace_bytes span_bytes sampled =
     (case randomHex trace_bytes of
        Inl err \<Rightarrow> Inl err
      | Inr traceID \<Rightarrow>
          (case randomHex span_bytes of
             Inl err \<Rightarrow> Inl err
           | Inr spanID \<Rightarrow>
               Inr \<lparr>tr_TraceID = traceID, tr_SpanID = spanID, tr_TraceFlags = (if sampled then 1 else 0),
                    tr_TraceState = []\<rparr>))"

section \<open>Carriers\<close>

text \<open>
  \<open>strings.EqualFold\<close> against an ASCII string: besides the ASCII letters, the long s and the
  Kelvin sign fold to an ASCII letter.
\<close>

fun fold_case :: "string \<Rightarrow> string" where
  "fold_case [] = []"
| "fold_case (c # s) =
     (if has_prefix (c # s) [CHR 0xE2, CHR 0x84, CHR 0xAA] then CHR ''k'' # fold_case (drop 2 s)
      else if has_prefix (c # s) [CHR 0xC5, CHR 0xBF] then CHR ''s'' # fold_case (drop 1 s)
      else lower_byte c # fold_case s)"

definition equal_fold :: "string \<Rightarrow> string \<Rightarrow> bool" where
  "equal_fold s ascii \<longleftrightarrow> fold_case s = fold_case ascii"

definition TraceParentHeader :: string where
  "TraceParentHeader = ''traceparent''"

definition TraceStateHeader :: string where
  "TraceStateHeader = ''tracestate''"

type_synonym MapCarrier = "(string, string) gomap"

fun carrier_Get :: "MapCarrier \<Rightarrow> string \<Rightarrow> string" where
  "carrier_Get [] key = []"
| "carrier_Get ((existing, value) # m) key = (if equal_fold existing key then value else carrier_Get m key)"

definition carrier_Set :: "MapCarrier \<Rightarrow> string \<Rightarrow> string \<Rightarrow> MapCarrier" where
  "carrier_Set m key value = gomap_put (to_lower key) value m"

text \<open>A nil carrier is \<open>None\<close>; a failed injection leaves the carrier as it was.\<close>

definition InjectTrace :: "MapCarrier option \<Rightarrow> TraceContext \<Rightarrow> trace_error + MapCarrier" where
  "InjectTrace carrier trace =
     (case carrier of
        None \<Rightarrow> Inl ErrInvalidTraceContext
      | Some m \<Rightarrow>
          (case TraceParent trace of
             Inl err \<Rightarrow> Inl err
           | Inr parent \<Rightarrow>
               (let m' = carrier_Set m TraceParentHeader parent in
                Inr (if tr_TraceState trace \<noteq> [] then carrier_Set m' TraceStateHeader (tr_TraceState trace)
                     else m'))))"

definition ExtractTrace :: "MapCarrier option \<Rightarrow> trace_error + TraceContext" where
  "ExtractTrace carrier =
     (case carrier of
        None \<Rightarrow> Inl ErrTraceContextMissing
      | Some m \<Rightarrow>
          (let parent = carrier_Get m TraceParentHeader in
           if parent = [] then Inl ErrTraceContextMissing
           else ParseTraceParent parent (carrier_Get m TraceStateHeader)))"

section \<open>Facts\<close>

lemma hex_value_digit [simp]: "hex_value (hex_digit n) = Some (n mod 16)"
proof -
  have "list_all (\<lambda>m. hex_value (''0123456789abcdef'' ! m) = Some m) [0..<16]" by code_simp
  then show ?thesis by (simp add: hex_digit_def list_all_iff)
qed

lemma hex_decode_byte [simp]: "hex_decode (hex_byte b) = Some [unat b]"
proof -
  have "unat b < 256" by (rule order.strict_trans2 [OF unsigned_less]) simp
  then have "unat b div 16 < 16" by (simp add: div_less_iff_less_mult)
  then show ?thesis by (simp add: hex_byte_def)
qed

lemma validHexID_length: "validHexID v n \<Longrightarrow> length v = n * 2"
  by (simp add: validHexID_def split: if_splits)

lemma TraceContext_Validate_lengths:
  "TraceContext_Validate t = None \<Longrightarrow> length (tr_TraceID t) = 32 \<and> length (tr_SpanID t) = 16"
  using validHexID_length by (fastforce simp: TraceContext_Validate_def split: if_splits)

lemma TraceParent_length: "TraceParent t = Inr v \<Longrightarrow> length v = 55"
  using TraceContext_Validate_lengths [of t]
  by (auto simp: TraceParent_def hex_byte_def split: option.splits)

lemma parse_print:
  assumes "TraceParent t = Inr v"
  shows "ParseTraceParent v (tr_TraceState t) = Inr t"
proof -
  from assms have valid: "TraceContext_Validate t = None"
    and v: "v = ''00-'' @ tr_TraceID t @ ''-'' @ tr_SpanID t @ ''-'' @ hex_byte (tr_TraceFlags t)"
    by (auto simp: TraceParent_def split: option.splits)
  from TraceContext_Validate_lengths [OF valid] have len: "length (tr_TraceID t) = 32" "length (tr_SpanID t) = 16"
    by simp_all
  have two: "length (hex_byte (tr_TraceFlags t)) = 2" by (simp add: hex_byte_def)
  have eta: "\<lparr>tr_TraceID = tr_TraceID t, tr_SpanID = tr_SpanID t, tr_TraceFlags = tr_TraceFlags t,
      tr_TraceState = tr_TraceState t\<rparr> = t" by (cases t) simp
  show ?thesis using len two valid by (simp add: ParseTraceParent_def v nth_append Let_def eta)
qed

lemma take_1_drop: "k < length v \<Longrightarrow> take 1 (drop k v) = [v ! k]"
  by (simp add: Cons_nth_drop_Suc [symmetric])

lemma take_parts:
  "take (a + (b + (c + (d + (e + f))))) v = take a v @ take b (drop a v) @ take c (drop (a + b) v)
     @ take d (drop (a + b + c) v) @ take e (drop (a + b + c + d) v) @ take f (drop (a + b + c + d + e) v)"
  by (simp add: take_add add_ac)

lemma parse_trace_parts:
  assumes "ParseTraceParent v s = Inr t"
  shows "TraceContext_Validate t = None \<and> tr_TraceState t = s \<and> length v = 55
    \<and> take 53 v = ''00-'' @ tr_TraceID t @ ''-'' @ tr_SpanID t @ ''-''"
proof -
  from assms have len: "length v = 55" and dash: "v ! 2 = CHR ''-''" "v ! 35 = CHR ''-''" "v ! 52 = CHR ''-''"
    and zero: "take 2 v = ''00''" and t: "tr_TraceID t = take 32 (drop 3 v)" "tr_SpanID t = take 16 (drop 36 v)"
      "tr_TraceState t = s" "TraceContext_Validate t = None"
    by (auto simp: ParseTraceParent_def Let_def split: if_splits option.splits list.splits)
  have "take 53 v = take 2 v @ [v ! 2] @ take 32 (drop 3 v) @ [v ! 35] @ take 16 (drop 36 v) @ [v ! 52]"
    using len take_parts [of 2 1 32 1 16 1 v] by (simp add: take_1_drop del: One_nat_def)
  then show ?thesis using len dash zero t by simp
qed

lemma carrier_Get_all:
  "list_all (\<lambda>p. equal_fold (fst p) key \<longrightarrow> snd p = x) m \<Longrightarrow>
     carrier_Get m key = (if list_ex (\<lambda>p. equal_fold (fst p) key) m then x else [])"
  by (induction m key rule: carrier_Get.induct) auto

lemma carrier_Get_only:
  "\<forall>p \<in> set m. equal_fold (fst p) key \<longrightarrow> snd p = x \<Longrightarrow>
     carrier_Get m key = (if \<exists>p \<in> set m. equal_fold (fst p) key then x else [])"
  using carrier_Get_all by (simp add: list_all_iff list_ex_iff)

lemma headers_lower:
  "to_lower TraceParentHeader = TraceParentHeader" "to_lower TraceStateHeader = TraceStateHeader"
  "TraceParentHeader \<noteq> TraceStateHeader" "equal_fold TraceParentHeader TraceParentHeader"
  "equal_fold TraceStateHeader TraceStateHeader" "\<not> equal_fold TraceParentHeader TraceStateHeader"
  "\<not> equal_fold TraceStateHeader TraceParentHeader"
  by code_simp+

text \<open>What an injected carrier yields, in any order of its entries.\<close>

lemma carrier_Get_injected:
  assumes "set m'' = set (if st \<noteq> [] then carrier_Set (carrier_Set m TraceParentHeader parent) TraceStateHeader st
                          else carrier_Set m TraceParentHeader parent)"
    and "\<forall>k \<in> fst ` set m. \<not> equal_fold k TraceParentHeader \<and> \<not> equal_fold k TraceStateHeader"
    and "gomap_ok m"
  shows "carrier_Get m'' TraceParentHeader = parent \<and> carrier_Get m'' TraceStateHeader = st"
proof -
  have entries: "set m'' = (if st \<noteq> [] then {(TraceStateHeader, st)} else {})
      \<union> insert (TraceParentHeader, parent) {p \<in> set m. fst p \<noteq> TraceParentHeader \<and> (st \<noteq> [] \<longrightarrow> fst p \<noteq> TraceStateHeader)}"
    using assms(1,3) headers_lower(1-3) by (auto simp: carrier_Set_def gomap_set_put)
  have old: "\<not> equal_fold k TraceParentHeader" "\<not> equal_fold k TraceStateHeader" if "(k, v) \<in> set m" for k v
    using assms(2) that by force+
  have "\<forall>p \<in> set m''. equal_fold (fst p) TraceParentHeader \<longrightarrow> snd p = parent"
    "\<forall>p \<in> set m''. equal_fold (fst p) TraceStateHeader \<longrightarrow> snd p = st"
    using headers_lower(4-7) old by (auto simp: entries split: if_splits)
  note get = this [THEN carrier_Get_only]
  have "\<exists>p \<in> set m''. equal_fold (fst p) TraceParentHeader"
    using headers_lower(4) by (force simp: entries)
  moreover have "(\<exists>p \<in> set m''. equal_fold (fst p) TraceStateHeader) \<longleftrightarrow> st \<noteq> []"
    using headers_lower(4-7) old by (fastforce simp: entries split: if_splits)
  ultimately show ?thesis using get by simp
qed

section \<open>Properties\<close>

text \<open>
  C33: the trace context survives the way through a carrier. What is injected into a carrier
  without trace headers is extracted from it, whatever the order in which the carrier is
  searched.
\<close>

theorem trace_carrier_roundtrip:
  assumes "InjectTrace (Some m) t = Inr m'" and "mset m'' = mset m'" and "gomap_ok m"
    and "\<forall>k \<in> fst ` set m. \<not> equal_fold k TraceParentHeader \<and> \<not> equal_fold k TraceStateHeader"
  shows "ExtractTrace (Some m'') = Inr t"
proof -
  from assms(1) obtain parent where parent: "TraceParent t = Inr parent"
    and m': "m' = (if tr_TraceState t \<noteq> [] then carrier_Set (carrier_Set m TraceParentHeader parent) TraceStateHeader (tr_TraceState t)
                   else carrier_Set m TraceParentHeader parent)"
    by (auto simp: InjectTrace_def Let_def split: sum.splits)
  have "set m'' = set m'" using assms(2) by (rule mset_eq_setD)
  with carrier_Get_injected [OF _ assms(4,3)] m'
  have "carrier_Get m'' TraceParentHeader = parent" "carrier_Get m'' TraceStateHeader = tr_TraceState t" by blast+
  moreover have "parent \<noteq> []" using TraceParent_length [OF parent] by auto
  ultimately show ?thesis using parse_print [OF parent] by (simp add: ExtractTrace_def)
qed

definition ex_trace :: TraceContext where
  "ex_trace = \<lparr>tr_TraceID = ''4bf92f3577b34da6a3ce929d0e0e4736'', tr_SpanID = ''00f067aa0ba902b7'',
     tr_TraceFlags = 1, tr_TraceState = ''vendor=value''\<rparr>"

theorem trace_carrier_roundtrip_witness:
  "\<exists>m'. InjectTrace (Some [(''accept'', ''json'')]) ex_trace = Inr m' \<and> ExtractTrace (Some (rev m')) = Inr ex_trace"
proof -
  have "\<not> isl (InjectTrace (Some [(''accept'', ''json'')]) ex_trace)" by code_simp
  then obtain m' where m': "InjectTrace (Some [(''accept'', ''json'')]) ex_trace = Inr m'"
    by (metis sum.collapse(2))
  have "\<not> equal_fold ''accept'' TraceParentHeader \<and> \<not> equal_fold ''accept'' TraceStateHeader" by code_simp
  with trace_carrier_roundtrip [OF m', of "rev m'"] m' show ?thesis by (simp add: gomap_ok_def)
qed

text \<open>
  Parsing keeps a header up to the case of its flags. A header that parses has the length
  and the separators of the format, its context is valid and prints as the header with the
  flags in lower case, and the printed header parses to the same context.
\<close>

lemma trace_parent_canonical:
  assumes "ParseTraceParent v s = Inr t"
  shows "TraceContext_Validate t = None \<and> tr_TraceState t = s
    \<and> TraceParent t = Inr (take 53 v @ hex_byte (tr_TraceFlags t))
    \<and> ParseTraceParent (take 53 v @ hex_byte (tr_TraceFlags t)) s = Inr t"
proof -
  from parse_trace_parts [OF assms] have valid: "TraceContext_Validate t = None" and s: "tr_TraceState t = s"
    and v: "take 53 v = ''00-'' @ tr_TraceID t @ ''-'' @ tr_SpanID t @ ''-''" by simp_all
  have "TraceParent t = Inr (take 53 v @ hex_byte (tr_TraceFlags t))" by (simp add: TraceParent_def valid v)
  with parse_print [OF this] valid s show ?thesis by simp
qed

end
