(* ===== verification/Budget_Ledger.thy ===== *)
theory Budget_Ledger
  imports Trace_Context
begin

text \<open>
  The in-memory budget ledger of \<open>internal/modelgateway/budget.go\<close>: accounts, reservations and
  adjustments. Every operation of the code that takes the mutex is one function from the ledger
  to its outcome and the ledger afterwards, so the interleavings of concurrent calls are the
  sequences of operations.
\<close>

section \<open>Errors and contexts\<close>

datatype gateway_error =
    ErrBudgetExceeded
  | ErrReservationConflict
  | ErrReservationNotFound
  | ErrReconciliationRequired
  | ErrBudgetAccountNotFound
  | ErrBudgetAccountConflict
  | ErrBudgetProjectConflict
  | ErrBudgetVersionConflict
  | ErrBudgetCurrencyConflict
  | ErrBudgetLimitConflict
  | ErrBudgetPeriodClosed
  | ErrBudgetIdempotencyConflict
  | ErrRequestConflict
  | ErrReplayUnavailable
  | ErrInvalidRequest
  | ErrContextWindowExceeded
  | ErrProviderNotAllowed
  | ErrProviderUnavailable
  | ErrOutputSchema
  | ErrOutputTooLarge
  | ErrCredentialDetected
  | TraceFailure trace_error
  | SystemFailure string

text \<open>A context: nil, or one with the error it carries.\<close>

datatype go_context = NilContext | Context "gateway_error option"

fun contextError :: "go_context \<Rightarrow> gateway_error option" where
  "contextError NilContext = Some ErrInvalidRequest"
| "contextError (Context err) = err"

section \<open>Data\<close>

definition defaultReservationTTL :: duration where
  "defaultReservationTTL = 24 * 3600 * second_ns"

record BudgetAccount =
  ba_ID :: string
  ba_TenantID :: string
  ba_ScopeType :: string
  ba_ScopeID :: string
  ba_Currency :: string
  ba_LimitMicros :: int
  ba_SoftLimitMicros :: int
  ba_ReservedMicros :: int
  ba_SpentMicros :: int
  ba_PeriodStart :: time
  ba_PeriodEnd :: "time option"
  ba_Version :: int

definition zero_BudgetAccount :: BudgetAccount where
  "zero_BudgetAccount =
     \<lparr>ba_ID = [], ba_TenantID = [], ba_ScopeType = [], ba_ScopeID = [], ba_Currency = [],
      ba_LimitMicros = 0, ba_SoftLimitMicros = 0, ba_ReservedMicros = 0, ba_SpentMicros = 0,
      ba_PeriodStart = 0, ba_PeriodEnd = None, ba_Version = 0\<rparr>"

record BudgetUsage =
  us_AccountID :: string
  us_Currency :: string
  us_HardLimitMicros :: int
  us_SoftLimitMicros :: int
  us_SpentMicros :: int
  us_ReservedMicros :: int
  us_RemainingMicros :: int
  us_Version :: int
  us_ReservationCount :: int
  us_CallCount :: int
  us_InputTokens :: int
  us_OutputTokens :: int
  us_CostMicros :: int

record BudgetAdjustment =
  aj_TenantID :: string
  aj_ProjectID :: string
  aj_PrincipalID :: string
  aj_IdempotencyKey :: string
  aj_Traceparent :: string
  aj_Tracestate :: string
  aj_PolicyVersion :: string
  aj_PolicyRuleID :: string
  aj_PolicyDecision :: string
  aj_PolicyReasons :: "string list"
  aj_ParameterDigest :: string
  aj_ProjectState :: string
  aj_ProjectVersion :: int
  aj_ExpectedVersion :: int
  aj_HardLimitMicros :: int
  aj_SoftLimitMicros :: int
  aj_Currency :: string
  aj_Reason :: string

record BudgetAdjustmentResult =
  ar_Account :: BudgetAccount
  ar_Usage :: BudgetUsage
  ar_Duplicate :: bool

datatype ReservationState =
    ReservationOpen | ReservationSettled | ReservationReleased | ReservationReconcile

record Reservation =
  rv_ID :: string
  rv_TenantID :: string
  rv_AccountID :: string
  rv_RequestID :: string
  rv_ReservedMicros :: int
  rv_SettledMicros :: int
  rv_State :: ReservationState
  rv_CreatedAt :: time
  rv_ExpiresAt :: time

datatype ModelCallStatus =
    ModelCallSucceeded
  | ModelCallFailedProvider
  | ModelCallFailedOutputSchema
  | ModelCallFailedOutputSize
  | ModelCallFailedCredential
  | ModelCallReconcile
  | ModelCallReconciled
  | ModelCallOther string

record ModelCall =
  mc_ID :: string
  mc_TenantID :: string
  mc_RequestID :: string
  mc_ProjectID :: string
  mc_TaskID :: string
  mc_AgentInstanceID :: string
  mc_Provider :: string
  mc_LogicalModel :: string
  mc_ActualModelVersion :: string
  mc_PromptBundleVersion :: string
  mc_InputSHA256 :: string
  mc_OutputSHA256 :: string
  mc_InputTokens :: int
  mc_OutputTokens :: int
  mc_CacheReadTokens :: "int option"
  mc_CacheWriteTokens :: "int option"
  mc_CostMicros :: int
  mc_LatencyMilliseconds :: int
  mc_Status :: ModelCallStatus
  mc_ProviderRequestID :: string
  mc_ReconciliationReceiptSHA256 :: string
  mc_ReconciledAt :: "time option"
  mc_CreatedAt :: time

record memoryBudgetAdjustment =
  ma_request :: BudgetAdjustment
  ma_result :: BudgetAdjustmentResult

text \<open>The stored responses (\<open>modelReplays\<close>) are not part of the model.\<close>

record BudgetLedger =
  bl_accounts :: "(string, BudgetAccount) gomap"
  bl_reservations :: "(string, Reservation) gomap"
  bl_reservationIDs :: "(string, string) gomap"
  bl_adjustments :: "(string, memoryBudgetAdjustment) gomap"
  bl_modelCalls :: "(string, ModelCall) gomap"
  bl_reservationTTL :: duration

definition NewBudgetLedger :: BudgetLedger where
  "NewBudgetLedger =
     \<lparr>bl_accounts = [], bl_reservations = [], bl_reservationIDs = [], bl_adjustments = [],
      bl_modelCalls = [], bl_reservationTTL = defaultReservationTTL\<rparr>"

type_synonym 'a ledger_result = "(gateway_error + 'a) \<times> BudgetLedger"

section \<open>Small functions\<close>

definition budgetKey :: "string \<Rightarrow> string \<Rightarrow> string" where
  "budgetKey tenantID i = tenantID @ [CHR 0x00] @ i"

definition safeBudgetText :: "string \<Rightarrow> int \<Rightarrow> bool" where
  "safeBudgetText value maximum \<longleftrightarrow>
     value \<noteq> [] \<and> int (length value) \<le> maximum \<and> trim_space value = value \<and> \<not> contains_any value crlf_nul"

definition validCurrency :: "string \<Rightarrow> bool" where
  "validCurrency value \<longleftrightarrow>
     length value = 3 \<and> is_upper_letter (value ! 0) \<and> is_upper_letter (value ! 1) \<and> is_upper_letter (value ! 2)"

definition cloneBudgetAccount :: "BudgetAccount \<Rightarrow> BudgetAccount" where
  "cloneBudgetAccount account =
     (case ba_PeriodEnd account of None \<Rightarrow> account | Some periodEnd \<Rightarrow> account\<lparr>ba_PeriodEnd := Some periodEnd\<rparr>)"

definition inBudgetPeriod :: "time \<Rightarrow> time \<Rightarrow> time option \<Rightarrow> bool" where
  "inBudgetPeriod now start end_at =
     (if \<not> is_zero_time start \<and> now < start then False
      else (case end_at of None \<Rightarrow> True | Some e \<Rightarrow> now < e))"

definition budgetPeriodOpen :: "time \<Rightarrow> BudgetAccount \<Rightarrow> bool" where
  "budgetPeriodOpen now account =
     (if \<not> is_zero_time (ba_PeriodStart account) \<and> now < ba_PeriodStart account then False
      else (case ba_PeriodEnd account of None \<Rightarrow> True | Some e \<Rightarrow> now < e))"

definition lookupReservationLocked :: "BudgetLedger \<Rightarrow> string \<Rightarrow> string \<Rightarrow> (string \<times> Reservation) option" where
  "lookupReservationLocked l tenantID i =
     (let key = budgetKey tenantID i in
      case map_of (bl_reservations l) key of
        Some reservation \<Rightarrow> Some (key, reservation)
      | None \<Rightarrow>
          (case map_of (bl_reservationIDs l) key of
             None \<Rightarrow> None
           | Some generatedID \<Rightarrow>
               (let key' = budgetKey tenantID generatedID in
                map_option (\<lambda>reservation. (key', reservation)) (map_of (bl_reservations l) key'))))"

definition put_account :: "string \<Rightarrow> BudgetAccount \<Rightarrow> BudgetLedger \<Rightarrow> BudgetLedger" where
  "put_account key account l = l\<lparr>bl_accounts := gomap_put key account (bl_accounts l)\<rparr>"

definition put_reservation :: "string \<Rightarrow> Reservation \<Rightarrow> BudgetLedger \<Rightarrow> BudgetLedger" where
  "put_reservation key reservation l = l\<lparr>bl_reservations := gomap_put key reservation (bl_reservations l)\<rparr>"

definition get_account :: "BudgetLedger \<Rightarrow> string \<Rightarrow> BudgetAccount" where
  \<comment> \<open>a map lookup without the found flag: the zero account when there is none\<close>
  "get_account l key = (case map_of (bl_accounts l) key of None \<Rightarrow> zero_BudgetAccount | Some a \<Rightarrow> a)"

section \<open>Accounts\<close>

definition complete_account :: "time \<Rightarrow> BudgetAccount \<Rightarrow> BudgetAccount" where
  \<comment> \<open>the defaults \<open>CreateAccount\<close> fills in\<close>
  "complete_account now account =
     account\<lparr>ba_ScopeType := (if ba_ScopeType account = [] then ''PROJECT'' else ba_ScopeType account),
       ba_ScopeID := (if ba_ScopeID account = [] then ba_ID account else ba_ScopeID account),
       ba_Currency := (if ba_Currency account = [] then ''USD'' else ba_Currency account),
       ba_PeriodStart := (if is_zero_time (ba_PeriodStart account) then utc now else ba_PeriodStart account),
       ba_Version := (if ba_Version account = 0 then 1 else ba_Version account)\<rparr>"

definition CreateAccount :: "time \<Rightarrow> go_context \<Rightarrow> BudgetAccount \<Rightarrow> BudgetLedger \<Rightarrow> unit ledger_result" where
  "CreateAccount now ctx account l =
     (case contextError ctx of
        Some err \<Rightarrow> (Inl err, l)
      | None \<Rightarrow>
          if ba_ID account = [] \<or> ba_TenantID account = [] \<or> ba_LimitMicros account < 0
             \<or> ba_SoftLimitMicros account < 0 \<or> ba_SoftLimitMicros account > ba_LimitMicros account
             \<or> ba_ReservedMicros account < 0 \<or> ba_SpentMicros account < 0
             \<or> ba_ReservedMicros account > sub64 (ba_LimitMicros account) (ba_SpentMicros account)
          then (Inl ErrInvalidRequest, l)
          else (let full = complete_account now account; key = budgetKey (ba_TenantID full) (ba_ID full) in
                if gomap_has (bl_accounts l) key then (Inl ErrReservationConflict, l)
                else (Inr (), put_account key full l)))"

section \<open>Reservations\<close>

text \<open>
  \<open>reserve\<close> reads the clock several times; \<open>clock n\<close> is its reading number \<open>n\<close> in the call. The
  scan of the other reservations of the request returns the number of readings so far.
\<close>

fun scan_requests ::
  "(nat \<Rightarrow> time) \<Rightarrow> string \<Rightarrow> string \<Rightarrow> string \<Rightarrow> bool \<Rightarrow> Reservation list \<Rightarrow> nat \<Rightarrow> gateway_error + nat"
where
  "scan_requests clock tenantID accountID requestID claim [] n = Inr n"
| "scan_requests clock tenantID accountID requestID claim (existing # rest) n =
     (if rv_TenantID existing \<noteq> tenantID \<or> rv_RequestID existing \<noteq> requestID
      then scan_requests clock tenantID accountID requestID claim rest n
      else if rv_State existing = ReservationReconcile
              \<or> rv_State existing = ReservationOpen \<and> \<not> utc (clock n) < rv_ExpiresAt existing
      then Inl ErrReconciliationRequired
      else if claim then Inl ErrRequestConflict
      else if rv_AccountID existing = accountID then Inl ErrReservationConflict
      else scan_requests clock tenantID accountID requestID claim rest
             (if rv_State existing = ReservationOpen then Suc n else n))"

definition reserve_existing ::
  "(nat \<Rightarrow> time) \<Rightarrow> string \<Rightarrow> string \<Rightarrow> int \<Rightarrow> bool \<Rightarrow> string \<Rightarrow> Reservation \<Rightarrow> BudgetLedger \<Rightarrow>
     (Reservation \<times> bool) ledger_result" where
  \<comment> \<open>the branch for a reservation that is already there\<close>
  "reserve_existing clock accountID requestID amountMicros claim reservationKey existing l =
     (if rv_State existing = ReservationOpen \<and> \<not> utc (clock 0) < rv_ExpiresAt existing
      then (Inl ErrReconciliationRequired,
            put_reservation reservationKey (existing\<lparr>rv_State := ReservationReconcile\<rparr>) l)
      else if rv_AccountID existing = accountID \<and> rv_RequestID existing = requestID
              \<and> rv_ReservedMicros existing = amountMicros \<and> rv_State existing = ReservationOpen
      then (Inr (existing, \<not> claim), l)
      else if rv_State existing = ReservationReconcile then (Inl ErrReconciliationRequired, l)
      else (Inl ErrReservationConflict, l))"

definition reserve_fresh ::
  "(nat \<Rightarrow> time) \<Rightarrow> string + string \<Rightarrow> string \<Rightarrow> string \<Rightarrow> string \<Rightarrow> string \<Rightarrow> int \<Rightarrow> bool \<Rightarrow> BudgetLedger \<Rightarrow>
     (Reservation \<times> bool) ledger_result" where
  \<comment> \<open>the branch for a new reservation\<close>
  "reserve_fresh clock newID tenantID accountID reservationID requestID amountMicros claim l =
     (case scan_requests clock tenantID accountID requestID claim (map snd (bl_reservations l)) 0 of
        Inl err \<Rightarrow> (Inl err, l)
      | Inr n \<Rightarrow>
          (let accountKey = budgetKey tenantID accountID in
           case map_of (bl_accounts l) accountKey of
             None \<Rightarrow> (Inl ErrBudgetExceeded, l)
           | Some account \<Rightarrow>
               if \<not> budgetPeriodOpen (utc (clock n)) account
                  \<or> amountMicros > sub64 (sub64 (ba_LimitMicros account) (ba_ReservedMicros account)) (ba_SpentMicros account)
               then (Inl ErrBudgetExceeded, l)
               else (case newID of
                       Inl err \<Rightarrow> (Inl (SystemFailure err), l)
                     | Inr generatedID \<Rightarrow>
                         (let account' = account\<lparr>ba_ReservedMicros := add64 (ba_ReservedMicros account) amountMicros,
                                                 ba_Version := add64 (ba_Version account) 1\<rparr>;
                              createdAt = utc (clock (Suc n));
                              reservation = \<lparr>rv_ID = generatedID, rv_TenantID = tenantID, rv_AccountID = accountID,
                                rv_RequestID = requestID, rv_ReservedMicros = amountMicros, rv_SettledMicros = 0,
                                rv_State = ReservationOpen, rv_CreatedAt = createdAt,
                                rv_ExpiresAt = createdAt + bl_reservationTTL l\<rparr>;
                              l' = put_reservation (budgetKey tenantID generatedID) reservation
                                     (put_account accountKey account' l)
                          in (Inr (reservation, True),
                              l'\<lparr>bl_reservationIDs :=
                                   gomap_put (budgetKey tenantID reservationID) generatedID (bl_reservationIDs l')\<rparr>)))))"

definition reserve ::
  "(nat \<Rightarrow> time) \<Rightarrow> string + string \<Rightarrow> go_context \<Rightarrow> string \<Rightarrow> string \<Rightarrow> string \<Rightarrow> string \<Rightarrow> int \<Rightarrow> bool \<Rightarrow>
     BudgetLedger \<Rightarrow> (Reservation \<times> bool) ledger_result" where
  "reserve clock newID ctx tenantID accountID reservationID requestID amountMicros claim l =
     (case contextError ctx of
        Some err \<Rightarrow> (Inl err, l)
      | None \<Rightarrow>
          if tenantID = [] \<or> accountID = [] \<or> reservationID = [] \<or> requestID = [] \<or> amountMicros < 0
          then (Inl ErrInvalidRequest, l)
          else (case lookupReservationLocked l tenantID reservationID of
                  Some (reservationKey, existing) \<Rightarrow>
                    reserve_existing clock accountID requestID amountMicros claim reservationKey existing l
                | None \<Rightarrow>
                    reserve_fresh clock newID tenantID accountID reservationID requestID amountMicros claim l))"

definition Reserve ::
  "(nat \<Rightarrow> time) \<Rightarrow> string + string \<Rightarrow> go_context \<Rightarrow> string \<Rightarrow> string \<Rightarrow> string \<Rightarrow> string \<Rightarrow> int \<Rightarrow>
     BudgetLedger \<Rightarrow> Reservation ledger_result" where
  "Reserve clock newID ctx tenantID accountID reservationID requestID amountMicros l =
     (case reserve clock newID ctx tenantID accountID reservationID requestID amountMicros False l of
        (result, l') \<Rightarrow> (map_sum id fst result, l'))"

definition ClaimReservation ::
  "(nat \<Rightarrow> time) \<Rightarrow> string + string \<Rightarrow> go_context \<Rightarrow> string \<Rightarrow> string \<Rightarrow> string \<Rightarrow> string \<Rightarrow> int \<Rightarrow>
     BudgetLedger \<Rightarrow> (Reservation \<times> bool) ledger_result" where
  "ClaimReservation clock newID ctx tenantID accountID reservationID requestID amountMicros l =
     reserve clock newID ctx tenantID accountID reservationID requestID amountMicros True l"

text \<open>Closing a reservation: the reserved amount goes back, the spent amount is booked.\<close>

definition close_account :: "int \<Rightarrow> int \<Rightarrow> BudgetAccount \<Rightarrow> BudgetAccount" where
  "close_account reservedMicros actualMicros account =
     account\<lparr>ba_ReservedMicros := sub64 (ba_ReservedMicros account) reservedMicros,
       ba_SpentMicros := add64 (ba_SpentMicros account) actualMicros,
       ba_Version := add64 (ba_Version account) 1\<rparr>"

definition settle_reservation :: "string \<Rightarrow> string \<Rightarrow> Reservation \<Rightarrow> int \<Rightarrow> BudgetLedger \<Rightarrow> Reservation ledger_result" where
  "settle_reservation tenantID reservationKey reservation actualMicros l =
     (let accountKey = budgetKey tenantID (rv_AccountID reservation); account = get_account l accountKey in
      if ba_ReservedMicros account < rv_ReservedMicros reservation
         \<or> actualMicros > sub64 (ba_LimitMicros account) (ba_SpentMicros account)
      then (Inl ErrBudgetExceeded, l)
      else (let reservation' = reservation\<lparr>rv_SettledMicros := actualMicros, rv_State := ReservationSettled\<rparr> in
            (Inr reservation',
             put_reservation reservationKey reservation'
               (put_account accountKey (close_account (rv_ReservedMicros reservation) actualMicros account) l))))"

definition Settle :: "go_context \<Rightarrow> string \<Rightarrow> string \<Rightarrow> int \<Rightarrow> BudgetLedger \<Rightarrow> Reservation ledger_result" where
  "Settle ctx tenantID reservationID actualMicros l =
     (case contextError ctx of
        Some err \<Rightarrow> (Inl err, l)
      | None \<Rightarrow>
          if tenantID = [] \<or> reservationID = [] \<or> actualMicros < 0 then (Inl ErrInvalidRequest, l)
          else (case lookupReservationLocked l tenantID reservationID of
                  None \<Rightarrow> (Inl ErrReservationNotFound, l)
                | Some (reservationKey, reservation) \<Rightarrow>
                    if rv_State reservation = ReservationSettled then
                      (if rv_SettledMicros reservation = actualMicros then (Inr reservation, l)
                       else (Inl ErrReservationConflict, l))
                    else if rv_State reservation \<noteq> ReservationOpen then (Inl ErrReservationConflict, l)
                    else settle_reservation tenantID reservationKey reservation actualMicros l))"

definition Release :: "go_context \<Rightarrow> string \<Rightarrow> string \<Rightarrow> BudgetLedger \<Rightarrow> unit ledger_result" where
  "Release ctx tenantID reservationID l =
     (case contextError ctx of
        Some err \<Rightarrow> (Inl err, l)
      | None \<Rightarrow>
          if tenantID = [] \<or> reservationID = [] then (Inl ErrInvalidRequest, l)
          else (case lookupReservationLocked l tenantID reservationID of
                  None \<Rightarrow> (Inl ErrReservationNotFound, l)
                | Some (reservationKey, reservation) \<Rightarrow>
                    if rv_State reservation = ReservationReleased then (Inr (), l)
                    else if rv_State reservation \<noteq> ReservationOpen then (Inl ErrReservationConflict, l)
                    else (let accountKey = budgetKey tenantID (rv_AccountID reservation);
                              account = get_account l accountKey in
                          if ba_ReservedMicros account < rv_ReservedMicros reservation
                          then (Inl ErrReservationConflict, l)
                          else (Inr (),
                                put_reservation reservationKey (reservation\<lparr>rv_State := ReservationReleased\<rparr>)
                                  (put_account accountKey
                                     (account\<lparr>ba_ReservedMicros := sub64 (ba_ReservedMicros account) (rv_ReservedMicros reservation),
                                        ba_Version := add64 (ba_Version account) 1\<rparr>) l)))))"

definition Reconcile :: "go_context \<Rightarrow> string \<Rightarrow> string \<Rightarrow> int \<Rightarrow> BudgetLedger \<Rightarrow> Reservation ledger_result" where
  "Reconcile ctx tenantID reservationID actualMicros l =
     (case contextError ctx of
        Some err \<Rightarrow> (Inl err, l)
      | None \<Rightarrow>
          if tenantID = [] \<or> reservationID = [] \<or> actualMicros < 0 then (Inl ErrInvalidRequest, l)
          else (case lookupReservationLocked l tenantID reservationID of
                  None \<Rightarrow> (Inl ErrReservationNotFound, l)
                | Some (reservationKey, reservation) \<Rightarrow>
                    if rv_State reservation = ReservationSettled then
                      (if rv_SettledMicros reservation = actualMicros then (Inr reservation, l)
                       else (Inl ErrReservationConflict, l))
                    else if rv_State reservation \<noteq> ReservationOpen \<and> rv_State reservation \<noteq> ReservationReconcile
                    then (Inl ErrReservationConflict, l)
                    else settle_reservation tenantID reservationKey reservation actualMicros l))"

definition RequireReconciliation :: "go_context \<Rightarrow> string \<Rightarrow> string \<Rightarrow> BudgetLedger \<Rightarrow> Reservation ledger_result" where
  "RequireReconciliation ctx tenantID reservationID l =
     (case contextError ctx of
        Some err \<Rightarrow> (Inl err, l)
      | None \<Rightarrow>
          if tenantID = [] \<or> reservationID = [] then (Inl ErrInvalidRequest, l)
          else (case lookupReservationLocked l tenantID reservationID of
                  None \<Rightarrow> (Inl ErrReservationNotFound, l)
                | Some (key, reservation) \<Rightarrow>
                    if rv_State reservation = ReservationReconcile then (Inr reservation, l)
                    else if rv_State reservation \<noteq> ReservationOpen then (Inl ErrReservationConflict, l)
                    else (let reservation' = reservation\<lparr>rv_State := ReservationReconcile\<rparr> in
                          (Inr reservation', put_reservation key reservation' l))))"

text \<open>
  The reservations that have expired, oldest first; the identifier decides between equal
  times. Distinct reservations of a tenant have distinct identifiers, so the sorted list is
  unique and the instability of \<open>sort.Slice\<close> does not show.
\<close>

definition expired_open :: "time \<Rightarrow> string \<Rightarrow> Reservation \<Rightarrow> bool" where
  "expired_open now tenantID r \<longleftrightarrow>
     rv_TenantID r = tenantID \<and> rv_State r = ReservationOpen \<and> \<not> now < rv_ExpiresAt r"

definition ExpireReservations :: "time \<Rightarrow> go_context \<Rightarrow> string \<Rightarrow> int \<Rightarrow> BudgetLedger \<Rightarrow> Reservation list ledger_result" where
  "ExpireReservations now ctx tenantID limit l =
     (case contextError ctx of
        Some err \<Rightarrow> (Inl err, l)
      | None \<Rightarrow>
          if tenantID = [] \<or> limit \<le> 0 then (Inl ErrInvalidRequest, l)
          else (let candidates = sort_key (\<lambda>r. (rv_ExpiresAt r, rv_ID r))
                      (filter (expired_open (utc now) tenantID) (map snd (bl_reservations l)));
                    marked = map (\<lambda>r. r\<lparr>rv_State := ReservationReconcile\<rparr>) (take (nat limit) candidates)
                in (Inr marked,
                    foldl (\<lambda>m r. put_reservation (budgetKey tenantID (rv_ID r)) r m) l marked)))"

section \<open>Queries\<close>

definition Account :: "string \<Rightarrow> string \<Rightarrow> BudgetLedger \<Rightarrow> BudgetAccount option" where
  "Account tenantID i l = map_of (bl_accounts l) (budgetKey tenantID i)"

definition get_Reservation :: "string \<Rightarrow> string \<Rightarrow> BudgetLedger \<Rightarrow> Reservation option" where
  "get_Reservation tenantID i l = map_option snd (lookupReservationLocked l tenantID i)"

definition project_account :: "string \<Rightarrow> string \<Rightarrow> BudgetAccount \<Rightarrow> bool" where
  "project_account tenantID projectID account \<longleftrightarrow>
     ba_TenantID account = tenantID \<and> ba_ScopeType account = ''PROJECT'' \<and> ba_ScopeID account = projectID"

definition ListAccounts :: "go_context \<Rightarrow> string \<Rightarrow> string \<Rightarrow> BudgetLedger \<Rightarrow> gateway_error + BudgetAccount list" where
  "ListAccounts ctx tenantID projectID l =
     (case contextError ctx of
        Some err \<Rightarrow> Inl err
      | None \<Rightarrow>
          if tenantID = [] \<or> projectID = [] then Inl ErrInvalidRequest
          else Inr (sort_key ba_ID (map cloneBudgetAccount
                      (filter (project_account tenantID projectID) (map snd (bl_accounts l))))))"

fun project_scan :: "string \<Rightarrow> string \<Rightarrow> BudgetAccount list \<Rightarrow> BudgetAccount option \<Rightarrow> gateway_error + BudgetAccount option" where
  "project_scan tenantID projectID [] found = Inr found"
| "project_scan tenantID projectID (candidate # rest) found =
     (if \<not> project_account tenantID projectID candidate then project_scan tenantID projectID rest found
      else if found \<noteq> None then Inl ErrBudgetAccountConflict
      else project_scan tenantID projectID rest (Some candidate))"

definition projectAccountLocked :: "BudgetLedger \<Rightarrow> string \<Rightarrow> string \<Rightarrow> gateway_error + BudgetAccount option" where
  "projectAccountLocked l tenantID projectID =
     project_scan tenantID projectID (map snd (bl_accounts l)) None"

definition usageFromAccount :: "BudgetAccount \<Rightarrow> BudgetUsage" where
  "usageFromAccount account =
     (let remaining = sub64 (sub64 (ba_LimitMicros account) (ba_SpentMicros account)) (ba_ReservedMicros account);
          remaining = (if remaining < 0 then 0 else remaining) in
      \<lparr>us_AccountID = ba_ID account, us_Currency = ba_Currency account,
       us_HardLimitMicros = ba_LimitMicros account, us_SoftLimitMicros = ba_SoftLimitMicros account,
       us_SpentMicros = ba_SpentMicros account, us_ReservedMicros = ba_ReservedMicros account,
       us_RemainingMicros = remaining, us_Version = ba_Version account, us_ReservationCount = 0,
       us_CallCount = 0, us_InputTokens = 0, us_OutputTokens = 0, us_CostMicros = 0\<rparr>)"

definition count_reservation :: "BudgetAccount \<Rightarrow> Reservation \<Rightarrow> BudgetUsage \<Rightarrow> BudgetUsage" where
  "count_reservation account r usage =
     (if rv_TenantID r = ba_TenantID account \<and> rv_AccountID r = ba_ID account
         \<and> inBudgetPeriod (rv_CreatedAt r) (ba_PeriodStart account) (ba_PeriodEnd account)
      then usage\<lparr>us_ReservationCount := add64 (us_ReservationCount usage) 1\<rparr> else usage)"

definition count_call :: "BudgetAccount \<Rightarrow> ModelCall \<Rightarrow> BudgetUsage \<Rightarrow> BudgetUsage" where
  "count_call account c usage =
     (if mc_TenantID c = ba_TenantID account \<and> mc_ProjectID c = ba_ScopeID account
         \<and> inBudgetPeriod (mc_CreatedAt c) (ba_PeriodStart account) (ba_PeriodEnd account)
      then usage\<lparr>us_CallCount := add64 (us_CallCount usage) 1,
             us_InputTokens := add64 (us_InputTokens usage) (mc_InputTokens c),
             us_OutputTokens := add64 (us_OutputTokens usage) (mc_OutputTokens c),
             us_CostMicros := add64 (us_CostMicros usage) (mc_CostMicros c)\<rparr>
      else usage)"

definition usageFromAccountLocked :: "BudgetLedger \<Rightarrow> BudgetAccount \<Rightarrow> BudgetUsage" where
  "usageFromAccountLocked l account =
     fold (count_call account) (map snd (bl_modelCalls l))
       (fold (count_reservation account) (map snd (bl_reservations l)) (usageFromAccount account))"

definition Usage :: "go_context \<Rightarrow> string \<Rightarrow> string \<Rightarrow> BudgetLedger \<Rightarrow> gateway_error + BudgetUsage" where
  "Usage ctx tenantID projectID l =
     (case contextError ctx of
        Some err \<Rightarrow> Inl err
      | None \<Rightarrow>
          if tenantID = [] \<or> projectID = [] then Inl ErrInvalidRequest
          else (case projectAccountLocked l tenantID projectID of
                  Inl err \<Rightarrow> Inl err
                | Inr None \<Rightarrow> Inl ErrBudgetAccountNotFound
                | Inr (Some account) \<Rightarrow> Inr (usageFromAccountLocked l account)))"

section \<open>Adjustments\<close>

definition valid_adjustment :: "BudgetAdjustment \<Rightarrow> bool" where
  "valid_adjustment a \<longleftrightarrow>
     \<not> (aj_TenantID a = [] \<or> aj_ProjectID a = [] \<or> \<not> safeBudgetText (aj_PrincipalID a) 512
        \<or> \<not> safeBudgetText (aj_IdempotencyKey a) 256 \<or> \<not> safeBudgetText (aj_Reason a) 2048
        \<or> aj_ProjectVersion a < 0 \<or> aj_ProjectVersion a > 0 \<and> \<not> safeBudgetText (aj_ProjectState a) 64
        \<or> aj_ExpectedVersion a < 1 \<or> aj_HardLimitMicros a < 0 \<or> aj_SoftLimitMicros a < 0
        \<or> aj_SoftLimitMicros a > aj_HardLimitMicros a \<or> \<not> validCurrency (aj_Currency a))
     \<and> \<not> (aj_PolicyVersion a \<noteq> [] \<and> \<not> safeBudgetText (aj_PolicyVersion a) 256
          \<or> aj_PolicyRuleID a \<noteq> [] \<and> \<not> safeBudgetText (aj_PolicyRuleID a) 128
          \<or> aj_PolicyDecision a \<noteq> [] \<and> aj_PolicyDecision a \<noteq> ''ALLOW''
          \<or> aj_ParameterDigest a \<noteq> [] \<and> \<not> safeBudgetText (aj_ParameterDigest a) 128)
     \<and> length (aj_PolicyReasons a) \<le> 32 \<and> list_all (\<lambda>r. safeBudgetText r 128) (aj_PolicyReasons a)"

text \<open>\<open>fresh_trace\<close> is what \<open>NewRootTraceContext(false)\<close> returns in the call.\<close>

definition prepareBudgetAdjustment :: "string + TraceContext \<Rightarrow> BudgetAdjustment \<Rightarrow> gateway_error + BudgetAdjustment" where
  "prepareBudgetAdjustment fresh_trace a =
     (if \<not> valid_adjustment a then Inl ErrInvalidRequest
      else if aj_Traceparent a = [] then
        (if aj_Tracestate a \<noteq> [] then Inl ErrInvalidRequest
         else (case fresh_trace of
                 Inl err \<Rightarrow> Inl (SystemFailure err)
               | Inr trace \<Rightarrow>
                   (case TraceParent trace of
                      Inl err \<Rightarrow> Inl (TraceFailure err)
                    | Inr parent \<Rightarrow> Inr (a\<lparr>aj_Traceparent := parent\<rparr>))))
      else (case ParseTraceParent (aj_Traceparent a) (aj_Tracestate a) of
              Inl err \<Rightarrow> Inl ErrInvalidRequest
            | Inr trace \<Rightarrow>
                (case TraceParent trace of
                   Inl err \<Rightarrow> Inl ErrInvalidRequest
                 | Inr parent \<Rightarrow> Inr (a\<lparr>aj_Traceparent := parent, aj_Tracestate := tr_TraceState trace\<rparr>))))"

definition sameBudgetAdjustment :: "BudgetAdjustment \<Rightarrow> BudgetAdjustment \<Rightarrow> bool" where
  "sameBudgetAdjustment left right \<longleftrightarrow>
     aj_TenantID left = aj_TenantID right \<and> aj_ProjectID left = aj_ProjectID right
     \<and> aj_PrincipalID left = aj_PrincipalID right \<and> aj_IdempotencyKey left = aj_IdempotencyKey right
     \<and> aj_ExpectedVersion left = aj_ExpectedVersion right \<and> aj_HardLimitMicros left = aj_HardLimitMicros right
     \<and> aj_SoftLimitMicros left = aj_SoftLimitMicros right \<and> aj_Currency left = aj_Currency right
     \<and> aj_Reason left = aj_Reason right"

definition adjustment_key :: "BudgetAdjustment \<Rightarrow> string" where
  "adjustment_key a = budgetKey (aj_TenantID a) (aj_PrincipalID a @ [CHR 0x00] @ aj_IdempotencyKey a)"

definition adjust_account :: "time \<Rightarrow> BudgetAdjustment \<Rightarrow> BudgetAccount \<Rightarrow> gateway_error + BudgetAccount" where
  "adjust_account now a account =
     (if ba_Version account \<noteq> aj_ExpectedVersion a then Inl ErrBudgetVersionConflict
      else if aj_Currency a \<noteq> ba_Currency account then Inl ErrBudgetCurrencyConflict
      else if \<not> budgetPeriodOpen (utc now) account then Inl ErrBudgetPeriodClosed
      else if aj_SoftLimitMicros a > aj_HardLimitMicros a
              \<or> aj_HardLimitMicros a < add64 (ba_SpentMicros account) (ba_ReservedMicros account)
      then Inl ErrBudgetLimitConflict
      else Inr (account\<lparr>ba_LimitMicros := aj_HardLimitMicros a, ba_SoftLimitMicros := aj_SoftLimitMicros a,
                  ba_Version := add64 (ba_Version account) 1\<rparr>))"

definition Adjust ::
  "time \<Rightarrow> string + TraceContext \<Rightarrow> go_context \<Rightarrow> BudgetAdjustment \<Rightarrow> BudgetLedger \<Rightarrow>
     BudgetAdjustmentResult ledger_result" where
  "Adjust now fresh_trace ctx adjustment l =
     (case contextError ctx of
        Some err \<Rightarrow> (Inl err, l)
      | None \<Rightarrow>
          (case prepareBudgetAdjustment fresh_trace adjustment of
             Inl err \<Rightarrow> (Inl err, l)
           | Inr a \<Rightarrow>
               (case map_of (bl_adjustments l) (adjustment_key a) of
                  Some prior \<Rightarrow>
                    if \<not> sameBudgetAdjustment (ma_request prior) a then (Inl ErrBudgetIdempotencyConflict, l)
                    else (Inr ((ma_result prior)\<lparr>ar_Account := cloneBudgetAccount (ar_Account (ma_result prior)),
                                 ar_Duplicate := True\<rparr>), l)
                | None \<Rightarrow>
                    (case projectAccountLocked l (aj_TenantID a) (aj_ProjectID a) of
                       Inl err \<Rightarrow> (Inl err, l)
                     | Inr None \<Rightarrow> (Inl ErrBudgetAccountNotFound, l)
                     | Inr (Some account) \<Rightarrow>
                         (case adjust_account now a account of
                            Inl err \<Rightarrow> (Inl err, l)
                          | Inr account' \<Rightarrow>
                              (let l' = put_account (budgetKey (aj_TenantID a) (ba_ID account')) account' l;
                                   result = \<lparr>ar_Account = cloneBudgetAccount account',
                                             ar_Usage = usageFromAccountLocked l' account', ar_Duplicate = False\<rparr>
                               in (Inr result,
                                   l'\<lparr>bl_adjustments := gomap_put (adjustment_key a)
                                        \<lparr>ma_request = a, ma_result = result\<rparr> (bl_adjustments l')\<rparr>)))))))"

end
