(* ===== verification/Model_Costs.thy ===== *)
theory Model_Costs
  imports Budget_Ledger
begin

text \<open>
  The integer arithmetic of the model gateway: costs of tokens, sums of usage, the context
  window and the back-off of a failing provider (\<open>internal/modelgateway/gateway.go\<close>,
  \<open>types.go\<close>, \<open>reconcile.go\<close>).
\<close>

section \<open>Costs\<close>

definition max_int64 :: int where
  "max_int64 = 2 ^ 63 - 1"

record ModelUsage =
  mu_InputTokens :: int
  mu_OutputTokens :: int
  mu_CacheReadTokens :: "int option"
  mu_CacheWriteTokens :: "int option"
  mu_CostMicros :: int
  mu_ProviderRequestID :: string
  mu_ModelVersion :: string

record Pricing =
  pr_InputMicrosPerToken :: int
  pr_OutputMicrosPerToken :: int

definition addCost :: "int \<Rightarrow> int \<Rightarrow> gateway_error + int" where
  "addCost current additional =
     (if current < 0 \<or> additional < 0 \<or> current > sub64 max_int64 additional then Inl ErrInvalidRequest
      else Inr (add64 current additional))"

definition multiplyCost :: "int \<Rightarrow> int \<Rightarrow> gateway_error + int" where
  "multiplyCost units rate =
     (if units < 0 \<or> rate < 0 \<or> units > 0 \<and> rate > max_int64 div units then Inl ErrInvalidRequest
      else Inr (mul64 units rate))"

definition negative_option :: "int option \<Rightarrow> bool" where
  "negative_option v = (case v of None \<Rightarrow> False | Some n \<Rightarrow> n < 0)"

definition usageCost :: "ModelUsage \<Rightarrow> Pricing \<Rightarrow> gateway_error + int" where
  "usageCost usage pricing =
     (if mu_InputTokens usage < 0 \<or> mu_OutputTokens usage < 0 \<or> mu_CostMicros usage < 0
         \<or> negative_option (mu_CacheReadTokens usage) \<or> negative_option (mu_CacheWriteTokens usage)
      then Inl ErrInvalidRequest
      else if mu_InputTokens usage \<noteq> 0 \<or> mu_OutputTokens usage \<noteq> 0 then
        (case multiplyCost (mu_InputTokens usage) (pr_InputMicrosPerToken pricing) of
           Inl err \<Rightarrow> Inl err
         | Inr input \<Rightarrow>
             (case multiplyCost (mu_OutputTokens usage) (pr_OutputMicrosPerToken pricing) of
                Inl err \<Rightarrow> Inl err
              | Inr output \<Rightarrow> addCost input output))
      else Inr (mu_CostMicros usage))"

definition cloneOptionalInt64 :: "int option \<Rightarrow> int option" where
  "cloneOptionalInt64 value = (case value of None \<Rightarrow> None | Some v \<Rightarrow> Some v)"

text \<open>
  \<open>accumulateCacheTokens\<close> updates a total and the flag that says whether it is still known;
  both are returned. Its nil checks do not arise, the pointers are always there.
\<close>

definition accumulateCacheTokens ::
  "int option \<Rightarrow> bool \<Rightarrow> int option \<Rightarrow> gateway_error + int option \<times> bool" where
  "accumulateCacheTokens so_far known value =
     (if \<not> known then Inr (so_far, known)
      else (case value of
              None \<Rightarrow> Inr (None, False)
            | Some v \<Rightarrow>
                (case addCost (case so_far of None \<Rightarrow> 0 | Some t \<Rightarrow> t) v of
                   Inl err \<Rightarrow> Inl err
                 | Inr next_total \<Rightarrow> Inr (Some next_total, known))))"

definition reconcileCacheTokens :: "int option \<Rightarrow> int option \<Rightarrow> bool \<Rightarrow> gateway_error + int option" where
  "reconcileCacheTokens existing receipt knownPriorUsage =
     (if \<not> knownPriorUsage then Inr (cloneOptionalInt64 receipt)
      else (case (existing, receipt) of
              (Some e, Some r) \<Rightarrow>
                (case addCost e r of Inl err \<Rightarrow> Inl err | Inr both \<Rightarrow> Inr (Some both))
            | _ \<Rightarrow> Inr None))"

text \<open>The fields of the request, the capabilities and the estimate that the check reads.\<close>

definition contextWindowExceeded :: "int \<Rightarrow> int \<Rightarrow> int \<Rightarrow> int \<Rightarrow> int \<Rightarrow> bool" where
  "contextWindowExceeded maxOutputTokens requestWindow maxInputTokens capabilityWindow inputTokens =
     (if inputTokens < 0 \<or> maxInputTokens > 0 \<and> inputTokens > maxInputTokens then True
      else (let window = (if requestWindow > 0
                          then (if capabilityWindow \<le> 0 \<or> requestWindow < capabilityWindow
                                then requestWindow else capabilityWindow)
                          else capabilityWindow)
            in window > 0 \<and> add64 inputTokens maxOutputTokens > window))"

section \<open>Back-off\<close>

definition quot64 :: "int \<Rightarrow> int \<Rightarrow> int" where
  \<comment> \<open>Go's integer division truncates towards zero\<close>
  "quot64 x y = sgn x * sgn y * (\<bar>x\<bar> div \<bar>y\<bar>)"

function backoff_loop :: "int \<Rightarrow> int \<Rightarrow> duration \<Rightarrow> duration \<Rightarrow> duration" where
  "backoff_loop attempt failures maximum delay =
     (if attempt < failures \<and> delay < maximum then
        (if delay > quot64 maximum 2 then maximum
         else backoff_loop (attempt + 1) failures maximum (mul64 delay 2))
      else if delay > maximum then maximum else delay)"
  by pat_completeness auto
termination by (relation "measure (\<lambda>(attempt, failures, _). nat (failures - attempt))") auto

declare backoff_loop.simps [simp del]

definition exponentialBackoff :: "int \<Rightarrow> duration \<Rightarrow> duration \<Rightarrow> duration" where
  "exponentialBackoff failures initial maximum = backoff_loop 1 failures maximum initial"

section \<open>Facts\<close>

lemma addCost_exact:
  "int64 x \<Longrightarrow> int64 y \<Longrightarrow> addCost x y = Inr z \<longleftrightarrow> 0 \<le> x \<and> 0 \<le> y \<and> x + y \<le> max_int64 \<and> z = x + y"
  by (auto simp: addCost_def max_int64_def int64_def sub64_id add64_id)

lemma le_div_iff:
  fixes m x y :: int
  assumes "0 < x"
  shows "y \<le> m div x \<longleftrightarrow> x * y \<le> m"
proof
  assume "y \<le> m div x"
  then have "x * y \<le> x * (m div x)" using assms by simp
  also have "\<dots> \<le> m" using minus_mod_eq_mult_div [of m x] pos_mod_sign [OF assms, of m] by linarith
  finally show "x * y \<le> m" .
next
  assume "x * y \<le> m"
  then have "(x * y) div x \<le> m div x" using assms by (rule zdiv_mono1)
  then show "y \<le> m div x" using assms by simp
qed

lemma multiplyCost_exact:
  assumes "int64 x" and "int64 y"
  shows "multiplyCost x y = Inr z \<longleftrightarrow> 0 \<le> x \<and> 0 \<le> y \<and> x * y \<le> max_int64 \<and> z = x * y"
proof (cases "0 < x \<and> 0 \<le> y")
  case True
  then have "y > max_int64 div x \<longleftrightarrow> \<not> x * y \<le> max_int64" using le_div_iff [of x y max_int64] by linarith
  moreover have "int64 (x * y)" if "x * y \<le> max_int64"
  proof -
    have "0 \<le> x * y" using True by simp
    with that show ?thesis by (simp add: int64_def max_int64_def)
  qed
  ultimately show ?thesis using True by (auto simp: multiplyCost_def mul64_id)
next
  case False
  then show ?thesis
    by (cases "x = 0") (auto simp: multiplyCost_def mul64_id int64_def max_int64_def)
qed

lemma backoff_loop_exact:
  assumes "0 < delay" and "delay \<le> maximum" and "int64 maximum"
  shows "backoff_loop attempt failures maximum delay = min maximum (delay * 2 ^ nat (failures - attempt))"
  using assms
proof (induction attempt failures maximum delay rule: backoff_loop.induct)
  case (1 attempt failures maximum delay)
  have half: "quot64 maximum 2 = maximum div 2" using 1(2,3) by (simp add: quot64_def)
  show ?case
  proof (cases "attempt < failures \<and> delay < maximum")
    case True
    define k where "k = nat (failures - (attempt + 1))"
    have k: "nat (failures - attempt) = Suc k" using True by (simp add: k_def Suc_nat_eq_nat_zadd1)
    have grow: "delay * 2 \<le> delay * 2 ^ Suc k" using 1(2) by simp
    show ?thesis
    proof (cases "delay > maximum div 2")
      case over: True
      then have "maximum \<le> delay * 2" by linarith
      with grow have "maximum \<le> delay * 2 ^ Suc k" by linarith
      then show ?thesis using True over half k by (subst backoff_loop.simps) (simp add: min_def)
    next
      case False
      then have fits: "delay * 2 \<le> maximum" by linarith
      then have "mul64 delay 2 = delay * 2" using 1(2,4) by (simp add: mul64_id int64_def)
      moreover have "backoff_loop (attempt + 1) failures maximum (mul64 delay 2)
          = min maximum (mul64 delay 2 * 2 ^ nat (failures - (attempt + 1)))"
        using True False half fits calculation 1(2,4) by (intro "1.IH") auto
      ultimately show ?thesis using True False half k k_def by (subst backoff_loop.simps) (simp add: mult.assoc)
    qed
  next
    case False
    show ?thesis
    proof (cases "delay = maximum")
      case True
      then show ?thesis using 1(2) by (subst backoff_loop.simps) (simp add: min_def)
    next
      case distinct: False
      then have "nat (failures - attempt) = 0" using False 1(3) by simp
      then show ?thesis using False 1(3) distinct by (subst backoff_loop.simps) simp
    qed
  qed
qed

section \<open>Properties\<close>

text \<open>
  Costs are exact or refused. For 64-bit counts and prices the cost of a usage is the exact
  sum of the products, without wrap-around; the cost is refused exactly when a number is negative
  or a product or the sum does not fit into 64 bits; without tokens it is the reported cost.
\<close>

definition cost_ok :: "ModelUsage \<Rightarrow> bool" where
  "cost_ok u \<longleftrightarrow> 0 \<le> mu_InputTokens u \<and> 0 \<le> mu_OutputTokens u \<and> 0 \<le> mu_CostMicros u
     \<and> \<not> negative_option (mu_CacheReadTokens u) \<and> \<not> negative_option (mu_CacheWriteTokens u)"

lemma usage_cost_exact:
  assumes "int64 (mu_InputTokens u)" and "int64 (mu_OutputTokens u)"
    and "int64 (pr_InputMicrosPerToken p)" and "int64 (pr_OutputMicrosPerToken p)"
    and "mu_InputTokens u \<noteq> 0 \<or> mu_OutputTokens u \<noteq> 0"
  shows "usageCost u p = Inr c \<longleftrightarrow>
     cost_ok u \<and> 0 \<le> pr_InputMicrosPerToken p \<and> 0 \<le> pr_OutputMicrosPerToken p
     \<and> c = mu_InputTokens u * pr_InputMicrosPerToken p + mu_OutputTokens u * pr_OutputMicrosPerToken p
     \<and> c \<le> max_int64"
proof -
  let ?i = "multiplyCost (mu_InputTokens u) (pr_InputMicrosPerToken p)"
  let ?o = "multiplyCost (mu_OutputTokens u) (pr_OutputMicrosPerToken p)"
  have fits: "int64 z" if "0 \<le> z" "z \<le> max_int64" for z using that by (simp add: int64_def max_int64_def)
  have add: "addCost i k = Inr c \<longleftrightarrow> i + k \<le> max_int64 \<and> c = i + k" if "?i = Inr i" "?o = Inr k" for i k
    using that assms(1-4) fits by (auto simp: multiplyCost_exact addCost_exact)
  have "usageCost u p = Inr c \<longleftrightarrow> cost_ok u \<and> (\<exists>i k. ?i = Inr i \<and> ?o = Inr k \<and> addCost i k = Inr c)"
    using assms(5) by (auto simp: usageCost_def cost_ok_def split: sum.splits)
  also have "\<dots> \<longleftrightarrow> cost_ok u \<and> (\<exists>i k. ?i = Inr i \<and> ?o = Inr k \<and> i + k \<le> max_int64 \<and> c = i + k)"
    using add by blast
  also have "\<dots> \<longleftrightarrow> cost_ok u \<and> 0 \<le> pr_InputMicrosPerToken p \<and> 0 \<le> pr_OutputMicrosPerToken p
     \<and> c = mu_InputTokens u * pr_InputMicrosPerToken p + mu_OutputTokens u * pr_OutputMicrosPerToken p
     \<and> c \<le> max_int64"
  proof -
    have part: "a * b \<le> max_int64 \<and> d * e \<le> max_int64"
      if "0 \<le> a" "0 \<le> b" "0 \<le> d" "0 \<le> e" "a * b + d * e \<le> max_int64" for a b d e :: int
      using that mult_nonneg_nonneg [of a b] mult_nonneg_nonneg [of d e] by linarith
    show ?thesis using assms(1-4) part by (auto simp: multiplyCost_exact cost_ok_def)
  qed
  finally show ?thesis .
qed

text \<open>
  The back-off of the n-th failure in a row is the initial delay doubled n - 1 times, cut at
  the maximum: the loop ends, never overflows and never leaves the bounds.
\<close>

lemma backoff_exact:
  assumes "0 < initial" and "initial \<le> maximum" and "int64 maximum"
  shows "exponentialBackoff failures initial maximum = min maximum (initial * 2 ^ nat (failures - 1))
    \<and> initial \<le> exponentialBackoff failures initial maximum \<and> exponentialBackoff failures initial maximum \<le> maximum"
proof -
  have eq: "exponentialBackoff failures initial maximum = min maximum (initial * 2 ^ nat (failures - 1))"
    unfolding exponentialBackoff_def by (rule backoff_loop_exact [OF assms])
  have "initial * 1 \<le> initial * 2 ^ nat (failures - 1)" using assms(1) by (intro mult_left_mono) simp_all
  with eq assms(2) show ?thesis by simp
qed

end
