(* ===== verification/Budget_Calls.thy ===== *)
theory Budget_Calls
  imports Model_Costs
begin

text \<open>
  Model calls in the budget ledger: finalizing a call settles, releases or parks its reservation
  (\<open>internal/modelgateway/model_call.go\<close>), and reconciling a parked call books what the provider
  billed (\<open>reconcile.go\<close>). The stored responses (\<open>ModelReplay\<close>) are left out: the functions are
  those of a call without one.
\<close>

section \<open>Finalization\<close>

datatype ReservationDisposition =
    ReservationDispositionSettle
  | ReservationDispositionRelease
  | ReservationDispositionReconcile
  | ReservationDispositionOther string

record ModelCallFinalization =
  fz_ReservationID :: string
  fz_Disposition :: ReservationDisposition
  fz_ActualMicros :: int
  fz_Call :: ModelCall

definition validDisposition :: "ReservationDisposition \<Rightarrow> bool" where
  "validDisposition value \<longleftrightarrow>
     value = ReservationDispositionSettle \<or> value = ReservationDispositionRelease
     \<or> value = ReservationDispositionReconcile"

definition validModelCallStatus :: "ModelCallStatus \<Rightarrow> bool" where
  "validModelCallStatus value \<longleftrightarrow>
     value \<in> {ModelCallSucceeded, ModelCallFailedProvider, ModelCallFailedOutputSchema,
       ModelCallFailedOutputSize, ModelCallFailedCredential, ModelCallReconcile, ModelCallReconciled}"

definition validModelDigest :: "string \<Rightarrow> bool" where
  "validModelDigest value \<longleftrightarrow>
     length value = length ''sha256:'' + 64 \<and> has_prefix value ''sha256:''
     \<and> dropWhile is_lower_hex (drop 7 value) = []"

definition short_line :: "string \<Rightarrow> bool" where
  "short_line value \<longleftrightarrow> \<not> (length value > 512 \<or> contains_any value crlf_nul)"

definition valid_call :: "ModelCall \<Rightarrow> bool" where
  "valid_call call \<longleftrightarrow>
     \<not> (mc_TenantID call = [] \<or> mc_RequestID call = [] \<or> mc_ProjectID call = [] \<or> mc_AgentInstanceID call = []
        \<or> mc_Provider call = [] \<or> mc_LogicalModel call = [] \<or> mc_ActualModelVersion call = []
        \<or> mc_PromptBundleVersion call = [] \<or> \<not> validModelDigest (mc_InputSHA256 call)
        \<or> mc_OutputSHA256 call \<noteq> [] \<and> \<not> validModelDigest (mc_OutputSHA256 call)
        \<or> mc_InputTokens call < 0 \<or> mc_OutputTokens call < 0 \<or> mc_CostMicros call < 0
        \<or> mc_LatencyMilliseconds call < 0 \<or> \<not> validModelCallStatus (mc_Status call)
        \<or> is_zero_time (mc_CreatedAt call) \<or> mc_ReconciliationReceiptSHA256 call \<noteq> []
        \<or> mc_ReconciledAt call \<noteq> None)"

definition ModelCallFinalization_validate :: "ModelCallFinalization \<Rightarrow> gateway_error option" where
  "ModelCallFinalization_validate f =
     (let call = fz_Call f in
      if fz_ReservationID f = [] \<or> fz_ActualMicros f < 0 \<or> \<not> validDisposition (fz_Disposition f)
      then Some ErrInvalidRequest
      else if \<not> valid_call call then Some ErrInvalidRequest
      else if \<not> list_all short_line
               [mc_TenantID call, mc_RequestID call, mc_ProjectID call, mc_TaskID call, mc_AgentInstanceID call,
                mc_Provider call, mc_LogicalModel call, mc_ActualModelVersion call, mc_PromptBundleVersion call,
                mc_ProviderRequestID call]
      then Some ErrInvalidRequest
      else if negative_option (mc_CacheReadTokens call) \<or> negative_option (mc_CacheWriteTokens call)
      then Some ErrInvalidRequest
      else (case fz_Disposition f of
              ReservationDispositionSettle \<Rightarrow>
                if mc_Status call = ModelCallReconcile \<or> mc_Status call = ModelCallReconciled
                   \<or> mc_CostMicros call \<noteq> fz_ActualMicros f then Some ErrInvalidRequest else None
            | ReservationDispositionRelease \<Rightarrow>
                if fz_ActualMicros f \<noteq> 0 \<or> mc_CostMicros call \<noteq> 0 \<or> mc_Status call \<noteq> ModelCallFailedProvider
                then Some ErrInvalidRequest else None
            | ReservationDispositionReconcile \<Rightarrow>
                if mc_Status call \<noteq> ModelCallReconcile then Some ErrInvalidRequest else None
            | ReservationDispositionOther _ \<Rightarrow> None))"

definition equalOptionalInt64 :: "int option \<Rightarrow> int option \<Rightarrow> bool" where
  "equalOptionalInt64 left right =
     (case (left, right) of (Some x, Some y) \<Rightarrow> x = y | (None, None) \<Rightarrow> True | _ \<Rightarrow> False)"

definition equalOptionalTime :: "time option \<Rightarrow> time option \<Rightarrow> bool" where
  "equalOptionalTime left right =
     (case (left, right) of (Some x, Some y) \<Rightarrow> x = y | (None, None) \<Rightarrow> True | _ \<Rightarrow> False)"

definition sameModelCall :: "ModelCall \<Rightarrow> ModelCall \<Rightarrow> bool" where
  "sameModelCall left right \<longleftrightarrow>
     mc_TenantID left = mc_TenantID right \<and> mc_RequestID left = mc_RequestID right
     \<and> mc_ProjectID left = mc_ProjectID right \<and> mc_TaskID left = mc_TaskID right
     \<and> mc_AgentInstanceID left = mc_AgentInstanceID right \<and> mc_Provider left = mc_Provider right
     \<and> mc_LogicalModel left = mc_LogicalModel right \<and> mc_ActualModelVersion left = mc_ActualModelVersion right
     \<and> mc_PromptBundleVersion left = mc_PromptBundleVersion right \<and> mc_InputSHA256 left = mc_InputSHA256 right
     \<and> mc_OutputSHA256 left = mc_OutputSHA256 right \<and> mc_InputTokens left = mc_InputTokens right
     \<and> mc_OutputTokens left = mc_OutputTokens right
     \<and> equalOptionalInt64 (mc_CacheReadTokens left) (mc_CacheReadTokens right)
     \<and> equalOptionalInt64 (mc_CacheWriteTokens left) (mc_CacheWriteTokens right)
     \<and> mc_CostMicros left = mc_CostMicros right \<and> mc_LatencyMilliseconds left = mc_LatencyMilliseconds right
     \<and> mc_Status left = mc_Status right \<and> mc_ProviderRequestID left = mc_ProviderRequestID right
     \<and> mc_ReconciliationReceiptSHA256 left = mc_ReconciliationReceiptSHA256 right
     \<and> equalOptionalTime (mc_ReconciledAt left) (mc_ReconciledAt right) \<and> mc_CreatedAt left = mc_CreatedAt right"

definition put_call :: "string \<Rightarrow> ModelCall \<Rightarrow> BudgetLedger \<Rightarrow> BudgetLedger" where
  "put_call key call l = l\<lparr>bl_modelCalls := gomap_put key call (bl_modelCalls l)\<rparr>"

text \<open>What the disposition does to the reservation and its account.\<close>

definition apply_disposition ::
  "ModelCallFinalization \<Rightarrow> string \<Rightarrow> string \<Rightarrow> Reservation \<Rightarrow> BudgetAccount \<Rightarrow> BudgetLedger \<Rightarrow>
     gateway_error + Reservation \<times> BudgetLedger" where
  "apply_disposition f reservationKey accountKey r account l =
     (case fz_Disposition f of
        ReservationDispositionSettle \<Rightarrow>
          if rv_State r = ReservationSettled then
            (if rv_SettledMicros r \<noteq> fz_ActualMicros f then Inl ErrReservationConflict else Inr (r, l))
          else if rv_State r \<noteq> ReservationOpen \<or> ba_ReservedMicros account < rv_ReservedMicros r
                  \<or> fz_ActualMicros f > sub64 (ba_LimitMicros account) (ba_SpentMicros account)
          then Inl ErrReservationConflict
          else (let r' = r\<lparr>rv_SettledMicros := fz_ActualMicros f, rv_State := ReservationSettled\<rparr> in
                Inr (r', put_reservation reservationKey r'
                           (put_account accountKey (close_account (rv_ReservedMicros r) (fz_ActualMicros f) account) l)))
      | ReservationDispositionRelease \<Rightarrow>
          if rv_State r = ReservationReleased then Inr (r, l)
          else if rv_State r \<noteq> ReservationOpen \<or> ba_ReservedMicros account < rv_ReservedMicros r
          then Inl ErrReservationConflict
          else (let r' = r\<lparr>rv_State := ReservationReleased\<rparr> in
                Inr (r', put_reservation reservationKey r'
                           (put_account accountKey
                              (account\<lparr>ba_ReservedMicros := sub64 (ba_ReservedMicros account) (rv_ReservedMicros r),
                                 ba_Version := add64 (ba_Version account) 1\<rparr>) l)))
      | ReservationDispositionReconcile \<Rightarrow>
          if rv_State r \<noteq> ReservationReconcile then
            (if rv_State r \<noteq> ReservationOpen then Inl ErrReservationConflict
             else (let r' = r\<lparr>rv_State := ReservationReconcile\<rparr> in Inr (r', put_reservation reservationKey r' l)))
          else Inr (r, l)
      | ReservationDispositionOther _ \<Rightarrow> Inr (r, l))"

text \<open>\<open>newID\<close> is the identifier \<open>newModelCallID\<close> generates in the call.\<close>

definition FinalizeModelCall ::
  "string + string \<Rightarrow> go_context \<Rightarrow> ModelCallFinalization \<Rightarrow> BudgetLedger \<Rightarrow> Reservation ledger_result" where
  "FinalizeModelCall newID ctx f l =
     (case contextError ctx of
        Some err \<Rightarrow> (Inl err, l)
      | None \<Rightarrow>
          if ModelCallFinalization_validate f \<noteq> None then (Inl ErrInvalidRequest, l)
          else (case (if mc_ID (fz_Call f) = [] then newID else Inr (mc_ID (fz_Call f))) of
                  Inl err \<Rightarrow> (Inl (SystemFailure err), l)
                | Inr callID \<Rightarrow>
                    (let call = (fz_Call f)\<lparr>mc_ID := callID\<rparr>;
                         callKey = budgetKey (mc_TenantID call) (mc_RequestID call) in
                     case map_of (bl_modelCalls l) callKey of
                       Some existing \<Rightarrow>
                         if \<not> sameModelCall existing call then (Inl ErrReservationConflict, l)
                         else (case lookupReservationLocked l (mc_TenantID call) (fz_ReservationID f) of
                                 None \<Rightarrow> (Inl ErrReservationNotFound, l)
                               | Some (reservationKey, reservation) \<Rightarrow> (Inr reservation, l))
                     | None \<Rightarrow>
                         (case lookupReservationLocked l (mc_TenantID call) (fz_ReservationID f) of
                            None \<Rightarrow> (Inl ErrReservationNotFound, l)
                          | Some (reservationKey, reservation) \<Rightarrow>
                              if rv_RequestID reservation \<noteq> mc_RequestID call then (Inl ErrReservationConflict, l)
                              else (let accountKey = budgetKey (mc_TenantID call) (rv_AccountID reservation) in
                                    case map_of (bl_accounts l) accountKey of
                                      None \<Rightarrow> (Inl ErrBudgetExceeded, l)
                                    | Some account \<Rightarrow>
                                        (case apply_disposition f reservationKey accountKey reservation account l of
                                           Inl err \<Rightarrow> (Inl err, l)
                                         | Inr (reservation', l') \<Rightarrow> (Inr reservation', put_call callKey call l')))))))"

definition find_call :: "string \<Rightarrow> string \<Rightarrow> BudgetLedger \<Rightarrow> ModelCall option" where
  "find_call tenantID requestID l = map_of (bl_modelCalls l) (budgetKey tenantID requestID)"

definition LookupModelCall :: "go_context \<Rightarrow> string \<Rightarrow> string \<Rightarrow> BudgetLedger \<Rightarrow> gateway_error + ModelCall option" where
  "LookupModelCall ctx tenantID requestID l =
     (case contextError ctx of Some err \<Rightarrow> Inl err | None \<Rightarrow> Inr (find_call tenantID requestID l))"

section \<open>Reconciliation\<close>

record ModelCallReconciliation =
  rc_TenantID :: string
  rc_RequestID :: string
  rc_ReservationID :: string
  rc_Provider :: string
  rc_Model :: string
  rc_Usage :: ModelUsage
  rc_ActualMicros :: int
  rc_ReceiptSHA256 :: string
  rc_ReconciledAt :: time

definition ModelCallReconciliation_validate :: "ModelCallReconciliation \<Rightarrow> gateway_error option" where
  "ModelCallReconciliation_validate r =
     (let u = rc_Usage r in
      if rc_TenantID r = [] \<or> rc_RequestID r = [] \<or> rc_ReservationID r = [] \<or> rc_Provider r = [] \<or> rc_Model r = []
         \<or> mu_ProviderRequestID u = [] \<or> mu_ModelVersion u = [] \<or> mu_InputTokens u < 0 \<or> mu_OutputTokens u < 0
         \<or> mu_CostMicros u < 0 \<or> negative_option (mu_CacheReadTokens u) \<or> negative_option (mu_CacheWriteTokens u)
         \<or> rc_ActualMicros r < 0 \<or> \<not> validModelDigest (rc_ReceiptSHA256 r) \<or> is_zero_time (rc_ReconciledAt r)
      then Some ErrInvalidRequest
      else if \<not> list_all short_line
               [rc_TenantID r, rc_RequestID r, rc_ReservationID r, rc_Provider r, rc_Model r,
                mu_ProviderRequestID u, mu_ModelVersion u]
      then Some ErrInvalidRequest else None)"

definition sameReconciliation :: "ModelCall \<Rightarrow> ModelCallReconciliation \<Rightarrow> bool" where
  "sameReconciliation call r \<longleftrightarrow>
     mc_Status call = ModelCallReconciled \<and> mc_InputTokens call = mu_InputTokens (rc_Usage r)
     \<and> mc_OutputTokens call = mu_OutputTokens (rc_Usage r)
     \<and> equalOptionalInt64 (mc_CacheReadTokens call) (mu_CacheReadTokens (rc_Usage r))
     \<and> equalOptionalInt64 (mc_CacheWriteTokens call) (mu_CacheWriteTokens (rc_Usage r))
     \<and> mc_CostMicros call = rc_ActualMicros r \<and> mc_ProviderRequestID call = mu_ProviderRequestID (rc_Usage r)
     \<and> mc_ActualModelVersion call = mu_ModelVersion (rc_Usage r)
     \<and> mc_ReconciliationReceiptSHA256 call = rc_ReceiptSHA256 r"

definition applyReconciliation :: "ModelCall \<Rightarrow> ModelCallReconciliation \<Rightarrow> ModelCall" where
  "applyReconciliation call r =
     call\<lparr>mc_InputTokens := mu_InputTokens (rc_Usage r), mc_OutputTokens := mu_OutputTokens (rc_Usage r),
       mc_CacheReadTokens := cloneOptionalInt64 (mu_CacheReadTokens (rc_Usage r)),
       mc_CacheWriteTokens := cloneOptionalInt64 (mu_CacheWriteTokens (rc_Usage r)),
       mc_CostMicros := rc_ActualMicros r, mc_ProviderRequestID := mu_ProviderRequestID (rc_Usage r),
       mc_ActualModelVersion := mu_ModelVersion (rc_Usage r), mc_Status := ModelCallReconciled,
       mc_ReconciliationReceiptSHA256 := rc_ReceiptSHA256 r, mc_ReconciledAt := Some (utc (rc_ReconciledAt r))\<rparr>"

definition ReconcileModelCall :: "go_context \<Rightarrow> ModelCallReconciliation \<Rightarrow> BudgetLedger \<Rightarrow> Reservation ledger_result" where
  "ReconcileModelCall ctx rc l =
     (case contextError ctx of
        Some err \<Rightarrow> (Inl err, l)
      | None \<Rightarrow>
          if ModelCallReconciliation_validate rc \<noteq> None then (Inl ErrInvalidRequest, l)
          else (let callKey = budgetKey (rc_TenantID rc) (rc_RequestID rc) in
                case map_of (bl_modelCalls l) callKey of
                  None \<Rightarrow> (Inl ErrRequestConflict, l)
                | Some call \<Rightarrow>
                    if mc_Provider call \<noteq> rc_Provider rc \<or> mc_LogicalModel call \<noteq> rc_Model rc
                    then (Inl ErrRequestConflict, l)
                    else (case lookupReservationLocked l (rc_TenantID rc) (rc_ReservationID rc) of
                            None \<Rightarrow> (Inl ErrReservationNotFound, l)
                          | Some (reservationKey, r) \<Rightarrow>
                              if rv_RequestID r \<noteq> rc_RequestID rc then (Inl ErrReservationConflict, l)
                              else if mc_Status call = ModelCallReconciled then
                                (if rv_State r \<noteq> ReservationSettled \<or> rv_SettledMicros r \<noteq> rc_ActualMicros rc
                                    \<or> \<not> sameReconciliation call rc
                                 then (Inl ErrReservationConflict, l) else (Inr r, l))
                              else if mc_Status call \<noteq> ModelCallReconcile \<or> rv_State r \<noteq> ReservationReconcile
                              then (Inl ErrReservationConflict, l)
                              else (let accountKey = budgetKey (rc_TenantID rc) (rv_AccountID r) in
                                    case map_of (bl_accounts l) accountKey of
                                      None \<Rightarrow> (Inl ErrBudgetExceeded, l)
                                    | Some account \<Rightarrow>
                                        if ba_ReservedMicros account < rv_ReservedMicros r
                                           \<or> rc_ActualMicros rc > sub64 (ba_LimitMicros account) (ba_SpentMicros account)
                                        then (Inl ErrBudgetExceeded, l)
                                        else (let r' = r\<lparr>rv_SettledMicros := rc_ActualMicros rc, rv_State := ReservationSettled\<rparr> in
                                              (Inr r',
                                               put_call callKey (applyReconciliation call rc)
                                                 (put_reservation reservationKey r'
                                                    (put_account accountKey
                                                       (close_account (rv_ReservedMicros r) (rc_ActualMicros rc) account) l))))))))"

end
