(* ===== verification/Budget_Safety.thy ===== *)
theory Budget_Safety
  imports Budget_Calls
begin

text \<open>
  What the budget ledger keeps. The operations are the moves of a small abstract machine: open
  an account, hold an amount, park a reservation, settle it, release it, change the limits of an
  account. The invariant and the finality of reservations are facts about the moves.
\<close>

section \<open>Keys\<close>

lemma budgetKey_inject [simp]:
  assumes "nul_free t" and "nul_free t'"
  shows "budgetKey t i = budgetKey t' i' \<longleftrightarrow> t = t' \<and> i = i'"
proof
  assume eq: "budgetKey t i = budgetKey t' i'"
  have split: "takeWhile (\<lambda>c. c \<noteq> CHR 0x00) (budgetKey s j) = s" if "nul_free s" for s j
    using that unfolding budgetKey_def nul_free_def by (subst takeWhile_append2) auto
  from eq split [OF assms(1)] split [OF assms(2)] have "t = t'" by metis
  with eq show "t = t' \<and> i = i'" by (simp add: budgetKey_def)
qed simp

section \<open>The abstract machine\<close>

definition account_key :: "Reservation \<Rightarrow> string" where
  "account_key r = budgetKey (rv_TenantID r) (rv_AccountID r)"

definition pending :: "Reservation \<Rightarrow> bool" where
  "pending r \<longleftrightarrow> rv_State r = ReservationOpen \<or> rv_State r = ReservationReconcile"

definition holding :: "string \<Rightarrow> Reservation \<Rightarrow> int" where
  "holding k r = (if account_key r = k \<and> pending r then rv_ReservedMicros r else 0)"

definition outstanding :: "BudgetLedger \<Rightarrow> string \<Rightarrow> int" where
  \<comment> \<open>what the pending reservations of the account at a key hold together\<close>
  "outstanding l k = gomap_sum (holding k) (bl_reservations l)"

definition account_ok :: "BudgetAccount \<Rightarrow> bool" where
  "account_ok a \<longleftrightarrow>
     0 \<le> ba_SoftLimitMicros a \<and> ba_SoftLimitMicros a \<le> ba_LimitMicros a \<and> ba_LimitMicros a < 2 ^ 62
     \<and> 0 \<le> ba_ReservedMicros a \<and> ba_ReservedMicros a < 2 ^ 62
     \<and> 0 \<le> ba_SpentMicros a \<and> ba_SpentMicros a \<le> ba_LimitMicros a"

text \<open>The accounts of an operation that touches only the accounting side of the ledger.\<close>

definition same_books :: "BudgetLedger \<Rightarrow> BudgetLedger \<Rightarrow> bool" where
  "same_books l l' \<longleftrightarrow> bl_accounts l' = bl_accounts l \<and> bl_reservations l' = bl_reservations l
     \<and> bl_reservationIDs l' = bl_reservationIDs l"

inductive ledger_move :: "BudgetLedger \<Rightarrow> BudgetLedger \<Rightarrow> bool" where
  remark: "same_books l l' \<Longrightarrow> ledger_move l l'"
| open_account: "map_of (bl_accounts l) (budgetKey (ba_TenantID a) (ba_ID a)) = None \<Longrightarrow> nul_free (ba_TenantID a) \<Longrightarrow>
    account_ok a \<Longrightarrow> same_books (put_account (budgetKey (ba_TenantID a) (ba_ID a)) a l) l' \<Longrightarrow> ledger_move l l'"
| hold: "map_of (bl_accounts l) (account_key r) = Some a \<Longrightarrow> map_of (bl_reservations l) (budgetKey (rv_TenantID r) (rv_ID r)) = None \<Longrightarrow>
    nul_free (rv_TenantID r) \<Longrightarrow> rv_State r = ReservationOpen \<Longrightarrow> 0 \<le> rv_ReservedMicros r \<Longrightarrow>
    rv_ReservedMicros r \<le> ba_LimitMicros a - ba_ReservedMicros a - ba_SpentMicros a \<Longrightarrow>
    map_of (bl_reservations l) (budgetKey (rv_TenantID r) i) = None \<Longrightarrow>
    map_of (bl_reservationIDs l) (budgetKey (rv_TenantID r) i) = None \<Longrightarrow>
    map_of (bl_reservationIDs l) (budgetKey (rv_TenantID r) (rv_ID r)) = None \<Longrightarrow>
    same_books ((put_reservation (budgetKey (rv_TenantID r) (rv_ID r)) r
       (put_account (account_key r) (a\<lparr>ba_ReservedMicros := ba_ReservedMicros a + rv_ReservedMicros r,
          ba_Version := add64 (ba_Version a) 1\<rparr>) l))
       \<lparr>bl_reservationIDs := gomap_put (budgetKey (rv_TenantID r) i) (rv_ID r) (bl_reservationIDs l)\<rparr>) l' \<Longrightarrow>
    ledger_move l l'"
| park: "map_of (bl_reservations l) k = Some r \<Longrightarrow> rv_State r = ReservationOpen \<Longrightarrow>
    same_books (put_reservation k (r\<lparr>rv_State := ReservationReconcile\<rparr>) l) l' \<Longrightarrow> ledger_move l l'"
| settle: "map_of (bl_reservations l) k = Some r \<Longrightarrow> pending r \<Longrightarrow> map_of (bl_accounts l) (account_key r) = Some a \<Longrightarrow>
    0 \<le> actual \<Longrightarrow> actual \<le> ba_LimitMicros a - ba_SpentMicros a \<Longrightarrow>
    same_books (put_reservation k (r\<lparr>rv_SettledMicros := actual, rv_State := ReservationSettled\<rparr>)
       (put_account (account_key r) (a\<lparr>ba_ReservedMicros := ba_ReservedMicros a - rv_ReservedMicros r,
          ba_SpentMicros := ba_SpentMicros a + actual, ba_Version := add64 (ba_Version a) 1\<rparr>) l)) l' \<Longrightarrow> ledger_move l l'"
| release: "map_of (bl_reservations l) k = Some r \<Longrightarrow> pending r \<Longrightarrow> map_of (bl_accounts l) (account_key r) = Some a \<Longrightarrow>
    same_books (put_reservation k (r\<lparr>rv_State := ReservationReleased\<rparr>)
       (put_account (account_key r) (a\<lparr>ba_ReservedMicros := ba_ReservedMicros a - rv_ReservedMicros r,
          ba_Version := add64 (ba_Version a) 1\<rparr>) l)) l' \<Longrightarrow> ledger_move l l'"
| limits: "map_of (bl_accounts l) k = Some a \<Longrightarrow> 0 \<le> soft \<Longrightarrow> soft \<le> hard \<Longrightarrow> hard < 2 ^ 62 \<Longrightarrow>
    ba_SpentMicros a + ba_ReservedMicros a \<le> hard \<Longrightarrow>
    same_books (put_account k (a\<lparr>ba_LimitMicros := hard, ba_SoftLimitMicros := soft, ba_Version := add64 (ba_Version a) 1\<rparr>) l) l' \<Longrightarrow>
    ledger_move l l'"

section \<open>The invariant\<close>

lemma gomap_has_put [simp]: "gomap_has (gomap_put k v m) k' \<longleftrightarrow> k' = k \<or> gomap_has m k'"
  by (simp add: gomap_has_def amap.look_store)

lemma gomap_has_Some: "map_of m k = Some v \<Longrightarrow> gomap_has m k"
  by (simp add: gomap_has_def)

definition accounts_inv :: "BudgetLedger \<Rightarrow> bool" where
  "accounts_inv l \<longleftrightarrow>
     (\<forall>k a. map_of (bl_accounts l) k = Some a \<longrightarrow>
        k = budgetKey (ba_TenantID a) (ba_ID a) \<and> nul_free (ba_TenantID a) \<and> account_ok a
        \<and> outstanding l k \<le> ba_ReservedMicros a)"

definition reservations_inv :: "BudgetLedger \<Rightarrow> bool" where
  "reservations_inv l \<longleftrightarrow>
     (\<forall>k r. map_of (bl_reservations l) k = Some r \<longrightarrow>
        k = budgetKey (rv_TenantID r) (rv_ID r) \<and> nul_free (rv_TenantID r) \<and> 0 \<le> rv_ReservedMicros r
        \<and> gomap_has (bl_accounts l) (account_key r))"

definition ids_inv :: "BudgetLedger \<Rightarrow> bool" where
  "ids_inv l \<longleftrightarrow>
     (\<forall>k g. map_of (bl_reservationIDs l) k = Some g \<longrightarrow>
        (\<exists>t i. k = budgetKey t i \<and> nul_free t \<and> gomap_has (bl_reservations l) (budgetKey t g)))"

definition ledger_inv :: "BudgetLedger \<Rightarrow> bool" where
  "ledger_inv l \<longleftrightarrow> gomap_ok (bl_accounts l) \<and> gomap_ok (bl_reservations l)
     \<and> accounts_inv l \<and> reservations_inv l \<and> ids_inv l"

lemma same_books_inv: "same_books l l' \<Longrightarrow> ledger_inv l' = ledger_inv l"
  by (simp add: same_books_def ledger_inv_def accounts_inv_def reservations_inv_def ids_inv_def outstanding_def)

lemma same_books_refl [simp]: "same_books l l"
  by (simp add: same_books_def)

lemma same_books_outstanding: "same_books l l' \<Longrightarrow> outstanding l' k = outstanding l k"
  by (simp add: same_books_def outstanding_def)

lemma ledger_books [simp]:
  "bl_accounts (put_account k a l) = gomap_put k a (bl_accounts l)"
  "bl_accounts (put_reservation k r l) = bl_accounts l"
  "bl_reservations (put_account k a l) = bl_reservations l"
  "bl_reservations (put_reservation k r l) = gomap_put k r (bl_reservations l)"
  "bl_reservationIDs (put_account k a l) = bl_reservationIDs l"
  "bl_reservationIDs (put_reservation k r l) = bl_reservationIDs l"
  "bl_adjustments (put_account k a l) = bl_adjustments l"
  "bl_adjustments (put_reservation k r l) = bl_adjustments l"
  "bl_modelCalls (put_account k a l) = bl_modelCalls l"
  "bl_modelCalls (put_reservation k r l) = bl_modelCalls l"
  by (simp_all add: put_account_def put_reservation_def)

lemma outstanding_account [simp]: "outstanding (put_account k a l) k' = outstanding l k'"
  by (simp add: outstanding_def)

lemma outstanding_ids [simp]: "outstanding (l\<lparr>bl_reservationIDs := m\<rparr>) k = outstanding l k"
  by (simp add: outstanding_def)

lemma outstanding_put_fresh:
  "map_of (bl_reservations l) k = None \<Longrightarrow>
     outstanding (put_reservation k r l) k' = outstanding l k' + holding k' r"
  by (simp add: outstanding_def gomap_sum_put_fresh)

lemma outstanding_put_old:
  "map_of (bl_reservations l) k = Some r0 \<Longrightarrow>
     outstanding (put_reservation k r l) k' = outstanding l k' - holding k' r0 + holding k' r"
  by (simp add: outstanding_def gomap_sum_put_old)

lemma ledger_inv_account:
  "ledger_inv l \<Longrightarrow> map_of (bl_accounts l) k = Some a \<Longrightarrow>
     k = budgetKey (ba_TenantID a) (ba_ID a) \<and> nul_free (ba_TenantID a) \<and> account_ok a
     \<and> outstanding l k \<le> ba_ReservedMicros a"
  by (simp add: ledger_inv_def accounts_inv_def)

lemma ledger_inv_reservation:
  "ledger_inv l \<Longrightarrow> map_of (bl_reservations l) k = Some r \<Longrightarrow>
     k = budgetKey (rv_TenantID r) (rv_ID r) \<and> nul_free (rv_TenantID r) \<and> 0 \<le> rv_ReservedMicros r
     \<and> gomap_has (bl_accounts l) (account_key r)"
  by (simp add: ledger_inv_def reservations_inv_def)

lemma holding_nonneg: "0 \<le> rv_ReservedMicros r \<Longrightarrow> 0 \<le> holding k r"
  by (simp add: holding_def)

lemma outstanding_nonneg: "ledger_inv l \<Longrightarrow> 0 \<le> outstanding l k"
  unfolding outstanding_def
  by (rule gomap_sum_nonneg) (auto dest!: gomap_okD intro!: holding_nonneg
      simp: ledger_inv_def reservations_inv_def)

lemma pending_le_reserved:
  assumes "ledger_inv l" and "map_of (bl_reservations l) k = Some r" and "pending r"
    and "map_of (bl_accounts l) (account_key r) = Some a"
  shows "rv_ReservedMicros r \<le> ba_ReservedMicros a"
proof -
  have "holding (account_key r) r \<le> outstanding l (account_key r)"
    unfolding outstanding_def
  proof (rule gomap_sum_ge [OF assms(2)])
    fix k' r' assume "(k', r') \<in> set (bl_reservations l)"
    then show "0 \<le> holding (account_key r) r'"
      using assms(1) by (auto dest!: gomap_okD intro!: holding_nonneg simp: ledger_inv_def reservations_inv_def)
  qed
  moreover have "outstanding l (account_key r) \<le> ba_ReservedMicros a" using ledger_inv_account [OF assms(1,4)] by blast
  ultimately show ?thesis using assms(3) by (simp add: holding_def)
qed

section \<open>Moves keep the invariant\<close>

lemma same_id_account:
  assumes "ledger_inv l" and "map_of (bl_accounts l) k = Some a"
  shows "k = budgetKey (ba_TenantID a) (ba_ID a)" "nul_free (ba_TenantID a)" "account_ok a"
    "outstanding l k \<le> ba_ReservedMicros a"
  using ledger_inv_account [OF assms] by blast+

lemma accounts_inv_put:
  assumes "ledger_inv l" and "map_of (bl_accounts l) k = Some a"
    and "ba_TenantID b = ba_TenantID a" and "ba_ID b = ba_ID a" and "account_ok b"
    and "outstanding l' k \<le> ba_ReservedMicros b"
    and "\<And>k'. k' \<noteq> k \<Longrightarrow> outstanding l' k' = outstanding l k'"
    and "bl_accounts l' = gomap_put k b (bl_accounts l)"
  shows "accounts_inv l'"
  unfolding accounts_inv_def
proof (intro allI impI)
  fix k' c assume c: "map_of (bl_accounts l') k' = Some c"
  show "k' = budgetKey (ba_TenantID c) (ba_ID c) \<and> nul_free (ba_TenantID c) \<and> account_ok c
      \<and> outstanding l' k' \<le> ba_ReservedMicros c"
  proof (cases "k' = k")
    case True
    then have "c = b" using c by (simp add: assms(8))
    with True show ?thesis using same_id_account [OF assms(1,2)] assms(3-6) by metis
  next
    case False
    then have "map_of (bl_accounts l) k' = Some c" using c by (simp add: assms(8) amap.look_store)
    from ledger_inv_account [OF assms(1) this] assms(7) [OF False] show ?thesis by metis
  qed
qed

lemma reservations_inv_put_account:
  "reservations_inv l \<Longrightarrow> reservations_inv (put_account k a l)"
  by (auto simp: reservations_inv_def)

lemma reservations_inv_put:
  assumes "reservations_inv l" and "k = budgetKey (rv_TenantID r) (rv_ID r)" and "nul_free (rv_TenantID r)"
    and "0 \<le> rv_ReservedMicros r" and "gomap_has (bl_accounts l') (account_key r)"
    and "bl_reservations l' = gomap_put k r (bl_reservations l)"
    and "\<And>k'. gomap_has (bl_accounts l) k' \<Longrightarrow> gomap_has (bl_accounts l') k'"
  shows "reservations_inv l'"
  using assms unfolding reservations_inv_def by (auto simp: amap.look_store split: if_splits)

lemma ids_inv_more:
  assumes "ids_inv l" and "bl_reservationIDs l' = bl_reservationIDs l"
    and "\<And>k. gomap_has (bl_reservations l) k \<Longrightarrow> gomap_has (bl_reservations l') k"
  shows "ids_inv l'"
  using assms unfolding ids_inv_def by metis

lemma ids_inv_put_account: "ids_inv l \<Longrightarrow> ids_inv (put_account k a l)"
  by (simp add: ids_inv_def)

lemma ids_inv_put_reservation: "ids_inv l \<Longrightarrow> ids_inv (put_reservation k r l)"
  by (rule ids_inv_more [of l]) simp_all

lemma ledger_inv_parts:
  assumes "ledger_inv l"
  shows "gomap_ok (bl_accounts l)" "gomap_ok (bl_reservations l)" "accounts_inv l" "reservations_inv l" "ids_inv l"
  using assms by (simp_all add: ledger_inv_def)

lemma holding_state [simp]:
  "holding k (r\<lparr>rv_State := ReservationReconcile\<rparr>) = (if account_key r = k then rv_ReservedMicros r else 0)"
  "holding k (r\<lparr>rv_SettledMicros := x, rv_State := ReservationSettled\<rparr>) = 0"
  "holding k (r\<lparr>rv_State := ReservationReleased\<rparr>) = 0"
  by (simp_all add: holding_def pending_def account_key_def)

lemma account_key_upd [simp]:
  "account_key (r\<lparr>rv_State := s\<rparr>) = account_key r"
  "account_key (r\<lparr>rv_SettledMicros := x\<rparr>) = account_key r"
  "account_key (r\<lparr>rv_SettledMicros := x, rv_State := s\<rparr>) = account_key r"
  by (simp_all add: account_key_def)

lemma gomap_sum_zero: "\<forall>p \<in> set m. f (snd p) = 0 \<Longrightarrow> gomap_sum f m = 0"
  unfolding gomap_sum_def by (induction m) auto

lemma no_account_no_outstanding:
  assumes "ledger_inv l" and "map_of (bl_accounts l) k = None"
  shows "outstanding l k = 0"
proof -
  have "holding k r = 0" if "(k', r) \<in> set (bl_reservations l)" for k' r
  proof -
    have "map_of (bl_reservations l) k' = Some r"
      using assms(1) that by (auto simp: ledger_inv_def intro: gomap_okD)
    from ledger_inv_reservation [OF assms(1) this] assms(2) show ?thesis by (auto simp: holding_def gomap_has_def)
  qed
  then show ?thesis unfolding outstanding_def by (intro gomap_sum_zero) force
qed

lemma inv_open_account:
  assumes inv: "ledger_inv l" and new: "map_of (bl_accounts l) (budgetKey (ba_TenantID a) (ba_ID a)) = None"
    and ok: "nul_free (ba_TenantID a)" "account_ok a"
  shows "ledger_inv (put_account (budgetKey (ba_TenantID a) (ba_ID a)) a l)"
proof -
  have "outstanding l (budgetKey (ba_TenantID a) (ba_ID a)) = 0" by (rule no_account_no_outstanding [OF inv new])
  then have "accounts_inv (put_account (budgetKey (ba_TenantID a) (ba_ID a)) a l)"
    using ledger_inv_parts(3) [OF inv] ok by (auto simp: accounts_inv_def amap.look_store account_ok_def)
  then show ?thesis
    using ledger_inv_parts [OF inv] by (simp add: ledger_inv_def reservations_inv_put_account ids_inv_put_account)
qed

text \<open>A move that changes one account and one reservation of it.\<close>

lemma inv_change:
  assumes inv: "ledger_inv l" and a: "map_of (bl_accounts l) (account_key r) = Some a"
    and b: "ba_TenantID b = ba_TenantID a" "ba_ID b = ba_ID a" "account_ok b"
    and r: "nul_free (rv_TenantID r)" "0 \<le> rv_ReservedMicros r" "k = budgetKey (rv_TenantID r) (rv_ID r)"
    and sum: "outstanding (put_reservation k r l) (account_key r) \<le> ba_ReservedMicros b"
    and others: "\<And>k'. k' \<noteq> account_key r \<Longrightarrow> outstanding (put_reservation k r l) k' = outstanding l k'"
    and ids: "ids_inv (put_reservation k r l\<lparr>bl_reservationIDs := m\<rparr>)"
  shows "ledger_inv ((put_reservation k r (put_account (account_key r) b l))\<lparr>bl_reservationIDs := m\<rparr>)"
proof -
  let ?l = "(put_reservation k r (put_account (account_key r) b l))\<lparr>bl_reservationIDs := m\<rparr>"
  have out: "outstanding ?l k' = outstanding (put_reservation k r l) k'" for k'
    by (simp add: outstanding_def)
  have "accounts_inv ?l"
  proof (rule accounts_inv_put [OF inv a b])
    show "outstanding ?l (account_key r) \<le> ba_ReservedMicros b" unfolding out by (rule sum)
    show "outstanding ?l k' = outstanding l k'" if "k' \<noteq> account_key r" for k' unfolding out by (rule others [OF that])
  qed simp
  moreover have "reservations_inv ?l"
    by (rule reservations_inv_put [OF ledger_inv_parts(4) [OF inv] r(3,1,2)]) simp_all
  moreover have "ids_inv ?l" using ids by (simp add: ids_inv_def)
  ultimately show ?thesis using ledger_inv_parts(1,2) [OF inv] by (simp add: ledger_inv_def)
qed

lemma inv_hold:
  assumes inv: "ledger_inv l" and a: "map_of (bl_accounts l) (account_key r) = Some a"
    and new: "map_of (bl_reservations l) (budgetKey (rv_TenantID r) (rv_ID r)) = None"
    and r: "nul_free (rv_TenantID r)" "rv_State r = ReservationOpen" "0 \<le> rv_ReservedMicros r"
      "rv_ReservedMicros r \<le> ba_LimitMicros a - ba_ReservedMicros a - ba_SpentMicros a"
  shows "ledger_inv ((put_reservation (budgetKey (rv_TenantID r) (rv_ID r)) r
       (put_account (account_key r) (a\<lparr>ba_ReservedMicros := ba_ReservedMicros a + rv_ReservedMicros r,
          ba_Version := v\<rparr>) l))
       \<lparr>bl_reservationIDs := gomap_put (budgetKey (rv_TenantID r) i) (rv_ID r) (bl_reservationIDs l)\<rparr>)"
proof (rule inv_change [OF inv a])
  have ok: "account_ok a" "outstanding l (account_key r) \<le> ba_ReservedMicros a"
    using same_id_account(3,4) [OF inv a] by blast+
  show "account_ok (a\<lparr>ba_ReservedMicros := ba_ReservedMicros a + rv_ReservedMicros r, ba_Version := v\<rparr>)"
    using ok(1) r(3,4) by (simp add: account_ok_def)
  show "outstanding (put_reservation (budgetKey (rv_TenantID r) (rv_ID r)) r l) (account_key r)
      \<le> ba_ReservedMicros (a\<lparr>ba_ReservedMicros := ba_ReservedMicros a + rv_ReservedMicros r, ba_Version := v\<rparr>)"
    using ok(2) r(2) by (simp add: outstanding_put_fresh [OF new] holding_def pending_def)
  show "outstanding (put_reservation (budgetKey (rv_TenantID r) (rv_ID r)) r l) k' = outstanding l k'"
    if "k' \<noteq> account_key r" for k'
    using that by (simp add: outstanding_put_fresh [OF new] holding_def)
  show "ids_inv (put_reservation (budgetKey (rv_TenantID r) (rv_ID r)) r l
      \<lparr>bl_reservationIDs := gomap_put (budgetKey (rv_TenantID r) i) (rv_ID r) (bl_reservationIDs l)\<rparr>)"
    unfolding ids_inv_def
  proof (intro allI impI)
    fix k g
    assume "map_of (bl_reservationIDs (put_reservation (budgetKey (rv_TenantID r) (rv_ID r)) r l
      \<lparr>bl_reservationIDs := gomap_put (budgetKey (rv_TenantID r) i) (rv_ID r) (bl_reservationIDs l)\<rparr>)) k = Some g"
    then have "k = budgetKey (rv_TenantID r) i \<and> g = rv_ID r \<or> map_of (bl_reservationIDs l) k = Some g"
      by (cases "k = budgetKey (rv_TenantID r) i") (simp_all add: amap.look_store)
    then consider "k = budgetKey (rv_TenantID r) i" "g = rv_ID r" | "map_of (bl_reservationIDs l) k = Some g"
      by blast
    then show "\<exists>t j. k = budgetKey t j \<and> nul_free t \<and> gomap_has (bl_reservations
        (put_reservation (budgetKey (rv_TenantID r) (rv_ID r)) r l
          \<lparr>bl_reservationIDs := gomap_put (budgetKey (rv_TenantID r) i) (rv_ID r) (bl_reservationIDs l)\<rparr>)) (budgetKey t g)"
    proof cases
      case 1
      then show ?thesis using r(1) by auto
    next
      case 2
      then obtain t j where "k = budgetKey t j" "nul_free t" "gomap_has (bl_reservations l) (budgetKey t g)"
        using ledger_inv_parts(5) [OF inv] unfolding ids_inv_def by blast
      then show ?thesis by auto
    qed
  qed
qed (use r in simp_all)

text \<open>A reservation leaves the pending ones and gives its amount back.\<close>

lemma inv_close:
  assumes inv: "ledger_inv l" and r: "map_of (bl_reservations l) k = Some r" "pending r"
    and a: "map_of (bl_accounts l) (account_key r) = Some a"
    and b: "ba_TenantID b = ba_TenantID a" "ba_ID b = ba_ID a" "account_ok b"
      "ba_ReservedMicros b = ba_ReservedMicros a - rv_ReservedMicros r"
    and r': "rv_TenantID r' = rv_TenantID r" "rv_ID r' = rv_ID r" "rv_AccountID r' = rv_AccountID r"
      "rv_ReservedMicros r' = rv_ReservedMicros r" "\<not> pending r'"
  shows "ledger_inv (put_reservation k r' (put_account (account_key r) b l))"
proof -
  note k = ledger_inv_reservation [OF inv r(1)]
  have key: "account_key r' = account_key r" using r' by (simp add: account_key_def)
  have gone: "holding k' r' = 0" for k' using r'(5) by (simp add: holding_def)
  have put: "outstanding (put_reservation k r' l) k' = outstanding l k' - holding k' r" for k'
    by (simp add: outstanding_put_old [OF r(1)] gone)
  have "ledger_inv ((put_reservation k r' (put_account (account_key r') b l))\<lparr>bl_reservationIDs := bl_reservationIDs l\<rparr>)"
  proof (rule inv_change [OF inv _ b(1-3)])
    show "map_of (bl_accounts l) (account_key r') = Some a" using a by (simp add: key)
    show "nul_free (rv_TenantID r')" "0 \<le> rv_ReservedMicros r'" "k = budgetKey (rv_TenantID r') (rv_ID r')"
      unfolding r'(1,2,4) using k by blast+
    show "outstanding (put_reservation k r' l) (account_key r') \<le> ba_ReservedMicros b"
      using same_id_account(4) [OF inv a] r(2) by (simp add: key put holding_def b(4))
    show "outstanding (put_reservation k r' l) k' = outstanding l k'" if "k' \<noteq> account_key r'" for k'
      using that by (simp add: put key holding_def)
    show "ids_inv (put_reservation k r' l\<lparr>bl_reservationIDs := bl_reservationIDs l\<rparr>)"
      using ids_inv_put_reservation [OF ledger_inv_parts(5) [OF inv]] by (simp add: ids_inv_def)
  qed
  then show ?thesis by (simp add: key put_reservation_def put_account_def)
qed

lemma inv_park:
  assumes inv: "ledger_inv l" and r: "map_of (bl_reservations l) k = Some r" "rv_State r = ReservationOpen"
  shows "ledger_inv (put_reservation k (r\<lparr>rv_State := ReservationReconcile\<rparr>) l)"
proof -
  let ?r = "r\<lparr>rv_State := ReservationReconcile\<rparr>"
  have "outstanding (put_reservation k ?r l) k' = outstanding l k'" for k'
    using r(2) by (simp add: outstanding_put_old [OF r(1)] holding_def pending_def)
  then have "accounts_inv (put_reservation k ?r l)"
    using ledger_inv_parts(3) [OF inv] by (simp add: accounts_inv_def)
  moreover have "reservations_inv (put_reservation k ?r l)"
  proof (rule reservations_inv_put [OF ledger_inv_parts(4) [OF inv]])
    from ledger_inv_reservation [OF inv r(1)]
    show "k = budgetKey (rv_TenantID ?r) (rv_ID ?r)" "nul_free (rv_TenantID ?r)" "0 \<le> rv_ReservedMicros ?r"
      "gomap_has (bl_accounts (put_reservation k ?r l)) (account_key ?r)" by simp_all
  qed simp_all
  ultimately show ?thesis
    using ledger_inv_parts [OF inv] by (simp add: ledger_inv_def ids_inv_put_reservation)
qed

lemma inv_limits:
  assumes inv: "ledger_inv l" and a: "map_of (bl_accounts l) k = Some a"
    and b: "ba_TenantID b = ba_TenantID a" "ba_ID b = ba_ID a" "account_ok b" "ba_ReservedMicros b = ba_ReservedMicros a"
  shows "ledger_inv (put_account k b l)"
proof -
  have "accounts_inv (put_account k b l)"
    by (rule accounts_inv_put [OF inv a b(1-3)]) (use same_id_account(4) [OF inv a] b(4) in simp_all)
  then show ?thesis
    using ledger_inv_parts [OF inv] by (simp add: ledger_inv_def reservations_inv_put_account ids_inv_put_account)
qed

lemma ledger_move_inv:
  assumes "ledger_move l l'" and inv: "ledger_inv l"
  shows "ledger_inv l'"
  using assms(1)
proof cases
  case remark
  then show ?thesis using inv same_books_inv by simp
next
  case (open_account a)
  then show ?thesis using inv_open_account [OF inv] same_books_inv by metis
next
  case (hold r a i)
  then show ?thesis using inv_hold [OF inv] same_books_inv by metis
next
  case (park k r)
  then show ?thesis using inv_park [OF inv] same_books_inv by metis
next
  case (settle k r a actual)
  have "ledger_inv (put_reservation k (r\<lparr>rv_SettledMicros := actual, rv_State := ReservationSettled\<rparr>)
       (put_account (account_key r) (a\<lparr>ba_ReservedMicros := ba_ReservedMicros a - rv_ReservedMicros r,
          ba_SpentMicros := ba_SpentMicros a + actual, ba_Version := add64 (ba_Version a) 1\<rparr>) l))"
    using settle same_id_account(3) [OF inv settle(3)] pending_le_reserved [OF inv settle(1-3)]
      ledger_inv_reservation [OF inv settle(1)]
    by (intro inv_close [OF inv settle(1-3)]) (auto simp: account_ok_def pending_def)
  then show ?thesis using settle same_books_inv by metis
next
  case (release k r a)
  have "ledger_inv (put_reservation k (r\<lparr>rv_State := ReservationReleased\<rparr>)
       (put_account (account_key r) (a\<lparr>ba_ReservedMicros := ba_ReservedMicros a - rv_ReservedMicros r,
          ba_Version := add64 (ba_Version a) 1\<rparr>) l))"
    using release same_id_account(3) [OF inv release(3)] pending_le_reserved [OF inv release(1-3)]
      ledger_inv_reservation [OF inv release(1)]
    by (intro inv_close [OF inv release(1-3)]) (auto simp: account_ok_def pending_def)
  then show ?thesis using release same_books_inv by metis
next
  case (limits k a soft hard)
  have "ledger_inv (put_account k (a\<lparr>ba_LimitMicros := hard, ba_SoftLimitMicros := soft, ba_Version := add64 (ba_Version a) 1\<rparr>) l)"
    using limits same_id_account(3) [OF inv limits(1)]
    by (intro inv_limits [OF inv limits(1)]) (auto simp: account_ok_def)
  then show ?thesis using limits same_books_inv by metis
qed

section \<open>Operations are moves\<close>

datatype ledger_op =
    OpCreate time go_context BudgetAccount
  | OpReserve "nat \<Rightarrow> time" "string + string" go_context string string string string int bool
  | OpSettle go_context string string int
  | OpRelease go_context string string
  | OpReconcile go_context string string int
  | OpRequire go_context string string
  | OpExpire time go_context string int
  | OpAdjust time "string + TraceContext" go_context BudgetAdjustment
  | OpFinalize "string + string" go_context ModelCallFinalization
  | OpReconcileCall go_context ModelCallReconciliation

fun ledger_after :: "ledger_op \<Rightarrow> BudgetLedger \<Rightarrow> BudgetLedger" where
  "ledger_after (OpCreate now ctx a) l = snd (CreateAccount now ctx a l)"
| "ledger_after (OpReserve clock newID ctx t acc rid req amount claim) l =
     snd (reserve clock newID ctx t acc rid req amount claim l)"
| "ledger_after (OpSettle ctx t rid actual) l = snd (Settle ctx t rid actual l)"
| "ledger_after (OpRelease ctx t rid) l = snd (Release ctx t rid l)"
| "ledger_after (OpReconcile ctx t rid actual) l = snd (Reconcile ctx t rid actual l)"
| "ledger_after (OpRequire ctx t rid) l = snd (RequireReconciliation ctx t rid l)"
| "ledger_after (OpExpire now ctx t limit) l = snd (ExpireReservations now ctx t limit l)"
| "ledger_after (OpAdjust now trace ctx adj) l = snd (Adjust now trace ctx adj l)"
| "ledger_after (OpFinalize newID ctx f) l = snd (FinalizeModelCall newID ctx f l)"
| "ledger_after (OpReconcileCall ctx rc) l = snd (ReconcileModelCall ctx rc l)"

definition ledger_run :: "ledger_op list \<Rightarrow> BudgetLedger \<Rightarrow> BudgetLedger" where
  "ledger_run ops l = foldl (\<lambda>m p. ledger_after p m) l ops"

text \<open>
  What is asked of an operation: tenants without NUL bytes, limits below 2 to the 62, and
  generated identifiers that are not in use, which is what a UUID is for.
\<close>

definition unused_id :: "BudgetLedger \<Rightarrow> string \<Rightarrow> string + string \<Rightarrow> bool" where
  "unused_id l t newID =
     (case newID of Inl _ \<Rightarrow> True
      | Inr g \<Rightarrow> \<not> gomap_has (bl_reservations l) (budgetKey t g) \<and> \<not> gomap_has (bl_reservationIDs l) (budgetKey t g))"

fun op_ok :: "BudgetLedger \<Rightarrow> ledger_op \<Rightarrow> bool" where
  "op_ok l (OpCreate now ctx a) \<longleftrightarrow>
     nul_free (ba_TenantID a) \<and> ba_LimitMicros a < 2 ^ 62 \<and> int64 (ba_SpentMicros a)"
| "op_ok l (OpReserve clock newID ctx t acc rid req amount claim) \<longleftrightarrow> nul_free t \<and> unused_id l t newID"
| "op_ok l (OpSettle ctx t rid actual) \<longleftrightarrow> nul_free t"
| "op_ok l (OpRelease ctx t rid) \<longleftrightarrow> nul_free t"
| "op_ok l (OpReconcile ctx t rid actual) \<longleftrightarrow> nul_free t"
| "op_ok l (OpRequire ctx t rid) \<longleftrightarrow> nul_free t"
| "op_ok l (OpExpire now ctx t limit) \<longleftrightarrow> nul_free t"
| "op_ok l (OpAdjust now trace ctx adj) \<longleftrightarrow> nul_free (aj_TenantID adj) \<and> aj_HardLimitMicros adj < 2 ^ 62"
| "op_ok l (OpFinalize newID ctx f) \<longleftrightarrow> nul_free (mc_TenantID (fz_Call f))"
| "op_ok l (OpReconcileCall ctx rc) \<longleftrightarrow> nul_free (rc_TenantID rc)"

fun run_ok :: "ledger_op list \<Rightarrow> BudgetLedger \<Rightarrow> bool" where
  "run_ok [] l = True"
| "run_ok (p # ps) l \<longleftrightarrow> op_ok l p \<and> run_ok ps (ledger_after p l)"

lemma lookup_Some:
  assumes "ledger_inv l" and "nul_free t" and "lookupReservationLocked l t i = Some (k, r)"
  shows "map_of (bl_reservations l) k = Some r" "rv_TenantID r = t"
    "\<exists>a. map_of (bl_accounts l) (budgetKey t (rv_AccountID r)) = Some a \<and> account_key r = budgetKey t (rv_AccountID r)"
proof -
  from assms(3) obtain j where r: "map_of (bl_reservations l) k = Some r" and k: "k = budgetKey t j"
    by (auto simp: lookupReservationLocked_def Let_def split: option.splits)
  from ledger_inv_reservation [OF assms(1) r] k assms(2) have t: "rv_TenantID r = t" by auto
  show "map_of (bl_reservations l) k = Some r" by (rule r)
  show "rv_TenantID r = t" by (rule t)
  show "\<exists>a. map_of (bl_accounts l) (budgetKey t (rv_AccountID r)) = Some a \<and> account_key r = budgetKey t (rv_AccountID r)"
    using ledger_inv_reservation [OF assms(1) r] t by (auto simp: account_key_def gomap_has_def)
qed

lemma lookup_None:
  assumes "ledger_inv l" and "nul_free t" and "lookupReservationLocked l t i = None"
  shows "map_of (bl_reservations l) (budgetKey t i) = None" "map_of (bl_reservationIDs l) (budgetKey t i) = None"
proof -
  show res: "map_of (bl_reservations l) (budgetKey t i) = None"
    using assms(3) by (auto simp: lookupReservationLocked_def Let_def split: option.splits)
  show "map_of (bl_reservationIDs l) (budgetKey t i) = None"
  proof (rule ccontr)
    assume "map_of (bl_reservationIDs l) (budgetKey t i) \<noteq> None"
    then obtain g where g: "map_of (bl_reservationIDs l) (budgetKey t i) = Some g" by auto
    then obtain t' j where "budgetKey t i = budgetKey t' j" "nul_free t'" "gomap_has (bl_reservations l) (budgetKey t' g)"
      using ledger_inv_parts(5) [OF assms(1)] unfolding ids_inv_def by blast
    with assms(2) have "gomap_has (bl_reservations l) (budgetKey t g)" by simp
    with assms(3) res g show False by (auto simp: lookupReservationLocked_def Let_def gomap_has_def)
  qed
qed

lemma account_arith:
  assumes "account_ok a"
  shows "sub64 (ba_LimitMicros a) (ba_SpentMicros a) = ba_LimitMicros a - ba_SpentMicros a"
    "sub64 (sub64 (ba_LimitMicros a) (ba_ReservedMicros a)) (ba_SpentMicros a)
       = ba_LimitMicros a - ba_ReservedMicros a - ba_SpentMicros a"
    "0 \<le> x \<Longrightarrow> x \<le> ba_ReservedMicros a \<Longrightarrow> sub64 (ba_ReservedMicros a) x = ba_ReservedMicros a - x"
    "0 \<le> x \<Longrightarrow> x \<le> ba_LimitMicros a - ba_SpentMicros a \<Longrightarrow> add64 (ba_SpentMicros a) x = ba_SpentMicros a + x"
    "0 \<le> x \<Longrightarrow> x \<le> ba_LimitMicros a - ba_ReservedMicros a - ba_SpentMicros a \<Longrightarrow>
       add64 (ba_ReservedMicros a) x = ba_ReservedMicros a + x"
    "add64 (ba_SpentMicros a) (ba_ReservedMicros a) = ba_SpentMicros a + ba_ReservedMicros a"
proof -
  have b: "0 \<le> ba_LimitMicros a" "ba_LimitMicros a < 2 ^ 62" "0 \<le> ba_ReservedMicros a" "ba_ReservedMicros a < 2 ^ 62"
    "0 \<le> ba_SpentMicros a" "ba_SpentMicros a \<le> ba_LimitMicros a" using assms by (simp_all add: account_ok_def)
  have lim: "int64 (ba_LimitMicros a - ba_ReservedMicros a)" "int64 (ba_LimitMicros a - ba_ReservedMicros a - ba_SpentMicros a)"
    "int64 (ba_LimitMicros a - ba_SpentMicros a)" using b by (simp_all add: int64_def)
  show "sub64 (ba_LimitMicros a) (ba_SpentMicros a) = ba_LimitMicros a - ba_SpentMicros a"
    using lim by (simp add: sub64_id)
  show "sub64 (sub64 (ba_LimitMicros a) (ba_ReservedMicros a)) (ba_SpentMicros a)
       = ba_LimitMicros a - ba_ReservedMicros a - ba_SpentMicros a"
    using lim by (simp add: sub64_id)
  show "sub64 (ba_ReservedMicros a) x = ba_ReservedMicros a - x" if "0 \<le> x" "x \<le> ba_ReservedMicros a"
    using that b by (intro sub64_id) (simp add: int64_def)
  show "add64 (ba_SpentMicros a) x = ba_SpentMicros a + x" if "0 \<le> x" "x \<le> ba_LimitMicros a - ba_SpentMicros a"
    using that b by (intro add64_id) (simp add: int64_def)
  show "add64 (ba_ReservedMicros a) x = ba_ReservedMicros a + x"
    if "0 \<le> x" "x \<le> ba_LimitMicros a - ba_ReservedMicros a - ba_SpentMicros a"
    using that b by (intro add64_id) (simp add: int64_def)
  show "add64 (ba_SpentMicros a) (ba_ReservedMicros a) = ba_SpentMicros a + ba_ReservedMicros a"
    using b by (intro add64_id) (simp add: int64_def)
qed

text \<open>Settling and releasing, as the code writes them.\<close>

lemma move_settle:
  assumes inv: "ledger_inv l" and r: "map_of (bl_reservations l) k = Some r" "pending r"
    and a: "map_of (bl_accounts l) (account_key r) = Some a"
    and actual: "0 \<le> actual" "actual \<le> sub64 (ba_LimitMicros a) (ba_SpentMicros a)"
    and same: "same_books (put_reservation k (r\<lparr>rv_SettledMicros := actual, rv_State := ReservationSettled\<rparr>)
       (put_account (account_key r) (close_account (rv_ReservedMicros r) actual a) l)) l'"
  shows "ledger_move l l'"
proof -
  have ok: "account_ok a" by (rule same_id_account(3) [OF inv a])
  note arith = account_arith [OF ok]
  have res: "0 \<le> rv_ReservedMicros r" "rv_ReservedMicros r \<le> ba_ReservedMicros a"
    using ledger_inv_reservation [OF inv r(1)] pending_le_reserved [OF inv r a] by simp_all
  have actual': "actual \<le> ba_LimitMicros a - ba_SpentMicros a" using actual(2) by (simp add: arith(1))
  show ?thesis
    by (rule ledger_move.settle [OF r a actual(1) actual'])
      (use same in \<open>simp add: close_account_def arith(3) [OF res] arith(4) [OF actual(1) actual']\<close>)
qed

lemma move_release:
  assumes inv: "ledger_inv l" and r: "map_of (bl_reservations l) k = Some r" "pending r"
    and a: "map_of (bl_accounts l) (account_key r) = Some a"
    and same: "same_books (put_reservation k (r\<lparr>rv_State := ReservationReleased\<rparr>)
       (put_account (account_key r) (a\<lparr>ba_ReservedMicros := sub64 (ba_ReservedMicros a) (rv_ReservedMicros r),
          ba_Version := add64 (ba_Version a) 1\<rparr>) l)) l'"
  shows "ledger_move l l'"
proof -
  have res: "0 \<le> rv_ReservedMicros r" "rv_ReservedMicros r \<le> ba_ReservedMicros a"
    using ledger_inv_reservation [OF inv r(1)] pending_le_reserved [OF inv r a] by simp_all
  show ?thesis
    by (rule ledger_move.release [OF r a])
      (use same in \<open>simp add: account_arith(3) [OF same_id_account(3) [OF inv a] res]\<close>)
qed

lemma move_none: "ledger_move l l"
  by (rule ledger_move.remark) simp

lemma move_create:
  assumes "nul_free (ba_TenantID a)" and "ba_LimitMicros a < 2 ^ 62" and "int64 (ba_SpentMicros a)"
  shows "ledger_move l (snd (CreateAccount now ctx a l))"
proof (cases "CreateAccount now ctx a l")
  case (Pair result l')
  show ?thesis
  proof (cases "l' = l")
    case True
    then show ?thesis using Pair move_none by simp
  next
    case False
    let ?a = "complete_account now a"
    have ids: "ba_TenantID ?a = ba_TenantID a" "ba_LimitMicros ?a = ba_LimitMicros a" "ba_SoftLimitMicros ?a = ba_SoftLimitMicros a"
      "ba_ReservedMicros ?a = ba_ReservedMicros a" "ba_SpentMicros ?a = ba_SpentMicros a"
      by (simp_all add: complete_account_def)
    from Pair False have l': "l' = put_account (budgetKey (ba_TenantID ?a) (ba_ID ?a)) ?a l"
      and new: "\<not> gomap_has (bl_accounts l) (budgetKey (ba_TenantID ?a) (ba_ID ?a))"
      and pos: "0 \<le> ba_LimitMicros a" "0 \<le> ba_SoftLimitMicros a" "ba_SoftLimitMicros a \<le> ba_LimitMicros a"
        "0 \<le> ba_ReservedMicros a" "0 \<le> ba_SpentMicros a"
      and fits: "ba_ReservedMicros a \<le> sub64 (ba_LimitMicros a) (ba_SpentMicros a)"
      by (auto simp: CreateAccount_def Let_def split: option.splits if_splits)
    have "account_ok ?a"
    proof -
      have "sub64 (ba_LimitMicros a) (ba_SpentMicros a) = ba_LimitMicros a - ba_SpentMicros a"
        using pos assms(2,3) by (intro sub64_id) (simp add: int64_def)
      then show ?thesis using pos fits assms(2) by (simp add: account_ok_def ids)
    qed
    then show ?thesis
      using Pair l' new assms(1) by (auto intro!: ledger_move.open_account [of l ?a] simp: ids gomap_has_def)
  qed
qed

lemma move_reserve:
  assumes inv: "ledger_inv l" and t: "nul_free t" and unused: "unused_id l t newID"
  shows "ledger_move l (snd (reserve clock newID ctx t acc rid req amount claim l))"
proof (cases "lookupReservationLocked l t rid")
  case (Some kr)
  obtain k r where kr: "kr = (k, r)" by force
  note found = lookup_Some [OF inv t Some [unfolded kr]]
  have "ledger_move l (snd (reserve_existing clock acc req amount claim k r l))"
    unfolding reserve_existing_def
    using move_none ledger_move.park [OF found(1) _ same_books_refl] by auto
  then show ?thesis using Some kr move_none by (auto simp: reserve_def split: option.splits)
next
  case None
  note free = lookup_None [OF inv t None]
  have "ledger_move l (snd (reserve_fresh clock newID t acc rid req amount claim l))" if "0 \<le> amount"
  proof (cases "snd (reserve_fresh clock newID t acc rid req amount claim l) = l")
    case True
    then show ?thesis using move_none by simp
  next
    case False
    then obtain n a g where n: "scan_requests clock t acc req claim (map snd (bl_reservations l)) 0 = Inr n"
      and a: "map_of (bl_accounts l) (budgetKey t acc) = Some a"
      and fits: "amount \<le> sub64 (sub64 (ba_LimitMicros a) (ba_ReservedMicros a)) (ba_SpentMicros a)"
      and g: "newID = Inr g"
      by (auto simp: reserve_fresh_def Let_def split: sum.splits option.splits if_splits)
    let ?r = "\<lparr>rv_ID = g, rv_TenantID = t, rv_AccountID = acc, rv_RequestID = req, rv_ReservedMicros = amount,
      rv_SettledMicros = 0, rv_State = ReservationOpen, rv_CreatedAt = utc (clock (Suc n)),
      rv_ExpiresAt = utc (clock (Suc n)) + bl_reservationTTL l\<rparr>"
    have ok: "account_ok a" by (rule same_id_account(3) [OF inv a])
    from fits have fits': "amount \<le> ba_LimitMicros a - ba_ReservedMicros a - ba_SpentMicros a"
      by (simp only: account_arith(2) [OF ok])
    have key: "account_key ?r = budgetKey t acc" by (simp add: account_key_def)
    show ?thesis
    proof (rule ledger_move.hold [of l ?r a rid])
      show "same_books ((put_reservation (budgetKey (rv_TenantID ?r) (rv_ID ?r)) ?r
         (put_account (account_key ?r) (a\<lparr>ba_ReservedMicros := ba_ReservedMicros a + rv_ReservedMicros ?r,
            ba_Version := add64 (ba_Version a) 1\<rparr>) l))
         \<lparr>bl_reservationIDs := gomap_put (budgetKey (rv_TenantID ?r) rid) (rv_ID ?r) (bl_reservationIDs l)\<rparr>)
         (snd (reserve_fresh clock newID t acc rid req amount claim l))"
        using False n a g fits account_arith(5) [OF ok that fits']
        by (auto simp: reserve_fresh_def Let_def account_key_def split: if_splits)
    qed (use a key t unused g free fits' that in \<open>simp_all add: unused_id_def gomap_has_def\<close>)
  qed
  then show ?thesis using None move_none by (auto simp: reserve_def split: option.splits)
qed

lemma get_account_Some: "map_of (bl_accounts l) k = Some a \<Longrightarrow> get_account l k = a"
  by (simp add: get_account_def)

lemma move_settle_reservation:
  assumes inv: "ledger_inv l" and t: "nul_free t" and found: "lookupReservationLocked l t i = Some (k, r)"
    and "pending r" and "0 \<le> actual"
  shows "ledger_move l (snd (settle_reservation t k r actual l))"
proof -
  note r = lookup_Some [OF inv t found]
  from r(3) obtain a where a: "map_of (bl_accounts l) (account_key r) = Some a"
    and key: "budgetKey t (rv_AccountID r) = account_key r" by metis
  show ?thesis
  proof (cases "snd (settle_reservation t k r actual l) = l")
    case True
    then show ?thesis using move_none by simp
  next
    case False
    then have "actual \<le> sub64 (ba_LimitMicros a) (ba_SpentMicros a)"
      "same_books (put_reservation k (r\<lparr>rv_SettledMicros := actual, rv_State := ReservationSettled\<rparr>)
       (put_account (account_key r) (close_account (rv_ReservedMicros r) actual a) l))
       (snd (settle_reservation t k r actual l))"
      by (auto simp: settle_reservation_def Let_def key get_account_Some [OF a] split: if_splits)
    then show ?thesis using move_settle [OF inv r(1) assms(4) a assms(5)] by blast
  qed
qed

lemma pending_cases: "rv_State r = ReservationOpen \<Longrightarrow> pending r" "rv_State r = ReservationReconcile \<Longrightarrow> pending r"
  by (simp_all add: pending_def)

lemma move_settle_op: "ledger_inv l \<Longrightarrow> nul_free t \<Longrightarrow> ledger_move l (snd (Settle ctx t rid actual l))"
  using move_settle_reservation move_none pending_cases
  by (auto simp: Settle_def split: option.splits)

lemma move_reconcile_op: "ledger_inv l \<Longrightarrow> nul_free t \<Longrightarrow> ledger_move l (snd (Reconcile ctx t rid actual l))"
  using move_settle_reservation move_none pending_cases
  by (auto simp: Reconcile_def split: option.splits)

lemma move_release_op:
  assumes inv: "ledger_inv l" and t: "nul_free t"
  shows "ledger_move l (snd (Release ctx t rid l))"
proof (cases "snd (Release ctx t rid l) = l")
  case True
  then show ?thesis using move_none by simp
next
  case False
  then obtain k r where found: "lookupReservationLocked l t rid = Some (k, r)" and open_r: "rv_State r = ReservationOpen"
    by (auto simp: Release_def Let_def split: option.splits if_splits)
  note r = lookup_Some [OF inv t found]
  from r(3) obtain a where a: "map_of (bl_accounts l) (account_key r) = Some a"
    and key: "budgetKey t (rv_AccountID r) = account_key r" by metis
  show ?thesis
    by (rule move_release [OF inv r(1) pending_cases(1) [OF open_r] a])
      (use False found open_r in \<open>auto simp: Release_def Let_def key get_account_Some [OF a] split: option.splits if_splits\<close>)
qed

lemma move_require_op: "ledger_inv l \<Longrightarrow> nul_free t \<Longrightarrow> ledger_move l (snd (RequireReconciliation ctx t rid l))"
  using lookup_Some(1) ledger_move.park [OF _ _ same_books_refl] move_none
  by (fastforce simp: RequireReconciliation_def Let_def split: option.splits)

lemma project_scan_found:
  "project_scan t pr as found = Inr (Some a) \<Longrightarrow> (a \<in> set as \<and> project_account t pr a) \<or> found = Some a"
  by (induction as arbitrary: found) (auto split: if_splits)

lemma move_adjust_op:
  assumes inv: "ledger_inv l" and t: "nul_free (aj_TenantID adj)" and hard: "aj_HardLimitMicros adj < 2 ^ 62"
  shows "ledger_move l (snd (Adjust now trace ctx adj l))"
proof (cases "snd (Adjust now trace ctx adj l) = l")
  case True
  then show ?thesis using move_none by simp
next
  case False
  then obtain a' b account where prep: "prepareBudgetAdjustment trace adj = Inr b"
    and found: "projectAccountLocked l (aj_TenantID b) (aj_ProjectID b) = Inr (Some account)"
    and adj: "adjust_account now b account = Inr a'"
    and l': "same_books (put_account (budgetKey (aj_TenantID b) (ba_ID a')) a' l) (snd (Adjust now trace ctx adj l))"
    by (auto simp: Adjust_def Let_def same_books_def split: option.splits sum.splits if_splits)
  have b: "aj_TenantID b = aj_TenantID adj" "aj_HardLimitMicros b = aj_HardLimitMicros adj" "valid_adjustment adj"
    "aj_SoftLimitMicros b = aj_SoftLimitMicros adj"
    using prep by (auto simp: prepareBudgetAdjustment_def split: sum.splits if_splits)
  obtain k where k: "(k, account) \<in> set (bl_accounts l)" and tenant: "ba_TenantID account = aj_TenantID b"
    using project_scan_found [of "aj_TenantID b" "aj_ProjectID b" "map snd (bl_accounts l)" None account] found
    by (auto simp: projectAccountLocked_def project_account_def)
  then have a: "map_of (bl_accounts l) k = Some account" using gomap_okD [OF ledger_inv_parts(1) [OF inv]] by blast
  note account = same_id_account [OF inv a]
  have soft: "0 \<le> aj_SoftLimitMicros b" "aj_SoftLimitMicros b \<le> aj_HardLimitMicros b"
    using b by (auto simp: valid_adjustment_def)
  have a': "a' = account\<lparr>ba_LimitMicros := aj_HardLimitMicros b, ba_SoftLimitMicros := aj_SoftLimitMicros b,
      ba_Version := add64 (ba_Version account) 1\<rparr>"
    and room: "ba_SpentMicros account + ba_ReservedMicros account \<le> aj_HardLimitMicros b"
    using adj account_arith(6) [OF account(3)] by (auto simp: adjust_account_def split: if_splits)
  have "budgetKey (aj_TenantID b) (ba_ID a') = k" using account(1) tenant by (simp add: a')
  with l' show ?thesis
    by (intro ledger_move.limits [OF a soft _ room]) (use hard b in \<open>simp_all add: a'\<close>)
qed

text \<open>Expired reservations are parked one after the other.\<close>

definition park_all :: "string \<Rightarrow> Reservation list \<Rightarrow> BudgetLedger \<Rightarrow> BudgetLedger" where
  "park_all t rs l =
     foldl (\<lambda>m r. put_reservation (budgetKey t (rv_ID r)) r m) l (map (\<lambda>r. r\<lparr>rv_State := ReservationReconcile\<rparr>) rs)"

lemma park_all_moves:
  "distinct (map rv_ID rs) \<Longrightarrow>
   \<forall>r \<in> set rs. map_of (bl_reservations l) (budgetKey t (rv_ID r)) = Some r \<and> rv_State r = ReservationOpen \<Longrightarrow>
     ledger_move\<^sup>*\<^sup>* l (park_all t rs l)"
proof (induction rs arbitrary: l)
  case Nil
  then show ?case by (simp add: park_all_def)
next
  case (Cons r rs)
  let ?l = "put_reservation (budgetKey t (rv_ID r)) (r\<lparr>rv_State := ReservationReconcile\<rparr>) l"
  have "ledger_move l ?l" using Cons.prems(2) by (intro ledger_move.park [OF _ _ same_books_refl]) auto
  moreover have "ledger_move\<^sup>*\<^sup>* ?l (park_all t rs ?l)"
  proof (rule Cons.IH)
    show "\<forall>r' \<in> set rs. map_of (bl_reservations ?l) (budgetKey t (rv_ID r')) = Some r' \<and> rv_State r' = ReservationOpen"
    proof
      fix r' assume r': "r' \<in> set rs"
      then have "rv_ID r' \<noteq> rv_ID r" using Cons.prems(1) by (metis distinct.simps(2) image_eqI list.set_map list.simps(9))
      then have "budgetKey t (rv_ID r') \<noteq> budgetKey t (rv_ID r)" by (simp add: budgetKey_def)
      then show "map_of (bl_reservations ?l) (budgetKey t (rv_ID r')) = Some r' \<and> rv_State r' = ReservationOpen"
        using Cons.prems(2) r' by (simp add: amap.look_store)
    qed
  qed (use Cons.prems(1) in simp)
  ultimately show ?case by (simp add: park_all_def)
qed

text \<open>The candidates of an expiry are reservations of the ledger, each once.\<close>

definition expiry_candidates :: "time \<Rightarrow> string \<Rightarrow> BudgetLedger \<Rightarrow> Reservation list" where
  "expiry_candidates now t l =
     sort_key (\<lambda>r. (rv_ExpiresAt r, rv_ID r)) (filter (expired_open now t) (map snd (bl_reservations l)))"

lemma expire_candidates:
  "ExpireReservations now ctx t limit l =
     (case contextError ctx of
        Some err \<Rightarrow> (Inl err, l)
      | None \<Rightarrow>
          if t = [] \<or> limit \<le> 0 then (Inl ErrInvalidRequest, l)
          else (Inr (map (\<lambda>r. r\<lparr>rv_State := ReservationReconcile\<rparr>) (take (nat limit) (expiry_candidates now t l))),
                park_all t (take (nat limit) (expiry_candidates now t l)) l))"
  by (simp add: ExpireReservations_def expiry_candidates_def park_all_def Let_def split: option.split)

lemma candidate_in_ledger:
  assumes "ledger_inv l" and "r \<in> set (expiry_candidates now t l)"
  shows "map_of (bl_reservations l) (budgetKey t (rv_ID r)) = Some r \<and> expired_open now t r"
proof -
  from assms(2) obtain k where k: "(k, r) \<in> set (bl_reservations l)" and e: "expired_open now t r"
    by (auto simp: expiry_candidates_def)
  then have m: "map_of (bl_reservations l) k = Some r" using ledger_inv_parts(2) [OF assms(1)] by (metis gomap_okD)
  from ledger_inv_reservation [OF assms(1) m] e have "k = budgetKey t (rv_ID r)" by (simp add: expired_open_def)
  with m e show ?thesis by simp
qed

lemma candidates_distinct:
  assumes inv: "ledger_inv l"
  shows "distinct (map rv_ID (expiry_candidates now t l))"
proof -
  let ?c = "filter (expired_open now t) (map snd (bl_reservations l))"
  let ?e = "filter (\<lambda>p. expired_open now t (snd p)) (bl_reservations l)"
  have sub: "?c = map snd ?e" by (induction "bl_reservations l") (auto simp: filter_map comp_def)
  have key: "fst p = budgetKey t (rv_ID (snd p))" if "p \<in> set ?e" for p
  proof -
    have "map_of (bl_reservations l) (fst p) = Some (snd p)"
      using that ledger_inv_parts(2) [OF inv] by (intro gomap_okD) auto
    from ledger_inv_reservation [OF inv this] that show ?thesis by (simp add: expired_open_def)
  qed
  have "distinct (map fst ?e)"
    using ledger_inv_parts(2) [OF inv] by (simp add: gomap_ok_def distinct_map_filter)
  moreover have "map fst ?e = map (budgetKey t) (map rv_ID ?c)" using key by (simp add: sub)
  ultimately have "distinct (map rv_ID ?c)" by (metis distinct_map)
  moreover have "mset (map rv_ID (expiry_candidates now t l)) = mset (map rv_ID ?c)"
    by (simp add: expiry_candidates_def)
  ultimately show ?thesis by (metis mset_eq_imp_distinct_iff)
qed

lemma moves_expire:
  assumes "ledger_inv l"
  shows "ledger_move\<^sup>*\<^sup>* l (snd (ExpireReservations now ctx t limit l))"
proof -
  have "ledger_move\<^sup>*\<^sup>* l (park_all t (take n (expiry_candidates now t l)) l)" for n
  proof (rule park_all_moves)
    show "distinct (map rv_ID (take n (expiry_candidates now t l)))"
      using candidates_distinct [OF assms] by (metis distinct_take take_map)
    show "\<forall>r \<in> set (take n (expiry_candidates now t l)).
        map_of (bl_reservations l) (budgetKey t (rv_ID r)) = Some r \<and> rv_State r = ReservationOpen"
      using candidate_in_ledger [OF assms] by (meson expired_open_def in_set_takeD)
  qed
  then show ?thesis by (simp add: expire_candidates split: option.split)
qed

section \<open>Finalized and reconciled calls\<close>

lemma call_books [simp]: "same_books l (put_call k c l)"
  by (simp add: same_books_def put_call_def)

lemma same_books_trans: "same_books l l' \<Longrightarrow> same_books l' l'' \<Longrightarrow> same_books l l''"
  by (simp add: same_books_def)

lemma move_disposition:
  assumes inv: "ledger_inv l" and t: "nul_free t" and found: "lookupReservationLocked l t i = Some (k, r)"
    and a: "map_of (bl_accounts l) (budgetKey t (rv_AccountID r)) = Some a"
    and d: "apply_disposition f k (budgetKey t (rv_AccountID r)) r a l = Inr (r', l')"
    and actual: "0 \<le> fz_ActualMicros f" and same: "same_books l' l''"
  shows "ledger_move l l''"
proof -
  note r = lookup_Some [OF inv t found]
  have key: "account_key r = budgetKey t (rv_AccountID r)" using r(3) by blast
  note a' = a [folded key] and d' = d [folded key]
  show ?thesis
  proof (cases "l' = l")
    case True
    with same show ?thesis by (auto intro: ledger_move.remark)
  next
    case False
    show ?thesis
    proof (cases "fz_Disposition f")
      case ReservationDispositionSettle
      with d' False have p: "pending r" "fz_ActualMicros f \<le> sub64 (ba_LimitMicros a) (ba_SpentMicros a)"
        and l': "l' = put_reservation k (r\<lparr>rv_SettledMicros := fz_ActualMicros f, rv_State := ReservationSettled\<rparr>)
          (put_account (account_key r) (close_account (rv_ReservedMicros r) (fz_ActualMicros f) a) l)"
        by (auto simp: apply_disposition_def Let_def pending_def split: if_splits)
      show ?thesis using move_settle [OF inv r(1) p(1) a' actual p(2)] same l' by simp
    next
      case ReservationDispositionRelease
      with d' False have p: "pending r"
        and l': "l' = put_reservation k (r\<lparr>rv_State := ReservationReleased\<rparr>)
          (put_account (account_key r) (a\<lparr>ba_ReservedMicros := sub64 (ba_ReservedMicros a) (rv_ReservedMicros r),
             ba_Version := add64 (ba_Version a) 1\<rparr>) l)"
        by (auto simp: apply_disposition_def Let_def pending_def split: if_splits)
      show ?thesis using move_release [OF inv r(1) p(1) a'] same l' by simp
    next
      case ReservationDispositionReconcile
      with d' False have p: "rv_State r = ReservationOpen"
        and l': "l' = put_reservation k (r\<lparr>rv_State := ReservationReconcile\<rparr>) l"
        by (auto simp: apply_disposition_def Let_def split: if_splits)
      show ?thesis using ledger_move.park [OF r(1) p] same l' by simp
    next
      case (ReservationDispositionOther x)
      with d' False show ?thesis by (simp add: apply_disposition_def)
    qed
  qed
qed

lemma move_finalize:
  assumes inv: "ledger_inv l" and t: "nul_free (mc_TenantID (fz_Call f))"
  shows "ledger_move l (snd (FinalizeModelCall newID ctx f l))"
proof (cases "snd (FinalizeModelCall newID ctx f l) = l")
  case True
  then show ?thesis using move_none by simp
next
  case False
  then obtain k r a r' l' c ck where found: "lookupReservationLocked l (mc_TenantID (fz_Call f)) (fz_ReservationID f) = Some (k, r)"
    and a: "map_of (bl_accounts l) (budgetKey (mc_TenantID (fz_Call f)) (rv_AccountID r)) = Some a"
    and d: "apply_disposition f k (budgetKey (mc_TenantID (fz_Call f)) (rv_AccountID r)) r a l = Inr (r', l')"
    and v: "ModelCallFinalization_validate f = None"
    and out: "snd (FinalizeModelCall newID ctx f l) = put_call ck c l'"
    unfolding FinalizeModelCall_def Let_def by (auto split: option.splits sum.splits if_splits)
  have "0 \<le> fz_ActualMicros f" using v by (auto simp: ModelCallFinalization_validate_def Let_def split: if_splits)
  from move_disposition [OF inv t found a d this call_books] out show ?thesis by metis
qed

lemma move_reconcile_call:
  assumes inv: "ledger_inv l" and t: "nul_free (rc_TenantID rc)"
  shows "ledger_move l (snd (ReconcileModelCall ctx rc l))"
proof (cases "snd (ReconcileModelCall ctx rc l) = l")
  case True
  then show ?thesis using move_none by simp
next
  case False
  then obtain k r a c ck where found: "lookupReservationLocked l (rc_TenantID rc) (rc_ReservationID rc) = Some (k, r)"
    and open_r: "rv_State r = ReservationReconcile"
    and a: "map_of (bl_accounts l) (budgetKey (rc_TenantID rc) (rv_AccountID r)) = Some a"
    and fits: "rc_ActualMicros rc \<le> sub64 (ba_LimitMicros a) (ba_SpentMicros a)"
    and v: "ModelCallReconciliation_validate rc = None"
    and out: "snd (ReconcileModelCall ctx rc l) =
      put_call ck c (put_reservation k (r\<lparr>rv_SettledMicros := rc_ActualMicros rc, rv_State := ReservationSettled\<rparr>)
        (put_account (budgetKey (rc_TenantID rc) (rv_AccountID r)) (close_account (rv_ReservedMicros r) (rc_ActualMicros rc) a) l))"
    unfolding ReconcileModelCall_def Let_def by (auto split: option.splits if_splits)
  note r = lookup_Some [OF inv t found]
  have key: "account_key r = budgetKey (rc_TenantID rc) (rv_AccountID r)" using r(3) by blast
  have "0 \<le> rc_ActualMicros rc" using v by (auto simp: ModelCallReconciliation_validate_def Let_def split: if_splits)
  from move_settle [OF inv r(1) pending_cases(2) [OF open_r] a [folded key] this fits] out show ?thesis
    by (simp add: key)
qed

section \<open>Runs\<close>

lemma op_moves:
  assumes "ledger_inv l" and "op_ok l p"
  shows "ledger_move\<^sup>*\<^sup>* l (ledger_after p l)"
  using assms
  by (cases p)
    (simp_all add: move_create move_reserve move_settle_op move_release_op move_reconcile_op move_require_op
      move_adjust_op move_finalize move_reconcile_call moves_expire r_into_rtranclp)

lemma moves_inv: "ledger_move\<^sup>*\<^sup>* l l' \<Longrightarrow> ledger_inv l \<Longrightarrow> ledger_inv l'"
  by (induction rule: rtranclp_induct) (auto dest: ledger_move_inv)

lemma run_moves: "ledger_inv l \<Longrightarrow> run_ok ops l \<Longrightarrow> ledger_move\<^sup>*\<^sup>* l (ledger_run ops l)"
proof (induction ops arbitrary: l)
  case Nil
  then show ?case by (simp add: ledger_run_def)
next
  case (Cons p ops)
  have "ledger_move\<^sup>*\<^sup>* l (ledger_after p l)" using op_moves Cons.prems by simp
  moreover have "ledger_move\<^sup>*\<^sup>* (ledger_after p l) (ledger_run ops (ledger_after p l))"
    using Cons moves_inv [OF calculation] by simp
  ultimately show ?case by (simp add: ledger_run_def)
qed

lemma run_inv: "ledger_inv l \<Longrightarrow> run_ok ops l \<Longrightarrow> ledger_inv (ledger_run ops l)"
  using run_moves moves_inv by blast

lemma new_ledger_inv: "ledger_inv NewBudgetLedger"
  by (simp add: ledger_inv_def NewBudgetLedger_def accounts_inv_def reservations_inv_def ids_inv_def)

end
