(* ===== verification/Budget_Properties.thy ===== *)
theory Budget_Properties
  imports Budget_Safety
begin

text \<open>
  What the budget ledger promises its callers: limits hold, amounts are conserved, a settlement
  is final and repeatable, a claim is granted once, an expiry is complete, an adjustment is
  applied once.
\<close>

section \<open>What moves preserve\<close>

text \<open>The amounts booked on an account by its settled reservations.\<close>

definition booking :: "string \<Rightarrow> Reservation \<Rightarrow> int" where
  "booking k r = (if account_key r = k \<and> rv_State r = ReservationSettled then rv_SettledMicros r else 0)"

definition settled_total :: "BudgetLedger \<Rightarrow> string \<Rightarrow> int" where
  "settled_total l k = gomap_sum (booking k) (bl_reservations l)"

lemma same_books_settled: "same_books l l' \<Longrightarrow> settled_total l' k = settled_total l k"
  by (simp add: same_books_def settled_total_def)

lemma settled_put_fresh:
  "map_of (bl_reservations l) k = None \<Longrightarrow>
     settled_total (put_reservation k r l) k' = settled_total l k' + booking k' r"
  by (simp add: settled_total_def gomap_sum_put_fresh)

lemma settled_put_old:
  "map_of (bl_reservations l) k = Some r0 \<Longrightarrow>
     settled_total (put_reservation k r l) k' = settled_total l k' - booking k' r0 + booking k' r"
  by (simp add: settled_total_def gomap_sum_put_old)

lemma settled_other [simp]:
  "settled_total (put_account k a l) k' = settled_total l k'"
  "settled_total (l\<lparr>bl_reservationIDs := m\<rparr>) k' = settled_total l k'"
  by (simp_all add: settled_total_def)

lemma outstanding_put_account [simp]:
  "outstanding (put_reservation k r (put_account k' a l)) k'' = outstanding (put_reservation k r l) k''"
  "settled_total (put_reservation k r (put_account k' a l)) k'' = settled_total (put_reservation k r l) k''"
  by (simp_all add: outstanding_def settled_total_def)

text \<open>An account keeps its identity and its two balances.\<close>

definition balanced :: "BudgetLedger \<Rightarrow> BudgetLedger \<Rightarrow> string \<Rightarrow> BudgetAccount \<Rightarrow> BudgetAccount \<Rightarrow> bool" where
  "balanced l l' k a a' \<longleftrightarrow>
     ba_TenantID a' = ba_TenantID a \<and> ba_ID a' = ba_ID a
     \<and> ba_ReservedMicros a' - outstanding l' k = ba_ReservedMicros a - outstanding l k
     \<and> ba_SpentMicros a' - settled_total l' k = ba_SpentMicros a - settled_total l k
     \<and> ba_SpentMicros a \<le> ba_SpentMicros a'"

lemma same_books_accounts: "same_books l l' \<Longrightarrow> bl_accounts l' = bl_accounts l"
  by (simp add: same_books_def)

lemma move_balanced:
  assumes "ledger_move l l'" and a: "map_of (bl_accounts l) k = Some a"
  shows "\<exists>a'. map_of (bl_accounts l') k = Some a' \<and> balanced l l' k a a'"
  using assms(1)
proof cases
  case remark
  then show ?thesis using a by (simp add: balanced_def same_books_accounts same_books_outstanding same_books_settled)
next
  case (open_account b)
  then show ?thesis
    using a by (auto simp: balanced_def same_books_accounts same_books_outstanding same_books_settled amap.look_store)
next
  case (hold r b i)
  then show ?thesis
    using a by (auto simp: balanced_def same_books_accounts same_books_outstanding same_books_settled amap.look_store
        outstanding_put_fresh settled_put_fresh holding_def booking_def pending_def)
next
  case (park k' r)
  then show ?thesis
    using a by (auto simp: balanced_def same_books_accounts same_books_outstanding same_books_settled
        outstanding_put_old settled_put_old holding_def booking_def pending_def)
next
  case (settle k' r b actual)
  then show ?thesis
    using a by (auto simp: balanced_def same_books_accounts same_books_outstanding same_books_settled amap.look_store
        outstanding_put_old settled_put_old holding_def booking_def pending_def)
next
  case (release k' r b)
  then show ?thesis
    using a by (auto simp: balanced_def same_books_accounts same_books_outstanding same_books_settled amap.look_store
        outstanding_put_old settled_put_old holding_def booking_def pending_def)
next
  case (limits k' b soft hard)
  then show ?thesis
    using a by (auto simp: balanced_def same_books_accounts same_books_outstanding same_books_settled amap.look_store)
qed

lemma moves_balanced:
  assumes "ledger_move\<^sup>*\<^sup>* l l'" and "map_of (bl_accounts l) k = Some a"
  shows "\<exists>a'. map_of (bl_accounts l') k = Some a' \<and> balanced l l' k a a'"
  using assms
proof (induction rule: rtranclp_induct)
  case base
  then show ?case by (simp add: balanced_def)
next
  case (step m n)
  then obtain a' where "map_of (bl_accounts m) k = Some a'" "balanced l m k a a'" by blast
  with move_balanced [OF step.hyps(2)] show ?case by (fastforce simp: balanced_def)
qed

text \<open>A reservation stays, with its identity; once it is not pending it does not change at all.\<close>

definition carried :: "Reservation \<Rightarrow> Reservation \<Rightarrow> bool" where
  "carried r r' \<longleftrightarrow> rv_ID r' = rv_ID r \<and> rv_TenantID r' = rv_TenantID r \<and> rv_AccountID r' = rv_AccountID r
     \<and> rv_RequestID r' = rv_RequestID r \<and> rv_ReservedMicros r' = rv_ReservedMicros r
     \<and> rv_ExpiresAt r' = rv_ExpiresAt r \<and> (\<not> pending r \<longrightarrow> r' = r)"

lemma same_books_reservations: "same_books l l' \<Longrightarrow> bl_reservations l' = bl_reservations l"
  by (simp add: same_books_def)

lemma move_carries:
  assumes "ledger_move l l'" and r: "map_of (bl_reservations l) k = Some r"
  shows "\<exists>r'. map_of (bl_reservations l') k = Some r' \<and> carried r r'"
  using assms(1)
  by cases (use r in \<open>auto simp: carried_def same_books_reservations amap.look_store pending_def\<close>)

lemma moves_carry:
  assumes "ledger_move\<^sup>*\<^sup>* l l'" and "map_of (bl_reservations l) k = Some r"
  shows "\<exists>r'. map_of (bl_reservations l') k = Some r' \<and> carried r r'"
  using assms
proof (induction rule: rtranclp_induct)
  case base
  then show ?case by (simp add: carried_def)
next
  case (step m n)
  then obtain r' where "map_of (bl_reservations m) k = Some r'" "carried r r'" by blast
  with move_carries [OF step.hyps(2)] show ?case by (fastforce simp: carried_def)
qed

text \<open>A client identifier keeps naming the same reservation.\<close>

lemma lookup_alt:
  "lookupReservationLocked l t i = Some (k, r) \<longleftrightarrow>
     map_of (bl_reservations l) k = Some r
     \<and> (k = budgetKey t i
        \<or> map_of (bl_reservations l) (budgetKey t i) = None
          \<and> (\<exists>g. map_of (bl_reservationIDs l) (budgetKey t i) = Some g \<and> k = budgetKey t g))"
  by (auto simp: lookupReservationLocked_def Let_def split: option.splits)

lemma lookup_put_old:
  "lookupReservationLocked l t i = Some (k, r0) \<Longrightarrow>
     lookupReservationLocked (put_reservation k r (put_account k' a l)) t i = Some (k, r)"
  unfolding lookup_alt by (cases "k = budgetKey t i") (auto simp: amap.look_store)

lemma move_ids:
  assumes "ledger_move l l'"
  shows "map_of (bl_reservationIDs l) k = Some g \<Longrightarrow> map_of (bl_reservationIDs l') k = Some g"
    "map_of (bl_reservationIDs l) k = Some g \<Longrightarrow> map_of (bl_reservations l) k = None \<Longrightarrow> map_of (bl_reservations l') k = None"
  using assms by (cases, auto simp: same_books_def amap.look_store)+

lemma move_lookup:
  assumes "ledger_move l l'" and "lookupReservationLocked l t i = Some (k, r)"
  shows "\<exists>r'. lookupReservationLocked l' t i = Some (k, r') \<and> carried r r'"
  using assms(2) move_carries [OF assms(1)] move_ids [OF assms(1)] unfolding lookup_alt by metis

lemma moves_lookup:
  assumes "ledger_move\<^sup>*\<^sup>* l l'" and "lookupReservationLocked l t i = Some (k, r)"
  shows "\<exists>r'. lookupReservationLocked l' t i = Some (k, r') \<and> carried r r'"
  using assms
proof (induction rule: rtranclp_induct)
  case base
  then show ?case by (simp add: carried_def)
next
  case (step m n)
  then obtain r' where "lookupReservationLocked m t i = Some (k, r')" "carried r r'" by blast
  with move_lookup [OF step.hyps(2)] show ?case by (fastforce simp: carried_def)
qed

text \<open>Adjustments are never dropped or replaced.\<close>

lemma adjustments_books [simp]:
  "bl_adjustments (put_call k c l) = bl_adjustments l"
  by (simp add: put_call_def)

lemma adjustments_park [simp]: "bl_adjustments (park_all t rs l) = bl_adjustments l"
proof -
  have "bl_adjustments (foldl (\<lambda>m r. put_reservation (budgetKey t (rv_ID r)) r m) l xs) = bl_adjustments l" for xs l
    by (induction xs arbitrary: l) simp_all
  then show ?thesis by (simp add: park_all_def)
qed

lemma adjustments_step:
  assumes "map_of (bl_adjustments l) k = Some v"
  shows "map_of (bl_adjustments (ledger_after p l)) k = Some v"
proof (cases p)
  case (OpCreate now ctx a)
  then show ?thesis using assms by (simp add: CreateAccount_def Let_def split: option.split)
next
  case (OpReserve clock newID ctx t acc rid req amount claim)
  have "bl_adjustments (snd (reserve_existing clock acc req amount claim k' r l)) = bl_adjustments l" for k' r
    by (simp add: reserve_existing_def)
  moreover have "bl_adjustments (snd (reserve_fresh clock newID t acc rid req amount claim l)) = bl_adjustments l"
    by (simp add: reserve_fresh_def Let_def split: sum.split option.split)
  ultimately show ?thesis using assms OpReserve by (auto simp: reserve_def split: option.split)
next
  case (OpSettle ctx t rid actual)
  then show ?thesis using assms by (simp add: Settle_def settle_reservation_def Let_def split: option.split)
next
  case (OpRelease ctx t rid)
  then show ?thesis using assms by (simp add: Release_def Let_def split: option.split)
next
  case (OpReconcile ctx t rid actual)
  then show ?thesis using assms by (simp add: Reconcile_def settle_reservation_def Let_def split: option.split)
next
  case (OpRequire ctx t rid)
  then show ?thesis using assms by (simp add: RequireReconciliation_def Let_def split: option.split)
next
  case (OpExpire now ctx t limit)
  then show ?thesis using assms by (simp add: expire_candidates split: option.split)
next
  case (OpAdjust now trace ctx adj)
  have "map_of (bl_adjustments (snd (Adjust now trace ctx adj l))) k = Some v"
    unfolding Adjust_def Let_def using assms
    by (auto simp: amap.look_store split: option.splits sum.splits)
  with OpAdjust show ?thesis by simp
next
  case (OpFinalize newID ctx f)
  have "bl_adjustments m = bl_adjustments l" if "apply_disposition f k' ak r a l = Inr (r', m)" for k' ak r a r' m
    using that by (auto simp: apply_disposition_def Let_def split: ReservationDisposition.splits if_splits)
  then have "bl_adjustments (snd (FinalizeModelCall newID ctx f l)) = bl_adjustments l"
    unfolding FinalizeModelCall_def Let_def by (auto split: option.splits sum.splits)
  with OpFinalize assms show ?thesis by simp
next
  case (OpReconcileCall ctx rc)
  have "bl_adjustments (snd (ReconcileModelCall ctx rc l)) = bl_adjustments l"
    unfolding ReconcileModelCall_def Let_def by (auto split: option.splits)
  with OpReconcileCall assms show ?thesis by simp
qed

lemma adjustments_run: "map_of (bl_adjustments l) k = Some v \<Longrightarrow> map_of (bl_adjustments (ledger_run ops l)) k = Some v"
  by (induction ops arbitrary: l) (simp_all add: ledger_run_def adjustments_step)

lemma run_ok_append: "run_ok (ps @ qs) l \<longleftrightarrow> run_ok ps l \<and> run_ok qs (ledger_run ps l)"
  by (induction ps arbitrary: l) (simp_all add: ledger_run_def)

lemma scan_claim:
  "\<exists>r \<in> set rs. rv_TenantID r = t \<and> rv_RequestID r = req \<Longrightarrow> isl (scan_requests clock t acc req True rs n)"
  by (induction rs arbitrary: n) auto

lemma park_all_other:
  "\<forall>r \<in> set rs. k \<noteq> budgetKey t (rv_ID r) \<Longrightarrow> map_of (bl_reservations (park_all t rs l)) k = map_of (bl_reservations l) k"
proof (induction rs arbitrary: l)
  case (Cons r rs)
  have "park_all t (r # rs) l = park_all t rs (put_reservation (budgetKey t (rv_ID r)) (r\<lparr>rv_State := ReservationReconcile\<rparr>) l)"
    by (simp add: park_all_def)
  then show ?case using Cons by (simp add: amap.look_store)
qed (simp add: park_all_def)

lemma park_all_same:
  "distinct (map rv_ID rs) \<Longrightarrow> r \<in> set rs \<Longrightarrow>
     map_of (bl_reservations (park_all t rs l)) (budgetKey t (rv_ID r)) = Some (r\<lparr>rv_State := ReservationReconcile\<rparr>)"
proof (induction rs arbitrary: l)
  case (Cons q rs)
  have step: "park_all t (q # rs) l = park_all t rs (put_reservation (budgetKey t (rv_ID q)) (q\<lparr>rv_State := ReservationReconcile\<rparr>) l)"
    by (simp add: park_all_def)
  show ?case
  proof (cases "r \<in> set rs")
    case True
    then show ?thesis using Cons unfolding step by simp
  next
    case False
    then have "r = q" using Cons.prems by simp
    moreover have "\<forall>x \<in> set rs. budgetKey t (rv_ID q) \<noteq> budgetKey t (rv_ID x)"
      using Cons.prems(1) by (auto simp: budgetKey_def image_iff)
    ultimately show ?thesis unfolding step by (simp add: park_all_other amap.look_store)
  qed
qed simp

lemma cloneBudgetAccount_id [simp, clone_simps]: "cloneBudgetAccount a = a"
  by (simp add: cloneBudgetAccount_def split: option.split)

lemma same_adjustment_trans: "sameBudgetAdjustment a b \<Longrightarrow> sameBudgetAdjustment b c \<Longrightarrow> sameBudgetAdjustment a c"
  by (simp add: sameBudgetAdjustment_def)

lemma same_adjustment_sym: "sameBudgetAdjustment a b \<Longrightarrow> sameBudgetAdjustment b a"
  by (simp add: sameBudgetAdjustment_def)

lemma same_adjustment_key: "sameBudgetAdjustment a b \<Longrightarrow> adjustment_key b = adjustment_key a"
  by (simp add: sameBudgetAdjustment_def adjustment_key_def)

lemma prepared_same: "prepareBudgetAdjustment trace adj = Inr b \<Longrightarrow> sameBudgetAdjustment adj b"
  by (auto simp: prepareBudgetAdjustment_def sameBudgetAdjustment_def split: if_splits sum.splits)

section \<open>Properties\<close>

text \<open>
  C30: the limits hold. In every reachable ledger an account's spent amount is between zero and
  its hard limit, the soft limit is at most the hard limit, and the reserved amount covers
  everything its pending reservations hold.
\<close>

theorem budget_limits_hold:
  assumes "run_ok ops NewBudgetLedger" and "map_of (bl_accounts (ledger_run ops NewBudgetLedger)) k = Some a"
  shows "0 \<le> ba_SpentMicros a \<and> ba_SpentMicros a \<le> ba_LimitMicros a \<and> ba_SoftLimitMicros a \<le> ba_LimitMicros a
    \<and> 0 \<le> outstanding (ledger_run ops NewBudgetLedger) k
    \<and> outstanding (ledger_run ops NewBudgetLedger) k \<le> ba_ReservedMicros a"
proof -
  have inv: "ledger_inv (ledger_run ops NewBudgetLedger)" by (rule run_inv [OF new_ledger_inv assms(1)])
  from same_id_account(3,4) [OF inv assms(2)] outstanding_nonneg [OF inv] show ?thesis by (simp add: account_ok_def)
qed

definition ex_account :: BudgetAccount where
  "ex_account = zero_BudgetAccount\<lparr>ba_ID := ''a'', ba_TenantID := ''t'', ba_LimitMicros := 10, ba_SoftLimitMicros := 8,
     ba_PeriodStart := 1\<rparr>"

definition ex_ops :: "ledger_op list" where
  "ex_ops =
     [OpCreate 5 (Context None) ex_account,
      OpReserve (\<lambda>_. 6) (Inr ''u1'') (Context None) ''t'' ''a'' ''r1'' ''q1'' 4 True,
      OpReserve (\<lambda>_. 7) (Inr ''u2'') (Context None) ''t'' ''a'' ''r2'' ''q2'' 5 False,
      OpSettle (Context None) ''t'' ''r1'' 3]"

lemma ex_ops_ok: "run_ok ex_ops NewBudgetLedger"
  by code_simp

definition ex_ledger :: BudgetLedger where
  "ex_ledger = ledger_run ex_ops NewBudgetLedger"

lemma ex_ledger_account:
  "map_of (bl_accounts ex_ledger) (budgetKey ''t'' ''a'')
     = Some ((complete_account 5 ex_account)\<lparr>ba_ReservedMicros := 5, ba_SpentMicros := 3, ba_Version := 4\<rparr>)"
  by code_simp

theorem budget_limits_hold_witness: "outstanding ex_ledger (budgetKey ''t'' ''a'') \<le> 5"
  using budget_limits_hold [OF ex_ops_ok, of "budgetKey ''t'' ''a''"] ex_ledger_account by (simp add: ex_ledger_def)

text \<open>
  C31: amounts are conserved. Whatever happens to a reachable ledger, an account stays with its
  identity, the part of its reserved amount that no pending reservation holds does not change,
  nor does the part of its spent amount that no settled reservation accounts for, and the spent
  amount never falls.
\<close>

theorem budget_conserved:
  assumes "run_ok (ops @ ops') NewBudgetLedger"
    and "map_of (bl_accounts (ledger_run ops NewBudgetLedger)) k = Some a"
  shows "\<exists>a'. map_of (bl_accounts (ledger_run ops' (ledger_run ops NewBudgetLedger))) k = Some a'
    \<and> balanced (ledger_run ops NewBudgetLedger) (ledger_run ops' (ledger_run ops NewBudgetLedger)) k a a'"
proof -
  from assms(1) have ok: "run_ok ops NewBudgetLedger" "run_ok ops' (ledger_run ops NewBudgetLedger)"
    by (simp_all add: run_ok_append)
  show ?thesis by (rule moves_balanced [OF run_moves [OF run_inv [OF new_ledger_inv ok(1)] ok(2)] assms(2)])
qed

theorem budget_conserved_witness:
  "\<exists>a'. map_of (bl_accounts (ledger_run [OpRelease (Context None) ''t'' ''r2''] ex_ledger)) (budgetKey ''t'' ''a'') = Some a'
     \<and> ba_SpentMicros a' - settled_total (ledger_run [OpRelease (Context None) ''t'' ''r2''] ex_ledger) (budgetKey ''t'' ''a'') = 0"
proof -
  have "run_ok (ex_ops @ [OpRelease (Context None) ''t'' ''r2'']) NewBudgetLedger" by code_simp
  from budget_conserved [OF this ex_ledger_account [unfolded ex_ledger_def]]
  obtain a' where "map_of (bl_accounts (ledger_run [OpRelease (Context None) ''t'' ''r2''] ex_ledger)) (budgetKey ''t'' ''a'') = Some a'"
    "ba_SpentMicros a' - settled_total (ledger_run [OpRelease (Context None) ''t'' ''r2''] ex_ledger) (budgetKey ''t'' ''a'')
       = 3 - settled_total ex_ledger (budgetKey ''t'' ''a'')"
    by (auto simp: balanced_def ex_ledger_def)
  moreover have "settled_total ex_ledger (budgetKey ''t'' ''a'') = 3" by code_simp
  ultimately show ?thesis by simp
qed

text \<open>
  A settlement is final and repeatable. After a settlement the same settlement, at any later
  time, returns the same reservation and changes nothing; a settlement of another amount and a
  release are conflicts.
\<close>

lemma settlement_final:
  assumes "run_ok (ops @ OpSettle ctx t rid actual # ops') NewBudgetLedger"
    and "Settle ctx t rid actual (ledger_run ops NewBudgetLedger) = (Inr r, l1)"
    and "l2 = ledger_run ops' l1"
  shows "Settle (Context None) t rid actual l2 = (Inr r, l2)
    \<and> (0 \<le> other \<and> other \<noteq> actual \<longrightarrow> Settle (Context None) t rid other l2 = (Inl ErrReservationConflict, l2))
    \<and> Release (Context None) t rid l2 = (Inl ErrReservationConflict, l2)"
proof -
  let ?l = "ledger_run ops NewBudgetLedger"
  from assms(1,2) have ok: "run_ok ops NewBudgetLedger" "nul_free t" "run_ok ops' l1"
    by (simp_all add: run_ok_append)
  have inv: "ledger_inv ?l" by (rule run_inv [OF new_ledger_inv ok(1)])
  have inv1: "ledger_inv l1" using ledger_move_inv [OF move_settle_op [OF inv ok(2)] inv, of ctx rid actual] assms(2) by simp
  from assms(2) have args: "t \<noteq> []" "rid \<noteq> []" "0 \<le> actual"
    by (auto simp: Settle_def split: option.splits if_splits)
  from assms(2) obtain k r0 where found0: "lookupReservationLocked ?l t rid = Some (k, r0)"
    and how: "rv_State r0 = ReservationSettled \<and> rv_SettledMicros r0 = actual \<and> r = r0 \<and> l1 = ?l
      \<or> settle_reservation t k r0 actual ?l = (Inr r, l1)"
    by (auto simp: Settle_def split: option.splits if_splits)
  from how have found: "lookupReservationLocked l1 t rid = Some (k, r)"
    and r: "rv_State r = ReservationSettled" "rv_SettledMicros r = actual"
    using found0 lookup_put_old [OF found0] by (auto simp: settle_reservation_def Let_def split: if_splits)
  have "\<exists>r'. lookupReservationLocked l2 t rid = Some (k, r') \<and> carried r r'"
    unfolding assms(3) by (rule moves_lookup [OF run_moves [OF inv1 ok(3)] found])
  then have "lookupReservationLocked l2 t rid = Some (k, r)" using r by (auto simp: carried_def pending_def)
  then show ?thesis using r args by (simp add: Settle_def Release_def)
qed

text \<open>
  C32: a request is claimed once. After a claim that created a reservation, no later claim for the
  same tenant and request is told to go ahead, whatever account, identifier or amount it names.
\<close>

theorem claim_granted_once:
  assumes "run_ok (ops @ OpReserve clock newID ctx t acc rid req amount True # ops') NewBudgetLedger"
    and "ClaimReservation clock newID ctx t acc rid req amount (ledger_run ops NewBudgetLedger) = (Inr (r, True), l1)"
    and "l2 = ledger_run ops' l1"
  shows "fst (ClaimReservation clock' newID' ctx' t acc' rid' req amount' l2) \<noteq> Inr (r', True)"
proof -
  let ?l = "ledger_run ops NewBudgetLedger"
  from assms(1,2) have ok: "run_ok ops NewBudgetLedger" "nul_free t" "unused_id ?l t newID" "run_ok ops' l1"
    by (simp_all add: run_ok_append ClaimReservation_def)
  have inv: "ledger_inv ?l" by (rule run_inv [OF new_ledger_inv ok(1)])
  have inv1: "ledger_inv l1"
    using ledger_move_inv [OF move_reserve [OF inv ok(2,3), of clock ctx acc rid req amount True] inv] assms(2)
    by (simp add: ClaimReservation_def)
  have "\<exists>k. map_of (bl_reservations l1) k = Some r \<and> rv_TenantID r = t \<and> rv_RequestID r = req"
    using assms(2)
    by (auto simp: ClaimReservation_def reserve_def reserve_existing_def reserve_fresh_def Let_def amap.look_store
        split: option.splits sum.splits if_splits)
  then obtain k where k: "map_of (bl_reservations l1) k = Some r" "rv_TenantID r = t" "rv_RequestID r = req" by blast
  from moves_carry [OF run_moves [OF inv1 ok(4)] k(1)] obtain q where
    q: "map_of (bl_reservations l2) k = Some q" "rv_TenantID q = t" "rv_RequestID q = req"
    unfolding assms(3) using k(2,3) by (auto simp: carried_def)
  then have "\<exists>x \<in> set (map snd (bl_reservations l2)). rv_TenantID x = t \<and> rv_RequestID x = req"
    by (force dest: map_of_SomeD)
  from scan_claim [OF this] have scan: "isl (scan_requests clock' t acc' req True (map snd (bl_reservations l2)) n)" for n .
  show ?thesis
  proof
    assume granted: "fst (ClaimReservation clock' newID' ctx' t acc' rid' req amount' l2) = Inr (r', True)"
    then have "lookupReservationLocked l2 t rid' = None"
      by (auto simp: ClaimReservation_def reserve_def reserve_existing_def split: option.splits if_splits)
    with granted scan [of 0] show False
      by (auto simp: ClaimReservation_def reserve_def reserve_fresh_def split: option.splits if_splits sum.splits)
  qed
qed

theorem claim_granted_once_witness:
  "\<forall>r'. fst (ClaimReservation (\<lambda>_. 8) (Inr ''u3'') (Context None) ''t'' ''a'' ''r3'' ''q1'' 1 ex_ledger) \<noteq> Inr (r', True)"
proof
  fix r'

  let ?l = "ledger_run (take 1 ex_ops) NewBudgetLedger"
  let ?claim = "ClaimReservation (\<lambda>_. 6) (Inr ''u1'') (Context None) ''t'' ''a'' ''r1'' ''q1'' 4 ?l"
  have ok: "run_ok (take 1 ex_ops @ OpReserve (\<lambda>_. 6) (Inr ''u1'') (Context None) ''t'' ''a'' ''r1'' ''q1'' 4 True # drop 2 ex_ops) NewBudgetLedger"
    by code_simp
  have "case fst ?claim of Inl _ \<Rightarrow> False | Inr (r, b) \<Rightarrow> b" by code_simp
  then obtain r where r: "?claim = (Inr (r, True), snd ?claim)" by (cases ?claim) (auto split: sum.splits)
  have "ledger_run (drop 2 ex_ops) (snd ?claim) = ex_ledger"
    by (simp add: ex_ledger_def ex_ops_def ledger_run_def ClaimReservation_def)
  then show "fst (ClaimReservation (\<lambda>_. 8) (Inr ''u3'') (Context None) ''t'' ''a'' ''r3'' ''q1'' 1 ex_ledger) \<noteq> Inr (r', True)"
    using claim_granted_once [OF ok r refl] by metis
qed

text \<open>
  An expiry is bounded, ordered and complete. It returns at most as many reservations as
  asked for, oldest first, all of the tenant, expired, now parked for reconciliation and stored
  so; and when it returns fewer than asked for, no expired open reservation of the tenant is left.
\<close>

lemma expiry_complete:
  assumes "run_ok ops NewBudgetLedger"
    and "ExpireReservations now (Context None) t limit (ledger_run ops NewBudgetLedger) = (Inr rs, l')"
  shows "int (length rs) \<le> limit \<and> sorted (map (\<lambda>r. (rv_ExpiresAt r, rv_ID r)) rs)
    \<and> (\<forall>r \<in> set rs. rv_TenantID r = t \<and> rv_State r = ReservationReconcile \<and> rv_ExpiresAt r \<le> now
         \<and> map_of (bl_reservations l') (budgetKey t (rv_ID r)) = Some r)
    \<and> (int (length rs) < limit \<longrightarrow>
         (\<forall>k q. map_of (bl_reservations l') k = Some q \<longrightarrow> \<not> expired_open now t q))"
proof -
  let ?l = "ledger_run ops NewBudgetLedger"
  let ?c = "expiry_candidates now t ?l"
  let ?park = "\<lambda>r. r\<lparr>rv_State := ReservationReconcile\<rparr>"
  have inv: "ledger_inv ?l" by (rule run_inv [OF new_ledger_inv assms(1)])
  from assms(2) have limit: "0 < limit" and rs: "rs = map ?park (take (nat limit) ?c)" and l': "l' = park_all t (take (nat limit) ?c) ?l"
    by (auto simp: expire_candidates split: if_splits)
  have dist: "distinct (map rv_ID (take (nat limit) ?c))"
    using candidates_distinct [OF inv] by (metis distinct_take take_map)
  have stored: "map_of (bl_reservations l') (budgetKey t (rv_ID r)) = Some (?park r)" "expired_open now t r"
    if "r \<in> set (take (nat limit) ?c)" for r
    using that park_all_same [OF dist that] candidate_in_ledger [OF inv in_set_takeD [OF that]] by (simp_all add: l')
  have "sorted (map (\<lambda>r. (rv_ExpiresAt r, rv_ID r)) ?c)" unfolding expiry_candidates_def by (rule sorted_sort_key)
  then have "sorted (map (\<lambda>r. (rv_ExpiresAt r, rv_ID r)) rs)"
    using sorted_wrt_take [of "(\<le>)" "map (\<lambda>r. (rv_ExpiresAt r, rv_ID r)) ?c" "nat limit"] by (simp add: rs take_map comp_def)
  moreover have "int (length rs) \<le> limit" using limit by (simp add: rs)
  moreover have "\<forall>r \<in> set rs. rv_TenantID r = t \<and> rv_State r = ReservationReconcile \<and> rv_ExpiresAt r \<le> now
         \<and> map_of (bl_reservations l') (budgetKey t (rv_ID r)) = Some r"
    using stored by (auto simp: rs expired_open_def not_less)
  moreover have "\<not> expired_open now t q"
    if few: "int (length rs) < limit" and q: "map_of (bl_reservations l') k = Some q" for k q
  proof
    assume e: "expired_open now t q"
    have all: "take (nat limit) ?c = ?c" using few by (simp add: rs min_def split: if_splits)
    show False
    proof (cases "\<exists>r \<in> set ?c. k = budgetKey t (rv_ID r)")
      case True
      then have "rv_State q = ReservationReconcile" using stored q unfolding all by fastforce
      with e show False by (simp add: expired_open_def)
    next
      case False
      then have m: "map_of (bl_reservations ?l) k = Some q" using q unfolding l' all by (simp add: park_all_other)
      then have "q \<in> set ?c" using e by (force simp: expiry_candidates_def dest: map_of_SomeD)
      moreover have "k = budgetKey t (rv_ID q)" using ledger_inv_reservation [OF inv m] e by (simp add: expired_open_def)
      ultimately show False using False by blast
    qed
  qed
  ultimately show ?thesis by blast
qed

text \<open>
  An adjustment is applied once. Repeating it under the same idempotency key, at any later
  time, returns the first result, marked as a duplicate, and changes nothing.
\<close>

lemma adjustment_idempotent:
  assumes "Adjust now trace ctx adj l = (Inr result, l1)" and "l2 = ledger_run ops l1"
    and "sameBudgetAdjustment adj adj'" and "prepareBudgetAdjustment trace' adj' = Inr b"
  shows "Adjust now' trace' (Context None) adj' l2 = (Inr (result\<lparr>ar_Duplicate := True\<rparr>), l2)"
proof -
  from assms(1) obtain a where a: "prepareBudgetAdjustment trace adj = Inr a"
    by (auto simp: Adjust_def split: option.splits sum.splits)
  have "\<exists>v. map_of (bl_adjustments l1) (adjustment_key a) = Some v \<and> sameBudgetAdjustment (ma_request v) a
      \<and> (ma_result v)\<lparr>ar_Duplicate := True\<rparr> = result\<lparr>ar_Duplicate := True\<rparr>"
    using assms(1) a
    by (auto simp: Adjust_def Let_def sameBudgetAdjustment_def amap.look_store split: option.splits sum.splits if_splits)
  then obtain v where v: "map_of (bl_adjustments l2) (adjustment_key a) = Some v" "sameBudgetAdjustment (ma_request v) a"
    "(ma_result v)\<lparr>ar_Duplicate := True\<rparr> = result\<lparr>ar_Duplicate := True\<rparr>"
    using adjustments_run [of l1 "adjustment_key a" _ ops] unfolding assms(2) by blast
  have same: "sameBudgetAdjustment (ma_request v) b" and key: "adjustment_key b = adjustment_key a"
    using v(2) assms(3) prepared_same [OF a] prepared_same [OF assms(4)]
    by (metis same_adjustment_trans same_adjustment_sym same_adjustment_key)+
  show ?thesis using v same by (simp add: Adjust_def assms(4) key Let_def)
qed

definition ex_adjustment :: BudgetAdjustment where
  "ex_adjustment =
     \<lparr>aj_TenantID = ''t'', aj_ProjectID = ''a'', aj_PrincipalID = ''p'', aj_IdempotencyKey = ''i'', aj_Traceparent = [],
      aj_Tracestate = [], aj_PolicyVersion = [], aj_PolicyRuleID = [], aj_PolicyDecision = [], aj_PolicyReasons = [],
      aj_ParameterDigest = [], aj_ProjectState = [], aj_ProjectVersion = 0, aj_ExpectedVersion = 4,
      aj_HardLimitMicros = 20, aj_SoftLimitMicros = 10, aj_Currency = ''USD'', aj_Reason = ''more''\<rparr>"

text \<open>
  The limit check of an adjustment wraps around. With a hard limit near the largest 64-bit
  number, an account whose spent and reserved amounts together exceed 64 bits accepts a hard
  limit of zero.
\<close>

definition huge_ops :: "ledger_op list" where
  "huge_ops =
     [OpCreate 5 (Context None) (ex_account\<lparr>ba_LimitMicros := 2 ^ 63 - 1, ba_SoftLimitMicros := 0\<rparr>),
      OpReserve (\<lambda>_. 6) (Inr ''u1'') (Context None) ''t'' ''a'' ''r1'' ''q1'' 1 True,
      OpReserve (\<lambda>_. 7) (Inr ''u2'') (Context None) ''t'' ''a'' ''r2'' ''q2'' (2 ^ 63 - 2) True,
      OpSettle (Context None) ''t'' ''r1'' (2 ^ 63 - 1),
      OpAdjust 8 (Inr ex_trace) (Context None) (ex_adjustment\<lparr>aj_HardLimitMicros := 0, aj_SoftLimitMicros := 0\<rparr>)]"

lemma adjustment_limit_wraps:
  "\<exists>a. map_of (bl_accounts (ledger_run huge_ops NewBudgetLedger)) (budgetKey ''t'' ''a'') = Some a
     \<and> ba_LimitMicros a = 0 \<and> ba_SpentMicros a = 2 ^ 63 - 1 \<and> ba_ReservedMicros a = 2 ^ 63 - 2"
proof -
  have "case map_of (bl_accounts (ledger_run huge_ops NewBudgetLedger)) (budgetKey ''t'' ''a'') of
      None \<Rightarrow> False
    | Some a \<Rightarrow> ba_LimitMicros a = 0 \<and> ba_SpentMicros a = 2 ^ 63 - 1 \<and> ba_ReservedMicros a = 2 ^ 63 - 2"
    by code_simp
  then show ?thesis by (simp split: option.splits)
qed

end
