(* ===== verification/Go_Json.thy ===== *)
theory Go_Json
  imports Go_Sha256 Aor_Errors Contract_Types
begin

text \<open>
  What the program uses of \<open>encoding/json\<close> on raw messages, and \<open>pkg/canonicaljson\<close>. A raw message
  is its bytes; \<open>json.Valid\<close> is the byte-by-byte state machine of the library's scanner, with its
  stack of open objects and arrays. The canonical form itself is computed by the third-party
  module \<open>github.com/deszhou/jcs\<close>: its \<open>Transform\<close> is the parameter \<open>jcs\<close> of the definitions,
  an output or no output.
\<close>

type_synonym jcs_transform = "string \<Rightarrow> string option"

section \<open>Validity\<close>

datatype json_scope = ParseObjectKey | ParseObjectValue | ParseArrayValue

datatype json_step =
    BeginValue | BeginValueOrEmpty | BeginStringOrEmpty | BeginString | EndValue | EndTop
  | InString | InStringEsc | InStringEscU nat
  | NumNeg | Num1 | Num0 | NumDot | NumDot0 | NumE | NumESign | NumE0
  | InLiteral string

type_synonym json_scanner = "json_step \<times> json_scope list"

definition json_space :: "char \<Rightarrow> bool" where
  "json_space c \<longleftrightarrow> c \<in> {CHR '' '', CHR 0x09, CHR 0x0D, CHR 0x0A}"

definition hex_digit_char :: "char \<Rightarrow> bool" where
  "hex_digit_char c \<longleftrightarrow>
     is_digit c \<or> CHR ''a'' \<le> c \<and> c \<le> CHR ''f'' \<or> CHR ''A'' \<le> c \<and> c \<le> CHR ''F''"

definition maxNestingDepth :: nat where
  "maxNestingDepth = 10000"

definition json_push :: "json_step \<Rightarrow> json_scope \<Rightarrow> json_scope list \<Rightarrow> json_scanner option" where
  "json_push next scope stack =
     (if length stack + 1 \<le> maxNestingDepth then Some (next, scope # stack) else None)"

definition json_pop :: "json_scope list \<Rightarrow> json_scanner" where
  "json_pop stack = (if tl stack = [] then (EndTop, []) else (EndValue, tl stack))"

definition json_end_value :: "json_scope list \<Rightarrow> char \<Rightarrow> json_scanner option" where
  "json_end_value stack c =
     (case stack of
        [] \<Rightarrow> if json_space c then Some (EndTop, []) else None
      | scope # outer \<Rightarrow>
          if json_space c then Some (EndValue, stack)
          else (case scope of
                  ParseObjectKey \<Rightarrow> if c = CHR '':'' then Some (BeginValue, ParseObjectValue # outer) else None
                | ParseObjectValue \<Rightarrow>
                    if c = CHR '','' then Some (BeginString, ParseObjectKey # outer)
                    else if c = CHR ''}'' then Some (json_pop stack) else None
                | ParseArrayValue \<Rightarrow>
                    if c = CHR '','' then Some (BeginValue, stack)
                    else if c = CHR '']'' then Some (json_pop stack) else None))"

definition json_begin_value :: "json_scope list \<Rightarrow> char \<Rightarrow> json_scanner option" where
  "json_begin_value stack c =
     (if c = CHR ''{'' then json_push BeginStringOrEmpty ParseObjectKey stack
      else if c = CHR ''['' then json_push BeginValueOrEmpty ParseArrayValue stack
      else if c = CHR 0x22 then Some (InString, stack)
      else if c = CHR ''-'' then Some (NumNeg, stack)
      else if c = CHR ''0'' then Some (Num0, stack)
      else if c = CHR ''t'' then Some (InLiteral ''rue'', stack)
      else if c = CHR ''f'' then Some (InLiteral ''alse'', stack)
      else if c = CHR ''n'' then Some (InLiteral ''ull'', stack)
      else if is_digit c then Some (Num1, stack)
      else None)"

definition json_after_int :: "json_scope list \<Rightarrow> char \<Rightarrow> json_scanner option" where
  "json_after_int stack c =
     (if c = CHR ''.'' then Some (NumDot, stack)
      else if c = CHR ''e'' \<or> c = CHR ''E'' then Some (NumE, stack)
      else json_end_value stack c)"

fun json_step_on :: "json_scanner \<Rightarrow> char \<Rightarrow> json_scanner option" where
  "json_step_on (BeginValue, stack) c =
     (if json_space c then Some (BeginValue, stack) else json_begin_value stack c)"
| "json_step_on (BeginValueOrEmpty, stack) c =
     (if json_space c then Some (BeginValueOrEmpty, stack)
      else if c = CHR '']'' then json_end_value stack c else json_begin_value stack c)"
| "json_step_on (BeginStringOrEmpty, stack) c =
     (if json_space c then Some (BeginStringOrEmpty, stack)
      else if c = CHR ''}'' then json_end_value (ParseObjectValue # tl stack) c
      else if c = CHR 0x22 then Some (InString, stack) else None)"
| "json_step_on (BeginString, stack) c =
     (if json_space c then Some (BeginString, stack)
      else if c = CHR 0x22 then Some (InString, stack) else None)"
| "json_step_on (EndValue, stack) c = json_end_value stack c"
| "json_step_on (EndTop, stack) c = (if json_space c then Some (EndTop, stack) else None)"
| "json_step_on (InString, stack) c =
     (if c = CHR 0x22 then Some (EndValue, stack)
      else if c = CHR 0x5C then Some (InStringEsc, stack)
      else if c < CHR 0x20 then None else Some (InString, stack))"
| "json_step_on (InStringEsc, stack) c =
     (if c \<in> {CHR ''b'', CHR ''f'', CHR ''n'', CHR ''r'', CHR ''t'', CHR 0x5C, CHR ''/'', CHR 0x22}
      then Some (InString, stack)
      else if c = CHR ''u'' then Some (InStringEscU 4, stack) else None)"
| "json_step_on (InStringEscU n, stack) c =
     (if hex_digit_char c then Some (if n \<le> 1 then InString else InStringEscU (n - 1), stack) else None)"
| "json_step_on (NumNeg, stack) c =
     (if c = CHR ''0'' then Some (Num0, stack) else if is_digit c then Some (Num1, stack) else None)"
| "json_step_on (Num1, stack) c =
     (if is_digit c then Some (Num1, stack) else json_after_int stack c)"
| "json_step_on (Num0, stack) c = json_after_int stack c"
| "json_step_on (NumDot, stack) c = (if is_digit c then Some (NumDot0, stack) else None)"
| "json_step_on (NumDot0, stack) c =
     (if is_digit c then Some (NumDot0, stack)
      else if c = CHR ''e'' \<or> c = CHR ''E'' then Some (NumE, stack)
      else json_end_value stack c)"
| "json_step_on (NumE, stack) c =
     (if c = CHR ''+'' \<or> c = CHR ''-'' then Some (NumESign, stack)
      else if is_digit c then Some (NumE0, stack) else None)"
| "json_step_on (NumESign, stack) c = (if is_digit c then Some (NumE0, stack) else None)"
| "json_step_on (NumE0, stack) c =
     (if is_digit c then Some (NumE0, stack) else json_end_value stack c)"
| "json_step_on (InLiteral rest, stack) c =
     (case rest of
        [] \<Rightarrow> None
      | r # rs \<Rightarrow> if c = r then Some (if rs = [] then EndValue else InLiteral rs, stack) else None)"

fun json_scan :: "json_scanner \<Rightarrow> string \<Rightarrow> json_scanner option" where
  "json_scan s [] = Some s"
| "json_scan s (c # cs) = (case json_step_on s c of None \<Rightarrow> None | Some s' \<Rightarrow> json_scan s' cs)"

text \<open>The end of the input: a value that is complete, or that one more blank completes.\<close>

definition json_eof :: "json_scanner \<Rightarrow> bool" where
  "json_eof s \<longleftrightarrow>
     fst s = EndTop \<or> (case json_step_on s CHR '' '' of None \<Rightarrow> False | Some s' \<Rightarrow> fst s' = EndTop)"

definition json_valid :: "string \<Rightarrow> bool" where
  "json_valid data =
     (case json_scan (BeginValue, []) data of None \<Rightarrow> False | Some s \<Rightarrow> json_eof s)"

text \<open>
  Decoding into a map of raw messages succeeds with a map exactly for a valid object: \<open>null\<close>
  leaves the map nil, and every other value is a type error.
\<close>

definition json_object :: "string \<Rightarrow> bool" where
  "json_object data \<longleftrightarrow>
     json_valid data \<and> (case dropWhile json_space data of [] \<Rightarrow> False | c # _ \<Rightarrow> c = CHR ''{'')"

section \<open>Canonical digests\<close>

definition Canonicalize :: "jcs_transform \<Rightarrow> string \<Rightarrow> string option" where
  "Canonicalize jcs input = (if input = [] then None else jcs input)"

definition Digest :: "jcs_transform \<Rightarrow> string \<Rightarrow> string option" where
  "Digest jcs input =
     (case Canonicalize jcs input of
        None \<Rightarrow> None
      | Some canonical \<Rightarrow> Some (''sha256:'' @ sha256_hex canonical))"

section \<open>Facts\<close>

lemma json_valid_samples:
  "json_valid ''{}''" "json_valid '' [1, -0.5e+3 ,true,null]'' " "\<not> json_valid ''''"
  "\<not> json_valid ''01''" "\<not> json_valid ''[1,]''" "json_object ''{ }''" "\<not> json_object ''null''"
  by code_simp+

lemma json_valid_not_Nil: "json_valid s \<Longrightarrow> s \<noteq> []"
  by (auto simp: json_valid_def json_eof_def json_space_def)

lemma json_object_valid: "json_object s \<Longrightarrow> json_valid s"
  by (simp add: json_object_def)

lemma Digest_Some: "Digest jcs s = Some d \<Longrightarrow> validateDigest d = None"
  by (auto simp: Digest_def validateDigest_iff digest_pattern_def has_prefix_def sha256_hex_length sha256_hex_lower
      split: option.splits)

end
