(* ===== verification/Event_Store.thy ===== *)
theory Event_Store
  imports Go_Json
begin

text \<open>
  The event store of \<open>internal/eventing\<close>: the records of \<open>store.go\<close>, the in-memory store of
  \<open>memory.go\<close> and the binding of replay states of \<open>replay_state.go\<close>. A transaction updates
  projections, appends one event per projection, fills the outbox and records the command under
  its idempotency key. Each method that takes the mutex is one function from the store to its
  outcome and the store afterwards.
\<close>

section \<open>Records\<close>

datatype store_error =
    StoreAor aor_error
  | ErrInjectedFailure
  | ErrCommitResultUnknown
  | ErrReplayStateUnavailable string
  | ErrOutboxClaimLost
  | StoreText string
  | StoreContext go_error

record Projection =
  pj_TenantID :: string
  pj_ProjectID :: string
  pj_AggregateType :: string
  pj_AggregateID :: string
  pj_Version :: int
  pj_State :: string

definition zero_Projection :: Projection where
  "zero_Projection =
     \<lparr>pj_TenantID = [], pj_ProjectID = [], pj_AggregateType = [], pj_AggregateID = [], pj_Version = 0,
      pj_State = []\<rparr>"

record ProjectionUpdate =
  pu_TenantID :: string
  pu_ProjectID :: string
  pu_AggregateType :: string
  pu_AggregateID :: string
  pu_ExpectedVersion :: int
  pu_NextVersion :: int
  pu_State :: string

record DomainEvent =
  de_EventID :: string
  de_TenantID :: string
  de_ProjectID :: string
  de_AggregateType :: string
  de_AggregateID :: string
  de_AggregateVersion :: int
  de_Type :: string
  de_Payload :: string
  de_PayloadSHA256 :: string
  de_OccurredAt :: time
  de_CorrelationID :: string
  de_CausationID :: string
  de_Traceparent :: string
  de_Tracestate :: string
  de_TaskID :: string
  de_TaskIDReason :: string
  de_AgentRunID :: string
  de_AgentRunReason :: string
  de_ReplayState :: string
  de_ReplayStateSHA256 :: string

record OutboxRecord =
  ob_ID :: string
  ob_Event :: DomainEvent
  ob_PublishedAt :: "time option"
  ob_Attempts :: int
  ob_NextAttempt :: time

record ApprovalRecord =
  ap_ID :: string
  ap_TenantID :: string
  ap_ProjectID :: string
  ap_ApprovalType :: string
  ap_SubjectType :: string
  ap_SubjectID :: string
  ap_SubjectVersion :: int
  ap_SubjectSHA256 :: string
  ap_PrincipalID :: string
  ap_Reason :: string
  ap_IssuedAt :: time
  ap_ExpiresAt :: "time option"
  ap_RevokedAt :: "time option"
  ap_Signature :: string

record UserDecisionRecord =
  ud_ID :: string
  ud_TenantID :: string
  ud_ProjectID :: string
  ud_ModuleTaskID :: string
  ud_AttemptSeriesID :: string
  ud_Decision :: string
  ud_ReportSHA256 :: string
  ud_PrincipalID :: string
  ud_ApprovalID :: string
  ud_CreatedAt :: time

record TransactionRequest =
  tq_TenantID :: string
  tq_PrincipalID :: string
  tq_IdempotencyKey :: string
  tq_RequestSHA256 :: string
  tq_Updates :: "ProjectionUpdate list"
  tq_Events :: "DomainEvent list"
  tq_Approvals :: "ApprovalRecord list"
  tq_UserDecisions :: "UserDecisionRecord list"
  tq_Result :: string
  tq_ResultSHA256 :: string

record TransactionResult =
  tx_Result :: string
  tx_Events :: "DomainEvent list"
  tx_Duplicate :: bool

datatype FailurePoint = FailureNone | FailureBeforeCommit | FailureAfterCommit

record StoreStats =
  ss_Projections :: nat
  ss_Events :: nat
  ss_Outbox :: nat
  ss_CommandResults :: nat
  ss_Approvals :: nat
  ss_UserDecisions :: nat

record commandRecord =
  cm_RequestSHA256 :: string
  cm_Result :: TransactionResult

record MemoryStore =
  ms_projections :: "(string, Projection) gomap"
  ms_events :: "(string, DomainEvent) gomap"
  ms_versions :: "(string, string) gomap"
  ms_outbox :: "(string, OutboxRecord) gomap"
  ms_commands :: "(string, commandRecord) gomap"
  ms_approvals :: "(string, ApprovalRecord) gomap"
  ms_decisions :: "(string, UserDecisionRecord) gomap"
  ms_failure :: FailurePoint

definition NewMemoryStore :: MemoryStore where
  "NewMemoryStore =
     \<lparr>ms_projections = [], ms_events = [], ms_versions = [], ms_outbox = [], ms_commands = [],
      ms_approvals = [], ms_decisions = [], ms_failure = FailureNone\<rparr>"

section \<open>Keys and copies\<close>

definition key_byte :: char where
  "key_byte = CHR 0x00"

definition commandKey :: "string \<Rightarrow> string \<Rightarrow> string \<Rightarrow> string" where
  "commandKey tenantID principalID key = tenantID @ [key_byte] @ principalID @ [key_byte] @ key"

definition aggregateKey :: "string \<Rightarrow> string \<Rightarrow> string \<Rightarrow> string" where
  "aggregateKey tenantID aggregateType aggregateID =
     tenantID @ [key_byte] @ aggregateType @ [key_byte] @ aggregateID"

definition versionKey :: "string \<Rightarrow> string \<Rightarrow> string \<Rightarrow> int \<Rightarrow> string" where
  "versionKey tenantID aggregateType aggregateID version =
     tenantID @ [key_byte] @ aggregateType @ [key_byte] @ aggregateID @ [key_byte] @ show_int version"

definition cloneJSON :: "string \<Rightarrow> string" where
  "cloneJSON value = [] @ value"

definition cloneProjection :: "Projection \<Rightarrow> Projection" where
  "cloneProjection value = value\<lparr>pj_State := cloneJSON (pj_State value)\<rparr>"

definition cloneEvent :: "DomainEvent \<Rightarrow> DomainEvent" where
  "cloneEvent value =
     value\<lparr>de_Payload := cloneJSON (de_Payload value), de_ReplayState := cloneJSON (de_ReplayState value)\<rparr>"

definition cloneApproval :: "ApprovalRecord \<Rightarrow> ApprovalRecord" where
  "cloneApproval value =
     value\<lparr>ap_ExpiresAt := map_option (\<lambda>t. t) (ap_ExpiresAt value),
       ap_RevokedAt := map_option (\<lambda>t. t) (ap_RevokedAt value)\<rparr>"

definition cloneOutboxRecord :: "OutboxRecord \<Rightarrow> OutboxRecord" where
  "cloneOutboxRecord value =
     value\<lparr>ob_Event := cloneEvent (ob_Event value),
       ob_PublishedAt := map_option (\<lambda>t. t) (ob_PublishedAt value)\<rparr>"

definition cloneResult :: "TransactionResult \<Rightarrow> TransactionResult" where
  "cloneResult value =
     value\<lparr>tx_Result := cloneJSON (tx_Result value), tx_Events := map cloneEvent (tx_Events value)\<rparr>"

lemma cloneJSON_id [simp, clone_simps]: "cloneJSON value = value"
  by (simp add: cloneJSON_def)

lemma cloneProjection_id [simp, clone_simps]: "cloneProjection value = value"
  by (simp add: cloneProjection_def)

lemma cloneEvent_id [simp, clone_simps]: "cloneEvent value = value"
  by (simp add: cloneEvent_def)

lemma cloneApproval_id [simp, clone_simps]: "cloneApproval value = value"
  by (simp add: cloneApproval_def option.map_ident)

lemma cloneOutboxRecord_id [simp, clone_simps]: "cloneOutboxRecord value = value"
  by (simp add: cloneOutboxRecord_def option.map_ident)

lemma cloneResult_id [simp, clone_simps]: "cloneResult value = value"
  by (simp add: cloneResult_def map_idI)

section \<open>Validation\<close>

definition store_invalid :: "string \<Rightarrow> string \<Rightarrow> store_error" where
  "store_invalid correlationID scope = StoreAor (New CodeInvalidArgument correlationID [(''scope'', DString scope)])"

definition store_mismatch :: "string \<Rightarrow> string \<Rightarrow> store_error" where
  "store_mismatch correlationID scope =
     StoreAor (New CodeArtifactHashMismatch correlationID [(''scope'', DString scope)])"

fun check_updates ::
  "string \<Rightarrow> ProjectionUpdate list \<Rightarrow> (string, ProjectionUpdate) gomap \<Rightarrow>
     store_error + (string, ProjectionUpdate) gomap" where
  "check_updates tenantID [] updates = Inr updates"
| "check_updates tenantID (update # rest) updates =
     (let key = aggregateKey tenantID (pu_AggregateType update) (pu_AggregateID update) in
      if pu_TenantID update \<noteq> tenantID \<or> pu_ProjectID update = [] \<or> pu_AggregateType update = []
         \<or> pu_AggregateID update = [] \<or> pu_ExpectedVersion update < 0
         \<or> pu_NextVersion update \<noteq> add64 (pu_ExpectedVersion update) 1 \<or> length (pu_State update) = 0
      then Inl (store_invalid [] ''projection update'')
      else if gomap_has updates key then Inl (store_invalid [] ''duplicate aggregate update'')
      else check_updates tenantID rest (gomap_put key update updates))"

fun check_events ::
  "string \<Rightarrow> (string, ProjectionUpdate) gomap \<Rightarrow> DomainEvent list \<Rightarrow> string list \<Rightarrow> string list \<Rightarrow>
     store_error + string list" where
  \<comment> \<open>the identifiers seen, and the keys of the aggregates seen, which are the result\<close>
  "check_events tenantID updates [] seenEvents seenAggregates = Inr seenAggregates"
| "check_events tenantID updates (event # rest) seenEvents seenAggregates =
     (let key = aggregateKey tenantID (de_AggregateType event) (de_AggregateID event);
          bad = store_invalid (de_CorrelationID event) ''domain event'' in
      case map_of updates key of
        None \<Rightarrow> Inl bad
      | Some update \<Rightarrow>
          if de_EventID event = [] \<or> de_EventID event \<in> set seenEvents \<or> key \<in> set seenAggregates
             \<or> de_TenantID event \<noteq> pu_TenantID update \<or> de_ProjectID event \<noteq> pu_ProjectID update
             \<or> de_AggregateVersion event \<noteq> pu_NextVersion update \<or> de_Type event = []
             \<or> de_PayloadSHA256 event = [] \<or> is_zero_time (de_OccurredAt event)
             \<or> \<not> json_valid (de_Payload event)
          then Inl bad
          else check_events tenantID updates rest (de_EventID event # seenEvents) (key # seenAggregates))"

fun check_payloads :: "jcs_transform \<Rightarrow> DomainEvent list \<Rightarrow> store_error option" where
  "check_payloads jcs [] = None"
| "check_payloads jcs (event # rest) =
     (if Digest jcs (de_Payload event) \<noteq> Some (de_PayloadSHA256 event)
      then Some (store_mismatch (de_CorrelationID event) ''event payload'')
      else check_payloads jcs rest)"

fun check_approvals ::
  "string \<Rightarrow> ApprovalRecord list \<Rightarrow> string list \<Rightarrow> store_error + string list" where
  "check_approvals tenantID [] seen = Inr seen"
| "check_approvals tenantID (approval # rest) seen =
     (if ap_ID approval = [] \<or> ap_ID approval \<in> set seen \<or> ap_TenantID approval \<noteq> tenantID
         \<or> ap_ProjectID approval = [] \<or> ap_ApprovalType approval = [] \<or> ap_SubjectType approval = []
         \<or> ap_SubjectID approval = [] \<or> ap_SubjectVersion approval < 1 \<or> ap_SubjectSHA256 approval = []
         \<or> ap_PrincipalID approval = [] \<or> ap_Reason approval = [] \<or> is_zero_time (ap_IssuedAt approval)
         \<or> ap_Signature approval = []
      then Inl (store_invalid [] ''approval record'')
      else if (case ap_ExpiresAt approval of None \<Rightarrow> False | Some t \<Rightarrow> \<not> t > ap_IssuedAt approval)
      then Inl (store_invalid [] ''approval expiry'')
      else if ap_RevokedAt approval \<noteq> None
      then Inl (StoreAor (New CodeApprovalRequired [] [(''scope'', DString ''revoked approval'')]))
      else check_approvals tenantID rest (ap_ID approval # seen))"

fun check_decisions ::
  "string \<Rightarrow> string \<Rightarrow> string list \<Rightarrow> UserDecisionRecord list \<Rightarrow> string list \<Rightarrow> store_error option" where
  "check_decisions tenantID principalID approvals [] seen = None"
| "check_decisions tenantID principalID approvals (decision # rest) seen =
     (if ud_ID decision = [] \<or> ud_ID decision \<in> set seen \<or> ud_TenantID decision \<noteq> tenantID
         \<or> ud_ProjectID decision = [] \<or> ud_ModuleTaskID decision = [] \<or> ud_AttemptSeriesID decision = []
         \<or> ud_Decision decision = [] \<or> ud_ReportSHA256 decision = [] \<or> ud_PrincipalID decision \<noteq> principalID
         \<or> ud_ApprovalID decision = [] \<or> is_zero_time (ud_CreatedAt decision)
      then Some (store_invalid [] ''user decision record'')
      else if ud_ApprovalID decision \<notin> set approvals
      then Some (StoreAor (New CodeApprovalRequired [] [(''scope'', DString ''user decision approval'')]))
      else check_decisions tenantID principalID approvals rest (ud_ID decision # seen))"

definition validateTransaction :: "jcs_transform \<Rightarrow> TransactionRequest \<Rightarrow> store_error option" where
  "validateTransaction jcs request =
     (if tq_TenantID request = [] \<or> tq_PrincipalID request = [] \<or> tq_IdempotencyKey request = []
         \<or> tq_RequestSHA256 request = [] \<or> tq_ResultSHA256 request = [] \<or> length (tq_Updates request) = 0
         \<or> length (tq_Events request) = 0
      then Some (store_invalid [] ''transaction'')
      else case check_updates (tq_TenantID request) (tq_Updates request) [] of
        Inl err \<Rightarrow> Some err
      | Inr updates \<Rightarrow>
          (case check_events (tq_TenantID request) updates (tq_Events request) [] [] of
             Inl err \<Rightarrow> Some err
           | Inr seenAggregates \<Rightarrow>
               if length seenAggregates \<noteq> length updates
               then Some (store_invalid [] ''projection event coverage'')
               else if \<not> json_valid (tq_Result request) then Some (StoreText ''transaction result is not JSON'')
               else if Digest jcs (tq_Result request) \<noteq> Some (tq_ResultSHA256 request)
               then Some (store_mismatch [] ''transaction result'')
               else (case check_payloads jcs (tq_Events request) of
                       Some err \<Rightarrow> Some err
                     | None \<Rightarrow>
                         (case check_approvals (tq_TenantID request) (tq_Approvals request) [] of
                            Inl err \<Rightarrow> Some err
                          | Inr approvals \<Rightarrow>
                              check_decisions (tq_TenantID request) (tq_PrincipalID request) approvals
                                (tq_UserDecisions request) []))))"

section \<open>Replay states\<close>

definition unavailable :: "DomainEvent \<Rightarrow> string \<Rightarrow> store_error" where
  "unavailable event reason =
     ErrReplayStateUnavailable (''event '' @ de_EventID event @ '' '' @ reason)"

definition bindReplayState :: "jcs_transform \<Rightarrow> DomainEvent \<Rightarrow> string \<Rightarrow> store_error + DomainEvent" where
  "bindReplayState jcs event state =
     (if \<not> json_object state then Inl (unavailable event ''state is not an object'')
      else (case Digest jcs state of
              None \<Rightarrow> Inl (unavailable event ''state digest'')
            | Some digest \<Rightarrow>
                Inr (event\<lparr>de_ReplayState := cloneJSON state, de_ReplayStateSHA256 := digest\<rparr>)))"

definition update_states :: "ProjectionUpdate list \<Rightarrow> (string, string) gomap" where
  "update_states updates =
     foldl (\<lambda>states update.
         gomap_put (aggregateKey (pu_TenantID update) (pu_AggregateType update) (pu_AggregateID update))
           (pu_State update) states) [] updates"

fun bind_events ::
  "jcs_transform \<Rightarrow> (string, string) gomap \<Rightarrow> DomainEvent list \<Rightarrow> store_error + DomainEvent list" where
  "bind_events jcs states [] = Inr []"
| "bind_events jcs states (event # rest) =
     (case map_of states (aggregateKey (de_TenantID event) (de_AggregateType event) (de_AggregateID event)) of
        None \<Rightarrow> Inl (unavailable event ''has no projection update'')
      | Some state \<Rightarrow>
          (case bindReplayState jcs event state of
             Inl err \<Rightarrow> Inl err
           | Inr b \<Rightarrow> (case bind_events jcs states rest of Inl err \<Rightarrow> Inl err | Inr bs \<Rightarrow> Inr (b # bs))))"

definition bindReplayStates ::
  "jcs_transform \<Rightarrow> DomainEvent list \<Rightarrow> ProjectionUpdate list \<Rightarrow> store_error + DomainEvent list" where
  "bindReplayStates jcs events updates = bind_events jcs (update_states updates) events"

section \<open>Transactions\<close>

definition lookupLocked ::
  "string \<Rightarrow> string \<Rightarrow> string \<Rightarrow> string \<Rightarrow> MemoryStore \<Rightarrow> store_error + TransactionResult option" where
  "lookupLocked tenantID principalID idempotencyKey requestSHA256 s =
     (case map_of (ms_commands s) (commandKey tenantID principalID idempotencyKey) of
        None \<Rightarrow> Inr None
      | Some record \<Rightarrow>
          if cm_RequestSHA256 record \<noteq> requestSHA256
          then Inl (StoreAor (New CodeIdempotencyConflict [] []))
          else Inr (Some ((cloneResult (cm_Result record))\<lparr>tx_Duplicate := True\<rparr>)))"

definition Lookup ::
  "string \<Rightarrow> string \<Rightarrow> string \<Rightarrow> string \<Rightarrow> MemoryStore \<Rightarrow> store_error + TransactionResult option" where
  "Lookup tenantID principalID idempotencyKey requestSHA256 s =
     lookupLocked tenantID principalID idempotencyKey requestSHA256 s"

definition Load :: "string \<Rightarrow> string \<Rightarrow> string \<Rightarrow> MemoryStore \<Rightarrow> Projection \<times> bool" where
  "Load tenantID aggregateType aggregateID s =
     (case map_of (ms_projections s) (aggregateKey tenantID aggregateType aggregateID) of
        None \<Rightarrow> (zero_Projection, False)
      | Some projection \<Rightarrow> (cloneProjection projection, True))"

definition consumeFailure :: "FailurePoint \<Rightarrow> MemoryStore \<Rightarrow> bool \<times> MemoryStore" where
  "consumeFailure point s =
     (if ms_failure s \<noteq> point then (False, s) else (True, s\<lparr>ms_failure := FailureNone\<rparr>))"

definition FailNext :: "FailurePoint \<Rightarrow> MemoryStore \<Rightarrow> MemoryStore" where
  "FailNext point s = s\<lparr>ms_failure := point\<rparr>"

definition current_version :: "MemoryStore \<Rightarrow> string \<Rightarrow> int" where
  \<comment> \<open>a missing projection reads as the zero value, whose version is 0\<close>
  "current_version s key =
     (case map_of (ms_projections s) key of None \<Rightarrow> pj_Version zero_Projection | Some p \<Rightarrow> pj_Version p)"

fun conflict_updates :: "MemoryStore \<Rightarrow> string \<Rightarrow> ProjectionUpdate list \<Rightarrow> store_error option" where
  "conflict_updates s tenantID [] = None"
| "conflict_updates s tenantID (update # rest) =
     (let actual = current_version s (aggregateKey tenantID (pu_AggregateType update) (pu_AggregateID update)) in
      if actual \<noteq> pu_ExpectedVersion update
      then Some (StoreAor (New CodeStateVersionConflict []
             [(''expectedVersion'', DInt (pu_ExpectedVersion update)), (''actualVersion'', DInt actual)]))
      else conflict_updates s tenantID rest)"

fun conflict_events :: "MemoryStore \<Rightarrow> string \<Rightarrow> DomainEvent list \<Rightarrow> store_error option" where
  "conflict_events s tenantID [] = None"
| "conflict_events s tenantID (event # rest) =
     (if gomap_has (ms_events s) (de_EventID event)
      then Some (StoreAor (New CodeConflict (de_CorrelationID event) [(''scope'', DString ''eventId'')]))
      else if gomap_has (ms_versions s)
                (versionKey tenantID (de_AggregateType event) (de_AggregateID event) (de_AggregateVersion event))
      then Some (StoreAor (New CodeStateVersionConflict (de_CorrelationID event) []))
      else conflict_events s tenantID rest)"

definition conflict_ids :: "('v \<Rightarrow> string) \<Rightarrow> string \<Rightarrow> (string, 'v) gomap \<Rightarrow> 'v list \<Rightarrow> store_error option" where
  "conflict_ids id_of scope m records =
     (if list_ex (\<lambda>r. gomap_has m (id_of r)) records
      then Some (StoreAor (New CodeConflict [] [(''scope'', DString scope)])) else None)"

definition check_conflicts :: "MemoryStore \<Rightarrow> TransactionRequest \<Rightarrow> store_error option" where
  "check_conflicts s request =
     (case conflict_updates s (tq_TenantID request) (tq_Updates request) of
        Some err \<Rightarrow> Some err
      | None \<Rightarrow>
          (case conflict_events s (tq_TenantID request) (tq_Events request) of
             Some err \<Rightarrow> Some err
           | None \<Rightarrow>
               (case conflict_ids ap_ID ''approvalId'' (ms_approvals s) (tq_Approvals request) of
                  Some err \<Rightarrow> Some err
                | None \<Rightarrow> conflict_ids ud_ID ''userDecisionId'' (ms_decisions s) (tq_UserDecisions request))))"

definition store_update :: "string \<Rightarrow> MemoryStore \<Rightarrow> ProjectionUpdate \<Rightarrow> MemoryStore" where
  "store_update tenantID s update =
     s\<lparr>ms_projections :=
         gomap_put (aggregateKey tenantID (pu_AggregateType update) (pu_AggregateID update))
           \<lparr>pj_TenantID = pu_TenantID update, pj_ProjectID = pu_ProjectID update,
            pj_AggregateType = pu_AggregateType update, pj_AggregateID = pu_AggregateID update,
            pj_Version = pu_NextVersion update, pj_State = cloneJSON (pu_State update)\<rparr>
           (ms_projections s)\<rparr>"

definition outboxID :: "string \<Rightarrow> string" where
  "outboxID eventID = ''outbox_'' @ eventID"

definition store_event :: "string \<Rightarrow> MemoryStore \<Rightarrow> DomainEvent \<Rightarrow> MemoryStore" where
  "store_event tenantID s event =
     (let event = cloneEvent event; id = outboxID (de_EventID event) in
      s\<lparr>ms_events := gomap_put (de_EventID event) event (ms_events s),
        ms_versions :=
          gomap_put
            (versionKey tenantID (de_AggregateType event) (de_AggregateID event) (de_AggregateVersion event))
            (de_EventID event) (ms_versions s),
        ms_outbox :=
          gomap_put id
            \<lparr>ob_ID = id, ob_Event = event, ob_PublishedAt = None, ob_Attempts = 0,
             ob_NextAttempt = de_OccurredAt event\<rparr> (ms_outbox s)\<rparr>)"

definition store_approval :: "MemoryStore \<Rightarrow> ApprovalRecord \<Rightarrow> MemoryStore" where
  "store_approval s approval =
     s\<lparr>ms_approvals := gomap_put (ap_ID approval) (cloneApproval approval) (ms_approvals s)\<rparr>"

definition store_decision :: "MemoryStore \<Rightarrow> UserDecisionRecord \<Rightarrow> MemoryStore" where
  "store_decision s decision =
     s\<lparr>ms_decisions := gomap_put (ud_ID decision) decision (ms_decisions s)\<rparr>"

definition transaction_result :: "TransactionRequest \<Rightarrow> TransactionResult" where
  "transaction_result request =
     \<lparr>tx_Result = cloneJSON (tq_Result request), tx_Events = map cloneEvent (tq_Events request),
      tx_Duplicate = False\<rparr>"

definition commit_tables :: "TransactionRequest \<Rightarrow> MemoryStore \<Rightarrow> MemoryStore" where
  "commit_tables request s =
     foldl store_decision
       (foldl store_approval
         (foldl (store_event (tq_TenantID request))
           (foldl (store_update (tq_TenantID request)) s (tq_Updates request))
           (tq_Events request))
         (tq_Approvals request))
       (tq_UserDecisions request)"

definition commit :: "TransactionRequest \<Rightarrow> MemoryStore \<Rightarrow> MemoryStore" where
  "commit request s =
     (let s' = commit_tables request s in
      s'\<lparr>ms_commands :=
           gomap_put (commandKey (tq_TenantID request) (tq_PrincipalID request) (tq_IdempotencyKey request))
             \<lparr>cm_RequestSHA256 = tq_RequestSHA256 request, cm_Result = transaction_result request\<rparr>
             (ms_commands s')\<rparr>)"

definition Execute ::
  "jcs_transform \<Rightarrow> TransactionRequest \<Rightarrow> MemoryStore \<Rightarrow> (store_error + TransactionResult) \<times> MemoryStore" where
  "Execute jcs request s =
     (case lookupLocked (tq_TenantID request) (tq_PrincipalID request) (tq_IdempotencyKey request)
             (tq_RequestSHA256 request) s of
        Inl err \<Rightarrow> (Inl err, s)
      | Inr (Some result) \<Rightarrow> (Inr result, s)
      | Inr None \<Rightarrow>
          (case validateTransaction jcs request of
             Some err \<Rightarrow> (Inl err, s)
           | None \<Rightarrow>
               (case bindReplayStates jcs (tq_Events request) (tq_Updates request) of
                  Inl err \<Rightarrow> (Inl err, s)
                | Inr boundEvents \<Rightarrow>
                    (let request = request\<lparr>tq_Events := boundEvents\<rparr> in
                     case check_conflicts s request of
                       Some err \<Rightarrow> (Inl err, s)
                     | None \<Rightarrow>
                         (case consumeFailure FailureBeforeCommit s of
                            (True, s') \<Rightarrow> (Inl ErrInjectedFailure, s')
                          | (False, s') \<Rightarrow>
                              (case consumeFailure FailureAfterCommit (commit request s') of
                                 (True, s'') \<Rightarrow> (Inl ErrCommitResultUnknown, s'')
                               | (False, s'') \<Rightarrow> (Inr (cloneResult (transaction_result request)), s'')))))))"

section \<open>Reading\<close>

text \<open>
  A context is given by what its \<open>Err\<close> returns, and as an option where the code tests it for
  nil. The listings sort; ties, which Go's sort may leave in any order, keep the order of the
  map here.
\<close>

type_synonym live_context = "go_error option"

definition ListProjections :: "string \<Rightarrow> string \<Rightarrow> string \<Rightarrow> MemoryStore \<Rightarrow> store_error + Projection list" where
  "ListProjections tenantID projectID aggregateType s =
     (if tenantID = [] \<or> projectID = [] \<or> aggregateType = [] then Inl (store_invalid [] ''projection list'')
      else Inr (sort_key pj_AggregateID
             (map cloneProjection
               (filter (\<lambda>p. pj_TenantID p = tenantID \<and> pj_ProjectID p = projectID
                   \<and> pj_AggregateType p = aggregateType)
                 (map snd (ms_projections s))))))"

definition tenant_projections :: "string \<Rightarrow> MemoryStore \<Rightarrow> Projection list" where
  "tenant_projections tenantID s =
     sort_key (\<lambda>p. (pj_AggregateType p, pj_AggregateID p))
       (map cloneProjection (filter (\<lambda>p. pj_TenantID p = tenantID) (map snd (ms_projections s))))"

definition ListTenantProjections ::
  "live_context option \<Rightarrow> string \<Rightarrow> MemoryStore \<Rightarrow> store_error + Projection list" where
  "ListTenantProjections ctx tenantID s =
     (case ctx of
        None \<Rightarrow> Inl (store_invalid [] ''tenant projection catalog'')
      | Some err \<Rightarrow>
          if tenantID = [] then Inl (store_invalid [] ''tenant projection catalog'')
          else (case err of Some e \<Rightarrow> Inl (StoreContext e) | None \<Rightarrow> Inr (tenant_projections tenantID s)))"

definition event_order :: "DomainEvent \<Rightarrow> string \<times> string \<times> int \<times> string" where
  "event_order e = (de_AggregateType e, de_AggregateID e, de_AggregateVersion e, de_EventID e)"

definition tenant_events :: "string \<Rightarrow> MemoryStore \<Rightarrow> DomainEvent list" where
  "tenant_events tenantID s = filter (\<lambda>e. de_TenantID e = tenantID) (map snd (ms_events s))"

record ReconciliationSnapshot =
  rs_Events :: "DomainEvent list"
  rs_Projections :: "Projection list"

definition LoadReconciliationSnapshot ::
  "live_context option \<Rightarrow> string \<Rightarrow> MemoryStore \<Rightarrow> store_error + ReconciliationSnapshot" where
  "LoadReconciliationSnapshot ctx tenantID s =
     (case ctx of
        None \<Rightarrow> Inl (store_invalid [] ''reconciliation snapshot'')
      | Some err \<Rightarrow>
          if tenantID = [] then Inl (store_invalid [] ''reconciliation snapshot'')
          else (case err of
                  Some e \<Rightarrow> Inl (StoreContext e)
                | None \<Rightarrow>
                    Inr \<lparr>rs_Events = sort_key event_order (map cloneEvent (tenant_events tenantID s)),
                         rs_Projections = tenant_projections tenantID s\<rparr>))"

definition without_replay :: "DomainEvent \<Rightarrow> DomainEvent" where
  "without_replay e = e\<lparr>de_ReplayState := [], de_ReplayStateSHA256 := []\<rparr>"

definition ListEvents :: "live_context \<Rightarrow> string \<Rightarrow> MemoryStore \<Rightarrow> store_error + DomainEvent list" where
  "ListEvents ctx tenantID s =
     (case ctx of
        Some e \<Rightarrow> Inl (StoreContext e)
      | None \<Rightarrow>
          if tenantID = [] then Inl (store_invalid [] ''event log tenant'')
          else Inr (sort_key event_order (map (without_replay \<circ> cloneEvent) (tenant_events tenantID s))))"

definition Stats :: "MemoryStore \<Rightarrow> StoreStats" where
  "Stats s =
     \<lparr>ss_Projections = length (ms_projections s), ss_Events = length (ms_events s),
      ss_Outbox = length (ms_outbox s), ss_CommandResults = length (ms_commands s),
      ss_Approvals = length (ms_approvals s), ss_UserDecisions = length (ms_decisions s)\<rparr>"

section \<open>The outbox\<close>

record OutboxClaim =
  oc_Record :: OutboxRecord
  oc_Attempt :: int

definition outbox_ready :: "string \<Rightarrow> time \<Rightarrow> OutboxRecord \<Rightarrow> bool" where
  "outbox_ready tenantID now record \<longleftrightarrow>
     de_TenantID (ob_Event record) = tenantID \<and> ob_PublishedAt record = None \<and> \<not> ob_NextAttempt record > now"

fun claim_records ::
  "time \<Rightarrow> duration \<Rightarrow> OutboxRecord list \<Rightarrow> (string, OutboxRecord) gomap \<Rightarrow>
     OutboxClaim list \<times> (string, OutboxRecord) gomap" where
  "claim_records now lease [] outbox = ([], outbox)"
| "claim_records now lease (record # rest) outbox =
     (let record = record\<lparr>ob_Attempts := add64 (ob_Attempts record) 1, ob_NextAttempt := now + lease\<rparr>;
          claimed = (cloneOutboxRecord record)\<lparr>ob_Event := without_replay (ob_Event record)\<rparr>;
          (claims, outbox') =
            claim_records now lease rest (gomap_put (ob_ID record) (cloneOutboxRecord record) outbox)
      in (\<lparr>oc_Record = claimed, oc_Attempt = ob_Attempts record\<rparr> # claims, outbox'))"

definition ready_records :: "string \<Rightarrow> time \<Rightarrow> int \<Rightarrow> MemoryStore \<Rightarrow> OutboxRecord list" where
  "ready_records tenantID now limit s =
     (let ready =
        sort_key (\<lambda>r. (ob_NextAttempt r, ob_ID r))
          (map cloneOutboxRecord (filter (outbox_ready tenantID now) (map snd (ms_outbox s)))) in
      if int (length ready) > limit then take (nat limit) ready else ready)"

definition ClaimOutbox ::
  "live_context \<Rightarrow> string \<Rightarrow> time \<Rightarrow> int \<Rightarrow> duration \<Rightarrow> MemoryStore \<Rightarrow>
     (store_error + OutboxClaim list) \<times> MemoryStore" where
  "ClaimOutbox ctx tenantID now limit lease s =
     (case ctx of
        Some e \<Rightarrow> (Inl (StoreContext e), s)
      | None \<Rightarrow>
          if tenantID = [] \<or> is_zero_time now \<or> limit \<le> 0 \<or> lease \<le> 0
          then (Inl (store_invalid [] ''outbox claim''), s)
          else (case claim_records now lease (ready_records tenantID now limit s) (ms_outbox s) of
                  (claims, outbox') \<Rightarrow> (Inr claims, s\<lparr>ms_outbox := outbox'\<rparr>)))"

definition current_claim :: "string \<Rightarrow> string \<Rightarrow> int \<Rightarrow> MemoryStore \<Rightarrow> OutboxRecord option" where
  \<comment> \<open>the record of a claim that is still the current one of an unpublished record\<close>
  "current_claim tenantID recordID attempt s =
     (case map_of (ms_outbox s) recordID of
        None \<Rightarrow> None
      | Some record \<Rightarrow>
          if de_TenantID (ob_Event record) \<noteq> tenantID \<or> ob_PublishedAt record \<noteq> None
             \<or> ob_Attempts record \<noteq> attempt then None else Some record)"

definition MarkOutboxPublished ::
  "live_context \<Rightarrow> string \<Rightarrow> string \<Rightarrow> int \<Rightarrow> time \<Rightarrow> MemoryStore \<Rightarrow> store_error option \<times> MemoryStore" where
  "MarkOutboxPublished ctx tenantID recordID attempt publishedAt s =
     (case ctx of
        Some e \<Rightarrow> (Some (StoreContext e), s)
      | None \<Rightarrow>
          if tenantID = [] \<or> recordID = [] \<or> attempt \<le> 0 \<or> is_zero_time publishedAt
          then (Some (store_invalid [] ''outbox publish''), s)
          else (case current_claim tenantID recordID attempt s of
                  None \<Rightarrow> (Some ErrOutboxClaimLost, s)
                | Some record \<Rightarrow>
                    (None, s\<lparr>ms_outbox :=
                       gomap_put recordID (cloneOutboxRecord (record\<lparr>ob_PublishedAt := Some publishedAt\<rparr>))
                         (ms_outbox s)\<rparr>)))"

definition RetryOutbox ::
  "live_context \<Rightarrow> string \<Rightarrow> string \<Rightarrow> int \<Rightarrow> time \<Rightarrow> MemoryStore \<Rightarrow> store_error option \<times> MemoryStore" where
  "RetryOutbox ctx tenantID recordID attempt nextAttempt s =
     (case ctx of
        Some e \<Rightarrow> (Some (StoreContext e), s)
      | None \<Rightarrow>
          if tenantID = [] \<or> recordID = [] \<or> attempt \<le> 0 \<or> is_zero_time nextAttempt
          then (Some (store_invalid [] ''outbox retry''), s)
          else (case current_claim tenantID recordID attempt s of
                  None \<Rightarrow> (Some ErrOutboxClaimLost, s)
                | Some record \<Rightarrow>
                    (None, s\<lparr>ms_outbox :=
                       gomap_put recordID (cloneOutboxRecord (record\<lparr>ob_NextAttempt := nextAttempt\<rparr>))
                         (ms_outbox s)\<rparr>)))"

end
