(* ===== verification/Event_Safety.thy ===== *)
theory Event_Safety
  imports Event_Store
begin

text \<open>
  Why the event store of \<^theory_text>\<open>Event_Store\<close> is right: what an accepted transaction is, the shape
  of the tables after a commit, the well-formedness of every table, and the contiguous history
  behind every projection. A run is a sequence of the store's operations, which is what the
  interleavings of concurrent callers are, every operation holding the mutex.
\<close>

section \<open>Runs\<close>

datatype store_op =
    OpExecute TransactionRequest
  | OpFailNext FailurePoint
  | OpClaimOutbox live_context string time int duration
  | OpMarkPublished live_context string string int time
  | OpRetryOutbox live_context string string int time

fun store_after :: "jcs_transform \<Rightarrow> store_op \<Rightarrow> MemoryStore \<Rightarrow> MemoryStore" where
  "store_after jcs (OpExecute request) s = snd (Execute jcs request s)"
| "store_after jcs (OpFailNext point) s = FailNext point s"
| "store_after jcs (OpClaimOutbox ctx tenantID now limit lease) s =
     snd (ClaimOutbox ctx tenantID now limit lease s)"
| "store_after jcs (OpMarkPublished ctx tenantID recordID attempt publishedAt) s =
     snd (MarkOutboxPublished ctx tenantID recordID attempt publishedAt s)"
| "store_after jcs (OpRetryOutbox ctx tenantID recordID attempt nextAttempt) s =
     snd (RetryOutbox ctx tenantID recordID attempt nextAttempt s)"

definition store_run :: "jcs_transform \<Rightarrow> store_op list \<Rightarrow> MemoryStore \<Rightarrow> MemoryStore" where
  "store_run jcs ops s = fold (store_after jcs) ops s"

text \<open>
  Records that stay once they are written: what a client of a table relies on, proved once for
  runs of any length. \<open>ok\<close> is the invariant under which a single step keeps the entries.
\<close>

locale record_keeper =
  fixes step :: "'op \<Rightarrow> 's \<Rightarrow> 's"
    and ok :: "'s \<Rightarrow> bool"
    and entry :: "'s \<Rightarrow> 'k \<Rightarrow> 'r option"
  assumes ok_step: "ok s \<Longrightarrow> ok (step op s)"
    and entry_step: "ok s \<Longrightarrow> entry s k = Some r \<Longrightarrow> entry (step op s) k = Some r"
begin

lemma ok_run: "ok s \<Longrightarrow> ok (fold step ops s)"
  by (induction ops arbitrary: s) (simp_all add: ok_step)

lemma entry_run: "ok s \<Longrightarrow> entry s k = Some r \<Longrightarrow> entry (fold step ops s) k = Some r"
  by (induction ops arbitrary: s) (simp_all add: ok_step entry_step)

lemma entry_same: "ok s \<Longrightarrow> entry s k = Some r \<Longrightarrow> entry (fold step ops s) k = Some r' \<Longrightarrow> r' = r"
  using entry_run by fastforce

end

section \<open>Storing many records\<close>

definition put_all :: "('a \<Rightarrow> 'k) \<Rightarrow> ('a \<Rightarrow> 'v) \<Rightarrow> 'a list \<Rightarrow> ('k, 'v) gomap \<Rightarrow> ('k, 'v) gomap" where
  "put_all key val xs m = foldl (\<lambda>m x. gomap_put (key x) (val x) m) m xs"

lemma put_all_simps [simp]:
  "put_all key val [] m = m"
  "put_all key val (x # xs) m = put_all key val xs (gomap_put (key x) (val x) m)"
  by (simp_all add: put_all_def)

lemma gomap_ok_put_all [simp]: "gomap_ok m \<Longrightarrow> gomap_ok (put_all key val xs m)"
  by (induction xs arbitrary: m) simp_all

lemma put_all_other: "k \<notin> key ` set xs \<Longrightarrow> map_of (put_all key val xs m) k = map_of m k"
  by (induction xs arbitrary: m) (simp_all add: amap.look_store)

lemma put_all_same:
  "distinct (map key xs) \<Longrightarrow> x \<in> set xs \<Longrightarrow> map_of (put_all key val xs m) (key x) = Some (val x)"
  by (induction xs arbitrary: m) (auto simp: put_all_other)

lemma gomap_put_fresh: "map_of m k = None \<Longrightarrow> gomap_put k v m = m @ [(k, v)]"
  unfolding gomap_put_def by (induction m) (auto split: if_splits)

lemma put_all_fresh:
  "distinct (map key xs) \<Longrightarrow> \<forall>x \<in> set xs. map_of m (key x) = None \<Longrightarrow>
     put_all key val xs m = m @ map (\<lambda>x. (key x, val x)) xs"
proof (induction xs arbitrary: m)
  case (Cons x xs)
  have "\<forall>y \<in> set xs. map_of (m @ [(key x, val x)]) (key y) = None"
    using Cons.prems by (auto simp: map_add_def image_iff)
  with Cons show ?case by (simp add: gomap_put_fresh)
qed simp

lemma put_all_cases:
  assumes "map_of (put_all key val xs m) k = Some v"
  shows "map_of m k = Some v \<and> k \<notin> key ` set xs \<or> (\<exists>x \<in> set xs. key x = k \<and> val x = v)"
  using assms
proof (induction xs arbitrary: m)
  case (Cons x xs)
  then show ?case by (fastforce simp: amap.look_store split: if_splits)
qed simp

lemma put_all_image: "put_all key val (map f xs) m = put_all (key \<circ> f) (val \<circ> f) xs m"
  by (induction xs arbitrary: m) simp_all

section \<open>What validation establishes\<close>

abbreviation update_key :: "ProjectionUpdate \<Rightarrow> string" where
  "update_key u \<equiv> aggregateKey (pu_TenantID u) (pu_AggregateType u) (pu_AggregateID u)"

abbreviation event_key :: "DomainEvent \<Rightarrow> string" where
  "event_key e \<equiv> aggregateKey (de_TenantID e) (de_AggregateType e) (de_AggregateID e)"

abbreviation projection_key :: "Projection \<Rightarrow> string" where
  "projection_key p \<equiv> aggregateKey (pj_TenantID p) (pj_AggregateType p) (pj_AggregateID p)"

lemma if_Inl_Inr : "(if c then Inl e else x) = Inr y \<longleftrightarrow> \<not> c \<and> x = Inr y"
  by simp

lemma if_Some_None : "(if c then Some e else x) = None \<longleftrightarrow> \<not> c \<and> x = None"
  by simp

definition good_update :: "string \<Rightarrow> ProjectionUpdate \<Rightarrow> bool" where
  "good_update t u \<longleftrightarrow>
     pu_TenantID u = t \<and> pu_ProjectID u \<noteq> [] \<and> pu_AggregateType u \<noteq> [] \<and> pu_AggregateID u \<noteq> []
     \<and> 0 \<le> pu_ExpectedVersion u \<and> pu_NextVersion u = add64 (pu_ExpectedVersion u) 1 \<and> pu_State u \<noteq> []"

definition good_event :: "ProjectionUpdate \<Rightarrow> DomainEvent \<Rightarrow> bool" where
  "good_event u e \<longleftrightarrow>
     de_EventID e \<noteq> [] \<and> de_TenantID e = pu_TenantID u \<and> de_ProjectID e = pu_ProjectID u
     \<and> de_AggregateVersion e = pu_NextVersion u \<and> de_Type e \<noteq> [] \<and> de_PayloadSHA256 e \<noteq> []
     \<and> \<not> is_zero_time (de_OccurredAt e) \<and> json_valid (de_Payload e)"

abbreviation scoped_key :: "string \<Rightarrow> DomainEvent \<Rightarrow> string" where
  "scoped_key t e \<equiv> aggregateKey t (de_AggregateType e) (de_AggregateID e)"

lemma check_updates_Cons:
  "check_updates t (u # us) m = Inr m' \<longleftrightarrow>
     good_update t u \<and> map_of m (update_key u) = None \<and> check_updates t us (gomap_put (update_key u) u m) = Inr m'"
  by (simp add: good_update_def gomap_has_def Let_def) fastforce

lemma check_updates_Inr:
  assumes "check_updates t us m = Inr m'"
  shows "(\<forall>u \<in> set us. good_update t u) \<and> distinct (map update_key us)
     \<and> (\<forall>u \<in> set us. map_of m (update_key u) = None) \<and> m' = put_all update_key (\<lambda>u. u) us m"
  using assms
proof (induction us arbitrary: m)
  case (Cons u us)
  from Cons.prems have u: "good_update t u" "map_of m (update_key u) = None"
    and rest: "check_updates t us (gomap_put (update_key u) u m) = Inr m'"
    by (simp_all only: check_updates_Cons)
  from Cons.IH [OF rest] have ih: "\<forall>v \<in> set us. good_update t v" "distinct (map update_key us)"
    and fresh: "\<forall>v \<in> set us. map_of (gomap_put (update_key u) u m) (update_key v) = None"
    and m': "m' = put_all update_key (\<lambda>u. u) us (gomap_put (update_key u) u m)"
    by simp_all
  from fresh have "\<forall>v \<in> set us. update_key v \<noteq> update_key u \<and> map_of m (update_key v) = None"
    by (metis amap.look_store option.distinct(1))
  with u ih m' show ?case by force
qed simp

lemma check_events_Cons:
  "check_events t m (e # es) seen keys = Inr keys' \<longleftrightarrow>
     (\<exists>u. map_of m (scoped_key t e) = Some u \<and> good_event u e) \<and> de_EventID e \<notin> set seen
     \<and> scoped_key t e \<notin> set keys
     \<and> check_events t m es (de_EventID e # seen) (scoped_key t e # keys) = Inr keys'"
  by (simp add: good_event_def Let_def split: option.split) fastforce

lemma check_events_Inr:
  assumes "check_events t m es seen keys = Inr keys'"
  shows "length keys' = length es + length keys
     \<and> distinct (map de_EventID es) \<and> (\<forall>e \<in> set es. de_EventID e \<notin> set seen)
     \<and> distinct (map (scoped_key t) es) \<and> (\<forall>e \<in> set es. scoped_key t e \<notin> set keys)
     \<and> (\<forall>e \<in> set es. \<exists>u. map_of m (scoped_key t e) = Some u \<and> good_event u e)"
  using assms
proof (induction es arbitrary: seen keys)
  case (Cons e es)
  from Cons.prems have e: "\<exists>u. map_of m (scoped_key t e) = Some u \<and> good_event u e" "de_EventID e \<notin> set seen"
      "scoped_key t e \<notin> set keys"
    and rest: "check_events t m es (de_EventID e # seen) (scoped_key t e # keys) = Inr keys'"
    unfolding check_events_Cons by blast+
  from Cons.IH [OF rest] e show ?case by auto
qed simp

lemma check_payloads_None:
  "check_payloads jcs es = None \<longleftrightarrow> (\<forall>e \<in> set es. Digest jcs (de_Payload e) = Some (de_PayloadSHA256 e))"
  by (induction es) auto

lemma check_approvals_Cons:
  assumes "check_approvals t (a # xs) seen = Inr seen'"
  shows "ap_ID a \<notin> set seen" and "ap_TenantID a = t" and "ap_RevokedAt a = None"
    and "check_approvals t xs (ap_ID a # seen) = Inr seen'"
  using assms unfolding check_approvals.simps(2) if_Inl_Inr by simp_all

lemma check_approvals_Inr:
  assumes "check_approvals t xs seen = Inr seen'"
  shows "set seen' = set (map ap_ID xs) \<union> set seen \<and> distinct (map ap_ID xs)
     \<and> (\<forall>a \<in> set xs. ap_ID a \<notin> set seen) \<and> (\<forall>a \<in> set xs. ap_TenantID a = t \<and> ap_RevokedAt a = None)"
  using assms
proof (induction xs arbitrary: seen)
  case (Cons a xs)
  have a: "ap_ID a \<notin> set seen" "ap_TenantID a = t" "ap_RevokedAt a = None"
    and rest: "check_approvals t xs (ap_ID a # seen) = Inr seen'"
    using check_approvals_Cons [OF Cons.prems] by simp_all
  from Cons.IH [OF rest] a show ?case by (simp add: image_iff) metis
qed simp

lemma check_decisions_Cons:
  assumes "check_decisions t p approvals (d # xs) seen = None"
  shows "ud_ID d \<notin> set seen" and "ud_TenantID d = t" and "ud_PrincipalID d = p"
    and "ud_ApprovalID d \<in> set approvals" and "check_decisions t p approvals xs (ud_ID d # seen) = None"
  using assms unfolding check_decisions.simps(2) if_Some_None by simp_all

lemma check_decisions_None:
  assumes "check_decisions t p approvals xs seen = None"
  shows "distinct (map ud_ID xs) \<and> (\<forall>d \<in> set xs. ud_ID d \<notin> set seen)
     \<and> (\<forall>d \<in> set xs. ud_TenantID d = t \<and> ud_PrincipalID d = p \<and> ud_ApprovalID d \<in> set approvals)"
  using assms
proof (induction xs arbitrary: seen)
  case (Cons d xs)
  have d: "ud_ID d \<notin> set seen" "ud_TenantID d = t" "ud_PrincipalID d = p"
      "ud_ApprovalID d \<in> set approvals"
    and rest: "check_decisions t p approvals xs (ud_ID d # seen) = None"
    using check_decisions_Cons [OF Cons.prems] by simp_all
  from Cons.IH [OF rest] d show ?case by (simp add: image_iff) metis
qed simp

section \<open>What a commit writes\<close>

definition projection_of :: "ProjectionUpdate \<Rightarrow> Projection" where
  "projection_of u =
     \<lparr>pj_TenantID = pu_TenantID u, pj_ProjectID = pu_ProjectID u, pj_AggregateType = pu_AggregateType u,
      pj_AggregateID = pu_AggregateID u, pj_Version = pu_NextVersion u, pj_State = pu_State u\<rparr>"

definition outbox_of :: "DomainEvent \<Rightarrow> OutboxRecord" where
  "outbox_of e =
     \<lparr>ob_ID = outboxID (de_EventID e), ob_Event = e, ob_PublishedAt = None, ob_Attempts = 0,
      ob_NextAttempt = de_OccurredAt e\<rparr>"

definition version_of :: "string \<Rightarrow> DomainEvent \<Rightarrow> string" where
  "version_of t e = versionKey t (de_AggregateType e) (de_AggregateID e) (de_AggregateVersion e)"

lemma fold_updates:
  "foldl (store_update t) s us =
     s\<lparr>ms_projections :=
         put_all (\<lambda>u. aggregateKey t (pu_AggregateType u) (pu_AggregateID u)) projection_of us (ms_projections s)\<rparr>"
  by (induction us arbitrary: s) (simp_all add: store_update_def projection_of_def)

lemma fold_events:
  "foldl (store_event t) s es =
     s\<lparr>ms_events := put_all de_EventID (\<lambda>e. e) es (ms_events s),
       ms_versions := put_all (version_of t) de_EventID es (ms_versions s),
       ms_outbox := put_all (outboxID \<circ> de_EventID) outbox_of es (ms_outbox s)\<rparr>"
  by (induction es arbitrary: s) (simp_all add: store_event_def outbox_of_def version_of_def Let_def)

lemma fold_approvals:
  "foldl store_approval s xs = s\<lparr>ms_approvals := put_all ap_ID (\<lambda>a. a) xs (ms_approvals s)\<rparr>"
  by (induction xs arbitrary: s) (simp_all add: store_approval_def)

lemma fold_decisions:
  "foldl store_decision s xs = s\<lparr>ms_decisions := put_all ud_ID (\<lambda>d. d) xs (ms_decisions s)\<rparr>"
  by (induction xs arbitrary: s) (simp_all add: store_decision_def)

lemmas commit_folds = fold_updates fold_events fold_approvals fold_decisions

definition request_key :: "TransactionRequest \<Rightarrow> string" where
  "request_key request =
     commandKey (tq_TenantID request) (tq_PrincipalID request) (tq_IdempotencyKey request)"

lemma commit_sel:
  "ms_projections (commit request s) =
     put_all (\<lambda>u. aggregateKey (tq_TenantID request) (pu_AggregateType u) (pu_AggregateID u)) projection_of
       (tq_Updates request) (ms_projections s)"
  "ms_events (commit request s) = put_all de_EventID (\<lambda>e. e) (tq_Events request) (ms_events s)"
  "ms_versions (commit request s) =
     put_all (version_of (tq_TenantID request)) de_EventID (tq_Events request) (ms_versions s)"
  "ms_outbox (commit request s) = put_all (outboxID \<circ> de_EventID) outbox_of (tq_Events request) (ms_outbox s)"
  "ms_approvals (commit request s) = put_all ap_ID (\<lambda>a. a) (tq_Approvals request) (ms_approvals s)"
  "ms_decisions (commit request s) = put_all ud_ID (\<lambda>d. d) (tq_UserDecisions request) (ms_decisions s)"
  "ms_commands (commit request s) =
     gomap_put (request_key request)
       \<lparr>cm_RequestSHA256 = tq_RequestSHA256 request, cm_Result = transaction_result request\<rparr> (ms_commands s)"
  "ms_failure (commit request s) = ms_failure s"
  by (simp_all add: commit_def commit_tables_def commit_folds request_key_def Let_def)

section \<open>Accepted transactions\<close>

text \<open>
  The facts a commit rests on, about the request with its replay states bound: everything the
  validation, the binding and the conflict checks establish.
\<close>

definition bound_from :: "jcs_transform \<Rightarrow> (string, string) gomap \<Rightarrow> DomainEvent \<Rightarrow> DomainEvent \<Rightarrow> bool" where
  "bound_from jcs states e b \<longleftrightarrow>
     (\<exists>state d. map_of states (event_key e) = Some state \<and> json_object state \<and> Digest jcs state = Some d
        \<and> b = e\<lparr>de_ReplayState := state, de_ReplayStateSHA256 := d\<rparr>)"

lemma bind_events_Inr: "bind_events jcs states es = Inr bs \<Longrightarrow> list_all2 (bound_from jcs states) es bs"
  by (induction es arbitrary: bs)
    (auto simp: bound_from_def bindReplayState_def split: option.splits sum.splits if_splits)

lemma bound_from_sel:
  assumes "bound_from jcs states e b"
  shows "de_EventID b = de_EventID e" "event_key b = event_key e" "de_Payload b = de_Payload e"
    "de_PayloadSHA256 b = de_PayloadSHA256 e" "good_event u b = good_event u e"
    "map_of states (event_key b) = Some (de_ReplayState b)" "json_object (de_ReplayState b)"
    "Digest jcs (de_ReplayState b) = Some (de_ReplayStateSHA256 b)"
  using assms by (auto simp: bound_from_def good_event_def)

lemma update_states_eq: "update_states us = put_all update_key pu_State us []"
  by (simp add: update_states_def put_all_def)

definition event_stored :: "jcs_transform \<Rightarrow> DomainEvent \<Rightarrow> bool" where
  "event_stored jcs e \<longleftrightarrow>
     de_EventID e \<noteq> [] \<and> json_valid (de_Payload e) \<and> Digest jcs (de_Payload e) = Some (de_PayloadSHA256 e)
     \<and> json_object (de_ReplayState e) \<and> Digest jcs (de_ReplayState e) = Some (de_ReplayStateSHA256 e)"

definition good_commit :: "jcs_transform \<Rightarrow> MemoryStore \<Rightarrow> TransactionRequest \<Rightarrow> bool" where
  "good_commit jcs s r \<longleftrightarrow>
     (\<forall>u \<in> set (tq_Updates r). good_update (tq_TenantID r) u
        \<and> current_version s (update_key u) = pu_ExpectedVersion u
        \<and> (\<exists>e \<in> set (tq_Events r). event_key e = update_key u))
     \<and> distinct (map update_key (tq_Updates r))
     \<and> distinct (map de_EventID (tq_Events r)) \<and> distinct (map event_key (tq_Events r))
     \<and> (\<forall>e \<in> set (tq_Events r). event_stored jcs e \<and> map_of (ms_events s) (de_EventID e) = None
        \<and> (\<exists>u \<in> set (tq_Updates r). update_key u = event_key e \<and> good_event u e
             \<and> de_ReplayState e = pu_State u))
     \<and> distinct (map ap_ID (tq_Approvals r))
     \<and> (\<forall>a \<in> set (tq_Approvals r). ap_TenantID a = tq_TenantID r \<and> ap_RevokedAt a = None
        \<and> map_of (ms_approvals s) (ap_ID a) = None)
     \<and> distinct (map ud_ID (tq_UserDecisions r))
     \<and> (\<forall>d \<in> set (tq_UserDecisions r). ud_TenantID d = tq_TenantID r
        \<and> ud_ApprovalID d \<in> ap_ID ` set (tq_Approvals r) \<and> map_of (ms_decisions s) (ud_ID d) = None)
     \<and> map_of (ms_commands s) (request_key r) = None
     \<and> (\<forall>e \<in> set (tq_Events r). map_of (ms_versions s) (version_of (tq_TenantID r) e) = None)"

lemma conflict_updates_None:
  "conflict_updates s t us = None \<longleftrightarrow>
     (\<forall>u \<in> set us. current_version s (aggregateKey t (pu_AggregateType u) (pu_AggregateID u)) = pu_ExpectedVersion u)"
  by (induction us) (auto simp: Let_def)

lemma conflict_events_None:
  "conflict_events s t es = None \<Longrightarrow> e \<in> set es \<Longrightarrow>
     map_of (ms_events s) (de_EventID e) = None \<and> map_of (ms_versions s) (version_of t e) = None"
  by (induction es) (auto simp: gomap_has_def version_of_def split: if_splits)

lemma conflict_ids_None: "conflict_ids id_of scope m xs = None \<longleftrightarrow> (\<forall>x \<in> set xs. map_of m (id_of x) = None)"
  by (simp add: conflict_ids_def list_ex_iff gomap_has_def)

lemma check_conflicts_None:
  assumes "check_conflicts s r = None"
  shows "conflict_updates s (tq_TenantID r) (tq_Updates r) = None"
    "conflict_events s (tq_TenantID r) (tq_Events r) = None"
    "conflict_ids ap_ID ''approvalId'' (ms_approvals s) (tq_Approvals r) = None"
    "conflict_ids ud_ID ''userDecisionId'' (ms_decisions s) (tq_UserDecisions r) = None"
  using assms by (simp_all add: check_conflicts_def split: option.splits)

lemma distinct_image_eq:
  assumes "distinct xs" "set xs \<subseteq> set ys" "length xs = length ys"
  shows "set ys \<subseteq> set xs"
  by (metis assms card_length card_subset_eq distinct_card finite_set le_antisym card_mono subset_refl)

lemma validateTransaction_None:
  assumes "validateTransaction jcs r = None"
  obtains updates keys approvals where
    "check_updates (tq_TenantID r) (tq_Updates r) [] = Inr updates"
    "check_events (tq_TenantID r) updates (tq_Events r) [] [] = Inr keys"
    "length keys = length updates"
    "check_payloads jcs (tq_Events r) = None"
    "check_approvals (tq_TenantID r) (tq_Approvals r) [] = Inr approvals"
    "check_decisions (tq_TenantID r) (tq_PrincipalID r) approvals (tq_UserDecisions r) [] = None"
  using assms unfolding validateTransaction_def if_Some_None
  by (auto simp: if_Some_None split: sum.splits option.splits)

lemma list_all2_right:
  assumes "list_all2 P xs ys" "y \<in> set ys"
  shows "\<exists>x \<in> set xs. P x y"
  using assms by (metis in_set_conv_nth list_all2_conv_all_nth)

lemma list_all2_map_same: "list_all2 P xs ys \<Longrightarrow> (\<And>x y. P x y \<Longrightarrow> f y = f x) \<Longrightarrow> map f ys = map f xs"
  by (induction rule: list_all2_induct) simp_all

lemma accepted_good:
  assumes valid: "validateTransaction jcs r = None"
    and bind: "bindReplayStates jcs (tq_Events r) (tq_Updates r) = Inr bs"
    and conflicts: "check_conflicts s (r\<lparr>tq_Events := bs\<rparr>) = None"
    and fresh: "map_of (ms_commands s) (request_key r) = None"
  shows "good_commit jcs s (r\<lparr>tq_Events := bs\<rparr>)"
proof -
  let ?t = "tq_TenantID r" and ?us = "tq_Updates r" and ?es = "tq_Events r"
  from validateTransaction_None [OF valid] obtain updates keys approvals where
      cu: "check_updates ?t ?us [] = Inr updates" and ce: "check_events ?t updates ?es [] [] = Inr keys"
      and len: "length keys = length updates" and pay: "check_payloads jcs ?es = None"
      and ca: "check_approvals ?t (tq_Approvals r) [] = Inr approvals"
      and cd: "check_decisions ?t (tq_PrincipalID r) approvals (tq_UserDecisions r) [] = None"
    by metis
  from check_updates_Inr [OF cu] have us: "\<forall>u \<in> set ?us. good_update ?t u" "distinct (map update_key ?us)"
    and ups: "updates = map (\<lambda>u. (update_key u, u)) ?us"
    by (simp_all add: put_all_fresh)
  have in_updates: "u \<in> set ?us \<and> update_key u = k" if "map_of updates k = Some u" for k u
    using map_of_SomeD [OF that] by (auto simp: ups)
  note es = check_events_Inr [OF ce]
  have owner: "\<exists>u \<in> set ?us. update_key u = event_key e \<and> good_event u e \<and> event_key e = scoped_key ?t e"
    if e: "e \<in> set ?es" for e
  proof -
    from es e obtain u where u: "map_of updates (scoped_key ?t e) = Some u" "good_event u e" by metis
    with in_updates [OF u(1)] us(1) show ?thesis by (metis good_event_def good_update_def)
  qed
  have keys_eq: "map event_key ?es = map (scoped_key ?t) ?es" using owner by (intro map_cong) blast+
  note bound = bind_events_Inr [OF bind [unfolded bindReplayStates_def]]
  have ids: "map de_EventID bs = map de_EventID ?es" and bkeys: "map event_key bs = map event_key ?es"
    by (rule list_all2_map_same [OF bound]; simp add: bound_from_sel)+
  have b_event: "event_stored jcs b \<and> (\<exists>u \<in> set ?us. update_key u = event_key b \<and> good_event u b
      \<and> de_ReplayState b = pu_State u)" if b: "b \<in> set bs" for b
  proof -
    from list_all2_right [OF bound b] obtain e where e: "e \<in> set ?es" "bound_from jcs (update_states ?us) e b" by metis
    note sel = bound_from_sel [OF e(2)]
    from owner [OF e(1)] obtain u where u: "u \<in> set ?us" "update_key u = event_key e" "good_event u e" by metis
    have "map_of (update_states ?us) (event_key b) = Some (pu_State u)"
      using put_all_same [OF us(2) u(1), of pu_State "[]"] u(2) sel(2) by (simp add: update_states_eq)
    then have "de_ReplayState b = pu_State u" using sel(6) by simp
    moreover have "event_stored jcs b"
      using u(3) pay e(1) sel by (simp add: event_stored_def good_event_def check_payloads_None)
    ultimately show ?thesis using u sel by metis
  qed
  have covered: "\<exists>b \<in> set bs. event_key b = update_key u" if u: "u \<in> set ?us" for u
  proof -
    have "set (map event_key ?es) \<subseteq> set (map update_key ?us)" using owner by force
    moreover have "distinct (map event_key ?es)" using es unfolding keys_eq by blast
    moreover have "length (map event_key ?es) = length (map update_key ?us)" using es len ups by simp
    ultimately have "set (map update_key ?us) \<subseteq> set (map event_key ?es)"
      using distinct_image_eq by blast
    with u have "update_key u \<in> set (map event_key bs)" unfolding bkeys by force
    then show ?thesis by force
  qed
  note none = check_conflicts_None [OF conflicts, simplified]
  have tenant: "aggregateKey ?t (pu_AggregateType u) (pu_AggregateID u) = update_key u" if "u \<in> set ?us" for u
    using us(1) that by (simp add: good_update_def)
  show ?thesis
    unfolding good_commit_def
  proof (intro conjI ballI; (simp)?)
    fix u assume u: "u \<in> set ?us"
    show "good_update ?t u" using us u by blast
    show "current_version s (update_key u) = pu_ExpectedVersion u"
      using none(1) u tenant [OF u] by (metis conflict_updates_None)
    show "\<exists>e \<in> set bs. event_key e = update_key u" by (rule covered [OF u])
  next
    show "distinct (map update_key ?us)" by (rule us)
    show "distinct (map de_EventID bs)" "distinct (map event_key bs)" using es ids bkeys keys_eq by simp_all
  next
    fix b assume b: "b \<in> set bs"
    show "event_stored jcs b" using b_event [OF b] by blast
    show "map_of (ms_events s) (de_EventID b) = None" using conflict_events_None [OF none(2) b] by blast
    show "map_of (ms_versions s) (version_of ?t b) = None" using conflict_events_None [OF none(2) b] by blast
    show "\<exists>u \<in> set ?us. update_key u = event_key b \<and> good_event u b \<and> de_ReplayState b = pu_State u"
      using b_event [OF b] by blast
  next
    show "distinct (map ap_ID (tq_Approvals r))" using check_approvals_Inr [OF ca] by blast
    show "distinct (map ud_ID (tq_UserDecisions r))" using check_decisions_None [OF cd] by blast
    show "map_of (ms_commands s) (request_key (r\<lparr>tq_Events := bs\<rparr>)) = None"
      using fresh by (simp add: request_key_def)
  next
    fix a assume a: "a \<in> set (tq_Approvals r)"
    show "ap_TenantID a = ?t" "ap_RevokedAt a = None" using check_approvals_Inr [OF ca] a by blast+
    show "map_of (ms_approvals s) (ap_ID a) = None" using none(3) a by (simp add: conflict_ids_None)
  next
    fix d assume d: "d \<in> set (tq_UserDecisions r)"
    show "ud_TenantID d = ?t" using check_decisions_None [OF cd] d by blast
    show "ud_ApprovalID d \<in> ap_ID ` set (tq_Approvals r)"
      using check_decisions_None [OF cd] check_approvals_Inr [OF ca] d by simp
    show "map_of (ms_decisions s) (ud_ID d) = None" using none(4) d by (simp add: conflict_ids_None)
  qed
qed

text \<open>The outcomes of \<open>Execute\<close>.\<close>

lemma check_updates_not_unknown: "check_updates t us m \<noteq> Inl ErrCommitResultUnknown"
  by (induction us arbitrary: m) (simp_all add: Let_def store_invalid_def)

lemma check_events_not_unknown: "check_events t m es seen keys \<noteq> Inl ErrCommitResultUnknown"
  by (induction es arbitrary: seen keys) (simp_all add: Let_def store_invalid_def split: option.split)

lemma check_payloads_not_unknown: "check_payloads jcs es \<noteq> Some ErrCommitResultUnknown"
  by (induction es) (simp_all add: store_mismatch_def)

lemma check_approvals_not_unknown: "check_approvals t xs seen \<noteq> Inl ErrCommitResultUnknown"
  by (induction xs arbitrary: seen) (simp_all add: store_invalid_def)

lemma check_decisions_not_unknown: "check_decisions t p approvals ds seen \<noteq> Some ErrCommitResultUnknown"
  by (induction ds arbitrary: seen) (simp_all add: store_invalid_def)

lemmas check_not_unknown =
  check_updates_not_unknown check_events_not_unknown check_payloads_not_unknown
  check_approvals_not_unknown check_decisions_not_unknown

lemma conflict_not_unknown:
  "conflict_updates s t us \<noteq> Some ErrCommitResultUnknown"
  "conflict_events s t es \<noteq> Some ErrCommitResultUnknown"
  "conflict_ids id_of scope m xs \<noteq> Some ErrCommitResultUnknown"
  by (induction us) (simp_all add: Let_def, induction es, simp_all add: conflict_ids_def)

lemma bind_not_unknown: "bind_events jcs states es \<noteq> Inl ErrCommitResultUnknown"
  by (induction es) (auto simp: bindReplayState_def unavailable_def split: option.split sum.split)

lemma validate_not_unknown:
  "validateTransaction jcs r \<noteq> Some ErrCommitResultUnknown"
  "bindReplayStates jcs es us \<noteq> Inl ErrCommitResultUnknown"
  "check_conflicts s r \<noteq> Some ErrCommitResultUnknown"
  unfolding validateTransaction_def bindReplayStates_def check_conflicts_def store_invalid_def store_mismatch_def
  by (auto simp: check_not_unknown conflict_not_unknown bind_not_unknown split: option.split sum.split
      dest: check_not_unknown [THEN notE] conflict_not_unknown [THEN notE])

lemma Execute_cases:
  assumes "Execute jcs r s = (out, s')"
  obtains (replayed) result where "out = Inr result" "s' = s"
      "lookupLocked (tq_TenantID r) (tq_PrincipalID r) (tq_IdempotencyKey r) (tq_RequestSHA256 r) s = Inr (Some result)"
    | (refused) err where "out = Inl err" "s' = s" "err \<noteq> ErrCommitResultUnknown"
    | (injected) "out = Inl ErrInjectedFailure" "s' = s\<lparr>ms_failure := FailureNone\<rparr>"
    | (committed) bs f where "good_commit jcs s (r\<lparr>tq_Events := bs\<rparr>)"
        "list_all2 (bound_from jcs (update_states (tq_Updates r))) (tq_Events r) bs"
        "s' = (commit (r\<lparr>tq_Events := bs\<rparr>) s)\<lparr>ms_failure := f\<rparr>"
        "out = Inl ErrCommitResultUnknown \<or> out = Inr (transaction_result (r\<lparr>tq_Events := bs\<rparr>))"
proof (cases "lookupLocked (tq_TenantID r) (tq_PrincipalID r) (tq_IdempotencyKey r) (tq_RequestSHA256 r) s")
  case (Inl err)
  with assms have "out = Inl err" "s' = s" by (simp_all add: Execute_def)
  moreover from Inl have "err \<noteq> ErrCommitResultUnknown" by (auto simp: lookupLocked_def split: option.splits if_splits)
  ultimately show thesis by (rule refused)
next
  case (Inr found)
  show thesis
  proof (cases found)
    case (Some result)
    with assms Inr show thesis by (intro replayed) (simp_all add: Execute_def)
  next
    case None
    then have fresh: "map_of (ms_commands s) (request_key r) = None"
      using Inr by (auto simp: lookupLocked_def request_key_def split: option.splits if_splits)
    note run = assms [unfolded Execute_def Inr None sum.case option.case]
    show thesis
    proof (cases "validateTransaction jcs r")
      case (Some err)
      with run validate_not_unknown(1) [of jcs r] show thesis by (intro refused [of err]) auto
    next
      case valid: None
      show thesis
      proof (cases "bindReplayStates jcs (tq_Events r) (tq_Updates r)")
        case (Inl err)
        with run valid validate_not_unknown(2) [of jcs "tq_Events r" "tq_Updates r"]
        show thesis by (intro refused [of err]) auto
      next
        case (Inr bs)
        let ?r = "r\<lparr>tq_Events := bs\<rparr>"
        show thesis
        proof (cases "check_conflicts s ?r")
          case (Some err)
          with run valid Inr validate_not_unknown(3) [of s ?r] show thesis by (intro refused [of err]) auto
        next
          case None
          note good = accepted_good [OF valid Inr None fresh]
            bind_events_Inr [OF Inr [unfolded bindReplayStates_def]]
          show thesis
          proof (cases "ms_failure s = FailureBeforeCommit")
            case True
            with run valid Inr None show thesis by (intro injected) (simp_all add: consumeFailure_def)
          next
            case False
            then have "consumeFailure FailureBeforeCommit s = (False, s)" by (simp add: consumeFailure_def)
            with run valid Inr None have
              after: "(case consumeFailure FailureAfterCommit (commit ?r s) of
                  (True, s'') \<Rightarrow> (Inl ErrCommitResultUnknown, s'')
                | (False, s'') \<Rightarrow> (Inr (cloneResult (transaction_result ?r)), s'')) = (out, s')"
              by (simp add: Let_def)
            show thesis
            proof (cases "ms_failure (commit ?r s) = FailureAfterCommit")
              case True
              with after good show thesis by (intro committed [of bs FailureNone]) (auto simp: consumeFailure_def)
            next
              case False
              with after good show thesis
                by (intro committed [of bs "ms_failure (commit ?r s)"]) (auto simp: consumeFailure_def)
            qed
          qed
        qed
      qed
    qed
  qed
qed

section \<open>Well-formed tables\<close>

text \<open>
  Every table is keyed by its records' own keys, every stored event carries the digests of its
  payload and its replay state, the outbox holds exactly the stored events, and every user
  decision has its approval, unrevoked and of the same tenant.
\<close>

definition events_ok :: "jcs_transform \<Rightarrow> MemoryStore \<Rightarrow> bool" where
  "events_ok jcs s \<longleftrightarrow>
     gomap_ok (ms_events s) \<and> (\<forall>k e. map_of (ms_events s) k = Some e \<longrightarrow> de_EventID e = k \<and> event_stored jcs e)"

definition outbox_ok :: "MemoryStore \<Rightarrow> bool" where
  "outbox_ok s \<longleftrightarrow>
     gomap_ok (ms_outbox s)
     \<and> (\<forall>k r. map_of (ms_outbox s) k = Some r \<longrightarrow>
          ob_ID r = k \<and> k = outboxID (de_EventID (ob_Event r))
          \<and> map_of (ms_events s) (de_EventID (ob_Event r)) = Some (ob_Event r))
     \<and> (\<forall>k e. map_of (ms_events s) k = Some e \<longrightarrow> map_of (ms_outbox s) (outboxID k) \<noteq> None)"

definition projections_ok :: "MemoryStore \<Rightarrow> bool" where
  "projections_ok s \<longleftrightarrow>
     gomap_ok (ms_projections s)
     \<and> (\<forall>k p. map_of (ms_projections s) k = Some p \<longrightarrow> projection_key p = k \<and> pj_State p \<noteq> [])"

definition decisions_ok :: "MemoryStore \<Rightarrow> bool" where
  "decisions_ok s \<longleftrightarrow>
     (\<forall>k a. map_of (ms_approvals s) k = Some a \<longrightarrow> ap_ID a = k \<and> ap_RevokedAt a = None)
     \<and> (\<forall>k d. map_of (ms_decisions s) k = Some d \<longrightarrow>
          ud_ID d = k \<and> (\<exists>a. map_of (ms_approvals s) (ud_ApprovalID d) = Some a \<and> ap_TenantID a = ud_TenantID d))"

definition store_ok :: "jcs_transform \<Rightarrow> MemoryStore \<Rightarrow> bool" where
  "store_ok jcs s \<longleftrightarrow> events_ok jcs s \<and> outbox_ok s \<and> projections_ok s \<and> decisions_ok s"

lemma outboxID_inject [simp]: "outboxID x = outboxID y \<longleftrightarrow> x = y"
  by (simp add: outboxID_def)

lemma events_ok_commit:
  assumes ok: "events_ok jcs s" and good: "good_commit jcs s r"
  shows "events_ok jcs (commit r s)"
  unfolding events_ok_def commit_sel
proof (intro conjI allI impI)
  show "gomap_ok (put_all de_EventID (\<lambda>e. e) (tq_Events r) (ms_events s))"
    using ok by (simp add: events_ok_def)
  fix k e assume e: "map_of (put_all de_EventID (\<lambda>e. e) (tq_Events r) (ms_events s)) k = Some e"
  then have "(map_of (ms_events s) k = Some e) \<or> (e \<in> set (tq_Events r) \<and> de_EventID e = k)"
    using put_all_cases by fastforce
  with ok good show "de_EventID e = k" "event_stored jcs e"
    unfolding events_ok_def good_commit_def by blast+
qed

lemma outbox_ok_commit:
  assumes ok: "outbox_ok s" and good: "good_commit jcs s r"
  shows "outbox_ok (commit r s)"
proof -
  from good have distinct_ids: "distinct (map de_EventID (tq_Events r))" unfolding good_commit_def by blast
  then have distinct_out: "distinct (map (outboxID \<circ> de_EventID) (tq_Events r))"
    by (simp add: distinct_map inj_on_def)
  from good have fresh: "map_of (ms_events s) (de_EventID e) = None" if "e \<in> set (tq_Events r)" for e
    using that unfolding good_commit_def by blast
  have new_event: "map_of (ms_events (commit r s)) (de_EventID e) = Some e" if "e \<in> set (tq_Events r)" for e
    using put_all_same [OF distinct_ids that, of "\<lambda>e. e"] by (simp add: commit_sel)
  have old_event: "map_of (ms_events (commit r s)) k = Some e" if "map_of (ms_events s) k = Some e" for k e
    using that fresh by (subst commit_sel, subst put_all_other) auto
  show ?thesis
    unfolding outbox_ok_def
  proof (intro conjI allI impI)
    show "gomap_ok (ms_outbox (commit r s))" using ok by (simp add: outbox_ok_def commit_sel)
  next
    fix k b assume b: "map_of (ms_outbox (commit r s)) k = Some b"
    then consider "map_of (ms_outbox s) k = Some b"
      | e where "e \<in> set (tq_Events r)" "outboxID (de_EventID e) = k" "outbox_of e = b"
      using put_all_cases [of "outboxID \<circ> de_EventID" outbox_of] by (fastforce simp: commit_sel)
    then have "ob_ID b = k \<and> k = outboxID (de_EventID (ob_Event b))
        \<and> map_of (ms_events (commit r s)) (de_EventID (ob_Event b)) = Some (ob_Event b)"
    proof cases
      case 1
      with ok old_event show ?thesis unfolding outbox_ok_def by blast
    next
      case 2
      with new_event show ?thesis by (auto simp: outbox_of_def)
    qed
    then show "ob_ID b = k" "k = outboxID (de_EventID (ob_Event b))"
      "map_of (ms_events (commit r s)) (de_EventID (ob_Event b)) = Some (ob_Event b)" by blast+
  next
    fix k e assume "map_of (ms_events (commit r s)) k = Some e"
    then consider "map_of (ms_events s) k = Some e" "k \<notin> de_EventID ` set (tq_Events r)"
      | "e \<in> set (tq_Events r)" "de_EventID e = k"
      using put_all_cases [of de_EventID "\<lambda>e. e"] by (fastforce simp: commit_sel)
    then show "map_of (ms_outbox (commit r s)) (outboxID k) \<noteq> None"
    proof cases
      case 1
      then have "outboxID k \<notin> (outboxID \<circ> de_EventID) ` set (tq_Events r)" by auto
      with 1 ok show ?thesis unfolding outbox_ok_def by (simp add: commit_sel put_all_other)
    next
      case 2
      with put_all_same [OF distinct_out 2(1), of outbox_of "ms_outbox s"] show ?thesis by (simp add: commit_sel)
    qed
  qed
qed

lemma projections_ok_commit:
  assumes ok: "projections_ok s" and good: "good_commit jcs s r"
  shows "projections_ok (commit r s)"
  unfolding projections_ok_def commit_sel
proof (intro conjI allI impI)
  let ?m = "put_all (\<lambda>u. aggregateKey (tq_TenantID r) (pu_AggregateType u) (pu_AggregateID u)) projection_of
    (tq_Updates r) (ms_projections s)"
  show "gomap_ok ?m" using ok by (simp add: projections_ok_def)
  fix k p assume p: "map_of ?m k = Some p"
  then consider "map_of (ms_projections s) k = Some p"
    | u where "u \<in> set (tq_Updates r)" "aggregateKey (tq_TenantID r) (pu_AggregateType u) (pu_AggregateID u) = k"
      "projection_of u = p"
    using put_all_cases by fastforce
  then have "projection_key p = k \<and> pj_State p \<noteq> []"
  proof cases
    case 1
    with ok show ?thesis unfolding projections_ok_def by blast
  next
    case 2
    with good have "good_update (tq_TenantID r) u" unfolding good_commit_def by blast
    with 2 show ?thesis by (auto simp: good_update_def projection_of_def)
  qed
  then show "projection_key p = k" "pj_State p \<noteq> []" by blast+
qed

lemma decisions_ok_commit:
  assumes ok: "decisions_ok s" and good: "good_commit jcs s r"
  shows "decisions_ok (commit r s)"
proof -
  have old: "map_of (ms_approvals (commit r s)) k = Some a" if "map_of (ms_approvals s) k = Some a" for k a
  proof -
    have "k \<notin> ap_ID ` set (tq_Approvals r)" using good that unfolding good_commit_def by force
    then show ?thesis using that by (simp add: commit_sel put_all_other)
  qed
  have new_approval: "map_of (ms_approvals (commit r s)) (ap_ID a) = Some a" if a: "a \<in> set (tq_Approvals r)" for a
    using good put_all_same [OF _ a, of ap_ID "\<lambda>a. a"] unfolding good_commit_def by (simp add: commit_sel)
  show ?thesis
    unfolding decisions_ok_def
  proof (intro conjI allI impI)
    fix k a assume "map_of (ms_approvals (commit r s)) k = Some a"
    then have "map_of (ms_approvals s) k = Some a \<or> a \<in> set (tq_Approvals r) \<and> ap_ID a = k"
      using put_all_cases [of ap_ID "\<lambda>a. a"] by (fastforce simp: commit_sel)
    with ok good show "ap_ID a = k" "ap_RevokedAt a = None"
      unfolding decisions_ok_def good_commit_def by blast+
  next
    fix k d assume "map_of (ms_decisions (commit r s)) k = Some d"
    then consider "map_of (ms_decisions s) k = Some d" | "d \<in> set (tq_UserDecisions r)" "ud_ID d = k"
      using put_all_cases [of ud_ID "\<lambda>d. d"] by (fastforce simp: commit_sel)
    then have "ud_ID d = k
        \<and> (\<exists>a. map_of (ms_approvals (commit r s)) (ud_ApprovalID d) = Some a \<and> ap_TenantID a = ud_TenantID d)"
    proof cases
      case 1
      with ok old show ?thesis unfolding decisions_ok_def by blast
    next
      case 2
      with good have "ud_TenantID d = tq_TenantID r" "ud_ApprovalID d \<in> ap_ID ` set (tq_Approvals r)"
        unfolding good_commit_def by blast+
      then obtain a where a: "a \<in> set (tq_Approvals r)" "ud_ApprovalID d = ap_ID a" by blast
      moreover from a(1) good have "ap_TenantID a = tq_TenantID r" unfolding good_commit_def by blast
      ultimately show ?thesis using new_approval [OF a(1)] 2 \<open>ud_TenantID d = tq_TenantID r\<close> by simp
    qed
    then show "ud_ID d = k"
      "\<exists>a. map_of (ms_approvals (commit r s)) (ud_ApprovalID d) = Some a \<and> ap_TenantID a = ud_TenantID d" by blast+
  qed
qed

section \<open>Claims and marks\<close>

text \<open>
  What the outbox operations do to a record: its identity and event stay, a published record is
  not touched, and the attempts stay or count one more.
\<close>

definition record_touched :: "OutboxRecord \<Rightarrow> OutboxRecord \<Rightarrow> bool" where
  "record_touched r r' \<longleftrightarrow>
     ob_ID r' = ob_ID r \<and> ob_Event r' = ob_Event r \<and> (ob_PublishedAt r \<noteq> None \<longrightarrow> r' = r)
     \<and> (ob_Attempts r' = ob_Attempts r \<or> ob_Attempts r' = add64 (ob_Attempts r) 1)"

definition outbox_touched :: "MemoryStore \<Rightarrow> MemoryStore \<Rightarrow> bool" where
  "outbox_touched s s' \<longleftrightarrow>
     (\<exists>m. s' = s\<lparr>ms_outbox := m\<rparr>) \<and> (gomap_ok (ms_outbox s) \<longrightarrow> gomap_ok (ms_outbox s'))
     \<and> (\<forall>k. rel_option record_touched (map_of (ms_outbox s) k) (map_of (ms_outbox s') k))"

lemma record_touched_refl: "record_touched r r"
  by (simp add: record_touched_def)

lemma outbox_touched_refl: "outbox_touched s s"
  unfolding outbox_touched_def
  by (auto intro!: option.rel_refl record_touched_refl exI [of _ "ms_outbox s"])

lemma outbox_touched_put:
  assumes "map_of (ms_outbox s) k = Some r" "record_touched r r'"
  shows "outbox_touched s (s\<lparr>ms_outbox := gomap_put k r' (ms_outbox s)\<rparr>)"
  using assms by (auto simp: outbox_touched_def amap.look_store intro: option.rel_refl record_touched_refl)

definition bump :: "time \<Rightarrow> duration \<Rightarrow> OutboxRecord \<Rightarrow> OutboxRecord" where
  "bump now lease r = r\<lparr>ob_Attempts := add64 (ob_Attempts r) 1, ob_NextAttempt := now + lease\<rparr>"

definition claim_of :: "time \<Rightarrow> duration \<Rightarrow> OutboxRecord \<Rightarrow> OutboxClaim" where
  "claim_of now lease r =
     \<lparr>oc_Record = (bump now lease r)\<lparr>ob_Event := without_replay (ob_Event r)\<rparr>,
      oc_Attempt = add64 (ob_Attempts r) 1\<rparr>"

lemma claim_records_eq:
  "claim_records now lease rs m = (map (claim_of now lease) rs, put_all ob_ID (bump now lease) rs m)"
  by (induction rs arbitrary: m) (simp_all add: claim_of_def bump_def Let_def)

lemma outbox_okD:
  assumes "outbox_ok s" "map_of (ms_outbox s) k = Some r"
  shows "ob_ID r = k" "k = outboxID (de_EventID (ob_Event r))"
    "map_of (ms_events s) (de_EventID (ob_Event r)) = Some (ob_Event r)"
  using assms unfolding outbox_ok_def by blast+

lemma ready_records_in:
  assumes ok: "outbox_ok s" and r: "r \<in> set (ready_records t now limit s)"
  shows "map_of (ms_outbox s) (ob_ID r) = Some r \<and> outbox_ready t now r"
proof -
  from r have "r \<in> set (filter (outbox_ready t now) (map snd (ms_outbox s)))"
    by (auto simp: ready_records_def Let_def split: if_splits dest: in_set_takeD)
  then obtain k where "(k, r) \<in> set (ms_outbox s)" "outbox_ready t now r" by auto
  with ok outbox_okD(1) [OF ok] show ?thesis
    unfolding outbox_ok_def by (metis gomap_okD)
qed

lemma ready_records_distinct:
  assumes ok: "outbox_ok s"
  shows "distinct (map ob_ID (ready_records t now limit s))"
proof -
  have ids: "map ob_ID (map snd (ms_outbox s)) = map fst (ms_outbox s)"
  proof (unfold list.map_comp, intro map_cong refl)
    fix p assume "p \<in> set (ms_outbox s)"
    with ok have "map_of (ms_outbox s) (fst p) = Some (snd p)" unfolding outbox_ok_def by (cases p) (simp add: gomap_okD)
    from outbox_okD(1) [OF ok this] show "(ob_ID \<circ> snd) p = fst p" by simp
  qed
  have "distinct (map ob_ID (map snd (ms_outbox s)))"
    using ok unfolding ids by (simp add: outbox_ok_def gomap_ok_def)
  then have "distinct (map ob_ID (filter (outbox_ready t now) (map snd (ms_outbox s))))"
    by (rule distinct_map_filter)
  then have sorted: "distinct (map ob_ID (sort_key (\<lambda>r. (ob_NextAttempt r, ob_ID r))
      (filter (outbox_ready t now) (map snd (ms_outbox s)))))"
    by (simp add: distinct_map)
  then show ?thesis
    by (simp add: ready_records_def Let_def take_map [symmetric] map_idI distinct_take)
qed

lemma claim_touched:
  assumes ok: "outbox_ok s"
  shows "outbox_touched s (snd (ClaimOutbox ctx t now limit lease s))"
proof -
  let ?rs = "ready_records t now limit s"
  let ?m = "put_all ob_ID (bump now lease) ?rs (ms_outbox s)"
  have "rel_option record_touched (map_of (ms_outbox s) k) (map_of ?m k)" for k
  proof (cases "k \<in> ob_ID ` set ?rs")
    case True
    then obtain r where r: "r \<in> set ?rs" "k = ob_ID r" by blast
    have "map_of ?m k = Some (bump now lease r)"
      using put_all_same [OF ready_records_distinct [OF ok] r(1)] r(2) by simp
    moreover have "map_of (ms_outbox s) k = Some r" "outbox_ready t now r"
      using ready_records_in [OF ok r(1)] r(2) by simp_all
    ultimately show ?thesis by (simp add: record_touched_def bump_def outbox_ready_def)
  next
    case False
    then show ?thesis by (simp add: put_all_other option.rel_refl record_touched_refl)
  qed
  then have "outbox_touched s (s\<lparr>ms_outbox := ?m\<rparr>)" by (auto simp: outbox_touched_def)
  then show ?thesis
    by (auto simp: ClaimOutbox_def claim_records_eq outbox_touched_refl split: option.split)
qed

lemma current_claim_Some:
  "current_claim t k a s = Some r \<longleftrightarrow>
     map_of (ms_outbox s) k = Some r \<and> de_TenantID (ob_Event r) = t \<and> ob_PublishedAt r = None \<and> ob_Attempts r = a"
  by (auto simp: current_claim_def split: option.splits if_splits)

lemma mark_touched: "outbox_touched s (snd (MarkOutboxPublished ctx t k a at_time s))"
  by (auto simp: MarkOutboxPublished_def current_claim_Some record_touched_def outbox_touched_refl
      intro!: outbox_touched_put split: option.split)

lemma retry_touched: "outbox_touched s (snd (RetryOutbox ctx t k a at_time s))"
  by (auto simp: RetryOutbox_def current_claim_Some record_touched_def outbox_touched_refl
      intro!: outbox_touched_put split: option.split)

lemma outbox_ok_touched:
  assumes ok: "outbox_ok s" and touched: "outbox_touched s s'"
  shows "outbox_ok s'"
proof -
  from touched obtain m where s': "s' = s\<lparr>ms_outbox := m\<rparr>" unfolding outbox_touched_def by blast
  have rel: "rel_option record_touched (map_of (ms_outbox s) k) (map_of m k)" for k
    using touched s' by (simp add: outbox_touched_def)
  have old_record: "\<exists>r. map_of (ms_outbox s) k = Some r \<and> ob_ID b = ob_ID r \<and> ob_Event b = ob_Event r"
    if "map_of m k = Some b" for k b
    using rel [of k] that by (cases "map_of (ms_outbox s) k") (auto simp: record_touched_def)
  have forth: "map_of m k \<noteq> None" if "map_of (ms_outbox s) k \<noteq> None" for k
    using rel [of k] that by (cases "map_of m k") auto
  have tables: "ms_outbox s' = m" "ms_events s' = ms_events s" by (simp_all add: s')
  show ?thesis
    unfolding outbox_ok_def tables
  proof (intro conjI allI impI)
    show "gomap_ok m" using ok touched s' by (simp add: outbox_ok_def outbox_touched_def)
  next
    fix k b assume "map_of m k = Some b"
    from old_record [OF this] obtain r where "map_of (ms_outbox s) k = Some r" "ob_ID b = ob_ID r" "ob_Event b = ob_Event r"
      by blast
    with outbox_okD [OF ok] show "ob_ID b = k" "k = outboxID (de_EventID (ob_Event b))"
      "map_of (ms_events s) (de_EventID (ob_Event b)) = Some (ob_Event b)" by metis+
  next
    fix k e assume "map_of (ms_events s) k = Some e"
    with ok forth show "map_of m (outboxID k) \<noteq> None" unfolding outbox_ok_def by blast
  qed
qed

section \<open>Every step\<close>

lemma store_ok_same_tables:
  assumes "ms_events s' = ms_events s" "ms_outbox s' = ms_outbox s" "ms_projections s' = ms_projections s"
    "ms_approvals s' = ms_approvals s" "ms_decisions s' = ms_decisions s"
  shows "store_ok jcs s' = store_ok jcs s"
  by (simp add: store_ok_def events_ok_def outbox_ok_def projections_ok_def decisions_ok_def assms)

lemma store_ok_touched:
  assumes "store_ok jcs s" "outbox_touched s s'"
  shows "store_ok jcs s'"
proof -
  from assms(2) obtain m where s': "s' = s\<lparr>ms_outbox := m\<rparr>" unfolding outbox_touched_def by blast
  have "outbox_ok s'" using assms outbox_ok_touched by (auto simp: store_ok_def)
  with assms(1) show ?thesis
    by (simp add: store_ok_def events_ok_def projections_ok_def decisions_ok_def s')
qed

lemma store_ok_commit: "store_ok jcs s \<Longrightarrow> good_commit jcs s r \<Longrightarrow> store_ok jcs (commit r s)"
  by (simp add: store_ok_def events_ok_commit outbox_ok_commit projections_ok_commit decisions_ok_commit)

lemma store_ok_failure [simp]: "store_ok jcs (s\<lparr>ms_failure := f\<rparr>) = store_ok jcs s"
  by (rule store_ok_same_tables) simp_all

lemma store_ok_Execute:
  assumes "store_ok jcs s" shows "store_ok jcs (snd (Execute jcs r s))"
  by (rule Execute_cases [of jcs r s "fst (Execute jcs r s)" "snd (Execute jcs r s)"])
    (use assms in \<open>simp_all add: store_ok_commit\<close>)

text \<open>A step of the store is a transaction, a change of the failure point, or one of the outbox.\<close>

lemma store_step_cases:
  assumes "outbox_ok s"
  obtains (execute) r where "store_after jcs op s = snd (Execute jcs r s)"
    | (failure) f where "store_after jcs op s = s\<lparr>ms_failure := f\<rparr>"
    | (touch) "outbox_touched s (store_after jcs op s)"
  using assms claim_touched mark_touched retry_touched
  by (cases op) (auto simp: FailNext_def)

lemma store_ok_step: "store_ok jcs s \<Longrightarrow> store_ok jcs (store_after jcs op s)"
  by (rule store_step_cases [of s jcs op])
    (auto simp: store_ok_Execute store_ok_touched dest: store_ok_def [THEN iffD1])

lemma NewMemoryStore_ok: "store_ok jcs NewMemoryStore"
  by (simp add: store_ok_def events_ok_def outbox_ok_def projections_ok_def decisions_ok_def NewMemoryStore_def)

lemma commit_keeps_command:
  assumes "map_of (ms_commands s) k = Some c"
  shows "map_of (ms_commands (snd (Execute jcs r s))) k = Some c"
proof (rule Execute_cases [of jcs r s "fst (Execute jcs r s)" "snd (Execute jcs r s)"])
  fix bs f
  assume good: "good_commit jcs s (r\<lparr>tq_Events := bs\<rparr>)"
    and s': "snd (Execute jcs r s) = (commit (r\<lparr>tq_Events := bs\<rparr>) s)\<lparr>ms_failure := f\<rparr>"
  from good have "map_of (ms_commands s) (request_key (r\<lparr>tq_Events := bs\<rparr>)) = None"
    unfolding good_commit_def by blast
  with assms have "k \<noteq> request_key (r\<lparr>tq_Events := bs\<rparr>)" by auto
  with assms show ?thesis by (simp add: s' commit_sel)
qed (simp_all add: assms)

lemma commit_keeps_event:
  assumes "map_of (ms_events s) k = Some e"
  shows "map_of (ms_events (snd (Execute jcs r s))) k = Some e"
proof (rule Execute_cases [of jcs r s "fst (Execute jcs r s)" "snd (Execute jcs r s)"])
  fix bs f
  assume good: "good_commit jcs s (r\<lparr>tq_Events := bs\<rparr>)"
    and s': "snd (Execute jcs r s) = (commit (r\<lparr>tq_Events := bs\<rparr>) s)\<lparr>ms_failure := f\<rparr>"
  from good assms have "k \<notin> de_EventID ` set bs" unfolding good_commit_def by force
  with assms show ?thesis by (simp add: s' commit_sel put_all_other)
qed (simp_all add: assms)

lemma commit_keeps_outbox:
  assumes ok: "outbox_ok s" and b: "map_of (ms_outbox s) k = Some b"
  shows "map_of (ms_outbox (snd (Execute jcs r s))) k = Some b"
proof (rule Execute_cases [of jcs r s "fst (Execute jcs r s)" "snd (Execute jcs r s)"])
  fix bs f
  assume good: "good_commit jcs s (r\<lparr>tq_Events := bs\<rparr>)"
    and s': "snd (Execute jcs r s) = (commit (r\<lparr>tq_Events := bs\<rparr>) s)\<lparr>ms_failure := f\<rparr>"
  have "k \<notin> (outboxID \<circ> de_EventID) ` set bs"
  proof
    assume "k \<in> (outboxID \<circ> de_EventID) ` set bs"
    then obtain e where "e \<in> set bs" "de_EventID (ob_Event b) = de_EventID e"
      using outbox_okD(2) [OF ok b] by auto
    with good outbox_okD(3) [OF ok b] show False unfolding good_commit_def by force
  qed
  with b show ?thesis by (simp add: s' commit_sel put_all_other)
qed (simp_all add: b)

lemma step_record:
  assumes ok: "store_ok jcs s" and b: "map_of (ms_outbox s) k = Some b"
  shows "\<exists>b'. map_of (ms_outbox (store_after jcs op s)) k = Some b' \<and> record_touched b b'"
proof -
  from ok have "outbox_ok s" by (simp add: store_ok_def)
  then show ?thesis
  proof (cases rule: store_step_cases [where jcs = jcs and op = op])
    case (execute r)
    then show ?thesis using commit_keeps_outbox [OF \<open>outbox_ok s\<close> b] record_touched_refl by auto
  next
    case (failure f)
    then show ?thesis using b record_touched_refl by auto
  next
    case touch
    then have "rel_option record_touched (map_of (ms_outbox s) k) (map_of (ms_outbox (store_after jcs op s)) k)"
      by (simp add: outbox_touched_def)
    then show ?thesis by (simp add: b option_rel_Some1)
  qed
qed

text \<open>Three tables keep what is written: the command results, the events, the published records.\<close>

definition published_record :: "MemoryStore \<Rightarrow> string \<Rightarrow> OutboxRecord option" where
  "published_record s k =
     (case map_of (ms_outbox s) k of None \<Rightarrow> None | Some r \<Rightarrow> if ob_PublishedAt r = None then None else Some r)"

lemma published_record_Some:
  "published_record s k = Some r \<longleftrightarrow> map_of (ms_outbox s) k = Some r \<and> ob_PublishedAt r \<noteq> None"
  by (auto simp: published_record_def split: option.splits if_splits)

lemma step_command:
  assumes "store_ok jcs s" "map_of (ms_commands s) k = Some c"
  shows "map_of (ms_commands (store_after jcs op s)) k = Some c"
  by (rule store_step_cases [of s jcs op])
    (use assms in \<open>auto simp: commit_keeps_command outbox_touched_def store_ok_def\<close>)

lemma step_event:
  assumes "store_ok jcs s" "map_of (ms_events s) k = Some e"
  shows "map_of (ms_events (store_after jcs op s)) k = Some e"
  by (rule store_step_cases [of s jcs op])
    (use assms in \<open>auto simp: commit_keeps_event outbox_touched_def store_ok_def\<close>)

interpretation commands: record_keeper "store_after jcs" "store_ok jcs" "map_of \<circ> ms_commands" for jcs
  by unfold_locales (simp_all add: store_ok_step step_command)

interpretation event_log: record_keeper "store_after jcs" "store_ok jcs" "map_of \<circ> ms_events" for jcs
  by unfold_locales (simp_all add: store_ok_step step_event)

interpretation published: record_keeper "store_after jcs" "store_ok jcs" published_record for jcs
proof unfold_locales
  fix s op k r assume ok: "store_ok jcs s" and "published_record s k = Some r"
  then show "published_record (store_after jcs op s) k = Some r"
    using step_record [OF ok] by (fastforce simp: published_record_Some record_touched_def)
qed (rule store_ok_step)

section \<open>Keys\<close>

text \<open>Without NUL bytes in a tenant and a type, the key of an aggregate names it.\<close>

lemma nul_split:
  assumes "nul_free a" and "nul_free b"
  shows "a @ [key_byte] @ x = b @ [key_byte] @ y \<longleftrightarrow> a = b \<and> x = y"
proof -
  have split: "takeWhile (\<lambda>c. c \<noteq> key_byte) (s @ [key_byte] @ z) = s" if "nul_free s" for s z
    using that unfolding nul_free_def key_byte_def by (subst takeWhile_append2) auto
  show ?thesis using split [OF assms(1), of x] split [OF assms(2), of y] by auto
qed

lemma aggregateKey_inject:
  assumes "nul_free t" "nul_free t'" "nul_free ty" "nul_free ty'"
  shows "aggregateKey t ty i = aggregateKey t' ty' i' \<longleftrightarrow> t = t' \<and> ty = ty' \<and> i = i'"
  unfolding aggregateKey_def using nul_split [OF assms(1,2)] nul_split [OF assms(3,4)] by simp

end
