(* ===== verification/Event_Properties.thy ===== *)
theory Event_Properties
  imports Event_Safety
begin

text \<open>
  The properties of the event store: well-formed tables, a contiguous history behind every
  projection, all-or-nothing transactions, idempotent commands, and claims of the outbox that
  fence each other and end with the publication.
\<close>

section \<open>Histories\<close>

definition stored_events :: "MemoryStore \<Rightarrow> string \<Rightarrow> DomainEvent list" where
  "stored_events s k = filter (\<lambda>e. event_key e = k) (map snd (ms_events s))"

definition latest_state :: "MemoryStore \<Rightarrow> string \<Rightarrow> Projection \<Rightarrow> bool" where
  "latest_state s k p \<longleftrightarrow>
     (\<exists>e \<in> set (stored_events s k). de_AggregateVersion e = pj_Version p \<and> de_ReplayState e = pj_State p
        \<and> de_ProjectID e = pj_ProjectID p)"

definition history_ok :: "int \<Rightarrow> MemoryStore \<Rightarrow> bool" where
  "history_ok n s \<longleftrightarrow>
     (\<forall>k. 0 \<le> current_version s k \<and> current_version s k \<le> n
        \<and> mset (map de_AggregateVersion (stored_events s k)) = mset [1..current_version s k]
        \<and> (\<forall>p. map_of (ms_projections s) k = Some p \<longrightarrow> latest_state s k p))"

lemma filter_key: "distinct (map f xs) \<Longrightarrow> x \<in> set xs \<Longrightarrow> filter (\<lambda>y. f y = f x) xs = [x]"
  by (induction xs) (auto simp: filter_empty_conv image_iff)

lemma filter_no_key: "(\<And>x. x \<in> set xs \<Longrightarrow> f x \<in> A) \<Longrightarrow> k \<notin> A \<Longrightarrow> filter (\<lambda>y. f y = k) xs = []"
  by (auto simp: filter_empty_conv)

lemma commit_events:
  assumes "good_commit jcs s r"
  shows "stored_events (commit r s) k = stored_events s k @ filter (\<lambda>e. event_key e = k) (tq_Events r)"
proof -
  have "put_all de_EventID (\<lambda>e. e) (tq_Events r) (ms_events s) = ms_events s @ map (\<lambda>e. (de_EventID e, e)) (tq_Events r)"
    using assms unfolding good_commit_def by (intro put_all_fresh) blast+
  then show ?thesis by (simp add: stored_events_def commit_sel comp_def)
qed

lemma put_all_cong: "(\<And>x. x \<in> set xs \<Longrightarrow> key x = key' x) \<Longrightarrow> put_all key val xs m = put_all key' val xs m"
  by (induction xs arbitrary: m) simp_all

lemma commit_projections:
  assumes "good_commit jcs s r"
  shows "ms_projections (commit r s) = put_all update_key projection_of (tq_Updates r) (ms_projections s)"
  unfolding commit_sel
proof (rule put_all_cong)
  fix u assume "u \<in> set (tq_Updates r)"
  with assms have "pu_TenantID u = tq_TenantID r" unfolding good_commit_def good_update_def by blast
  then show "aggregateKey (tq_TenantID r) (pu_AggregateType u) (pu_AggregateID u) = update_key u" by simp
qed

lemma commit_projection:
  assumes good: "good_commit jcs s r" and u: "u \<in> set (tq_Updates r)"
  shows "map_of (ms_projections (commit r s)) (update_key u) = Some (projection_of u)"
proof -
  have "distinct (map update_key (tq_Updates r))" using good unfolding good_commit_def by blast
  from put_all_same [OF this u] show ?thesis unfolding commit_projections [OF good] .
qed

lemma commit_other_projection:
  assumes good: "good_commit jcs s r" and k: "k \<notin> update_key ` set (tq_Updates r)"
  shows "map_of (ms_projections (commit r s)) k = map_of (ms_projections s) k"
  unfolding commit_projections [OF good] by (rule put_all_other [OF k])

lemma history_commit:
  assumes hist: "history_ok n s" and good: "good_commit jcs s r" and n: "n + 1 < 2 ^ 63"
  shows "history_ok (n + 1) (commit r s)"
  unfolding history_ok_def
proof (intro allI)
  fix k
  have old: "0 \<le> current_version s k" "current_version s k \<le> n"
    "mset (map de_AggregateVersion (stored_events s k)) = mset [1..current_version s k]"
    "\<And>p. map_of (ms_projections s) k = Some p \<Longrightarrow> latest_state s k p"
    using hist unfolding history_ok_def by blast+
  show "0 \<le> current_version (commit r s) k \<and> current_version (commit r s) k \<le> n + 1
      \<and> mset (map de_AggregateVersion (stored_events (commit r s) k)) = mset [1..current_version (commit r s) k]
      \<and> (\<forall>p. map_of (ms_projections (commit r s)) k = Some p \<longrightarrow> latest_state (commit r s) k p)"
  proof (cases "k \<in> update_key ` set (tq_Updates r)")
    case True
    then obtain u where u: "u \<in> set (tq_Updates r)" and k: "k = update_key u" by blast
    have next_version: "pu_NextVersion u = current_version s k + 1"
    proof -
      have "good_update (tq_TenantID r) u" "current_version s (update_key u) = pu_ExpectedVersion u"
        using good u unfolding good_commit_def by blast+
      then have "pu_NextVersion u = add64 (current_version s k) 1" unfolding good_update_def k by simp
      then show ?thesis using old(1,2) n by (simp add: add64_id int64_def)
    qed
    obtain e where e: "e \<in> set (tq_Events r)" "event_key e = k"
      using good u k unfolding good_commit_def by blast
    have "\<exists>u' \<in> set (tq_Updates r). update_key u' = event_key e \<and> good_event u' e \<and> de_ReplayState e = pu_State u'"
      using good e(1) unfolding good_commit_def by blast
    then obtain u' where u': "u' \<in> set (tq_Updates r)" "update_key u' = update_key u" and eu: "good_event u' e"
        "de_ReplayState e = pu_State u'"
      using e(2) k by metis
    have "distinct (map update_key (tq_Updates r))" using good unfolding good_commit_def by blast
    then have "inj_on update_key (set (tq_Updates r))" by (simp only: distinct_map)
    from inj_onD [OF this u'(2,1) u] have "u' = u" .
    have "distinct (map event_key (tq_Events r))" using good unfolding good_commit_def by blast
    from filter_key [OF this e(1)] e(2) have "filter (\<lambda>y. event_key y = k) (tq_Events r) = [e]" by simp
    then have events: "stored_events (commit r s) k = stored_events s k @ [e]"
      by (simp only: commit_events [OF good])
    have projection: "map_of (ms_projections (commit r s)) k = Some (projection_of u)"
      using commit_projection [OF good u] by (simp only: k)
    have "[1..current_version s k + 1] = [1..current_version s k] @ [current_version s k + 1]"
      using old(1) by (simp add: upto_rec2)
    moreover have version: "current_version (commit r s) k = current_version s k + 1"
      using projection next_version by (simp add: current_version_def projection_of_def)
    moreover have e_version: "de_AggregateVersion e = current_version s k + 1"
      using eu(1) next_version \<open>u' = u\<close> by (simp add: good_event_def)
    ultimately have "mset (map de_AggregateVersion (stored_events (commit r s) k)) = mset [1..current_version (commit r s) k]"
      using old(3) events by simp
    moreover have "latest_state (commit r s) k (projection_of u)"
      using eu \<open>u' = u\<close> unfolding latest_state_def events
      by (intro bexI [of _ e]) (simp_all add: projection_of_def good_event_def)
    ultimately show ?thesis using old(1,2) version projection by simp
  next
    case False
    have "event_key e \<in> update_key ` set (tq_Updates r)" if "e \<in> set (tq_Events r)" for e
    proof -
      have "\<exists>u \<in> set (tq_Updates r). event_key e = update_key u"
        using good that unfolding good_commit_def by metis
      then show ?thesis unfolding image_iff .
    qed
    from filter_no_key [OF this False] have "filter (\<lambda>y. event_key y = k) (tq_Events r) = []" .
    then have "stored_events (commit r s) k = stored_events s k" by (simp only: commit_events [OF good]) simp
    with commit_other_projection [OF good False] old show ?thesis
      by (simp add: current_version_def latest_state_def)
  qed
qed

lemma history_same:
  assumes "ms_projections s' = ms_projections s" "ms_events s' = ms_events s"
  shows "history_ok n s' = history_ok n s"
  by (simp add: history_ok_def current_version_def latest_state_def stored_events_def assms)

lemma history_more: "history_ok n s \<Longrightarrow> history_ok (n + 1) s"
  unfolding history_ok_def by (meson add_increasing2 zero_le_one)

lemma history_step:
  assumes ok: "store_ok jcs s" and hist: "history_ok n s" and n: "n + 1 < 2 ^ 63"
  shows "history_ok (n + 1) (store_after jcs op s)"
proof -
  from ok have "outbox_ok s" by (simp add: store_ok_def)
  then show ?thesis
  proof (cases rule: store_step_cases [where jcs = jcs and op = op])
    case (execute r)
    show ?thesis
    proof (rule Execute_cases [of jcs r s "fst (Execute jcs r s)" "snd (Execute jcs r s)"])
      fix bs f
      assume good: "good_commit jcs s (r\<lparr>tq_Events := bs\<rparr>)"
        and s': "snd (Execute jcs r s) = (commit (r\<lparr>tq_Events := bs\<rparr>) s)\<lparr>ms_failure := f\<rparr>"
      show ?thesis
        unfolding execute s' using history_commit [OF hist good n]
        by (simp add: history_same [of "_\<lparr>ms_failure := f\<rparr>"])
    qed (simp_all add: execute history_more [OF hist] history_same [of "_\<lparr>ms_failure := FailureNone\<rparr>"])
  next
    case (failure f)
    then show ?thesis using history_more [OF hist] by (simp add: history_same [of "_\<lparr>ms_failure := f\<rparr>"])
  next
    case touch
    then obtain m where "store_after jcs op s = s\<lparr>ms_outbox := m\<rparr>" by (auto simp: outbox_touched_def)
    then show ?thesis using history_more [OF hist] by (simp add: history_same [of "_\<lparr>ms_outbox := m\<rparr>"])
  qed
qed

lemma history_new: "history_ok 0 NewMemoryStore"
  by (simp add: history_ok_def NewMemoryStore_def current_version_def stored_events_def zero_Projection_def)

text \<open>Counters of a step bounded by a number of steps, over a run.\<close>

lemma run_counted:
  assumes step: "\<And>s op n. store_ok jcs s \<Longrightarrow> P n s \<Longrightarrow> n + 1 < 2 ^ 63 \<Longrightarrow> P (n + 1) (store_after jcs op s)"
    and "store_ok jcs s" "P n s" "n + int (length ops) < 2 ^ 63"
  shows "P (n + int (length ops)) (store_run jcs ops s)"
  using assms(2-4)
proof (induction ops arbitrary: s n)
  case (Cons op ops)
  from Cons.prems have "P (n + 1) (store_after jcs op s)" by (intro step) simp_all
  from Cons.IH [OF store_ok_step [OF Cons.prems(1)] this] Cons.prems(3) show ?case
    by (simp add: store_run_def add.assoc)
qed (simp add: store_run_def)

lemma store_run_history: "int (length ops) < 2 ^ 63 \<Longrightarrow> history_ok (int (length ops)) (store_run jcs ops NewMemoryStore)"
  using run_counted [of jcs history_ok NewMemoryStore 0 ops] history_step NewMemoryStore_ok history_new by simp

lemma run_store_ok: "store_ok jcs (store_run jcs ops NewMemoryStore)"
  unfolding store_run_def by (rule commands.ok_run) (rule NewMemoryStore_ok)

lemma run_append: "store_run jcs (ops @ ops') s = store_run jcs ops' (store_run jcs ops s)"
  by (simp add: store_run_def)

lemma run_single: "store_run jcs [op] s = store_after jcs op s"
  by (simp add: store_run_def)

section \<open>Attempts\<close>

definition attempts_ok :: "int \<Rightarrow> MemoryStore \<Rightarrow> bool" where
  "attempts_ok n s \<longleftrightarrow> (\<forall>k r. map_of (ms_outbox s) k = Some r \<longrightarrow> 0 \<le> ob_Attempts r \<and> ob_Attempts r \<le> n)"

lemma attempts_new: "attempts_ok 0 NewMemoryStore"
  by (simp add: attempts_ok_def NewMemoryStore_def)

lemma attempts_commit:
  assumes "attempts_ok n s" "0 \<le> n" shows "attempts_ok n (commit r s)"
  using assms put_all_cases [of "outboxID \<circ> de_EventID" outbox_of]
  by (fastforce simp: attempts_ok_def commit_sel outbox_of_def)

lemma attempts_touched:
  assumes ok: "attempts_ok n s" and touched: "outbox_touched s s'" and n: "0 \<le> n" "n + 1 < 2 ^ 63"
  shows "attempts_ok (n + 1) s'"
  unfolding attempts_ok_def
proof (intro allI impI)
  fix k b' assume b': "map_of (ms_outbox s') k = Some b'"
  have "rel_option record_touched (map_of (ms_outbox s) k) (map_of (ms_outbox s') k)"
    using touched by (simp add: outbox_touched_def)
  with b' obtain b where b: "map_of (ms_outbox s) k = Some b" "record_touched b b'" by (auto simp: option_rel_Some2)
  from ok b(1) have range: "0 \<le> ob_Attempts b" "ob_Attempts b \<le> n" unfolding attempts_ok_def by blast+
  then have "add64 (ob_Attempts b) 1 = ob_Attempts b + 1" using n by (simp add: add64_id int64_def)
  with b(2) range show "0 \<le> ob_Attempts b' \<and> ob_Attempts b' \<le> n + 1" by (auto simp: record_touched_def)
qed

lemma attempts_more: "attempts_ok n s \<Longrightarrow> attempts_ok (n + 1) s"
  unfolding attempts_ok_def by fastforce

lemma attempts_failure [simp]: "attempts_ok n (s\<lparr>ms_failure := f\<rparr>) = attempts_ok n s"
  by (simp add: attempts_ok_def)

lemma attempts_step:
  assumes ok: "store_ok jcs s" and att: "0 \<le> n \<and> attempts_ok n s" and n: "n + 1 < 2 ^ 63"
  shows "0 \<le> n + 1 \<and> attempts_ok (n + 1) (store_after jcs op s)"
proof -
  from ok have "outbox_ok s" by (simp add: store_ok_def)
  then have "attempts_ok (n + 1) (store_after jcs op s)"
  proof (cases rule: store_step_cases [where jcs = jcs and op = op])
    case (execute r)
    show ?thesis
      by (rule Execute_cases [of jcs r s "fst (Execute jcs r s)" "snd (Execute jcs r s)"])
        (use att in \<open>simp_all add: execute attempts_more attempts_commit\<close>)
  next
    case (failure f)
    with att show ?thesis by (simp add: attempts_more)
  next
    case touch
    with att n show ?thesis by (intro attempts_touched) blast+
  qed
  with att show ?thesis by simp
qed

lemma run_attempts: "int (length ops) < 2 ^ 63 \<Longrightarrow> attempts_ok (int (length ops)) (store_run jcs ops NewMemoryStore)"
  using run_counted [of jcs "\<lambda>n s. 0 \<le> n \<and> attempts_ok n s" NewMemoryStore 0 ops] attempts_step NewMemoryStore_ok
    attempts_new by simp

lemma attempts_grow:
  assumes "store_ok jcs s" "0 \<le> n" "attempts_ok n s" "n + int (length ops) < 2 ^ 63"
    and "map_of (ms_outbox s) k = Some b"
  shows "\<exists>b'. map_of (ms_outbox (store_run jcs ops s)) k = Some b' \<and> ob_Attempts b \<le> ob_Attempts b'"
  using assms
proof (induction ops arbitrary: s n b)
  case (Cons op ops)
  from step_record [OF Cons.prems(1,5)] obtain b1
    where b1: "map_of (ms_outbox (store_after jcs op s)) k = Some b1" "record_touched b b1" by blast
  have "ob_Attempts b \<le> n" "0 \<le> ob_Attempts b" using Cons.prems(3,5) unfolding attempts_ok_def by blast+
  then have "ob_Attempts b \<le> ob_Attempts b1"
    using b1(2) Cons.prems(4) by (auto simp: record_touched_def add64_id int64_def)
  moreover have "\<exists>b'. map_of (ms_outbox (store_run jcs ops (store_after jcs op s))) k = Some b'
      \<and> ob_Attempts b1 \<le> ob_Attempts b'"
    using Cons.prems attempts_step [of jcs s n op] b1(1)
    by (intro Cons.IH [of _ "n + 1"] store_ok_step) simp_all
  ultimately show ?case by (auto simp: store_run_def)
qed (simp add: store_run_def)

lemma claim_effect:
  assumes ok: "outbox_ok s" and claim: "ClaimOutbox ctx t now limit lease s = (Inr claims, s')" and c: "c \<in> set claims"
  shows "\<exists>r. map_of (ms_outbox s) (ob_ID (oc_Record c)) = Some r \<and> outbox_ready t now r
      \<and> oc_Attempt c = add64 (ob_Attempts r) 1
      \<and> map_of (ms_outbox s') (ob_ID (oc_Record c)) = Some (bump now lease r)"
proof -
  let ?rs = "ready_records t now limit s"
  from claim have claims: "claims = map (claim_of now lease) ?rs"
    and s': "s' = s\<lparr>ms_outbox := put_all ob_ID (bump now lease) ?rs (ms_outbox s)\<rparr>"
    by (auto simp: ClaimOutbox_def claim_records_eq split: option.splits if_splits)
  with c obtain r where r: "r \<in> set ?rs" "c = claim_of now lease r" by auto
  have "ob_ID (oc_Record c) = ob_ID r" "oc_Attempt c = add64 (ob_Attempts r) 1"
    by (simp_all add: r(2) claim_of_def bump_def)
  then show ?thesis
    using ready_records_in [OF ok r(1)] put_all_same [OF ready_records_distinct [OF ok] r(1)] s' by simp
qed

lemma mark_lost:
  assumes "\<And>b. map_of (ms_outbox s) k = Some b \<Longrightarrow> ob_Attempts b \<noteq> a \<or> ob_PublishedAt b \<noteq> None"
  shows "fst (MarkOutboxPublished ctx t k a at_time s) \<noteq> None" "snd (MarkOutboxPublished ctx t k a at_time s) = s"
    "fst (RetryOutbox ctx t k a at_time s) \<noteq> None" "snd (RetryOutbox ctx t k a at_time s) = s"
proof -
  have lost: "current_claim t k a s = None"
  proof (rule ccontr)
    assume "current_claim t k a s \<noteq> None"
    then obtain b where "current_claim t k a s = Some b" by blast
    with assms show False unfolding current_claim_Some by blast
  qed
  show "fst (MarkOutboxPublished ctx t k a at_time s) \<noteq> None" "snd (MarkOutboxPublished ctx t k a at_time s) = s"
    "fst (RetryOutbox ctx t k a at_time s) \<noteq> None" "snd (RetryOutbox ctx t k a at_time s) = s"
    by (simp_all add: MarkOutboxPublished_def RetryOutbox_def lost split: option.split)
qed

section \<open>Properties\<close>

text \<open>
  C35: the history behind a projection is complete. In every reachable store the events of an
  aggregate have exactly the versions from 1 to the version of its projection, each once, and the
  latest one carries the state of the projection.
\<close>

theorem store_history:
  assumes "int (length ops) < 2 ^ 63" and s_def: "s = store_run jcs ops NewMemoryStore"
  shows "sort (map de_AggregateVersion (stored_events s k)) = [1..current_version s k]
    \<and> (\<forall>p. map_of (ms_projections s) k = Some p \<longrightarrow> 
          (\<exists>e \<in> set (stored_events s k). de_AggregateVersion e = pj_Version p \<and> de_ReplayState e = pj_State p
             \<and> de_ProjectID e = pj_ProjectID p))"
proof -
  have hist: "history_ok (int (length ops)) s" unfolding s_def by (rule store_run_history [OF assms(1)])
  then have "mset (map de_AggregateVersion (stored_events s k)) = mset [1..current_version s k]"
    unfolding history_ok_def by blast
  from properties_for_sort [OF this [symmetric]] have
    "sort (map de_AggregateVersion (stored_events s k)) = [1..current_version s k]" by simp
  with hist show ?thesis unfolding history_ok_def latest_state_def by blast
qed

text \<open>
  C37: a command takes effect once. After a transaction that returned a result, or whose commit
  the caller did not learn of, and after any further operations, executing a request with the same
  tenant, principal and idempotency key changes nothing: it returns the first result marked as a
  duplicate when the digest is the same, and an idempotency conflict when it is another.
\<close>

lemma committed_command:
  assumes "Execute jcs r s = (out, s')" "out = Inl ErrCommitResultUnknown \<or> out = Inr result"
  shows "\<exists>c. map_of (ms_commands s') (request_key r) = Some c \<and> cm_RequestSHA256 c = tq_RequestSHA256 r
    \<and> (out = Inr result \<longrightarrow> (cm_Result c)\<lparr>tx_Duplicate := True\<rparr> = result\<lparr>tx_Duplicate := True\<rparr>)"
proof (rule Execute_cases [OF assms(1)])
  fix result'
  assume "out = Inr result'" "s' = s"
    and "lookupLocked (tq_TenantID r) (tq_PrincipalID r) (tq_IdempotencyKey r) (tq_RequestSHA256 r) s = Inr (Some result')"
  with assms(2) show ?thesis
    by (auto simp: lookupLocked_def request_key_def split: option.splits if_splits)
next
  fix bs f
  assume "s' = (commit (r\<lparr>tq_Events := bs\<rparr>) s)\<lparr>ms_failure := f\<rparr>"
    and "out = Inl ErrCommitResultUnknown \<or> out = Inr (transaction_result (r\<lparr>tq_Events := bs\<rparr>))"
  with assms(2) show ?thesis by (auto simp: commit_sel request_key_def)
qed (use assms(2) in auto)

lemma Execute_recorded:
  assumes "map_of (ms_commands s) (request_key r) = Some c"
  shows "Execute jcs r s =
    (if cm_RequestSHA256 c = tq_RequestSHA256 r then Inr ((cm_Result c)\<lparr>tx_Duplicate := True\<rparr>)
     else Inl (StoreAor (New CodeIdempotencyConflict [] [])), s)"
  using assms by (simp add: Execute_def lookupLocked_def request_key_def)

theorem command_idempotent:
  assumes "Execute jcs r (store_run jcs ops NewMemoryStore) = (out, s)"
    and "out = Inl ErrCommitResultUnknown \<or> out = Inr result"
    and "request_key r' = request_key r"
  shows "\<exists>recorded. (out = Inr result \<longrightarrow> recorded = result\<lparr>tx_Duplicate := True\<rparr>) \<and> tx_Duplicate recorded
    \<and> (\<forall>ops'. Execute jcs r' (store_run jcs ops' s)
         = (if tq_RequestSHA256 r' = tq_RequestSHA256 r then Inr recorded
            else Inl (StoreAor (New CodeIdempotencyConflict [] [])), store_run jcs ops' s))"
proof -
  obtain c where c: "map_of (ms_commands s) (request_key r) = Some c" "cm_RequestSHA256 c = tq_RequestSHA256 r"
      "out = Inr result \<longrightarrow> (cm_Result c)\<lparr>tx_Duplicate := True\<rparr> = result\<lparr>tx_Duplicate := True\<rparr>"
    using committed_command [OF assms(1,2)] by blast
  have ok: "store_ok jcs s"
    using store_ok_Execute [OF run_store_ok, of jcs r ops] assms(1) by simp
  have kept: "map_of (ms_commands (store_run jcs ops' s)) (request_key r') = Some c" for ops'
    using commands.entry_run [OF ok] c(1) assms(3) by (simp add: store_run_def)
  show ?thesis
  proof (intro exI conjI allI)
    show "out = Inr result \<longrightarrow> (cm_Result c)\<lparr>tx_Duplicate := True\<rparr> = result\<lparr>tx_Duplicate := True\<rparr>" by (rule c(3))
    show "tx_Duplicate ((cm_Result c)\<lparr>tx_Duplicate := True\<rparr>)" by simp
    fix ops'
    show "Execute jcs r' (store_run jcs ops' s)
        = (if tq_RequestSHA256 r' = tq_RequestSHA256 r then Inr ((cm_Result c)\<lparr>tx_Duplicate := True\<rparr>)
           else Inl (StoreAor (New CodeIdempotencyConflict [] [])), store_run jcs ops' s)"
      by (simp only: Execute_recorded [OF kept] c(2) eq_commute [of "tq_RequestSHA256 r'"])
  qed
qed

text \<open>
  C38: claims of the outbox fence each other. When a record is claimed again, by whoever, the
  earlier claim can neither mark the record as published nor reschedule it, whatever happens in
  between or afterwards: both calls fail and change nothing.
\<close>

theorem claim_fenced:
  assumes "int (length ops + length ops1 + length ops2) + 2 < 2 ^ 63"
    and "ClaimOutbox ctx t now limit lease (store_run jcs ops NewMemoryStore) = (Inr claims, s1)" "c \<in> set claims"
    and "ClaimOutbox ctx' t' now' limit' lease' (store_run jcs ops1 s1) = (Inr claims', s2)" "c' \<in> set claims'"
    and "ob_ID (oc_Record c') = ob_ID (oc_Record c)"
  shows "fst (MarkOutboxPublished ctx2 t2 (ob_ID (oc_Record c)) (oc_Attempt c) at_time (store_run jcs ops2 s2)) \<noteq> None
    \<and> snd (MarkOutboxPublished ctx2 t2 (ob_ID (oc_Record c)) (oc_Attempt c) at_time (store_run jcs ops2 s2)) = store_run jcs ops2 s2
    \<and> fst (RetryOutbox ctx2 t2 (ob_ID (oc_Record c)) (oc_Attempt c) at_time (store_run jcs ops2 s2)) \<noteq> None
    \<and> snd (RetryOutbox ctx2 t2 (ob_ID (oc_Record c)) (oc_Attempt c) at_time (store_run jcs ops2 s2)) = store_run jcs ops2 s2"
proof -
  let ?k = "ob_ID (oc_Record c)" and ?s0 = "store_run jcs ops NewMemoryStore"
  let ?ops1 = "ops @ OpClaimOutbox ctx t now limit lease # ops1"
  let ?ops2 = "?ops1 @ [OpClaimOutbox ctx' t' now' limit' lease']"
  have s1: "store_run jcs ?ops1 NewMemoryStore = store_run jcs ops1 s1"
    using assms(2) by (simp add: store_run_def)
  have s2: "store_run jcs ?ops2 NewMemoryStore = s2"
    using run_append [of jcs ?ops1 "[OpClaimOutbox ctx' t' now' limit' lease']" NewMemoryStore] assms(4)
    by (simp only: s1 run_single store_after.simps snd_conv)
  have ok0: "store_ok jcs ?s0" by (rule run_store_ok)
  have ok1: "store_ok jcs s1" using store_ok_step [OF ok0, of "OpClaimOutbox ctx t now limit lease"] assms(2) by simp
  have ok1': "store_ok jcs (store_run jcs ops1 s1)" unfolding s1 [symmetric] by (rule run_store_ok)
  have ok2: "store_ok jcs s2" unfolding s2 [symmetric] by (rule run_store_ok)
  have bound1: "attempts_ok (int (length ops) + 1) s1"
    using run_attempts [of "ops @ [OpClaimOutbox ctx t now limit lease]" jcs] assms(1,2)
    by (simp add: run_append store_run_def add.commute)
  have bound2: "attempts_ok (int (length ?ops2)) s2"
    unfolding s2 [symmetric] using assms(1) by (intro run_attempts) simp
  from claim_effect [OF _ assms(2,3)] ok0 obtain r where r: "oc_Attempt c = add64 (ob_Attempts r) 1"
      "map_of (ms_outbox s1) ?k = Some (bump now lease r)" by (auto simp: store_ok_def)
  obtain b1 where b1: "map_of (ms_outbox (store_run jcs ops1 s1)) ?k = Some b1" "oc_Attempt c \<le> ob_Attempts b1"
    using attempts_grow [OF ok1 _ bound1 _ r(2), of ops1] assms(1) r(1) by (auto simp: bump_def)
  from claim_effect [OF _ assms(4,5)] ok1' assms(6) b1(1) have
    b2: "map_of (ms_outbox s2) ?k = Some (bump now' lease' b1)" by (auto simp: store_ok_def)
  have "attempts_ok (int (length ?ops1)) (store_run jcs ops1 s1)"
    unfolding s1 [symmetric] using assms(1) by (intro run_attempts) simp
  with b1(1) have "0 \<le> ob_Attempts b1" "ob_Attempts b1 \<le> int (length ?ops1)" unfolding attempts_ok_def by blast+
  then have "ob_Attempts (bump now' lease' b1) = ob_Attempts b1 + 1"
    using assms(1) by (simp add: bump_def add64_id int64_def)
  with attempts_grow [OF ok2 _ bound2 _ b2, of ops2] assms(1) b1(2) obtain b3
    where "map_of (ms_outbox (store_run jcs ops2 s2)) ?k = Some b3" "oc_Attempt c < ob_Attempts b3" by auto
  then have "\<And>b. map_of (ms_outbox (store_run jcs ops2 s2)) ?k = Some b \<Longrightarrow>
      ob_Attempts b \<noteq> oc_Attempt c \<or> ob_PublishedAt b \<noteq> None" by auto
  from mark_lost [of "store_run jcs ops2 s2" ?k "oc_Attempt c", OF this] show ?thesis by blast
qed

text \<open>
  A record is published once. After a successful mark, and after any further operations, no
  claim returns the record again, every further mark and reschedule of it fails and changes
  nothing, and its publication time stays.
\<close>

lemma published_once:
  assumes "MarkOutboxPublished ctx t k a at_time (store_run jcs ops NewMemoryStore) = (None, s)"
  shows "(\<exists>b. map_of (ms_outbox (store_run jcs ops' s)) k = Some b \<and> ob_PublishedAt b = Some at_time)
    \<and> (ClaimOutbox ctx' t' now limit lease (store_run jcs ops' s) = (Inr claims, s') \<longrightarrow> k \<notin> (ob_ID \<circ> oc_Record) ` set claims)
    \<and> fst (MarkOutboxPublished ctx' t' k a' at_time' (store_run jcs ops' s)) \<noteq> None
    \<and> snd (MarkOutboxPublished ctx' t' k a' at_time' (store_run jcs ops' s)) = store_run jcs ops' s
    \<and> fst (RetryOutbox ctx' t' k a' at_time' (store_run jcs ops' s)) \<noteq> None"
proof -
  let ?s = "store_run jcs ops' s"
  have ok: "store_ok jcs s"
    using store_ok_step [OF run_store_ok, of jcs "OpMarkPublished ctx t k a at_time" ops] assms by simp
  then have ok': "store_ok jcs ?s" unfolding store_run_def by (rule commands.ok_run)
  from assms obtain b where "published_record s k = Some b" "ob_PublishedAt b = Some at_time"
    by (auto simp: MarkOutboxPublished_def published_record_Some current_claim_Some split: option.splits if_splits)
  with published.entry_run [OF ok] have b: "map_of (ms_outbox ?s) k = Some b" "ob_PublishedAt b = Some at_time"
    by (auto simp: store_run_def published_record_Some)
  have "k \<notin> (ob_ID \<circ> oc_Record) ` set claims"
    if claim: "ClaimOutbox ctx' t' now limit lease ?s = (Inr claims, s')"
  proof
    assume "k \<in> (ob_ID \<circ> oc_Record) ` set claims"
    then obtain c where c: "c \<in> set claims" "ob_ID (oc_Record c) = k" by auto
    from claim_effect [OF _ claim c(1)] ok' c(2) b show False by (auto simp: store_ok_def outbox_ready_def)
  qed
  moreover have "\<And>b'. map_of (ms_outbox ?s) k = Some b' \<Longrightarrow> ob_Attempts b' \<noteq> a' \<or> ob_PublishedAt b' \<noteq> None"
    using b by simp
  note mark_lost [of ?s k a', OF this]
  ultimately show ?thesis using b by blast
qed

section \<open>Witnesses\<close>

text \<open>A project updated twice, its events claimed, and a canonicalizer that keeps its input.\<close>

definition ex_sha :: string where
  "ex_sha = the (Digest Some ''{}'')"

definition ex_request :: "string \<Rightarrow> string \<Rightarrow> int \<Rightarrow> TransactionRequest" where
  "ex_request key eventID v =
     (let digest = ex_sha in
      \<lparr>tq_TenantID = ''t'', tq_PrincipalID = ''u'', tq_IdempotencyKey = key, tq_RequestSHA256 = ''r'',
       tq_Updates = [\<lparr>pu_TenantID = ''t'', pu_ProjectID = ''p'', pu_AggregateType = ''project'',
         pu_AggregateID = ''p'', pu_ExpectedVersion = v, pu_NextVersion = v + 1, pu_State = ''{}''\<rparr>],
       tq_Events = [\<lparr>de_EventID = eventID, de_TenantID = ''t'', de_ProjectID = ''p'', de_AggregateType = ''project'',
         de_AggregateID = ''p'', de_AggregateVersion = v + 1, de_Type = ''created'', de_Payload = ''{}'',
         de_PayloadSHA256 = digest, de_OccurredAt = 5, de_CorrelationID = [], de_CausationID = [],
         de_Traceparent = [], de_Tracestate = [], de_TaskID = [], de_TaskIDReason = [], de_AgentRunID = [],
         de_AgentRunReason = [], de_ReplayState = [], de_ReplayStateSHA256 = []\<rparr>],
       tq_Approvals = [], tq_UserDecisions = [], tq_Result = ''{}'', tq_ResultSHA256 = digest\<rparr>)"

definition ex_bound :: "string \<Rightarrow> string \<Rightarrow> int \<Rightarrow> TransactionRequest" where
  "ex_bound key eventID v =
     (ex_request key eventID v)\<lparr>tq_Events :=
        map (\<lambda>e. e\<lparr>de_ReplayState := ''{}'', de_ReplayStateSHA256 := ex_sha\<rparr>)
          (tq_Events (ex_request key eventID v))\<rparr>"

lemma ex_digest: "Digest Some ''{}'' = Some ex_sha" "ex_sha \<noteq> []"
  by (simp_all add: ex_sha_def Digest_def Canonicalize_def)

lemma ex_json: "json_valid ''{}''" "json_object ''{}''"
  by code_simp+

lemma ex_execute:
  assumes "map_of (ms_commands s) (commandKey ''t'' ''u'' key) = None" "ms_failure s = FailureNone"
    and "current_version s (aggregateKey ''t'' ''project'' ''p'') = v" "0 \<le> v" "v < 100" "key \<noteq> []" "eventID \<noteq> []"
    and "map_of (ms_events s) eventID = None" "map_of (ms_versions s) (versionKey ''t'' ''project'' ''p'' (v + 1)) = None"
  shows "Execute Some (ex_request key eventID v) s = (Inr (transaction_result (ex_bound key eventID v)), commit (ex_bound key eventID v) s)"
proof -
  have next_version: "add64 v 1 = v + 1" using assms(4,5) by (simp add: add64_id int64_def)
  have lookup: "lookupLocked ''t'' ''u'' key ''r'' s = Inr None" by (simp add: lookupLocked_def assms(1))
  have valid: "validateTransaction Some (ex_request key eventID v) = None"
    using assms(4-7) ex_digest ex_json
    by (simp add: validateTransaction_def ex_request_def Let_def next_version gomap_has_def amap.look_store
        is_zero_time_def gomap_put_def)
  have bind: "bindReplayStates Some (tq_Events (ex_request key eventID v)) (tq_Updates (ex_request key eventID v))
      = Inr (tq_Events (ex_bound key eventID v))"
    using ex_digest ex_json
    by (simp add: bindReplayStates_def update_states_def ex_request_def ex_bound_def Let_def amap.look_store
        bindReplayState_def)
  have conflicts: "check_conflicts s (ex_bound key eventID v) = None"
    using assms(3,8,9)
    by (simp add: check_conflicts_def ex_bound_def ex_request_def Let_def gomap_has_def conflict_ids_def)
  have bound: "(ex_request key eventID v)\<lparr>tq_Events := tq_Events (ex_bound key eventID v)\<rparr> = ex_bound key eventID v"
    by (simp add: ex_bound_def)
  have parts: "tq_TenantID (ex_request key eventID v) = ''t''" "tq_PrincipalID (ex_request key eventID v) = ''u''"
    "tq_IdempotencyKey (ex_request key eventID v) = key" "tq_RequestSHA256 (ex_request key eventID v) = ''r''"
    by (simp_all add: ex_request_def Let_def)
  show ?thesis
    by (simp add: Execute_def parts lookup valid bind bound conflicts Let_def consumeFailure_def assms(2) commit_sel)
qed

definition ex_store_ops :: "store_op list" where
  "ex_store_ops = [OpExecute (ex_request ''k1'' ''e1'' 0), OpExecute (ex_request ''k2'' ''e2'' 1)]"

definition ex_store :: MemoryStore where
  "ex_store = store_run Some ex_store_ops NewMemoryStore"

lemmas ex_store_simps =
  NewMemoryStore_def commit_sel ex_bound_def ex_request_def Let_def put_all_simps amap.look_store
  current_version_def projection_of_def zero_Projection_def request_key_def commandKey_def aggregateKey_def
  versionKey_def version_of_def outbox_of_def outboxID_def

lemma ex_store_steps:
  "Execute Some (ex_request ''k1'' ''e1'' 0) NewMemoryStore
     = (Inr (transaction_result (ex_bound ''k1'' ''e1'' 0)), commit (ex_bound ''k1'' ''e1'' 0) NewMemoryStore)"
  "ex_store = commit (ex_bound ''k2'' ''e2'' 1) (commit (ex_bound ''k1'' ''e1'' 0) NewMemoryStore)"
proof -
  show first: "Execute Some (ex_request ''k1'' ''e1'' 0) NewMemoryStore
     = (Inr (transaction_result (ex_bound ''k1'' ''e1'' 0)), commit (ex_bound ''k1'' ''e1'' 0) NewMemoryStore)"
    by (rule ex_execute) (simp_all add: ex_store_simps)
  have "Execute Some (ex_request ''k2'' ''e2'' 1) (commit (ex_bound ''k1'' ''e1'' 0) NewMemoryStore)
     = (Inr (transaction_result (ex_bound ''k2'' ''e2'' 1)),
        commit (ex_bound ''k2'' ''e2'' 1) (commit (ex_bound ''k1'' ''e1'' 0) NewMemoryStore))"
    by (rule ex_execute) (simp_all add: ex_store_simps show_int_def show_nat.simps digit_char_def key_byte_def)
  then show "ex_store = commit (ex_bound ''k2'' ''e2'' 1) (commit (ex_bound ''k1'' ''e1'' 0) NewMemoryStore)"
    by (simp add: ex_store_def ex_store_ops_def store_run_def first)
qed

lemma ex_store_version: "current_version ex_store (aggregateKey ''t'' ''project'' ''p'') = 2"
  by (simp add: ex_store_steps ex_store_simps)

theorem store_history_witness:
  "sort (map de_AggregateVersion (stored_events ex_store (aggregateKey ''t'' ''project'' ''p''))) = [1, 2]"
proof -
  have "[1..2::int] = [1, 2]" by (simp add: upto_rec1)
  then show ?thesis
    using store_history [of ex_store_ops ex_store Some "aggregateKey ''t'' ''project'' ''p''"] ex_store_version
    by (simp add: ex_store_def ex_store_ops_def)
qed

theorem command_idempotent_witness:
  "snd (Execute Some (ex_request ''k1'' ''e9'' 7) ex_store) = ex_store
   \<and> (\<exists>result. fst (Execute Some (ex_request ''k1'' ''e9'' 7) ex_store) = Inr result \<and> tx_Duplicate result)"
proof -
  let ?s1 = "commit (ex_bound ''k1'' ''e1'' 0) NewMemoryStore"
  have first: "Execute Some (ex_request ''k1'' ''e1'' 0) (store_run Some [] NewMemoryStore)
      = (Inr (transaction_result (ex_bound ''k1'' ''e1'' 0)), ?s1)"
    using ex_store_steps(1) by (simp add: store_run_def)
  have later: "ex_store = store_run Some [OpExecute (ex_request ''k2'' ''e2'' 1)] ?s1"
    using first by (simp add: ex_store_def ex_store_ops_def store_run_def)
  have keys: "request_key (ex_request ''k1'' ''e9'' 7) = request_key (ex_request ''k1'' ''e1'' 0)"
      "tq_RequestSHA256 (ex_request ''k1'' ''e9'' 7) = tq_RequestSHA256 (ex_request ''k1'' ''e1'' 0)"
    by (simp_all add: ex_request_def request_key_def Let_def)
  from command_idempotent [OF first disjI2 [OF refl] keys(1)] keys(2) show ?thesis
    unfolding later by fastforce
qed

definition ex_outbox :: OutboxRecord where
  "ex_outbox = outbox_of (hd (tq_Events (ex_bound ''k1'' ''e1'' 0)))"

definition ex_first :: MemoryStore where
  "ex_first = store_run Some (take 1 ex_store_ops) NewMemoryStore"

lemma ex_first_outbox: "ms_outbox ex_first = [(''outbox_e1'', ex_outbox)]"
  using ex_store_steps(1)
  by (simp add: ex_first_def ex_store_ops_def store_run_def ex_outbox_def ex_store_simps gomap_put_def)

lemma ex_outbox_sel [simp]:
  "ob_ID ex_outbox = ''outbox_e1''" "ob_PublishedAt ex_outbox = None" "ob_Attempts ex_outbox = 0"
  "ob_NextAttempt ex_outbox = 5" "de_TenantID (ob_Event ex_outbox) = ''t''"
  by (simp_all add: ex_outbox_def ex_store_simps)

lemma ex_claim:
  assumes "ms_outbox s = [(''outbox_e1'', r)]" "ob_ID r = ''outbox_e1''" "outbox_ready ''t'' now r" "0 < now"
  shows "ClaimOutbox None ''t'' now 5 10 s
    = (Inr [claim_of now 10 r], s\<lparr>ms_outbox := [(''outbox_e1'', bump now 10 r)]\<rparr>)"
  using assms by (simp add: ClaimOutbox_def claim_records_eq ready_records_def is_zero_time_def gomap_put_def)

theorem claim_fenced_witness:
  "\<exists>s. ms_outbox s = [(''outbox_e1'', bump 20 10 (bump 6 10 ex_outbox))]
     \<and> fst (MarkOutboxPublished None ''t'' ''outbox_e1'' 1 21 s) \<noteq> None"
proof -
  let ?s1 = "ex_first\<lparr>ms_outbox := [(''outbox_e1'', bump 6 10 ex_outbox)]\<rparr>"
  let ?s2 = "?s1\<lparr>ms_outbox := [(''outbox_e1'', bump 20 10 (bump 6 10 ex_outbox))]\<rparr>"
  have first: "ClaimOutbox None ''t'' 6 5 10 (store_run Some (take 1 ex_store_ops) NewMemoryStore)
      = (Inr [claim_of 6 10 ex_outbox], ?s1)"
    using ex_claim [OF ex_first_outbox] by (simp add: ex_first_def outbox_ready_def)
  have second: "ClaimOutbox None ''t'' 20 5 10 (store_run Some [] ?s1) = (Inr [claim_of 20 10 (bump 6 10 ex_outbox)], ?s2)"
    using ex_claim [of ?s1 "bump 6 10 ex_outbox" 20] by (simp add: store_run_def outbox_ready_def bump_def)
  have "fst (MarkOutboxPublished None ''t'' ''outbox_e1'' (add64 0 1) 21 (store_run Some [] ?s2)) \<noteq> None"
    using claim_fenced [where jcs = Some, OF _ first _ second, where c = "claim_of 6 10 ex_outbox"
        and c' = "claim_of 20 10 (bump 6 10 ex_outbox)" and ?ops2.0 = "[]"]
    by (simp add: ex_store_ops_def claim_of_def bump_def)
  then show ?thesis by (intro exI [of _ ?s2]) (simp add: store_run_def add64_id int64_def)
qed

end
