(* ===== verification/Outbox_Publisher.thy ===== *)
theory Outbox_Publisher
  imports Event_Properties Model_Costs
begin

text \<open>
  The outbox publisher of \<open>internal/eventing/outbox.go\<close>: its configuration, one claim handed to
  the event bus and settled in the store, and one batch. The publisher only knows the interface
  \<open>OutboxStore\<close>; the laws it relies on are a locale, interpreted on the in-memory store. The event
  bus and the clock are parameters: the error the bus returns for a claim, the time at which its
  publication is over.
\<close>

section \<open>The interface and the configuration\<close>

record 's OutboxStore =
  os_ClaimOutbox :: "live_context \<Rightarrow> string \<Rightarrow> time \<Rightarrow> int \<Rightarrow> duration \<Rightarrow> 's \<Rightarrow> (store_error + OutboxClaim list) \<times> 's"
  os_MarkOutboxPublished :: "live_context \<Rightarrow> string \<Rightarrow> string \<Rightarrow> int \<Rightarrow> time \<Rightarrow> 's \<Rightarrow> store_error option \<times> 's"
  os_RetryOutbox :: "live_context \<Rightarrow> string \<Rightarrow> string \<Rightarrow> int \<Rightarrow> time \<Rightarrow> 's \<Rightarrow> store_error option \<times> 's"

definition memory_outbox :: "MemoryStore OutboxStore" where
  "memory_outbox =
     \<lparr>os_ClaimOutbox = ClaimOutbox, os_MarkOutboxPublished = MarkOutboxPublished, os_RetryOutbox = RetryOutbox\<rparr>"

record OutboxPublisherConfig =
  cf_BatchSize :: int
  cf_Concurrency :: int
  cf_ClaimTTL :: duration
  cf_PublishTimeout :: duration
  cf_InitialBackoff :: duration
  cf_MaxBackoff :: duration
  cf_PollInterval :: duration

record PublishBatchResult =
  br_Claimed :: int
  br_Published :: int
  br_Retried :: int

datatype publish_error =
    MarkFailed string store_error
  | PublishFailed string string store_error

record publishOutcome =
  po_published :: bool
  po_retried :: bool
  po_err :: "publish_error option"

record OutboxPublisher =
  op_batchSize :: int
  op_concurrency :: int
  op_claimTTL :: duration
  op_publishTimeout :: duration
  op_initialBackoff :: duration
  op_maximumBackoff :: duration
  op_pollInterval :: duration

definition default_to :: "int \<Rightarrow> int \<Rightarrow> int" where
  "default_to v d = (if v = 0 then d else v)"

definition default_config :: "OutboxPublisherConfig \<Rightarrow> OutboxPublisherConfig" where
  \<comment> \<open>the zero fields filled in, in the order of the code\<close>
  "default_config config =
     (let batch = default_to (cf_BatchSize config) 100;
          workers = default_to (cf_Concurrency config) 8;
          ttl = default_to (cf_ClaimTTL config) (30 * second_ns)
      in \<lparr>cf_BatchSize = batch, cf_Concurrency = (if workers > batch then batch else workers),
          cf_ClaimTTL = ttl, cf_PublishTimeout = default_to (cf_PublishTimeout config) (quot64 ttl 2),
          cf_InitialBackoff = default_to (cf_InitialBackoff config) second_ns,
          cf_MaxBackoff = default_to (cf_MaxBackoff config) (60 * second_ns),
          cf_PollInterval = default_to (cf_PollInterval config) 100000000\<rparr>)"

definition NewOutboxPublisher :: "bool \<Rightarrow> bool \<Rightarrow> OutboxPublisherConfig \<Rightarrow> store_error + OutboxPublisher" where
  \<comment> \<open>the two flags say whether the store and the bus are nil\<close>
  "NewOutboxPublisher nil_store nil_bus config =
     (if nil_store \<or> nil_bus then Inl (store_invalid [] ''outbox publisher dependency'')
      else if cf_BatchSize config < 0 \<or> cf_Concurrency config < 0 \<or> cf_ClaimTTL config < 0
              \<or> cf_PublishTimeout config < 0 \<or> cf_InitialBackoff config < 0 \<or> cf_MaxBackoff config < 0
              \<or> cf_PollInterval config < 0
      then Inl (store_invalid [] ''outbox publisher config'')
      else (let c = default_config config in
            if cf_PublishTimeout c > cf_ClaimTTL c \<or> cf_MaxBackoff c < cf_InitialBackoff c
            then Inl (store_invalid [] ''outbox publisher timing'')
            else Inr \<lparr>op_batchSize = cf_BatchSize c, op_concurrency = cf_Concurrency c,
                      op_claimTTL = cf_ClaimTTL c, op_publishTimeout = cf_PublishTimeout c,
                      op_initialBackoff = cf_InitialBackoff c, op_maximumBackoff = cf_MaxBackoff c,
                      op_pollInterval = cf_PollInterval c\<rparr>))"

section \<open>Publishing\<close>

definition retryDelay :: "int \<Rightarrow> duration \<Rightarrow> duration \<Rightarrow> duration" where
  \<comment> \<open>the loop is the one of the model gateway's back-off, word for word\<close>
  "retryDelay attempt initial maximum = backoff_loop 1 attempt maximum initial"

definition publishClaim ::
  "'s OutboxStore \<Rightarrow> OutboxPublisher \<Rightarrow> live_context \<Rightarrow> string \<Rightarrow> (OutboxClaim \<Rightarrow> string option) \<Rightarrow>
     (OutboxClaim \<Rightarrow> time) \<Rightarrow> OutboxClaim \<Rightarrow> 's \<Rightarrow> publishOutcome \<times> 's" where
  "publishClaim store p ctx tenantID bus clock claim s =
     (let recordID = ob_ID (oc_Record claim); completedAt = utc (clock claim) in
      case bus claim of
        None \<Rightarrow>
          (case os_MarkOutboxPublished store ctx tenantID recordID (oc_Attempt claim) completedAt s of
             (Some markErr, s') \<Rightarrow>
               (\<lparr>po_published = False, po_retried = False, po_err = Some (MarkFailed recordID markErr)\<rparr>, s')
           | (None, s') \<Rightarrow> (\<lparr>po_published = True, po_retried = False, po_err = None\<rparr>, s'))
      | Some err \<Rightarrow>
          (let nextAttempt = completedAt + retryDelay (oc_Attempt claim) (op_initialBackoff p) (op_maximumBackoff p) in
           case os_RetryOutbox store ctx tenantID recordID (oc_Attempt claim) nextAttempt s of
             (Some retryErr, s') \<Rightarrow>
               (\<lparr>po_published = False, po_retried = False, po_err = Some (PublishFailed recordID err retryErr)\<rparr>, s')
           | (None, s') \<Rightarrow> (\<lparr>po_published = False, po_retried = True, po_err = None\<rparr>, s')))"

text \<open>
  The workers of a batch take the claims from a channel; each claim makes one call of the store,
  which is atomic, so a schedule of the workers is an order of the claims.
\<close>

fun publish_all ::
  "'s OutboxStore \<Rightarrow> OutboxPublisher \<Rightarrow> live_context \<Rightarrow> string \<Rightarrow> (OutboxClaim \<Rightarrow> string option) \<Rightarrow>
     (OutboxClaim \<Rightarrow> time) \<Rightarrow> OutboxClaim list \<Rightarrow> 's \<Rightarrow> publishOutcome list \<times> 's" where
  "publish_all store p ctx tenantID bus clock [] s = ([], s)"
| "publish_all store p ctx tenantID bus clock (claim # rest) s =
     (case publishClaim store p ctx tenantID bus clock claim s of
        (item, s') \<Rightarrow>
          (case publish_all store p ctx tenantID bus clock rest s' of (items, s'') \<Rightarrow> (item # items, s'')))"

fun collect_outcomes :: "publishOutcome list \<Rightarrow> PublishBatchResult \<Rightarrow> PublishBatchResult \<times> publish_error list" where
  "collect_outcomes [] result = (result, [])"
| "collect_outcomes (item # rest) result =
     (let result = (if po_published item then result\<lparr>br_Published := add64 (br_Published result) 1\<rparr> else result);
          result = (if po_retried item then result\<lparr>br_Retried := add64 (br_Retried result) 1\<rparr> else result)
      in case collect_outcomes rest result of
           (result', errs) \<Rightarrow> (result', case po_err item of None \<Rightarrow> errs | Some err \<Rightarrow> err # errs))"

definition RunOnce ::
  "'s OutboxStore \<Rightarrow> OutboxPublisher \<Rightarrow> live_context \<Rightarrow> string \<Rightarrow> time \<Rightarrow> (OutboxClaim \<Rightarrow> string option) \<Rightarrow>
     (OutboxClaim \<Rightarrow> time) \<Rightarrow> (OutboxClaim list \<Rightarrow> OutboxClaim list) \<Rightarrow> 's \<Rightarrow>
     (store_error + PublishBatchResult \<times> publish_error list) \<times> 's" where
  \<comment> \<open>an empty list of publish errors is a nil error\<close>
  "RunOnce store p ctx tenantID now bus clock schedule s =
     (if tenantID = [] then (Inl (store_invalid [] ''outbox tenant''), s)
      else (case os_ClaimOutbox store ctx tenantID (utc now) (op_batchSize p) (op_claimTTL p) s of
              (Inl err, s') \<Rightarrow> (Inl err, s')
            | (Inr claims, s') \<Rightarrow>
                (let result = \<lparr>br_Claimed = int (length claims), br_Published = 0, br_Retried = 0\<rparr> in
                 if length claims = 0 then (Inr (result, []), s')
                 else (case publish_all store p ctx tenantID bus clock (schedule claims) s' of
                         (outcomes, s'') \<Rightarrow> (Inr (collect_outcomes outcomes result), s'')))))"

section \<open>What the publisher relies on\<close>

text \<open>
  \<open>current\<close> says that a claim is the current one of an unpublished record, \<open>standing\<close> gives the
  publication time and the next attempt of a record. Claiming makes the claims current, marking
  and rescheduling a current claim succeeds and changes its record only.
\<close>

locale outbox_provider =
  fixes store :: "'s OutboxStore"
    and claimable :: "'s \<Rightarrow> bool"
    and ok :: "'s \<Rightarrow> bool"
    and current :: "'s \<Rightarrow> string \<Rightarrow> OutboxClaim \<Rightarrow> bool"
    and standing :: "'s \<Rightarrow> string \<Rightarrow> (time option \<times> time) option"
  assumes claims_current:
      "claimable s \<Longrightarrow> os_ClaimOutbox store ctx t now limit lease s = (Inr claims, s') \<Longrightarrow>
        ok s' \<and> distinct (map (ob_ID \<circ> oc_Record) claims) \<and> (\<forall>c \<in> set claims. current s' t c)
          \<and> int (length claims) \<le> limit"
    and mark_current:
      "ok s \<Longrightarrow> current s t c \<Longrightarrow> 0 < at_time \<Longrightarrow>
        \<exists>s'. os_MarkOutboxPublished store None t (ob_ID (oc_Record c)) (oc_Attempt c) at_time s = (None, s') \<and> ok s'
          \<and> (\<exists>a. standing s' (ob_ID (oc_Record c)) = Some (Some at_time, a))
          \<and> (\<forall>k. k \<noteq> ob_ID (oc_Record c) \<longrightarrow> standing s' k = standing s k)
          \<and> (\<forall>c'. ob_ID (oc_Record c') \<noteq> ob_ID (oc_Record c) \<longrightarrow> current s' t c' = current s t c')"
    and retry_current:
      "ok s \<Longrightarrow> current s t c \<Longrightarrow> 0 < at_time \<Longrightarrow>
        \<exists>s'. os_RetryOutbox store None t (ob_ID (oc_Record c)) (oc_Attempt c) at_time s = (None, s') \<and> ok s'
          \<and> standing s' (ob_ID (oc_Record c)) = Some (None, at_time)
          \<and> (\<forall>k. k \<noteq> ob_ID (oc_Record c) \<longrightarrow> standing s' k = standing s k)
          \<and> (\<forall>c'. ob_ID (oc_Record c') \<noteq> ob_ID (oc_Record c) \<longrightarrow> current s' t c' = current s t c')"
begin

definition settled :: "OutboxPublisher \<Rightarrow> (OutboxClaim \<Rightarrow> string option) \<Rightarrow> (OutboxClaim \<Rightarrow> time) \<Rightarrow> 's \<Rightarrow> OutboxClaim \<Rightarrow> bool" where
  "settled p bus clock s c \<longleftrightarrow>
     (case bus c of
        None \<Rightarrow> \<exists>a. standing s (ob_ID (oc_Record c)) = Some (Some (clock c), a)
      | Some _ \<Rightarrow> standing s (ob_ID (oc_Record c))
          = Some (None, clock c + retryDelay (oc_Attempt c) (op_initialBackoff p) (op_maximumBackoff p)))"

lemma publishClaim_settles:
  assumes "ok s" "current s t c" "0 < clock c"
    and "0 \<le> retryDelay (oc_Attempt c) (op_initialBackoff p) (op_maximumBackoff p)"
  shows "\<exists>s'. publishClaim store p None t bus clock c s
        = (\<lparr>po_published = bus c = None, po_retried = bus c \<noteq> None, po_err = None\<rparr>, s') \<and> ok s'
      \<and> settled p bus clock s' c
      \<and> (\<forall>k. k \<noteq> ob_ID (oc_Record c) \<longrightarrow> standing s' k = standing s k)
      \<and> (\<forall>c'. ob_ID (oc_Record c') \<noteq> ob_ID (oc_Record c) \<longrightarrow> current s' t c' = current s t c')"
proof (cases "bus c")
  case None
  with mark_current [OF assms(1,2,3)] show ?thesis
    by (force simp: publishClaim_def settled_def Let_def)
next
  case (Some err)
  have "0 < clock c + retryDelay (oc_Attempt c) (op_initialBackoff p) (op_maximumBackoff p)" using assms(3,4) by simp
  from retry_current [OF assms(1,2) this] Some show ?thesis
    by (force simp: publishClaim_def settled_def Let_def)
qed

lemma publish_all_settles:
  assumes "ok s" "distinct (map (ob_ID \<circ> oc_Record) cs)" "\<forall>c \<in> set cs. current s t c \<and> 0 < clock c
      \<and> 0 \<le> retryDelay (oc_Attempt c) (op_initialBackoff p) (op_maximumBackoff p)"
  shows "\<exists>s'. publish_all store p None t bus clock cs s
        = (map (\<lambda>c. \<lparr>po_published = bus c = None, po_retried = bus c \<noteq> None, po_err = None\<rparr>) cs, s')
      \<and> (\<forall>c \<in> set cs. settled p bus clock s' c)
      \<and> (\<forall>k. k \<notin> (ob_ID \<circ> oc_Record) ` set cs \<longrightarrow> standing s' k = standing s k)"
  using assms
proof (induction cs arbitrary: s)
  case (Cons c cs)
  from publishClaim_settles [of s t c clock p bus] Cons.prems obtain s1 where
      s1: "publishClaim store p None t bus clock c s
        = (\<lparr>po_published = bus c = None, po_retried = bus c \<noteq> None, po_err = None\<rparr>, s1)" "ok s1"
        "settled p bus clock s1 c"
      and others: "\<forall>k. k \<noteq> ob_ID (oc_Record c) \<longrightarrow> standing s1 k = standing s k"
        "\<forall>c'. ob_ID (oc_Record c') \<noteq> ob_ID (oc_Record c) \<longrightarrow> current s1 t c' = current s t c'"
    by auto
  have fresh: "\<forall>c' \<in> set cs. ob_ID (oc_Record c') \<noteq> ob_ID (oc_Record c)"
    using Cons.prems(2) by (simp add: image_iff) metis
  with Cons.prems others have rest: "\<forall>c' \<in> set cs. current s1 t c' \<and> 0 < clock c'
      \<and> 0 \<le> retryDelay (oc_Attempt c') (op_initialBackoff p) (op_maximumBackoff p)" by simp
  from Cons.IH [OF s1(2) _ rest] Cons.prems(2) obtain s2 where
      s2: "publish_all store p None t bus clock cs s1
        = (map (\<lambda>c. \<lparr>po_published = bus c = None, po_retried = bus c \<noteq> None, po_err = None\<rparr>) cs, s2)"
        "\<forall>c' \<in> set cs. settled p bus clock s2 c'"
      and kept: "\<forall>k. k \<notin> (ob_ID \<circ> oc_Record) ` set cs \<longrightarrow> standing s2 k = standing s1 k" by auto
  have "settled p bus clock s2 c" using s1(3) kept Cons.prems(2) by (simp add: settled_def split: option.splits)
  with s1(1) s2 kept others(1) show ?case by (intro exI [of _ s2]) simp
qed simp

lemma collect_all:
  assumes "0 \<le> br_Published r" "br_Published r + int (length cs) < 2 ^ 63"
    and "0 \<le> br_Retried r" "br_Retried r + int (length cs) < 2 ^ 63"
  shows "collect_outcomes (map (\<lambda>c. \<lparr>po_published = bus c = None, po_retried = bus c \<noteq> None, po_err = None\<rparr>) cs) r
    = (r\<lparr>br_Published := br_Published r + int (length (filter (\<lambda>c. bus c = None) cs)),
         br_Retried := br_Retried r + int (length (filter (\<lambda>c. bus c \<noteq> None) cs))\<rparr>, [])"
  using assms
proof (induction cs arbitrary: r)
  case (Cons c cs)
  let ?r = "if bus c = None then r\<lparr>br_Published := br_Published r + 1\<rparr> else r\<lparr>br_Retried := br_Retried r + 1\<rparr>"
  have "add64 (br_Published r) 1 = br_Published r + 1" "add64 (br_Retried r) 1 = br_Retried r + 1"
    using Cons.prems by (simp_all add: add64_id int64_def)
  moreover have "collect_outcomes (map (\<lambda>c. \<lparr>po_published = bus c = None, po_retried = bus c \<noteq> None, po_err = None\<rparr>) cs) ?r
    = (?r\<lparr>br_Published := br_Published ?r + int (length (filter (\<lambda>c. bus c = None) cs)),
         br_Retried := br_Retried ?r + int (length (filter (\<lambda>c. bus c \<noteq> None) cs))\<rparr>, [])"
    using Cons.prems by (intro Cons.IH) auto
  ultimately show ?case by (cases "bus c") (simp_all add: Let_def algebra_simps)
qed simp

lemma run_once:
  assumes "claimable s" "t \<noteq> []" "os_ClaimOutbox store None t now (op_batchSize p) (op_claimTTL p) s = (Inr claims, s1)"
    and "op_batchSize p < 2 ^ 63" "\<And>xs. mset (schedule xs) = mset xs"
    and "\<And>c. 0 < clock c" "\<And>a. 0 \<le> retryDelay a (op_initialBackoff p) (op_maximumBackoff p)"
  shows "\<exists>s'. RunOnce store p None t now bus clock schedule s
        = (Inr (\<lparr>br_Claimed = int (length claims), br_Published = int (length (filter (\<lambda>c. bus c = None) claims)),
                 br_Retried = int (length (filter (\<lambda>c. bus c \<noteq> None) claims))\<rparr>, []), s')
      \<and> (\<forall>c \<in> set claims. settled p bus clock s' c)"
proof (cases "claims = []")
  case True
  with assms(2,3) show ?thesis by (intro exI [of _ s1]) (simp add: RunOnce_def)
next
  case False
  from claims_current [OF assms(1,3)] have ok: "ok s1" and ids: "distinct (map (ob_ID \<circ> oc_Record) claims)"
    and cur: "\<forall>c \<in> set claims. current s1 t c" and len: "int (length claims) \<le> op_batchSize p" by blast+
  let ?cs = "schedule claims"
  have same: "set ?cs = set claims" "length ?cs = length claims" "mset ?cs = mset claims"
    using assms(5) [of claims] mset_eq_setD mset_eq_length by blast+
  have "mset (map (ob_ID \<circ> oc_Record) ?cs) = mset (map (ob_ID \<circ> oc_Record) claims)" by (simp add: same(3))
  with ids have "distinct (map (ob_ID \<circ> oc_Record) ?cs)" by (rule mset_eq_imp_distinct_iff [THEN iffD2, rotated])
  from publish_all_settles [OF ok this, of t clock p bus] cur assms(6,7) same(1) obtain s' where
      s': "publish_all store p None t bus clock ?cs s1
        = (map (\<lambda>c. \<lparr>po_published = bus c = None, po_retried = bus c \<noteq> None, po_err = None\<rparr>) ?cs, s')"
        "\<forall>c \<in> set claims. settled p bus clock s' c" by auto
  have counts: "length (filter P ?cs) = length (filter P claims)" for P
    using same(3) by (metis mset_filter size_mset)
  have "RunOnce store p None t now bus clock schedule s
      = (Inr (\<lparr>br_Claimed = int (length claims), br_Published = int (length (filter (\<lambda>c. bus c = None) claims)),
               br_Retried = int (length (filter (\<lambda>c. bus c \<noteq> None) claims))\<rparr>, []), s')"
    using assms(2,3,4) False s'(1) len same(2) counts by (simp add: RunOnce_def collect_all del: not_None_eq)
  with s'(2) show ?thesis by blast
qed

end

section \<open>The in-memory store as a provider\<close>

definition memory_claimable :: "MemoryStore \<Rightarrow> bool" where
  "memory_claimable s \<longleftrightarrow> outbox_ok s \<and> attempts_ok (2 ^ 63 - 2) s"

definition memory_current :: "MemoryStore \<Rightarrow> string \<Rightarrow> OutboxClaim \<Rightarrow> bool" where
  "memory_current s t c \<longleftrightarrow>
     t \<noteq> [] \<and> 0 < oc_Attempt c \<and> current_claim t (ob_ID (oc_Record c)) (oc_Attempt c) s \<noteq> None"

definition memory_standing :: "MemoryStore \<Rightarrow> string \<Rightarrow> (time option \<times> time) option" where
  "memory_standing s k = map_option (\<lambda>r. (ob_PublishedAt r, ob_NextAttempt r)) (map_of (ms_outbox s) k)"

lemma current_claim_key: "outbox_ok s \<Longrightarrow> current_claim t k a s = Some r \<Longrightarrow> k \<noteq> []"
  using outbox_okD(2) [of s k r] by (auto simp: current_claim_Some outboxID_def)

interpretation memory: outbox_provider memory_outbox memory_claimable outbox_ok memory_current memory_standing
proof unfold_locales
  fix s ctx t now limit lease claims s'
  assume ready: "memory_claimable s"
    and claim': "os_ClaimOutbox memory_outbox ctx t now limit lease s = (Inr claims, s')"
  from ready have ok: "outbox_ok s" by (simp add: memory_claimable_def)
  from claim' have claim: "ClaimOutbox ctx t now limit lease s = (Inr claims, s')" by (simp add: memory_outbox_def)
  then have t: "t \<noteq> []" "0 < limit" and claims: "claims = map (claim_of now lease) (ready_records t now limit s)"
    by (auto simp: ClaimOutbox_def claim_records_eq split: option.splits if_splits)
  have "outbox_ok s'" using outbox_ok_touched [OF ok claim_touched [OF ok, of ctx t now limit lease]] claim by simp
  moreover have "distinct (map (ob_ID \<circ> oc_Record) claims)"
    using ready_records_distinct [OF ok, of t now limit] by (simp add: claims comp_def claim_of_def bump_def)
  moreover have "memory_current s' t c" if c: "c \<in> set claims" for c
  proof -
    from claim_effect [OF ok claim c] obtain r where r: "map_of (ms_outbox s) (ob_ID (oc_Record c)) = Some r"
        "outbox_ready t now r" "oc_Attempt c = add64 (ob_Attempts r) 1"
        "map_of (ms_outbox s') (ob_ID (oc_Record c)) = Some (bump now lease r)" by blast
    have "0 \<le> ob_Attempts r" "ob_Attempts r \<le> 2 ^ 63 - 2"
      using ready r(1) unfolding memory_claimable_def attempts_ok_def by blast+
    then have "0 < oc_Attempt c" using r(3) by (simp add: add64_id int64_def)
    with r t show ?thesis by (simp add: memory_current_def current_claim_def bump_def outbox_ready_def)
  qed
  moreover have "int (length claims) \<le> limit" using t(2) by (simp add: claims ready_records_def Let_def)
  ultimately show "outbox_ok s' \<and> distinct (map (ob_ID \<circ> oc_Record) claims)
      \<and> (\<forall>c \<in> set claims. memory_current s' t c) \<and> int (length claims) \<le> limit" by blast
next
  fix s t c and at_time :: time
  assume ok: "outbox_ok s" and cur: "memory_current s t c" and at_time: "0 < at_time"
  let ?k = "ob_ID (oc_Record c)"
  from cur obtain r where r: "current_claim t ?k (oc_Attempt c) s = Some r" "t \<noteq> []" "0 < oc_Attempt c"
    by (auto simp: memory_current_def)
  note key = current_claim_key [OF ok r(1)]
  have rec: "map_of (ms_outbox s) ?k = Some r" "ob_PublishedAt r = None" using r(1) by (simp_all add: current_claim_Some)
  have stored: "outbox_ok (s\<lparr>ms_outbox := gomap_put ?k r' (ms_outbox s)\<rparr>)" if "record_touched r r'" for r'
    by (rule outbox_ok_touched [OF ok outbox_touched_put [OF rec(1) that]])
  show "\<exists>s'. os_MarkOutboxPublished memory_outbox None t ?k (oc_Attempt c) at_time s = (None, s') \<and> outbox_ok s'
      \<and> (\<exists>a. memory_standing s' ?k = Some (Some at_time, a))
      \<and> (\<forall>k. k \<noteq> ?k \<longrightarrow> memory_standing s' k = memory_standing s k)
      \<and> (\<forall>c'. ob_ID (oc_Record c') \<noteq> ?k \<longrightarrow> memory_current s' t c' = memory_current s t c')"
    using r key at_time rec stored
    by (auto simp: memory_outbox_def MarkOutboxPublished_def is_zero_time_def memory_standing_def memory_current_def
        current_claim_def amap.look_store record_touched_def)
  show "\<exists>s'. os_RetryOutbox memory_outbox None t ?k (oc_Attempt c) at_time s = (None, s') \<and> outbox_ok s'
      \<and> memory_standing s' ?k = Some (None, at_time)
      \<and> (\<forall>k. k \<noteq> ?k \<longrightarrow> memory_standing s' k = memory_standing s k)
      \<and> (\<forall>c'. ob_ID (oc_Record c') \<noteq> ?k \<longrightarrow> memory_current s' t c' = memory_current s t c')"
    using r key at_time rec stored
    by (auto simp: memory_outbox_def RetryOutbox_def is_zero_time_def memory_standing_def memory_current_def
        current_claim_def amap.look_store record_touched_def)
qed

section \<open>Properties\<close>

lemma default_to_pos: "0 \<le> v \<Longrightarrow> 0 < d \<Longrightarrow> 0 < default_to v d"
  by (simp add: default_to_def)

lemma default_to_int64: "int64 v \<Longrightarrow> int64 d \<Longrightarrow> int64 (default_to v d)"
  by (simp add: default_to_def)

lemma publisher_config:
  assumes new: "NewOutboxPublisher False False config = Inr p"
    and range: "int64 (cf_BatchSize config)" "int64 (cf_MaxBackoff config)"
  shows "0 < op_batchSize p" "op_batchSize p < 2 ^ 63" "0 < op_claimTTL p"
    "0 < op_initialBackoff p" "op_initialBackoff p \<le> op_maximumBackoff p" "int64 (op_maximumBackoff p)"
proof -
  have nonneg: "0 \<le> cf_BatchSize config" "0 \<le> cf_ClaimTTL config" "0 \<le> cf_InitialBackoff config"
    and order: "cf_InitialBackoff (default_config config) \<le> cf_MaxBackoff (default_config config)"
    and p: "op_batchSize p = cf_BatchSize (default_config config)" "op_claimTTL p = cf_ClaimTTL (default_config config)"
      "op_initialBackoff p = cf_InitialBackoff (default_config config)"
      "op_maximumBackoff p = cf_MaxBackoff (default_config config)"
    using new by (auto simp: NewOutboxPublisher_def Let_def split: if_split_asm)
  have fields: "cf_BatchSize (default_config config) = default_to (cf_BatchSize config) 100"
    "cf_ClaimTTL (default_config config) = default_to (cf_ClaimTTL config) (30 * second_ns)"
    "cf_InitialBackoff (default_config config) = default_to (cf_InitialBackoff config) second_ns"
    "cf_MaxBackoff (default_config config) = default_to (cf_MaxBackoff config) (60 * second_ns)"
    by (simp_all add: default_config_def Let_def)
  show "0 < op_batchSize p" "0 < op_claimTTL p" "0 < op_initialBackoff p" "op_initialBackoff p \<le> op_maximumBackoff p"
    using nonneg order by (simp_all add: p fields default_to_pos second_ns_def)
  have "int64 (op_batchSize p)" "int64 (op_maximumBackoff p)"
    using range by (simp_all only: p fields default_to_int64 int64_def second_ns_def) (simp_all add: default_to_def)
  then show "op_batchSize p < 2 ^ 63" "int64 (op_maximumBackoff p)" by (simp_all add: int64_def)
qed

text \<open>
  A batch settles every claim. With a live context, a publisher the constructor accepts and a
  reachable store, one batch claims what is ready and, whatever the schedule of its workers and
  whatever the bus answers, ends without an error: the counts are exact, every claim the bus took
  is published at its time, and every claim it refused is unpublished and due again after the
  doubled delay cut at the maximum.
\<close>

lemma run_once_settles:
  assumes config: "NewOutboxPublisher False False config = Inr p" "int64 (cf_BatchSize config)" "int64 (cf_MaxBackoff config)"
    and run: "s = store_run jcs ops NewMemoryStore" "int (length ops) \<le> 2 ^ 63 - 2"
    and args: "t \<noteq> []" "now \<noteq> 0"
    and schedule: "\<And>xs. mset (schedule xs) = mset xs" and clock: "\<And>c. 0 < clock c"
  shows "\<exists>claims s1 s'. ClaimOutbox None t now (op_batchSize p) (op_claimTTL p) s = (Inr claims, s1)
    \<and> RunOnce memory_outbox p None t now bus clock schedule s
        = (Inr (\<lparr>br_Claimed = int (length claims), br_Published = int (length (filter (\<lambda>c. bus c = None) claims)),
                 br_Retried = int (length (filter (\<lambda>c. bus c \<noteq> None) claims))\<rparr>, []), s')
    \<and> (\<forall>c \<in> set claims. \<exists>r. map_of (ms_outbox s') (ob_ID (oc_Record c)) = Some r
         \<and> (if bus c = None then ob_PublishedAt r = Some (clock c)
            else ob_PublishedAt r = None \<and> ob_NextAttempt r
              = clock c + min (op_maximumBackoff p) (op_initialBackoff p * 2 ^ nat (oc_Attempt c - 1))))"
proof -
  note ok = publisher_config [OF config]
  have delay: "retryDelay a (op_initialBackoff p) (op_maximumBackoff p)
      = min (op_maximumBackoff p) (op_initialBackoff p * 2 ^ nat (a - 1))" for a
    unfolding retryDelay_def by (rule backoff_loop_exact [OF ok(4-6)])
  then have nonneg: "0 \<le> retryDelay a (op_initialBackoff p) (op_maximumBackoff p)" for a
    using ok(4,5) by simp
  obtain claims s1 where claim: "ClaimOutbox None t now (op_batchSize p) (op_claimTTL p) s = (Inr claims, s1)"
    using ok(1,3) args by (simp add: ClaimOutbox_def is_zero_time_def claim_records_eq)
  have "attempts_ok (2 ^ 63 - 2) s"
    using run_attempts [of ops jcs] run unfolding attempts_ok_def by force
  moreover have "outbox_ok s" using run_store_ok [of jcs ops] run(1) by (simp add: store_ok_def)
  ultimately have "memory_claimable s" by (simp add: memory_claimable_def)
  moreover have "os_ClaimOutbox memory_outbox None t now (op_batchSize p) (op_claimTTL p) s = (Inr claims, s1)"
    using claim by (simp add: memory_outbox_def)
  ultimately obtain s' where s': "RunOnce memory_outbox p None t now bus clock schedule s
        = (Inr (\<lparr>br_Claimed = int (length claims), br_Published = int (length (filter (\<lambda>c. bus c = None) claims)),
                 br_Retried = int (length (filter (\<lambda>c. bus c \<noteq> None) claims))\<rparr>, []), s')"
      "\<forall>c \<in> set claims. memory.settled p bus clock s' c"
    using memory.run_once [of s t now p claims s1 schedule clock bus] args(1) ok(2) schedule clock nonneg by blast
  have "\<exists>r. map_of (ms_outbox s') (ob_ID (oc_Record c)) = Some r
         \<and> (if bus c = None then ob_PublishedAt r = Some (clock c)
            else ob_PublishedAt r = None \<and> ob_NextAttempt r
              = clock c + min (op_maximumBackoff p) (op_initialBackoff p * 2 ^ nat (oc_Attempt c - 1)))"
    if "c \<in> set claims" for c
    using s'(2) that by (auto simp: memory.settled_def memory_standing_def delay split: option.splits)
  with claim s'(1) show ?thesis by blast
qed

end
