(* ===== verification/Authn.thy ===== *)
theory Authn
  imports Contract_Types Aor_Errors Go_Time
begin

text \<open>
  The authentication boundary of \<open>internal/authn/authn.go\<close> and \<open>defaults.go\<close>: principals and their
  shape, the semantic validation of OIDC claims, the SPIFFE identity profile, the SVIDs, and the
  three authenticators. The verifiers that check signatures, the revocation service and the clock
  are interfaces of the source and parameters here.
\<close>

section \<open>Characters\<close>

text \<open>
  A control character is one byte in UTF-8 and no byte of a longer encoding is below \<open>0x80\<close>, so
  the loop over the runes of a text and the loop over its bytes find the same ones.
\<close>

definition control_char :: "char \<Rightarrow> bool" where
  "control_char c \<longleftrightarrow> (of_char c :: nat) < 32 \<or> (of_char c :: nat) = 127"

definition safeOpaque :: "string \<Rightarrow> nat \<Rightarrow> bool" where
  "safeOpaque value maximum =
     (if value = [] \<or> length value > maximum \<or> contains_any value crlf_nul then False
      else \<not> list_ex control_char value)"

definition is_word_char :: "char \<Rightarrow> bool" where
  "is_word_char c \<longleftrightarrow> is_lower_letter c \<or> is_upper_letter c \<or> is_digit c"

text \<open>\<open>^[A-Za-z0-9._:@/+~-]{1,256}$\<close> and \<open>^[A-Za-z0-9._~-]{1,128}$\<close>.\<close>

definition identityPartPattern :: "string \<Rightarrow> bool" where
  "identityPartPattern s \<longleftrightarrow>
     1 \<le> length s \<and> length s \<le> 256 \<and> list_all (\<lambda>c. is_word_char c \<or> c \<in> set ''._:@/+~-'') s"

definition spiffePartPattern :: "string \<Rightarrow> bool" where
  "spiffePartPattern s \<longleftrightarrow>
     1 \<le> length s \<and> length s \<le> 128 \<and> list_all (\<lambda>c. is_word_char c \<or> c \<in> set ''._~-'') s"

definition sensitive_fragments :: "string list" where
  "sensitive_fragments =
     [''secret'', ''password'', ''passwd'', ''token'', ''credential'', ''privatekey'', ''apikey'',
      ''refreshtoken'']"

definition sensitiveName :: "string \<Rightarrow> bool" where
  "sensitiveName value =
     (let normalized = to_lower (filter (\<lambda>c. c \<noteq> CHR ''-'') (filter (\<lambda>c. c \<noteq> CHR ''_'') value))
      in list_ex (contains_sub normalized) sensitive_fragments)"

section \<open>Principals\<close>

datatype PrincipalType =
    PrincipalUser
  | PrincipalService
  | PrincipalAgentRuntime
  | PrincipalAgentInstance
  | PrincipalSandbox
  | PrincipalMCPServer
  | PrincipalCIRunner
  | PrincipalKnowledgeCurator
  | PrincipalBreakGlassAdmin
  | PrincipalOther string

fun principal_type_string :: "PrincipalType \<Rightarrow> string" where
  "principal_type_string PrincipalUser = ''USER''"
| "principal_type_string PrincipalService = ''SERVICE''"
| "principal_type_string PrincipalAgentRuntime = ''AGENT_RUNTIME''"
| "principal_type_string PrincipalAgentInstance = ''AGENT_INSTANCE''"
| "principal_type_string PrincipalSandbox = ''SANDBOX''"
| "principal_type_string PrincipalMCPServer = ''MCP_SERVER''"
| "principal_type_string PrincipalCIRunner = ''CI_RUNNER''"
| "principal_type_string PrincipalKnowledgeCurator = ''KNOWLEDGE_CURATOR''"
| "principal_type_string PrincipalBreakGlassAdmin = ''BREAK_GLASS_ADMIN''"
| "principal_type_string (PrincipalOther s) = s"

fun knownPrincipalType :: "PrincipalType \<Rightarrow> bool" where
  "knownPrincipalType (PrincipalOther s) = False"
| "knownPrincipalType _ = True"

definition no_principal_type :: PrincipalType where
  \<comment> \<open>the empty string\<close>
  "no_principal_type = PrincipalOther []"

definition RoleGoalProposer :: string where "RoleGoalProposer = ''GOAL_PROPOSER''"
definition RoleGoalChallenger :: string where "RoleGoalChallenger = ''GOAL_CHALLENGER''"
definition RolePlanSupervisor :: string where "RolePlanSupervisor = ''PLAN_SUPERVISOR''"
definition RoleModulePlanner :: string where "RoleModulePlanner = ''MODULE_PLANNER''"
definition RoleExecutor :: string where "RoleExecutor = ''EXECUTOR''"
definition RoleAuditor :: string where "RoleAuditor = ''AUDITOR''"
definition RoleGlobalAuditor :: string where "RoleGlobalAuditor = ''GLOBAL_AUDITOR''"
definition RoleKnowledgeCurator :: string where "RoleKnowledgeCurator = ''KNOWLEDGE_CURATOR''"
definition RoleService :: string where "RoleService = ''SERVICE''"
definition RoleUser :: string where "RoleUser = ''USER''"
definition RoleBreakGlassAdmin :: string where "RoleBreakGlassAdmin = ''BREAK_GLASS_ADMIN''"

lemmas role_defs = RoleGoalProposer_def RoleGoalChallenger_def RolePlanSupervisor_def
  RoleModulePlanner_def RoleExecutor_def RoleAuditor_def RoleGlobalAuditor_def
  RoleKnowledgeCurator_def RoleService_def RoleUser_def RoleBreakGlassAdmin_def

record Principal =
  pc_ID :: string
  pc_Type :: PrincipalType
  pc_Role :: string
  pc_TenantID :: string
  pc_ProjectID :: string
  pc_Issuer :: string
  pc_Subject :: string
  pc_Attributes :: "(string, string) gomap"

definition subject_error :: "Principal \<Rightarrow> aor_error" where
  "subject_error p = New CodeUnauthorized [] [(''subjectType'', DString (principal_type_string (pc_Type p)))]"

definition bad_identity_attribute :: "string \<times> string \<Rightarrow> bool" where
  "bad_identity_attribute kv =
     (case kv of (key, value) \<Rightarrow>
        \<not> identityPartPattern key \<or> sensitiveName key \<or> length value > 512 \<or> contains_any value crlf_nul)"

definition Principal_Validate :: "Principal \<Rightarrow> aor_error option" where
  "Principal_Validate p =
     (if \<not> safeOpaque (pc_ID p) 512 then Some (subject_error p)
      else if \<not> knownPrincipalType (pc_Type p) then Some (subject_error p)
      else if pc_Role p \<noteq> [] \<and> \<not> identityPartPattern (pc_Role p) then Some (subject_error p)
      else if pc_TenantID p \<noteq> [] \<and> \<not> identityPartPattern (pc_TenantID p) then Some (subject_error p)
      else if pc_ProjectID p \<noteq> [] \<and> \<not> identityPartPattern (pc_ProjectID p) then Some (subject_error p)
      else if length (pc_Attributes p) > 64 then Some (subject_error p)
      else if list_ex bad_identity_attribute (pc_Attributes p) then Some (subject_error p)
      else None)"

definition Principal_String :: "Principal \<Rightarrow> string" where
  "Principal_String p =
     (if pc_ID p = [] then ''<invalid-principal>''
      else if pc_Role p = [] then principal_type_string (pc_Type p) @ '':'' @ pc_ID p
      else principal_type_string (pc_Type p) @ '':'' @ pc_Role p @ '':'' @ pc_ID p)"

text \<open>
  A context, as far as the code looks into it: the error it carries once it is canceled, and the
  principal stored in it. Packages that store more extend the record. A nil context is \<open>None\<close>.
\<close>

record auth_context =
  cx_Err :: "go_error option"
  cx_Principal :: "Principal option"

definition unauthorized :: aor_error where
  "unauthorized = New CodeUnauthorized [] []"

definition ContextWithPrincipal ::
  "'c auth_context_scheme option \<Rightarrow> Principal \<Rightarrow> aor_error + 'c auth_context_scheme" where
  "ContextWithPrincipal ctx subject =
     (case ctx of
        None \<Rightarrow> Inl unauthorized
      | Some c \<Rightarrow> if Principal_Validate subject \<noteq> None then Inl unauthorized
                  else Inr (c\<lparr>cx_Principal := Some subject\<rparr>))"

definition PrincipalFromContext :: "'c auth_context_scheme option \<Rightarrow> Principal option" where
  "PrincipalFromContext ctx =
     (case ctx of
        None \<Rightarrow> None
      | Some c \<Rightarrow> (case cx_Principal c of
                     None \<Rightarrow> None
                   | Some p \<Rightarrow> if Principal_Validate p \<noteq> None then None else Some p))"

definition cloneAttributes :: "(string, string) gomap \<Rightarrow> (string, string) gomap" where
  [simp]: "cloneAttributes input = input"

definition containsExact :: "string list \<Rightarrow> string \<Rightarrow> bool" where
  "containsExact values expected = list_ex (\<lambda>v. v = expected) values"

section \<open>OIDC claims\<close>

definition minute_ns :: int where
  "minute_ns = 60 * second_ns"

record OIDCClaims =
  oc_Issuer :: string
  oc_Subject :: string
  oc_Audience :: "string list"
  oc_IssuedAt :: time
  oc_NotBefore :: time
  oc_ExpiresAt :: time
  oc_PrincipalType :: PrincipalType
  oc_Role :: string
  oc_TenantID :: string
  oc_ProjectID :: string
  oc_Attributes :: "(string, string) gomap"

record OIDCValidation =
  ov_TrustedIssuers :: "string list"
  ov_Audience :: string
  ov_ClockSkew :: duration

definition oidc_principal :: "OIDCClaims \<Rightarrow> Principal" where
  "oidc_principal claims =
     \<lparr>pc_ID = oc_Subject claims,
      pc_Type = (if oc_PrincipalType claims = no_principal_type then PrincipalUser else oc_PrincipalType claims),
      pc_Role = oc_Role claims, pc_TenantID = oc_TenantID claims, pc_ProjectID = oc_ProjectID claims,
      pc_Issuer = oc_Issuer claims, pc_Subject = oc_Subject claims,
      pc_Attributes = cloneAttributes (oc_Attributes claims)\<rparr>"

definition checked_principal :: "Principal \<Rightarrow> aor_error + Principal" where
  "checked_principal p = (case Principal_Validate p of Some e \<Rightarrow> Inl e | None \<Rightarrow> Inr p)"

definition ValidateOIDCClaims :: "OIDCClaims \<Rightarrow> OIDCValidation \<Rightarrow> time \<Rightarrow> aor_error + Principal" where
  \<comment> \<open>\<open>now\<close> is what the validation's clock reads\<close>
  "ValidateOIDCClaims claims validation now =
     (let skew = ov_ClockSkew validation in
      if length (ov_TrustedIssuers validation) = 0 \<or> ov_Audience validation = [] \<or> oc_Issuer claims = []
         \<or> oc_Subject claims = [] then Inl unauthorized
      else if oc_Issuer claims \<notin> set (ov_TrustedIssuers validation) then Inl unauthorized
      else if \<not> containsExact (oc_Audience claims) (ov_Audience validation) then Inl unauthorized
      else if length (oc_Audience claims) = 0 \<or> length (oc_Audience claims) > 32 then Inl unauthorized
      else if list_ex (\<lambda>a. \<not> safeOpaque a 512) (oc_Audience claims) then Inl unauthorized
      else if is_zero_time (oc_ExpiresAt claims) then Inl unauthorized
      else if skew < 0 \<or> skew > 5 * minute_ns then Inl (New CodeInvalidArgument [] [])
      else if \<not> now < oc_ExpiresAt claims + skew
         \<or> \<not> is_zero_time (oc_NotBefore claims) \<and> now + skew < oc_NotBefore claims then Inl unauthorized
      else if \<not> is_zero_time (oc_IssuedAt claims) \<and> now + skew < oc_IssuedAt claims then Inl unauthorized
      else checked_principal (oidc_principal claims))"

section \<open>Workload identities\<close>

record SPIFFEID =
  sp_TrustDomain :: string
  sp_Environment :: string
  sp_Service :: string
  sp_Instance :: string

definition SPIFFEID_String :: "SPIFFEID \<Rightarrow> string" where
  "SPIFFEID_String i =
     ''spiffe://'' @ sp_TrustDomain i @ ''/aor/'' @ sp_Environment i @ ''/'' @ sp_Service i @ ''/'' @ sp_Instance i"

text \<open>
  \<open>url.Parse\<close> as far as \<open>ParseSPIFFEID\<close> observes it. The text before the first \<open>#\<close> is parsed:
  the scheme is cut at the first colon, if only letters, digits and \<open>+-.\<close> precede it, and is
  lowered; one trailing question mark sets \<open>ForceQuery\<close> and is dropped, otherwise the query
  starts at the first one; a rest that starts with \<open>//\<close> holds the authority up to the next slash,
  and the path. A text with a percent sign is rejected by every branch of the caller (a scheme, a
  query or a user part may not hold one, a decoded host has a byte the pattern excludes, and the
  escaped path shows it), and a host that \<open>url.Parse\<close> refuses (a bad port or bracket) does not
  match the pattern either, so neither is decoded here.
\<close>

fun cut_at :: "char \<Rightarrow> string \<Rightarrow> string \<times> string" where
  \<comment> \<open>\<open>strings.Cut\<close>: what precedes the first occurrence and what follows it\<close>
  "cut_at d [] = ([], [])"
| "cut_at d (c # s) = (if c = d then ([], s) else (case cut_at d s of (a, b) \<Rightarrow> (c # a, b)))"

fun url_scheme_from :: "string \<Rightarrow> string \<Rightarrow> string \<Rightarrow> (string \<times> string) option" where
  \<comment> \<open>\<open>getScheme\<close>: the letters read so far (reversed), the rest, the whole text\<close>
  "url_scheme_from acc [] whole = Some ([], whole)"
| "url_scheme_from acc (c # s) whole =
     (if is_lower_letter c \<or> is_upper_letter c then url_scheme_from (c # acc) s whole
      else if is_digit c \<or> c \<in> set ''+-.'' then
        (if acc = [] then Some ([], whole) else url_scheme_from (c # acc) s whole)
      else if c = CHR '':'' then (if acc = [] then None else Some (rev acc, s))
      else Some ([], whole))"

record spiffe_url =
  su_Scheme :: string
  su_has_User :: bool
  su_Host :: string
  su_Path :: string
  su_RawQuery :: string
  su_Fragment :: string

definition url_authority :: "string \<Rightarrow> string \<times> string" where
  \<comment> \<open>the authority of a rest that starts with two slashes, and the path after it\<close>
  "url_authority rest =
     (takeWhile (\<lambda>c. c \<noteq> CHR ''/'') (drop 2 rest), dropWhile (\<lambda>c. c \<noteq> CHR ''/'') (drop 2 rest))"

definition url_parse_spiffe :: "string \<Rightarrow> spiffe_url option" where
  "url_parse_spiffe raw =
     (case cut_at (CHR ''#'') raw of (u, frag) \<Rightarrow>
      if list_ex control_char u then None
      else (case url_scheme_from [] u u of
         None \<Rightarrow> None
       | Some (scheme, rest) \<Rightarrow>
           (case (if has_suffix rest ''?'' \<and> count_list rest (CHR ''?'') = 1
                  then (take (length rest - 1) rest, [])
                  else cut_at (CHR ''?'') rest) of (rest', query) \<Rightarrow>
            if has_prefix rest' ''//'' then
              (case url_authority rest' of (authority, path) \<Rightarrow>
                 Some \<lparr>su_Scheme = to_lower scheme, su_has_User = CHR ''@'' \<in> set authority,
                       su_Host = authority, su_Path = path, su_RawQuery = query, su_Fragment = frag\<rparr>)
            else Some \<lparr>su_Scheme = to_lower scheme, su_has_User = False, su_Host = [], su_Path = rest',
                       su_RawQuery = query, su_Fragment = frag\<rparr>)))"

definition ParseSPIFFEID :: "string \<Rightarrow> aor_error + SPIFFEID" where
  "ParseSPIFFEID raw =
     (if length raw = 0 \<or> length raw > 2048 \<or> contains_any raw crlf_nul then Inl unauthorized
      else if CHR ''%'' \<in> set raw then Inl unauthorized
      else (case url_parse_spiffe raw of
         None \<Rightarrow> Inl unauthorized
       | Some parsed \<Rightarrow>
           if su_Scheme parsed \<noteq> ''spiffe'' \<or> su_Host parsed = [] \<or> su_RawQuery parsed \<noteq> []
              \<or> su_Fragment parsed \<noteq> [] \<or> su_has_User parsed then Inl unauthorized
           else if su_Path parsed \<noteq> ''/aor/'' @ trim_prefix (su_Path parsed) ''/aor/'' then Inl unauthorized
           else (case split_byte (CHR ''/'') (trim_prefix (su_Path parsed) ''/aor/'') of
                   [p0, p1, p2] \<Rightarrow>
                     if p0 = [] \<or> p1 = [] \<or> p2 = [] \<or> \<not> spiffePartPattern (su_Host parsed) then Inl unauthorized
                     else if \<not> list_all spiffePartPattern [p0, p1, p2] then Inl unauthorized
                     else Inr \<lparr>sp_TrustDomain = su_Host parsed, sp_Environment = p0, sp_Service = p1,
                               sp_Instance = p2\<rparr>
                 | _ \<Rightarrow> Inl unauthorized)))"

section \<open>SVIDs\<close>

record SVID =
  sv_ID :: string
  sv_Audience :: "string list"
  sv_IssuedAt :: time
  sv_NotBefore :: time
  sv_ExpiresAt :: time
  sv_PrincipalType :: PrincipalType
  sv_Role :: string
  sv_TenantID :: string
  sv_ProjectID :: string
  sv_Attributes :: "(string, string) gomap"

definition ValidAt :: "SVID \<Rightarrow> time \<Rightarrow> bool" where
  "ValidAt svid now \<longleftrightarrow>
     \<not> is_zero_time (sv_ExpiresAt svid) \<and> now < sv_ExpiresAt svid
     \<and> (is_zero_time (sv_NotBefore svid) \<or> \<not> now < sv_NotBefore svid)"

definition RotationDue :: "SVID \<Rightarrow> time \<Rightarrow> duration \<Rightarrow> bool" where
  "RotationDue svid now safetyWindow \<longleftrightarrow>
     safetyWindow < 0 \<or> \<not> ValidAt svid now \<or> \<not> now + safetyWindow < sv_ExpiresAt svid"

record SVIDValidation =
  vv_TrustDomain :: string
  vv_Environment :: string
  vv_Audience :: string
  vv_ClockSkew :: duration

definition svid_principal :: "SVID \<Rightarrow> Principal" where
  "svid_principal svid =
     \<lparr>pc_ID = sv_ID svid,
      pc_Type = (if sv_PrincipalType svid = no_principal_type then PrincipalService else sv_PrincipalType svid),
      pc_Role = sv_Role svid, pc_TenantID = sv_TenantID svid, pc_ProjectID = sv_ProjectID svid,
      pc_Issuer = [], pc_Subject = sv_ID svid, pc_Attributes = cloneAttributes (sv_Attributes svid)\<rparr>"

definition ValidateSVID :: "SVID \<Rightarrow> SVIDValidation \<Rightarrow> time \<Rightarrow> aor_error + Principal" where
  "ValidateSVID svid validation now =
     (let skew = vv_ClockSkew validation in
      if (case ParseSPIFFEID (sv_ID svid) of
            Inl _ \<Rightarrow> True
          | Inr identity \<Rightarrow>
              vv_TrustDomain validation = [] \<or> sp_TrustDomain identity \<noteq> vv_TrustDomain validation
              \<or> vv_Environment validation = [] \<or> sp_Environment identity \<noteq> vv_Environment validation)
      then Inl unauthorized
      else if vv_Audience validation \<noteq> [] \<and> \<not> containsExact (sv_Audience svid) (vv_Audience validation)
      then Inl unauthorized
      else if length (sv_Audience svid) > 32 then Inl unauthorized
      else if list_ex (\<lambda>a. \<not> safeOpaque a 512) (sv_Audience svid) then Inl unauthorized
      else if is_zero_time (sv_ExpiresAt svid) \<or> is_zero_time (sv_NotBefore svid) then Inl unauthorized
      else if skew < 0 \<or> skew > 5 * minute_ns then Inl (New CodeInvalidArgument [] [])
      else if \<not> now < sv_ExpiresAt svid + skew \<or> now + skew < sv_NotBefore svid then Inl unauthorized
      else if \<not> is_zero_time (sv_IssuedAt svid) \<and> now + skew < sv_IssuedAt svid then Inl unauthorized
      else checked_principal (svid_principal svid))"

section \<open>Authenticators\<close>

record Credential =
  cr_BearerToken :: string
  cr_SVID :: "SVID option"

text \<open>A revocation service answers for a kind and a value, or fails.\<close>

type_synonym revocation_checker = "string \<Rightarrow> string \<Rightarrow> go_error + bool"

definition check_revocation ::
  "revocation_checker option \<Rightarrow> string \<Rightarrow> string \<Rightarrow> Principal \<Rightarrow> aor_error + Principal" where
  "check_revocation revocations kind value subject =
     (case revocations of
        None \<Rightarrow> Inr subject
      | Some isRevoked \<Rightarrow>
          (case isRevoked kind value of
             Inl _ \<Rightarrow> Inl (New CodeDependencyUnavailable [] [])
           | Inr revoked \<Rightarrow> if revoked then Inl unauthorized else Inr subject))"

record OIDCAuthenticator =
  oa_Verifier :: "(string \<Rightarrow> go_error + OIDCClaims) option"
  oa_TrustedIssuers :: "string list"
  oa_Audience :: string
  oa_ClockSkew :: duration
  oa_Revocations :: "revocation_checker option"

definition NewOIDCAuthenticator ::
  "(string \<Rightarrow> go_error + OIDCClaims) \<Rightarrow> string list \<Rightarrow> string \<Rightarrow> OIDCAuthenticator" where
  "NewOIDCAuthenticator verifier issuers audience =
     \<lparr>oa_Verifier = Some verifier, oa_TrustedIssuers = remdups (filter (\<lambda>i. i \<noteq> []) issuers),
      oa_Audience = audience, oa_ClockSkew = 30 * second_ns, oa_Revocations = None\<rparr>"

definition OIDC_Authenticate ::
  "OIDCAuthenticator option \<Rightarrow> 'c auth_context_scheme \<Rightarrow> time \<Rightarrow> Credential \<Rightarrow> aor_error + Principal" where
  "OIDC_Authenticate authenticator ctx now credential =
     (case authenticator of
        None \<Rightarrow> Inl unauthorized
      | Some a \<Rightarrow>
        (case oa_Verifier a of
           None \<Rightarrow> Inl unauthorized
         | Some verify \<Rightarrow>
           if cr_BearerToken credential = [] \<or> length (cr_BearerToken credential) > 65536
              \<or> contains_any (cr_BearerToken credential) crlf_nul then Inl unauthorized
           else (case cx_Err ctx of
              Some e \<Rightarrow> Inl (Wrap CodeUnauthorized [] (Some e) [])
            | None \<Rightarrow>
              (case verify (cr_BearerToken credential) of
                 Inl _ \<Rightarrow> Inl unauthorized
               | Inr claims \<Rightarrow>
                 (case ValidateOIDCClaims claims
                         \<lparr>ov_TrustedIssuers = oa_TrustedIssuers a, ov_Audience = oa_Audience a,
                          ov_ClockSkew = oa_ClockSkew a\<rparr> now of
                    Inl e \<Rightarrow> Inl e
                  | Inr subject \<Rightarrow>
                      check_revocation (oa_Revocations a) ''oidc'' (oc_Subject claims) subject)))))"

record SPIFFEAuthenticator =
  sa_Verifier :: "(SVID \<Rightarrow> go_error + SVID) option"
  sa_TrustDomain :: string
  sa_Environment :: string
  sa_Audience :: string
  sa_ClockSkew :: duration
  sa_Revocations :: "revocation_checker option"

definition NewSPIFFEAuthenticator ::
  "(SVID \<Rightarrow> go_error + SVID) \<Rightarrow> string \<Rightarrow> string \<Rightarrow> SPIFFEAuthenticator" where
  "NewSPIFFEAuthenticator verifier trustDomain environment =
     \<lparr>sa_Verifier = Some verifier, sa_TrustDomain = trustDomain, sa_Environment = environment,
      sa_Audience = [], sa_ClockSkew = 30 * second_ns, sa_Revocations = None\<rparr>"

definition SPIFFE_Authenticate ::
  "SPIFFEAuthenticator option \<Rightarrow> 'c auth_context_scheme \<Rightarrow> time \<Rightarrow> Credential \<Rightarrow> aor_error + Principal" where
  "SPIFFE_Authenticate authenticator ctx now credential =
     (case authenticator of
        None \<Rightarrow> Inl unauthorized
      | Some a \<Rightarrow>
        (case (sa_Verifier a, cr_SVID credential) of
           (Some verify, Some presented) \<Rightarrow>
             (case cx_Err ctx of
                Some e \<Rightarrow> Inl (Wrap CodeUnauthorized [] (Some e) [])
              | None \<Rightarrow>
                (case verify presented of
                   Inl _ \<Rightarrow> Inl unauthorized
                 | Inr svid \<Rightarrow>
                   (case ValidateSVID svid
                           \<lparr>vv_TrustDomain = sa_TrustDomain a, vv_Environment = sa_Environment a,
                            vv_Audience = sa_Audience a, vv_ClockSkew = sa_ClockSkew a\<rparr> now of
                      Inl e \<Rightarrow> Inl e
                    | Inr subject \<Rightarrow>
                        check_revocation (sa_Revocations a) ''spiffe'' (sv_ID svid) subject)))
         | _ \<Rightarrow> Inl unauthorized))"

text \<open>
  The authenticator that fills in a tenant and a role the issuer left out. Its inner
  authenticator, an interface, is a function.
\<close>

record DefaultClaimsAuthenticator =
  dc_inner :: "Credential \<Rightarrow> aor_error + Principal"
  dc_tenantID :: string
  dc_role :: string

definition NewDefaultClaimsAuthenticator ::
  "(Credential \<Rightarrow> aor_error + Principal) option \<Rightarrow> string \<Rightarrow> string \<Rightarrow> aor_error + DefaultClaimsAuthenticator" where
  "NewDefaultClaimsAuthenticator inner tenantID role =
     (case inner of
        None \<Rightarrow> Inl (New CodeInvalidArgument [] [(''scope'', DString ''identity claim defaults'')])
      | Some f \<Rightarrow>
          if tenantID = [] \<or> role = []
          then Inl (New CodeInvalidArgument [] [(''scope'', DString ''identity claim defaults'')])
          else Inr \<lparr>dc_inner = f, dc_tenantID = tenantID, dc_role = role\<rparr>)"

definition fill_defaults :: "DefaultClaimsAuthenticator \<Rightarrow> Principal \<Rightarrow> Principal" where
  "fill_defaults d p =
     (let p1 = (if pc_TenantID p = [] then p\<lparr>pc_TenantID := dc_tenantID d\<rparr> else p)
      in if pc_Role p1 = [] then p1\<lparr>pc_Role := dc_role d\<rparr> else p1)"

definition Default_Authenticate ::
  "DefaultClaimsAuthenticator option \<Rightarrow> Credential \<Rightarrow> aor_error + Principal" where
  "Default_Authenticate authenticator credential =
     (case authenticator of
        None \<Rightarrow> Inl unauthorized
      | Some d \<Rightarrow>
          (case dc_inner d credential of
             Inl e \<Rightarrow> Inl e
           | Inr subject \<Rightarrow> checked_principal (fill_defaults d subject)))"

end
