(* ===== verification/Authn_Properties.thy ===== *)
theory Authn_Properties
  imports Authn
begin

text \<open>
  What the authentication boundary promises: an accepted credential is backed by a verified,
  current and unrevoked proof; workload identities survive printing and parsing; a principal
  stored in a context is read back.
\<close>

section \<open>Texts without separators\<close>

lemma cut_at_none: "d \<notin> set s \<Longrightarrow> cut_at d s = (s, [])"
  by (induction s) auto

lemma spiffe_part_chars:
  assumes "spiffePartPattern s"
  shows "s \<noteq> []" and "length s \<le> 128" and "\<And>c. c \<in> set s \<Longrightarrow> is_word_char c \<or> c \<in> set ''._~-''"
  using assms by (auto simp: spiffePartPattern_def list_all_iff)

lemma word_char_plain:
  assumes "is_word_char c \<or> c \<in> set ''._~-''"
  shows "c \<notin> set ''#?%/@'' \<and> \<not> control_char c"
  using assms
  by (auto simp: is_word_char_def is_lower_letter_def is_upper_letter_def is_digit_def control_char_def)

lemma spiffe_part_plain:
  assumes "spiffePartPattern s"
  shows "set s \<inter> set ''#?%/@'' = {} \<and> \<not> list_ex control_char s"
proof -
  have "c \<notin> set ''#?%/@'' \<and> \<not> control_char c" if "c \<in> set s" for c
    using that by (rule word_char_plain [OF spiffe_part_chars(3) [OF assms]])
  then show ?thesis by (simp only: list_ex_iff disjoint_iff) blast
qed

definition spiffe_ok :: "SPIFFEID \<Rightarrow> bool" where
  "spiffe_ok i \<longleftrightarrow>
     spiffePartPattern (sp_TrustDomain i) \<and> spiffePartPattern (sp_Environment i)
     \<and> spiffePartPattern (sp_Service i) \<and> spiffePartPattern (sp_Instance i)"

lemma scheme_spiffe: "url_scheme_from [] (''spiffe:'' @ s) w = Some (''spiffe'', s)"
  by (simp add: is_lower_letter_def is_upper_letter_def is_digit_def)

lemma slash_plain: "set s \<inter> set ''#?%/@'' = {} \<Longrightarrow> CHR ''/'' \<notin> set s"
  by auto

lemma url_authority_cut: "CHR ''/'' \<notin> set td \<Longrightarrow> url_authority (''//'' @ td @ ''/'' @ p) = (td, ''/'' @ p)"
  by (auto simp: url_authority_def takeWhile_append dropWhile_append split: if_splits)

lemma url_parse_spiffe_path:
  assumes td: "set td \<inter> set ''#?%/@'' = {}" "\<not> list_ex control_char td"
    and p: "set p \<inter> set ''#?'' = {}" "\<not> list_ex control_char p"
  shows "url_parse_spiffe (''spiffe://'' @ td @ ''/'' @ p) =
     Some \<lparr>su_Scheme = ''spiffe'', su_has_User = False, su_Host = td, su_Path = ''/'' @ p,
           su_RawQuery = [], su_Fragment = []\<rparr>"
proof -
  let ?rest = "''//'' @ td @ ''/'' @ p"
  have frag: "CHR ''#'' \<notin> set (''spiffe:'' @ ?rest)" and query: "CHR ''?'' \<notin> set ?rest"
    using td(1) p(1) by auto
  have ctl: "\<not> list_ex control_char (''spiffe:'' @ ?rest)"
    using td(2) p(2) by (simp add: control_char_def)
  have auth: "url_authority ?rest = (td, ''/'' @ p)"
    using td(1) by (intro url_authority_cut) auto
  have suf: "\<not> (has_suffix ?rest ''?'' \<and> count_list ?rest (CHR ''?'') = 1)"
    using query by (metis count_list_0_iff zero_neq_one)
  have user: "CHR ''@'' \<notin> set td" using td(1) by auto
  have low: "to_lower ''spiffe'' = ''spiffe''" by code_simp
  have pre: "has_prefix ?rest ''//''" by (rule has_prefix_append)
  have eq: "''spiffe://'' @ td @ ''/'' @ p = ''spiffe:'' @ ?rest" by simp
  show ?thesis
    unfolding url_parse_spiffe_def eq cut_at_none [OF frag] prod.case scheme_spiffe
    using ctl suf auth user low pre cut_at_none [OF query] by (simp only: if_False if_True option.case prod.case)
qed

lemma split_byte_three:
  assumes "CHR ''/'' \<notin> set a" "CHR ''/'' \<notin> set b" "CHR ''/'' \<notin> set c"
  shows "split_byte (CHR ''/'') (a @ ''/'' @ b @ ''/'' @ c) = [a, b, c]"
proof -
  have "split_byte (CHR ''/'') (join_with [CHR ''/''] [a, b, c]) = [a, b, c]"
    using assms by (intro split_byte_join) auto
  then show ?thesis by simp
qed

lemma ParseSPIFFEID_parts:
  assumes "\<not> (length raw = 0 \<or> length raw > 2048 \<or> contains_any raw crlf_nul)"
    and "CHR ''%'' \<notin> set raw" and "url_parse_spiffe raw = Some u"
    and "su_Scheme u = ''spiffe''" "su_RawQuery u = []" "su_Fragment u = []" "\<not> su_has_User u"
    and "spiffePartPattern (su_Host u)" and "su_Path u = ''/aor/'' @ rest"
    and "split_byte (CHR ''/'') rest = [e, s, n]"
    and "spiffePartPattern e" "spiffePartPattern s" "spiffePartPattern n"
  shows "ParseSPIFFEID raw =
     Inr \<lparr>sp_TrustDomain = su_Host u, sp_Environment = e, sp_Service = s, sp_Instance = n\<rparr>"
proof -
  have ne: "su_Host u \<noteq> []" "e \<noteq> []" "s \<noteq> []" "n \<noteq> []"
    using assms spiffe_part_chars(1) by blast+
  have trim: "trim_prefix (su_Path u) ''/aor/'' = rest"
    unfolding assms(9) by (rule trim_prefix_append)
  show ?thesis
    unfolding ParseSPIFFEID_def assms(3) option.case trim assms(10) list.case
    using assms ne by simp
qed

lemma ParseSPIFFEID_String:
  assumes "spiffe_ok i"
  shows "ParseSPIFFEID (SPIFFEID_String i) = Inr i"
proof -
  define td e s n where "td = sp_TrustDomain i" and "e = sp_Environment i" and "s = sp_Service i"
    and "n = sp_Instance i"
  note parts = td_def e_def s_def n_def
  from assms have pat: "spiffePartPattern td" "spiffePartPattern e" "spiffePartPattern s" "spiffePartPattern n"
    by (simp_all add: spiffe_ok_def parts)
  note plain = spiffe_part_plain [OF pat(1)] spiffe_part_plain [OF pat(2)] spiffe_part_plain [OF pat(3)]
    spiffe_part_plain [OF pat(4)]
  define p where "p = ''aor/'' @ e @ ''/'' @ s @ ''/'' @ n"
  have str: "SPIFFEID_String i = ''spiffe://'' @ td @ ''/'' @ p"
    by (simp add: SPIFFEID_String_def p_def parts)
  have len: "length td \<le> 128" "length e \<le> 128" "length s \<le> 128" "length n \<le> 128"
    using pat spiffe_part_chars(2) by blast+
  have ne: "td \<noteq> []" "e \<noteq> []" "s \<noteq> []" "n \<noteq> []" using pat spiffe_part_chars(1) by blast+
  have url: "url_parse_spiffe (SPIFFEID_String i) =
     Some \<lparr>su_Scheme = ''spiffe'', su_has_User = False, su_Host = td, su_Path = ''/'' @ p,
           su_RawQuery = [], su_Fragment = []\<rparr>"
    unfolding str using plain by (intro url_parse_spiffe_path) (auto simp: p_def control_char_def)
  have percent: "CHR ''%'' \<notin> set (SPIFFEID_String i)"
    using plain by (auto simp: str p_def)
  have nolines: "\<not> contains_any (SPIFFEID_String i) crlf_nul"
  proof -
    have "\<not> list_ex control_char (SPIFFEID_String i)"
      using plain by (simp add: str p_def control_char_def)
    then show ?thesis by (auto simp: contains_any_def crlf_nul_def list_ex_iff control_char_def)
  qed
  have split: "split_byte (CHR ''/'') (e @ ''/'' @ s @ ''/'' @ n) = [e, s, n]"
    using plain slash_plain by (intro split_byte_three) blast+
  have size: "\<not> (length (SPIFFEID_String i) = 0 \<or> length (SPIFFEID_String i) > 2048 \<or> contains_any (SPIFFEID_String i) crlf_nul)"
    using len nolines by (simp add: str p_def)
  have "ParseSPIFFEID (SPIFFEID_String i) =
      Inr \<lparr>sp_TrustDomain = td, sp_Environment = e, sp_Service = s, sp_Instance = n\<rparr>"
    using ParseSPIFFEID_parts [OF size percent url _ _ _ _ _ _ split] pat by (simp add: p_def)
  then show ?thesis by (simp add: parts)
qed

lemma ParseSPIFFEID_ok: "ParseSPIFFEID raw = Inr i \<Longrightarrow> spiffe_ok i"
  by (auto simp: ParseSPIFFEID_def spiffe_ok_def Let_def split: if_splits option.splits list.splits)

section \<open>Accepted credentials\<close>

lemma checked_principal_Inr: "checked_principal p = Inr q \<longleftrightarrow> q = p \<and> Principal_Validate p = None"
  by (auto simp: checked_principal_def split: option.splits)

lemma check_revocation_Inr:
  "check_revocation revocations kind v p = Inr q \<longleftrightarrow>
     q = p \<and> (\<forall>isRevoked. revocations = Some isRevoked \<longrightarrow> isRevoked kind v = Inr False)"
  by (auto simp: check_revocation_def split: option.splits sum.splits)

lemma containsExact_iff [simp]: "containsExact values x \<longleftrightarrow> x \<in> set values"
  by (auto simp: containsExact_def list_ex_iff)

definition within_skew :: "time \<Rightarrow> time \<Rightarrow> time \<Rightarrow> time \<Rightarrow> duration \<Rightarrow> bool" where
  \<comment> \<open>the moment lies inside a proof's life, up to the skew; a zero time sets no bound\<close>
  "within_skew now issued notBefore expires skew \<longleftrightarrow>
     0 \<le> skew \<and> skew \<le> 5 * minute_ns \<and> expires \<noteq> 0 \<and> now < expires + skew
     \<and> (notBefore = 0 \<or> notBefore \<le> now + skew) \<and> (issued = 0 \<or> issued \<le> now + skew)"

lemma ValidateOIDCClaims_Inr:
  assumes "ValidateOIDCClaims claims v now = Inr p"
  shows "p = oidc_principal claims \<and> Principal_Validate p = None
     \<and> oc_Issuer claims \<in> set (ov_TrustedIssuers v) \<and> ov_Audience v \<in> set (oc_Audience claims)
     \<and> oc_Issuer claims \<noteq> [] \<and> oc_Subject claims \<noteq> []
     \<and> within_skew now (oc_IssuedAt claims) (oc_NotBefore claims) (oc_ExpiresAt claims) (ov_ClockSkew v)"
  using assms unfolding ValidateOIDCClaims_def Let_def
  by (auto simp: checked_principal_Inr is_zero_time_def within_skew_def split: if_splits)

lemma ValidateSVID_Inr:
  assumes "ValidateSVID svid v now = Inr p"
  shows "p = svid_principal svid \<and> Principal_Validate p = None
     \<and> (\<exists>i. ParseSPIFFEID (sv_ID svid) = Inr i \<and> sp_TrustDomain i = vv_TrustDomain v
          \<and> sp_Environment i = vv_Environment v)
     \<and> within_skew now (sv_IssuedAt svid) (sv_NotBefore svid) (sv_ExpiresAt svid) (vv_ClockSkew v)"
  using assms unfolding ValidateSVID_def Let_def
  by (auto simp: checked_principal_Inr is_zero_time_def within_skew_def split: if_splits sum.splits)

lemma context_principal:
  "Principal_Validate p = None \<Longrightarrow>
     \<exists>c. ContextWithPrincipal (Some ctx) p = Inr c \<and> PrincipalFromContext (Some c) = Some p"
  by (simp add: ContextWithPrincipal_def PrincipalFromContext_def)

text \<open>
  C39: an accepted bearer token. Whatever the verifier, the revocation service and the context, a
  principal comes out only for claims the verifier extracted from that very token, whose issuer is
  one of the trusted ones, whose audience names this deployment, whose life, widened by the skew of
  at most five minutes, contains the present moment, and whose subject the revocation service, if
  there is one, has just reported as not revoked. The principal carries the subject and the issuer
  of the claims, and storing it in the context succeeds and gives it back.
\<close>

theorem oidc_authenticated:
  assumes "OIDC_Authenticate authenticator ctx now credential = Inr p"
  shows "\<exists>a verify claims. authenticator = Some a \<and> oa_Verifier a = Some verify
     \<and> verify (cr_BearerToken credential) = Inr claims
     \<and> oc_Issuer claims \<in> set (oa_TrustedIssuers a) \<and> oa_Audience a \<in> set (oc_Audience claims)
     \<and> within_skew now (oc_IssuedAt claims) (oc_NotBefore claims) (oc_ExpiresAt claims) (oa_ClockSkew a)
     \<and> (\<forall>isRevoked. oa_Revocations a = Some isRevoked \<longrightarrow> isRevoked ''oidc'' (oc_Subject claims) = Inr False)
     \<and> pc_ID p = oc_Subject claims \<and> pc_Issuer p = oc_Issuer claims
     \<and> (\<exists>c. ContextWithPrincipal (Some ctx) p = Inr c \<and> PrincipalFromContext (Some c) = Some p)"
proof -
  obtain a verify claims where a: "authenticator = Some a" "oa_Verifier a = Some verify"
      "verify (cr_BearerToken credential) = Inr claims"
    and valid: "ValidateOIDCClaims claims
        \<lparr>ov_TrustedIssuers = oa_TrustedIssuers a, ov_Audience = oa_Audience a, ov_ClockSkew = oa_ClockSkew a\<rparr>
        now = Inr p"
    and revoked: "\<forall>isRevoked. oa_Revocations a = Some isRevoked \<longrightarrow> isRevoked ''oidc'' (oc_Subject claims) = Inr False"
    using assms unfolding OIDC_Authenticate_def
    by (auto simp: check_revocation_Inr split: option.splits if_splits sum.splits)
  note v = ValidateOIDCClaims_Inr [OF valid]
  from v have "pc_ID p = oc_Subject claims" "pc_Issuer p = oc_Issuer claims"
    by (simp_all add: oidc_principal_def)
  with a v revoked context_principal [of p ctx] show ?thesis by auto
qed

definition ex_claims :: OIDCClaims where
  "ex_claims = \<lparr>oc_Issuer = ''https://issuer'', oc_Subject = ''u1'', oc_Audience = [''aor''], oc_IssuedAt = 100,
     oc_NotBefore = 0, oc_ExpiresAt = 200, oc_PrincipalType = no_principal_type, oc_Role = ''USER'',
     oc_TenantID = ''t1'', oc_ProjectID = [], oc_Attributes = []\<rparr>"

definition ex_authenticator :: OIDCAuthenticator where
  "ex_authenticator =
     (NewOIDCAuthenticator (\<lambda>token. if token = ''tok'' then Inr ex_claims else Inl (GoPlain ''bad'')) [''https://issuer''] ''aor'')
       \<lparr>oa_Revocations := Some (\<lambda>kind v. Inr False)\<rparr>"

definition ex_auth_context :: auth_context where
  "ex_auth_context = \<lparr>cx_Err = None, cx_Principal = None\<rparr>"

lemma ex_oidc: "OIDC_Authenticate (Some ex_authenticator) ex_auth_context 150 \<lparr>cr_BearerToken = ''tok'', cr_SVID = None\<rparr> =
   Inr (oidc_principal ex_claims)"
proof -
  have shape: "Principal_Validate (oidc_principal ex_claims) = None"
    by (simp add: Principal_Validate_def oidc_principal_def ex_claims_def no_principal_type_def safeOpaque_def
        contains_any_def crlf_nul_def control_char_def identityPartPattern_def is_word_char_def is_upper_letter_def
        is_lower_letter_def is_digit_def)
  have claims: "ValidateOIDCClaims ex_claims \<lparr>ov_TrustedIssuers = [''https://issuer''], ov_Audience = ''aor'', ov_ClockSkew = 30 * second_ns\<rparr> 150
      = Inr (oidc_principal ex_claims)"
    unfolding ValidateOIDCClaims_def checked_principal_def shape
    by (simp add: ex_claims_def safeOpaque_def contains_any_def crlf_nul_def control_char_def is_zero_time_def
        minute_ns_def second_ns_def)
  have subject: "oc_Subject ex_claims = ''u1''" by (simp add: ex_claims_def)
  show ?thesis
    using claims
    by (simp add: OIDC_Authenticate_def ex_authenticator_def NewOIDCAuthenticator_def ex_auth_context_def
        contains_any_def crlf_nul_def check_revocation_def subject)
qed

theorem oidc_authenticated_witness:
  "\<exists>a verify claims. Some ex_authenticator = Some a \<and> oa_Verifier a = Some verify
     \<and> verify ''tok'' = Inr claims \<and> oc_Issuer claims \<in> set (oa_TrustedIssuers a)
     \<and> within_skew 150 (oc_IssuedAt claims) (oc_NotBefore claims) (oc_ExpiresAt claims) (oa_ClockSkew a)"
  using oidc_authenticated [OF ex_oidc] by auto

lemma spiffe_authenticated:
  assumes "SPIFFE_Authenticate authenticator ctx now credential = Inr p"
  shows "\<exists>a verify presented svid i. authenticator = Some a \<and> sa_Verifier a = Some verify
     \<and> cr_SVID credential = Some presented \<and> verify presented = Inr svid
     \<and> ParseSPIFFEID (sv_ID svid) = Inr i \<and> sp_TrustDomain i = sa_TrustDomain a
     \<and> sp_Environment i = sa_Environment a \<and> p = svid_principal svid \<and> Principal_Validate p = None"
proof -
  obtain a verify presented svid where a: "authenticator = Some a" "sa_Verifier a = Some verify"
      "cr_SVID credential = Some presented" "verify presented = Inr svid"
    and valid: "ValidateSVID svid
        \<lparr>vv_TrustDomain = sa_TrustDomain a, vv_Environment = sa_Environment a, vv_Audience = sa_Audience a,
         vv_ClockSkew = sa_ClockSkew a\<rparr> now = Inr p"
    using assms unfolding SPIFFE_Authenticate_def
    by (auto simp: check_revocation_Inr split: option.splits if_splits sum.splits)
  from a ValidateSVID_Inr [OF valid] show ?thesis by auto
qed

lemma default_authenticated:
  assumes "Default_Authenticate authenticator credential = Inr p"
  shows "Principal_Validate p = None
     \<and> (\<exists>d q. authenticator = Some d \<and> dc_inner d credential = Inr q \<and> pc_ID p = pc_ID q
          \<and> (pc_TenantID q \<noteq> [] \<longrightarrow> pc_TenantID p = pc_TenantID q) \<and> (pc_Role q \<noteq> [] \<longrightarrow> pc_Role p = pc_Role q))"
  using assms by (auto simp: Default_Authenticate_def checked_principal_Inr fill_defaults_def Let_def
      split: option.splits sum.splits if_splits)

section \<open>Workload identities\<close>

text \<open>
  Printing a workload identity and parsing the text gives the identity back, for every
  identity whose four parts match the pattern of the profile, and parsing produces no others: a
  parsed identity printed and parsed again is itself.
\<close>

lemma spiffe_roundtrip:
  "(spiffe_ok i \<longrightarrow> ParseSPIFFEID (SPIFFEID_String i) = Inr i)
   \<and> (ParseSPIFFEID raw = Inr j \<longrightarrow> ParseSPIFFEID (SPIFFEID_String j) = Inr j \<and> spiffe_ok j)"
  using ParseSPIFFEID_String ParseSPIFFEID_ok by blast

definition ex_spiffe :: SPIFFEID where
  "ex_spiffe = \<lparr>sp_TrustDomain = ''aor.local'', sp_Environment = ''prod'', sp_Service = ''broker'', sp_Instance = ''i-1''\<rparr>"

lemma ex_spiffe_ok: "spiffe_ok ex_spiffe"
  by code_simp

text \<open>
  The comment of \<open>ParseSPIFFEID\<close> says that alternate spellings of an identity are rejected; the
  scheme in capitals, a bare question mark and an empty fragment are accepted.
\<close>

lemma spiffe_alternate_spellings:
  "ParseSPIFFEID ''SPIFFE://aor.local/aor/prod/broker/i-1?#'' = Inr ex_spiffe
   \<and> SPIFFEID_String ex_spiffe \<noteq> ''SPIFFE://aor.local/aor/prod/broker/i-1?#''"
  by code_simp

end
