(* ===== verification/Go_Path.thy ===== *)
theory Go_Path
  imports Go_Strings
begin

text \<open>
  \<open>path.Match\<close> of Go's standard library, which compares one segment of a path with one segment of a
  glob: stars, question marks, character classes and escapes, over the runes of the text. A
  malformed pattern is an error (\<^const>\<open>None\<close>).
\<close>

section \<open>Runes\<close>

definition byte_at :: "string \<Rightarrow> nat \<Rightarrow> nat" where
  "byte_at s i = (if i < length s then of_char (s ! i) else 0)"

definition continuation :: "nat \<Rightarrow> nat \<Rightarrow> string \<Rightarrow> nat \<Rightarrow> bool" where
  "continuation lo hi s i \<longleftrightarrow> i < length s \<and> lo \<le> byte_at s i \<and> byte_at s i \<le> hi"

definition rune_error :: nat where
  "rune_error = 65533"

definition decode_rune :: "string \<Rightarrow> nat \<times> nat" where
  \<comment> \<open>\<open>utf8.DecodeRuneInString\<close>: the rune and its width; an invalid byte is \<open>RuneError\<close> of width 1\<close>
  "decode_rune s =
     (let b = byte_at s 0; c = (\<lambda>i. byte_at s i - 128) in
      if s = [] then (rune_error, 0)
      else if b < 128 then (b, 1)
      else if 194 \<le> b \<and> b \<le> 223 \<and> continuation 128 191 s 1 then ((b - 192) * 64 + c 1, 2)
      else if (b = 224 \<and> continuation 160 191 s 1 \<or> b = 237 \<and> continuation 128 159 s 1
               \<or> (225 \<le> b \<and> b \<le> 236 \<or> b = 238 \<or> b = 239) \<and> continuation 128 191 s 1)
              \<and> continuation 128 191 s 2
      then ((b - 224) * 4096 + c 1 * 64 + c 2, 3)
      else if (b = 240 \<and> continuation 144 191 s 1 \<or> b = 244 \<and> continuation 128 143 s 1
               \<or> 241 \<le> b \<and> b \<le> 243 \<and> continuation 128 191 s 1)
              \<and> continuation 128 191 s 2 \<and> continuation 128 191 s 3
      then ((b - 240) * 262144 + c 1 * 4096 + c 2 * 64 + c 3, 4)
      else (rune_error, 1))"

lemma decode_rune_width: "s \<noteq> [] \<Longrightarrow> 1 \<le> snd (decode_rune s) \<and> snd (decode_rune s) \<le> length s"
  by (auto simp: decode_rune_def Let_def continuation_def Suc_le_eq)

section \<open>Chunks\<close>

fun scan_body :: "bool \<Rightarrow> string \<Rightarrow> string \<times> string" where
  \<comment> \<open>what precedes the next star outside a class, and the rest\<close>
  "scan_body inrange [] = ([], [])"
| "scan_body inrange (c # s) =
     (if c = CHR 0x5C then
        (case s of [] \<Rightarrow> ([c], [])
         | d # s' \<Rightarrow> (case scan_body inrange s' of (a, b) \<Rightarrow> (c # d # a, b)))
      else if c = CHR ''['' then (case scan_body True s of (a, b) \<Rightarrow> (c # a, b))
      else if c = CHR '']'' then (case scan_body False s of (a, b) \<Rightarrow> (c # a, b))
      else if c = CHR ''*'' \<and> \<not> inrange then ([], c # s)
      else (case scan_body inrange s of (a, b) \<Rightarrow> (c # a, b)))"

definition scanChunk :: "string \<Rightarrow> bool \<times> string \<times> string" where
  "scanChunk pattern =
     (pattern \<noteq> [] \<and> hd pattern = CHR ''*'', scan_body False (dropWhile (\<lambda>c. c = CHR ''*'') pattern))"

definition esc_rune :: "string \<Rightarrow> (nat \<times> string) option" where
  "esc_rune chunk =
     (case decode_rune chunk of (r, n) \<Rightarrow>
        if r = rune_error \<and> n = 1 then None
        else if drop n chunk = [] then None
        else Some (r, drop n chunk))"

definition getEsc :: "string \<Rightarrow> (nat \<times> string) option" where
  "getEsc chunk =
     (case chunk of
        [] \<Rightarrow> None
      | c # rest \<Rightarrow>
          if c = CHR ''-'' \<or> c = CHR '']'' then None
          else if c = CHR 0x5C then (if rest = [] then None else esc_rune rest)
          else esc_rune chunk)"

lemma esc_rune_shorter:
  assumes "esc_rune chunk = Some (r, rest)"
  shows "length rest < length chunk"
proof -
  obtain q n where d: "decode_rune chunk = (q, n)" by fastforce
  with assms have rest: "rest = drop n chunk" "rest \<noteq> []" by (auto simp: esc_rune_def split: if_splits)
  then have "chunk \<noteq> []" by auto
  with decode_rune_width [of chunk] d have "1 \<le> n" by simp
  with rest \<open>chunk \<noteq> []\<close> show ?thesis by (cases chunk) auto
qed

lemma getEsc_shorter: "getEsc chunk = Some (r, rest) \<Longrightarrow> length rest < length chunk"
  by (auto simp: getEsc_def split: list.splits if_splits dest: esc_rune_shorter)

function class_ranges :: "nat \<Rightarrow> string \<Rightarrow> bool \<Rightarrow> nat \<Rightarrow> (bool \<times> string) option" where
  \<comment> \<open>the ranges of a class up to its bracket, for the rune \<open>r\<close>\<close>
  "class_ranges r chunk matched nrange =
     (if chunk \<noteq> [] \<and> hd chunk = CHR '']'' \<and> nrange > 0 then Some (matched, tl chunk)
      else (case getEsc chunk of
              None \<Rightarrow> None
            | Some (lo, chunk1) \<Rightarrow>
                if hd chunk1 = CHR ''-'' then
                  (case getEsc (tl chunk1) of
                     None \<Rightarrow> None
                   | Some (hi, chunk2) \<Rightarrow> class_ranges r chunk2 (matched \<or> lo \<le> r \<and> r \<le> hi) (Suc nrange))
                else class_ranges r chunk1 (matched \<or> lo \<le> r \<and> r \<le> lo) (Suc nrange)))"
  by pat_completeness auto
termination
proof (relation "measure (\<lambda>(r, chunk, matched, nrange). length chunk)")
  fix r :: nat and chunk :: string and matched :: bool and nrange lo hi :: nat and p q chunk1 chunk2
  assume one: "getEsc chunk = Some p" "(lo, chunk1) = p" and two: "getEsc (tl chunk1) = Some q" "(hi, chunk2) = q"
  from one have "length chunk1 < length chunk" by (auto dest: getEsc_shorter)
  moreover from two have "length chunk2 < length (tl chunk1)" by (auto dest: getEsc_shorter)
  ultimately show "((r, chunk2, matched \<or> lo \<le> r \<and> r \<le> hi, Suc nrange), r, chunk, matched, nrange)
      \<in> measure (\<lambda>(r, chunk, matched, nrange). length chunk)" by simp
qed (auto dest: getEsc_shorter)

declare class_ranges.simps [simp del]

lemma class_ranges_shorter: "class_ranges r chunk m n = Some (m', rest) \<Longrightarrow> length rest < length chunk"
proof (induction r chunk m n rule: class_ranges.induct)
  case (1 r chunk m n)
  show ?case
  proof (cases "chunk \<noteq> [] \<and> hd chunk = CHR '']'' \<and> n > 0")
    case True
    with "1.prems" show ?thesis by (cases chunk) (auto simp: class_ranges.simps [of r])
  next
    case False
    obtain lo c1 where one: "getEsc chunk = Some (lo, c1)"
      using "1.prems" False by (subst (asm) class_ranges.simps) (auto split: option.splits)
    note short = getEsc_shorter [OF one]
    show ?thesis
    proof (cases "hd c1 = CHR ''-''")
      case True
      obtain hi c2 where two: "getEsc (tl c1) = Some (hi, c2)"
        using "1.prems" False one True by (subst (asm) class_ranges.simps) (auto split: option.splits)
      have "class_ranges r c2 (m \<or> lo \<le> r \<and> r \<le> hi) (Suc n) = Some (m', rest)"
        using "1.prems" False one True two by (subst (asm) class_ranges.simps) simp
      then have "length rest < length c2" by (rule "1.IH"(1) [OF False one refl True two refl])
      with short getEsc_shorter [OF two] show ?thesis by simp
    next
      case no: False
      have "class_ranges r c1 (m \<or> lo \<le> r \<and> r \<le> lo) (Suc n) = Some (m', rest)"
        using "1.prems" False one no by (subst (asm) class_ranges.simps) simp
      then have "length rest < length c1" by (rule "1.IH"(2) [OF False one refl no])
      with short show ?thesis by simp
    qed
  qed
qed

definition class_negated :: "string \<Rightarrow> bool \<times> string" where
  "class_negated chunk =
     (if chunk \<noteq> [] \<and> hd chunk = CHR ''^'' then (True, tl chunk) else (False, chunk))"

lemma class_negated_le: "length (snd (class_negated chunk)) \<le> length chunk"
  by (simp add: class_negated_def)

text \<open>
  One chunk against the front of the text: the remaining text, or no match, or a bad pattern. A
  failed match goes on reading the chunk, for its errors, and no longer reads the text.
\<close>

function matchChunk :: "bool \<Rightarrow> string \<Rightarrow> string \<Rightarrow> string option option" where
  "matchChunk failed [] s = Some (if failed then None else Some s)"
| "matchChunk failed (c # chunk) s =
     (let failed1 = (failed \<or> s = []) in
      if c = CHR ''['' then
        (let (r, n) = (if failed1 then (0, 0) else decode_rune s);
             (negated, body) = class_negated chunk
         in (case class_ranges r body False 0 of
               None \<Rightarrow> None
             | Some (matched, rest) \<Rightarrow> matchChunk (failed1 \<or> matched = negated) rest (drop n s)))
      else if c = CHR ''?'' then
        (if failed1 then matchChunk True chunk s
         else matchChunk (hd s = CHR ''/'') chunk (drop (snd (decode_rune s)) s))
      else if c = CHR 0x5C then
        (case chunk of
           [] \<Rightarrow> None
         | d # chunk' \<Rightarrow>
             (if failed1 then matchChunk True chunk' s else matchChunk (d \<noteq> hd s) chunk' (tl s)))
      else (if failed1 then matchChunk True chunk s else matchChunk (c \<noteq> hd s) chunk (tl s)))"
  by pat_completeness auto
termination
proof (relation "measure (\<lambda>(failed, chunk, s). length chunk)")
  fix failed c chunk s failed1 p r n q negated body v matched rest
  assume "q = class_negated chunk" "(negated, body) = q" and v: "class_ranges r body False 0 = Some v" "(matched, rest) = v"
  then have "length body \<le> length chunk" using class_negated_le [of chunk] by (metis snd_conv)
  moreover from v have "length rest < length body" by (auto dest: class_ranges_shorter)
  ultimately show "((failed1 \<or> matched = negated, rest, drop n s), failed, c # chunk, s)
      \<in> measure (\<lambda>(failed, chunk, s). length chunk)" by simp
qed auto

declare matchChunk.simps(2) [simp del]

lemma matchChunk_rest: "matchChunk failed chunk s = Some (Some t) \<Longrightarrow> length t \<le> length s"
proof (induction failed chunk s rule: matchChunk.induct)
  case (1 failed s)
  then show ?case by (simp split: if_splits)
next
  case (2 failed c chunk s)
  show ?case
    using "2.prems" "2.IH" 
    by (fastforce simp: matchChunk.simps(2) [of failed c] Let_def split: if_splits prod.splits option.splits list.splits)
qed

section \<open>Patterns\<close>

fun skip_match :: "string \<Rightarrow> bool \<Rightarrow> string \<Rightarrow> string option option" where
  \<comment> \<open>a star that takes one byte more, and one more, never a slash\<close>
  "skip_match chunk final [] = Some None"
| "skip_match chunk final (c # s) =
     (if c = CHR ''/'' then Some None
      else (case matchChunk False chunk s of
              None \<Rightarrow> None
            | Some (Some t) \<Rightarrow> if final \<and> t \<noteq> [] then skip_match chunk final s else Some (Some t)
            | Some None \<Rightarrow> skip_match chunk final s))"

lemma scan_body_append: "scan_body inrange s = (a, b) \<Longrightarrow> s = a @ b"
proof (induction inrange s arbitrary: a b rule: scan_body.induct)
  case (2 inrange c s)
  show ?case
    using "2.prems" "2.IH" by (fastforce split: if_splits prod.splits list.splits)
qed simp

lemma scan_body_shorter:
  assumes "s \<noteq> []" and "hd s \<noteq> CHR ''*''"
  shows "length (snd (scan_body False s)) < length s"
proof -
  obtain a b where ab: "scan_body False s = (a, b)" by fastforce
  then have "s = a @ b" by (rule scan_body_append)
  moreover have "a \<noteq> []" using ab assms
    by (cases s) (auto split: if_splits prod.splits list.splits)
  ultimately show ?thesis using ab by simp
qed

lemma scanChunk_shorter:
  assumes "pattern \<noteq> []"
  shows "length (snd (snd (scanChunk pattern))) < length pattern"
proof (cases "dropWhile (\<lambda>c. c = CHR ''*'') pattern = []")
  case False
  then have "length (snd (scan_body False (dropWhile (\<lambda>c. c = CHR ''*'') pattern))) < length (dropWhile (\<lambda>c. c = CHR ''*'') pattern)"
    using hd_dropWhile [of "\<lambda>c. c = CHR ''*''" pattern] by (intro scan_body_shorter) auto
  with length_dropWhile_le [of "\<lambda>c. c = CHR ''*''" pattern] show ?thesis
    by (simp add: scanChunk_def)
next
  case True
  with assms show ?thesis by (simp only: scanChunk_def scan_body.simps snd_conv) simp
qed

lemma scanChunk_eq: "pattern \<noteq> [] \<Longrightarrow> (star, q) = scanChunk pattern \<Longrightarrow> (chunk, rest) = q
    \<Longrightarrow> length rest < length pattern"
  using scanChunk_shorter [of pattern] by (metis snd_conv)

function rest_well_formed :: "string \<Rightarrow> bool" where
  \<comment> \<open>before a mismatch is reported the rest of the pattern is checked\<close>
  "rest_well_formed pattern =
     (if pattern = [] then True
      else (case scanChunk pattern of (star, chunk, rest) \<Rightarrow>
              if matchChunk False chunk [] = None then False else rest_well_formed rest))"
  by pat_completeness auto
termination
  by (relation "measure length") (rule wf_measure, simp only: in_measure, erule (2) scanChunk_eq)

declare rest_well_formed.simps [simp del]

definition direct_match :: "string \<Rightarrow> string option \<Rightarrow> string option" where
  \<comment> \<open>a match at the current position counts unless it leaves text after the last chunk\<close>
  "direct_match rest r =
     (case r of None \<Rightarrow> None | Some t \<Rightarrow> if t = [] \<or> rest \<noteq> [] then Some t else None)"

function path_match :: "string \<Rightarrow> string \<Rightarrow> bool option" where
  "path_match pattern name =
     (if pattern = [] then Some (name = [])
      else (case scanChunk pattern of (star, chunk, rest) \<Rightarrow>
        if star \<and> chunk = [] then Some (CHR ''/'' \<notin> set name)
        else (case matchChunk False chunk name of
                None \<Rightarrow> None
              | Some r \<Rightarrow>
                  (case direct_match rest r of
                     Some t \<Rightarrow> path_match rest t
                   | None \<Rightarrow>
                       (case (if star then skip_match chunk (rest = []) name else Some None) of
                          None \<Rightarrow> None
                        | Some (Some t) \<Rightarrow> path_match rest t
                        | Some None \<Rightarrow> if rest_well_formed rest then Some False else None)))))"
  by pat_completeness auto
termination
  by (relation "measure (\<lambda>(pattern, name). length pattern)")
    (rule wf_measure, (simp only: in_measure prod.case, erule (2) scanChunk_eq)+)

declare path_match.simps [simp del]

section \<open>Literal segments\<close>

definition literal :: "string \<Rightarrow> bool" where
  "literal p \<longleftrightarrow> set p \<inter> set [CHR ''*'', CHR ''?'', CHR ''['', CHR 0x5C] = {}"

lemma literal_Cons [simp]:
  "literal (c # p) \<longleftrightarrow> c \<noteq> CHR ''*'' \<and> c \<noteq> CHR ''?'' \<and> c \<noteq> CHR ''['' \<and> c \<noteq> CHR 0x5C \<and> literal p"
  by (auto simp: literal_def)

lemma literal_Nil [simp]: "literal []"
  by (simp add: literal_def)

lemma scan_body_literal: "literal p \<Longrightarrow> scan_body False p = (p, [])"
  by (induction p) auto

lemma scanChunk_literal: "literal p \<Longrightarrow> p \<noteq> [] \<Longrightarrow> scanChunk p = (False, p, [])"
  by (cases p) (simp_all add: scanChunk_def scan_body_literal del: scan_body.simps)

lemma matchChunk_failed_literal: "literal p \<Longrightarrow> matchChunk True p s = Some None"
  by (induction p arbitrary: s) (simp_all add: matchChunk.simps(2))

lemma matchChunk_literal:
  "literal p \<Longrightarrow> matchChunk False p s = Some (if prefix p s then Some (drop (length p) s) else None)"
proof (induction p arbitrary: s)
  case (Cons c p)
  then show ?case
    by (cases s; cases "c = hd s") (simp_all add: matchChunk.simps(2) matchChunk_failed_literal)
qed simp

lemma path_match_Nil [simp]: "path_match [] name = Some (name = [])"
  by (simp add: path_match.simps)

text \<open>A pattern without metacharacters matches itself and nothing else.\<close>

lemma path_match_literal:
  assumes "literal p"
  shows "path_match p name = Some (name = p)"
proof (cases "p = []")
  case False
  have "direct_match [] (if prefix p name then Some (drop (length p) name) else None) = (if name = p then Some [] else None)"
    by (auto simp: direct_match_def prefix_def)
  with False assms show ?thesis
    by (simp add: path_match.simps [of p] scanChunk_literal matchChunk_literal rest_well_formed.simps)
qed simp

lemma path_match_star: "path_match ''*'' name = Some (CHR ''/'' \<notin> set name)"
  by (simp add: path_match.simps [of "''*''"] scanChunk_def)

end
