(* ===== verification/Authz_Types.thy ===== *)
theory Authz_Types
  imports Authn Go_Path
begin

text \<open>
  The vocabulary of policy evaluation in \<open>internal/authz/types.go\<close>: scopes, resources, approvals,
  the policy input and its validation, constraints, decisions with their binding, the
  classification of actions, and the matching of paths against ownership globs.
\<close>

section \<open>Decisions and actions\<close>

datatype Decision = DecisionAllow | DecisionDeny | DecisionApprovalRequired | DecisionOther string

definition Decision_Valid :: "Decision \<Rightarrow> bool" where
  "Decision_Valid d \<longleftrightarrow> d = DecisionAllow \<or> d = DecisionDeny \<or> d = DecisionApprovalRequired"

definition Decision_Allowed :: "Decision \<Rightarrow> bool" where
  "Decision_Allowed d \<longleftrightarrow> d = DecisionAllow"

text \<open>
  Action names are strings on the wire. The datatype has the names the code compares with;
  \<open>ActionOther\<close> stands for a string that is none of them.
\<close>

datatype (plugins only: code size) Action =
    ActionProjectCreate
  | ActionProjectRead
  | ActionProjectCommand
  | ActionSettingsRead
  | ActionSettingsWrite
  | ActionGoalRead
  | ActionPlanRead
  | ActionTaskRead
  | ActionTaskCommand
  | ActionRepoRead
  | ActionRepoWrite
  | ActionRepoApplyPatch
  | ActionToolInvoke
  | ActionKnowledgeRead
  | ActionKnowledgeWrite
  | ActionArtifactPublish
  | ActionPolicyTest
  | ActionPolicyWrite
  | ActionDeploy
  | ActionModelGenerate
  | ActionModelStream
  | ActionModelCancel
  | ActionModelReconcile
  | ActionModelCapabilities
  | ActionSandboxExec
  | ActionIntegrationMerge
  | ActionOther string

fun action_string :: "Action \<Rightarrow> string" where
  "action_string ActionProjectCreate = ''project.create''"
| "action_string ActionProjectRead = ''project.read''"
| "action_string ActionProjectCommand = ''project.command''"
| "action_string ActionSettingsRead = ''settings.read''"
| "action_string ActionSettingsWrite = ''settings.write''"
| "action_string ActionGoalRead = ''goal.read''"
| "action_string ActionPlanRead = ''plan.read''"
| "action_string ActionTaskRead = ''task.read''"
| "action_string ActionTaskCommand = ''task.command''"
| "action_string ActionRepoRead = ''repo.read''"
| "action_string ActionRepoWrite = ''repo.write''"
| "action_string ActionRepoApplyPatch = ''repo.apply_patch''"
| "action_string ActionToolInvoke = ''tool.invoke''"
| "action_string ActionKnowledgeRead = ''knowledge.read''"
| "action_string ActionKnowledgeWrite = ''knowledge.write''"
| "action_string ActionArtifactPublish = ''artifact.publish''"
| "action_string ActionPolicyTest = ''policy.test''"
| "action_string ActionPolicyWrite = ''policy.write''"
| "action_string ActionDeploy = ''deploy''"
| "action_string ActionModelGenerate = ''model.generate''"
| "action_string ActionModelStream = ''model.stream''"
| "action_string ActionModelCancel = ''model.cancel''"
| "action_string ActionModelReconcile = ''model.reconcile''"
| "action_string ActionModelCapabilities = ''model.capabilities''"
| "action_string ActionSandboxExec = ''sandbox.exec''"
| "action_string ActionIntegrationMerge = ''integration.merge''"
| "action_string (ActionOther s) = s"

text \<open>\<open>^[a-z][a-z0-9_.:-]{0,127}$\<close> and \<open>^[a-z][a-z0-9._-]{0,127}$\<close>.\<close>

definition lower_name :: "string \<Rightarrow> string \<Rightarrow> bool" where
  "lower_name extra s \<longleftrightarrow>
     (case s of [] \<Rightarrow> False
      | c # rest \<Rightarrow> is_lower_letter c \<and> length rest \<le> 127
          \<and> list_all (\<lambda>d. is_lower_letter d \<or> is_digit d \<or> d \<in> set extra) rest)"

definition actionPattern :: "string \<Rightarrow> bool" where
  "actionPattern = lower_name ''_.:-''"

definition ruleIDPattern :: "string \<Rightarrow> bool" where
  "ruleIDPattern = lower_name ''._-''"

fun IsSideEffect :: "Action \<Rightarrow> bool" where
  "IsSideEffect ActionRepoWrite = True"
| "IsSideEffect ActionRepoApplyPatch = True"
| "IsSideEffect ActionToolInvoke = True"
| "IsSideEffect ActionKnowledgeWrite = True"
| "IsSideEffect ActionArtifactPublish = True"
| "IsSideEffect ActionPolicyWrite = True"
| "IsSideEffect ActionDeploy = True"
| "IsSideEffect ActionSandboxExec = True"
| "IsSideEffect ActionIntegrationMerge = True"
| "IsSideEffect _ = False"

fun RequiresTask :: "Action \<Rightarrow> bool" where
  "RequiresTask ActionProjectCreate = False"
| "RequiresTask ActionProjectRead = False"
| "RequiresTask ActionProjectCommand = False"
| "RequiresTask ActionSettingsRead = False"
| "RequiresTask ActionSettingsWrite = False"
| "RequiresTask ActionGoalRead = False"
| "RequiresTask ActionPlanRead = False"
| "RequiresTask ActionKnowledgeRead = False"
| "RequiresTask ActionKnowledgeWrite = False"
| "RequiresTask ActionArtifactPublish = False"
| "RequiresTask ActionPolicyTest = False"
| "RequiresTask ActionModelCapabilities = False"
| "RequiresTask ActionModelGenerate = False"
| "RequiresTask ActionModelStream = False"
| "RequiresTask ActionModelCancel = False"
| "RequiresTask ActionModelReconcile = False"
| "RequiresTask ActionIntegrationMerge = False"
| "RequiresTask _ = True"

definition IsHighRisk :: "Action \<Rightarrow> bool" where
  "IsHighRisk action \<longleftrightarrow>
     action = ActionKnowledgeWrite \<or> action = ActionPolicyWrite \<or> action = ActionArtifactPublish
     \<or> action = ActionDeploy"

definition roleIn :: "string \<Rightarrow> string list \<Rightarrow> bool" where
  "roleIn role roles = list_ex (\<lambda>allowed. role = allowed) roles"

definition LeaseRoleRequiresTask :: "string \<Rightarrow> bool" where
  "LeaseRoleRequiresTask role \<longleftrightarrow>
     \<not> (role = RoleGoalProposer \<or> role = RoleGoalChallenger \<or> role = RolePlanSupervisor
        \<or> role = RoleGlobalAuditor \<or> role = RoleKnowledgeCurator \<or> role = RoleService)"

definition taskModelLeaseRole :: "string \<Rightarrow> bool" where
  "taskModelLeaseRole role \<longleftrightarrow>
     role = RoleModulePlanner \<or> role = RoleExecutor \<or> role = RoleAuditor \<or> role = ''MODULE_AUDITOR''"

definition validLeaseTaskBinding :: "string \<Rightarrow> string \<Rightarrow> int \<Rightarrow> string \<Rightarrow> bool" where
  "validLeaseTaskBinding role taskID taskVersion specDigest =
     (if taskID = [] then \<not> LeaseRoleRequiresTask role \<and> taskVersion = 0 \<and> specDigest = []
      else taskVersion \<ge> 0 \<and> digest_pattern specDigest)"

definition validLeaseScopeBinding :: "Action \<Rightarrow> string \<Rightarrow> string \<Rightarrow> int \<Rightarrow> string \<Rightarrow> bool" where
  "validLeaseScopeBinding action role taskID taskVersion specDigest =
     (if action = ActionKnowledgeWrite
      then role = RoleKnowledgeCurator \<and> taskID = [] \<and> taskVersion = 0 \<and> specDigest = []
      else validLeaseTaskBinding role taskID taskVersion specDigest)"

section \<open>Scopes\<close>

record ProjectScope =
  sc_TenantID :: string
  sc_ID :: string
  sc_State :: string
  sc_StateVersion :: int
  sc_Classification :: string

record TaskScope =
  ts_TenantID :: string
  ts_ProjectID :: string
  ts_ID :: string
  ts_State :: string
  ts_StateVersion :: int
  ts_SpecDigest :: string
  ts_OwnedPaths :: "string list"
  ts_ExecutionPlatform :: string
  ts_SandboxLevel :: string
  ts_WorkloadTrust :: string
  ts_DeploymentProfile :: string
  ts_HostileMultiTenant :: bool
  ts_RequiresNetworkIsolation :: bool
  ts_RequiresHiddenConfidentiality :: bool

record Resource =
  rs_Type :: string
  rs_ID :: string
  rs_Path :: string
  rs_Attributes :: "(string, string) gomap"

record LeaseReference =
  lr_ID :: string
  lr_ExpiresAt :: time
  lr_PolicyVersion :: string
  lr_FencingToken :: int

record PolicyApproval =
  pa_ID :: string
  pa_TenantID :: string
  pa_ProjectID :: string
  pa_PrincipalID :: string
  pa_CoApproverID :: string
  pa_SubjectType :: string
  pa_SubjectID :: string
  pa_SubjectVersion :: int
  pa_SubjectDigest :: string
  pa_IssuedAt :: time
  pa_ExpiresAt :: time
  pa_RevokedAt :: "time option"
  pa_Signature :: string

record ExecutionContext =
  ec_IP :: string
  ec_Platform :: string
  ec_SandboxLevel :: string
  ec_AuthorizationTime :: string

record BudgetScope =
  bs_AccountID :: string
  bs_Available :: bool

record PolicyInput =
  pi_Principal :: Principal
  pi_Project :: ProjectScope
  pi_Task :: TaskScope
  pi_Action :: Action
  pi_Resource :: Resource
  pi_ParameterDigest :: string
  pi_Budget :: BudgetScope
  pi_Lease :: "LeaseReference option"
  pi_Approval :: "PolicyApproval option"
  pi_Context :: ExecutionContext

definition cloneResource :: "Resource \<Rightarrow> Resource" where
  [clone_simps]: "cloneResource r = r"

definition attribute :: "Resource \<Rightarrow> string \<Rightarrow> string" where
  \<comment> \<open>indexing a map with an absent key gives the zero value\<close>
  "attribute r key = (case map_of (rs_Attributes r) key of None \<Rightarrow> [] | Some v \<Rightarrow> v)"

definition resourceEmpty :: "Resource \<Rightarrow> bool" where
  "resourceEmpty r \<longleftrightarrow> rs_Type r = [] \<and> rs_ID r = [] \<and> rs_Path r = [] \<and> length (rs_Attributes r) = 0"

definition resourcesEqual :: "Resource \<Rightarrow> Resource \<Rightarrow> bool" where
  "resourcesEqual left right =
     (if rs_Type left \<noteq> rs_Type right \<or> rs_ID left \<noteq> rs_ID right \<or> rs_Path left \<noteq> rs_Path right
         \<or> length (rs_Attributes left) \<noteq> length (rs_Attributes right) then False
      else \<not> list_ex (\<lambda>(key, value). attribute right key \<noteq> value) (rs_Attributes left))"

fun last_index_from :: "nat \<Rightarrow> string \<Rightarrow> string \<Rightarrow> nat option" where
  \<comment> \<open>\<open>strings.LastIndex\<close> of a text that is not empty\<close>
  "last_index_from i [] p = None"
| "last_index_from i (c # s) p =
     (case last_index_from (Suc i) s p of
        Some k \<Rightarrow> Some k
      | None \<Rightarrow> if has_prefix (c # s) p then Some i else None)"

definition tool_read_marker :: "string \<Rightarrow> string \<Rightarrow> bool" where
  "tool_read_marker resourceID toolID =
     (let marker = ''/'' @ toolID @ ''@'' in
      case last_index_from 0 resourceID marker of
        None \<Rightarrow> False
      | Some index \<Rightarrow>
          index > length ''tool://'' \<and> index + length marker < length resourceID
          \<and> \<not> contains_any (drop (index + length marker) resourceID) ''/@'')"

definition globalAuditorReadToolResource :: "Resource \<Rightarrow> bool" where
  "globalAuditorReadToolResource resource =
     (if rs_Type resource \<noteq> ''tool'' \<or> rs_Path resource = [] \<or> \<not> has_prefix (rs_ID resource) ''tool://''
      then False
      else list_ex (tool_read_marker (rs_ID resource))
             [''artifact.read'', ''knowledge.read_range'', ''knowledge.search'', ''repository.file.read''])"

definition globalAuditorProjectReadTool :: "PolicyInput \<Rightarrow> bool" where
  "globalAuditorProjectReadTool input \<longleftrightarrow>
     pi_Action input = ActionToolInvoke \<and> pc_Role (pi_Principal input) = RoleGlobalAuditor
     \<and> ts_ID (pi_Task input) = [] \<and> globalAuditorReadToolResource (pi_Resource input)"

section \<open>Checks on texts and paths\<close>

definition safeID :: "string \<Rightarrow> bool" where
  "safeID value =
     (if value = [] \<or> length value > 256
         \<or> contains_any value [CHR 0x0D, CHR 0x0A, CHR 0x00, CHR ''/'', CHR 0x5C] then False
      else \<not> list_ex control_char value)"

definition safeReason :: "string \<Rightarrow> bool" where
  "safeReason value =
     (if value = [] \<or> length value > 128 then False
      else list_all (\<lambda>c. c = CHR ''_'' \<or> c = CHR ''-'' \<or> is_upper_letter c \<or> is_digit c) value)"

definition clean_relative :: "string \<Rightarrow> string option" where
  \<comment> \<open>the common body of \<open>normalizeRelativePath\<close> and \<open>normalizeGlob\<close>\<close>
  "clean_relative value =
     (if value = [] \<or> CHR 0x00 \<in> set value \<or> CHR 0x5C \<in> set value \<or> has_prefix value ''/'' then None
      else (let clean = path_clean value in
            if clean \<noteq> value \<or> clean = ''.'' \<or> clean = ''..'' \<or> has_prefix clean ''../'' then None
            else Some clean))"

definition normalizeRelativePath :: "string \<Rightarrow> string option" where
  "normalizeRelativePath = clean_relative"

definition normalizeGlob :: "string \<Rightarrow> string option" where
  "normalizeGlob = clean_relative"

definition segmentMatch :: "string \<Rightarrow> string \<Rightarrow> bool" where
  "segmentMatch candidate pattern \<longleftrightarrow> path_match pattern candidate = Some True"

function globPartsMatch :: "string list \<Rightarrow> string list \<Rightarrow> bool" where
  "globPartsMatch candidate [] = (length candidate = 0)"
| "globPartsMatch candidate (p # pattern) =
     (if p = ''**'' then
        (if pattern = [] then True
         else list_ex (\<lambda>index. globPartsMatch (drop index candidate) pattern) [0..<length candidate])
      else if candidate = [] \<or> \<not> segmentMatch (hd candidate) p then False
      else globPartsMatch (tl candidate) pattern)"
  by pat_completeness auto
termination
  by (relation "measure (\<lambda>(candidate, pattern). length pattern)") auto

definition globMatch :: "string \<Rightarrow> string \<Rightarrow> bool" where
  "globMatch candidate pattern =
     (if pattern = ''**'' then True
      else globPartsMatch (split_byte (CHR ''/'') candidate) (split_byte (CHR ''/'') pattern))"

definition pathMatchesGlob :: "string \<Rightarrow> string \<Rightarrow> bool" where
  "pathMatchesGlob candidate pattern =
     (case (normalizeRelativePath candidate, normalizeGlob pattern) of
        (Some c, Some p) \<Rightarrow> globMatch c p
      | _ \<Rightarrow> False)"

section \<open>Validation of an input\<close>

definition scope_error :: "aor_code \<Rightarrow> string \<Rightarrow> aor_error" where
  "scope_error code scope = New code [] [(''scope'', DString scope)]"

definition valid_approval_shape :: "PolicyApproval \<Rightarrow> bool" where
  "valid_approval_shape a \<longleftrightarrow>
     safeID (pa_ID a) \<and> safeID (pa_TenantID a) \<and> safeID (pa_ProjectID a) \<and> safeID (pa_PrincipalID a)
     \<and> safeOpaque (pa_SubjectType a) 128 \<and> safeOpaque (pa_SubjectID a) 512 \<and> pa_SubjectVersion a \<ge> 0
     \<and> digest_pattern (pa_SubjectDigest a) \<and> safeOpaque (pa_Signature a) 2048
     \<and> \<not> is_zero_time (pa_IssuedAt a)"

definition validateApproval :: "PolicyApproval \<Rightarrow> time \<Rightarrow> aor_error option" where
  "validateApproval a now =
     (if \<not> valid_approval_shape a then Some (New CodeApprovalRequired [] [])
      else if pa_CoApproverID a \<noteq> [] \<and> (\<not> safeID (pa_CoApproverID a) \<or> pa_CoApproverID a = pa_PrincipalID a)
      then Some (New CodeApprovalRequired [] [])
      else if is_zero_time (pa_ExpiresAt a) \<or> \<not> pa_IssuedAt a < pa_ExpiresAt a \<or> \<not> now < pa_ExpiresAt a
         \<or> now < pa_IssuedAt a then Some (New CodeApprovalRequired [] [])
      else if (case pa_RevokedAt a of None \<Rightarrow> False | Some r \<Rightarrow> \<not> r > now) then Some (New CodeApprovalRequired [] [])
      else None)"

definition validTaskExecutionScope :: "TaskScope \<Rightarrow> bool" where
  "validTaskExecutionScope task =
     (if ts_DeploymentProfile task \<noteq> ''LOCAL'' \<and> ts_DeploymentProfile task \<noteq> ''TEST''
         \<and> ts_DeploymentProfile task \<noteq> ''PREPRODUCTION'' \<and> ts_DeploymentProfile task \<noteq> ''PRODUCTION'' then False
      else if ts_WorkloadTrust task \<noteq> ''TRUSTED'' \<and> ts_WorkloadTrust task \<noteq> ''UNTRUSTED'' then False
      else ts_ExecutionPlatform task = ''LINUX'' \<and> ts_SandboxLevel task = ''CONTAINER''
         \<or> ts_ExecutionPlatform task = ''WINDOWS'' \<and> ts_SandboxLevel task = ''NONE'')"

text \<open>
  The authorization time in the context must be the text \<open>time.RFC3339Nano\<close> prints for its own
  instant: the only zone is \<open>Z\<close>, the hour has two digits, and a fraction is introduced by a point,
  has at most nine digits and no zero at the end. (\<open>time.Parse\<close> gives the location UTC to \<open>Z\<close>, and
  to a numeric offset only where it prints as \<open>Z\<close> again, which differs from the text.)
\<close>

definition canonical_fraction :: "string \<Rightarrow> bool" where
  \<comment> \<open>what stands between the seconds and the final \<open>Z\<close>\<close>
  "canonical_fraction f \<longleftrightarrow>
     f = [] \<or> (hd f = CHR ''.'' \<and> 2 \<le> length f \<and> length f \<le> 10 \<and> list_all is_digit (tl f)
                \<and> last f \<noteq> CHR ''0'')"

definition canonical_rfc3339 :: "string \<Rightarrow> bool" where
  "canonical_rfc3339 s \<longleftrightarrow>
     20 \<le> length s \<and> s ! 13 = CHR '':'' \<and> last s = CHR ''Z'' \<and> canonical_fraction (butlast (drop 19 s))"

definition policyAuthorizationTime :: "PolicyInput \<Rightarrow> time \<Rightarrow> aor_error + time" where
  "policyAuthorizationTime input fallback =
     (let text = ec_AuthorizationTime (pi_Context input) in
      if text = [] then Inr (utc fallback)
      else (case parse_rfc3339 text of
              None \<Rightarrow> Inl (scope_error CodeInvalidArgument ''authorization time'')
            | Some value \<Rightarrow>
                if \<not> canonical_rfc3339 text then Inl (scope_error CodeInvalidArgument ''authorization time'')
                else Inr value))"

definition has_task :: "TaskScope \<Rightarrow> bool" where
  "has_task t \<longleftrightarrow>
     ts_ID t \<noteq> [] \<or> ts_TenantID t \<noteq> [] \<or> ts_ProjectID t \<noteq> [] \<or> ts_State t \<noteq> [] \<or> ts_SpecDigest t \<noteq> []
     \<or> length (ts_OwnedPaths t) > 0"

definition check_task_scope :: "PolicyInput \<Rightarrow> aor_error option" where
  "check_task_scope input =
     (let t = pi_Task input; p = pi_Project input in
      if RequiresTask (pi_Action input) \<and> \<not> globalAuditorProjectReadTool input \<or> has_task t then
        (if \<not> safeID (ts_TenantID t) \<or> \<not> safeID (ts_ProjectID t) \<or> \<not> safeID (ts_ID t) \<or> ts_State t = []
            \<or> ts_StateVersion t < 0 then Some (scope_error CodeInvalidArgument ''task'')
         else if sc_TenantID p \<noteq> ts_TenantID t \<or> sc_ID p \<noteq> ts_ProjectID t
         then Some (scope_error CodeForbidden ''task project'')
         else if IsSideEffect (pi_Action input) \<and> \<not> validTaskExecutionScope t
         then Some (scope_error CodeSandboxLevelInsufficient ''trusted task execution profile'')
         else None)
      else None)"

definition bad_attribute :: "string \<times> string \<Rightarrow> bool" where
  "bad_attribute kv =
     (case kv of (key, value) \<Rightarrow> \<not> safeOpaque key 128 \<or> sensitiveName key \<or> \<not> safeOpaque value 1024)"

definition check_resource :: "PolicyInput \<Rightarrow> aor_error option" where
  "check_resource input =
     (let r = pi_Resource input in
      if rs_Type r \<noteq> [] \<and> \<not> safeOpaque (rs_Type r) 128 \<or> rs_ID r \<noteq> [] \<and> \<not> safeOpaque (rs_ID r) 512
      then Some (scope_error CodeInvalidArgument ''resource'')
      else if length (rs_Attributes r) > 32 then Some (scope_error CodeInvalidArgument ''resource attributes'')
      else if list_ex bad_attribute (rs_Attributes r) then Some (scope_error CodeInvalidArgument ''resource attributes'')
      else if rs_Path r \<noteq> [] \<and> normalizeRelativePath (rs_Path r) = None then Some (New CodeUnauthorizedPath [] [])
      else if list_ex (\<lambda>owned. normalizeGlob owned = None) (ts_OwnedPaths (pi_Task input))
      then Some (New CodeUnauthorizedPath [] [])
      else None)"

definition check_lease_reference :: "LeaseReference \<Rightarrow> time \<Rightarrow> aor_error option" where
  "check_lease_reference l now =
     (if lr_ID l = [] \<or> lr_FencingToken l < 1 \<or> is_zero_time (lr_ExpiresAt l) \<or> lr_PolicyVersion l = []
      then Some (scope_error CodePolicyDenied ''lease'')
      else if \<not> now < lr_ExpiresAt l then Some (New CodeLeaseExpired [] [])
      else None)"

definition PolicyInput_Validate :: "PolicyInput \<Rightarrow> time \<Rightarrow> aor_error option" where
  "PolicyInput_Validate input fallback =
     (case policyAuthorizationTime input fallback of
        Inl e \<Rightarrow> Some e
      | Inr now \<Rightarrow>
        (case Principal_Validate (pi_Principal input) of
           Some e \<Rightarrow> Some e
         | None \<Rightarrow>
           (let p = pi_Project input; q = pi_Principal input in
            if \<not> safeID (sc_TenantID p) \<or> \<not> safeID (sc_ID p) \<or> sc_State p = [] \<or> sc_StateVersion p < 0
               \<or> sc_Classification p = [] then Some (scope_error CodeInvalidArgument ''project'')
            else (case check_task_scope input of
              Some e \<Rightarrow> Some e
            | None \<Rightarrow>
              if pc_TenantID q \<noteq> [] \<and> pc_TenantID q \<noteq> sc_TenantID p then Some (scope_error CodeForbidden ''tenant'')
              else if pc_ProjectID q \<noteq> [] \<and> pc_ProjectID q \<noteq> sc_ID p then Some (scope_error CodeForbidden ''project'')
              else if \<not> actionPattern (action_string (pi_Action input))
              then Some (scope_error CodeInvalidArgument ''action'')
              else (case check_resource input of
                Some e \<Rightarrow> Some e
              | None \<Rightarrow>
                (case (case pi_Lease input of None \<Rightarrow> None | Some l \<Rightarrow> check_lease_reference l now) of
                   Some e \<Rightarrow> Some e
                 | None \<Rightarrow>
                   (case pi_Approval input of None \<Rightarrow> None | Some a \<Rightarrow> validateApproval a now)))))))"

section \<open>Decisions\<close>

record Constraints =
  cn_PathGlob :: string
  cn_MaxBytes :: int
  cn_ExpiresAt :: time
  cn_AllowedMethods :: "string list"

definition zero_Constraints :: Constraints where
  "zero_Constraints = \<lparr>cn_PathGlob = [], cn_MaxBytes = 0, cn_ExpiresAt = 0, cn_AllowedMethods = []\<rparr>"

definition Constraints_Validate :: "Constraints \<Rightarrow> time \<Rightarrow> bool" where
  "Constraints_Validate c now =
     (if cn_PathGlob c \<noteq> [] \<and> normalizeGlob (cn_PathGlob c) = None then False
      else if cn_MaxBytes c < 0 \<or> \<not> is_zero_time (cn_ExpiresAt c) \<and> \<not> now < cn_ExpiresAt c then False
      else if length (cn_AllowedMethods c) > 32 then False
      else \<not> list_ex (\<lambda>m. \<not> safeOpaque m 32) (cn_AllowedMethods c))"

record DecisionBinding =
  db_PrincipalID :: string
  db_TenantID :: string
  db_ProjectID :: string
  db_ProjectVersion :: int
  db_TaskID :: string
  db_TaskVersion :: int
  db_SpecDigest :: string
  db_Role :: string
  db_Action :: Action
  db_Resource :: Resource
  db_ParameterDigest :: string
  db_BudgetAccountID :: string

record PolicyDecision =
  pd_Decision :: Decision
  pd_PolicyVersion :: string
  pd_Constraints :: Constraints
  pd_ReasonCodes :: "string list"
  pd_RuleID :: string
  pd_Binding :: "DecisionBinding option"

definition leaseActionAllowed :: "Action \<Rightarrow> string \<Rightarrow> string \<Rightarrow> bool" where
  "leaseActionAllowed action role taskID =
     (if action = ActionKnowledgeWrite then role = RoleKnowledgeCurator \<and> taskID = []
      else if taskID = [] then
        action = ActionModelGenerate \<and> \<not> LeaseRoleRequiresTask role
        \<or> action = ActionToolInvoke \<and> role = RoleGlobalAuditor
        \<or> action = ActionArtifactPublish \<and> role = RoleService
        \<or> action = ActionIntegrationMerge \<and> role = RoleService
      else IsSideEffect action \<or> action = ActionModelGenerate \<and> taskModelLeaseRole role)"

definition valid_binding :: "DecisionBinding \<Rightarrow> bool" where
  "valid_binding b =
     (if \<not> safeID (db_PrincipalID b) \<or> \<not> safeID (db_TenantID b) \<or> \<not> safeID (db_ProjectID b)
         \<or> db_ProjectVersion b < 0 \<or> db_TaskID b \<noteq> [] \<and> \<not> safeID (db_TaskID b)
         \<or> \<not> validLeaseScopeBinding (db_Action b) (db_Role b) (db_TaskID b) (db_TaskVersion b) (db_SpecDigest b)
         \<or> \<not> safeOpaque (db_Role b) 128 \<or> \<not> leaseActionAllowed (db_Action b) (db_Role b) (db_TaskID b)
         \<or> \<not> digest_pattern (db_ParameterDigest b) \<or> \<not> safeID (db_BudgetAccountID b) then False
      else if rs_Path (db_Resource b) \<noteq> [] \<and> normalizeRelativePath (rs_Path (db_Resource b)) = None then False
      else if resourceEmpty (db_Resource b)
         \<or> rs_Type (db_Resource b) \<noteq> [] \<and> \<not> safeOpaque (rs_Type (db_Resource b)) 128
         \<or> rs_ID (db_Resource b) \<noteq> [] \<and> \<not> safeOpaque (rs_ID (db_Resource b)) 512
         \<or> length (rs_Attributes (db_Resource b)) > 32 then False
      else \<not> list_ex bad_attribute (rs_Attributes (db_Resource b)))"

definition policy_denied :: "string \<Rightarrow> aor_error" where
  "policy_denied version = New CodePolicyDenied [] [(''policyVersion'', DString version)]"

definition PolicyDecision_Validate :: "PolicyDecision \<Rightarrow> time \<Rightarrow> aor_error option" where
  "PolicyDecision_Validate d now =
     (if \<not> Decision_Valid (pd_Decision d) \<or> \<not> safeOpaque (pd_PolicyVersion d) 256
         \<or> pd_RuleID d \<noteq> [] \<and> \<not> ruleIDPattern (pd_RuleID d) \<or> \<not> Constraints_Validate (pd_Constraints d) now
      then Some (policy_denied (pd_PolicyVersion d))
      else if length (pd_ReasonCodes d) = 0 then Some (policy_denied (pd_PolicyVersion d))
      else if list_ex (\<lambda>reason. \<not> safeReason reason) (pd_ReasonCodes d) then Some (policy_denied (pd_PolicyVersion d))
      else (case pd_Binding d of
              None \<Rightarrow> None
            | Some binding \<Rightarrow> if valid_binding binding then None else Some (policy_denied (pd_PolicyVersion d))))"

text \<open>
  A rule of the bundle is an arbitrary function of the input: a decision and whether it applies.
  A nil rule is \<open>None\<close>.
\<close>

type_synonym rule = "PolicyInput \<Rightarrow> PolicyDecision \<times> bool"

record PolicyBundle =
  bu_Version :: string
  bu_Digest :: string
  bu_Available :: bool
  bu_Rules :: "rule option list"

end
