(* ===== verification/Authz_Lease.thy ===== *)
theory Authz_Lease
  imports Authz_Types Trace_Context
begin

text \<open>
  Capability leases of \<open>internal/authz/lease.go\<close> and \<open>lease_tenant.go\<close>: the signed record and its
  shape, the HMAC signer, the store interface with its in-memory implementation, and the lease
  manager. An operation that reads a lease and swaps it later is a plan, made from one state of
  the store, and a commit in a later state; run one after the other they are the operation.
\<close>

section \<open>Arithmetic on times\<close>

definition time_sub :: "time \<Rightarrow> time \<Rightarrow> duration" where
  \<comment> \<open>\<open>Time.Sub\<close> saturates at the smallest and the largest duration\<close>
  "time_sub t u = max (- (2 ^ 63)) (min (2 ^ 63 - 1) (t - u))"

definition go_quot :: "int \<Rightarrow> int \<Rightarrow> int" where
  \<comment> \<open>integer division, truncated towards zero\<close>
  "go_quot x y = (if (x < 0) = (y < 0) then \<bar>x\<bar> div \<bar>y\<bar> else - (\<bar>x\<bar> div \<bar>y\<bar>))"

section \<open>Leases\<close>

datatype LeaseState = LeaseActive | LeaseRevoked | LeaseExpired | LeaseStateOther string

record CapabilityLease =
  cl_ID :: string
  cl_IdempotencyKey :: string
  cl_AgentInstanceID :: string
  cl_PrincipalID :: string
  cl_PrincipalType :: PrincipalType
  cl_TenantID :: string
  cl_ProjectID :: string
  cl_ProjectVersion :: int
  cl_TaskID :: string
  cl_TaskVersion :: int
  cl_SpecDigest :: string
  cl_Role :: string
  cl_Action :: Action
  cl_Resource :: Resource
  cl_ParameterDigest :: string
  cl_Capabilities :: "string list"
  cl_IssuedAt :: time
  cl_ExpiresAt :: time
  cl_LastHeartbeatAt :: time
  cl_HeartbeatIntervalSeconds :: int
  cl_PolicyVersion :: string
  cl_BudgetAccountID :: string
  cl_Nonce :: string
  cl_FencingToken :: int
  cl_State :: LeaseState
  cl_RevokedAt :: "time option"
  cl_Signature :: string

definition zero_Resource :: Resource where
  "zero_Resource = \<lparr>rs_Type = [], rs_ID = [], rs_Path = [], rs_Attributes = []\<rparr>"

definition zero_CapabilityLease :: CapabilityLease where
  "zero_CapabilityLease =
     \<lparr>cl_ID = [], cl_IdempotencyKey = [], cl_AgentInstanceID = [], cl_PrincipalID = [],
      cl_PrincipalType = no_principal_type, cl_TenantID = [], cl_ProjectID = [], cl_ProjectVersion = 0,
      cl_TaskID = [], cl_TaskVersion = 0, cl_SpecDigest = [], cl_Role = [], cl_Action = ActionOther [],
      cl_Resource = zero_Resource, cl_ParameterDigest = [], cl_Capabilities = [], cl_IssuedAt = 0,
      cl_ExpiresAt = 0, cl_LastHeartbeatAt = 0, cl_HeartbeatIntervalSeconds = 0, cl_PolicyVersion = [],
      cl_BudgetAccountID = [], cl_Nonce = [], cl_FencingToken = 0, cl_State = LeaseStateOther [],
      cl_RevokedAt = None, cl_Signature = []\<rparr>"

definition cloneLease :: "CapabilityLease \<Rightarrow> CapabilityLease" where
  [clone_simps]: "cloneLease lease = lease"

definition lease_Reference :: "CapabilityLease \<Rightarrow> LeaseReference" where
  "lease_Reference lease =
     \<lparr>lr_ID = cl_ID lease, lr_ExpiresAt = cl_ExpiresAt lease, lr_PolicyVersion = cl_PolicyVersion lease,
      lr_FencingToken = cl_FencingToken lease\<rparr>"

definition isOperationLease :: "CapabilityLease \<Rightarrow> bool" where
  "isOperationLease lease \<longleftrightarrow>
     has_prefix (cl_IdempotencyKey lease) ''runtime-operation-'' \<and> rs_Path (cl_Resource lease) \<noteq> []
     \<and> (cl_Action lease = ActionModelGenerate \<or> cl_Action lease = ActionToolInvoke)"

definition IsExpired :: "CapabilityLease \<Rightarrow> time \<Rightarrow> bool" where
  "IsExpired lease now =
     (if is_zero_time (cl_ExpiresAt lease) \<or> \<not> now < cl_ExpiresAt lease then True
      else if isOperationLease lease then False
      else if cl_HeartbeatIntervalSeconds lease > 0 \<and> \<not> is_zero_time (cl_LastHeartbeatAt lease)
         \<and> \<not> now < cl_LastHeartbeatAt lease + mul64 (mul64 3 (cl_HeartbeatIntervalSeconds lease)) second_ns
      then True
      else False)"

definition lease_containsString :: "string list \<Rightarrow> string \<Rightarrow> bool" where
  "lease_containsString values expected = list_ex (\<lambda>v. v = expected) values"

definition validLeasePrincipalBinding :: "Action \<Rightarrow> PrincipalType \<Rightarrow> string \<Rightarrow> bool" where
  "validLeasePrincipalBinding action principalType role =
     (if action = ActionKnowledgeWrite
      then principalType = PrincipalKnowledgeCurator \<and> role = RoleKnowledgeCurator
      else if action = ActionArtifactPublish then principalType = PrincipalService \<and> role = RoleService
      else True)"

definition lease_fields_ok :: "CapabilityLease \<Rightarrow> bool" where
  \<comment> \<open>the first guard of \<open>ValidateShape\<close>, negated\<close>
  "lease_fields_ok l \<longleftrightarrow>
     \<not> (cl_ID l = [] \<or> cl_AgentInstanceID l = [] \<or> cl_PrincipalID l = [] \<or> cl_TenantID l = []
        \<or> cl_ProjectID l = [] \<or> cl_ProjectVersion l < 0
        \<or> \<not> validLeaseScopeBinding (cl_Action l) (cl_Role l) (cl_TaskID l) (cl_TaskVersion l) (cl_SpecDigest l)
        \<or> cl_Role l = [] \<or> \<not> leaseActionAllowed (cl_Action l) (cl_Role l) (cl_TaskID l)
        \<or> \<not> validLeasePrincipalBinding (cl_Action l) (cl_PrincipalType l) (cl_Role l)
        \<or> resourceEmpty (cl_Resource l) \<or> cl_ParameterDigest l = [] \<or> cl_PolicyVersion l = []
        \<or> cl_BudgetAccountID l = [] \<or> cl_Nonce l = [] \<or> cl_FencingToken l < 1
        \<or> cl_State l = LeaseStateOther [] \<or> is_zero_time (cl_IssuedAt l) \<or> is_zero_time (cl_ExpiresAt l)
        \<or> is_zero_time (cl_LastHeartbeatAt l) \<or> cl_HeartbeatIntervalSeconds l \<le> 0
        \<or> cl_HeartbeatIntervalSeconds l > 300 \<or> length (cl_Capabilities l) = 0
        \<or> length (cl_Capabilities l) > 64 \<or> \<not> lease_containsString (cl_Capabilities l) (action_string (cl_Action l)))"

definition lease_texts :: "CapabilityLease \<Rightarrow> string" where
  "lease_texts l =
     cl_ID l @ cl_IdempotencyKey l @ cl_AgentInstanceID l @ cl_PrincipalID l @ cl_ProjectID l @ cl_TaskID l
     @ cl_Role l @ action_string (cl_Action l) @ cl_ParameterDigest l @ cl_PolicyVersion l
     @ cl_BudgetAccountID l @ cl_Nonce l"

definition ValidateShape :: "CapabilityLease \<Rightarrow> aor_error option" where
  "ValidateShape l =
     (if \<not> lease_fields_ok l then Some (scope_error CodePolicyDenied ''lease'')
      else if cl_PrincipalType l = no_principal_type \<or> \<not> cl_ExpiresAt l > cl_IssuedAt l
         \<or> cl_LastHeartbeatAt l < cl_IssuedAt l \<or> cl_LastHeartbeatAt l > cl_ExpiresAt l
      then Some (scope_error CodePolicyDenied ''lease'')
      else if \<not> digest_pattern (cl_ParameterDigest l) \<or> \<not> digest_pattern (cl_Nonce l)
      then Some (scope_error CodePolicyDenied ''lease digest'')
      else if list_ex (\<lambda>c. \<not> safeOpaque c 128) (cl_Capabilities l)
      then Some (scope_error CodePolicyDenied ''lease capabilities'')
      else if rs_Path (cl_Resource l) \<noteq> [] \<and> normalizeRelativePath (rs_Path (cl_Resource l)) = None
      then Some (New CodeUnauthorizedPath [] [])
      else if cl_State l \<noteq> LeaseActive \<and> cl_State l \<noteq> LeaseRevoked \<and> cl_State l \<noteq> LeaseExpired
      then Some (scope_error CodePolicyDenied ''lease'')
      else if cl_IdempotencyKey l \<noteq> []
           \<and> (length (cl_IdempotencyKey l) > 256 \<or> trim_space (cl_IdempotencyKey l) \<noteq> cl_IdempotencyKey l)
         \<or> contains_any (lease_texts l) crlf_nul
      then Some (scope_error CodePolicyDenied ''lease'')
      else None)"

section \<open>Signing\<close>

text \<open>
  What is signed: the lease without its signature. The source signs the JSON text of this view.
  \<open>Signer\<close> is an interface of the source; here it signs and verifies the view, that is, it is the
  source's signer after \<open>json.Marshal\<close>.
\<close>

record leaseSigningView =
  lv_lease :: CapabilityLease

definition leaseSigningPayload :: "CapabilityLease \<Rightarrow> leaseSigningView" where
  "leaseSigningPayload lease = \<lparr>lv_lease = lease\<lparr>cl_Signature := []\<rparr>\<rparr>"

record Signer =
  sg_Sign :: "leaseSigningView \<Rightarrow> go_error + string"
  sg_Verify :: "leaseSigningView \<Rightarrow> string \<Rightarrow> go_error option"

text \<open>The reference signer, HMAC-SHA256 over the bytes of the payload.\<close>

record HMACSigner =
  hs_key :: "8 word list"

definition NewHMACSigner :: "8 word list \<Rightarrow> aor_error + HMACSigner" where
  "NewHMACSigner key =
     (if length key < 32 then Inl (scope_error CodeInvalidArgument ''signing key'') else Inr \<lparr>hs_key = key\<rparr>)"

definition word_bytes :: "word32 \<Rightarrow> 8 word list" where
  "word_bytes w = map (\<lambda>i. ucast (drop_bit (24 - 8 * i) w)) [0..<4]"

definition byte_text :: "8 word list \<Rightarrow> string" where
  "byte_text bs = map (\<lambda>b. char_of (unat b)) bs"

definition sha256_sum :: "string \<Rightarrow> 8 word list" where
  "sha256_sum s = concat (map word_bytes (sha256_words s))"

definition hmac_block_key :: "8 word list \<Rightarrow> 8 word list" where
  "hmac_block_key key =
     (let k = (if length key > 64 then sha256_sum (byte_text key) else key)
      in k @ replicate (64 - length k) 0)"

definition hmac_sha256 :: "8 word list \<Rightarrow> string \<Rightarrow> 8 word list" where
  "hmac_sha256 key payload =
     (let inner = sha256_sum (byte_text (map (\<lambda>b. b XOR 0x36) (hmac_block_key key)) @ payload)
      in sha256_sum (byte_text (map (\<lambda>b. b XOR 0x5c) (hmac_block_key key) @ inner)))"

definition HMAC_Sign :: "HMACSigner \<Rightarrow> string \<Rightarrow> go_error + string" where
  "HMAC_Sign s payload =
     (if length (hs_key s) < 32 then Inl (GoAor (New CodeInternalError [] []))
      else Inr (''hmac-sha256:'' @ concat (map hex_byte (hmac_sha256 (hs_key s) payload))))"

definition HMAC_Verify :: "HMACSigner \<Rightarrow> string \<Rightarrow> string \<Rightarrow> go_error option" where
  "HMAC_Verify s payload signature =
     (if length (hs_key s) < 32 \<or> \<not> has_prefix signature ''hmac-sha256:'' then Some (GoAor unauthorized)
      else (case hex_decode (trim_prefix signature ''hmac-sha256:'') of
              None \<Rightarrow> Some (GoAor unauthorized)
            | Some decoded \<Rightarrow>
                if length decoded \<noteq> 32 then Some (GoAor unauthorized)
                else if map unat (hmac_sha256 (hs_key s) payload) \<noteq> decoded then Some (GoAor unauthorized)
                else None))"

definition hmac_lease_signer :: "(leaseSigningView \<Rightarrow> string) \<Rightarrow> HMACSigner \<Rightarrow> Signer" where
  "hmac_lease_signer marshal s =
     \<lparr>sg_Sign = (\<lambda>view. HMAC_Sign s (marshal view)),
      sg_Verify = (\<lambda>view signature. HMAC_Verify s (marshal view) signature)\<rparr>"

section \<open>Contexts and stores\<close>

record lease_context = auth_context +
  lx_LeaseTenant :: "string option"
  lx_AuthorizationTime :: "time option"

definition withLeaseTenant :: "lease_context \<Rightarrow> string \<Rightarrow> lease_context" where
  "withLeaseTenant ctx tenantID = (if tenantID = [] then ctx else ctx\<lparr>lx_LeaseTenant := Some tenantID\<rparr>)"

definition leaseTenantID :: "lease_context \<Rightarrow> string" where
  "leaseTenantID ctx =
     (case lx_LeaseTenant ctx of
        Some t \<Rightarrow> if t \<noteq> [] then t
                  else (case PrincipalFromContext (Some ctx) of Some p \<Rightarrow> pc_TenantID p | None \<Rightarrow> [])
      | None \<Rightarrow> (case PrincipalFromContext (Some ctx) of Some p \<Rightarrow> pc_TenantID p | None \<Rightarrow> []))"

definition leaseAuthorizationTime :: "lease_context \<Rightarrow> time \<Rightarrow> time" where
  "leaseAuthorizationTime ctx fallback =
     (case lx_AuthorizationTime ctx of
        Some v \<Rightarrow> if \<not> is_zero_time v then utc v else utc fallback
      | None \<Rightarrow> utc fallback)"

text \<open>The store interface, over a state of any type.\<close>

record 's LeaseStore =
  ls_Put :: "lease_context \<Rightarrow> CapabilityLease \<Rightarrow> 's \<Rightarrow> go_error option \<times> 's"
  ls_Get :: "lease_context \<Rightarrow> string \<Rightarrow> 's \<Rightarrow> go_error + CapabilityLease option"
  ls_GetByIdempotency ::
    "lease_context \<Rightarrow> string \<Rightarrow> string \<Rightarrow> string \<Rightarrow> 's \<Rightarrow> go_error + CapabilityLease option"
  ls_CompareAndSwap ::
    "lease_context \<Rightarrow> string \<Rightarrow> int \<Rightarrow> CapabilityLease \<Rightarrow> 's \<Rightarrow> (go_error + bool) \<times> 's"

record MemoryLeaseStore =
  ml_leases :: "(string, CapabilityLease) gomap"

definition NewMemoryLeaseStore :: MemoryLeaseStore where
  "NewMemoryLeaseStore = \<lparr>ml_leases = []\<rparr>"

definition same_logical_request :: "CapabilityLease \<Rightarrow> CapabilityLease \<Rightarrow> bool" where
  "same_logical_request existing lease \<longleftrightarrow>
     cl_TenantID existing = cl_TenantID lease \<and> cl_PrincipalID existing = cl_PrincipalID lease
     \<and> cl_IdempotencyKey existing = cl_IdempotencyKey lease"

definition Put ::
  "lease_context \<Rightarrow> CapabilityLease \<Rightarrow> MemoryLeaseStore \<Rightarrow> go_error option \<times> MemoryLeaseStore" where
  "Put ctx lease s =
     (case cx_Err ctx of
        Some e \<Rightarrow> (Some e, s)
      | None \<Rightarrow>
          if gomap_has (ml_leases s) (cl_ID lease) then (Some (GoAor (New CodeConflict [] [])), s)
          else if cl_IdempotencyKey lease \<noteq> []
             \<and> list_ex (\<lambda>(_, existing). same_logical_request existing lease) (ml_leases s)
          then (Some (GoAor (New CodeConflict [] [])), s)
          else (None, s\<lparr>ml_leases := gomap_put (cl_ID lease) (cloneLease lease) (ml_leases s)\<rparr>))"

definition Get :: "lease_context \<Rightarrow> string \<Rightarrow> MemoryLeaseStore \<Rightarrow> go_error + CapabilityLease option" where
  "Get ctx leaseID s =
     (case cx_Err ctx of
        Some e \<Rightarrow> Inl e
      | None \<Rightarrow>
          (case map_of (ml_leases s) leaseID of
             None \<Rightarrow> Inr None
           | Some lease \<Rightarrow>
               if leaseTenantID ctx \<noteq> [] \<and> cl_TenantID lease \<noteq> leaseTenantID ctx then Inr None
               else Inr (Some (cloneLease lease))))"

definition GetByIdempotency ::
  "lease_context \<Rightarrow> string \<Rightarrow> string \<Rightarrow> string \<Rightarrow> MemoryLeaseStore \<Rightarrow> go_error + CapabilityLease option" where
  "GetByIdempotency ctx tenantID principalID key s =
     (if tenantID = [] \<or> principalID = [] \<or> key = [] then Inl (GoAor (New CodeInvalidArgument [] []))
      else (case cx_Err ctx of
         Some e \<Rightarrow> Inl e
       | None \<Rightarrow>
           if leaseTenantID ctx \<noteq> [] \<and> leaseTenantID ctx \<noteq> tenantID then Inr None
           else Inr (map_option (\<lambda>(_, lease). cloneLease lease)
                  (find (\<lambda>(_, lease). cl_TenantID lease = tenantID \<and> cl_PrincipalID lease = principalID
                                     \<and> cl_IdempotencyKey lease = key) (ml_leases s)))))"

definition CompareAndSwap ::
  "lease_context \<Rightarrow> string \<Rightarrow> int \<Rightarrow> CapabilityLease \<Rightarrow> MemoryLeaseStore
     \<Rightarrow> (go_error + bool) \<times> MemoryLeaseStore" where
  "CompareAndSwap ctx leaseID expected replacement s =
     (case cx_Err ctx of
        Some e \<Rightarrow> (Inl e, s)
      | None \<Rightarrow>
          (case map_of (ml_leases s) leaseID of
             None \<Rightarrow> (Inr False, s)
           | Some current \<Rightarrow>
               if cl_FencingToken current \<noteq> expected \<or> cl_TenantID current \<noteq> cl_TenantID replacement
                  \<or> cl_ID current \<noteq> cl_ID replacement then (Inr False, s)
               else (Inr True, s\<lparr>ml_leases := gomap_put leaseID (cloneLease replacement) (ml_leases s)\<rparr>)))"

definition memory_lease_store :: "MemoryLeaseStore LeaseStore" where
  "memory_lease_store =
     \<lparr>ls_Put = Put, ls_Get = Get, ls_GetByIdempotency = GetByIdempotency,
      ls_CompareAndSwap = CompareAndSwap\<rparr>"

section \<open>The manager\<close>

record 's LeaseManager =
  lm_store :: "'s LeaseStore"
  lm_signer :: Signer
  lm_defaultTTL :: duration
  lm_maxTTL :: duration
  lm_heartbeatInterval :: duration

text \<open>
  \<open>NewLeaseManager\<close> with a store and a signer given; its defaults for the durations.
\<close>

definition NewLeaseManager ::
  "'s LeaseStore \<Rightarrow> Signer \<Rightarrow> duration \<Rightarrow> duration \<Rightarrow> duration \<Rightarrow> aor_error + 's LeaseManager" where
  "NewLeaseManager store signer defaultTTL maxTTL heartbeatInterval =
     (let d = (if defaultTTL \<le> 0 then 5 * minute_ns else defaultTTL);
          m = (if maxTTL \<le> 0 then 15 * minute_ns else maxTTL);
          h = (if heartbeatInterval \<le> 0 then 30 * second_ns else heartbeatInterval)
      in if d > m then Inl (scope_error CodeInvalidArgument ''lease ttl'')
         else Inr \<lparr>lm_store = store, lm_signer = signer, lm_defaultTTL = d, lm_maxTTL = m,
                   lm_heartbeatInterval = h\<rparr>)"

text \<open>What the clocks read when an operation asks: the configured one, the store's, the system's.\<close>

record clocks =
  ck_clock :: "time option"
  ck_timeSource :: "(go_error + time) option"
  ck_system :: time

definition manager_now :: "clocks \<Rightarrow> go_error + time" where
  "manager_now ck =
     (case ck_clock ck of
        Some now \<Rightarrow>
          if is_zero_time (utc now) then Inl (GoAor (scope_error CodeDependencyUnavailable ''lease clock''))
          else Inr (utc now)
      | None \<Rightarrow>
          (case ck_timeSource ck of
             Some (Inl e) \<Rightarrow>
               Inl (GoAor (Wrap CodeDependencyUnavailable [] (Some e) [(''scope'', DString ''lease clock'')]))
           | Some (Inr now) \<Rightarrow>
               if is_zero_time now then Inl (GoAor (scope_error CodeDependencyUnavailable ''lease clock''))
               else Inr (utc now)
           | None \<Rightarrow> Inr (utc (ck_system ck))))"

definition sign_lease :: "'s LeaseManager \<Rightarrow> CapabilityLease \<Rightarrow> go_error + CapabilityLease" where
  "sign_lease m lease =
     (case sg_Sign (lm_signer m) (leaseSigningPayload lease) of
        Inl e \<Rightarrow> Inl (GoAor (Wrap CodeInternalError [] (Some e) []))
      | Inr signature \<Rightarrow> Inr (lease\<lparr>cl_Signature := signature\<rparr>))"

definition verify_lease :: "'s LeaseManager \<Rightarrow> CapabilityLease \<Rightarrow> go_error option" where
  "verify_lease m lease =
     (case ValidateShape lease of
        Some e \<Rightarrow> Some (GoAor e)
      | None \<Rightarrow> sg_Verify (lm_signer m) (leaseSigningPayload lease) (cl_Signature lease))"

definition decisionBindingsEqual :: "DecisionBinding \<Rightarrow> DecisionBinding \<Rightarrow> bool" where
  "decisionBindingsEqual left right \<longleftrightarrow>
     db_PrincipalID left = db_PrincipalID right \<and> db_TenantID left = db_TenantID right
     \<and> db_ProjectID left = db_ProjectID right \<and> db_ProjectVersion left = db_ProjectVersion right
     \<and> db_TaskID left = db_TaskID right \<and> db_TaskVersion left = db_TaskVersion right
     \<and> db_SpecDigest left = db_SpecDigest right \<and> db_Role left = db_Role right
     \<and> db_Action left = db_Action right \<and> resourcesEqual (db_Resource left) (db_Resource right)
     \<and> db_ParameterDigest left = db_ParameterDigest right
     \<and> db_BudgetAccountID left = db_BudgetAccountID right"

definition validateLeaseGrant :: "PolicyDecision \<Rightarrow> string \<Rightarrow> DecisionBinding \<Rightarrow> time \<Rightarrow> aor_error option" where
  "validateLeaseGrant grant policyVersion expected now =
     (case PolicyDecision_Validate grant now of
        Some e \<Rightarrow> Some e
      | None \<Rightarrow>
          if pd_Decision grant \<noteq> DecisionAllow \<or> pd_PolicyVersion grant \<noteq> policyVersion
             \<or> (case pd_Binding grant of None \<Rightarrow> True | Some b \<Rightarrow> \<not> decisionBindingsEqual b expected)
          then Some (policy_denied policyVersion)
          else None)"

end
