(* ===== verification/Lease_Manager.thy ===== *)
theory Lease_Manager
  imports Authz_Lease
begin

text \<open>
  The operations of the lease manager in \<open>internal/authz/lease.go\<close>: issuing, renewal, heartbeat,
  revocation, the checks at commit time and the lookups.
\<close>

section \<open>Durations as text\<close>

text \<open>\<open>Duration.String\<close>, which the detail of a rejected lifetime prints.\<close>

definition pad_digits :: "nat \<Rightarrow> string \<Rightarrow> string" where
  "pad_digits n s = replicate (n - length s) (CHR ''0'') @ s"

definition fraction_text :: "nat \<Rightarrow> nat \<Rightarrow> string" where
  \<comment> \<open>so many decimal places of a value, without the zeros at the end\<close>
  "fraction_text places v =
     (let ds = rev (dropWhile (\<lambda>c. c = CHR ''0'') (rev (pad_digits places (show_nat v))))
      in if v = 0 then [] else CHR ''.'' # ds)"

definition seconds_text :: "nat \<Rightarrow> string" where
  "seconds_text u =
     (let total = u div 1000000000; minutes = total div 60; hours = minutes div 60 in
      (if hours > 0 then show_nat hours @ ''h'' else [])
      @ (if minutes > 0 then show_nat (minutes mod 60) @ ''m'' else [])
      @ show_nat (total mod 60) @ fraction_text 9 (u mod 1000000000) @ ''s'')"

definition duration_text :: "duration \<Rightarrow> string" where
  "duration_text d =
     (let u = nat \<bar>d\<bar> in
      if d = 0 then ''0s''
      else (if d < 0 then ''-'' else [])
        @ (if u < 1000 then show_nat u @ ''ns''
           else if u < 1000000 then show_nat (u div 1000) @ fraction_text 3 (u mod 1000) @ [CHR 0xC2, CHR 0xB5, CHR ''s'']
           else if u < 1000000000 then show_nat (u div 1000000) @ fraction_text 6 (u mod 1000000) @ ''ms''
           else seconds_text u))"

section \<open>Requests\<close>

record LeaseRequest =
  lq_ID :: string
  lq_IdempotencyKey :: string
  lq_AgentInstanceID :: string
  lq_Principal :: Principal
  lq_TenantID :: string
  lq_ProjectID :: string
  lq_ProjectVersion :: int
  lq_TaskID :: string
  lq_TaskVersion :: int
  lq_SpecDigest :: string
  lq_Role :: string
  lq_Action :: Action
  lq_Resource :: Resource
  lq_ParameterDigest :: string
  lq_Capabilities :: "string list"
  lq_PolicyVersion :: string
  lq_BudgetAccountID :: string
  lq_TTL :: duration
  lq_HeartbeatInterval :: duration
  lq_Grant :: PolicyDecision
  lq_RequestDigest :: string
  lq_FencingToken :: int
  lq_NotAfter :: time
  lq_Now :: time

record LeaseRenewalRequest =
  rn_LeaseID :: string
  rn_TenantID :: string
  rn_FencingToken :: int
  rn_PrincipalID :: string
  rn_PrincipalType :: PrincipalType
  rn_Role :: string
  rn_PolicyVersion :: string
  rn_TTL :: duration
  rn_Grant :: PolicyDecision
  rn_RequestDigest :: string
  rn_PreserveFencing :: bool
  rn_Now :: time

record LeaseHeartbeatRequest =
  hb_LeaseID :: string
  hb_TenantID :: string
  hb_ProjectID :: string
  hb_TaskID :: string
  hb_PrincipalID :: string
  hb_FencingToken :: int
  hb_Now :: time

record LeaseRevokeRequest =
  rv_LeaseID :: string
  rv_ProjectID :: string
  rv_TaskID :: string
  rv_Actor :: Principal
  rv_Reason :: string
  rv_RequestDigest :: string
  rv_Now :: time

record LeaseCheck =
  ch_LeaseID :: string
  ch_AgentInstanceID :: string
  ch_PrincipalID :: string
  ch_PrincipalType :: PrincipalType
  ch_TenantID :: string
  ch_ProjectID :: string
  ch_ProjectVersion :: int
  ch_TaskID :: string
  ch_TaskVersion :: int
  ch_SpecDigest :: string
  ch_Role :: string
  ch_Action :: Action
  ch_Resource :: Resource
  ch_ParameterDigest :: string
  ch_PolicyVersion :: string
  ch_BudgetAccountID :: string
  ch_Capability :: string
  ch_FencingToken :: int
  ch_At :: time

section \<open>Issuing\<close>

definition canceled :: "lease_context \<Rightarrow> go_error option" where
  \<comment> \<open>the check of the context every operation starts with\<close>
  "canceled ctx =
     (case cx_Err ctx of
        None \<Rightarrow> None
      | Some e \<Rightarrow> Some (GoAor (Wrap CodeDependencyUnavailable [] (Some e) [])))"

definition defaulted_agent :: "LeaseRequest \<Rightarrow> LeaseRequest" where
  "defaulted_agent request =
     (if lq_AgentInstanceID request = []
      then request\<lparr>lq_AgentInstanceID := pc_ID (lq_Principal request)\<rparr> else request)"

definition bad_lease_request :: "LeaseRequest \<Rightarrow> bool" where
  "bad_lease_request r \<longleftrightarrow>
     lq_TenantID r = [] \<or> lq_ProjectID r = [] \<or> lq_ProjectVersion r < 0
     \<or> \<not> validLeaseScopeBinding (lq_Action r) (lq_Role r) (lq_TaskID r) (lq_TaskVersion r) (lq_SpecDigest r)
     \<or> lq_Role r = [] \<or> lq_Action r = ActionOther []
     \<or> \<not> validLeasePrincipalBinding (lq_Action r) (pc_Type (lq_Principal r)) (lq_Role r)
     \<or> resourceEmpty (lq_Resource r) \<or> \<not> digest_pattern (lq_ParameterDigest r) \<or> lq_PolicyVersion r = []
     \<or> lq_BudgetAccountID r = [] \<or> length (lq_Capabilities r) = 0 \<or> length (lq_Capabilities r) > 64
     \<or> \<not> lease_containsString (lq_Capabilities r) (action_string (lq_Action r))
     \<or> lq_RequestDigest r \<noteq> [] \<and> \<not> digest_pattern (lq_RequestDigest r) \<or> lq_FencingToken r < 0"

definition check_lease_request :: "LeaseRequest \<Rightarrow> aor_error option" where
  "check_lease_request r =
     (let p = lq_Principal r in
      if pc_ID p \<noteq> lq_AgentInstanceID r then Some (scope_error CodeForbidden ''agent'')
      else if bad_lease_request r then Some (scope_error CodeInvalidArgument ''lease'')
      else if pc_TenantID p \<noteq> [] \<and> pc_TenantID p \<noteq> lq_TenantID r then Some (scope_error CodeForbidden ''tenant'')
      else if pc_ProjectID p \<noteq> [] \<and> pc_ProjectID p \<noteq> lq_ProjectID r then Some (scope_error CodeForbidden ''project'')
      else if pc_Role p \<noteq> [] \<and> pc_Role p \<noteq> lq_Role r then Some (scope_error CodeForbidden ''role'')
      else if \<not> leaseActionAllowed (lq_Action r) (lq_Role r) (lq_TaskID r)
      then Some (scope_error CodePolicyDenied ''action'')
      else None)"

definition request_binding :: "LeaseRequest \<Rightarrow> DecisionBinding" where
  "request_binding r =
     \<lparr>db_PrincipalID = pc_ID (lq_Principal r), db_TenantID = lq_TenantID r, db_ProjectID = lq_ProjectID r,
      db_ProjectVersion = lq_ProjectVersion r, db_TaskID = lq_TaskID r, db_TaskVersion = lq_TaskVersion r,
      db_SpecDigest = lq_SpecDigest r, db_Role = lq_Role r, db_Action = lq_Action r,
      db_Resource = cloneResource (lq_Resource r), db_ParameterDigest = lq_ParameterDigest r,
      db_BudgetAccountID = lq_BudgetAccountID r\<rparr>"

definition granted_ttl ::
  "'s LeaseManager \<Rightarrow> duration \<Rightarrow> PolicyDecision \<Rightarrow> string \<Rightarrow> time \<Rightarrow> aor_error + duration" where
  \<comment> \<open>the lifetime asked for, or the default, within the maximum and the grant\<close>
  "granted_ttl m requested grant policyVersion now =
     (let ttl = (if requested \<le> 0 then lm_defaultTTL m else requested) in
      if ttl > lm_maxTTL m
      then Inl (New CodePolicyDenied [] [(''limit'', DString (duration_text (lm_maxTTL m)))])
      else if \<not> is_zero_time (cn_ExpiresAt (pd_Constraints grant)) then
        (let grantTTL = time_sub (cn_ExpiresAt (pd_Constraints grant)) now in
         if grantTTL \<le> 0 then Inl (policy_denied policyVersion)
         else Inr (if ttl > grantTTL then grantTTL else ttl))
      else Inr ttl)"

definition limited_ttl :: "time \<Rightarrow> time \<Rightarrow> duration \<Rightarrow> aor_error + duration" where
  \<comment> \<open>the lifetime up to \<open>NotAfter\<close>, when the request names one\<close>
  "limited_ttl notAfter now ttl =
     (if \<not> is_zero_time notAfter then
        (let remaining = time_sub notAfter now in
         if remaining \<le> 0 then Inl (New CodeLeaseExpired [] [])
         else Inr (if ttl > remaining then remaining else ttl))
      else Inr ttl)"

definition issue_heartbeat :: "'s LeaseManager \<Rightarrow> LeaseRequest \<Rightarrow> duration \<Rightarrow> aor_error + duration" where
  "issue_heartbeat m r ttl =
     (let heartbeat = (if lq_HeartbeatInterval r \<le> 0 then lm_heartbeatInterval m else lq_HeartbeatInterval r) in
      if heartbeat \<le> 0 \<or> heartbeat mod second_ns \<noteq> 0 \<or> heartbeat > 5 * minute_ns
         \<or> heartbeat > go_quot ttl 3
      then Inl (scope_error CodeInvalidArgument ''heartbeat'')
      else Inr heartbeat)"

definition random_nonce :: "go_error + 8 word list \<Rightarrow> go_error + string" where
  \<comment> \<open>\<open>randomID\<close> of 16 random bytes, hashed\<close>
  "random_nonce bytes =
     (case bytes of
        Inl e \<Rightarrow> Inl (GoAor (Wrap CodeInternalError [] (Some e) []))
      | Inr bs \<Rightarrow> Inr (''sha256:'' @ sha256_hex (''nonce_'' @ concat (map hex_byte bs))))"

definition issue_id :: "LeaseRequest \<Rightarrow> go_error + string \<Rightarrow> go_error + string" where
  "issue_id r uuid = (if lq_ID r = [] then uuid else Inr (lq_ID r))"

definition issue_nonce :: "LeaseRequest \<Rightarrow> go_error + 8 word list \<Rightarrow> go_error + string" where
  "issue_nonce r bytes = (if lq_RequestDigest r = [] then random_nonce bytes else Inr (lq_RequestDigest r))"

definition issued_lease ::
  "LeaseRequest \<Rightarrow> string \<Rightarrow> string \<Rightarrow> time \<Rightarrow> duration \<Rightarrow> duration \<Rightarrow> CapabilityLease" where
  "issued_lease r leaseID nonce now ttl heartbeat =
     \<lparr>cl_ID = leaseID, cl_IdempotencyKey = lq_IdempotencyKey r, cl_AgentInstanceID = lq_AgentInstanceID r,
      cl_PrincipalID = pc_ID (lq_Principal r), cl_PrincipalType = pc_Type (lq_Principal r),
      cl_TenantID = lq_TenantID r, cl_ProjectID = lq_ProjectID r, cl_ProjectVersion = lq_ProjectVersion r,
      cl_TaskID = lq_TaskID r, cl_TaskVersion = lq_TaskVersion r, cl_SpecDigest = lq_SpecDigest r,
      cl_Role = lq_Role r, cl_Action = lq_Action r, cl_Resource = cloneResource (lq_Resource r),
      cl_ParameterDigest = lq_ParameterDigest r, cl_Capabilities = lq_Capabilities r, cl_IssuedAt = now,
      cl_ExpiresAt = now + ttl, cl_LastHeartbeatAt = now,
      cl_HeartbeatIntervalSeconds = heartbeat div second_ns, cl_PolicyVersion = lq_PolicyVersion r,
      cl_BudgetAccountID = lq_BudgetAccountID r, cl_Nonce = nonce,
      cl_FencingToken = (if lq_FencingToken r = 0 then 1 else lq_FencingToken r), cl_State = LeaseActive,
      cl_RevokedAt = None, cl_Signature = []\<rparr>"

definition issue_window ::
  "'s LeaseManager \<Rightarrow> LeaseRequest \<Rightarrow> time \<Rightarrow> aor_error + duration \<times> duration" where
  \<comment> \<open>the lifetime and the heartbeat of a new lease\<close>
  "issue_window m r now =
     (case granted_ttl m (lq_TTL r) (lq_Grant r) (lq_PolicyVersion r) now of
        Inl e \<Rightarrow> Inl e
      | Inr ttl \<Rightarrow>
          (case limited_ttl (lq_NotAfter r) now ttl of
             Inl e \<Rightarrow> Inl e
           | Inr ttl' \<Rightarrow>
               (case issue_heartbeat m r ttl' of Inl e \<Rightarrow> Inl e | Inr heartbeat \<Rightarrow> Inr (ttl', heartbeat))))"

definition Issue_plan ::
  "'s LeaseManager \<Rightarrow> clocks \<Rightarrow> lease_context \<Rightarrow> go_error + string \<Rightarrow> go_error + 8 word list
     \<Rightarrow> LeaseRequest \<Rightarrow> go_error + CapabilityLease" where
  \<comment> \<open>everything before the lease is stored; \<open>uuid\<close> and \<open>bytes\<close> are what the generators return\<close>
  "Issue_plan m ck ctx uuid bytes request =
     (case canceled ctx of Some e \<Rightarrow> Inl e | None \<Rightarrow>
      (case Principal_Validate (lq_Principal request) of Some e \<Rightarrow> Inl (GoAor e) | None \<Rightarrow>
       (let r = defaulted_agent request in
        (case check_lease_request r of Some e \<Rightarrow> Inl (GoAor e) | None \<Rightarrow>
         (case manager_now ck of Inl e \<Rightarrow> Inl e | Inr trusted \<Rightarrow>
          (let now = leaseAuthorizationTime ctx trusted in
           (case validateLeaseGrant (lq_Grant r) (lq_PolicyVersion r) (request_binding r) now of
              Some e \<Rightarrow> Inl (GoAor e) | None \<Rightarrow>
            (case issue_window m r now of Inl e \<Rightarrow> Inl (GoAor e) | Inr (ttl, heartbeat) \<Rightarrow>
             (case issue_id r uuid of Inl e \<Rightarrow> Inl e | Inr leaseID \<Rightarrow>
              (case issue_nonce r bytes of Inl e \<Rightarrow> Inl e | Inr nonce \<Rightarrow>
               (let lease = issued_lease r leaseID nonce now ttl heartbeat in
                (case ValidateShape lease of Some e \<Rightarrow> Inl (GoAor e) | None \<Rightarrow> sign_lease m lease))))))))))))"

definition Issue ::
  "'s LeaseManager \<Rightarrow> clocks \<Rightarrow> lease_context \<Rightarrow> go_error + string \<Rightarrow> go_error + 8 word list
     \<Rightarrow> LeaseRequest \<Rightarrow> 's \<Rightarrow> (go_error + CapabilityLease) \<times> 's" where
  "Issue m ck ctx uuid bytes request s =
     (case Issue_plan m ck ctx uuid bytes request of
        Inl e \<Rightarrow> (Inl e, s)
      | Inr lease \<Rightarrow>
          (case ls_Put (lm_store m) ctx lease s of
             (Some e, s') \<Rightarrow> (Inl e, s')
           | (None, s') \<Rightarrow> (Inr (cloneLease lease), s')))"

definition IssueWithAuthoritativeTime ::
  "'s LeaseManager \<Rightarrow> clocks \<Rightarrow> lease_context \<Rightarrow> go_error + string \<Rightarrow> go_error + 8 word list
     \<Rightarrow> LeaseRequest \<Rightarrow> time \<Rightarrow> 's \<Rightarrow> (go_error + CapabilityLease) \<times> 's" where
  "IssueWithAuthoritativeTime m ck ctx uuid bytes request at_time s =
     (if is_zero_time at_time then (Inl (GoAor (scope_error CodeInvalidArgument ''lease authorization time'')), s)
      else Issue m ck (ctx\<lparr>lx_AuthorizationTime := Some (utc at_time)\<rparr>) uuid bytes request s)"

section \<open>Reading a lease\<close>

definition fetch_lease ::
  "'s LeaseManager \<Rightarrow> lease_context \<Rightarrow> string \<Rightarrow> aor_code \<Rightarrow> 's \<Rightarrow> go_error + CapabilityLease" where
  \<comment> \<open>read and verify; the code is the error for an absent lease\<close>
  "fetch_lease m ctx leaseID missing s =
     (case ls_Get (lm_store m) ctx leaseID s of
        Inl e \<Rightarrow> Inl e
      | Inr None \<Rightarrow> Inl (GoAor (New missing [] []))
      | Inr (Some current) \<Rightarrow>
          (case verify_lease m current of Some e \<Rightarrow> Inl e | None \<Rightarrow> Inr current))"

definition usable :: "CapabilityLease \<Rightarrow> time \<Rightarrow> bool" where
  "usable lease now \<longleftrightarrow> \<not> (cl_State lease \<noteq> LeaseActive \<or> IsExpired lease now)"

section \<open>Plans and commits\<close>

text \<open>
  A plan is the lease that was read and its replacement, signed. The commit swaps it if the
  store still holds the fencing token that was read.
\<close>

type_synonym lease_plan = "CapabilityLease \<times> CapabilityLease"

definition commit_plan ::
  "'s LeaseManager \<Rightarrow> lease_context \<Rightarrow> lease_plan \<Rightarrow> 's \<Rightarrow> (go_error + bool) \<times> 's" where
  "commit_plan m ctx plan s =
     (case plan of (current, updated) \<Rightarrow>
        ls_CompareAndSwap (lm_store m) ctx (cl_ID current) (cl_FencingToken current) updated s)"

definition committed ::
  "'s LeaseManager \<Rightarrow> lease_context \<Rightarrow> go_error + lease_plan \<Rightarrow> 's \<Rightarrow> (go_error + CapabilityLease) \<times> 's" where
  \<comment> \<open>the end of a renewal and of a heartbeat\<close>
  "committed m ctx planned s =
     (case planned of
        Inl e \<Rightarrow> (Inl e, s)
      | Inr plan \<Rightarrow>
          (case commit_plan m ctx plan s of
             (Inl e, s') \<Rightarrow> (Inl e, s')
           | (Inr ok, s') \<Rightarrow>
               if \<not> ok then (Inl (GoAor (New CodeConflict [] [])), s') else (Inr (snd plan), s')))"

definition planned :: "CapabilityLease \<Rightarrow> go_error + CapabilityLease \<Rightarrow> go_error + lease_plan" where
  "planned current result = (case result of Inl e \<Rightarrow> Inl e | Inr updated \<Rightarrow> Inr (current, updated))"

section \<open>Renewal\<close>

definition check_renewal :: "LeaseRenewalRequest \<Rightarrow> CapabilityLease \<Rightarrow> time \<Rightarrow> aor_error option" where
  "check_renewal r current now =
     (if \<not> usable current now then Some (New CodeLeaseExpired [] [])
      else if rn_FencingToken r < 1 \<or> rn_FencingToken r \<noteq> cl_FencingToken current
      then Some (scope_error CodeConflict ''lease fencing'')
      else if rn_PrincipalID r = [] \<or> rn_PrincipalID r \<noteq> cl_PrincipalID current
         \<or> rn_PrincipalType r \<noteq> no_principal_type \<and> rn_PrincipalType r \<noteq> cl_PrincipalType current
         \<or> rn_Role r \<noteq> [] \<and> rn_Role r \<noteq> cl_Role current
      then Some (scope_error CodeForbidden ''lease principal'')
      else if rn_PolicyVersion r = [] \<or> rn_PolicyVersion r \<noteq> cl_PolicyVersion current
      then Some (policy_denied (cl_PolicyVersion current))
      else None)"

definition lease_binding :: "CapabilityLease \<Rightarrow> DecisionBinding" where
  "lease_binding l =
     \<lparr>db_PrincipalID = cl_PrincipalID l, db_TenantID = cl_TenantID l, db_ProjectID = cl_ProjectID l,
      db_ProjectVersion = cl_ProjectVersion l, db_TaskID = cl_TaskID l, db_TaskVersion = cl_TaskVersion l,
      db_SpecDigest = cl_SpecDigest l, db_Role = cl_Role l, db_Action = cl_Action l,
      db_Resource = cloneResource (cl_Resource l), db_ParameterDigest = cl_ParameterDigest l,
      db_BudgetAccountID = cl_BudgetAccountID l\<rparr>"

definition renewed :: "LeaseRenewalRequest \<Rightarrow> time \<Rightarrow> duration \<Rightarrow> CapabilityLease \<Rightarrow> CapabilityLease" where
  "renewed r now ttl current =
     (let u1 = (cloneLease current)\<lparr>cl_ExpiresAt := now + ttl, cl_LastHeartbeatAt := now\<rparr>;
          u2 = (if \<not> rn_PreserveFencing r then u1\<lparr>cl_FencingToken := add64 (cl_FencingToken u1) 1\<rparr> else u1)
      in if rn_RequestDigest r \<noteq> [] then u2\<lparr>cl_Nonce := rn_RequestDigest r\<rparr> else u2)"

definition Renew_plan ::
  "'s LeaseManager \<Rightarrow> clocks \<Rightarrow> lease_context \<Rightarrow> LeaseRenewalRequest \<Rightarrow> 's \<Rightarrow> go_error + lease_plan" where
  "Renew_plan m ck ctx r s =
     (case canceled ctx of Some e \<Rightarrow> Inl e | None \<Rightarrow>
      if rn_RequestDigest r \<noteq> [] \<and> \<not> digest_pattern (rn_RequestDigest r)
      then Inl (GoAor (scope_error CodeInvalidArgument ''lease request digest''))
      else (case manager_now ck of Inl e \<Rightarrow> Inl e | Inr now \<Rightarrow>
       (case fetch_lease m (withLeaseTenant ctx (rn_TenantID r)) (rn_LeaseID r) CodeNotFound s of
          Inl e \<Rightarrow> Inl e | Inr current \<Rightarrow>
        (case check_renewal r current now of Some e \<Rightarrow> Inl (GoAor e) | None \<Rightarrow>
         (case validateLeaseGrant (rn_Grant r) (cl_PolicyVersion current) (lease_binding current) now of
            Some e \<Rightarrow> Inl (GoAor e) | None \<Rightarrow>
          (case granted_ttl m (rn_TTL r) (rn_Grant r) (cl_PolicyVersion current) now of
             Inl e \<Rightarrow> Inl (GoAor e) | Inr ttl \<Rightarrow>
           (let updated = renewed r now ttl current in
            if cl_ExpiresAt updated < cl_IssuedAt updated
            then Inl (GoAor (scope_error CodeInvalidArgument ''lease time''))
            else planned current (sign_lease m updated))))))))"

definition Renew ::
  "'s LeaseManager \<Rightarrow> clocks \<Rightarrow> lease_context \<Rightarrow> LeaseRenewalRequest \<Rightarrow> 's
     \<Rightarrow> (go_error + CapabilityLease) \<times> 's" where
  "Renew m ck ctx r s = committed m ctx (Renew_plan m ck ctx r s) s"

section \<open>Heartbeats\<close>

definition beaten :: "'s LeaseManager \<Rightarrow> time \<Rightarrow> CapabilityLease \<Rightarrow> CapabilityLease" where
  "beaten m now current =
     (let u = (cloneLease current)\<lparr>cl_LastHeartbeatAt := now\<rparr>;
          heartbeatExpiry = now + lm_defaultTTL m
      in if heartbeatExpiry > cl_ExpiresAt u then u\<lparr>cl_ExpiresAt := heartbeatExpiry\<rparr> else u)"

definition check_heartbeat :: "LeaseHeartbeatRequest \<Rightarrow> CapabilityLease \<Rightarrow> time \<Rightarrow> aor_error option" where
  "check_heartbeat r current now =
     (if \<not> usable current now then Some (New CodeLeaseExpired [] [])
      else if hb_ProjectID r = [] \<or> hb_ProjectID r \<noteq> cl_ProjectID current \<or> hb_TaskID r \<noteq> cl_TaskID current
         \<or> hb_PrincipalID r = [] \<or> hb_PrincipalID r \<noteq> cl_PrincipalID current
         \<or> hb_FencingToken r \<noteq> cl_FencingToken current
      then Some (scope_error CodeForbidden ''lease fencing'')
      else if now < cl_LastHeartbeatAt current then Some (scope_error CodeInvalidArgument ''heartbeat time'')
      else None)"

definition Heartbeat_plan ::
  "'s LeaseManager \<Rightarrow> clocks \<Rightarrow> lease_context \<Rightarrow> LeaseHeartbeatRequest \<Rightarrow> 's \<Rightarrow> go_error + lease_plan" where
  "Heartbeat_plan m ck ctx r s =
     (case canceled ctx of Some e \<Rightarrow> Inl e | None \<Rightarrow>
      (case manager_now ck of Inl e \<Rightarrow> Inl e | Inr now \<Rightarrow>
       (case fetch_lease m (withLeaseTenant ctx (hb_TenantID r)) (hb_LeaseID r) CodeNotFound s of
          Inl e \<Rightarrow> Inl e | Inr current \<Rightarrow>
        (case check_heartbeat r current now of Some e \<Rightarrow> Inl (GoAor e) | None \<Rightarrow>
           planned current (sign_lease m (beaten m now current))))))"

definition Heartbeat ::
  "'s LeaseManager \<Rightarrow> clocks \<Rightarrow> lease_context \<Rightarrow> LeaseHeartbeatRequest \<Rightarrow> 's
     \<Rightarrow> (go_error + CapabilityLease) \<times> 's" where
  "Heartbeat m ck ctx r s = committed m ctx (Heartbeat_plan m ck ctx r s) s"

section \<open>Revocation\<close>

definition check_revoke :: "LeaseRevokeRequest \<Rightarrow> CapabilityLease \<Rightarrow> aor_error option" where
  "check_revoke r current =
     (if cl_ProjectID current \<noteq> rv_ProjectID r \<or> cl_TaskID current \<noteq> rv_TaskID r
      then Some (scope_error CodeForbidden ''lease revoke binding'')
      else if pc_ID (rv_Actor r) \<noteq> cl_PrincipalID current \<and> pc_Type (rv_Actor r) \<noteq> PrincipalBreakGlassAdmin
         \<and> pc_Role (rv_Actor r) \<noteq> RoleBreakGlassAdmin
      then Some (scope_error CodeForbidden ''lease revoke'')
      else None)"

definition revoked :: "LeaseRevokeRequest \<Rightarrow> time \<Rightarrow> CapabilityLease \<Rightarrow> CapabilityLease" where
  "revoked r now current =
     (cloneLease current)\<lparr>cl_State := LeaseRevoked, cl_RevokedAt := Some now,
        cl_FencingToken := add64 (cl_FencingToken current) 1, cl_Nonce := rv_RequestDigest r\<rparr>"

definition same_revocation :: "LeaseRevokeRequest \<Rightarrow> CapabilityLease \<Rightarrow> bool" where
  "same_revocation r lease \<longleftrightarrow> cl_State lease = LeaseRevoked \<and> cl_Nonce lease = rv_RequestDigest r"

definition Revoke_plan ::
  "'s LeaseManager \<Rightarrow> clocks \<Rightarrow> lease_context \<Rightarrow> LeaseRevokeRequest \<Rightarrow> 's \<Rightarrow> go_error + lease_plan option" where
  \<comment> \<open>no plan: the lease is revoked by the same request already\<close>
  "Revoke_plan m ck ctx r s =
     (case canceled ctx of Some e \<Rightarrow> Inl e | None \<Rightarrow>
      (case Principal_Validate (rv_Actor r) of Some e \<Rightarrow> Inl (GoAor e) | None \<Rightarrow>
       if rv_ProjectID r = [] \<or> rv_Reason r = [] \<or> length (rv_Reason r) > 256
          \<or> contains_any (rv_Reason r) crlf_nul \<or> \<not> digest_pattern (rv_RequestDigest r)
       then Inl (GoAor (scope_error CodeInvalidArgument ''revoke reason''))
       else (case manager_now ck of Inl e \<Rightarrow> Inl e | Inr now \<Rightarrow>
        (case fetch_lease m (withLeaseTenant ctx (pc_TenantID (rv_Actor r))) (rv_LeaseID r) CodeNotFound s of
           Inl e \<Rightarrow> Inl e | Inr current \<Rightarrow>
         (case check_revoke r current of Some e \<Rightarrow> Inl (GoAor e) | None \<Rightarrow>
          if cl_State current \<noteq> LeaseActive then
            (if same_revocation r current then Inr None
             else Inl (GoAor (scope_error CodeIdempotencyConflict ''lease revoke'')))
          else (case planned current (sign_lease m (revoked r now current)) of
                  Inl e \<Rightarrow> Inl e | Inr plan \<Rightarrow> Inr (Some plan)))))))"

definition Revoke_finish ::
  "'s LeaseManager \<Rightarrow> lease_context \<Rightarrow> LeaseRevokeRequest \<Rightarrow> (go_error + bool) \<times> 's
     \<Rightarrow> go_error option \<times> 's" where
  \<comment> \<open>what follows the swap: a lost race with the same revocation is a success\<close>
  "Revoke_finish m ctx r swapped =
     (case swapped of
        (Inl e, s) \<Rightarrow> (Some e, s)
      | (Inr ok, s) \<Rightarrow>
          if \<not> ok then
            (case ls_Get (lm_store m) (withLeaseTenant ctx (pc_TenantID (rv_Actor r))) (rv_LeaseID r) s of
               Inr (Some latest) \<Rightarrow>
                 if same_revocation r latest then (None, s) else (Some (GoAor (New CodeConflict [] [])), s)
             | _ \<Rightarrow> (Some (GoAor (New CodeConflict [] [])), s))
          else (None, s))"

definition Revoke ::
  "'s LeaseManager \<Rightarrow> clocks \<Rightarrow> lease_context \<Rightarrow> LeaseRevokeRequest \<Rightarrow> 's \<Rightarrow> go_error option \<times> 's" where
  "Revoke m ck ctx r s =
     (case Revoke_plan m ck ctx r s of
        Inl e \<Rightarrow> (Some e, s)
      | Inr None \<Rightarrow> (None, s)
      | Inr (Some plan) \<Rightarrow> Revoke_finish m ctx r (commit_plan m ctx plan s))"

section \<open>Expiry and validation\<close>

definition expired_lease :: "CapabilityLease \<Rightarrow> CapabilityLease" where
  "expired_lease current =
     (cloneLease current)\<lparr>cl_State := LeaseExpired, cl_FencingToken := add64 (cl_FencingToken current) 1\<rparr>"

definition expire_plan :: "'s LeaseManager \<Rightarrow> CapabilityLease \<Rightarrow> go_error + lease_plan" where
  "expire_plan m current = planned current (sign_lease m (expired_lease current))"

definition expire :: "'s LeaseManager \<Rightarrow> lease_context \<Rightarrow> CapabilityLease \<Rightarrow> 's \<Rightarrow> 's" where
  "expire m ctx current s =
     (case expire_plan m current of Inl _ \<Rightarrow> s | Inr plan \<Rightarrow> snd (commit_plan m ctx plan s))"

definition check_binding :: "LeaseCheck \<Rightarrow> CapabilityLease \<Rightarrow> aor_error option" where
  "check_binding c l =
     (if ch_AgentInstanceID c = [] \<or> ch_AgentInstanceID c \<noteq> cl_AgentInstanceID l
         \<or> ch_PrincipalID c = [] \<or> ch_PrincipalID c \<noteq> cl_PrincipalID l
         \<or> ch_PrincipalType c = no_principal_type \<or> ch_PrincipalType c \<noteq> cl_PrincipalType l
         \<or> ch_TenantID c = [] \<or> ch_TenantID c \<noteq> cl_TenantID l
         \<or> ch_ProjectID c = [] \<or> ch_ProjectID c \<noteq> cl_ProjectID l
         \<or> ch_ProjectVersion c \<noteq> cl_ProjectVersion l \<or> ch_TaskID c \<noteq> cl_TaskID l
         \<or> ch_TaskVersion c \<noteq> cl_TaskVersion l \<or> ch_SpecDigest c \<noteq> cl_SpecDigest l
         \<or> ch_Role c = [] \<or> ch_Role c \<noteq> cl_Role l
         \<or> ch_Action c = ActionOther [] \<or> ch_Action c \<noteq> cl_Action l
         \<or> ch_PolicyVersion c = [] \<or> ch_PolicyVersion c \<noteq> cl_PolicyVersion l
         \<or> ch_BudgetAccountID c = [] \<or> ch_BudgetAccountID c \<noteq> cl_BudgetAccountID l
         \<or> ch_Capability c = [] \<or> \<not> lease_containsString (cl_Capabilities l) (ch_Capability c)
         \<or> ch_FencingToken c < 1 \<or> ch_FencingToken c \<noteq> cl_FencingToken l
      then Some (scope_error CodeForbidden ''lease binding'')
      else if \<not> digest_pattern (ch_ParameterDigest c) \<or> ch_ParameterDigest c \<noteq> cl_ParameterDigest l
      then Some (scope_error CodePolicyDenied ''lease parameters'')
      else if resourceEmpty (ch_Resource c) \<or> \<not> resourcesEqual (ch_Resource c) (cl_Resource l)
      then Some (New CodeUnauthorizedPath [] [])
      else None)"

definition Validate ::
  "'s LeaseManager \<Rightarrow> clocks \<Rightarrow> lease_context \<Rightarrow> LeaseCheck \<Rightarrow> 's \<Rightarrow> (go_error + CapabilityLease) \<times> 's" where
  "Validate m ck ctx c s =
     (case canceled ctx of Some e \<Rightarrow> (Inl e, s) | None \<Rightarrow>
      (case manager_now ck of Inl e \<Rightarrow> (Inl e, s) | Inr trusted \<Rightarrow>
       (let now = leaseAuthorizationTime ctx trusted in
        (case fetch_lease m (withLeaseTenant ctx (ch_TenantID c)) (ch_LeaseID c) CodeLeaseExpired s of
           Inl e \<Rightarrow> (Inl e, s) | Inr current \<Rightarrow>
         if \<not> usable current now then
           (Inl (GoAor (New CodeLeaseExpired [] [])),
            if cl_State current = LeaseActive \<and> IsExpired current now then expire m ctx current s else s)
         else (case check_binding c current of
                 Some e \<Rightarrow> (Inl (GoAor e), s) | None \<Rightarrow> (Inr current, s))))))"

definition ValidateWithAuthoritativeTime ::
  "'s LeaseManager \<Rightarrow> clocks \<Rightarrow> lease_context \<Rightarrow> LeaseCheck \<Rightarrow> time \<Rightarrow> 's
     \<Rightarrow> (go_error + CapabilityLease) \<times> 's" where
  "ValidateWithAuthoritativeTime m ck ctx c at_time s =
     (if is_zero_time at_time then (Inl (GoAor (scope_error CodeInvalidArgument ''lease authorization time'')), s)
      else Validate m ck (ctx\<lparr>lx_AuthorizationTime := Some (utc at_time)\<rparr>) c s)"

definition ValidateActive ::
  "'s LeaseManager \<Rightarrow> clocks \<Rightarrow> lease_context \<Rightarrow> string \<Rightarrow> 's \<Rightarrow> go_error + CapabilityLease" where
  "ValidateActive m ck ctx leaseID s =
     (case canceled ctx of Some e \<Rightarrow> Inl e | None \<Rightarrow>
      (case fetch_lease m ctx leaseID CodeLeaseExpired s of Inl e \<Rightarrow> Inl e | Inr current \<Rightarrow>
       (case manager_now ck of Inl e \<Rightarrow> Inl e | Inr now \<Rightarrow>
          if \<not> usable current now then Inl (GoAor (New CodeLeaseExpired [] [])) else Inr current)))"

section \<open>Lookups\<close>

definition verified_lookup ::
  "'s LeaseManager \<Rightarrow> go_error + CapabilityLease option \<Rightarrow> go_error + CapabilityLease option" where
  "verified_lookup m found =
     (case found of
        Inl e \<Rightarrow> Inl e
      | Inr None \<Rightarrow> Inr None
      | Inr (Some lease) \<Rightarrow> (case verify_lease m lease of Some e \<Rightarrow> Inl e | None \<Rightarrow> Inr (Some lease)))"

definition manager_Get ::
  "'s LeaseManager \<Rightarrow> lease_context \<Rightarrow> string \<Rightarrow> 's \<Rightarrow> go_error + CapabilityLease option" where
  "manager_Get m ctx leaseID s =
     (case canceled ctx of Some e \<Rightarrow> Inl e | None \<Rightarrow> verified_lookup m (ls_Get (lm_store m) ctx leaseID s))"

definition GetForTenant ::
  "'s LeaseManager \<Rightarrow> lease_context \<Rightarrow> string \<Rightarrow> string \<Rightarrow> 's \<Rightarrow> go_error + CapabilityLease option" where
  "GetForTenant m ctx tenantID leaseID s =
     (if tenantID = [] then Inl (GoAor (scope_error CodeInvalidArgument ''lease tenant''))
      else manager_Get m (withLeaseTenant ctx tenantID) leaseID s)"

definition manager_GetByIdempotency ::
  "'s LeaseManager \<Rightarrow> lease_context \<Rightarrow> string \<Rightarrow> string \<Rightarrow> string \<Rightarrow> 's
     \<Rightarrow> go_error + CapabilityLease option" where
  "manager_GetByIdempotency m ctx tenantID principalID key s =
     (if tenantID = [] \<or> principalID = [] \<or> key = [] then Inl (GoAor (New CodeInvalidArgument [] []))
      else verified_lookup m
             (ls_GetByIdempotency (lm_store m) (withLeaseTenant ctx tenantID) tenantID principalID key s))"

end
