(* ===== verification/Policy_Engine.thy ===== *)
theory Policy_Engine
  imports Lease_Manager
begin

text \<open>
  The policy engine of \<open>internal/authz/engine.go\<close>: the checks before a side effect, the decision of
  the reference policy, the rules of the bundle that may narrow it, and the grants that precede a
  lease. The rules, the approval verifier and the clocks are parameters.
\<close>

section \<open>Engines\<close>

record 's Engine =
  en_bundle :: PolicyBundle
  en_leases :: "'s LeaseManager option"
  en_approvals :: "(PolicyApproval \<Rightarrow> go_error option) option"
  en_maxWriteBytes :: int

definition NewEngine ::
  "PolicyBundle \<Rightarrow> 's LeaseManager option \<Rightarrow> (PolicyApproval \<Rightarrow> go_error option) option \<Rightarrow> int \<Rightarrow> 's Engine" where
  "NewEngine bundle leases approvals maxWriteBytes =
     \<lparr>en_bundle = bundle, en_leases = leases, en_approvals = approvals,
      en_maxWriteBytes = (if maxWriteBytes \<le> 0 then 2 ^ 20 else maxWriteBytes)\<rparr>"

abbreviation bundle_version :: "'s Engine \<Rightarrow> string" where
  "bundle_version e \<equiv> bu_Version (en_bundle e)"

definition bundleUsable :: "'s Engine option \<Rightarrow> bool" where
  "bundleUsable engine =
     (case engine of None \<Rightarrow> False
      | Some e \<Rightarrow> bu_Available (en_bundle e) \<and> bundle_version e \<noteq> []
          \<and> (bu_Digest (en_bundle e) = [] \<or> bu_Digest (en_bundle e) = bundle_version e))"

definition policyVersion :: "'s Engine option \<Rightarrow> string" where
  "policyVersion engine =
     (case engine of None \<Rightarrow> ''unavailable''
      | Some e \<Rightarrow> if bundle_version e \<noteq> [] then bundle_version e else ''unavailable'')"

definition denyDecision :: "string \<Rightarrow> string \<Rightarrow> PolicyDecision" where
  "denyDecision version reason =
     \<lparr>pd_Decision = DecisionDeny, pd_PolicyVersion = version, pd_Constraints = zero_Constraints,
      pd_ReasonCodes = [reason], pd_RuleID = ''aor.default.deny'', pd_Binding = None\<rparr>"

definition approvalDecision :: "string \<Rightarrow> string \<Rightarrow> PolicyDecision" where
  "approvalDecision version reason =
     \<lparr>pd_Decision = DecisionApprovalRequired, pd_PolicyVersion = version, pd_Constraints = zero_Constraints,
      pd_ReasonCodes = [reason], pd_RuleID = ''aor.approval.required'', pd_Binding = None\<rparr>"

definition allowDecision :: "string \<Rightarrow> string \<Rightarrow> string list \<Rightarrow> PolicyDecision" where
  "allowDecision version rule reasons =
     \<lparr>pd_Decision = DecisionAllow, pd_PolicyVersion = version, pd_Constraints = zero_Constraints,
      pd_ReasonCodes = reasons, pd_RuleID = rule, pd_Binding = None\<rparr>"

definition reasonForError :: "go_error \<Rightarrow> string" where
  "reasonForError err =
     (case err of
        GoPlain _ \<Rightarrow> ''POLICY_CHECK_FAILED''
      | GoAor typed \<Rightarrow>
          (case err_Code typed of
             CodeLeaseExpired \<Rightarrow> ''LEASE_EXPIRED''
           | CodeApprovalRequired \<Rightarrow> ''APPROVAL_REQUIRED''
           | CodeUnauthorizedPath \<Rightarrow> ''UNAUTHORIZED_PATH''
           | CodeDependencyUnavailable \<Rightarrow> ''DEPENDENCY_UNAVAILABLE''
           | CodeForbidden \<Rightarrow> ''IDENTITY_SCOPE_DENIED''
           | CodeUnauthorized \<Rightarrow> ''IDENTITY_SCOPE_DENIED''
           | _ \<Rightarrow> ''INVALID_POLICY_INPUT''))"

section \<open>Checks\<close>

definition validateApprovalProof :: "'s Engine \<Rightarrow> PolicyInput \<Rightarrow> aor_error option" where
  "validateApprovalProof e input =
     (case pi_Approval input of
        None \<Rightarrow> None
      | Some approval \<Rightarrow>
          (case en_approvals e of
             None \<Rightarrow> Some (scope_error CodeDependencyUnavailable ''approval verifier'')
           | Some verify \<Rightarrow>
               (case verify approval of
                  Some _ \<Rightarrow> Some (New CodeApprovalRequired [] [])
                | None \<Rightarrow> None)))"

definition validateExecutionBoundary :: "PolicyInput \<Rightarrow> aor_error option" where
  "validateExecutionBoundary input =
     (if \<not> RequiresTask (pi_Action input) \<or> globalAuditorProjectReadTool input then None
      else (let task = pi_Task input; c = pi_Context input;
                production = ts_DeploymentProfile task = ''PRODUCTION'';
                untrusted = ts_WorkloadTrust task = ''UNTRUSTED'' \<or> ts_HostileMultiTenant task
                  \<or> ts_RequiresNetworkIsolation task \<or> ts_RequiresHiddenConfidentiality task
            in if IsSideEffect (pi_Action input) \<and> \<not> validTaskExecutionScope task
               then Some (scope_error CodeSandboxLevelInsufficient ''trusted task execution profile'')
               else if ec_Platform c \<noteq> [] \<and> ec_Platform c \<noteq> ts_ExecutionPlatform task
                  \<or> ec_SandboxLevel c \<noteq> [] \<and> ec_SandboxLevel c \<noteq> ts_SandboxLevel task
               then Some (scope_error CodeSandboxLevelInsufficient ''execution context mismatch'')
               else if production \<and> untrusted
                  \<and> (ts_ExecutionPlatform task \<noteq> ''LINUX'' \<or> ts_SandboxLevel task \<noteq> ''CONTAINER'')
               then Some (scope_error CodeSandboxLevelInsufficient ''production untrusted workload'')
               else if ts_ExecutionPlatform task = ''WINDOWS'' \<and> ts_SandboxLevel task \<noteq> ''NONE''
               then Some (scope_error CodeSandboxLevelInsufficient ''windows isolation'')
               else if ts_ExecutionPlatform task = ''LINUX'' \<and> ts_SandboxLevel task \<noteq> ''CONTAINER''
               then Some (scope_error CodeSandboxLevelInsufficient ''linux isolation'')
               else None))"

definition input_lease_check :: "'s Engine \<Rightarrow> PolicyInput \<Rightarrow> LeaseReference \<Rightarrow> time \<Rightarrow> LeaseCheck" where
  "input_lease_check e input reference now =
     (let p = pi_Principal input; t = pi_Task input in
      \<lparr>ch_LeaseID = lr_ID reference, ch_AgentInstanceID = pc_ID p, ch_PrincipalID = pc_ID p,
       ch_PrincipalType = pc_Type p, ch_TenantID = sc_TenantID (pi_Project input),
       ch_ProjectID = sc_ID (pi_Project input), ch_ProjectVersion = sc_StateVersion (pi_Project input),
       ch_TaskID = ts_ID t, ch_TaskVersion = ts_StateVersion t, ch_SpecDigest = ts_SpecDigest t,
       ch_Role = pc_Role p, ch_Action = pi_Action input, ch_Resource = pi_Resource input,
       ch_ParameterDigest = pi_ParameterDigest input, ch_PolicyVersion = bundle_version e,
       ch_BudgetAccountID = bs_AccountID (pi_Budget input), ch_Capability = action_string (pi_Action input),
       ch_FencingToken = lr_FencingToken reference, ch_At = now\<rparr>)"

definition missing_commit_facts :: "PolicyInput \<Rightarrow> bool" where
  "missing_commit_facts input \<longleftrightarrow>
     pi_ParameterDigest input = [] \<or> bs_AccountID (pi_Budget input) = [] \<or> \<not> bs_Available (pi_Budget input)
     \<or> \<not> validLeaseScopeBinding (pi_Action input) (pc_Role (pi_Principal input)) (ts_ID (pi_Task input))
          (ts_StateVersion (pi_Task input)) (ts_SpecDigest (pi_Task input))"

definition validateLease ::
  "'s Engine \<Rightarrow> clocks \<Rightarrow> lease_context \<Rightarrow> PolicyInput \<Rightarrow> time \<Rightarrow> 's \<Rightarrow> (go_error + CapabilityLease) \<times> 's" where
  "validateLease e ck ctx input now s =
     (if \<not> IsSideEffect (pi_Action input) then (Inr zero_CapabilityLease, s)
      else (case pi_Lease input of
         None \<Rightarrow> (Inl (GoAor (scope_error CodePolicyDenied ''lease required'')), s)
       | Some reference \<Rightarrow>
           if lr_PolicyVersion reference \<noteq> bundle_version e
           then (Inl (GoAor (policy_denied (bundle_version e))), s)
           else if missing_commit_facts input
           then (Inl (GoAor (scope_error CodePolicyDenied ''commit facts'')), s)
           else (case en_leases e of
              None \<Rightarrow> (Inl (GoAor (scope_error CodeDependencyUnavailable ''lease store'')), s)
            | Some m \<Rightarrow>
                (case Validate m ck ctx (input_lease_check e input reference now) s of
                   (Inl err, s') \<Rightarrow> (Inl err, s')
                 | (Inr lease, s') \<Rightarrow>
                     if cl_ExpiresAt lease \<noteq> lr_ExpiresAt reference
                        \<or> cl_BudgetAccountID lease \<noteq> bs_AccountID (pi_Budget input)
                     then (Inl (GoAor (scope_error CodePolicyDenied ''lease binding'')), s')
                     else (Inr lease, s')))))"

definition approvalMatches :: "PolicyInput \<Rightarrow> time \<Rightarrow> bool" where
  "approvalMatches input now =
     (case pi_Approval input of
        None \<Rightarrow> False
      | Some a \<Rightarrow>
          if validateApproval a now \<noteq> None then False
          else (let r = pi_Resource input;
                    expected = (if rs_ID r = [] then rs_Path r else rs_ID r);
                    subjectVersion =
                      (if pi_Action input = ActionKnowledgeWrite
                          \<or> pi_Action input = ActionArtifactPublish \<and> ts_ID (pi_Task input) = []
                       then sc_StateVersion (pi_Project input) else ts_StateVersion (pi_Task input))
                in if expected = [] \<or> pa_SubjectID a \<noteq> expected then False
                   else if pa_TenantID a \<noteq> sc_TenantID (pi_Project input)
                      \<or> pa_ProjectID a \<noteq> sc_ID (pi_Project input)
                      \<or> pa_SubjectVersion a \<noteq> subjectVersion
                      \<or> pa_SubjectDigest a \<noteq> pi_ParameterDigest input then False
                   else pa_SubjectType a = action_string (pi_Action input) \<or> pa_SubjectType a = rs_Type r))"

definition artifactPublicationProjectStateAllowed :: "PolicyInput \<Rightarrow> bool" where
  "artifactPublicationProjectStateAllowed input =
     (let st = sc_State (pi_Project input); r = pi_Resource input in
      if \<not> roleIn st [''PAUSED'', ''ABORTED'', ''FAILED_SYSTEM'', ''ARCHIVED''] then True
      else if attribute r ''operation'' = ''project-export'' then roleIn st [''PAUSED'', ''ABORTED'', ''ARCHIVED'']
      else roleIn st [''PAUSED'', ''ARCHIVED''] \<and> attribute r ''operation'' = ''deletion-proof''
           \<and> attribute r ''deletionId'' \<noteq> [])"

section \<open>The reference policy\<close>

definition constrainAllow :: "'s Engine \<Rightarrow> PolicyDecision \<Rightarrow> PolicyInput \<Rightarrow> CapabilityLease \<Rightarrow> PolicyDecision" where
  "constrainAllow e result input lease =
     (if IsSideEffect (pi_Action input) then
        (let c = pd_Constraints result;
             c1 = (if \<not> is_zero_time (cl_ExpiresAt lease)
                      \<and> (is_zero_time (cn_ExpiresAt c) \<or> cl_ExpiresAt lease < cn_ExpiresAt c)
                   then c\<lparr>cn_ExpiresAt := cl_ExpiresAt lease\<rparr> else c);
             c2 = (if cn_MaxBytes c1 = 0
                      \<and> (pi_Action input = ActionRepoWrite \<or> pi_Action input = ActionRepoApplyPatch
                         \<or> pi_Action input = ActionToolInvoke)
                   then c1\<lparr>cn_MaxBytes := en_maxWriteBytes e\<rparr> else c1)
         in result\<lparr>pd_Constraints := c2\<rparr>)
      else result)"

definition intersectAllow ::
  "'s Engine \<Rightarrow> PolicyDecision \<Rightarrow> PolicyDecision \<Rightarrow> PolicyInput \<Rightarrow> CapabilityLease \<Rightarrow> PolicyDecision" where
  "intersectAllow e baseline narrowed input lease =
     (let b = pd_Constraints baseline; c = pd_Constraints narrowed in
      if cn_PathGlob b \<noteq> [] \<and> cn_PathGlob c \<noteq> [] \<and> cn_PathGlob c \<noteq> cn_PathGlob b
      then denyDecision (bundle_version e) ''POLICY_CONSTRAINT_CONFLICT''
      else (let c1 = (if cn_PathGlob b \<noteq> [] then c\<lparr>cn_PathGlob := cn_PathGlob b\<rparr> else c);
                c2 = (if cn_MaxBytes b > 0 \<and> (cn_MaxBytes c1 = 0 \<or> cn_MaxBytes c1 > cn_MaxBytes b)
                      then c1\<lparr>cn_MaxBytes := cn_MaxBytes b\<rparr> else c1);
                c3 = (if \<not> is_zero_time (cn_ExpiresAt b)
                         \<and> (is_zero_time (cn_ExpiresAt c2) \<or> cn_ExpiresAt b < cn_ExpiresAt c2)
                      then c2\<lparr>cn_ExpiresAt := cn_ExpiresAt b\<rparr> else c2)
            in constrainAllow e (narrowed\<lparr>pd_Constraints := c3\<rparr>) input lease))"

fun first_owned :: "string \<Rightarrow> string list \<Rightarrow> string option" where
  \<comment> \<open>the first ownership glob that matches the path\<close>
  "first_owned path [] = None"
| "first_owned path (owned # rest) = (if pathMatchesGlob path owned then Some owned else first_owned path rest)"

definition repoWriteDecision :: "'s Engine \<Rightarrow> PolicyInput \<Rightarrow> CapabilityLease \<Rightarrow> PolicyDecision" where
  "repoWriteDecision e input lease =
     (let v = bundle_version e in
      if pc_Type (pi_Principal input) \<noteq> PrincipalAgentInstance \<or> pc_Role (pi_Principal input) \<noteq> RoleExecutor
      then denyDecision v ''EXECUTOR_REQUIRED''
      else if sc_State (pi_Project input) \<noteq> ''EXECUTING'' \<or> ts_State (pi_Task input) \<noteq> ''EXECUTING''
      then denyDecision v ''TASK_NOT_EXECUTING''
      else if rs_Path (pi_Resource input) = [] then denyDecision v ''RESOURCE_PATH_REQUIRED''
      else (case first_owned (rs_Path (pi_Resource input)) (ts_OwnedPaths (pi_Task input)) of
              Some owned \<Rightarrow>
                (allowDecision v ''aor.repo.owned_path'' [''ROLE_ALLOWED'', ''TASK_OWNS_PATH'', ''LEASE_VALID''])
                  \<lparr>pd_Constraints := \<lparr>cn_PathGlob = owned, cn_MaxBytes = en_maxWriteBytes e,
                                     cn_ExpiresAt = cl_ExpiresAt lease, cn_AllowedMethods = []\<rparr>\<rparr>
            | None \<Rightarrow> denyDecision v ''TASK_DOES_NOT_OWN_PATH''))"

definition sandboxExecDecision :: "'s Engine \<Rightarrow> PolicyInput \<Rightarrow> CapabilityLease \<Rightarrow> PolicyDecision" where
  "sandboxExecDecision e input lease =
     (let v = bundle_version e; role = pc_Role (pi_Principal input);
          project = sc_State (pi_Project input); task = ts_State (pi_Task input) in
      if pc_Type (pi_Principal input) \<noteq> PrincipalAgentInstance \<or> \<not> roleIn role [RoleExecutor, RoleAuditor]
      then denyDecision v ''EXECUTION_ROLE_REQUIRED''
      else if rs_Type (pi_Resource input) \<noteq> ''sandbox'' \<or> rs_ID (pi_Resource input) = []
      then denyDecision v ''SANDBOX_RESOURCE_REQUIRED''
      else if \<not> (role = RoleExecutor \<and> project = ''EXECUTING'' \<and> task = ''EXECUTING''
                 \<or> role = RoleAuditor \<and> roleIn project [''EXECUTING'', ''GLOBAL_AUDIT'']
                   \<and> roleIn task [''DETERMINISTIC_AUDIT'', ''LLM_AUDIT''])
      then denyDecision v ''TASK_NOT_EXECUTABLE''
      else constrainAllow e
             (allowDecision v ''aor.sandbox.exec'' [''EXECUTION_ROLE_ALLOWED'', ''TASK_STATE_VALID'', ''LEASE_VALID''])
             input lease)"

definition inactive_project :: "string \<Rightarrow> bool" where
  "inactive_project st = roleIn st [''ABORTED'', ''ARCHIVED'', ''FAILED_SYSTEM'', ''PAUSED'']"

definition finished_task :: "string \<Rightarrow> bool" where
  "finished_task st = roleIn st [''CANCELED'', ''SUPERSEDED'', ''PASSED'', ''INTEGRATED'']"

definition modelGenerateDecision :: "'s Engine \<Rightarrow> PolicyInput \<Rightarrow> PolicyDecision" where
  "modelGenerateDecision e input =
     (let v = bundle_version e; p = pi_Principal input; t = pi_Task input;
          projectScope = (\<not> LeaseRoleRequiresTask (pc_Role p) \<and> ts_ID t = []);
          taskScope = (taskModelLeaseRole (pc_Role p) \<and> ts_ID t \<noteq> [] \<and> \<not> finished_task (ts_State t))
      in if pc_Type p = PrincipalAgentInstance \<and> (projectScope \<or> taskScope)
            \<and> rs_Type (pi_Resource input) = ''model'' \<and> rs_ID (pi_Resource input) \<noteq> []
            \<and> \<not> inactive_project (sc_State (pi_Project input)) \<and> bs_Available (pi_Budget input)
         then allowDecision v ''aor.model.invoke'' [''MODEL_POLICY_ALLOWED'', ''PROJECT_SCOPE_VALID'']
         else denyDecision v ''MODEL_SCOPE_DENIED'')"

definition toolInvokeDecision :: "'s Engine \<Rightarrow> PolicyInput \<Rightarrow> CapabilityLease \<Rightarrow> PolicyDecision" where
  "toolInvokeDecision e input lease =
     (let v = bundle_version e;
          allowed = constrainAllow e (allowDecision v ''aor.tool.invoke'' [''ROLE_ALLOWED'', ''LEASE_VALID'']) input lease
      in if globalAuditorProjectReadTool input \<and> sc_State (pi_Project input) = ''GLOBAL_AUDIT'' then allowed
         else if roleIn (pc_Role (pi_Principal input))
                   [RoleGoalProposer, RoleGoalChallenger, RolePlanSupervisor, RoleModulePlanner, RoleExecutor,
                    RoleAuditor, RoleKnowledgeCurator, RoleService]
         then (if inactive_project (sc_State (pi_Project input)) \<or> finished_task (ts_State (pi_Task input))
               then denyDecision v ''TASK_NOT_ACTIVE'' else allowed)
         else denyDecision v ''ROLE_DENIED'')"

definition integrationMergeDecision :: "'s Engine \<Rightarrow> PolicyInput \<Rightarrow> CapabilityLease \<Rightarrow> PolicyDecision" where
  "integrationMergeDecision e input lease =
     (let v = bundle_version e in
      if pc_Type (pi_Principal input) \<noteq> PrincipalService \<or> pc_Role (pi_Principal input) \<noteq> RoleService
      then denyDecision v ''TRUSTED_SERVICE_REQUIRED''
      else if sc_State (pi_Project input) \<noteq> ''INTEGRATING'' \<or> rs_Type (pi_Resource input) \<noteq> ''integration''
         \<or> rs_ID (pi_Resource input) = [] \<or> ts_ID (pi_Task input) \<noteq> []
      then denyDecision v ''INTEGRATION_SCOPE_DENIED''
      else constrainAllow e
             (allowDecision v ''aor.integration.merge''
                [''TRUSTED_SERVICE_ALLOWED'', ''PROJECT_STATE_VALID'', ''LEASE_VALID''])
             input lease)"

definition knowledgeWriteDecision :: "'s Engine \<Rightarrow> PolicyInput \<Rightarrow> CapabilityLease \<Rightarrow> time \<Rightarrow> PolicyDecision" where
  "knowledgeWriteDecision e input lease now =
     (let v = bundle_version e in
      if pc_Type (pi_Principal input) \<noteq> PrincipalKnowledgeCurator
         \<or> pc_Role (pi_Principal input) \<noteq> RoleKnowledgeCurator
      then denyDecision v ''CURATOR_REQUIRED''
      else if \<not> approvalMatches input now then approvalDecision v ''CURATOR_APPROVAL_REQUIRED''
      else constrainAllow e
             (allowDecision v ''aor.knowledge.write'' [''CURATOR_ALLOWED'', ''APPROVAL_VALID'', ''LEASE_VALID''])
             input lease)"

definition artifact_uri_prefix :: string where
  "artifact_uri_prefix = ''artifact://sha256/''"

definition publish_scope_denied :: "PolicyInput \<Rightarrow> bool" where
  "publish_scope_denied input \<longleftrightarrow>
     (let r = pi_Resource input in
      rs_Type r \<noteq> ''artifact'' \<or> \<not> has_prefix (rs_ID r) artifact_uri_prefix
      \<or> length (rs_ID r) \<noteq> length artifact_uri_prefix + 64
      \<or> \<not> digest_pattern (''sha256:'' @ trim_prefix (rs_ID r) artifact_uri_prefix)
      \<or> \<not> bs_Available (pi_Budget input) \<or> \<not> artifactPublicationProjectStateAllowed input
      \<or> ts_ID (pi_Task input) \<noteq> [] \<and> finished_task (ts_State (pi_Task input)))"

definition artifactPublishDecision :: "'s Engine \<Rightarrow> PolicyInput \<Rightarrow> CapabilityLease \<Rightarrow> time \<Rightarrow> PolicyDecision" where
  "artifactPublishDecision e input lease now =
     (let v = bundle_version e in
      if pc_Type (pi_Principal input) \<noteq> PrincipalService \<or> pc_Role (pi_Principal input) \<noteq> RoleService
      then denyDecision v ''TRUSTED_SERVICE_REQUIRED''
      else if publish_scope_denied input then denyDecision v ''PUBLISH_SCOPE_DENIED''
      else if pi_Approval input \<noteq> None \<and> \<not> approvalMatches input now
      then approvalDecision v ''PUBLISH_APPROVAL_REQUIRED''
      else constrainAllow e
             (allowDecision v ''aor.artifact.publish'' [''TRUSTED_SERVICE_ALLOWED'', ''LEASE_VALID''])
             input lease)"

definition breakGlassDecision :: "'s Engine \<Rightarrow> PolicyInput \<Rightarrow> CapabilityLease \<Rightarrow> time \<Rightarrow> PolicyDecision" where
  "breakGlassDecision e input lease now =
     (let v = bundle_version e in
      if pc_Type (pi_Principal input) \<noteq> PrincipalBreakGlassAdmin
         \<and> pc_Role (pi_Principal input) \<noteq> RoleBreakGlassAdmin
      then denyDecision v ''BREAK_GLASS_REQUIRED''
      else if \<not> approvalMatches input now
         \<or> (case pi_Approval input of None \<Rightarrow> False | Some a \<Rightarrow> pa_CoApproverID a = [])
      then approvalDecision v ''BREAK_GLASS_APPROVAL_REQUIRED''
      else constrainAllow e
             (allowDecision v ''aor.break_glass'' [''BREAK_GLASS_ALLOWED'', ''APPROVAL_VALID'', ''LEASE_VALID''])
             input lease)"

fun defaultDecision_of ::
  "Action \<Rightarrow> 's Engine \<Rightarrow> PolicyInput \<Rightarrow> CapabilityLease \<Rightarrow> time \<Rightarrow> PolicyDecision" where
  "defaultDecision_of ActionGoalRead e input lease now =
     allowDecision (bundle_version e) ''aor.read'' [''ROLE_ALLOWED'', ''PROJECT_SCOPE_VALID'']"
| "defaultDecision_of ActionPlanRead e input lease now =
     allowDecision (bundle_version e) ''aor.read'' [''ROLE_ALLOWED'', ''PROJECT_SCOPE_VALID'']"
| "defaultDecision_of ActionTaskRead e input lease now =
     allowDecision (bundle_version e) ''aor.read'' [''ROLE_ALLOWED'', ''PROJECT_SCOPE_VALID'']"
| "defaultDecision_of ActionKnowledgeRead e input lease now =
     allowDecision (bundle_version e) ''aor.read'' [''ROLE_ALLOWED'', ''PROJECT_SCOPE_VALID'']"
| "defaultDecision_of ActionSettingsRead e input lease now =
     allowDecision (bundle_version e) ''aor.read'' [''ROLE_ALLOWED'', ''PROJECT_SCOPE_VALID'']"
| "defaultDecision_of ActionSettingsWrite e input lease now =
     (if (pc_Type (pi_Principal input) = PrincipalUser \<or> pc_Type (pi_Principal input) = PrincipalBreakGlassAdmin)
         \<and> roleIn (pc_Role (pi_Principal input)) [RoleUser, RoleBreakGlassAdmin]
      then allowDecision (bundle_version e) ''aor.human.control'' [''HUMAN_CONTROL_ALLOWED'', ''PROJECT_SCOPE_VALID'']
      else denyDecision (bundle_version e) ''HUMAN_CONTROL_REQUIRED'')"
| "defaultDecision_of ActionRepoRead e input lease now =
     (if roleIn (pc_Role (pi_Principal input))
           [RoleExecutor, RoleAuditor, RoleModulePlanner, RolePlanSupervisor, RoleService]
      then allowDecision (bundle_version e) ''aor.repo.read'' [''ROLE_ALLOWED'', ''PROJECT_SCOPE_VALID'']
      else denyDecision (bundle_version e) ''ROLE_DENIED'')"
| "defaultDecision_of ActionModelGenerate e input lease now = modelGenerateDecision e input"
| "defaultDecision_of ActionRepoWrite e input lease now = repoWriteDecision e input lease"
| "defaultDecision_of ActionRepoApplyPatch e input lease now = repoWriteDecision e input lease"
| "defaultDecision_of ActionToolInvoke e input lease now = toolInvokeDecision e input lease"
| "defaultDecision_of ActionSandboxExec e input lease now = sandboxExecDecision e input lease"
| "defaultDecision_of ActionIntegrationMerge e input lease now = integrationMergeDecision e input lease"
| "defaultDecision_of ActionKnowledgeWrite e input lease now = knowledgeWriteDecision e input lease now"
| "defaultDecision_of ActionArtifactPublish e input lease now = artifactPublishDecision e input lease now"
| "defaultDecision_of ActionPolicyTest e input lease now =
     (if pc_Type (pi_Principal input) = PrincipalService \<or> pc_Type (pi_Principal input) = PrincipalBreakGlassAdmin
         \<or> pc_Role (pi_Principal input) = RoleBreakGlassAdmin
      then allowDecision (bundle_version e) ''aor.policy.test'' [''ADMIN_ROLE_ALLOWED'']
      else denyDecision (bundle_version e) ''ADMIN_ROLE_REQUIRED'')"
| "defaultDecision_of ActionPolicyWrite e input lease now = breakGlassDecision e input lease now"
| "defaultDecision_of ActionDeploy e input lease now = breakGlassDecision e input lease now"
| "defaultDecision_of _ e input lease now = denyDecision (bundle_version e) ''UNKNOWN_ACTION''"

definition defaultDecision :: "'s Engine \<Rightarrow> PolicyInput \<Rightarrow> CapabilityLease \<Rightarrow> time \<Rightarrow> PolicyDecision" where
  "defaultDecision e input lease now = defaultDecision_of (pi_Action input) e input lease now"

section \<open>Evaluation\<close>

type_synonym verdict = "PolicyDecision \<times> go_error option"

definition refused :: "'s Engine \<Rightarrow> string \<Rightarrow> go_error \<Rightarrow> verdict" where
  "refused e reason err = (denyDecision (bundle_version e) reason, Some err)"

definition checked_decision :: "'s Engine \<Rightarrow> PolicyDecision \<Rightarrow> time \<Rightarrow> verdict" where
  "checked_decision e d now =
     (case PolicyDecision_Validate d now of
        Some err \<Rightarrow> refused e ''INVALID_POLICY_RESULT'' (GoAor err)
      | None \<Rightarrow> (d, None))"

definition versioned :: "'s Engine \<Rightarrow> PolicyDecision \<Rightarrow> PolicyDecision" where
  "versioned e d = (if pd_PolicyVersion d = [] then d\<lparr>pd_PolicyVersion := bundle_version e\<rparr> else d)"

fun first_rule :: "PolicyInput \<Rightarrow> rule option list \<Rightarrow> (unit + PolicyDecision) option" where
  \<comment> \<open>the result of the first rule that applies, or a nil rule before it\<close>
  "first_rule input [] = None"
| "first_rule input (None # rules) = Some (Inl ())"
| "first_rule input (Some rule # rules) =
     (case rule input of (result, applies) \<Rightarrow>
        if \<not> applies then first_rule input rules else Some (Inr result))"

definition apply_rules ::
  "'s Engine \<Rightarrow> PolicyInput \<Rightarrow> PolicyDecision \<Rightarrow> (PolicyDecision \<Rightarrow> verdict) \<Rightarrow> time \<Rightarrow> verdict" where
  \<comment> \<open>the loop over the rules; \<open>finish\<close> is what each evaluation does with the result\<close>
  "apply_rules e input baseline finish now =
     (case first_rule input (bu_Rules (en_bundle e)) of
        None \<Rightarrow> checked_decision e baseline now
      | Some (Inl _) \<Rightarrow> refused e ''INVALID_POLICY_RULE'' (GoAor (policy_denied (bundle_version e)))
      | Some (Inr result) \<Rightarrow>
          if pd_PolicyVersion (versioned e result) \<noteq> bundle_version e
          then refused e ''POLICY_VERSION_MISMATCH'' (GoAor (policy_denied (bundle_version e)))
          else finish (versioned e result))"

definition finish_rule ::
  "'s Engine \<Rightarrow> PolicyInput \<Rightarrow> PolicyDecision \<Rightarrow> CapabilityLease \<Rightarrow> time \<Rightarrow> PolicyDecision \<Rightarrow> verdict" where
  "finish_rule e input baseline lease now result =
     (case PolicyDecision_Validate result now of
        Some err \<Rightarrow> refused e ''INVALID_POLICY_RESULT'' (GoAor err)
      | None \<Rightarrow>
          (if pd_Decision result = DecisionAllow then intersectAllow e baseline result input lease else result, None))"

definition decide ::
  "'s Engine \<Rightarrow> PolicyInput \<Rightarrow> PolicyDecision \<Rightarrow> (PolicyDecision \<Rightarrow> verdict) \<Rightarrow> time \<Rightarrow> verdict" where
  "decide e input baseline finish now =
     (if pd_Decision baseline \<noteq> DecisionAllow then checked_decision e baseline now
      else apply_rules e input baseline finish now)"

definition policy_unavailable :: "'s Engine option \<Rightarrow> verdict" where
  "policy_unavailable engine =
     (denyDecision (policyVersion engine) ''POLICY_UNAVAILABLE'',
      Some (GoAor (New CodeDependencyUnavailable [] [(''policyVersion'', DString (policyVersion engine))])))"

definition admitted ::
  "'s Engine \<Rightarrow> lease_context \<Rightarrow> time \<Rightarrow> PolicyInput \<Rightarrow> verdict + time" where
  \<comment> \<open>the checks both evaluations begin with; the authorization time\<close>
  "admitted e ctx clock input =
     (case cx_Err ctx of
        Some err \<Rightarrow> Inl (refused e ''REQUEST_CANCELED''
          (GoAor (Wrap CodePolicyDenied [] (Some err) [(''policyVersion'', DString (bundle_version e))])))
      | None \<Rightarrow>
        (case policyAuthorizationTime input (utc clock) of
           Inl err \<Rightarrow> Inl (refused e (reasonForError (GoAor err)) (GoAor err))
         | Inr now \<Rightarrow>
           (case PolicyInput_Validate input now of
              Some err \<Rightarrow> Inl (refused e (reasonForError (GoAor err)) (GoAor err))
            | None \<Rightarrow>
              (case validateApprovalProof e input of
                 Some err \<Rightarrow> Inl (refused e (reasonForError (GoAor err)) (GoAor err))
               | None \<Rightarrow> Inr now))))"

definition Evaluate ::
  "'s Engine option \<Rightarrow> clocks \<Rightarrow> lease_context \<Rightarrow> time \<Rightarrow> PolicyInput \<Rightarrow> 's \<Rightarrow> verdict \<times> 's" where
  \<comment> \<open>\<open>clock\<close> is what the engine's clock reads, \<open>ck\<close> what the lease manager's do\<close>
  "Evaluate engine ck ctx clock input s =
     (if \<not> bundleUsable engine then (policy_unavailable engine, s)
      else (let e = the engine in
        (case admitted e ctx clock input of
           Inl v \<Rightarrow> (v, s)
         | Inr now \<Rightarrow>
           (case validateExecutionBoundary input of
              Some err \<Rightarrow> (refused e ''EXECUTION_BOUNDARY_DENIED'' (GoAor err), s)
            | None \<Rightarrow>
              (case validateLease e ck ctx input now s of
                 (Inl err, s') \<Rightarrow> (refused e (reasonForError err) err, s')
               | (Inr lease, s') \<Rightarrow>
                   (let baseline = defaultDecision e input lease now
                    in (decide e input baseline (finish_rule e input baseline lease now) now, s')))))))"

definition Authorize ::
  "'s Engine option \<Rightarrow> clocks \<Rightarrow> lease_context \<Rightarrow> time \<Rightarrow> PolicyInput \<Rightarrow> 's \<Rightarrow> verdict \<times> 's" where
  "Authorize engine ck ctx clock input s = Evaluate engine ck ctx clock input s"

section \<open>Grants\<close>

definition leaseGrantActionAllowed :: "PolicyInput \<Rightarrow> bool" where
  "leaseGrantActionAllowed input =
     (let action = pi_Action input; p = pi_Principal input; taskID = ts_ID (pi_Task input) in
      if action = ActionKnowledgeWrite then taskID = [] \<and> pc_Role p = RoleKnowledgeCurator
      else if taskID = [] then
        action = ActionModelGenerate \<and> \<not> LeaseRoleRequiresTask (pc_Role p)
        \<or> globalAuditorProjectReadTool input
        \<or> action = ActionArtifactPublish \<and> pc_Type p = PrincipalService \<and> pc_Role p = RoleService
        \<or> action = ActionIntegrationMerge \<and> pc_Role p = RoleService
      else IsSideEffect action \<or> action = ActionModelGenerate \<and> taskModelLeaseRole (pc_Role p))"

definition input_binding :: "PolicyInput \<Rightarrow> DecisionBinding" where
  "input_binding input =
     \<lparr>db_PrincipalID = pc_ID (pi_Principal input), db_TenantID = sc_TenantID (pi_Project input),
      db_ProjectID = sc_ID (pi_Project input), db_ProjectVersion = sc_StateVersion (pi_Project input),
      db_TaskID = ts_ID (pi_Task input), db_TaskVersion = ts_StateVersion (pi_Task input),
      db_SpecDigest = ts_SpecDigest (pi_Task input), db_Role = pc_Role (pi_Principal input),
      db_Action = pi_Action input, db_Resource = cloneResource (pi_Resource input),
      db_ParameterDigest = pi_ParameterDigest input, db_BudgetAccountID = bs_AccountID (pi_Budget input)\<rparr>"

definition bindGrant :: "PolicyDecision \<Rightarrow> PolicyInput \<Rightarrow> time \<Rightarrow> PolicyDecision" where
  "bindGrant result input now =
     (if pd_Decision result \<noteq> DecisionAllow then result
      else (let c = pd_Constraints result;
                c1 = (if is_zero_time (cn_ExpiresAt c) then c\<lparr>cn_ExpiresAt := now + 5 * minute_ns\<rparr> else c)
            in result\<lparr>pd_Constraints := c1, pd_Binding := Some (input_binding input)\<rparr>))"

definition finish_grant ::
  "'s Engine \<Rightarrow> PolicyInput \<Rightarrow> PolicyDecision \<Rightarrow> time \<Rightarrow> PolicyDecision \<Rightarrow> verdict" where
  "finish_grant e input baseline now result =
     (let bound = bindGrant result input now;
          narrowed = (if pd_Decision bound = DecisionAllow
                      then (intersectAllow e baseline bound input zero_CapabilityLease)\<lparr>pd_Binding := pd_Binding baseline\<rparr>
                      else bound)
      in checked_decision e narrowed now)"

definition bad_grant_input :: "PolicyInput \<Rightarrow> bool" where
  "bad_grant_input input \<longleftrightarrow>
     \<not> leaseGrantActionAllowed input \<or> pi_Lease input \<noteq> None \<or> missing_commit_facts input"

definition EvaluateLeaseGrant ::
  "'s Engine option \<Rightarrow> lease_context \<Rightarrow> time \<Rightarrow> PolicyInput \<Rightarrow> verdict" where
  "EvaluateLeaseGrant engine ctx clock input =
     (if \<not> bundleUsable engine then policy_unavailable engine
      else (let e = the engine in
        (case admitted e ctx clock input of
           Inl v \<Rightarrow> v
         | Inr now \<Rightarrow>
             if bad_grant_input input
             then refused e ''INVALID_LEASE_GRANT_INPUT'' (GoAor (scope_error CodePolicyDenied ''lease grant''))
             else (case validateExecutionBoundary input of
                Some err \<Rightarrow> refused e ''EXECUTION_BOUNDARY_DENIED'' (GoAor err)
              | None \<Rightarrow>
                  (let baseline = bindGrant (defaultDecision e input zero_CapabilityLease now) input now
                   in decide e input baseline (finish_grant e input baseline now) now)))))"

end
