(* ===== verification/Lease_Safety.thy ===== *)
theory Lease_Safety
  imports Lease_Manager "HOL-Library.Transitive_Closure_Table"
begin

text \<open>
  Why capability leases are fenced. The interface of a lease store is a locale; the manager's
  operations are steps over any such store, their plans and commits interleaved at will; and the
  in-memory store provides the interface.
\<close>

section \<open>What the operations establish\<close>

lemma fetch_lease_Inr:
  "fetch_lease m ctx k code s = Inr cur \<longleftrightarrow>
     ls_Get (lm_store m) ctx k s = Inr (Some cur) \<and> verify_lease m cur = None"
  by (auto simp: fetch_lease_def split: sum.splits option.splits)

lemma planned_Inr: "planned cur r = Inr p \<longleftrightarrow> (\<exists>u. r = Inr u \<and> p = (cur, u))"
  by (auto simp: planned_def split: sum.splits)

lemma sign_lease_Inr:
  "sign_lease m l = Inr u \<longleftrightarrow> (\<exists>sig. sg_Sign (lm_signer m) (leaseSigningPayload l) = Inr sig \<and> u = l\<lparr>cl_Signature := sig\<rparr>)"
  by (auto simp: sign_lease_def split: sum.splits)

lemma verify_lease_None:
  "verify_lease m l = None \<longleftrightarrow>
     ValidateShape l = None \<and> sg_Verify (lm_signer m) (leaseSigningPayload l) (cl_Signature l) = None"
  by (simp add: verify_lease_def split: option.splits)

lemma ValidateShape_fields:
  assumes "ValidateShape l = None"
  shows "lease_fields_ok l"
  using assms by (rule contrapos_pp) (simp add: ValidateShape_def)

lemma ValidateShape_token: "ValidateShape l = None \<Longrightarrow> 1 \<le> cl_FencingToken l"
  using ValidateShape_fields [of l] by (simp add: lease_fields_ok_def)

lemma ValidateShape_state:
  "ValidateShape l = None \<Longrightarrow> cl_State l \<in> {LeaseActive, LeaseRevoked, LeaseExpired}"
  unfolding ValidateShape_def by (auto split: if_splits)

text \<open>What a lease is for, fixed when it is issued.\<close>

definition lease_core :: "CapabilityLease \<Rightarrow> CapabilityLease" where
  "lease_core l = l\<lparr>cl_ExpiresAt := 0, cl_LastHeartbeatAt := 0, cl_Nonce := [], cl_FencingToken := 0,
     cl_State := LeaseActive, cl_RevokedAt := None, cl_Signature := []\<rparr>"

definition evolves :: "CapabilityLease \<Rightarrow> CapabilityLease \<Rightarrow> bool" where
  \<comment> \<open>one planned change of a lease that was active when it was read\<close>
  "evolves cur upd \<longleftrightarrow>
     lease_core upd = lease_core cur \<and> cl_State cur = LeaseActive \<and> 1 \<le> cl_FencingToken cur
     \<and> (cl_State upd = LeaseActive
          \<and> cl_FencingToken upd \<in> {cl_FencingToken cur, add64 (cl_FencingToken cur) 1}
        \<or> cl_State upd \<in> {LeaseRevoked, LeaseExpired}
          \<and> cl_FencingToken upd = add64 (cl_FencingToken cur) 1)"

lemma usable_active: "usable l now \<Longrightarrow> cl_State l = LeaseActive \<and> \<not> IsExpired l now"
  by (simp add: usable_def)

lemma core_fields:
  assumes "lease_core a = lease_core b"
  shows "cl_ID a = cl_ID b" "cl_TenantID a = cl_TenantID b" "cl_PrincipalID a = cl_PrincipalID b"
    "cl_IdempotencyKey a = cl_IdempotencyKey b"
  using arg_cong [OF assms, of cl_ID] arg_cong [OF assms, of cl_TenantID] arg_cong [OF assms, of cl_PrincipalID]
    arg_cong [OF assms, of cl_IdempotencyKey]
  by (simp_all add: lease_core_def)

lemma Renew_plan_Inr:
  assumes "Renew_plan m ck ctx r s = Inr (cur, upd)"
  shows "\<exists>c now ttl sig. ls_Get (lm_store m) c (rn_LeaseID r) s = Inr (Some cur) \<and> verify_lease m cur = None
     \<and> manager_now ck = Inr now \<and> check_renewal r cur now = None
     \<and> granted_ttl m (rn_TTL r) (rn_Grant r) (cl_PolicyVersion cur) now = Inr ttl
     \<and> validateLeaseGrant (rn_Grant r) (cl_PolicyVersion cur) (lease_binding cur) now = None
     \<and> upd = (renewed r now ttl cur)\<lparr>cl_Signature := sig\<rparr>"
  using assms unfolding Renew_plan_def
  by (auto simp: fetch_lease_Inr planned_Inr sign_lease_Inr Let_def split: option.splits sum.splits if_splits)

lemma Heartbeat_plan_Inr:
  assumes "Heartbeat_plan m ck ctx r s = Inr (cur, upd)"
  shows "\<exists>c now sig. ls_Get (lm_store m) c (hb_LeaseID r) s = Inr (Some cur) \<and> verify_lease m cur = None
     \<and> manager_now ck = Inr now \<and> check_heartbeat r cur now = None
     \<and> upd = (beaten m now cur)\<lparr>cl_Signature := sig\<rparr>"
  using assms unfolding Heartbeat_plan_def
  by (auto simp: fetch_lease_Inr planned_Inr sign_lease_Inr split: option.splits sum.splits)

lemma Revoke_plan_Inr:
  assumes "Revoke_plan m ck ctx r s = Inr (Some (cur, upd))"
  shows "\<exists>c now sig. ls_Get (lm_store m) c (rv_LeaseID r) s = Inr (Some cur) \<and> verify_lease m cur = None
     \<and> manager_now ck = Inr now \<and> check_revoke r cur = None \<and> cl_State cur = LeaseActive
     \<and> upd = (revoked r now cur)\<lparr>cl_Signature := sig\<rparr>"
  using assms unfolding Revoke_plan_def
  by (auto simp: fetch_lease_Inr planned_Inr sign_lease_Inr split: option.splits sum.splits if_splits)

lemma renewed_core: "lease_core ((renewed r now ttl cur)\<lparr>cl_Signature := sig\<rparr>) = lease_core cur"
  by (simp add: renewed_def lease_core_def cloneLease_def Let_def)

lemma beaten_core: "lease_core ((beaten m now cur)\<lparr>cl_Signature := sig\<rparr>) = lease_core cur"
  by (simp add: beaten_def lease_core_def cloneLease_def Let_def)

lemma revoked_core: "lease_core ((revoked r now cur)\<lparr>cl_Signature := sig\<rparr>) = lease_core cur"
  by (simp add: revoked_def lease_core_def cloneLease_def)

lemma expired_core: "lease_core ((expired_lease cur)\<lparr>cl_Signature := sig\<rparr>) = lease_core cur"
  by (simp add: expired_lease_def lease_core_def cloneLease_def)

lemma Renew_plan_evolves:
  assumes "Renew_plan m ck ctx r s = Inr (cur, upd)"
  shows "\<exists>c k. ls_Get (lm_store m) c k s = Inr (Some cur) \<and> evolves cur upd"
proof -
  obtain c now ttl sig where p: "ls_Get (lm_store m) c (rn_LeaseID r) s = Inr (Some cur)"
      "verify_lease m cur = None" "check_renewal r cur now = None" "upd = (renewed r now ttl cur)\<lparr>cl_Signature := sig\<rparr>"
    using Renew_plan_Inr [OF assms] by blast
  from p(3) have "cl_State cur = LeaseActive" by (auto simp: check_renewal_def usable_def split: if_splits)
  moreover from p(2) have "1 \<le> cl_FencingToken cur" by (simp add: verify_lease_None ValidateShape_token)
  moreover have "cl_State upd = cl_State cur" "cl_FencingToken upd \<in> {cl_FencingToken cur, add64 (cl_FencingToken cur) 1}"
    by (simp_all add: p(4) renewed_def cloneLease_def Let_def)
  ultimately have "evolves cur upd" using renewed_core p(4) by (simp add: evolves_def)
  with p(1) show ?thesis by blast
qed

lemma Heartbeat_plan_evolves:
  assumes "Heartbeat_plan m ck ctx r s = Inr (cur, upd)"
  shows "\<exists>c k. ls_Get (lm_store m) c k s = Inr (Some cur) \<and> evolves cur upd"
proof -
  obtain c now sig where p: "ls_Get (lm_store m) c (hb_LeaseID r) s = Inr (Some cur)"
      "verify_lease m cur = None" "check_heartbeat r cur now = None" "upd = (beaten m now cur)\<lparr>cl_Signature := sig\<rparr>"
    using Heartbeat_plan_Inr [OF assms] by blast
  from p(3) have "cl_State cur = LeaseActive" by (auto simp: check_heartbeat_def usable_def split: if_splits)
  moreover from p(2) have "1 \<le> cl_FencingToken cur" by (simp add: verify_lease_None ValidateShape_token)
  moreover have "cl_State upd = cl_State cur" "cl_FencingToken upd = cl_FencingToken cur"
    by (simp_all add: p(4) beaten_def cloneLease_def Let_def)
  ultimately have "evolves cur upd" using beaten_core p(4) by (simp add: evolves_def)
  with p(1) show ?thesis by blast
qed

lemma Revoke_plan_evolves:
  assumes "Revoke_plan m ck ctx r s = Inr (Some (cur, upd))"
  shows "\<exists>c k. ls_Get (lm_store m) c k s = Inr (Some cur) \<and> evolves cur upd"
proof -
  obtain c now sig where p: "ls_Get (lm_store m) c (rv_LeaseID r) s = Inr (Some cur)"
      "verify_lease m cur = None" "cl_State cur = LeaseActive" "upd = (revoked r now cur)\<lparr>cl_Signature := sig\<rparr>"
    using Revoke_plan_Inr [OF assms] by blast
  moreover from p(2) have "1 \<le> cl_FencingToken cur" by (simp add: verify_lease_None ValidateShape_token)
  ultimately have "evolves cur upd" using revoked_core by (simp add: evolves_def revoked_def cloneLease_def)
  with p(1) show ?thesis by blast
qed

lemma expire_plan_evolves:
  assumes "expire_plan m cur = Inr (cur', upd)" and "verify_lease m cur = None" and "cl_State cur = LeaseActive"
  shows "cur' = cur \<and> evolves cur upd"
proof -
  obtain sig where p: "cur' = cur" "upd = (expired_lease cur)\<lparr>cl_Signature := sig\<rparr>"
    using assms(1) by (auto simp: expire_plan_def planned_Inr sign_lease_Inr)
  moreover from assms(2) have "1 \<le> cl_FencingToken cur" by (simp add: verify_lease_None ValidateShape_token)
  ultimately show ?thesis using assms(3) expired_core
    by (simp add: evolves_def expired_lease_def cloneLease_def)
qed

lemma Issue_plan_Inr:
  assumes "Issue_plan m ck ctx uuid bytes r = Inr lease"
  shows "\<exists>trusted now ttl heartbeat leaseID nonce sig. manager_now ck = Inr trusted
     \<and> now = leaseAuthorizationTime ctx trusted
     \<and> check_lease_request (defaulted_agent r) = None
     \<and> validateLeaseGrant (lq_Grant r) (lq_PolicyVersion r) (request_binding (defaulted_agent r)) now = None
     \<and> issue_window m (defaulted_agent r) now = Inr (ttl, heartbeat)
     \<and> ValidateShape (issued_lease (defaulted_agent r) leaseID nonce now ttl heartbeat) = None
     \<and> lease = (issued_lease (defaulted_agent r) leaseID nonce now ttl heartbeat)\<lparr>cl_Signature := sig\<rparr>"
proof -
  have d: "lq_Grant (defaulted_agent r) = lq_Grant r" "lq_PolicyVersion (defaulted_agent r) = lq_PolicyVersion r"
    by (simp_all add: defaulted_agent_def)
  show ?thesis
    using assms unfolding Issue_plan_def Let_def
    by (auto simp: sign_lease_Inr d split: option.splits sum.splits) blast
qed

section \<open>The interface of a lease store\<close>

locale lease_provider =
  fixes api :: "'s LeaseStore"
    and row :: "'s \<Rightarrow> string \<Rightarrow> CapabilityLease option"
    and ok :: "'s \<Rightarrow> bool"
  assumes put_ok: "ok s \<Longrightarrow> ls_Put api ctx l s = (w, s') \<Longrightarrow> ok s'"
    and cas_ok: "ok s \<Longrightarrow> ls_CompareAndSwap api ctx k expected l s = (r, s') \<Longrightarrow> ok s'"
    and put_stores: "ls_Put api ctx l s = (None, s') \<Longrightarrow>
      row s (cl_ID l) = None \<and> row s' = (row s)(cl_ID l \<mapsto> l)"
    and put_unique: "ls_Put api ctx l s = (None, s') \<Longrightarrow> cl_IdempotencyKey l \<noteq> [] \<Longrightarrow>
      row s k = Some other \<Longrightarrow> \<not> same_logical_request other l"
    and put_fails: "ls_Put api ctx l s = (Some e, s') \<Longrightarrow> row s' = row s"
    and get_row: "ls_Get api ctx k s = Inr (Some l) \<Longrightarrow> row s k = Some l"
    and cas_swaps: "ls_CompareAndSwap api ctx k expected l s = (Inr True, s') \<Longrightarrow>
      (\<exists>cur. row s k = Some cur \<and> cl_FencingToken cur = expected \<and> cl_TenantID cur = cl_TenantID l
         \<and> cl_ID cur = cl_ID l) \<and> row s' = (row s)(k \<mapsto> l)"
    and cas_keeps: "ls_CompareAndSwap api ctx k expected l s = (r, s') \<Longrightarrow> r \<noteq> Inr True \<Longrightarrow> row s' = row s"

text \<open>
  A system of callers: the store and the plans made but not committed yet. A step issues a lease,
  makes a plan from the present state of the store, or commits one of the pending plans, made from
  whatever earlier state. Requests name a fencing token of at most $2^{62}$.
\<close>

definition token_limit :: int where
  "token_limit = 2 ^ 62"

inductive lease_step ::
  "'s LeaseManager \<Rightarrow> 's \<times> lease_plan list \<Rightarrow> 's \<times> lease_plan list \<Rightarrow> bool" for m where
  issue: "Issue m ck ctx uuid bytes r s = (result, s') \<Longrightarrow> lq_FencingToken r \<le> token_limit \<Longrightarrow>
    lease_step m (s, ps) (s', ps)"
| plan_renewal: "Renew_plan m ck ctx rr s = Inr p \<Longrightarrow> lease_step m (s, ps) (s, p # ps)"
| plan_heartbeat: "Heartbeat_plan m ck ctx hr s = Inr p \<Longrightarrow> lease_step m (s, ps) (s, p # ps)"
| plan_revocation: "Revoke_plan m ck ctx vr s = Inr (Some p) \<Longrightarrow> lease_step m (s, ps) (s, p # ps)"
| plan_expiry: "fetch_lease m ctx k CodeLeaseExpired s = Inr cur \<Longrightarrow> cl_State cur = LeaseActive \<Longrightarrow>
    IsExpired cur now \<Longrightarrow> expire_plan m cur = Inr p \<Longrightarrow> lease_step m (s, ps) (s, p # ps)"
| commit: "p \<in> set ps \<Longrightarrow> commit_plan m ctx p s = (result, s') \<Longrightarrow> lease_step m (s, ps) (s', remove1 p ps)"

inductive_cases lease_stepE: "lease_step m x y"

lemma add64_next: "1 \<le> t \<Longrightarrow> t < 2 ^ 63 - 1 \<Longrightarrow> add64 t 1 = t + 1"
  by (simp add: add64_id int64_def)

definition logically_unique :: "(string \<Rightarrow> CapabilityLease option) \<Rightarrow> bool" where
  "logically_unique rows \<longleftrightarrow>
     (\<forall>k l k' l'. rows k = Some l \<and> rows k' = Some l' \<and> same_logical_request l l'
        \<and> cl_IdempotencyKey l \<noteq> [] \<longrightarrow> k = k')"

definition row_ok :: "int \<Rightarrow> string \<Rightarrow> CapabilityLease \<Rightarrow> bool" where
  "row_ok n k l \<longleftrightarrow> cl_ID l = k \<and> 1 \<le> cl_FencingToken l \<and> cl_FencingToken l \<le> n"

definition plan_live :: "(string \<Rightarrow> CapabilityLease option) \<Rightarrow> lease_plan \<Rightarrow> bool" where
  \<comment> \<open>a pending plan is the next step of its row, or too old\<close>
  "plan_live rows p \<longleftrightarrow>
     evolves (fst p) (snd p)
     \<and> (\<exists>l. rows (cl_ID (fst p)) = Some l \<and> lease_core l = lease_core (fst p)
          \<and> cl_FencingToken (fst p) \<le> cl_FencingToken l
          \<and> (cl_FencingToken l = cl_FencingToken (fst p) \<longrightarrow> cl_State l = LeaseActive))"

definition leases_ok :: "int \<Rightarrow> (string \<Rightarrow> CapabilityLease option) \<Rightarrow> lease_plan list \<Rightarrow> bool" where
  \<comment> \<open>the invariant: rows under their own key with bounded tokens, one row per logical request, and
     no pending plan can do harm\<close>
  "leases_ok n rows ps \<longleftrightarrow>
     (\<forall>k l. rows k = Some l \<longrightarrow> row_ok n k l) \<and> logically_unique rows \<and> (\<forall>p \<in> set ps. plan_live rows p)"

definition lease_advances :: "CapabilityLease \<Rightarrow> CapabilityLease \<Rightarrow> bool" where
  \<comment> \<open>what may become of a row: the same capability with a token at least as high; once it is not
     active it never changes again\<close>
  "lease_advances a b \<longleftrightarrow>
     lease_core b = lease_core a \<and> cl_FencingToken a \<le> cl_FencingToken b
     \<and> (cl_State a \<noteq> LeaseActive \<longrightarrow> b = a)
     \<and> (cl_State a = LeaseActive \<longrightarrow> cl_State b \<noteq> LeaseActive \<longrightarrow> cl_FencingToken a < cl_FencingToken b)"

lemma lease_advances_refl [simp]: "lease_advances a a"
  by (simp add: lease_advances_def)

lemma lease_advances_trans: "lease_advances a b \<Longrightarrow> lease_advances b c \<Longrightarrow> lease_advances a c"
  unfolding lease_advances_def by (cases "cl_State b = LeaseActive") auto

lemma evolves_advances:
  assumes "evolves cur upd" and "lease_core l = lease_core cur" and "cl_FencingToken l = cl_FencingToken cur"
    and "cl_State l = LeaseActive" and "cl_FencingToken cur < 2 ^ 63 - 1"
  shows "lease_advances l upd"
  using assms add64_next [of "cl_FencingToken cur"] unfolding evolves_def lease_advances_def by auto

lemma evolves_range:
  assumes "evolves cur upd" and "cl_FencingToken cur \<le> n" and "n < 2 ^ 63 - 1"
  shows "1 \<le> cl_FencingToken upd" and "cl_FencingToken upd \<le> n + 1"
  using assms add64_next [of "cl_FencingToken cur"] unfolding evolves_def by auto

lemma row_ok_mono: "row_ok n k l \<Longrightarrow> n \<le> n' \<Longrightarrow> row_ok n' k l"
  by (simp add: row_ok_def)

lemma leases_ok_mono: "leases_ok n rows ps \<Longrightarrow> n \<le> n' \<Longrightarrow> leases_ok n' rows ps"
  unfolding leases_ok_def using row_ok_mono by blast

lemma plan_live_new: "rows (cl_ID cur) = Some cur \<Longrightarrow> evolves cur upd \<Longrightarrow> plan_live rows (cur, upd)"
  by (simp add: plan_live_def evolves_def)

lemma leases_ok_plan:
  assumes "leases_ok n rows ps" and "rows k = Some cur" and "evolves cur upd"
  shows "leases_ok n rows ((cur, upd) # ps)"
proof -
  from assms have "cl_ID cur = k" by (auto simp: leases_ok_def row_ok_def)
  with assms plan_live_new [of rows cur upd] show ?thesis by (auto simp: leases_ok_def)
qed

lemma plan_live_advance:
  assumes "plan_live rows p" and "rows k = Some l" and "lease_advances l l'"
  shows "plan_live (rows(k \<mapsto> l')) p"
proof (cases "cl_ID (fst p) = k")
  case True
  with assms(1,2) have l: "lease_core l = lease_core (fst p)" "cl_FencingToken (fst p) \<le> cl_FencingToken l"
      "cl_FencingToken l = cl_FencingToken (fst p) \<longrightarrow> cl_State l = LeaseActive" and ev: "evolves (fst p) (snd p)"
    by (auto simp: plan_live_def)
  have "cl_FencingToken l' = cl_FencingToken (fst p) \<longrightarrow> cl_State l' = LeaseActive"
    using assms(3) l unfolding lease_advances_def by auto
  moreover have "lease_core l' = lease_core (fst p)" "cl_FencingToken (fst p) \<le> cl_FencingToken l'"
    using assms(3) l unfolding lease_advances_def by auto
  ultimately show ?thesis using True ev by (simp add: plan_live_def)
next
  case False
  with assms(1) show ?thesis by (simp add: plan_live_def)
qed

lemma plan_live_fresh:
  assumes "plan_live rows p" and "rows k = None"
  shows "plan_live (rows(k \<mapsto> l)) p"
proof -
  from assms have "cl_ID (fst p) \<noteq> k" by (auto simp: plan_live_def)
  with assms(1) show ?thesis by (simp add: plan_live_def)
qed

lemma logically_unique_put:
  assumes "logically_unique rows"
    and "\<And>k other. cl_IdempotencyKey l \<noteq> [] \<Longrightarrow> rows k = Some other \<Longrightarrow> \<not> same_logical_request other l"
  shows "logically_unique (rows(k \<mapsto> l))"
  unfolding logically_unique_def
proof (intro allI impI, elim conjE)
  fix i a j b
  assume h: "(rows(k \<mapsto> l)) i = Some a" "(rows(k \<mapsto> l)) j = Some b" "same_logical_request a b" "cl_IdempotencyKey a \<noteq> []"
  from h(3,4) have sym: "same_logical_request b a" "cl_IdempotencyKey b \<noteq> []"
    by (simp_all add: same_logical_request_def)
  show "i = j"
  proof (cases "i = k"; cases "j = k")
    assume "i = k" "j \<noteq> k"
    with h have "a = l" "rows j = Some b" by auto
    with assms(2) [of j b] sym h(4) show ?thesis by simp
  next
    assume "i \<noteq> k" "j = k"
    with h have "b = l" "rows i = Some a" by auto
    with assms(2) [of i a] sym h(3) show ?thesis by simp
  next
    assume "i \<noteq> k" "j \<noteq> k"
    with h have "rows i = Some a" "rows j = Some b" by auto
    with assms(1) h(3,4) show ?thesis unfolding logically_unique_def by blast
  qed simp
qed

lemma logically_unique_swap:
  assumes "logically_unique rows" and "rows k = Some l" and "lease_core l' = lease_core l"
  shows "logically_unique (rows(k \<mapsto> l'))"
proof -
  note f = core_fields [OF assms(3)]
  have same: "\<exists>c. rows i = Some c \<and> same_logical_request c d = same_logical_request a d
      \<and> same_logical_request d c = same_logical_request d a \<and> cl_IdempotencyKey c = cl_IdempotencyKey a"
    if "(rows(k \<mapsto> l')) i = Some a" for i a d
    using that assms(2) f by (auto simp: same_logical_request_def split: if_splits)
  show ?thesis
    unfolding logically_unique_def
  proof (intro allI impI, elim conjE)
    fix i a j b
    assume h: "(rows(k \<mapsto> l')) i = Some a" "(rows(k \<mapsto> l')) j = Some b" "same_logical_request a b" "cl_IdempotencyKey a \<noteq> []"
    obtain c where c: "rows i = Some c" "same_logical_request c b" "cl_IdempotencyKey c \<noteq> []"
      using same [OF h(1), of b] h(3,4) by auto
    obtain d where d: "rows j = Some d" "same_logical_request c d" using same [OF h(2), of c] c(2) by auto
    from assms(1) c d show "i = j" unfolding logically_unique_def by blast
  qed
qed

lemma leases_ok_put:
  assumes ok: "leases_ok n rows ps" and new: "rows (cl_ID l) = None"
    and token: "1 \<le> cl_FencingToken l" "cl_FencingToken l \<le> n"
    and unique: "\<And>k other. cl_IdempotencyKey l \<noteq> [] \<Longrightarrow> rows k = Some other \<Longrightarrow> \<not> same_logical_request other l"
  shows "leases_ok n (rows(cl_ID l \<mapsto> l)) ps"
proof -
  have "logically_unique (rows(cl_ID l \<mapsto> l))"
    using ok unique by (intro logically_unique_put) (auto simp: leases_ok_def)
  moreover have "plan_live (rows(cl_ID l \<mapsto> l)) p" if "p \<in> set ps" for p
    using ok new that plan_live_fresh by (auto simp: leases_ok_def)
  moreover have "row_ok n (cl_ID l) l" using token by (simp add: row_ok_def)
  ultimately show ?thesis using ok by (auto simp: leases_ok_def split: if_splits)
qed

lemma leases_ok_swap:
  assumes ok: "leases_ok n rows ps" and l: "rows (cl_ID cur) = Some l" and plan: "(cur, upd) \<in> set ps"
    and token: "cl_FencingToken l = cl_FencingToken cur" and small: "n < 2 ^ 63 - 1"
  shows "leases_ok (n + 1) (rows(cl_ID cur \<mapsto> upd)) ps \<and> lease_advances l upd"
proof -
  from ok plan have "plan_live rows (cur, upd)" by (simp add: leases_ok_def)
  with l token have ev: "evolves cur upd" and core: "lease_core l = lease_core cur" and act: "cl_State l = LeaseActive"
    by (auto simp: plan_live_def)
  from ok l have ln: "1 \<le> cl_FencingToken l" "cl_FencingToken l \<le> n" by (auto simp: leases_ok_def row_ok_def)
  have adv: "lease_advances l upd"
    using ev core token act ln small by (intro evolves_advances) auto
  then have core': "lease_core upd = lease_core l" by (simp add: lease_advances_def)
  have range: "1 \<le> cl_FencingToken upd" "cl_FencingToken upd \<le> n + 1"
    using evolves_range [OF ev] ln token small by auto
  have "row_ok (n + 1) (cl_ID cur) upd"
    using range core_fields(1) [OF core'] core_fields(1) [OF core] by (simp add: row_ok_def)
  moreover have "row_ok (n + 1) k r" if "rows k = Some r" for k r
    using ok that row_ok_mono [of n k r "n + 1"] by (simp add: leases_ok_def)
  moreover have "logically_unique (rows(cl_ID cur \<mapsto> upd))"
    using ok l core' by (intro logically_unique_swap) (auto simp: leases_ok_def)
  moreover have "plan_live (rows(cl_ID cur \<mapsto> upd)) p" if "p \<in> set ps" for p
    using ok l adv that plan_live_advance by (auto simp: leases_ok_def)
  ultimately show ?thesis using adv by (auto simp: leases_ok_def split: if_splits)
qed

section \<open>Steps and runs\<close>

lemma Issue_cases:
  assumes "Issue m ck ctx uuid bytes r s = (result, s')"
  obtains "s' = s" "\<And>l. result \<noteq> Inr l"
  | lease e where "Issue_plan m ck ctx uuid bytes r = Inr lease" "ls_Put (lm_store m) ctx lease s = (Some e, s')" "result = Inl e"
  | lease where "Issue_plan m ck ctx uuid bytes r = Inr lease" "ls_Put (lm_store m) ctx lease s = (None, s')" "result = Inr lease"
proof (cases "Issue_plan m ck ctx uuid bytes r")
  case (Inl e)
  with assms have "s' = s" "result = Inl e" by (simp_all add: Issue_def)
  then show ?thesis by (intro that(1)) auto
next
  case (Inr lease)
  obtain w t where put: "ls_Put (lm_store m) ctx lease s = (w, t)" by fastforce
  show ?thesis
  proof (cases w)
    case None
    with assms Inr put that(3) show ?thesis by (simp add: Issue_def cloneLease_def)
  next
    case (Some e)
    with assms Inr put that(2) show ?thesis by (simp add: Issue_def)
  qed
qed

lemma Issue_plan_token:
  assumes "Issue_plan m ck ctx uuid bytes r = Inr lease" and "lq_FencingToken r \<le> token_limit"
  shows "1 \<le> cl_FencingToken lease \<and> cl_FencingToken lease \<le> token_limit"
proof -
  obtain leaseID nonce now ttl heartbeat sig where
      shape: "ValidateShape (issued_lease (defaulted_agent r) leaseID nonce now ttl heartbeat) = None"
    and lease: "lease = (issued_lease (defaulted_agent r) leaseID nonce now ttl heartbeat)\<lparr>cl_Signature := sig\<rparr>"
    using Issue_plan_Inr [OF assms(1)] by blast
  have "lq_FencingToken (defaulted_agent r) = lq_FencingToken r" by (simp add: defaulted_agent_def)
  with assms(2) ValidateShape_token [OF shape] show ?thesis
    by (auto simp: lease issued_lease_def token_limit_def split: if_splits)
qed

definition rows_advance :: "(string \<Rightarrow> CapabilityLease option) \<Rightarrow> (string \<Rightarrow> CapabilityLease option) \<Rightarrow> bool" where
  "rows_advance rows rows' \<longleftrightarrow>
     (\<forall>k l. rows k = Some l \<longrightarrow> (\<exists>l'. rows' k = Some l' \<and> lease_advances l l'))"

lemma rows_advance_refl [simp]: "rows_advance rows rows"
  by (simp add: rows_advance_def)

lemma rows_advance_trans: "rows_advance a b \<Longrightarrow> rows_advance b c \<Longrightarrow> rows_advance a c"
  unfolding rows_advance_def by (meson lease_advances_trans)

lemma rows_advance_put: "rows k = None \<Longrightarrow> rows_advance rows (rows(k \<mapsto> l))"
  by (auto simp: rows_advance_def)

lemma rows_advance_swap: "rows k = Some l \<Longrightarrow> lease_advances l l' \<Longrightarrow> rows_advance rows (rows(k \<mapsto> l'))"
  by (auto simp: rows_advance_def)

lemma leases_ok_remove1: "leases_ok n rows ps \<Longrightarrow> leases_ok n rows (remove1 p ps)"
  unfolding leases_ok_def using set_remove1_subset [of p ps] by blast

context lease_provider begin

lemma plan_step:
  assumes "ls_Get api c k s = Inr (Some cur) \<and> evolves cur upd" and "leases_ok n (row s) ps"
  shows "leases_ok n (row s) ((cur, upd) # ps)"
  using assms get_row leases_ok_plan by blast

lemma issue_step:
  assumes "Issue m ck ctx uuid bytes r s = (result, s')" and "lm_store m = api"
    and "lq_FencingToken r \<le> token_limit" and "leases_ok n (row s) ps" and "token_limit \<le> n"
  shows "leases_ok n (row s') ps \<and> rows_advance (row s) (row s')"
  using assms(1)
proof (cases rule: Issue_cases)
  case 1
  with assms(4) show ?thesis by simp
next
  case (2 lease e)
  then have "row s' = row s" using put_fails assms(2) by metis
  with assms(4) show ?thesis by simp
next
  case (3 lease)
  then have put: "ls_Put api ctx lease s = (None, s')" using assms(2) by simp
  note st = put_stores [OF put]
  from Issue_plan_token [OF 3(1) assms(3)] assms(5)
  have "1 \<le> cl_FencingToken lease" "cl_FencingToken lease \<le> n" by auto
  then have "leases_ok n ((row s)(cl_ID lease \<mapsto> lease)) ps"
    using assms(4) st put_unique [OF put] by (intro leases_ok_put) auto
  with st rows_advance_put show ?thesis by auto
qed

lemma commit_step:
  assumes "p \<in> set ps" and "commit_plan m ctx p s = (result, s')" and "lm_store m = api"
    and "leases_ok n (row s) ps" and "n < 2 ^ 63 - 1"
  shows "leases_ok (n + 1) (row s') (remove1 p ps) \<and> rows_advance (row s) (row s')"
proof -
  obtain cur upd where p: "p = (cur, upd)" by (cases p)
  with assms(2,3) have cas: "ls_CompareAndSwap api ctx (cl_ID cur) (cl_FencingToken cur) upd s = (result, s')"
    by (simp add: commit_plan_def)
  show ?thesis
  proof (cases "result = Inr True")
    case True
    with cas_swaps cas obtain l where l: "row s (cl_ID cur) = Some l" "cl_FencingToken l = cl_FencingToken cur"
      and rows: "row s' = (row s)(cl_ID cur \<mapsto> upd)" by blast
    from leases_ok_swap [OF assms(4) l(1) _ l(2) assms(5)] assms(1) p
    have "leases_ok (n + 1) (row s') ps" "lease_advances l upd" by (simp_all add: rows)
    with l(1) rows leases_ok_remove1 rows_advance_swap show ?thesis by auto
  next
    case False
    then have "row s' = row s" using cas_keeps cas by blast
    moreover have "leases_ok (n + 1) (row s) ps" using leases_ok_mono [OF assms(4)] by simp
    ultimately show ?thesis using leases_ok_remove1 by auto
  qed
qed

lemma step_ok:
  assumes "lease_step m x y" and "lm_store m = api" and "leases_ok n (row (fst x)) (snd x)"
    and "token_limit \<le> n" and "n < 2 ^ 63 - 1"
  shows "leases_ok (n + 1) (row (fst y)) (snd y) \<and> rows_advance (row (fst x)) (row (fst y))"
  using assms(1)
proof cases
  case (issue ck ctx uuid bytes r s result s' ps)
  from issue_step [OF issue(3) assms(2) issue(4) _ assms(4)] assms(3) issue(1,2)
  have "leases_ok n (row s') ps" "rows_advance (row s) (row s')" by auto
  with issue(1,2) leases_ok_mono [of n] show ?thesis by simp
next
  case (plan_renewal ck ctx rr s p ps)
  obtain cur upd where p: "p = (cur, upd)" by (cases p)
  from Renew_plan_evolves [of m ck ctx rr s cur upd] plan_renewal(3) p assms(2)
  obtain c k where "ls_Get api c k s = Inr (Some cur) \<and> evolves cur upd" by auto
  from plan_step [OF this] assms(3) plan_renewal(1,2) p leases_ok_mono [of n] show ?thesis by simp
next
  case (plan_heartbeat ck ctx hr s p ps)
  obtain cur upd where p: "p = (cur, upd)" by (cases p)
  from Heartbeat_plan_evolves [of m ck ctx hr s cur upd] plan_heartbeat(3) p assms(2)
  obtain c k where "ls_Get api c k s = Inr (Some cur) \<and> evolves cur upd" by auto
  from plan_step [OF this] assms(3) plan_heartbeat(1,2) p leases_ok_mono [of n] show ?thesis by simp
next
  case (plan_revocation ck ctx vr s p ps)
  obtain cur upd where p: "p = (cur, upd)" by (cases p)
  from Revoke_plan_evolves [of m ck ctx vr s cur upd] plan_revocation(3) p assms(2)
  obtain c k where "ls_Get api c k s = Inr (Some cur) \<and> evolves cur upd" by auto
  from plan_step [OF this] assms(3) plan_revocation(1,2) p leases_ok_mono [of n] show ?thesis by simp
next
  case (plan_expiry ctx k s cur now p ps)
  obtain cur' upd where p: "p = (cur', upd)" by (cases p)
  from plan_expiry(3) have get: "ls_Get api ctx k s = Inr (Some cur)" "verify_lease m cur = None"
    using assms(2) by (auto simp: fetch_lease_Inr)
  from expire_plan_evolves [of m cur cur' upd] plan_expiry(4,6) p get have "cur' = cur" "evolves cur upd" by auto
  with get have "ls_Get api ctx k s = Inr (Some cur) \<and> evolves cur upd" by simp
  from plan_step [OF this] assms(3) plan_expiry(1,2) p \<open>cur' = cur\<close> leases_ok_mono [of n] show ?thesis by simp
next
  case (commit p ps ctx s result s')
  from commit_step [OF commit(3,4) assms(2) _ assms(5)] assms(3) commit(1,2) show ?thesis by simp
qed

lemma run_ok:
  assumes "(lease_step m ^^ j) x y" and "lm_store m = api" and "leases_ok n (row (fst x)) (snd x)"
    and "token_limit \<le> n" and "n + int j < 2 ^ 63"
  shows "leases_ok (n + int j) (row (fst y)) (snd y) \<and> rows_advance (row (fst x)) (row (fst y))"
  using assms(1,5)
proof (induction j arbitrary: y)
  case 0
  with assms(3) show ?case by simp
next
  case (Suc j)
  from Suc.prems(1) obtain z where z: "(lease_step m ^^ j) x z" "lease_step m z y" by (auto elim: relpowp_Suc_E)
  from Suc.IH [OF z(1)] Suc.prems(2)
  have ih: "leases_ok (n + int j) (row (fst z)) (snd z)" "rows_advance (row (fst x)) (row (fst z))" by auto
  from step_ok [OF z(2) assms(2) ih(1)] assms(4) Suc.prems(2)
  have "leases_ok (n + int j + 1) (row (fst y)) (snd y)" "rows_advance (row (fst z)) (row (fst y))" by auto
  moreover have "n + int (Suc j) = n + int j + 1" by simp
  ultimately show ?case using ih(2) rows_advance_trans by metis
qed

lemma step_keeps_ok:
  assumes "lease_step m x y" and "lm_store m = api" and "ok (fst x)"
  shows "ok (fst y)"
  using assms(1)
proof cases
  case (issue ck ctx uuid bytes r s result s' ps)
  from issue(3) show ?thesis
    by (cases rule: Issue_cases) (use put_ok assms issue(1,2) in auto)
next
  case (commit p ps ctx s result s')
  with cas_ok assms show ?thesis by (auto simp: commit_plan_def split: prod.splits)
qed (use assms in auto)

lemma run_keeps_ok: "(lease_step m ^^ j) x y \<Longrightarrow> lm_store m = api \<Longrightarrow> ok (fst x) \<Longrightarrow> ok (fst y)"
  by (induction j arbitrary: y) (auto dest: step_keeps_ok)

lemma leases_ok_empty: "leases_ok n (\<lambda>k. None) []"
  by (simp add: leases_ok_def logically_unique_def)

lemma two_runs:
  assumes "(lease_step m ^^ i) (s0, []) x" and "(lease_step m ^^ j) x y" and "lm_store m = api"
    and "row s0 = (\<lambda>k. None)" and "int (i + j) < token_limit"
  shows "rows_advance (row (fst x)) (row (fst y)) \<and> logically_unique (row (fst y))"
proof -
  from run_ok [OF assms(1,3), of token_limit] assms(4,5)
  have x: "leases_ok (token_limit + int i) (row (fst x)) (snd x)" by (simp add: leases_ok_empty token_limit_def)
  from run_ok [OF assms(2,3) x] assms(5) show ?thesis by (auto simp: token_limit_def leases_ok_def)
qed

end

section \<open>The memory store provides the interface\<close>

abbreviation lease_row :: "MemoryLeaseStore \<Rightarrow> string \<Rightarrow> CapabilityLease option" where
  "lease_row s \<equiv> map_of (ml_leases s)"

lemma Put_None:
  "Put ctx l s = (None, s') \<Longrightarrow> lease_row s (cl_ID l) = None \<and> lease_row s' = (lease_row s)(cl_ID l \<mapsto> l)
     \<and> (cl_IdempotencyKey l \<noteq> [] \<longrightarrow> (\<forall>(_, other) \<in> set (ml_leases s). \<not> same_logical_request other l))"
  by (auto simp: Put_def gomap_has_def cloneLease_def amap.look_store fun_eq_iff list_ex_iff
      split: option.splits if_splits)

lemma CompareAndSwap_True:
  "CompareAndSwap ctx k expected l s = (Inr True, s') \<Longrightarrow>
     (\<exists>cur. lease_row s k = Some cur \<and> cl_FencingToken cur = expected \<and> cl_TenantID cur = cl_TenantID l
        \<and> cl_ID cur = cl_ID l) \<and> lease_row s' = (lease_row s)(k \<mapsto> l)"
  by (auto simp: CompareAndSwap_def cloneLease_def amap.look_store fun_eq_iff split: option.splits if_splits)

interpretation mem: lease_provider memory_lease_store lease_row "\<lambda>s. gomap_ok (ml_leases s)"
proof unfold_locales
  fix ctx l w and s s' :: MemoryLeaseStore
  assume "gomap_ok (ml_leases s)" "ls_Put memory_lease_store ctx l s = (w, s')"
  then show "gomap_ok (ml_leases s')"
    by (auto simp: memory_lease_store_def Put_def split: option.splits if_splits)
next
  fix ctx k expected l r and s s' :: MemoryLeaseStore
  assume "gomap_ok (ml_leases s)" "ls_CompareAndSwap memory_lease_store ctx k expected l s = (r, s')"
  then show "gomap_ok (ml_leases s')"
    by (auto simp: memory_lease_store_def CompareAndSwap_def split: option.splits if_splits)
next
  fix ctx l s s' k other
  assume put: "ls_Put memory_lease_store ctx l s = (None, s')"
  then have p: "Put ctx l s = (None, s')" by (simp add: memory_lease_store_def)
  from Put_None [OF p]
  show "lease_row s (cl_ID l) = None \<and> lease_row s' = (lease_row s)(cl_ID l \<mapsto> l)" by blast
  assume "cl_IdempotencyKey l \<noteq> []" "lease_row s k = Some other"
  with Put_None [OF p] show "\<not> same_logical_request other l" by (blast dest: map_of_SomeD)
next
  fix ctx l s e s'
  assume "ls_Put memory_lease_store ctx l s = (Some e, s')"
  then show "lease_row s' = lease_row s"
    by (auto simp: memory_lease_store_def Put_def split: option.splits if_splits)
next
  fix ctx k s l
  assume "ls_Get memory_lease_store ctx k s = Inr (Some l)"
  then show "lease_row s k = Some l"
    by (auto simp: memory_lease_store_def Get_def cloneLease_def split: option.splits if_splits)
next
  fix ctx k expected l s s'
  assume "ls_CompareAndSwap memory_lease_store ctx k expected l s = (Inr True, s')"
  then show "(\<exists>cur. lease_row s k = Some cur \<and> cl_FencingToken cur = expected \<and> cl_TenantID cur = cl_TenantID l
      \<and> cl_ID cur = cl_ID l) \<and> lease_row s' = (lease_row s)(k \<mapsto> l)"
    by (intro CompareAndSwap_True) (simp add: memory_lease_store_def)
next
  fix ctx k expected l s r s'
  assume "ls_CompareAndSwap memory_lease_store ctx k expected l s = (r, s')" "r \<noteq> Inr True"
  then show "lease_row s' = lease_row s"
    by (auto simp: memory_lease_store_def CompareAndSwap_def split: option.splits if_splits)
qed

section \<open>Whole operations are steps\<close>

lemma two_steps: "r x y \<Longrightarrow> r y z \<Longrightarrow> r\<^sup>*\<^sup>* x z"
  by (simp add: converse_rtranclp_into_rtranclp r_into_rtranclp)

lemma committed_steps:
  assumes "committed m ctx plan s = (result, s')"
    and "\<And>p. plan = Inr p \<Longrightarrow> lease_step m (s, ps) (s, p # ps)"
  shows "(lease_step m)\<^sup>*\<^sup>* (s, ps) (s', ps)"
proof (cases plan)
  case (Inl e)
  with assms(1) show ?thesis by (simp add: committed_def)
next
  case (Inr p)
  obtain r t where c: "commit_plan m ctx p s = (r, t)" by fastforce
  with assms(1) Inr have "t = s'" by (auto simp: committed_def split: sum.splits if_splits)
  with c have "lease_step m (s, p # ps) (s', remove1 p (p # ps))" by (intro lease_step.commit) auto
  with two_steps [where r = "lease_step m", OF assms(2) [OF Inr]] show ?thesis by simp
qed

lemma Renew_steps: "Renew m ck ctx r s = (result, s') \<Longrightarrow> (lease_step m)\<^sup>*\<^sup>* (s, ps) (s', ps)"
  unfolding Renew_def by (erule committed_steps) (rule lease_step.plan_renewal)

lemma Heartbeat_steps: "Heartbeat m ck ctx r s = (result, s') \<Longrightarrow> (lease_step m)\<^sup>*\<^sup>* (s, ps) (s', ps)"
  unfolding Heartbeat_def by (erule committed_steps) (rule lease_step.plan_heartbeat)

lemma Revoke_finish_state: "snd (Revoke_finish m ctx r (swapped, t)) = t"
  by (auto simp: Revoke_finish_def split: sum.splits option.splits)

lemma Revoke_steps:
  assumes "Revoke m ck ctx r s = (result, s')"
  shows "(lease_step m)\<^sup>*\<^sup>* (s, ps) (s', ps)"
proof (cases "\<exists>p. Revoke_plan m ck ctx r s = Inr (Some p)")
  case True
  then obtain p where p: "Revoke_plan m ck ctx r s = Inr (Some p)" by blast
  obtain q t where c: "commit_plan m ctx p s = (q, t)" by fastforce
  with assms p have "t = s'" using Revoke_finish_state [of m ctx r q t] by (simp add: Revoke_def)
  with c have "lease_step m (s, p # ps) (s', remove1 p (p # ps))" by (intro lease_step.commit) auto
  with two_steps [where r = "lease_step m", OF lease_step.plan_revocation [OF p]] show ?thesis by simp
next
  case False
  with assms show ?thesis by (auto simp: Revoke_def split: sum.splits option.splits)
qed

lemma Validate_steps:
  assumes "Validate m ck ctx c s = (result, s')"
  shows "(lease_step m)\<^sup>*\<^sup>* (s, ps) (s', ps)"
proof (cases "s' = s")
  case False
  then obtain cur now where f: "fetch_lease m (withLeaseTenant ctx (ch_TenantID c)) (ch_LeaseID c) CodeLeaseExpired s = Inr cur"
    and exp: "cl_State cur = LeaseActive" "IsExpired cur now" and s': "s' = expire m ctx cur s"
    using assms unfolding Validate_def Let_def by (auto split: option.splits sum.splits if_splits)
  from s' False obtain p where p: "expire_plan m cur = Inr p" "s' = snd (commit_plan m ctx p s)"
    by (auto simp: expire_def split: sum.splits)
  obtain q where "commit_plan m ctx p s = (q, s')" using p(2) by (metis prod.collapse)
  then have "lease_step m (s, p # ps) (s', remove1 p (p # ps))" by (intro lease_step.commit) auto
  with two_steps [where r = "lease_step m", OF lease_step.plan_expiry [OF f exp p(1)]] show ?thesis by simp
qed simp

end
