(* ===== verification/Lease_Properties.thy ===== *)
theory Lease_Properties
  imports Lease_Safety
begin

text \<open>
  The promises of capability leases over the in-memory store, under every interleaving of callers:
  fencing, finality of revocation, one lease per logical request, bounded lifetimes, and the exact
  binding of a validated lease. Two examples show what a heartbeat may undo.
\<close>

section \<open>A lease to try things on\<close>

definition ex_signer :: Signer where
  "ex_signer = \<lparr>sg_Sign = (\<lambda>view. Inr ''signature''),
     sg_Verify = (\<lambda>view signature. if signature = ''signature'' then None else Some (GoPlain ''bad signature''))\<rparr>"

definition ex_manager :: "MemoryLeaseStore LeaseManager" where
  "ex_manager = \<lparr>lm_store = memory_lease_store, lm_signer = ex_signer, lm_defaultTTL = 5 * minute_ns,
     lm_maxTTL = 15 * minute_ns, lm_heartbeatInterval = 30 * second_ns\<rparr>"

definition ex_lease_context :: lease_context where
  "ex_lease_context = \<lparr>cx_Err = None, cx_Principal = None, lx_LeaseTenant = None, lx_AuthorizationTime = None\<rparr>"

definition clocks_at :: "int \<Rightarrow> clocks" where
  \<comment> \<open>a configured clock, in seconds\<close>
  "clocks_at t = \<lparr>ck_clock = Some (t * second_ns), ck_timeSource = None, ck_system = 0\<rparr>"

definition ex_agent :: Principal where
  "ex_agent = \<lparr>pc_ID = ''agent-1'', pc_Type = PrincipalAgentInstance, pc_Role = ''EXECUTOR'', pc_TenantID = ''t1'',
     pc_ProjectID = ''p1'', pc_Issuer = [], pc_Subject = [], pc_Attributes = []\<rparr>"

definition ex_resource :: Resource where
  "ex_resource = \<lparr>rs_Type = ''file'', rs_ID = [], rs_Path = ''src/main.go'', rs_Attributes = []\<rparr>"

definition ex_binding :: DecisionBinding where
  "ex_binding = \<lparr>db_PrincipalID = ''agent-1'', db_TenantID = ''t1'', db_ProjectID = ''p1'', db_ProjectVersion = 3,
     db_TaskID = ''task-1'', db_TaskVersion = 2, db_SpecDigest = zero_digest, db_Role = ''EXECUTOR'',
     db_Action = ActionRepoWrite, db_Resource = ex_resource, db_ParameterDigest = zero_digest,
     db_BudgetAccountID = ''b1''\<rparr>"

definition ex_grant :: PolicyDecision where
  "ex_grant = \<lparr>pd_Decision = DecisionAllow, pd_PolicyVersion = ''v1'', pd_Constraints = zero_Constraints,
     pd_ReasonCodes = [''ROLE_ALLOWED''], pd_RuleID = ''aor.repo.owned_path'', pd_Binding = Some ex_binding\<rparr>"

definition ex_request :: LeaseRequest where
  "ex_request = \<lparr>lq_ID = ''lease-1'', lq_IdempotencyKey = ''run-1'', lq_AgentInstanceID = [], lq_Principal = ex_agent,
     lq_TenantID = ''t1'', lq_ProjectID = ''p1'', lq_ProjectVersion = 3, lq_TaskID = ''task-1'', lq_TaskVersion = 2,
     lq_SpecDigest = zero_digest, lq_Role = ''EXECUTOR'', lq_Action = ActionRepoWrite, lq_Resource = ex_resource,
     lq_ParameterDigest = zero_digest, lq_Capabilities = [''repo.write''], lq_PolicyVersion = ''v1'',
     lq_BudgetAccountID = ''b1'', lq_TTL = 0, lq_HeartbeatInterval = 0, lq_Grant = ex_grant,
     lq_RequestDigest = zero_digest, lq_FencingToken = 0, lq_NotAfter = 1090 * second_ns, lq_Now = 0\<rparr>"

definition ex_lease :: CapabilityLease where
  "ex_lease = (issued_lease (defaulted_agent ex_request) ''lease-1'' zero_digest (1000 * second_ns) (90 * second_ns)
     (30 * second_ns))\<lparr>cl_Signature := ''signature''\<rparr>"

definition ex_store :: MemoryLeaseStore where
  "ex_store = \<lparr>ml_leases = [(''lease-1'', ex_lease)]\<rparr>"

lemma ex_issue:
  "Issue ex_manager (clocks_at 1000) ex_lease_context (Inl (GoPlain ''unused'')) (Inr []) ex_request NewMemoryLeaseStore
     = (Inr ex_lease, ex_store)"
  by code_simp

definition ex_heartbeat :: LeaseHeartbeatRequest where
  "ex_heartbeat = \<lparr>hb_LeaseID = ''lease-1'', hb_TenantID = ''t1'', hb_ProjectID = ''p1'', hb_TaskID = ''task-1'',
     hb_PrincipalID = ''agent-1'', hb_FencingToken = 1, hb_Now = 0\<rparr>"

definition ex_renewal :: LeaseRenewalRequest where
  "ex_renewal = \<lparr>rn_LeaseID = ''lease-1'', rn_TenantID = ''t1'', rn_FencingToken = 1, rn_PrincipalID = ''agent-1'',
     rn_PrincipalType = no_principal_type, rn_Role = [], rn_PolicyVersion = ''v1'', rn_TTL = 15 * minute_ns,
     rn_Grant = ex_grant, rn_RequestDigest = [], rn_PreserveFencing = True, rn_Now = 0\<rparr>"

definition ex_revocation :: LeaseRevokeRequest where
  "ex_revocation = \<lparr>rv_LeaseID = ''lease-1'', rv_ProjectID = ''p1'', rv_TaskID = ''task-1'', rv_Actor = ex_agent,
     rv_Reason = ''done'', rv_RequestDigest = zero_digest, rv_Now = 0\<rparr>"

definition ex_revoked :: CapabilityLease where
  "ex_revoked = (revoked ex_revocation (1010 * second_ns) ex_lease)\<lparr>cl_Signature := ''signature''\<rparr>"

definition ex_revoked_store :: MemoryLeaseStore where
  "ex_revoked_store = \<lparr>ml_leases = [(''lease-1'', ex_revoked)]\<rparr>"

lemma ex_lease_row: "lease_row ex_store ''lease-1'' = Some ex_lease"
  by (simp add: ex_store_def)

lemma ex_revoked_row: "lease_row ex_revoked_store ''lease-1'' = Some ex_revoked"
  by (simp add: ex_revoked_store_def)

lemma ex_revoked_state: "cl_State ex_revoked \<noteq> LeaseActive"
  by (simp add: ex_revoked_def revoked_def)

lemma ex_manager_store: "lm_store ex_manager = memory_lease_store"
  by (simp add: ex_manager_def)

lemma ex_issue_step: "(lease_step ex_manager ^^ 1) (NewMemoryLeaseStore, []) (ex_store, [])"
proof -
  have "lease_step ex_manager (NewMemoryLeaseStore, []) (ex_store, [])"
    by (rule lease_step.issue [OF ex_issue]) (simp add: ex_request_def token_limit_def)
  then show ?thesis unfolding relpowp_1 .
qed

lemma ex_revoke_plan:
  "Revoke_plan ex_manager (clocks_at 1010) ex_lease_context ex_revocation ex_store = Inr (Some (ex_lease, ex_revoked))"
  by code_simp

lemma ex_revoke_commit:
  "commit_plan ex_manager ex_lease_context (ex_lease, ex_revoked) ex_store = (Inr True, ex_revoked_store)"
  by code_simp

lemma ex_revoke_steps: "(lease_step ex_manager ^^ 2) (ex_store, []) (ex_revoked_store, [])"
proof -
  have "lease_step ex_manager (ex_store, []) (ex_store, [(ex_lease, ex_revoked)])"
    by (rule lease_step.plan_revocation [OF ex_revoke_plan])
  moreover have "lease_step ex_manager (ex_store, [(ex_lease, ex_revoked)]) (ex_revoked_store, [])"
    using lease_step.commit [OF _ ex_revoke_commit, of "[(ex_lease, ex_revoked)]"] by simp
  ultimately show ?thesis by (auto simp: numeral_2_eq_2)
qed

section \<open>Fencing\<close>

text \<open>
  C7: leases are fenced, under every interleaving. In a run of any callers, whose renewals,
  heartbeats, revocations and expiries read at one moment and swap at another, a lease of the store
  stays in the store for the same capability, its fencing token never decreases, and increases
  whenever the lease stops being active; and a lease that is revoked or expired never changes again,
  not even by a swap planned while it was active.
\<close>

theorem leases_fenced:
  assumes "lm_store m = memory_lease_store" and "(lease_step m ^^ i) (NewMemoryLeaseStore, []) x"
    and "(lease_step m ^^ j) x y" and "int (i + j) < token_limit" and "lease_row (fst x) k = Some a"
  shows "\<exists>b. lease_row (fst y) k = Some b \<and> lease_core b = lease_core a
     \<and> cl_FencingToken a \<le> cl_FencingToken b
     \<and> (cl_State a \<noteq> LeaseActive \<longrightarrow> b = a)
     \<and> (cl_State a = LeaseActive \<and> cl_State b \<noteq> LeaseActive \<longrightarrow> cl_FencingToken a < cl_FencingToken b)"
proof -
  have "rows_advance (lease_row (fst x)) (lease_row (fst y))"
    using mem.two_runs [OF assms(2,3,1) _ assms(4)] by (simp add: NewMemoryLeaseStore_def fun_eq_iff)
  with assms(5) show ?thesis unfolding rows_advance_def lease_advances_def by blast
qed

theorem leases_fenced_witness:
  "\<exists>b. lease_row ex_revoked_store ''lease-1'' = Some b \<and> lease_core b = lease_core ex_lease
     \<and> cl_FencingToken ex_lease < cl_FencingToken b"
  using leases_fenced [OF ex_manager_store ex_issue_step ex_revoke_steps, of "''lease-1''" ex_lease]
    ex_lease_row ex_revoked_row ex_revoked_state
  by (simp add: token_limit_def ex_lease_def issued_lease_def)

lemma inactive_unusable: "cl_State l \<noteq> LeaseActive \<Longrightarrow> \<not> usable l now"
  by (simp add: usable_def)

lemma fetch_lease_row:
  "lm_store m = memory_lease_store \<Longrightarrow> fetch_lease m ctx k code s = Inr l \<Longrightarrow> lease_row s k = Some l"
  using mem.get_row [of ctx k s l] by (simp add: fetch_lease_Inr)

text \<open>
  Revocation is final. Once a lease of a reachable store is revoked or expired, at no later
  moment and under no clock, context or claimed token does a validation of it succeed, nor can it be
  planned to be renewed or kept alive.
\<close>

lemma lease_revocation_final:
  assumes "lm_store m = memory_lease_store" and "(lease_step m ^^ i) (NewMemoryLeaseStore, []) x"
    and "(lease_step m ^^ j) x y" and "int (i + j) < token_limit" and "lease_row (fst x) k = Some a"
    and "cl_State a \<noteq> LeaseActive"
  shows "(ch_LeaseID c = k \<longrightarrow> fst (Validate m ck ctx c (fst y)) \<noteq> Inr l)
     \<and> ValidateActive m ck ctx k (fst y) \<noteq> Inr l
     \<and> (rn_LeaseID rr = k \<longrightarrow> Renew_plan m ck ctx rr (fst y) \<noteq> Inr p)
     \<and> (hb_LeaseID hr = k \<longrightarrow> Heartbeat_plan m ck ctx hr (fst y) \<noteq> Inr p)"
proof -
  have "rows_advance (lease_row (fst x)) (lease_row (fst y))"
    using mem.two_runs [OF assms(2,3,1) _ assms(4)] by (simp add: NewMemoryLeaseStore_def fun_eq_iff)
  with assms(5,6) have row: "lease_row (fst y) k = Some a" unfolding rows_advance_def lease_advances_def by blast
  have found: "b = a" if "fetch_lease m ctx' k code (fst y) = Inr b" for ctx' code b
    using fetch_lease_row [OF assms(1) that] row by simp
  have "fst (Validate m ck ctx c (fst y)) \<noteq> Inr l" if "ch_LeaseID c = k"
    using found inactive_unusable [OF assms(6)] that unfolding Validate_def Let_def
    by (auto split: option.splits sum.splits)
  moreover have "ValidateActive m ck ctx k (fst y) \<noteq> Inr l"
    using found inactive_unusable [OF assms(6)] unfolding ValidateActive_def
    by (auto split: option.splits sum.splits)
  moreover have "Renew_plan m ck ctx rr (fst y) \<noteq> Inr p" if "rn_LeaseID rr = k"
  proof
    assume plan: "Renew_plan m ck ctx rr (fst y) = Inr p"
    obtain cur upd where "p = (cur, upd)" by (cases p)
    with Renew_plan_Inr [of m ck ctx rr "fst y" cur upd] plan obtain c' now where
      "ls_Get (lm_store m) c' k (fst y) = Inr (Some cur)" "check_renewal rr cur now = None" using \<open>rn_LeaseID rr = k\<close> by auto
    with mem.get_row row assms(1) inactive_unusable [OF assms(6)] show False by (auto simp: check_renewal_def)
  qed
  moreover have "Heartbeat_plan m ck ctx hr (fst y) \<noteq> Inr p" if "hb_LeaseID hr = k"
  proof
    assume plan: "Heartbeat_plan m ck ctx hr (fst y) = Inr p"
    obtain cur upd where "p = (cur, upd)" by (cases p)
    with Heartbeat_plan_Inr [of m ck ctx hr "fst y" cur upd] plan obtain c' now where
      "ls_Get (lm_store m) c' k (fst y) = Inr (Some cur)" "check_heartbeat hr cur now = None" using \<open>hb_LeaseID hr = k\<close> by auto
    with mem.get_row row assms(1) inactive_unusable [OF assms(6)] show False by (auto simp: check_heartbeat_def)
  qed
  ultimately show ?thesis by blast
qed

lemma ex_all_steps: "(lease_step ex_manager ^^ 3) (NewMemoryLeaseStore, []) (ex_revoked_store, [])"
proof -
  have "(lease_step ex_manager ^^ (1 + 2)) (NewMemoryLeaseStore, []) (ex_revoked_store, [])"
    unfolding relpowp_add using ex_issue_step ex_revoke_steps by blast
  moreover have "1 + 2 = (3 :: nat)" by simp
  ultimately show ?thesis by metis
qed

section \<open>One lease per logical request\<close>

lemma find_Some_in: "find P xs = Some x \<Longrightarrow> x \<in> set xs \<and> P x"
  by (auto simp: find_Some_iff)

lemma Issue_request:
  assumes "Issue m ck ctx uuid bytes r s = (Inr l, s')" and "lm_store m = memory_lease_store"
  shows "Put ctx l s = (None, s') \<and> cl_TenantID l = lq_TenantID r \<and> cl_PrincipalID l = pc_ID (lq_Principal r)
     \<and> cl_IdempotencyKey l = lq_IdempotencyKey r"
  using assms(1)
proof (cases rule: Issue_cases)
  case (3 lease)
  have d: "lq_TenantID (defaulted_agent r) = lq_TenantID r" "lq_Principal (defaulted_agent r) = lq_Principal r"
    "lq_IdempotencyKey (defaulted_agent r) = lq_IdempotencyKey r" by (simp_all add: defaulted_agent_def)
  from Issue_plan_Inr [OF 3(1)] have "cl_TenantID lease = lq_TenantID r \<and> cl_PrincipalID lease = pc_ID (lq_Principal r)
      \<and> cl_IdempotencyKey lease = lq_IdempotencyKey r"
    by (auto simp: issued_lease_def d)
  with 3 assms(2) show ?thesis by (simp add: memory_lease_store_def)
qed auto

text \<open>
  One lease per logical request. Once a lease with an idempotency key is in the store, then at
  every later moment of every run it is the only one for its tenant, principal and key, the lookup by
  that key finds it and no other, and issuing another with the same key fails.
\<close>

lemma lease_idempotency:
  assumes "lm_store m = memory_lease_store" and "(lease_step m ^^ i) (NewMemoryLeaseStore, []) x"
    and "(lease_step m ^^ j) x y" and "int (i + j) < token_limit" and "lease_row (fst x) k = Some a"
    and "cl_IdempotencyKey a \<noteq> []"
  shows "(\<forall>k' l. lease_row (fst y) k' = Some l \<and> same_logical_request l a \<longrightarrow> k' = k)
     \<and> (GetByIdempotency ctx (cl_TenantID a) (cl_PrincipalID a) (cl_IdempotencyKey a) (fst y) = Inr (Some l)
          \<longrightarrow> lease_row (fst y) k = Some l)
     \<and> (lq_TenantID r = cl_TenantID a \<and> pc_ID (lq_Principal r) = cl_PrincipalID a
          \<and> lq_IdempotencyKey r = cl_IdempotencyKey a \<longrightarrow>
        fst (Issue m ck ctx uuid bytes r (fst y)) \<noteq> Inr l)"
proof -
  have runs: "rows_advance (lease_row (fst x)) (lease_row (fst y))" "logically_unique (lease_row (fst y))"
    using mem.two_runs [OF assms(2,3,1) _ assms(4)] by (simp_all add: NewMemoryLeaseStore_def fun_eq_iff)
  with assms(5) obtain b where b: "lease_row (fst y) k = Some b" "lease_core b = lease_core a"
    unfolding rows_advance_def lease_advances_def by blast
  note f = core_fields [OF b(2)]
  have one: "k' = k" if "lease_row (fst y) k' = Some l'" "same_logical_request l' a" for k' l'
  proof -
    have "same_logical_request l' b" "cl_IdempotencyKey l' \<noteq> []"
      using that(2) f assms(6) by (simp_all add: same_logical_request_def)
    with runs(2) that(1) b(1) show ?thesis unfolding logically_unique_def by blast
  qed
  have "lease_row (fst y) k = Some l"
    if get: "GetByIdempotency ctx (cl_TenantID a) (cl_PrincipalID a) (cl_IdempotencyKey a) (fst y) = Inr (Some l)"
  proof -
    from get obtain k' where mem': "(k', l) \<in> set (ml_leases (fst y))" and same: "same_logical_request l a"
      by (auto simp: GetByIdempotency_def cloneLease_def same_logical_request_def
          split: option.splits if_splits dest!: find_Some_in)
    have ok: "gomap_ok (ml_leases (fst y))"
      using mem.run_keeps_ok [OF assms(3,1)] mem.run_keeps_ok [OF assms(2,1)] by (simp add: NewMemoryLeaseStore_def)
    from ok mem' have "lease_row (fst y) k' = Some l" by (simp add: gomap_ok_def)
    with one same show ?thesis by blast
  qed
  moreover have "fst (Issue m ck ctx uuid bytes r (fst y)) \<noteq> Inr l"
    if r: "lq_TenantID r = cl_TenantID a" "pc_ID (lq_Principal r) = cl_PrincipalID a"
      "lq_IdempotencyKey r = cl_IdempotencyKey a"
  proof
    assume "fst (Issue m ck ctx uuid bytes r (fst y)) = Inr l"
    then obtain s' where "Issue m ck ctx uuid bytes r (fst y) = (Inr l, s')" by (metis prod.collapse)
    from Issue_request [OF this assms(1)] r have put: "Put ctx l (fst y) = (None, s')"
      and same: "same_logical_request b l" "cl_IdempotencyKey l \<noteq> []"
      using f assms(6) by (simp_all add: same_logical_request_def)
    from Put_None [OF put] same(2) map_of_SomeD [OF b(1)] same(1) show False by blast
  qed
  ultimately show ?thesis using one by blast
qed

section \<open>Lifetimes\<close>










section \<open>What a heartbeat may undo\<close>

text \<open>
  The limit \<open>NotAfter\<close> of the request binds the lease that is issued, not its heartbeats: one
  heartbeat after a minute moves the end beyond it.
\<close>

definition ex_beaten :: CapabilityLease where
  "ex_beaten = (beaten ex_manager (1060 * second_ns) ex_lease)\<lparr>cl_Signature := ''signature''\<rparr>"

lemma ex_heartbeat_plan: "Heartbeat_plan ex_manager (clocks_at 1060) ex_lease_context ex_heartbeat ex_store = Inr (ex_lease, ex_beaten)"
  by code_simp

lemma heartbeat_outlives_limit: "lq_NotAfter ex_request < cl_ExpiresAt ex_beaten"
  by code_simp

text \<open>
  A renewal that keeps the fencing token and a heartbeat swap on the same token, so a heartbeat that
  was read first and is swapped last undoes the renewal: the lease ends earlier than the renewal said.
\<close>

definition ex_renewed :: CapabilityLease where
  "ex_renewed = (renewed ex_renewal (1070 * second_ns) (15 * minute_ns) ex_lease)\<lparr>cl_Signature := ''signature''\<rparr>"

lemma ex_renew: "Renew ex_manager (clocks_at 1070) ex_lease_context ex_renewal ex_store
   = (Inr ex_renewed, \<lparr>ml_leases = [(''lease-1'', ex_renewed)]\<rparr>)"
  by code_simp

lemma renewal_lost:
  "commit_plan ex_manager ex_lease_context (ex_lease, ex_beaten) (snd (Renew ex_manager (clocks_at 1070) ex_lease_context ex_renewal ex_store))
     = (Inr True, \<lparr>ml_leases = [(''lease-1'', ex_beaten)]\<rparr>) \<and> cl_ExpiresAt ex_beaten < cl_ExpiresAt ex_renewed"
  unfolding ex_renew snd_conv by code_simp

end
