(* ===== verification/Policy_Safety.thy ===== *)
theory Policy_Safety
  imports Policy_Engine Lease_Properties
begin

text \<open>
  What an ALLOW of the policy engine means: which checks it passed, which lease stands behind it,
  and that the rules of a bundle can only narrow the reference policy.
\<close>

section \<open>Verdicts\<close>

lemma refused_not_allow [simp]: "pd_Decision (fst (refused e reason err)) = DecisionDeny"
  by (simp add: refused_def denyDecision_def)

lemma denyDecision_not_allow [simp]: "pd_Decision (denyDecision v r) = DecisionDeny"
  by (simp add: denyDecision_def)

lemma approvalDecision_not_allow [simp]: "pd_Decision (approvalDecision v r) = DecisionApprovalRequired"
  by (simp add: approvalDecision_def)

lemma allowDecision_allow [simp]:
  "pd_Decision (allowDecision v rule reasons) = DecisionAllow"
  "pd_Constraints (allowDecision v rule reasons) = zero_Constraints"
  by (simp_all add: allowDecision_def)

lemma checked_decision_allow:
  assumes "checked_decision e d0 now = (d, err)" and "pd_Decision d = DecisionAllow"
  shows "d = d0 \<and> err = None \<and> PolicyDecision_Validate d now = None"
proof (cases "PolicyDecision_Validate d0 now")
  case None
  with assms show ?thesis by (simp add: checked_decision_def)
next
  case (Some x)
  with assms(1) have "d = fst (refused e ''INVALID_POLICY_RESULT'' (GoAor x))" by (simp add: checked_decision_def)
  with assms(2) show ?thesis by simp
qed

lemma decide_allow:
  assumes "decide e input baseline finish now = (d, err)" and "pd_Decision d = DecisionAllow"
  shows "pd_Decision baseline = DecisionAllow
     \<and> (first_rule input (bu_Rules (en_bundle e)) = None \<and> d = baseline \<and> err = None
          \<and> PolicyDecision_Validate d now = None
        \<or> (\<exists>result. first_rule input (bu_Rules (en_bundle e)) = Some (Inr result)
             \<and> finish (versioned e result) = (d, err)))"
proof (cases "pd_Decision baseline = DecisionAllow")
  case False
  with assms(1) have "checked_decision e baseline now = (d, err)" by (simp add: decide_def)
  with checked_decision_allow assms(2) False show ?thesis by blast
next
  case True
  with assms(1) have r: "apply_rules e input baseline finish now = (d, err)" by (simp add: decide_def)
  consider (none) "first_rule input (bu_Rules (en_bundle e)) = None"
    | (nil) "first_rule input (bu_Rules (en_bundle e)) = Some (Inl ())"
    | (rule) result where "first_rule input (bu_Rules (en_bundle e)) = Some (Inr result)"
    by (cases "first_rule input (bu_Rules (en_bundle e))"; cases "the (first_rule input (bu_Rules (en_bundle e)))") auto
  then show ?thesis
  proof cases
    case none
    with r have "checked_decision e baseline now = (d, err)" by (simp add: apply_rules_def)
    with checked_decision_allow [OF this assms(2)] True none show ?thesis by metis
  next
    case nil
    with r have "d = fst (refused e ''INVALID_POLICY_RULE'' (GoAor (policy_denied (bundle_version e))))"
      by (simp add: apply_rules_def)
    with assms(2) show ?thesis by simp
  next
    case rule
    show ?thesis
    proof (cases "pd_PolicyVersion (versioned e result) = bundle_version e")
      case ok: True
      with r rule True show ?thesis by (simp add: apply_rules_def)
    next
      case False
      with r rule have "d = fst (refused e ''POLICY_VERSION_MISMATCH'' (GoAor (policy_denied (bundle_version e))))"
        by (simp add: apply_rules_def)
      with assms(2) show ?thesis by simp
    qed
  qed
qed

lemma finish_rule_allow:
  assumes "finish_rule e input baseline lease now result = (d, err)" and "pd_Decision d = DecisionAllow"
  shows "err = None \<and> d = intersectAllow e baseline result input lease \<and> PolicyDecision_Validate result now = None"
proof (cases "PolicyDecision_Validate result now")
  case None
  with assms show ?thesis by (auto simp: finish_rule_def split: if_splits)
next
  case (Some x)
  with assms(1) have "d = fst (refused e ''INVALID_POLICY_RESULT'' (GoAor x))" by (simp add: finish_rule_def)
  with assms(2) show ?thesis by simp
qed

section \<open>Narrowing\<close>

definition narrower :: "Constraints \<Rightarrow> Constraints \<Rightarrow> bool" where
  \<comment> \<open>every bound the second sets is kept or tightened by the first\<close>
  "narrower c b \<longleftrightarrow>
     (cn_PathGlob b \<noteq> [] \<longrightarrow> cn_PathGlob c = cn_PathGlob b)
     \<and> (0 < cn_MaxBytes b \<longrightarrow> 0 < cn_MaxBytes c \<and> cn_MaxBytes c \<le> cn_MaxBytes b)
     \<and> (cn_ExpiresAt b \<noteq> 0 \<longrightarrow> cn_ExpiresAt c \<noteq> 0 \<and> cn_ExpiresAt c \<le> cn_ExpiresAt b)"

lemma narrower_refl [simp]: "narrower c c"
  by (simp add: narrower_def)

lemma PolicyDecision_bytes: "PolicyDecision_Validate d now = None \<Longrightarrow> 0 \<le> cn_MaxBytes (pd_Constraints d)"
  unfolding PolicyDecision_Validate_def Constraints_Validate_def by (simp split: if_splits)

lemma constrainAllow_fields [simp]:
  "pd_Decision (constrainAllow e d input lease) = pd_Decision d"
  "pd_PolicyVersion (constrainAllow e d input lease) = pd_PolicyVersion d"
  "pd_Binding (constrainAllow e d input lease) = pd_Binding d"
  "cn_PathGlob (pd_Constraints (constrainAllow e d input lease)) = cn_PathGlob (pd_Constraints d)"
  by (simp_all add: constrainAllow_def Let_def)

lemma constrainAllow_narrower:
  assumes "cn_MaxBytes b > 0 \<longrightarrow> cn_MaxBytes (pd_Constraints d) > 0" and "narrower (pd_Constraints d) b"
  shows "narrower (pd_Constraints (constrainAllow e d input lease)) b"
  using assms by (auto simp: constrainAllow_def narrower_def Let_def is_zero_time_def)

lemma intersectAllow_narrower:
  assumes "pd_Decision (intersectAllow e baseline result input lease) = DecisionAllow"
    and "0 \<le> cn_MaxBytes (pd_Constraints result)"
  shows "pd_Decision result = DecisionAllow
     \<and> narrower (pd_Constraints (intersectAllow e baseline result input lease)) (pd_Constraints baseline)"
proof -
  let ?b = "pd_Constraints baseline" and ?c = "pd_Constraints result"
  let ?c1 = "if cn_PathGlob ?b \<noteq> [] then ?c\<lparr>cn_PathGlob := cn_PathGlob ?b\<rparr> else ?c"
  let ?c2 = "if cn_MaxBytes ?b > 0 \<and> (cn_MaxBytes ?c1 = 0 \<or> cn_MaxBytes ?c1 > cn_MaxBytes ?b)
     then ?c1\<lparr>cn_MaxBytes := cn_MaxBytes ?b\<rparr> else ?c1"
  let ?c3 = "if \<not> is_zero_time (cn_ExpiresAt ?b) \<and> (is_zero_time (cn_ExpiresAt ?c2) \<or> cn_ExpiresAt ?b < cn_ExpiresAt ?c2)
     then ?c2\<lparr>cn_ExpiresAt := cn_ExpiresAt ?b\<rparr> else ?c2"
  have i: "intersectAllow e baseline result input lease = constrainAllow e (result\<lparr>pd_Constraints := ?c3\<rparr>) input lease"
    using assms(1) by (auto simp: intersectAllow_def Let_def split: if_splits)
  have "narrower ?c3 ?b" using assms(2) by (auto simp: narrower_def is_zero_time_def)
  then have "narrower (pd_Constraints (result\<lparr>pd_Constraints := ?c3\<rparr>)) ?b" by simp
  then have "narrower (pd_Constraints (constrainAllow e (result\<lparr>pd_Constraints := ?c3\<rparr>) input lease)) ?b"
    by (intro constrainAllow_narrower) (auto simp: narrower_def)
  moreover from assms(1) have "pd_Decision result = DecisionAllow" unfolding i by simp
  ultimately show ?thesis unfolding i by simp
qed

lemma decide_rule_allow:
  assumes "decide e input baseline (finish_rule e input baseline lease now) now = (d, err)"
    and "pd_Decision d = DecisionAllow"
  shows "err = None \<and> pd_Decision baseline = DecisionAllow \<and> narrower (pd_Constraints d) (pd_Constraints baseline)"
  using decide_allow [OF assms]
proof (elim conjE disjE exE)
  fix result
  assume "pd_Decision baseline = DecisionAllow"
    "finish_rule e input baseline lease now (versioned e result) = (d, err)"
  with finish_rule_allow [OF this(2) assms(2)] assms(2) intersectAllow_narrower PolicyDecision_bytes
  show ?thesis by metis
qed simp

section \<open>The lease behind a side effect\<close>

lemma Validate_Inr:
  assumes "Validate m ck ctx c s = (Inr l, s')"
  shows "s' = s \<and> (\<exists>trusted. manager_now ck = Inr trusted
     \<and> fetch_lease m (withLeaseTenant ctx (ch_TenantID c)) (ch_LeaseID c) CodeLeaseExpired s = Inr l
     \<and> usable l (leaseAuthorizationTime ctx trusted) \<and> check_binding c l = None)"
  using assms unfolding Validate_def Let_def
  by (auto split: option.splits sum.splits if_splits)

definition lease_covers :: "CapabilityLease \<Rightarrow> string \<Rightarrow> PolicyInput \<Rightarrow> bool" where
  \<comment> \<open>the lease is for this very principal, scope, action, resource, parameters, budget and policy\<close>
  "lease_covers l version input \<longleftrightarrow>
     cl_AgentInstanceID l = pc_ID (pi_Principal input) \<and> cl_PrincipalID l = pc_ID (pi_Principal input)
     \<and> cl_PrincipalType l = pc_Type (pi_Principal input) \<and> cl_Role l = pc_Role (pi_Principal input)
     \<and> cl_TenantID l = sc_TenantID (pi_Project input) \<and> cl_ProjectID l = sc_ID (pi_Project input)
     \<and> cl_ProjectVersion l = sc_StateVersion (pi_Project input)
     \<and> cl_TaskID l = ts_ID (pi_Task input) \<and> cl_TaskVersion l = ts_StateVersion (pi_Task input)
     \<and> cl_SpecDigest l = ts_SpecDigest (pi_Task input) \<and> cl_Action l = pi_Action input
     \<and> action_string (pi_Action input) \<in> set (cl_Capabilities l)
     \<and> resourcesEqual (pi_Resource input) (cl_Resource l) \<and> cl_ParameterDigest l = pi_ParameterDigest input
     \<and> cl_PolicyVersion l = version \<and> cl_BudgetAccountID l = bs_AccountID (pi_Budget input)"

lemma listed_iff: "lease_containsString xs x \<longleftrightarrow> x \<in> set xs"
  by (auto simp: lease_containsString_def list_ex_iff)

lemma check_binding_covers:
  assumes "check_binding (input_lease_check e input reference now) l = None"
  shows "lease_covers l (bundle_version e) input \<and> cl_FencingToken l = lr_FencingToken reference"
proof -
  have "\<not> (check_binding (input_lease_check e input reference now) l \<noteq> None)" using assms by simp
  then show ?thesis
    unfolding check_binding_def input_lease_check_def Let_def lease_covers_def listed_iff
    by (simp split: if_splits)
qed

lemma validateLease_Inr:
  assumes "validateLease e ck ctx input now s = (Inr lease, s')" and "IsSideEffect (pi_Action input)"
  shows "s' = s \<and> (\<exists>m reference trusted. en_leases e = Some m \<and> pi_Lease input = Some reference
     \<and> manager_now ck = Inr trusted
     \<and> fetch_lease m (withLeaseTenant ctx (sc_TenantID (pi_Project input))) (lr_ID reference) CodeLeaseExpired s = Inr lease
     \<and> usable lease (leaseAuthorizationTime ctx trusted)
     \<and> lease_covers lease (bundle_version e) input \<and> cl_FencingToken lease = lr_FencingToken reference
     \<and> cl_ExpiresAt lease = lr_ExpiresAt reference \<and> \<not> missing_commit_facts input)"
proof -
  obtain m reference where m: "en_leases e = Some m" "pi_Lease input = Some reference"
    and v: "Validate m ck ctx (input_lease_check e input reference now) s = (Inr lease, s')"
    and x: "cl_ExpiresAt lease = lr_ExpiresAt reference" "\<not> missing_commit_facts input"
    using assms unfolding validateLease_def
    by (auto split: option.splits if_splits prod.splits sum.splits)
  have c: "ch_TenantID (input_lease_check e input reference now) = sc_TenantID (pi_Project input)"
    "ch_LeaseID (input_lease_check e input reference now) = lr_ID reference"
    by (simp_all add: input_lease_check_def Let_def)
  from Validate_Inr [OF v, unfolded c] m x check_binding_covers show ?thesis by blast
qed

lemma usable_expiry: "usable l now \<Longrightarrow> cl_ExpiresAt l \<noteq> 0"
  by (auto simp: usable_def IsExpired_def is_zero_time_def)

lemma Evaluate_allow:
  assumes "Evaluate (Some e) ck ctx clock input s = ((d, err), s')" and "pd_Decision d = DecisionAllow"
  shows "\<exists>now lease. admitted e ctx clock input = Inr now \<and> validateExecutionBoundary input = None
     \<and> validateLease e ck ctx input now s = (Inr lease, s') \<and> bundleUsable (Some e)
     \<and> decide e input (defaultDecision e input lease now)
          (finish_rule e input (defaultDecision e input lease now) lease now) now = (d, err)"
proof (cases "bundleUsable (Some e)")
  case False
  with assms show ?thesis by (auto simp: Evaluate_def policy_unavailable_def)
next
  case u: True
  show ?thesis
  proof (cases "admitted e ctx clock input")
    case (Inl v)
    have "pd_Decision (fst v) \<noteq> DecisionAllow"
      using Inl by (auto simp: admitted_def split: option.splits sum.splits)
    with assms u Inl show ?thesis by (auto simp: Evaluate_def)
  next
    case (Inr now)
    show ?thesis
    proof (cases "validateExecutionBoundary input")
      case None
      obtain r t where v: "validateLease e ck ctx input now s = (r, t)" by fastforce
      show ?thesis
      proof (cases r)
        case (Inl er)
        with assms u Inr None v have "d = fst (refused e (reasonForError er) er)" by (simp add: Evaluate_def)
        with assms(2) show ?thesis by simp
      next
        case l: (Inr lease)
        with assms u Inr None v show ?thesis by (simp add: Evaluate_def Let_def)
      qed
    next
      case (Some er)
      with assms u Inr have "d = fst (refused e ''EXECUTION_BOUNDARY_DENIED'' (GoAor er))" by (simp add: Evaluate_def)
      with assms(2) show ?thesis by simp
    qed
  qed
qed

lemma admitted_Inr:
  "admitted e ctx clock input = Inr now \<Longrightarrow>
     cx_Err ctx = None \<and> policyAuthorizationTime input clock = Inr now \<and> PolicyInput_Validate input now = None
     \<and> validateApprovalProof e input = None"
  by (auto simp: admitted_def split: option.splits sum.splits)

section \<open>The reference policy\<close>

lemma constrainAllow_expiry:
  assumes "IsSideEffect (pi_Action input)" and "cl_ExpiresAt lease \<noteq> 0"
  shows "cn_ExpiresAt (pd_Constraints (constrainAllow e (allowDecision v rule reasons) input lease)) = cl_ExpiresAt lease"
  using assms by (simp add: constrainAllow_def Let_def is_zero_time_def zero_Constraints_def)

lemma first_owned_Some: "first_owned p xs = Some owned \<Longrightarrow> owned \<in> set xs \<and> pathMatchesGlob p owned"
  by (induction p xs rule: first_owned.induct) (auto split: if_splits)

lemma repoWriteDecision_allow:
  assumes "pd_Decision (repoWriteDecision e input lease) = DecisionAllow"
  shows "pc_Type (pi_Principal input) = PrincipalAgentInstance \<and> pc_Role (pi_Principal input) = RoleExecutor
     \<and> sc_State (pi_Project input) = ''EXECUTING'' \<and> ts_State (pi_Task input) = ''EXECUTING''
     \<and> (\<exists>owned \<in> set (ts_OwnedPaths (pi_Task input)). pathMatchesGlob (rs_Path (pi_Resource input)) owned
          \<and> pd_Constraints (repoWriteDecision e input lease)
            = \<lparr>cn_PathGlob = owned, cn_MaxBytes = en_maxWriteBytes e, cn_ExpiresAt = cl_ExpiresAt lease, cn_AllowedMethods = []\<rparr>)"
  using assms first_owned_Some
  by (auto simp: repoWriteDecision_def Let_def split: if_splits option.splits)

lemma defaultDecision_expiry:
  assumes "pd_Decision (defaultDecision e input lease now) = DecisionAllow"
    and "IsSideEffect (pi_Action input)" and "cl_ExpiresAt lease \<noteq> 0"
  shows "cn_ExpiresAt (pd_Constraints (defaultDecision e input lease now)) = cl_ExpiresAt lease"
proof (cases "pi_Action input = ActionRepoWrite \<or> pi_Action input = ActionRepoApplyPatch")
  case True
  with assms(1) have "pd_Decision (repoWriteDecision e input lease) = DecisionAllow" by (auto simp: defaultDecision_def)
  from repoWriteDecision_allow [OF this] True show ?thesis by (auto simp: defaultDecision_def)
next
  case False
  note x = constrainAllow_expiry [OF assms(2,3)]
  from assms(2) False consider "pi_Action input = ActionToolInvoke" | "pi_Action input = ActionKnowledgeWrite"
    | "pi_Action input = ActionArtifactPublish" | "pi_Action input = ActionPolicyWrite" | "pi_Action input = ActionDeploy"
    | "pi_Action input = ActionSandboxExec" | "pi_Action input = ActionIntegrationMerge"
    by (cases "pi_Action input") auto
  then show ?thesis
    using assms(1) x
    by cases (auto simp: defaultDecision_def toolInvokeDecision_def knowledgeWriteDecision_def artifactPublishDecision_def
        breakGlassDecision_def sandboxExecDecision_def integrationMergeDecision_def Let_def split: if_splits)
qed

end
