(* ===== verification/Policy_Properties.thy ===== *)
theory Policy_Properties
  imports Policy_Safety
begin

text \<open>
  The properties of the policy engine with its lease manager over the in-memory store: what stands
  behind an allowed side effect, the limits of custom rules, and the exactness of grants.
\<close>

section \<open>An allowed write\<close>

definition ex_task :: TaskScope where
  "ex_task = \<lparr>ts_TenantID = ''t1'', ts_ProjectID = ''p1'', ts_ID = ''task-1'', ts_State = ''EXECUTING'',
     ts_StateVersion = 2, ts_SpecDigest = zero_digest, ts_OwnedPaths = [''docs/*.md'', ''src/**''],
     ts_ExecutionPlatform = ''LINUX'', ts_SandboxLevel = ''CONTAINER'', ts_WorkloadTrust = ''TRUSTED'',
     ts_DeploymentProfile = ''TEST'', ts_HostileMultiTenant = False, ts_RequiresNetworkIsolation = False,
     ts_RequiresHiddenConfidentiality = False\<rparr>"

definition ex_project :: ProjectScope where
  "ex_project = \<lparr>sc_TenantID = ''t1'', sc_ID = ''p1'', sc_State = ''EXECUTING'', sc_StateVersion = 3,
     sc_Classification = ''INTERNAL''\<rparr>"

definition ex_input :: PolicyInput where
  "ex_input = \<lparr>pi_Principal = ex_agent, pi_Project = ex_project, pi_Task = ex_task, pi_Action = ActionRepoWrite,
     pi_Resource = ex_resource, pi_ParameterDigest = zero_digest,
     pi_Budget = \<lparr>bs_AccountID = ''b1'', bs_Available = True\<rparr>,
     pi_Lease = Some (lease_Reference ex_lease), pi_Approval = None,
     pi_Context = \<lparr>ec_IP = [], ec_Platform = [], ec_SandboxLevel = [], ec_AuthorizationTime = []\<rparr>\<rparr>"

definition ex_rule :: rule where
  \<comment> \<open>a rule that allows every write, up to 4096 bytes\<close>
  "ex_rule input = ((allowDecision ''v1'' ''site.write'' [''SITE''])\<lparr>pd_Constraints := zero_Constraints\<lparr>cn_MaxBytes := 4096\<rparr>\<rparr>, True)"

definition ex_engine :: "MemoryLeaseStore Engine" where
  "ex_engine = NewEngine \<lparr>bu_Version = ''v1'', bu_Digest = [], bu_Available = True, bu_Rules = [Some ex_rule]\<rparr>
     (Some ex_manager) None 0"

definition ex_allowed :: PolicyDecision where
  "ex_allowed = (allowDecision ''v1'' ''site.write'' [''SITE''])\<lparr>pd_Constraints :=
     \<lparr>cn_PathGlob = ''src/**'', cn_MaxBytes = 4096, cn_ExpiresAt = 1090 * second_ns, cn_AllowedMethods = []\<rparr>\<rparr>"

lemma ex_evaluate:
  "Evaluate (Some ex_engine) (clocks_at 1010) ex_lease_context (1010 * second_ns) ex_input ex_store
     = ((ex_allowed, None), ex_store)"
  by code_simp

lemma ex_leases: "en_leases ex_engine = Some ex_manager"
  by (simp add: ex_engine_def NewEngine_def)

section \<open>Side effects\<close>

text \<open>
  C6: no side effect without a lease. Whatever the bundle's rules, the approval verifier and the
  clocks, the engine allows a side effect only if the request refers to a lease that is in the store,
  whose signature verifies, which is active and not expired at the authorization time, which was
  issued for exactly this principal, project and task at their present versions, action, resource,
  parameters, policy version and budget account, and which carries the fencing token and the expiry
  of the reference; the permission ends with the lease. A write to the repository is allowed only to
  an executor while project and task are executing, inside a path its task owns, and the permission
  names that glob and the engine's limit of bytes or a lower one.
\<close>

theorem side_effect_leased:
  assumes "Evaluate (Some e) ck ctx clock input s = ((d, err), s')" and "pd_Decision d = DecisionAllow"
    and "IsSideEffect (pi_Action input)"
    and "\<forall>m. en_leases e = Some m \<longrightarrow> lm_store m = memory_lease_store"
  shows "err = None \<and> s' = s
     \<and> (\<exists>m reference lease trusted. en_leases e = Some m \<and> pi_Lease input = Some reference
          \<and> lease_row s (lr_ID reference) = Some lease \<and> verify_lease m lease = None
          \<and> manager_now ck = Inr trusted \<and> cl_State lease = LeaseActive
          \<and> \<not> IsExpired lease (leaseAuthorizationTime ctx trusted)
          \<and> lease_covers lease (bundle_version e) input
          \<and> cl_FencingToken lease = lr_FencingToken reference \<and> cl_ExpiresAt lease = lr_ExpiresAt reference
          \<and> cn_ExpiresAt (pd_Constraints d) \<noteq> 0 \<and> cn_ExpiresAt (pd_Constraints d) \<le> cl_ExpiresAt lease)
     \<and> (pi_Action input = ActionRepoWrite \<or> pi_Action input = ActionRepoApplyPatch \<longrightarrow>
          pc_Type (pi_Principal input) = PrincipalAgentInstance \<and> pc_Role (pi_Principal input) = RoleExecutor
          \<and> sc_State (pi_Project input) = ''EXECUTING'' \<and> ts_State (pi_Task input) = ''EXECUTING''
          \<and> (\<exists>owned \<in> set (ts_OwnedPaths (pi_Task input)). pathMatchesGlob (rs_Path (pi_Resource input)) owned
               \<and> cn_PathGlob (pd_Constraints d) = owned)
          \<and> (0 < en_maxWriteBytes e \<longrightarrow>
               0 < cn_MaxBytes (pd_Constraints d) \<and> cn_MaxBytes (pd_Constraints d) \<le> en_maxWriteBytes e))"
proof -
  obtain now lease where v: "validateLease e ck ctx input now s = (Inr lease, s')"
    and dec: "decide e input (defaultDecision e input lease now)
        (finish_rule e input (defaultDecision e input lease now) lease now) now = (d, err)"
    using Evaluate_allow [OF assms(1,2)] by blast
  from decide_rule_allow [OF dec assms(2)] have err: "err = None"
    and base: "pd_Decision (defaultDecision e input lease now) = DecisionAllow"
    and nar: "narrower (pd_Constraints d) (pd_Constraints (defaultDecision e input lease now))" by blast+
  obtain m reference trusted where m: "en_leases e = Some m" "pi_Lease input = Some reference"
      "manager_now ck = Inr trusted" "usable lease (leaseAuthorizationTime ctx trusted)"
      "lease_covers lease (bundle_version e) input" "cl_FencingToken lease = lr_FencingToken reference"
      "cl_ExpiresAt lease = lr_ExpiresAt reference"
    and fetch: "fetch_lease m (withLeaseTenant ctx (sc_TenantID (pi_Project input))) (lr_ID reference) CodeLeaseExpired s = Inr lease"
    and s': "s' = s"
    using validateLease_Inr [OF v assms(3)] by blast
  have row: "lease_row s (lr_ID reference) = Some lease"
    using fetch_lease_row [OF _ fetch] assms(4) m(1) by blast
  have ver: "verify_lease m lease = None" using fetch by (simp add: fetch_lease_Inr)
  note ne = usable_expiry [OF m(4)]
  have expiry: "cn_ExpiresAt (pd_Constraints d) \<noteq> 0" "cn_ExpiresAt (pd_Constraints d) \<le> cl_ExpiresAt lease"
    using nar defaultDecision_expiry [OF base assms(3) ne] ne unfolding narrower_def by simp_all
  have repo: "pc_Type (pi_Principal input) = PrincipalAgentInstance \<and> pc_Role (pi_Principal input) = RoleExecutor
          \<and> sc_State (pi_Project input) = ''EXECUTING'' \<and> ts_State (pi_Task input) = ''EXECUTING''
          \<and> (\<exists>owned \<in> set (ts_OwnedPaths (pi_Task input)). pathMatchesGlob (rs_Path (pi_Resource input)) owned
               \<and> cn_PathGlob (pd_Constraints d) = owned)
          \<and> (0 < en_maxWriteBytes e \<longrightarrow>
               0 < cn_MaxBytes (pd_Constraints d) \<and> cn_MaxBytes (pd_Constraints d) \<le> en_maxWriteBytes e)"
    if "pi_Action input = ActionRepoWrite \<or> pi_Action input = ActionRepoApplyPatch"
  proof -
    from that have def: "defaultDecision e input lease now = repoWriteDecision e input lease"
      by (auto simp: defaultDecision_def)
    from repoWriteDecision_allow [OF base [unfolded def]] obtain owned where
      own: "owned \<in> set (ts_OwnedPaths (pi_Task input))" "pathMatchesGlob (rs_Path (pi_Resource input)) owned"
      and c: "pd_Constraints (repoWriteDecision e input lease)
        = \<lparr>cn_PathGlob = owned, cn_MaxBytes = en_maxWriteBytes e, cn_ExpiresAt = cl_ExpiresAt lease, cn_AllowedMethods = []\<rparr>"
      and who: "pc_Type (pi_Principal input) = PrincipalAgentInstance" "pc_Role (pi_Principal input) = RoleExecutor"
        "sc_State (pi_Project input) = ''EXECUTING''" "ts_State (pi_Task input) = ''EXECUTING''"
      by blast
    have "owned \<noteq> []" using own(2) by (auto simp: pathMatchesGlob_def normalizeGlob_def clean_relative_def split: option.splits)
    with nar def c have "cn_PathGlob (pd_Constraints d) = owned"
      "0 < en_maxWriteBytes e \<longrightarrow> 0 < cn_MaxBytes (pd_Constraints d) \<and> cn_MaxBytes (pd_Constraints d) \<le> en_maxWriteBytes e"
      unfolding narrower_def by simp_all
    with own who show ?thesis by blast
  qed
  from err s' m row ver expiry repo show ?thesis using usable_active [OF m(4)] by blast
qed

theorem side_effect_leased_witness:
  "pd_Decision ex_allowed = DecisionAllow \<and> cn_PathGlob (pd_Constraints ex_allowed) \<in> set (ts_OwnedPaths ex_task)"
proof -
  have "pd_Decision ex_allowed = DecisionAllow" "IsSideEffect (pi_Action ex_input)"
      "\<forall>m. en_leases ex_engine = Some m \<longrightarrow> lm_store m = memory_lease_store" "pi_Action ex_input = ActionRepoWrite"
      "pi_Task ex_input = ex_task"
    by (simp_all add: ex_allowed_def ex_input_def ex_leases ex_manager_def)
  with side_effect_leased [OF ex_evaluate] show ?thesis by auto
qed

text \<open>
  C8: revocation reaches the commit boundary. Once a lease of a reachable store is revoked or
  expired, then at every later moment of every run, whatever rules the bundle has and whatever the
  clocks read, the engine allows no side effect that refers to it.
\<close>

theorem revoked_lease_denied:
  assumes "en_leases e = Some m" and "lm_store m = memory_lease_store"
    and "(lease_step m ^^ i) (NewMemoryLeaseStore, []) x" and "(lease_step m ^^ j) x y"
    and "int (i + j) < token_limit" and "lease_row (fst x) k = Some a" and "cl_State a \<noteq> LeaseActive"
    and "IsSideEffect (pi_Action input)" and "pi_Lease input = Some reference" and "lr_ID reference = k"
  shows "pd_Decision (fst (fst (Evaluate (Some e) ck ctx clock input (fst y)))) \<noteq> DecisionAllow"
proof
  obtain d err s' where ev: "Evaluate (Some e) ck ctx clock input (fst y) = ((d, err), s')"
    by (metis prod.collapse)
  assume "pd_Decision (fst (fst (Evaluate (Some e) ck ctx clock input (fst y)))) = DecisionAllow"
  with ev have "pd_Decision d = DecisionAllow" by simp
  from Evaluate_allow [OF ev this] obtain now lease where
    v: "validateLease e ck ctx input now (fst y) = (Inr lease, s')" by blast
  from validateLease_Inr [OF v assms(8)] assms(1,9) obtain trusted where
    fetch: "fetch_lease m (withLeaseTenant ctx (sc_TenantID (pi_Project input))) k CodeLeaseExpired (fst y) = Inr lease"
    and use: "usable lease (leaseAuthorizationTime ctx trusted)"
    using assms(10) by auto
  have "rows_advance (lease_row (fst x)) (lease_row (fst y))"
    using mem.two_runs [OF assms(3,4,2) _ assms(5)] by (simp add: NewMemoryLeaseStore_def fun_eq_iff)
  with assms(6,7) have "lease_row (fst y) k = Some a" unfolding rows_advance_def lease_advances_def by blast
  with fetch_lease_row [OF assms(2) fetch] have "lease = a" by simp
  with inactive_unusable [OF assms(7)] use show False by blast
qed

theorem revoked_lease_denied_witness:
  "\<forall>ck ctx clock. pd_Decision (fst (fst (Evaluate (Some ex_engine) ck ctx clock ex_input ex_revoked_store))) \<noteq> DecisionAllow"
proof (intro allI)
  fix ck ctx clock
  have zero: "(lease_step ex_manager ^^ 0) (ex_revoked_store, []) (ex_revoked_store, [])" by simp
  have f: "IsSideEffect (pi_Action ex_input)" "pi_Lease ex_input = Some (lease_Reference ex_lease)"
      "lr_ID (lease_Reference ex_lease) = ''lease-1''"
    by (simp_all add: ex_input_def lease_Reference_def ex_lease_def issued_lease_def)
  show "pd_Decision (fst (fst (Evaluate (Some ex_engine) ck ctx clock ex_input ex_revoked_store))) \<noteq> DecisionAllow"
    using revoked_lease_denied [OF ex_leases ex_manager_store ex_all_steps zero _ _ ex_revoked_state f] ex_revoked_row
    by (simp add: token_limit_def)
qed

section \<open>Custom rules\<close>

definition without_rules :: "'s Engine \<Rightarrow> 's Engine" where
  "without_rules e = e\<lparr>en_bundle := (en_bundle e)\<lparr>bu_Rules := []\<rparr>\<rparr>"

lemma without_rules_fields [simp]:
  "bundle_version (without_rules e) = bundle_version e" "en_leases (without_rules e) = en_leases e"
  "en_approvals (without_rules e) = en_approvals e" "en_maxWriteBytes (without_rules e) = en_maxWriteBytes e"
  by (simp_all add: without_rules_def)

lemma without_rules_constrain: "constrainAllow (without_rules e) d input lease = constrainAllow e d input lease"
  by (simp only: constrainAllow_def without_rules_fields)

lemma without_rules_decisions:
  "modelGenerateDecision (without_rules e) input = modelGenerateDecision e input"
  "repoWriteDecision (without_rules e) input lease = repoWriteDecision e input lease"
  "toolInvokeDecision (without_rules e) input lease = toolInvokeDecision e input lease"
  "sandboxExecDecision (without_rules e) input lease = sandboxExecDecision e input lease"
  "integrationMergeDecision (without_rules e) input lease = integrationMergeDecision e input lease"
  "knowledgeWriteDecision (without_rules e) input lease now = knowledgeWriteDecision e input lease now"
  "artifactPublishDecision (without_rules e) input lease now = artifactPublishDecision e input lease now"
  "breakGlassDecision (without_rules e) input lease now = breakGlassDecision e input lease now"
  by (simp_all only: modelGenerateDecision_def repoWriteDecision_def toolInvokeDecision_def sandboxExecDecision_def
      integrationMergeDecision_def knowledgeWriteDecision_def artifactPublishDecision_def breakGlassDecision_def
      without_rules_constrain without_rules_fields)

lemma without_rules_default: "defaultDecision (without_rules e) input lease now = defaultDecision e input lease now"
  by (cases "pi_Action input") (simp_all add: defaultDecision_def without_rules_decisions)

lemma without_rules_lease: "validateLease (without_rules e) ck ctx input now s = validateLease e ck ctx input now s"
proof -
  have check: "input_lease_check (without_rules e) input reference now = input_lease_check e input reference now" for reference
    by (simp add: input_lease_check_def)
  show ?thesis unfolding validateLease_def check without_rules_fields ..
qed

lemma without_rules_admitted:
  assumes "admitted e ctx clock input = Inr now"
  shows "admitted (without_rules e) ctx clock input = Inr now"
proof -
  have proof_check: "validateApprovalProof (without_rules e) input = validateApprovalProof e input"
    by (simp only: validateApprovalProof_def without_rules_fields)
  from admitted_Inr [OF assms] show ?thesis by (simp add: admitted_def proof_check)
qed

text \<open>
  C19: a custom rule can refuse or narrow, and nothing else. Whenever an engine allows a request,
  its reference policy alone allows it in the same state, up to the last check of the shape of the
  decision, and every bound the reference policy sets, the glob, the bytes and the expiry, is kept or
  tightened.
\<close>

theorem rules_only_narrow:
  assumes "Evaluate (Some e) ck ctx clock input s = ((d, err), s')" and "pd_Decision d = DecisionAllow"
  shows "\<exists>now lease baseline. validateLease e ck ctx input now s = (Inr lease, s')
     \<and> baseline = defaultDecision e input lease now \<and> pd_Decision baseline = DecisionAllow
     \<and> fst (Evaluate (Some (without_rules e)) ck ctx clock input s) = checked_decision (without_rules e) baseline now
     \<and> narrower (pd_Constraints d) (pd_Constraints baseline)"
proof -
  obtain now lease where adm: "admitted e ctx clock input = Inr now" and bound: "validateExecutionBoundary input = None"
    and v: "validateLease e ck ctx input now s = (Inr lease, s')" and use: "bundleUsable (Some e)"
    and dec: "decide e input (defaultDecision e input lease now)
        (finish_rule e input (defaultDecision e input lease now) lease now) now = (d, err)"
    using Evaluate_allow [OF assms(1,2)] by blast
  note nar = decide_rule_allow [OF dec assms(2)]
  have "bundleUsable (Some (without_rules e))" using use by (simp add: bundleUsable_def without_rules_def)
  then have "fst (Evaluate (Some (without_rules e)) ck ctx clock input s)
      = decide (without_rules e) input (defaultDecision e input lease now)
          (finish_rule (without_rules e) input (defaultDecision e input lease now) lease now) now"
    using without_rules_admitted [OF adm] bound v
    by (simp add: Evaluate_def without_rules_lease without_rules_default Let_def)
  also have "\<dots> = checked_decision (without_rules e) (defaultDecision e input lease now) now"
  proof -
    have none: "first_rule input (bu_Rules (en_bundle (without_rules e))) = None" by (simp add: without_rules_def)
    from nar none show ?thesis by (simp add: decide_def apply_rules_def)
  qed
  finally show ?thesis using v nar by blast
qed

theorem rules_only_narrow_witness:
  "\<exists>baseline :: PolicyDecision. pd_Decision baseline = DecisionAllow \<and> narrower (pd_Constraints ex_allowed) (pd_Constraints baseline)"
proof -
  have "pd_Decision ex_allowed = DecisionAllow" by (simp add: ex_allowed_def)
  from rules_only_narrow [OF ex_evaluate this] show ?thesis by blast
qed

section \<open>Grants\<close>

lemma intersect_binding: "pd_Decision (intersectAllow e b r input lease) = DecisionAllow \<Longrightarrow>
    pd_PolicyVersion (intersectAllow e b r input lease) = pd_PolicyVersion r"
  by (auto simp: intersectAllow_def Let_def split: if_splits)

lemma bindGrant_allow:
  "pd_Decision d = DecisionAllow \<Longrightarrow>
     pd_Binding (bindGrant d input now) = Some (input_binding input)
     \<and> cn_ExpiresAt (pd_Constraints (bindGrant d input now))
         = (if cn_ExpiresAt (pd_Constraints d) = 0 then now + 5 * minute_ns else cn_ExpiresAt (pd_Constraints d))"
  by (simp add: bindGrant_def Let_def is_zero_time_def)

lemma bindGrant_fields [simp]:
  "pd_Decision (bindGrant d input now) = pd_Decision d"
  "pd_PolicyVersion (bindGrant d input now) = pd_PolicyVersion d"
  by (simp_all add: bindGrant_def Let_def)

lemma default_version: "pd_PolicyVersion (defaultDecision e input lease now) = bundle_version e"
  by (cases "pi_Action input")
    (simp_all add: defaultDecision_def modelGenerateDecision_def repoWriteDecision_def toolInvokeDecision_def
      sandboxExecDecision_def integrationMergeDecision_def knowledgeWriteDecision_def artifactPublishDecision_def
      breakGlassDecision_def denyDecision_def allowDecision_def approvalDecision_def Let_def split: option.split)

lemma grant_allow:
  assumes "EvaluateLeaseGrant (Some e) ctx clock input = (d, err)" and "pd_Decision d = DecisionAllow"
  shows "\<exists>now. admitted e ctx clock input = Inr now \<and> \<not> bad_grant_input input \<and> err = None
     \<and> PolicyDecision_Validate d now = None \<and> pd_Binding d = Some (input_binding input)
     \<and> pd_PolicyVersion d = bundle_version e"
proof -
  have u: "bundleUsable (Some e)" using assms by (auto simp: EvaluateLeaseGrant_def policy_unavailable_def split: if_splits)
  obtain now where adm: "admitted e ctx clock input = Inr now"
  proof (cases "admitted e ctx clock input")
    case (Inl v)
    have "pd_Decision (fst v) \<noteq> DecisionAllow"
      using Inl by (auto simp: admitted_def split: option.splits sum.splits)
    with assms u Inl show ?thesis by (auto simp: EvaluateLeaseGrant_def)
  qed blast
  have good: "\<not> bad_grant_input input"
  proof
    assume "bad_grant_input input"
    with assms(1) u adm have "d = fst (refused e ''INVALID_LEASE_GRANT_INPUT'' (GoAor (scope_error CodePolicyDenied ''lease grant'')))"
      by (simp add: EvaluateLeaseGrant_def)
    with assms(2) show False by simp
  qed
  define baseline where "baseline = bindGrant (defaultDecision e input zero_CapabilityLease now) input now"
  have dec: "decide e input baseline (finish_grant e input baseline now) now = (d, err)"
  proof (cases "validateExecutionBoundary input")
    case None
    with assms(1) u adm good show ?thesis by (simp add: EvaluateLeaseGrant_def baseline_def Let_def)
  next
    case (Some x)
    with assms(1) u adm good have "d = fst (refused e ''EXECUTION_BOUNDARY_DENIED'' (GoAor x))"
      by (simp add: EvaluateLeaseGrant_def)
    with assms(2) show ?thesis by simp
  qed
  note da = decide_allow [OF dec assms(2)]
  then have ba: "pd_Decision (defaultDecision e input zero_CapabilityLease now) = DecisionAllow"
    by (auto simp: baseline_def)
  note bg = bindGrant_allow [OF ba, of input now]
  have out: "err = None \<and> PolicyDecision_Validate d now = None \<and> pd_Binding d = Some (input_binding input)
     \<and> pd_PolicyVersion d = bundle_version e"
  proof (cases "first_rule input (bu_Rules (en_bundle e))")
    case None
    with da bg show ?thesis by (auto simp: baseline_def default_version)
  next
    case (Some x)
    with da obtain result where r: "finish_grant e input baseline now (versioned e result) = (d, err)"
      and x: "x = Inr result" by auto
    have version: "pd_PolicyVersion (versioned e result) = bundle_version e"
    proof (rule ccontr)
      assume "pd_PolicyVersion (versioned e result) \<noteq> bundle_version e"
      with dec ba Some x have "d = fst (refused e ''POLICY_VERSION_MISMATCH'' (GoAor (policy_denied (bundle_version e))))"
        by (simp add: decide_def apply_rules_def baseline_def)
      with assms(2) show False by simp
    qed
    define bound where "bound = bindGrant (versioned e result) input now"
    show ?thesis
    proof (cases "pd_Decision bound = DecisionAllow")
      case True
      define narrowed where "narrowed = (intersectAllow e baseline bound input zero_CapabilityLease)\<lparr>pd_Binding := pd_Binding baseline\<rparr>"
      with r True have c: "checked_decision e narrowed now = (d, err)"
        by (simp add: finish_grant_def bound_def [symmetric] Let_def)
      from checked_decision_allow [OF c assms(2)] have "d = narrowed" "err = None" "PolicyDecision_Validate d now = None" by auto
      moreover from this assms(2) have "pd_Decision (intersectAllow e baseline bound input zero_CapabilityLease) = DecisionAllow"
        by (simp add: narrowed_def)
      note intersect_binding [OF this]
      ultimately show ?thesis using bg version by (simp add: narrowed_def baseline_def bound_def)
    next
      case False
      with r have "checked_decision e bound now = (d, err)" by (simp add: finish_grant_def bound_def [symmetric] Let_def)
      with checked_decision_allow assms(2) False show ?thesis by blast
    qed
  qed
  with adm good show ?thesis by blast
qed

lemma grant_valid_iff:
  assumes "PolicyDecision_Validate d now = None" and "pd_Decision d = DecisionAllow"
  shows "validateLeaseGrant d v b now = None \<longleftrightarrow>
     pd_PolicyVersion d = v \<and> (\<exists>g. pd_Binding d = Some g \<and> decisionBindingsEqual g b)"
  using assms by (auto simp: validateLeaseGrant_def split: option.splits)

lemma validateLeaseGrant_None:
  "validateLeaseGrant d v b now = None \<Longrightarrow>
     pd_Decision d = DecisionAllow \<and> pd_PolicyVersion d = v \<and> (\<exists>g. pd_Binding d = Some g \<and> decisionBindingsEqual g b)"
  by (auto simp: validateLeaseGrant_def split: option.splits if_splits)

lemma issued_binding: "lease_binding ((issued_lease r leaseID nonce now ttl h)\<lparr>cl_Signature := sig\<rparr>) = request_binding r"
  by (simp add: lease_binding_def issued_lease_def request_binding_def cloneResource_def)

definition grant_names :: "PolicyInput \<Rightarrow> DecisionBinding \<Rightarrow> bool" where
  \<comment> \<open>the binding says what the policy input says, fact by fact\<close>
  "grant_names input b \<longleftrightarrow>
     db_PrincipalID b = pc_ID (pi_Principal input) \<and> db_Role b = pc_Role (pi_Principal input)
     \<and> db_TenantID b = sc_TenantID (pi_Project input) \<and> db_ProjectID b = sc_ID (pi_Project input)
     \<and> db_ProjectVersion b = sc_StateVersion (pi_Project input)
     \<and> db_TaskID b = ts_ID (pi_Task input) \<and> db_TaskVersion b = ts_StateVersion (pi_Task input)
     \<and> db_SpecDigest b = ts_SpecDigest (pi_Task input) \<and> db_Action b = pi_Action input
     \<and> rs_Type (db_Resource b) = rs_Type (pi_Resource input) \<and> rs_ID (db_Resource b) = rs_ID (pi_Resource input)
     \<and> rs_Path (db_Resource b) = rs_Path (pi_Resource input)
     \<and> map_of (rs_Attributes (db_Resource b)) = map_of (rs_Attributes (pi_Resource input))
     \<and> db_ParameterDigest b = pi_ParameterDigest input \<and> db_BudgetAccountID b = bs_AccountID (pi_Budget input)"

text \<open>
  The comparison of resources reads the other side's map with an index, where an absent attribute is
  the empty text. A validated input has no empty attribute, and then the comparison is exact.
\<close>

lemma resourcesEqual_exact:
  assumes "gomap_ok (rs_Attributes a)" and "gomap_ok (rs_Attributes b)"
    and "\<And>k v. (k, v) \<in> set (rs_Attributes a) \<Longrightarrow> v \<noteq> []"
  shows "resourcesEqual a b \<longleftrightarrow> rs_Type a = rs_Type b \<and> rs_ID a = rs_ID b \<and> rs_Path a = rs_Path b
     \<and> map_of (rs_Attributes a) = map_of (rs_Attributes b)"
proof
  assume "resourcesEqual a b"
  then have same: "rs_Type a = rs_Type b" "rs_ID a = rs_ID b" "rs_Path a = rs_Path b"
      "length (rs_Attributes a) = length (rs_Attributes b)"
    and each: "\<And>k v. (k, v) \<in> set (rs_Attributes a) \<Longrightarrow> attribute b k = v"
    by (auto simp: resourcesEqual_def list_ex_iff split: if_splits)
  have some: "map_of (rs_Attributes b) k = Some v" if "(k, v) \<in> set (rs_Attributes a)" for k v
    using each [OF that] assms(3) [OF that] by (auto simp: attribute_def split: option.splits)
  then have sub: "fst ` set (rs_Attributes a) \<subseteq> fst ` set (rs_Attributes b)"
    by (force dest: map_of_SomeD)
  have "fst ` set (rs_Attributes a) = fst ` set (rs_Attributes b)"
    using sub same(4) amap.ok_card [OF assms(1)] amap.ok_card [OF assms(2)]
    by (intro card_subset_eq) auto
  then have none: "map_of (rs_Attributes a) k = None \<longleftrightarrow> map_of (rs_Attributes b) k = None" for k
    by (simp add: map_of_eq_None_iff)
  have "map_of (rs_Attributes a) k = map_of (rs_Attributes b) k" for k
  proof (cases "map_of (rs_Attributes a) k")
    case None
    with none show ?thesis by metis
  next
    case (Some v)
    from some [OF map_of_SomeD [OF this]] Some show ?thesis by simp
  qed
  with same show "rs_Type a = rs_Type b \<and> rs_ID a = rs_ID b \<and> rs_Path a = rs_Path b
     \<and> map_of (rs_Attributes a) = map_of (rs_Attributes b)" by blast
next
  assume same: "rs_Type a = rs_Type b \<and> rs_ID a = rs_ID b \<and> rs_Path a = rs_Path b
     \<and> map_of (rs_Attributes a) = map_of (rs_Attributes b)"
  then have "fst ` set (rs_Attributes a) = fst ` set (rs_Attributes b)"
    by (metis dom_map_of_conv_image_fst)
  then have "length (rs_Attributes a) = length (rs_Attributes b)"
    using amap.ok_card [OF assms(1)] amap.ok_card [OF assms(2)] by simp
  moreover have "attribute b k = v" if "(k, v) \<in> set (rs_Attributes a)" for k v
    using gomap_okD [OF assms(1) that] same by (simp add: attribute_def)
  ultimately show "resourcesEqual a b" using same by (auto simp: resourcesEqual_def list_ex_iff)
qed

lemma validated_resource: "PolicyInput_Validate input now = None \<Longrightarrow> check_resource input = None"
proof (rule ccontr)
  assume "PolicyInput_Validate input now = None" and "check_resource input \<noteq> None"
  then obtain e where "check_resource input = Some e" by blast
  then have "PolicyInput_Validate input now \<noteq> None"
    by (simp add: PolicyInput_Validate_def Let_def split: option.split sum.split)
  with \<open>PolicyInput_Validate input now = None\<close> show False by contradiction
qed

lemma admitted_attributes:
  assumes "admitted e ctx clock input = Inr now" and "(k, v) \<in> set (rs_Attributes (pi_Resource input))"
  shows "v \<noteq> []"
proof -
  have "check_resource input = None" using admitted_Inr [OF assms(1)] validated_resource by blast
  then have "\<not> list_ex bad_attribute (rs_Attributes (pi_Resource input))"
    by (simp add: check_resource_def Let_def split: if_splits)
  with assms(2) have "\<not> bad_attribute (k, v)" by (auto simp: list_ex_iff)
  then show ?thesis by (auto simp: bad_attribute_def safeOpaque_def)
qed

lemma bindings_exact:
  assumes "admitted e ctx clock input = Inr now" and "gomap_ok (rs_Attributes (pi_Resource input))"
    and "gomap_ok (rs_Attributes (db_Resource b))"
  shows "decisionBindingsEqual (input_binding input) b \<longleftrightarrow> grant_names input b"
proof -
  have "resourcesEqual (pi_Resource input) (db_Resource b) \<longleftrightarrow>
      rs_Type (pi_Resource input) = rs_Type (db_Resource b) \<and> rs_ID (pi_Resource input) = rs_ID (db_Resource b)
      \<and> rs_Path (pi_Resource input) = rs_Path (db_Resource b)
      \<and> map_of (rs_Attributes (pi_Resource input)) = map_of (rs_Attributes (db_Resource b))"
    by (rule resourcesEqual_exact [OF assms(2,3)]) (rule admitted_attributes [OF assms(1)])
  then show ?thesis
    unfolding decisionBindingsEqual_def grant_names_def input_binding_def by (auto simp: cloneResource_def)
qed

text \<open>
  C20: a grant is good for its own request only. A decision the engine allows as a grant passes the
  manager's check of grants, at the moment it was made, for the engine's policy version and a binding
  with exactly the facts of the policy input, attribute by attribute, and for no other; and whatever
  lease is issued on it, whenever and by whichever manager, is for that policy version and names the
  principal, the role, the project and the task at their versions, the specification, the action, the
  resource, the parameters and the budget account of the input.
\<close>

theorem grant_exact:
  assumes "EvaluateLeaseGrant (Some e) ctx clock input = (d, err)" and "pd_Decision d = DecisionAllow"
    and "gomap_ok (rs_Attributes (pi_Resource input))" and "gomap_ok (rs_Attributes (lq_Resource r))"
  shows "(\<exists>now. policyAuthorizationTime input clock = Inr now
       \<and> (\<forall>v b. gomap_ok (rs_Attributes (db_Resource b)) \<longrightarrow>
            (validateLeaseGrant d v b now = None \<longleftrightarrow> v = bundle_version e \<and> grant_names input b)))
     \<and> (lq_Grant r = d \<and> Issue_plan m ck ctx' uuid bytes r = Inr l \<longrightarrow>
          cl_PolicyVersion l = bundle_version e
          \<and> cl_PrincipalID l = pc_ID (pi_Principal input) \<and> cl_Role l = pc_Role (pi_Principal input)
          \<and> cl_TenantID l = sc_TenantID (pi_Project input) \<and> cl_ProjectID l = sc_ID (pi_Project input)
          \<and> cl_ProjectVersion l = sc_StateVersion (pi_Project input)
          \<and> cl_TaskID l = ts_ID (pi_Task input) \<and> cl_TaskVersion l = ts_StateVersion (pi_Task input)
          \<and> cl_SpecDigest l = ts_SpecDigest (pi_Task input) \<and> cl_Action l = pi_Action input
          \<and> rs_Type (cl_Resource l) = rs_Type (pi_Resource input) \<and> rs_ID (cl_Resource l) = rs_ID (pi_Resource input)
          \<and> rs_Path (cl_Resource l) = rs_Path (pi_Resource input)
          \<and> map_of (rs_Attributes (cl_Resource l)) = map_of (rs_Attributes (pi_Resource input))
          \<and> cl_ParameterDigest l = pi_ParameterDigest input \<and> cl_BudgetAccountID l = bs_AccountID (pi_Budget input))"
proof (intro conjI [of "\<exists>now. _ now"] impI)
  obtain now where adm: "admitted e ctx clock input = Inr now" and val: "PolicyDecision_Validate d now = None"
    and bind: "pd_Binding d = Some (input_binding input)" and ver: "pd_PolicyVersion d = bundle_version e"
    using grant_allow [OF assms(1,2)] by blast
  note exact = bindings_exact [OF adm assms(3)]
  have "validateLeaseGrant d v b now = None \<longleftrightarrow> v = bundle_version e \<and> grant_names input b"
    if "gomap_ok (rs_Attributes (db_Resource b))" for v b
    using grant_valid_iff [OF val assms(2), of v b] bind ver exact [OF that] by auto
  then show "\<exists>now. policyAuthorizationTime input clock = Inr now
       \<and> (\<forall>v b. gomap_ok (rs_Attributes (db_Resource b)) \<longrightarrow>
            (validateLeaseGrant d v b now = None \<longleftrightarrow> v = bundle_version e \<and> grant_names input b))"
    using admitted_Inr [OF adm] by (intro exI [of _ now]) simp
  assume r: "lq_Grant r = d \<and> Issue_plan m ck ctx' uuid bytes r = Inr l"
  then obtain now' leaseID nonce ttl h sig where
    g: "validateLeaseGrant d (lq_PolicyVersion r) (request_binding (defaulted_agent r)) now' = None"
    and l: "l = (issued_lease (defaulted_agent r) leaseID nonce now' ttl h)\<lparr>cl_Signature := sig\<rparr>"
    using Issue_plan_Inr [of m ck ctx' uuid bytes r l] by auto
  from validateLeaseGrant_None [OF g] bind ver
  have version: "lq_PolicyVersion r = bundle_version e"
    and "decisionBindingsEqual (input_binding input) (request_binding (defaulted_agent r))" by auto
  moreover have "gomap_ok (rs_Attributes (db_Resource (request_binding (defaulted_agent r))))"
    using assms(4) by (simp add: request_binding_def defaulted_agent_def cloneResource_def)
  ultimately have "grant_names input (lease_binding l)" using exact unfolding l issued_binding by blast
  moreover have "cl_PolicyVersion l = bundle_version e" using version by (simp add: l issued_lease_def defaulted_agent_def)
  ultimately show "cl_PolicyVersion l = bundle_version e
          \<and> cl_PrincipalID l = pc_ID (pi_Principal input) \<and> cl_Role l = pc_Role (pi_Principal input)
          \<and> cl_TenantID l = sc_TenantID (pi_Project input) \<and> cl_ProjectID l = sc_ID (pi_Project input)
          \<and> cl_ProjectVersion l = sc_StateVersion (pi_Project input)
          \<and> cl_TaskID l = ts_ID (pi_Task input) \<and> cl_TaskVersion l = ts_StateVersion (pi_Task input)
          \<and> cl_SpecDigest l = ts_SpecDigest (pi_Task input) \<and> cl_Action l = pi_Action input
          \<and> rs_Type (cl_Resource l) = rs_Type (pi_Resource input) \<and> rs_ID (cl_Resource l) = rs_ID (pi_Resource input)
          \<and> rs_Path (cl_Resource l) = rs_Path (pi_Resource input)
          \<and> map_of (rs_Attributes (cl_Resource l)) = map_of (rs_Attributes (pi_Resource input))
          \<and> cl_ParameterDigest l = pi_ParameterDigest input \<and> cl_BudgetAccountID l = bs_AccountID (pi_Budget input)"
    unfolding grant_names_def lease_binding_def cloneResource_def DecisionBinding.simps by blast
qed

definition ex_grant_input :: PolicyInput where
  "ex_grant_input = ex_input\<lparr>pi_Lease := None\<rparr>"

definition ex_granted :: PolicyDecision where
  "ex_granted = ex_allowed\<lparr>pd_Constraints := (pd_Constraints ex_allowed)\<lparr>cn_ExpiresAt := 1000 * second_ns + 5 * minute_ns\<rparr>,
     pd_Binding := Some (input_binding ex_grant_input)\<rparr>"

lemma ex_grant_evaluated:
  "EvaluateLeaseGrant (Some ex_engine) ex_lease_context (1000 * second_ns) ex_grant_input = (ex_granted, None)"
  by code_simp

theorem grant_exact_witness:
  "\<exists>now. validateLeaseGrant ex_granted ''v1'' (input_binding ex_grant_input) now = None
     \<and> validateLeaseGrant ex_granted ''v1'' ((input_binding ex_grant_input)\<lparr>db_ParameterDigest := ''other''\<rparr>) now \<noteq> None"
proof -
  let ?b = "input_binding ex_grant_input" and ?b' = "(input_binding ex_grant_input)\<lparr>db_ParameterDigest := ''other''\<rparr>"
  have "pd_Decision ex_granted = DecisionAllow" by (simp add: ex_granted_def ex_allowed_def)
  moreover have "gomap_ok (rs_Attributes (pi_Resource ex_grant_input))" "gomap_ok (rs_Attributes (db_Resource ?b))"
    "gomap_ok (rs_Attributes (db_Resource ?b'))" by code_simp+
  moreover have "grant_names ex_grant_input ?b" by (simp add: grant_names_def input_binding_def cloneResource_def)
  moreover have "pi_ParameterDigest ex_grant_input \<noteq> ''other''" by code_simp
  then have "\<not> grant_names ex_grant_input ?b'" by (simp add: grant_names_def)
  moreover have "bundle_version ex_engine = ''v1''" by (simp add: ex_engine_def NewEngine_def)
  moreover have "gomap_ok (rs_Attributes (lq_Resource ex_request))" by code_simp
  ultimately show ?thesis using grant_exact [OF ex_grant_evaluated, of ex_request] by metis
qed

end
