(* ===== verification/Glob_Properties.thy ===== *)
theory Glob_Properties
  imports Authz_Types
begin

text \<open>
  Ownership globs: a normalized path has no empty, dot or dot-dot segment, and a directory glob
  matches exactly the directory and what lies below it.
\<close>

section \<open>Normalized paths\<close>

definition plain_stack :: "string list \<Rightarrow> bool" where
  \<comment> \<open>what the stack of a relative \<open>path.Clean\<close> holds, the last element first\<close>
  "plain_stack st \<longleftrightarrow>
     (\<forall>p \<in> set st. p \<noteq> [] \<and> p \<noteq> ''.'' \<and> CHR ''/'' \<notin> set p) \<and> (''..'' \<in> set st \<longrightarrow> last st = ''..'')"

lemma plain_stack_push:
  assumes "plain_stack st" and "CHR ''/'' \<notin> set part"
  shows "plain_stack (clean_push False st part)"
proof (cases st)
  case Nil
  with assms show ?thesis by (auto simp: plain_stack_def)
next
  case (Cons prev rest)
  have "plain_stack rest" if "prev \<noteq> ''..''" using assms(1) that Cons by (auto simp: plain_stack_def split: if_splits)
  moreover have "plain_stack (part # st)" if "part \<noteq> []" "part \<noteq> ''.''" "part = ''..'' \<longrightarrow> prev = ''..''"
    using assms that Cons by (auto simp: plain_stack_def)
  ultimately show ?thesis using assms(1) Cons by auto
qed

lemma plain_stack_foldl:
  "plain_stack st \<Longrightarrow> (\<And>p. p \<in> set ps \<Longrightarrow> CHR ''/'' \<notin> set p) \<Longrightarrow> plain_stack (foldl (clean_push False) st ps)"
proof (induction ps arbitrary: st)
  case (Cons p ps)
  then show ?case using plain_stack_push [of st p] by (simp del: clean_push.simps)
qed simp

lemma clean_relative_Some:
  assumes "clean_relative v = Some c"
  shows "c = v \<and> (\<forall>p \<in> set (split_byte (CHR ''/'') v). p \<noteq> [] \<and> p \<noteq> ''.'' \<and> p \<noteq> ''..'')"
proof -
  from assms have c: "c = v" and clean: "path_clean v = v" and rel: "\<not> has_prefix v ''/''" and v: "v \<noteq> []"
    and dots: "v \<noteq> ''.''" "v \<noteq> ''..''" "\<not> has_prefix v ''../''"
    by (auto simp: clean_relative_def Let_def split: if_splits)
  define st where "st = foldl (clean_push False) [] (split_byte (CHR ''/'') v)"
  have plain: "plain_stack st"
    unfolding st_def by (rule plain_stack_foldl) (auto simp: plain_stack_def dest: split_byte_no_sep)
  from clean rel have out: "(if join_with ''/'' (rev st) = [] then ''.'' else join_with ''/'' (rev st)) = v"
    by (auto simp: path_clean_def st_def Let_def split: if_splits)
  with dots(1) have join: "join_with ''/'' (rev st) = v" by (auto split: if_splits)
  with v have ne: "st \<noteq> []" by auto
  have parts: "split_byte (CHR ''/'') v = rev st"
    using split_byte_join [of "rev st" "CHR ''/''"] plain ne join by (auto simp: plain_stack_def)
  have "''..'' \<notin> set st"
  proof
    assume "''..'' \<in> set st"
    with plain have "last st = ''..''" by (simp add: plain_stack_def)
    with ne obtain qs where rev: "rev st = ''..'' # qs" by (metis hd_rev list.exhaust_sel rev_is_Nil_conv)
    show False
    proof (cases qs)
      case Nil
      with rev join dots(2) show False by simp
    next
      case (Cons q qs')
      with rev join have "v = ''../'' @ join_with ''/'' (q # qs')" by simp
      with dots(3) has_prefix_append [of "''../''"] show False by metis
    qed
  qed
  with plain parts c show ?thesis by (auto simp: plain_stack_def)
qed

section \<open>Directory globs\<close>

lemma split_byte_append: "split_byte d (s @ d # t) = split_byte d s @ split_byte d t"
proof (induction s)
  case (Cons c s)
  then show ?case by (cases "split_byte d s") auto
qed simp

lemma join_with_append:
  "ps \<noteq> [] \<Longrightarrow> qs \<noteq> [] \<Longrightarrow> join_with sep (ps @ qs) = join_with sep ps @ sep @ join_with sep qs"
proof (induction ps rule: induct_list012)
  case (2 x)
  then show ?case by (cases qs) auto
qed auto

lemma prefix_split_byte:
  "prefix (split_byte d s) (split_byte d t) \<longleftrightarrow> t = s \<or> (\<exists>u. t = s @ d # u)"
proof
  assume "prefix (split_byte d s) (split_byte d t)"
  then obtain qs where qs: "split_byte d t = split_byte d s @ qs" by (auto simp: prefix_def)
  have t: "t = join_with [d] (split_byte d s @ qs)" by (metis join_split_byte qs)
  show "t = s \<or> (\<exists>u. t = s @ d # u)"
  proof (cases "qs = []")
    case True
    with t show ?thesis by (simp add: join_split_byte)
  next
    case False
    with t show ?thesis by (simp add: join_with_append join_split_byte)
  qed
qed (auto simp: split_byte_append)

lemma literal_parts:
  assumes "literal s"
  shows "\<forall>p \<in> set (split_byte (CHR ''/'') s). literal p"
proof -
  have "set p \<subseteq> set s" if "p \<in> set (split_byte (CHR ''/'') s)" for p
    using that by (induction s arbitrary: p) (fastforce split: if_splits list.splits)+
  with assms show ?thesis by (fastforce simp: literal_def)
qed

lemma segmentMatch_literal [simp]: "literal p \<Longrightarrow> segmentMatch c p \<longleftrightarrow> c = p"
  by (simp add: segmentMatch_def path_match_literal)

lemma globPartsMatch_directory:
  "\<forall>p \<in> set ps. literal p \<Longrightarrow> globPartsMatch cs (ps @ [''**'']) \<longleftrightarrow> prefix ps cs"
proof (induction ps arbitrary: cs)
  case (Cons p ps)
  then have "p \<noteq> ''**''" by auto
  with Cons show ?case by (cases cs) auto
qed simp

text \<open>
  What an ownership glob of a directory owns. For a directory without metacharacters, a path
  matches the glob that ends in a double star exactly when both are normalized and the path is the
  directory or lies below it, its name followed by a slash; and no segment of a matching path, of any
  glob, is empty, a dot or a dot-dot, so no path climbs out.
\<close>

lemma directory_glob:
  "(literal dir \<longrightarrow>
      pathMatchesGlob path (dir @ ''/**'') =
        (normalizeRelativePath path \<noteq> None \<and> normalizeGlob (dir @ ''/**'') \<noteq> None
         \<and> (path = dir \<or> (\<exists>u. path = dir @ ''/'' @ u))))
   \<and> (pathMatchesGlob path pattern \<longrightarrow>
        \<not> has_prefix path ''/''
        \<and> (\<forall>p \<in> set (split_byte (CHR ''/'') path). p \<noteq> [] \<and> p \<noteq> ''.'' \<and> p \<noteq> ''..''))"
proof (intro conjI impI)
  assume lit: "literal dir"
  have split: "split_byte (CHR ''/'') (dir @ ''/**'') = split_byte (CHR ''/'') dir @ [''**'']"
    using split_byte_append [of "CHR ''/''" dir "''**''"] by simp
  have "dir @ ''/**'' \<noteq> ''**''" by (cases dir) auto
  then have "globMatch path (dir @ ''/**'') \<longleftrightarrow> path = dir \<or> (\<exists>u. path = dir @ ''/'' @ u)"
    by (simp add: globMatch_def split globPartsMatch_directory [OF literal_parts [OF lit]] prefix_split_byte)
  moreover have "c = path" if "normalizeRelativePath path = Some c" for c
    using that clean_relative_Some [of path c] by (simp add: normalizeRelativePath_def)
  moreover have "g = dir @ ''/**''" if "normalizeGlob (dir @ ''/**'') = Some g" for g
    using that clean_relative_Some [of "dir @ ''/**''" g] by (simp add: normalizeGlob_def)
  ultimately show "pathMatchesGlob path (dir @ ''/**'') =
        (normalizeRelativePath path \<noteq> None \<and> normalizeGlob (dir @ ''/**'') \<noteq> None
         \<and> (path = dir \<or> (\<exists>u. path = dir @ ''/'' @ u)))"
    by (auto simp: pathMatchesGlob_def split: option.split)
next
  assume "pathMatchesGlob path pattern"
  then obtain c where c: "clean_relative path = Some c"
    by (auto simp: pathMatchesGlob_def normalizeRelativePath_def split: option.splits)
  then show "\<not> has_prefix path ''/''" by (auto simp: clean_relative_def split: if_splits)
  show "\<forall>p \<in> set (split_byte (CHR ''/'') path). p \<noteq> [] \<and> p \<noteq> ''.'' \<and> p \<noteq> ''..''"
    using clean_relative_Some [OF c] by blast
qed

end
