(* ===== verification/Integration_Store.thy ===== *)
theory Integration_Store
  imports Go_Json
begin

text \<open>
  Integration of modules, \<open>internal/integration/types.go\<close>: candidates, requests, findings and
  results, the checks on them, and the in-memory store that holds one record per integration: the
  result of its merge and the task that reworks it. A Go slice that may be nil is an option of a
  list where the code tells nil from empty; elsewhere it is a list.
\<close>

section \<open>Vocabulary\<close>

datatype merge_error =
    ErrInvalidRequest
  | ErrConflict
  | ErrNotAudited
  | ErrMergeConflict
  | ErrMergePending
  | ErrAttemptState
  | ErrAttemptsExhausted
  | ErrImmutable
  | ErrChecksFailed
  | ErrWorkflowUnavailable
  | ErrModulesNotReady
  | ErrSummaryUnavailable
  | ErrExternal string
  | ErrJoined "merge_error list"

fun error_is :: "merge_error \<Rightarrow> merge_error \<Rightarrow> bool" where
  \<comment> \<open>\<open>errors.Is\<close> through \<open>errors.Join\<close>\<close>
  "error_is (ErrJoined es) target \<longleftrightarrow> ErrJoined es = target \<or> list_ex (\<lambda>e. error_is e target) es"
| "error_is e target \<longleftrightarrow> e = target"

definition CheckCompile :: string where "CheckCompile = ''COMPILE''"
definition CheckContract :: string where "CheckContract = ''CONTRACT''"
definition CheckIntegration :: string where "CheckIntegration = ''INTEGRATION''"
definition CheckE2E :: string where "CheckE2E = ''E2E''"
definition CheckMigration :: string where "CheckMigration = ''MIGRATION''"

definition requiredCheckKinds :: "string list" where
  "requiredCheckKinds = [CheckCompile, CheckContract, CheckIntegration, CheckE2E, CheckMigration]"

definition CheckPassed :: string where "CheckPassed = ''PASS''"
definition CheckFailed :: string where "CheckFailed = ''FAIL''"
definition CheckError :: string where "CheckError = ''ERROR''"

lemmas check_names = CheckCompile_def CheckContract_def CheckIntegration_def CheckE2E_def
  CheckMigration_def CheckPassed_def CheckFailed_def CheckError_def

record CheckResult =
  ck_Kind :: string
  ck_Status :: string
  ck_EvidenceSHA256 :: string
  ck_Summary :: string
  ck_OwnerTaskID :: string
  ck_Tasks :: "string list"
  ck_StartedAt :: time
  ck_CompletedAt :: time

datatype IntegrationTaskState =
    TaskReworkRequired
  | TaskExecuting
  | TaskMergeReserved
  | TaskBlockedUserDecision
  | TaskDone
  | TaskStateOther string

record Candidate =
  ik_TaskID :: string
  ik_ModuleID :: string
  ik_SubmissionCommit :: string
  ik_ModuleSpecRef :: SpecRef
  ik_OwnedPaths :: "string list"
  ik_PublicInterfaces :: "string list"
  ik_EvidenceSHA256 :: string
  ik_AuditPassed :: bool

record MergeVerificationInput =
  mi_TenantID :: string
  mi_ProjectID :: string
  mi_IntegrationID :: string
  mi_IntegrationCommit :: string
  mi_BaseCommit :: string
  mi_Candidates :: "Candidate list"

record IntegrationRequest =
  iq_TenantID :: string
  iq_ProjectID :: string
  iq_IntegrationID :: string
  iq_IdempotencyKey :: string
  iq_BaseCommit :: string
  iq_Candidates :: "Candidate list"
  iq_PolicyDigest :: string
  iq_ExpectedVersion :: int
  iq_CreatedAt :: time
  iq_PrincipalID :: string
  iq_LeaseID :: string
  iq_FencingToken :: int
  iq_OwnerTaskID :: string
  iq_Attempt :: int

record VerifiedRequest =
  vq_TenantID :: string
  vq_ProjectID :: string
  vq_IntegrationID :: string
  vq_BaseCommit :: string
  vq_Candidates :: "Candidate list"
  vq_PolicyDigest :: string
  vq_ExpectedVersion :: int
  vq_PrincipalID :: string
  vq_LeaseID :: string
  vq_FencingToken :: int
  vq_Authorization :: string
  vq_OwnerTaskID :: string
  vq_Attempt :: int

record MergeFinding =
  fd_ID :: string
  fd_Severity :: string
  fd_Category :: string
  fd_Summary :: string
  fd_Tasks :: "string list option"

record MergeAudit =
  au_IntegrationID :: string
  au_ProjectID :: string
  au_BaseCommit :: string
  au_Candidates :: "Candidate list option"
  au_Findings :: "MergeFinding list"
  au_Checks :: "CheckResult list option"
  au_EvidenceSHA256 :: string
  au_Passed :: bool
  au_CreatedAt :: time

record MergeResult =
  mr_TenantID :: string
  mr_IntegrationID :: string
  mr_ProjectID :: string
  mr_OwnerTaskID :: string
  mr_Attempt :: int
  mr_Commit :: string
  mr_RequestDigest :: string
  mr_Audit :: MergeAudit
  mr_Candidates :: "Candidate list option"
  mr_Checks :: "CheckResult list option"
  mr_Duplicate :: bool
  mr_Pending :: bool
  mr_LeaseID :: string
  mr_FencingToken :: int

record IntegrationTask =
  it_TenantID :: string
  it_ProjectID :: string
  it_ID :: string
  it_OwnerTaskID :: string
  it_State :: IntegrationTaskState
  it_Version :: int
  it_Attempt :: int
  it_Conflict :: MergeAudit

record StartAttemptRequest =
  sq_TenantID :: string
  sq_ProjectID :: string
  sq_IntegrationID :: string
  sq_OwnerTaskID :: string
  sq_Attempt :: int
  sq_ExpectedVersion :: int

text \<open>The zero values the code returns beside an error, and starts a record from.\<close>

definition zero_MergeAudit :: MergeAudit where
  "zero_MergeAudit = \<lparr>au_IntegrationID = [], au_ProjectID = [], au_BaseCommit = [], au_Candidates = None,
     au_Findings = [], au_Checks = None, au_EvidenceSHA256 = [], au_Passed = False, au_CreatedAt = 0\<rparr>"

definition zero_MergeResult :: MergeResult where
  "zero_MergeResult = \<lparr>mr_TenantID = [], mr_IntegrationID = [], mr_ProjectID = [], mr_OwnerTaskID = [],
     mr_Attempt = 0, mr_Commit = [], mr_RequestDigest = [], mr_Audit = zero_MergeAudit, mr_Candidates = None,
     mr_Checks = None, mr_Duplicate = False, mr_Pending = False, mr_LeaseID = [], mr_FencingToken = 0\<rparr>"

definition zero_IntegrationTask :: IntegrationTask where
  "zero_IntegrationTask = \<lparr>it_TenantID = [], it_ProjectID = [], it_ID = [], it_OwnerTaskID = [],
     it_State = TaskStateOther [], it_Version = 0, it_Attempt = 0, it_Conflict = zero_MergeAudit\<rparr>"

section \<open>Copies\<close>

definition elements :: "'a list option \<Rightarrow> 'a list" where
  \<comment> \<open>what a loop over the slice visits\<close>
  "elements xs = (case xs of None \<Rightarrow> [] | Some ys \<Rightarrow> ys)"

definition appended_copy :: "'a list \<Rightarrow> 'a list option" where
  \<comment> \<open>\<open>append([]T(nil), xs...)\<close> is nil when there is nothing to append\<close>
  "appended_copy xs = (if xs = [] then None else Some xs)"

definition cloneCandidates :: "Candidate list option \<Rightarrow> Candidate list option" where
  "cloneCandidates input = appended_copy (elements input)"

definition cloneChecks :: "CheckResult list option \<Rightarrow> CheckResult list option" where
  [clone_simps]: "cloneChecks checks = checks"

definition cloneAudit :: "MergeAudit \<Rightarrow> MergeAudit" where
  "cloneAudit a = a\<lparr>au_Candidates := cloneCandidates (au_Candidates a),
     au_Findings := map (\<lambda>f. f\<lparr>fd_Tasks := appended_copy (elements (fd_Tasks f))\<rparr>) (au_Findings a),
     au_Checks := cloneChecks (au_Checks a)\<rparr>"

definition merge_cloneResult :: "MergeResult \<Rightarrow> MergeResult" where
  "merge_cloneResult r = r\<lparr>mr_Audit := cloneAudit (mr_Audit r), mr_Candidates := cloneCandidates (mr_Candidates r),
     mr_Checks := cloneChecks (mr_Checks r)\<rparr>"

definition cloneIntegrationTask :: "IntegrationTask \<Rightarrow> IntegrationTask" where
  "cloneIntegrationTask t = t\<lparr>it_Conflict := cloneAudit (it_Conflict t)\<rparr>"

section \<open>Checks\<close>

definition hex_decodes :: "string \<Rightarrow> bool" where
  \<comment> \<open>\<open>hex.DecodeString\<close> gives no error\<close>
  "hex_decodes s \<longleftrightarrow> even (length s) \<and> list_all hex_digit_char s"

definition commitID :: "string \<Rightarrow> bool" where
  "commitID value \<longleftrightarrow> \<not> (length value \<noteq> 40 \<or> to_lower value \<noteq> value) \<and> hex_decodes value"

definition digestPattern :: "string \<Rightarrow> bool" where
  "digestPattern value \<longleftrightarrow>
     \<not> (\<not> has_prefix value ''sha256:'' \<or> length value \<noteq> 7 + 64 \<or> to_lower value \<noteq> value)
     \<and> hex_decodes (trim_prefix value ''sha256:'')"

definition merge_contains :: "string list \<Rightarrow> string \<Rightarrow> bool" where
  "merge_contains values expected = list_ex (\<lambda>v. v = expected) values"

definition validCheckKind :: "string \<Rightarrow> bool" where
  "validCheckKind kind = list_ex (\<lambda>required. kind = required) requiredCheckKinds"

definition findCheck :: "CheckResult list \<Rightarrow> string \<Rightarrow> CheckResult option" where
  "findCheck checks kind = find (\<lambda>c. ck_Kind c = kind) checks"

definition valid_check :: "CheckResult \<Rightarrow> bool" where
  \<comment> \<open>the conditions of the loop of \<open>validCheckResults\<close> on one check, repetitions aside\<close>
  "valid_check c \<longleftrightarrow>
     \<not> (\<not> validCheckKind (ck_Kind c)
        \<or> (ck_Status c \<noteq> CheckPassed \<and> ck_Status c \<noteq> CheckFailed \<and> ck_Status c \<noteq> CheckError))
     \<and> \<not> (\<not> digestPattern (ck_EvidenceSHA256 c) \<or> is_zero_time (ck_StartedAt c) \<or> is_zero_time (ck_CompletedAt c)
          \<or> ck_CompletedAt c < ck_StartedAt c)
     \<and> \<not> (ck_OwnerTaskID c \<noteq> [] \<and> \<not> merge_contains (ck_Tasks c) (ck_OwnerTaskID c))"

fun check_results_loop :: "string list \<Rightarrow> CheckResult list \<Rightarrow> bool" where
  "check_results_loop seen [] = True"
| "check_results_loop seen (c # cs) =
     (if \<not> valid_check c \<or> ck_Kind c \<in> set seen then False else check_results_loop (ck_Kind c # seen) cs)"

definition validCheckResults :: "CheckResult list option \<Rightarrow> bool \<Rightarrow> bool" where
  "validCheckResults checks requireAllPassed =
     (case checks of
        None \<Rightarrow> \<not> requireAllPassed
      | Some cs \<Rightarrow>
          check_results_loop [] cs
          \<and> (requireAllPassed \<longrightarrow>
               length cs = length requiredCheckKinds
               \<and> list_all (\<lambda>kind. case findCheck cs kind of None \<Rightarrow> False | Some c \<Rightarrow> ck_Status c = CheckPassed)
                   requiredCheckKinds))"

definition sound_candidate :: "Candidate \<Rightarrow> bool" where
  \<comment> \<open>the conditions the loops over candidates share\<close>
  "sound_candidate c \<longleftrightarrow>
     \<not> (ik_TaskID c = [] \<or> ik_ModuleID c = [] \<or> \<not> commitID (ik_SubmissionCommit c)
        \<or> SpecRef_Validate (ik_ModuleSpecRef c) \<noteq> None \<or> \<not> digestPattern (ik_EvidenceSHA256 c))"

fun candidates_loop :: "(Candidate \<Rightarrow> bool) \<Rightarrow> string list \<Rightarrow> Candidate list \<Rightarrow> bool" where
  "candidates_loop good seen [] = True"
| "candidates_loop good seen (c # cs) =
     (if \<not> good c \<or> ik_TaskID c \<in> set seen then False else candidates_loop good (ik_TaskID c # seen) cs)"

definition validStoredCandidates :: "Candidate list option \<Rightarrow> bool" where
  "validStoredCandidates candidates =
     (case candidates of
        None \<Rightarrow> True
      | Some cs \<Rightarrow> \<not> (length cs = 0 \<or> length cs > 1024)
                  \<and> candidates_loop (\<lambda>c. sound_candidate c \<and> ik_AuditPassed c) [] cs)"

definition validConflictResult :: "MergeResult \<Rightarrow> bool" where
  "validConflictResult r \<longleftrightarrow>
     mr_TenantID r \<noteq> [] \<and> mr_ProjectID r \<noteq> [] \<and> mr_IntegrationID r \<noteq> []
     \<and> mr_OwnerTaskID r \<noteq> [] \<and> mr_Attempt r \<ge> 0 \<and> mr_Attempt r \<le> 3
     \<and> mr_Commit r = [] \<and> mr_RequestDigest r = [] \<and> elements (mr_Candidates r) = [] \<and> elements (mr_Checks r) = []
     \<and> \<not> mr_Duplicate r \<and> \<not> mr_Pending r
     \<and> au_IntegrationID (mr_Audit r) = mr_IntegrationID r \<and> au_ProjectID (mr_Audit r) = mr_ProjectID r
     \<and> \<not> au_Passed (mr_Audit r) \<and> au_Findings (mr_Audit r) \<noteq> []
     \<and> validStoredCandidates (au_Candidates (mr_Audit r)) \<and> validCheckResults (au_Checks (mr_Audit r)) False
     \<and> digestPattern (au_EvidenceSHA256 (mr_Audit r)) \<and> \<not> is_zero_time (au_CreatedAt (mr_Audit r))"

definition sameConflictResult :: "MergeResult \<Rightarrow> MergeResult \<Rightarrow> bool" where
  "sameConflictResult a b \<longleftrightarrow>
     validConflictResult a \<and> validConflictResult b
     \<and> mr_TenantID a = mr_TenantID b \<and> mr_ProjectID a = mr_ProjectID b \<and> mr_IntegrationID a = mr_IntegrationID b
     \<and> mr_OwnerTaskID a = mr_OwnerTaskID b \<and> mr_Attempt a = mr_Attempt b
     \<and> au_EvidenceSHA256 (mr_Audit a) = au_EvidenceSHA256 (mr_Audit b)
     \<and> au_Findings (mr_Audit a) = au_Findings (mr_Audit b)"

definition validStartAttemptRequest :: "StartAttemptRequest \<Rightarrow> bool" where
  "validStartAttemptRequest r \<longleftrightarrow>
     sq_TenantID r \<noteq> [] \<and> sq_ProjectID r \<noteq> [] \<and> sq_IntegrationID r \<noteq> [] \<and> sq_OwnerTaskID r \<noteq> []
     \<and> sq_Attempt r \<ge> 1 \<and> sq_Attempt r \<le> 3 \<and> sq_ExpectedVersion r \<ge> 1"

definition upper_byte :: "char \<Rightarrow> char" where
  "upper_byte c =
     (if (97 :: nat) \<le> of_char c \<and> of_char c \<le> (122 :: nat) then char_of (of_char c - (32 :: nat)) else c)"

fun to_upper :: "string \<Rightarrow> string" where
  \<comment> \<open>\<open>strings.ToUpper\<close>: the dotless i and the long s have an ASCII upper case\<close>
  "to_upper [] = []"
| "to_upper (c # s) =
     (if has_prefix (c # s) [CHR 0xC4, CHR 0xB1] then CHR ''I'' # to_upper (drop 1 s)
      else if has_prefix (c # s) [CHR 0xC5, CHR 0xBF] then CHR ''S'' # to_upper (drop 1 s)
      else upper_byte c # to_upper s)"

definition check_finding_prefix :: string where
  "check_finding_prefix = ''integration-check-''"

definition check_finding_ok :: "string list \<Rightarrow> MergeFinding \<Rightarrow> bool" where
  \<comment> \<open>one finding of a failed verification, given the kinds of the failed checks\<close>
  "check_finding_ok failed f \<longleftrightarrow>
     fd_Severity f = ''BLOCKING''
     \<and> (has_prefix (fd_ID f) check_finding_prefix \<or> fd_ID f = ''integration-checks-incomplete'')
     \<and> (has_prefix (fd_ID f) check_finding_prefix \<and> fd_ID f \<noteq> ''integration-check-runner'' \<longrightarrow>
          to_upper (trim_prefix (fd_ID f) check_finding_prefix) \<in> set failed)"

definition isMergeFailureAudit :: "MergeAudit \<Rightarrow> string \<Rightarrow> bool" where
  "isMergeFailureAudit audit ownerTaskID =
     (case au_Findings audit of
        [] \<Rightarrow> False
      | f # fs \<Rightarrow>
          if fs = [] \<and> fd_ID f = ''merge-conflict''
          then fd_Severity f = ''BLOCKING'' \<and> fd_Category f = ''MERGE'' \<and> elements (au_Checks audit) = []
               \<and> merge_contains (elements (fd_Tasks f)) ownerTaskID
          else if length (elements (au_Checks audit)) \<noteq> length requiredCheckKinds
                  \<or> \<not> validCheckResults (au_Checks audit) False then False
          else (let failed = map ck_Kind (filter (\<lambda>c. ck_Status c \<noteq> CheckPassed) (elements (au_Checks audit))) in
                if failed = [] then False
                else list_all (check_finding_ok failed) (f # fs)
                     \<and> list_ex (\<lambda>g. merge_contains (elements (fd_Tasks g)) ownerTaskID) (f # fs)))"

section \<open>The store in memory\<close>

record memoryRecord =
  me_result :: MergeResult
  me_task :: IntegrationTask

type_synonym MergeMemory = "(string, memoryRecord) gomap"

definition NewMergeMemory :: MergeMemory where
  "NewMergeMemory = []"

definition item_key :: "string \<Rightarrow> string \<Rightarrow> string" where
  "item_key tenantID i = tenantID @ [CHR 0x00] @ i"

definition merge_Get :: "string \<Rightarrow> string \<Rightarrow> MergeMemory \<Rightarrow> MergeResult \<times> bool" where
  "merge_Get tenantID i s =
     (case map_of s (item_key tenantID i) of
        None \<Rightarrow> (merge_cloneResult zero_MergeResult, False)
      | Some rec \<Rightarrow> (merge_cloneResult (me_result rec), True))"

definition merge_GetTask :: "string \<Rightarrow> string \<Rightarrow> MergeMemory \<Rightarrow> IntegrationTask \<times> bool" where
  "merge_GetTask tenantID i s =
     (case map_of s (item_key tenantID i) of
        None \<Rightarrow> (cloneIntegrationTask zero_IntegrationTask, False)
      | Some rec \<Rightarrow> (cloneIntegrationTask (me_task rec), True))"

definition canonicalUUID :: "(string \<Rightarrow> string option) \<Rightarrow> string \<Rightarrow> bool" where
  \<comment> \<open>the parameter is \<open>uuid.Parse\<close> followed by \<open>String\<close>, of \<open>github.com/google/uuid\<close>\<close>
  "canonicalUUID parse value = (case parse value of None \<Rightarrow> False | Some s \<Rightarrow> s = to_lower value)"

definition FindConflictByEvidence ::
  "(string \<Rightarrow> string option) \<Rightarrow> string \<Rightarrow> string \<Rightarrow> string \<Rightarrow> MergeMemory \<Rightarrow> merge_error + IntegrationTask option" where
  "FindConflictByEvidence parse tenantID projectID evidenceSHA256 s =
     (if \<not> canonicalUUID parse tenantID \<or> \<not> canonicalUUID parse projectID \<or> \<not> digestPattern evidenceSHA256
      then Inl ErrInvalidRequest
      else (case filter (\<lambda>t. \<not> (it_TenantID t \<noteq> tenantID \<or> it_ProjectID t \<noteq> projectID
                              \<or> au_EvidenceSHA256 (it_Conflict t) \<noteq> evidenceSHA256))
               (map (me_task \<circ> snd) s) of
              [] \<Rightarrow> Inr None
            | [t] \<Rightarrow> Inr (Some (cloneIntegrationTask t))
            | _ \<Rightarrow> Inl ErrImmutable))"

text \<open>The operations that write return what the caller gets, a flag, an error, and the store.\<close>

type_synonym 'a answer = "'a \<times> bool \<times> merge_error option"

definition merge_StartAttempt ::
  "StartAttemptRequest \<Rightarrow> MergeMemory \<Rightarrow> IntegrationTask answer \<times> MergeMemory" where
  "merge_StartAttempt request s =
     (if \<not> validStartAttemptRequest request then ((zero_IntegrationTask, False, Some ErrInvalidRequest), s)
      else (let key = item_key (sq_TenantID request) (sq_IntegrationID request) in
        case map_of s key of
          None \<Rightarrow> ((zero_IntegrationTask, False, Some ErrAttemptState), s)
        | Some rec \<Rightarrow>
            (let task = me_task rec in
             if it_ProjectID task \<noteq> sq_ProjectID request \<or> it_OwnerTaskID task \<noteq> sq_OwnerTaskID request
             then ((zero_IntegrationTask, False, Some ErrAttemptState), s)
             else if it_State task = TaskBlockedUserDecision \<and> it_Attempt task = sq_Attempt request
                     \<and> it_Version task > sq_ExpectedVersion request
             then ((cloneIntegrationTask task, False, Some ErrAttemptsExhausted), s)
             else if it_Attempt task = sq_Attempt request \<and> it_Version task > sq_ExpectedVersion request
             then ((cloneIntegrationTask task, False, None), s)
             else if it_State task \<noteq> TaskReworkRequired \<or> it_Version task \<noteq> sq_ExpectedVersion request
                     \<or> add64 (it_Attempt task) 1 \<noteq> sq_Attempt request
             then ((cloneIntegrationTask task, False, Some ErrAttemptState), s)
             else (let task' = task\<lparr>it_State := TaskExecuting, it_Attempt := sq_Attempt request,
                                    it_Version := add64 (it_Version task) 1\<rparr>;
                       result' = (me_result rec)\<lparr>mr_Attempt := sq_Attempt request\<rparr>
                   in ((cloneIntegrationTask task', True, None),
                       gomap_put key \<lparr>me_result = result', me_task = task'\<rparr> s)))))"

definition conflict_recorded :: "MergeResult \<Rightarrow> memoryRecord \<Rightarrow> memoryRecord" where
  "conflict_recorded result prior =
     \<lparr>me_result = merge_cloneResult result,
      me_task = (me_task prior)\<lparr>it_OwnerTaskID := mr_OwnerTaskID result,
        it_Conflict := cloneAudit (mr_Audit result), it_Version := add64 (it_Version (me_task prior)) 1,
        it_State := (if mr_Attempt result = 3 then TaskBlockedUserDecision else TaskReworkRequired)\<rparr>\<rparr>"

definition first_conflict :: "MergeResult \<Rightarrow> memoryRecord" where
  "first_conflict result =
     \<lparr>me_result = merge_cloneResult result,
      me_task = \<lparr>it_TenantID = mr_TenantID result, it_ProjectID = mr_ProjectID result, it_ID = mr_IntegrationID result,
        it_OwnerTaskID = mr_OwnerTaskID result, it_State = TaskReworkRequired, it_Version = 1, it_Attempt = 0,
        it_Conflict = cloneAudit (mr_Audit result)\<rparr>\<rparr>"

definition merge_RecordConflict :: "MergeResult \<Rightarrow> MergeMemory \<Rightarrow> MergeResult answer \<times> MergeMemory" where
  "merge_RecordConflict result s =
     (if \<not> validConflictResult result then ((zero_MergeResult, False, Some ErrInvalidRequest), s)
      else (let key = item_key (mr_TenantID result) (mr_IntegrationID result) in
        case map_of s key of
          Some prior \<Rightarrow>
            (let task = me_task prior;
                 initialMergeFailure = (mr_Attempt result = 0 \<and> it_State task = TaskMergeReserved
                   \<and> it_Attempt task = 0 \<and> it_OwnerTaskID task = []
                   \<and> isMergeFailureAudit (mr_Audit result) (mr_OwnerTaskID result));
                 reworkFailure = (mr_Attempt result > 0
                   \<and> (it_State task = TaskExecuting
                      \<or> it_State task = TaskMergeReserved \<and> isMergeFailureAudit (mr_Audit result) (mr_OwnerTaskID result)))
             in if it_State task = TaskReworkRequired \<or> it_State task = TaskBlockedUserDecision
                then (if sameConflictResult (me_result prior) result
                      then ((merge_cloneResult (me_result prior), False, None), s)
                      else ((zero_MergeResult, False, Some ErrImmutable), s))
                else if \<not> initialMergeFailure
                        \<and> (it_OwnerTaskID task \<noteq> mr_OwnerTaskID result \<or> it_Attempt task \<noteq> mr_Attempt result)
                then ((zero_MergeResult, False, Some ErrAttemptState), s)
                else if \<not> initialMergeFailure \<and> \<not> reworkFailure
                then ((zero_MergeResult, False, Some ErrAttemptState), s)
                else (let rec = conflict_recorded result prior
                      in ((merge_cloneResult (me_result rec), True, None), gomap_put key rec s)))
        | None \<Rightarrow>
            (if mr_Attempt result \<noteq> 0 then ((zero_MergeResult, False, Some ErrAttemptState), s)
             else ((merge_cloneResult result, True, None), gomap_put key (first_conflict result) s))))"

definition allConflictFindingsOwned :: "MergeFinding list \<Rightarrow> string \<Rightarrow> bool" where
  "allConflictFindingsOwned findings ownerTaskID \<longleftrightarrow>
     findings \<noteq> [] \<and> list_all (\<lambda>f. merge_contains (elements (fd_Tasks f)) ownerTaskID) findings"

definition globalAuditConflictEvidence :: "MergeResult \<Rightarrow> bool" where
  "globalAuditConflictEvidence r =
     (case elements (au_Checks (mr_Audit r)) of
        [check] \<Rightarrow>
          ck_Kind check = CheckIntegration \<and> ck_Status check = CheckError
          \<and> ck_EvidenceSHA256 check = au_EvidenceSHA256 (mr_Audit r)
          \<and> ck_OwnerTaskID check = mr_OwnerTaskID r \<and> merge_contains (ck_Tasks check) (mr_OwnerTaskID r)
          \<and> allConflictFindingsOwned (au_Findings (mr_Audit r)) (mr_OwnerTaskID r)
      | _ \<Rightarrow> False)"

definition RecordGlobalAuditConflict ::
  "MergeResult \<Rightarrow> int \<Rightarrow> MergeMemory \<Rightarrow> MergeResult answer \<times> MergeMemory" where
  "RecordGlobalAuditConflict result expectedProjectVersion s =
     (if expectedProjectVersion < 1 \<or> mr_Attempt result \<noteq> 0 \<or> \<not> globalAuditConflictEvidence result
      then ((zero_MergeResult, False, Some ErrInvalidRequest), s)
      else merge_RecordConflict result s)"

definition merge_Reserve :: "MergeResult \<Rightarrow> MergeMemory \<Rightarrow> MergeResult answer \<times> MergeMemory" where
  "merge_Reserve result s =
     (let key = item_key (mr_TenantID result) (mr_IntegrationID result); pending = result\<lparr>mr_Pending := True\<rparr> in
      case map_of s key of
        Some prior \<Rightarrow>
          (let task = me_task prior; held = me_result prior in
           if mr_RequestDigest held = mr_RequestDigest result
              \<and> au_EvidenceSHA256 (mr_Audit held) = au_EvidenceSHA256 (mr_Audit result)
           then (if it_State task = TaskDone
                    \<and> (mr_LeaseID held \<noteq> mr_LeaseID result \<or> mr_FencingToken held \<noteq> mr_FencingToken result)
                 then ((zero_MergeResult, False, Some ErrImmutable), s)
                 else ((merge_cloneResult held, False, None), s))
           else if mr_RequestDigest held \<noteq> [] then ((zero_MergeResult, False, Some ErrImmutable), s)
           else if mr_Attempt result = 0 \<or> it_State task \<noteq> TaskExecuting \<or> it_Attempt task \<noteq> mr_Attempt result
                   \<or> it_OwnerTaskID task \<noteq> mr_OwnerTaskID result
           then ((zero_MergeResult, False, Some ErrAttemptState), s)
           else (let rec = \<lparr>me_result = merge_cloneResult pending,
                            me_task = task\<lparr>it_State := TaskMergeReserved, it_Version := add64 (it_Version task) 1\<rparr>\<rparr>
                 in ((merge_cloneResult (me_result rec), True, None), gomap_put key rec s)))
      | None \<Rightarrow>
          (if mr_Attempt result \<noteq> 0 \<or> mr_OwnerTaskID result \<noteq> []
           then ((zero_MergeResult, False, Some ErrAttemptState), s)
           else ((merge_cloneResult pending, True, None),
                 gomap_put key
                   \<lparr>me_result = merge_cloneResult pending,
                    me_task = zero_IntegrationTask\<lparr>it_TenantID := mr_TenantID result, it_ProjectID := mr_ProjectID result,
                      it_ID := mr_IntegrationID result, it_State := TaskMergeReserved, it_Version := 1\<rparr>\<rparr> s)))"

definition merge_Complete :: "MergeResult \<Rightarrow> MergeMemory \<Rightarrow> merge_error option \<times> MergeMemory" where
  "merge_Complete result s =
     (if mr_Checks result \<noteq> None \<and> \<not> validCheckResults (mr_Checks result) True
         \<or> \<not> validStoredCandidates (mr_Candidates result)
      then (Some ErrInvalidRequest, s)
      else (let key = item_key (mr_TenantID result) (mr_IntegrationID result) in
        case map_of s key of
          None \<Rightarrow> (Some ErrImmutable, s)
        | Some prior \<Rightarrow>
            (let task = me_task prior; held = me_result prior in
             if mr_RequestDigest held \<noteq> mr_RequestDigest result
                \<or> au_EvidenceSHA256 (mr_Audit held) \<noteq> au_EvidenceSHA256 (mr_Audit result)
             then (Some ErrImmutable, s)
             else if \<not> mr_Pending held
             then (if it_State task = TaskDone
                      \<and> (mr_LeaseID held \<noteq> mr_LeaseID result \<or> mr_FencingToken held \<noteq> mr_FencingToken result)
                   then (Some ErrImmutable, s)
                   else if mr_Commit held = mr_Commit result \<and> it_State task = TaskDone then (None, s)
                   else (Some ErrImmutable, s))
             else if it_State task \<noteq> TaskMergeReserved \<or> it_OwnerTaskID task \<noteq> mr_OwnerTaskID result
                     \<or> it_Attempt task \<noteq> mr_Attempt result
             then (Some ErrAttemptState, s)
             else (None, gomap_put key
                     \<lparr>me_result = merge_cloneResult (result\<lparr>mr_Pending := False\<rparr>),
                      me_task = task\<lparr>it_State := TaskDone, it_Version := add64 (it_Version task) 1\<rparr>\<rparr> s))))"

text \<open>The interface of the store, as the queue uses it.\<close>

record 's MergeStore =
  ss_Get :: "string \<Rightarrow> string \<Rightarrow> 's \<Rightarrow> MergeResult answer"
  ss_GetTask :: "string \<Rightarrow> string \<Rightarrow> 's \<Rightarrow> IntegrationTask answer"
  ss_StartAttempt :: "StartAttemptRequest \<Rightarrow> 's \<Rightarrow> IntegrationTask answer \<times> 's"
  ss_RecordConflict :: "MergeResult \<Rightarrow> 's \<Rightarrow> MergeResult answer \<times> 's"
  ss_Reserve :: "MergeResult \<Rightarrow> 's \<Rightarrow> MergeResult answer \<times> 's"
  ss_Complete :: "MergeResult \<Rightarrow> 's \<Rightarrow> merge_error option \<times> 's"

definition memory_merge_store :: "MergeMemory MergeStore" where
  "memory_merge_store =
     \<lparr>ss_Get = (\<lambda>t i s. (fst (merge_Get t i s), snd (merge_Get t i s), None)),
      ss_GetTask = (\<lambda>t i s. (fst (merge_GetTask t i s), snd (merge_GetTask t i s), None)),
      ss_StartAttempt = merge_StartAttempt, ss_RecordConflict = merge_RecordConflict,
      ss_Reserve = merge_Reserve, ss_Complete = merge_Complete\<rparr>"

end
