(* ===== verification/Integration_Queue.thy ===== *)
theory Integration_Queue
  imports Integration_Store
begin

text \<open>
  The integration queue, \<open>internal/integration/queue.go\<close>: the audit of candidates against each
  other, and the merge of verified candidates, with its recovery and its checks. The gate, the
  executor of merges, the verifier and the clock act on a state \<open>'x\<close> of which the store is a part;
  the order in which a loop visits a Go map and the digests of JSON documents are parameters. The
  queue holds its mutex through each operation, so an operation is one function of the state.
\<close>

section \<open>Names and paths\<close>

definition cleanPath :: "string \<Rightarrow> string option" where
  "cleanPath value =
     (let clean = path_clean (replace_byte (CHR 0x5C) (CHR ''/'') value) in
      if value = [] \<or> clean \<noteq> value \<or> clean = ''.'' \<or> has_prefix clean ''/'' \<or> clean = ''..''
         \<or> has_prefix clean ''../'' \<or> clean = ''.git'' \<or> has_prefix clean ''.git/''
      then None else Some clean)"

definition containsPath :: "string \<Rightarrow> string \<Rightarrow> bool" where
  "containsPath parent child \<longleftrightarrow> parent = child \<or> has_prefix child (parent @ ''/'')"

definition interface_key :: "string \<Rightarrow> string" where
  "interface_key i = to_lower (trim_space i)"

definition canonical_candidate :: "Candidate \<Rightarrow> Candidate" where
  "canonical_candidate c =
     c\<lparr>ik_OwnedPaths := sort (ik_OwnedPaths c), ik_PublicInterfaces := sort (ik_PublicInterfaces c)\<rparr>"

definition canonicalCandidates :: "Candidate list \<Rightarrow> Candidate list" where
  "canonicalCandidates input =
     sort_key (\<lambda>c. (ik_TaskID c, ik_ModuleID c)) (map canonical_candidate input)"

fun first_seen :: "('a \<Rightarrow> string) \<Rightarrow> string list \<Rightarrow> 'a list \<Rightarrow> 'a list" where
  \<comment> \<open>the loops with a set of names already seen\<close>
  "first_seen name seen [] = []"
| "first_seen name seen (x # xs) =
     (if name x \<in> set seen then first_seen name seen xs else x # first_seen name (name x # seen) xs)"

definition deduplicateFindings :: "MergeFinding list \<Rightarrow> MergeFinding list" where
  "deduplicateFindings input = sort_key fd_ID (first_seen fd_ID [] input)"

definition uniqueStrings :: "string list \<Rightarrow> string list" where
  "uniqueStrings values = sort (first_seen (\<lambda>v. v) [] (filter (\<lambda>v. v \<noteq> []) values))"

definition candidateTaskIDs :: "Candidate list \<Rightarrow> string list" where
  "candidateTaskIDs candidates = map ik_TaskID (canonicalCandidates candidates)"

definition validAttemptBinding :: "string \<Rightarrow> int \<Rightarrow> bool" where
  "validAttemptBinding ownerTaskID attempt \<longleftrightarrow>
     attempt = 0 \<and> ownerTaskID = [] \<or> attempt \<ge> 1 \<and> attempt \<le> 3 \<and> ownerTaskID \<noteq> []"

definition mergeExecutionID :: "string \<Rightarrow> int \<Rightarrow> string" where
  "mergeExecutionID integrationID attempt =
     (if attempt = 0 then integrationID else integrationID @ '':attempt:'' @ show_int attempt)"

definition integration_validateRequest :: "IntegrationRequest \<Rightarrow> bool" where
  "integration_validateRequest r \<longleftrightarrow>
     \<not> (iq_TenantID r = [] \<or> iq_ProjectID r = [] \<or> iq_IntegrationID r = [] \<or> iq_IdempotencyKey r = []
        \<or> contains_any (iq_IdempotencyKey r) crlf_nul \<or> \<not> commitID (iq_BaseCommit r)
        \<or> iq_Candidates r = [] \<or> \<not> digestPattern (iq_PolicyDigest r) \<or> iq_ExpectedVersion r < 1
        \<or> is_zero_time (iq_CreatedAt r) \<or> iq_PrincipalID r = [] \<or> iq_LeaseID r = []
        \<or> iq_FencingToken r < 1 \<or> \<not> validAttemptBinding (iq_OwnerTaskID r) (iq_Attempt r))
     \<and> candidates_loop sound_candidate [] (iq_Candidates r)
     \<and> \<not> (iq_Attempt r > 0 \<and> iq_OwnerTaskID r \<notin> set (map ik_TaskID (iq_Candidates r)))"

definition validateVerifiedRequest :: "VerifiedRequest \<Rightarrow> bool" where
  "validateVerifiedRequest r \<longleftrightarrow>
     \<not> (vq_TenantID r = [] \<or> vq_ProjectID r = [] \<or> vq_IntegrationID r = [] \<or> \<not> commitID (vq_BaseCommit r)
        \<or> vq_Candidates r = [] \<or> \<not> digestPattern (vq_PolicyDigest r) \<or> vq_ExpectedVersion r < 1
        \<or> vq_PrincipalID r = [] \<or> vq_LeaseID r = [] \<or> vq_FencingToken r < 1
        \<or> \<not> digestPattern (vq_Authorization r) \<or> \<not> validAttemptBinding (vq_OwnerTaskID r) (vq_Attempt r))
     \<and> candidates_loop (\<lambda>c. sound_candidate c \<and> ik_AuditPassed c) [] (vq_Candidates r)
     \<and> \<not> (vq_Attempt r > 0 \<and> vq_OwnerTaskID r \<notin> set (map ik_TaskID (vq_Candidates r)))"

definition requestMatchesVerified :: "IntegrationRequest \<Rightarrow> VerifiedRequest \<Rightarrow> bool" where
  "requestMatchesVerified r v \<longleftrightarrow>
     iq_TenantID r = vq_TenantID v \<and> iq_ProjectID r = vq_ProjectID v \<and> iq_IntegrationID r = vq_IntegrationID v
     \<and> iq_BaseCommit r = vq_BaseCommit v \<and> iq_PolicyDigest r = vq_PolicyDigest v
     \<and> iq_ExpectedVersion r = vq_ExpectedVersion v \<and> iq_PrincipalID r = vq_PrincipalID v
     \<and> iq_LeaseID r = vq_LeaseID v \<and> iq_FencingToken r = vq_FencingToken v
     \<and> iq_OwnerTaskID r = vq_OwnerTaskID v \<and> iq_Attempt r = vq_Attempt v
     \<and> canonicalCandidates (iq_Candidates r) = canonicalCandidates (vq_Candidates v)"

section \<open>Digests\<close>

text \<open>
  The documents whose canonical JSON is hashed, and the hash of each as a parameter: \<open>json.Marshal\<close>
  followed by \<open>canonicaljson.Digest\<close>.
\<close>

record audit_view =
  av_Request :: VerifiedRequest
  av_Findings :: "MergeFinding list"
  av_Checks :: "CheckResult list"

record request_view =
  rw_Verified :: VerifiedRequest
  rw_Candidates :: "Candidate list"
  rw_IdempotencyKey :: string
  rw_CreatedAt :: time

record check_view =
  kw_TenantID :: string
  kw_ProjectID :: string
  kw_IntegrationID :: string
  kw_IntegrationCommit :: string
  kw_Check :: CheckResult

record merge_digests =
  dg_audit :: "audit_view \<Rightarrow> merge_error + string"
  dg_request :: "request_view \<Rightarrow> merge_error + string"
  dg_check :: "check_view \<Rightarrow> merge_error + string"

definition signed_part :: "VerifiedRequest \<Rightarrow> VerifiedRequest" where
  \<comment> \<open>the lease and the principal are not part of the digest of an audit\<close>
  "signed_part v = v\<lparr>vq_PrincipalID := [], vq_LeaseID := [], vq_FencingToken := 0\<rparr>"

definition auditDigestWithChecks ::
  "merge_digests \<Rightarrow> VerifiedRequest \<Rightarrow> MergeFinding list \<Rightarrow> CheckResult list \<Rightarrow> merge_error + string" where
  "auditDigestWithChecks dg request findings checks =
     dg_audit dg \<lparr>av_Request = signed_part request, av_Findings = findings, av_Checks = checks\<rparr>"

definition auditDigest :: "merge_digests \<Rightarrow> VerifiedRequest \<Rightarrow> MergeFinding list \<Rightarrow> merge_error + string" where
  "auditDigest dg request findings = auditDigestWithChecks dg request findings []"

definition requestDigest :: "merge_digests \<Rightarrow> IntegrationRequest \<Rightarrow> VerifiedRequest \<Rightarrow> merge_error + string" where
  \<comment> \<open>the lease is not part of the digest of a request\<close>
  "requestDigest dg request verified =
     dg_request dg
       \<lparr>rw_Verified = verified\<lparr>vq_Candidates := [], vq_LeaseID := [], vq_FencingToken := 0\<rparr>,
        rw_Candidates = canonicalCandidates (vq_Candidates verified),
        rw_IdempotencyKey = iq_IdempotencyKey request, rw_CreatedAt = utc (iq_CreatedAt request)\<rparr>"

definition normalizedCheckDigest ::
  "merge_digests \<Rightarrow> VerifiedRequest \<Rightarrow> string \<Rightarrow> CheckResult \<Rightarrow> merge_error + string" where
  "normalizedCheckDigest dg request commit check =
     dg_check dg \<lparr>kw_TenantID = vq_TenantID request, kw_ProjectID = vq_ProjectID request,
       kw_IntegrationID = vq_IntegrationID request, kw_IntegrationCommit = commit,
       kw_Check = check\<lparr>ck_EvidenceSHA256 := []\<rparr>\<rparr>"

section \<open>The queue\<close>

record 'x MergeExecutor =
  ex_Merge :: "string \<Rightarrow> string list \<Rightarrow> string \<Rightarrow> 'x \<Rightarrow> (merge_error + string) \<times> 'x"
  ex_Lookup :: "string \<Rightarrow> 'x \<Rightarrow> (merge_error + string option) \<times> 'x"

type_synonym 'x merge_gate = "IntegrationRequest \<Rightarrow> 'x \<Rightarrow> (merge_error + VerifiedRequest) \<times> 'x"
type_synonym 'x merge_verifier = "MergeVerificationInput \<Rightarrow> 'x \<Rightarrow> (CheckResult list \<times> merge_error option) \<times> 'x"

record 'x Queue =
  qu_store :: "'x MergeStore"
  qu_executor :: "'x MergeExecutor"
  qu_gate :: "'x merge_gate"
  qu_clock :: "'x \<Rightarrow> time \<times> 'x"
  qu_digests :: merge_digests
  qu_visit :: "(string, string) gomap \<Rightarrow> (string, string) gomap"

section \<open>The audit\<close>

definition blocking :: "string \<Rightarrow> string \<Rightarrow> string \<Rightarrow> string list \<Rightarrow> MergeFinding" where
  "blocking i category summary tasks =
     \<lparr>fd_ID = i, fd_Severity = ''BLOCKING'', fd_Category = category, fd_Summary = summary, fd_Tasks = Some tasks\<rparr>"

definition evidence_finding :: "string \<Rightarrow> MergeFinding" where
  "evidence_finding task = blocking (''audit-evidence-'' @ task) ''EVIDENCE''
     ''candidate has no passing immutable audit evidence'' [task]"

definition invalid_path_finding :: "string \<Rightarrow> MergeFinding" where
  "invalid_path_finding task = blocking (''path-invalid-'' @ task) ''OWNERSHIP'' ''candidate path is invalid'' [task]"

definition overlap_finding :: "string \<Rightarrow> string \<Rightarrow> MergeFinding" where
  "overlap_finding task prior = blocking (''path-overlap-'' @ prior @ ''-'' @ task) ''OWNERSHIP''
     ''module ownership overlaps'' [prior, task]"

definition interface_finding :: "string \<Rightarrow> string \<Rightarrow> MergeFinding" where
  "interface_finding task prior = blocking (''interface-conflict-'' @ prior @ ''-'' @ task) ''INTERFACE''
     ''public interface is owned by multiple modules'' [prior, task]"

fun paths_loop ::
  "((string, string) gomap \<Rightarrow> (string, string) gomap) \<Rightarrow> string \<Rightarrow> string list \<Rightarrow> (string, string) gomap \<Rightarrow>
     MergeFinding list \<times> (string, string) gomap" where
  "paths_loop visit task [] paths = ([], paths)"
| "paths_loop visit task (raw # rest) paths =
     (case cleanPath raw of
        None \<Rightarrow> (let (fs, paths') = paths_loop visit task rest paths in (invalid_path_finding task # fs, paths'))
      | Some clean \<Rightarrow>
          (let found = map (\<lambda>(p, t). overlap_finding task t)
                 (filter (\<lambda>(p, t). t \<noteq> task \<and> (containsPath p clean \<or> containsPath clean p)) (visit paths));
               (fs, paths') = paths_loop visit task rest (gomap_put clean task paths)
           in (found @ fs, paths')))"

fun interfaces_loop ::
  "string \<Rightarrow> string list \<Rightarrow> (string, string) gomap \<Rightarrow> MergeFinding list \<times> (string, string) gomap" where
  "interfaces_loop task [] ifs = ([], ifs)"
| "interfaces_loop task (i # rest) ifs =
     (let key = interface_key i in
      if key = [] then interfaces_loop task rest ifs
      else (let found = (case map_of ifs key of
                           Some prior \<Rightarrow> if prior \<noteq> task then [interface_finding task prior] else []
                         | None \<Rightarrow> []);
                (fs, ifs') = interfaces_loop task rest (gomap_put key task ifs)
            in (found @ fs, ifs')))"

fun audit_loop ::
  "((string, string) gomap \<Rightarrow> (string, string) gomap) \<Rightarrow> Candidate list \<Rightarrow> (string, string) gomap \<Rightarrow>
     (string, string) gomap \<Rightarrow> MergeFinding list" where
  "audit_loop visit [] paths ifs = []"
| "audit_loop visit (c # cs) paths ifs =
     (let task = ik_TaskID c;
          evidence = (if \<not> ik_AuditPassed c \<or> ik_EvidenceSHA256 c = [] then [evidence_finding task] else []);
          (pf, paths') = paths_loop visit task (ik_OwnedPaths c) paths;
          (inf, ifs') = interfaces_loop task (ik_PublicInterfaces c) ifs
      in evidence @ pf @ inf @ audit_loop visit cs paths' ifs')"

definition audit_findings :: "((string, string) gomap \<Rightarrow> (string, string) gomap) \<Rightarrow> Candidate list \<Rightarrow> MergeFinding list" where
  "audit_findings visit candidates = deduplicateFindings (audit_loop visit candidates [] [])"

definition auditVerified :: "'x Queue \<Rightarrow> VerifiedRequest \<Rightarrow> 'x \<Rightarrow> (merge_error + MergeAudit) \<times> 'x" where
  "auditVerified q request x =
     (let candidates = sort_key ik_TaskID (vq_Candidates request);
          findings = audit_findings (qu_visit q) candidates;
          request' = request\<lparr>vq_Candidates := candidates\<rparr>
      in case auditDigest (qu_digests q) request' findings of
           Inl e \<Rightarrow> (Inl e, x)
         | Inr digest \<Rightarrow>
             (let (now, x') = qu_clock q x in
              (Inr \<lparr>au_IntegrationID = vq_IntegrationID request, au_ProjectID = vq_ProjectID request,
                    au_BaseCommit = vq_BaseCommit request, au_Candidates = appended_copy candidates,
                    au_Findings = findings, au_Checks = None, au_EvidenceSHA256 = digest,
                    au_Passed = findings = [], au_CreatedAt = utc now\<rparr>, x')))"

definition integration_verify :: "'x Queue \<Rightarrow> IntegrationRequest \<Rightarrow> 'x \<Rightarrow> (merge_error + VerifiedRequest) \<times> 'x" where
  "integration_verify q request x =
     (if \<not> integration_validateRequest request then (Inl ErrInvalidRequest, x)
      else (let (now, x1) = qu_clock q x in
        if iq_CreatedAt request > utc now + 60 * second_ns then (Inl ErrInvalidRequest, x1)
        else (case qu_gate q request x1 of
                (Inl _, x2) \<Rightarrow> (Inl ErrNotAudited, x2)
              | (Inr verified, x2) \<Rightarrow>
                  if \<not> validateVerifiedRequest verified \<or> \<not> requestMatchesVerified request verified
                  then (Inl ErrNotAudited, x2) else (Inr verified, x2))))"

definition integration_Audit :: "'x Queue \<Rightarrow> IntegrationRequest \<Rightarrow> 'x \<Rightarrow> (merge_error + MergeAudit) \<times> 'x" where
  "integration_Audit q request x =
     (case integration_verify q request x of
        (Inl e, x1) \<Rightarrow> (Inl e, x1)
      | (Inr verified, x1) \<Rightarrow> auditVerified q verified x1)"

section \<open>Conflicts\<close>

fun conflictOwner :: "string list \<Rightarrow> MergeFinding list \<Rightarrow> string" where
  \<comment> \<open>the last named task of the first finding that names a candidate\<close>
  "conflictOwner allowed [] = []"
| "conflictOwner allowed (f # fs) =
     (case find (\<lambda>t. t \<in> set allowed) (rev (elements (fd_Tasks f))) of
        Some t \<Rightarrow> t | None \<Rightarrow> conflictOwner allowed fs)"

type_synonym merge_answer = "MergeResult \<times> merge_error option"

definition recordConflict :: "'x Queue \<Rightarrow> VerifiedRequest \<Rightarrow> MergeAudit \<Rightarrow> 'x \<Rightarrow> merge_answer \<times> 'x" where
  "recordConflict q request audit x =
     (let owner = (if vq_OwnerTaskID request = []
                   then conflictOwner (map ik_TaskID (vq_Candidates request)) (au_Findings audit)
                   else vq_OwnerTaskID request);
          conflict = zero_MergeResult\<lparr>mr_TenantID := vq_TenantID request, mr_IntegrationID := vq_IntegrationID request,
            mr_ProjectID := vq_ProjectID request, mr_OwnerTaskID := owner, mr_Attempt := vq_Attempt request,
            mr_Audit := audit\<rparr>
      in if owner = [] then ((conflict, Some ErrInvalidRequest), x)
         else (case ss_RecordConflict (qu_store q) conflict x of
                 ((stored, changed, Some e), x1) \<Rightarrow> ((conflict, Some e), x1)
               | ((stored, changed, None), x1) \<Rightarrow>
                   (let stored' = stored\<lparr>mr_Duplicate := \<not> changed\<rparr> in
                    case ss_GetTask (qu_store q) (vq_TenantID request) (vq_IntegrationID request) x1 of
                      (task, found, Some e) \<Rightarrow> ((stored', Some e), x1)
                    | (task, found, None) \<Rightarrow>
                        if \<not> found then ((stored', Some ErrAttemptState), x1)
                        else if it_State task = TaskBlockedUserDecision
                        then ((stored', Some (ErrJoined [ErrConflict, ErrAttemptsExhausted])), x1)
                        else ((stored', Some ErrConflict), x1))))"

definition mergeFailureAudit :: "'x Queue \<Rightarrow> VerifiedRequest \<Rightarrow> 'x \<Rightarrow> (merge_error + MergeAudit) \<times> 'x" where
  "mergeFailureAudit q request x =
     (let finding = blocking ''merge-conflict'' ''MERGE'' ''repository merge could not create an integration commit''
            (candidateTaskIDs (vq_Candidates request))
      in case auditDigest (qu_digests q) request [finding] of
           Inl e \<Rightarrow> (Inl e, x)
         | Inr digest \<Rightarrow>
             (let (now, x') = qu_clock q x in
              (Inr \<lparr>au_IntegrationID = vq_IntegrationID request, au_ProjectID = vq_ProjectID request,
                    au_BaseCommit = vq_BaseCommit request, au_Candidates = appended_copy (vq_Candidates request),
                    au_Findings = [finding], au_Checks = None, au_EvidenceSHA256 = digest, au_Passed = False,
                    au_CreatedAt = utc now\<rparr>, x')))"

definition reverifyReservation ::
  "'x Queue \<Rightarrow> IntegrationRequest \<Rightarrow> MergeResult \<Rightarrow> 'x \<Rightarrow> (merge_error + VerifiedRequest) \<times> 'x" where
  "reverifyReservation q request reservation x =
     (case integration_verify q request x of
        (Inl e, x1) \<Rightarrow> (Inl e, x1)
      | (Inr verified, x1) \<Rightarrow>
          (case requestDigest (qu_digests q) request verified of
             Inl _ \<Rightarrow> (Inl ErrNotAudited, x1)
           | Inr digest \<Rightarrow> if digest \<noteq> mr_RequestDigest reservation then (Inl ErrNotAudited, x1)
                            else (Inr verified, x1)))"

section \<open>The results of the checks\<close>

fun merge_error_text :: "merge_error \<Rightarrow> string" where
  "merge_error_text ErrInvalidRequest = ''invalid integration request''"
| "merge_error_text ErrConflict = ''integration conflict''"
| "merge_error_text ErrNotAudited = ''integration audit has not passed''"
| "merge_error_text ErrMergeConflict = ''merge executor reported a conflict''"
| "merge_error_text ErrMergePending = ''integration merge is pending recovery''"
| "merge_error_text ErrAttemptState = ''integration attempt state conflict''"
| "merge_error_text ErrAttemptsExhausted = ''integration attempts exhausted''"
| "merge_error_text ErrImmutable = ''integration result is immutable''"
| "merge_error_text ErrChecksFailed = ''integration checks failed''"
| "merge_error_text ErrWorkflowUnavailable = ''integration workflow dependency unavailable''"
| "merge_error_text ErrModulesNotReady = ''required modules are not ready for integration''"
| "merge_error_text ErrSummaryUnavailable = ''plan supervisor summary unavailable''"
| "merge_error_text (ErrExternal s) = s"
| "merge_error_text (ErrJoined es) = join_with [CHR 0x0A] (map merge_error_text es)"

fun collect_checks :: "CheckResult list \<Rightarrow> (string, CheckResult) gomap \<Rightarrow> bool \<Rightarrow> (string, CheckResult) gomap \<times> bool" where
  "collect_checks [] byKind malformed = (byKind, malformed)"
| "collect_checks (c # cs) byKind malformed =
     (if \<not> validCheckKind (ck_Kind c) \<or> gomap_has byKind (ck_Kind c) then collect_checks cs byKind True
      else collect_checks cs (gomap_put (ck_Kind c) c byKind) malformed)"

definition validatedCheckTasks :: "string list \<Rightarrow> string list \<Rightarrow> string list" where
  "validatedCheckTasks provided candidates =
     (let validated = filter (\<lambda>t. t \<in> set candidates) provided in
      uniqueStrings (if validated = [] then candidates else validated))"

definition missing_check :: "string \<Rightarrow> CheckResult" where
  "missing_check kind = \<lparr>ck_Kind = kind, ck_Status = CheckError, ck_EvidenceSHA256 = [],
     ck_Summary = ''required integration check did not return a result'', ck_OwnerTaskID = [], ck_Tasks = [],
     ck_StartedAt = 0, ck_CompletedAt = 0\<rparr>"

definition settle_status :: "CheckResult \<Rightarrow> CheckResult \<times> bool" where
  "settle_status c =
     (if ck_Status c \<noteq> CheckPassed \<and> ck_Status c \<noteq> CheckFailed \<and> ck_Status c \<noteq> CheckError
      then (c\<lparr>ck_Status := CheckError, ck_Summary := ''integration check returned an invalid status''\<rparr>, True)
      else (c, False))"

definition settle_owner :: "string \<Rightarrow> CheckResult \<Rightarrow> CheckResult" where
  "settle_owner owner c =
     (if ck_OwnerTaskID c = [] \<or> \<not> merge_contains (ck_Tasks c) (ck_OwnerTaskID c)
      then c\<lparr>ck_OwnerTaskID := (if owner = [] \<and> ck_Tasks c \<noteq> [] then hd (ck_Tasks c) else owner)\<rparr>
      else c)"

definition settle_times :: "time \<Rightarrow> CheckResult \<Rightarrow> CheckResult" where
  "settle_times now c =
     (let started = (if is_zero_time (ck_StartedAt c) then now else ck_StartedAt c);
          completed = (if is_zero_time (ck_CompletedAt c) \<or> ck_CompletedAt c < started
                       then (if now < started then started else now) else ck_CompletedAt c)
      in c\<lparr>ck_StartedAt := started, ck_CompletedAt := completed\<rparr>)"

definition settle_digest :: "merge_digests \<Rightarrow> VerifiedRequest \<Rightarrow> string \<Rightarrow> CheckResult \<Rightarrow> merge_error + CheckResult" where
  "settle_digest dg request commit c =
     (if \<not> digestPattern (ck_EvidenceSHA256 c)
      then (case normalizedCheckDigest dg request commit c of
              Inl e \<Rightarrow> Inl e | Inr digest \<Rightarrow> Inr (c\<lparr>ck_EvidenceSHA256 := digest\<rparr>))
      else Inr c)"

definition settled_check ::
  "merge_digests \<Rightarrow> VerifiedRequest \<Rightarrow> string \<Rightarrow> time \<Rightarrow> (string, CheckResult) gomap \<Rightarrow> string \<Rightarrow> (merge_error + CheckResult) \<times> bool" where
  \<comment> \<open>the body of the loop over the required kinds\<close>
  "settled_check dg request commit now byKind kind =
     (let (check, missing) = (case map_of byKind kind of Some c \<Rightarrow> (c, False) | None \<Rightarrow> (missing_check kind, True));
          (c1, bad) = settle_status check;
          c2 = c1\<lparr>ck_Tasks := validatedCheckTasks (ck_Tasks c1) (candidateTaskIDs (vq_Candidates request))\<rparr>;
          c3 = settle_times now (settle_owner (vq_OwnerTaskID request) c2)
      in (settle_digest dg request commit c3, missing \<or> bad))"

fun settle_checks ::
  "merge_digests \<Rightarrow> VerifiedRequest \<Rightarrow> string \<Rightarrow> time \<Rightarrow> (string, CheckResult) gomap \<Rightarrow> string list \<Rightarrow> bool \<Rightarrow>
     merge_error + CheckResult list \<times> bool" where
  "settle_checks dg request commit now byKind [] malformed = Inr ([], malformed)"
| "settle_checks dg request commit now byKind (kind # kinds) malformed =
     (case settled_check dg request commit now byKind kind of
        (Inl e, _) \<Rightarrow> Inl e
      | (Inr c, bad) \<Rightarrow>
          (case settle_checks dg request commit now byKind kinds (malformed \<or> bad) of
             Inl e \<Rightarrow> Inl e
           | Inr (cs, m) \<Rightarrow> Inr (c # cs, m)))"

fun fail_integration ::
  "merge_digests \<Rightarrow> VerifiedRequest \<Rightarrow> string \<Rightarrow> string \<Rightarrow> CheckResult list \<Rightarrow> merge_error + CheckResult list" where
  \<comment> \<open>the first check of kind INTEGRATION becomes an error with the given summary\<close>
  "fail_integration dg request commit summary [] = Inr []"
| "fail_integration dg request commit summary (c # cs) =
     (if ck_Kind c = CheckIntegration
      then (let c' = c\<lparr>ck_Status := CheckError, ck_Summary := summary, ck_EvidenceSHA256 := []\<rparr> in
            case normalizedCheckDigest dg request commit c' of
              Inl e \<Rightarrow> Inl e
            | Inr digest \<Rightarrow> Inr (c'\<lparr>ck_EvidenceSHA256 := digest\<rparr> # cs))
      else (case fail_integration dg request commit summary cs of Inl e \<Rightarrow> Inl e | Inr cs' \<Rightarrow> Inr (c # cs')))"

definition normalizeCheckResults ::
  "merge_digests \<Rightarrow> VerifiedRequest \<Rightarrow> string \<Rightarrow> time \<Rightarrow> CheckResult list \<Rightarrow> merge_error option \<Rightarrow>
     merge_error + CheckResult list \<times> bool" where
  \<comment> \<open>\<open>now\<close> is the one reading of the clock\<close>
  "normalizeCheckResults dg request commit now raw runErr =
     (let (byKind, malformed) = collect_checks raw [] False in
      case settle_checks dg request commit now byKind requiredCheckKinds malformed of
        Inl e \<Rightarrow> Inl e
      | Inr (checks, malformed1) \<Rightarrow>
          (case (case runErr of None \<Rightarrow> Inr checks
                 | Some e \<Rightarrow> fail_integration dg request commit (merge_error_text e) checks) of
             Inl e \<Rightarrow> Inl e
           | Inr checks1 \<Rightarrow>
               (let malformed2 = (malformed1 \<or> runErr \<noteq> None) in
                case (if malformed2 \<and> list_all (\<lambda>c. ck_Status c = CheckPassed) checks1
                      then fail_integration dg request commit ''integration check suite returned malformed results'' checks1
                      else Inr checks1) of
                  Inl e \<Rightarrow> Inl e
                | Inr checks2 \<Rightarrow> Inr (checks2, \<not> malformed2 \<and> validCheckResults (Some checks2) True))))"

definition check_finding :: "VerifiedRequest \<Rightarrow> string list \<Rightarrow> CheckResult \<Rightarrow> MergeFinding" where
  "check_finding request tasks c =
     (let owner = (if ck_OwnerTaskID c = [] then vq_OwnerTaskID request else ck_OwnerTaskID c);
          named = (if ck_Tasks c = [] then tasks else ck_Tasks c);
          named' = (if owner \<noteq> [] \<and> \<not> merge_contains named owner then named @ [owner] else named)
      in blocking (check_finding_prefix @ to_lower (ck_Kind c)) (ck_Kind c) (ck_Summary c) (uniqueStrings named'))"

definition check_failure_findings ::
  "VerifiedRequest \<Rightarrow> CheckResult list \<Rightarrow> merge_error option \<Rightarrow> MergeFinding list" where
  "check_failure_findings request checks runErr =
     (let tasks = candidateTaskIDs (vq_Candidates request);
          failed = map (check_finding request tasks) (filter (\<lambda>c. ck_Status c \<noteq> CheckPassed) checks);
          findings = failed @ (case runErr of None \<Rightarrow> []
            | Some e \<Rightarrow> [blocking ''integration-check-runner'' ''CHECK_RUNNER'' (merge_error_text e) tasks])
      in if findings = []
         then [blocking ''integration-checks-incomplete'' ''CHECKS'' ''required integration checks did not all pass'' tasks]
         else findings)"

definition checkFailureAudit ::
  "'x Queue \<Rightarrow> VerifiedRequest \<Rightarrow> CheckResult list \<Rightarrow> merge_error option \<Rightarrow> 'x \<Rightarrow> (merge_error + MergeAudit) \<times> 'x" where
  "checkFailureAudit q request checks runErr x =
     (if checks = [] \<and> runErr = None then (Inl ErrChecksFailed, x)
      else (let findings = check_failure_findings request checks runErr in
        case auditDigestWithChecks (qu_digests q) request findings checks of
          Inl e \<Rightarrow> (Inl e, x)
        | Inr digest \<Rightarrow>
            (let (now, x') = qu_clock q x in
             (Inr \<lparr>au_IntegrationID = vq_IntegrationID request, au_ProjectID = vq_ProjectID request,
                   au_BaseCommit = vq_BaseCommit request, au_Candidates = appended_copy (vq_Candidates request),
                   au_Findings = findings, au_Checks = Some checks, au_EvidenceSHA256 = digest, au_Passed = False,
                   au_CreatedAt = utc now\<rparr>, x'))))"

section \<open>The merge\<close>

definition complete_result :: "'x Queue \<Rightarrow> MergeResult \<Rightarrow> 'x \<Rightarrow> merge_answer \<times> 'x" where
  "complete_result q result x =
     (case ss_Complete (qu_store q) result x of
        (Some e, x') \<Rightarrow> ((zero_MergeResult, Some e), x')
      | (None, x') \<Rightarrow> ((result, None), x'))"

definition run_checks ::
  "'x Queue \<Rightarrow> 'x merge_verifier \<Rightarrow> VerifiedRequest \<Rightarrow> MergeResult \<Rightarrow> string \<Rightarrow> 'x \<Rightarrow> merge_answer \<times> 'x" where
  \<comment> \<open>the part of \<open>completeRecovered\<close> with a verifier\<close>
  "run_checks q verifier verified result commit x =
     (case verifier \<lparr>mi_TenantID = vq_TenantID verified, mi_ProjectID = vq_ProjectID verified,
             mi_IntegrationID = vq_IntegrationID verified, mi_IntegrationCommit = commit,
             mi_BaseCommit = vq_BaseCommit verified, mi_Candidates = vq_Candidates verified\<rparr> x of
        ((rawChecks, runErr), x1) \<Rightarrow>
          (let (now, x2) = qu_clock q x1 in
           case normalizeCheckResults (qu_digests q) verified commit (utc now) rawChecks runErr of
             Inl e \<Rightarrow> ((result, Some e), x2)
           | Inr (checks, passed) \<Rightarrow>
               if \<not> passed
               then (case checkFailureAudit q verified checks runErr x2 of
                       (Inl e, x3) \<Rightarrow> ((result, Some e), x3)
                     | (Inr failure, x3) \<Rightarrow>
                         (case recordConflict q verified failure x3 of
                            ((conflict, e), x4) \<Rightarrow>
                              ((conflict, Some (ErrJoined (ErrChecksFailed # (case e of None \<Rightarrow> [] | Some c \<Rightarrow> [c])))), x4)))
               else complete_result q (result\<lparr>mr_Checks := Some checks\<rparr>) x2))"

definition completeRecovered ::
  "'x Queue \<Rightarrow> VerifiedRequest \<Rightarrow> MergeResult \<Rightarrow> string \<Rightarrow> 'x merge_verifier option \<Rightarrow> 'x \<Rightarrow> merge_answer \<times> 'x" where
  "completeRecovered q verified reservation commit verifier x =
     (if \<not> commitID commit then ((zero_MergeResult, Some ErrMergeConflict), x)
      else (let result = reservation\<lparr>mr_Commit := commit, mr_Pending := False\<rparr> in
        case verifier of
          None \<Rightarrow> complete_result q result x
        | Some v \<Rightarrow> run_checks q v verified result commit x))"

definition reverified_complete ::
  "'x Queue \<Rightarrow> IntegrationRequest \<Rightarrow> VerifiedRequest \<Rightarrow> MergeResult \<Rightarrow> string \<Rightarrow> 'x merge_verifier option \<Rightarrow> 'x \<Rightarrow>
     merge_answer \<times> 'x" where
  "reverified_complete q request verified reservation commit verifier x =
     (case reverifyReservation q request reservation x of
        (Inl e, x1) \<Rightarrow> ((reservation, Some e), x1)
      | (Inr _, x1) \<Rightarrow> completeRecovered q verified reservation commit verifier x1)"

definition merge_failed ::
  "'x Queue \<Rightarrow> IntegrationRequest \<Rightarrow> VerifiedRequest \<Rightarrow> MergeResult \<Rightarrow> string \<Rightarrow> 'x merge_verifier option \<Rightarrow>
     merge_error \<Rightarrow> 'x \<Rightarrow> merge_answer \<times> 'x" where
  \<comment> \<open>the executor returned an error: look the merge up, or record the conflict\<close>
  "merge_failed q request verified reservation executionID verifier err x =
     (case ex_Lookup (qu_executor q) executionID x of
        (Inl lookupErr, x1) \<Rightarrow> ((reservation, Some (ErrJoined [ErrMergePending, err, lookupErr])), x1)
      | (Inr (Some recovered), x1) \<Rightarrow> reverified_complete q request verified reservation recovered verifier x1
      | (Inr None, x1) \<Rightarrow>
          if \<not> error_is err ErrMergeConflict then ((reservation, Some (ErrJoined [ErrMergePending, err])), x1)
          else (case mergeFailureAudit q verified x1 of
                  (Inl e, x2) \<Rightarrow> ((reservation, Some e), x2)
                | (Inr failure, x2) \<Rightarrow> recordConflict q verified failure x2))"

definition execute_merge ::
  "'x Queue \<Rightarrow> IntegrationRequest \<Rightarrow> MergeResult \<Rightarrow> string \<Rightarrow> 'x merge_verifier option \<Rightarrow> 'x \<Rightarrow> merge_answer \<times> 'x" where
  \<comment> \<open>from the second verification on\<close>
  "execute_merge q request reservation executionID verifier x =
     (case reverifyReservation q request reservation x of
        (Inl e, x1) \<Rightarrow> ((reservation, Some e), x1)
      | (Inr verified, x1) \<Rightarrow>
          (let commits = sort (map ik_SubmissionCommit (vq_Candidates verified)) in
           case ex_Merge (qu_executor q) (vq_BaseCommit verified) commits executionID x1 of
             (Inl err, x2) \<Rightarrow> merge_failed q request verified reservation executionID verifier err x2
           | (Inr commit, x2) \<Rightarrow> reverified_complete q request verified reservation commit verifier x2))"

definition reservation_of :: "VerifiedRequest \<Rightarrow> MergeAudit \<Rightarrow> string \<Rightarrow> MergeResult" where
  "reservation_of v audit digest =
     \<lparr>mr_TenantID = vq_TenantID v, mr_IntegrationID = vq_IntegrationID v, mr_ProjectID = vq_ProjectID v,
      mr_OwnerTaskID = vq_OwnerTaskID v, mr_Attempt = vq_Attempt v, mr_Commit = [], mr_RequestDigest = digest,
      mr_Audit = audit, mr_Candidates = appended_copy (vq_Candidates v), mr_Checks = None, mr_Duplicate = False,
      mr_Pending = True, mr_LeaseID = vq_LeaseID v, mr_FencingToken = vq_FencingToken v\<rparr>"

definition reserved_merge ::
  "'x Queue \<Rightarrow> IntegrationRequest \<Rightarrow> VerifiedRequest \<Rightarrow> MergeResult \<Rightarrow> 'x merge_verifier option \<Rightarrow> 'x \<Rightarrow> merge_answer \<times> 'x" where
  \<comment> \<open>from the reservation on\<close>
  "reserved_merge q request verified reservation verifier x =
     (let executionID = mergeExecutionID (vq_IntegrationID verified) (vq_Attempt verified) in
      case ss_Reserve (qu_store q) reservation x of
        ((prior, owner, Some e), x1) \<Rightarrow> ((zero_MergeResult, Some e), x1)
      | ((prior, owner, None), x1) \<Rightarrow>
          if \<not> owner \<and> \<not> mr_Pending prior then ((prior\<lparr>mr_Duplicate := True\<rparr>, None), x1)
          else if \<not> owner
          then (let reservation' = reservation\<lparr>mr_Duplicate := True\<rparr> in
                case ex_Lookup (qu_executor q) executionID x1 of
                  (Inl e, x2) \<Rightarrow> ((zero_MergeResult, Some e), x2)
                | (Inr (Some recovered), x2) \<Rightarrow>
                    reverified_complete q request verified reservation' recovered verifier x2
                | (Inr None, x2) \<Rightarrow> execute_merge q request reservation' executionID verifier x2)
          else execute_merge q request reservation executionID verifier x1)"

definition integration_merge ::
  "'x Queue \<Rightarrow> IntegrationRequest \<Rightarrow> 'x merge_verifier option \<Rightarrow> 'x \<Rightarrow> merge_answer \<times> 'x" where
  "integration_merge q request verifier x =
     (case integration_verify q request x of
        (Inl e, x1) \<Rightarrow> ((zero_MergeResult, Some e), x1)
      | (Inr verified, x1) \<Rightarrow>
          (case auditVerified q verified x1 of
             (Inl e, x2) \<Rightarrow> ((zero_MergeResult, Some e), x2)
           | (Inr audit, x2) \<Rightarrow>
               if \<not> au_Passed audit then recordConflict q verified audit x2
               else (case requestDigest (qu_digests q) request verified of
                       Inl e \<Rightarrow> ((zero_MergeResult, Some e), x2)
                     | Inr digest \<Rightarrow>
                         reserved_merge q request verified (reservation_of verified audit digest) verifier x2)))"

definition integration_Merge :: "'x Queue \<Rightarrow> IntegrationRequest \<Rightarrow> 'x \<Rightarrow> merge_answer \<times> 'x" where
  "integration_Merge q request x = integration_merge q request None x"

definition MergeWithChecks ::
  "'x Queue \<Rightarrow> IntegrationRequest \<Rightarrow> 'x merge_verifier option \<Rightarrow> 'x \<Rightarrow> merge_answer \<times> 'x" where
  \<comment> \<open>no verifier is a nil verifier\<close>
  "MergeWithChecks q request verifier x =
     (case verifier of
        None \<Rightarrow> ((zero_MergeResult, Some ErrInvalidRequest), x)
      | Some v \<Rightarrow> integration_merge q request (Some v) x)"

text \<open>The operations of the queue that only pass a call on to the store.\<close>

definition queue_Task :: "'x Queue \<Rightarrow> string \<Rightarrow> string \<Rightarrow> 'x \<Rightarrow> IntegrationTask answer" where
  "queue_Task q tenantID integrationID x = ss_GetTask (qu_store q) tenantID integrationID x"

definition queue_Result :: "'x Queue \<Rightarrow> string \<Rightarrow> string \<Rightarrow> 'x \<Rightarrow> MergeResult answer" where
  "queue_Result q tenantID integrationID x = ss_Get (qu_store q) tenantID integrationID x"

definition queue_StartAttempt :: "'x Queue \<Rightarrow> StartAttemptRequest \<Rightarrow> 'x \<Rightarrow> IntegrationTask answer \<times> 'x" where
  "queue_StartAttempt q request x = ss_StartAttempt (qu_store q) request x"

end
