(* ===== verification/Integration_Safety.thy ===== *)
theory Integration_Safety
  imports Integration_Queue
begin

text \<open>
  Why integrations are safe: the life of one record of the store, whatever its callers do; what the
  audit of candidates decides; and what an answer of the queue means, over any store and any
  environment that keeps the laws of the interface.
\<close>

section \<open>The life of an integration\<close>

definition task_key :: "IntegrationTask \<Rightarrow> string" where
  "task_key t = item_key (it_TenantID t) (it_ID t)"

definition record_ok :: "string \<Rightarrow> memoryRecord \<Rightarrow> bool" where
  \<comment> \<open>what every stored record satisfies, by the state of its task\<close>
  "record_ok k rec \<longleftrightarrow>
     (let t = me_task rec; r = me_result rec in
      task_key t = k \<and> 0 \<le> it_Attempt t \<and> it_Attempt t \<le> 3
      \<and> (mr_Pending r \<longleftrightarrow> it_State t = TaskMergeReserved)
      \<and> (case it_State t of
           TaskReworkRequired \<Rightarrow> it_Attempt t < 3 \<and> it_OwnerTaskID t \<noteq> [] \<and> mr_RequestDigest r = []
         | TaskExecuting \<Rightarrow> 1 \<le> it_Attempt t \<and> it_OwnerTaskID t \<noteq> [] \<and> mr_RequestDigest r = []
         | TaskMergeReserved \<Rightarrow> (it_Attempt t = 0 \<longleftrightarrow> it_OwnerTaskID t = [])
         | TaskBlockedUserDecision \<Rightarrow> it_Attempt t = 3 \<and> it_OwnerTaskID t \<noteq> [] \<and> mr_RequestDigest r = []
         | TaskDone \<Rightarrow> (it_Attempt t = 0 \<longleftrightarrow> it_OwnerTaskID t = [])
         | TaskStateOther s \<Rightarrow> False))"

definition same_task :: "IntegrationTask \<Rightarrow> IntegrationTask \<Rightarrow> bool" where
  "same_task a b \<longleftrightarrow> it_TenantID b = it_TenantID a \<and> it_ProjectID b = it_ProjectID a \<and> it_ID b = it_ID a"

inductive record_move :: "memoryRecord \<Rightarrow> memoryRecord \<Rightarrow> bool" where
  start: "\<lbrakk>it_State (me_task a) = TaskReworkRequired; it_State (me_task b) = TaskExecuting;
           it_Attempt (me_task b) = it_Attempt (me_task a) + 1; it_OwnerTaskID (me_task b) = it_OwnerTaskID (me_task a)\<rbrakk>
          \<Longrightarrow> record_move a b"
| reserve: "\<lbrakk>it_State (me_task a) = TaskExecuting; it_State (me_task b) = TaskMergeReserved;
             it_Attempt (me_task b) = it_Attempt (me_task a); it_OwnerTaskID (me_task b) = it_OwnerTaskID (me_task a)\<rbrakk>
          \<Longrightarrow> record_move a b"
| conflict: "\<lbrakk>it_State (me_task a) \<in> {TaskExecuting, TaskMergeReserved};
              it_State (me_task b) = (if it_Attempt (me_task a) = 3 then TaskBlockedUserDecision else TaskReworkRequired);
              it_Attempt (me_task b) = it_Attempt (me_task a);
              it_OwnerTaskID (me_task a) \<noteq> [] \<Longrightarrow> it_OwnerTaskID (me_task b) = it_OwnerTaskID (me_task a)\<rbrakk>
          \<Longrightarrow> record_move a b"
| finish: "\<lbrakk>it_State (me_task a) = TaskMergeReserved; it_State (me_task b) = TaskDone;
            it_Attempt (me_task b) = it_Attempt (me_task a); it_OwnerTaskID (me_task b) = it_OwnerTaskID (me_task a);
            mr_RequestDigest (me_result b) = mr_RequestDigest (me_result a);
            au_EvidenceSHA256 (mr_Audit (me_result b)) = au_EvidenceSHA256 (mr_Audit (me_result a))\<rbrakk>
          \<Longrightarrow> record_move a b"

inductive_cases record_moveE: "record_move a b"

definition record_next :: "memoryRecord \<Rightarrow> memoryRecord \<Rightarrow> bool" where
  "record_next a b \<longleftrightarrow>
     same_task (me_task a) (me_task b) \<and> it_Version (me_task b) = add64 (it_Version (me_task a)) 1 \<and> record_move a b"

definition stored_ok :: "MergeMemory \<Rightarrow> bool" where
  "stored_ok s \<longleftrightarrow> (\<forall>k rec. map_of s k = Some rec \<longrightarrow> record_ok k rec)"

definition rows_move :: "MergeMemory \<Rightarrow> MergeMemory \<Rightarrow> bool" where
  \<comment> \<open>no record is lost, and a record that changed made one move\<close>
  "rows_move s s' \<longleftrightarrow>
     (\<forall>k rec. map_of s k = Some rec \<longrightarrow> (\<exists>rec'. map_of s' k = Some rec' \<and> (rec' = rec \<or> record_next rec rec')))"

inductive merge_store_step :: "MergeMemory \<Rightarrow> MergeMemory \<Rightarrow> bool" where
  "merge_StartAttempt r s = (a, s') \<Longrightarrow> merge_store_step s s'"
| "merge_RecordConflict c s = (b, s') \<Longrightarrow> merge_store_step s s'"
| "RecordGlobalAuditConflict c v s = (b, s') \<Longrightarrow> merge_store_step s s'"
| "merge_Reserve c s = (b, s') \<Longrightarrow> merge_store_step s s'"
| "merge_Complete c s = (e, s') \<Longrightarrow> merge_store_step s s'"

definition step_ok :: "MergeMemory \<Rightarrow> MergeMemory \<Rightarrow> bool" where
  "step_ok s s' \<longleftrightarrow> stored_ok s' \<and> rows_move s s'"

lemma step_ok_refl: "stored_ok s \<Longrightarrow> step_ok s s"
  by (simp add: step_ok_def rows_move_def)

lemma step_ok_put:
  assumes "stored_ok s" and "record_ok k rec" and "\<And>old. map_of s k = Some old \<Longrightarrow> record_next old rec"
  shows "step_ok s (gomap_put k rec s)"
  using assms by (auto simp: step_ok_def stored_ok_def rows_move_def amap.look_store)

lemma clone_sel [simp]:
  "mr_Pending (merge_cloneResult r) = mr_Pending r" "mr_RequestDigest (merge_cloneResult r) = mr_RequestDigest r"
  "mr_Attempt (merge_cloneResult r) = mr_Attempt r" "mr_OwnerTaskID (merge_cloneResult r) = mr_OwnerTaskID r"
  "mr_Commit (merge_cloneResult r) = mr_Commit r" "mr_LeaseID (merge_cloneResult r) = mr_LeaseID r"
  "mr_FencingToken (merge_cloneResult r) = mr_FencingToken r" "mr_Duplicate (merge_cloneResult r) = mr_Duplicate r"
  "mr_Checks (merge_cloneResult r) = mr_Checks r"
  "au_EvidenceSHA256 (mr_Audit (merge_cloneResult r)) = au_EvidenceSHA256 (mr_Audit r)"
  "au_Passed (mr_Audit (merge_cloneResult r)) = au_Passed (mr_Audit r)"
  by (simp_all add: merge_cloneResult_def cloneAudit_def cloneChecks_def)

lemma stored_okD: "stored_ok s \<Longrightarrow> map_of s k = Some rec \<Longrightarrow> record_ok k rec"
  by (simp add: stored_ok_def)

lemma add64_attempt: "0 \<le> a \<Longrightarrow> a \<le> 3 \<Longrightarrow> add64 a 1 = a + 1"
  by (rule add64_id) (simp add: int64_def)

lemma StartAttempt_ok:
  assumes "merge_StartAttempt r s = (a, s')" and "stored_ok s"
  shows "step_ok s s'"
proof (cases "s' = s")
  case False
  let ?k = "item_key (sq_TenantID r) (sq_IntegrationID r)"
  obtain rec where row: "map_of s ?k = Some rec" and st: "it_State (me_task rec) = TaskReworkRequired"
    and att: "add64 (it_Attempt (me_task rec)) 1 = sq_Attempt r"
    and s': "s' = gomap_put ?k \<lparr>me_result = (me_result rec)\<lparr>mr_Attempt := sq_Attempt r\<rparr>,
        me_task = (me_task rec)\<lparr>it_State := TaskExecuting, it_Attempt := sq_Attempt r,
          it_Version := add64 (it_Version (me_task rec)) 1\<rparr>\<rparr> s"
    using assms(1) False
    by (auto simp: merge_StartAttempt_def Let_def split: if_splits option.splits)
  have ok: "record_ok ?k rec" using assms(2) row by (rule stored_okD)
  then have "sq_Attempt r = it_Attempt (me_task rec) + 1"
    using att add64_attempt by (auto simp: record_ok_def Let_def)
  then show ?thesis unfolding s' using ok st row
    by (intro step_ok_put [OF assms(2)])
      (auto simp: record_ok_def Let_def task_key_def record_next_def same_task_def intro: record_move.start)
qed (simp add: step_ok_refl assms)

lemma RecordConflict_ok:
  assumes "merge_RecordConflict c s = (a, s')" and "stored_ok s"
  shows "step_ok s s'"
proof (cases "s' = s")
  case False
  let ?k = "item_key (mr_TenantID c) (mr_IntegrationID c)"
  have valid: "validConflictResult c" using assms(1) False by (auto simp: merge_RecordConflict_def split: if_splits)
  then have c: "mr_OwnerTaskID c \<noteq> []" "0 \<le> mr_Attempt c" "mr_Attempt c \<le> 3" "mr_RequestDigest c = []" "\<not> mr_Pending c"
    by (simp_all add: validConflictResult_def)
  show ?thesis
  proof (cases "map_of s ?k")
    case None
    then have att: "mr_Attempt c = 0" and s': "s' = gomap_put ?k (first_conflict c) s"
      using assms(1) False valid by (auto simp: merge_RecordConflict_def Let_def split: if_splits)
    show ?thesis unfolding s' using c None
      by (intro step_ok_put [OF assms(2)]) (auto simp: record_ok_def Let_def task_key_def first_conflict_def)
  next
    case (Some prior)
    let ?t = "me_task prior"
    have ok: "record_ok ?k prior" using assms(2) Some by (rule stored_okD)
    have s': "s' = gomap_put ?k (conflict_recorded c prior) s"
      and moves: "it_State ?t \<in> {TaskExecuting, TaskMergeReserved}" "it_Attempt ?t = mr_Attempt c"
        "it_OwnerTaskID ?t \<noteq> [] \<Longrightarrow> it_OwnerTaskID ?t = mr_OwnerTaskID c"
      using assms(1) False valid Some by (auto simp: merge_RecordConflict_def Let_def split: if_splits)
    have "record_next prior (conflict_recorded c prior)"
      unfolding record_next_def using moves
      by (auto simp: conflict_recorded_def same_task_def intro!: record_move.conflict)
    then show ?thesis unfolding s' using c Some ok moves
      by (intro step_ok_put [OF assms(2)]) (auto simp: record_ok_def Let_def task_key_def conflict_recorded_def)
  qed
qed (simp add: step_ok_refl assms)

lemma Reserve_ok:
  assumes "merge_Reserve c s = (a, s')" and "stored_ok s"
  shows "step_ok s s'"
proof (cases "s' = s")
  case False
  let ?k = "item_key (mr_TenantID c) (mr_IntegrationID c)"
  show ?thesis
  proof (cases "map_of s ?k")
    case None
    then show ?thesis using assms(1) False
      by (auto simp: merge_Reserve_def Let_def record_ok_def task_key_def zero_IntegrationTask_def split: if_splits
          intro!: step_ok_put [OF assms(2)])
  next
    case (Some prior)
    let ?t = "me_task prior"
    let ?rec = "\<lparr>me_result = merge_cloneResult (c\<lparr>mr_Pending := True\<rparr>),
      me_task = ?t\<lparr>it_State := TaskMergeReserved, it_Version := add64 (it_Version ?t) 1\<rparr>\<rparr>"
    have ok: "record_ok ?k prior" using assms(2) Some by (rule stored_okD)
    have s': "s' = gomap_put ?k ?rec s" and st: "it_State ?t = TaskExecuting"
      using assms(1) False Some by (auto simp: merge_Reserve_def Let_def split: if_splits)
    have "record_next prior ?rec"
      unfolding record_next_def using st by (auto simp: same_task_def intro: record_move.reserve)
    then show ?thesis unfolding s' using Some ok st
      by (intro step_ok_put [OF assms(2)]) (auto simp: record_ok_def Let_def task_key_def)
  qed
qed (simp add: step_ok_refl assms)

lemma Complete_ok:
  assumes "merge_Complete c s = (a, s')" and "stored_ok s"
  shows "step_ok s s'"
proof (cases "s' = s")
  case False
  let ?k = "item_key (mr_TenantID c) (mr_IntegrationID c)"
  obtain prior where Some: "map_of s ?k = Some prior"
    using assms(1) False by (auto simp: merge_Complete_def Let_def split: if_splits option.splits)
  let ?t = "me_task prior"
  let ?rec = "\<lparr>me_result = merge_cloneResult (c\<lparr>mr_Pending := False\<rparr>),
    me_task = ?t\<lparr>it_State := TaskDone, it_Version := add64 (it_Version ?t) 1\<rparr>\<rparr>"
  have ok: "record_ok ?k prior" using assms(2) Some by (rule stored_okD)
  have s': "s' = gomap_put ?k ?rec s" and st: "it_State ?t = TaskMergeReserved"
    and same: "mr_RequestDigest (me_result prior) = mr_RequestDigest c"
      "au_EvidenceSHA256 (mr_Audit (me_result prior)) = au_EvidenceSHA256 (mr_Audit c)"
    using assms(1) False Some by (auto simp: merge_Complete_def Let_def split: if_splits)
  have "record_next prior ?rec"
    unfolding record_next_def using st same by (auto simp: same_task_def intro: record_move.finish)
  then show ?thesis unfolding s' using Some ok st
    by (intro step_ok_put [OF assms(2)]) (auto simp: record_ok_def Let_def task_key_def)
qed (simp add: step_ok_refl assms)

lemma merge_store_step_ok: "merge_store_step s s' \<Longrightarrow> stored_ok s \<Longrightarrow> step_ok s s'"
  by (induction rule: merge_store_step.induct)
    (auto simp: RecordGlobalAuditConflict_def step_ok_refl split: if_splits
      intro: StartAttempt_ok RecordConflict_ok Reserve_ok Complete_ok)

lemma stored_ok_new: "stored_ok NewMergeMemory"
  by (simp add: stored_ok_def NewMergeMemory_def)

lemma merge_steps_ok: "merge_store_step\<^sup>*\<^sup>* s s' \<Longrightarrow> stored_ok s \<Longrightarrow> stored_ok s'"
  by (induction rule: rtranclp_induct) (auto dest: merge_store_step_ok simp: step_ok_def)

lemma record_next_ends:
  "record_next a b \<Longrightarrow> it_State (me_task a) \<noteq> TaskDone \<and> it_State (me_task a) \<noteq> TaskBlockedUserDecision"
  by (auto simp: record_next_def elim!: record_moveE)

lemma finished_steps:
  "merge_store_step\<^sup>*\<^sup>* s s' \<Longrightarrow> stored_ok s \<Longrightarrow> map_of s k = Some rec \<Longrightarrow>
     it_State (me_task rec) \<in> {TaskDone, TaskBlockedUserDecision} \<Longrightarrow> map_of s' k = Some rec"
proof (induction rule: rtranclp_induct)
  case (step y z)
  then have row: "map_of y k = Some rec" by simp
  have "step_ok y z" using step.hyps merge_steps_ok step.prems(1) merge_store_step_ok by blast
  then obtain rec' where "map_of z k = Some rec'" "rec' = rec \<or> record_next rec rec'"
    using row by (auto simp: step_ok_def rows_move_def)
  then show ?case using record_next_ends step.prems(3) by auto
qed simp

section \<open>The audit of candidates\<close>

definition visit_ok :: "((string, string) gomap \<Rightarrow> (string, string) gomap) \<Rightarrow> bool" where
  \<comment> \<open>a loop over a map visits every entry once, in some order\<close>
  "visit_ok visit \<longleftrightarrow> (\<forall>m. mset (visit m) = mset m)"

definition candidate_clean :: "Candidate \<Rightarrow> bool" where
  "candidate_clean c \<longleftrightarrow>
     ik_AuditPassed c \<and> ik_EvidenceSHA256 c \<noteq> [] \<and> (\<forall>p \<in> set (ik_OwnedPaths c). cleanPath p = Some p)"

definition interface_keys :: "Candidate \<Rightarrow> string set" where
  "interface_keys c = interface_key ` set (ik_PublicInterfaces c) - {[]}"

definition candidates_apart :: "Candidate \<Rightarrow> Candidate \<Rightarrow> bool" where
  "candidates_apart a b \<longleftrightarrow> ik_TaskID a = ik_TaskID b
     \<or> (\<forall>p \<in> set (ik_OwnedPaths a). \<forall>p' \<in> set (ik_OwnedPaths b). \<not> containsPath p p' \<and> \<not> containsPath p' p)
        \<and> interface_keys a \<inter> interface_keys b = {}"

lemma cleanPath_Some: "cleanPath p = Some c \<Longrightarrow> c = p"
  by (auto simp: cleanPath_def Let_def split: if_splits)

lemma containsPath_refl [simp]: "containsPath p p"
  by (simp add: containsPath_def)

lemma visit_set: "visit_ok visit \<Longrightarrow> set (visit m) = set m"
  unfolding visit_ok_def by (metis set_mset_mset)

lemma paths_loop_map:
  "map_of (snd (paths_loop visit task raws paths)) q
     = (if q \<in> set raws \<and> cleanPath q \<noteq> None then Some task else map_of paths q)"
proof (induction raws arbitrary: paths)
  case (Cons r raws)
  show ?case
  proof (cases "cleanPath r")
    case (Some c)
    then have "c = r" by (rule cleanPath_Some)
    with Some show ?thesis using Cons.IH [of "gomap_put r task paths"]
      by (auto simp: case_prod_unfold amap.look_store Let_def)
  qed (use Cons.IH in \<open>auto simp: case_prod_unfold Let_def\<close>)
qed simp

lemma paths_loop_ok: "gomap_ok paths \<Longrightarrow> gomap_ok (snd (paths_loop visit task raws paths))"
  by (induction raws arbitrary: paths) (auto simp: case_prod_unfold Let_def split: option.splits)

definition path_free :: "(string, string) gomap \<Rightarrow> string \<Rightarrow> string \<Rightarrow> bool" where
  "path_free paths task p \<longleftrightarrow>
     (\<forall>q t. map_of paths q = Some t \<longrightarrow> t \<noteq> task \<longrightarrow> \<not> containsPath q p \<and> \<not> containsPath p q)"

lemma no_overlap_found:
  assumes "visit_ok visit" and "gomap_ok paths"
  shows "filter (\<lambda>(p, t). t \<noteq> task \<and> (containsPath p c \<or> containsPath c p)) (visit paths) = [] \<longleftrightarrow> path_free paths task c"
  using visit_set [OF assms(1), of paths] assms(2)
  by (auto simp: filter_empty_conv path_free_def gomap_ok_def)

lemma path_free_put:
  assumes "path_free paths task r"
  shows "path_free (gomap_put r task paths) task p \<longleftrightarrow> path_free paths task p"
proof -
  have "map_of paths r = Some t \<Longrightarrow> t = task" for t
    using assms containsPath_refl unfolding path_free_def by blast
  then show ?thesis unfolding path_free_def amap.look_store by (metis option.inject)
qed

lemma paths_loop_Nil:
  assumes "visit_ok visit"
  shows "gomap_ok paths \<Longrightarrow> fst (paths_loop visit task raws paths) = [] \<longleftrightarrow>
     (\<forall>p \<in> set raws. cleanPath p = Some p \<and> path_free paths task p)"
proof (induction raws arbitrary: paths)
  case (Cons r raws)
  show ?case
  proof (cases "cleanPath r")
    case (Some c)
    then have c: "c = r" by (rule cleanPath_Some)
    with Some Cons.IH [OF gomap_ok_put [OF Cons.prems]] no_overlap_found [OF assms Cons.prems, of task r] show ?thesis
      by (auto simp: case_prod_unfold path_free_put Let_def)
  qed (simp add: case_prod_unfold Let_def)
qed simp

lemma interfaces_loop_map:
  "map_of (snd (interfaces_loop task is ifs)) k
     = (if k \<in> interface_key ` set is - {[]} then Some task else map_of ifs k)"
proof (induction "is" arbitrary: ifs)
  case (Cons i "is")
  then show ?case by (auto simp: Let_def case_prod_unfold amap.look_store)
qed simp

lemma interfaces_loop_Nil:
  "fst (interfaces_loop task is ifs) = [] \<longleftrightarrow>
     (\<forall>k \<in> interface_key ` set is - {[]}. \<forall>t. map_of ifs k = Some t \<longrightarrow> t = task)"
proof (induction "is" arbitrary: ifs)
  case (Cons i "is")
  show ?case
  proof (cases "interface_key i = []")
    case False
    let ?k = "interface_key i" and ?K = "interface_key ` set is - {[]}"
    have "fst (interfaces_loop task (i # is) ifs) = [] \<longleftrightarrow>
        (\<forall>t. map_of ifs ?k = Some t \<longrightarrow> t = task) \<and> fst (interfaces_loop task is (gomap_put ?k task ifs)) = []"
      using False by (auto simp: Let_def case_prod_unfold split: option.splits if_splits)
    also have "\<dots> \<longleftrightarrow> (\<forall>t. map_of ifs ?k = Some t \<longrightarrow> t = task)
        \<and> (\<forall>k \<in> ?K. \<forall>t. (if k = ?k then Some task else map_of ifs k) = Some t \<longrightarrow> t = task)"
      unfolding Cons.IH amap.look_store ..
    also have "\<dots> \<longleftrightarrow> (\<forall>k \<in> insert ?k ?K. \<forall>t. map_of ifs k = Some t \<longrightarrow> t = task)"
      by (metis (mono_tags, lifting) insert_iff option.inject)
    also have "insert ?k ?K = interface_key ` set (i # is) - {[]}" using False by auto
    finally show ?thesis .
  qed (use Cons.IH in \<open>auto simp: Let_def\<close>)
qed simp

definition books_of :: "Candidate set \<Rightarrow> (string, string) gomap \<Rightarrow> (string, string) gomap \<Rightarrow> bool" where
  \<comment> \<open>the two maps hold exactly what the candidates seen so far own\<close>
  "books_of seen paths ifs \<longleftrightarrow> gomap_ok paths
     \<and> (\<forall>q t. map_of paths q = Some t \<longleftrightarrow> (\<exists>c \<in> seen. q \<in> set (ik_OwnedPaths c) \<and> ik_TaskID c = t))
     \<and> (\<forall>k t. map_of ifs k = Some t \<longleftrightarrow> (\<exists>c \<in> seen. k \<in> interface_keys c \<and> ik_TaskID c = t))"

lemma apart_from_seen:
  assumes "books_of seen paths ifs"
  shows "(\<forall>d \<in> seen. candidates_apart c d) \<longleftrightarrow>
     (\<forall>p \<in> set (ik_OwnedPaths c). path_free paths (ik_TaskID c) p)
     \<and> (\<forall>k \<in> interface_keys c. \<forall>t. map_of ifs k = Some t \<longrightarrow> t = ik_TaskID c)"
  using assms unfolding books_of_def candidates_apart_def path_free_def by (auto 0 4)

lemma books_of_next:
  assumes "books_of seen paths ifs" and "candidate_clean c" and "\<forall>d \<in> seen. candidates_apart c d"
  shows "books_of (insert c seen) (snd (paths_loop visit (ik_TaskID c) (ik_OwnedPaths c) paths))
     (snd (interfaces_loop (ik_TaskID c) (ik_PublicInterfaces c) ifs))"
proof -
  have sep: "ik_TaskID d = ik_TaskID c" if "d \<in> seen" "q \<in> set (ik_OwnedPaths d)" "q \<in> set (ik_OwnedPaths c)" for d q
    using assms(3) that containsPath_refl [of q] unfolding candidates_apart_def by metis
  have sep': "ik_TaskID d = ik_TaskID c" if "d \<in> seen" "k \<in> interface_keys d" "k \<in> interface_keys c" for d k
    using assms(3) that by (auto simp: candidates_apart_def)
  have own: "q \<in> set (ik_OwnedPaths c) \<and> cleanPath q \<noteq> None \<longleftrightarrow> q \<in> set (ik_OwnedPaths c)" for q
    using assms(2) by (auto simp: candidate_clean_def)
  have keys: "interface_key ` set (ik_PublicInterfaces c) - {[]} = interface_keys c" by (simp add: interface_keys_def)
  show ?thesis
    using assms(1) unfolding books_of_def paths_loop_map interfaces_loop_map own keys
    by (auto simp: paths_loop_ok dest: sep sep')
qed

lemma audit_loop_Nil:
  assumes "visit_ok visit"
  shows "books_of seen paths ifs \<Longrightarrow>
     audit_loop visit cs paths ifs = [] \<longleftrightarrow>
       (\<forall>c \<in> set cs. candidate_clean c \<and> (\<forall>d \<in> seen. candidates_apart c d)) \<and> pairwise candidates_apart (set cs)"
proof (induction cs arbitrary: seen paths ifs)
  case (Cons c cs)
  let ?t = "ik_TaskID c"
  let ?p = "paths_loop visit ?t (ik_OwnedPaths c) paths" and ?i = "interfaces_loop ?t (ik_PublicInterfaces c) ifs"
  have ok: "gomap_ok paths" using Cons.prems by (simp add: books_of_def)
  have keys: "interface_key ` set (ik_PublicInterfaces c) - {[]} = interface_keys c" by (simp add: interface_keys_def)
  have head: "ik_AuditPassed c \<and> ik_EvidenceSHA256 c \<noteq> [] \<and> fst ?p = [] \<and> fst ?i = [] \<longleftrightarrow>
      candidate_clean c \<and> (\<forall>d \<in> seen. candidates_apart c d)"
    unfolding apart_from_seen [OF Cons.prems] candidate_clean_def paths_loop_Nil [OF assms ok]
      interfaces_loop_Nil keys by blast
  have sym: "candidates_apart a b \<longleftrightarrow> candidates_apart b a" for a b
    by (auto simp: candidates_apart_def)
  have refl: "candidates_apart a a" for a by (simp add: candidates_apart_def)
  have "audit_loop visit (c # cs) paths ifs = [] \<longleftrightarrow>
      (ik_AuditPassed c \<and> ik_EvidenceSHA256 c \<noteq> [] \<and> fst ?p = [] \<and> fst ?i = [])
      \<and> audit_loop visit cs (snd ?p) (snd ?i) = []"
    unfolding audit_loop.simps Let_def case_prod_unfold append_is_Nil_conv by (simp del: audit_loop.simps)
  also have "\<dots> \<longleftrightarrow> (candidate_clean c \<and> (\<forall>d \<in> seen. candidates_apart c d))
      \<and> (\<forall>e \<in> set cs. candidate_clean e \<and> (\<forall>d \<in> insert c seen. candidates_apart e d))
      \<and> pairwise candidates_apart (set cs)"
    unfolding head using Cons.IH [OF books_of_next [OF Cons.prems]] by blast
  also have "\<dots> \<longleftrightarrow> (\<forall>e \<in> set (c # cs). candidate_clean e \<and> (\<forall>d \<in> seen. candidates_apart e d))
      \<and> pairwise candidates_apart (set (c # cs))"
  proof -
    have "pairwise candidates_apart (set (c # cs)) \<longleftrightarrow>
        (\<forall>e \<in> set cs. candidates_apart e c) \<and> pairwise candidates_apart (set cs)"
      unfolding list.set pairwise_insert using sym refl by metis
    then show ?thesis by (simp only: list.set ball_simps) blast
  qed
  finally show ?case .
qed simp

lemma first_seen_set:
  "x \<in> set (first_seen name seen xs) \<longleftrightarrow> name x \<notin> set seen \<and> find (\<lambda>y. name y = name x) xs = Some x"
proof (induction xs arbitrary: seen)
  case (Cons y ys)
  then show ?case by auto
qed simp

lemma first_seen_distinct: "distinct (map name (first_seen name seen xs))"
  by (induction xs arbitrary: seen) (auto simp: first_seen_set)

lemma deduplicate_cong:
  assumes "\<And>i. find (\<lambda>f. fd_ID f = i) fs = find (\<lambda>f. fd_ID f = i) gs"
  shows "deduplicateFindings fs = deduplicateFindings gs"
proof -
  have sets: "set (first_seen fd_ID [] fs) = set (first_seen fd_ID [] gs)"
    using assms by (auto simp: first_seen_set)
  have d: "distinct (map fd_ID (first_seen fd_ID [] xs))" for xs
    by (rule first_seen_distinct)
  have d': "distinct (map fd_ID (deduplicateFindings xs))" for xs
  proof -
    have "mset (map fd_ID (deduplicateFindings xs)) = mset (map fd_ID (first_seen fd_ID [] xs))"
      by (simp add: deduplicateFindings_def)
    with d show ?thesis by (metis mset_eq_imp_distinct_iff)
  qed
  have sets': "set (deduplicateFindings fs) = set (deduplicateFindings gs)"
    using sets by (simp add: deduplicateFindings_def)
  moreover have "inj_on fd_ID (set (deduplicateFindings fs) \<union> set (deduplicateFindings gs))"
    using d' [of fs] unfolding sets' [symmetric] by (simp add: distinct_map)
  ultimately show ?thesis using d'
    by (intro map_sorted_distinct_set_unique [of fd_ID]) (auto simp: deduplicateFindings_def)
qed

lemma deduplicate_Nil: "deduplicateFindings fs = [] \<longleftrightarrow> fs = []"
proof -
  have "first_seen fd_ID [] fs = [] \<longleftrightarrow> fs = []" by (cases fs) auto
  then show ?thesis unfolding deduplicateFindings_def by (metis length_0_conv length_sort)
qed

lemma find_same_set:
  "set xs = set ys \<Longrightarrow> inj_on name (set xs) \<Longrightarrow> find (\<lambda>x. name x = i) xs = find (\<lambda>x. name x = i) ys"
proof (cases "\<exists>x \<in> set xs. name x = i")
  case True
  assume sets: "set xs = set ys" and inj: "inj_on name (set xs)"
  from True obtain a where a: "find (\<lambda>x. name x = i) xs = Some a" by (metis (mono_tags, lifting) find_None_iff not_None_eq)
  from True sets obtain b where b: "find (\<lambda>x. name x = i) ys = Some b" by (metis (mono_tags, lifting) find_None_iff not_None_eq)
  have "a \<in> set xs" "name a = i" "b \<in> set ys" "name b = i" using a b by (auto simp: find_Some_iff)
  with sets inj have "a = b" by (metis inj_onD)
  with a b show ?thesis by simp
next
  case False
  assume "set xs = set ys"
  with False have "find (\<lambda>x. name x = i) xs = None" "find (\<lambda>x. name x = i) ys = None" by (auto simp: find_None_iff)
  then show ?thesis by simp
qed

lemma find_append: "find P (xs @ ys) = (case find P xs of None \<Rightarrow> find P ys | Some x \<Rightarrow> Some x)"
  by (induction xs) auto

lemma find_append_same: "find P a = find P a' \<Longrightarrow> find P b = find P b' \<Longrightarrow> find P (a @ b) = find P (a' @ b')"
  by (simp add: find_append split: option.splits)

lemma overlap_same_find:
  assumes "visit_ok v" and "visit_ok v'"
  shows "find (\<lambda>f. fd_ID f = i) (map (\<lambda>(p, t). overlap_finding task t) (filter P (v m)))
     = find (\<lambda>f. fd_ID f = i) (map (\<lambda>(p, t). overlap_finding task t) (filter P (v' m)))"
proof (rule find_same_set)
  show "set (map (\<lambda>(p, t). overlap_finding task t) (filter P (v m)))
      = set (map (\<lambda>(p, t). overlap_finding task t) (filter P (v' m)))"
    by (simp add: visit_set [OF assms(1)] visit_set [OF assms(2)])
  show "inj_on fd_ID (set (map (\<lambda>(p, t). overlap_finding task t) (filter P (v m))))"
    by (auto simp: inj_on_def overlap_finding_def blocking_def)
qed

lemma paths_loop_same:
  assumes "visit_ok v" and "visit_ok v'"
  shows "find (\<lambda>f. fd_ID f = i) (fst (paths_loop v task raws m)) = find (\<lambda>f. fd_ID f = i) (fst (paths_loop v' task raws m))
     \<and> snd (paths_loop v task raws m) = snd (paths_loop v' task raws m)"
proof (induction raws arbitrary: m)
  case (Cons r raws)
  show ?case
  proof (cases "cleanPath r")
    case (Some c)
    have step: "paths_loop v task (r # raws) m =
        (map (\<lambda>(p, t). overlap_finding task t)
           (filter (\<lambda>(p, t). t \<noteq> task \<and> (containsPath p c \<or> containsPath c p)) (v m))
         @ fst (paths_loop v task raws (gomap_put c task m)), snd (paths_loop v task raws (gomap_put c task m)))" for v
      using Some by (simp add: case_prod_unfold Let_def)
    show ?thesis unfolding step fst_conv snd_conv using Cons.IH [of "gomap_put c task m"] overlap_same_find [OF assms]
      by (intro conjI find_append_same) simp_all
  qed (use Cons.IH [of m] in \<open>simp add: case_prod_unfold Let_def\<close>)
qed simp

lemma audit_loop_same:
  assumes "visit_ok v" and "visit_ok v'"
  shows "find (\<lambda>f. fd_ID f = i) (audit_loop v cs m n) = find (\<lambda>f. fd_ID f = i) (audit_loop v' cs m n)"
proof (induction cs arbitrary: m n)
  case (Cons c cs)
  show ?case using paths_loop_same [OF assms, of i "ik_TaskID c" "ik_OwnedPaths c" m] Cons.IH
    unfolding audit_loop.simps Let_def case_prod_unfold by (intro find_append_same) simp_all
qed simp

lemma audit_findings_same: "visit_ok v \<Longrightarrow> visit_ok v' \<Longrightarrow> audit_findings v cs = audit_findings v' cs"
  unfolding audit_findings_def by (intro deduplicate_cong audit_loop_same)

lemma audit_findings_Nil:
  assumes "visit_ok v"
  shows "audit_findings v cs = [] \<longleftrightarrow> (\<forall>c \<in> set cs. candidate_clean c) \<and> pairwise candidates_apart (set cs)"
proof -
  have "books_of {} [] []" by (simp add: books_of_def)
  from audit_loop_Nil [OF assms this] show ?thesis by (simp add: audit_findings_def deduplicate_Nil)
qed

end
