(* ===== verification/Integration_Merge.thy ===== *)
theory Integration_Merge
  imports Integration_Safety
begin

text \<open>
  What an answer of the integration queue means. The interface between the queue and its store is a
  locale; the queue over the in-memory store, with an environment of any kind beside it, provides it.
\<close>

section \<open>The queue over the store in memory\<close>

text \<open>
  The state has two parts: the world of the gate, the executor, the verifier and the clock, and the
  store, which only the store's operations touch.
\<close>

definition on_world :: "('w \<Rightarrow> 'a \<times> 'w) \<Rightarrow> 'w \<times> 's \<Rightarrow> 'a \<times> ('w \<times> 's)" where
  "on_world f x = (let (a, w) = f (fst x) in (a, (w, snd x)))"

definition on_store :: "('s \<Rightarrow> 'a \<times> 's) \<Rightarrow> 'w \<times> 's \<Rightarrow> 'a \<times> ('w \<times> 's)" where
  "on_store f x = (let (a, s) = f (snd x) in (a, (fst x, s)))"

definition beside_world :: "'s MergeStore \<Rightarrow> ('w \<times> 's) MergeStore" where
  "beside_world st =
     \<lparr>ss_Get = (\<lambda>t i x. ss_Get st t i (snd x)), ss_GetTask = (\<lambda>t i x. ss_GetTask st t i (snd x)),
      ss_StartAttempt = (\<lambda>r. on_store (ss_StartAttempt st r)),
      ss_RecordConflict = (\<lambda>r. on_store (ss_RecordConflict st r)), ss_Reserve = (\<lambda>r. on_store (ss_Reserve st r)),
      ss_Complete = (\<lambda>r. on_store (ss_Complete st r))\<rparr>"

record 'w merge_environment =
  nv_gate :: "'w merge_gate"
  nv_executor :: "'w MergeExecutor"
  nv_clock :: "'w \<Rightarrow> time \<times> 'w"

definition NewVerifiedQueue ::
  "'s MergeStore \<Rightarrow> 'w merge_environment \<Rightarrow> merge_digests \<Rightarrow> ((string, string) gomap \<Rightarrow> (string, string) gomap) \<Rightarrow>
     ('w \<times> 's) Queue" where
  "NewVerifiedQueue st nv dg visit =
     \<lparr>qu_store = beside_world st,
      qu_executor = \<lparr>ex_Merge = (\<lambda>base commits i. on_world (ex_Merge (nv_executor nv) base commits i)),
        ex_Lookup = (\<lambda>i. on_world (ex_Lookup (nv_executor nv) i))\<rparr>,
      qu_gate = (\<lambda>r. on_world (nv_gate nv r)), qu_clock = on_world (nv_clock nv), qu_digests = dg,
      qu_visit = visit\<rparr>"

definition request_key :: "IntegrationRequest \<Rightarrow> string" where
  "request_key r = item_key (iq_TenantID r) (iq_IntegrationID r)"

definition result_key :: "MergeResult \<Rightarrow> string" where
  "result_key r = item_key (mr_TenantID r) (mr_IntegrationID r)"

definition same_merge :: "MergeResult \<Rightarrow> MergeResult \<Rightarrow> bool" where
  \<comment> \<open>results of the same merge request and audit\<close>
  "same_merge a b \<longleftrightarrow> mr_RequestDigest a = mr_RequestDigest b
     \<and> au_EvidenceSHA256 (mr_Audit a) = au_EvidenceSHA256 (mr_Audit b)"

definition same_lease :: "MergeResult \<Rightarrow> MergeResult \<Rightarrow> bool" where
  "same_lease a b \<longleftrightarrow> mr_LeaseID a = mr_LeaseID b \<and> mr_FencingToken a = mr_FencingToken b"

text \<open>The laws the queue relies on; \<open>row\<close> reads the record of a key.\<close>

locale merge_world =
  fixes q :: "'x Queue" and row :: "'x \<Rightarrow> string \<Rightarrow> memoryRecord option"
  assumes gate_keeps: "qu_gate q request x = (a, x') \<Longrightarrow> row x' = row x"
    and clock_keeps: "qu_clock q x = (now, x') \<Longrightarrow> row x' = row x"
    and executor_keeps: "ex_Merge (qu_executor q) base commits i x = (b, x') \<Longrightarrow> row x' = row x"
    and lookup_keeps: "ex_Lookup (qu_executor q) i x = (c, x') \<Longrightarrow> row x' = row x"
    and reserve_prior: "ss_Reserve (qu_store q) r x = ((prior, False, None), x') \<Longrightarrow> x' = x \<and>
      (\<exists>rec. row x (result_key r) = Some rec \<and> prior = merge_cloneResult (me_result rec)
         \<and> same_merge (me_result rec) r \<and> (it_State (me_task rec) = TaskDone \<longrightarrow> same_lease (me_result rec) r))"
    and reserve_done: "row x (result_key r) = Some rec \<Longrightarrow> it_State (me_task rec) = TaskDone \<Longrightarrow>
      same_merge (me_result rec) r \<Longrightarrow> same_lease (me_result rec) r \<Longrightarrow>
      ss_Reserve (qu_store q) r x = ((merge_cloneResult (me_result rec), False, None), x)"
    and reserve_held: "row x (result_key r) = Some rec \<Longrightarrow> it_State (me_task rec) = TaskMergeReserved \<Longrightarrow>
      same_merge (me_result rec) r \<Longrightarrow>
      ss_Reserve (qu_store q) r x = ((merge_cloneResult (me_result rec), False, None), x)"
    and complete_done: "ss_Complete (qu_store q) r x = (None, x') \<Longrightarrow>
      (\<exists>rec. row x' (result_key r) = Some rec \<and> it_State (me_task rec) = TaskDone
         \<and> same_merge (me_result rec) r \<and> same_lease (me_result rec) r \<and> mr_Commit (me_result rec) = mr_Commit r)"
    and complete_held: "row x (result_key r) = Some rec \<Longrightarrow> it_State (me_task rec) = TaskMergeReserved \<Longrightarrow>
      mr_Pending (me_result rec) \<Longrightarrow> same_merge (me_result rec) r \<Longrightarrow> it_OwnerTaskID (me_task rec) = mr_OwnerTaskID r \<Longrightarrow>
      it_Attempt (me_task rec) = mr_Attempt r \<Longrightarrow> mr_Checks r = None \<Longrightarrow> validStoredCandidates (mr_Candidates r) \<Longrightarrow>
      \<exists>x'. ss_Complete (qu_store q) r x = (None, x')"

interpretation mq: merge_world "NewVerifiedQueue memory_merge_store nv dg visit" "\<lambda>x. map_of (snd x)"
  for nv :: "'w merge_environment" and dg visit
proof (unfold_locales, goal_cases)
  case (5 r x prior x')
  then show ?case
    by (auto simp: NewVerifiedQueue_def beside_world_def memory_merge_store_def on_store_def merge_Reserve_def Let_def
        result_key_def same_merge_def same_lease_def split: option.splits if_splits prod.splits)
next
  case (6 x r rec)
  then show ?case
    by (cases x) (auto simp: NewVerifiedQueue_def beside_world_def memory_merge_store_def on_store_def merge_Reserve_def
        Let_def result_key_def same_merge_def same_lease_def)
next
  case (7 x r rec)
  then show ?case
    by (cases x) (auto simp: NewVerifiedQueue_def beside_world_def memory_merge_store_def on_store_def merge_Reserve_def
        Let_def result_key_def same_merge_def same_lease_def)
next
  case (8 r x x')
  then show ?case
    by (auto simp: NewVerifiedQueue_def beside_world_def memory_merge_store_def on_store_def merge_Complete_def Let_def
        result_key_def same_merge_def same_lease_def amap.look_store split: option.splits if_splits prod.splits)
next
  case (9 x r rec)
  then show ?case
    by (auto simp: NewVerifiedQueue_def beside_world_def memory_merge_store_def on_store_def merge_Complete_def Let_def
        result_key_def same_merge_def)
qed (auto simp: NewVerifiedQueue_def on_world_def split: prod.splits)

section \<open>The request and its verification\<close>

lemma set_canonicalCandidates: "set (canonicalCandidates cs) = canonical_candidate ` set cs"
  by (simp add: canonicalCandidates_def)

lemma canonical_candidate_sel [simp]:
  "ik_TaskID (canonical_candidate c) = ik_TaskID c" "ik_SubmissionCommit (canonical_candidate c) = ik_SubmissionCommit c"
  "candidate_clean (canonical_candidate c) = candidate_clean c"
  "interface_keys (canonical_candidate c) = interface_keys c"
  by (simp_all add: canonical_candidate_def candidate_clean_def interface_keys_def)

lemma canonical_apart [simp]:
  "candidates_apart (canonical_candidate a) (canonical_candidate b) = candidates_apart a b"
  by (simp add: candidates_apart_def interface_keys_def canonical_candidate_def)

lemma canonical_clean:
  assumes "canonicalCandidates cs = canonicalCandidates ds" and "\<forall>d \<in> set ds. candidate_clean d"
  shows "\<forall>c \<in> set cs. candidate_clean c"
proof
  fix c assume "c \<in> set cs"
  then have "canonical_candidate c \<in> canonical_candidate ` set ds"
    using assms(1) by (metis imageI set_canonicalCandidates)
  then obtain d where "d \<in> set ds" "canonical_candidate c = canonical_candidate d" by auto
  with assms(2) show "candidate_clean c" by (metis canonical_candidate_sel(3))
qed

lemma canonical_pairwise:
  assumes "canonicalCandidates cs = canonicalCandidates ds" and "pairwise candidates_apart (set ds)"
  shows "pairwise candidates_apart (set cs)"
proof (rule pairwiseI)
  have sets: "canonical_candidate ` set cs = canonical_candidate ` set ds"
    using assms(1) by (metis set_canonicalCandidates)
  fix a b assume "a \<in> set cs" "b \<in> set cs"
  then have "canonical_candidate a \<in> canonical_candidate ` set ds" "canonical_candidate b \<in> canonical_candidate ` set ds"
    using sets by auto
  then obtain a' b' where e: "a' \<in> set ds" "b' \<in> set ds" "canonical_candidate a = canonical_candidate a'"
      "canonical_candidate b = canonical_candidate b'"
    by auto
  have "candidates_apart a' b'"
  proof (cases "a' = b'")
    case False
    with assms(2) e show ?thesis by (simp add: pairwise_def)
  qed (simp add: candidates_apart_def)
  then have "candidates_apart (canonical_candidate a) (canonical_candidate b)" unfolding e by simp
  then show "candidates_apart a b" by simp
qed

lemma canonical_commits:
  assumes "canonicalCandidates cs = canonicalCandidates ds"
  shows "sort (map ik_SubmissionCommit cs) = sort (map ik_SubmissionCommit ds)"
proof -
  have "mset (map ik_SubmissionCommit xs) = mset (map ik_SubmissionCommit (canonicalCandidates xs))" for xs
    by (simp add: canonicalCandidates_def image_mset.compositionality comp_def)
  then have "mset (map ik_SubmissionCommit cs) = mset (map ik_SubmissionCommit ds)" using assms by metis
  then show ?thesis by (metis properties_for_sort sorted_sort mset_sort)
qed

lemma mset_findings: "audit_findings v (sort_key f cs) = [] \<longleftrightarrow> audit_findings v cs = []" if "visit_ok v"
  using that by (simp add: audit_findings_Nil)

lemma recordConflict_fails: "recordConflict q v a x = ((r, e), x') \<Longrightarrow> e \<noteq> None"
  by (auto simp: recordConflict_def Let_def split: if_splits prod.splits option.splits)

definition commit_given :: "'x Queue \<Rightarrow> IntegrationRequest \<Rightarrow> string \<Rightarrow> bool" where
  \<comment> \<open>the executor merged exactly the commits of the request, or found that it had\<close>
  "commit_given q request commit \<longleftrightarrow>
     (let i = mergeExecutionID (iq_IntegrationID request) (iq_Attempt request) in
      (\<exists>y y'. ex_Merge (qu_executor q) (iq_BaseCommit request)
                 (sort (map ik_SubmissionCommit (iq_Candidates request))) i y = (Inr commit, y'))
      \<or> (\<exists>y y'. ex_Lookup (qu_executor q) i y = (Inr (Some commit), y')))"

context merge_world
begin

lemma verify_keeps: "integration_verify q r x = (a, x') \<Longrightarrow> row x' = row x"
  unfolding integration_verify_def
  by (auto simp: Let_def split: if_splits prod.splits sum.splits dest!: clock_keeps gate_keeps)

lemma verify_Inr:
  "integration_verify q r x = (Inr v, x') \<Longrightarrow>
     integration_validateRequest r \<and> validateVerifiedRequest v \<and> requestMatchesVerified r v"
  unfolding integration_verify_def by (auto simp: Let_def split: if_splits prod.splits sum.splits)

lemma audit_Inr:
  assumes "auditVerified q v x = (Inr a, x')"
  shows "(au_Passed a \<longleftrightarrow> audit_findings (qu_visit q) (sort_key ik_TaskID (vq_Candidates v)) = [])
     \<and> auditDigest (qu_digests q) (v\<lparr>vq_Candidates := sort_key ik_TaskID (vq_Candidates v)\<rparr>)
          (audit_findings (qu_visit q) (sort_key ik_TaskID (vq_Candidates v))) = Inr (au_EvidenceSHA256 a)
     \<and> row x' = row x"
  using assms unfolding auditVerified_def by (auto simp: Let_def split: sum.splits prod.splits dest!: clock_keeps)

lemma reverify_Inr:
  "reverifyReservation q r res x = (Inr v, x') \<Longrightarrow>
     integration_verify q r x = (Inr v, x') \<and> requestDigest (qu_digests q) r v = Inr (mr_RequestDigest res)"
  unfolding reverifyReservation_def by (auto split: prod.splits sum.splits if_splits)

definition merged :: "'x merge_verifier option \<Rightarrow> MergeResult \<Rightarrow> MergeResult \<Rightarrow> 'x \<Rightarrow> bool" where
  \<comment> \<open>a reservation that became the result \<open>r\<close>, which is stored as done\<close>
  "merged verifier res r x \<longleftrightarrow>
     same_merge r res \<and> same_lease r res \<and> commitID (mr_Commit r) \<and> \<not> mr_Pending r
     \<and> (verifier \<noteq> None \<longrightarrow> validCheckResults (mr_Checks r) True)
     \<and> (\<exists>rec. row x (result_key res) = Some rec \<and> it_State (me_task rec) = TaskDone
          \<and> same_merge (me_result rec) res \<and> same_lease (me_result rec) res \<and> mr_Commit (me_result rec) = mr_Commit r)"

lemma complete_result_merged:
  assumes "complete_result q result x = ((r, None), x')" and "same_merge result res" "same_lease result res"
    and "result_key result = result_key res" and "commitID (mr_Commit result)" and "\<not> mr_Pending result"
    and "verifier \<noteq> None \<longrightarrow> validCheckResults (mr_Checks result) True"
  shows "r = result \<and> merged verifier res r x'"
proof -
  have c: "ss_Complete (qu_store q) result x = (None, x')" "r = result"
    using assms(1) by (auto simp: complete_result_def split: prod.splits option.splits)
  from complete_done [OF c(1)] show ?thesis using assms c(2)
    by (auto simp: merged_def same_merge_def same_lease_def)
qed

lemma normalize_passed:
  "normalizeCheckResults dg v commit now raw e = Inr (checks, True) \<Longrightarrow> validCheckResults (Some checks) True"
  by (auto simp: normalizeCheckResults_def Let_def split: prod.splits sum.splits)

lemma completeRecovered_merged:
  assumes "completeRecovered q v res commit verifier x = ((r, None), x')"
  shows "mr_Commit r = commit \<and> merged verifier res r x'"
proof -
  let ?result = "res\<lparr>mr_Commit := commit, mr_Pending := False\<rparr>"
  have commit: "commitID commit" using assms by (auto simp: completeRecovered_def split: if_splits)
  show ?thesis
  proof (cases verifier)
    case None
    then have "complete_result q ?result x = ((r, None), x')" using assms commit by (simp add: completeRecovered_def Let_def)
    from complete_result_merged [OF this, of res verifier] commit None show ?thesis
      by (auto simp: same_merge_def same_lease_def result_key_def)
  next
    case (Some ver)
    then have run: "run_checks q ver v ?result commit x = ((r, None), x')"
      using assms commit by (simp add: completeRecovered_def Let_def)
    then obtain checks y where c: "complete_result q (?result\<lparr>mr_Checks := Some checks\<rparr>) y = ((r, None), x')"
        and passed: "validCheckResults (Some checks) True"
      unfolding run_checks_def
      by (auto simp: Let_def dest!: normalize_passed split: prod.splits sum.splits if_splits bool.splits)
    from complete_result_merged [OF c, of res verifier] commit passed show ?thesis
      by (auto simp: same_merge_def same_lease_def result_key_def)
  qed
qed

lemma verified_names:
  assumes "requestMatchesVerified r v"
  shows "vq_IntegrationID v = iq_IntegrationID r" "vq_TenantID v = iq_TenantID r" "vq_Attempt v = iq_Attempt r"
    "vq_BaseCommit v = iq_BaseCommit r" "vq_LeaseID v = iq_LeaseID r" "vq_FencingToken v = iq_FencingToken r"
    "vq_OwnerTaskID v = iq_OwnerTaskID r"
    "canonicalCandidates (vq_Candidates v) = canonicalCandidates (iq_Candidates r)"
  using assms by (simp_all add: requestMatchesVerified_def)

lemma reverified_merged:
  "reverified_complete q r v res commit verifier x = ((a, None), x') \<Longrightarrow> mr_Commit a = commit \<and> merged verifier res a x'"
  unfolding reverified_complete_def by (auto split: prod.splits sum.splits dest: completeRecovered_merged)

lemma execute_merged:
  assumes "execute_merge q r res i verifier x = ((a, None), x')"
    and "i = mergeExecutionID (iq_IntegrationID r) (iq_Attempt r)"
  shows "commit_given q r (mr_Commit a) \<and> merged verifier res a x'"
proof -
  obtain v y where v: "reverifyReservation q r res x = (Inr v, y)"
    using assms(1) by (auto simp: execute_merge_def split: prod.splits sum.splits)
  have names: "vq_BaseCommit v = iq_BaseCommit r"
      "sort (map ik_SubmissionCommit (vq_Candidates v)) = sort (map ik_SubmissionCommit (iq_Candidates r))"
    using verify_Inr [of r x v y] reverify_Inr [OF v] verified_names(4,8) canonical_commits by blast+
  obtain b z where b: "ex_Merge (qu_executor q) (iq_BaseCommit r) (sort (map ik_SubmissionCommit (iq_Candidates r))) i y = (b, z)"
    by force
  show ?thesis
  proof (cases b)
    case (Inr commit)
    then have "reverified_complete q r v res commit verifier z = ((a, None), x')"
      using assms(1) v b names by (simp add: execute_merge_def Let_def)
    from reverified_merged [OF this] b Inr assms(2) show ?thesis by (auto simp: commit_given_def Let_def)
  next
    case (Inl err)
    then have "merge_failed q r v res i verifier err z = ((a, None), x')"
      using assms(1) v b names by (simp add: execute_merge_def Let_def)
    then obtain commit z' where "ex_Lookup (qu_executor q) i z = (Inr (Some commit), z')"
        "reverified_complete q r v res commit verifier z' = ((a, None), x')"
      unfolding merge_failed_def
      by (auto split: prod.splits sum.splits option.splits if_splits dest: recordConflict_fails)
    with reverified_merged assms(2) show ?thesis by (fastforce simp: commit_given_def Let_def)
  qed
qed

definition repeated :: "MergeResult \<Rightarrow> MergeResult \<Rightarrow> 'x \<Rightarrow> bool" where
  \<comment> \<open>the answer is a stored result of the same merge that was no longer pending\<close>
  "repeated res r x \<longleftrightarrow> (\<exists>rec. row x (result_key res) = Some rec \<and> \<not> mr_Pending (me_result rec)
     \<and> same_merge (me_result rec) res \<and> (it_State (me_task rec) = TaskDone \<longrightarrow> same_lease (me_result rec) res)
     \<and> r = (merge_cloneResult (me_result rec))\<lparr>mr_Duplicate := True\<rparr>)"

lemma reserved_merged:
  assumes "reserved_merge q r v res verifier x = ((a, None), x')" and "requestMatchesVerified r v"
  shows "(repeated res a x \<and> x' = x) \<or> (commit_given q r (mr_Commit a) \<and> merged verifier res a x')"
proof -
  let ?i = "mergeExecutionID (vq_IntegrationID v) (vq_Attempt v)"
  have i: "?i = mergeExecutionID (iq_IntegrationID r) (iq_Attempt r)" using assms(2) by (simp add: verified_names)
  obtain prior owner e y where rs: "ss_Reserve (qu_store q) res x = ((prior, owner, e), y)" by (metis prod_cases3 surj_pair)
  have e: "e = None" using assms(1) rs by (cases e) (auto simp: reserved_merge_def Let_def)
  show ?thesis
  proof (cases owner)
    case True
    then have "execute_merge q r res ?i verifier y = ((a, None), x')"
      using assms(1) rs e by (simp add: reserved_merge_def Let_def)
    from execute_merged [OF this i] show ?thesis by simp
  next
    case False
    with rs e have rs': "ss_Reserve (qu_store q) res x = ((prior, False, None), y)" by simp
    note p = reserve_prior [OF rs']
    show ?thesis
    proof (cases "mr_Pending prior")
      case False
      then have "a = prior\<lparr>mr_Duplicate := True\<rparr>" "x' = y" using assms(1) rs' by (simp_all add: reserved_merge_def Let_def)
      with p False show ?thesis unfolding repeated_def by auto
    next
      case True
      let ?res = "res\<lparr>mr_Duplicate := True\<rparr>"
      have same: "merged verifier ?res a x' \<longleftrightarrow> merged verifier res a x'"
        by (simp add: merged_def same_merge_def same_lease_def result_key_def)
      obtain l z where l: "ex_Lookup (qu_executor q) ?i y = (l, z)" by force
      from assms(1) rs' True l consider
          (found) commit where "l = Inr (Some commit)" "reverified_complete q r v ?res commit verifier z = ((a, None), x')"
        | (lost) "l = Inr None" "execute_merge q r ?res ?i verifier z = ((a, None), x')"
        by (auto simp: reserved_merge_def Let_def split: sum.splits option.splits)
      then show ?thesis
      proof cases
        case found
        from reverified_merged [OF found(2)] found(1) l i same show ?thesis
          by (auto simp: commit_given_def Let_def)
      next
        case lost
        from execute_merged [OF lost(2) i] same show ?thesis by simp
      qed
    qed
  qed
qed

lemma merge_Inr:
  assumes "integration_merge q r verifier x = ((a, None), x')"
  obtains v y audit z digest where "integration_verify q r x = (Inr v, y)" "auditVerified q v y = (Inr audit, z)"
    "au_Passed audit" "requestDigest (qu_digests q) r v = Inr digest" "row z = row x"
    "(repeated (reservation_of v audit digest) a z \<and> x' = z)
       \<or> (commit_given q r (mr_Commit a) \<and> merged verifier (reservation_of v audit digest) a x')"
proof -
  obtain v y where v: "integration_verify q r x = (Inr v, y)"
    using assms by (auto simp: integration_merge_def split: prod.splits sum.splits)
  obtain audit z where au: "auditVerified q v y = (Inr audit, z)"
    using assms v by (auto simp: integration_merge_def split: prod.splits sum.splits)
  have passed: "au_Passed audit" using assms v au
    by (auto simp: integration_merge_def dest: recordConflict_fails split: if_splits)
  obtain digest where d: "requestDigest (qu_digests q) r v = Inr digest"
    using assms v au passed by (auto simp: integration_merge_def split: sum.splits)
  have "reserved_merge q r v (reservation_of v audit digest) verifier z = ((a, None), x')"
    using assms v au passed d by (simp add: integration_merge_def)
  from reserved_merged [OF this] verify_Inr [OF v] have
    "(repeated (reservation_of v audit digest) a z \<and> x' = z)
       \<or> (commit_given q r (mr_Commit a) \<and> merged verifier (reservation_of v audit digest) a x')" by simp
  moreover have "row z = row x" using verify_keeps [OF v] audit_Inr [OF au] by simp
  ultimately show ?thesis using that v au passed d by blast
qed

end

section \<open>What a merge may touch\<close>

text \<open>
  A relation that every call of the environment and of the store keeps is kept by a merge.
\<close>

locale merge_frame =
  fixes q :: "'x Queue" and rel :: "'x \<Rightarrow> 'x \<Rightarrow> bool"
  assumes rel_refl: "rel x x"
    and rel_trans: "rel x y \<Longrightarrow> rel y z \<Longrightarrow> rel x z"
    and gate_rel: "qu_gate q request x = (a, x') \<Longrightarrow> rel x x'"
    and clock_rel: "qu_clock q x = (now, x') \<Longrightarrow> rel x x'"
    and executor_rel: "ex_Merge (qu_executor q) base commits i x = (b, x') \<Longrightarrow> rel x x'"
    and lookup_rel: "ex_Lookup (qu_executor q) i x = (c, x') \<Longrightarrow> rel x x'"
    and conflict_rel: "ss_RecordConflict (qu_store q) r x = (d, x') \<Longrightarrow> rel x x'"
    and reserve_rel: "ss_Reserve (qu_store q) r x = (d, x') \<Longrightarrow> rel x x'"
    and complete_rel: "ss_Complete (qu_store q) r x = (e, x') \<Longrightarrow> rel x x'"
begin

lemma verify_rel: "integration_verify q r x = (a, x') \<Longrightarrow> rel x x'"
  unfolding integration_verify_def
  by (auto simp: Let_def rel_refl split: if_splits prod.splits sum.splits
      dest!: clock_rel gate_rel intro: rel_trans)

lemma audit_rel: "auditVerified q v x = (a, x') \<Longrightarrow> rel x x'"
  unfolding auditVerified_def by (auto simp: Let_def rel_refl split: sum.splits prod.splits dest: clock_rel)

lemma reverify_rel: "reverifyReservation q r res x = (a, x') \<Longrightarrow> rel x x'"
  unfolding reverifyReservation_def by (auto dest: verify_rel split: prod.splits sum.splits if_splits)

lemma record_rel: "recordConflict q v a x = (b, x') \<Longrightarrow> rel x x'"
  unfolding recordConflict_def
  by (auto simp: Let_def rel_refl split: if_splits prod.splits option.splits dest: conflict_rel)

lemma failure_rel: "mergeFailureAudit q v x = (a, x') \<Longrightarrow> rel x x'"
  unfolding mergeFailureAudit_def by (auto simp: Let_def rel_refl split: sum.splits prod.splits dest: clock_rel)

lemma check_failure_rel: "checkFailureAudit q v cs e x = (a, x') \<Longrightarrow> rel x x'"
  unfolding checkFailureAudit_def
  by (auto simp: Let_def rel_refl split: sum.splits prod.splits if_splits dest: clock_rel)

lemma complete_result_rel: "complete_result q r x = (a, x') \<Longrightarrow> rel x x'"
  unfolding complete_result_def by (auto split: prod.splits option.splits dest: complete_rel)

definition verifier_keeps :: "'x merge_verifier option \<Rightarrow> bool" where
  "verifier_keeps verifier \<longleftrightarrow> (\<forall>v i y b y'. verifier = Some v \<longrightarrow> v i y = (b, y') \<longrightarrow> rel y y')"

lemma run_checks_rel:
  assumes "run_checks q v verified result commit x = (a, x')" and "verifier_keeps (Some v)"
  shows "rel x x'"
proof -
  obtain b y where v: "v \<lparr>mi_TenantID = vq_TenantID verified, mi_ProjectID = vq_ProjectID verified,
       mi_IntegrationID = vq_IntegrationID verified, mi_IntegrationCommit = commit,
       mi_BaseCommit = vq_BaseCommit verified, mi_Candidates = vq_Candidates verified\<rparr> x = (b, y)"
    by (metis surj_pair)
  obtain now z where c: "qu_clock q y = (now, z)" by force
  have xz: "rel x z" using v c assms(2) clock_rel rel_trans unfolding verifier_keeps_def by blast
  have "rel z x'" using assms(1) v c unfolding run_checks_def
    by (auto simp: Let_def rel_refl split: prod.splits sum.splits if_splits
        dest!: check_failure_rel record_rel complete_result_rel intro: rel_trans)
  with xz show ?thesis by (rule rel_trans)
qed

lemma completeRecovered_rel:
  "completeRecovered q v res commit verifier x = (a, x') \<Longrightarrow> verifier_keeps verifier \<Longrightarrow> rel x x'"
  unfolding completeRecovered_def
  by (auto simp: Let_def rel_refl split: if_splits option.splits dest: complete_result_rel run_checks_rel)

lemma reverified_rel:
  "reverified_complete q r v res commit verifier x = (a, x') \<Longrightarrow> verifier_keeps verifier \<Longrightarrow> rel x x'"
  unfolding reverified_complete_def
  by (auto split: prod.splits sum.splits dest!: reverify_rel completeRecovered_rel intro: rel_trans)

lemma merge_failed_rel:
  "merge_failed q r v res i verifier err x = (a, x') \<Longrightarrow> verifier_keeps verifier \<Longrightarrow> rel x x'"
  unfolding merge_failed_def
  by (auto split: prod.splits sum.splits option.splits if_splits
      dest!: lookup_rel reverified_rel failure_rel record_rel intro: rel_trans)

lemma execute_rel:
  "execute_merge q r res i verifier x = (a, x') \<Longrightarrow> verifier_keeps verifier \<Longrightarrow> rel x x'"
  unfolding execute_merge_def
  by (auto simp: Let_def split: prod.splits sum.splits
      dest!: reverify_rel executor_rel merge_failed_rel reverified_rel intro: rel_trans)

lemma reserved_rel:
  "reserved_merge q r v res verifier x = (a, x') \<Longrightarrow> verifier_keeps verifier \<Longrightarrow> rel x x'"
  unfolding reserved_merge_def
  by (auto simp: Let_def split: prod.splits sum.splits option.splits if_splits
      dest!: reserve_rel lookup_rel execute_rel reverified_rel intro: rel_trans)

lemma merge_rel:
  "integration_merge q r verifier x = (a, x') \<Longrightarrow> verifier_keeps verifier \<Longrightarrow> rel x x'"
  unfolding integration_merge_def
  by (auto simp: rel_refl split: prod.splits sum.splits if_splits
      dest!: verify_rel audit_rel record_rel reserved_rel intro: rel_trans)

end

interpretation steps: merge_frame "NewVerifiedQueue memory_merge_store nv dg visit"
    "\<lambda>x y. merge_store_step\<^sup>*\<^sup>* (snd x) (snd y)"
  for nv :: "'w merge_environment" and dg visit
proof (unfold_locales, goal_cases)
  case (7 r x d x')
  then show ?case
    by (auto simp: NewVerifiedQueue_def beside_world_def memory_merge_store_def on_store_def split: prod.splits
        intro!: r_into_rtranclp merge_store_step.intros(2))
next
  case (8 r x d x')
  then show ?case
    by (auto simp: NewVerifiedQueue_def beside_world_def memory_merge_store_def on_store_def split: prod.splits
        intro!: r_into_rtranclp merge_store_step.intros(4))
next
  case (9 r x e x')
  then show ?case
    by (auto simp: NewVerifiedQueue_def beside_world_def memory_merge_store_def on_store_def split: prod.splits
        intro!: r_into_rtranclp merge_store_step.intros(5))
qed (auto simp: NewVerifiedQueue_def on_world_def split: prod.splits)

end
