(* ===== verification/Integration_Properties.thy ===== *)
theory Integration_Properties
  imports Integration_Merge
begin

text \<open>
  The promises of integration: the life of an integration over any run, exact audits, merges that
  are only accepted for audited, disjoint modules, answers that repeat, and recovery of a merge that
  was interrupted.
\<close>

section \<open>Runs of the queue\<close>

abbreviation memory_queue ::
  "'w merge_environment \<Rightarrow> merge_digests \<Rightarrow> ((string, string) gomap \<Rightarrow> (string, string) gomap) \<Rightarrow> ('w \<times> MergeMemory) Queue" where
  "memory_queue nv dg visit \<equiv> NewVerifiedQueue memory_merge_store nv dg visit"

definition beside_store :: "'w merge_verifier \<Rightarrow> ('w \<times> MergeMemory) merge_verifier" where
  "beside_store v = (\<lambda>i. on_world (v i))"

inductive queue_step ::
  "'w merge_environment \<Rightarrow> merge_digests \<Rightarrow> ((string, string) gomap \<Rightarrow> (string, string) gomap) \<Rightarrow>
     'w \<times> MergeMemory \<Rightarrow> 'w \<times> MergeMemory \<Rightarrow> bool"
  for nv dg visit where
  audit: "integration_Audit (memory_queue nv dg visit) r x = (a, y) \<Longrightarrow> queue_step nv dg visit x y"
| merge: "integration_Merge (memory_queue nv dg visit) r x = (b, y) \<Longrightarrow> queue_step nv dg visit x y"
| checked: "MergeWithChecks (memory_queue nv dg visit) r (Some (beside_store v)) x = (b, y) \<Longrightarrow> queue_step nv dg visit x y"
| start: "on_store (merge_StartAttempt sr) x = (c, y) \<Longrightarrow> queue_step nv dg visit x y"
| global: "on_store (RecordGlobalAuditConflict m v) x = (d, y) \<Longrightarrow> queue_step nv dg visit x y"

lemma queue_step_store: "queue_step nv dg visit x y \<Longrightarrow> merge_store_step\<^sup>*\<^sup>* (snd x) (snd y)"
proof (induction rule: queue_step.induct)
  case (audit r x a y)
  then show ?case unfolding integration_Audit_def
    by (auto split: prod.splits sum.splits dest!: steps.verify_rel steps.audit_rel)
next
  case (merge r x b y)
  then show ?case unfolding integration_Merge_def
    by (rule steps.merge_rel) (simp add: steps.verifier_keeps_def)
next
  case (checked r v x b y)
  have "steps.verifier_keeps (Some (beside_store v))"
    by (auto simp: steps.verifier_keeps_def beside_store_def on_world_def split: prod.splits)
  with checked show ?case by (auto simp: MergeWithChecks_def intro: steps.merge_rel)
next
  case (start sr x c y)
  then show ?case by (auto simp: on_store_def split: prod.splits intro!: r_into_rtranclp merge_store_step.intros(1))
next
  case (global m v x d y)
  then show ?case by (auto simp: on_store_def split: prod.splits intro!: r_into_rtranclp merge_store_step.intros(3))
qed

lemma queue_steps_store: "(queue_step nv dg visit)\<^sup>*\<^sup>* x y \<Longrightarrow> merge_store_step\<^sup>*\<^sup>* (snd x) (snd y)"
  by (induction rule: rtranclp_induct) (auto dest: queue_step_store intro: rtranclp_trans)

lemma store_steps_record:
  "merge_store_step\<^sup>*\<^sup>* s s' \<Longrightarrow> stored_ok s \<Longrightarrow> map_of s k = Some rec \<Longrightarrow>
     \<exists>rec'. map_of s' k = Some rec' \<and> record_next\<^sup>*\<^sup>* rec rec'"
proof (induction rule: rtranclp_induct)
  case (step y z)
  then obtain rec' where r: "map_of y k = Some rec'" "record_next\<^sup>*\<^sup>* rec rec'" by blast
  have "stored_ok y" using step.hyps(1) step.prems(1) by (rule merge_steps_ok)
  with step.hyps(2) have "step_ok y z" by (rule merge_store_step_ok)
  with r(1) obtain rec'' where "map_of z k = Some rec''" "rec'' = rec' \<or> record_next rec' rec''"
    by (auto simp: step_ok_def rows_move_def)
  with r(2) show ?case by (auto intro: rtranclp.rtrancl_into_rtrancl)
qed blast

text \<open>
  C11: the life of an integration. In every run of the queue, every record follows the state machine
  of integrations: its version counts its moves, its attempts go up by one from rework to execution
  and never beyond three, a reservation ends in a conflict or in the result of the same request and
  audit, the failure of the third attempt waits for a decision of the user; and a finished or blocked record never
  changes again.
\<close>

theorem integration_lifecycle:
  assumes "(queue_step nv dg visit)\<^sup>*\<^sup>* (w, NewMergeMemory) x" and "(queue_step nv dg visit)\<^sup>*\<^sup>* x y"
    and "map_of (snd x) k = Some rec"
  shows "record_ok k rec \<and> (\<exists>rec'. map_of (snd y) k = Some rec' \<and> record_next\<^sup>*\<^sup>* rec rec'
      \<and> (it_State (me_task rec) \<in> {TaskDone, TaskBlockedUserDecision} \<longrightarrow> rec' = rec))"
proof -
  have ok: "stored_ok (snd x)"
    using merge_steps_ok [OF queue_steps_store [OF assms(1)]] stored_ok_new by simp
  from store_steps_record [OF queue_steps_store [OF assms(2)] ok assms(3)]
    finished_steps [OF queue_steps_store [OF assms(2)] ok assms(3)] stored_okD [OF ok assms(3)]
  show ?thesis by auto
qed

definition digests_named :: "merge_digests \<Rightarrow> bool" where
  \<comment> \<open>\<open>canonicaljson.Digest\<close> gives no empty text\<close>
  "digests_named dg \<longleftrightarrow> (\<forall>v d. dg_request dg v = Inr d \<longrightarrow> d \<noteq> [])"

section \<open>Audits\<close>

text \<open>
  C12: an audit finds nothing exactly for candidates with passing evidence and clean relative paths
  whose paths and public interfaces belong to one task each; and its findings do not depend on the
  order in which the loop visits the map of paths.
\<close>

theorem integration_audit_exact:
  assumes "visit_ok visit" and "visit_ok visit'"
  shows "(audit_findings visit cs = [] \<longleftrightarrow>
        (\<forall>c \<in> set cs. candidate_clean c) \<and> pairwise candidates_apart (set cs))
     \<and> audit_findings visit cs = audit_findings visit' cs"
  using audit_findings_Nil [OF assms(1)] audit_findings_same [OF assms] by simp

section \<open>Merges\<close>

lemma settled_done:
  assumes "record_ok k rec" and "\<not> mr_Pending (me_result rec)" and "mr_RequestDigest (me_result rec) \<noteq> []"
  shows "it_State (me_task rec) = TaskDone"
  using assms by (auto simp: record_ok_def Let_def split: IntegrationTaskState.splits)

lemma reservation_key:
  "requestMatchesVerified r v \<Longrightarrow> result_key (reservation_of v a d) = request_key r"
  by (simp add: result_key_def request_key_def reservation_of_def requestMatchesVerified_def)

lemma reservation_sel [simp]:
  "mr_RequestDigest (reservation_of v a d) = d" "mr_Audit (reservation_of v a d) = a"
  "mr_LeaseID (reservation_of v a d) = vq_LeaseID v" "mr_FencingToken (reservation_of v a d) = vq_FencingToken v"
  "mr_OwnerTaskID (reservation_of v a d) = vq_OwnerTaskID v" "mr_Attempt (reservation_of v a d) = vq_Attempt v"
  "mr_Checks (reservation_of v a d) = None" "mr_Candidates (reservation_of v a d) = appended_copy (vq_Candidates v)"
  by (simp_all add: reservation_of_def)

definition done_as :: "IntegrationRequest \<Rightarrow> MergeResult \<Rightarrow> memoryRecord \<Rightarrow> bool" where
  \<comment> \<open>the record is the finished merge the answer speaks of, under the lease of the request\<close>
  "done_as r a rec \<longleftrightarrow>
     it_State (me_task rec) = TaskDone \<and> mr_Commit (me_result rec) = mr_Commit a
     \<and> mr_RequestDigest (me_result rec) = mr_RequestDigest a
     \<and> au_EvidenceSHA256 (mr_Audit (me_result rec)) = au_EvidenceSHA256 (mr_Audit a)
     \<and> mr_LeaseID (me_result rec) = iq_LeaseID r \<and> mr_FencingToken (me_result rec) = iq_FencingToken r"

lemma accepted_clean:
  assumes "visit_ok visit" and "requestMatchesVerified r v"
    and "auditVerified (memory_queue nv dg visit) v y = (Inr audit, z)" and "au_Passed audit"
  shows "(\<forall>c \<in> set (iq_Candidates r). candidate_clean c) \<and> pairwise candidates_apart (set (iq_Candidates r))"
proof -
  have "audit_findings visit (vq_Candidates v) = []"
    using mq.audit_Inr [OF assms(3)] assms(4) mset_findings [OF assms(1), of ik_TaskID "vq_Candidates v"]
    by (auto simp: NewVerifiedQueue_def)
  then have "(\<forall>c \<in> set (vq_Candidates v). candidate_clean c) \<and> pairwise candidates_apart (set (vq_Candidates v))"
    by (simp add: audit_findings_Nil [OF assms(1)])
  then show ?thesis
    using canonical_clean canonical_pairwise mq.verified_names(8) [OF assms(2)] by metis
qed

text \<open>
  C9: an accepted merge. When a merge answers without an error, every candidate of the request has
  passing evidence and clean paths, different tasks share neither paths nor interfaces, and the
  store holds the answer's commit as finished, under the request's lease. Either it held it before,
  unchanged, or the executor gave this commit for exactly the base and the commits of the request,
  and where checks were asked for, all five required checks passed.
\<close>

theorem merge_accepted:
  assumes "visit_ok visit" and "digests_named dg" and "stored_ok (snd x)"
    and "integration_merge (memory_queue nv dg visit) r verifier x = ((a, None), x')"
  shows "(\<forall>c \<in> set (iq_Candidates r). candidate_clean c) \<and> pairwise candidates_apart (set (iq_Candidates r))
     \<and> (\<exists>rec. map_of (snd x') (request_key r) = Some rec \<and> done_as r a rec
          \<and> (mr_Duplicate a \<and> snd x' = snd x
             \<or> commitID (mr_Commit a) \<and> commit_given (memory_queue nv dg visit) r (mr_Commit a)
               \<and> (verifier \<noteq> None \<longrightarrow> validCheckResults (mr_Checks a) True)))"
proof -
  let ?q = "memory_queue nv dg visit"
  obtain v y audit z digest where v: "integration_verify ?q r x = (Inr v, y)" and au: "auditVerified ?q v y = (Inr audit, z)"
    and passed: "au_Passed audit" and d: "requestDigest (qu_digests ?q) r v = Inr digest"
    and z: "map_of (snd z) = map_of (snd x)"
    and ends: "(mq.repeated (reservation_of v audit digest) a z \<and> x' = z)
       \<or> (commit_given ?q r (mr_Commit a) \<and> mq.merged verifier (reservation_of v audit digest) a x')"
    using mq.merge_Inr [OF assms(4)] by metis
  have m: "requestMatchesVerified r v" using mq.verify_Inr [OF v] by simp
  note clean = accepted_clean [OF assms(1) m au passed]
  have digest: "digest \<noteq> []"
    using d assms(2) by (auto simp: requestDigest_def digests_named_def NewVerifiedQueue_def)
  note names = mq.verified_names [OF m] reservation_key [OF m, of audit digest]
  have store: "snd z = snd x"
    using v au by (auto simp: integration_verify_def auditVerified_def NewVerifiedQueue_def on_world_def Let_def
        split: prod.splits sum.splits if_splits)
  from ends show ?thesis
  proof (elim disjE conjE)
    assume rep: "mq.repeated (reservation_of v audit digest) a z" and "x' = z"
    then obtain rec where rec: "map_of (snd x') (request_key r) = Some rec" "\<not> mr_Pending (me_result rec)"
        "same_merge (me_result rec) (reservation_of v audit digest)"
        "it_State (me_task rec) = TaskDone \<longrightarrow> same_lease (me_result rec) (reservation_of v audit digest)"
        "a = (merge_cloneResult (me_result rec))\<lparr>mr_Duplicate := True\<rparr>"
      unfolding mq.repeated_def names by auto
    moreover have "it_State (me_task rec) = TaskDone"
      using settled_done [of "request_key r" rec] rec digest stored_okD [OF assms(3)] z \<open>x' = z\<close>
      by (auto simp: same_merge_def)
    ultimately have "done_as r a rec" "mr_Duplicate a"
      by (auto simp: done_as_def same_lease_def names)
    with rec(1) clean store \<open>x' = z\<close> show ?thesis by blast
  next
    assume given: "commit_given ?q r (mr_Commit a)" and res: "mq.merged verifier (reservation_of v audit digest) a x'"
    then obtain rec where "map_of (snd x') (request_key r) = Some rec" "done_as r a rec"
      unfolding mq.merged_def names by (auto simp: done_as_def same_merge_def same_lease_def names)
    with clean given res show ?thesis by (auto simp: mq.merged_def)
  qed
qed

section \<open>Repetition and recovery\<close>

definition steady :: "'w merge_environment \<Rightarrow> IntegrationRequest \<Rightarrow> VerifiedRequest \<Rightarrow> bool" where
  \<comment> \<open>the gate keeps verifying the request as \<open>v\<close>, and the clock does not run behind it\<close>
  "steady nv r v \<longleftrightarrow> (\<forall>w. fst (nv_gate nv r w) = Inr v)
     \<and> (\<forall>w. iq_CreatedAt r \<le> fst (nv_clock nv w) + 60 * second_ns)"

lemma steady_verify:
  assumes "steady nv r v" and "integration_validateRequest r" and "validateVerifiedRequest v"
    and "requestMatchesVerified r v"
  shows "\<exists>w. integration_verify (memory_queue nv dg visit) r x = (Inr v, (w, snd x))"
proof -
  obtain now w where c: "nv_clock nv (fst x) = (now, w)" by force
  obtain w' where g: "nv_gate nv r w = (Inr v, w')"
    using assms(1) by (metis prod.collapse steady_def)
  have "iq_CreatedAt r \<le> now + 60 * second_ns" using assms(1) c by (metis fst_conv steady_def)
  with c g assms(2-4) show ?thesis
    by (simp add: integration_verify_def NewVerifiedQueue_def on_world_def)
qed

lemma verified_as:
  assumes "integration_verify (memory_queue nv dg visit) r x = (Inr v', x')" and "steady nv r v"
  shows "v' = v"
proof -
  obtain w w' where "nv_gate nv r w = (Inr v', w')"
    using assms(1) by (auto simp: integration_verify_def NewVerifiedQueue_def on_world_def Let_def
        split: if_splits prod.splits sum.splits)
  with assms(2) show ?thesis by (metis fst_conv steady_def sum.inject(2))
qed

lemma audit_again:
  assumes "auditVerified (memory_queue nv dg visit) v x = (Inr a, x')"
  shows "\<exists>a' w. auditVerified (memory_queue nv dg visit) v y = (Inr a', (w, snd y))
     \<and> au_EvidenceSHA256 a' = au_EvidenceSHA256 a \<and> au_Passed a' = au_Passed a"
  using assms unfolding auditVerified_def NewVerifiedQueue_def on_world_def
  by (auto simp: Let_def split: sum.splits prod.splits)

lemma queue_sel:
  "qu_digests (memory_queue nv dg visit) = dg" "qu_visit (memory_queue nv dg visit) = visit"
  "qu_clock (memory_queue nv dg visit) = on_world (nv_clock nv)"
  "qu_gate (memory_queue nv dg visit) = (\<lambda>r. on_world (nv_gate nv r))"
  "qu_store (memory_queue nv dg visit) = beside_world memory_merge_store"
  by (simp_all add: NewVerifiedQueue_def)

lemma store_sel:
  "ss_Reserve (qu_store (memory_queue nv dg visit)) c = on_store (merge_Reserve c)"
  "ss_Complete (qu_store (memory_queue nv dg visit)) c = on_store (merge_Complete c)"
  by (simp_all add: queue_sel beside_world_def) (simp_all add: memory_merge_store_def)

lemma environment_sel:
  "nv_clock (nv\<lparr>nv_executor := e\<rparr>) = nv_clock nv" "nv_gate (nv\<lparr>nv_executor := e\<rparr>) = nv_gate nv"
  by simp_all

lemma other_executor:
  "integration_verify (memory_queue (nv\<lparr>nv_executor := e\<rparr>) dg visit) r x = integration_verify (memory_queue nv dg visit) r x"
  "auditVerified (memory_queue (nv\<lparr>nv_executor := e\<rparr>) dg visit) v x = auditVerified (memory_queue nv dg visit) v x"
  unfolding integration_verify_def auditVerified_def queue_sel environment_sel by (rule refl)+

lemma repeated_answer:
  assumes "map_of (snd y) (result_key res) = Some rec" and "it_State (me_task rec) = TaskDone"
    and "same_merge (me_result rec) res" and "same_lease (me_result rec) res" and "\<not> mr_Pending (me_result rec)"
  shows "reserved_merge (memory_queue nv dg visit) r v res verifier y
     = (((merge_cloneResult (me_result rec))\<lparr>mr_Duplicate := True\<rparr>, None), y)"
  using mq.reserve_done [OF assms(1-4)] assms(5) by (simp add: reserved_merge_def Let_def)

lemma finished_answer:
  assumes "(mq.repeated res a z \<and> x' = z) \<or> (commit_given q r (mr_Commit a) \<and> mq.merged verifier res a x')"
    and "mr_RequestDigest res \<noteq> []" and "stored_ok (snd x)" and "map_of (snd z) = map_of (snd x)"
  shows "\<exists>rec. map_of (snd x') (result_key res) = Some rec \<and> it_State (me_task rec) = TaskDone
     \<and> same_merge (me_result rec) res \<and> same_lease (me_result rec) res \<and> mr_Commit (me_result rec) = mr_Commit a
     \<and> mr_RequestDigest a = mr_RequestDigest res"
  using assms(1)
proof (elim disjE conjE)
  assume "mq.repeated res a z" "x' = z"
  then obtain rec where rec: "map_of (snd x') (result_key res) = Some rec" "\<not> mr_Pending (me_result rec)"
      "same_merge (me_result rec) res" "it_State (me_task rec) = TaskDone \<longrightarrow> same_lease (me_result rec) res"
      "a = (merge_cloneResult (me_result rec))\<lparr>mr_Duplicate := True\<rparr>"
    unfolding mq.repeated_def by auto
  have "record_ok (result_key res) rec" using stored_okD [OF assms(3)] rec(1) assms(4) \<open>x' = z\<close> by simp
  then have "it_State (me_task rec) = TaskDone"
    using rec(2,3) assms(2) by (intro settled_done) (auto simp: same_merge_def)
  with rec show ?thesis by (auto simp: same_merge_def)
next
  assume "mq.merged verifier res a x'"
  then show ?thesis by (auto simp: mq.merged_def same_merge_def)
qed

lemma queue_merge_step:
  assumes "integration_merge (memory_queue nv dg visit) r (map_option beside_store verifier) x = (b, y)"
  shows "queue_step nv dg visit x y"
proof (cases verifier)
  case None
  with assms show ?thesis by (intro queue_step.merge) (simp add: integration_Merge_def)
next
  case (Some v)
  with assms show ?thesis by (intro queue_step.checked) (simp add: MergeWithChecks_def)
qed

text \<open>
  C23: a merge takes effect once. After a merge answered without an error, the same request, as long
  as the gate verifies it, is answered with the same commit and request digest at every later moment
  of every run; the store does not change, and the answer does not depend on the executor or the
  verifier, which are not called.
\<close>

theorem merge_repeats:
  assumes "digests_named dg" and "(queue_step nv dg visit)\<^sup>*\<^sup>* (w, NewMergeMemory) x"
    and "integration_merge (memory_queue nv dg visit) r (map_option beside_store verifier) x = ((a, None), x')"
    and "(queue_step nv dg visit)\<^sup>*\<^sup>* x' y" and "steady nv r v"
  shows "\<exists>b y'. snd y' = snd y \<and> mr_Duplicate b \<and> mr_Commit b = mr_Commit a \<and> mr_RequestDigest b = mr_RequestDigest a
     \<and> (\<forall>executor verifier'. integration_merge (memory_queue (nv\<lparr>nv_executor := executor\<rparr>) dg visit) r verifier' y = ((b, None), y'))"
proof -
  let ?q = "memory_queue nv dg visit"
  have ok: "stored_ok (snd x)" using merge_steps_ok [OF queue_steps_store [OF assms(2)]] stored_ok_new by simp
  have ok': "stored_ok (snd x')"
    using queue_step_store [OF queue_merge_step [OF assms(3)]] ok by (rule merge_steps_ok)
  obtain v0 y0 audit z digest where v0: "integration_verify ?q r x = (Inr v0, y0)" and au: "auditVerified ?q v0 y0 = (Inr audit, z)"
    and passed: "au_Passed audit" and d: "requestDigest dg r v0 = Inr digest"
    and z: "map_of (snd z) = map_of (snd x)"
    and ends: "(mq.repeated (reservation_of v0 audit digest) a z \<and> x' = z)
       \<or> (commit_given ?q r (mr_Commit a) \<and> mq.merged (map_option beside_store verifier) (reservation_of v0 audit digest) a x')"
    using mq.merge_Inr [OF assms(3)] unfolding queue_sel by metis
  have v: "v0 = v" using v0 assms(5) by (rule verified_as)
  note valid = mq.verify_Inr [OF v0, unfolded v]
  let ?res = "reservation_of v audit digest"
  have digest: "mr_RequestDigest ?res \<noteq> []" using d assms(1) by (auto simp: requestDigest_def digests_named_def)
  obtain rec where rec: "map_of (snd x') (result_key ?res) = Some rec" "it_State (me_task rec) = TaskDone"
      "same_merge (me_result rec) ?res" "same_lease (me_result rec) ?res" "mr_Commit (me_result rec) = mr_Commit a"
      "mr_RequestDigest a = mr_RequestDigest ?res"
    using finished_answer [OF ends [unfolded v] digest ok z] by blast
  have row: "map_of (snd y) (result_key ?res) = Some rec"
    using finished_steps [OF queue_steps_store [OF assms(4)] ok' rec(1)] rec(2) by simp
  have idle: "\<not> mr_Pending (me_result rec)" using stored_okD [OF ok' rec(1)] rec(2) by (simp add: record_ok_def Let_def)
  obtain w1 where v1: "integration_verify ?q r y = (Inr v, (w1, snd y))"
    using steady_verify [OF assms(5)] valid by blast
  obtain audit' w2 where au': "auditVerified ?q v (w1, snd y) = (Inr audit', (w2, snd y))"
      "au_EvidenceSHA256 audit' = au_EvidenceSHA256 audit" "au_Passed audit'"
    using audit_again [OF au [unfolded v], of "(w1, snd y)"] passed by auto
  let ?b = "(merge_cloneResult (me_result rec))\<lparr>mr_Duplicate := True\<rparr>"
  have key: "result_key (reservation_of v audit' digest) = result_key ?res"
    by (simp add: result_key_def reservation_of_def)
  have "integration_merge (memory_queue (nv\<lparr>nv_executor := executor\<rparr>) dg visit) r verifier' y = ((?b, None), (w2, snd y))"
    for executor verifier'
    using v1 au' d [unfolded v] row rec(3,4) key
      repeated_answer [of "(w2, snd y)" "reservation_of v audit' digest" rec, OF _ rec(2) _ _ idle]
    by (simp add: integration_merge_def other_executor queue_sel same_merge_def same_lease_def)
  then show ?thesis using rec by (intro exI [of _ ?b] exI [of _ "(w2, snd y)"]) (simp add: same_merge_def)
qed

definition waiting_for :: "IntegrationRequest \<Rightarrow> string \<Rightarrow> string \<Rightarrow> memoryRecord \<Rightarrow> bool" where
  \<comment> \<open>the record reserves the merge of the request, audited with this evidence\<close>
  "waiting_for r digest evidence rec \<longleftrightarrow>
     it_State (me_task rec) = TaskMergeReserved \<and> mr_RequestDigest (me_result rec) = digest
     \<and> au_EvidenceSHA256 (mr_Audit (me_result rec)) = evidence
     \<and> it_OwnerTaskID (me_task rec) = iq_OwnerTaskID r \<and> it_Attempt (me_task rec) = iq_Attempt r"

text \<open>
  C24: an interrupted merge is recovered. When the store still holds the reservation of a request, the
  gate keeps verifying the request and the executor finds its commit, the merge finishes: it answers
  without an error and the integration is done with that commit. The store bounds the candidates of
  a result to 1024.
\<close>

theorem merge_recovers:
  assumes "stored_ok (snd x)" and "steady nv r v"
    and "integration_verify (memory_queue nv dg visit) r x = (Inr v, y)"
    and "auditVerified (memory_queue nv dg visit) v y = (Inr audit, z)" and "au_Passed audit"
    and "requestDigest dg r v = Inr digest"
    and "map_of (snd x) (request_key r) = Some rec" and "waiting_for r digest (au_EvidenceSHA256 audit) rec"
    and "\<forall>w. fst (ex_Lookup (nv_executor nv) (mergeExecutionID (iq_IntegrationID r) (iq_Attempt r)) w) = Inr (Some commit)"
    and "commitID commit" and "length (vq_Candidates v) \<le> 1024"
  shows "\<exists>a x' rec'. integration_merge (memory_queue nv dg visit) r None x = ((a, None), x') \<and> mr_Commit a = commit
     \<and> map_of (snd x') (request_key r) = Some rec' \<and> done_as r a rec'"
proof -
  let ?q = "memory_queue nv dg visit" and ?res = "(reservation_of v audit digest)\<lparr>mr_Duplicate := True\<rparr>"
  let ?result = "?res\<lparr>mr_Commit := commit, mr_Pending := False\<rparr>"
  have valid: "integration_validateRequest r" "validateVerifiedRequest v" "requestMatchesVerified r v"
    using mq.verify_Inr [OF assms(3)] by auto
  note names = mq.verified_names [OF valid(3)] reservation_key [OF valid(3), of audit digest]
  have rowz: "map_of (snd z) (result_key (reservation_of v audit digest)) = Some rec"
    using assms(7) mq.verify_keeps [OF assms(3)] mq.audit_Inr [OF assms(4)] by (simp add: names)
  have held: "it_State (me_task rec) = TaskMergeReserved" "same_merge (me_result rec) (reservation_of v audit digest)"
    using assms(8) by (simp_all add: waiting_for_def same_merge_def)
  have pending: "mr_Pending (me_result rec)"
    using stored_okD [OF assms(1,7)] held(1) by (simp add: record_ok_def Let_def)
  have reserve: "ss_Reserve (qu_store ?q) (reservation_of v audit digest) z = ((merge_cloneResult (me_result rec), False, None), z)"
    using rowz held by (rule mq.reserve_held)
  obtain w where "ex_Lookup (nv_executor nv) (mergeExecutionID (iq_IntegrationID r) (iq_Attempt r)) (fst z) = (Inr (Some commit), w)"
    using assms(9) by (metis prod.collapse)
  then have lookup: "ex_Lookup (qu_executor ?q) (mergeExecutionID (vq_IntegrationID v) (vq_Attempt v)) z = (Inr (Some commit), (w, snd z))"
    by (simp add: NewVerifiedQueue_def on_world_def names)
  obtain w' where "integration_verify ?q r (w, snd z) = (Inr v, (w', snd z))"
    using steady_verify [OF assms(2) valid] by force
  then have again: "reverifyReservation ?q r ?res (w, snd z) = (Inr v, (w', snd z))"
    using assms(6) by (simp add: reverifyReservation_def queue_sel)
  have keyr: "result_key ?result = result_key (reservation_of v audit digest)" by (simp add: result_key_def)
  have "validStoredCandidates (mr_Candidates ?result)"
    using valid(2) assms(11) by (auto simp: validateVerifiedRequest_def validStoredCandidates_def appended_copy_def)
  moreover have "same_merge (me_result rec) ?result" "it_OwnerTaskID (me_task rec) = mr_OwnerTaskID ?result"
      "it_Attempt (me_task rec) = mr_Attempt ?result" "mr_Checks ?result = None"
    using held(2) assms(8) names(3,7) by (simp_all add: same_merge_def waiting_for_def)
  moreover have "map_of (snd (w', snd z)) (result_key ?result) = Some rec" using rowz by (simp add: keyr)
  ultimately obtain x' where done_r: "ss_Complete (qu_store ?q) ?result (w', snd z) = (None, x')"
    using mq.complete_held [OF _ held(1) pending] by blast
  have "integration_merge ?q r None x = ((?result, None), x')"
    using assms(3-6) reserve lookup again done_r pending assms(10)
    by (simp add: integration_merge_def queue_sel(1) reserved_merge_def Let_def reverified_complete_def
        completeRecovered_def complete_result_def)
  moreover obtain rec' where "map_of (snd x') (result_key ?result) = Some rec'" "it_State (me_task rec') = TaskDone"
      "same_merge (me_result rec') ?result" "same_lease (me_result rec') ?result" "mr_Commit (me_result rec') = commit"
    using mq.complete_done [OF done_r] by auto
  ultimately show ?thesis
    by (intro exI [of _ ?result] exI [of _ x'] exI [of _ rec'])
      (simp add: done_as_def same_merge_def same_lease_def keyr names)
qed

text \<open>
  The bound is not checked before the merge: a request with more candidates is merged by the
  executor, and its result is refused by the store however often it is retried.
\<close>

lemma merge_stuck_above_1024:
  assumes "length (vq_Candidates v) > 1024"
  shows "snd (fst (completeRecovered (memory_queue nv dg visit) v' (reservation_of v audit digest) commit None x)) \<noteq> None"
proof -
  let ?result = "(reservation_of v audit digest)\<lparr>mr_Commit := commit, mr_Pending := False\<rparr>"
  have "ss_Complete (qu_store (memory_queue nv dg visit)) ?result x = (Some ErrInvalidRequest, x)"
    using assms by (cases x) (auto simp: NewVerifiedQueue_def beside_world_def memory_merge_store_def on_store_def
        merge_Complete_def validStoredCandidates_def appended_copy_def)
  then show ?thesis by (simp add: completeRecovered_def complete_result_def Let_def)
qed

section \<open>An example\<close>

definition ex_commit :: string where
  "ex_commit = ''0123456789abcdef0123456789abcdef01234567''"

definition ex_candidate :: "string \<Rightarrow> string \<Rightarrow> Candidate" where
  "ex_candidate task path = \<lparr>ik_TaskID = task, ik_ModuleID = ''module-'' @ task, ik_SubmissionCommit = ex_commit,
     ik_ModuleSpecRef = \<lparr>sr_Version = 1, sr_SHA256 = zero_digest\<rparr>, ik_OwnedPaths = [path],
     ik_PublicInterfaces = [''I-'' @ task], ik_EvidenceSHA256 = zero_digest, ik_AuditPassed = True\<rparr>"

definition ex_candidates :: "Candidate list" where
  "ex_candidates = [ex_candidate ''t2'' ''web/page'', ex_candidate ''t1'' ''api/server'']"

definition ex_merge_request :: IntegrationRequest where
  "ex_merge_request = \<lparr>iq_TenantID = ''tenant'', iq_ProjectID = ''project'', iq_IntegrationID = ''i1'',
     iq_IdempotencyKey = ''key'', iq_BaseCommit = ex_commit, iq_Candidates = ex_candidates,
     iq_PolicyDigest = zero_digest, iq_ExpectedVersion = 7, iq_CreatedAt = 1, iq_PrincipalID = ''service'',
     iq_LeaseID = ''lease'', iq_FencingToken = 1, iq_OwnerTaskID = [], iq_Attempt = 0\<rparr>"

definition ex_verified :: VerifiedRequest where
  "ex_verified = \<lparr>vq_TenantID = ''tenant'', vq_ProjectID = ''project'', vq_IntegrationID = ''i1'',
     vq_BaseCommit = ex_commit, vq_Candidates = ex_candidates, vq_PolicyDigest = zero_digest,
     vq_ExpectedVersion = 7, vq_PrincipalID = ''service'', vq_LeaseID = ''lease'', vq_FencingToken = 1,
     vq_Authorization = zero_digest, vq_OwnerTaskID = [], vq_Attempt = 0\<rparr>"

definition ex_environment :: "unit merge_environment" where
  "ex_environment = \<lparr>nv_gate = (\<lambda>_ w. (Inr ex_verified, w)),
     nv_executor = \<lparr>ex_Merge = (\<lambda>_ _ _ w. (Inr ex_commit, w)), ex_Lookup = (\<lambda>_ w. (Inr (Some ex_commit), w))\<rparr>,
     nv_clock = (\<lambda>w. (second_ns, w))\<rparr>"

definition ex_digests :: merge_digests where
  "ex_digests = \<lparr>dg_audit = (\<lambda>_. Inr zero_digest), dg_request = (\<lambda>_. Inr zero_digest), dg_check = (\<lambda>_. Inr zero_digest)\<rparr>"

definition ex_visit :: "(string, string) gomap \<Rightarrow> (string, string) gomap" where
  "ex_visit m = rev m"

definition ex_start :: "unit \<times> MergeMemory" where
  "ex_start = ((), NewMergeMemory)"

lemma ex_commit_ok: "commitID ex_commit"
  by code_simp

lemma ex_request_valid: "integration_validateRequest ex_merge_request"
  by code_simp

lemma ex_verified_valid: "validateVerifiedRequest ex_verified"
  by code_simp

lemma ex_matches: "requestMatchesVerified ex_merge_request ex_verified"
  by (simp add: requestMatchesVerified_def ex_merge_request_def ex_verified_def)

lemma ex_findings: "audit_findings ex_visit (sort_key ik_TaskID (vq_Candidates ex_verified)) = []"
  by code_simp

lemma ex_verify:
  "integration_verify (memory_queue ex_environment ex_digests ex_visit) ex_merge_request x = (Inr ex_verified, x)"
  using ex_request_valid ex_verified_valid ex_matches
  by (cases x) (simp add: integration_verify_def queue_sel on_world_def ex_environment_def second_ns_def,
    simp add: ex_merge_request_def)

definition ex_audit :: MergeAudit where
  "ex_audit = \<lparr>au_IntegrationID = ''i1'', au_ProjectID = ''project'', au_BaseCommit = ex_commit,
     au_Candidates = appended_copy (sort_key ik_TaskID ex_candidates), au_Findings = [], au_Checks = None,
     au_EvidenceSHA256 = zero_digest, au_Passed = True, au_CreatedAt = second_ns\<rparr>"

lemma ex_audited:
  "auditVerified (memory_queue ex_environment ex_digests ex_visit) ex_verified x = (Inr ex_audit, x)"
  using ex_findings
  by (cases x) (simp add: auditVerified_def queue_sel on_world_def ex_environment_def ex_digests_def auditDigest_def
      auditDigestWithChecks_def ex_audit_def, simp add: ex_verified_def)

lemma ex_digest_of: "requestDigest ex_digests r v = Inr zero_digest"
  by (simp add: requestDigest_def ex_digests_def)

lemma ex_reverified:
  "reverifyReservation (memory_queue ex_environment ex_digests ex_visit) ex_merge_request
     (reservation_of v a zero_digest) x = (Inr ex_verified, x)"
  by (simp add: reverifyReservation_def ex_verify ex_digest_of queue_sel)

lemma ex_candidates_ok: "validStoredCandidates (Some ex_candidates)"
  by code_simp

definition ex_result :: MergeResult where
  "ex_result = (reservation_of ex_verified ex_audit zero_digest)\<lparr>mr_Commit := ex_commit, mr_Pending := False\<rparr>"

definition ex_store_done :: MergeMemory where
  "ex_store_done = snd (merge_Complete ex_result (snd (merge_Reserve (reservation_of ex_verified ex_audit zero_digest) [])))"

lemma ex_reserved:
  "fst (merge_Reserve (reservation_of ex_verified ex_audit zero_digest) [])
     = (merge_cloneResult ((reservation_of ex_verified ex_audit zero_digest)\<lparr>mr_Pending := True\<rparr>), True, None)"
  by (simp add: merge_Reserve_def Let_def reservation_of_def ex_verified_def)

lemma ex_completed:
  "merge_Complete ex_result (snd (merge_Reserve (reservation_of ex_verified ex_audit zero_digest) []))
     = (None, ex_store_done)"
proof -
  have "fst (merge_Complete ex_result (snd (merge_Reserve (reservation_of ex_verified ex_audit zero_digest) []))) = None"
    using ex_candidates_ok
    by (simp add: merge_Complete_def merge_Reserve_def Let_def ex_result_def reservation_of_def ex_verified_def
        amap.look_store appended_copy_def ex_candidates_def zero_IntegrationTask_def item_key_def)
  then show ?thesis by (metis ex_store_done_def prod.collapse)
qed

lemma ex_merge_eq:
  "integration_merge (memory_queue ex_environment ex_digests ex_visit) ex_merge_request (map_option beside_store None) ex_start
     = ((ex_result, None), ((), ex_store_done))"
proof -
  let ?q = "memory_queue ex_environment ex_digests ex_visit" and ?res = "reservation_of ex_verified ex_audit zero_digest"
  let ?s = "snd (merge_Reserve ?res [])"
  have reserve: "ss_Reserve (qu_store ?q) ?res ex_start
      = ((merge_cloneResult (?res\<lparr>mr_Pending := True\<rparr>), True, None), ((), ?s))"
    using ex_reserved by (simp add: store_sel on_store_def ex_start_def NewMergeMemory_def case_prod_unfold)
  have "ex_Merge (qu_executor ?q) base commits i x = (Inr ex_commit, x)" for base commits i x
    by (cases x) (simp add: NewVerifiedQueue_def on_world_def ex_environment_def)
  moreover have "ss_Complete (qu_store ?q) ex_result ((), ?s) = (None, ((), ex_store_done))"
    using ex_completed by (simp add: store_sel on_store_def)
  ultimately have "execute_merge ?q ex_merge_request ?res i None ((), ?s) = ((ex_result, None), ((), ex_store_done))" for i
    using ex_commit_ok by (simp add: execute_merge_def ex_reverified Let_def reverified_complete_def
        completeRecovered_def complete_result_def ex_result_def [symmetric])
  with reserve show ?thesis
    by (simp add: integration_merge_def ex_verify ex_audited ex_digest_of queue_sel(1) reserved_merge_def Let_def
        ex_audit_def [THEN arg_cong, of au_Passed, simplified])
qed

lemma ex_visit_ok: "visit_ok ex_visit"
  by (simp add: visit_ok_def ex_visit_def)

lemma ex_digests_named: "digests_named ex_digests"
  by (simp add: digests_named_def ex_digests_def zero_digest_def)

lemma ex_merge_step: "queue_step ex_environment ex_digests ex_visit ex_start ((), ex_store_done)"
  using queue_merge_step [OF ex_merge_eq] .

lemma ex_steady: "steady ex_environment ex_merge_request ex_verified"
  by (simp add: steady_def ex_environment_def ex_merge_request_def second_ns_def)

lemma ex_done_row:
  "\<exists>rec. map_of ex_store_done (request_key ex_merge_request) = Some rec \<and> it_State (me_task rec) = TaskDone
     \<and> mr_Commit (me_result rec) = ex_commit"
proof -
  have "ss_Complete (qu_store (memory_queue ex_environment ex_digests ex_visit)) ex_result
      ((), snd (merge_Reserve (reservation_of ex_verified ex_audit zero_digest) [])) = (None, ((), ex_store_done))"
    using ex_completed by (simp add: store_sel on_store_def)
  from mq.complete_done [OF this] obtain rec where
    "map_of ex_store_done (result_key ex_result) = Some rec" "it_State (me_task rec) = TaskDone"
    "mr_Commit (me_result rec) = ex_commit"
    by (auto simp: ex_result_def)
  then show ?thesis
    by (simp add: ex_result_def result_key_def reservation_of_def request_key_def ex_verified_def ex_merge_request_def)
qed

theorem integration_lifecycle_witness:
  "\<exists>rec. map_of ex_store_done (request_key ex_merge_request) = Some rec \<and> it_State (me_task rec) = TaskDone
     \<and> record_ok (request_key ex_merge_request) rec"
proof -
  obtain rec where rec: "map_of ex_store_done (request_key ex_merge_request) = Some rec" "it_State (me_task rec) = TaskDone"
    using ex_done_row by blast
  have "(queue_step ex_environment ex_digests ex_visit)\<^sup>*\<^sup>* ((), NewMergeMemory) ((), ex_store_done)"
    using ex_merge_step by (auto simp: ex_start_def)
  from integration_lifecycle [OF this rtranclp.rtrancl_refl, of "request_key ex_merge_request" rec] rec
  show ?thesis by auto
qed

theorem integration_audit_exact_witness:
  "audit_findings ex_visit [ex_candidate ''t1'' ''api'', ex_candidate ''t2'' ''api/server''] \<noteq> []
     \<and> audit_findings ex_visit ex_candidates = audit_findings (\<lambda>m. m) ex_candidates"
proof -
  let ?a = "ex_candidate ''t1'' ''api''" and ?b = "ex_candidate ''t2'' ''api/server''"
  have id: "visit_ok (\<lambda>m. m)" by (simp add: visit_ok_def)
  have "\<not> candidates_apart ?a ?b" by code_simp
  then have "\<not> pairwise candidates_apart (set [?a, ?b])"
    by (auto simp: pairwise_def ex_candidate_def)
  then show ?thesis
    using integration_audit_exact [OF ex_visit_ok id, of "[?a, ?b]"] integration_audit_exact [OF ex_visit_ok id, of ex_candidates]
    by blast
qed

theorem merge_accepted_witness:
  "\<exists>rec. map_of ex_store_done (request_key ex_merge_request) = Some rec \<and> done_as ex_merge_request ex_result rec"
proof -
  have "stored_ok (snd ex_start)" using stored_ok_new by (simp add: ex_start_def)
  from merge_accepted [OF ex_visit_ok ex_digests_named this, of ex_environment ex_merge_request None ex_result
      "((), ex_store_done)"] ex_merge_eq
  show ?thesis by auto
qed

theorem merge_repeats_witness:
  "\<exists>b y'. snd y' = ex_store_done \<and> mr_Commit b = ex_commit
     \<and> integration_merge (memory_queue ex_environment ex_digests ex_visit) ex_merge_request None ((), ex_store_done)
        = ((b, None), y')"
proof -
  have "(queue_step ex_environment ex_digests ex_visit)\<^sup>*\<^sup>* ((), NewMergeMemory) ex_start" by (simp add: ex_start_def)
  from merge_repeats [OF ex_digests_named this ex_merge_eq rtranclp.rtrancl_refl ex_steady]
  obtain b y' where b: "snd y' = ex_store_done" "mr_Commit b = mr_Commit ex_result"
      "\<forall>executor verifier'. integration_merge (memory_queue (ex_environment\<lparr>nv_executor := executor\<rparr>) ex_digests ex_visit)
          ex_merge_request verifier' ((), ex_store_done) = ((b, None), y')"
    by auto
  have "integration_merge (memory_queue ex_environment ex_digests ex_visit) ex_merge_request None ((), ex_store_done)
      = ((b, None), y')"
    using b(3) [rule_format, of "nv_executor ex_environment" None] by simp
  with b(1,2) show ?thesis by (intro exI [of _ b] exI [of _ y']) (simp add: ex_result_def)
qed

definition ex_reserved_store :: MergeMemory where
  "ex_reserved_store = snd (merge_Reserve (reservation_of ex_verified ex_audit zero_digest) NewMergeMemory)"

theorem merge_recovers_witness:
  "\<exists>a x' rec'. integration_merge (memory_queue ex_environment ex_digests ex_visit) ex_merge_request None ((), ex_reserved_store)
       = ((a, None), x') \<and> mr_Commit a = ex_commit
     \<and> map_of (snd x') (request_key ex_merge_request) = Some rec' \<and> done_as ex_merge_request a rec'"
proof -
  let ?res = "reservation_of ex_verified ex_audit zero_digest"
  have "merge_store_step NewMergeMemory ex_reserved_store"
    by (rule merge_store_step.intros(4) [of ?res]) (simp add: ex_reserved_store_def prod_eq_iff)
  then have ok: "stored_ok (snd ((), ex_reserved_store))"
    using merge_store_step_ok stored_ok_new by (auto simp: step_ok_def)
  obtain rec where rec: "map_of (snd ((), ex_reserved_store)) (request_key ex_merge_request) = Some rec"
      "waiting_for ex_merge_request zero_digest (au_EvidenceSHA256 ex_audit) rec"
    by (auto simp: ex_reserved_store_def merge_Reserve_def NewMergeMemory_def Let_def amap.look_store reservation_of_def
        ex_verified_def ex_merge_request_def request_key_def waiting_for_def zero_IntegrationTask_def)
  have "au_Passed ex_audit" by (simp add: ex_audit_def)
  from merge_recovers [OF ok ex_steady ex_verify ex_audited this ex_digest_of rec, of ex_commit] ex_commit_ok
  show ?thesis by (simp add: ex_environment_def ex_verified_def ex_candidates_def)
qed

end
