(* ===== verification/Integration_Gate.thy ===== *)
theory Integration_Gate
  imports Integration_Queue Task_State Project_State Contract_Audit Event_Store
    Policy_Engine
begin

text \<open>
  The gate before a merge, \<open>internal/integration/gate.go\<close> and \<open>authorization.go\<close>: every candidate is
  compared with the task, the submission, the evidence and the module the system holds, and the
  service must hold a lease the policy allows. The sources are interfaces: what each returns at the
  time of the call, an error being no answer. JSON decoding, signatures and digests are parameters.
\<close>

section \<open>The sources\<close>

record ProjectFacts =
  pf_TenantID :: string
  pf_ProjectID :: string
  pf_IntegrationID :: string
  pf_BaseCommit :: string
  pf_PolicyDigest :: string
  pf_StateVersion :: int

record EvidenceRecord =
  er_SHA256 :: string
  er_ProjectID :: string
  er_TaskID :: string
  er_AttemptSeriesID :: string
  er_Attempt :: int
  er_ModuleSpecRef :: SpecRef
  er_BaseCommit :: string
  er_SubmissionCommit :: string
  er_PolicyDigest :: string
  er_Passed :: bool

record ModuleRecord =
  mo_ModuleID :: string
  mo_Ref :: SpecRef
  mo_OwnedPaths :: "string list"
  mo_PublicInterfaces :: "string list"

record AuthorizationRequest =
  ar_TenantID :: string
  ar_ProjectID :: string
  ar_IntegrationID :: string
  ar_PrincipalID :: string
  ar_LeaseID :: string
  ar_FencingToken :: int
  ar_PolicyDigest :: string
  ar_ExpectedVersion :: int
  ar_BaseCommit :: string
  ar_Candidates :: "Candidate list"
  ar_OwnerTaskID :: string
  ar_Attempt :: int

record 'x AuthoritativeGate =
  ag_projects :: "string \<Rightarrow> string \<Rightarrow> string \<Rightarrow> ProjectFacts option"
  ag_tasks :: "string \<Rightarrow> string \<Rightarrow> string \<Rightarrow> ModuleTask option"
  ag_submissions :: "ModuleTask \<Rightarrow> SubmissionManifest option"
  ag_evidence :: "ModuleTask \<Rightarrow> SubmissionManifest \<Rightarrow> string \<Rightarrow> EvidenceRecord option"
  ag_modules :: "string \<Rightarrow> string \<Rightarrow> string \<Rightarrow> SpecRef \<Rightarrow> ModuleRecord option"
  ag_authorizer :: "AuthorizationRequest \<Rightarrow> 'x \<Rightarrow> string option \<times> 'x"

definition EventTaskSource ::
  "(string \<Rightarrow> ModuleTask option) \<Rightarrow> MemoryStore \<Rightarrow> string \<Rightarrow> string \<Rightarrow> string \<Rightarrow> ModuleTask option" where
  \<comment> \<open>\<open>decode\<close> is \<open>json.Unmarshal\<close> into a task\<close>
  "EventTaskSource decode store tenantID projectID taskID =
     (case Load tenantID ''task'' taskID store of
        (projection, found) \<Rightarrow>
          if \<not> found then None
          else (case decode (pj_State projection) of
                  None \<Rightarrow> None
                | Some task \<Rightarrow>
                    if mt_TenantID task \<noteq> tenantID \<or> mt_ProjectID task \<noteq> projectID \<or> mt_ID task \<noteq> taskID
                       \<or> mt_Version task \<noteq> pj_Version projection
                    then None else Some task))"

record evidence_source =
  es_Get :: "ModuleTask \<Rightarrow> EvidenceBundle option"
  es_Verify :: "EvidenceBundle \<Rightarrow> SpecSignature \<Rightarrow> bool"
  es_Digest :: "EvidenceBundle \<Rightarrow> string option"

definition SignedEvidenceSource ::
  "evidence_source \<Rightarrow> ModuleTask \<Rightarrow> SubmissionManifest \<Rightarrow> string \<Rightarrow> EvidenceRecord option" where
  \<comment> \<open>the store's bundle of this attempt, its signature over the unsigned bundle, and its digest
     without the digest field\<close>
  "SignedEvidenceSource src task manifest expectedSHA =
     (if \<not> digestPattern expectedSHA then None
      else (case es_Get src task of
        None \<Rightarrow> None
      | Some bundle \<Rightarrow>
          (case eb_Signature bundle of
             None \<Rightarrow> None
           | Some signature \<Rightarrow>
               (let bare = bundle\<lparr>eb_Signature := None\<rparr> in
                if EvidenceBundle_Validate bundle \<noteq> None \<or> eb_ManifestSHA256 bundle \<noteq> expectedSHA then None
                else if \<not> es_Verify src bare signature then None
                else if es_Digest src (bare\<lparr>eb_ManifestSHA256 := []\<rparr>) \<noteq> Some (eb_ManifestSHA256 bundle) then None
                else Some \<lparr>er_SHA256 = eb_ManifestSHA256 bundle, er_ProjectID = eb_ProjectID bundle,
                       er_TaskID = eb_TaskID bundle, er_AttemptSeriesID = eb_AttemptSeriesID bundle,
                       er_Attempt = eb_Attempt bundle, er_ModuleSpecRef = sm_ModuleSpecRef manifest,
                       er_BaseCommit = eb_BaseCommit bundle, er_SubmissionCommit = eb_SubmissionCommit bundle,
                       er_PolicyDigest = eb_PolicyBundleDigest bundle,
                       er_Passed = PassesAuditGate (bare\<lparr>eb_ManifestSHA256 := []\<rparr>)\<rparr>))))"

definition ArtifactModuleSource ::
  "url_parser \<Rightarrow> (string \<Rightarrow> ModuleSpec option) \<Rightarrow> (string \<Rightarrow> string \<Rightarrow> string \<Rightarrow> int \<Rightarrow> (string \<times> string) option) \<Rightarrow>
     string \<Rightarrow> string \<Rightarrow> string \<Rightarrow> SpecRef \<Rightarrow> ModuleRecord option" where
  \<comment> \<open>\<open>decode\<close> is the strict decoding of one module specification; the artifact store gives the
     recorded digest and the content\<close>
  "ArtifactModuleSource url decode artifacts tenantID projectID moduleID ref =
     (if SpecRef_Validate ref \<noteq> None then None
      else (case artifacts tenantID projectID moduleID (sr_Version ref) of
        None \<Rightarrow> None
      | Some (sha, content) \<Rightarrow>
          if sha \<noteq> sr_SHA256 ref then None
          else (case decode content of
            None \<Rightarrow> None
          | Some m \<Rightarrow>
              if ModuleSpec_Validate url m \<noteq> None \<or> ModuleSpec.ms_ModuleID m \<noteq> moduleID
                 \<or> ModuleSpec.ms_ProjectID m \<noteq> projectID
                 \<or> ModuleSpec.ms_ModuleSpecVersion m \<noteq> sr_Version ref \<or> ModuleSpec.ms_SHA256 m \<noteq> sr_SHA256 ref
              then None
              else Some \<lparr>mo_ModuleID = ModuleSpec.ms_ModuleID m, mo_Ref = ref,
                         mo_OwnedPaths = sort (ModuleSpec.ms_AllowedPaths m),
                         mo_PublicInterfaces = sort (ModuleSpec.ms_Interfaces m)\<rparr>)))"

section \<open>The gate\<close>

definition facts_match :: "ProjectFacts \<Rightarrow> IntegrationRequest \<Rightarrow> bool" where
  "facts_match facts r \<longleftrightarrow>
     \<not> (pf_TenantID facts \<noteq> iq_TenantID r \<or> pf_ProjectID facts \<noteq> iq_ProjectID r
        \<or> pf_IntegrationID facts \<noteq> iq_IntegrationID r \<or> pf_BaseCommit facts \<noteq> iq_BaseCommit r
        \<or> pf_PolicyDigest facts \<noteq> iq_PolicyDigest r \<or> pf_StateVersion facts \<noteq> iq_ExpectedVersion r)"

definition task_matches :: "IntegrationRequest \<Rightarrow> Candidate \<Rightarrow> ModuleTask \<Rightarrow> bool" where
  "task_matches r c t \<longleftrightarrow>
     \<not> (mt_TenantID t \<noteq> iq_TenantID r \<or> mt_ProjectID t \<noteq> iq_ProjectID r \<or> mt_ID t \<noteq> ik_TaskID c
        \<or> mt_State t \<noteq> TaskPassed \<or> mt_ModuleSpecRef t \<noteq> ik_ModuleSpecRef c \<or> mt_Attempt t < 1
        \<or> mt_Attempt t > 3 \<or> mt_AttemptSeriesID t = [])"

definition submission_matches :: "IntegrationRequest \<Rightarrow> Candidate \<Rightarrow> ModuleTask \<Rightarrow> SubmissionManifest \<Rightarrow> bool" where
  "submission_matches r c t s \<longleftrightarrow>
     \<not> (sm_ProjectID s \<noteq> iq_ProjectID r \<or> sm_ModuleTaskID s \<noteq> mt_ID t
        \<or> sm_AttemptSeriesID s \<noteq> mt_AttemptSeriesID t \<or> sm_Attempt s \<noteq> mt_Attempt t
        \<or> sm_ModuleSpecRef s \<noteq> mt_ModuleSpecRef t \<or> sm_HeadCommit s \<noteq> ik_SubmissionCommit c
        \<or> SubmissionManifest_Validate s \<noteq> None)"

definition evidence_matches ::
  "IntegrationRequest \<Rightarrow> Candidate \<Rightarrow> ModuleTask \<Rightarrow> SubmissionManifest \<Rightarrow> EvidenceRecord \<Rightarrow> bool" where
  "evidence_matches r c t s e \<longleftrightarrow>
     \<not> (\<not> er_Passed e \<or> er_SHA256 e \<noteq> ik_EvidenceSHA256 c \<or> er_ProjectID e \<noteq> iq_ProjectID r
        \<or> er_TaskID e \<noteq> mt_ID t \<or> er_AttemptSeriesID e \<noteq> mt_AttemptSeriesID t \<or> er_Attempt e \<noteq> mt_Attempt t
        \<or> er_ModuleSpecRef e \<noteq> mt_ModuleSpecRef t \<or> er_BaseCommit e \<noteq> sm_BaseCommit s
        \<or> er_SubmissionCommit e \<noteq> sm_HeadCommit s \<or> er_PolicyDigest e \<noteq> iq_PolicyDigest r)"

definition module_matches :: "Candidate \<Rightarrow> ModuleTask \<Rightarrow> ModuleRecord \<Rightarrow> bool" where
  "module_matches c t m \<longleftrightarrow>
     \<not> (mo_ModuleID m \<noteq> ik_ModuleID c \<or> mo_Ref m \<noteq> mt_ModuleSpecRef t
        \<or> mo_OwnedPaths m \<noteq> ik_OwnedPaths c \<or> mo_PublicInterfaces m \<noteq> ik_PublicInterfaces c)"

definition gate_candidate :: "'x AuthoritativeGate \<Rightarrow> IntegrationRequest \<Rightarrow> Candidate \<Rightarrow> Candidate option" where
  \<comment> \<open>the body of the loop: the candidate as the sources have it\<close>
  "gate_candidate g r c =
     (if \<not> ik_AuditPassed c then None
      else (case ag_tasks g (iq_TenantID r) (iq_ProjectID r) (ik_TaskID c) of
        None \<Rightarrow> None
      | Some t \<Rightarrow>
        if \<not> task_matches r c t then None
        else (case ag_submissions g t of
          None \<Rightarrow> None
        | Some s \<Rightarrow>
          if \<not> submission_matches r c t s then None
          else (case ag_evidence g t s (ik_EvidenceSHA256 c) of
            None \<Rightarrow> None
          | Some e \<Rightarrow>
            if \<not> evidence_matches r c t s e then None
            else (case ag_modules g (iq_TenantID r) (iq_ProjectID r) (ik_ModuleID c) (mt_ModuleSpecRef t) of
              None \<Rightarrow> None
            | Some m \<Rightarrow>
              if \<not> module_matches c t m then None
              else Some \<lparr>ik_TaskID = mt_ID t, ik_ModuleID = mo_ModuleID m, ik_SubmissionCommit = sm_HeadCommit s,
                         ik_ModuleSpecRef = mt_ModuleSpecRef t, ik_OwnedPaths = mo_OwnedPaths m,
                         ik_PublicInterfaces = mo_PublicInterfaces m, ik_EvidenceSHA256 = er_SHA256 e,
                         ik_AuditPassed = True\<rparr>)))))"

fun gate_candidates :: "'x AuthoritativeGate \<Rightarrow> IntegrationRequest \<Rightarrow> Candidate list \<Rightarrow> Candidate list option" where
  "gate_candidates g r [] = Some []"
| "gate_candidates g r (c # cs) =
     (case gate_candidate g r c of
        None \<Rightarrow> None
      | Some c' \<Rightarrow> (case gate_candidates g r cs of None \<Rightarrow> None | Some cs' \<Rightarrow> Some (c' # cs')))"

definition authorization_request :: "IntegrationRequest \<Rightarrow> ProjectFacts \<Rightarrow> Candidate list \<Rightarrow> AuthorizationRequest" where
  "authorization_request r facts candidates =
     \<lparr>ar_TenantID = iq_TenantID r, ar_ProjectID = iq_ProjectID r, ar_IntegrationID = iq_IntegrationID r,
      ar_PrincipalID = iq_PrincipalID r, ar_LeaseID = iq_LeaseID r, ar_FencingToken = iq_FencingToken r,
      ar_PolicyDigest = pf_PolicyDigest facts, ar_ExpectedVersion = pf_StateVersion facts,
      ar_BaseCommit = pf_BaseCommit facts, ar_Candidates = candidates, ar_OwnerTaskID = iq_OwnerTaskID r,
      ar_Attempt = iq_Attempt r\<rparr>"

definition gate_Validate :: "'x AuthoritativeGate \<Rightarrow> IntegrationRequest \<Rightarrow> 'x \<Rightarrow> (merge_error + VerifiedRequest) \<times> 'x" where
  "gate_Validate g r x =
     (case ag_projects g (iq_TenantID r) (iq_ProjectID r) (iq_IntegrationID r) of
        None \<Rightarrow> (Inl ErrNotAudited, x)
      | Some facts \<Rightarrow>
          if \<not> facts_match facts r then (Inl ErrNotAudited, x)
          else (case gate_candidates g r (canonicalCandidates (iq_Candidates r)) of
            None \<Rightarrow> (Inl ErrNotAudited, x)
          | Some found \<Rightarrow>
              (let candidates = canonicalCandidates found in
               case ag_authorizer g (authorization_request r facts candidates) x of
                 (None, x') \<Rightarrow> (Inl ErrNotAudited, x')
               | (Some authorization, x') \<Rightarrow>
                   if \<not> digestPattern authorization then (Inl ErrNotAudited, x')
                   else (Inr \<lparr>vq_TenantID = pf_TenantID facts, vq_ProjectID = pf_ProjectID facts,
                              vq_IntegrationID = pf_IntegrationID facts, vq_BaseCommit = pf_BaseCommit facts,
                              vq_Candidates = candidates, vq_PolicyDigest = pf_PolicyDigest facts,
                              vq_ExpectedVersion = pf_StateVersion facts, vq_PrincipalID = iq_PrincipalID r,
                              vq_LeaseID = iq_LeaseID r, vq_FencingToken = iq_FencingToken r,
                              vq_Authorization = authorization, vq_OwnerTaskID = iq_OwnerTaskID r,
                              vq_Attempt = iq_Attempt r\<rparr>, x'))))"

section \<open>The authorizer\<close>

definition safeIntegrationID :: "string \<Rightarrow> bool" where
  \<comment> \<open>a byte of a character outside ASCII is above the range\<close>
  "safeIntegrationID value \<longleftrightarrow>
     \<not> (value = [] \<or> length value > 256) \<and> list_all (\<lambda>c. (32 :: nat) \<le> of_char c \<and> of_char c \<le> (126 :: nat)) value"

definition IntegrationResource :: "string \<Rightarrow> Resource" where
  "IntegrationResource integrationID =
     \<lparr>rs_Type = ''integration'', rs_ID = integrationID, rs_Path = [], rs_Attributes = []\<rparr>"

definition integrationClassification :: "string \<Rightarrow> string" where
  "integrationClassification value = (if value = [] then ''INTERNAL'' else value)"

record authorization_view =
  uv_RequestSHA256 :: string
  uv_PolicyVersion :: string
  uv_RuleID :: string
  uv_Decision :: Decision

record authorization_digests =
  ad_parameters :: "AuthorizationRequest \<Rightarrow> string option"
  ad_decision :: "authorization_view \<Rightarrow> string option"

definition AuthorizationParameterDigest :: "authorization_digests \<Rightarrow> AuthorizationRequest \<Rightarrow> string option" where
  \<comment> \<open>the document has every field of the request but the lease\<close>
  "AuthorizationParameterDigest ad r =
     (let candidates = canonicalCandidates (ar_Candidates r) in
      if ar_TenantID r = [] \<or> ar_ProjectID r = [] \<or> \<not> safeIntegrationID (ar_IntegrationID r) \<or> ar_PrincipalID r = []
         \<or> \<not> commitID (ar_BaseCommit r) \<or> candidates = [] \<or> \<not> digestPattern (ar_PolicyDigest r)
         \<or> ar_ExpectedVersion r < 1 \<or> \<not> validAttemptBinding (ar_OwnerTaskID r) (ar_Attempt r)
      then None
      else if \<not> list_all (\<lambda>c. sound_candidate c \<and> ik_AuditPassed c) candidates then None
      else ad_parameters ad (r\<lparr>ar_LeaseID := [], ar_FencingToken := 0, ar_Candidates := candidates\<rparr>))"

definition integration_principal :: "AuthorizationRequest \<Rightarrow> Principal" where
  "integration_principal r =
     \<lparr>Principal.pc_ID = ar_PrincipalID r, pc_Type = PrincipalService, pc_Role = RoleService,
      pc_TenantID = ar_TenantID r, pc_ProjectID = ar_ProjectID r, pc_Issuer = [], pc_Subject = [], pc_Attributes = []\<rparr>"

definition no_task :: TaskScope where
  "no_task = \<lparr>ts_TenantID = [], ts_ProjectID = [], ts_ID = [], ts_State = [], ts_StateVersion = 0, ts_SpecDigest = [],
     ts_OwnedPaths = [], ts_ExecutionPlatform = [], ts_SandboxLevel = [], ts_WorkloadTrust = [],
     ts_DeploymentProfile = [], ts_HostileMultiTenant = False, ts_RequiresNetworkIsolation = False,
     ts_RequiresHiddenConfidentiality = False\<rparr>"

definition integration_lease_check :: "AuthorizationRequest \<Rightarrow> string \<Rightarrow> time \<Rightarrow> LeaseCheck" where
  "integration_lease_check r parameterDigest now =
     \<lparr>ch_LeaseID = ar_LeaseID r, ch_AgentInstanceID = ar_PrincipalID r, ch_PrincipalID = ar_PrincipalID r,
      ch_PrincipalType = PrincipalService, ch_TenantID = ar_TenantID r, ch_ProjectID = ar_ProjectID r,
      ch_ProjectVersion = ar_ExpectedVersion r, ch_TaskID = [], ch_TaskVersion = 0, ch_SpecDigest = [],
      ch_Role = RoleService, ch_Action = ActionIntegrationMerge, ch_Resource = IntegrationResource (ar_IntegrationID r),
      ch_ParameterDigest = parameterDigest, ch_PolicyVersion = ar_PolicyDigest r, ch_BudgetAccountID = ar_ProjectID r,
      ch_Capability = action_string ActionIntegrationMerge, ch_FencingToken = ar_FencingToken r, ch_At = utc now\<rparr>"

definition integration_policy_input :: "AuthorizationRequest \<Rightarrow> Project \<Rightarrow> string \<Rightarrow> CapabilityLease \<Rightarrow> PolicyInput" where
  "integration_policy_input r project parameterDigest lease =
     \<lparr>pi_Principal = integration_principal r,
      pi_Project = \<lparr>sc_TenantID = prj_TenantID project, sc_ID = prj_ID project,
        sc_State = projectState_string (prj_State project), sc_StateVersion = prj_Version project,
        sc_Classification = integrationClassification (prj_DataClassification project)\<rparr>,
      pi_Task = no_task, pi_Action = ActionIntegrationMerge, pi_Resource = IntegrationResource (ar_IntegrationID r),
      pi_ParameterDigest = parameterDigest, pi_Budget = \<lparr>bs_AccountID = ar_ProjectID r, bs_Available = True\<rparr>,
      pi_Lease = Some \<lparr>lr_ID = cl_ID lease, lr_ExpiresAt = cl_ExpiresAt lease,
        lr_PolicyVersion = cl_PolicyVersion lease, lr_FencingToken = cl_FencingToken lease\<rparr>,
      pi_Approval = None, pi_Context = \<lparr>ec_IP = [], ec_Platform = [], ec_SandboxLevel = [], ec_AuthorizationTime = []\<rparr>\<rparr>"

record 's LeaseAuthorizer =
  la_leases :: "'s LeaseManager"
  la_policy :: "'s Engine option"
  la_projects :: "string \<Rightarrow> string \<Rightarrow> Project option"
  la_digests :: authorization_digests
  la_clocks :: clocks
  la_context :: lease_context
  la_clock :: time
  la_engine_clock :: time

definition integration_Authorize :: "'s LeaseAuthorizer \<Rightarrow> AuthorizationRequest \<Rightarrow> 's \<Rightarrow> string option \<times> 's" where
  \<comment> \<open>the clocks and the context are those of the call\<close>
  "integration_Authorize a r s =
     (if cx_Err (la_context a) \<noteq> None then (None, s)
      else (case la_projects a (ar_TenantID r) (ar_ProjectID r) of
        None \<Rightarrow> (None, s)
      | Some project \<Rightarrow>
          if prj_TenantID project \<noteq> ar_TenantID r \<or> prj_ID project \<noteq> ar_ProjectID r
             \<or> prj_State project \<noteq> ProjectIntegrating \<or> prj_Version project \<noteq> ar_ExpectedVersion r
          then (None, s)
          else (case AuthorizationParameterDigest (la_digests a) r of
            None \<Rightarrow> (None, s)
          | Some parameterDigest \<Rightarrow>
              (case Validate (la_leases a) (la_clocks a) (la_context a)
                      (integration_lease_check r parameterDigest (la_clock a)) s of
                 (Inl _, s1) \<Rightarrow> (None, s1)
               | (Inr lease, s1) \<Rightarrow>
                   (case Evaluate (la_policy a) (la_clocks a) (la_context a) (la_engine_clock a)
                           (integration_policy_input r project parameterDigest lease) s1 of
                      ((decision, err), s2) \<Rightarrow>
                        if err \<noteq> None \<or> \<not> Decision_Allowed (pd_Decision decision)
                           \<or> pd_PolicyVersion decision \<noteq> ar_PolicyDigest r
                        then (None, s2)
                        else (ad_decision (la_digests a)
                                \<lparr>uv_RequestSHA256 = parameterDigest, uv_PolicyVersion = pd_PolicyVersion decision,
                                 uv_RuleID = pd_RuleID decision, uv_Decision = pd_Decision decision\<rparr>, s2))))))"

section \<open>What the gate establishes\<close>

lemma canonical_candidate_again [simp]: "canonical_candidate (canonical_candidate c) = canonical_candidate c"
  by (simp add: canonical_candidate_def sorted_sort_id)

lemma canonicalCandidates_again: "canonicalCandidates (canonicalCandidates cs) = canonicalCandidates cs"
proof -
  have "map canonical_candidate (canonicalCandidates cs) = canonicalCandidates cs"
    by (rule map_idI) (auto simp: canonicalCandidates_def)
  moreover have "sort_key (\<lambda>c. (ik_TaskID c, ik_ModuleID c)) (canonicalCandidates cs) = canonicalCandidates cs"
    unfolding canonicalCandidates_def by (rule sort_key_id_if_sorted) simp
  ultimately show ?thesis by (metis canonicalCandidates_def)
qed

lemma gate_candidate_same: "gate_candidate g r c = Some c' \<Longrightarrow> c' = c"
  by (auto simp: gate_candidate_def task_matches_def submission_matches_def evidence_matches_def module_matches_def
      split: if_splits option.splits)

lemma gate_candidates_same: "gate_candidates g r cs = Some ds \<Longrightarrow> ds = cs \<and> list_all (\<lambda>c. gate_candidate g r c = Some c) cs"
  by (induction cs arbitrary: ds) (auto split: option.splits dest: gate_candidate_same)

definition gate_view :: "'x AuthoritativeGate \<Rightarrow> IntegrationRequest \<Rightarrow> Candidate \<Rightarrow> bool" where
  \<comment> \<open>task, submission, evidence and module all say what the candidate says\<close>
  "gate_view g r c \<longleftrightarrow> ik_AuditPassed c \<and>
     (\<exists>t s e m. ag_tasks g (iq_TenantID r) (iq_ProjectID r) (ik_TaskID c) = Some t \<and> task_matches r c t
        \<and> ag_submissions g t = Some s \<and> submission_matches r c t s
        \<and> ag_evidence g t s (ik_EvidenceSHA256 c) = Some e \<and> evidence_matches r c t s e
        \<and> ag_modules g (iq_TenantID r) (iq_ProjectID r) (ik_ModuleID c) (mt_ModuleSpecRef t) = Some m
        \<and> module_matches c t m)"

lemma gate_candidate_view: "gate_candidate g r c = Some c \<longleftrightarrow> gate_view g r c"
proof
  assume "gate_candidate g r c = Some c"
  then show "gate_view g r c"
    unfolding gate_candidate_def gate_view_def by (auto split: if_splits option.splits)
next
  assume "gate_view g r c"
  then show "gate_candidate g r c = Some c"
    unfolding gate_view_def
    by (auto simp: gate_candidate_def task_matches_def submission_matches_def evidence_matches_def module_matches_def)
qed

lemma gate_candidates_view:
  "gate_candidates g r cs = (if list_all (gate_view g r) cs then Some cs else None)"
proof (induction cs)
  case (Cons c cs)
  have "gate_candidate g r c = Some c \<or> gate_candidate g r c = None"
    using gate_candidate_same by (cases "gate_candidate g r c") auto
  then show ?case using Cons gate_candidate_view [of g r c] by (auto split: option.splits)
qed simp

end
