(* ===== verification/Gate_Properties.thy ===== *)
theory Gate_Properties
  imports Integration_Gate Integration_Merge Policy_Safety
begin

text \<open>
  What the gate before a merge promises to the queue: the sources agree with every candidate, the
  answer is the request's own, and the service holds an active lease for exactly these candidates.
\<close>

definition verified_as_requested :: "IntegrationRequest \<Rightarrow> string \<Rightarrow> VerifiedRequest" where
  "verified_as_requested r authorization =
     \<lparr>vq_TenantID = iq_TenantID r, vq_ProjectID = iq_ProjectID r, vq_IntegrationID = iq_IntegrationID r,
      vq_BaseCommit = iq_BaseCommit r, vq_Candidates = canonicalCandidates (iq_Candidates r),
      vq_PolicyDigest = iq_PolicyDigest r, vq_ExpectedVersion = iq_ExpectedVersion r,
      vq_PrincipalID = iq_PrincipalID r, vq_LeaseID = iq_LeaseID r, vq_FencingToken = iq_FencingToken r,
      vq_Authorization = authorization, vq_OwnerTaskID = iq_OwnerTaskID r, vq_Attempt = iq_Attempt r\<rparr>"

lemma candidates_loop_iff:
  "candidates_loop good seen cs \<longleftrightarrow>
     (\<forall>c \<in> set cs. good c) \<and> distinct (map ik_TaskID cs) \<and> set (map ik_TaskID cs) \<inter> set seen = {}"
  by (induction cs arbitrary: seen) auto

lemma sound_canonical [simp]: "sound_candidate (canonical_candidate c) = sound_candidate c"
  by (simp add: sound_candidate_def canonical_candidate_def)

lemma canonicalCandidates_Nil [simp]: "canonicalCandidates cs = [] \<longleftrightarrow> cs = []"
  by (metis canonicalCandidates_def length_0_conv length_map length_sort)

lemma canonicalCandidates_tasks: "mset (map ik_TaskID (canonicalCandidates cs)) = mset (map ik_TaskID cs)"
  by (simp add: canonicalCandidates_def image_mset.compositionality comp_def)

lemma verified_as_requested_valid:
  assumes "integration_validateRequest r" and "digestPattern authorization"
    and "\<forall>c \<in> set (canonicalCandidates (iq_Candidates r)). ik_AuditPassed c"
  shows "validateVerifiedRequest (verified_as_requested r authorization)
     \<and> requestMatchesVerified r (verified_as_requested r authorization)"
proof -
  let ?cs = "canonicalCandidates (iq_Candidates r)"
  have "distinct (map ik_TaskID ?cs)"
    using assms(1) canonicalCandidates_tasks [of "iq_Candidates r"]
    by (metis candidates_loop_iff integration_validateRequest_def mset_eq_imp_distinct_iff)
  moreover have "\<forall>c \<in> set ?cs. sound_candidate c"
    using assms(1) by (auto simp: integration_validateRequest_def candidates_loop_iff set_canonicalCandidates)
  moreover have "set (map ik_TaskID ?cs) = set (map ik_TaskID (iq_Candidates r))"
    using canonicalCandidates_tasks by (metis set_mset_mset)
  ultimately show ?thesis using assms
    unfolding validateVerifiedRequest_def integration_validateRequest_def requestMatchesVerified_def candidates_loop_iff
    by (simp add: verified_as_requested_def canonicalCandidates_again)
qed

lemma gate_Validate_Inr:
  "gate_Validate g r x = (Inr v, x') \<longleftrightarrow>
     (\<exists>facts authorization. ag_projects g (iq_TenantID r) (iq_ProjectID r) (iq_IntegrationID r) = Some facts
        \<and> facts_match facts r \<and> (\<forall>c \<in> set (canonicalCandidates (iq_Candidates r)). gate_view g r c)
        \<and> ag_authorizer g (authorization_request r facts (canonicalCandidates (iq_Candidates r))) x = (Some authorization, x')
        \<and> digestPattern authorization \<and> v = verified_as_requested r authorization)"
  unfolding gate_Validate_def gate_candidates_view
  by (auto simp: canonicalCandidates_again verified_as_requested_def facts_match_def list_all_iff Let_def
      split: option.splits if_splits prod.splits)

section \<open>What the sources confirm\<close>

definition candidate_confirmed :: "'x AuthoritativeGate \<Rightarrow> IntegrationRequest \<Rightarrow> Candidate \<Rightarrow> bool" where
  \<comment> \<open>a passed task in its first three attempts, its submission, passed evidence for exactly that
     submission and the module as specified, each field of the candidate being the field of a source\<close>
  "candidate_confirmed g r c \<longleftrightarrow> ik_AuditPassed c \<and>
     (\<exists>t s e m. ag_tasks g (iq_TenantID r) (iq_ProjectID r) (ik_TaskID c) = Some t
        \<and> mt_TenantID t = iq_TenantID r \<and> mt_ProjectID t = iq_ProjectID r \<and> mt_ID t = ik_TaskID c
        \<and> mt_State t = TaskPassed \<and> mt_ModuleSpecRef t = ik_ModuleSpecRef c \<and> 1 \<le> mt_Attempt t \<and> mt_Attempt t \<le> 3
        \<and> mt_AttemptSeriesID t \<noteq> []
      \<and> ag_submissions g t = Some s \<and> SubmissionManifest_Validate s = None
        \<and> sm_ProjectID s = iq_ProjectID r \<and> sm_ModuleTaskID s = ik_TaskID c \<and> sm_AttemptSeriesID s = mt_AttemptSeriesID t
        \<and> sm_Attempt s = mt_Attempt t \<and> sm_ModuleSpecRef s = ik_ModuleSpecRef c \<and> sm_HeadCommit s = ik_SubmissionCommit c
      \<and> ag_evidence g t s (ik_EvidenceSHA256 c) = Some e \<and> er_Passed e
        \<and> er_SHA256 e = ik_EvidenceSHA256 c \<and> er_ProjectID e = iq_ProjectID r \<and> er_TaskID e = ik_TaskID c
        \<and> er_AttemptSeriesID e = mt_AttemptSeriesID t \<and> er_Attempt e = mt_Attempt t
        \<and> er_ModuleSpecRef e = ik_ModuleSpecRef c \<and> er_BaseCommit e = sm_BaseCommit s
        \<and> er_SubmissionCommit e = ik_SubmissionCommit c \<and> er_PolicyDigest e = iq_PolicyDigest r
      \<and> ag_modules g (iq_TenantID r) (iq_ProjectID r) (ik_ModuleID c) (ik_ModuleSpecRef c) = Some m
        \<and> mo_ModuleID m = ik_ModuleID c \<and> mo_Ref m = ik_ModuleSpecRef c
        \<and> mo_OwnedPaths m = ik_OwnedPaths c \<and> mo_PublicInterfaces m = ik_PublicInterfaces c)"

lemma gate_view_confirmed: "gate_view g r c \<longleftrightarrow> candidate_confirmed g r c"
proof -
  have less: "x < 1 \<longleftrightarrow> \<not> 1 \<le> x" "3 < x \<longleftrightarrow> \<not> x \<le> 3" for x :: int by auto
  show ?thesis
    unfolding gate_view_def candidate_confirmed_def task_matches_def submission_matches_def evidence_matches_def
      module_matches_def de_Morgan_disj not_not less
    by (rule arg_cong2 [where f = "(\<and>)", OF refl], (rule ex_cong1)+) auto
qed

lemma facts_match_eq:
  "facts_match facts r \<longleftrightarrow> facts = \<lparr>pf_TenantID = iq_TenantID r, pf_ProjectID = iq_ProjectID r,
     pf_IntegrationID = iq_IntegrationID r, pf_BaseCommit = iq_BaseCommit r, pf_PolicyDigest = iq_PolicyDigest r,
     pf_StateVersion = iq_ExpectedVersion r\<rparr>"
  by (cases facts) (auto simp: facts_match_def)

section \<open>The sources of the system\<close>

lemma stored_task_source:
  assumes "EventTaskSource decode store t p i = Some x"
  shows "\<exists>q. map_of (ms_projections store) (aggregateKey t ''task'' i) = Some q \<and> decode (pj_State q) = Some x
     \<and> mt_Version x = pj_Version q"
  using assms by (auto simp: EventTaskSource_def Load_def split: option.splits if_splits)

lemma bare_PassesAuditGate [simp]:
  "PassesAuditGate (b\<lparr>eb_Signature := sig, eb_ManifestSHA256 := d\<rparr>) = PassesAuditGate b"
proof -
  have "validateAuditResults (b\<lparr>eb_Signature := sig, eb_ManifestSHA256 := d\<rparr>) = validateAuditResults b"
    unfolding validateAuditResults_def check_llm_audit_def Let_def by simp
  then show ?thesis unfolding PassesAuditGate_def by simp
qed

lemma signed_evidence_source:
  assumes "SignedEvidenceSource src t s sha = Some e"
  shows "\<exists>b sig. es_Get src t = Some b \<and> eb_Signature b = Some sig \<and> es_Verify src (b\<lparr>eb_Signature := None\<rparr>) sig
     \<and> EvidenceBundle_Validate b = None
     \<and> eb_ManifestSHA256 b = sha \<and> es_Digest src (b\<lparr>eb_Signature := None, eb_ManifestSHA256 := []\<rparr>) = Some sha
     \<and> eb_TaskID b = er_TaskID e \<and> eb_Attempt b = er_Attempt e \<and> eb_SubmissionCommit b = er_SubmissionCommit e
     \<and> eb_PolicyBundleDigest b = er_PolicyDigest e \<and> PassesAuditGate b = er_Passed e"
  using assms by (auto simp: SignedEvidenceSource_def Let_def split: option.splits if_splits)

text \<open>
  C25: the gate is exact. It accepts a well-formed request exactly when the project's facts are those
  of the request, every candidate is one of a passed task whose submission, passed evidence and module
  say field by field what the candidate says, and the authorizer, asked for exactly this, gives a
  digest. What it accepts is the request itself with its candidates in canonical order, which the queue
  never rejects. With the event store and the signed evidence as its sources, each accepted candidate
  is stored as a passed task, and its evidence is a valid bundle with a verified signature and its own
  digest that passes the audit gate.
\<close>

theorem gate_exact:
  assumes "integration_validateRequest r"
  shows "(gate_Validate g r x = (Inr v, x') \<longleftrightarrow>
       (\<exists>authorization. ag_projects g (iq_TenantID r) (iq_ProjectID r) (iq_IntegrationID r) =
            Some \<lparr>pf_TenantID = iq_TenantID r, pf_ProjectID = iq_ProjectID r, pf_IntegrationID = iq_IntegrationID r,
                  pf_BaseCommit = iq_BaseCommit r, pf_PolicyDigest = iq_PolicyDigest r, pf_StateVersion = iq_ExpectedVersion r\<rparr>
          \<and> (\<forall>c \<in> set (canonicalCandidates (iq_Candidates r)). candidate_confirmed g r c)
          \<and> ag_authorizer g \<lparr>ar_TenantID = iq_TenantID r, ar_ProjectID = iq_ProjectID r,
               ar_IntegrationID = iq_IntegrationID r, ar_PrincipalID = iq_PrincipalID r, ar_LeaseID = iq_LeaseID r,
               ar_FencingToken = iq_FencingToken r, ar_PolicyDigest = iq_PolicyDigest r,
               ar_ExpectedVersion = iq_ExpectedVersion r, ar_BaseCommit = iq_BaseCommit r,
               ar_Candidates = canonicalCandidates (iq_Candidates r), ar_OwnerTaskID = iq_OwnerTaskID r,
               ar_Attempt = iq_Attempt r\<rparr> x = (Some authorization, x')
          \<and> digestPattern authorization \<and> v = verified_as_requested r authorization))
     \<and> (gate_Validate g r x = (Inr v, x') \<longrightarrow> validateVerifiedRequest v \<and> requestMatchesVerified r v
          \<and> (ag_tasks g = EventTaskSource decode store \<longrightarrow> ag_evidence g = SignedEvidenceSource src \<longrightarrow>
              (\<forall>c \<in> set (vq_Candidates v). \<exists>q t b sig.
                   map_of (ms_projections store) (aggregateKey (iq_TenantID r) ''task'' (ik_TaskID c)) = Some q
                 \<and> decode (pj_State q) = Some t \<and> mt_Version t = pj_Version q \<and> mt_State t = TaskPassed
                 \<and> es_Get src t = Some b \<and> eb_Signature b = Some sig \<and> es_Verify src (b\<lparr>eb_Signature := None\<rparr>) sig
                 \<and> es_Digest src (b\<lparr>eb_Signature := None, eb_ManifestSHA256 := []\<rparr>) = Some (ik_EvidenceSHA256 c)
                 \<and> EvidenceBundle_Validate b = None \<and> PassesAuditGate b
                 \<and> eb_TaskID b = ik_TaskID c \<and> eb_Attempt b = mt_Attempt t \<and> eb_SubmissionCommit b = ik_SubmissionCommit c
                 \<and> eb_PolicyBundleDigest b = iq_PolicyDigest r)))"
    (is "(?ok \<longleftrightarrow> ?exact) \<and> (?ok \<longrightarrow> ?rest)")
proof
  show exact: "?ok \<longleftrightarrow> ?exact"
    unfolding gate_Validate_Inr facts_match_eq gate_view_confirmed
    by (auto simp: authorization_request_def)
  show "?ok \<longrightarrow> ?rest"
  proof
    assume ok: ?ok
    with exact obtain authorization where v: "v = verified_as_requested r authorization" "digestPattern authorization"
      and all: "\<forall>c \<in> set (canonicalCandidates (iq_Candidates r)). candidate_confirmed g r c" by blast
    from all have "\<forall>c \<in> set (canonicalCandidates (iq_Candidates r)). ik_AuditPassed c"
      by (auto simp: candidate_confirmed_def)
    from verified_as_requested_valid [OF assms v(2) this] have "validateVerifiedRequest v \<and> requestMatchesVerified r v"
      by (simp add: v)
    moreover have "vq_Candidates v = canonicalCandidates (iq_Candidates r)" by (simp add: v verified_as_requested_def)
    ultimately show ?rest using all
      by (auto 4 3 simp: candidate_confirmed_def dest!: stored_task_source signed_evidence_source bspec)
  qed
qed

section \<open>The lease behind a merge\<close>

lemma check_binding_None:
  assumes "check_binding c l = None"
  shows "ch_PrincipalID c = cl_PrincipalID l \<and> ch_TenantID c = cl_TenantID l \<and> ch_ProjectID c = cl_ProjectID l
     \<and> ch_ProjectVersion c = cl_ProjectVersion l \<and> ch_Action c = cl_Action l \<and> ch_FencingToken c = cl_FencingToken l
     \<and> ch_PolicyVersion c = cl_PolicyVersion l \<and> ch_ParameterDigest c = cl_ParameterDigest l
     \<and> resourcesEqual (ch_Resource c) (cl_Resource l)"
  using assms unfolding check_binding_def by (simp split: if_splits)

lemma integration_Authorize_Some:
  assumes "integration_Authorize a r s = (Some authorization, s')"
  shows "\<exists>project digest lease decision s1. la_projects a (ar_TenantID r) (ar_ProjectID r) = Some project
     \<and> prj_State project = ProjectIntegrating \<and> prj_Version project = ar_ExpectedVersion r
     \<and> AuthorizationParameterDigest (la_digests a) r = Some digest
     \<and> Validate (la_leases a) (la_clocks a) (la_context a) (integration_lease_check r digest (la_clock a)) s = (Inr lease, s1)
     \<and> Evaluate (la_policy a) (la_clocks a) (la_context a) (la_engine_clock a)
          (integration_policy_input r project digest lease) s1 = ((decision, None), s')
     \<and> pd_Decision decision = DecisionAllow \<and> pd_PolicyVersion decision = ar_PolicyDigest r"
  using assms unfolding integration_Authorize_def
  by (auto simp: Decision_Allowed_def split: option.splits if_splits prod.splits sum.splits)

text \<open>
  C10: no merge without a lease. When the gate with the lease authorizer accepts a request, the
  project is integrating at the expected version, and the store holds the named lease: signed,
  active, not expired, for this service and project version, for merging, with the fencing token of
  the request, for this integration and for the digest of exactly this base, these candidates and
  this attempt; and the policy allowed the merge under the policy version of the request.
\<close>

theorem integration_leased:
  assumes "gate_Validate g r s = (Inr v, s')" and "ag_authorizer g = integration_Authorize a"
    and "lm_store (la_leases a) = memory_lease_store"
  shows "\<exists>project lease trusted digest s1 decision. la_projects a (iq_TenantID r) (iq_ProjectID r) = Some project
     \<and> prj_State project = ProjectIntegrating \<and> prj_Version project = iq_ExpectedVersion r
     \<and> lease_row s (iq_LeaseID r) = Some lease \<and> verify_lease (la_leases a) lease = None
     \<and> manager_now (la_clocks a) = Inr trusted \<and> cl_State lease = LeaseActive
     \<and> \<not> IsExpired lease (leaseAuthorizationTime (la_context a) trusted)
     \<and> cl_PrincipalID lease = iq_PrincipalID r \<and> cl_TenantID lease = iq_TenantID r \<and> cl_ProjectID lease = iq_ProjectID r
     \<and> cl_ProjectVersion lease = iq_ExpectedVersion r \<and> cl_Action lease = ActionIntegrationMerge
     \<and> cl_FencingToken lease = iq_FencingToken r \<and> cl_PolicyVersion lease = iq_PolicyDigest r
     \<and> resourcesEqual (IntegrationResource (iq_IntegrationID r)) (cl_Resource lease)
     \<and> cl_ParameterDigest lease = digest
     \<and> ad_parameters (la_digests a) \<lparr>ar_TenantID = iq_TenantID r, ar_ProjectID = iq_ProjectID r,
          ar_IntegrationID = iq_IntegrationID r, ar_PrincipalID = iq_PrincipalID r, ar_LeaseID = [], ar_FencingToken = 0,
          ar_PolicyDigest = iq_PolicyDigest r, ar_ExpectedVersion = iq_ExpectedVersion r, ar_BaseCommit = iq_BaseCommit r,
          ar_Candidates = vq_Candidates v, ar_OwnerTaskID = iq_OwnerTaskID r, ar_Attempt = iq_Attempt r\<rparr> = Some digest
     \<and> Evaluate (la_policy a) (la_clocks a) (la_context a) (la_engine_clock a)
          (integration_policy_input (authorization_request r
             \<lparr>pf_TenantID = iq_TenantID r, pf_ProjectID = iq_ProjectID r, pf_IntegrationID = iq_IntegrationID r,
              pf_BaseCommit = iq_BaseCommit r, pf_PolicyDigest = iq_PolicyDigest r, pf_StateVersion = iq_ExpectedVersion r\<rparr>
             (vq_Candidates v)) project digest lease) s1 = ((decision, None), s')
     \<and> pd_Decision decision = DecisionAllow"
proof -
  obtain facts authorization where f: "facts_match facts r" "v = verified_as_requested r authorization"
      "integration_Authorize a (authorization_request r facts (canonicalCandidates (iq_Candidates r))) s = (Some authorization, s')"
    using assms(1,2) unfolding gate_Validate_Inr by auto
  let ?r = "authorization_request r facts (canonicalCandidates (iq_Candidates r))"
  have facts: "facts = \<lparr>pf_TenantID = iq_TenantID r, pf_ProjectID = iq_ProjectID r, pf_IntegrationID = iq_IntegrationID r,
      pf_BaseCommit = iq_BaseCommit r, pf_PolicyDigest = iq_PolicyDigest r, pf_StateVersion = iq_ExpectedVersion r\<rparr>"
    using f(1) by (simp add: facts_match_def)
  obtain project digest lease decision s1 where p:
      "la_projects a (iq_TenantID r) (iq_ProjectID r) = Some project"
      "prj_State project = ProjectIntegrating" "prj_Version project = iq_ExpectedVersion r"
      "AuthorizationParameterDigest (la_digests a) ?r = Some digest"
      "Evaluate (la_policy a) (la_clocks a) (la_context a) (la_engine_clock a)
          (integration_policy_input ?r project digest lease) s1 = ((decision, None), s')"
      "pd_Decision decision = DecisionAllow"
    and val: "Validate (la_leases a) (la_clocks a) (la_context a) (integration_lease_check ?r digest (la_clock a)) s = (Inr lease, s1)"
    using integration_Authorize_Some [OF f(3)] by (auto simp: authorization_request_def facts)
  obtain trusted where t: "manager_now (la_clocks a) = Inr trusted"
      "usable lease (leaseAuthorizationTime (la_context a) trusted)"
    and fetch: "fetch_lease (la_leases a) (withLeaseTenant (la_context a) (ar_TenantID ?r)) (iq_LeaseID r) CodeLeaseExpired s = Inr lease"
    and bind: "check_binding (integration_lease_check ?r digest (la_clock a)) lease = None"
    using Validate_Inr [OF val] by (auto simp: integration_lease_check_def authorization_request_def)
  have bound: "cl_PrincipalID lease = iq_PrincipalID r" "cl_TenantID lease = iq_TenantID r" "cl_ProjectID lease = iq_ProjectID r"
      "cl_ProjectVersion lease = iq_ExpectedVersion r" "cl_Action lease = ActionIntegrationMerge"
      "cl_FencingToken lease = iq_FencingToken r" "cl_PolicyVersion lease = iq_PolicyDigest r" "cl_ParameterDigest lease = digest"
      "resourcesEqual (IntegrationResource (iq_IntegrationID r)) (cl_Resource lease)"
    using check_binding_None [OF bind] by (simp_all add: integration_lease_check_def authorization_request_def facts)
  have params: "ad_parameters (la_digests a) (?r\<lparr>ar_LeaseID := [], ar_FencingToken := 0, ar_Candidates := vq_Candidates v\<rparr>) = Some digest"
    using p(4) by (simp add: AuthorizationParameterDigest_def Let_def f(2) verified_as_requested_def canonicalCandidates_again
        authorization_request_def split: if_splits)
  have "vq_Candidates v = canonicalCandidates (iq_Candidates r)" by (simp add: f(2) verified_as_requested_def)
  then show ?thesis
    using p bound t usable_active [OF t(2)] fetch_lease_row [OF assms(3) fetch] fetch params
    by (intro exI [of _ project] exI [of _ lease] exI [of _ trusted] exI [of _ digest] exI [of _ s1] exI [of _ decision])
      (simp add: fetch_lease_Inr authorization_request_def facts)
qed

section \<open>A gate that accepts\<close>

definition ex_head :: string where
  "ex_head = ''0123456789abcdef0123456789abcdef01234567''"

definition ex_base :: string where
  "ex_base = ''00112233445566778899aabbccddeeff00112233''"

definition ex_spec :: SpecRef where
  "ex_spec = \<lparr>sr_Version = 1, sr_SHA256 = zero_digest\<rparr>"

definition ex_module :: Candidate where
  "ex_module = \<lparr>ik_TaskID = ''task-1'', ik_ModuleID = ''module-1'', ik_SubmissionCommit = ex_head, ik_ModuleSpecRef = ex_spec,
     ik_OwnedPaths = [''src''], ik_PublicInterfaces = [''api''], ik_EvidenceSHA256 = zero_digest, ik_AuditPassed = True\<rparr>"

definition ex_integration :: IntegrationRequest where
  "ex_integration = \<lparr>iq_TenantID = ''t1'', iq_ProjectID = ''p1'', iq_IntegrationID = ''i1'', iq_IdempotencyKey = ''k'',
     iq_BaseCommit = ex_base, iq_Candidates = [ex_module], iq_PolicyDigest = zero_digest, iq_ExpectedVersion = 3,
     iq_CreatedAt = 1, iq_PrincipalID = ''service-1'', iq_LeaseID = ''lease-1'', iq_FencingToken = 1,
     iq_OwnerTaskID = [], iq_Attempt = 0\<rparr>"

definition ex_passed :: ModuleTask where
  "ex_passed = \<lparr>mt_TenantID = ''t1'', mt_ProjectID = ''p1'', mt_ID = ''task-1'', mt_ModuleID = ''module-1'',
     mt_State = TaskPassed, mt_Version = 9, mt_PlanningSpecRef = zero_SpecRef, mt_ModuleSpecRef = ex_spec,
     mt_AttemptSeriesID = ''series'', mt_AttemptSeriesIDs = [''series''], mt_Attempt = 1, mt_FencingToken = 1,
     mt_DependentTaskIDs = [], mt_FrozenDependentIDs = [], mt_BlockingTaskIDs = [], mt_BlockedFromState = TaskPassed,
     mt_ModuleSpecSourceTaskID = []\<rparr>"

definition ex_submission :: SubmissionManifest where
  "ex_submission = \<lparr>sm_SubmissionVersion = 1, sm_ProjectID = ''p1'', sm_ModuleTaskID = ''task-1'',
     sm_AttemptSeriesID = ''series'', sm_Attempt = 1, sm_ModuleSpecRef = ex_spec, sm_BaseCommit = ex_base,
     sm_HeadCommit = ex_head, sm_ChangedFiles = [], sm_DeletedFiles = [], sm_CreatedFiles = [], sm_ClaimedCriteria = [],
     sm_LocalTestEvidenceRefs = [], sm_AgentIdentity = \<lparr>ai_AgentInstanceID = ''agent-1'', ai_Role = ''EXECUTOR'',
       ai_Provider = [], ai_Model = [], ai_LeaseID = ''l''\<rparr>,
     sm_CreatedAt = ''2026-01-01T00:00:00Z'', sm_SHA256 = zero_digest, sm_Signature = None\<rparr>"

definition ex_evidence :: EvidenceRecord where
  "ex_evidence = \<lparr>er_SHA256 = zero_digest, er_ProjectID = ''p1'', er_TaskID = ''task-1'', er_AttemptSeriesID = ''series'',
     er_Attempt = 1, er_ModuleSpecRef = ex_spec, er_BaseCommit = ex_base, er_SubmissionCommit = ex_head,
     er_PolicyDigest = zero_digest, er_Passed = True\<rparr>"

definition ex_merge_lease :: CapabilityLease where
  "ex_merge_lease = zero_CapabilityLease\<lparr>cl_ID := ''lease-1'', cl_AgentInstanceID := ''service-1'',
     cl_PrincipalID := ''service-1'', cl_PrincipalType := PrincipalService, cl_TenantID := ''t1'', cl_ProjectID := ''p1'',
     cl_ProjectVersion := 3, cl_Role := RoleService, cl_Action := ActionIntegrationMerge,
     cl_Resource := IntegrationResource ''i1'', cl_ParameterDigest := zero_digest, cl_Capabilities := [''integration.merge''],
     cl_IssuedAt := 1000 * second_ns, cl_ExpiresAt := 1300 * second_ns, cl_LastHeartbeatAt := 1000 * second_ns,
     cl_HeartbeatIntervalSeconds := 30, cl_PolicyVersion := zero_digest, cl_BudgetAccountID := ''p1'',
     cl_Nonce := zero_digest, cl_FencingToken := 1, cl_State := LeaseActive, cl_Signature := ''signature''\<rparr>"

definition ex_merge_leases :: MemoryLeaseStore where
  "ex_merge_leases = \<lparr>ml_leases = [(''lease-1'', ex_merge_lease)]\<rparr>"

definition ex_integrating :: Project where
  "ex_integrating = zero_Project\<lparr>prj_TenantID := ''t1'', prj_ID := ''p1'', prj_State := ProjectIntegrating, prj_Version := 3\<rparr>"

definition ex_authorizer :: "MemoryLeaseStore LeaseAuthorizer" where
  "ex_authorizer = \<lparr>la_leases = ex_manager,
     la_policy = Some (NewEngine \<lparr>bu_Version = zero_digest, bu_Digest = [], bu_Available = True, bu_Rules = []\<rparr>
       (Some ex_manager) None 0),
     la_projects = (\<lambda>_ _. Some ex_integrating),
     la_digests = \<lparr>ad_parameters = (\<lambda>_. Some zero_digest), ad_decision = (\<lambda>_. Some zero_digest)\<rparr>,
     la_clocks = clocks_at 1010, la_context = ex_lease_context, la_clock = 1010 * second_ns,
     la_engine_clock = 1010 * second_ns\<rparr>"

definition ex_gate :: "MemoryLeaseStore AuthoritativeGate" where
  "ex_gate = \<lparr>ag_projects = (\<lambda>_ _ _. Some \<lparr>pf_TenantID = ''t1'', pf_ProjectID = ''p1'', pf_IntegrationID = ''i1'',
       pf_BaseCommit = ex_base, pf_PolicyDigest = zero_digest, pf_StateVersion = 3\<rparr>),
     ag_tasks = (\<lambda>_ _ _. Some ex_passed), ag_submissions = (\<lambda>_. Some ex_submission),
     ag_evidence = (\<lambda>_ _ _. Some ex_evidence),
     ag_modules = (\<lambda>_ _ _ _. Some \<lparr>mo_ModuleID = ''module-1'', mo_Ref = ex_spec, mo_OwnedPaths = [''src''],
       mo_PublicInterfaces = [''api'']\<rparr>),
     ag_authorizer = integration_Authorize ex_authorizer\<rparr>"

definition ex_authorization_request :: AuthorizationRequest where
  "ex_authorization_request = authorization_request ex_integration
     \<lparr>pf_TenantID = ''t1'', pf_ProjectID = ''p1'', pf_IntegrationID = ''i1'', pf_BaseCommit = ex_base,
      pf_PolicyDigest = zero_digest, pf_StateVersion = 3\<rparr> [ex_module]"

definition ex_merge_allowed :: PolicyDecision where
  "ex_merge_allowed = (allowDecision zero_digest ''aor.integration.merge''
     [''TRUSTED_SERVICE_ALLOWED'', ''PROJECT_STATE_VALID'', ''LEASE_VALID''])
     \<lparr>pd_Constraints := zero_Constraints\<lparr>cn_ExpiresAt := 1300 * second_ns\<rparr>\<rparr>"

lemma ex_integration_valid: "integration_validateRequest ex_integration"
  by code_simp

lemma ex_candidates: "canonicalCandidates (iq_Candidates ex_integration) = [ex_module]"
  by code_simp

lemma ex_module_view: "gate_view ex_gate ex_integration ex_module"
proof -
  have "task_matches ex_integration ex_module ex_passed" by code_simp
  moreover have "submission_matches ex_integration ex_module ex_passed ex_submission" by code_simp
  moreover have "evidence_matches ex_integration ex_module ex_passed ex_submission ex_evidence" by code_simp
  ultimately show ?thesis
    by (simp add: gate_view_def ex_gate_def ex_module_def module_matches_def ex_passed_def)
qed

lemma ex_parameters: "AuthorizationParameterDigest (la_digests ex_authorizer) ex_authorization_request = Some zero_digest"
  by code_simp

lemma ex_merge_lease_valid:
  "Validate ex_manager (clocks_at 1010) ex_lease_context
     (integration_lease_check ex_authorization_request zero_digest (1010 * second_ns)) ex_merge_leases
   = (Inr ex_merge_lease, ex_merge_leases)"
  by code_simp

lemma ex_merge_evaluated:
  "Evaluate (la_policy ex_authorizer) (clocks_at 1010) ex_lease_context (1010 * second_ns)
     (integration_policy_input ex_authorization_request ex_integrating zero_digest ex_merge_lease) ex_merge_leases
   = ((ex_merge_allowed, None), ex_merge_leases)"
  by code_simp

lemma ex_authorized:
  "integration_Authorize ex_authorizer ex_authorization_request ex_merge_leases = (Some zero_digest, ex_merge_leases)"
proof -
  have a: "la_clocks ex_authorizer = clocks_at 1010"
      "la_leases ex_authorizer = ex_manager" "la_context ex_authorizer = ex_lease_context"
      "la_clock ex_authorizer = 1010 * second_ns" "la_engine_clock ex_authorizer = 1010 * second_ns"
      "la_projects ex_authorizer t p = Some ex_integrating" "ad_decision (la_digests ex_authorizer) v = Some zero_digest" for t p v
    by (simp_all add: ex_authorizer_def)
  have c: "cx_Err ex_lease_context = None" by (simp add: ex_lease_context_def)
  have r: "ar_TenantID ex_authorization_request = ''t1''" "ar_ProjectID ex_authorization_request = ''p1''"
      "ar_ExpectedVersion ex_authorization_request = 3" "ar_PolicyDigest ex_authorization_request = zero_digest"
    by (simp_all add: ex_authorization_request_def authorization_request_def ex_integration_def)
  have p: "prj_TenantID ex_integrating = ''t1''" "prj_ID ex_integrating = ''p1''"
      "prj_State ex_integrating = ProjectIntegrating" "prj_Version ex_integrating = 3"
    by (simp_all add: ex_integrating_def)
  have d: "Decision_Allowed (pd_Decision ex_merge_allowed)" "pd_PolicyVersion ex_merge_allowed = zero_digest"
    by (simp_all add: ex_merge_allowed_def allowDecision_def Decision_Allowed_def)
  show ?thesis
    unfolding integration_Authorize_def a r p ex_parameters option.case ex_merge_lease_valid prod.case sum.case
      ex_merge_evaluated using c d by simp
qed

lemma ex_gate_accepts:
  "gate_Validate ex_gate ex_integration ex_merge_leases = (Inr (verified_as_requested ex_integration zero_digest), ex_merge_leases)"
proof -
  have "digestPattern zero_digest" by code_simp
  moreover have "ag_authorizer ex_gate = integration_Authorize ex_authorizer" by (simp add: ex_gate_def)
  moreover let ?facts = "\<lparr>pf_TenantID = ''t1'', pf_ProjectID = ''p1'', pf_IntegrationID = ''i1'',
     pf_BaseCommit = ex_base, pf_PolicyDigest = zero_digest, pf_StateVersion = 3\<rparr>"
  have "ag_projects ex_gate t p i = Some ?facts" for t p i by (simp add: ex_gate_def)
  moreover have "facts_match ?facts ex_integration" by (simp add: facts_match_def ex_integration_def)
  moreover have "\<forall>c \<in> set [ex_module]. gate_view ex_gate ex_integration c" using ex_module_view by simp
  ultimately show ?thesis
    unfolding gate_Validate_Inr ex_candidates using ex_authorized [unfolded ex_authorization_request_def] by metis
qed

definition ex_passed_store :: MemoryStore where
  "ex_passed_store = NewMemoryStore\<lparr>ms_projections := [(aggregateKey ''t1'' ''task'' ''task-1'',
     \<lparr>pj_TenantID = ''t1'', pj_ProjectID = ''p1'', pj_AggregateType = ''task'', pj_AggregateID = ''task-1'', pj_Version = 9,
      pj_State = ''passed''\<rparr>)]\<rparr>"

definition ex_decode :: "string \<Rightarrow> ModuleTask option" where
  "ex_decode state = (if state = ''passed'' then Some ex_passed else None)"

definition ex_audited_bundle :: EvidenceBundle where
  "ex_audited_bundle = ex_bundle\<lparr>eb_ProjectID := ''p1'', eb_TaskID := ''task-1'', eb_BaseCommit := ex_base,
     eb_SubmissionCommit := ex_head, eb_Signature := Some \<lparr>sg_Type = ''jws'', sg_KID = ''auditor'', sg_JWS = ''e30''\<rparr>\<rparr>"

definition ex_evidence_source :: evidence_source where
  "ex_evidence_source = \<lparr>es_Get = (\<lambda>t. if mt_ID t = ''task-1'' then Some ex_audited_bundle else None),
     es_Verify = (\<lambda>_ signature. sg_KID signature = ''auditor''), es_Digest = (\<lambda>_. Some zero_digest)\<rparr>"

definition ex_source_gate :: "MemoryLeaseStore AuthoritativeGate" where
  "ex_source_gate = ex_gate\<lparr>ag_tasks := EventTaskSource ex_decode ex_passed_store,
     ag_evidence := SignedEvidenceSource ex_evidence_source\<rparr>"

lemma ex_sources:
  "EventTaskSource ex_decode ex_passed_store ''t1'' ''p1'' ''task-1'' = Some ex_passed"
  "SignedEvidenceSource ex_evidence_source ex_passed ex_submission zero_digest = Some ex_evidence"
  by code_simp+

lemma ex_source_confirmed: "candidate_confirmed ex_source_gate ex_integration ex_module"
proof -
  have sel: "iq_TenantID ex_integration = ''t1''" "iq_ProjectID ex_integration = ''p1''" "ik_TaskID ex_module = ''task-1''"
    "ik_EvidenceSHA256 ex_module = zero_digest" "ag_submissions ex_gate t = Some ex_submission"
    "ag_modules ex_source_gate = ag_modules ex_gate" "ag_submissions ex_source_gate = ag_submissions ex_gate"
    "ag_tasks ex_gate x y z = Some ex_passed" "ag_evidence ex_gate u w d = Some ex_evidence" for t x y z u w d
    by (simp_all add: ex_integration_def ex_module_def ex_gate_def ex_source_gate_def)
  have tasks: "ag_tasks ex_source_gate ''t1'' ''p1'' ''task-1'' = Some ex_passed"
    "ag_evidence ex_source_gate ex_passed ex_submission zero_digest = Some ex_evidence"
    by (simp_all add: ex_source_gate_def ex_sources)
  from ex_module_view show ?thesis unfolding gate_view_confirmed candidate_confirmed_def sel
    by (simp add: tasks)
qed

theorem gate_exact_witness:
  "gate_Validate ex_source_gate ex_integration ex_merge_leases
      = (Inr (verified_as_requested ex_integration zero_digest), ex_merge_leases)
   \<and> requestMatchesVerified ex_integration (verified_as_requested ex_integration zero_digest)
   \<and> (\<exists>t b. ex_decode ''passed'' = Some t \<and> mt_State t = TaskPassed \<and> es_Get ex_evidence_source t = Some b
        \<and> PassesAuditGate b \<and> eb_SubmissionCommit b = ex_head)"
proof -
  let ?v = "verified_as_requested ex_integration zero_digest"
  note exact = gate_exact [OF ex_integration_valid, where g = ex_source_gate and x = ex_merge_leases and x' = ex_merge_leases
    and v = ?v and decode = ex_decode and store = ex_passed_store and src = ex_evidence_source]
  have digest: "digestPattern zero_digest" by code_simp
  have request: "iq_PolicyDigest ex_integration = zero_digest" "iq_ExpectedVersion ex_integration = 3"
    "iq_BaseCommit ex_integration = ex_base" by (simp_all add: ex_integration_def)
  have sources: "ag_tasks ex_source_gate = EventTaskSource ex_decode ex_passed_store"
    "ag_evidence ex_source_gate = SignedEvidenceSource ex_evidence_source"
    "ag_authorizer ex_source_gate = integration_Authorize ex_authorizer"
    "ag_projects ex_source_gate = ag_projects ex_gate"
    by (simp_all add: ex_source_gate_def ex_gate_def)
  have accepted: "gate_Validate ex_source_gate ex_integration ex_merge_leases = (Inr ?v, ex_merge_leases)"
  proof (rule iffD2 [OF conjunct1 [OF exact]], intro exI [of _ zero_digest] conjI)
    show "ag_projects ex_source_gate (iq_TenantID ex_integration) (iq_ProjectID ex_integration) (iq_IntegrationID ex_integration) =
        Some \<lparr>pf_TenantID = iq_TenantID ex_integration, pf_ProjectID = iq_ProjectID ex_integration,
          pf_IntegrationID = iq_IntegrationID ex_integration, pf_BaseCommit = iq_BaseCommit ex_integration,
          pf_PolicyDigest = iq_PolicyDigest ex_integration, pf_StateVersion = iq_ExpectedVersion ex_integration\<rparr>"
      by (simp add: sources ex_gate_def ex_integration_def)
    show "\<forall>c \<in> set (canonicalCandidates (iq_Candidates ex_integration)). candidate_confirmed ex_source_gate ex_integration c"
      using ex_source_confirmed by (simp add: ex_candidates)
  qed (use ex_authorized [unfolded ex_authorization_request_def authorization_request_def] digest
      in \<open>simp_all add: sources ex_candidates request\<close>)
  have "vq_Candidates ?v = [ex_module]" by (simp add: verified_as_requested_def ex_candidates)
  with conjunct2 [OF exact] accepted sources show ?thesis
    by (auto simp: ex_module_def ex_integration_def ex_passed_store_def)
qed

theorem integration_leased_witness:
  "\<exists>lease. lease_row ex_merge_leases ''lease-1'' = Some lease \<and> cl_State lease = LeaseActive
     \<and> cl_Action lease = ActionIntegrationMerge \<and> cl_FencingToken lease = 1"
proof -
  have a: "ag_authorizer ex_gate = integration_Authorize ex_authorizer" by (simp add: ex_gate_def)
  have m: "lm_store (la_leases ex_authorizer) = memory_lease_store" by (simp add: ex_authorizer_def ex_manager_def)
  from integration_leased [OF ex_gate_accepts a m] show ?thesis
    by (auto simp: ex_integration_def)
qed

end
