(* ===== verification/Orch_Types.thy ===== *)
theory Orch_Types
  imports Task_State Project_State Event_Store Trace_Context Contract_Validate
begin

text \<open>
  The orchestrator, \<open>internal/orchestrator\<close>: its requests and outcomes (\<open>service.go\<close>, \<open>plan.go\<close>), the
  validation of a commit (\<open>boundary.go\<close>), the signed capability that authorizes one (\<open>capability.go\<close>),
  the traces of events (\<open>trace.go\<close>) and the encoding of transitions. JSON encoders, decoders and the
  digests of JSON documents are a parameter, the codec.
\<close>

section \<open>Errors\<close>

datatype orch_error =
    OrchError aor_error
  | OrchStore store_error
  | OrchText string
  | ErrCommitBoundary
  | OrchPanic

fun of_store :: "store_error \<Rightarrow> orch_error" where
  \<comment> \<open>an error of the store keeps its type; \<open>errors.As\<close> finds the wire error in it\<close>
  "of_store (StoreAor e) = OrchError e"
| "of_store e = OrchStore e"

text \<open>Go's \<open>if err != nil { return }\<close>: the rest of a function runs on a result.\<close>

definition attempt :: "'e + 'a \<Rightarrow> ('a \<Rightarrow> 'e + 'b) \<Rightarrow> 'e + 'b" where
  "attempt r f = (case r of Inl e \<Rightarrow> Inl e | Inr a \<Rightarrow> f a)"

lemma attempt_simps [simp]: "attempt (Inl e) f = Inl e" "attempt (Inr a) f = f a"
  by (simp_all add: attempt_def)

lemma attempt_Inr [simp]: "attempt r f = Inr b \<longleftrightarrow> (\<exists>a. r = Inr a \<and> f a = Inr b)"
  by (cases r) simp_all

definition from_store :: "store_error + 'a \<Rightarrow> orch_error + 'a" where
  "from_store r = (case r of Inl e \<Rightarrow> Inl (of_store e) | Inr a \<Rightarrow> Inr a)"

lemma from_store_Inr [simp]: "from_store r = Inr a \<longleftrightarrow> r = Inr a"
  by (cases r) (simp_all add: from_store_def)

definition encoded :: "'a option \<Rightarrow> orch_error + 'a" where
  \<comment> \<open>the error of an encoder or decoder has a text of its own\<close>
  "encoded r = (case r of None \<Rightarrow> Inl (OrchText ''json'') | Some a \<Rightarrow> Inr a)"

lemma encoded_Inr [simp]: "encoded r = Inr a \<longleftrightarrow> r = Some a"
  by (cases r) (simp_all add: encoded_def)

definition guard_that :: "bool \<Rightarrow> 'e \<Rightarrow> 'e + unit" where
  "guard_that ok e = (if ok then Inr () else Inl e)"

lemma guard_that_Inr [simp]: "guard_that ok e = Inr u \<longleftrightarrow> ok"
  by (simp add: guard_that_def)

definition orch_new :: "aor_code \<Rightarrow> string \<Rightarrow> orch_error" where
  "orch_new code scope = OrchError (New code [] [(''scope'', DString scope)])"

definition orch_bare :: "aor_code \<Rightarrow> orch_error" where
  "orch_bare code = OrchError (New code [] [])"

definition invalidGoalCommand :: "string \<Rightarrow> orch_error" where
  "invalidGoalCommand scope = orch_new CodeInvalidArgument scope"

definition versionConflict :: "int \<Rightarrow> int \<Rightarrow> orch_error" where
  "versionConflict expected actual =
     OrchError (New CodeStateVersionConflict [] [(''expectedVersion'', DInt expected), (''actualVersion'', DInt actual)])"

definition orch_validateRequest :: "string \<Rightarrow> string \<Rightarrow> string \<Rightarrow> string \<Rightarrow> int \<Rightarrow> orch_error + unit" where
  "orch_validateRequest tenantID projectID principalID key expectedVersion =
     guard_that (\<not> (tenantID = [] \<or> projectID = [] \<or> principalID = [] \<or> key = [] \<or> expectedVersion < 0))
       (orch_new CodeInvalidArgument ''orchestrator command'')"

section \<open>Capabilities\<close>

record CommitCapability =
  cc_CapabilityVersion :: int
  cc_TenantID :: string
  cc_ProjectID :: string
  cc_TaskID :: string
  cc_PrincipalID :: string
  cc_PrincipalType :: string
  cc_Role :: string
  cc_Action :: string
  cc_ExpectedVersion :: int
  cc_ProjectVersion :: int
  cc_TaskVersion :: int
  cc_ParameterDigest :: string
  cc_EvidenceSHA256 :: "string list"
  cc_Claims :: "(string, bool) gomap"
  cc_ModuleSpecRef :: SpecRef
  cc_GoalSpecRef :: SpecRef
  cc_ApprovalRecordID :: string
  cc_LeaseID :: string
  cc_FencingToken :: int
  cc_PolicyVersion :: string
  cc_BudgetAccountID :: string
  cc_IssuedAt :: time
  cc_ExpiresAt :: time

record CommitAuthorization =
  ca_Capability :: CommitCapability
  ca_Signature :: string

record CommitValidation =
  cv_TenantID :: string
  cv_ProjectID :: string
  cv_TaskID :: string
  cv_PrincipalID :: string
  cv_Action :: string
  cv_ExpectedVersion :: int
  cv_Project :: Project
  cv_Task :: ModuleTask
  cv_ParameterDigest :: string
  cv_EvidenceSHA256 :: "string list"
  cv_Claims :: "(string, bool) gomap"
  cv_ModuleSpecRef :: SpecRef
  cv_GoalSpecRef :: SpecRef
  cv_FencingToken :: int
  cv_ApprovalRecordID :: string
  cv_Authorization :: CommitAuthorization
  cv_CommitAt :: time

definition CommitCapabilityVersion :: int where
  "CommitCapabilityVersion = 1"

definition maximumCommitCapabilityLifetime :: duration where
  "maximumCommitCapabilityLifetime = 5 * 60 * second_ns"

definition safeCommitValue :: "string \<Rightarrow> bool" where
  "safeCommitValue value \<longleftrightarrow> value \<noteq> [] \<and> length value \<le> 256 \<and> \<not> contains_any value crlf_nul"

definition validCommitDigest :: "string \<Rightarrow> bool" where
  "validCommitDigest value \<longleftrightarrow> SpecRef_Validate \<lparr>sr_Version = 1, sr_SHA256 = value\<rparr> = None"

fun distinct_digests :: "string list \<Rightarrow> string list \<Rightarrow> bool" where
  "distinct_digests seen [] = True"
| "distinct_digests seen (d # ds) = (validCommitDigest d \<and> d \<notin> set seen \<and> distinct_digests (d # seen) ds)"

definition validateCommitCapability :: "CommitCapability \<Rightarrow> time \<Rightarrow> bool" where
  "validateCommitCapability c t =
     (if cc_CapabilityVersion c \<noteq> CommitCapabilityVersion \<or> \<not> safeCommitValue (cc_TenantID c)
         \<or> \<not> safeCommitValue (cc_ProjectID c) \<or> \<not> safeCommitValue (cc_PrincipalID c)
         \<or> \<not> safeCommitValue (cc_PrincipalType c) \<or> \<not> safeCommitValue (cc_Role c) \<or> \<not> safeCommitValue (cc_Action c)
         \<or> \<not> safeCommitValue (cc_LeaseID c) \<or> \<not> safeCommitValue (cc_PolicyVersion c)
         \<or> \<not> safeCommitValue (cc_BudgetAccountID c) \<or> cc_ExpectedVersion c < 0 \<or> cc_ProjectVersion c < 0
         \<or> cc_TaskVersion c < 0 \<or> cc_FencingToken c < 1 \<or> \<not> validCommitDigest (cc_ParameterDigest c)
         \<or> is_zero_time (cc_IssuedAt c) \<or> is_zero_time (cc_ExpiresAt c) \<or> is_zero_time t
      then False
      else if cc_ApprovalRecordID c \<noteq> [] \<and> \<not> safeCommitValue (cc_ApprovalRecordID c) then False
      else if cc_TaskID c = [] \<and> cc_TaskVersion c \<noteq> 0 \<or> cc_TaskID c \<noteq> [] \<and> \<not> safeCommitValue (cc_TaskID c)
      then False
      else if cc_ModuleSpecRef c \<noteq> zero_SpecRef \<and> SpecRef_Validate (cc_ModuleSpecRef c) \<noteq> None
              \<or> cc_GoalSpecRef c \<noteq> zero_SpecRef \<and> SpecRef_Validate (cc_GoalSpecRef c) \<noteq> None
      then False
      else if t < cc_IssuedAt c \<or> \<not> t < cc_ExpiresAt c \<or> \<not> cc_IssuedAt c < cc_ExpiresAt c
              \<or> cc_ExpiresAt c - cc_IssuedAt c > maximumCommitCapabilityLifetime
      then False
      else if length (cc_EvidenceSHA256 c) > 32 \<or> length (cc_Claims c) > 32 then False
      else if \<not> distinct_digests [] (cc_EvidenceSHA256 c) then False
      else list_all (\<lambda>(claim, verified). safeCommitValue claim \<and> verified) (cc_Claims c))"

definition cloneClaims :: "(string, bool) gomap \<Rightarrow> (string, bool) gomap" where
  \<comment> \<open>the entries; an empty map becomes nil\<close>
  "cloneClaims claims = map (\<lambda>(k, v). (k, v)) claims"

definition cloneCommitCapability :: "CommitCapability \<Rightarrow> CommitCapability" where
  "cloneCommitCapability c =
     c\<lparr>cc_EvidenceSHA256 := map (\<lambda>d. d) (cc_EvidenceSHA256 c), cc_Claims := cloneClaims (cc_Claims c)\<rparr>"

definition canonicalCommitCapability :: "CommitCapability \<Rightarrow> CommitCapability" where
  "canonicalCommitCapability c =
     c\<lparr>cc_EvidenceSHA256 := sort (cc_EvidenceSHA256 c), cc_Claims := cloneClaims (cc_Claims c),
       cc_IssuedAt := utc (cc_IssuedAt c), cc_ExpiresAt := utc (cc_ExpiresAt c)\<rparr>"

definition same_map :: "('k, 'v) gomap \<Rightarrow> ('k, 'v) gomap \<Rightarrow> bool" where
  \<comment> \<open>\<open>reflect.DeepEqual\<close> on maps\<close>
  "same_map a b \<longleftrightarrow>
     list_all (\<lambda>(k, v). map_of b k = Some v) a \<and> list_all (\<lambda>(k, v). map_of a k = Some v) b"

definition same_capability :: "CommitCapability \<Rightarrow> CommitCapability \<Rightarrow> bool" where
  "same_capability a b \<longleftrightarrow> same_map (cc_Claims a) (cc_Claims b) \<and> a\<lparr>cc_Claims := []\<rparr> = b\<lparr>cc_Claims := []\<rparr>"

definition expected_capability :: "CommitCapability \<Rightarrow> CommitValidation \<Rightarrow> CommitCapability" where
  "expected_capability c v =
     \<lparr>cc_CapabilityVersion = cc_CapabilityVersion c, cc_TenantID = cv_TenantID v, cc_ProjectID = cv_ProjectID v,
      cc_TaskID = cv_TaskID v, cc_PrincipalID = cv_PrincipalID v, cc_PrincipalType = cc_PrincipalType c,
      cc_Role = cc_Role c, cc_Action = cv_Action v, cc_ExpectedVersion = cv_ExpectedVersion v,
      cc_ProjectVersion = prj_Version (cv_Project v), cc_TaskVersion = mt_Version (cv_Task v),
      cc_ParameterDigest = cv_ParameterDigest v, cc_EvidenceSHA256 = map (\<lambda>d. d) (cv_EvidenceSHA256 v),
      cc_Claims = cloneClaims (cv_Claims v), cc_ModuleSpecRef = cv_ModuleSpecRef v,
      cc_GoalSpecRef = cv_GoalSpecRef v, cc_ApprovalRecordID = cv_ApprovalRecordID v, cc_LeaseID = cc_LeaseID c,
      cc_FencingToken = cc_FencingToken c, cc_PolicyVersion = cc_PolicyVersion c,
      cc_BudgetAccountID = cc_BudgetAccountID c, cc_IssuedAt = cc_IssuedAt c, cc_ExpiresAt = cc_ExpiresAt c\<rparr>"

definition capabilityMatchesValidation :: "CommitCapability \<Rightarrow> CommitValidation \<Rightarrow> bool" where
  "capabilityMatchesValidation c v =
     (if cv_FencingToken v > 0 \<and> cv_FencingToken v \<noteq> cc_FencingToken c then False
      else same_capability (canonicalCommitCapability c) (canonicalCommitCapability (expected_capability c v)))"

record CommitSigner =
  cs_Sign :: "CommitCapability \<Rightarrow> string option"
  cs_Verify :: "CommitCapability \<Rightarrow> string \<Rightarrow> bool"

record SignedCommitBoundary =
  \<comment> \<open>the signer works on the JSON of the capability\<close>
  sb_signer :: CommitSigner
  sb_revalidator :: "CommitCapability \<Rightarrow> bool"

definition boundary_Validate :: "SignedCommitBoundary \<Rightarrow> CommitValidation \<Rightarrow> bool" where
  "boundary_Validate b v =
     (let capability = ca_Capability (cv_Authorization v); signature = ca_Signature (cv_Authorization v) in
      if signature = [] \<or> \<not> validateCommitCapability capability (cv_CommitAt v)
         \<or> \<not> capabilityMatchesValidation capability v
      then False
      else if \<not> cs_Verify (sb_signer b) capability signature then False
      else sb_revalidator b (cloneCommitCapability capability))"

definition SignCommitCapability :: "CommitCapability \<Rightarrow> CommitSigner \<Rightarrow> orch_error + CommitAuthorization" where
  "SignCommitCapability c signer =
     (if \<not> validateCommitCapability c (cc_IssuedAt c) then Inl ErrCommitBoundary
      else (let c' = canonicalCommitCapability c in
        case cs_Sign signer c' of
          None \<Rightarrow> Inl ErrCommitBoundary
        | Some signature \<Rightarrow>
            if signature = [] then Inl ErrCommitBoundary
            else Inr \<lparr>ca_Capability = c', ca_Signature = signature\<rparr>))"

definition unavailableBoundary :: "CommitValidation \<Rightarrow> bool" where
  "unavailableBoundary v = False"

end
