(* ===== verification/Orch_Goal.thy ===== *)
theory Orch_Goal
  imports Orch_Types Go_Path Go_Time
begin

text \<open>
  Goals in the orchestrator, \<open>internal/orchestrator/goal.go\<close>, and what every handler shares with it: the
  codec of documents, the view of the store a handler reads, the records an event is made of
  (\<open>service.go\<close>, \<open>trace.go\<close>). Identifiers come from a supply, the list of what the calls of
  \<open>uuid.NewV7\<close> return; a call that fails is the end of the list.
\<close>

section \<open>Documents\<close>

record GoalSpecProjection =
  gp_TenantID :: string
  gp_ProjectID :: string
  gp_GoalSpecID :: string
  gp_RecordID :: string
  gp_Spec :: GoalSpec
  gp_Revision :: int

record PlanTaskDefinition =
  pd_ModuleID :: string
  pd_TaskID :: string
  pd_ModuleSpecRef :: SpecRef
  pd_AttemptSeriesID :: string
  pd_Retain :: bool

record PlanningTaskDefinition =
  pl_ModuleID :: string
  pl_TaskID :: string
  pl_Retain :: bool

record QueuePlanTasksRequest =
  qp_TenantID :: string
  qp_ProjectID :: string
  qp_PrincipalID :: string
  qp_IdempotencyKey :: string
  qp_ExpectedProjectVersion :: int
  qp_GoalSpecRef :: SpecRef
  qp_PlanRef :: SpecRef
  qp_DAG :: "(string, string list) gomap"
  qp_Tasks :: "PlanningTaskDefinition list"
  qp_Authorization :: CommitAuthorization

record PublishPlanRequest =
  pp_TenantID :: string
  pp_ProjectID :: string
  pp_PrincipalID :: string
  pp_IdempotencyKey :: string
  pp_ExpectedProjectVersion :: int
  pp_GoalSpecRef :: SpecRef
  pp_PlanRef :: SpecRef
  pp_DAG :: "(string, string list) gomap"
  pp_Tasks :: "PlanTaskDefinition list"
  pp_Authorization :: CommitAuthorization

record orch_codec =
  \<comment> \<open>\<open>json.Marshal\<close>, \<open>json.Unmarshal\<close> and digests of JSON documents\<close>
  ec_project :: "Project \<Rightarrow> string option"
  dc_project :: "string \<Rightarrow> Project option"
  ec_task :: "ModuleTask \<Rightarrow> string option"
  dc_task :: "string \<Rightarrow> ModuleTask option"
  ec_message :: "GoalMessage \<Rightarrow> string option"
  dc_message :: "string \<Rightarrow> GoalMessage option"
  ec_goal :: "GoalSpecProjection \<Rightarrow> string option"
  dc_goal :: "string \<Rightarrow> GoalSpecProjection option"
  ec_spec :: "GoalSpec \<Rightarrow> string option"
  dc_spec :: "string \<Rightarrow> GoalSpec option"
  ec_content :: "GoalContent \<Rightarrow> string option"
  ec_payload :: "string \<Rightarrow> string \<Rightarrow> int \<Rightarrow> string \<Rightarrow> string option"
  ec_queued :: "ModuleTask list \<Rightarrow> string option"
  dc_queued :: "string \<Rightarrow> ModuleTask list option"
  ec_published :: "Project \<Rightarrow> ModuleTask list \<Rightarrow> string option"
  dc_published :: "string \<Rightarrow> (Project \<times> ModuleTask list) option"
  dg_project_command :: "int \<Rightarrow> ProjectCommand \<Rightarrow> string option"
  dg_task_command :: "int \<Rightarrow> TaskCommand \<Rightarrow> string option"
  dg_queue :: "int \<Rightarrow> QueuePlanTasksRequest \<Rightarrow> string option"
  dg_publish :: "int \<Rightarrow> PublishPlanRequest \<Rightarrow> string option"
  dg_summary :: "CoreSummary \<Rightarrow> string option"
  cd_jcs :: jcs_transform
  cd_url :: url_parser

definition mustDigest :: "orch_codec \<Rightarrow> string \<Rightarrow> orch_error + string" where
  \<comment> \<open>panics on an error\<close>
  "mustDigest cd value = (case Digest (cd_jcs cd) value of None \<Rightarrow> Inl OrchPanic | Some d \<Rightarrow> Inr d)"

definition decodeProject :: "orch_codec \<Rightarrow> string \<Rightarrow> orch_error + Project" where
  "decodeProject cd value = encoded (dc_project cd value)"

definition decodeTask :: "orch_codec \<Rightarrow> string \<Rightarrow> orch_error + ModuleTask" where
  "decodeTask cd value = encoded (dc_task cd value)"

definition stableID :: "string \<Rightarrow> string \<Rightarrow> string" where
  "stableID name input = name @ ''_'' @ take 32 (sha256_hex input)"

definition newRecordUUIDv7 :: "string list \<Rightarrow> orch_error + string \<times> string list" where
  "newRecordUUIDv7 supply = (case supply of [] \<Rightarrow> Inl (OrchText ''uuid'') | fresh # rest \<Rightarrow> Inr (fresh, rest))"

section \<open>Traces\<close>

definition only_chars :: "string \<Rightarrow> string \<Rightarrow> bool" where
  \<comment> \<open>\<open>strings.Trim(s, cutset) == ""\<close>\<close>
  "only_chars cutset s = list_all (\<lambda>c. c \<in> set cutset) s"

definition fallbackTraceParent :: "string \<Rightarrow> string" where
  "fallbackTraceParent requestDigest =
     (let value = trim_prefix requestDigest ''sha256:'';
          value1 = (if length value < 48 \<or> \<not> only_chars ''0123456789abcdef'' (take 48 value)
                    then sha256_hex requestDigest else value);
          value2 = (if only_chars ''0'' (take 32 value1) \<or> only_chars ''0'' (take 16 (drop 32 value1))
                    then sha256_hex (''aor-trace'' @ [key_byte] @ requestDigest) else value1)
      in ''00-'' @ take 32 value2 @ ''-'' @ take 16 (drop 32 value2) @ ''-00'')"

definition applyEventTrace :: "TraceContext option \<Rightarrow> string \<Rightarrow> DomainEvent list \<Rightarrow> DomainEvent list" where
  "applyEventTrace ctx requestDigest events =
     (let (parent, tracestate) =
        (case ctx of
           None \<Rightarrow> (fallbackTraceParent requestDigest, [])
         | Some trace \<Rightarrow>
             (case TraceParent trace of
                Inl _ \<Rightarrow> (fallbackTraceParent requestDigest, [])
              | Inr propagated \<Rightarrow> (propagated, tr_TraceState trace)))
      in map (\<lambda>e. e\<lparr>de_Traceparent := parent, de_Tracestate := tracestate\<rparr>) events)"

section \<open>Transitions\<close>

definition newEvent ::
  "orch_codec \<Rightarrow> string \<Rightarrow> string \<Rightarrow> string \<Rightarrow> string \<Rightarrow> string \<Rightarrow> int \<Rightarrow> time \<Rightarrow> string \<Rightarrow> string \<Rightarrow> string list \<Rightarrow>
     orch_error + DomainEvent \<times> string list" where
  "newEvent cd tenantID projectID aggregateType aggregateID eventType version at_time payload requestDigest supply =
     attempt (newRecordUUIDv7 supply) (\<lambda>(eventID, rest).
     attempt (mustDigest cd payload) (\<lambda>digest.
       Inr (\<lparr>de_EventID = eventID, de_TenantID = tenantID, de_ProjectID = projectID, de_AggregateType = aggregateType,
             de_AggregateID = aggregateID, de_AggregateVersion = version, de_Type = eventType, de_Payload = payload,
             de_PayloadSHA256 = digest, de_OccurredAt = at_time, de_CorrelationID = stableID ''corr'' requestDigest,
             de_CausationID = [], de_Traceparent = fallbackTraceParent requestDigest, de_Tracestate = [],
             de_TaskID = [], de_TaskIDReason = [], de_AgentRunID = [], de_AgentRunReason = [], de_ReplayState = [],
             de_ReplayStateSHA256 = []\<rparr>, rest)))"

type_synonym transition = "ProjectionUpdate \<times> DomainEvent"

definition encode_transition ::
  "orch_codec \<Rightarrow> string \<Rightarrow> string \<Rightarrow> string \<Rightarrow> string \<Rightarrow> int \<Rightarrow> string option \<Rightarrow> string \<Rightarrow> int \<Rightarrow> time \<Rightarrow> string \<Rightarrow>
     string list \<Rightarrow> orch_error + (transition \<times> string) \<times> string list" where
  \<comment> \<open>what the two encoders share: the state, its payload, the event and the update\<close>
  "encode_transition cd tenantID projectID aggregateType aggregateID expectedVersion state eventType version at_time
       requestDigest supply =
     attempt (encoded state) (\<lambda>result.
     attempt (encoded (ec_payload cd tenantID projectID version result)) (\<lambda>payload.
     attempt (newEvent cd tenantID projectID aggregateType aggregateID eventType version at_time payload requestDigest supply)
       (\<lambda>(event, rest).
       Inr (((\<lparr>pu_TenantID = tenantID, pu_ProjectID = projectID, pu_AggregateType = aggregateType,
               pu_AggregateID = aggregateID, pu_ExpectedVersion = expectedVersion, pu_NextVersion = version,
               pu_State = result\<rparr>, event), result), rest))))"

definition encodeProjectTransition ::
  "orch_codec \<Rightarrow> string \<Rightarrow> string \<Rightarrow> int \<Rightarrow> ProjectEvent \<Rightarrow> string \<Rightarrow> string list \<Rightarrow>
     orch_error + (transition \<times> string) \<times> string list" where
  "encodeProjectTransition cd tenantID projectID expectedVersion t requestDigest supply =
     encode_transition cd tenantID projectID ''project'' projectID expectedVersion (ec_project cd (pe_Projection t))
       (pe_Type t) (pe_AggregateVersion t) (pe_OccurredAt t) requestDigest supply"

definition encodeTaskTransition ::
  "orch_codec \<Rightarrow> string \<Rightarrow> string \<Rightarrow> string \<Rightarrow> int \<Rightarrow> TaskEvent \<Rightarrow> string \<Rightarrow> string list \<Rightarrow>
     orch_error + (transition \<times> string) \<times> string list" where
  "encodeTaskTransition cd tenantID projectID taskID expectedVersion t requestDigest supply =
     encode_transition cd tenantID projectID ''task'' taskID expectedVersion (ec_task cd (te_Projection t))
       (te_Type t) (te_AggregateVersion t) (te_OccurredAt t) requestDigest supply"

text \<open>
  What a handler reads: the answer of each call of the store at the time of the call. A handler
  lists the tasks twice, and the two listings may differ.
\<close>

record store_view =
  sw_Lookup :: "string \<Rightarrow> string \<Rightarrow> string \<Rightarrow> string \<Rightarrow> store_error + TransactionResult option"
  sw_Load :: "string \<Rightarrow> string \<Rightarrow> string \<Rightarrow> store_error + Projection \<times> bool"
  sw_Tasks :: "string \<Rightarrow> string \<Rightarrow> store_error + Projection list"
  sw_CoreTasks :: "string \<Rightarrow> string \<Rightarrow> store_error + Projection list"

definition view_of :: "MemoryStore \<Rightarrow> store_view" where
  "view_of s =
     \<lparr>sw_Lookup = (\<lambda>t p k d. Lookup t p k d s), sw_Load = (\<lambda>t ty i. Inr (Load t ty i s)),
      sw_Tasks = (\<lambda>t p. ListProjections t p ''task'' s), sw_CoreTasks = (\<lambda>t p. ListProjections t p ''task'' s)\<rparr>"

definition load_from :: "store_view \<Rightarrow> string \<Rightarrow> string \<Rightarrow> string \<Rightarrow> orch_error + Projection option" where
  "load_from v tenantID aggregateType aggregateID =
     attempt (from_store (sw_Load v tenantID aggregateType aggregateID))
       (\<lambda>(projection, found). Inr (if found then Some projection else None))"

section \<open>Goal specifications\<close>

definition cloneGoalSpec :: "orch_codec \<Rightarrow> GoalSpec \<Rightarrow> GoalSpec" where
  "cloneGoalSpec cd spec =
     (case ec_spec cd spec of
        None \<Rightarrow> spec
      | Some text \<Rightarrow> (case dc_spec cd text of None \<Rightarrow> spec | Some copy \<Rightarrow> copy))"

definition validateGoalSpecContentDigest :: "orch_codec \<Rightarrow> GoalSpec \<Rightarrow> orch_error + unit" where
  "validateGoalSpecContentDigest cd spec =
     attempt (encoded (ec_content cd (gs_Content spec))) (\<lambda>content.
       guard_that (Digest (cd_jcs cd) content = Some (gs_ContentSHA256 spec))
         (orch_new CodeArtifactHashMismatch ''goal spec content''))"

definition goal_bound :: "string \<Rightarrow> GoalRecord \<Rightarrow> GoalSpec \<Rightarrow> bool" where
  "goal_bound projectID goal spec \<longleftrightarrow>
     \<not> (gr_ID goal = [] \<or> gc_ProjectID (gs_Content spec) \<noteq> projectID
        \<or> gc_Version (gs_Content spec) \<noteq> gr_Version goal \<or> gs_ContentSHA256 spec \<noteq> gr_SHA256 goal)"

definition validateGoalSpecCommand :: "orch_codec \<Rightarrow> string \<Rightarrow> GoalRecord option \<Rightarrow> GoalSpec \<Rightarrow> orch_error + unit" where
  "validateGoalSpecCommand cd projectID goal spec =
     (case goal of
        None \<Rightarrow> Inl (invalidGoalCommand ''goal spec binding'')
      | Some g \<Rightarrow>
          if \<not> goal_bound projectID g spec \<or> GoalSpec_Validate (cd_url cd) spec \<noteq> None
          then Inl (invalidGoalCommand ''goal spec binding'')
          else validateGoalSpecContentDigest cd spec)"

definition with_install :: "VersionedTool \<Rightarrow> VersionedTool" where
  \<comment> \<open>a tool of the time before install descriptors gets the one it would need\<close>
  "with_install tool =
     (if vt_Source tool \<noteq> ToolchainInstallRequired \<or> vt_Install tool \<noteq> None then tool
      else tool\<lparr>vt_Install := Some \<lparr>ti_Method = (if IsGCCTool tool then ToolchainInstallManual
                                               else ToolchainInstallUserArchive),
                 ti_Authorized = False, ti_EvidenceRef = [], ti_ArtifactID = [], ti_ArtifactRef = [],
                 ti_DownloadURL = [], ti_SourceSHA256 = []\<rparr>\<rparr>)"

definition validateStoredGoalSpecCommand ::
  "orch_codec \<Rightarrow> string \<Rightarrow> GoalRecord \<Rightarrow> GoalSpec \<Rightarrow> orch_error + unit" where
  "validateStoredGoalSpecCommand cd projectID goal spec =
     (if \<not> goal_bound projectID goal spec then Inl (invalidGoalCommand ''goal spec binding'')
      else (let copy = cloneGoalSpec cd spec; content = gs_Content copy;
                checked = (case gc_Toolchain content of
                   None \<Rightarrow> copy
                 | Some tc \<Rightarrow>
                     if gc_GoalSpecVersion content = 2
                     then copy\<lparr>gs_Content := content\<lparr>gc_Toolchain := Some (tc\<lparr>gt_Tools := map with_install (gt_Tools tc)\<rparr>)\<rparr>\<rparr>
                     else copy)
            in if GoalSpec_Validate (cd_url cd) checked \<noteq> None then Inl (invalidGoalCommand ''goal spec binding'')
               else validateGoalSpecContentDigest cd spec))"

definition decodeGoalSpecProjection :: "orch_codec \<Rightarrow> Projection \<Rightarrow> orch_error + GoalSpecProjection" where
  "decodeGoalSpecProjection cd stored =
     attempt (encoded (dc_goal cd (pj_State stored))) (\<lambda>p.
       if gp_TenantID p \<noteq> pj_TenantID stored \<or> gp_ProjectID p \<noteq> pj_ProjectID stored \<or> gp_GoalSpecID p = []
          \<or> gp_RecordID p = [] \<or> gc_Version (gs_Content (gp_Spec p)) < 1
          \<or> gc_ProjectID (gs_Content (gp_Spec p)) \<noteq> pj_ProjectID stored
       then Inl (orch_new CodeInternalError ''goal spec projection'')
       else attempt (validateStoredGoalSpecCommand cd (pj_ProjectID stored)
              \<lparr>gr_ID = gp_GoalSpecID p, gr_Version = gc_Version (gs_Content (gp_Spec p)),
               gr_SHA256 = gs_ContentSHA256 (gp_Spec p), gr_UnresolvedItems = [], gr_Status = GoalStatusOther [],
               gr_ApprovedBy = [], gr_ApprovalRecordID = []\<rparr> (gp_Spec p))
              (\<lambda>_. Inr (p\<lparr>gp_Revision := pj_Version stored\<rparr>)))"

definition goalSpecAggregateID :: "string \<Rightarrow> string \<Rightarrow> int \<Rightarrow> string" where
  "goalSpecAggregateID projectID goalSpecID version =
     stableID ''goal'' (projectID @ [key_byte] @ goalSpecID @ [key_byte] @ show_int version)"

end
