(* ===== verification/Orch_Project.thy ===== *)
theory Orch_Project
  imports Orch_Goal
begin

text \<open>
  The handler of project commands, \<open>HandleProject\<close> of \<open>internal/orchestrator/service.go\<close> with the goal
  commands of \<open>goal.go\<close> and the validation of \<open>boundary.go\<close>. A handler is a plan and a commit: the plan
  reads the store through a view and gives an answer or a transaction, the commit executes the
  transaction in a store that others may have changed since.
\<close>

section \<open>Text of an instant\<close>

definition civil_year :: "int \<Rightarrow> int" where
  "civil_year day =
     (let y = (400 * day) div 146097 + 1 in
      if day < days_before_year y then y - 1 else if days_before_year (y + 1) \<le> day then y + 1 else y)"

definition civil_month :: "int \<Rightarrow> int \<Rightarrow> int" where
  "civil_month y rest = int (length (filter (\<lambda>m. days_before_month y m \<le> rest) [1..12]))"

definition padded :: "nat \<Rightarrow> int \<Rightarrow> string" where
  "padded width n = (let text = show_int n in replicate (width - length text) (CHR ''0'') @ text)"

definition nano_text :: "int \<Rightarrow> string" where
  "nano_text ns =
     (if ns = 0 then [] else CHR ''.'' # rev (dropWhile (\<lambda>c. c = CHR ''0'') (rev (padded 9 ns))))"

definition format_rfc3339nano :: "time \<Rightarrow> string" where
  \<comment> \<open>\<open>t.UTC().Format(time.RFC3339Nano)\<close>, from year 1 on\<close>
  "format_rfc3339nano t =
     (let seconds = t div second_ns; day = seconds div 86400; clock = seconds mod 86400;
          y = civil_year day; rest = day - days_before_year y; m = civil_month y rest;
          d = rest - days_before_month y m + 1
      in padded 4 y @ ''-'' @ padded 2 m @ ''-'' @ padded 2 d @ ''T'' @ padded 2 (clock div 3600) @ '':''
         @ padded 2 (clock div 60 mod 60) @ '':'' @ padded 2 (clock mod 60) @ nano_text (t mod second_ns) @ ''Z'')"

section \<open>Requests\<close>

record ProjectRequest =
  rp_TenantID :: string
  rp_ProjectID :: string
  rp_PrincipalID :: string
  rp_IdempotencyKey :: string
  rp_ExpectedVersion :: int
  rp_Command :: ProjectCommand
  rp_Authorization :: CommitAuthorization

record ProjectOutcome =
  op_Project :: Project
  op_Events :: "DomainEvent list"
  op_Duplicate :: bool

record orchestrator =
  \<comment> \<open>the service with what its clock, its boundary and its context give to one call\<close>
  os_codec :: orch_codec
  os_clock :: time
  os_boundary :: "CommitValidation \<Rightarrow> bool"
  os_coreOnly :: bool
  os_trace :: "TraceContext option"
  os_uuids :: "string list"

datatype 'o plan = Answer 'o | Commit TransactionRequest

section \<open>Preparing a command\<close>

definition utf8_bytes :: "string \<Rightarrow> nat" where
  "utf8_bytes s = (let (r, n) = decode_rune s in if r = rune_error \<and> n \<le> 1 then 0 else n)"

fun utf8_valid_from :: "nat \<Rightarrow> string \<Rightarrow> bool" where
  \<comment> \<open>the bytes of a character that are still to be passed over\<close>
  "utf8_valid_from n [] = True"
| "utf8_valid_from (Suc n) (c # s) = utf8_valid_from n s"
| "utf8_valid_from 0 (c # s) =
     (let k = utf8_bytes (c # s) in if k = 0 then False else utf8_valid_from (k - 1) s)"

definition utf8_valid :: "string \<Rightarrow> bool" where
  "utf8_valid s = utf8_valid_from 0 s"

definition maximumGoalMessageBytes :: nat where
  "maximumGoalMessageBytes = 16 * 2 ^ 20"

fun message_kind :: "ProjectCommandType \<Rightarrow> (GoalMessageKind \<times> string) option" where
  \<comment> \<open>the kind a message of the command must have, and the scope of the error otherwise\<close>
  "message_kind ProjectCommandSubmitGoalMessage = Some (GoalMessageUser, ''goal message kind'')"
| "message_kind ProjectCommandProposeGoal = Some (GoalMessageUser, ''goal proposal message kind'')"
| "message_kind ProjectCommandSupersedeGoal = Some (GoalMessageUser, ''goal proposal message kind'')"
| "message_kind ProjectCommandRejectGoal = Some (GoalMessageRejection, ''goal rejection message kind'')"
| "message_kind ProjectCommandRequestGoalChange = Some (GoalMessageChangeRequest, ''goal change message kind'')"
| "message_kind _ = None"

definition prepare_message :: "ProjectRequest \<Rightarrow> ProjectCommandType \<Rightarrow> GoalMessage \<Rightarrow> orch_error + GoalMessage" where
  "prepare_message request ty m =
     (case message_kind ty of
        None \<Rightarrow> Inl (invalidGoalCommand ''unexpected goal message'')
      | Some (kind, scope) \<Rightarrow>
          (let k = (if gm_Kind m = GoalMessageKindOther [] then kind else gm_Kind m); text = gm_Message m;
               digest = sha256_hex text in
           if k \<noteq> kind then Inl (invalidGoalCommand scope)
           else if text = [] \<or> length text > maximumGoalMessageBytes \<or> \<not> utf8_valid text \<or> CHR 0x00 \<in> set text
           then Inl (invalidGoalCommand ''goal message content'')
           else Inr (m\<lparr>gm_ID := [], gm_TenantID := rp_TenantID request, gm_ProjectID := rp_ProjectID request,
                       gm_CreatedBy := rp_PrincipalID request, gm_CreatedAt := 0, gm_Kind := k,
                       gm_ContentSHA256 := ''sha256:'' @ digest,
                       gm_ArtifactURI := ''artifact://sha256/'' @ digest\<rparr>)))"

definition prepareProjectLifecycleCommand :: "ProjectRequest \<Rightarrow> ProjectCommand \<Rightarrow> orch_error + ProjectCommand" where
  "prepareProjectLifecycleCommand request command =
     (case pc_Type command of
        ProjectCommandRequestDeletion \<Rightarrow>
          (case pc_Deletion command of
             None \<Rightarrow> Inl (invalidGoalCommand ''deletion request required'')
           | Some deletion \<Rightarrow>
               Inr (command\<lparr>pc_Deletion := Some (deletion\<lparr>dl_ID := [], dl_RequestedBy := rp_PrincipalID request,
                 dl_RequestedAt := 0, dl_Status := ProjectDeletionStatusOther [], dl_StartedAt := None,
                 dl_CompletedAt := None, dl_ProofSHA256 := [], dl_ProofArtifactURI := [],
                 dl_BackupExpiresAt := None\<rparr>)\<rparr>))
      | ProjectCommandPlaceLegalHold \<Rightarrow>
          (case pc_LegalHold command of
             None \<Rightarrow> Inl (invalidGoalCommand ''legal hold required'')
           | Some hold \<Rightarrow>
               Inr (command\<lparr>pc_LegalHold := Some (hold\<lparr>lh_ID := [], lh_PlacedBy := rp_PrincipalID request,
                 lh_PlacedAt := 0, lh_ReleasedBy := [], lh_ReleasedAt := None, lh_ReleaseReason := []\<rparr>)\<rparr>))
      | _ \<Rightarrow> Inr command)"

definition prepare_goal_message :: "ProjectRequest \<Rightarrow> ProjectCommand \<Rightarrow> orch_error + ProjectCommand" where
  "prepare_goal_message request command =
     (case pc_GoalMessage command of
        Some m \<Rightarrow> attempt (prepare_message request (pc_Type command) m)
                    (\<lambda>m'. Inr (command\<lparr>pc_GoalMessage := Some m'\<rparr>))
      | None \<Rightarrow>
          if pc_Type command = ProjectCommandSubmitGoalMessage \<or> pc_Type command = ProjectCommandRequestGoalChange
          then Inl (invalidGoalCommand ''goal message required'') else Inr command)"

definition prepareGoalCommand :: "orch_codec \<Rightarrow> ProjectRequest \<Rightarrow> ProjectCommand \<Rightarrow> orch_error + ProjectCommand" where
  "prepareGoalCommand cd request command =
     attempt (prepareProjectLifecycleCommand request command) (\<lambda>c1.
     attempt (prepare_goal_message request c1) (\<lambda>c2.
       case pc_GoalSpec c2 of
         None \<Rightarrow> Inr c2
       | Some s \<Rightarrow>
           (let spec = cloneGoalSpec cd s in
            attempt (validateGoalSpecCommand cd (rp_ProjectID request) (pc_Goal c2) spec)
              (\<lambda>_. Inr (c2\<lparr>pc_GoalSpec := Some spec\<rparr>)))))"

definition goalDigestCommand :: "orch_codec \<Rightarrow> ProjectCommand \<Rightarrow> ProjectCommand" where
  \<comment> \<open>without what differs between two attempts of the same request\<close>
  "goalDigestCommand cd c =
     c\<lparr>pc_Deletion := map_option (\<lambda>d. d\<lparr>dl_ID := [], dl_RequestedAt := 0, dl_StartedAt := None,
          dl_CompletedAt := None\<rparr>) (pc_Deletion c),
       pc_LegalHold := map_option (\<lambda>h. h\<lparr>lh_ID := [], lh_PlacedAt := 0\<rparr>) (pc_LegalHold c),
       pc_Approval := map_option (\<lambda>a. a\<lparr>ab_RecordID := [], ab_IssuedAt := 0\<rparr>) (pc_Approval c),
       pc_GoalSpec := map_option (\<lambda>s. let spec = cloneGoalSpec cd s in
          spec\<lparr>gs_ApprovedBy := map_option (\<lambda>a. a\<lparr>aa_ApprovedAt := []\<rparr>) (gs_ApprovedBy spec)\<rparr>) (pc_GoalSpec c)\<rparr>"

definition with_fresh ::
  "bool \<Rightarrow> 'a option \<Rightarrow> (string \<Rightarrow> 'a \<Rightarrow> 'a) \<Rightarrow> string list \<Rightarrow> orch_error + 'a option \<times> string list" where
  \<comment> \<open>the identifier a record gets when it is present\<close>
  "with_fresh wanted x name supply =
     (case x of
        None \<Rightarrow> Inr (None, supply)
      | Some a \<Rightarrow>
          if \<not> wanted then Inr (Some a, supply)
          else attempt (newRecordUUIDv7 supply) (\<lambda>(fresh, rest). Inr (Some (name fresh a), rest)))"

definition finalizeGoalCommand :: "ProjectCommand \<Rightarrow> string list \<Rightarrow> orch_error + ProjectCommand \<times> string list" where
  "finalizeGoalCommand c supply =
     (let now = pc_At c in
      attempt (with_fresh (pc_Type c = ProjectCommandRequestDeletion) (pc_Deletion c)
        (\<lambda>fresh d. d\<lparr>dl_ID := fresh, dl_RequestedAt := now,
           dl_EarliestExecutionAt := (if is_zero_time (dl_EarliestExecutionAt d) then now else dl_EarliestExecutionAt d)\<rparr>)
        supply) (\<lambda>(deletion, s1).
      attempt (with_fresh (pc_Type c = ProjectCommandPlaceLegalHold) (pc_LegalHold c)
        (\<lambda>fresh h. h\<lparr>lh_ID := fresh, lh_PlacedAt := now\<rparr>) s1) (\<lambda>(hold, s2).
      attempt (with_fresh True (pc_GoalMessage c) (\<lambda>fresh m. m\<lparr>gm_ID := fresh, gm_CreatedAt := now\<rparr>) s2) (\<lambda>(message, s3).
      attempt (with_fresh True (pc_Approval c) (\<lambda>fresh a. a\<lparr>ab_RecordID := fresh\<rparr>) s3) (\<lambda>(approval, s4).
        Inr (c\<lparr>pc_Deletion := deletion, pc_LegalHold := hold, pc_GoalMessage := message, pc_Approval := approval\<rparr>, s4))))))"

section \<open>Goals beside the project\<close>

fun goal_status_string :: "GoalStatus \<Rightarrow> string" where
  "goal_status_string GoalDraft = ''DRAFT''"
| "goal_status_string GoalApproved = ''APPROVED''"
| "goal_status_string GoalSuperseded = ''SUPERSEDED''"
| "goal_status_string GoalRejected = ''REJECTED''"
| "goal_status_string (GoalStatusOther s) = s"

definition content_transition ::
  "orchestrator \<Rightarrow> ProjectRequest \<Rightarrow> string \<Rightarrow> string \<Rightarrow> int \<Rightarrow> string \<Rightarrow> string \<Rightarrow> time \<Rightarrow> string \<Rightarrow> string list \<Rightarrow>
     orch_error + transition \<times> string list" where
  \<comment> \<open>an update whose event carries the new content itself\<close>
  "content_transition sv request aggregateType aggregateID expected content eventType at_time requestDigest supply =
     attempt (newEvent (os_codec sv) (rp_TenantID request) (rp_ProjectID request) aggregateType aggregateID eventType
         (add64 expected 1) at_time content requestDigest supply) (\<lambda>(event, rest).
       Inr ((\<lparr>pu_TenantID = rp_TenantID request, pu_ProjectID = rp_ProjectID request, pu_AggregateType = aggregateType,
              pu_AggregateID = aggregateID, pu_ExpectedVersion = expected, pu_NextVersion = add64 expected 1,
              pu_State = content\<rparr>, event), rest))"

definition goal_status_refused :: "GoalStatus \<Rightarrow> ApprovalActor option \<Rightarrow> GoalSpec \<Rightarrow> orch_error option" where
  "goal_status_refused status approvedBy spec =
     (if status = GoalApproved \<and> (gs_Status spec \<noteq> GoalDraft \<or> gc_UnresolvedItems (gs_Content spec) \<noteq> [] \<or> approvedBy = None)
      then Some (orch_bare CodeGoalNotApproved)
      else if status = GoalRejected \<and> gs_Status spec \<noteq> GoalDraft
      then Some (orch_new CodeInvalidStateTransition ''goal spec rejection'')
      else None)"

definition goalSpecStatusTransition ::
  "orchestrator \<Rightarrow> store_view \<Rightarrow> ProjectRequest \<Rightarrow> GoalRecord \<Rightarrow> GoalStatus \<Rightarrow> ApprovalActor option \<Rightarrow> time \<Rightarrow> string \<Rightarrow>
     string list \<Rightarrow> orch_error + transition option \<times> string list" where
  "goalSpecStatusTransition sv view request goal status approvedBy at_time requestDigest supply =
     (let cd = os_codec sv; aggregateID = goalSpecAggregateID (rp_ProjectID request) (gr_ID goal) (gr_Version goal) in
      attempt (load_from view (rp_TenantID request) ''goal_spec'' aggregateID) (\<lambda>found.
        case found of
          None \<Rightarrow> Inr (None, supply)
        | Some stored \<Rightarrow>
            attempt (decodeGoalSpecProjection cd stored) (\<lambda>p.
              if gp_GoalSpecID p \<noteq> gr_ID goal \<or> gc_Version (gs_Content (gp_Spec p)) \<noteq> gr_Version goal
                 \<or> gs_ContentSHA256 (gp_Spec p) \<noteq> gr_SHA256 goal
              then Inl (orch_bare CodeGoalHashMismatch)
              else (case goal_status_refused status approvedBy (gp_Spec p) of
                Some e \<Rightarrow> Inl e
              | None \<Rightarrow>
                  if status = GoalSuperseded
                     \<and> (gs_Status (gp_Spec p) = GoalSuperseded \<or> gs_Status (gp_Spec p) = GoalRejected)
                  then Inr (None, supply)
                  else attempt (encoded (ec_goal cd (p\<lparr>gp_Spec := (gp_Spec p)\<lparr>gs_Status := status,
                                 gs_ApprovedBy := approvedBy\<rparr>\<rparr>))) (\<lambda>content.
                       attempt (content_transition sv request ''goal_spec'' aggregateID (pj_Version stored) content
                         (''io.aor.goal.spec-'' @ to_lower (goal_status_string status) @ ''.v1'') at_time
                         requestDigest supply) (\<lambda>(t, rest). Inr (Some t, rest)))))))"

definition message_transition ::
  "orchestrator \<Rightarrow> store_view \<Rightarrow> ProjectRequest \<Rightarrow> ProjectCommand \<Rightarrow> string \<Rightarrow> string list \<Rightarrow>
     orch_error + transition list \<times> string list" where
  "message_transition sv view request command requestDigest supply =
     (case pc_GoalMessage command of
        None \<Rightarrow> Inr ([], supply)
      | Some m \<Rightarrow>
          attempt (encoded (ec_message (os_codec sv) m)) (\<lambda>content.
          attempt (load_from view (rp_TenantID request) ''goal_message'' (gm_ID m)) (\<lambda>found.
            if found \<noteq> None then Inl (orch_new CodeConflict ''goal message'')
            else attempt (content_transition sv request ''goal_message'' (gm_ID m) 0 content
                   ''io.aor.goal.message-stored.v1'' (pc_At command) requestDigest supply)
                   (\<lambda>(t, rest). Inr ([t], rest)))))"

definition new_goal_transition ::
  "orchestrator \<Rightarrow> store_view \<Rightarrow> ProjectRequest \<Rightarrow> Project \<Rightarrow> ProjectCommand \<Rightarrow> GoalRecord \<Rightarrow> GoalSpec \<Rightarrow> string \<Rightarrow>
     string list \<Rightarrow> orch_error + transition list \<times> string list" where
  "new_goal_transition sv view request current command goal spec requestDigest supply =
     (let cd = os_codec sv; aggregateID = goalSpecAggregateID (rp_ProjectID request) (gr_ID goal) (gr_Version goal) in
      attempt (case prj_Goal current of
                 None \<Rightarrow> Inr (None, supply)
               | Some old \<Rightarrow>
                   if gr_Version old < gr_Version goal
                   then goalSpecStatusTransition sv view request old GoalSuperseded None (pc_At command) requestDigest supply
                   else Inr (None, supply)) (\<lambda>(old, s1).
      attempt (newRecordUUIDv7 s1) (\<lambda>(recordID, s2).
      attempt (encoded (ec_goal cd \<lparr>gp_TenantID = rp_TenantID request, gp_ProjectID = rp_ProjectID request,
          gp_GoalSpecID = gr_ID goal, gp_RecordID = recordID, gp_Spec = cloneGoalSpec cd spec, gp_Revision = 0\<rparr>))
        (\<lambda>content.
      attempt (load_from view (rp_TenantID request) ''goal_spec'' aggregateID) (\<lambda>found.
        if found \<noteq> None then Inl (orch_bare CodeSpecSuperseded)
        else attempt (content_transition sv request ''goal_spec'' aggregateID 0 content ''io.aor.goal.spec-stored.v1''
               (pc_At command) requestDigest s2)
               (\<lambda>(t, rest). Inr ((case old of None \<Rightarrow> [] | Some u \<Rightarrow> [u]) @ [t], rest)))))))"

definition status_of_command :: "ProjectCommand \<Rightarrow> (GoalStatus \<times> ApprovalActor option) option" where
  "status_of_command command =
     (case pc_Type command of
        ProjectCommandApproveGoal \<Rightarrow>
          Some (GoalApproved, map_option (\<lambda>a. \<lparr>aa_ActorID = pc_ActorID command,
                                aa_ApprovedAt = format_rfc3339nano (ab_IssuedAt a)\<rparr>) (pc_Approval command))
      | ProjectCommandRejectGoal \<Rightarrow> Some (GoalRejected, None)
      | ProjectCommandRequestGoalChange \<Rightarrow> Some (GoalSuperseded, None)
      | _ \<Rightarrow> None)"

definition goal_change_transition ::
  "orchestrator \<Rightarrow> store_view \<Rightarrow> ProjectRequest \<Rightarrow> ProjectCommand \<Rightarrow> string \<Rightarrow> string list \<Rightarrow>
     orch_error + transition list \<times> string list" where
  "goal_change_transition sv view request command requestDigest supply =
     (case (pc_Goal command, status_of_command command) of
        (Some goal, Some (status, approvedBy)) \<Rightarrow>
          attempt (goalSpecStatusTransition sv view request goal status approvedBy (pc_At command) requestDigest supply)
            (\<lambda>(t, rest). Inr ((case t of None \<Rightarrow> [] | Some u \<Rightarrow> [u]), rest))
      | _ \<Rightarrow> Inr ([], supply))"

definition goalRelatedTransitions ::
  "orchestrator \<Rightarrow> store_view \<Rightarrow> ProjectRequest \<Rightarrow> Project \<Rightarrow> ProjectCommand \<Rightarrow> string \<Rightarrow> string list \<Rightarrow>
     orch_error + transition list \<times> string list" where
  "goalRelatedTransitions sv view request current command requestDigest supply =
     attempt (message_transition sv view request command requestDigest supply) (\<lambda>(ts, s1).
       if pc_Type command = ProjectCommandProposeGoal \<or> pc_Type command = ProjectCommandSupersedeGoal
       then (case (pc_GoalSpec command, pc_Goal command) of
               (Some spec, Some goal) \<Rightarrow>
                 attempt (new_goal_transition sv view request current command goal spec requestDigest s1)
                   (\<lambda>(us, rest). Inr (ts @ us, rest))
             | _ \<Rightarrow> Inr (ts, s1))
       else attempt (goal_change_transition sv view request command requestDigest s1) (\<lambda>(us, rest). Inr (ts @ us, rest)))"

section \<open>Tasks that a command supersedes\<close>

definition decide_task :: "ModuleTask \<Rightarrow> TaskCommand \<Rightarrow> orch_error + TaskEvent" where
  "decide_task t c = (case DecideTask t c of Inl e \<Rightarrow> Inl (OrchError e) | Inr ev \<Rightarrow> Inr ev)"

definition decide_project :: "Project \<Rightarrow> ProjectCommand \<Rightarrow> orch_error + ProjectEvent" where
  "decide_project p c = (case DecideProject p c of Inl e \<Rightarrow> Inl (OrchError e) | Inr ev \<Rightarrow> Inr ev)"

definition load_task :: "orchestrator \<Rightarrow> store_view \<Rightarrow> string \<Rightarrow> string \<Rightarrow> string \<Rightarrow> orch_error \<Rightarrow> orch_error \<Rightarrow> orch_error + ModuleTask" where
  \<comment> \<open>a task of the project; the errors when it is missing and when it belongs to another\<close>
  "load_task sv view tenantID projectID taskID missing foreign =
     attempt (load_from view tenantID ''task'' taskID) (\<lambda>found.
       case found of
         None \<Rightarrow> Inl missing
       | Some stored \<Rightarrow>
           attempt (decodeTask (os_codec sv) (pj_State stored)) (\<lambda>task.
             if mt_TenantID task \<noteq> tenantID \<or> mt_ProjectID task \<noteq> projectID then Inl foreign else Inr task))"

definition task_transition ::
  "orchestrator \<Rightarrow> string \<Rightarrow> string \<Rightarrow> string \<Rightarrow> ModuleTask \<Rightarrow> TaskCommand \<Rightarrow> string \<Rightarrow> string list \<Rightarrow>
     orch_error + (transition \<times> ModuleTask) \<times> string list" where
  \<comment> \<open>a decision on a loaded task, encoded under the identifier it was loaded with\<close>
  "task_transition sv tenantID projectID taskID task command requestDigest supply =
     attempt (decide_task task command) (\<lambda>event.
     attempt (encodeTaskTransition (os_codec sv) tenantID projectID taskID (mt_Version task) event requestDigest supply)
       (\<lambda>((t, _), rest). Inr ((t, te_Projection event), rest)))"

fun supersede_tasks ::
  "orchestrator \<Rightarrow> store_view \<Rightarrow> ProjectRequest \<Rightarrow> time \<Rightarrow> string \<Rightarrow> string list \<Rightarrow> string list \<Rightarrow>
     orch_error + transition list \<times> string list" where
  "supersede_tasks sv view request at_time requestDigest [] supply = Inr ([], supply)"
| "supersede_tasks sv view request at_time requestDigest (taskID # ids) supply =
     attempt (load_task sv view (rp_TenantID request) (rp_ProjectID request) taskID
         (orch_new CodeNotFound ''impacted task'') (orch_bare CodeForbidden)) (\<lambda>task.
     attempt (task_transition sv (rp_TenantID request) (rp_ProjectID request) taskID task
         (bare_task_command TaskCommandSupersede at_time) requestDigest supply) (\<lambda>((t, _), s1).
     attempt (supersede_tasks sv view request at_time requestDigest ids s1) (\<lambda>(ts, rest). Inr (t # ts, rest))))"

section \<open>The commit boundary\<close>

definition validateCommitBoundary :: "orchestrator \<Rightarrow> CommitValidation \<Rightarrow> orch_error + unit" where
  "validateCommitBoundary sv v =
     guard_that (\<not> (cv_TenantID v = [] \<or> cv_ProjectID v = [] \<or> cv_PrincipalID v = [] \<or> cv_Action v = []
          \<or> cv_ParameterDigest v = [] \<or> is_zero_time (cv_CommitAt v)) \<and> os_boundary sv v) ErrCommitBoundary"

definition claims_of :: "(string \<times> bool) list \<Rightarrow> (string, bool) gomap" where
  "claims_of assignments = foldl (\<lambda>m (k, v). gomap_put k v m) [] assignments"

definition guard_claims :: "ProjectGuardFacts \<Rightarrow> (string \<times> bool) list" where
  "guard_claims g =
     [(''all_tasks_passed'', gf_AllTasksPassed g), (''all_tasks_integrated'', gf_AllTasksIntegrated g),
      (''integration_audit_passed'', gf_IntegrationAuditPassed g)]"

definition completion_claims :: "CompletionFacts \<Rightarrow> (string \<times> bool) list" where
  "completion_claims f =
     [(''all_tasks_integrated'', cf_AllTasksIntegrated f), (''all_integration_tasks_done'', cf_AllIntegrationTasksDone f),
      (''integration_audit_passed'', cf_IntegrationAuditPassed f), (''goal_criteria_satisfied'', cf_GoalCriteriaSatisfied f),
      (''global_audit_passed'', cf_GlobalAuditPassed f), (''release_gates_passed'', cf_ReleaseGatesPassed f),
      (''release_artifacts_signed'', cf_ReleaseArtifactsSigned f), (''sbom_generated'', cf_SBOMGenerated f),
      (''provenance_generated'', cf_ProvenanceGenerated f), (''no_blocked_or_rework'', cf_NoBlockedOrRework f),
      (''no_blocking_findings'', cf_NoBlockingFindings f), (''risk_acceptances_valid'', cf_RiskAcceptancesValid f),
      (''operational_summaries_generated'', cf_OperationalSummariesGenerated f),
      (''plan_supervisor_summary_generated'', cf_PlanSupervisorSummaryGenerated f),
      (''goal_summary_verified'', cf_GoalSummaryVerified f), (''final_result_delivered'', cf_FinalResultDelivered f)]"

definition projectCommitValidation ::
  "ProjectRequest \<Rightarrow> Project \<Rightarrow> ProjectCommand \<Rightarrow> string \<Rightarrow> CommitValidation" where
  "projectCommitValidation request current command parameterDigest =
     \<lparr>cv_TenantID = rp_TenantID request, cv_ProjectID = rp_ProjectID request, cv_TaskID = [],
      cv_PrincipalID = rp_PrincipalID request, cv_Action = projectCommandType_string (pc_Type command),
      cv_ExpectedVersion = rp_ExpectedVersion request, cv_Project = current, cv_Task = zero_ModuleTask,
      cv_ParameterDigest = parameterDigest,
      cv_EvidenceSHA256 = (case pc_Guard command of None \<Rightarrow> [] | Some g \<Rightarrow> [gf_EvidenceSHA256 g])
        @ (case pc_Completion command of None \<Rightarrow> [] | Some f \<Rightarrow> [cf_EvidenceSHA256 f]),
      cv_Claims = claims_of ((case pc_Guard command of None \<Rightarrow> [] | Some g \<Rightarrow> guard_claims g)
        @ (case pc_Completion command of None \<Rightarrow> [] | Some f \<Rightarrow> completion_claims f)),
      cv_ModuleSpecRef = zero_SpecRef,
      cv_GoalSpecRef = (case pc_GoalSpecRef command of
          Some ref \<Rightarrow> ref
        | None \<Rightarrow> (case pc_Goal command of
            Some g \<Rightarrow> \<lparr>sr_Version = gr_Version g, sr_SHA256 = gr_SHA256 g\<rparr> | None \<Rightarrow> zero_SpecRef)),
      cv_FencingToken = 0,
      cv_ApprovalRecordID = (case pc_Approval command of None \<Rightarrow> [] | Some a \<Rightarrow> ab_RecordID a),
      cv_Authorization = rp_Authorization request, cv_CommitAt = pc_At command\<rparr>"

section \<open>The handler\<close>

definition approvalRecords :: "string \<Rightarrow> string \<Rightarrow> ApprovalBinding option \<Rightarrow> ApprovalRecord list" where
  "approvalRecords tenantID projectID approval =
     (case approval of
        None \<Rightarrow> []
      | Some a \<Rightarrow>
          [\<lparr>ap_ID = ab_RecordID a, ap_TenantID = tenantID, ap_ProjectID = projectID, ap_ApprovalType = ab_ApprovalType a,
            ap_SubjectType = ab_SubjectType a, ap_SubjectID = ab_SubjectID a, ap_SubjectVersion = ab_SubjectVersion a,
            ap_SubjectSHA256 = ab_SubjectSHA256 a, ap_PrincipalID = ab_PrincipalID a, ap_Reason = ab_Reason a,
            ap_IssuedAt = ab_IssuedAt a, ap_ExpiresAt = ab_ExpiresAt a, ap_RevokedAt = ab_RevokedAt a,
            ap_Signature = ab_Signature a\<rparr>])"

definition project_command_of :: "orchestrator \<Rightarrow> ProjectRequest \<Rightarrow> orch_error + ProjectCommand" where
  "project_command_of sv request =
     prepareGoalCommand (os_codec sv) request
       ((rp_Command request)\<lparr>pc_TenantID := rp_TenantID request, pc_ProjectID := rp_ProjectID request,
          pc_ActorID := rp_PrincipalID request, pc_At := 0\<rparr>)"

definition project_digest :: "orchestrator \<Rightarrow> ProjectRequest \<Rightarrow> ProjectCommand \<Rightarrow> orch_error + string" where
  \<comment> \<open>the server gives every attempt of a creation another identifier\<close>
  "project_digest sv request command =
     (let d = goalDigestCommand (os_codec sv) command;
          d' = (if pc_Type d = ProjectCommandCreate then d\<lparr>pc_ProjectID := []\<rparr> else d) in
      encoded (dg_project_command (os_codec sv) (rp_ExpectedVersion request) d'))"

definition load_project :: "orchestrator \<Rightarrow> store_view \<Rightarrow> ProjectRequest \<Rightarrow> ProjectCommandType \<Rightarrow> orch_error + Project" where
  "load_project sv view request ty =
     attempt (load_from view (rp_TenantID request) ''project'' (rp_ProjectID request)) (\<lambda>found.
     attempt (case found of
                Some projection \<Rightarrow> decodeProject (os_codec sv) (pj_State projection)
              | None \<Rightarrow> if ty \<noteq> ProjectCommandCreate then Inl (orch_bare CodeNotFound) else Inr zero_Project) (\<lambda>current.
       if prj_Version current \<noteq> rp_ExpectedVersion request
       then Inl (versionConflict (rp_ExpectedVersion request) (prj_Version current)) else Inr current))"

definition project_request ::
  "orchestrator \<Rightarrow> ProjectRequest \<Rightarrow> string \<Rightarrow> ProjectCommand \<Rightarrow> string \<Rightarrow> transition list \<Rightarrow> orch_error + TransactionRequest" where
  "project_request sv request digest command result ts =
     attempt (mustDigest (os_codec sv) result) (\<lambda>resultDigest.
       Inr \<lparr>tq_TenantID = rp_TenantID request, tq_PrincipalID = rp_PrincipalID request,
            tq_IdempotencyKey = rp_IdempotencyKey request, tq_RequestSHA256 = digest, tq_Updates = map fst ts,
            tq_Events = applyEventTrace (os_trace sv) digest (map snd ts),
            tq_Approvals = (if pc_Type command = ProjectCommandApproveGoal \<or> pc_Type command = ProjectCommandApproveRelease
              then approvalRecords (rp_TenantID request) (rp_ProjectID request) (pc_Approval command) else []),
            tq_UserDecisions = [], tq_Result = result, tq_ResultSHA256 = resultDigest\<rparr>)"

definition decided_project ::
  "orchestrator \<Rightarrow> store_view \<Rightarrow> ProjectRequest \<Rightarrow> ProjectCommand \<Rightarrow> string \<Rightarrow> Project \<Rightarrow> orch_error + TransactionRequest" where
  \<comment> \<open>from the reading of the clock on\<close>
  "decided_project sv view request command0 digest current =
     attempt (finalizeGoalCommand (command0\<lparr>pc_At := utc (os_clock sv)\<rparr>) (os_uuids sv)) (\<lambda>(command, s1).
     attempt (decide_project current command) (\<lambda>event.
     attempt (encodeProjectTransition (os_codec sv) (rp_TenantID request) (rp_ProjectID request)
         (rp_ExpectedVersion request) event digest s1) (\<lambda>((t, result), s2).
     attempt (goalRelatedTransitions sv view request current command digest s2) (\<lambda>(goals, s3).
     attempt (if pc_Type command = ProjectCommandSupersedeGoal \<or> pc_Type command = ProjectCommandRequestGoalChange
              then supersede_tasks sv view request (pc_At command) digest (pc_ImpactedTaskIDs command) s3
              else Inr ([], s3)) (\<lambda>(tasks, _).
     attempt (validateCommitBoundary sv (projectCommitValidation request current command digest)) (\<lambda>_.
       project_request sv request digest command result (t # goals @ tasks)))))))"

definition HandleProject_plan :: "orchestrator \<Rightarrow> store_view \<Rightarrow> ProjectRequest \<Rightarrow> orch_error + ProjectOutcome plan" where
  "HandleProject_plan sv view request =
     attempt (orch_validateRequest (rp_TenantID request) (rp_ProjectID request) (rp_PrincipalID request)
         (rp_IdempotencyKey request) (rp_ExpectedVersion request)) (\<lambda>_.
     attempt (project_command_of sv request) (\<lambda>command.
     attempt (project_digest sv request command) (\<lambda>digest.
     attempt (from_store (sw_Lookup view (rp_TenantID request) (rp_PrincipalID request) (rp_IdempotencyKey request) digest))
       (\<lambda>prior.
       case prior of
         Some tx \<Rightarrow>
           attempt (decodeProject (os_codec sv) (tx_Result tx)) (\<lambda>project.
             Inr (Answer \<lparr>op_Project = project, op_Events = tx_Events tx, op_Duplicate = True\<rparr>))
       | None \<Rightarrow>
           attempt (load_project sv view request (pc_Type command)) (\<lambda>current.
           attempt (decided_project sv view request command digest current) (\<lambda>tx. Inr (Commit tx)))))))"

definition commit_project ::
  "orchestrator \<Rightarrow> TransactionRequest \<Rightarrow> MemoryStore \<Rightarrow> (orch_error + ProjectOutcome) \<times> MemoryStore" where
  "commit_project sv tx s =
     (case Execute (cd_jcs (os_codec sv)) tx s of
        (Inl e, s') \<Rightarrow> (Inl (of_store e), s')
      | (Inr result, s') \<Rightarrow>
          (attempt (decodeProject (os_codec sv) (tx_Result result)) (\<lambda>project.
             Inr \<lparr>op_Project = project, op_Events = tx_Events result, op_Duplicate = tx_Duplicate result\<rparr>), s'))"

definition HandleProject :: "orchestrator \<Rightarrow> ProjectRequest \<Rightarrow> MemoryStore \<Rightarrow> (orch_error + ProjectOutcome) \<times> MemoryStore" where
  \<comment> \<open>a call that nothing interrupts\<close>
  "HandleProject sv request s =
     (case HandleProject_plan sv (view_of s) request of
        Inl e \<Rightarrow> (Inl e, s)
      | Inr (Answer outcome) \<Rightarrow> (Inr outcome, s)
      | Inr (Commit tx) \<Rightarrow> commit_project sv tx s)"

end
