(* ===== verification/Orch_Task.thy ===== *)
theory Orch_Task
  imports Orch_Project
begin

text \<open>
  The handler of task commands, \<open>HandleTask\<close> of \<open>internal/orchestrator/service.go\<close>, with the tasks it
  blocks, unblocks and makes ready in the same transaction, the core summary (\<open>core_summary.go\<close>) and
  the queries of \<open>query.go\<close>.
\<close>

section \<open>Requests\<close>

record TaskRequest =
  rt_TenantID :: string
  rt_ProjectID :: string
  rt_TaskID :: string
  rt_PrincipalID :: string
  rt_IdempotencyKey :: string
  rt_ExpectedVersion :: int
  rt_Command :: TaskCommand
  rt_Authorization :: CommitAuthorization

record TaskOutcome =
  ot_Task :: ModuleTask
  ot_Events :: "DomainEvent list"
  ot_Duplicate :: bool

definition normalizedTaskCommand :: "TaskRequest \<Rightarrow> TaskCommand" where
  "normalizedTaskCommand request =
     (rt_Command request)\<lparr>tc_TenantID := rt_TenantID request, tc_ProjectID := rt_ProjectID request,
        tc_TaskID := rt_TaskID request, tc_ActorID := rt_PrincipalID request, tc_At := 0\<rparr>"

definition taskDigestCommand :: "TaskCommand \<Rightarrow> TaskCommand" where
  \<comment> \<open>a new series is identified by who decides what; its approval differs between two attempts\<close>
  "taskDigestCommand c =
     (if tc_Type c \<noteq> TaskCommandAuthorizeNewSeries then c
      else (bare_task_command (tc_Type c) 0)\<lparr>tc_TenantID := tc_TenantID c, tc_ProjectID := tc_ProjectID c,
             tc_TaskID := tc_TaskID c, tc_ActorID := tc_ActorID c, tc_Decision := tc_Decision c\<rparr>)"

definition TaskParameterDigest :: "orch_codec \<Rightarrow> TaskRequest \<Rightarrow> orch_error + string" where
  "TaskParameterDigest cd request =
     encoded (dg_task_command cd (rt_ExpectedVersion request) (taskDigestCommand (normalizedTaskCommand request)))"

section \<open>Queries\<close>

definition check_listed :: "orchestrator \<Rightarrow> string \<Rightarrow> string \<Rightarrow> Projection \<Rightarrow> orch_error + ModuleTask" where
  "check_listed sv tenantID projectID p =
     attempt (decodeTask (os_codec sv) (pj_State p)) (\<lambda>task.
       if mt_TenantID task \<noteq> tenantID \<or> mt_ProjectID task \<noteq> projectID \<or> mt_ID task \<noteq> pj_AggregateID p
       then Inl (orch_new CodeInternalError ''task projection'') else Inr task)"

fun decode_all :: "('p \<Rightarrow> orch_error + 'a) \<Rightarrow> 'p list \<Rightarrow> orch_error + 'a list" where
  "decode_all f [] = Inr []"
| "decode_all f (p # ps) = attempt (f p) (\<lambda>a. attempt (decode_all f ps) (\<lambda>rest. Inr (a # rest)))"

definition Tasks :: "orchestrator \<Rightarrow> string \<Rightarrow> string \<Rightarrow> store_error + Projection list \<Rightarrow> orch_error + ModuleTask list" where
  \<comment> \<open>given what the store lists\<close>
  "Tasks sv tenantID projectID listed =
     attempt (from_store listed) (\<lambda>ps. decode_all (check_listed sv tenantID projectID) ps)"

definition orch_Project :: "orchestrator \<Rightarrow> string \<Rightarrow> string \<Rightarrow> MemoryStore \<Rightarrow> orch_error + Project option" where
  "orch_Project sv tenantID projectID s =
     (if tenantID = [] \<or> projectID = [] then Inl (orch_new CodeInvalidArgument ''project query'')
      else attempt (load_from (view_of s) tenantID ''project'' projectID) (\<lambda>found.
        case found of
          None \<Rightarrow> Inr None
        | Some projection \<Rightarrow>
            attempt (decodeProject (os_codec sv) (pj_State projection)) (\<lambda>p.
              if prj_TenantID p \<noteq> tenantID \<or> prj_ID p \<noteq> projectID then Inl (orch_bare CodeForbidden) else Inr (Some p))))"

definition orch_Task :: "orchestrator \<Rightarrow> string \<Rightarrow> string \<Rightarrow> string \<Rightarrow> MemoryStore \<Rightarrow> orch_error + ModuleTask option" where
  "orch_Task sv tenantID projectID taskID s =
     (if tenantID = [] \<or> projectID = [] \<or> taskID = [] then Inl (orch_new CodeInvalidArgument ''task query'')
      else attempt (load_from (view_of s) tenantID ''task'' taskID) (\<lambda>found.
        case found of
          None \<Rightarrow> Inr None
        | Some projection \<Rightarrow>
            attempt (decodeTask (os_codec sv) (pj_State projection)) (\<lambda>t.
              if mt_TenantID t \<noteq> tenantID \<or> mt_ProjectID t \<noteq> projectID \<or> mt_ID t \<noteq> taskID
              then Inl (orch_bare CodeForbidden) else Inr (Some t))))"

definition check_project :: "orchestrator \<Rightarrow> string \<Rightarrow> Projection \<Rightarrow> orch_error + Project" where
  "check_project sv tenantID projection =
     attempt (decodeProject (os_codec sv) (pj_State projection)) (\<lambda>p.
       if prj_TenantID p \<noteq> tenantID \<or> prj_ID p \<noteq> pj_ProjectID projection \<or> prj_ID p \<noteq> pj_AggregateID projection
       then Inl (orch_new CodeInternalError ''project projection'') else Inr p)"

definition Projects :: "orchestrator \<Rightarrow> live_context option \<Rightarrow> string \<Rightarrow> MemoryStore \<Rightarrow> orch_error + Project list" where
  "Projects sv ctx tenantID s =
     (if tenantID = [] then Inl (orch_new CodeInvalidArgument ''project list'')
      else attempt (from_store (ListTenantProjections ctx tenantID s)) (\<lambda>ps.
           attempt (decode_all (check_project sv tenantID) (filter (\<lambda>p. pj_AggregateType p = ''project'') ps)) (\<lambda>projects.
             Inr (sort_key prj_ID projects))))"

section \<open>Tasks that depend on the task\<close>

fun block_dependents ::
  "orchestrator \<Rightarrow> store_view \<Rightarrow> TaskRequest \<Rightarrow> time \<Rightarrow> string \<Rightarrow> string list \<Rightarrow> string list \<Rightarrow>
     orch_error + transition list \<times> string list" where
  "block_dependents sv view request at_time digest [] supply = Inr ([], supply)"
| "block_dependents sv view request at_time digest (d # ds) supply =
     attempt (load_task sv view (rt_TenantID request) (rt_ProjectID request) d
         (orch_new CodeNotFound ''dependent task'') (orch_new CodeForbidden ''dependent task project'')) (\<lambda>dep.
     attempt (task_transition sv (rt_TenantID request) (rt_ProjectID request) d dep
         ((bare_task_command TaskCommandBlockDependency at_time)\<lparr>tc_BlockingTaskID := rt_TaskID request\<rparr>) digest supply)
       (\<lambda>((t, _), s1).
     attempt (block_dependents sv view request at_time digest ds s1) (\<lambda>(ts, rest). Inr (t # ts, rest))))"

fun unblock_dependents ::
  "orchestrator \<Rightarrow> store_view \<Rightarrow> TaskRequest \<Rightarrow> time \<Rightarrow> string \<Rightarrow> string list \<Rightarrow> string list \<Rightarrow>
     orch_error + transition list \<times> string list" where
  "unblock_dependents sv view request at_time digest [] supply = Inr ([], supply)"
| "unblock_dependents sv view request at_time digest (d # ds) supply =
     attempt (load_task sv view (rt_TenantID request) (rt_ProjectID request) d
         (orch_new CodeNotFound ''dependent task'') (orch_new CodeForbidden ''dependent task project'')) (\<lambda>dep.
       if rt_TaskID request \<notin> set (mt_BlockingTaskIDs dep)
       then unblock_dependents sv view request at_time digest ds supply
       else attempt (task_transition sv (rt_TenantID request) (rt_ProjectID request) d dep
              ((bare_task_command TaskCommandUnblockDependency at_time)\<lparr>tc_BlockingTaskID := rt_TaskID request\<rparr>) digest supply)
              (\<lambda>((t, _), s1).
            attempt (unblock_dependents sv view request at_time digest ds s1) (\<lambda>(ts, rest). Inr (t # ts, rest))))"

definition leads_to :: "string \<Rightarrow> ModuleTask \<Rightarrow> bool" where
  \<comment> \<open>a task that counts and has the given task among its dependents\<close>
  "leads_to dependentID task \<longleftrightarrow>
     \<not> (mt_State task = TaskCanceled \<or> mt_State task = TaskSuperseded \<or> dependentID \<notin> set (mt_DependentTaskIDs task))"

definition audited :: "ModuleTask \<Rightarrow> bool" where
  "audited task \<longleftrightarrow> mt_State task = TaskPassed \<or> mt_State task = TaskIntegrated"

definition allTaskDependenciesAudited :: "(string, ModuleTask) gomap \<Rightarrow> string \<Rightarrow> bool" where
  \<comment> \<open>the loop over the map stops at the first task that is not audited; its order does not matter\<close>
  "allTaskDependenciesAudited tasks dependentID \<longleftrightarrow>
     list_ex (leads_to dependentID) (map snd tasks)
     \<and> list_all (\<lambda>t. leads_to dependentID t \<longrightarrow> audited t) (map snd tasks)"

fun ready_dependents ::
  "orchestrator \<Rightarrow> TaskRequest \<Rightarrow> (string, ModuleTask) gomap \<Rightarrow> time \<Rightarrow> string \<Rightarrow> string list \<Rightarrow> string list \<Rightarrow>
     orch_error + transition list \<times> string list" where
  "ready_dependents sv request byID at_time digest [] supply = Inr ([], supply)"
| "ready_dependents sv request byID at_time digest (d # ds) supply =
     (case map_of byID d of
        None \<Rightarrow> Inl (orch_new CodeNotFound ''dependent task'')
      | Some dep \<Rightarrow>
          if mt_State dep \<noteq> TaskDefined \<or> \<not> allTaskDependenciesAudited byID d
          then ready_dependents sv request byID at_time digest ds supply
          else attempt (task_transition sv (rt_TenantID request) (rt_ProjectID request) d dep
                 (bare_task_command TaskCommandReadyExecution at_time) digest supply) (\<lambda>((t, _), s1).
               attempt (ready_dependents sv request byID at_time digest ds s1) (\<lambda>(ts, rest). Inr (t # ts, rest))))"

definition task_index :: "ModuleTask list \<Rightarrow> (string, ModuleTask) gomap" where
  "task_index tasks = foldl (\<lambda>m t. gomap_put (mt_ID t) t m) [] tasks"

definition readyAuditedDependents ::
  "orchestrator \<Rightarrow> store_view \<Rightarrow> TaskRequest \<Rightarrow> ModuleTask \<Rightarrow> time \<Rightarrow> string \<Rightarrow> string list \<Rightarrow>
     orch_error + transition list \<times> string list" where
  "readyAuditedDependents sv view request done_task at_time digest supply =
     (if mt_DependentTaskIDs done_task = [] then Inr ([], supply)
      else attempt (Tasks sv (rt_TenantID request) (rt_ProjectID request)
              (sw_Tasks view (rt_TenantID request) (rt_ProjectID request))) (\<lambda>tasks.
           ready_dependents sv request (gomap_put (mt_ID done_task) done_task (task_index tasks)) at_time digest
             (sort (mt_DependentTaskIDs done_task)) supply))"

section \<open>The core summary\<close>

fun put_passed :: "ModuleTask \<Rightarrow> ModuleTask list \<Rightarrow> ModuleTask list" where
  \<comment> \<open>the first listed task of the same identifier is replaced, or the task is appended\<close>
  "put_passed passed [] = [passed]"
| "put_passed passed (t # ts) = (if mt_ID t = mt_ID passed then passed # ts else t # put_passed passed ts)"

definition counted :: "ModuleTask \<Rightarrow> bool" where
  "counted t \<longleftrightarrow> \<not> (mt_State t = TaskCanceled \<or> mt_State t = TaskSuperseded)"

definition core_outcome :: "ModuleTask \<Rightarrow> CoreModuleOutcome" where
  "core_outcome t =
     \<lparr>cm_TaskID = mt_ID t, cm_ModuleID = mt_ModuleID t, cm_State = mt_State t, cm_Version = mt_Version t,
      cm_ModuleSpecRef = mt_ModuleSpecRef t, cm_Attempt = mt_Attempt t, cm_AttemptSeriesID = mt_AttemptSeriesID t\<rparr>"

definition core_summary_of ::
  "Project \<Rightarrow> GoalRecord \<Rightarrow> SpecRef \<Rightarrow> CoreModuleOutcome list \<Rightarrow> time \<Rightarrow> CoreSummary" where
  "core_summary_of project goal plan modules at_time =
     \<lparr>cs_SummaryVersion = 1, cs_TenantID = prj_TenantID project, cs_ProjectID = prj_ID project, cs_Status = ''COMPLETED'',
      cs_GoalSpecRef = \<lparr>sr_Version = gr_Version goal, sr_SHA256 = gr_SHA256 goal\<rparr>, cs_PlanSpecRef = plan,
      cs_Modules = modules, cs_SummarySHA256 = [], cs_CreatedAt = utc at_time\<rparr>"

definition bare_project_command :: "ProjectCommandType \<Rightarrow> string \<Rightarrow> time \<Rightarrow> ProjectCommand" where
  "bare_project_command ty actorID at_time =
     \<lparr>pc_Type = ty, pc_TenantID = [], pc_ProjectID = [], pc_ActorID = actorID, pc_GoalAgentCount = 0,
      pc_AsyncGoalProcessing = False, pc_StartGoalNegotiation = False, pc_Goal = None, pc_GoalSpec = None,
      pc_GoalMessage = None, pc_Plan = None, pc_CoreSummary = None, pc_GoalSpecRef = None, pc_DAG = [],
      pc_Approval = None, pc_Completion = None, pc_Guard = None, pc_ImpactedTaskIDs = [], pc_Name = [],
      pc_DataClassification = [], pc_DeploymentTargets = [], pc_BudgetCurrency = [], pc_BudgetHardLimitMinor = 0,
      pc_BudgetSoftLimitMinor = 0, pc_PromptBundleVersion = [], pc_RiskTolerance = [], pc_ModelRoutes = None,
      pc_Deletion = None, pc_LegalHold = None, pc_LegalHoldID = [], pc_ReleaseReason = [], pc_At = at_time\<rparr>"

definition core_command ::
  "orchestrator \<Rightarrow> TaskRequest \<Rightarrow> Project \<Rightarrow> GoalRecord \<Rightarrow> SpecRef \<Rightarrow> ModuleTask list \<Rightarrow> time \<Rightarrow> orch_error + ProjectCommand" where
  "core_command sv request project goal plan tasks at_time =
     (let live = filter counted tasks; passed = filter (\<lambda>t. mt_State t = TaskPassed) live;
          progress = bare_project_command ProjectCommandRecordCoreProgress (rt_PrincipalID request) at_time in
      if live = passed \<and> passed \<noteq> []
      then (let summary = core_summary_of project goal plan (sort_key cm_TaskID (map core_outcome passed)) at_time in
            attempt (encoded (dg_summary (os_codec sv) summary)) (\<lambda>digest.
              Inr (progress\<lparr>pc_Type := ProjectCommandPublishCoreSummary,
                            pc_CoreSummary := Some (summary\<lparr>cs_SummarySHA256 := digest\<rparr>)\<rparr>)))
      else Inr progress)"

definition coreSummaryTransition ::
  "orchestrator \<Rightarrow> store_view \<Rightarrow> TaskRequest \<Rightarrow> Project \<Rightarrow> ModuleTask \<Rightarrow> time \<Rightarrow> string \<Rightarrow> string list \<Rightarrow>
     orch_error + transition list \<times> string list" where
  "coreSummaryTransition sv view request project passed at_time digest supply =
     (case (prj_Goal project, prj_Plan project) of
        (Some goal, Some plan) \<Rightarrow>
          if \<not> os_coreOnly sv \<or> prj_CoreSummary project \<noteq> None \<or> prj_State project \<noteq> ProjectExecuting
             \<or> mt_State passed \<noteq> TaskPassed
          then Inr ([], supply)
          else attempt (Tasks sv (rt_TenantID request) (rt_ProjectID request)
                  (sw_CoreTasks view (rt_TenantID request) (rt_ProjectID request))) (\<lambda>tasks.
               attempt (core_command sv request project goal plan (put_passed passed tasks) at_time) (\<lambda>command.
               attempt (decide_project project command) (\<lambda>event.
               attempt (encodeProjectTransition (os_codec sv) (rt_TenantID request) (rt_ProjectID request)
                   (prj_Version project) event digest supply) (\<lambda>((t, _), rest). Inr ([t], rest)))))
      | _ \<Rightarrow> Inr ([], supply))"

section \<open>The handler\<close>

definition task_claims :: "TaskCommand \<Rightarrow> (string \<times> bool) list" where
  "task_claims c =
     (case tc_Type c of
        TaskCommandStartAudit \<Rightarrow> [(''submission_validated'', tc_SubmissionValidated c)]
      | TaskCommandLLMSuccess \<Rightarrow>
          [(''fresh_auditor'', tc_FreshAuditor c), (''blind_audit_context'', tc_BlindAuditContext c),
           (''no_blocking_findings'', tc_NoBlockingFindings c)]
      | TaskCommandLLMFailure \<Rightarrow>
          [(''fresh_auditor'', tc_FreshAuditor c), (''blind_audit_context'', tc_BlindAuditContext c)]
      | TaskCommandIntegrate \<Rightarrow>
          [(''dependencies_satisfied'', tc_DependenciesSatisfied c), (''merge_gate_passed'', tc_MergeGatePassed c)]
      | _ \<Rightarrow> [])"

definition taskCommitValidation ::
  "TaskRequest \<Rightarrow> Project \<Rightarrow> ModuleTask \<Rightarrow> TaskCommand \<Rightarrow> string \<Rightarrow> CommitValidation" where
  "taskCommitValidation request project current command parameterDigest =
     \<lparr>cv_TenantID = rt_TenantID request, cv_ProjectID = rt_ProjectID request, cv_TaskID = rt_TaskID request,
      cv_PrincipalID = rt_PrincipalID request, cv_Action = taskCommandType_string (tc_Type command),
      cv_ExpectedVersion = rt_ExpectedVersion request, cv_Project = project, cv_Task = current,
      cv_ParameterDigest = parameterDigest,
      cv_EvidenceSHA256 = (if tc_AuditEvidenceSHA256 command \<noteq> [] then [tc_AuditEvidenceSHA256 command] else []),
      cv_Claims = claims_of (task_claims command),
      cv_ModuleSpecRef = (if sr_Version (tc_ModuleSpecRef command) = 0 then mt_ModuleSpecRef current
                          else tc_ModuleSpecRef command),
      cv_GoalSpecRef = zero_SpecRef, cv_FencingToken = tc_FencingToken command,
      cv_ApprovalRecordID = (case tc_Approval command of None \<Rightarrow> [] | Some a \<Rightarrow> ab_RecordID a),
      cv_Authorization = rt_Authorization request, cv_CommitAt = tc_At command\<rparr>"

definition series_decision :: "TaskRequest \<Rightarrow> ModuleTask \<Rightarrow> TaskCommand \<Rightarrow> UserDecisionRecord list" where
  \<comment> \<open>an accepted command of this type has an approval\<close>
  "series_decision request current c =
     (case tc_Approval c of
        None \<Rightarrow> []
      | Some a \<Rightarrow>
          [\<lparr>ud_ID = tc_DecisionRecordID c, ud_TenantID = rt_TenantID request, ud_ProjectID = rt_ProjectID request,
            ud_ModuleTaskID = rt_TaskID request, ud_AttemptSeriesID = mt_AttemptSeriesID current,
            ud_Decision = decision_string (tc_Decision c), ud_ReportSHA256 = tc_DecisionReportSHA256 c,
            ud_PrincipalID = rt_PrincipalID request, ud_ApprovalID = ab_RecordID a, ud_CreatedAt = tc_At c\<rparr>])"

definition task_project :: "orchestrator \<Rightarrow> store_view \<Rightarrow> TaskRequest \<Rightarrow> TaskCommandType \<Rightarrow> orch_error + Project" where
  "task_project sv view request ty =
     attempt (load_from view (rt_TenantID request) ''project'' (rt_ProjectID request)) (\<lambda>found.
       case found of
         None \<Rightarrow> Inl (orch_bare CodeGoalNotApproved)
       | Some projection \<Rightarrow>
           attempt (decodeProject (os_codec sv) (pj_State projection)) (\<lambda>project.
             let planning = (ty = TaskCommandStartPlanning \<or> ty = TaskCommandAttachModuleSpec);
                 approved = (case prj_Goal project of None \<Rightarrow> False | Some g \<Rightarrow> gr_ApprovedBy g \<noteq> []) in
             if \<not> approved
                \<or> planning \<and> (prj_State project \<noteq> ProjectPlanning \<or> prj_Plan project \<noteq> None)
                \<or> \<not> planning \<and> prj_Plan project = None
             then Inl (orch_bare CodeGoalNotApproved)
             else if prj_State project \<in> {ProjectPaused, ProjectAborted, ProjectArchived, ProjectCompleted}
             then Inl (orch_new CodeTaskBlocked (projectState_string (prj_State project)))
             else Inr project))"

definition load_current_task :: "orchestrator \<Rightarrow> store_view \<Rightarrow> TaskRequest \<Rightarrow> TaskCommandType \<Rightarrow> orch_error + ModuleTask" where
  "load_current_task sv view request ty =
     attempt (load_from view (rt_TenantID request) ''task'' (rt_TaskID request)) (\<lambda>found.
     attempt (case found of
                Some projection \<Rightarrow>
                  attempt (decodeTask (os_codec sv) (pj_State projection)) (\<lambda>t.
                    if mt_TenantID t \<noteq> rt_TenantID request \<or> mt_ProjectID t \<noteq> rt_ProjectID request
                    then Inl (orch_new CodeForbidden ''task project'') else Inr t)
              | None \<Rightarrow> if ty \<noteq> TaskCommandDefine then Inl (orch_bare CodeNotFound) else Inr zero_ModuleTask) (\<lambda>current.
       if mt_Version current \<noteq> rt_ExpectedVersion request
       then Inl (versionConflict (rt_ExpectedVersion request) (mt_Version current)) else Inr current))"

definition related_tasks ::
  "orchestrator \<Rightarrow> store_view \<Rightarrow> TaskRequest \<Rightarrow> Project \<Rightarrow> ModuleTask \<Rightarrow> TaskCommand \<Rightarrow> ModuleTask \<Rightarrow> string \<Rightarrow> string list \<Rightarrow>
     orch_error + transition list \<times> string list" where
  "related_tasks sv view request project current c next_task digest supply =
     attempt (if mt_State next_task = TaskBlockedUserDecision
              then block_dependents sv view request (tc_At c) digest (mt_FrozenDependentIDs next_task) supply
              else Inr ([], supply)) (\<lambda>(blocked, s1).
     attempt (if tc_Type c = TaskCommandAuthorizeNewSeries
              then unblock_dependents sv view request (tc_At c) digest (mt_FrozenDependentIDs current) s1
              else Inr ([], s1)) (\<lambda>(unblocked, s2).
     attempt (if tc_Type c = TaskCommandLLMSuccess \<or> tc_Type c = TaskCommandIntegrate
              then readyAuditedDependents sv view request next_task (tc_At c) digest s2
              else Inr ([], s2)) (\<lambda>(ready, s3).
     attempt (if tc_Type c = TaskCommandLLMSuccess
              then coreSummaryTransition sv view request project next_task (tc_At c) digest s3
              else Inr ([], s3)) (\<lambda>(core, rest).
       Inr (blocked @ unblocked @ ready @ core, rest)))))"

definition decided_task ::
  "orchestrator \<Rightarrow> store_view \<Rightarrow> TaskRequest \<Rightarrow> string \<Rightarrow> Project \<Rightarrow> ModuleTask \<Rightarrow> orch_error + TransactionRequest" where
  \<comment> \<open>from the reading of the clock on\<close>
  "decided_task sv view request digest project current =
     (let c = (normalizedTaskCommand request)\<lparr>tc_At := utc (os_clock sv)\<rparr>;
          series = (tc_Type c = TaskCommandAuthorizeNewSeries) in
      attempt (decide_task current c) (\<lambda>event.
      attempt (encodeTaskTransition (os_codec sv) (rt_TenantID request) (rt_ProjectID request) (rt_TaskID request)
          (rt_ExpectedVersion request) event digest (os_uuids sv)) (\<lambda>((t, result), s1).
      attempt (related_tasks sv view request project current c (te_Projection event) digest s1) (\<lambda>(ts, _).
      attempt (validateCommitBoundary sv (taskCommitValidation request project current c digest)) (\<lambda>_.
      attempt (mustDigest (os_codec sv) result) (\<lambda>resultDigest.
        Inr \<lparr>tq_TenantID = rt_TenantID request, tq_PrincipalID = rt_PrincipalID request,
             tq_IdempotencyKey = rt_IdempotencyKey request, tq_RequestSHA256 = digest, tq_Updates = map fst (t # ts),
             tq_Events = applyEventTrace (os_trace sv) digest (map snd (t # ts)),
             tq_Approvals = (if series then approvalRecords (rt_TenantID request) (rt_ProjectID request) (tc_Approval c) else []),
             tq_UserDecisions = (if series then series_decision request current c else []), tq_Result = result,
             tq_ResultSHA256 = resultDigest\<rparr>))))))"

definition handleTaskOnce_plan :: "orchestrator \<Rightarrow> store_view \<Rightarrow> TaskRequest \<Rightarrow> orch_error + TaskOutcome plan" where
  "handleTaskOnce_plan sv view request =
     attempt (orch_validateRequest (rt_TenantID request) (rt_ProjectID request) (rt_PrincipalID request)
         (rt_IdempotencyKey request) (rt_ExpectedVersion request)) (\<lambda>_.
     attempt (guard_that (rt_TaskID request \<noteq> []) (orch_new CodeInvalidArgument ''taskId'')) (\<lambda>_.
     attempt (TaskParameterDigest (os_codec sv) request) (\<lambda>digest.
     attempt (from_store (sw_Lookup view (rt_TenantID request) (rt_PrincipalID request) (rt_IdempotencyKey request) digest))
       (\<lambda>prior.
       case prior of
         Some tx \<Rightarrow>
           attempt (decodeTask (os_codec sv) (tx_Result tx)) (\<lambda>task.
             Inr (Answer \<lparr>ot_Task = task, ot_Events = tx_Events tx, ot_Duplicate = True\<rparr>))
       | None \<Rightarrow>
           attempt (task_project sv view request (tc_Type (rt_Command request))) (\<lambda>project.
           attempt (load_current_task sv view request (tc_Type (rt_Command request))) (\<lambda>current.
           attempt (decided_task sv view request digest project current) (\<lambda>tx. Inr (Commit tx))))))))"

definition commit_task ::
  "orchestrator \<Rightarrow> TransactionRequest \<Rightarrow> MemoryStore \<Rightarrow> (orch_error + TaskOutcome) \<times> MemoryStore" where
  "commit_task sv tx s =
     (case Execute (cd_jcs (os_codec sv)) tx s of
        (Inl e, s') \<Rightarrow> (Inl (of_store e), s')
      | (Inr result, s') \<Rightarrow>
          (attempt (decodeTask (os_codec sv) (tx_Result result)) (\<lambda>task.
             Inr \<lparr>ot_Task = task, ot_Events = tx_Events result, ot_Duplicate = tx_Duplicate result\<rparr>), s'))"

definition handleTaskOnce :: "orchestrator \<Rightarrow> TaskRequest \<Rightarrow> MemoryStore \<Rightarrow> (orch_error + TaskOutcome) \<times> MemoryStore" where
  "handleTaskOnce sv request s =
     (case handleTaskOnce_plan sv (view_of s) request of
        Inl e \<Rightarrow> (Inl e, s)
      | Inr (Answer outcome) \<Rightarrow> (Inr outcome, s)
      | Inr (Commit tx) \<Rightarrow> commit_task sv tx s)"

definition retryCorePassConflict :: "orchestrator \<Rightarrow> bool \<Rightarrow> TaskRequest \<Rightarrow> orch_error \<Rightarrow> store_view \<Rightarrow> bool" where
  \<comment> \<open>the flag says that the context is alive; the view is the one of this call\<close>
  "retryCorePassConflict sv alive request err view \<longleftrightarrow>
     os_coreOnly sv \<and> tc_Type (rt_Command request) = TaskCommandLLMSuccess \<and> alive
     \<and> (case err of OrchError e \<Rightarrow> err_Code e = CodeStateVersionConflict | _ \<Rightarrow> False)
     \<and> (case load_from view (rt_TenantID request) ''task'' (rt_TaskID request) of
          Inr (Some stored) \<Rightarrow>
            (case decodeTask (os_codec sv) (pj_State stored) of
               Inr task \<Rightarrow> mt_Version task = rt_ExpectedVersion request \<and> mt_State task = TaskLLMAudit
             | Inl _ \<Rightarrow> False)
        | _ \<Rightarrow> False)"

end
