(* ===== verification/Orch_Plan.thy ===== *)
theory Orch_Plan
  imports Orch_Task Dag
begin

text \<open>
  Plans in the orchestrator, \<open>internal/orchestrator/plan.go\<close>: the planning tasks of a plan are created
  in one transaction, and the plan is published in another that makes the modules without
  dependencies ready.
\<close>

record QueuePlanTasksOutcome =
  oq_Tasks :: "ModuleTask list"
  oq_Events :: "DomainEvent list"
  oq_Duplicate :: bool

record PublishPlanOutcome =
  ov_Project :: Project
  ov_Tasks :: "ModuleTask list"
  ov_Events :: "DomainEvent list"
  ov_Duplicate :: bool

section \<open>Validation\<close>

fun planning_definitions :: "(string, string list) gomap \<Rightarrow> string list \<Rightarrow> string list \<Rightarrow> PlanningTaskDefinition list \<Rightarrow> bool" where
  "planning_definitions dag modules tasks [] = True"
| "planning_definitions dag modules tasks (d # ds) =
     (if pl_ModuleID d = [] \<or> pl_TaskID d = [] \<or> \<not> gomap_has dag (pl_ModuleID d)
         \<or> pl_ModuleID d \<in> set modules \<or> pl_TaskID d \<in> set tasks
      then False
      else planning_definitions dag (pl_ModuleID d # modules) (pl_TaskID d # tasks) ds)"

definition validateQueuePlanTasksRequest :: "QueuePlanTasksRequest \<Rightarrow> orch_error + unit" where
  "validateQueuePlanTasksRequest r =
     attempt (orch_validateRequest (qp_TenantID r) (qp_ProjectID r) (qp_PrincipalID r) (qp_IdempotencyKey r)
         (qp_ExpectedProjectVersion r)) (\<lambda>_.
     attempt (guard_that (\<not> (SpecRef_Validate (qp_GoalSpecRef r) \<noteq> None \<or> SpecRef_Validate (qp_PlanRef r) \<noteq> None
           \<or> \<not> ValidateDAG (qp_DAG r) \<or> length (qp_Tasks r) \<noteq> length (qp_DAG r)))
         (orch_new CodeInvalidArgument ''plan task queue'')) (\<lambda>_.
       guard_that (planning_definitions (qp_DAG r) [] [] (qp_Tasks r))
         (orch_new CodeInvalidArgument ''planning task definition'')))"

fun plan_definitions ::
  "(string, string list) gomap \<Rightarrow> string list \<Rightarrow> string list \<Rightarrow> string list \<Rightarrow> PlanTaskDefinition list \<Rightarrow> bool" where
  "plan_definitions dag modules tasks series [] = True"
| "plan_definitions dag modules tasks series (d # ds) =
     (if pd_ModuleID d = [] \<or> pd_TaskID d = [] \<or> pd_AttemptSeriesID d = []
         \<or> SpecRef_Validate (pd_ModuleSpecRef d) \<noteq> None \<or> \<not> gomap_has dag (pd_ModuleID d)
         \<or> pd_ModuleID d \<in> set modules \<or> pd_TaskID d \<in> set tasks \<or> pd_AttemptSeriesID d \<in> set series
      then False
      else plan_definitions dag (pd_ModuleID d # modules) (pd_TaskID d # tasks) (pd_AttemptSeriesID d # series) ds)"

definition validatePublishPlanRequest :: "PublishPlanRequest \<Rightarrow> orch_error + unit" where
  "validatePublishPlanRequest r =
     attempt (orch_validateRequest (pp_TenantID r) (pp_ProjectID r) (pp_PrincipalID r) (pp_IdempotencyKey r)
         (pp_ExpectedProjectVersion r)) (\<lambda>_.
     attempt (guard_that (\<not> (SpecRef_Validate (pp_GoalSpecRef r) \<noteq> None \<or> SpecRef_Validate (pp_PlanRef r) \<noteq> None
           \<or> \<not> ValidateDAG (pp_DAG r) \<or> length (pp_Tasks r) \<noteq> length (pp_DAG r)))
         (orch_new CodeInvalidArgument ''plan publication'')) (\<lambda>_.
       guard_that (plan_definitions (pp_DAG r) [] [] [] (pp_Tasks r))
         (orch_new CodeInvalidArgument ''plan task definition'')))"

section \<open>Dependents\<close>

definition task_of_module :: "(string \<times> string) list \<Rightarrow> string \<Rightarrow> string" where
  \<comment> \<open>the later of two definitions of a module; a missing entry reads as the empty text\<close>
  "task_of_module tasks moduleID = (case map_of (rev tasks) moduleID of None \<Rightarrow> [] | Some t \<Rightarrow> t)"

definition planDependentTaskIDs :: "(string \<times> string) list \<Rightarrow> (string, string list) gomap \<Rightarrow> string \<Rightarrow> string list" where
  \<comment> \<open>what the resulting map holds for a module of the graph: sorted, so the order in which the
     loop visits the graph does not matter\<close>
  "planDependentTaskIDs tasks graph moduleID =
     sort (concat (map (\<lambda>(m, dependencies). map (\<lambda>_. task_of_module tasks m) (filter (\<lambda>d. d = moduleID) dependencies)) graph))"

definition planning_pairs :: "PlanningTaskDefinition list \<Rightarrow> (string \<times> string) list" where
  "planning_pairs ds = map (\<lambda>d. (pl_ModuleID d, pl_TaskID d)) ds"

definition plan_pairs :: "PlanTaskDefinition list \<Rightarrow> (string \<times> string) list" where
  "plan_pairs ds = map (\<lambda>d. (pd_ModuleID d, pd_TaskID d)) ds"

section \<open>Queueing the tasks of a plan\<close>

definition exact_project ::
  "orchestrator \<Rightarrow> store_view \<Rightarrow> string \<Rightarrow> string \<Rightarrow> int \<Rightarrow> orch_error + Project" where
  "exact_project sv view tenantID projectID expectedVersion =
     attempt (load_from view tenantID ''project'' projectID) (\<lambda>found.
       case found of
         None \<Rightarrow> Inl (orch_bare CodeNotFound)
       | Some projection \<Rightarrow>
           attempt (decodeProject (os_codec sv) (pj_State projection)) (\<lambda>project.
             if prj_Version project \<noteq> expectedVersion
             then Inl (versionConflict expectedVersion (prj_Version project)) else Inr project))"

definition queue_command :: "QueuePlanTasksRequest \<Rightarrow> PlanningTaskDefinition \<Rightarrow> string list \<Rightarrow> time \<Rightarrow> TaskCommand" where
  "queue_command r d dependents at_time =
     (bare_task_command TaskCommandQueuePlanning at_time)\<lparr>tc_TenantID := qp_TenantID r, tc_ProjectID := qp_ProjectID r,
        tc_TaskID := pl_TaskID d, tc_ModuleID := pl_ModuleID d, tc_PlanningSpecRef := qp_PlanRef r,
        tc_DependentTaskIDs := dependents\<rparr>"

definition retained_task ::
  "orchestrator \<Rightarrow> QueuePlanTasksRequest \<Rightarrow> string list \<Rightarrow> Projection option \<Rightarrow> orch_error + ModuleTask" where
  "retained_task sv r dependents found =
     (case found of
        None \<Rightarrow> Inl (orch_new CodeNotFound ''retained plan task'')
      | Some existing \<Rightarrow>
          attempt (decodeTask (os_codec sv) (pj_State existing)) (\<lambda>t.
            if mt_TenantID t \<noteq> qp_TenantID r \<or> mt_ProjectID t \<noteq> qp_ProjectID r \<or> mt_State t = TaskSuperseded
               \<or> mt_State t = TaskCanceled \<or> mt_DependentTaskIDs t \<noteq> dependents
            then Inl (orch_new CodeConflict ''retained plan task'') else Inr t))"

fun queue_tasks ::
  "orchestrator \<Rightarrow> store_view \<Rightarrow> QueuePlanTasksRequest \<Rightarrow> (string \<Rightarrow> string list) \<Rightarrow> time \<Rightarrow> string \<Rightarrow>
     PlanningTaskDefinition list \<Rightarrow> string list \<Rightarrow> orch_error + (transition list \<times> ModuleTask list) \<times> string list" where
  "queue_tasks sv view r dependents at_time digest [] supply = Inr (([], []), supply)"
| "queue_tasks sv view r dependents at_time digest (d # ds) supply =
     attempt (load_from view (qp_TenantID r) ''task'' (pl_TaskID d)) (\<lambda>found.
       if pl_Retain d
       then attempt (retained_task sv r (dependents (pl_ModuleID d)) found) (\<lambda>t.
            attempt (queue_tasks sv view r dependents at_time digest ds supply) (\<lambda>((ts, tasks), rest).
              Inr ((ts, t # tasks), rest)))
       else if found \<noteq> None then Inl (orch_new CodeConflict ''plan task'')
       else attempt (task_transition sv (qp_TenantID r) (qp_ProjectID r) (pl_TaskID d) zero_ModuleTask
              (queue_command r d (dependents (pl_ModuleID d)) at_time) digest supply) (\<lambda>((u, t), s1).
            attempt (queue_tasks sv view r dependents at_time digest ds s1) (\<lambda>((ts, tasks), rest).
              Inr ((u # ts, t # tasks), rest))))"

definition planningTasksValidation :: "QueuePlanTasksRequest \<Rightarrow> Project \<Rightarrow> string \<Rightarrow> time \<Rightarrow> CommitValidation" where
  "planningTasksValidation r project parameterDigest at_time =
     \<lparr>cv_TenantID = qp_TenantID r, cv_ProjectID = qp_ProjectID r, cv_TaskID = [], cv_PrincipalID = qp_PrincipalID r,
      cv_Action = taskCommandType_string TaskCommandQueuePlanning, cv_ExpectedVersion = qp_ExpectedProjectVersion r,
      cv_Project = project, cv_Task = zero_ModuleTask, cv_ParameterDigest = parameterDigest,
      cv_EvidenceSHA256 = [sr_SHA256 (qp_GoalSpecRef r), sr_SHA256 (qp_PlanRef r)],
      cv_Claims = claims_of [(''dag_validated'', True), (''ownership_validated'', True)],
      cv_ModuleSpecRef = zero_SpecRef, cv_GoalSpecRef = qp_GoalSpecRef r, cv_FencingToken = 0,
      cv_ApprovalRecordID = [], cv_Authorization = qp_Authorization r, cv_CommitAt = at_time\<rparr>"

definition plan_transaction ::
  "orchestrator \<Rightarrow> string \<Rightarrow> string \<Rightarrow> string \<Rightarrow> string \<Rightarrow> string \<Rightarrow> transition list \<Rightarrow> orch_error + TransactionRequest" where
  "plan_transaction sv tenantID principalID key digest result ts =
     attempt (mustDigest (os_codec sv) result) (\<lambda>resultDigest.
       Inr \<lparr>tq_TenantID = tenantID, tq_PrincipalID = principalID, tq_IdempotencyKey = key, tq_RequestSHA256 = digest,
            tq_Updates = map fst ts, tq_Events = applyEventTrace (os_trace sv) digest (map snd ts), tq_Approvals = [],
            tq_UserDecisions = [], tq_Result = result, tq_ResultSHA256 = resultDigest\<rparr>)"

definition may_queue :: "QueuePlanTasksRequest \<Rightarrow> Project \<Rightarrow> bool" where
  "may_queue r project \<longleftrightarrow>
     \<not> (prj_State project \<noteq> ProjectPlanning \<or> prj_Plan project \<noteq> None
        \<or> (case prj_Goal project of
             None \<Rightarrow> True
           | Some g \<Rightarrow> gr_ApprovedBy g = [] \<or> gr_Version g \<noteq> sr_Version (qp_GoalSpecRef r)
               \<or> gr_SHA256 g \<noteq> sr_SHA256 (qp_GoalSpecRef r)))"

definition QueuePlanTasks_plan :: "orchestrator \<Rightarrow> store_view \<Rightarrow> QueuePlanTasksRequest \<Rightarrow> orch_error + QueuePlanTasksOutcome plan" where
  "QueuePlanTasks_plan sv view request =
     attempt (validateQueuePlanTasksRequest request) (\<lambda>_.
       let r = request\<lparr>qp_Tasks := sort_key pl_ModuleID (qp_Tasks request)\<rparr> in
     attempt (encoded (dg_queue (os_codec sv) (qp_ExpectedProjectVersion r) r)) (\<lambda>digest.
     attempt (from_store (sw_Lookup view (qp_TenantID r) (qp_PrincipalID r) (qp_IdempotencyKey r) digest)) (\<lambda>prior.
       case prior of
         Some tx \<Rightarrow>
           attempt (encoded (dc_queued (os_codec sv) (tx_Result tx))) (\<lambda>tasks.
             Inr (Answer \<lparr>oq_Tasks = tasks, oq_Events = tx_Events tx, oq_Duplicate = True\<rparr>))
       | None \<Rightarrow>
           attempt (exact_project sv view (qp_TenantID r) (qp_ProjectID r) (qp_ExpectedProjectVersion r)) (\<lambda>project.
           attempt (guard_that (may_queue r project) (orch_new CodeInvalidStateTransition ''queue plan tasks'')) (\<lambda>_.
             let at_time = utc (os_clock sv) in
           attempt (queue_tasks sv view r (planDependentTaskIDs (planning_pairs (qp_Tasks r)) (qp_DAG r)) at_time digest
               (qp_Tasks r) (os_uuids sv)) (\<lambda>((ts, tasks), _).
           attempt (encoded (ec_queued (os_codec sv) tasks)) (\<lambda>result.
           attempt (validateCommitBoundary sv (planningTasksValidation r project digest at_time)) (\<lambda>_.
           attempt (plan_transaction sv (qp_TenantID r) (qp_PrincipalID r) (qp_IdempotencyKey r) digest result ts)
             (\<lambda>tx. Inr (Commit tx))))))))))"

section \<open>Publishing a plan\<close>

definition publish_command :: "PublishPlanRequest \<Rightarrow> time \<Rightarrow> ProjectCommand" where
  "publish_command r at_time =
     (bare_project_command ProjectCommandPublishPlan (pp_PrincipalID r) at_time)\<lparr>pc_GoalSpecRef := Some (pp_GoalSpecRef r),
        pc_Plan := Some (pp_PlanRef r), pc_DAG := pp_DAG r\<rparr>"

definition plan_task_fits :: "PublishPlanRequest \<Rightarrow> PlanTaskDefinition \<Rightarrow> string list \<Rightarrow> ModuleTask \<Rightarrow> bool" where
  "plan_task_fits r d dependents t \<longleftrightarrow>
     (let validState = (pd_Retain d \<or> mt_State t = TaskDefined);
          validPlanningBinding = (pd_Retain d \<or> mt_ModuleID t = pd_ModuleID d \<and> mt_PlanningSpecRef t = pp_PlanRef r) in
      \<not> (mt_TenantID t \<noteq> pp_TenantID r \<or> mt_ProjectID t \<noteq> pp_ProjectID r \<or> mt_ModuleSpecRef t \<noteq> pd_ModuleSpecRef d
         \<or> mt_AttemptSeriesID t \<noteq> pd_AttemptSeriesID d \<or> mt_State t = TaskSuperseded \<or> mt_State t = TaskCanceled
         \<or> \<not> validState \<or> \<not> validPlanningBinding \<or> mt_DependentTaskIDs t \<noteq> dependents))"

definition dependencies_of :: "(string, string list) gomap \<Rightarrow> string \<Rightarrow> string list" where
  "dependencies_of dag moduleID = (case map_of dag moduleID of None \<Rightarrow> [] | Some ds \<Rightarrow> ds)"

fun publish_tasks ::
  "orchestrator \<Rightarrow> store_view \<Rightarrow> PublishPlanRequest \<Rightarrow> (string \<Rightarrow> string list) \<Rightarrow> time \<Rightarrow> string \<Rightarrow>
     PlanTaskDefinition list \<Rightarrow> string list \<Rightarrow> orch_error + (transition list \<times> ModuleTask list) \<times> string list" where
  "publish_tasks sv view r dependents at_time digest [] supply = Inr (([], []), supply)"
| "publish_tasks sv view r dependents at_time digest (d # ds) supply =
     attempt (load_from view (pp_TenantID r) ''task'' (pd_TaskID d)) (\<lambda>found.
     attempt (case found of
                None \<Rightarrow> Inl (orch_new CodeNotFound ''plan task'')
              | Some existing \<Rightarrow> decodeTask (os_codec sv) (pj_State existing)) (\<lambda>t.
       if \<not> plan_task_fits r d (dependents (pd_ModuleID d)) t then Inl (orch_new CodeConflict ''plan task'')
       else if \<not> pd_Retain d \<and> dependencies_of (pp_DAG r) (pd_ModuleID d) = []
       then attempt (task_transition sv (pp_TenantID r) (pp_ProjectID r) (mt_ID t) t
              (bare_task_command TaskCommandReadyExecution at_time) digest supply) (\<lambda>((u, t'), s1).
            attempt (publish_tasks sv view r dependents at_time digest ds s1) (\<lambda>((ts, tasks), rest).
              Inr ((u # ts, t' # tasks), rest)))
       else attempt (publish_tasks sv view r dependents at_time digest ds supply) (\<lambda>((ts, tasks), rest).
              Inr ((ts, t # tasks), rest))))"

definition planCommitValidation :: "PublishPlanRequest \<Rightarrow> Project \<Rightarrow> string \<Rightarrow> time \<Rightarrow> CommitValidation" where
  "planCommitValidation r project parameterDigest at_time =
     \<lparr>cv_TenantID = pp_TenantID r, cv_ProjectID = pp_ProjectID r, cv_TaskID = [], cv_PrincipalID = pp_PrincipalID r,
      cv_Action = projectCommandType_string ProjectCommandPublishPlan, cv_ExpectedVersion = pp_ExpectedProjectVersion r,
      cv_Project = project, cv_Task = zero_ModuleTask, cv_ParameterDigest = parameterDigest,
      cv_EvidenceSHA256 = [sr_SHA256 (pp_GoalSpecRef r), sr_SHA256 (pp_PlanRef r)],
      cv_Claims = claims_of [(''dag_validated'', True), (''module_specs_validated'', True)],
      cv_ModuleSpecRef = zero_SpecRef, cv_GoalSpecRef = pp_GoalSpecRef r, cv_FencingToken = 0,
      cv_ApprovalRecordID = [], cv_Authorization = pp_Authorization r, cv_CommitAt = at_time\<rparr>"

definition PublishPlan_plan :: "orchestrator \<Rightarrow> store_view \<Rightarrow> PublishPlanRequest \<Rightarrow> orch_error + PublishPlanOutcome plan" where
  "PublishPlan_plan sv view request =
     attempt (validatePublishPlanRequest request) (\<lambda>_.
       let r = request\<lparr>pp_Tasks := sort_key pd_ModuleID (pp_Tasks request)\<rparr> in
     attempt (encoded (dg_publish (os_codec sv) (pp_ExpectedProjectVersion r) r)) (\<lambda>digest.
     attempt (from_store (sw_Lookup view (pp_TenantID r) (pp_PrincipalID r) (pp_IdempotencyKey r) digest)) (\<lambda>prior.
       case prior of
         Some tx \<Rightarrow>
           attempt (encoded (dc_published (os_codec sv) (tx_Result tx))) (\<lambda>(project, tasks).
             Inr (Answer \<lparr>ov_Project = project, ov_Tasks = tasks, ov_Events = tx_Events tx, ov_Duplicate = True\<rparr>))
       | None \<Rightarrow>
           attempt (exact_project sv view (pp_TenantID r) (pp_ProjectID r) (pp_ExpectedProjectVersion r)) (\<lambda>project.
             let at_time = utc (os_clock sv) in
           attempt (decide_project project (publish_command r at_time)) (\<lambda>event.
           attempt (encodeProjectTransition (os_codec sv) (pp_TenantID r) (pp_ProjectID r) (pp_ExpectedProjectVersion r)
               event digest (os_uuids sv)) (\<lambda>((u, _), s1).
           attempt (publish_tasks sv view r (planDependentTaskIDs (plan_pairs (pp_Tasks r)) (pp_DAG r)) at_time digest
               (pp_Tasks r) s1) (\<lambda>((ts, tasks), _).
           attempt (encoded (ec_published (os_codec sv) (pe_Projection event) tasks)) (\<lambda>result.
           attempt (validateCommitBoundary sv (planCommitValidation r project digest at_time)) (\<lambda>_.
           attempt (plan_transaction sv (pp_TenantID r) (pp_PrincipalID r) (pp_IdempotencyKey r) digest result (u # ts))
             (\<lambda>tx. Inr (Commit tx)))))))))))"

section \<open>Uninterrupted calls\<close>

definition commit_queue ::
  "orchestrator \<Rightarrow> TransactionRequest \<Rightarrow> MemoryStore \<Rightarrow> (orch_error + QueuePlanTasksOutcome) \<times> MemoryStore" where
  "commit_queue sv tx s =
     (case Execute (cd_jcs (os_codec sv)) tx s of
        (Inl e, s') \<Rightarrow> (Inl (of_store e), s')
      | (Inr result, s') \<Rightarrow>
          (attempt (encoded (dc_queued (os_codec sv) (tx_Result result))) (\<lambda>tasks.
             Inr \<lparr>oq_Tasks = tasks, oq_Events = tx_Events result, oq_Duplicate = tx_Duplicate result\<rparr>), s'))"

definition QueuePlanTasks ::
  "orchestrator \<Rightarrow> QueuePlanTasksRequest \<Rightarrow> MemoryStore \<Rightarrow> (orch_error + QueuePlanTasksOutcome) \<times> MemoryStore" where
  "QueuePlanTasks sv request s =
     (case QueuePlanTasks_plan sv (view_of s) request of
        Inl e \<Rightarrow> (Inl e, s)
      | Inr (Answer outcome) \<Rightarrow> (Inr outcome, s)
      | Inr (Commit tx) \<Rightarrow> commit_queue sv tx s)"

definition commit_publication ::
  "orchestrator \<Rightarrow> TransactionRequest \<Rightarrow> MemoryStore \<Rightarrow> (orch_error + PublishPlanOutcome) \<times> MemoryStore" where
  "commit_publication sv tx s =
     (case Execute (cd_jcs (os_codec sv)) tx s of
        (Inl e, s') \<Rightarrow> (Inl (of_store e), s')
      | (Inr result, s') \<Rightarrow>
          (attempt (encoded (dc_published (os_codec sv) (tx_Result result))) (\<lambda>(project, tasks).
             Inr \<lparr>ov_Project = project, ov_Tasks = tasks, ov_Events = tx_Events result, ov_Duplicate = tx_Duplicate result\<rparr>), s'))"

definition PublishPlan ::
  "orchestrator \<Rightarrow> PublishPlanRequest \<Rightarrow> MemoryStore \<Rightarrow> (orch_error + PublishPlanOutcome) \<times> MemoryStore" where
  "PublishPlan sv request s =
     (case PublishPlan_plan sv (view_of s) request of
        Inl e \<Rightarrow> (Inl e, s)
      | Inr (Answer outcome) \<Rightarrow> (Inr outcome, s)
      | Inr (Commit tx) \<Rightarrow> commit_publication sv tx s)"

end
