(* ===== verification/Orch_Safety.thy ===== *)
theory Orch_Safety
  imports Orch_Plan Event_Properties Project_Safety Task_Safety
begin

text \<open>
  Why concurrent handlers keep the aggregates right. A trace is the list of the stores so far, the
  current one first. A handler plans from a view whose every answer was right at some time, and its
  transaction is executed in the current store; transactions of other components touch neither
  projects nor tasks. The versions of the updates make a stale plan fail, so the states of an
  aggregate form one line of decided commands.
\<close>

section \<open>Keys\<close>

definition plain_keys :: "MemoryStore \<Rightarrow> bool" where
  "plain_keys s \<longleftrightarrow>
     (\<forall>k p. map_of (ms_projections s) k = Some p \<longrightarrow> nul_free (pj_TenantID p) \<and> nul_free (pj_AggregateType p))"

lemma stored_key:
  assumes "projections_ok s" "plain_keys s" "nul_free t" "nul_free ty"
    and "map_of (ms_projections s) (aggregateKey t ty i) = Some p"
  shows "pj_TenantID p = t" "pj_AggregateType p = ty" "pj_AggregateID p = i"
proof -
  have "projection_key p = aggregateKey t ty i" using assms(1,5) unfolding projections_ok_def by blast
  moreover have "nul_free (pj_TenantID p)" "nul_free (pj_AggregateType p)"
    using assms(2,5) unfolding plain_keys_def by blast+
  ultimately show "pj_TenantID p = t" "pj_AggregateType p = ty" "pj_AggregateID p = i"
    using aggregateKey_inject assms(3,4) by metis+
qed

section \<open>Versions only grow\<close>

definition versions_in :: "int \<Rightarrow> MemoryStore \<Rightarrow> bool" where
  "versions_in n s \<longleftrightarrow> (\<forall>k p. map_of (ms_projections s) k = Some p \<longrightarrow> 1 \<le> pj_Version p \<and> pj_Version p \<le> n)"

definition grown :: "MemoryStore \<Rightarrow> MemoryStore \<Rightarrow> bool" where
  "grown s s' \<longleftrightarrow>
     (\<forall>k p. map_of (ms_projections s) k = Some p \<longrightarrow>
        (\<exists>p'. map_of (ms_projections s') k = Some p' \<and> (p' = p \<or> pj_Version p < pj_Version p')))"

lemma grown_refl: "grown s s"
  by (simp add: grown_def)

lemma grown_trans:
  assumes "grown s s'" "grown s' s''" shows "grown s s''"
  unfolding grown_def
proof (intro allI impI)
  fix k p assume "map_of (ms_projections s) k = Some p"
  with assms(1) obtain p' where "map_of (ms_projections s') k = Some p'" "p' = p \<or> pj_Version p < pj_Version p'"
    unfolding grown_def by blast
  moreover from this(1) assms(2) obtain p'' where "map_of (ms_projections s'') k = Some p''"
    "p'' = p' \<or> pj_Version p' < pj_Version p''" unfolding grown_def by blast
  ultimately show "\<exists>p''. map_of (ms_projections s'') k = Some p'' \<and> (p'' = p \<or> pj_Version p < pj_Version p'')"
    by auto
qed

lemma current_version_range: "versions_in n s \<Longrightarrow> 0 \<le> n \<Longrightarrow> 0 \<le> current_version s k \<and> current_version s k \<le> n"
  unfolding versions_in_def current_version_def zero_Projection_def
  by (cases "map_of (ms_projections s) k") fastforce+

lemma next_version_add:
  assumes "good_commit jcs s r" "versions_in n s" "0 \<le> n" "n + 1 < 2 ^ 63" "u \<in> set (tq_Updates r)"
  shows "pu_NextVersion u = current_version s (update_key u) + 1"
proof -
  have "pu_NextVersion u = add64 (current_version s (update_key u)) 1"
    using assms(1,5) unfolding good_commit_def good_update_def by auto
  with current_version_range [OF assms(2,3), of "update_key u"] assms(4) show ?thesis
    by (simp add: add64_id int64_def)
qed

text \<open>Every entry after a commit is an updated one, with the next version, or the one before.\<close>

lemma commit_entries:
  assumes "good_commit jcs s r"
  obtains (updated) u where "u \<in> set (tq_Updates r)" "update_key u = k"
      "map_of (ms_projections (commit r s)) k = Some (projection_of u)"
    | (kept) "k \<notin> update_key ` set (tq_Updates r)"
      "map_of (ms_projections (commit r s)) k = map_of (ms_projections s) k"
  using commit_projection [OF assms] commit_other_projection [OF assms, of k] by blast

lemma versions_commit:
  assumes "good_commit jcs s r" "versions_in n s" "0 \<le> n" "n + 1 < 2 ^ 63"
  shows "versions_in (n + 1) (commit r s)"
  unfolding versions_in_def
proof (intro allI impI)
  fix k p assume p: "map_of (ms_projections (commit r s)) k = Some p"
  show "1 \<le> pj_Version p \<and> pj_Version p \<le> n + 1"
  proof (rule commit_entries [OF assms(1), of k])
    fix u assume u: "u \<in> set (tq_Updates r)" "map_of (ms_projections (commit r s)) k = Some (projection_of u)"
    then have "pj_Version p = current_version s (update_key u) + 1"
      using next_version_add [OF assms u(1)] p by (auto simp: projection_of_def)
    with current_version_range [OF assms(2,3), of "update_key u"] show ?thesis by simp
  next
    assume "map_of (ms_projections (commit r s)) k = map_of (ms_projections s) k"
    with p assms(2) have "1 \<le> pj_Version p" "pj_Version p \<le> n" unfolding versions_in_def by metis+
    then show ?thesis by simp
  qed
qed

lemma grown_commit:
  assumes "good_commit jcs s r" "versions_in n s" "0 \<le> n" "n + 1 < 2 ^ 63"
  shows "grown s (commit r s)"
  unfolding grown_def
proof (intro allI impI)
  fix k p assume p: "map_of (ms_projections s) k = Some p"
  show "\<exists>p'. map_of (ms_projections (commit r s)) k = Some p' \<and> (p' = p \<or> pj_Version p < pj_Version p')"
  proof (rule commit_entries [OF assms(1), of k])
    fix u assume u: "u \<in> set (tq_Updates r)" "update_key u = k" "map_of (ms_projections (commit r s)) k = Some (projection_of u)"
    moreover have "pj_Version (projection_of u) = pj_Version p + 1"
      using next_version_add [OF assms u(1)] p u(2) by (simp add: projection_of_def current_version_def)
    ultimately show ?thesis by auto
  qed (use p in simp)
qed

section \<open>Aggregates in the store\<close>

record ('s, 'c, 'e) aggregate_kind =
  ak_Type :: string
  ak_Encode :: "'s \<Rightarrow> string option"
  ak_Decode :: "string \<Rightarrow> 's option"
  ak_Decide :: "('s, 'c, 'e) decider"
  ak_Apply :: "('s, 'e) applier"
  ak_Version :: "'s \<Rightarrow> int"
  ak_EventVersion :: "'e \<Rightarrow> int"
  ak_Projection :: "'e \<Rightarrow> 's"
  ak_ID :: "'s \<Rightarrow> string"
  ak_TenantID :: "'s \<Rightarrow> string"
  ak_Zero :: 's
  ak_Creates :: "'c \<Rightarrow> string \<Rightarrow> string \<Rightarrow> bool"

definition known :: "MemoryStore list \<Rightarrow> string \<Rightarrow> string \<Rightarrow> string \<Rightarrow> string \<Rightarrow> bool" where
  \<comment> \<open>a state the aggregate had at some time\<close>
  "known trace t ty i state \<longleftrightarrow>
     (\<exists>s \<in> set trace. \<exists>p. map_of (ms_projections s) (aggregateKey t ty i) = Some p \<and> pj_State p = state)"

definition decided_from :: "('s, 'c, 'e) aggregate_kind \<Rightarrow> MemoryStore list \<Rightarrow> string \<Rightarrow> string \<Rightarrow> 's \<Rightarrow> 'c \<Rightarrow> bool" where
  "decided_from K trace t i p c \<longleftrightarrow>
     p = ak_Zero K \<and> ak_Creates K c t i \<and> i \<noteq> []
     \<or> (\<exists>state. known trace t (ak_Type K) i state \<and> ak_Decode K state = Some p)"

definition decided_update :: "('s, 'c, 'e) aggregate_kind \<Rightarrow> MemoryStore list \<Rightarrow> ProjectionUpdate \<Rightarrow> bool" where
  "decided_update K trace u \<longleftrightarrow>
     (\<exists>p c e. decided_from K trace (pu_TenantID u) (pu_AggregateID u) p c \<and> ak_Decide K p c = Inr e
        \<and> ak_Encode K (ak_Projection K e) = Some (pu_State u) \<and> pu_ExpectedVersion u = ak_Version K p)"

definition stored_state :: "('s, 'c, 'e) aggregate_kind \<Rightarrow> MemoryStore \<Rightarrow> string \<Rightarrow> string \<Rightarrow> 's option" where
  "stored_state K s t i =
     (case map_of (ms_projections s) (aggregateKey t (ak_Type K) i) of
        None \<Rightarrow> Some (ak_Zero K) | Some p \<Rightarrow> ak_Decode K (pj_State p))"

definition sound_states :: "('s, 'c, 'e) aggregate_kind \<Rightarrow> MemoryStore \<Rightarrow> bool" where
  "sound_states K s \<longleftrightarrow>
     (\<forall>k p. map_of (ms_projections s) k = Some p \<longrightarrow> pj_AggregateType p = ak_Type K \<longrightarrow>
        (\<exists>x cs. ak_Decode K (pj_State p) = Some x \<and> history (ak_Decide K) (ak_Apply K) (ak_Zero K) cs x
           \<and> ak_Version K x = pj_Version p \<and> ak_ID K x = pj_AggregateID p \<and> ak_TenantID K x = pj_TenantID p
           \<and> ak_ID K x \<noteq> []))"

definition one_step :: "('s, 'c, 'e) aggregate_kind \<Rightarrow> 's \<Rightarrow> 's \<Rightarrow> bool" where
  "one_step K x x' \<longleftrightarrow> x' = x \<or> (\<exists>c e. ak_Decide K x c = Inr e \<and> ak_Apply K x e = Inr x')"

definition reads_back :: "('s, 'c, 'e) aggregate_kind \<Rightarrow> bool" where
  \<comment> \<open>a decoder reads what the encoder wrote\<close>
  "reads_back K \<longleftrightarrow> (\<forall>x state. ak_Encode K x = Some state \<longrightarrow> ak_Decode K state = Some x)"

locale stored_aggregate =
  fixes K :: "('s, 'c, 'e) aggregate_kind"
  assumes type_plain: "nul_free (ak_Type K)"
    and decide_version: "ak_Decide K x c = Inr e \<Longrightarrow> ak_Version K (ak_Projection K e) = add64 (ak_Version K x) 1"
    and decide_apply: "ak_Decide K x c = Inr e \<Longrightarrow> ak_ID K (ak_Projection K e) \<noteq> [] \<Longrightarrow>
      ak_Apply K x e = Inr (ak_Projection K e)"
    and decide_keeps: "ak_Decide K x c = Inr e \<Longrightarrow> ak_ID K x \<noteq> [] \<Longrightarrow>
      ak_ID K (ak_Projection K e) = ak_ID K x \<and> ak_TenantID K (ak_Projection K e) = ak_TenantID K x"
    and decide_creates: "ak_Decide K (ak_Zero K) c = Inr e \<Longrightarrow> ak_Creates K c t i \<Longrightarrow>
      ak_ID K (ak_Projection K e) = i \<and> ak_TenantID K (ak_Projection K e) = t"
    and zero_version: "ak_Version K (ak_Zero K) = 0"
begin

lemma sound_at:
  assumes "sound_states K s" "projections_ok s" "plain_keys s" "nul_free t"
    and "map_of (ms_projections s) (aggregateKey t (ak_Type K) i) = Some p"
  obtains x cs where "ak_Decode K (pj_State p) = Some x" "history (ak_Decide K) (ak_Apply K) (ak_Zero K) cs x"
    "ak_Version K x = pj_Version p" "ak_ID K x = i" "ak_TenantID K x = t" "ak_ID K x \<noteq> []"
  using assms(1,5) stored_key [OF assms(2-4) type_plain assms(5)] unfolding sound_states_def by blast

text \<open>A decided update of an accepted transaction was decided from the current state.\<close>

lemma decided_current:
  assumes codec: "reads_back K"
    and past: "\<forall>s \<in> set (s # ss). sound_states K s \<and> projections_ok s \<and> plain_keys s \<and> grown s s0"
    and s0: "s0 = s" and range: "versions_in n s" and plain: "nul_free (pu_TenantID u)"
    and typed: "pu_AggregateType u = ak_Type K" and u: "decided_update K (s # ss) u"
    and current: "current_version s (update_key u) = pu_ExpectedVersion u"
  obtains x c e cs where "stored_state K s (pu_TenantID u) (pu_AggregateID u) = Some x"
    "history (ak_Decide K) (ak_Apply K) (ak_Zero K) cs x" "ak_Decide K x c = Inr e"
    "ak_Apply K x e = Inr (ak_Projection K e)" "ak_Decode K (pu_State u) = Some (ak_Projection K e)"
    "ak_Version K (ak_Projection K e) = add64 (pu_ExpectedVersion u) 1"
    "ak_ID K (ak_Projection K e) = pu_AggregateID u" "ak_TenantID K (ak_Projection K e) = pu_TenantID u"
    "pu_AggregateID u \<noteq> []"
proof -
  let ?key = "aggregateKey (pu_TenantID u) (ak_Type K) (pu_AggregateID u)"
  from u obtain x c e where source: "decided_from K (s # ss) (pu_TenantID u) (pu_AggregateID u) x c"
    and dec: "ak_Decide K x c = Inr e" and enc: "ak_Encode K (ak_Projection K e) = Some (pu_State u)"
    and ver: "pu_ExpectedVersion u = ak_Version K x" unfolding decided_update_def by blast
  have read: "ak_Decode K (pu_State u) = Some (ak_Projection K e)" using codec enc unfolding reads_back_def by blast
  have next_ver: "ak_Version K (ak_Projection K e) = add64 (pu_ExpectedVersion u) 1"
    using decide_version [OF dec] ver by simp
  show thesis
  proof (cases "map_of (ms_projections s) ?key")
    case None
    have "current_version s ?key = 0" by (simp add: current_version_def None zero_Projection_def)
    then have zero: "ak_Version K x = 0" using current ver typed by simp
    have "x = ak_Zero K \<and> ak_Creates K c (pu_TenantID u) (pu_AggregateID u) \<and> pu_AggregateID u \<noteq> []"
    proof (rule ccontr)
      assume "\<not> ?thesis"
      with source obtain s1 p1 where "s1 \<in> set (s # ss)" "map_of (ms_projections s1) ?key = Some p1"
        unfolding decided_from_def known_def by blast
      with past s0 None show False unfolding grown_def by (metis option.distinct(1))
    qed
    moreover from this have "ak_ID K (ak_Projection K e) = pu_AggregateID u" "ak_TenantID K (ak_Projection K e) = pu_TenantID u"
      using decide_creates dec by blast+
    ultimately show thesis
      using that [of x "[]" c e] dec read next_ver decide_apply [OF dec] None
      by (auto simp: stored_state_def intro: history.start)
  next
    case (Some p)
    have sound: "sound_states K s" "projections_ok s" "plain_keys s" using past by simp_all
    from sound_at [OF sound plain Some] obtain y cs where y: "ak_Decode K (pj_State p) = Some y"
      "history (ak_Decide K) (ak_Apply K) (ak_Zero K) cs y" "ak_Version K y = pj_Version p"
      "ak_ID K y = pu_AggregateID u" "ak_TenantID K y = pu_TenantID u" "ak_ID K y \<noteq> []" .
    have cv: "pj_Version p = ak_Version K x" using current ver typed Some by (simp add: current_version_def)
    have "x = y"
    proof -
      have "1 \<le> pj_Version p" using range Some unfolding versions_in_def by blast
      then have "x \<noteq> ak_Zero K" using cv zero_version by auto
      with source obtain s1 p1 where s1: "s1 \<in> set (s # ss)" "map_of (ms_projections s1) ?key = Some p1"
        "ak_Decode K (pj_State p1) = Some x" unfolding decided_from_def known_def by blast
      have sound1: "sound_states K s1" "projections_ok s1" "plain_keys s1" "grown s1 s" using past s1(1) s0 by blast+
      from sound_at [OF sound1(1-3) plain s1(2)] s1(3) have "ak_Version K x = pj_Version p1" by auto
      with sound1(4) s1(2) Some cv have "p1 = p" unfolding grown_def by force
      with s1(3) y(1) show ?thesis by simp
    qed
    then show thesis
      using that [of y cs c e] y dec read next_ver decide_keeps [OF dec] decide_apply [OF dec] Some
      by (auto simp: stored_state_def)
  qed
qed

lemma sound_commit:
  assumes codec: "reads_back K"
    and past: "\<forall>s1 \<in> set (s # ss). sound_states K s1 \<and> projections_ok s1 \<and> plain_keys s1 \<and> grown s1 s"
    and range: "versions_in n s" and good: "good_commit jcs s r"
    and plain: "\<forall>u \<in> set (tq_Updates r). nul_free (pu_TenantID u)"
    and decided: "\<forall>u \<in> set (tq_Updates r). pu_AggregateType u = ak_Type K \<longrightarrow> decided_update K (s # ss) u"
  shows "sound_states K (commit r s)"
  unfolding sound_states_def
proof (intro allI impI)
  fix k p assume p: "map_of (ms_projections (commit r s)) k = Some p" "pj_AggregateType p = ak_Type K"
  show "\<exists>x cs. ak_Decode K (pj_State p) = Some x \<and> history (ak_Decide K) (ak_Apply K) (ak_Zero K) cs x
      \<and> ak_Version K x = pj_Version p \<and> ak_ID K x = pj_AggregateID p \<and> ak_TenantID K x = pj_TenantID p \<and> ak_ID K x \<noteq> []"
  proof (rule commit_entries [OF good, of k])
    fix u assume u: "u \<in> set (tq_Updates r)" "map_of (ms_projections (commit r s)) k = Some (projection_of u)"
    then have pu: "p = projection_of u" using p(1) by simp
    then have typed: "pu_AggregateType u = ak_Type K" using p(2) by (simp add: projection_of_def)
    have ver: "current_version s (update_key u) = pu_ExpectedVersion u" "pu_NextVersion u = add64 (pu_ExpectedVersion u) 1"
      using good u(1) unfolding good_commit_def good_update_def by blast+
    have dec: "decided_update K (s # ss) u" using decided u(1) typed by blast
    from decided_current [OF codec past refl range bspec [OF plain u(1)] typed dec ver(1)]
    obtain x c e cs where "history (ak_Decide K) (ak_Apply K) (ak_Zero K) cs x" "ak_Decide K x c = Inr e"
      "ak_Apply K x e = Inr (ak_Projection K e)" "ak_Decode K (pu_State u) = Some (ak_Projection K e)"
      "ak_Version K (ak_Projection K e) = add64 (pu_ExpectedVersion u) 1" "ak_ID K (ak_Projection K e) = pu_AggregateID u"
      "ak_TenantID K (ak_Projection K e) = pu_TenantID u" "pu_AggregateID u \<noteq> []" .
    with ver(2) show ?thesis by (auto simp: pu projection_of_def intro: history.step)
  next
    assume "map_of (ms_projections (commit r s)) k = map_of (ms_projections s) k"
    with p past show ?thesis unfolding sound_states_def by (metis list.set_intros(1))
  qed
qed

lemma step_commit:
  assumes codec: "reads_back K"
    and past: "\<forall>s1 \<in> set (s # ss). sound_states K s1 \<and> projections_ok s1 \<and> plain_keys s1 \<and> grown s1 s"
    and range: "versions_in n s" and good: "good_commit jcs s r"
    and plain: "\<forall>u \<in> set (tq_Updates r). nul_free (pu_TenantID u) \<and> nul_free (pu_AggregateType u)"
    and decided: "\<forall>u \<in> set (tq_Updates r). pu_AggregateType u = ak_Type K \<longrightarrow> decided_update K (s # ss) u"
    and t: "nul_free t"
  obtains x x' where "stored_state K s t i = Some x" "stored_state K (commit r s) t i = Some x'" "one_step K x x'"
proof (rule commit_entries [OF good, of "aggregateKey t (ak_Type K) i"])
  fix u assume u: "u \<in> set (tq_Updates r)" "update_key u = aggregateKey t (ak_Type K) i"
    "map_of (ms_projections (commit r s)) (aggregateKey t (ak_Type K) i) = Some (projection_of u)"
  have pl: "nul_free (pu_TenantID u)" "nul_free (pu_AggregateType u)" using plain u(1) by blast+
  then have same: "pu_TenantID u = t" "pu_AggregateType u = ak_Type K" "pu_AggregateID u = i"
    using u(2) aggregateKey_inject [OF pl(1) t pl(2) type_plain] by auto
  have ver: "current_version s (update_key u) = pu_ExpectedVersion u"
    using good u(1) unfolding good_commit_def by blast
  have dec: "decided_update K (s # ss) u" using decided u(1) same(2) by blast
  from decided_current [OF codec past refl range pl(1) same(2) dec ver]
  obtain x c e where "stored_state K s t i = Some x" "ak_Decide K x c = Inr e"
    "ak_Apply K x e = Inr (ak_Projection K e)" "ak_Decode K (pu_State u) = Some (ak_Projection K e)"
    unfolding same by metis
  moreover from this(4) u(3) have "stored_state K (commit r s) t i = Some (ak_Projection K e)"
    by (simp add: stored_state_def projection_of_def)
  ultimately show thesis using that unfolding one_step_def by blast
next
  assume kept: "map_of (ms_projections (commit r s)) (aggregateKey t (ak_Type K) i)
      = map_of (ms_projections s) (aggregateKey t (ak_Type K) i)"
  have sound: "sound_states K s" "projections_ok s" "plain_keys s" using past by simp_all
  have "\<exists>x. stored_state K s t i = Some x"
  proof (cases "map_of (ms_projections s) (aggregateKey t (ak_Type K) i)")
    case (Some p)
    from sound_at [OF sound t Some] show ?thesis by (metis Some option.simps(5) stored_state_def)
  qed (simp add: stored_state_def)
  moreover from kept have "stored_state K (commit r s) t i = stored_state K s t i" by (simp add: stored_state_def)
  ultimately show thesis using that unfolding one_step_def by metis
qed

end

section \<open>Projects and tasks\<close>

definition project_kind :: "orch_codec \<Rightarrow> (Project, ProjectCommand, ProjectEvent) aggregate_kind" where
  "project_kind cd =
     \<lparr>ak_Type = ''project'', ak_Encode = ec_project cd, ak_Decode = dc_project cd, ak_Decide = DecideProject,
      ak_Apply = ApplyProject, ak_Version = prj_Version, ak_EventVersion = pe_AggregateVersion,
      ak_Projection = pe_Projection, ak_ID = prj_ID, ak_TenantID = prj_TenantID, ak_Zero = zero_Project,
      ak_Creates = (\<lambda>c t i. pc_Type c = ProjectCommandCreate \<and> pc_TenantID c = t \<and> pc_ProjectID c = i)\<rparr>"

definition task_kind :: "orch_codec \<Rightarrow> (ModuleTask, TaskCommand, TaskEvent) aggregate_kind" where
  "task_kind cd =
     \<lparr>ak_Type = ''task'', ak_Encode = ec_task cd, ak_Decode = dc_task cd, ak_Decide = DecideTask,
      ak_Apply = ApplyTask, ak_Version = mt_Version, ak_EventVersion = te_AggregateVersion,
      ak_Projection = te_Projection, ak_ID = mt_ID, ak_TenantID = mt_TenantID, ak_Zero = zero_ModuleTask,
      ak_Creates = (\<lambda>c t i. (tc_Type c = TaskCommandDefine \<or> tc_Type c = TaskCommandQueuePlanning)
         \<and> tc_TenantID c = t \<and> tc_TaskID c = i)\<rparr>"

lemma kind_sel [simp]:
  "ak_Type (project_kind cd) = ''project''" "ak_Encode (project_kind cd) = ec_project cd"
  "ak_Decode (project_kind cd) = dc_project cd" "ak_Decide (project_kind cd) = DecideProject"
  "ak_Apply (project_kind cd) = ApplyProject" "ak_Version (project_kind cd) = prj_Version"
  "ak_Projection (project_kind cd) = pe_Projection" "ak_ID (project_kind cd) = prj_ID"
  "ak_TenantID (project_kind cd) = prj_TenantID" "ak_Zero (project_kind cd) = zero_Project"
  "ak_Creates (project_kind cd) = (\<lambda>c t i. pc_Type c = ProjectCommandCreate \<and> pc_TenantID c = t \<and> pc_ProjectID c = i)"
  "ak_Type (task_kind cd) = ''task''" "ak_Encode (task_kind cd) = ec_task cd"
  "ak_Decode (task_kind cd) = dc_task cd" "ak_Decide (task_kind cd) = DecideTask"
  "ak_Apply (task_kind cd) = ApplyTask" "ak_Version (task_kind cd) = mt_Version"
  "ak_Projection (task_kind cd) = te_Projection" "ak_ID (task_kind cd) = mt_ID"
  "ak_TenantID (task_kind cd) = mt_TenantID" "ak_Zero (task_kind cd) = zero_ModuleTask"
  "ak_Creates (task_kind cd) = (\<lambda>c t i. (tc_Type c = TaskCommandDefine \<or> tc_Type c = TaskCommandQueuePlanning)
     \<and> tc_TenantID c = t \<and> tc_TaskID c = i)"
  by (simp_all add: project_kind_def task_kind_def)

lemma project_named:
  "project_command ty p c = Inr (e, n) \<Longrightarrow> prj_ID p \<noteq> [] \<Longrightarrow> prj_ID n = prj_ID p \<and> prj_TenantID n = prj_TenantID p"
  by (cases ty) (auto simp: project_commands Let_def split: option.splits if_splits)

lemma task_tenant: "task_command ty t c = Inr (e, n) \<Longrightarrow> mt_ID t \<noteq> [] \<Longrightarrow> mt_TenantID n = mt_TenantID t"
  by (cases ty) (auto simp: task_commands Let_def split: option.splits if_splits)

interpretation projects: stored_aggregate "project_kind cd" for cd
proof unfold_locales
  fix x c e assume dec: "ak_Decide (project_kind cd) x c = Inr e"
  show "ak_Version (project_kind cd) (ak_Projection (project_kind cd) e) = add64 (ak_Version (project_kind cd) x) 1"
    using dec by (auto elim: DecideProject_InrE)
  show "ak_ID (project_kind cd) (ak_Projection (project_kind cd) e) \<noteq> [] \<Longrightarrow>
      ak_Apply (project_kind cd) x e = Inr (ak_Projection (project_kind cd) e)"
    using dec by (auto simp: ApplyProject_iff elim!: DecideProject_InrE)
  show "ak_ID (project_kind cd) x \<noteq> [] \<Longrightarrow>
      ak_ID (project_kind cd) (ak_Projection (project_kind cd) e) = ak_ID (project_kind cd) x
      \<and> ak_TenantID (project_kind cd) (ak_Projection (project_kind cd) e) = ak_TenantID (project_kind cd) x"
    using dec by (auto dest: project_named elim!: DecideProject_InrE)
next
  fix c e t i
  assume "ak_Decide (project_kind cd) (ak_Zero (project_kind cd)) c = Inr e" "ak_Creates (project_kind cd) c t i"
  then show "ak_ID (project_kind cd) (ak_Projection (project_kind cd) e) = i
      \<and> ak_TenantID (project_kind cd) (ak_Projection (project_kind cd) e) = t"
    by (auto simp: project_create_def Let_def split: if_splits elim!: DecideProject_InrE)
qed (simp_all add: nul_free_def zero_Project_def)

interpretation tasks: stored_aggregate "task_kind cd" for cd
proof unfold_locales
  fix x c e assume dec: "ak_Decide (task_kind cd) x c = Inr e"
  show "ak_Version (task_kind cd) (ak_Projection (task_kind cd) e) = add64 (ak_Version (task_kind cd) x) 1"
    using dec by (auto elim: DecideTask_InrE)
  show "ak_ID (task_kind cd) (ak_Projection (task_kind cd) e) \<noteq> [] \<Longrightarrow>
      ak_Apply (task_kind cd) x e = Inr (ak_Projection (task_kind cd) e)"
    using dec by (auto simp: ApplyTask_iff elim!: DecideTask_InrE)
  show "ak_ID (task_kind cd) x \<noteq> [] \<Longrightarrow>
      ak_ID (task_kind cd) (ak_Projection (task_kind cd) e) = ak_ID (task_kind cd) x
      \<and> ak_TenantID (task_kind cd) (ak_Projection (task_kind cd) e) = ak_TenantID (task_kind cd) x"
    using dec by (auto dest: task_named task_tenant elim!: DecideTask_InrE)
next
  fix c e t i
  assume "ak_Decide (task_kind cd) (ak_Zero (task_kind cd)) c = Inr e" "ak_Creates (task_kind cd) c t i"
  then show "ak_ID (task_kind cd) (ak_Projection (task_kind cd) e) = i
      \<and> ak_TenantID (task_kind cd) (ak_Projection (task_kind cd) e) = t"
    by (auto simp: task_define_def task_queue_planning_def Let_def split: if_splits elim!: DecideTask_InrE)
qed (simp_all add: nul_free_def zero_ModuleTask_def)

end
