(* ===== verification/Orch_Runs.thy ===== *)
theory Orch_Runs
  imports Orch_Safety
begin

text \<open>
  What the transactions of the handlers do, and the traces of stores that concurrent handlers
  produce: every update of a project or a task comes from a command decided on a state the
  aggregate had, and every store of a trace holds aggregates with a history.
\<close>

section \<open>Traces\<close>

datatype orch_call =
    CallProject ProjectRequest
  | CallTask TaskRequest
  | CallQueue QueuePlanTasksRequest
  | CallPublish PublishPlanRequest

primrec call_tenant :: "orch_call \<Rightarrow> string" where
  "call_tenant (CallProject r) = rp_TenantID r"
| "call_tenant (CallTask r) = rt_TenantID r"
| "call_tenant (CallQueue r) = qp_TenantID r"
| "call_tenant (CallPublish r) = pp_TenantID r"

primrec call_plans :: "orchestrator \<Rightarrow> store_view \<Rightarrow> orch_call \<Rightarrow> TransactionRequest \<Rightarrow> bool" where
  "call_plans sv view (CallProject r) tx = (HandleProject_plan sv view r = Inr (Commit tx))"
| "call_plans sv view (CallTask r) tx = (handleTaskOnce_plan sv view r = Inr (Commit tx))"
| "call_plans sv view (CallQueue r) tx = (QueuePlanTasks_plan sv view r = Inr (Commit tx))"
| "call_plans sv view (CallPublish r) tx = (PublishPlan_plan sv view r = Inr (Commit tx))"

definition answered :: "MemoryStore list \<Rightarrow> (MemoryStore \<Rightarrow> store_error + 'a) \<Rightarrow> store_error + 'a \<Rightarrow> bool" where
  \<comment> \<open>a call of the store fails, or answers for a store of the trace\<close>
  "answered trace f r \<longleftrightarrow> (\<exists>e. r = Inl e) \<or> (\<exists>s \<in> set trace. r = f s)"

definition view_from :: "MemoryStore list \<Rightarrow> store_view \<Rightarrow> bool" where
  "view_from trace v \<longleftrightarrow>
     (\<forall>t p k d. answered trace (Lookup t p k d) (sw_Lookup v t p k d))
     \<and> (\<forall>t ty i. answered trace (\<lambda>s. Inr (Load t ty i s)) (sw_Load v t ty i))
     \<and> (\<forall>t p. answered trace (ListProjections t p ''task'') (sw_Tasks v t p))
     \<and> (\<forall>t p. answered trace (ListProjections t p ''task'') (sw_CoreTasks v t p))"

lemma view_of_from: "s \<in> set trace \<Longrightarrow> view_from trace (view_of s)"
  by (auto simp: view_from_def view_of_def answered_def)

definition other_transaction :: "TransactionRequest \<Rightarrow> bool" where
  \<comment> \<open>a transaction of another component\<close>
  "other_transaction tx \<longleftrightarrow>
     (\<forall>u \<in> set (tq_Updates tx). nul_free (pu_TenantID u) \<and> nul_free (pu_AggregateType u)
        \<and> pu_AggregateType u \<noteq> ''project'' \<and> pu_AggregateType u \<noteq> ''task'')"

fun executes :: "store_op \<Rightarrow> bool" where
  "executes (OpExecute tx) = True"
| "executes _ = False"

inductive orch_trace :: "orch_codec \<Rightarrow> MemoryStore list \<Rightarrow> bool" for cd where
  start: "orch_trace cd [NewMemoryStore]"
| handled: "orch_trace cd (s # ss) \<Longrightarrow> view_from (s # ss) view \<Longrightarrow> os_codec sv = cd \<Longrightarrow> nul_free (call_tenant call) \<Longrightarrow>
     call_plans sv view call tx \<Longrightarrow> orch_trace cd (snd (Execute (cd_jcs cd) tx s) # s # ss)"
| other: "orch_trace cd (s # ss) \<Longrightarrow> other_transaction tx \<Longrightarrow> orch_trace cd (snd (Execute (cd_jcs cd) tx s) # s # ss)"
| operated: "orch_trace cd (s # ss) \<Longrightarrow> \<not> executes op \<Longrightarrow> orch_trace cd (store_after (cd_jcs cd) op s # s # ss)"

inductive_cases orch_trace_ConsE: "orch_trace cd (s' # s # ss)"

lemma orch_trace_nonempty: "\<not> orch_trace cd []"
  by (auto elim: orch_trace.cases)

section \<open>Loaded aggregates\<close>

definition store_sound :: "orch_codec \<Rightarrow> MemoryStore \<Rightarrow> bool" where
  "store_sound cd s \<longleftrightarrow>
     store_ok (cd_jcs cd) s \<and> plain_keys s \<and> sound_states (project_kind cd) s \<and> sound_states (task_kind cd) s"

lemma store_soundD:
  assumes "store_sound cd s"
  shows "projections_ok s" "plain_keys s" "sound_states (project_kind cd) s" "sound_states (task_kind cd) s"
  using assms unfolding store_sound_def store_ok_def by blast+

lemma load_from_known:
  assumes "view_from trace v" "load_from v t ty i = Inr (Some p)"
  shows "known trace t ty i (pj_State p)"
proof -
  from assms(2) have load: "sw_Load v t ty i = Inr (p, True)" by (auto simp: load_from_def split: if_splits)
  moreover have "answered trace (\<lambda>s. Inr (Load t ty i s)) (sw_Load v t ty i)"
    using assms(1) unfolding view_from_def by blast
  ultimately obtain s where "s \<in> set trace" "Load t ty i s = (p, True)" unfolding answered_def by auto
  then show ?thesis by (auto simp: known_def Load_def split: option.splits)
qed

lemma known_kind:
  assumes "\<forall>s \<in> set trace. store_sound cd s" "nul_free t" "known trace t ''task'' i state" "dc_task cd state = Some x"
  shows "mt_ID x = i" "mt_TenantID x = t"
proof -
  from assms(3) obtain s p where s: "s \<in> set trace" "map_of (ms_projections s) (aggregateKey t ''task'' i) = Some p"
    "pj_State p = state" unfolding known_def by blast
  from assms(1) s(1) have "store_sound cd s" by blast
  note sound = store_soundD [OF this]
  from s(2) have at: "map_of (ms_projections s) (aggregateKey t (ak_Type (task_kind cd)) i) = Some p" by simp
  obtain y where "dc_task cd (pj_State p) = Some y" "mt_ID y = i" "mt_TenantID y = t"
    by (rule tasks.sound_at [OF sound(4,1,2) assms(2) at]) simp
  with s(3) assms(4) show "mt_ID x = i" "mt_TenantID x = t" by simp_all
qed

definition task_source :: "orchestrator \<Rightarrow> MemoryStore list \<Rightarrow> string \<Rightarrow> string \<Rightarrow> ModuleTask \<Rightarrow> bool" where
  "task_source sv trace t i x \<longleftrightarrow> (\<exists>state. known trace t ''task'' i state \<and> dc_task (os_codec sv) state = Some x)"

lemma task_source_decided: "task_source sv trace t i x \<Longrightarrow> decided_from (task_kind (os_codec sv)) trace t i x c"
  by (auto simp: task_source_def decided_from_def)

lemma load_task_source:
  "view_from trace v \<Longrightarrow> load_task sv v t p i e1 e2 = Inr x \<Longrightarrow> task_source sv trace t i x"
  unfolding load_task_def
  by (auto simp: task_source_def decodeTask_def split: option.splits if_splits dest: load_from_known)

lemma decode_all_set: "decode_all f ps = Inr xs \<Longrightarrow> x \<in> set xs \<Longrightarrow> \<exists>p \<in> set ps. f p = Inr x"
  by (induction ps arbitrary: xs) auto

lemma listed_projection:
  assumes "projections_ok s" "q \<in> snd ` set (ms_projections s)"
  shows "map_of (ms_projections s) (projection_key q) = Some q"
proof -
  from assms(2) obtain k where "(k, q) \<in> set (ms_projections s)" by auto
  moreover have "distinct (map fst (ms_projections s))" using assms(1) by (simp add: projections_ok_def gomap_ok_def)
  ultimately have "map_of (ms_projections s) k = Some q" by simp
  with assms(1) show ?thesis unfolding projections_ok_def by auto
qed

lemma listed_source:
  assumes trace: "\<forall>s \<in> set trace. store_sound (os_codec sv) s"
    and listed: "answered trace (ListProjections t p ''task'') r" and tasks: "Tasks sv t p r = Inr xs" and x: "x \<in> set xs"
  shows "task_source sv trace t (mt_ID x) x"
proof -
  from tasks obtain ps where ps: "r = Inr ps" "decode_all (check_listed sv t p) ps = Inr xs" by (auto simp: Tasks_def)
  from decode_all_set [OF this(2) x] obtain q where q: "q \<in> set ps" "check_listed sv t p q = Inr x" by blast
  from q(2) have dec: "dc_task (os_codec sv) (pj_State q) = Some x" "mt_ID x = pj_AggregateID q"
    by (auto simp: check_listed_def decodeTask_def split: if_splits)
  from listed ps(1) obtain s where s: "s \<in> set trace" "ListProjections t p ''task'' s = Inr ps"
    unfolding answered_def by auto
  from s(2) q(1) have inq: "q \<in> snd ` set (ms_projections s)" "pj_TenantID q = t" "pj_AggregateType q = ''task''"
    by (auto simp: ListProjections_def split: if_splits)
  from trace s(1) have "projections_ok s" using store_soundD(1) by blast
  from listed_projection [OF this inq(1)] have "map_of (ms_projections s) (projection_key q) = Some q" .
  with inq s(1) dec show ?thesis unfolding task_source_def known_def by auto
qed

section \<open>Updates of a plan\<close>

definition proper :: "orchestrator \<Rightarrow> MemoryStore list \<Rightarrow> string \<Rightarrow> ProjectionUpdate \<Rightarrow> bool" where
  "proper sv trace t u \<longleftrightarrow>
     pu_TenantID u = t \<and> pu_AggregateType u \<in> {''project'', ''task'', ''goal_message'', ''goal_spec''}
     \<and> (pu_AggregateType u = ''project'' \<longrightarrow> decided_update (project_kind (os_codec sv)) trace u)
     \<and> (pu_AggregateType u = ''task'' \<longrightarrow> decided_update (task_kind (os_codec sv)) trace u)"

abbreviation all_proper :: "orchestrator \<Rightarrow> MemoryStore list \<Rightarrow> string \<Rightarrow> transition list \<Rightarrow> bool" where
  "all_proper sv trace t ts \<equiv> list_all (\<lambda>x. proper sv trace t (fst x)) ts"

lemma encode_transition_update:
  assumes "encode_transition cd t p ty i expected state et v at_time d ids0 = Inr (((u, e), result), rest)"
  shows "state = Some result"
    "u = \<lparr>pu_TenantID = t, pu_ProjectID = p, pu_AggregateType = ty, pu_AggregateID = i, pu_ExpectedVersion = expected,
          pu_NextVersion = v, pu_State = result\<rparr>"
  using assms by (auto simp: encode_transition_def)

lemma proper_project:
  assumes "decided_from (project_kind (os_codec sv)) trace t p x c" "DecideProject x c = Inr ev" "expected = prj_Version x"
    and "encodeProjectTransition (os_codec sv) t p expected ev d ids0 = Inr ((tr, result), rest)"
  shows "proper sv trace t (fst tr)"
proof -
  obtain u e where tr: "tr = (u, e)" by force
  show ?thesis using assms(1-3) encode_transition_update [OF assms(4) [unfolded encodeProjectTransition_def tr]]
    unfolding proper_def decided_update_def by (auto simp: tr)
qed

lemma proper_task:
  assumes "decided_from (task_kind (os_codec sv)) trace t i x c" "DecideTask x c = Inr ev" "expected = mt_Version x"
    and "encodeTaskTransition (os_codec sv) t p i expected ev d ids0 = Inr ((tr, result), rest)"
  shows "proper sv trace t (fst tr)"
proof -
  obtain u e where tr: "tr = (u, e)" by force
  show ?thesis using assms(1-3) encode_transition_update [OF assms(4) [unfolded encodeTaskTransition_def tr]]
    unfolding proper_def decided_update_def by (auto simp: tr)
qed

lemma decide_Inr [simp]:
  "decide_task x c = Inr ev \<longleftrightarrow> DecideTask x c = Inr ev" "decide_project p pc = Inr pev \<longleftrightarrow> DecideProject p pc = Inr pev"
  by (auto simp: decide_task_def decide_project_def split: sum.splits)

lemma task_transition_proper:
  assumes "task_transition sv t p i x c d ids0 = Inr ((tr, y), rest)" "decided_from (task_kind (os_codec sv)) trace t i x c"
  shows "proper sv trace t (fst tr)" "\<exists>ev. DecideTask x c = Inr ev \<and> y = te_Projection ev"
  using assms proper_task [OF assms(2) _ refl] by (auto simp: task_transition_def)

lemma supersede_proper:
  "view_from trace v \<Longrightarrow> supersede_tasks sv v r at_time d ids ids0 = Inr (ts, rest) \<Longrightarrow> all_proper sv trace (rp_TenantID r) ts"
  by (induction ids arbitrary: ids0 ts rest)
    (auto dest!: load_task_source task_transition_proper(1) [OF _ task_source_decided])

lemma block_proper:
  "view_from trace v \<Longrightarrow> block_dependents sv v r at_time d ids ids0 = Inr (ts, rest) \<Longrightarrow> all_proper sv trace (rt_TenantID r) ts"
  by (induction ids arbitrary: ids0 ts rest)
    (auto dest!: load_task_source task_transition_proper(1) [OF _ task_source_decided])

lemma unblock_proper:
  "view_from trace v \<Longrightarrow> unblock_dependents sv v r at_time d ids ids0 = Inr (ts, rest) \<Longrightarrow> all_proper sv trace (rt_TenantID r) ts"
  by (induction ids arbitrary: ids0 ts rest)
    (auto split: if_splits dest!: load_task_source task_transition_proper(1) [OF _ task_source_decided])

lemma ready_proper:
  assumes "\<And>i x. map_of byID i = Some x \<Longrightarrow> mt_State x = TaskDefined \<Longrightarrow> task_source sv trace (rt_TenantID r) i x"
  shows "ready_dependents sv r byID at_time d ids ids0 = Inr (ts, rest) \<Longrightarrow> all_proper sv trace (rt_TenantID r) ts"
proof (induction ids arbitrary: ids0 ts rest)
  case (Cons i ids)
  then show ?case
    by (auto split: option.splits if_splits dest!: task_transition_proper(1) [OF _ task_source_decided] intro: assms)
qed simp

lemma task_index_source:
  assumes "map_of (task_index xs) i = Some x" shows "x \<in> set xs \<and> mt_ID x = i"
proof -
  have "map_of (foldl (\<lambda>m t. gomap_put (mt_ID t) t m) m xs) i = Some x \<Longrightarrow> x \<in> set xs \<and> mt_ID x = i \<or> map_of m i = Some x" for m
    by (induction xs arbitrary: m) (fastforce simp: amap.look_store split: if_splits)+
  from this [of "[]"] assms show ?thesis by (auto simp: task_index_def)
qed

lemma advance_not_defined:
  assumes "DecideTask x c = Inr ev" "tc_Type c = TaskCommandLLMSuccess \<or> tc_Type c = TaskCommandIntegrate"
  shows "mt_State (te_Projection ev) \<noteq> TaskDefined"
  using assms
  by (auto simp: task_llm_success_def task_integrate_def Let_def split: if_splits elim!: DecideTask_InrE)

lemma readied_proper:
  assumes trace: "\<forall>s \<in> set trace. store_sound (os_codec sv) s" and view: "view_from trace v"
    and advanced: "mt_State y \<noteq> TaskDefined"
    and ready: "readyAuditedDependents sv v r y at_time d ids0 = Inr (ts, rest)"
  shows "all_proper sv trace (rt_TenantID r) ts"
proof (cases "mt_DependentTaskIDs y = []")
  case False
  with ready obtain xs where xs: "Tasks sv (rt_TenantID r) (rt_ProjectID r) (sw_Tasks v (rt_TenantID r) (rt_ProjectID r)) = Inr xs"
    and ready: "ready_dependents sv r (gomap_put (mt_ID y) y (task_index xs)) at_time d (sort (mt_DependentTaskIDs y)) ids0
      = Inr (ts, rest)" by (auto simp: readyAuditedDependents_def)
  have "answered trace (ListProjections (rt_TenantID r) (rt_ProjectID r) ''task'') (sw_Tasks v (rt_TenantID r) (rt_ProjectID r))"
    using view unfolding view_from_def by blast
  note source = listed_source [OF trace this xs]
  show ?thesis
  proof (rule ready_proper [OF _ ready])
    fix i x assume "map_of (gomap_put (mt_ID y) y (task_index xs)) i = Some x" "mt_State x = TaskDefined"
    then have "map_of (task_index xs) i = Some x" using advanced by (auto simp: amap.look_store split: if_splits)
    then have "x \<in> set xs" "mt_ID x = i" by (simp_all add: task_index_source)
    with source show "task_source sv trace (rt_TenantID r) i x" by blast
  qed
qed (use ready in \<open>simp add: readyAuditedDependents_def\<close>)

definition project_source :: "orchestrator \<Rightarrow> MemoryStore list \<Rightarrow> string \<Rightarrow> string \<Rightarrow> Project \<Rightarrow> bool" where
  "project_source sv trace t i x \<longleftrightarrow> (\<exists>state. known trace t ''project'' i state \<and> dc_project (os_codec sv) state = Some x)"

lemma project_source_decided: "project_source sv trace t i x \<Longrightarrow> decided_from (project_kind (os_codec sv)) trace t i x c"
  by (auto simp: project_source_def decided_from_def)

lemma task_project_source:
  assumes view: "view_from trace v" and p: "task_project sv v r ty = Inr p"
  shows "project_source sv trace (rt_TenantID r) (rt_ProjectID r) p"
proof -
  from p obtain found where load: "load_from v (rt_TenantID r) ''project'' (rt_ProjectID r) = Inr found"
    and q: "found \<noteq> None" by (auto simp: task_project_def split: option.splits)
  then obtain q where found: "found = Some q" by blast
  with p load have "dc_project (os_codec sv) (pj_State q) = Some p"
    unfolding task_project_def
    by (cases "dc_project (os_codec sv) (pj_State q)") (simp_all add: decodeProject_def encoded_def Let_def if_Inl_Inr)
  with load_from_known [OF view load [unfolded found]] show ?thesis unfolding project_source_def by blast
qed

lemma exact_project_source:
  "view_from trace v \<Longrightarrow> exact_project sv v t i expected = Inr p \<Longrightarrow> project_source sv trace t i p \<and> prj_Version p = expected"
  unfolding exact_project_def
  by (auto simp: project_source_def decodeProject_def split: option.splits if_splits dest: load_from_known)

lemma core_proper:
  assumes "project_source sv trace (rt_TenantID r) (rt_ProjectID r) p"
    and "coreSummaryTransition sv v r p y at_time d ids0 = Inr (ts, rest)"
  shows "all_proper sv trace (rt_TenantID r) ts"
  using assms(2) proper_project [OF project_source_decided [OF assms(1)] _ refl]
  unfolding coreSummaryTransition_def by (auto split: option.splits if_splits)

lemma related_proper:
  assumes trace: "\<forall>s \<in> set trace. store_sound (os_codec sv) s" and view: "view_from trace v"
    and project: "project_source sv trace (rt_TenantID r) (rt_ProjectID r) p"
    and decided: "DecideTask x c = Inr ev"
    and related: "related_tasks sv v r p x c (te_Projection ev) d ids0 = Inr (ts, rest)"
  shows "all_proper sv trace (rt_TenantID r) ts"
  using related block_proper [OF view] unblock_proper [OF view] core_proper [OF project]
    readied_proper [OF trace view advance_not_defined [OF decided]]
  unfolding related_tasks_def by (auto split: if_splits)

lemma load_current_source:
  assumes "view_from trace v" "load_current_task sv v r ty = Inr x"
  shows "mt_Version x = rt_ExpectedVersion r
    \<and> (task_source sv trace (rt_TenantID r) (rt_TaskID r) x \<or> x = zero_ModuleTask \<and> ty = TaskCommandDefine)"
  using assms(2)
  unfolding load_current_task_def task_source_def decodeTask_def
  by (auto split: option.splits if_splits dest: load_from_known [OF assms(1)])

lemma decided_task_proper:
  assumes trace: "\<forall>s \<in> set trace. store_sound (os_codec sv) s" and view: "view_from trace v"
    and project: "project_source sv trace (rt_TenantID r) (rt_ProjectID r) p"
    and current: "load_current_task sv v r (tc_Type (rt_Command r)) = Inr x" and named: "rt_TaskID r \<noteq> []"
    and decided: "decided_task sv v r d p x = Inr tx"
  shows "list_all (proper sv trace (rt_TenantID r)) (tq_Updates tx)"
proof -
  let ?c = "(normalizedTaskCommand r)\<lparr>tc_At := utc (os_clock sv)\<rparr>"
  from decided obtain ev t result s1 ts rest where dec: "DecideTask x ?c = Inr ev"
    and enc: "encodeTaskTransition (os_codec sv) (rt_TenantID r) (rt_ProjectID r) (rt_TaskID r) (rt_ExpectedVersion r) ev d
      (os_uuids sv) = Inr ((t, result), s1)"
    and related: "related_tasks sv v r p x ?c (te_Projection ev) d s1 = Inr (ts, rest)"
    and tx: "tq_Updates tx = map fst (t # ts)"
    unfolding decided_task_def by (auto simp: Let_def)
  note x = load_current_source [OF view current]
  then have "decided_from (task_kind (os_codec sv)) trace (rt_TenantID r) (rt_TaskID r) x ?c"
  proof (elim conjE disjE)
    assume "x = zero_ModuleTask" "tc_Type (rt_Command r) = TaskCommandDefine"
    with named show ?thesis by (simp add: decided_from_def normalizedTaskCommand_def)
  qed (rule task_source_decided)
  from proper_task [OF this dec _ enc] x have "proper sv trace (rt_TenantID r) (fst t)" by simp
  with related_proper [OF trace view project dec related] show ?thesis by (simp add: tx list_all_iff)
qed

lemma content_proper:
  assumes "content_transition sv r ty i expected content et at_time d ids0 = Inr (tr, rest)"
    and "ty = ''goal_message'' \<or> ty = ''goal_spec''"
  shows "proper sv trace (rp_TenantID r) (fst tr)"
  using assms by (auto simp: content_transition_def proper_def)

lemma status_proper:
  assumes "goalSpecStatusTransition sv v r g status a at_time d ids0 = Inr (found, rest)"
  shows "all_proper sv trace (rp_TenantID r) (case found of None \<Rightarrow> [] | Some u \<Rightarrow> [u])"
  using assms content_proper unfolding goalSpecStatusTransition_def
  by (fastforce simp: Let_def split: option.splits if_splits)

lemma message_proper:
  assumes "message_transition sv v r c d ids0 = Inr (ts, rest)" shows "all_proper sv trace (rp_TenantID r) ts"
  using assms content_proper unfolding message_transition_def by (fastforce split: option.splits if_splits)

lemma new_goal_proper:
  assumes "new_goal_transition sv v r p c g spec d ids0 = Inr (ts, rest)"
  shows "all_proper sv trace (rp_TenantID r) ts"
proof -
  let ?old = "case prj_Goal p of None \<Rightarrow> Inr (None, ids0)
    | Some old \<Rightarrow> if gr_Version old < gr_Version g
        then goalSpecStatusTransition sv v r old GoalSuperseded None (pc_At c) d ids0 else Inr (None, ids0)"
  from assms obtain old s1 content s2 t where old: "?old = Inr (old, s1)"
    and t: "content_transition sv r ''goal_spec'' (goalSpecAggregateID (rp_ProjectID r) (gr_ID g) (gr_Version g)) 0 content
      ''io.aor.goal.spec-stored.v1'' (pc_At c) d s2 = Inr (t, rest)"
    and ts: "ts = (case old of None \<Rightarrow> [] | Some u \<Rightarrow> [u]) @ [t]"
    unfolding new_goal_transition_def Let_def by (auto split: if_splits)
  have "all_proper sv trace (rp_TenantID r) (case old of None \<Rightarrow> [] | Some u \<Rightarrow> [u])"
    using old by (auto split: option.splits if_splits dest: status_proper [where trace = trace])
  with content_proper [OF t] show ?thesis by (simp add: ts)
qed

lemma goals_proper:
  assumes "goalRelatedTransitions sv v r p c d ids0 = Inr (ts, rest)"
  shows "all_proper sv trace (rp_TenantID r) ts"
  using assms message_proper new_goal_proper status_proper
  unfolding goalRelatedTransitions_def goal_change_transition_def
  by (fastforce split: if_splits option.splits)

lemma finalized_same:
  assumes "finalizeGoalCommand c ids0 = Inr (c', rest)"
  shows "pc_Type c' = pc_Type c" "pc_TenantID c' = pc_TenantID c" "pc_ProjectID c' = pc_ProjectID c" "pc_At c' = pc_At c"
    "pc_Guard c' = pc_Guard c" "pc_Completion c' = pc_Completion c" "pc_ActorID c' = pc_ActorID c"
  using assms by (auto simp: finalizeGoalCommand_def Let_def)

lemma prepared_command_same:
  assumes "project_command_of sv r = Inr c"
  shows "pc_Type c = pc_Type (rp_Command r)" "pc_TenantID c = rp_TenantID r" "pc_ProjectID c = rp_ProjectID r"
    "pc_ActorID c = rp_PrincipalID r"
proof -
  obtain c1 where c1: "prepareProjectLifecycleCommand r ((rp_Command r)\<lparr>pc_TenantID := rp_TenantID r, pc_ProjectID := rp_ProjectID r,
      pc_ActorID := rp_PrincipalID r, pc_At := 0\<rparr>) = Inr c1"
    using assms unfolding project_command_of_def prepareGoalCommand_def by auto
  then have "pc_Type c1 = pc_Type (rp_Command r)" "pc_TenantID c1 = rp_TenantID r" "pc_ProjectID c1 = rp_ProjectID r"
    "pc_ActorID c1 = rp_PrincipalID r"
    unfolding prepareProjectLifecycleCommand_def by (cases "pc_Type (rp_Command r)"; auto split: option.splits)+
  with assms c1 show "pc_Type c = pc_Type (rp_Command r)" "pc_TenantID c = rp_TenantID r" "pc_ProjectID c = rp_ProjectID r"
    "pc_ActorID c = rp_PrincipalID r"
    unfolding project_command_of_def prepareGoalCommand_def prepare_goal_message_def
    by (auto simp: Let_def split: option.splits if_splits)
qed

lemma load_project_source:
  assumes "view_from trace v" "load_project sv v r ty = Inr p"
  shows "prj_Version p = rp_ExpectedVersion r
    \<and> (project_source sv trace (rp_TenantID r) (rp_ProjectID r) p \<or> p = zero_Project \<and> ty = ProjectCommandCreate)"
  using assms(2)
  unfolding load_project_def project_source_def decodeProject_def
  by (auto split: option.splits if_splits dest: load_from_known [OF assms(1)])

lemma decided_project_parts:
  assumes "decided_project sv v r c0 d p = Inr tx"
  obtains c s1 ev t result s2 goals s3 tasks s4 where
    "finalizeGoalCommand (c0\<lparr>pc_At := utc (os_clock sv)\<rparr>) (os_uuids sv) = Inr (c, s1)" "DecideProject p c = Inr ev"
    "encodeProjectTransition (os_codec sv) (rp_TenantID r) (rp_ProjectID r) (rp_ExpectedVersion r) ev d s1 = Inr ((t, result), s2)"
    "goalRelatedTransitions sv v r p c d s2 = Inr (goals, s3)"
    "(if pc_Type c = ProjectCommandSupersedeGoal \<or> pc_Type c = ProjectCommandRequestGoalChange
      then supersede_tasks sv v r (pc_At c) d (pc_ImpactedTaskIDs c) s3 else Inr ([], s3)) = Inr (tasks, s4)"
    "validateCommitBoundary sv (projectCommitValidation r p c d) = Inr ()"
    "project_request sv r d c result (t # goals @ tasks) = Inr tx"
  using assms unfolding decided_project_def by auto

lemma decided_project_proper:
  assumes view: "view_from trace v" and c0: "pc_TenantID c0 = rp_TenantID r" "pc_ProjectID c0 = rp_ProjectID r"
    and current: "load_project sv v r (pc_Type c0) = Inr p" and named: "rp_ProjectID r \<noteq> []"
    and decided: "decided_project sv v r c0 d p = Inr tx"
  shows "list_all (proper sv trace (rp_TenantID r)) (tq_Updates tx)"
proof (rule decided_project_parts [OF decided])
  fix c s1 ev t result s2 goals s3 tasks s4
  assume final: "finalizeGoalCommand (c0\<lparr>pc_At := utc (os_clock sv)\<rparr>) (os_uuids sv) = Inr (c, s1)"
    and dec: "DecideProject p c = Inr ev"
    and enc: "encodeProjectTransition (os_codec sv) (rp_TenantID r) (rp_ProjectID r) (rp_ExpectedVersion r) ev d s1 = Inr ((t, result), s2)"
    and goals: "goalRelatedTransitions sv v r p c d s2 = Inr (goals, s3)"
    and tasks: "(if pc_Type c = ProjectCommandSupersedeGoal \<or> pc_Type c = ProjectCommandRequestGoalChange
      then supersede_tasks sv v r (pc_At c) d (pc_ImpactedTaskIDs c) s3 else Inr ([], s3)) = Inr (tasks, s4)"
    and tx: "project_request sv r d c result (t # goals @ tasks) = Inr tx"
  note p = load_project_source [OF view current]
  then have "decided_from (project_kind (os_codec sv)) trace (rp_TenantID r) (rp_ProjectID r) p c"
  proof (elim conjE disjE)
    assume "p = zero_Project" "pc_Type c0 = ProjectCommandCreate"
    with named c0 finalized_same [OF final] show ?thesis by (simp add: decided_from_def)
  qed (rule project_source_decided)
  from proper_project [OF this dec _ enc] p have t: "proper sv trace (rp_TenantID r) (fst t)" by simp
  from tx have "tq_Updates tx = map fst (t # goals @ tasks)" by (auto simp: project_request_def)
  moreover have "all_proper sv trace (rp_TenantID r) tasks" using tasks supersede_proper [OF view] by (auto split: if_splits)
  ultimately show ?thesis using t goals_proper [OF goals, of trace] by (auto simp: list_all_iff)
qed

lemma queue_proper:
  assumes "\<And>d. d \<in> set ds \<Longrightarrow> pl_TaskID d \<noteq> []"
  shows "queue_tasks sv v r deps at_time dg ds ids0 = Inr ((ts, xs), rest) \<Longrightarrow> all_proper sv trace (qp_TenantID r) ts"
  using assms
proof (induction ds arbitrary: ids0 ts xs rest)
  case (Cons d ds)
  show ?case
  proof (cases "pl_Retain d")
    case True
    with Cons.prems(1) obtain xs' where "queue_tasks sv v r deps at_time dg ds ids0 = Inr ((ts, xs'), rest)" by auto
    with Cons.IH Cons.prems(2) show ?thesis by simp
  next
    case False
    let ?c = "queue_command r d (deps (pl_ModuleID d)) at_time"
    from False Cons.prems(1) obtain u y s1 ts' xs' where
      u: "task_transition sv (qp_TenantID r) (qp_ProjectID r) (pl_TaskID d) zero_ModuleTask ?c dg ids0 = Inr ((u, y), s1)"
      and ts: "queue_tasks sv v r deps at_time dg ds s1 = Inr ((ts', xs'), rest)" "ts = u # ts'"
      by (auto split: if_splits)
    have "decided_from (task_kind (os_codec sv)) trace (qp_TenantID r) (pl_TaskID d) zero_ModuleTask ?c"
      using Cons.prems(2) by (simp add: decided_from_def queue_command_def bare_task_command_def)
    from task_transition_proper(1) [OF u this] Cons.IH [OF ts(1)] Cons.prems(2) ts(2) show ?thesis by simp
  qed
qed simp

lemma publish_proper:
  assumes trace: "\<forall>s \<in> set trace. store_sound (os_codec sv) s" and view: "view_from trace v"
    and plain: "nul_free (pp_TenantID r)"
  shows "publish_tasks sv v r deps at_time dg ds ids0 = Inr ((ts, xs), rest) \<Longrightarrow> all_proper sv trace (pp_TenantID r) ts"
proof (induction ds arbitrary: ids0 ts xs rest)
  case (Cons d ds)
  from Cons.prems obtain q x where q: "load_from v (pp_TenantID r) ''task'' (pd_TaskID d) = Inr (Some q)"
    and x: "decodeTask (os_codec sv) (pj_State q) = Inr x" by (auto split: option.splits)
  note known = load_from_known [OF view q]
  have source: "task_source sv trace (pp_TenantID r) (mt_ID x) x"
    using known known_kind(1) [OF trace plain known] x by (auto simp: task_source_def decodeTask_def)
  show ?case
  proof (cases "\<not> pd_Retain d \<and> dependencies_of (pp_DAG r) (pd_ModuleID d) = []")
    case False
    with Cons.prems q x obtain xs' where "publish_tasks sv v r deps at_time dg ds ids0 = Inr ((ts, xs'), rest)"
      by (auto split: if_splits)
    with Cons.IH show ?thesis by simp
  next
    case True
    with Cons.prems q x obtain u y s1 ts' xs' where
      u: "task_transition sv (pp_TenantID r) (pp_ProjectID r) (mt_ID x) x (bare_task_command TaskCommandReadyExecution at_time)
        dg ids0 = Inr ((u, y), s1)"
      and ts: "publish_tasks sv v r deps at_time dg ds s1 = Inr ((ts', xs'), rest)" "ts = u # ts'"
      by (auto split: if_splits)
    from task_transition_proper(1) [OF u task_source_decided [OF source]] Cons.IH [OF ts(1)] ts(2) show ?thesis by simp
  qed
qed simp

lemma planning_definitions_named:
  "planning_definitions dag ms ts ds \<Longrightarrow> d \<in> set ds \<Longrightarrow> pl_TaskID d \<noteq> []"
  by (induction ds arbitrary: ms ts) (auto split: if_splits)

text \<open>The parts of a plan, for the properties of the handlers.\<close>

lemma project_plan_parts:
  assumes "HandleProject_plan sv v r = Inr (Commit tx)"
  obtains c d p where "orch_validateRequest (rp_TenantID r) (rp_ProjectID r) (rp_PrincipalID r) (rp_IdempotencyKey r)
      (rp_ExpectedVersion r) = Inr ()"
    "project_command_of sv r = Inr c" "project_digest sv r c = Inr d" "load_project sv v r (pc_Type c) = Inr p"
    "decided_project sv v r c d p = Inr tx"
  using assms unfolding HandleProject_plan_def by (auto split: option.splits)

lemma task_plan_parts:
  assumes "handleTaskOnce_plan sv v r = Inr (Commit tx)"
  obtains d p x where "orch_validateRequest (rt_TenantID r) (rt_ProjectID r) (rt_PrincipalID r) (rt_IdempotencyKey r)
      (rt_ExpectedVersion r) = Inr ()" "rt_TaskID r \<noteq> []"
    "TaskParameterDigest (os_codec sv) r = Inr d" "task_project sv v r (tc_Type (rt_Command r)) = Inr p"
    "load_current_task sv v r (tc_Type (rt_Command r)) = Inr x" "decided_task sv v r d p x = Inr tx"
  using assms unfolding handleTaskOnce_plan_def by (auto split: option.splits)

lemma queue_plan_parts:
  assumes "QueuePlanTasks_plan sv v r0 = Inr (Commit tx)" and r: "r = r0\<lparr>qp_Tasks := sort_key pl_ModuleID (qp_Tasks r0)\<rparr>"
  obtains d p ts xs s1 result where "validateQueuePlanTasksRequest r0 = Inr ()"
    "dg_queue (os_codec sv) (qp_ExpectedProjectVersion r) r = Some d"
    "exact_project sv v (qp_TenantID r) (qp_ProjectID r) (qp_ExpectedProjectVersion r) = Inr p" "may_queue r p"
    "queue_tasks sv v r (planDependentTaskIDs (planning_pairs (qp_Tasks r)) (qp_DAG r)) (utc (os_clock sv)) d
       (qp_Tasks r) (os_uuids sv) = Inr ((ts, xs), s1)" "ec_queued (os_codec sv) xs = Some result"
    "validateCommitBoundary sv (planningTasksValidation r p d (utc (os_clock sv))) = Inr ()"
    "plan_transaction sv (qp_TenantID r) (qp_PrincipalID r) (qp_IdempotencyKey r) d result ts = Inr tx"
  using assms(1) unfolding QueuePlanTasks_plan_def Let_def r [symmetric] by (auto split: option.splits)

lemma publish_plan_parts:
  assumes "PublishPlan_plan sv v r0 = Inr (Commit tx)" and r: "r = r0\<lparr>pp_Tasks := sort_key pd_ModuleID (pp_Tasks r0)\<rparr>"
  obtains d p ev u result0 s1 ts xs s2 result where "validatePublishPlanRequest r0 = Inr ()"
    "dg_publish (os_codec sv) (pp_ExpectedProjectVersion r) r = Some d"
    "exact_project sv v (pp_TenantID r) (pp_ProjectID r) (pp_ExpectedProjectVersion r) = Inr p"
    "DecideProject p (publish_command r (utc (os_clock sv))) = Inr ev"
    "encodeProjectTransition (os_codec sv) (pp_TenantID r) (pp_ProjectID r) (pp_ExpectedProjectVersion r) ev d
       (os_uuids sv) = Inr ((u, result0), s1)"
    "publish_tasks sv v r (planDependentTaskIDs (plan_pairs (pp_Tasks r)) (pp_DAG r)) (utc (os_clock sv)) d
       (pp_Tasks r) s1 = Inr ((ts, xs), s2)" "ec_published (os_codec sv) (pe_Projection ev) xs = Some result"
    "validateCommitBoundary sv (planCommitValidation r p d (utc (os_clock sv))) = Inr ()"
    "plan_transaction sv (pp_TenantID r) (pp_PrincipalID r) (pp_IdempotencyKey r) d result (u # ts) = Inr tx"
  using assms(1) unfolding PublishPlan_plan_def Let_def r [symmetric] by (auto split: option.splits)

lemma orch_request_named:
  assumes "orch_validateRequest t p a k v = Inr ()" shows "t \<noteq> []" "p \<noteq> []" "a \<noteq> []" "k \<noteq> []" "0 \<le> v"
  using assms by (simp_all add: orch_validateRequest_def)

lemma planned_updates:
  assumes trace: "\<forall>s \<in> set trace. store_sound (os_codec sv) s" and view: "view_from trace v"
    and plain: "nul_free (call_tenant call)" and planned: "call_plans sv v call tx"
  shows "list_all (proper sv trace (call_tenant call)) (tq_Updates tx)"
proof (cases call)
  case (CallProject r)
  with planned have "HandleProject_plan sv v r = Inr (Commit tx)" by simp
  then show ?thesis
  proof (rule project_plan_parts)
    fix c d p
    assume valid: "orch_validateRequest (rp_TenantID r) (rp_ProjectID r) (rp_PrincipalID r) (rp_IdempotencyKey r)
        (rp_ExpectedVersion r) = Inr ()" and c: "project_command_of sv r = Inr c"
      and load: "load_project sv v r (pc_Type c) = Inr p" and decided: "decided_project sv v r c d p = Inr tx"
    from decided_project_proper [OF view prepared_command_same(2,3) [OF c] load orch_request_named(2) [OF valid] decided]
    show ?thesis by (simp add: CallProject)
  qed
next
  case (CallTask r)
  with planned have "handleTaskOnce_plan sv v r = Inr (Commit tx)" by simp
  then show ?thesis
  proof (rule task_plan_parts)
    fix d p x
    assume "rt_TaskID r \<noteq> []" "task_project sv v r (tc_Type (rt_Command r)) = Inr p"
      and "load_current_task sv v r (tc_Type (rt_Command r)) = Inr x" "decided_task sv v r d p x = Inr tx"
    with decided_task_proper [OF trace view task_project_source [OF view]] show ?thesis by (simp add: CallTask)
  qed
next
  case (CallQueue r0)
  define r where "r = r0\<lparr>qp_Tasks := sort_key pl_ModuleID (qp_Tasks r0)\<rparr>"
  from CallQueue planned have "QueuePlanTasks_plan sv v r0 = Inr (Commit tx)" by simp
  then show ?thesis
  proof (rule queue_plan_parts [OF _ r_def])
    fix d p ts xs s1 result
    assume valid: "validateQueuePlanTasksRequest r0 = Inr ()"
      and queue: "queue_tasks sv v r (planDependentTaskIDs (planning_pairs (qp_Tasks r)) (qp_DAG r)) (utc (os_clock sv)) d
        (qp_Tasks r) (os_uuids sv) = Inr ((ts, xs), s1)"
      and tx: "plan_transaction sv (qp_TenantID r) (qp_PrincipalID r) (qp_IdempotencyKey r) d result ts = Inr tx"
    from valid have "planning_definitions (qp_DAG r0) [] [] (qp_Tasks r0)" by (simp add: validateQueuePlanTasksRequest_def)
    then have "pl_TaskID x \<noteq> []" if "x \<in> set (qp_Tasks r)" for x
      using planning_definitions_named that by (auto simp: r_def)
    from queue_proper [OF this queue, of trace] tx show ?thesis
      by (auto simp: plan_transaction_def CallQueue r_def list_all_iff)
  qed
next
  case (CallPublish r0)
  define r where "r = r0\<lparr>pp_Tasks := sort_key pd_ModuleID (pp_Tasks r0)\<rparr>"
  have tenant: "pp_TenantID r = pp_TenantID r0" by (simp add: r_def)
  from CallPublish planned have "PublishPlan_plan sv v r0 = Inr (Commit tx)" by simp
  then show ?thesis
  proof (rule publish_plan_parts [OF _ r_def])
    fix d p ev u result0 s1 ts xs s2 result
    assume p: "exact_project sv v (pp_TenantID r) (pp_ProjectID r) (pp_ExpectedProjectVersion r) = Inr p"
      and dec: "DecideProject p (publish_command r (utc (os_clock sv))) = Inr ev"
      and enc: "encodeProjectTransition (os_codec sv) (pp_TenantID r) (pp_ProjectID r) (pp_ExpectedProjectVersion r) ev d
        (os_uuids sv) = Inr ((u, result0), s1)"
      and ts: "publish_tasks sv v r (planDependentTaskIDs (plan_pairs (pp_Tasks r)) (pp_DAG r)) (utc (os_clock sv)) d
        (pp_Tasks r) s1 = Inr ((ts, xs), s2)"
      and tx: "plan_transaction sv (pp_TenantID r) (pp_PrincipalID r) (pp_IdempotencyKey r) d result (u # ts) = Inr tx"
    have plain_r: "nul_free (pp_TenantID r)" using plain by (simp add: CallPublish tenant)
    note source = exact_project_source [OF view p]
    have "proper sv trace (pp_TenantID r) (fst u)"
      using proper_project [OF project_source_decided dec _ enc] source by simp
    with publish_proper [OF trace view plain_r ts] tx show ?thesis
      by (auto simp: plan_transaction_def CallPublish tenant list_all_iff)
  qed
qed

end
