(* ===== verification/Orch_Trace.thy ===== *)
theory Orch_Trace
  imports Orch_Runs
begin

text \<open>
  Every store that concurrent handlers produce holds projects and tasks with a history, and a step
  of the store is at most one decided command for each of them.
\<close>

section \<open>What depends on the projections only\<close>

lemma same_projections:
  assumes "ms_projections s' = ms_projections s"
  shows "sound_states K s' = sound_states K s" "plain_keys s' = plain_keys s" "versions_in n s' = versions_in n s"
    "grown s0 s' = grown s0 s" "grown s' s0 = grown s s0" "stored_state K s' t i = stored_state K s t i"
  unfolding sound_states_def plain_keys_def versions_in_def grown_def stored_state_def by (simp_all add: assms)

lemma versions_more: "versions_in n s \<Longrightarrow> versions_in (n + 1) s"
  unfolding versions_in_def by fastforce

lemma plain_commit:
  assumes good: "good_commit jcs s r" and "plain_keys s"
    and plain: "\<forall>u \<in> set (tq_Updates r). nul_free (pu_TenantID u) \<and> nul_free (pu_AggregateType u)"
  shows "plain_keys (commit r s)"
  unfolding plain_keys_def
proof (intro allI impI)
  fix k p assume p: "map_of (ms_projections (commit r s)) k = Some p"
  show "nul_free (pj_TenantID p) \<and> nul_free (pj_AggregateType p)"
  proof (rule commit_entries [OF good, of k])
    fix u assume "u \<in> set (tq_Updates r)" "map_of (ms_projections (commit r s)) k = Some (projection_of u)"
    with p plain show ?thesis by (auto simp: projection_of_def)
  next
    assume "map_of (ms_projections (commit r s)) k = map_of (ms_projections s) k"
    with p assms(2) show ?thesis unfolding plain_keys_def by metis
  qed
qed

section \<open>Steps\<close>

definition codec_reads_back :: "orch_codec \<Rightarrow> bool" where
  "codec_reads_back cd \<longleftrightarrow> reads_back (project_kind cd) \<and> reads_back (task_kind cd)"

definition trace_ok :: "orch_codec \<Rightarrow> MemoryStore list \<Rightarrow> bool" where
  "trace_ok cd trace \<longleftrightarrow>
     (\<forall>s \<in> set trace. store_sound cd s \<and> grown s (hd trace))
     \<and> versions_in (int (length trace) - 1) (hd trace)"

definition stepped :: "('s, 'c, 'e) aggregate_kind \<Rightarrow> MemoryStore \<Rightarrow> MemoryStore \<Rightarrow> bool" where
  "stepped K s s' \<longleftrightarrow>
     (\<forall>t i. nul_free t \<longrightarrow> (\<exists>x x'. stored_state K s t i = Some x \<and> stored_state K s' t i = Some x' \<and> one_step K x x'))"

definition decided_transaction :: "orch_codec \<Rightarrow> MemoryStore list \<Rightarrow> TransactionRequest \<Rightarrow> bool" where
  "decided_transaction cd trace r \<longleftrightarrow>
     (\<forall>u \<in> set (tq_Updates r). nul_free (pu_TenantID u) \<and> nul_free (pu_AggregateType u)
        \<and> (pu_AggregateType u = ''project'' \<longrightarrow> decided_update (project_kind cd) trace u)
        \<and> (pu_AggregateType u = ''task'' \<longrightarrow> decided_update (task_kind cd) trace u))"

definition plain_step :: "orch_codec \<Rightarrow> MemoryStore list \<Rightarrow> MemoryStore \<Rightarrow> MemoryStore \<Rightarrow> bool" where
  \<comment> \<open>no projection changes, or those of an accepted transaction do\<close>
  "plain_step cd trace s s' \<longleftrightarrow>
     store_ok (cd_jcs cd) s'
     \<and> (ms_projections s' = ms_projections s
        \<or> (\<exists>r. good_commit (cd_jcs cd) s r \<and> decided_transaction cd trace r
               \<and> ms_projections s' = ms_projections (commit r s)))"

context stored_aggregate
begin

lemma stepped_same:
  assumes "sound_states K s" "projections_ok s" "plain_keys s" "ms_projections s' = ms_projections s"
  shows "stepped K s s'"
  unfolding stepped_def
proof (intro allI impI)
  fix t i assume t: "nul_free t"
  have "\<exists>x. stored_state K s t i = Some x"
  proof (cases "map_of (ms_projections s) (aggregateKey t (ak_Type K) i)")
    case (Some p)
    from sound_at [OF assms(1-3) t Some] show ?thesis by (metis Some option.simps(5) stored_state_def)
  qed (simp add: stored_state_def)
  then show "\<exists>x x'. stored_state K s t i = Some x \<and> stored_state K s' t i = Some x' \<and> one_step K x x'"
    by (auto simp: same_projections [OF assms(4)] one_step_def)
qed

end

lemma trace_extend:
  assumes codec: "codec_reads_back cd" and trace: "trace_ok cd (s # ss)" and bound: "int (length (s # ss)) + 1 < 2 ^ 63"
    and step: "plain_step cd (s # ss) s s'"
  shows "trace_ok cd (s' # s # ss) \<and> stepped (project_kind cd) s s' \<and> stepped (task_kind cd) s s'"
proof -
  let ?n = "int (length ss)"
  have sound: "store_sound cd s1" "grown s1 s" if "s1 \<in> set (s # ss)" for s1
    using trace that unfolding trace_ok_def by auto
  have range: "versions_in ?n s" using trace by (simp add: trace_ok_def)
  note s = store_soundD [OF sound(1) [of s, simplified]]
  have ok: "store_ok (cd_jcs cd) s'" using step unfolding plain_step_def by blast
  have "sound_states (project_kind cd) s' \<and> sound_states (task_kind cd) s' \<and> plain_keys s' \<and> grown s s'
      \<and> versions_in (?n + 1) s' \<and> stepped (project_kind cd) s s' \<and> stepped (task_kind cd) s s'"
  proof (cases "ms_projections s' = ms_projections s")
    case True
    then show ?thesis
      using s versions_more [OF range] projects.stepped_same [OF s(3,1,2) True] tasks.stepped_same [OF s(4,1,2) True]
      by (simp add: same_projections [OF True] grown_refl)
  next
    case False
    with step obtain r where good: "good_commit (cd_jcs cd) s r" and decided: "decided_transaction cd (s # ss) r"
      and s': "ms_projections s' = ms_projections (commit r s)" unfolding plain_step_def by blast
    have plain: "\<forall>u \<in> set (tq_Updates r). nul_free (pu_TenantID u) \<and> nul_free (pu_AggregateType u)"
      using decided unfolding decided_transaction_def by blast
    then have plain_t: "\<forall>u \<in> set (tq_Updates r). nul_free (pu_TenantID u)" by blast
    have range_n: "0 \<le> ?n" "?n + 1 < 2 ^ 63" using bound by simp_all
    have project: "\<forall>u \<in> set (tq_Updates r). pu_AggregateType u = ak_Type (project_kind cd) \<longrightarrow> decided_update (project_kind cd) (s # ss) u"
      and task: "\<forall>u \<in> set (tq_Updates r). pu_AggregateType u = ak_Type (task_kind cd) \<longrightarrow> decided_update (task_kind cd) (s # ss) u"
      using decided unfolding decided_transaction_def by simp_all
    have codecs: "reads_back (project_kind cd)" "reads_back (task_kind cd)" using codec unfolding codec_reads_back_def by blast+
    have past_p: "\<forall>s1 \<in> set (s # ss). sound_states (project_kind cd) s1 \<and> projections_ok s1 \<and> plain_keys s1 \<and> grown s1 s"
      and past_t: "\<forall>s1 \<in> set (s # ss). sound_states (task_kind cd) s1 \<and> projections_ok s1 \<and> plain_keys s1 \<and> grown s1 s"
      using sound store_soundD by blast+
    have steps: "stepped (project_kind cd) s (commit r s)" "stepped (task_kind cd) s (commit r s)"
      unfolding stepped_def
      using projects.step_commit [OF codecs(1) past_p range good plain project]
        tasks.step_commit [OF codecs(2) past_t range good plain task] by metis+
    show ?thesis
      using projects.sound_commit [OF codecs(1) past_p range good plain_t project]
        tasks.sound_commit [OF codecs(2) past_t range good plain_t task] plain_commit [OF good s(2) plain]
        grown_commit [OF good range range_n] versions_commit [OF good range range_n] steps
      unfolding stepped_def same_projections [OF s'] by blast
  qed
  moreover have "store_sound cd s'" if "sound_states (project_kind cd) s'" "sound_states (task_kind cd) s'" "plain_keys s'"
    using that ok unfolding store_sound_def by blast
  moreover have "grown s1 s'" if "grown s s'" "s1 \<in> set (s # ss)" for s1
    using sound(2) [OF that(2)] that(1) by (rule grown_trans)
  ultimately show ?thesis using sound(1) unfolding trace_ok_def by (auto simp: grown_refl add.commute)
qed

lemma executed_step:
  assumes "store_ok (cd_jcs cd) s" "decided_transaction cd trace tx"
  shows "plain_step cd trace s (snd (Execute (cd_jcs cd) tx s))"
proof -
  have ok: "store_ok (cd_jcs cd) (snd (Execute (cd_jcs cd) tx s))" by (rule store_ok_Execute [OF assms(1)])
  show ?thesis
  proof (rule Execute_cases [of "cd_jcs cd" tx s "fst (Execute (cd_jcs cd) tx s)" "snd (Execute (cd_jcs cd) tx s)"])
    fix bs f assume "good_commit (cd_jcs cd) s (tx\<lparr>tq_Events := bs\<rparr>)"
      and "snd (Execute (cd_jcs cd) tx s) = (commit (tx\<lparr>tq_Events := bs\<rparr>) s)\<lparr>ms_failure := f\<rparr>"
    moreover have "decided_transaction cd trace (tx\<lparr>tq_Events := bs\<rparr>)" using assms(2) by (simp add: decided_transaction_def)
    moreover have "ms_projections ((commit (tx\<lparr>tq_Events := bs\<rparr>) s)\<lparr>ms_failure := f\<rparr>)
        = ms_projections (commit (tx\<lparr>tq_Events := bs\<rparr>) s)" by simp
    ultimately show ?thesis using ok unfolding plain_step_def by metis
  qed (use ok in \<open>simp_all add: plain_step_def\<close>)
qed

lemma operated_step:
  assumes "store_ok (cd_jcs cd) s" "\<not> executes op"
  shows "plain_step cd trace s (store_after (cd_jcs cd) op s)"
proof -
  have "ms_projections (store_after (cd_jcs cd) op s) = ms_projections s"
  proof -
    have "outbox_ok s" using assms(1) by (simp add: store_ok_def)
    then have "op = OpFailNext f \<or> outbox_touched s (store_after (cd_jcs cd) op s)" if "\<forall>f'. op = OpFailNext f' \<longrightarrow> f' = f" for f
      using assms(2) that by (cases op) (auto simp: claim_touched mark_touched retry_touched)
    moreover have "ms_projections s' = ms_projections s" if "outbox_touched s s'" for s'
      using that by (auto simp: outbox_touched_def)
    ultimately show ?thesis by (cases op) (auto simp: FailNext_def)
  qed
  with store_ok_step [OF assms(1)] show ?thesis by (simp add: plain_step_def)
qed

lemma handled_decided:
  assumes "\<forall>s \<in> set trace. store_sound cd s" "view_from trace v" "os_codec sv = cd" "nul_free (call_tenant call)"
    and "call_plans sv v call tx"
  shows "decided_transaction cd trace tx"
proof -
  have sound: "\<forall>s \<in> set trace. store_sound (os_codec sv) s" using assms(1,3) by blast
  from planned_updates [OF sound assms(2,4,5)] assms(3,4) show ?thesis
    by (auto simp: decided_transaction_def list_all_iff proper_def nul_free_def)
qed

lemma trace_sound:
  "orch_trace cd trace \<Longrightarrow> codec_reads_back cd \<Longrightarrow> int (length trace) < 2 ^ 63 \<Longrightarrow> trace_ok cd trace"
proof (induction rule: orch_trace.induct)
  case start
  have "store_sound cd NewMemoryStore"
    using NewMemoryStore_ok by (simp add: store_sound_def plain_keys_def sound_states_def NewMemoryStore_def)
  then show ?case by (simp add: trace_ok_def grown_refl) (simp add: versions_in_def NewMemoryStore_def)
next
  case (handled s ss view sv call tx)
  then have ok: "trace_ok cd (s # ss)" by simp
  then have sound: "\<forall>s \<in> set (s # ss). store_sound cd s" unfolding trace_ok_def by blast
  then have "store_ok (cd_jcs cd) s" by (simp add: store_sound_def)
  from executed_step [OF this handled_decided [OF sound handled.hyps(2-5)]]
  show ?case using trace_extend [OF handled.prems(1) ok] handled.prems(2) by simp
next
  case (other s ss tx)
  then have ok: "trace_ok cd (s # ss)" by simp
  then have "store_ok (cd_jcs cd) s" by (simp add: trace_ok_def store_sound_def)
  moreover have "decided_transaction cd (s # ss) tx"
    using other.hyps(2) by (auto simp: other_transaction_def decided_transaction_def)
  ultimately show ?case using trace_extend [OF other.prems(1) ok _ executed_step] other.prems(2) by simp
next
  case (operated s ss op)
  then have ok: "trace_ok cd (s # ss)" by simp
  then have "store_ok (cd_jcs cd) s" by (simp add: trace_ok_def store_sound_def)
  from trace_extend [OF operated.prems(1) ok _ operated_step [OF this operated.hyps(2)]] operated.prems(2)
  show ?case by simp
qed

lemma trace_stepped:
  assumes "orch_trace cd (s' # s # ss)" "codec_reads_back cd" "int (length (s' # s # ss)) < 2 ^ 63"
  shows "stepped (project_kind cd) s s' \<and> stepped (task_kind cd) s s'"
  using assms(1)
proof (rule orch_trace_ConsE)
  fix view sv call tx
  assume tr: "orch_trace cd (s # ss)" and s': "s' = snd (Execute (cd_jcs cd) tx s)"
    and step: "view_from (s # ss) view" "os_codec sv = cd" "nul_free (call_tenant call)" "call_plans sv view call tx"
  have ok: "trace_ok cd (s # ss)" using trace_sound [OF tr assms(2)] assms(3) by simp
  then have sound: "\<forall>s \<in> set (s # ss). store_sound cd s" unfolding trace_ok_def by blast
  then have "store_ok (cd_jcs cd) s" by (simp add: store_sound_def)
  from executed_step [OF this handled_decided [OF sound step]]
  show ?thesis using trace_extend [OF assms(2) ok] assms(3) s' by simp
next
  fix tx assume tr: "orch_trace cd (s # ss)" and s': "s' = snd (Execute (cd_jcs cd) tx s)" and tx: "other_transaction tx"
  have ok: "trace_ok cd (s # ss)" using trace_sound [OF tr assms(2)] assms(3) by simp
  then have "store_ok (cd_jcs cd) s" by (simp add: trace_ok_def store_sound_def)
  moreover have "decided_transaction cd (s # ss) tx"
    using tx by (auto simp: other_transaction_def decided_transaction_def)
  ultimately show ?thesis using trace_extend [OF assms(2) ok _ executed_step] assms(3) s' by simp
next
  fix op assume tr: "orch_trace cd (s # ss)" and s': "s' = store_after (cd_jcs cd) op s" and op: "\<not> executes op"
  have ok: "trace_ok cd (s # ss)" using trace_sound [OF tr assms(2)] assms(3) by simp
  then have "store_ok (cd_jcs cd) s" by (simp add: trace_ok_def store_sound_def)
  from trace_extend [OF assms(2) ok _ operated_step [OF this op]] assms(3) s' show ?thesis by simp
qed

end
