(* ===== verification/Orch_Commit.thy ===== *)
theory Orch_Commit
  imports Orch_Trace
begin

text \<open>
  Lemmas behind the properties of the orchestrator: the states a trace holds, what a signed boundary
  accepts and for which call a transaction is validated, and how a repeated request is answered.
\<close>

section \<open>Concurrent handlers\<close>

lemma trace_states:
  assumes "orch_trace cd (s # past)" "codec_reads_back cd" "int (length (s # past)) < 2 ^ 63" "nul_free t"
  shows "map_of (ms_projections s) (aggregateKey t ''project'' i) = Some q \<Longrightarrow>
      \<exists>p cs. dc_project cd (pj_State q) = Some p \<and> history DecideProject ApplyProject zero_Project cs p
        \<and> prj_Version p = pj_Version q \<and> prj_ID p = i \<and> prj_TenantID p = t \<and> prj_ID p \<noteq> []"
    and "map_of (ms_projections s) (aggregateKey t ''task'' i) = Some q \<Longrightarrow>
      \<exists>x cs. dc_task cd (pj_State q) = Some x \<and> history DecideTask ApplyTask zero_ModuleTask cs x
        \<and> mt_Version x = pj_Version q \<and> mt_ID x = i \<and> mt_TenantID x = t \<and> mt_ID x \<noteq> []"
proof -
  have "store_sound cd s" using trace_sound [OF assms(1-3)] by (simp add: trace_ok_def)
  note sound = store_soundD [OF this]
  show "map_of (ms_projections s) (aggregateKey t ''project'' i) = Some q \<Longrightarrow> \<exists>p cs. dc_project cd (pj_State q) = Some p \<and> history DecideProject ApplyProject zero_Project cs p
        \<and> prj_Version p = pj_Version q \<and> prj_ID p = i \<and> prj_TenantID p = t \<and> prj_ID p \<noteq> []"
    using projects.sound_at [OF sound(3,1,2) assms(4), of i q] unfolding kind_sel by metis
  show "map_of (ms_projections s) (aggregateKey t ''task'' i) = Some q \<Longrightarrow> \<exists>x cs. dc_task cd (pj_State q) = Some x \<and> history DecideTask ApplyTask zero_ModuleTask cs x
        \<and> mt_Version x = pj_Version q \<and> mt_ID x = i \<and> mt_TenantID x = t \<and> mt_ID x \<noteq> []"
    using tasks.sound_at [OF sound(4,1,2) assms(4), of i q] unfolding kind_sel by metis
qed

lemma stored_project_invariants:
  assumes "orch_trace cd (s # past)" and "codec_reads_back cd" and "int (length (s # past)) < 2 ^ 63"
    and "nul_free t" and "map_of (ms_projections s) (aggregateKey t ''project'' i) = Some q"
  shows "\<exists>p cs. dc_project cd (pj_State q) = Some p \<and> prj_ID p = i \<and> prj_TenantID p = t \<and> prj_Version p = pj_Version q
      \<and> history DecideProject ApplyProject zero_Project cs p \<and> phase_inv p \<and> deletion_inv p
      \<and> (\<forall>g. prj_Goal p = Some g \<longrightarrow> gr_ApprovedBy g \<noteq> [] \<longrightarrow> (\<exists>c \<in> set cs. approves c g))
      \<and> (prj_State p = ProjectCompleted \<longrightarrow> (\<exists>c \<in> set cs. completes c))"
proof -
  from trace_states(1) [OF assms] obtain p cs where p: "dc_project cd (pj_State q) = Some p"
    "history DecideProject ApplyProject zero_Project cs p" "prj_Version p = pj_Version q" "prj_ID p = i" "prj_TenantID p = t"
    "prj_ID p \<noteq> []" by blast
  from p(6) have "p \<noteq> zero_Project" by (auto simp: zero_Project_def)
  then have "phase_inv p" using phase_inv_history [OF p(2)] by blast
  then show ?thesis
    using p deletion_inv_history [OF p(2)] approval_in_history [OF p(2)] completion_in_history [OF p(2)] by blast
qed

lemma stored_task_invariants:
  assumes "orch_trace cd (s # past)" and "codec_reads_back cd" and "int (length (s # past)) < 2 ^ 63"
    and "nul_free t" and "map_of (ms_projections s) (aggregateKey t ''task'' i) = Some q"
  shows "\<exists>x cs. dc_task cd (pj_State q) = Some x \<and> mt_ID x = i \<and> mt_TenantID x = t \<and> mt_Version x = pj_Version q
      \<and> history DecideTask ApplyTask zero_ModuleTask cs x \<and> task_inv x
      \<and> (mt_State x = TaskIntegrated \<longrightarrow> went_through audit_path (rev cs))"
proof -
  from trace_states(2) [OF assms] obtain x cs where x: "dc_task cd (pj_State q) = Some x"
    "history DecideTask ApplyTask zero_ModuleTask cs x" "mt_Version x = pj_Version q" "mt_ID x = i" "mt_TenantID x = t"
    "mt_ID x \<noteq> []" by blast
  from x(6) have "x \<noteq> zero_ModuleTask" by (auto simp: zero_ModuleTask_def)
  then have "task_inv x" using task_inv_history [OF x(2)] by blast
  moreover have "went_through audit_path (rev cs)" if "mt_State x = TaskIntegrated"
    using audit_path_history [OF x(2)] that by (simp add: task_phase_def audit_path_def)
  ultimately show ?thesis using x by blast
qed

section \<open>The commit boundary\<close>

lemma same_map_eq: "same_map a b \<Longrightarrow> map_of a k = map_of b k"
  unfolding same_map_def list_all_iff by (cases "map_of a k"; cases "map_of b k") (force dest: map_of_SomeD)+

lemma capability_matches:
  assumes "capabilityMatchesValidation c v"
  shows "cc_TenantID c = cv_TenantID v" "cc_ProjectID c = cv_ProjectID v" "cc_TaskID c = cv_TaskID v"
    "cc_PrincipalID c = cv_PrincipalID v" "cc_Action c = cv_Action v" "cc_ExpectedVersion c = cv_ExpectedVersion v"
    "cc_ProjectVersion c = prj_Version (cv_Project v)" "cc_TaskVersion c = mt_Version (cv_Task v)"
    "cc_ParameterDigest c = cv_ParameterDigest v" "mset (cc_EvidenceSHA256 c) = mset (cv_EvidenceSHA256 v)"
    "cc_ModuleSpecRef c = cv_ModuleSpecRef v" "cc_GoalSpecRef c = cv_GoalSpecRef v"
    "cc_ApprovalRecordID c = cv_ApprovalRecordID v" "map_of (cc_Claims c) = map_of (cv_Claims v)"
    "cv_FencingToken v > 0 \<Longrightarrow> cc_FencingToken c = cv_FencingToken v"
proof -
  let ?a = "canonicalCommitCapability c" and ?b = "canonicalCommitCapability (expected_capability c v)"
  from assms have same: "?a\<lparr>cc_Claims := []\<rparr> = ?b\<lparr>cc_Claims := []\<rparr>" and claims: "same_map (cc_Claims ?a) (cc_Claims ?b)"
    by (simp_all add: capabilityMatchesValidation_def same_capability_def split: if_splits)
  note f = arg_cong [OF same]
  show "cc_TenantID c = cv_TenantID v" "cc_ProjectID c = cv_ProjectID v" "cc_TaskID c = cv_TaskID v"
    "cc_PrincipalID c = cv_PrincipalID v" "cc_Action c = cv_Action v" "cc_ExpectedVersion c = cv_ExpectedVersion v"
    "cc_ProjectVersion c = prj_Version (cv_Project v)" "cc_TaskVersion c = mt_Version (cv_Task v)"
    "cc_ParameterDigest c = cv_ParameterDigest v" "cc_ModuleSpecRef c = cv_ModuleSpecRef v"
    "cc_GoalSpecRef c = cv_GoalSpecRef v" "cc_ApprovalRecordID c = cv_ApprovalRecordID v"
    using f [of cc_TenantID] f [of cc_ProjectID] f [of cc_TaskID] f [of cc_PrincipalID] f [of cc_Action]
      f [of cc_ExpectedVersion] f [of cc_ProjectVersion] f [of cc_TaskVersion] f [of cc_ParameterDigest]
      f [of cc_ModuleSpecRef] f [of cc_GoalSpecRef] f [of cc_ApprovalRecordID]
    by (simp_all add: canonicalCommitCapability_def expected_capability_def)
  have "sort (cc_EvidenceSHA256 c) = sort (cv_EvidenceSHA256 v)"
    using f [of cc_EvidenceSHA256] by (simp add: canonicalCommitCapability_def expected_capability_def)
  then show "mset (cc_EvidenceSHA256 c) = mset (cv_EvidenceSHA256 v)" by (metis mset_sort)
  show "map_of (cc_Claims c) = map_of (cv_Claims v)"
    using same_map_eq [OF claims]
    by (simp add: fun_eq_iff canonicalCommitCapability_def expected_capability_def cloneClaims_def)
  show "cv_FencingToken v > 0 \<Longrightarrow> cc_FencingToken c = cv_FencingToken v"
    using assms by (simp add: capabilityMatchesValidation_def split: if_splits)
qed

definition in_force :: "CommitCapability \<Rightarrow> time \<Rightarrow> bool" where
  "in_force c t \<longleftrightarrow> cc_IssuedAt c \<le> t \<and> t < cc_ExpiresAt c \<and> cc_ExpiresAt c - cc_IssuedAt c \<le> maximumCommitCapabilityLifetime
     \<and> 1 \<le> cc_FencingToken c \<and> cc_LeaseID c \<noteq> [] \<and> cc_PolicyVersion c \<noteq> []"

lemma boundary_accepts:
  assumes "validateCommitBoundary sv v = Inr ()" "os_boundary sv = boundary_Validate b"
  shows "capabilityMatchesValidation (ca_Capability (cv_Authorization v)) v"
    "in_force (ca_Capability (cv_Authorization v)) (cv_CommitAt v)"
    "cs_Verify (sb_signer b) (ca_Capability (cv_Authorization v)) (ca_Signature (cv_Authorization v))"
    "sb_revalidator b (ca_Capability (cv_Authorization v))"
proof -
  let ?c = "ca_Capability (cv_Authorization v)"
  have ok: "boundary_Validate b v" using assms by (simp add: validateCommitBoundary_def)
  then have valid: "validateCommitCapability ?c (cv_CommitAt v)"
    by (simp add: boundary_Validate_def Let_def split: if_splits)
  from ok show "capabilityMatchesValidation ?c v" "cs_Verify (sb_signer b) ?c (ca_Signature (cv_Authorization v))"
    "sb_revalidator b ?c"
    by (simp_all add: boundary_Validate_def Let_def cloneCommitCapability_def cloneClaims_def split: if_splits)
  from valid show "in_force ?c (cv_CommitAt v)"
    unfolding validateCommitCapability_def in_force_def safeCommitValue_def by (auto split: if_splits)
qed

primrec call_project :: "orch_call \<Rightarrow> string" where
  "call_project (CallProject r) = rp_ProjectID r"
| "call_project (CallTask r) = rt_ProjectID r"
| "call_project (CallQueue r) = qp_ProjectID r"
| "call_project (CallPublish r) = pp_ProjectID r"

primrec call_task :: "orch_call \<Rightarrow> string" where
  "call_task (CallProject r) = []"
| "call_task (CallTask r) = rt_TaskID r"
| "call_task (CallQueue r) = []"
| "call_task (CallPublish r) = []"

primrec call_principal :: "orch_call \<Rightarrow> string" where
  "call_principal (CallProject r) = rp_PrincipalID r"
| "call_principal (CallTask r) = rt_PrincipalID r"
| "call_principal (CallQueue r) = qp_PrincipalID r"
| "call_principal (CallPublish r) = pp_PrincipalID r"

primrec call_action :: "orch_call \<Rightarrow> string" where
  "call_action (CallProject r) = projectCommandType_string (pc_Type (rp_Command r))"
| "call_action (CallTask r) = taskCommandType_string (tc_Type (rt_Command r))"
| "call_action (CallQueue r) = taskCommandType_string TaskCommandQueuePlanning"
| "call_action (CallPublish r) = projectCommandType_string ProjectCommandPublishPlan"

primrec call_expected :: "orch_call \<Rightarrow> int" where
  "call_expected (CallProject r) = rp_ExpectedVersion r"
| "call_expected (CallTask r) = rt_ExpectedVersion r"
| "call_expected (CallQueue r) = qp_ExpectedProjectVersion r"
| "call_expected (CallPublish r) = pp_ExpectedProjectVersion r"

primrec call_authorization :: "orch_call \<Rightarrow> CommitAuthorization" where
  "call_authorization (CallProject r) = rp_Authorization r"
| "call_authorization (CallTask r) = rt_Authorization r"
| "call_authorization (CallQueue r) = qp_Authorization r"
| "call_authorization (CallPublish r) = pp_Authorization r"

definition validation_of :: "orchestrator \<Rightarrow> orch_call \<Rightarrow> TransactionRequest \<Rightarrow> CommitValidation \<Rightarrow> bool" where
  \<comment> \<open>what a validation says of the call it is made for\<close>
  "validation_of sv call tx v \<longleftrightarrow>
     cv_TenantID v = call_tenant call \<and> cv_ProjectID v = call_project call \<and> cv_TaskID v = call_task call
     \<and> cv_PrincipalID v = call_principal call \<and> cv_Action v = call_action call \<and> cv_ExpectedVersion v = call_expected call
     \<and> cv_Authorization v = call_authorization call \<and> cv_CommitAt v = os_clock sv
     \<and> cv_ParameterDigest v = tq_RequestSHA256 tx \<and> tq_TenantID tx = call_tenant call \<and> tq_PrincipalID tx = call_principal call"

lemma planned_validated:
  assumes "call_plans sv v call tx"
  shows "\<exists>validation. validateCommitBoundary sv validation = Inr () \<and> validation_of sv call tx validation
    \<and> (\<forall>r. call = CallTask r \<longrightarrow> cv_FencingToken validation = tc_FencingToken (rt_Command r)
         \<and> mt_Version (cv_Task validation) = rt_ExpectedVersion r)"
proof (cases call)
  case (CallProject r)
  with assms have "HandleProject_plan sv v r = Inr (Commit tx)" by simp
  then show ?thesis
  proof (rule project_plan_parts)
    fix c0 d p assume c0: "project_command_of sv r = Inr c0" and "decided_project sv v r c0 d p = Inr tx"
    from this(2) show ?thesis
    proof (rule decided_project_parts)
      fix c s1 t result goals tasks
      assume final: "finalizeGoalCommand (c0\<lparr>pc_At := utc (os_clock sv)\<rparr>) (os_uuids sv) = Inr (c, s1)"
        and ok: "validateCommitBoundary sv (projectCommitValidation r p c d) = Inr ()"
        and tx: "project_request sv r d c result (t # goals @ tasks) = Inr tx"
      from tx finalized_same [OF final] prepared_command_same(1) [OF c0]
      have "validation_of sv call tx (projectCommitValidation r p c d)"
        by (auto simp: validation_of_def CallProject projectCommitValidation_def project_request_def)
      with ok show ?thesis by (auto simp: CallProject)
    qed
  qed
next
  case (CallTask r)
  with assms have "handleTaskOnce_plan sv v r = Inr (Commit tx)" by simp
  then show ?thesis
  proof (rule task_plan_parts)
    fix d p x assume load: "load_current_task sv v r (tc_Type (rt_Command r)) = Inr x" and dec: "decided_task sv v r d p x = Inr tx"
    let ?v = "taskCommitValidation r p x ((normalizedTaskCommand r)\<lparr>tc_At := utc (os_clock sv)\<rparr>) d"
    from dec have "validateCommitBoundary sv ?v = Inr ()" unfolding decided_task_def Let_def by auto
    moreover from dec have "validation_of sv call tx ?v"
      by (auto simp: decided_task_def Let_def validation_of_def CallTask taskCommitValidation_def normalizedTaskCommand_def)
    moreover have "mt_Version x = rt_ExpectedVersion r"
      using load unfolding load_current_task_def by (auto split: if_splits)
    moreover have "cv_FencingToken ?v = tc_FencingToken (rt_Command r)"
      by (simp add: taskCommitValidation_def normalizedTaskCommand_def)
    ultimately show ?thesis by (auto simp: CallTask taskCommitValidation_def)
  qed
next
  case (CallQueue r0)
  define r where "r = r0\<lparr>qp_Tasks := sort_key pl_ModuleID (qp_Tasks r0)\<rparr>"
  from CallQueue assms have "QueuePlanTasks_plan sv v r0 = Inr (Commit tx)" by simp
  then show ?thesis
  proof (rule queue_plan_parts [OF _ r_def])
    fix d p ts result
    assume ok: "validateCommitBoundary sv (planningTasksValidation r p d (utc (os_clock sv))) = Inr ()"
      and tx: "plan_transaction sv (qp_TenantID r) (qp_PrincipalID r) (qp_IdempotencyKey r) d result ts = Inr tx"
    from tx have "validation_of sv call tx (planningTasksValidation r p d (utc (os_clock sv)))"
      by (auto simp: validation_of_def CallQueue planningTasksValidation_def plan_transaction_def r_def)
    with ok show ?thesis by (auto simp: CallQueue)
  qed
next
  case (CallPublish r0)
  define r where "r = r0\<lparr>pp_Tasks := sort_key pd_ModuleID (pp_Tasks r0)\<rparr>"
  from CallPublish assms have "PublishPlan_plan sv v r0 = Inr (Commit tx)" by simp
  then show ?thesis
  proof (rule publish_plan_parts [OF _ r_def])
    fix d p u ts result
    assume ok: "validateCommitBoundary sv (planCommitValidation r p d (utc (os_clock sv))) = Inr ()"
      and tx: "plan_transaction sv (pp_TenantID r) (pp_PrincipalID r) (pp_IdempotencyKey r) d result (u # ts) = Inr tx"
    from tx have "validation_of sv call tx (planCommitValidation r p d (utc (os_clock sv)))"
      by (auto simp: validation_of_def CallPublish planCommitValidation_def plan_transaction_def r_def)
    with ok show ?thesis by (auto simp: CallPublish)
  qed
qed

text \<open>
  The digest of a plan request is taken over the whole request with its authorization, so behind a
  signed boundary the capability would have to name a digest of a text that contains it.
\<close>

lemma plan_digest_circular:
  assumes "QueuePlanTasks_plan sv v r0 = Inr (Commit tx)" and "os_boundary sv = boundary_Validate b"
    and "r = r0\<lparr>qp_Tasks := sort_key pl_ModuleID (qp_Tasks r0)\<rparr>"
  shows "dg_queue (os_codec sv) (qp_ExpectedProjectVersion r) r
    = Some (cc_ParameterDigest (ca_Capability (qp_Authorization r)))"
proof (rule queue_plan_parts [OF assms(1,3)])
  fix d p ts result
  assume d: "dg_queue (os_codec sv) (qp_ExpectedProjectVersion r) r = Some d"
    and tx: "plan_transaction sv (qp_TenantID r) (qp_PrincipalID r) (qp_IdempotencyKey r) d result ts = Inr tx"
  have "call_plans sv v (CallQueue r0) tx" using assms(1) by simp
  then obtain w where "validateCommitBoundary sv w = Inr ()" "validation_of sv (CallQueue r0) tx w"
    using planned_validated by blast
  then have "cc_ParameterDigest (ca_Capability (qp_Authorization r0)) = tq_RequestSHA256 tx"
    using capability_matches(9) [OF boundary_accepts(1) [OF _ assms(2)]] by (force simp: validation_of_def)
  with tx have "d = cc_ParameterDigest (ca_Capability (qp_Authorization r0))" by (auto simp: plan_transaction_def)
  with d show ?thesis by (simp add: assms(3))
qed

section \<open>Repeated requests\<close>

lemma recorded_lookup:
  assumes "map_of (ms_commands s) (commandKey t p k) = Some c" "cm_RequestSHA256 c = d"
  shows "Lookup t p k d s = Inr (Some ((cm_Result c)\<lparr>tx_Duplicate := True\<rparr>))"
  using assms by (simp add: Lookup_def lookupLocked_def)

text \<open>What a first or a repeated result leaves behind, in every later store.\<close>

lemma kept_command:
  assumes "store_ok jcs s" "Execute jcs tx s = (Inr result, s')"
  obtains c where "map_of (ms_commands (store_run jcs ops s')) (request_key tx) = Some c"
    "cm_RequestSHA256 c = tq_RequestSHA256 tx" "(cm_Result c)\<lparr>tx_Duplicate := True\<rparr> = result\<lparr>tx_Duplicate := True\<rparr>"
proof -
  obtain c where c: "map_of (ms_commands s') (request_key tx) = Some c" "cm_RequestSHA256 c = tq_RequestSHA256 tx"
    "(cm_Result c)\<lparr>tx_Duplicate := True\<rparr> = result\<lparr>tx_Duplicate := True\<rparr>"
    using committed_command [OF assms(2)] by blast
  have "store_ok jcs s'" using store_ok_Execute [OF assms(1), of tx] assms(2) by simp
  with c(1) have "map_of (ms_commands (store_run jcs ops s')) (request_key tx) = Some c"
    using commands.entry_run by (simp add: store_run_def)
  with c(2,3) show thesis using that by blast
qed

lemma kept_lookup:
  assumes "store_ok jcs s" "map_of (ms_commands s) k = Some c"
  shows "map_of (ms_commands (store_run jcs ops s)) k = Some c"
  using commands.entry_run assms by (simp add: store_run_def)

lemma task_plan_key:
  assumes "handleTaskOnce_plan sv v r = Inr (Commit tx)"
  shows "request_key tx = commandKey (rt_TenantID r) (rt_PrincipalID r) (rt_IdempotencyKey r)"
    "TaskParameterDigest (os_codec sv) r = Inr (tq_RequestSHA256 tx)"
  using assms by (auto simp: request_key_def decided_task_def Let_def elim!: task_plan_parts)

lemma project_plan_key:
  assumes "HandleProject_plan sv v r = Inr (Commit tx)"
  obtains c where "request_key tx = commandKey (rp_TenantID r) (rp_PrincipalID r) (rp_IdempotencyKey r)"
    "project_command_of sv r = Inr c" "project_digest sv r c = Inr (tq_RequestSHA256 tx)"
proof (rule project_plan_parts [OF assms])
  fix c d p assume c: "project_command_of sv r = Inr c" "project_digest sv r c = Inr d" "decided_project sv v r c d p = Inr tx"
  from c(3) have "request_key tx = commandKey (rp_TenantID r) (rp_PrincipalID r) (rp_IdempotencyKey r) \<and> tq_RequestSHA256 tx = d"
    by (rule decided_project_parts) (auto simp: project_request_def request_key_def)
  with c show thesis using that by blast
qed

text \<open>A recorded command is answered from its record, whatever has happened since.\<close>

lemma task_replayed:
  assumes "handleTaskOnce_plan sv v r = Inr plan" "TaskParameterDigest (os_codec sv) r = Inr d"
    and "map_of (ms_commands s) (commandKey (rt_TenantID r) (rt_PrincipalID r) (rt_IdempotencyKey r)) = Some c"
    and "cm_RequestSHA256 c = d" "os_codec sv' = os_codec sv"
    and "dc_task (os_codec sv) (tx_Result (cm_Result c)) = Some x"
  shows "handleTaskOnce sv' r s = (Inr \<lparr>ot_Task = x, ot_Events = tx_Events (cm_Result c), ot_Duplicate = True\<rparr>, s)"
proof -
  from assms(1) have "orch_validateRequest (rt_TenantID r) (rt_ProjectID r) (rt_PrincipalID r) (rt_IdempotencyKey r)
      (rt_ExpectedVersion r) = Inr ()" "rt_TaskID r \<noteq> []" by (auto simp: handleTaskOnce_plan_def)
  then show ?thesis
    using assms(2,5,6) recorded_lookup [OF assms(3,4)]
    by (simp add: handleTaskOnce_def handleTaskOnce_plan_def view_of_def from_store_def guard_that_def decodeTask_def encoded_def)
qed

lemma project_replayed:
  assumes "HandleProject_plan sv v r = Inr plan" "project_command_of sv r = Inr c0" "project_digest sv r c0 = Inr d"
    and "map_of (ms_commands s) (commandKey (rp_TenantID r) (rp_PrincipalID r) (rp_IdempotencyKey r)) = Some c"
    and "cm_RequestSHA256 c = d" "os_codec sv' = os_codec sv"
    and "dc_project (os_codec sv) (tx_Result (cm_Result c)) = Some p"
  shows "HandleProject sv' r s = (Inr \<lparr>op_Project = p, op_Events = tx_Events (cm_Result c), op_Duplicate = True\<rparr>, s)"
proof -
  from assms(1) have "orch_validateRequest (rp_TenantID r) (rp_ProjectID r) (rp_PrincipalID r) (rp_IdempotencyKey r)
      (rp_ExpectedVersion r) = Inr ()" by (auto simp: HandleProject_plan_def)
  moreover have "project_command_of sv' r = Inr c0" "project_digest sv' r c0 = Inr d"
    using assms(2,3,6) by (simp_all add: project_command_of_def project_digest_def)
  ultimately show ?thesis
    using assms(6,7) recorded_lookup [OF assms(4,5)]
    by (simp add: HandleProject_def HandleProject_plan_def view_of_def from_store_def decodeProject_def encoded_def)
qed

lemma project_handled_once:
  assumes ok: "store_ok (cd_jcs (os_codec sv)) s" and codec: "os_codec sv' = os_codec sv"
    and later: "later = store_run (cd_jcs (os_codec sv)) ops'" and run: "HandleProject sv r s = (Inr po, s')"
  shows "HandleProject sv' r (later s') = (Inr (po\<lparr>op_Duplicate := True\<rparr>), later s')"
proof -
  from run obtain plan where plan: "HandleProject_plan sv (view_of s) r = Inr plan"
    by (auto simp: HandleProject_def split: sum.splits)
  show ?thesis
  proof (cases plan)
    case (Answer o1)
    with run plan have s': "s' = s" "o1 = po" by (simp_all add: HandleProject_def)
    from plan Answer obtain c0 d tx where c0: "project_command_of sv r = Inr c0" "project_digest sv r c0 = Inr d"
      and look: "Lookup (rp_TenantID r) (rp_PrincipalID r) (rp_IdempotencyKey r) d s = Inr (Some tx)"
      and dec: "dc_project (os_codec sv) (tx_Result tx) = Some (op_Project o1)" "op_Events o1 = tx_Events tx" "op_Duplicate o1"
      by (auto simp: HandleProject_plan_def view_of_def decodeProject_def split: option.splits)
    from look obtain c where c: "map_of (ms_commands s) (commandKey (rp_TenantID r) (rp_PrincipalID r) (rp_IdempotencyKey r)) = Some c"
      "cm_RequestSHA256 c = d" "tx_Result (cm_Result c) = tx_Result tx" "tx_Events (cm_Result c) = tx_Events tx"
      by (auto simp: Lookup_def lookupLocked_def split: option.splits if_splits)
    show ?thesis
      using project_replayed [OF plan c0 kept_lookup [OF ok c(1), of ops'] c(2) codec, of "op_Project o1"] c dec s'
      by (simp add: later)
  next
    case (Commit tx)
    with run plan obtain result where ex: "Execute (cd_jcs (os_codec sv)) tx s = (Inr result, s')"
      and dec: "dc_project (os_codec sv) (tx_Result result) = Some (op_Project po)" "op_Events po = tx_Events result"
      by (auto simp: HandleProject_def commit_project_def decodeProject_def split: prod.splits sum.splits)
    obtain c0 where c0: "request_key tx = commandKey (rp_TenantID r) (rp_PrincipalID r) (rp_IdempotencyKey r)"
      "project_command_of sv r = Inr c0" "project_digest sv r c0 = Inr (tq_RequestSHA256 tx)"
      using project_plan_key plan Commit by blast
    obtain c where c: "map_of (ms_commands (store_run (cd_jcs (os_codec sv)) ops' s')) (request_key tx) = Some c"
      "cm_RequestSHA256 c = tq_RequestSHA256 tx" "(cm_Result c)\<lparr>tx_Duplicate := True\<rparr> = result\<lparr>tx_Duplicate := True\<rparr>"
      using kept_command [OF ok ex] by blast
    have same: "tx_Result (cm_Result c) = tx_Result result" "tx_Events (cm_Result c) = tx_Events result"
      using arg_cong [OF c(3), of tx_Result] arg_cong [OF c(3), of tx_Events] by simp_all
    show ?thesis
      using project_replayed [OF plan c0(2,3) c(1) [unfolded c0(1)] c(2) codec, of "op_Project po"] same dec
      by (simp add: later)
  qed
qed

lemma task_handled_once:
  assumes ok: "store_ok (cd_jcs (os_codec sv)) s" and codec: "os_codec sv' = os_codec sv"
    and later: "later = store_run (cd_jcs (os_codec sv)) ops'" and run: "handleTaskOnce sv q s = (Inr t, s')"
  shows "handleTaskOnce sv' q (later s') = (Inr (t\<lparr>ot_Duplicate := True\<rparr>), later s')"
proof -
  from run obtain plan where plan: "handleTaskOnce_plan sv (view_of s) q = Inr plan"
    by (auto simp: handleTaskOnce_def split: sum.splits)
  show ?thesis
  proof (cases plan)
    case (Answer o1)
    with run plan have s': "s' = s" "o1 = t" by (simp_all add: handleTaskOnce_def)
    from plan Answer obtain d tx where d: "TaskParameterDigest (os_codec sv) q = Inr d"
      and look: "Lookup (rt_TenantID q) (rt_PrincipalID q) (rt_IdempotencyKey q) d s = Inr (Some tx)"
      and dec: "dc_task (os_codec sv) (tx_Result tx) = Some (ot_Task o1)" "ot_Events o1 = tx_Events tx" "ot_Duplicate o1"
      by (auto simp: handleTaskOnce_plan_def view_of_def decodeTask_def split: option.splits)
    from look obtain c where c: "map_of (ms_commands s) (commandKey (rt_TenantID q) (rt_PrincipalID q) (rt_IdempotencyKey q)) = Some c"
      "cm_RequestSHA256 c = d" "tx_Result (cm_Result c) = tx_Result tx" "tx_Events (cm_Result c) = tx_Events tx"
      by (auto simp: Lookup_def lookupLocked_def split: option.splits if_splits)
    show ?thesis
      using task_replayed [OF plan d kept_lookup [OF ok c(1), of ops'] c(2) codec, of "ot_Task o1"] c dec s'
      by (simp add: later)
  next
    case (Commit tx)
    with run plan obtain result where ex: "Execute (cd_jcs (os_codec sv)) tx s = (Inr result, s')"
      and dec: "dc_task (os_codec sv) (tx_Result result) = Some (ot_Task t)" "ot_Events t = tx_Events result"
      by (auto simp: handleTaskOnce_def commit_task_def decodeTask_def split: prod.splits sum.splits)
    note key = task_plan_key [OF plan [unfolded Commit]]
    obtain c where c: "map_of (ms_commands (store_run (cd_jcs (os_codec sv)) ops' s')) (request_key tx) = Some c"
      "cm_RequestSHA256 c = tq_RequestSHA256 tx" "(cm_Result c)\<lparr>tx_Duplicate := True\<rparr> = result\<lparr>tx_Duplicate := True\<rparr>"
      using kept_command [OF ok ex] by blast
    have same: "tx_Result (cm_Result c) = tx_Result result" "tx_Events (cm_Result c) = tx_Events result"
      using arg_cong [OF c(3), of tx_Result] arg_cong [OF c(3), of tx_Events] by simp_all
    show ?thesis
      using task_replayed [OF plan key(2) c(1) [unfolded key(1)] c(2) codec, of "ot_Task t"] same dec
      by (simp add: later)
  qed
qed

end
