(* ===== verification/Orch_Dependents.thy ===== *)
theory Orch_Dependents
  imports Orch_Trace
begin

text \<open>
  Lemmas about the tasks that depend on a task: what a first outcome of a task command stores, the
  updates that block dependents, and the dependents a passed or integrated task makes ready.
\<close>

section \<open>Updates of tasks\<close>

definition task_update :: "orch_codec \<Rightarrow> string \<Rightarrow> string \<Rightarrow> ModuleTask \<Rightarrow> ProjectionUpdate \<Rightarrow> bool" where
  "task_update cd t i y u \<longleftrightarrow>
     pu_TenantID u = t \<and> pu_AggregateType u = ''task'' \<and> pu_AggregateID u = i \<and> ec_task cd y = Some (pu_State u)"

lemma task_transition_update:
  assumes "task_transition sv t p i x c d ids = Inr ((tr, y), rest)"
  shows "\<exists>ev. DecideTask x c = Inr ev \<and> y = te_Projection ev \<and> task_update (os_codec sv) t i y (fst tr)"
proof -
  from assms obtain ev result where ev: "DecideTask x c = Inr ev" "y = te_Projection ev"
    and enc: "encodeTaskTransition (os_codec sv) t p i (mt_Version x) ev d ids = Inr ((tr, result), rest)"
    by (auto simp: task_transition_def)
  obtain u e where tr: "tr = (u, e)" by force
  from encode_transition_update [OF enc [unfolded encodeTaskTransition_def tr]] ev show ?thesis
    by (auto simp: tr task_update_def)
qed

text \<open>After a first result the updates are stored, and nothing else changed.\<close>

lemma executed_updates:
  assumes ex: "Execute jcs tx s = (Inr result, s')" and fresh: "\<not> tx_Duplicate result"
  shows "tx_Result result = tq_Result tx"
    "u \<in> set (tq_Updates tx) \<Longrightarrow> map_of (ms_projections s') (update_key u) = Some (projection_of u)"
    "k \<notin> update_key ` set (tq_Updates tx) \<Longrightarrow> map_of (ms_projections s') k = map_of (ms_projections s) k"
proof -
  have "\<exists>bs f. good_commit jcs s (tx\<lparr>tq_Events := bs\<rparr>) \<and> s' = (commit (tx\<lparr>tq_Events := bs\<rparr>) s)\<lparr>ms_failure := f\<rparr>
      \<and> result = transaction_result (tx\<lparr>tq_Events := bs\<rparr>)"
  proof (rule Execute_cases [OF ex])
    fix r' assume "Inr result = Inr r'"
      "lookupLocked (tq_TenantID tx) (tq_PrincipalID tx) (tq_IdempotencyKey tx) (tq_RequestSHA256 tx) s = Inr (Some r')"
    with fresh show ?thesis by (auto simp: lookupLocked_def split: option.splits if_splits)
  qed auto
  then obtain bs f where good: "good_commit jcs s (tx\<lparr>tq_Events := bs\<rparr>)"
    and s': "s' = (commit (tx\<lparr>tq_Events := bs\<rparr>) s)\<lparr>ms_failure := f\<rparr>"
    and result: "result = transaction_result (tx\<lparr>tq_Events := bs\<rparr>)" by blast
  show "tx_Result result = tq_Result tx" by (simp add: result transaction_result_def)
  show "u \<in> set (tq_Updates tx) \<Longrightarrow> map_of (ms_projections s') (update_key u) = Some (projection_of u)"
    using commit_projection [OF good] by (simp add: s')
  show "k \<notin> update_key ` set (tq_Updates tx) \<Longrightarrow> map_of (ms_projections s') k = map_of (ms_projections s) k"
    using commit_other_projection [OF good] by (simp add: s')
qed

lemma updated_state:
  assumes "map_of (ms_projections s') (update_key u) = Some (projection_of u)" "task_update cd t i y u" "codec_reads_back cd"
  shows "stored_state (task_kind cd) s' t i = Some y"
proof -
  from assms(2) have u: "pu_TenantID u = t" "pu_AggregateType u = ''task''" "pu_AggregateID u = i"
    "ec_task cd y = Some (pu_State u)" by (simp_all add: task_update_def)
  from assms(3) u(4) have "dc_task cd (pu_State u) = Some y"
    unfolding codec_reads_back_def reads_back_def kind_sel by blast
  with assms(1) u show ?thesis by (simp add: stored_state_def projection_of_def)
qed

text \<open>The parts of a first result of a task command.\<close>

lemma first_task_outcome:
  assumes run: "handleTaskOnce sv r s = (Inr out, s')" and fresh: "\<not> ot_Duplicate out" and codec: "codec_reads_back (os_codec sv)"
  obtains d p x c ev t s1 ts rest where "c = (normalizedTaskCommand r)\<lparr>tc_At := utc (os_clock sv)\<rparr>"
    "load_current_task sv (view_of s) r (tc_Type (rt_Command r)) = Inr x" "rt_TaskID r \<noteq> []"
    "DecideTask x c = Inr ev" "ot_Task out = te_Projection ev"
    "task_update (os_codec sv) (rt_TenantID r) (rt_TaskID r) (te_Projection ev) (fst t)"
    "related_tasks sv (view_of s) r p x c (te_Projection ev) d s1 = Inr (ts, rest)"
    "\<And>u. u \<in> set (map fst (t # ts)) \<Longrightarrow> map_of (ms_projections s') (update_key u) = Some (projection_of u)"
    "\<And>k. k \<notin> update_key ` set (map fst (t # ts)) \<Longrightarrow> map_of (ms_projections s') k = map_of (ms_projections s) k"
proof -
  from run obtain plan where plan: "handleTaskOnce_plan sv (view_of s) r = Inr plan"
    by (auto simp: handleTaskOnce_def split: sum.splits)
  show thesis
  proof (cases plan)
    case (Answer o1)
    with run plan have "o1 = out" by (simp add: handleTaskOnce_def)
    with plan Answer fresh show thesis by (auto simp: handleTaskOnce_plan_def split: option.splits)
  next
    case (Commit tx)
    with run plan obtain res where ex: "Execute (cd_jcs (os_codec sv)) tx s = (Inr res, s')"
      and dec: "dc_task (os_codec sv) (tx_Result res) = Some (ot_Task out)" and dup: "ot_Duplicate out = tx_Duplicate res"
      by (auto simp: handleTaskOnce_def commit_task_def decodeTask_def split: prod.splits sum.splits)
    show thesis
    proof (rule task_plan_parts [OF plan [unfolded Commit]])
      fix d p x assume load: "load_current_task sv (view_of s) r (tc_Type (rt_Command r)) = Inr x" "rt_TaskID r \<noteq> []"
        and decided: "decided_task sv (view_of s) r d p x = Inr tx"
      define c where "c = (normalizedTaskCommand r)\<lparr>tc_At := utc (os_clock sv)\<rparr>"
      from decided obtain ev t result s1 ts rest where ev: "DecideTask x c = Inr ev"
        and enc: "encodeTaskTransition (os_codec sv) (rt_TenantID r) (rt_ProjectID r) (rt_TaskID r) (rt_ExpectedVersion r) ev d
          (os_uuids sv) = Inr ((t, result), s1)"
        and related: "related_tasks sv (view_of s) r p x c (te_Projection ev) d s1 = Inr (ts, rest)"
        and tx: "tq_Updates tx = map fst (t # ts)" "tq_Result tx = result"
        unfolding decided_task_def c_def Let_def by auto
      obtain u e where t: "t = (u, e)" by force
      note u = encode_transition_update [OF enc [unfolded encodeTaskTransition_def t]]
      have "dc_task (os_codec sv) result = Some (te_Projection ev)"
        using codec u(1) unfolding codec_reads_back_def reads_back_def kind_sel by blast
      moreover have "tx_Result res = result" using executed_updates(1) [OF ex] fresh dup tx(2) by simp
      ultimately have out: "ot_Task out = te_Projection ev" using dec by simp
      have upd: "task_update (os_codec sv) (rt_TenantID r) (rt_TaskID r) (te_Projection ev) (fst t)"
        using u by (simp add: t task_update_def)
      have new: "\<not> tx_Duplicate res" using fresh dup by simp
      show thesis
        by (rule that [OF c_def load ev out upd related executed_updates(2) [OF ex new, unfolded tx(1)]
              executed_updates(3) [OF ex new, unfolded tx(1)]])
    qed
  qed
qed

section \<open>Blocked dependents\<close>

lemma block_updates:
  assumes "block_dependents sv v r at_time d ids s0 = Inr (ts, rest)" "i \<in> set ids"
  shows "\<exists>tr \<in> set ts. \<exists>x. task_update (os_codec sv) (rt_TenantID r) i x (fst tr)
    \<and> mt_State x = TaskBlockedDependency \<and> rt_TaskID r \<in> set (mt_BlockingTaskIDs x)"
  using assms
proof (induction ids arbitrary: s0 ts rest)
  case (Cons j ids)
  let ?c = "(bare_task_command TaskCommandBlockDependency at_time)\<lparr>tc_BlockingTaskID := rt_TaskID r\<rparr>"
  from Cons.prems(1) obtain x tr y s1 ts' where
    tr: "task_transition sv (rt_TenantID r) (rt_ProjectID r) j x ?c d s0 = Inr ((tr, y), s1)"
    and rest: "block_dependents sv v r at_time d ids s1 = Inr (ts', rest)" "ts = tr # ts'" by auto
  from task_transition_update [OF tr] obtain ev where ev: "DecideTask x ?c = Inr ev" "y = te_Projection ev"
    and u: "task_update (os_codec sv) (rt_TenantID r) j y (fst tr)" by blast
  have "mt_State y = TaskBlockedDependency \<and> rt_TaskID r \<in> set (mt_BlockingTaskIDs y)"
    using ev by (auto simp: bare_task_command_def task_block_dependency_def split: if_splits elim!: DecideTask_InrE)
  with u Cons.IH [OF rest(1)] Cons.prems(2) rest(2) show ?case by auto
qed simp

lemma block_only:
  assumes "block_dependents sv v r at_time d ids s0 = Inr (ts, rest)" "tr \<in> set ts"
  shows "\<exists>i \<in> set ids. update_key (fst tr) = aggregateKey (rt_TenantID r) ''task'' i"
  using assms
proof (induction ids arbitrary: s0 ts rest)
  case (Cons j ids)
  let ?c = "(bare_task_command TaskCommandBlockDependency at_time)\<lparr>tc_BlockingTaskID := rt_TaskID r\<rparr>"
  from Cons.prems(1) obtain x t y s1 ts' where
    t: "task_transition sv (rt_TenantID r) (rt_ProjectID r) j x ?c d s0 = Inr ((t, y), s1)"
    and rest: "block_dependents sv v r at_time d ids s1 = Inr (ts', rest)" "ts = t # ts'" by auto
  from task_transition_update [OF t] have "update_key (fst t) = aggregateKey (rt_TenantID r) ''task'' j"
    by (auto simp: task_update_def)
  with Cons.IH [OF rest(1)] Cons.prems(2) rest(2) show ?case by auto
qed simp

section \<open>Ready dependents\<close>

definition due :: "(string, ModuleTask) gomap \<Rightarrow> string \<Rightarrow> bool" where
  "due byID i \<longleftrightarrow> (\<exists>x. map_of byID i = Some x \<and> mt_State x = TaskDefined) \<and> allTaskDependenciesAudited byID i"

lemma ready_updates:
  assumes "ready_dependents sv r byID at_time d ids s0 = Inr (ts, rest)"
  shows "(\<forall>tr \<in> set ts. \<exists>i y. due byID i \<and> task_update (os_codec sv) (rt_TenantID r) i y (fst tr))
    \<and> (\<forall>i \<in> set ids. due byID i \<longrightarrow>
         (\<exists>tr \<in> set ts. \<exists>y. task_update (os_codec sv) (rt_TenantID r) i y (fst tr) \<and> mt_State y = TaskReadyExecution))"
  using assms
proof (induction ids arbitrary: s0 ts rest)
  case (Cons i ids)
  let ?c = "bare_task_command TaskCommandReadyExecution at_time"
  from Cons.prems obtain x where x: "map_of byID i = Some x" by (auto split: option.splits)
  show ?case
  proof (cases "mt_State x = TaskDefined \<and> allTaskDependenciesAudited byID i")
    case False
    with Cons.prems x have "ready_dependents sv r byID at_time d ids s0 = Inr (ts, rest)" by (auto split: if_splits)
    from Cons.IH [OF this] False x show ?thesis by (auto simp: due_def)
  next
    case True
    with Cons.prems x obtain tr y s1 ts' where
      tr: "task_transition sv (rt_TenantID r) (rt_ProjectID r) i x ?c d s0 = Inr ((tr, y), s1)"
      and rest: "ready_dependents sv r byID at_time d ids s1 = Inr (ts', rest)" "ts = tr # ts'" by auto
    from task_transition_update [OF tr] obtain ev where ev: "DecideTask x ?c = Inr ev" "y = te_Projection ev"
      and u: "task_update (os_codec sv) (rt_TenantID r) i y (fst tr)" by blast
    have "mt_State y = TaskReadyExecution"
      using ev by (auto simp: bare_task_command_def task_ready_execution_def split: if_splits elim!: DecideTask_InrE)
    moreover have "due byID i" using True x by (auto simp: due_def)
    ultimately show ?thesis using Cons.IH [OF rest(1)] u rest(2) by auto
  qed
qed simp

definition project_tasks :: "orch_codec \<Rightarrow> MemoryStore \<Rightarrow> string \<Rightarrow> string \<Rightarrow> ModuleTask set" where
  \<comment> \<open>the tasks of a project in the store\<close>
  "project_tasks cd s t p =
     {y. \<exists>q \<in> snd ` set (ms_projections s). pj_TenantID q = t \<and> pj_ProjectID q = p \<and> pj_AggregateType q = ''task''
           \<and> dc_task cd (pj_State q) = Some y}"

lemma decode_all_image: "decode_all f ps = Inr xs \<Longrightarrow> p \<in> set ps \<Longrightarrow> \<exists>x \<in> set xs. f p = Inr x"
  by (induction ps arbitrary: xs) auto

lemma tasks_listed:
  assumes "Tasks sv t p (ListProjections t p ''task'' s) = Inr xs"
  shows "set xs = project_tasks (os_codec sv) s t p"
proof -
  from assms obtain ps where ps: "ListProjections t p ''task'' s = Inr ps" "decode_all (check_listed sv t p) ps = Inr xs"
    by (auto simp: Tasks_def)
  have set_ps: "set ps = {q \<in> snd ` set (ms_projections s). pj_TenantID q = t \<and> pj_ProjectID q = p \<and> pj_AggregateType q = ''task''}"
    using ps(1) by (force simp: ListProjections_def split: if_splits)
  have dec: "check_listed sv t p q = Inr x \<Longrightarrow> dc_task (os_codec sv) (pj_State q) = Some x" for q x
    by (auto simp: check_listed_def decodeTask_def split: if_splits)
  show ?thesis
  proof (intro set_eqI iffI)
    fix x assume "x \<in> set xs"
    from decode_all_set [OF ps(2) this] dec set_ps show "x \<in> project_tasks (os_codec sv) s t p"
      unfolding project_tasks_def by blast
  next
    fix x assume "x \<in> project_tasks (os_codec sv) s t p"
    then obtain q where q: "q \<in> set ps" "dc_task (os_codec sv) (pj_State q) = Some x"
      unfolding project_tasks_def set_ps by blast
    from decode_all_image [OF ps(2) q(1)] dec q(2) show "x \<in> set xs" by fastforce
  qed
qed

lemma task_index_map:
  assumes "\<And>x y. x \<in> set xs \<Longrightarrow> y \<in> set xs \<Longrightarrow> mt_ID x = mt_ID y \<Longrightarrow> x = y"
  shows "map_of (task_index xs) i = Some x \<longleftrightarrow> x \<in> set xs \<and> mt_ID x = i"
proof
  assume x: "x \<in> set xs \<and> mt_ID x = i"
  have keys: "fst ` set (foldl (\<lambda>m t. gomap_put (mt_ID t) t m) m xs) = fst ` set m \<union> mt_ID ` set xs" for m
    by (induction xs arbitrary: m) (auto simp: gomap_put_def dom_update)
  have "i \<in> fst ` set (task_index xs)" using keys [of "[]"] x by (auto simp: task_index_def)
  then obtain y where "map_of (task_index xs) i = Some y" by (metis map_of_eq_None_iff not_None_eq)
  with task_index_source [OF this] assms x show "map_of (task_index xs) i = Some x" by blast
qed (rule task_index_source)

lemma project_task_at:
  assumes sound: "store_sound cd s" and t: "nul_free t" and y: "y \<in> project_tasks cd s t p"
  obtains q where "map_of (ms_projections s) (aggregateKey t ''task'' (mt_ID y)) = Some q" "dc_task cd (pj_State q) = Some y"
proof -
  note ok = store_soundD [OF sound]
  from y obtain q where q: "q \<in> snd ` set (ms_projections s)" "pj_TenantID q = t" "pj_AggregateType q = ''task''"
    "dc_task cd (pj_State q) = Some y" unfolding project_tasks_def by blast
  from listed_projection [OF ok(1) q(1)] q(2,3)
  have at: "map_of (ms_projections s) (aggregateKey t ''task'' (pj_AggregateID q)) = Some q" by simp
  then have "known [s] t ''task'' (pj_AggregateID q) (pj_State q)" by (auto simp: known_def)
  with known_kind(1) [of "[s]" cd t] sound t q(4) have "mt_ID y = pj_AggregateID q" by simp
  with at q(4) show thesis using that by simp
qed

lemma project_tasks_distinct:
  assumes "store_sound cd s" "nul_free t" "x \<in> project_tasks cd s t p" "y \<in> project_tasks cd s t p" "mt_ID x = mt_ID y"
  shows "x = y"
  by (rule project_task_at [OF assms(1-3)], rule project_task_at [OF assms(1,2,4)]) (simp add: assms(5))

lemma due_index:
  assumes dist: "\<And>x y. x \<in> set xs \<Longrightarrow> y \<in> set xs \<Longrightarrow> mt_ID x = mt_ID y \<Longrightarrow> x = y"
    and advanced: "audited z" "i \<in> set (mt_DependentTaskIDs z)" and i: "i \<noteq> mt_ID z" and x: "x \<in> set xs" "mt_ID x = i"
      "mt_State x = TaskDefined"
  shows "due (gomap_put (mt_ID z) z (task_index xs)) i
    \<longleftrightarrow> (\<forall>y \<in> set xs. mt_ID y \<noteq> mt_ID z \<longrightarrow> leads_to i y \<longrightarrow> audited y)"
proof -
  let ?m = "gomap_put (mt_ID z) z (task_index xs)"
  have "gomap_ok (foldl (\<lambda>m t. gomap_put (mt_ID t) t m) m ys)" if "gomap_ok m" for m :: "(string, ModuleTask) gomap" and ys
    using that by (induction ys arbitrary: m) (simp_all add: amap.ok_store)
  then have ok: "gomap_ok ?m" by (simp add: task_index_def amap.ok_store)
  have look: "map_of ?m j = Some y \<longleftrightarrow> (if j = mt_ID z then y = z else y \<in> set xs \<and> mt_ID y = j)" for j y
  proof -
    have "map_of (task_index xs) j = Some y \<longleftrightarrow> y \<in> set xs \<and> mt_ID y = j" by (rule task_index_map) (rule dist)
    then show ?thesis by (simp add: amap.look_store eq_commute [of z])
  qed
  have vals: "y \<in> set (map snd ?m) \<longleftrightarrow> y = z \<or> y \<in> set xs \<and> mt_ID y \<noteq> mt_ID z" for y
  proof -
    have "y \<in> set (map snd ?m) \<longleftrightarrow> (\<exists>j. map_of ?m j = Some y)"
      using gomap_okD [OF ok] map_of_SomeD [of ?m] by (metis (no_types, lifting) image_iff list.set_map prod.collapse snd_conv)
    then show ?thesis unfolding look by (cases "y = z") auto
  qed
  have z: "leads_to i z" using advanced by (auto simp: leads_to_def audited_def)
  have "map_of ?m i = Some x" unfolding look using x i by simp
  then have "due ?m i \<longleftrightarrow> allTaskDependenciesAudited ?m i" using x(3) by (simp add: due_def)
  also have "\<dots> \<longleftrightarrow> (\<forall>y \<in> set (map snd ?m). leads_to i y \<longrightarrow> audited y)"
    using vals [of z] z unfolding allTaskDependenciesAudited_def list_ex_iff list_all_iff by blast
  also have "\<dots> \<longleftrightarrow> (\<forall>y \<in> set xs. mt_ID y \<noteq> mt_ID z \<longrightarrow> leads_to i y \<longrightarrow> audited y)"
    unfolding Ball_def vals using advanced(1) by auto
  finally show ?thesis .
qed

lemma core_updates:
  assumes "coreSummaryTransition sv v r p y at_time d s0 = Inr (ts, rest)" "tr \<in> set ts"
  shows "pu_AggregateType (fst tr) = ''project'' \<and> pu_TenantID (fst tr) = rt_TenantID r"
  using assms unfolding coreSummaryTransition_def encodeProjectTransition_def
  by (auto split: option.splits if_splits dest!: encode_transition_update(2))

lemma advanced_audited:
  assumes "DecideTask x c = Inr ev" "tc_Type c = TaskCommandLLMSuccess \<or> tc_Type c = TaskCommandIntegrate"
  shows "audited (te_Projection ev)" "mt_State x \<noteq> TaskDefined" "mt_State (te_Projection ev) \<noteq> TaskBlockedUserDecision"
  using assms
  by (auto simp: audited_def task_llm_success_def task_integrate_def split: if_splits elim!: DecideTask_InrE)

lemma series_not_waiting:
  assumes "DecideTask x c = Inr ev" "tc_Type c = TaskCommandAuthorizeNewSeries"
  shows "mt_State (te_Projection ev) \<noteq> TaskBlockedUserDecision"
  using assms by (auto simp: task_authorize_new_series_def split: if_splits option.splits elim!: DecideTask_InrE)

lemma waiting_related:
  assumes dec: "DecideTask x c = Inr ev" and waits: "mt_State (te_Projection ev) = TaskBlockedUserDecision"
    and related: "related_tasks sv v r p x c (te_Projection ev) d s1 = Inr (ts, rest)"
  shows "block_dependents sv v r (tc_At c) d (mt_FrozenDependentIDs (te_Projection ev)) s1 = Inr (ts, rest)"
proof -
  have "tc_Type c \<noteq> TaskCommandAuthorizeNewSeries" "tc_Type c \<noteq> TaskCommandLLMSuccess" "tc_Type c \<noteq> TaskCommandIntegrate"
    using series_not_waiting [OF dec] advanced_audited(3) [OF dec] waits by auto
  with related waits show ?thesis unfolding related_tasks_def by auto
qed

lemma advanced_related:
  assumes dec: "DecideTask x c = Inr ev" and ty: "tc_Type c = TaskCommandLLMSuccess \<or> tc_Type c = TaskCommandIntegrate"
    and related: "related_tasks sv v r p x c (te_Projection ev) d s1 = Inr (ts, rest)"
  obtains ready s2 core where "readyAuditedDependents sv v r (te_Projection ev) (tc_At c) d s1 = Inr (ready, s2)"
    "ts = ready @ core" "\<And>tr. tr \<in> set core \<Longrightarrow> pu_AggregateType (fst tr) = ''project'' \<and> pu_TenantID (fst tr) = rt_TenantID r"
proof -
  note st = advanced_audited(3) [OF dec ty]
  from related st ty obtain ready s2 core where ready: "readyAuditedDependents sv v r (te_Projection ev) (tc_At c) d s1 = Inr (ready, s2)"
    and core: "(if tc_Type c = TaskCommandLLMSuccess
       then coreSummaryTransition sv v r p (te_Projection ev) (tc_At c) d s2 else Inr ([], s2)) = Inr (core, rest)"
    and ts: "ts = ready @ core"
    unfolding related_tasks_def by auto
  show thesis
  proof (rule that [OF ready ts])
    fix tr assume "tr \<in> set core"
    with core show "pu_AggregateType (fst tr) = ''project'' \<and> pu_TenantID (fst tr) = rt_TenantID r"
      by (auto split: if_splits dest: core_updates)
  qed
qed

lemma advanced_task:
  assumes sound: "store_sound (os_codec sv) s" and t: "nul_free (rt_TenantID r)"
    and load: "load_current_task sv (view_of s) r (tc_Type (rt_Command r)) = Inr x" and named: "rt_TaskID r \<noteq> []"
    and dec: "DecideTask x c = Inr ev" and ty: "tc_Type c = TaskCommandLLMSuccess \<or> tc_Type c = TaskCommandIntegrate"
      "tc_Type (rt_Command r) = TaskCommandLLMSuccess \<or> tc_Type (rt_Command r) = TaskCommandIntegrate"
  shows "mt_ID (te_Projection ev) = rt_TaskID r"
    "y \<in> project_tasks (os_codec sv) s (rt_TenantID r) p \<Longrightarrow> mt_State y = TaskDefined \<Longrightarrow> mt_ID y \<noteq> rt_TaskID r"
proof -
  have source: "task_source sv [s] (rt_TenantID r) (rt_TaskID r) x"
    using load_current_source [OF view_of_from [of s "[s]", simplified] load] ty(2) by auto
  then have "mt_ID x = rt_TaskID r" using known_kind(1) [of "[s]"] sound t by (auto simp: task_source_def)
  then show "mt_ID (te_Projection ev) = rt_TaskID r" using dec named by (auto dest: task_named elim!: DecideTask_InrE)
  assume y: "y \<in> project_tasks (os_codec sv) s (rt_TenantID r) p" "mt_State y = TaskDefined"
  show "mt_ID y \<noteq> rt_TaskID r"
  proof
    assume same: "mt_ID y = rt_TaskID r"
    obtain q where "map_of (ms_projections s) (aggregateKey (rt_TenantID r) ''task'' (mt_ID y)) = Some q"
      "dc_task (os_codec sv) (pj_State q) = Some y" by (rule project_task_at [OF sound t y(1)])
    with source same have "x = y" by (auto simp: task_source_def known_def)
    with advanced_audited(2) [OF dec ty(1)] y(2) show False by simp
  qed
qed

text \<open>The updates beside those of the dependents that are due.\<close>

lemma advanced_elsewhere:
  assumes t: "nul_free t" and u: "task_update cd t i0 z (fst u)" and i: "i \<noteq> i0"
    and ready: "ready_dependents sv r byID at_time d ids s1 = Inr (ready, s2)" and not_due: "\<not> due byID i"
    and core: "\<And>tr. tr \<in> set core \<Longrightarrow> pu_AggregateType (fst tr) = ''project'' \<and> pu_TenantID (fst tr) = t"
    and tenant: "rt_TenantID r = t"
  shows "aggregateKey t ''task'' i \<notin> update_key ` set (map fst (u # ready @ core))"
proof
  have plain: "nul_free ''task''" "nul_free ''project''" by (simp_all add: nul_free_def)
  note inject = aggregateKey_inject [OF t t]
  assume "aggregateKey t ''task'' i \<in> update_key ` set (map fst (u # ready @ core))"
  then consider "update_key (fst u) = aggregateKey t ''task'' i"
    | tr where "tr \<in> set ready" "update_key (fst tr) = aggregateKey t ''task'' i"
    | tr where "tr \<in> set core" "update_key (fst tr) = aggregateKey t ''task'' i" by (auto; metis)
  then show False
  proof cases
    case 1
    with u i show False by (simp add: task_update_def inject [OF plain(1,1)])
  next
    case 2
    with ready_updates [OF ready] not_due tenant show False by (auto simp: task_update_def inject [OF plain(1,1)])
  next
    case 3
    with core show False by (simp add: inject [OF plain(2,1)])
  qed
qed

end
