(* ===== verification/Orch_Examples.thy ===== *)
theory Orch_Examples
  imports Orch_Commit Orch_Dependents Project_Properties Task_Properties
begin

text \<open>
  Worked examples of the orchestrator: a project that is created behind a signed boundary, a task
  whose audit passes and one whose last attempt fails, each with a dependent. The codec is a table;
  the documents of the examples are named, not computed.
\<close>

section \<open>Executing a transaction\<close>

definition update_ready :: "MemoryStore \<Rightarrow> string \<Rightarrow> ProjectionUpdate \<Rightarrow> DomainEvent \<Rightarrow> bool" where
  \<comment> \<open>an update of the current version with its event\<close>
  "update_ready s t u e \<longleftrightarrow>
     pu_TenantID u = t \<and> pu_ProjectID u \<noteq> [] \<and> pu_AggregateType u \<noteq> [] \<and> pu_AggregateID u \<noteq> []
     \<and> 0 \<le> pu_ExpectedVersion u \<and> pu_NextVersion u = add64 (pu_ExpectedVersion u) 1 \<and> json_object (pu_State u)
     \<and> pu_State u \<noteq> [] \<and> current_version s (aggregateKey t (pu_AggregateType u) (pu_AggregateID u)) = pu_ExpectedVersion u
     \<and> de_TenantID e = t \<and> de_ProjectID e = pu_ProjectID u \<and> de_AggregateType e = pu_AggregateType u
     \<and> de_AggregateID e = pu_AggregateID u \<and> de_AggregateVersion e = pu_NextVersion u \<and> de_Type e \<noteq> []
     \<and> de_EventID e \<noteq> [] \<and> de_PayloadSHA256 e \<noteq> [] \<and> \<not> is_zero_time (de_OccurredAt e) \<and> json_valid (de_Payload e)
     \<and> Digest Some (de_Payload e) = Some (de_PayloadSHA256 e)"

definition request_ready :: "MemoryStore \<Rightarrow> TransactionRequest \<Rightarrow> bool" where
  "request_ready s tx \<longleftrightarrow>
     tq_TenantID tx \<noteq> [] \<and> tq_PrincipalID tx \<noteq> [] \<and> tq_IdempotencyKey tx \<noteq> [] \<and> tq_RequestSHA256 tx \<noteq> []
     \<and> tq_ResultSHA256 tx \<noteq> [] \<and> json_valid (tq_Result tx) \<and> Digest Some (tq_Result tx) = Some (tq_ResultSHA256 tx)
     \<and> tq_Approvals tx = [] \<and> tq_UserDecisions tx = []
     \<and> ms_commands s = [] \<and> ms_events s = [] \<and> ms_versions s = [] \<and> ms_failure s = FailureNone"

lemma digest_some: "x \<noteq> [] \<Longrightarrow> \<exists>d. Digest Some x = Some d \<and> d \<noteq> []"
  by (simp add: Digest_def Canonicalize_def)

lemma execute_one:
  assumes r: "request_ready s tx" and us: "tq_Updates tx = [u]" "tq_Events tx = [e]"
    and u: "update_ready s (tq_TenantID tx) u e"
  shows "\<exists>result s'. Execute Some tx s = (Inr result, s') \<and> \<not> tx_Duplicate result \<and> tx_Result result = tq_Result tx"
proof -
  obtain d where d: "Digest Some (pu_State u) = Some d" using digest_some u unfolding update_ready_def by blast
  have lookup: "lookupLocked (tq_TenantID tx) (tq_PrincipalID tx) (tq_IdempotencyKey tx) (tq_RequestSHA256 tx) s = Inr None"
    using r by (simp add: lookupLocked_def request_ready_def)
  have valid: "validateTransaction Some tx = None"
    using r u by (simp add: validateTransaction_def request_ready_def update_ready_def us Let_def gomap_has_def
        amap.look_store gomap_put_def)
  define bs where "bs = [e\<lparr>de_ReplayState := pu_State u, de_ReplayStateSHA256 := d\<rparr>]"
  have bind: "bindReplayStates Some (tq_Events tx) (tq_Updates tx) = Inr bs"
    using u d by (simp add: bindReplayStates_def update_states_def us bs_def amap.look_store bindReplayState_def update_ready_def)
  have conflicts: "check_conflicts s (tx\<lparr>tq_Events := bs\<rparr>) = None"
    using r u by (simp add: check_conflicts_def us bs_def Let_def gomap_has_def conflict_ids_def request_ready_def update_ready_def)
  have "Execute Some tx s = (Inr (transaction_result (tx\<lparr>tq_Events := bs\<rparr>)), commit (tx\<lparr>tq_Events := bs\<rparr>) s)"
    using r by (simp add: Execute_def lookup valid bind conflicts Let_def consumeFailure_def commit_sel request_ready_def)
  then show ?thesis by (simp add: transaction_result_def)
qed

lemma execute_two:
  assumes r: "request_ready s tx" and us: "tq_Updates tx = [u, w]" "tq_Events tx = [e, f]"
    and u: "update_ready s (tq_TenantID tx) u e" and w: "update_ready s (tq_TenantID tx) w f"
    and dist: "update_key u \<noteq> update_key w" "de_EventID e \<noteq> de_EventID f"
  shows "\<exists>result s'. Execute Some tx s = (Inr result, s') \<and> \<not> tx_Duplicate result \<and> tx_Result result = tq_Result tx"
proof -
  obtain d d' where d: "Digest Some (pu_State u) = Some d" "Digest Some (pu_State w) = Some d'"
    using digest_some u w unfolding update_ready_def by metis
  have lookup: "lookupLocked (tq_TenantID tx) (tq_PrincipalID tx) (tq_IdempotencyKey tx) (tq_RequestSHA256 tx) s = Inr None"
    using r by (simp add: lookupLocked_def request_ready_def)
  have keys: "aggregateKey (tq_TenantID tx) (pu_AggregateType u) (pu_AggregateID u)
      \<noteq> aggregateKey (tq_TenantID tx) (pu_AggregateType w) (pu_AggregateID w)"
    using dist(1) u w by (simp add: update_ready_def)
  have valid: "validateTransaction Some tx = None"
    using r u w dist keys by (simp add: validateTransaction_def request_ready_def update_ready_def us Let_def gomap_has_def
        amap.look_store gomap_put_def)
  define bs where "bs = [e\<lparr>de_ReplayState := pu_State u, de_ReplayStateSHA256 := d\<rparr>,
    f\<lparr>de_ReplayState := pu_State w, de_ReplayStateSHA256 := d'\<rparr>]"
  have bind: "bindReplayStates Some (tq_Events tx) (tq_Updates tx) = Inr bs"
    using u w d keys by (simp add: bindReplayStates_def update_states_def us bs_def amap.look_store bindReplayState_def update_ready_def)
  have conflicts: "check_conflicts s (tx\<lparr>tq_Events := bs\<rparr>) = None"
    using r u w by (simp add: check_conflicts_def us bs_def Let_def gomap_has_def conflict_ids_def request_ready_def update_ready_def)
  have "Execute Some tx s = (Inr (transaction_result (tx\<lparr>tq_Events := bs\<rparr>)), commit (tx\<lparr>tq_Events := bs\<rparr>) s)"
    using r by (simp add: Execute_def lookup valid bind conflicts Let_def consumeFailure_def commit_sel request_ready_def)
  then show ?thesis by (simp add: transaction_result_def)
qed

section \<open>The codec and the boundary\<close>

definition enc_of :: "(string \<times> 'a) list \<Rightarrow> 'a \<Rightarrow> string option" where
  "enc_of table x = map_of (map (\<lambda>(s, y). (y, s)) table) x"

lemma enc_of_reads_back: "distinct (map fst table) \<Longrightarrow> enc_of table x = Some s \<Longrightarrow> map_of table s = Some x"
  by (force simp: enc_of_def dest!: map_of_SomeD)

definition ex_create :: ProjectCommand where
  "ex_create = (bare_project_command ProjectCommandCreate [] 0)\<lparr>pc_GoalAgentCount := 2\<rparr>"

definition ex_named :: "time \<Rightarrow> ProjectCommand" where
  "ex_named at_time = ex_create\<lparr>pc_TenantID := ''tenant'', pc_ProjectID := ''project'', pc_ActorID := ''user'', pc_At := at_time\<rparr>"

definition ex_created :: ProjectEvent where
  "ex_created = projr (DecideProject zero_Project (ex_named 5))"

definition ex_audited :: ModuleTask where
  \<comment> \<open>a task whose last audit is due, with a dependent\<close>
  "ex_audited = run_task (take 6 ex_integrated)"

definition ex_last_attempt :: ModuleTask where
  "ex_last_attempt = run_task (butlast ex_blocked)"

definition ex_waiting :: ModuleTask where
  "ex_waiting = run_task [(bare_task_command TaskCommandDefine 1)
     \<lparr>tc_TenantID := ''tenant'', tc_ProjectID := ''project'', tc_TaskID := ''dependent'', tc_ModuleSpecRef := ex_spec,
      tc_AttemptSeriesID := ''other''\<rparr>]"

definition ex_success :: "time \<Rightarrow> TaskCommand" where
  "ex_success at_time = (bare_task_command TaskCommandLLMSuccess at_time)\<lparr>tc_TenantID := ''tenant'', tc_ProjectID := ''project'',
     tc_TaskID := ''task'', tc_ActorID := ''user'', tc_AuditEvidenceSHA256 := zero_digest, tc_FreshAuditor := True,
     tc_BlindAuditContext := True, tc_NoBlockingFindings := True\<rparr>"

definition ex_failed :: "time \<Rightarrow> TaskCommand" where
  "ex_failed at_time = (bare_task_command TaskCommandDeterministicFailure at_time)\<lparr>tc_TenantID := ''tenant'',
     tc_ProjectID := ''project'', tc_TaskID := ''task'', tc_ActorID := ''user'', tc_AuditEvidenceSHA256 := zero_digest\<rparr>"

definition ex_passed :: TaskEvent where
  "ex_passed = projr (DecideTask ex_audited (ex_success 9))"

definition ex_given_up :: TaskEvent where
  "ex_given_up = projr (DecideTask ex_last_attempt (ex_failed 9))"

definition ex_made_ready :: TaskEvent where
  "ex_made_ready = projr (DecideTask ex_waiting (bare_task_command TaskCommandReadyExecution 9))"

definition ex_held :: TaskEvent where
  "ex_held = projr (DecideTask ex_waiting ((bare_task_command TaskCommandBlockDependency 9)\<lparr>tc_BlockingTaskID := ''task''\<rparr>))"

definition ex_project_table :: "(string \<times> Project) list" where
  "ex_project_table = [(''{\"p\":1}'', pe_Projection ex_created), (''{\"p\":2}'', run_project ex_planned)]"

definition ex_task_table :: "(string \<times> ModuleTask) list" where
  "ex_task_table = [(''{\"t\":1}'', ex_audited), (''{\"t\":2}'', ex_last_attempt), (''{\"t\":3}'', ex_waiting),
     (''{\"t\":4}'', te_Projection ex_passed), (''{\"t\":5}'', te_Projection ex_given_up),
     (''{\"t\":6}'', te_Projection ex_made_ready), (''{\"t\":7}'', te_Projection ex_held)]"

definition ex_codec :: orch_codec where
  "ex_codec =
     \<lparr>ec_project = enc_of ex_project_table, dc_project = map_of ex_project_table, ec_task = enc_of ex_task_table,
      dc_task = map_of ex_task_table, ec_message = (\<lambda>_. None), dc_message = (\<lambda>_. None), ec_goal = (\<lambda>_. None),
      dc_goal = (\<lambda>_. None), ec_spec = (\<lambda>_. None), dc_spec = (\<lambda>_. None), ec_content = (\<lambda>_. None),
      ec_payload = (\<lambda>_ _ _ _. Some ''{}''), ec_queued = (\<lambda>_. None), dc_queued = (\<lambda>_. None),
      ec_published = (\<lambda>_ _. None), dc_published = (\<lambda>_. None), dg_project_command = (\<lambda>_ _. Some zero_digest),
      dg_task_command = (\<lambda>_ _. Some zero_digest), dg_queue = (\<lambda>_ _. None), dg_publish = (\<lambda>_ _. None),
      dg_summary = (\<lambda>_. None), cd_jcs = Some, cd_url = (\<lambda>_. None)\<rparr>"

lemma ex_codec_reads_back: "codec_reads_back ex_codec"
  unfolding codec_reads_back_def reads_back_def kind_sel
  by (auto simp: ex_codec_def intro!: enc_of_reads_back) (simp_all add: ex_project_table_def ex_task_table_def)

definition ex_boundary :: SignedCommitBoundary where
  "ex_boundary = \<lparr>sb_signer = \<lparr>cs_Sign = (\<lambda>_. Some ''s''), cs_Verify = (\<lambda>_ signature. signature = ''s'')\<rparr>,
     sb_revalidator = (\<lambda>_. True)\<rparr>"

definition ex_capability :: CommitCapability where
  "ex_capability =
     \<lparr>cc_CapabilityVersion = 1, cc_TenantID = ''tenant'', cc_ProjectID = ''project'', cc_TaskID = [], cc_PrincipalID = ''user'',
      cc_PrincipalType = ''human'', cc_Role = ''owner'', cc_Action = projectCommandType_string ProjectCommandCreate,
      cc_ExpectedVersion = 0, cc_ProjectVersion = 0, cc_TaskVersion = 0, cc_ParameterDigest = zero_digest,
      cc_EvidenceSHA256 = [], cc_Claims = [], cc_ModuleSpecRef = zero_SpecRef, cc_GoalSpecRef = zero_SpecRef,
      cc_ApprovalRecordID = [], cc_LeaseID = ''lease'', cc_FencingToken = 1, cc_PolicyVersion = ''v1'',
      cc_BudgetAccountID = ''budget'', cc_IssuedAt = 1, cc_ExpiresAt = 100\<rparr>"

definition ex_service :: "time \<Rightarrow> (CommitValidation \<Rightarrow> bool) \<Rightarrow> orchestrator" where
  "ex_service at_time boundary = \<lparr>os_codec = ex_codec, os_clock = at_time, os_boundary = boundary, os_coreOnly = False,
     os_trace = None, os_uuids = [''e1'', ''e2'']\<rparr>"

definition ex_create_request :: ProjectRequest where
  "ex_create_request = \<lparr>rp_TenantID = ''tenant'', rp_ProjectID = ''project'', rp_PrincipalID = ''user'',
     rp_IdempotencyKey = ''key'', rp_ExpectedVersion = 0, rp_Command = ex_create,
     rp_Authorization = \<lparr>ca_Capability = ex_capability, ca_Signature = ''s''\<rparr>\<rparr>"

section \<open>Creating a project\<close>

lemma ex_created_decided:
  "DecideProject zero_Project (ex_named 5) = Inr ex_created"
  "pe_Type ex_created \<noteq> [] \<and> pe_AggregateVersion ex_created = 1 \<and> pe_OccurredAt ex_created = 5"
proof -
  have "case DecideProject zero_Project (ex_named 5) of Inl _ \<Rightarrow> False | Inr _ \<Rightarrow> True" by code_simp
  then show "DecideProject zero_Project (ex_named 5) = Inr ex_created"
    unfolding ex_created_def by (cases "DecideProject zero_Project (ex_named 5)") simp_all
  show "pe_Type ex_created \<noteq> [] \<and> pe_AggregateVersion ex_created = 1 \<and> pe_OccurredAt ex_created = 5" by code_simp
qed

lemma ex_created_encoded: "enc_of ex_project_table (pe_Projection ex_created) = Some ''{\"p\":1}''"
  by (simp add: enc_of_def ex_project_table_def)

lemma ex_json_texts:
  "json_object ''{\"p\":1}''" "json_valid ''{\"p\":1}''" "json_object ''{\"t\":4}''" "json_valid ''{\"t\":4}''"
  "json_object ''{\"t\":5}''" "json_valid ''{\"t\":5}''" "json_object ''{\"t\":6}''" "json_object ''{\"t\":7}''" "json_valid ''{}''"
  by code_simp+

definition made_event :: "string \<Rightarrow> string \<Rightarrow> string \<Rightarrow> string \<Rightarrow> string \<Rightarrow> int \<Rightarrow> time \<Rightarrow> string \<Rightarrow> string \<Rightarrow> DomainEvent" where
  "made_event t p ty i et v at_time d fresh =
     \<lparr>de_EventID = fresh, de_TenantID = t, de_ProjectID = p, de_AggregateType = ty, de_AggregateID = i,
      de_AggregateVersion = v, de_Type = et, de_Payload = ''{}'', de_PayloadSHA256 = ex_sha, de_OccurredAt = at_time,
      de_CorrelationID = stableID ''corr'' d, de_CausationID = [], de_Traceparent = fallbackTraceParent d, de_Tracestate = [],
      de_TaskID = [], de_TaskIDReason = [], de_AgentRunID = [], de_AgentRunReason = [], de_ReplayState = [],
      de_ReplayStateSHA256 = []\<rparr>"

lemma ex_encode:
  "encode_transition ex_codec t p ty i expected (Some state) et v at_time d (fresh # rest) =
     Inr (((\<lparr>pu_TenantID = t, pu_ProjectID = p, pu_AggregateType = ty, pu_AggregateID = i, pu_ExpectedVersion = expected,
            pu_NextVersion = v, pu_State = state\<rparr>, made_event t p ty i et v at_time d fresh), state), rest)"
  by (simp add: encode_transition_def encoded_def ex_codec_def newEvent_def newRecordUUIDv7_def mustDigest_def ex_digest made_event_def)

lemma ex_boundary_accepts:
  "boundary_Validate ex_boundary (projectCommitValidation ex_create_request zero_Project (ex_named 5) zero_digest)"
  by code_simp

definition ex_owner :: orchestrator where
  "ex_owner = ex_service 5 (boundary_Validate ex_boundary)"

lemma ex_owner_sel [simp]:
  "os_codec ex_owner = ex_codec" "os_clock ex_owner = 5" "os_boundary ex_owner = boundary_Validate ex_boundary"
  "os_trace ex_owner = None" "os_uuids ex_owner = [''e1'', ''e2'']" "cd_jcs ex_codec = Some" "os_coreOnly ex_owner = False"
  by (simp_all add: ex_owner_def ex_service_def ex_codec_def)

lemma ex_create_request_sel [simp]:
  "rp_TenantID ex_create_request = ''tenant''" "rp_ProjectID ex_create_request = ''project''"
  "rp_PrincipalID ex_create_request = ''user''" "rp_IdempotencyKey ex_create_request = ''key''"
  "rp_ExpectedVersion ex_create_request = 0" "rp_Command ex_create_request = ex_create"
  by (simp_all add: ex_create_request_def)

lemma ex_create_prepared: "project_command_of ex_owner ex_create_request = Inr (ex_named 0)"
  by (simp add: project_command_of_def prepareGoalCommand_def prepareProjectLifecycleCommand_def prepare_goal_message_def
      ex_create_request_def ex_named_def ex_create_def bare_project_command_def)

lemma ex_create_final: "finalizeGoalCommand ((ex_named 0)\<lparr>pc_At := 5\<rparr>) ids0 = Inr (ex_named 5, ids0)"
  by (simp add: finalizeGoalCommand_def with_fresh_def ex_named_def ex_create_def bare_project_command_def)

definition ex_create_update :: ProjectionUpdate where
  "ex_create_update = \<lparr>pu_TenantID = ''tenant'', pu_ProjectID = ''project'', pu_AggregateType = ''project'',
     pu_AggregateID = ''project'', pu_ExpectedVersion = 0, pu_NextVersion = 1, pu_State = ''{\"p\":1}''\<rparr>"

lemma ex_create_decided:
  "\<exists>tx e. decided_project ex_owner v ex_create_request (ex_named 0) zero_digest zero_Project = Inr tx
     \<and> tq_TenantID tx = ''tenant'' \<and> tq_PrincipalID tx = ''user'' \<and> tq_IdempotencyKey tx = ''key''
     \<and> tq_RequestSHA256 tx = zero_digest \<and> tq_Result tx = ''{\"p\":1}'' \<and> Digest Some (tq_Result tx) = Some (tq_ResultSHA256 tx)
     \<and> tq_ResultSHA256 tx \<noteq> [] \<and> tq_Approvals tx = [] \<and> tq_UserDecisions tx = []
     \<and> tq_Updates tx = [ex_create_update] \<and> tq_Events tx = [e]
     \<and> e = (made_event ''tenant'' ''project'' ''project'' ''project'' (pe_Type ex_created) 1 5 zero_digest ''e1'')
              \<lparr>de_Traceparent := fallbackTraceParent zero_digest, de_Tracestate := []\<rparr>"
proof -
  obtain d where d: "Digest Some ''{\"p\":1}'' = Some d" "d \<noteq> []" using digest_some [of "''{\"p\":1}''"] by auto
  have encoded: "encodeProjectTransition ex_codec ''tenant'' ''project'' 0 ex_created zero_digest [''e1'', ''e2'']
    = Inr (((ex_create_update, made_event ''tenant'' ''project'' ''project'' ''project'' (pe_Type ex_created) 1 5 zero_digest ''e1''),
        ''{\"p\":1}''), [''e2''])"
    using ex_created_encoded ex_created_decided(2)
    by (simp add: encodeProjectTransition_def ex_encode ex_codec_def [THEN arg_cong, of ec_project]
        ex_create_update_def)
  have ty: "pc_Type (ex_named 5) = ProjectCommandCreate" "pc_GoalMessage (ex_named 5) = None" "pc_Goal (ex_named 5) = None"
    "pc_At (ex_named 5) = 5" "pc_Approval (ex_named 5) = None"
    by (simp_all add: ex_named_def ex_create_def bare_project_command_def)
  have goals: "goalRelatedTransitions ex_owner v ex_create_request zero_Project (ex_named 5) zero_digest ids0 = Inr ([], ids0)" for ids0
    by (simp add: goalRelatedTransitions_def message_transition_def goal_change_transition_def ty)
  have valid: "validateCommitBoundary ex_owner (projectCommitValidation ex_create_request zero_Project (ex_named 5) zero_digest) = Inr ()"
    using ex_boundary_accepts
    by (simp add: validateCommitBoundary_def guard_that_def projectCommitValidation_def ex_create_request_def ty zero_digest_def
        is_zero_time_def)
  show ?thesis
    using d by (simp add: decided_project_def ex_create_final ex_created_decided(1) encoded goals ty valid
        project_request_def mustDigest_def applyEventTrace_def)
qed

lemma ex_create_planned:
  "\<exists>tx e. HandleProject_plan ex_owner (view_of NewMemoryStore) ex_create_request = Inr (Commit tx)
     \<and> request_ready NewMemoryStore tx \<and> tq_Updates tx = [ex_create_update] \<and> tq_Events tx = [e]
     \<and> update_ready NewMemoryStore (tq_TenantID tx) ex_create_update e \<and> tq_Result tx = ''{\"p\":1}''
     \<and> tq_RequestSHA256 tx = zero_digest"
proof -
  obtain tx e where tx: "decided_project ex_owner (view_of NewMemoryStore) ex_create_request (ex_named 0) zero_digest zero_Project = Inr tx"
    "tq_TenantID tx = ''tenant''" "tq_PrincipalID tx = ''user''" "tq_IdempotencyKey tx = ''key''"
    "tq_RequestSHA256 tx = zero_digest" "tq_Result tx = ''{\"p\":1}''" "Digest Some (tq_Result tx) = Some (tq_ResultSHA256 tx)"
    "tq_ResultSHA256 tx \<noteq> []" "tq_Approvals tx = []" "tq_UserDecisions tx = []"
    "tq_Updates tx = [ex_create_update]" "tq_Events tx = [e]"
    "e = (made_event ''tenant'' ''project'' ''project'' ''project'' (pe_Type ex_created) 1 5 zero_digest ''e1'')
       \<lparr>de_Traceparent := fallbackTraceParent zero_digest, de_Tracestate := []\<rparr>" using ex_create_decided by blast
  have ready: "request_ready NewMemoryStore tx"
    unfolding request_ready_def tx(2-6,9,10) using tx(7,8) ex_json_texts(2) by (simp add: tx(6) NewMemoryStore_def zero_digest_def)
  have "update_ready NewMemoryStore ''tenant'' ex_create_update e"
    using ex_json_texts(1,9) ex_digest ex_created_decided(2)
    by (simp add: update_ready_def ex_create_update_def tx(13) made_event_def current_version_def NewMemoryStore_def
        zero_Projection_def is_zero_time_def add64_id int64_def)
  moreover have "HandleProject_plan ex_owner (view_of NewMemoryStore) ex_create_request = Inr (Commit tx)"
  proof -
    have "project_digest ex_owner ex_create_request (ex_named 0) = Inr zero_digest"
      by (simp add: project_digest_def encoded_def ex_codec_def [THEN arg_cong, of dg_project_command] Let_def)
    moreover have "load_project ex_owner (view_of NewMemoryStore) ex_create_request (pc_Type (ex_named 0)) = Inr zero_Project"
      by (simp add: load_project_def load_from_def view_of_def from_store_def Load_def NewMemoryStore_def
          ex_named_def ex_create_def bare_project_command_def zero_Project_def)
    ultimately show ?thesis
      using tx(1) by (simp add: HandleProject_plan_def ex_create_prepared orch_validateRequest_def guard_that_def
          view_of_def Lookup_def lookupLocked_def from_store_def NewMemoryStore_def [THEN arg_cong, of ms_commands])
  qed
  ultimately show ?thesis using ready tx by metis
qed

lemma ex_create_handled:
  "\<exists>outcome s'. HandleProject ex_owner ex_create_request NewMemoryStore = (Inr outcome, s')"
  "\<exists>tx. HandleProject_plan ex_owner (view_of NewMemoryStore) ex_create_request = Inr (Commit tx)
     \<and> tq_RequestSHA256 tx = zero_digest
     \<and> map_of (ms_projections (snd (Execute Some tx NewMemoryStore))) (aggregateKey ''tenant'' ''project'' ''project'')
         = Some (projection_of ex_create_update)"
proof -
  obtain tx e where tx: "HandleProject_plan ex_owner (view_of NewMemoryStore) ex_create_request = Inr (Commit tx)"
    "request_ready NewMemoryStore tx" "tq_Updates tx = [ex_create_update]" "tq_Events tx = [e]"
    "update_ready NewMemoryStore (tq_TenantID tx) ex_create_update e" "tq_Result tx = ''{\"p\":1}''"
    "tq_RequestSHA256 tx = zero_digest" using ex_create_planned by blast
  from execute_one [OF tx(2-5)] obtain result s' where ex: "Execute Some tx NewMemoryStore = (Inr result, s')"
    "\<not> tx_Duplicate result" "tx_Result result = tq_Result tx" by blast
  have "dc_project ex_codec (tx_Result result) = Some (pe_Projection ex_created)"
    by (simp add: ex(3) tx(6) ex_codec_def ex_project_table_def)
  with tx(1) ex(1) show "\<exists>outcome s'. HandleProject ex_owner ex_create_request NewMemoryStore = (Inr outcome, s')"
    by (simp add: HandleProject_def commit_project_def decodeProject_def encoded_def)
  have "map_of (ms_projections s') (update_key ex_create_update) = Some (projection_of ex_create_update)"
    by (rule executed_updates(2) [OF ex(1,2)]) (simp add: tx(3))
  with tx(1,7) ex(1) show "\<exists>tx. HandleProject_plan ex_owner (view_of NewMemoryStore) ex_create_request = Inr (Commit tx)
     \<and> tq_RequestSHA256 tx = zero_digest
     \<and> map_of (ms_projections (snd (Execute Some tx NewMemoryStore))) (aggregateKey ''tenant'' ''project'' ''project'')
         = Some (projection_of ex_create_update)"
    by (simp add: ex_create_update_def)
qed

lemma ex_trace:
  assumes "HandleProject_plan ex_owner (view_of NewMemoryStore) ex_create_request = Inr (Commit tx)"
  shows "orch_trace ex_codec [snd (Execute Some tx NewMemoryStore), NewMemoryStore]"
  using orch_trace.handled [OF orch_trace.start, of "view_of NewMemoryStore" ex_owner ex_codec "CallProject ex_create_request" tx] assms
  by (simp add: view_of_from nul_free_def)

section \<open>Tasks with a dependent\<close>

definition ex_tasks :: "ModuleTask \<Rightarrow> string \<Rightarrow> MemoryStore" where
  "ex_tasks x state = NewMemoryStore\<lparr>ms_projections :=
     [(aggregateKey ''tenant'' ''project'' ''project'', \<lparr>pj_TenantID = ''tenant'', pj_ProjectID = ''project'',
         pj_AggregateType = ''project'', pj_AggregateID = ''project'', pj_Version = prj_Version (run_project ex_planned),
         pj_State = ''{\"p\":2}''\<rparr>),
      (aggregateKey ''tenant'' ''task'' ''task'', \<lparr>pj_TenantID = ''tenant'', pj_ProjectID = ''project'',
         pj_AggregateType = ''task'', pj_AggregateID = ''task'', pj_Version = mt_Version x, pj_State = state\<rparr>),
      (aggregateKey ''tenant'' ''task'' ''dependent'', \<lparr>pj_TenantID = ''tenant'', pj_ProjectID = ''project'',
         pj_AggregateType = ''task'', pj_AggregateID = ''dependent'', pj_Version = mt_Version ex_waiting,
         pj_State = ''{\"t\":3}''\<rparr>)]\<rparr>"

definition ex_worker :: orchestrator where
  "ex_worker = ex_service 9 (\<lambda>_. True)"

definition ex_task_request :: "ModuleTask \<Rightarrow> TaskCommand \<Rightarrow> TaskRequest" where
  "ex_task_request x c = \<lparr>rt_TenantID = ''tenant'', rt_ProjectID = ''project'', rt_TaskID = ''task'', rt_PrincipalID = ''user'',
     rt_IdempotencyKey = ''key'', rt_ExpectedVersion = mt_Version x, rt_Command = c,
     rt_Authorization = \<lparr>ca_Capability = ex_capability, ca_Signature = ''s''\<rparr>\<rparr>"

lemma ex_worker_sel [simp]:
  "os_codec ex_worker = ex_codec" "os_clock ex_worker = 9" "os_boundary ex_worker = (\<lambda>_. True)"
  "os_trace ex_worker = None" "os_uuids ex_worker = [''e1'', ''e2'']" "os_coreOnly ex_worker = False"
  by (simp_all add: ex_worker_def ex_service_def)

lemma ex_task_request_sel [simp]:
  "rt_TenantID (ex_task_request x c) = ''tenant''" "rt_ProjectID (ex_task_request x c) = ''project''"
  "rt_TaskID (ex_task_request x c) = ''task''" "rt_PrincipalID (ex_task_request x c) = ''user''"
  "rt_IdempotencyKey (ex_task_request x c) = ''key''" "rt_ExpectedVersion (ex_task_request x c) = mt_Version x"
  "rt_Command (ex_task_request x c) = c"
  by (simp_all add: ex_task_request_def)

lemma ex_project_facts:
  "map_of ex_project_table ''{\"p\":2}'' = Some (run_project ex_planned)"
  "prj_State (run_project ex_planned) = ProjectExecuting" "prj_Plan (run_project ex_planned) \<noteq> None"
  "case prj_Goal (run_project ex_planned) of None \<Rightarrow> False | Some g \<Rightarrow> gr_ApprovedBy g \<noteq> []"
proof -
  show "map_of ex_project_table ''{\"p\":2}'' = Some (run_project ex_planned)" by (simp add: ex_project_table_def)
  show "prj_State (run_project ex_planned) = ProjectExecuting" by code_simp
  show "prj_Plan (run_project ex_planned) \<noteq> None" by code_simp
  show "case prj_Goal (run_project ex_planned) of None \<Rightarrow> False | Some g \<Rightarrow> gr_ApprovedBy g \<noteq> []" by code_simp
qed

lemma ex_load:
  "Load ''tenant'' ''project'' ''project'' (ex_tasks x state) = (\<lparr>pj_TenantID = ''tenant'', pj_ProjectID = ''project'',
     pj_AggregateType = ''project'', pj_AggregateID = ''project'', pj_Version = prj_Version (run_project ex_planned),
     pj_State = ''{\"p\":2}''\<rparr>, True)"
  "Load ''tenant'' ''task'' ''task'' (ex_tasks x state) = (\<lparr>pj_TenantID = ''tenant'', pj_ProjectID = ''project'',
     pj_AggregateType = ''task'', pj_AggregateID = ''task'', pj_Version = mt_Version x, pj_State = state\<rparr>, True)"
  "Load ''tenant'' ''task'' ''dependent'' (ex_tasks x state) = (\<lparr>pj_TenantID = ''tenant'', pj_ProjectID = ''project'',
     pj_AggregateType = ''task'', pj_AggregateID = ''dependent'', pj_Version = mt_Version ex_waiting,
     pj_State = ''{\"t\":3}''\<rparr>, True)"
  by (simp_all add: Load_def ex_tasks_def aggregateKey_def)

lemma ex_task_loaded:
  assumes "map_of ex_task_table state = Some x" "mt_TenantID x = ''tenant''" "mt_ProjectID x = ''project''"
  shows "load_current_task ex_worker (view_of (ex_tasks x state)) (ex_task_request x c) ty = Inr x"
  using assms by (simp add: load_current_task_def load_from_def view_of_def from_store_def ex_load decodeTask_def encoded_def
      ex_codec_def [THEN arg_cong, of dc_task])

lemma ex_task_project:
  assumes "ty \<noteq> TaskCommandStartPlanning" "ty \<noteq> TaskCommandAttachModuleSpec"
  shows "task_project ex_worker (view_of (ex_tasks x state)) (ex_task_request x c) ty = Inr (run_project ex_planned)"
  using assms ex_project_facts
  by (simp add: task_project_def load_from_def view_of_def from_store_def ex_load decodeProject_def encoded_def
      ex_codec_def [THEN arg_cong, of dc_project] Let_def split: option.splits)

lemma ex_task_digest: "TaskParameterDigest ex_codec r = Inr zero_digest"
  by (simp add: TaskParameterDigest_def encoded_def ex_codec_def)

lemma ex_task_plan:
  assumes "map_of ex_task_table state = Some x" "mt_TenantID x = ''tenant''" "mt_ProjectID x = ''project''" "0 \<le> mt_Version x"
    and "tc_Type c \<noteq> TaskCommandStartPlanning" "tc_Type c \<noteq> TaskCommandAttachModuleSpec"
    and "decided_task ex_worker (view_of (ex_tasks x state)) (ex_task_request x c) zero_digest (run_project ex_planned) x = Inr tx"
  shows "handleTaskOnce_plan ex_worker (view_of (ex_tasks x state)) (ex_task_request x c) = Inr (Commit tx)"
proof -
  have look: "sw_Lookup (view_of (ex_tasks x state)) t p k d = Inr None" for t p k d
    by (simp add: view_of_def Lookup_def lookupLocked_def ex_tasks_def NewMemoryStore_def)
  show ?thesis
    using ex_task_loaded [OF assms(1-3)] ex_task_project [OF assms(5,6)] assms(4,7)
    by (simp add: handleTaskOnce_plan_def orch_validateRequest_def guard_that_def ex_task_digest look from_store_def)
qed

definition task_identity :: "ModuleTask \<Rightarrow> string \<times> string \<times> string \<times> int" where
  "task_identity x = (mt_TenantID x, mt_ProjectID x, mt_ID x, mt_Version x)"

lemma ex_task_identities:
  "task_identity ex_audited = (''tenant'', ''project'', ''task'', 6)"
  "task_identity ex_last_attempt = (''tenant'', ''project'', ''task'', 15)"
  "task_identity ex_waiting = (''tenant'', ''project'', ''dependent'', 1)"
  by code_simp+

lemma ex_task_facts:
  "mt_TenantID ex_audited = ''tenant''" "mt_ProjectID ex_audited = ''project''" "mt_ID ex_audited = ''task''" "mt_Version ex_audited = 6"
  "mt_TenantID ex_last_attempt = ''tenant''" "mt_ProjectID ex_last_attempt = ''project''" "mt_ID ex_last_attempt = ''task''"
  "mt_Version ex_last_attempt = 15"
  "mt_TenantID ex_waiting = ''tenant''" "mt_ProjectID ex_waiting = ''project''" "mt_ID ex_waiting = ''dependent''"
  "mt_Version ex_waiting = 1" "mt_State ex_waiting = TaskDefined"
  using ex_task_identities by (simp_all add: task_identity_def) code_simp

lemma projr_Inr: "(case r of Inl _ \<Rightarrow> False | Inr _ \<Rightarrow> True) \<Longrightarrow> r = Inr (projr r)"
  by (cases r) simp_all

lemma ex_decided:
  "DecideTask ex_audited (ex_success 9) = Inr ex_passed"
  "DecideTask ex_last_attempt (ex_failed 9) = Inr ex_given_up"
  "DecideTask ex_waiting (bare_task_command TaskCommandReadyExecution 9) = Inr ex_made_ready"
  "DecideTask ex_waiting ((bare_task_command TaskCommandBlockDependency 9)\<lparr>tc_BlockingTaskID := ''task''\<rparr>) = Inr ex_held"
  unfolding ex_passed_def ex_given_up_def ex_made_ready_def ex_held_def
  by (rule projr_Inr, code_simp)+

lemma task_event_facts:
  assumes "DecideTask x c = Inr ev"
  shows "te_AggregateVersion ev = add64 (mt_Version x) 1" "mt_Version (te_Projection ev) = add64 (mt_Version x) 1"
    "te_OccurredAt ev = tc_At c" "te_Type ev \<noteq> []"
proof -
  from assms show "te_AggregateVersion ev = add64 (mt_Version x) 1" "mt_Version (te_Projection ev) = add64 (mt_Version x) 1"
    "te_OccurredAt ev = tc_At c" by (auto elim: DecideTask_InrE)
  have "task_command ty x c = Inr (et, y) \<Longrightarrow> et \<noteq> []" for ty et y
    by (cases ty) (auto simp: task_commands Let_def split: option.splits if_splits)
  with assms show "te_Type ev \<noteq> []" by (auto elim!: DecideTask_InrE)
qed

lemma ex_event_facts:
  "te_Type ex_passed \<noteq> [] \<and> te_AggregateVersion ex_passed = 7 \<and> te_OccurredAt ex_passed = 9"
  "te_Type ex_given_up \<noteq> [] \<and> te_AggregateVersion ex_given_up = 16 \<and> te_OccurredAt ex_given_up = 9"
  "te_Type ex_made_ready \<noteq> [] \<and> te_AggregateVersion ex_made_ready = 2 \<and> te_OccurredAt ex_made_ready = 9"
  "te_Type ex_held \<noteq> [] \<and> te_AggregateVersion ex_held = 2 \<and> te_OccurredAt ex_held = 9"
  "mt_Version (te_Projection ex_passed) = 7" "mt_Version (te_Projection ex_given_up) = 16"
  "mt_Version (te_Projection ex_made_ready) = 2" "mt_Version (te_Projection ex_held) = 2"
  using task_event_facts [OF ex_decided(1)] task_event_facts [OF ex_decided(2)] task_event_facts [OF ex_decided(3)]
    task_event_facts [OF ex_decided(4)]
  by (simp_all add: ex_task_facts add64_id int64_def ex_success_def ex_failed_def bare_task_command_def)

lemma ex_state_facts:
  "mt_State (te_Projection ex_passed) = TaskPassed" "mt_State (te_Projection ex_made_ready) = TaskReadyExecution"
  "mt_State (te_Projection ex_held) = TaskBlockedDependency"
  "mt_ID (te_Projection ex_passed) = ''task''" "mt_DependentTaskIDs (te_Projection ex_passed) = [''dependent'']"
  by code_simp+

lemma ex_given_up_facts:
  "mt_State (te_Projection ex_given_up) = TaskBlockedUserDecision"
  "mt_FrozenDependentIDs (te_Projection ex_given_up) = [''dependent'']"
  by code_simp+

lemma ex_encoded:
  "enc_of ex_task_table (te_Projection ex_passed) = Some ''{\"t\":4}''"
  "enc_of ex_task_table (te_Projection ex_given_up) = Some ''{\"t\":5}''"
  "enc_of ex_task_table (te_Projection ex_made_ready) = Some ''{\"t\":6}''"
  "enc_of ex_task_table (te_Projection ex_held) = Some ''{\"t\":7}''"
proof -
  have ne: "x \<noteq> y" if "mt_Version x \<noteq> mt_Version y \<or> mt_State x \<noteq> mt_State y" for x y :: ModuleTask using that by auto
  show "enc_of ex_task_table (te_Projection ex_passed) = Some ''{\"t\":4}''"
    "enc_of ex_task_table (te_Projection ex_given_up) = Some ''{\"t\":5}''"
    "enc_of ex_task_table (te_Projection ex_made_ready) = Some ''{\"t\":6}''"
    "enc_of ex_task_table (te_Projection ex_held) = Some ''{\"t\":7}''"
    unfolding enc_of_def ex_task_table_def by (simp_all add: ne ex_event_facts ex_state_facts ex_task_facts)
qed

definition ex_task_update :: "string \<Rightarrow> int \<Rightarrow> string \<Rightarrow> ProjectionUpdate" where
  "ex_task_update i v state = \<lparr>pu_TenantID = ''tenant'', pu_ProjectID = ''project'', pu_AggregateType = ''task'',
     pu_AggregateID = i, pu_ExpectedVersion = v, pu_NextVersion = v + 1, pu_State = state\<rparr>"

lemma ex_task_encode:
  assumes "enc_of ex_task_table (te_Projection ev) = Some state" "te_AggregateVersion ev = v + 1" "te_OccurredAt ev = 9"
  shows "encodeTaskTransition ex_codec ''tenant'' ''project'' i v ev zero_digest (fresh # rest)
    = Inr (((ex_task_update i v state,
        made_event ''tenant'' ''project'' ''task'' i (te_Type ev) (v + 1) 9 zero_digest fresh), state), rest)"
  using assms by (simp add: encodeTaskTransition_def ex_encode ex_codec_def [THEN arg_cong, of ec_task] ex_task_update_def)

lemma ex_dependent_transition:
  assumes "DecideTask ex_waiting c = Inr ev" "enc_of ex_task_table (te_Projection ev) = Some state"
    and "te_AggregateVersion ev = 2" "te_OccurredAt ev = 9"
  shows "task_transition ex_worker ''tenant'' ''project'' ''dependent'' ex_waiting c zero_digest [''e2'']
    = Inr (((ex_task_update ''dependent'' 1 state,
        made_event ''tenant'' ''project'' ''task'' ''dependent'' (te_Type ev) 2 9 zero_digest ''e2''), te_Projection ev), [])"
  using assms ex_task_encode [of ev state 1 "''dependent''" "''e2''" "[]"]
  by (simp add: task_transition_def ex_task_facts)

lemma ex_listed:
  "Tasks ex_worker ''tenant'' ''project'' (ListProjections ''tenant'' ''project'' ''task'' (ex_tasks ex_audited ''{\"t\":1}''))
     = Inr [ex_waiting, ex_audited]"
  by code_simp

lemma ex_ready_index:
  "map_of (gomap_put ''task'' (te_Projection ex_passed) (task_index [ex_waiting, ex_audited])) ''dependent'' = Some ex_waiting"
  "map_of (task_index [ex_waiting, ex_audited]) ''dependent'' = Some ex_waiting"
  by (simp_all add: amap.look_store task_index_def ex_task_facts)

lemma ex_all_audited:
  "allTaskDependenciesAudited (gomap_put ''task'' (te_Projection ex_passed) (task_index [ex_waiting, ex_audited])) ''dependent''"
  by code_simp

lemma ex_success_related:
  "related_tasks ex_worker (view_of (ex_tasks ex_audited ''{\"t\":1}'')) (ex_task_request ex_audited c0) (run_project ex_planned)
     ex_audited (ex_success 9) (te_Projection ex_passed) zero_digest [''e2'']
   = Inr ([(ex_task_update ''dependent'' 1 ''{\"t\":6}'',
       made_event ''tenant'' ''project'' ''task'' ''dependent'' (te_Type ex_made_ready) 2 9 zero_digest ''e2'')], [])"
proof -
  have c: "tc_Type (ex_success 9) = TaskCommandLLMSuccess" "tc_At (ex_success 9) = 9"
    by (simp_all add: ex_success_def bare_task_command_def)
  have ready: "readyAuditedDependents ex_worker (view_of (ex_tasks ex_audited ''{\"t\":1}'')) (ex_task_request ex_audited c0)
      (te_Projection ex_passed) 9 zero_digest [''e2'']
    = Inr ([(ex_task_update ''dependent'' 1 ''{\"t\":6}'',
       made_event ''tenant'' ''project'' ''task'' ''dependent'' (te_Type ex_made_ready) 2 9 zero_digest ''e2'')], [])"
    using ex_dependent_transition [OF ex_decided(3) ex_encoded(3)] ex_event_facts(3)
    by (simp add: readyAuditedDependents_def ex_event_facts ex_state_facts view_of_def ex_listed ex_ready_index ex_all_audited ex_task_facts)
  have core: "coreSummaryTransition ex_worker v r p y at_time d ids0 = Inr ([], ids0)" for v r p y at_time d ids0
    by (simp add: coreSummaryTransition_def split: option.split)
  show ?thesis by (simp add: related_tasks_def c ex_state_facts ready core)
qed

lemma ex_failure_related:
  "related_tasks ex_worker (view_of (ex_tasks ex_last_attempt ''{\"t\":2}'')) (ex_task_request ex_last_attempt c0)
     (run_project ex_planned) ex_last_attempt (ex_failed 9) (te_Projection ex_given_up) zero_digest [''e2'']
   = Inr ([(ex_task_update ''dependent'' 1 ''{\"t\":7}'',
       made_event ''tenant'' ''project'' ''task'' ''dependent'' (te_Type ex_held) 2 9 zero_digest ''e2'')], [])"
proof -
  have c: "tc_Type (ex_failed 9) = TaskCommandDeterministicFailure" "tc_At (ex_failed 9) = 9"
    by (simp_all add: ex_failed_def bare_task_command_def)
  have dc: "dc_task ex_codec ''{\"t\":3}'' = Some ex_waiting" by (simp add: ex_codec_def ex_task_table_def)
  have dep: "load_task ex_worker (view_of (ex_tasks ex_last_attempt ''{\"t\":2}'')) ''tenant'' ''project'' ''dependent'' e1 e2 = Inr ex_waiting"
    for e1 e2
    using dc by (simp add: load_task_def load_from_def view_of_def from_store_def ex_load decodeTask_def encoded_def ex_task_facts)
  show ?thesis
    using ex_dependent_transition [OF ex_decided(4) ex_encoded(4)] ex_event_facts(4)
    by (simp add: related_tasks_def c ex_given_up_facts dep)
qed

lemma ex_decided_task:
  assumes c: "c = (normalizedTaskCommand (ex_task_request x c0))\<lparr>tc_At := 9\<rparr>" "tc_Type c \<noteq> TaskCommandAuthorizeNewSeries"
      "taskCommandType_string (tc_Type c) \<noteq> []"
    and dec: "DecideTask x c = Inr ev" and enc: "enc_of ex_task_table (te_Projection ev) = Some state"
    and ev: "te_AggregateVersion ev = mt_Version x + 1" "te_OccurredAt ev = 9"
    and related: "related_tasks ex_worker v (ex_task_request x c0) (run_project ex_planned) x c (te_Projection ev) zero_digest [''e2'']
      = Inr ([(w, f)], [])"
  shows "\<exists>tx d. decided_task ex_worker v (ex_task_request x c0) zero_digest (run_project ex_planned) x = Inr tx
    \<and> tx = \<lparr>tq_TenantID = ''tenant'', tq_PrincipalID = ''user'', tq_IdempotencyKey = ''key'', tq_RequestSHA256 = zero_digest,
        tq_Updates = [ex_task_update ''task'' (mt_Version x) state, w],
        tq_Events = map (\<lambda>e. e\<lparr>de_Traceparent := fallbackTraceParent zero_digest, de_Tracestate := []\<rparr>)
          [made_event ''tenant'' ''project'' ''task'' ''task'' (te_Type ev) (mt_Version x + 1) 9 zero_digest ''e1'', f],
        tq_Approvals = [], tq_UserDecisions = [], tq_Result = state, tq_ResultSHA256 = d\<rparr>
    \<and> Digest Some state = Some d \<and> d \<noteq> []"
proof -
  have "state \<noteq> []" using map_of_SomeD [OF enc [unfolded enc_of_def]] by (auto simp: ex_task_table_def)
  from digest_some [OF this] obtain d where d: "Digest Some state = Some d" "d \<noteq> []" by blast
  have valid: "validateCommitBoundary ex_worker (taskCommitValidation (ex_task_request x c0) p x c zero_digest) = Inr ()" for p
    using arg_cong [OF c(1), of tc_At] c(3)
    by (simp add: validateCommitBoundary_def guard_that_def taskCommitValidation_def zero_digest_def is_zero_time_def)
  show ?thesis
    unfolding decided_task_def Let_def ex_worker_sel utc_def c(1) [symmetric]
    using c(2) dec d related ex_task_encode [OF enc ev, of "''task''" "''e1''" "[''e2'']"] valid
    by (simp add: mustDigest_def applyEventTrace_def)
qed

lemma ex_task_ready:
  assumes "json_object state" "state \<noteq> []" "et \<noteq> []" "0 \<le> v" "v < 100" "i \<noteq> []" "fresh \<noteq> []"
    and "current_version s (aggregateKey ''tenant'' ''task'' i) = v"
  shows "update_ready s ''tenant'' (ex_task_update i v state)
    ((made_event ''tenant'' ''project'' ''task'' i et (v + 1) 9 zero_digest fresh)\<lparr>de_Traceparent := tp, de_Tracestate := []\<rparr>)"
  using assms ex_digest ex_json_texts(9)
  by (simp add: update_ready_def ex_task_update_def made_event_def is_zero_time_def add64_id int64_def)

text \<open>Both examples run to a first outcome.\<close>

lemma ex_task_handled:
  assumes x: "map_of ex_task_table state = Some x" "mt_TenantID x = ''tenant''" "mt_ProjectID x = ''project''" "0 \<le> mt_Version x"
      "mt_Version x < 100"
    and c: "c = (normalizedTaskCommand (ex_task_request x c0))\<lparr>tc_At := 9\<rparr>" "tc_Type c \<noteq> TaskCommandAuthorizeNewSeries"
      "taskCommandType_string (tc_Type c) \<noteq> []" "tc_Type c \<noteq> TaskCommandStartPlanning" "tc_Type c \<noteq> TaskCommandAttachModuleSpec"
    and dec: "DecideTask x c = Inr ev" and enc: "enc_of ex_task_table (te_Projection ev) = Some state'"
      "json_object state'" "json_valid state'" "map_of ex_task_table state' = Some (te_Projection ev)"
    and ev: "te_AggregateVersion ev = mt_Version x + 1" "te_OccurredAt ev = 9" "te_Type ev \<noteq> []"
    and dep: "json_object held" "held \<noteq> []" "et \<noteq> []"
    and related: "related_tasks ex_worker (view_of (ex_tasks x state)) (ex_task_request x c0) (run_project ex_planned) x c
        (te_Projection ev) zero_digest [''e2'']
      = Inr ([(ex_task_update ''dependent'' 1 held, made_event ''tenant'' ''project'' ''task'' ''dependent'' et 2 9 zero_digest ''e2'')], [])"
  shows "\<exists>out s'. handleTaskOnce ex_worker (ex_task_request x c0) (ex_tasks x state) = (Inr out, s')
    \<and> \<not> ot_Duplicate out \<and> ot_Task out = te_Projection ev"
proof -
  let ?s = "ex_tasks x state"
  have ver: "current_version ?s (aggregateKey ''tenant'' ''task'' ''task'') = mt_Version x"
    "current_version ?s (aggregateKey ''tenant'' ''task'' ''dependent'') = 1"
    by (simp_all add: current_version_def ex_tasks_def aggregateKey_def ex_task_facts)
  have named: "state' \<noteq> []" using map_of_SomeD [OF enc(1) [unfolded enc_of_def]] by (auto simp: ex_task_table_def)
  obtain tx d where plan: "decided_task ex_worker (view_of ?s) (ex_task_request x c0) zero_digest (run_project ex_planned) x = Inr tx"
    and tx: "tx = \<lparr>tq_TenantID = ''tenant'', tq_PrincipalID = ''user'', tq_IdempotencyKey = ''key'', tq_RequestSHA256 = zero_digest,
        tq_Updates = [ex_task_update ''task'' (mt_Version x) state', ex_task_update ''dependent'' 1 held],
        tq_Events = map (\<lambda>e. e\<lparr>de_Traceparent := fallbackTraceParent zero_digest, de_Tracestate := []\<rparr>)
          [made_event ''tenant'' ''project'' ''task'' ''task'' (te_Type ev) (mt_Version x + 1) 9 zero_digest ''e1'',
           made_event ''tenant'' ''project'' ''task'' ''dependent'' et 2 9 zero_digest ''e2''],
        tq_Approvals = [], tq_UserDecisions = [], tq_Result = state', tq_ResultSHA256 = d\<rparr>"
    and d: "Digest Some state' = Some d" "d \<noteq> []"
    using ex_decided_task [OF c(1-3) dec enc(1) ev(1,2) related] by blast
  have "request_ready ?s tx"
    using enc(3) d by (simp add: request_ready_def tx zero_digest_def ex_tasks_def NewMemoryStore_def)
  moreover have "update_ready ?s (tq_TenantID tx) (ex_task_update ''task'' (mt_Version x) state')
      ((made_event ''tenant'' ''project'' ''task'' ''task'' (te_Type ev) (mt_Version x + 1) 9 zero_digest ''e1'')
         \<lparr>de_Traceparent := fallbackTraceParent zero_digest, de_Tracestate := []\<rparr>)"
    using ex_task_ready [OF enc(2) named ev(3) x(4,5) _ _ ver(1), of "''e1''"] by (simp add: tx)
  moreover have "update_ready ?s (tq_TenantID tx) (ex_task_update ''dependent'' 1 held)
      ((made_event ''tenant'' ''project'' ''task'' ''dependent'' et 2 9 zero_digest ''e2'')
         \<lparr>de_Traceparent := fallbackTraceParent zero_digest, de_Tracestate := []\<rparr>)"
    using ex_task_ready [OF dep _ _ _ _ ver(2), of "''e2''"] by (simp add: tx)
  ultimately obtain result s' where ex: "Execute Some tx ?s = (Inr result, s')" "\<not> tx_Duplicate result" "tx_Result result = state'"
    using execute_two [of ?s tx] by (force simp: tx ex_task_update_def made_event_def aggregateKey_def)
  have "handleTaskOnce_plan ex_worker (view_of ?s) (ex_task_request x c0) = Inr (Commit tx)"
  proof (rule ex_task_plan [OF x(1-4) _ _ plan])
    show "tc_Type c0 \<noteq> TaskCommandStartPlanning" "tc_Type c0 \<noteq> TaskCommandAttachModuleSpec"
      using c(1,4,5) by (simp_all add: normalizedTaskCommand_def)
  qed
  then show ?thesis
    using ex enc(4) by (simp add: handleTaskOnce_def commit_task_def decodeTask_def encoded_def ex_codec_def [THEN arg_cong, of dc_task])
qed

lemma ex_normalized:
  "ex_success 9 = (normalizedTaskCommand (ex_task_request x (ex_success 0)))\<lparr>tc_At := 9\<rparr>"
  "ex_failed 9 = (normalizedTaskCommand (ex_task_request x (ex_failed 0)))\<lparr>tc_At := 9\<rparr>"
  by (simp_all add: normalizedTaskCommand_def ex_success_def ex_failed_def bare_task_command_def)

lemma ex_table_lookup:
  "map_of ex_task_table ''{\"t\":1}'' = Some ex_audited" "map_of ex_task_table ''{\"t\":2}'' = Some ex_last_attempt"
  "map_of ex_task_table ''{\"t\":4}'' = Some (te_Projection ex_passed)"
  "map_of ex_task_table ''{\"t\":5}'' = Some (te_Projection ex_given_up)"
  "map_of ex_task_table ''{\"t\":3}'' = Some ex_waiting"
  by (simp_all add: ex_task_table_def)

lemma ex_success_handled:
  "\<exists>out s'. handleTaskOnce ex_worker (ex_task_request ex_audited (ex_success 0)) (ex_tasks ex_audited ''{\"t\":1}'') = (Inr out, s')
    \<and> \<not> ot_Duplicate out \<and> ot_Task out = te_Projection ex_passed"
  by (rule ex_task_handled [OF ex_table_lookup(1) ex_task_facts(1,2) _ _ ex_normalized(1) _ _ _ _ ex_decided(1) ex_encoded(1)
        ex_json_texts(3,4) ex_table_lookup(3) _ _ _ ex_json_texts(7) _ _ ex_success_related])
    (simp_all add: ex_task_facts ex_event_facts, simp_all add: ex_success_def bare_task_command_def)

lemma ex_failure_handled:
  "\<exists>out s'. handleTaskOnce ex_worker (ex_task_request ex_last_attempt (ex_failed 0)) (ex_tasks ex_last_attempt ''{\"t\":2}'') = (Inr out, s')
    \<and> \<not> ot_Duplicate out \<and> ot_Task out = te_Projection ex_given_up"
  by (rule ex_task_handled [OF ex_table_lookup(2) ex_task_facts(5,6) _ _ ex_normalized(2) _ _ _ _ ex_decided(2) ex_encoded(2)
        ex_json_texts(5,6) ex_table_lookup(4) _ _ _ ex_json_texts(8) _ _ ex_failure_related])
    (simp_all add: ex_task_facts ex_event_facts, simp_all add: ex_failed_def bare_task_command_def)

lemma ex_tasks_sound: "store_sound ex_codec (ex_tasks ex_audited ''{\"t\":1}'')"
proof -
  let ?s = "ex_tasks ex_audited ''{\"t\":1}''"
  have ok: "store_ok Some ?s"
    by (simp add: store_ok_def events_ok_def outbox_ok_def projections_ok_def decisions_ok_def ex_tasks_def NewMemoryStore_def
        gomap_ok_def aggregateKey_def split: if_splits)
  moreover have "plain_keys ?s" by (simp add: plain_keys_def ex_tasks_def nul_free_def split: if_splits)
  moreover have "sound_states (project_kind ex_codec) ?s"
  proof -
    have "prj_ID (run_project ex_planned) = ''project''" "prj_TenantID (run_project ex_planned) = ''tenant''" by code_simp+
    with run_project_history [of ex_planned] ex_project_facts(1) show ?thesis
      by (auto simp: sound_states_def ex_tasks_def ex_codec_def split: if_splits)
  qed
  moreover have "sound_states (task_kind ex_codec) ?s"
    using run_task_history ex_task_facts ex_table_lookup
    by (auto simp: sound_states_def ex_tasks_def ex_codec_def split: if_splits) (auto simp: ex_audited_def ex_waiting_def)
  ultimately show ?thesis by (simp add: store_sound_def)
qed

lemma ex_waiting_listed: "ex_waiting \<in> project_tasks ex_codec (ex_tasks ex_audited ''{\"t\":1}'') ''tenant'' ''project''"
  using ex_table_lookup(5) by (simp add: project_tasks_def ex_tasks_def ex_codec_def)

lemma ex_waiting_leads: "\<not> leads_to ''dependent'' ex_waiting"
  by code_simp

end
