(* ===== verification/Orch_Properties.thy ===== *)
theory Orch_Properties
  imports Orch_Examples
begin

text \<open>
  What the orchestrator guarantees: concurrent handlers refine the aggregates, the invariants of
  projects and tasks hold of everything stored, a commit is authorized by a capability that names it,
  a repeated request is answered by the first result, and the dependents of a task are blocked and
  made ready with it.
\<close>

text \<open>
  C3: concurrent handlers lose no update. Whatever the interleaving, and however old the answers a
  handler planned from, each step of the store leaves every project and every task as it is or takes
  it through one command that is decided on, and applied to, the state it had just before.
\<close>

theorem orchestrated_steps:
  assumes "orch_trace cd (s' # s # past)" and "codec_reads_back cd" and "int (length (s' # s # past)) < 2 ^ 63"
    and "nul_free t"
  shows "(\<exists>p p'. stored_state (project_kind cd) s t i = Some p \<and> stored_state (project_kind cd) s' t i = Some p'
            \<and> (p' = p \<or> (\<exists>c e. aggregate_step DecideProject ApplyProject p c = (Inr e, p'))))
       \<and> (\<exists>x x'. stored_state (task_kind cd) s t i = Some x \<and> stored_state (task_kind cd) s' t i = Some x'
            \<and> (x' = x \<or> (\<exists>c e. aggregate_step DecideTask ApplyTask x c = (Inr e, x'))))"
  using trace_stepped [OF assms(1-3)] assms(4) unfolding stepped_def one_step_def aggregate_step_accepts kind_sel by metis

theorem orchestrated_steps_witness:
  "\<exists>s' p p'. orch_trace ex_codec [s', NewMemoryStore]
     \<and> stored_state (project_kind ex_codec) NewMemoryStore ''tenant'' ''project'' = Some p
     \<and> stored_state (project_kind ex_codec) s' ''tenant'' ''project'' = Some p'
     \<and> (p' = p \<or> (\<exists>c e. aggregate_step DecideProject ApplyProject p c = (Inr e, p')))"
proof -
  obtain tx where tx: "HandleProject_plan ex_owner (view_of NewMemoryStore) ex_create_request = Inr (Commit tx)"
    using ex_create_handled(2) by blast
  from orchestrated_steps [OF ex_trace [OF tx] ex_codec_reads_back, of "''tenant''" "''project''"] ex_trace [OF tx]
  show ?thesis by (force simp: nul_free_def)
qed

text \<open>
  C4: everything stored keeps the invariants of its aggregate. In every store that concurrent
  handlers produce, a stored project or task decodes to one with the identity and the version it is
  stored under that accepted commands produced one after the other. The phase of the project keeps its
  promise, its deletion is in its life cycle, a goal it works on was approved by one of the commands
  and it is completed only by one that satisfied the completion gate. The state, attempts and series of
  the task agree, and if it is integrated it went through its audits.
\<close>

theorem orchestrated_states:
  assumes "orch_trace cd (s # past)" and "codec_reads_back cd" and "int (length (s # past)) < 2 ^ 63" and "nul_free t"
  shows "(\<forall>q. map_of (ms_projections s) (aggregateKey t ''project'' i) = Some q \<longrightarrow>
            (\<exists>p cs. dc_project cd (pj_State q) = Some p \<and> prj_ID p = i \<and> prj_TenantID p = t \<and> prj_Version p = pj_Version q
               \<and> history DecideProject ApplyProject zero_Project cs p \<and> phase_inv p \<and> deletion_inv p
               \<and> (\<forall>g. prj_Goal p = Some g \<longrightarrow> gr_ApprovedBy g \<noteq> [] \<longrightarrow> (\<exists>c \<in> set cs. approves c g))
               \<and> (prj_State p = ProjectCompleted \<longrightarrow> (\<exists>c \<in> set cs. completes c))))
       \<and> (\<forall>q. map_of (ms_projections s) (aggregateKey t ''task'' i) = Some q \<longrightarrow>
            (\<exists>x cs. dc_task cd (pj_State q) = Some x \<and> mt_ID x = i \<and> mt_TenantID x = t \<and> mt_Version x = pj_Version q
               \<and> history DecideTask ApplyTask zero_ModuleTask cs x \<and> task_inv x
               \<and> (mt_State x = TaskIntegrated \<longrightarrow> went_through audit_path (rev cs))))"
  using stored_project_invariants [OF assms] stored_task_invariants [OF assms] by blast

theorem orchestrated_states_witness:
  "\<exists>s' q p. orch_trace ex_codec [s', NewMemoryStore]
     \<and> map_of (ms_projections s') (aggregateKey ''tenant'' ''project'' ''project'') = Some q
     \<and> dc_project ex_codec (pj_State q) = Some p \<and> prj_Version p = pj_Version q \<and> phase_inv p \<and> deletion_inv p"
proof -
  obtain tx where tx: "HandleProject_plan ex_owner (view_of NewMemoryStore) ex_create_request = Inr (Commit tx)"
    "map_of (ms_projections (snd (Execute Some tx NewMemoryStore))) (aggregateKey ''tenant'' ''project'' ''project'')
      = Some (projection_of ex_create_update)" using ex_create_handled(2) by blast
  note states = orchestrated_states [OF ex_trace [OF tx(1)] ex_codec_reads_back, of "''tenant''" "''project''"]
  have "int (length [snd (Execute Some tx NewMemoryStore), NewMemoryStore]) < 2 ^ 63" "nul_free ''tenant''"
    by (simp_all add: nul_free_def)
  from states [OF this] tx(2) ex_trace [OF tx(1)] show ?thesis by blast
qed

text \<open>
  C5: a transaction is authorized. Behind a signed boundary, a handler plans a transaction only with a
  capability whose signature verifies, that the revalidator accepts and that is in force, issued no
  more than five minutes before it expires, for exactly this call: its tenant, project, task, principal,
  action, expected version and the digest the transaction is recorded under; for a task also the version
  of the task that was read, and the fencing token of the command if it has one.
\<close>

theorem commit_authorized:
  assumes "call_plans sv v call tx" and "os_boundary sv = boundary_Validate b"
    and "capability = ca_Capability (call_authorization call)"
  shows "cs_Verify (sb_signer b) capability (ca_Signature (call_authorization call)) \<and> sb_revalidator b capability
    \<and> in_force capability (os_clock sv)
    \<and> cc_TenantID capability = call_tenant call \<and> cc_ProjectID capability = call_project call
    \<and> cc_TaskID capability = call_task call \<and> cc_PrincipalID capability = call_principal call
    \<and> cc_Action capability = call_action call \<and> cc_ExpectedVersion capability = call_expected call
    \<and> cc_ParameterDigest capability = tq_RequestSHA256 tx
    \<and> tq_TenantID tx = call_tenant call \<and> tq_PrincipalID tx = call_principal call
    \<and> (\<forall>r. call = CallTask r \<longrightarrow> cc_TaskVersion capability = rt_ExpectedVersion r
         \<and> (0 < tc_FencingToken (rt_Command r) \<longrightarrow> cc_FencingToken capability = tc_FencingToken (rt_Command r)))"
proof -
  from planned_validated [OF assms(1)] obtain w where ok: "validateCommitBoundary sv w = Inr ()"
    and w: "validation_of sv call tx w" and task: "\<forall>r. call = CallTask r \<longrightarrow>
      cv_FencingToken w = tc_FencingToken (rt_Command r) \<and> mt_Version (cv_Task w) = rt_ExpectedVersion r" by blast
  have c: "ca_Capability (cv_Authorization w) = capability" "ca_Signature (cv_Authorization w) = ca_Signature (call_authorization call)"
    using w assms(3) by (simp_all add: validation_of_def)
  note b = boundary_accepts [OF ok assms(2), unfolded c]
  note m = capability_matches [OF b(1)]
  show ?thesis using b(2-4) m w task unfolding validation_of_def by auto
qed

theorem commit_authorized_witness:
  "\<exists>tx. call_plans ex_owner (view_of NewMemoryStore) (CallProject ex_create_request) tx
     \<and> cs_Verify (sb_signer ex_boundary) ex_capability ''s'' \<and> in_force ex_capability 5
     \<and> cc_ParameterDigest ex_capability = tq_RequestSHA256 tx"
proof -
  obtain tx where tx: "call_plans ex_owner (view_of NewMemoryStore) (CallProject ex_create_request) tx"
    using ex_create_handled(2) by auto
  have auth: "call_authorization (CallProject ex_create_request) = \<lparr>ca_Capability = ex_capability, ca_Signature = ''s''\<rparr>"
    by (simp add: ex_create_request_def)
  show ?thesis using commit_authorized [OF tx ex_owner_sel(3) refl] tx unfolding auth by auto
qed

text \<open>
  C15: a request takes effect once. When a project command or a task command returned an outcome, the
  same request at any later time, on whatever instance of the service, returns the same outcome marked
  as a duplicate and leaves the store as it is.
\<close>

theorem request_handled_once:
  assumes "s = store_run (cd_jcs (os_codec sv)) ops NewMemoryStore" and "os_codec sv' = os_codec sv"
    and "later = store_run (cd_jcs (os_codec sv)) ops'"
  shows "(HandleProject sv r s = (Inr po, s') \<longrightarrow>
            HandleProject sv' r (later s') = (Inr (po\<lparr>op_Duplicate := True\<rparr>), later s'))
       \<and> (handleTaskOnce sv q s = (Inr t, s') \<longrightarrow>
            handleTaskOnce sv' q (later s') = (Inr (t\<lparr>ot_Duplicate := True\<rparr>), later s'))"
proof -
  have "store_ok (cd_jcs (os_codec sv)) s" unfolding assms(1) by (rule run_store_ok)
  note ok = this assms(2,3)
  show ?thesis by (intro conjI impI project_handled_once [OF ok] task_handled_once [OF ok])
qed

theorem request_handled_once_witness:
  "\<exists>outcome s'. HandleProject ex_owner ex_create_request NewMemoryStore = (Inr outcome, s')
     \<and> HandleProject ex_worker ex_create_request (store_run Some [OpFailNext FailureBeforeCommit] s')
         = (Inr (outcome\<lparr>op_Duplicate := True\<rparr>), store_run Some [OpFailNext FailureBeforeCommit] s')"
proof -
  obtain outcome s' where run: "HandleProject ex_owner ex_create_request NewMemoryStore = (Inr outcome, s')"
    using ex_create_handled(1) by blast
  have "NewMemoryStore = store_run (cd_jcs (os_codec ex_owner)) [] NewMemoryStore" "os_codec ex_worker = os_codec ex_owner"
    "store_run Some [OpFailNext FailureBeforeCommit] = store_run (cd_jcs (os_codec ex_owner)) [OpFailNext FailureBeforeCommit]"
    by (simp_all add: store_run_def)
  from request_handled_once [OF this] run show ?thesis by blast
qed

text \<open>
  C13: a task takes its dependents with it. When a first outcome leaves a task waiting for a user
  decision, the same transaction stored the task and each of the dependents frozen with it as blocked,
  with this task among what it waits for, and every other projection in the store is what it was.
\<close>

theorem dependents_blocked:
  assumes "handleTaskOnce sv r s = (Inr out, s')" and "\<not> ot_Duplicate out" and "codec_reads_back (os_codec sv)"
    and "mt_State (ot_Task out) = TaskBlockedUserDecision"
  shows "stored_state (task_kind (os_codec sv)) s' (rt_TenantID r) (rt_TaskID r) = Some (ot_Task out)
    \<and> (\<forall>i \<in> set (mt_FrozenDependentIDs (ot_Task out)).
         \<exists>x. stored_state (task_kind (os_codec sv)) s' (rt_TenantID r) i = Some x
           \<and> mt_State x = TaskBlockedDependency \<and> rt_TaskID r \<in> set (mt_BlockingTaskIDs x))
    \<and> (\<forall>k. k \<notin> aggregateKey (rt_TenantID r) ''task'' ` insert (rt_TaskID r) (set (mt_FrozenDependentIDs (ot_Task out))) \<longrightarrow>
         map_of (ms_projections s') k = map_of (ms_projections s) k)"
proof (rule first_task_outcome [OF assms(1-3)])
  let ?t = "rt_TenantID r" and ?ids = "mt_FrozenDependentIDs (ot_Task out)"
  fix d p x c ev t s1 ts rest
  assume dec: "DecideTask x c = Inr ev" and task: "ot_Task out = te_Projection ev"
    and t: "task_update (os_codec sv) ?t (rt_TaskID r) (te_Projection ev) (fst t)"
    and related: "related_tasks sv (view_of s) r p x c (te_Projection ev) d s1 = Inr (ts, rest)"
    and stored: "\<And>u. u \<in> set (map fst (t # ts)) \<Longrightarrow> map_of (ms_projections s') (update_key u) = Some (projection_of u)"
    and kept: "\<And>k. k \<notin> update_key ` set (map fst (t # ts)) \<Longrightarrow> map_of (ms_projections s') k = map_of (ms_projections s) k"
  from waiting_related [OF dec assms(4) [unfolded task] related]
  have blocked: "block_dependents sv (view_of s) r (tc_At c) d ?ids s1 = Inr (ts, rest)" by (simp add: task)
  show ?thesis
  proof (intro conjI ballI allI impI)
    show "stored_state (task_kind (os_codec sv)) s' ?t (rt_TaskID r) = Some (ot_Task out)"
      using updated_state [OF stored t assms(3)] by (simp add: task)
  next
    fix i assume "i \<in> set ?ids"
    from block_updates [OF blocked this] obtain tr y where tr: "tr \<in> set ts" and y: "task_update (os_codec sv) ?t i y (fst tr)"
      "mt_State y = TaskBlockedDependency" "rt_TaskID r \<in> set (mt_BlockingTaskIDs y)" by blast
    from tr have "fst tr \<in> set (map fst (t # ts))" by auto
    from updated_state [OF stored [OF this] y(1) assms(3)] y(2,3)
    show "\<exists>x. stored_state (task_kind (os_codec sv)) s' ?t i = Some x
       \<and> mt_State x = TaskBlockedDependency \<and> rt_TaskID r \<in> set (mt_BlockingTaskIDs x)" by blast
  next
    fix k assume "k \<notin> aggregateKey ?t ''task'' ` insert (rt_TaskID r) (set ?ids)"
    moreover have "update_key ` set (map fst (t # ts)) \<subseteq> aggregateKey ?t ''task'' ` insert (rt_TaskID r) (set ?ids)"
      using t block_only [OF blocked] by (fastforce simp: task_update_def)
    ultimately show "map_of (ms_projections s') k = map_of (ms_projections s) k" using kept by blast
  qed
qed

theorem dependents_blocked_witness:
  "\<exists>out s' x. handleTaskOnce ex_worker (ex_task_request ex_last_attempt (ex_failed 0))
        (ex_tasks ex_last_attempt ''{\"t\":2}'') = (Inr out, s')
     \<and> stored_state (task_kind ex_codec) s' ''tenant'' ''dependent'' = Some x
     \<and> mt_State x = TaskBlockedDependency \<and> ''task'' \<in> set (mt_BlockingTaskIDs x)
     \<and> map_of (ms_projections s') (aggregateKey ''tenant'' ''project'' ''project'')
         = map_of (ms_projections (ex_tasks ex_last_attempt ''{\"t\":2}'')) (aggregateKey ''tenant'' ''project'' ''project'')"
proof -
  obtain out s' where run: "handleTaskOnce ex_worker (ex_task_request ex_last_attempt (ex_failed 0))
      (ex_tasks ex_last_attempt ''{\"t\":2}'') = (Inr out, s')" "\<not> ot_Duplicate out" "ot_Task out = te_Projection ex_given_up"
    using ex_failure_handled by blast
  note blocked = dependents_blocked [OF run(1,2)]
  have "aggregateKey ''tenant'' ''project'' ''project'' \<noteq> aggregateKey ''tenant'' ''task'' i" for i
    by (auto simp: aggregateKey_def)
  with blocked run ex_codec_reads_back ex_given_up_facts show ?thesis by auto
qed

text \<open>
  C14: a dependent is made ready exactly when the last of its dependencies is audited. When a first
  outcome of a passed audit or of an integration is committed with nothing in between, a defined task
  among the dependents becomes ready in the same transaction if every other task of the project that
  counts and leads to it is audited, and stays as it is otherwise.
\<close>

theorem dependents_readied:
  assumes "handleTaskOnce sv r s = (Inr out, s')" and "\<not> ot_Duplicate out" and "codec_reads_back (os_codec sv)"
    and "store_sound (os_codec sv) s" and "nul_free (rt_TenantID r)"
    and "tc_Type (rt_Command r) = TaskCommandLLMSuccess \<or> tc_Type (rt_Command r) = TaskCommandIntegrate"
    and "x \<in> project_tasks (os_codec sv) s (rt_TenantID r) (rt_ProjectID r)" and "mt_State x = TaskDefined"
    and "mt_ID x \<in> set (mt_DependentTaskIDs (ot_Task out))"
  shows "if \<forall>y \<in> project_tasks (os_codec sv) s (rt_TenantID r) (rt_ProjectID r).
              mt_ID y \<noteq> rt_TaskID r \<longrightarrow> leads_to (mt_ID x) y \<longrightarrow> audited y
    then \<exists>x'. stored_state (task_kind (os_codec sv)) s' (rt_TenantID r) (mt_ID x) = Some x' \<and> mt_State x' = TaskReadyExecution
    else stored_state (task_kind (os_codec sv)) s' (rt_TenantID r) (mt_ID x) = Some x"
proof (rule first_task_outcome [OF assms(1-3)])
  let ?cd = "os_codec sv" and ?t = "rt_TenantID r" and ?i = "mt_ID x"
  let ?key = "aggregateKey ?t ''task'' ?i" and ?all = "project_tasks ?cd s ?t (rt_ProjectID r)"
  fix d p x0 c ev u s1 ts rest
  assume c: "c = (normalizedTaskCommand r)\<lparr>tc_At := utc (os_clock sv)\<rparr>"
    and load: "load_current_task sv (view_of s) r (tc_Type (rt_Command r)) = Inr x0" and named: "rt_TaskID r \<noteq> []"
    and dec: "DecideTask x0 c = Inr ev" and out: "ot_Task out = te_Projection ev"
    and u: "task_update ?cd ?t (rt_TaskID r) (te_Projection ev) (fst u)"
    and related: "related_tasks sv (view_of s) r p x0 c (te_Projection ev) d s1 = Inr (ts, rest)"
    and stored: "\<And>w. w \<in> set (map fst (u # ts)) \<Longrightarrow> map_of (ms_projections s') (update_key w) = Some (projection_of w)"
    and kept: "\<And>k. k \<notin> update_key ` set (map fst (u # ts)) \<Longrightarrow> map_of (ms_projections s') k = map_of (ms_projections s) k"
  have ty: "tc_Type c = TaskCommandLLMSuccess \<or> tc_Type c = TaskCommandIntegrate"
    using assms(6) by (simp add: c normalizedTaskCommand_def)
  note sound = assms(4)
  note advanced = advanced_task [OF sound assms(5) load named dec ty assms(6)]
  have other: "?i \<noteq> rt_TaskID r" by (rule advanced(2) [OF assms(7,8)])
  note done_id = advanced(1)
  obtain q where q: "map_of (ms_projections s) ?key = Some q" "dc_task ?cd (pj_State q) = Some x"
    by (rule project_task_at [OF sound assms(5,7)])
  show ?thesis
  proof (rule advanced_related [OF dec ty related])
    fix ready s2 core
    assume ready: "readyAuditedDependents sv (view_of s) r (te_Projection ev) (tc_At c) d s1 = Inr (ready, s2)"
      and ts: "ts = ready @ core"
      and core: "\<And>tr. tr \<in> set core \<Longrightarrow> pu_AggregateType (fst tr) = ''project'' \<and> pu_TenantID (fst tr) = ?t"
    from ready assms(9) obtain xs where xs: "Tasks sv ?t (rt_ProjectID r) (ListProjections ?t (rt_ProjectID r) ''task'' s) = Inr xs"
      and rd: "ready_dependents sv r (gomap_put (rt_TaskID r) (te_Projection ev) (task_index xs)) (tc_At c) d
        (sort (mt_DependentTaskIDs (te_Projection ev))) s1 = Inr (ready, s2)"
      unfolding readyAuditedDependents_def out done_id view_of_def by (auto split: if_splits)
    note all = tasks_listed [OF xs]
    have due: "due (gomap_put (rt_TaskID r) (te_Projection ev) (task_index xs)) ?i
        \<longleftrightarrow> (\<forall>y \<in> ?all. mt_ID y \<noteq> rt_TaskID r \<longrightarrow> leads_to ?i y \<longrightarrow> audited y)"
      using due_index [of xs "te_Projection ev" ?i x] project_tasks_distinct [OF sound assms(5)] other assms(7-9)
        advanced_audited(1) [OF dec ty] unfolding all done_id out by blast
    show ?thesis
    proof (cases "\<forall>y \<in> ?all. mt_ID y \<noteq> rt_TaskID r \<longrightarrow> leads_to ?i y \<longrightarrow> audited y")
      case True
      with due have is_due: "due (gomap_put (rt_TaskID r) (te_Projection ev) (task_index xs)) ?i" by simp
      have "?i \<in> set (sort (mt_DependentTaskIDs (te_Projection ev)))" using assms(9) out by simp
      with ready_updates [OF rd] is_due obtain tr y where tr: "tr \<in> set ready" "task_update ?cd ?t ?i y (fst tr)"
        "mt_State y = TaskReadyExecution" by blast
      have "fst tr \<in> set (map fst (u # ts))" using tr(1) ts by simp
      from updated_state [OF stored [OF this] tr(2) assms(3)] tr(3) True show ?thesis by simp
    next
      case False
      with due have "\<not> due (gomap_put (rt_TaskID r) (te_Projection ev) (task_index xs)) ?i" by simp
      from advanced_elsewhere [OF assms(5) u other rd this core refl]
      have "?key \<notin> update_key ` set (map fst (u # ts))" unfolding ts .
      then have "map_of (ms_projections s') ?key = map_of (ms_projections s) ?key" by (rule kept)
      with q have "stored_state (task_kind ?cd) s' ?t ?i = Some x" by (simp add: stored_state_def)
      with False show ?thesis by (simp only: if_False)
    qed
  qed
qed

theorem dependents_readied_witness:
  "\<exists>out s' x. handleTaskOnce ex_worker (ex_task_request ex_audited (ex_success 0)) (ex_tasks ex_audited ''{\"t\":1}'') = (Inr out, s')
     \<and> stored_state (task_kind ex_codec) s' ''tenant'' ''dependent'' = Some x \<and> mt_State x = TaskReadyExecution"
proof -
  let ?s = "ex_tasks ex_audited ''{\"t\":1}''" and ?r = "ex_task_request ex_audited (ex_success 0)"
  obtain out s' where run: "handleTaskOnce ex_worker ?r ?s = (Inr out, s')" "\<not> ot_Duplicate out"
    "ot_Task out = te_Projection ex_passed" using ex_success_handled by blast
  have "mt_ID y = ''task'' \<or> y = ex_waiting" if "y \<in> project_tasks ex_codec ?s ''tenant'' ''project''" for y
    using that ex_table_lookup ex_task_facts by (auto simp: project_tasks_def ex_tasks_def ex_codec_def)
  then have all: "\<forall>y \<in> project_tasks ex_codec ?s ''tenant'' ''project''. mt_ID y \<noteq> ''task'' \<longrightarrow> leads_to ''dependent'' y \<longrightarrow> audited y"
    using ex_waiting_leads by blast
  have "tc_Type (ex_success 0) = TaskCommandLLMSuccess" by (simp add: ex_success_def bare_task_command_def)
  with dependents_readied [OF run(1,2), of ex_waiting] ex_codec_reads_back ex_tasks_sound ex_waiting_listed all run
    ex_task_facts ex_state_facts show ?thesis by (simp add: nul_free_def)
qed

end
