(* ===== verification/Orch_Plans.thy ===== *)
theory Orch_Plans
  imports Orch_Trace
begin

text \<open>
  The dependents that the tasks of a plan are created with, against the graph of the plan.
\<close>

lemma planning_definitions_all:
  assumes "planning_definitions dag ms ts ds"
  shows "distinct (map pl_ModuleID ds) \<and> distinct (map pl_TaskID ds)
    \<and> (\<forall>d \<in> set ds. gomap_has dag (pl_ModuleID d) \<and> pl_ModuleID d \<notin> set ms \<and> pl_TaskID d \<notin> set ts)"
  using assms
proof (induction ds arbitrary: ms ts)
  case (Cons d ds)
  then have rest: "planning_definitions dag (pl_ModuleID d # ms) (pl_TaskID d # ts) ds"
    and d: "gomap_has dag (pl_ModuleID d)" "pl_ModuleID d \<notin> set ms" "pl_TaskID d \<notin> set ts" by (auto split: if_splits)
  from Cons.IH [OF rest] d show ?case by fastforce
qed simp

lemma ValidateDAG_local: "ValidateDAG g \<Longrightarrow> locally_ok g"
  unfolding ValidateDAG_def ValidateDAG_order_def using dag_nodes_local [of g "(map (\<lambda>p. (fst p, 0)) g, [])"]
  by (auto split: if_splits option.splits)

lemma queue_request_parts:
  assumes "validateQueuePlanTasksRequest r = Inr ()"
  shows "ValidateDAG (qp_DAG r)" "length (qp_Tasks r) = length (qp_DAG r)" "planning_definitions (qp_DAG r) [] [] (qp_Tasks r)"
  using assms by (auto simp: validateQueuePlanTasksRequest_def)

lemma planned_modules:
  assumes "validateQueuePlanTasksRequest r = Inr ()" "gomap_ok (qp_DAG r)"
  shows "pl_ModuleID ` set (qp_Tasks r) = fst ` set (qp_DAG r)"
proof (rule card_subset_eq)
  note valid = queue_request_parts [OF assms(1)]
  note defs = planning_definitions_all [OF valid(3)]
  show "finite (fst ` set (qp_DAG r))" by simp
  show "pl_ModuleID ` set (qp_Tasks r) \<subseteq> fst ` set (qp_DAG r)" using defs by (auto simp: gomap_has_def amap.keys_look)
  have "card (pl_ModuleID ` set (qp_Tasks r)) = length (qp_Tasks r)" using defs by (metis distinct_card length_map list.set_map)
  moreover have "card (fst ` set (qp_DAG r)) = length (qp_DAG r)" by (rule amap.ok_card [OF assms(2)])
  ultimately show "card (pl_ModuleID ` set (qp_Tasks r)) = card (fst ` set (qp_DAG r))" using valid(2) by simp
qed

lemma task_of_planned:
  assumes "distinct (map pl_ModuleID ds)" "d \<in> set ds"
  shows "task_of_module (planning_pairs ds) (pl_ModuleID d) = pl_TaskID d"
proof -
  have "distinct (map fst (rev (planning_pairs ds)))" using assms(1) by (simp add: planning_pairs_def comp_def flip: rev_map)
  moreover have "(pl_ModuleID d, pl_TaskID d) \<in> set (rev (planning_pairs ds))" using assms(2) by (auto simp: planning_pairs_def)
  ultimately show ?thesis by (simp add: task_of_module_def)
qed

lemma filter_eq_distinct: "distinct ds \<Longrightarrow> filter (\<lambda>d. d = m) ds = (if m \<in> set ds then [m] else [])"
  by (induction ds) auto

lemma dependents_as_filter:
  assumes "locally_ok g"
  shows "concat (map (\<lambda>(n, ds). map (\<lambda>_. f n) (filter (\<lambda>d. d = m) ds)) g) = map (f \<circ> fst) (filter (\<lambda>(n, ds). m \<in> set ds) g)"
  using assms unfolding locally_ok_def
proof -
  assume "\<forall>(n, ds) \<in> set g. distinct ds \<and> n \<notin> set ds \<and> set ds \<subseteq> fst ` set g"
  then have "\<forall>(n, ds) \<in> set g. distinct ds" by blast
  then show ?thesis by (induction g) (auto simp: filter_eq_distinct)
qed

text \<open>
  C40: the dependents of a task are those of the graph. In a valid request to queue the tasks of a plan,
  the dependents a module is created with are the tasks of exactly the modules that depend on it, sorted
  and each once, whatever the order in which the graph is visited.
\<close>

theorem plan_dependents_exact:
  assumes "validateQueuePlanTasksRequest r = Inr ()" and "gomap_ok (qp_DAG r)"
  shows "planDependentTaskIDs (planning_pairs (qp_Tasks r)) (qp_DAG r) m
    = sorted_list_of_set {t. \<exists>d \<in> set (qp_Tasks r). t = pl_TaskID d \<and> m \<in> set (dependencies_of (qp_DAG r) (pl_ModuleID d))}"
proof -
  note valid = queue_request_parts [OF assms(1)]
  note defs = planning_definitions_all [OF valid(3)]
  let ?task = "task_of_module (planning_pairs (qp_Tasks r))"
  let ?ms = "map fst (filter (\<lambda>(n, ds). m \<in> set ds) (qp_DAG r))"
  have task: "?task (pl_ModuleID d) = pl_TaskID d" if "d \<in> set (qp_Tasks r)" for d
    using task_of_planned defs that by blast
  have L: "planDependentTaskIDs (planning_pairs (qp_Tasks r)) (qp_DAG r) m = sort (map ?task ?ms)"
    unfolding planDependentTaskIDs_def dependents_as_filter [OF ValidateDAG_local [OF valid(1)]] by simp
  have deps: "n \<in> set ?ms \<longleftrightarrow> n \<in> fst ` set (qp_DAG r) \<and> m \<in> set (dependencies_of (qp_DAG r) n)" for n
    using gomap_okD [OF assms(2)] by (force simp: dependencies_of_def split: option.splits dest: map_of_SomeD)
  have "distinct (map ?task ?ms)"
  proof -
    have "distinct (map fst (qp_DAG r))" using assms(2) by (simp add: gomap_ok_def)
    then have "distinct ?ms" by (rule distinct_map_filter)
    moreover have "inj_on ?task (pl_ModuleID ` set (qp_Tasks r))"
      using task defs by (auto simp: inj_on_def distinct_map)
    then have "inj_on ?task (set ?ms)"
      unfolding planned_modules [OF assms] by (rule inj_on_subset) auto
    ultimately show ?thesis unfolding distinct_map [of ?task ?ms] by blast
  qed
  moreover have "set (map ?task ?ms)
      = {t. \<exists>d \<in> set (qp_Tasks r). t = pl_TaskID d \<and> m \<in> set (dependencies_of (qp_DAG r) (pl_ModuleID d))}"
  proof (intro set_eqI iffI)
    fix t assume "t \<in> set (map ?task ?ms)"
    then obtain n where n: "n \<in> set ?ms" "t = ?task n" unfolding set_map by blast
    from n(1) obtain d where "d \<in> set (qp_Tasks r)" "n = pl_ModuleID d"
      unfolding deps planned_modules [OF assms, symmetric] by blast
    with n task deps show "t \<in> {t. \<exists>d \<in> set (qp_Tasks r). t = pl_TaskID d
        \<and> m \<in> set (dependencies_of (qp_DAG r) (pl_ModuleID d))}" by blast
  next
    fix t assume "t \<in> {t. \<exists>d \<in> set (qp_Tasks r). t = pl_TaskID d
        \<and> m \<in> set (dependencies_of (qp_DAG r) (pl_ModuleID d))}"
    then obtain d where d: "d \<in> set (qp_Tasks r)" "t = pl_TaskID d" "m \<in> set (dependencies_of (qp_DAG r) (pl_ModuleID d))"
      by blast
    then have "pl_ModuleID d \<in> set ?ms" unfolding deps planned_modules [OF assms, symmetric] by blast
    moreover have "t = ?task (pl_ModuleID d)" using task d by simp
    ultimately show "t \<in> set (map ?task ?ms)" unfolding set_map by blast
  qed
  moreover have "sorted_list_of_set (set (sort (map ?task ?ms))) = sort (map ?task ?ms)" if "distinct (map ?task ?ms)"
    by (rule sorted_list_of_set.idem_if_sorted_distinct) (use that in \<open>simp_all del: map_map\<close>)
  ultimately show ?thesis unfolding L by (simp only: set_sort)
qed

theorem plan_dependents_exact_witness:
  "planDependentTaskIDs [(''a'', ''t1''), (''b'', ''t2''), (''c'', ''t3'')] [(''a'', []), (''b'', [''a'']), (''c'', [''a'', ''b''])] ''a''
     = sorted_list_of_set {''t2'', ''t3''}"
proof -
  let ?r = "\<lparr>qp_TenantID = ''t'', qp_ProjectID = ''p'', qp_PrincipalID = ''u'', qp_IdempotencyKey = ''k'',
    qp_ExpectedProjectVersion = 4, qp_GoalSpecRef = \<lparr>sr_Version = 1, sr_SHA256 = zero_digest\<rparr>,
    qp_PlanRef = \<lparr>sr_Version = 1, sr_SHA256 = zero_digest\<rparr>,
    qp_DAG = [(''a'', []), (''b'', [''a'']), (''c'', [''a'', ''b''])],
    qp_Tasks = [\<lparr>pl_ModuleID = ''a'', pl_TaskID = ''t1'', pl_Retain = False\<rparr>, \<lparr>pl_ModuleID = ''b'', pl_TaskID = ''t2'', pl_Retain = False\<rparr>,
      \<lparr>pl_ModuleID = ''c'', pl_TaskID = ''t3'', pl_Retain = False\<rparr>], qp_Authorization = undefined\<rparr>"
  have dag: "ValidateDAG [(''a'', []), (''b'', [''a'']), (''c'', [''a'', ''b''])]" by code_simp
  have "validateQueuePlanTasksRequest ?r = Inr ()"
    by (simp add: validateQueuePlanTasksRequest_def orch_validateRequest_def guard_that_def dag gomap_has_def SpecRef_Validate_iff)
  moreover have "gomap_ok (qp_DAG ?r)" by (simp add: gomap_ok_def)
  ultimately have "planDependentTaskIDs (planning_pairs (qp_Tasks ?r)) (qp_DAG ?r) ''a''
    = sorted_list_of_set {t. \<exists>d \<in> set (qp_Tasks ?r). t = pl_TaskID d \<and> ''a'' \<in> set (dependencies_of (qp_DAG ?r) (pl_ModuleID d))}"
    by (rule plan_dependents_exact)
  moreover have "{t. \<exists>d \<in> set (qp_Tasks ?r). t = pl_TaskID d \<and> ''a'' \<in> set (dependencies_of (qp_DAG ?r) (pl_ModuleID d))} = {''t2'', ''t3''}"
    by (auto simp: dependencies_of_def)
  ultimately show ?thesis by (simp add: planning_pairs_def)
qed

end
