(* ===== verification/Orch_Queries.thy ===== *)
theory Orch_Queries
  imports Orch_Task
begin

text \<open>
  The queries of goals, \<open>GoalMessages\<close>, \<open>GoalSpecs\<close> and \<open>GoalSpec\<close> of \<open>internal/orchestrator/goal.go\<close>, and
  the loop of \<open>HandleTask\<close> in \<open>service.go\<close> around one attempt.
\<close>

section \<open>Goals\<close>

definition listGoalProjections :: "string \<Rightarrow> string \<Rightarrow> string \<Rightarrow> MemoryStore \<Rightarrow> orch_error + Projection list" where
  "listGoalProjections tenantID projectID aggregateType s =
     (if tenantID = [] \<or> projectID = [] then Inl (orch_new CodeInvalidArgument ''goal query'')
      else from_store (ListProjections tenantID projectID aggregateType s))"

definition check_message :: "orch_codec \<Rightarrow> string \<Rightarrow> string \<Rightarrow> Projection \<Rightarrow> orch_error + GoalMessage" where
  "check_message cd tenantID projectID projection =
     (case dc_message cd (pj_State projection) of
        None \<Rightarrow> Inl (orch_new CodeInternalError ''goal message projection'')
      | Some m \<Rightarrow>
          if gm_TenantID m \<noteq> tenantID \<or> gm_ProjectID m \<noteq> projectID \<or> gm_ID m \<noteq> pj_AggregateID projection
          then Inl (orch_new CodeInternalError ''goal message projection'') else Inr m)"

definition GoalMessages :: "orch_codec \<Rightarrow> string \<Rightarrow> string \<Rightarrow> MemoryStore \<Rightarrow> orch_error + GoalMessage list" where
  \<comment> \<open>by creation, then by identifier: the second sort is stable\<close>
  "GoalMessages cd tenantID projectID s =
     attempt (listGoalProjections tenantID projectID ''goal_message'' s) (\<lambda>ps.
     attempt (decode_all (check_message cd tenantID projectID) ps) (\<lambda>ms.
       Inr (sort_key gm_CreatedAt (sort_key gm_ID ms))))"

definition goal_version :: "GoalSpecProjection \<Rightarrow> int" where
  "goal_version g = gc_Version (gs_Content (gp_Spec g))"

fun check_goals :: "orch_codec \<Rightarrow> string \<Rightarrow> string \<Rightarrow> int list \<Rightarrow> Projection list \<Rightarrow> orch_error + GoalSpecProjection list" where
  "check_goals cd tenantID projectID seen [] = Inr []"
| "check_goals cd tenantID projectID seen (stored # rest) =
     attempt (decodeGoalSpecProjection cd stored) (\<lambda>g.
       if gp_TenantID g \<noteq> tenantID \<or> gp_ProjectID g \<noteq> projectID \<or> goal_version g \<in> set seen
       then Inl (orch_new CodeInternalError ''goal spec projection'')
       else attempt (check_goals cd tenantID projectID (goal_version g # seen) rest) (\<lambda>goals. Inr (g # goals)))"

definition GoalSpecs :: "orch_codec \<Rightarrow> string \<Rightarrow> string \<Rightarrow> MemoryStore \<Rightarrow> orch_error + GoalSpecProjection list" where
  "GoalSpecs cd tenantID projectID s =
     attempt (listGoalProjections tenantID projectID ''goal_spec'' s) (\<lambda>ps.
     attempt (check_goals cd tenantID projectID [] ps) (\<lambda>goals. Inr (sort_key goal_version goals)))"

definition goal_GoalSpec :: "orch_codec \<Rightarrow> string \<Rightarrow> string \<Rightarrow> int \<Rightarrow> MemoryStore \<Rightarrow> orch_error + GoalSpecProjection option" where
  "goal_GoalSpec cd tenantID projectID version s =
     (if version < 1 then Inl (orch_new CodeInvalidArgument ''goal version'')
      else attempt (GoalSpecs cd tenantID projectID s) (\<lambda>goals. Inr (find (\<lambda>g. goal_version g = version) goals)))"

lemma check_goals_distinct:
  assumes "check_goals cd t p seen ps = Inr goals"
  shows "distinct (map goal_version goals) \<and> set seen \<inter> goal_version ` set goals = {}
     \<and> (\<forall>g \<in> set goals. gp_TenantID g = t \<and> gp_ProjectID g = p)"
  using assms
proof (induction ps arbitrary: seen goals)
  case (Cons stored ps)
  from Cons.prems obtain g gs where g: "gp_TenantID g = t" "gp_ProjectID g = p" "goal_version g \<notin> set seen"
    and gs: "check_goals cd t p (goal_version g # seen) ps = Inr gs" "goals = g # gs"
    by (auto split: if_splits)
  from Cons.IH [OF gs(1)] g gs(2) show ?case by auto
qed simp

lemma GoalSpecs_exact:
  assumes "GoalSpecs cd t p s = Inr goals"
  shows "sorted_wrt (\<lambda>g h. goal_version g < goal_version h) goals" "\<forall>g \<in> set goals. gp_TenantID g = t \<and> gp_ProjectID g = p"
proof -
  from assms obtain ps gs where gs: "check_goals cd t p [] ps = Inr gs" "goals = sort_key goal_version gs"
    by (auto simp: GoalSpecs_def)
  note d = check_goals_distinct [OF gs(1)]
  from d gs(2) show "\<forall>g \<in> set goals. gp_TenantID g = t \<and> gp_ProjectID g = p" by simp
  have "distinct (map goal_version goals)" using d gs(2) by (metis distinct_map distinct_sort set_sort)
  moreover have "sorted (map goal_version goals)" using gs(2) by simp
  ultimately have "sorted_wrt (<) (map goal_version goals)" by (simp add: strict_sorted_iff)
  then show "sorted_wrt (\<lambda>g h. goal_version g < goal_version h) goals" by (simp add: sorted_wrt_map)
qed

lemma find_unique:
  assumes "sorted_wrt (\<lambda>g h. f g < (f h :: int)) xs"
  shows "find (\<lambda>g. f g = v) xs = Some x \<longleftrightarrow> x \<in> set xs \<and> f x = v"
  using assms by (induction xs) auto

text \<open>A version of a goal is found exactly if it is listed, and then it is the only one.\<close>

lemma goal_GoalSpec_listed:
  assumes "GoalSpecs cd t p s = Inr goals" and "1 \<le> v"
  shows "goal_GoalSpec cd t p v s = Inr (Some g) \<longleftrightarrow> g \<in> set goals \<and> goal_version g = v"
  using find_unique [OF GoalSpecs_exact(1) [OF assms(1)]] assms by (simp add: goal_GoalSpec_def)

section \<open>The attempts of a task command\<close>

record turn =
  \<comment> \<open>what one attempt meets: the answers it plans from, the store it commits in, and for the
     decision to try again whether the context is alive and what the store answers then\<close>
  tn_view :: store_view
  tn_store :: MemoryStore
  tn_alive :: bool
  tn_again :: store_view

definition attempted :: "orchestrator \<Rightarrow> TaskRequest \<Rightarrow> turn \<Rightarrow> orch_error + TaskOutcome" where
  "attempted sv request n =
     (case handleTaskOnce_plan sv (tn_view n) request of
        Inl e \<Rightarrow> Inl e
      | Inr (Answer outcome) \<Rightarrow> Inr outcome
      | Inr (Commit tx) \<Rightarrow> fst (commit_task sv tx (tn_store n)))"

definition tried_again :: "orchestrator \<Rightarrow> TaskRequest \<Rightarrow> turn \<Rightarrow> bool" where
  "tried_again sv request n \<longleftrightarrow>
     (case attempted sv request n of
        Inr _ \<Rightarrow> False
      | Inl e \<Rightarrow> retryCorePassConflict sv (tn_alive n) request e (tn_again n))"

partial_function (option) HandleTask :: "(nat \<Rightarrow> orchestrator) \<Rightarrow> TaskRequest \<Rightarrow> (nat \<Rightarrow> turn) \<Rightarrow> nat \<Rightarrow> (orch_error + TaskOutcome) option" where
  "HandleTask sv request turns k =
     (if \<not> tried_again (sv k) request (turns k) then Some (attempted (sv k) request (turns k))
      else HandleTask sv request turns (Suc k))"

text \<open>
  The loop returns as soon as one attempt is not tried again, with the outcome of the first such
  attempt; all attempts before it failed by a conflict of versions.
\<close>

lemma HandleTask_first:
  assumes "k \<le> n" and "\<forall>i. k \<le> i \<longrightarrow> i < n \<longrightarrow> tried_again (sv i) r (turns i)" and "\<not> tried_again (sv n) r (turns n)"
  shows "HandleTask sv r turns k = Some (attempted (sv n) r (turns n))"
  using assms
proof (induction k rule: inc_induct)
  case base
  then show ?case by (simp add: HandleTask.simps [of sv r turns n])
next
  case (step m)
  then show ?case by (simp add: HandleTask.simps [of sv r turns m])
qed

lemma HandleTask_returns:
  assumes "\<not> tried_again (sv n) r (turns n)"
  shows "\<exists>m \<le> n. HandleTask sv r turns 0 = Some (attempted (sv m) r (turns m))
    \<and> (\<forall>i < m. tried_again (sv i) r (turns i))"
proof -
  let ?m = "LEAST i. \<not> tried_again (sv i) r (turns i)"
  have "\<not> tried_again (sv ?m) r (turns ?m)" by (rule LeastI [where P = "\<lambda>i. \<not> tried_again (sv i) r (turns i)"]) (rule assms)
  moreover have "?m \<le> n" by (rule Least_le) (rule assms)
  moreover have "\<forall>i < ?m. tried_again (sv i) r (turns i)" using not_less_Least by blast
  ultimately show ?thesis using HandleTask_first [of 0 ?m sv r turns] by blast
qed

text \<open>
  An attempt is tried again only when another transaction came between: the attempt ended in a
  conflict of versions, and the task itself still waits at the version the request expects.
\<close>

lemma tried_again_why:
  assumes "tried_again sv r n"
  shows "os_coreOnly sv" "tc_Type (rt_Command r) = TaskCommandLLMSuccess" "tn_alive n"
    "\<exists>e. attempted sv r n = Inl (OrchError e) \<and> err_Code e = CodeStateVersionConflict"
  using assms unfolding tried_again_def retryCorePassConflict_def by (auto split: sum.splits orch_error.splits)

end
