(* ===== verification/Projector.thy ===== *)
theory Projector
  imports Event_Store
begin

text \<open>
  Read models, \<open>internal/projection\<close>: the projector of \<open>projector.go\<close> that applies the events of every
  aggregate in the order of their versions, however they arrive, and the reducers of \<open>reducers.go\<close>. Its
  methods hold the mutex, so each is one function of the projector. Decoders of JSON documents are a
  parameter.
\<close>

section \<open>Records\<close>

datatype proj_error =
    ProjAor aor_error
  | ProjText string
  | ProjStore store_error
  | ErrProjectionDrift nat

record state_payload =
  sp_TenantID :: string
  sp_ProjectID :: string
  sp_AggregateVersion :: int
  sp_Projection :: string

record budget_snapshot =
  bs_TenantID :: string
  bs_ProjectID :: string
  bs_AccountID :: string
  bs_PrincipalID :: string
  bs_PreviousVersion :: int
  bs_AggregateVersion :: int
  bs_Version :: int
  bs_HardLimit :: int
  bs_SoftLimit :: int
  bs_Currency :: string
  bs_Reason :: string

record projection_codec =
  \<comment> \<open>\<open>json.Unmarshal\<close> into the structs above, and the canonical form\<close>
  pk_payload :: "string \<Rightarrow> state_payload option"
  pk_version :: "string \<Rightarrow> int option"
  pk_budget :: "string \<Rightarrow> budget_snapshot option"
  pk_jcs :: jcs_transform

record eventFingerprint =
  fp_EventID :: string
  fp_TenantID :: string
  fp_ProjectID :: string
  fp_AggregateType :: string
  fp_AggregateID :: string
  fp_AggregateVersion :: int
  fp_Type :: string
  fp_PayloadSHA256 :: string
  fp_ReplayStateSHA256 :: string

definition zero_fingerprint :: eventFingerprint where
  "zero_fingerprint =
     \<lparr>fp_EventID = [], fp_TenantID = [], fp_ProjectID = [], fp_AggregateType = [], fp_AggregateID = [],
      fp_AggregateVersion = 0, fp_Type = [], fp_PayloadSHA256 = [], fp_ReplayStateSHA256 = []\<rparr>"

type_synonym reducer = "string \<Rightarrow> DomainEvent \<Rightarrow> proj_error + string"

record stream =
  sm_version :: int
  sm_state :: string
  sm_pending :: "(int, DomainEvent) gomap"
  sm_applied :: "(int, eventFingerprint) gomap"

definition new_stream :: stream where
  "new_stream = \<lparr>sm_version = 0, sm_state = [], sm_pending = [], sm_applied = []\<rparr>"

record Projector =
  pr_reducers :: "(string, reducer) gomap"
  pr_streams :: "(string, stream) gomap"
  pr_eventIDs :: "(string, eventFingerprint) gomap"

record Snapshot =
  sn_Version :: int
  sn_State :: string

definition maxPendingPerAggregate :: nat where
  "maxPendingPerAggregate = 10000"

definition NewProjector :: "(string, reducer) gomap \<Rightarrow> Projector" where
  "NewProjector reducers = \<lparr>pr_reducers = map (\<lambda>(k, r). (k, r)) reducers, pr_streams = [], pr_eventIDs = []\<rparr>"

definition proj_aor :: "aor_code \<Rightarrow> string \<Rightarrow> string \<Rightarrow> proj_error" where
  "proj_aor code correlationID scope = ProjAor (New code correlationID [(''scope'', DString scope)])"

section \<open>Events\<close>

definition projection_validateEvent :: "jcs_transform \<Rightarrow> DomainEvent \<Rightarrow> proj_error + eventFingerprint" where
  "projection_validateEvent jcs event =
     (let correlation = de_CorrelationID event in
      if de_EventID event = [] \<or> de_TenantID event = [] \<or> de_ProjectID event = [] \<or> de_AggregateType event = []
         \<or> de_AggregateID event = [] \<or> de_AggregateVersion event < 1 \<or> de_Type event = []
         \<or> length (de_Payload event) = 0
      then Inl (proj_aor CodeInvalidArgument correlation ''projection event'')
      else if Digest jcs (de_Payload event) \<noteq> Some (de_PayloadSHA256 event)
      then Inl (proj_aor CodeArtifactHashMismatch correlation ''event payload'')
      else if (length (de_ReplayState event) = 0) \<noteq> (de_ReplayStateSHA256 event = [])
      then Inl (proj_aor CodeArtifactHashMismatch correlation ''event replay state'')
      else if length (de_ReplayState event) \<noteq> 0 \<and> Digest jcs (de_ReplayState event) \<noteq> Some (de_ReplayStateSHA256 event)
      then Inl (proj_aor CodeArtifactHashMismatch correlation ''event replay state'')
      else Inr \<lparr>fp_EventID = de_EventID event, fp_TenantID = de_TenantID event, fp_ProjectID = de_ProjectID event,
             fp_AggregateType = de_AggregateType event, fp_AggregateID = de_AggregateID event,
             fp_AggregateVersion = de_AggregateVersion event, fp_Type = de_Type event,
             fp_PayloadSHA256 = de_PayloadSHA256 event, fp_ReplayStateSHA256 = de_ReplayStateSHA256 event\<rparr>)"

definition fingerprint :: "jcs_transform \<Rightarrow> DomainEvent \<Rightarrow> eventFingerprint" where
  \<comment> \<open>the first result alone\<close>
  "fingerprint jcs event = (case projection_validateEvent jcs event of Inl _ \<Rightarrow> zero_fingerprint | Inr f \<Rightarrow> f)"

section \<open>Reducers\<close>

definition AuthoritativeStateReducer :: "jcs_transform \<Rightarrow> reducer" where
  "AuthoritativeStateReducer jcs current event =
     (if \<not> json_object (de_ReplayState event) \<or> de_ReplayStateSHA256 event = []
      then Inl (ProjText ''event has no authoritative replay state'')
      else if Digest jcs (de_ReplayState event) \<noteq> Some (de_ReplayStateSHA256 event)
      then Inl (ProjText ''authoritative replay state digest mismatch'')
      else Inr (cloneJSON (de_ReplayState event)))"

definition StateReducer :: "projection_codec \<Rightarrow> reducer" where
  "StateReducer cd current event =
     (if length (de_ReplayState event) \<noteq> 0 \<or> de_ReplayStateSHA256 event \<noteq> []
      then AuthoritativeStateReducer (pk_jcs cd) [] event
      else (case pk_payload cd (de_Payload event) of
         None \<Rightarrow> Inl (ProjText ''decode state event payload'')
       | Some payload \<Rightarrow>
           if sp_TenantID payload \<noteq> de_TenantID event \<or> sp_ProjectID payload \<noteq> de_ProjectID event
              \<or> sp_AggregateVersion payload \<noteq> de_AggregateVersion event \<or> \<not> json_valid (sp_Projection payload)
           then Inl (ProjText ''state event payload does not match its envelope'')
           else if pk_version cd (sp_Projection payload) \<noteq> Some (de_AggregateVersion event)
           then Inl (ProjText ''state projection version does not match event'')
           else Inr (cloneJSON (sp_Projection payload))))"

section \<open>Applying an event\<close>

definition gomap_delete :: "'k \<Rightarrow> ('k, 'v) gomap \<Rightarrow> ('k, 'v) gomap" where
  "gomap_delete k m = filter (\<lambda>(k', v). k' \<noteq> k) m"

lemma map_of_delete [simp]: "map_of (gomap_delete k m) k' = (if k' = k then None else map_of m k')"
  by (induction m) (auto simp: gomap_delete_def)

lemma length_delete: "map_of m k = Some v \<Longrightarrow> length (gomap_delete k m) < length m"
  unfolding gomap_delete_def by (rule length_filter_less [of "(k, v)"]) (auto dest: map_of_SomeD)

definition not_reduced :: "proj_error \<Rightarrow> proj_error" where
  "not_reduced e = (case e of ProjAor a \<Rightarrow> ProjAor a | _ \<Rightarrow> ProjText ''apply aggregate'')"

function drain ::
  "jcs_transform \<Rightarrow> reducer \<Rightarrow> stream \<Rightarrow> (string, eventFingerprint) gomap \<Rightarrow> DomainEvent list \<Rightarrow>
     (proj_error + DomainEvent list) \<times> stream \<times> (string, eventFingerprint) gomap" where
  \<comment> \<open>pending events lie under their version, so the entry that is deleted is the one that was found\<close>
  "drain jcs reducer current ids applied =
     (case map_of (sm_pending current) (add64 (sm_version current) 1) of
        None \<Rightarrow> (Inr applied, current, ids)
      | Some event \<Rightarrow>
          (let rest = gomap_delete (add64 (sm_version current) 1) (sm_pending current);
               dropped = (current\<lparr>sm_pending := rest\<rparr>, gomap_delete (de_EventID event) ids) in
           case reducer (cloneJSON (sm_state current)) (cloneEvent event) of
             Inl e \<Rightarrow> (Inl (not_reduced e), dropped)
           | Inr state \<Rightarrow>
               if \<not> json_valid state then (Inl (ProjText ''reducer returned invalid JSON''), dropped)
               else drain jcs reducer
                 (current\<lparr>sm_version := de_AggregateVersion event, sm_state := cloneJSON state,
                    sm_applied := gomap_put (de_AggregateVersion event) (fingerprint jcs event) (sm_applied current),
                    sm_pending := rest\<rparr>)
                 ids (applied @ [cloneEvent event])))"
  by pat_completeness auto
termination
  by (relation "measure (\<lambda>(jcs, reducer, current, ids, applied). length (sm_pending current))") (auto simp: length_delete)

declare drain.simps [simp del]

definition take_event ::
  "jcs_transform \<Rightarrow> reducer \<Rightarrow> eventFingerprint \<Rightarrow> DomainEvent \<Rightarrow> stream \<Rightarrow> (string, eventFingerprint) gomap \<Rightarrow>
     (proj_error + DomainEvent list) \<times> stream \<times> (string, eventFingerprint) gomap" where
  "take_event jcs reducer print event current ids =
     (let version = de_AggregateVersion event; known = gomap_put (de_EventID event) print ids;
          conflict = (\<lambda>scope. proj_aor CodeConflict (de_CorrelationID event) scope) in
      if version \<le> sm_version current
      then (if map_of (sm_applied current) version = Some print then (Inr [], current, known)
            else (Inl (conflict ''aggregateVersion''), current, ids))
      else (case map_of (sm_pending current) version of
        Some prior \<Rightarrow>
          if projection_validateEvent jcs prior = Inr print then (Inr [], current, known)
          else (Inl (conflict ''pending aggregateVersion''), current, ids)
      | None \<Rightarrow>
          if maxPendingPerAggregate \<le> length (sm_pending current) \<and> version \<noteq> add64 (sm_version current) 1
          then (Inl (ProjAor (New CodeRateLimited (de_CorrelationID event)
                  [(''limit'', DInt (int maxPendingPerAggregate)), (''scope'', DString ''projection gap'')])), current, ids)
          else drain jcs reducer (current\<lparr>sm_pending := gomap_put version (cloneEvent event) (sm_pending current)\<rparr>)
                 known []))"

definition currency_text :: "string \<Rightarrow> bool" where
  "currency_text s \<longleftrightarrow> length s = 3 \<and> list_all (\<lambda>c. CHR ''A'' \<le> c \<and> c \<le> CHR ''Z'') s"

definition budget_snapshot_fits :: "DomainEvent \<Rightarrow> budget_snapshot \<Rightarrow> bool" where
  "budget_snapshot_fits event b \<longleftrightarrow>
     \<not> (bs_TenantID b \<noteq> de_TenantID event \<or> bs_ProjectID b \<noteq> de_ProjectID event \<or> bs_AccountID b \<noteq> de_AggregateID event
        \<or> bs_PrincipalID b = [] \<or> bs_PreviousVersion b < 1 \<or> bs_AggregateVersion b \<noteq> de_AggregateVersion event
        \<or> bs_Version b \<noteq> de_AggregateVersion event \<or> add64 (bs_PreviousVersion b) 1 \<noteq> bs_Version b
        \<or> bs_HardLimit b < 0 \<or> bs_SoftLimit b < 0 \<or> bs_SoftLimit b > bs_HardLimit b
        \<or> \<not> currency_text (bs_Currency b) \<or> bs_Reason b = [])"

definition stream_of :: "Projector \<Rightarrow> string \<Rightarrow> stream" where
  "stream_of p key = (case map_of (pr_streams p) key of None \<Rightarrow> new_stream | Some s \<Rightarrow> s)"

definition applyBudgetSnapshotLocked ::
  "projection_codec \<Rightarrow> DomainEvent \<Rightarrow> eventFingerprint \<Rightarrow> Projector \<Rightarrow> (proj_error + DomainEvent list) \<times> Projector" where
  "applyBudgetSnapshotLocked cd event print p =
     (if de_Type event \<noteq> ''io.aor.budget.adjusted.v1'' \<or> length (de_ReplayState event) = 0
      then (Inl (ProjText ''budget event has no authoritative snapshot''), p)
      else (case AuthoritativeStateReducer (pk_jcs cd) [] event of
         Inl e \<Rightarrow> (Inl e, p)
       | Inr _ \<Rightarrow>
           if (case pk_budget cd (de_ReplayState event) of None \<Rightarrow> True | Some b \<Rightarrow> \<not> budget_snapshot_fits event b)
           then (Inl (ProjText ''budget event snapshot identity is invalid''), p)
           else (let key = aggregateKey (de_TenantID event) (de_AggregateType event) (de_AggregateID event);
                     current = stream_of p key; version = de_AggregateVersion event;
                     p0 = p\<lparr>pr_streams := gomap_put key current (pr_streams p)\<rparr>;
                     known = p0\<lparr>pr_eventIDs := gomap_put (de_EventID event) print (pr_eventIDs p)\<rparr> in
             case map_of (sm_applied current) version of
               Some prior \<Rightarrow>
                 if prior = print then (Inr [], known)
                 else (Inl (proj_aor CodeConflict (de_CorrelationID event) ''aggregateVersion''), p0)
             | None \<Rightarrow>
                 (let s1 = current\<lparr>sm_applied := gomap_put version print (sm_applied current)\<rparr> in
                  if version \<le> sm_version current
                  then (Inr [], known\<lparr>pr_streams := gomap_put key s1 (pr_streams p0)\<rparr>)
                  else (Inr [cloneEvent event],
                        known\<lparr>pr_streams := gomap_put key (s1\<lparr>sm_version := version,
                           sm_state := cloneJSON (de_ReplayState event)\<rparr>) (pr_streams p0)\<rparr>)))))"

definition apply_checked ::
  "projection_codec \<Rightarrow> DomainEvent \<Rightarrow> Projector \<Rightarrow> (proj_error + DomainEvent list) \<times> Projector" where
  "apply_checked cd event p =
     (case projection_validateEvent (pk_jcs cd) event of
        Inl e \<Rightarrow> (Inl e, p)
      | Inr print \<Rightarrow>
          (case map_of (pr_eventIDs p) (de_EventID event) of
             Some prior \<Rightarrow>
               if prior = print then (Inr [], p)
               else (Inl (proj_aor CodeConflict (de_CorrelationID event) ''eventId''), p)
           | None \<Rightarrow>
               if de_AggregateType event = ''budget'' then applyBudgetSnapshotLocked cd event print p
               else (case map_of (pr_reducers p) (de_AggregateType event) of
                  None \<Rightarrow> (Inl (ProjText ''no reducer for aggregate type''), p)
                | Some reducer \<Rightarrow>
                    (let key = aggregateKey (de_TenantID event) (de_AggregateType event) (de_AggregateID event);
                         (out, current, ids) =
                           take_event (pk_jcs cd) reducer print event (stream_of p key) (pr_eventIDs p) in
                     (out, p\<lparr>pr_streams := gomap_put key current (pr_streams p), pr_eventIDs := ids\<rparr>)))))"

definition projector_Apply ::
  "projection_codec \<Rightarrow> DomainEvent \<Rightarrow> Projector \<Rightarrow> (proj_error + DomainEvent list) \<times> Projector" where
  "projector_Apply cd event p =
     (if de_AggregateType event = ''budget'' \<and> length (de_ReplayState event) = 0
      then (case Digest (pk_jcs cd) (de_Payload event) of
              None \<Rightarrow> (Inl (ProjText ''canonical JSON''), p)
            | Some digest \<Rightarrow>
                apply_checked cd (event\<lparr>de_ReplayState := cloneJSON (de_Payload event), de_ReplayStateSHA256 := digest\<rparr>) p)
      else apply_checked cd event p)"

definition projector_Snapshot :: "string \<Rightarrow> string \<Rightarrow> string \<Rightarrow> Projector \<Rightarrow> Snapshot option" where
  "projector_Snapshot tenantID aggregateType aggregateID p =
     (case map_of (pr_streams p) (aggregateKey tenantID aggregateType aggregateID) of
        None \<Rightarrow> None
      | Some current \<Rightarrow>
          if sm_version current = 0 then None
          else Some \<lparr>sn_Version = sm_version current, sn_State = cloneJSON (sm_state current)\<rparr>)"

definition ensureComplete :: "Projector \<Rightarrow> proj_error option" where
  "ensureComplete p =
     (if list_ex (\<lambda>(key, current). sm_pending current \<noteq> []) (pr_streams p)
      then Some (ProjText ''incomplete event stream'') else None)"

end
