(* ===== verification/Projection_Safety.thy ===== *)
theory Projection_Safety
  imports Projector Event_Safety
begin

text \<open>
  Why the projector of \<^theory_text>\<open>Projector\<close> does not depend on the order of delivery. The events
  delivered for an aggregate are a set with one event per version; a stream has applied exactly the
  unbroken run of versions from 1 on, and holds the later ones back.
\<close>

section \<open>Replaying a set of events\<close>

inductive replays :: "reducer \<Rightarrow> DomainEvent set \<Rightarrow> int \<Rightarrow> string \<Rightarrow> bool" for r E where
  none: "replays r E 0 []"
| one_more: "replays r E v st \<Longrightarrow> e \<in> E \<Longrightarrow> de_AggregateVersion e = v + 1 \<Longrightarrow> r st e = Inr st' \<Longrightarrow> replays r E (v + 1) st'"

inductive_cases replays_E: "replays r E v st"

definition one_history :: "DomainEvent set \<Rightarrow> bool" where
  \<comment> \<open>an aggregate has one type, and one event of each version\<close>
  "one_history E \<longleftrightarrow> (\<forall>e \<in> E. \<forall>e' \<in> E. event_key e = event_key e' \<longrightarrow>
     de_AggregateType e = de_AggregateType e' \<and> (de_AggregateVersion e = de_AggregateVersion e' \<longrightarrow> e = e'))"

definition history_of :: "DomainEvent set \<Rightarrow> string \<Rightarrow> DomainEvent set" where
  "history_of D k = {e \<in> D. event_key e = k}"

lemma one_history_same:
  assumes "one_history D" "e \<in> history_of D k" "e' \<in> history_of D k" "de_AggregateVersion e = de_AggregateVersion e'"
  shows "e = e'"
proof -
  from assms(2,3) have "e \<in> D" "e' \<in> D" "event_key e = event_key e'" by (auto simp: history_of_def)
  with assms(1,4) show ?thesis unfolding one_history_def by meson
qed

lemma history_of_insert:
  "history_of (insert e D) k = (if event_key e = k then insert e (history_of D k) else history_of D k)"
  by (auto simp: history_of_def)

lemma replays_mono: "replays r E v st \<Longrightarrow> E \<subseteq> E' \<Longrightarrow> replays r E' v st"
proof (induction rule: replays.induct)
  case (one_more v st e st')
  then show ?case by (intro replays.one_more) auto
qed (rule replays.none)

lemma replays_nonneg: "replays r E v st \<Longrightarrow> 0 \<le> v"
  by (induction rule: replays.induct) simp_all

lemma replays_below: "replays r E v st \<Longrightarrow> 1 \<le> i \<Longrightarrow> i \<le> v \<Longrightarrow> \<exists>e \<in> E. de_AggregateVersion e = i"
proof (induction rule: replays.induct)
  case (one_more v st e st')
  then show ?case by (cases "i = v + 1") auto
qed simp

lemma replays_unique:
  assumes "replays r E v st" and "replays r E v st'"
    and "\<And>e e'. e \<in> E \<Longrightarrow> e' \<in> E \<Longrightarrow> de_AggregateVersion e = de_AggregateVersion e' \<Longrightarrow> e = e'"
  shows "st = st'"
  using assms(1,2)
proof (induction arbitrary: st' rule: replays.induct)
  case none
  then show ?case by (cases rule: replays_E) (auto dest: replays_nonneg)
next
  case (one_more v st e st1)
  from one_more.prems obtain st2 e2 where last: "replays r E v st2" "e2 \<in> E" "de_AggregateVersion e2 = v + 1" "r st2 e2 = Inr st'"
    using replays_nonneg [OF one_more.hyps(1)] by (auto elim: replays_E)
  from one_more.IH [OF last(1)] assms(3) [OF one_more.hyps(2) last(2)] one_more.hyps(3,4) last(3,4) show ?case by simp
qed

section \<open>One stream\<close>

definition stream_inv :: "reducer \<Rightarrow> DomainEvent set \<Rightarrow> stream \<Rightarrow> bool" where
  "stream_inv r E c \<longleftrightarrow> replays r E (sm_version c) (sm_state c)
     \<and> (\<forall>k e. map_of (sm_pending c) k = Some e \<longrightarrow> e \<in> E \<and> de_AggregateVersion e = k \<and> sm_version c < k)
     \<and> (\<forall>e \<in> E. sm_version c < de_AggregateVersion e \<longrightarrow> map_of (sm_pending c) (de_AggregateVersion e) = Some e)"

definition drained :: "DomainEvent set \<Rightarrow> stream \<Rightarrow> bool" where
  "drained E c \<longleftrightarrow> (\<forall>e \<in> E. de_AggregateVersion e \<noteq> sm_version c + 1)"

lemma stream_inv_new: "stream_inv r {} new_stream" "drained {} new_stream"
  by (simp_all add: stream_inv_def drained_def new_stream_def replays.none)

definition small_versions :: "DomainEvent set \<Rightarrow> bool" where
  "small_versions E \<longleftrightarrow> (\<forall>e \<in> E. de_AggregateVersion e < 2 ^ 63)"

lemma stream_version:
  assumes "stream_inv r E c" and "small_versions E"
  shows "0 \<le> sm_version c" "sm_version c < 2 ^ 63"
proof -
  from assms(1) have rep: "replays r E (sm_version c) (sm_state c)" by (simp add: stream_inv_def)
  then show "0 \<le> sm_version c" by (rule replays_nonneg)
  show "sm_version c < 2 ^ 63"
  proof (cases "1 \<le> sm_version c")
    case True
    with replays_below [OF rep] assms(2) show ?thesis unfolding small_versions_def by force
  qed simp
qed

lemma next_version:
  assumes "stream_inv r E c" and "small_versions E" and "e \<in> E" and "de_AggregateVersion e = sm_version c + 1"
  shows "add64 (sm_version c) 1 = sm_version c + 1"
  using assms(2-4) stream_version(1) [OF assms(1,2)] unfolding small_versions_def
  by (intro add64_id) (auto simp: int64_def)

lemma next_pending:
  assumes "stream_inv r E c" and "small_versions E"
  shows "map_of (sm_pending c) (add64 (sm_version c) 1) = map_of (sm_pending c) (sm_version c + 1)"
proof (cases "sm_version c + 1 < 2 ^ 63")
  case True
  then have "int64 (sm_version c + 1)" using stream_version(1) [OF assms] by (simp add: int64_def)
  then show ?thesis by (simp add: add64_id)
next
  case False
  with stream_version(2) [OF assms] have v: "sm_version c = 2 ^ 63 - 1" by simp
  have "map_of (sm_pending c) (sm_version c + 1) = None"
  proof (rule ccontr)
    assume "\<not> ?thesis"
    with assms(1) obtain e where "e \<in> E" "de_AggregateVersion e = sm_version c + 1"
      unfolding stream_inv_def by fast
    with assms(2) v show False unfolding small_versions_def by force
  qed
  moreover have "add64 (sm_version c) 1 \<le> sm_version c" unfolding v by (simp add: add64_def wrap64_def)
  then have "map_of (sm_pending c) (add64 (sm_version c) 1) = None"
    using assms(1) unfolding stream_inv_def by (metis not_None_eq not_le)
  ultimately show ?thesis by simp
qed

definition advanced_stream :: "jcs_transform \<Rightarrow> DomainEvent \<Rightarrow> string \<Rightarrow> stream \<Rightarrow> stream" where
  "advanced_stream jcs e st c =
     c\<lparr>sm_version := de_AggregateVersion e, sm_state := st,
       sm_applied := gomap_put (de_AggregateVersion e) (fingerprint jcs e) (sm_applied c),
       sm_pending := gomap_delete (add64 (sm_version c) 1) (sm_pending c)\<rparr>"

lemma drain_stops: "map_of (sm_pending c) (add64 (sm_version c) 1) = None \<Longrightarrow> drain jcs r c ids applied = (Inr applied, c, ids)"
  by (subst drain.simps) simp

lemma drain_advances:
  assumes "map_of (sm_pending c) (add64 (sm_version c) 1) = Some e" and "r (sm_state c) e = Inr st" and "json_valid st"
  shows "drain jcs r c ids applied = drain jcs r (advanced_stream jcs e st c) ids (applied @ [e])"
  by (subst drain.simps) (simp add: assms advanced_stream_def Let_def)

lemma drain_reduced:
  assumes "map_of (sm_pending c) (add64 (sm_version c) 1) = Some e" and "drain jcs r c ids applied = (Inr out, c', ids')"
  shows "\<exists>st. r (sm_state c) e = Inr st \<and> json_valid st"
  using assms(2) by (subst (asm) drain.simps) (auto simp: assms(1) Let_def split: sum.splits if_splits)

lemma advanced_stream_inv:
  assumes "stream_inv r E c" and "e \<in> E" and "de_AggregateVersion e = sm_version c + 1"
    and "r (sm_state c) e = Inr st" and "add64 (sm_version c) 1 = sm_version c + 1"
  shows "stream_inv r E (advanced_stream jcs e st c)"
proof -
  have "replays r E (sm_version c + 1) st"
    using assms(1-4) unfolding stream_inv_def by (blast intro: replays.one_more)
  moreover have "sm_version c + 1 < k" if "k \<noteq> sm_version c + 1" "map_of (sm_pending c) k = Some e'" for k e'
    using that assms(1) unfolding stream_inv_def by force
  ultimately show ?thesis
    using assms(1,3) unfolding stream_inv_def advanced_stream_def by (auto simp: assms(5))
qed

lemma drain_inv:
  assumes "drain jcs r c ids applied = (Inr out, c', ids')" and "stream_inv r E c" and "small_versions E"
  shows "stream_inv r E c' \<and> drained E c' \<and> ids' = ids"
  using assms
proof (induction "length (sm_pending c)" arbitrary: c applied rule: less_induct)
  case less
  note pending = next_pending [OF less.prems(2,3)]
  show ?case
  proof (cases "map_of (sm_pending c) (sm_version c + 1)")
    case None
    with less.prems(1) pending have "c' = c" "ids' = ids" by (simp_all add: drain_stops)
    moreover have "drained E c"
      unfolding drained_def
    proof (intro ballI notI)
      fix e assume "e \<in> E" "de_AggregateVersion e = sm_version c + 1"
      with less.prems(2) have "map_of (sm_pending c) (sm_version c + 1) = Some e" unfolding stream_inv_def by force
      with None show False by simp
    qed
    ultimately show ?thesis using less.prems(2) by simp
  next
    case (Some e)
    then have e: "e \<in> E" "de_AggregateVersion e = sm_version c + 1"
      using less.prems(2) unfolding stream_inv_def by blast+
    note v = next_version [OF less.prems(2,3) e]
    obtain st where st: "r (sm_state c) e = Inr st" "json_valid st"
      using drain_reduced [of c e jcs r ids applied out c' ids'] less.prems(1) pending Some by metis
    have "drain jcs r (advanced_stream jcs e st c) ids (applied @ [e]) = (Inr out, c', ids')"
      using drain_advances [of c e r st jcs ids applied] st pending Some less.prems(1) by metis
    moreover have "length (sm_pending (advanced_stream jcs e st c)) < length (sm_pending c)"
      using length_delete [OF Some] by (simp add: advanced_stream_def v)
    ultimately show ?thesis
      using less.hyps advanced_stream_inv [OF less.prems(2) e st(1) v] less.prems(3) by metis
  qed
qed

lemma drain_accepts:
  assumes "stream_inv r E c" and "small_versions E" and "\<And>st e. e \<in> E \<Longrightarrow> \<exists>st'. r st e = Inr st' \<and> json_valid st'"
  shows "\<exists>out c'. drain jcs r c ids applied = (Inr out, c', ids)"
  using assms(1,2)
proof (induction "length (sm_pending c)" arbitrary: c applied rule: less_induct)
  case less
  note pending = next_pending [OF less.prems]
  show ?case
  proof (cases "map_of (sm_pending c) (sm_version c + 1)")
    case None
    with pending show ?thesis by (simp add: drain_stops)
  next
    case (Some e)
    then have e: "e \<in> E" "de_AggregateVersion e = sm_version c + 1"
      using less.prems(1) unfolding stream_inv_def by blast+
    note v = next_version [OF less.prems e]
    obtain st where st: "r (sm_state c) e = Inr st" "json_valid st" using assms(3) [OF e(1)] by blast
    have "drain jcs r c ids applied = drain jcs r (advanced_stream jcs e st c) ids (applied @ [e])"
      using drain_advances [of c e r st jcs ids applied] st pending Some by metis
    moreover have "length (sm_pending (advanced_stream jcs e st c)) < length (sm_pending c)"
      using length_delete [OF Some] by (simp add: advanced_stream_def v)
    ultimately show ?thesis
      using less.hyps advanced_stream_inv [OF less.prems(1) e st(1) v] less.prems(2) by metis
  qed
qed

section \<open>The projector\<close>

fun delivered :: "projection_codec \<Rightarrow> DomainEvent list \<Rightarrow> Projector \<Rightarrow> Projector option" where
  \<comment> \<open>the projector after events that it all accepts\<close>
  "delivered cd [] p = Some p"
| "delivered cd (e # es) p =
     (case projector_Apply cd e p of (Inl _, _) \<Rightarrow> None | (Inr _, p') \<Rightarrow> delivered cd es p')"

definition stream_holds :: "(string, reducer) gomap \<Rightarrow> DomainEvent set \<Rightarrow> string \<Rightarrow> stream option \<Rightarrow> bool" where
  "stream_holds rs E k found \<longleftrightarrow>
     (case found of
        None \<Rightarrow> E = {}
      | Some c \<Rightarrow> \<exists>e \<in> E. \<exists>r. map_of rs (de_AggregateType e) = Some r \<and> stream_inv r E c \<and> drained E c)"

definition projector_inv :: "projection_codec \<Rightarrow> (string, reducer) gomap \<Rightarrow> DomainEvent set \<Rightarrow> Projector \<Rightarrow> bool" where
  "projector_inv cd rs D p \<longleftrightarrow>
     pr_reducers p = rs \<and> gomap_ok (pr_streams p)
     \<and> (\<forall>k. stream_holds rs (history_of D k) k (map_of (pr_streams p) k))
     \<and> (\<forall>i f. map_of (pr_eventIDs p) i = Some f \<longrightarrow>
          (\<exists>e \<in> D. de_EventID e = i \<and> projection_validateEvent (pk_jcs cd) e = Inr f))"

lemma projector_inv_new: "projector_inv cd rs {} (NewProjector rs)"
  by (simp add: projector_inv_def NewProjector_def stream_holds_def history_of_def map_idI split_def)

lemma validated_sel:
  assumes "projection_validateEvent jcs e = Inr f"
  shows "fp_EventID f = de_EventID e" "fp_TenantID f = de_TenantID e" "fp_AggregateType f = de_AggregateType e"
    "fp_AggregateID f = de_AggregateID e" "fp_AggregateVersion f = de_AggregateVersion e" "1 \<le> de_AggregateVersion e"
  using assms by (auto simp: projection_validateEvent_def Let_def split: if_splits)

lemma same_print:
  assumes "one_history D" "e \<in> D" "e' \<in> D" "projection_validateEvent jcs e = Inr f" "projection_validateEvent jcs e' = Inr f"
  shows "e = e'"
proof -
  have "event_key e = event_key e'" "de_AggregateVersion e = de_AggregateVersion e'"
    using validated_sel [OF assms(4)] validated_sel [OF assms(5)] by simp_all
  with assms(1-3) show ?thesis unfolding one_history_def by meson
qed

lemma stream_found:
  assumes "projector_inv cd rs D p" and "one_history (insert e D)" and "map_of rs (de_AggregateType e) = Some r"
  shows "stream_inv r (history_of D (event_key e)) (stream_of p (event_key e))"
    and "drained (history_of D (event_key e)) (stream_of p (event_key e))"
proof -
  let ?k = "event_key e" and ?E = "history_of D (event_key e)"
  have holds: "stream_holds rs ?E ?k (map_of (pr_streams p) ?k)" using assms(1) unfolding projector_inv_def by blast
  have "stream_inv r ?E (stream_of p ?k) \<and> drained ?E (stream_of p ?k)"
  proof (cases "map_of (pr_streams p) ?k")
    case None
    with holds stream_inv_new show ?thesis by (simp add: stream_holds_def stream_of_def)
  next
    case (Some c)
    with holds obtain e' r' where e': "e' \<in> ?E" "map_of rs (de_AggregateType e') = Some r'" "stream_inv r' ?E c" "drained ?E c"
      unfolding stream_holds_def by auto
    from e'(1) assms(2) have "de_AggregateType e' = de_AggregateType e" unfolding one_history_def history_of_def by auto
    with e' assms(3) Some show ?thesis by (simp add: stream_of_def)
  qed
  then show "stream_inv r ?E (stream_of p ?k)" "drained ?E (stream_of p ?k)" by blast+
qed

lemma stream_inv_pending:
  assumes inv: "stream_inv r E c" and later: "sm_version c < de_AggregateVersion e"
    and one: "\<And>x y. x \<in> insert e E \<Longrightarrow> y \<in> insert e E \<Longrightarrow> de_AggregateVersion x = de_AggregateVersion y \<Longrightarrow> x = y"
  shows "stream_inv r (insert e E) (c\<lparr>sm_pending := gomap_put (de_AggregateVersion e) e (sm_pending c)\<rparr>)"
    (is "stream_inv r _ ?c")
  unfolding stream_inv_def
proof (intro conjI allI impI ballI)
  have "replays r E (sm_version c) (sm_state c)" using inv by (simp add: stream_inv_def)
  then show "replays r (insert e E) (sm_version ?c) (sm_state ?c)" using replays_mono [of r E _ _ "insert e E"] by auto
  fix k x assume "map_of (sm_pending ?c) k = Some x"
  then have "k = de_AggregateVersion e \<and> x = e \<or> map_of (sm_pending c) k = Some x"
    by (auto simp: amap.look_store split: if_splits)
  then show "x \<in> insert e E" "de_AggregateVersion x = k" "sm_version ?c < k"
    using inv later unfolding stream_inv_def by auto
next
  fix x assume x: "x \<in> insert e E" "sm_version ?c < de_AggregateVersion x"
  show "map_of (sm_pending ?c) (de_AggregateVersion x) = Some x"
  proof (cases "de_AggregateVersion x = de_AggregateVersion e")
    case True
    with one [OF x(1), of e] show ?thesis by (simp add: amap.look_store)
  next
    case False
    with x inv show ?thesis unfolding stream_inv_def by (auto simp: amap.look_store)
  qed
qed

lemma stream_inv_take:
  assumes inv: "stream_inv r E c" "drained E c" and e: "projection_validateEvent jcs e = Inr f"
    and small: "small_versions (insert e E)"
    and one: "\<And>x y. x \<in> insert e E \<Longrightarrow> y \<in> insert e E \<Longrightarrow> de_AggregateVersion x = de_AggregateVersion y \<Longrightarrow> x = y"
    and taken: "take_event jcs r f e c ids = (Inr out, c', ids')"
  shows "stream_inv r (insert e E) c' \<and> drained (insert e E) c' \<and> ids' = gomap_put (de_EventID e) f ids"
proof -
  let ?v = "de_AggregateVersion e"
  have rep: "replays r E (sm_version c) (sm_state c)" using inv(1) by (simp add: stream_inv_def)
  show ?thesis
  proof (cases "?v \<le> sm_version c")
    case True
    with replays_below [OF rep] validated_sel(6) [OF e] obtain e' where "e' \<in> E" "de_AggregateVersion e' = ?v" by blast
    with one have "insert e E = E" by (metis insert_absorb insertCI)
    with True taken inv show ?thesis by (auto simp: take_event_def Let_def split: if_splits)
  next
    case later: False
    show ?thesis
    proof (cases "map_of (sm_pending c) ?v")
      case (Some prior)
      then have "prior \<in> E" "de_AggregateVersion prior = ?v" using inv(1) unfolding stream_inv_def by blast+
      with one have "insert e E = E" by (metis insert_absorb insertCI)
      with Some later taken inv show ?thesis by (auto simp: take_event_def Let_def split: if_splits)
    next
      case None
      let ?c = "c\<lparr>sm_pending := gomap_put ?v e (sm_pending c)\<rparr>"
      have run: "drain jcs r ?c (gomap_put (de_EventID e) f ids) [] = (Inr out, c', ids')"
        using taken None later by (auto simp: take_event_def Let_def split: if_splits)
      have "stream_inv r (insert e E) ?c" by (rule stream_inv_pending [OF inv(1) _ one]) (use later in simp_all)
      from drain_inv [OF run this small] show ?thesis .
    qed
  qed
qed

lemma apply_cases:
  assumes "projector_Apply cd e p = (Inr out, p')" and "de_AggregateType e \<noteq> ''budget''"
  obtains (known) f where "projection_validateEvent (pk_jcs cd) e = Inr f" "map_of (pr_eventIDs p) (de_EventID e) = Some f" "p' = p"
    | (taken) f r c ids where "projection_validateEvent (pk_jcs cd) e = Inr f" "map_of (pr_eventIDs p) (de_EventID e) = None"
        "map_of (pr_reducers p) (de_AggregateType e) = Some r"
        "take_event (pk_jcs cd) r f e (stream_of p (event_key e)) (pr_eventIDs p) = (Inr out, c, ids)"
        "p' = p\<lparr>pr_streams := gomap_put (event_key e) c (pr_streams p), pr_eventIDs := ids\<rparr>"
  using assms
  by (auto simp: projector_Apply_def apply_checked_def Let_def split: sum.splits option.splits prod.splits if_splits)

lemma apply_inv:
  assumes inv: "projector_inv cd rs D p" and one: "one_history (insert e D)" and small: "small_versions (insert e D)"
    and run: "projector_Apply cd e p = (Inr out, p')" and type: "de_AggregateType e \<noteq> ''budget''"
  shows "projector_inv cd rs (insert e D) p'"
  using run type
proof (cases rule: apply_cases)
  case (known f)
  then obtain e0 where "e0 \<in> D" "projection_validateEvent (pk_jcs cd) e0 = Inr f"
    using inv unfolding projector_inv_def by blast
  with same_print [OF one _ _ known(1)] have "insert e D = D" by (metis insert_absorb insertCI)
  with inv known(3) show ?thesis by simp
next
  case (taken f r c ids)
  let ?k = "event_key e" and ?D = "insert e D"
  have rs: "map_of rs (de_AggregateType e) = Some r" using taken(3) inv by (simp add: projector_inv_def)
  have hist: "history_of ?D ?k = insert e (history_of D ?k)" by (simp add: history_of_insert)
  have "x = y" if "x \<in> history_of ?D ?k" "y \<in> history_of ?D ?k" "de_AggregateVersion x = de_AggregateVersion y" for x y
    by (rule one_history_same [OF one that])
  moreover have "small_versions (history_of ?D ?k)" using small by (auto simp: small_versions_def history_of_def)
  ultimately have c: "stream_inv r (history_of ?D ?k) c" "drained (history_of ?D ?k) c"
    and ids: "ids = gomap_put (de_EventID e) f (pr_eventIDs p)"
    using stream_inv_take [OF stream_found [OF inv one rs] taken(1) _ _ taken(4)] unfolding hist by blast+
  have holds: "stream_holds rs (history_of ?D k) k (map_of (gomap_put ?k c (pr_streams p)) k)" for k
  proof (cases "k = ?k")
    case True
    with c rs hist show ?thesis by (auto simp: stream_holds_def amap.look_store)
  next
    case False
    then have "history_of ?D k = history_of D k" by (simp add: history_of_insert)
    with False inv show ?thesis by (simp add: projector_inv_def amap.look_store)
  qed
  have prints: "\<exists>x \<in> ?D. de_EventID x = i \<and> projection_validateEvent (pk_jcs cd) x = Inr g" if "map_of ids i = Some g" for i g
  proof (cases "i = de_EventID e")
    case True
    with that ids taken(1) show ?thesis by (auto simp: amap.look_store)
  next
    case False
    with that have "map_of (pr_eventIDs p) i = Some g" by (simp add: ids amap.look_store)
    with inv show ?thesis unfolding projector_inv_def by blast
  qed
  have "pr_reducers p = rs" "gomap_ok (pr_streams p)" using inv by (simp_all add: projector_inv_def)
  with holds prints show ?thesis by (simp add: projector_inv_def taken(5))
qed

definition plain_events :: "DomainEvent set \<Rightarrow> bool" where
  \<comment> \<open>one history per aggregate, versions an \<open>int64\<close> can hold, and no budget, which has snapshots\<close>
  "plain_events D \<longleftrightarrow> one_history D \<and> small_versions D \<and> (\<forall>e \<in> D. de_AggregateType e \<noteq> ''budget'')"

lemma plain_events_subset: "plain_events D \<Longrightarrow> D' \<subseteq> D \<Longrightarrow> plain_events D'"
  unfolding plain_events_def one_history_def small_versions_def by blast

lemma delivered_inv:
  assumes "delivered cd es p = Some p'" and "projector_inv cd rs D p" and "plain_events (set es \<union> D)"
  shows "projector_inv cd rs (set es \<union> D) p'"
  using assms
proof (induction es arbitrary: p D)
  case (Cons e es)
  from Cons.prems(1) obtain out p1 where run: "projector_Apply cd e p = (Inr out, p1)" and rest: "delivered cd es p1 = Some p'"
    by (auto split: prod.splits sum.splits)
  have "plain_events (insert e D)" by (rule plain_events_subset [OF Cons.prems(3)]) auto
  then have "projector_inv cd rs (insert e D) p1"
    using apply_inv [OF Cons.prems(2) _ _ run] unfolding plain_events_def by simp
  from Cons.IH [OF rest this] Cons.prems(3) show ?case by simp
qed simp

section \<open>Delivery in order\<close>

lemma next_accepted:
  assumes inv: "projector_inv cd rs D p" and plain: "plain_events (insert e D)"
    and valid: "projection_validateEvent (pk_jcs cd) e = Inr f" and fresh: "de_EventID e \<notin> de_EventID ` D"
    and rs: "map_of rs (de_AggregateType e) = Some r"
    and reduced: "\<And>x st. x \<in> insert e D \<Longrightarrow> \<exists>st'. r st x = Inr st' \<and> json_valid st'"
    and run: "de_AggregateVersion ` history_of D (event_key e) = {1..de_AggregateVersion e - 1}"
  shows "\<exists>out p'. projector_Apply cd e p = (Inr out, p')"
proof -
  let ?k = "event_key e" and ?E = "history_of D (event_key e)" and ?v = "de_AggregateVersion e"
  let ?c = "stream_of p ?k"
  have one: "one_history (insert e D)" and small: "small_versions (insert e D)" and type: "de_AggregateType e \<noteq> ''budget''"
    using plain unfolding plain_events_def by simp_all
  note c = stream_found [OF inv one rs]
  have versions: "x \<in> ?E \<Longrightarrow> de_AggregateVersion x < ?v" for x using run by fastforce
  have no_id: "map_of (pr_eventIDs p) (de_EventID e) = None"
    using inv fresh unfolding projector_inv_def by (metis image_eqI not_None_eq)
  have rep: "replays r ?E (sm_version ?c) (sm_state ?c)" using c(1) by (simp add: stream_inv_def)
  have "1 \<le> ?v" by (rule validated_sel(6) [OF valid])
  then have later: "sm_version ?c < ?v" using replays_below [OF rep, of ?v] versions by force
  have "\<not> sm_version ?c + 1 < ?v"
  proof
    assume "sm_version ?c + 1 < ?v"
    then have "sm_version ?c + 1 \<in> de_AggregateVersion ` ?E" using replays_nonneg [OF rep] unfolding run by simp
    with c(2) show False unfolding drained_def by auto
  qed
  with later have v: "?v = sm_version ?c + 1" by simp
  have none: "map_of (sm_pending ?c) ?v = None" using c(1) versions unfolding stream_inv_def by (metis less_irrefl not_None_eq)
  have hist: "history_of (insert e D) ?k = insert e ?E" by (simp add: history_of_insert)
  have small': "small_versions (insert e ?E)" using small by (auto simp: small_versions_def history_of_def)
  have pending: "stream_inv r (insert e ?E) (?c\<lparr>sm_pending := gomap_put ?v e (sm_pending ?c)\<rparr>)"
    by (rule stream_inv_pending [OF c(1) later], rule one_history_same [OF one, of _ ?k]) (simp_all add: hist)
  have "int64 (sm_version ?c + 1)"
    using small replays_nonneg [OF rep] v by (simp add: small_versions_def int64_def)
  then have "take_event (pk_jcs cd) r f e ?c (pr_eventIDs p)
      = drain (pk_jcs cd) r (?c\<lparr>sm_pending := gomap_put ?v e (sm_pending ?c)\<rparr>) (gomap_put (de_EventID e) f (pr_eventIDs p)) []"
    using later none v by (simp add: take_event_def Let_def add64_id)
  moreover obtain out c' where "drain (pk_jcs cd) r (?c\<lparr>sm_pending := gomap_put ?v e (sm_pending ?c)\<rparr>)
      (gomap_put (de_EventID e) f (pr_eventIDs p)) [] = (Inr out, c', gomap_put (de_EventID e) f (pr_eventIDs p))"
    using drain_accepts [OF pending small', of "pk_jcs cd"] reduced unfolding history_of_def by blast
  moreover have "map_of (pr_reducers p) (de_AggregateType e) = Some r" using inv rs by (simp add: projector_inv_def)
  ultimately show ?thesis using valid no_id type by (simp add: projector_Apply_def apply_checked_def)
qed

definition in_order :: "DomainEvent list \<Rightarrow> bool" where
  \<comment> \<open>each event comes after exactly the earlier versions of its aggregate\<close>
  "in_order es \<longleftrightarrow> (\<forall>earlier e later. es = earlier @ e # later \<longrightarrow>
     de_AggregateVersion ` history_of (set earlier) (event_key e) = {1..de_AggregateVersion e - 1})"

lemma delivered_in_order:
  assumes order: "in_order (earlier @ es)" and plain: "plain_events (set (earlier @ es))"
    and ids: "distinct (map de_EventID (earlier @ es))"
    and valid: "\<And>e. e \<in> set es \<Longrightarrow> \<exists>f. projection_validateEvent (pk_jcs cd) e = Inr f"
    and rs: "\<And>e. e \<in> set es \<Longrightarrow> map_of rs (de_AggregateType e) = Some r"
    and reduced: "\<And>e st. e \<in> set (earlier @ es) \<Longrightarrow> \<exists>st'. r st e = Inr st' \<and> json_valid st'"
    and inv: "projector_inv cd rs (set earlier) p"
  shows "\<exists>p'. delivered cd es p = Some p'"
  using assms
proof (induction es arbitrary: earlier p)
  case (Cons e es)
  have sub: "insert e (set earlier) \<subseteq> set (earlier @ e # es)" by auto
  have run: "de_AggregateVersion ` history_of (set earlier) (event_key e) = {1..de_AggregateVersion e - 1}"
    using Cons.prems(1) unfolding in_order_def by blast
  have fresh: "de_EventID e \<notin> de_EventID ` set earlier" using Cons.prems(3) by auto
  obtain f where f: "projection_validateEvent (pk_jcs cd) e = Inr f" using Cons.prems(4) by auto
  note plain_e = plain_events_subset [OF Cons.prems(2) sub]
  have "\<exists>out p1. projector_Apply cd e p = (Inr out, p1)"
    by (rule next_accepted [OF Cons.prems(7) plain_e f fresh Cons.prems(5) Cons.prems(6) run]) (use sub in auto)
  then obtain out p1 where app: "projector_Apply cd e p = (Inr out, p1)" by blast
  have "projector_inv cd rs (set (earlier @ [e])) p1"
    using apply_inv [OF Cons.prems(7) _ _ app] plain_e unfolding plain_events_def by simp
  with Cons.IH [of "earlier @ [e]" p1] Cons.prems(1-6) app show ?case by simp
qed simp

section \<open>What a stream holds\<close>

lemma stream_determined:
  assumes "stream_inv r E c" "drained E c" "stream_inv r E c'" "drained E c'"
    and "\<And>x y. x \<in> E \<Longrightarrow> y \<in> E \<Longrightarrow> de_AggregateVersion x = de_AggregateVersion y \<Longrightarrow> x = y"
  shows "sm_version c = sm_version c' \<and> sm_state c = sm_state c' \<and> (sm_pending c = [] \<longleftrightarrow> sm_pending c' = [])"
proof -
  have below: "sm_version b \<le> sm_version a" if "stream_inv r E a" "drained E a" "stream_inv r E b" for a b
  proof (rule ccontr)
    assume less: "\<not> sm_version b \<le> sm_version a"
    have "0 \<le> sm_version a" using that(1) replays_nonneg unfolding stream_inv_def by blast
    with less that(3) replays_below [of r E "sm_version b" "sm_state b" "sm_version a + 1"]
    obtain e where "e \<in> E" "de_AggregateVersion e = sm_version a + 1" unfolding stream_inv_def by auto
    with that(2) show False unfolding drained_def by blast
  qed
  have v: "sm_version c = sm_version c'" using below [of c c'] below [of c' c] assms(1-4) by simp
  moreover have "sm_state c = sm_state c'"
    using replays_unique [of r E "sm_version c"] assms(1,3,5) unfolding stream_inv_def v by blast
  moreover have "sm_pending a \<noteq> [] \<longleftrightarrow> (\<exists>e \<in> E. sm_version a < de_AggregateVersion e)" if "stream_inv r E a" for a
  proof
    assume "sm_pending a \<noteq> []"
    then obtain k e where "map_of (sm_pending a) k = Some e" by (cases "sm_pending a") force+
    with that show "\<exists>e \<in> E. sm_version a < de_AggregateVersion e" unfolding stream_inv_def by metis
  next
    assume "\<exists>e \<in> E. sm_version a < de_AggregateVersion e"
    with that show "sm_pending a \<noteq> []" unfolding stream_inv_def by force
  qed
  ultimately show ?thesis using assms(1,3) by metis
qed

lemma streams_agree:
  assumes "projector_inv cd rs D p" "projector_inv cd rs D p'" "one_history D"
  shows "rel_option (\<lambda>c c'. sm_version c = sm_version c' \<and> sm_state c = sm_state c' \<and> (sm_pending c = [] \<longleftrightarrow> sm_pending c' = []))
    (map_of (pr_streams p) k) (map_of (pr_streams p') k)"
proof -
  have holds: "stream_holds rs (history_of D k) k (map_of (pr_streams p) k)"
    "stream_holds rs (history_of D k) k (map_of (pr_streams p') k)"
    using assms(1,2) unfolding projector_inv_def by blast+
  show ?thesis
  proof (cases "history_of D k = {}")
    case True
    with holds show ?thesis by (auto simp: stream_holds_def split: option.splits)
  next
    case False
    with holds obtain c c' where c: "map_of (pr_streams p) k = Some c" "map_of (pr_streams p') k = Some c'"
      by (auto simp: stream_holds_def split: option.splits)
    from holds c obtain e r e' r' where r: "e \<in> history_of D k" "map_of rs (de_AggregateType e) = Some r"
        "stream_inv r (history_of D k) c" "drained (history_of D k) c"
      and r': "e' \<in> history_of D k" "map_of rs (de_AggregateType e') = Some r'"
        "stream_inv r' (history_of D k) c'" "drained (history_of D k) c'" by (auto simp: stream_holds_def)
    from r(1) r'(1) assms(3) have "de_AggregateType e = de_AggregateType e'" unfolding one_history_def history_of_def by auto
    with r(2) r'(2) have "r' = r" by simp
    from stream_determined [OF r(3,4) r'(3,4) [unfolded this] one_history_same [OF assms(3)]] c show ?thesis by simp
  qed
qed

lemma ensureComplete_iff:
  assumes "gomap_ok (pr_streams p)"
  shows "ensureComplete p = None \<longleftrightarrow> (\<forall>k c. map_of (pr_streams p) k = Some c \<longrightarrow> sm_pending c = [])"
proof -
  have "ensureComplete p = None \<longleftrightarrow> (\<forall>(k, c) \<in> set (pr_streams p). sm_pending c = [])"
    by (auto simp: ensureComplete_def list_ex_iff)
  also have "\<dots> \<longleftrightarrow> (\<forall>k c. map_of (pr_streams p) k = Some c \<longrightarrow> sm_pending c = [])"
    using gomap_okD [OF assms] map_of_SomeD by fast
  finally show ?thesis .
qed

end
