(* ===== verification/Projection_Reconcile.thy ===== *)
theory Projection_Reconcile
  imports Projector
begin

text \<open>
  The reconciliation of \<open>internal/projection/replay.go\<close>: the events of a tenant are replayed into a new
  projector, and every aggregate is compared with the projection that is stored online. A call of the
  event log or the catalog is given by what it returned; the encoders of the digested documents are a
  parameter.
\<close>

section \<open>Reports\<close>

datatype DriftKind = DriftMissingOnline | DriftOrphanOnline | DriftVersion | DriftState

record ProjectionDrift =
  dr_Kind :: DriftKind
  dr_ProjectID :: string
  dr_AggregateType :: string
  dr_AggregateID :: string
  dr_RebuiltVersion :: int
  dr_OnlineVersion :: int
  dr_RebuiltSHA256 :: string
  dr_OnlineSHA256 :: string

record ReconciliationReport =
  rr_TenantID :: string
  rr_EventCount :: nat
  rr_RebuiltCount :: nat
  rr_OnlineCount :: nat
  rr_RebuiltSHA256 :: string
  rr_OnlineSHA256 :: string
  rr_Converged :: bool
  rr_Drifts :: "ProjectionDrift list"
  rr_ReportSHA256 :: string

record projectionInventoryItem =
  iv_ProjectID :: string
  iv_AggregateType :: string
  iv_AggregateID :: string
  iv_Version :: int
  iv_SHA256 :: string

record reconcile_codec = projection_codec +
  rk_snapshot :: "int \<Rightarrow> string \<Rightarrow> string option"
  rk_inventory :: "projectionInventoryItem list \<Rightarrow> string option"
  rk_report :: "ReconciliationReport \<Rightarrow> string option"

definition projection_codec_of :: "reconcile_codec \<Rightarrow> projection_codec" where
  "projection_codec_of cd = \<lparr>pk_payload = pk_payload cd, pk_version = pk_version cd, pk_budget = pk_budget cd, pk_jcs = pk_jcs cd\<rparr>"

section \<open>Rebuilding\<close>

definition replay_failed :: "proj_error \<Rightarrow> proj_error" where
  "replay_failed e = (case e of ProjAor a \<Rightarrow> ProjAor a | _ \<Rightarrow> ProjText ''replay event'')"

fun replay_events :: "projection_codec \<Rightarrow> string \<Rightarrow> DomainEvent list \<Rightarrow> Projector \<Rightarrow> proj_error + Projector" where
  "replay_events cd tenantID [] p = Inr p"
| "replay_events cd tenantID (event # rest) p =
     (if de_TenantID event \<noteq> tenantID
      then Inl (proj_aor CodeConflict (de_CorrelationID event) ''projection rebuild tenant'')
      else (case projector_Apply cd event p of
              (Inl e, _) \<Rightarrow> Inl (replay_failed e)
            | (Inr _, p') \<Rightarrow> replay_events cd tenantID rest p'))"

definition rebuildEvents ::
  "projection_codec \<Rightarrow> DomainEvent list \<Rightarrow> string \<Rightarrow> (string, reducer) gomap \<Rightarrow> proj_error + Projector" where
  "rebuildEvents cd source tenantID reducers =
     (case replay_events cd tenantID (sort_key event_order (map cloneEvent source)) (NewProjector reducers) of
        Inl e \<Rightarrow> Inl e
      | Inr p \<Rightarrow> (case ensureComplete p of Some e \<Rightarrow> Inl e | None \<Rightarrow> Inr p))"

section \<open>Inventories\<close>

definition snapshot_Digest :: "reconcile_codec \<Rightarrow> Snapshot \<Rightarrow> proj_error + string" where
  "snapshot_Digest cd s =
     (if sn_Version s < 1 \<or> \<not> json_valid (sn_State s)
      then Inl (proj_aor CodeInvalidArgument [] ''projection snapshot'')
      else (case rk_snapshot cd (sn_Version s) (sn_State s) of
              None \<Rightarrow> Inl (ProjText ''marshal projection snapshot'') | Some d \<Rightarrow> Inr d))"

definition sortInventory :: "projectionInventoryItem list \<Rightarrow> projectionInventoryItem list" where
  "sortInventory items = sort_key (\<lambda>i. (iv_AggregateType i, iv_AggregateID i)) items"

type_synonym inventory = "projectionInventoryItem list \<times> (string, projectionInventoryItem) gomap"

definition latest_refs :: "string \<Rightarrow> DomainEvent list \<Rightarrow> (string, DomainEvent) gomap" where
  "latest_refs tenantID events =
     foldl (\<lambda>refs event.
         let key = aggregateKey tenantID (de_AggregateType event) (de_AggregateID event) in
         case map_of refs key of
           None \<Rightarrow> gomap_put key event refs
         | Some prior \<Rightarrow>
             if de_AggregateVersion prior < de_AggregateVersion event then gomap_put key event refs else refs) [] events"

fun rebuilt_items ::
  "reconcile_codec \<Rightarrow> Projector \<Rightarrow> string \<Rightarrow> (string, DomainEvent) gomap \<Rightarrow> proj_error + inventory" where
  "rebuilt_items cd p tenantID [] = Inr ([], [])"
| "rebuilt_items cd p tenantID ((key, ref) # refs) =
     (case projector_Snapshot tenantID (de_AggregateType ref) (de_AggregateID ref) p of
        None \<Rightarrow> Inl (proj_aor CodeConflict (de_CorrelationID ref) ''rebuilt projection missing'')
      | Some snapshot \<Rightarrow>
          (case snapshot_Digest cd snapshot of
             Inl e \<Rightarrow> Inl e
           | Inr digest \<Rightarrow>
               (let item = \<lparr>iv_ProjectID = de_ProjectID ref, iv_AggregateType = de_AggregateType ref,
                      iv_AggregateID = de_AggregateID ref, iv_Version = sn_Version snapshot, iv_SHA256 = digest\<rparr> in
                case rebuilt_items cd p tenantID refs of
                  Inl e \<Rightarrow> Inl e
                | Inr (items, byKey) \<Rightarrow> Inr (item # items, (key, item) # byKey))))"

definition rebuiltInventory :: "reconcile_codec \<Rightarrow> DomainEvent list \<Rightarrow> Projector \<Rightarrow> string \<Rightarrow> proj_error + inventory" where
  "rebuiltInventory cd events p tenantID =
     (case rebuilt_items cd p tenantID (latest_refs tenantID events) of
        Inl e \<Rightarrow> Inl e | Inr (items, byKey) \<Rightarrow> Inr (sortInventory items, byKey))"

fun online_items ::
  "reconcile_codec \<Rightarrow> string \<Rightarrow> Projection list \<Rightarrow> inventory \<Rightarrow> proj_error + inventory" where
  "online_items cd tenantID [] found = Inr found"
| "online_items cd tenantID (projection # rest) (items, byKey) =
     (if pj_TenantID projection \<noteq> tenantID \<or> pj_ProjectID projection = [] \<or> pj_AggregateType projection = []
         \<or> pj_AggregateID projection = []
      then Inl (proj_aor CodeConflict [] ''online projection identity'')
      else (case snapshot_Digest cd \<lparr>sn_Version = pj_Version projection, sn_State = pj_State projection\<rparr> of
        Inl e \<Rightarrow> Inl e
      | Inr digest \<Rightarrow>
          (let key = aggregateKey tenantID (pj_AggregateType projection) (pj_AggregateID projection);
               item = \<lparr>iv_ProjectID = pj_ProjectID projection, iv_AggregateType = pj_AggregateType projection,
                  iv_AggregateID = pj_AggregateID projection, iv_Version = pj_Version projection, iv_SHA256 = digest\<rparr> in
           if gomap_has byKey key then Inl (proj_aor CodeConflict [] ''duplicate online projection'')
           else online_items cd tenantID rest (items @ [item], gomap_put key item byKey))))"

definition onlineInventory :: "reconcile_codec \<Rightarrow> Projection list \<Rightarrow> string \<Rightarrow> proj_error + inventory" where
  "onlineInventory cd projections tenantID =
     (case online_items cd tenantID projections ([], []) of
        Inl e \<Rightarrow> Inl e | Inr (items, byKey) \<Rightarrow> Inr (sortInventory items, byKey))"

section \<open>Comparison\<close>

definition drift_of :: "projectionInventoryItem option \<Rightarrow> projectionInventoryItem option \<Rightarrow> ProjectionDrift list" where
  "drift_of expected actual =
     (case (expected, actual) of
        (None, None) \<Rightarrow> []
      | (None, Some a) \<Rightarrow>
          [\<lparr>dr_Kind = DriftOrphanOnline, dr_ProjectID = iv_ProjectID a, dr_AggregateType = iv_AggregateType a,
            dr_AggregateID = iv_AggregateID a, dr_RebuiltVersion = 0, dr_OnlineVersion = iv_Version a,
            dr_RebuiltSHA256 = [], dr_OnlineSHA256 = iv_SHA256 a\<rparr>]
      | (Some e, found) \<Rightarrow>
          (let drift = (\<lambda>kind version digest. \<lparr>dr_Kind = kind, dr_ProjectID = iv_ProjectID e,
                 dr_AggregateType = iv_AggregateType e, dr_AggregateID = iv_AggregateID e,
                 dr_RebuiltVersion = iv_Version e, dr_OnlineVersion = version,
                 dr_RebuiltSHA256 = iv_SHA256 e, dr_OnlineSHA256 = digest\<rparr>) in
           case found of
             None \<Rightarrow> [drift DriftMissingOnline 0 []]
           | Some a \<Rightarrow>
               if iv_Version e \<noteq> iv_Version a then [drift DriftVersion (iv_Version a) (iv_SHA256 a)]
               else if iv_SHA256 e \<noteq> iv_SHA256 a then [drift DriftState (iv_Version a) (iv_SHA256 a)]
               else []))"

definition inventory_keys ::
  "(string, projectionInventoryItem) gomap \<Rightarrow> (string, projectionInventoryItem) gomap \<Rightarrow> string list" where
  "inventory_keys rebuilt online =
     sort (map fst rebuilt @ filter (\<lambda>key. \<not> gomap_has rebuilt key) (map fst online))"

definition inventory_drifts ::
  "(string, projectionInventoryItem) gomap \<Rightarrow> (string, projectionInventoryItem) gomap \<Rightarrow> ProjectionDrift list" where
  "inventory_drifts rebuilt online =
     concat (map (\<lambda>key. drift_of (map_of rebuilt key) (map_of online key)) (inventory_keys rebuilt online))"

definition digested :: "string option \<Rightarrow> proj_error + string" where
  "digested d = (case d of None \<Rightarrow> Inl (ProjText ''canonical JSON'') | Some s \<Rightarrow> Inr s)"

definition compare_inventories ::
  "reconcile_codec \<Rightarrow> string \<Rightarrow> nat \<Rightarrow> inventory \<Rightarrow> inventory \<Rightarrow> proj_error + ReconciliationReport" where
  "compare_inventories cd tenantID eventCount rebuilt online =
     (case digested (rk_inventory cd (fst rebuilt)) of
        Inl e \<Rightarrow> Inl e
      | Inr rebuiltSHA256 \<Rightarrow>
          (case digested (rk_inventory cd (fst online)) of
             Inl e \<Rightarrow> Inl e
           | Inr onlineSHA256 \<Rightarrow>
               (let drifts = inventory_drifts (snd rebuilt) (snd online);
                    report = \<lparr>rr_TenantID = tenantID, rr_EventCount = eventCount,
                      rr_RebuiltCount = length (fst rebuilt), rr_OnlineCount = length (fst online),
                      rr_RebuiltSHA256 = rebuiltSHA256, rr_OnlineSHA256 = onlineSHA256,
                      rr_Converged = (drifts = [] \<and> rebuiltSHA256 = onlineSHA256), rr_Drifts = drifts,
                      rr_ReportSHA256 = []\<rparr> in
                case digested (rk_report cd report) of
                  Inl e \<Rightarrow> Inl e
                | Inr digest \<Rightarrow> Inr (report\<lparr>rr_ReportSHA256 := digest\<rparr>))))"

definition reconcileLoaded ::
  "reconcile_codec \<Rightarrow> DomainEvent list \<Rightarrow> Projection list \<Rightarrow> string \<Rightarrow> (string, reducer) gomap \<Rightarrow>
     proj_error + ReconciliationReport" where
  "reconcileLoaded cd events online tenantID reducers =
     (case rebuildEvents (projection_codec_of cd) events tenantID reducers of
        Inl e \<Rightarrow> Inl e
      | Inr p \<Rightarrow>
          (case rebuiltInventory cd events p tenantID of
             Inl e \<Rightarrow> Inl e
           | Inr rebuilt \<Rightarrow>
               (case onlineInventory cd online tenantID of
                  Inl e \<Rightarrow> Inl e
                | Inr found \<Rightarrow> compare_inventories cd tenantID (length events) rebuilt found)))"

section \<open>Entry points\<close>

definition projection_Reconcile ::
  "reconcile_codec \<Rightarrow> store_error + DomainEvent list \<Rightarrow> store_error + Projection list \<Rightarrow> string \<Rightarrow>
     (string, reducer) gomap \<Rightarrow> proj_error + ReconciliationReport" where
  "projection_Reconcile cd source catalog tenantID reducers =
     (if tenantID = [] then Inl (proj_aor CodeInvalidArgument [] ''projection reconciliation'')
      else (case source of
        Inl e \<Rightarrow> Inl (ProjStore e)
      | Inr events \<Rightarrow>
          (case catalog of
             Inl e \<Rightarrow> Inl (ProjStore e)
           | Inr online \<Rightarrow> reconcileLoaded cd events online tenantID reducers)))"

definition projection_Rebuild ::
  "projection_codec \<Rightarrow> store_error + DomainEvent list \<Rightarrow> string \<Rightarrow> (string, reducer) gomap \<Rightarrow> proj_error + Projector" where
  "projection_Rebuild cd source tenantID reducers =
     (if tenantID = [] then Inl (proj_aor CodeInvalidArgument [] ''projection rebuild'')
      else (case source of
        Inl e \<Rightarrow> Inl (ProjStore e)
      | Inr events \<Rightarrow> rebuildEvents cd events tenantID reducers))"

fun authoritative_reducers ::
  "jcs_transform \<Rightarrow> DomainEvent list \<Rightarrow> (string, reducer) gomap \<Rightarrow> proj_error + (string, reducer) gomap" where
  "authoritative_reducers jcs [] reducers = Inr reducers"
| "authoritative_reducers jcs (event # rest) reducers =
     (if de_AggregateType event = []
      then Inl (proj_aor CodeConflict (de_CorrelationID event) ''reconciliation aggregate type'')
      else authoritative_reducers jcs rest
             (gomap_put (de_AggregateType event) (AuthoritativeStateReducer jcs) reducers))"

definition reconcileDurableSnapshot ::
  "reconcile_codec \<Rightarrow> ReconciliationSnapshot \<Rightarrow> string \<Rightarrow> proj_error + ReconciliationReport" where
  "reconcileDurableSnapshot cd snapshot tenantID =
     (case authoritative_reducers (pk_jcs cd) (rs_Events snapshot) [] of
        Inl e \<Rightarrow> Inl e
      | Inr reducers \<Rightarrow> reconcileLoaded cd (rs_Events snapshot) (rs_Projections snapshot) tenantID reducers)"

definition ReconcileDurable ::
  "reconcile_codec \<Rightarrow> store_error + ReconciliationSnapshot \<Rightarrow> string \<Rightarrow> proj_error + ReconciliationReport" where
  "ReconcileDurable cd source tenantID =
     (if tenantID = [] then Inl (proj_aor CodeInvalidArgument [] ''durable projection reconciliation'')
      else (case source of
        Inl e \<Rightarrow> Inl (ProjStore e)
      | Inr snapshot \<Rightarrow> reconcileDurableSnapshot cd snapshot tenantID))"

definition verifyDurableSnapshot ::
  "reconcile_codec \<Rightarrow> ReconciliationSnapshot \<Rightarrow> string \<Rightarrow> ReconciliationReport option \<times> proj_error option" where
  \<comment> \<open>the report comes with the error when projections drifted\<close>
  "verifyDurableSnapshot cd snapshot tenantID =
     (case reconcileDurableSnapshot cd snapshot tenantID of
        Inl e \<Rightarrow> (None, Some e)
      | Inr report \<Rightarrow>
          if \<not> rr_Converged report then (Some report, Some (ErrProjectionDrift (length (rr_Drifts report))))
          else (Some report, None))"

definition VerifyDurable ::
  "reconcile_codec \<Rightarrow> (store_error \<Rightarrow> bool) \<Rightarrow> store_error + ReconciliationSnapshot \<Rightarrow> string \<Rightarrow>
     ReconciliationReport option \<times> proj_error option" where
  \<comment> \<open>the source says which of its errors are \<open>ErrRelationalProjectionDrift\<close>\<close>
  "VerifyDurable cd relational_drift source tenantID =
     (if tenantID = [] then (None, Some (proj_aor CodeInvalidArgument [] ''durable projection verification''))
      else (case source of
        Inl e \<Rightarrow> (None, Some (if relational_drift e then ErrProjectionDrift 0 else ProjStore e))
      | Inr snapshot \<Rightarrow> verifyDurableSnapshot cd snapshot tenantID))"

end
