(* ===== verification/Reconcile_Safety.thy ===== *)
theory Reconcile_Safety
  imports Projection_Safety Projection_Reconcile Event_Properties
begin

text \<open>
  Why the log of the event store reconciles with its projections: the names of what is stored, the
  sorted log as a delivery in order, and the inventories on both sides.
\<close>

section \<open>Names in the log\<close>

definition plain_request :: "TransactionRequest \<Rightarrow> bool" where
  \<comment> \<open>names without NUL bytes, and no budget accounts\<close>
  "plain_request r \<longleftrightarrow>
     (\<forall>u \<in> set (tq_Updates r). nul_free (pu_TenantID u) \<and> nul_free (pu_AggregateType u) \<and> pu_AggregateType u \<noteq> ''budget'')
     \<and> (\<forall>e \<in> set (tq_Events r). nul_free (de_TenantID e) \<and> nul_free (de_AggregateType e))"

fun plain_op :: "store_op \<Rightarrow> bool" where
  "plain_op (OpExecute r) = plain_request r"
| "plain_op _ = True"

definition named_event :: "DomainEvent \<Rightarrow> bool" where
  "named_event e \<longleftrightarrow> nul_free (de_TenantID e) \<and> nul_free (de_AggregateType e) \<and> de_ProjectID e \<noteq> []
     \<and> de_AggregateType e \<noteq> [] \<and> de_AggregateType e \<noteq> ''budget'' \<and> de_AggregateID e \<noteq> [] \<and> de_Type e \<noteq> []"

definition named_log :: "MemoryStore \<Rightarrow> bool" where
  "named_log s \<longleftrightarrow> (\<forall>e \<in> snd ` set (ms_events s). named_event e)
     \<and> (\<forall>k p. map_of (ms_projections s) k = Some p \<longrightarrow> nul_free (pj_TenantID p) \<and> nul_free (pj_AggregateType p))"

lemma named_log_same:
  "ms_projections s' = ms_projections s \<Longrightarrow> ms_events s' = ms_events s \<Longrightarrow> named_log s' = named_log s"
  by (simp add: named_log_def)

lemma bound_plain:
  assumes "list_all2 (bound_from jcs states) es bs" "b \<in> set bs"
  shows "\<exists>e \<in> set es. de_TenantID b = de_TenantID e \<and> de_AggregateType b = de_AggregateType e"
  using list_all2_right [OF assms] unfolding bound_from_def by auto

lemma named_log_commit:
  assumes log: "named_log s" and good: "good_commit jcs s r"
    and us: "\<And>u. u \<in> set (tq_Updates r) \<Longrightarrow> nul_free (pu_TenantID u) \<and> nul_free (pu_AggregateType u) \<and> pu_AggregateType u \<noteq> ''budget''"
    and es: "\<And>e. e \<in> set (tq_Events r) \<Longrightarrow> nul_free (de_TenantID e) \<and> nul_free (de_AggregateType e)"
  shows "named_log (commit r s)"
  unfolding named_log_def
proof (intro conjI ballI allI impI)
  fix e assume "e \<in> snd ` set (ms_events (commit r s))"
  moreover have "put_all de_EventID (\<lambda>e. e) (tq_Events r) (ms_events s) = ms_events s @ map (\<lambda>e. (de_EventID e, e)) (tq_Events r)"
    using good unfolding good_commit_def by (intro put_all_fresh) blast+
  ultimately consider "e \<in> snd ` set (ms_events s)" | "e \<in> set (tq_Events r)" by (auto simp: commit_sel)
  then show "named_event e"
  proof cases
    case 1
    with log show ?thesis unfolding named_log_def by blast
  next
    case 2
    then obtain u where u: "u \<in> set (tq_Updates r)" "update_key u = event_key e" "good_event u e"
      using good unfolding good_commit_def by blast
    then have "pu_AggregateType u = de_AggregateType e" "pu_AggregateID u = de_AggregateID e"
      using us [OF u(1)] es [OF 2] by (metis aggregateKey_inject)+
    moreover have "good_update (tq_TenantID r) u" using good u(1) unfolding good_commit_def by blast
    ultimately show ?thesis using u us [OF u(1)] es [OF 2] by (auto simp: named_event_def good_event_def good_update_def)
  qed
next
  fix k p assume "map_of (ms_projections (commit r s)) k = Some p"
  then have "map_of (put_all update_key projection_of (tq_Updates r) (ms_projections s)) k = Some p"
    by (simp only: commit_projections [OF good])
  then consider "map_of (ms_projections s) k = Some p" | u where "u \<in> set (tq_Updates r)" "projection_of u = p"
    using put_all_cases by fastforce
  then show "nul_free (pj_TenantID p)" "nul_free (pj_AggregateType p)"
    by (cases; use log us in \<open>force simp: named_log_def projection_of_def\<close>)+
qed

lemma named_log_step:
  assumes ok: "store_ok jcs s" and log: "named_log s" and op: "plain_op op"
  shows "named_log (store_after jcs op s)"
proof -
  from ok have outbox: "outbox_ok s" by (simp add: store_ok_def)
  have touched: "named_log s'" if "outbox_touched s s'" for s'
    using that log by (auto simp: outbox_touched_def named_log_same [of "s\<lparr>ms_outbox := _\<rparr>" s])
  show ?thesis
  proof (cases op)
    case (OpExecute r)
    show ?thesis
    proof (rule Execute_cases [of jcs r s "fst (Execute jcs r s)" "snd (Execute jcs r s)"])
      fix bs f
      assume good: "good_commit jcs s (r\<lparr>tq_Events := bs\<rparr>)"
        and bound: "list_all2 (bound_from jcs (update_states (tq_Updates r))) (tq_Events r) bs"
        and s': "snd (Execute jcs r s) = (commit (r\<lparr>tq_Events := bs\<rparr>) s)\<lparr>ms_failure := f\<rparr>"
      have plain: "plain_request r" using op OpExecute by simp
      have "named_log (commit (r\<lparr>tq_Events := bs\<rparr>) s)"
      proof (rule named_log_commit [OF log good])
        fix u assume "u \<in> set (tq_Updates (r\<lparr>tq_Events := bs\<rparr>))"
        with plain show "nul_free (pu_TenantID u) \<and> nul_free (pu_AggregateType u) \<and> pu_AggregateType u \<noteq> ''budget''"
          by (simp add: plain_request_def)
      next
        fix e assume "e \<in> set (tq_Events (r\<lparr>tq_Events := bs\<rparr>))"
        with bound_plain [OF bound] plain show "nul_free (de_TenantID e) \<and> nul_free (de_AggregateType e)"
          by (fastforce simp: plain_request_def)
      qed
      then show ?thesis unfolding OpExecute store_after.simps s' by (simp add: named_log_same [of "_\<lparr>ms_failure := f\<rparr>"])
    qed (simp_all add: OpExecute log named_log_same [of "_\<lparr>ms_failure := FailureNone\<rparr>"])
  next
    case (OpFailNext f)
    then show ?thesis using log by (simp add: FailNext_def named_log_same [of "s\<lparr>ms_failure := f\<rparr>" s])
  qed (use touched outbox claim_touched mark_touched retry_touched in auto)
qed

lemma run_named_log:
  assumes "list_all plain_op ops"
  shows "named_log (store_run jcs ops NewMemoryStore)"
proof -
  have "store_ok jcs s \<Longrightarrow> named_log s \<Longrightarrow> list_all plain_op ops \<Longrightarrow> named_log (store_run jcs ops s)" for s
  proof (induction ops arbitrary: s)
    case (Cons op ops)
    then show ?case using named_log_step store_ok_step by (simp add: store_run_def)
  qed (simp add: store_run_def)
  moreover have "named_log NewMemoryStore" by (simp add: named_log_def NewMemoryStore_def)
  ultimately show ?thesis using NewMemoryStore_ok assms by blast
qed

section \<open>The log of a tenant\<close>

definition tenant_log :: "string \<Rightarrow> MemoryStore \<Rightarrow> DomainEvent list" where
  "tenant_log t s = sort_key event_order (tenant_events t s)"

definition settled_store :: "jcs_transform \<Rightarrow> MemoryStore \<Rightarrow> bool" where
  \<comment> \<open>what every run of plain operations keeps\<close>
  "settled_store jcs s \<longleftrightarrow> store_ok jcs s \<and> named_log s \<and> (\<exists>n < 2 ^ 63. history_ok n s)"

lemma run_settled:
  assumes "list_all plain_op ops" and "int (length ops) < 2 ^ 63"
  shows "settled_store jcs (store_run jcs ops NewMemoryStore)"
  using assms run_store_ok run_named_log store_run_history unfolding settled_store_def by blast

lemma tenant_log_set: "set (tenant_log t s) = {e \<in> snd ` set (ms_events s). de_TenantID e = t}"
  by (auto simp: tenant_log_def tenant_events_def)

lemma log_event:
  assumes "settled_store jcs s" and "e \<in> set (tenant_log t s)"
  shows "de_TenantID e = t" "named_event e" "event_stored jcs e" "map_of (ms_events s) (de_EventID e) = Some e"
proof -
  from assms(2) obtain k where k: "(k, e) \<in> set (ms_events s)" and t: "de_TenantID e = t" by (auto simp: tenant_log_set)
  from assms(1) have ok: "events_ok jcs s" and named: "named_log s" by (simp_all add: settled_store_def store_ok_def)
  from t show "de_TenantID e = t" .
  from named k show "named_event e" unfolding named_log_def by force
  from ok have g: "gomap_ok (ms_events s)"
    and each: "map_of (ms_events s) i = Some x \<Longrightarrow> de_EventID x = i \<and> event_stored jcs x" for i x
    unfolding events_ok_def by blast+
  from gomap_okD [OF g k] each show "event_stored jcs e" "map_of (ms_events s) (de_EventID e) = Some e" by auto
qed

lemma log_ids:
  assumes "settled_store jcs s"
  shows "distinct (map de_EventID (tenant_log t s))"
proof -
  have ok: "gomap_ok (ms_events s)" and each: "\<And>i x. map_of (ms_events s) i = Some x \<Longrightarrow> de_EventID x = i"
    using assms unfolding settled_store_def store_ok_def events_ok_def by blast+
  have "de_EventID (snd x) = fst x" if "x \<in> set (ms_events s)" for x
    using each gomap_okD [OF ok, of "fst x" "snd x"] that by simp
  then have "map de_EventID (map snd (ms_events s)) = map fst (ms_events s)" unfolding map_map by (intro map_cong) simp_all
  with ok have "distinct (map de_EventID (map snd (ms_events s)))" by (simp only: gomap_ok_def)
  then have d: "distinct (map de_EventID (tenant_events t s))"
    unfolding tenant_events_def by (rule distinct_map_filter)
  have "inj_on de_EventID (set (tenant_events t s))" "distinct (tenant_events t s)" using d by (simp_all add: distinct_map)
  then show ?thesis by (simp add: distinct_map tenant_log_def)
qed

lemma log_history:
  assumes set: "settled_store jcs s" and e: "e \<in> set (tenant_log t s)"
  shows "history_of (set (tenant_log t s)) (event_key e) = set (stored_events s (event_key e))"
proof -
  have "de_TenantID x = t" if x: "x \<in> snd ` set (ms_events s)" "event_key x = event_key e" for x
  proof -
    have "named_event x" using set x(1) unfolding settled_store_def named_log_def by blast
    with x(2) log_event(1,2) [OF set e] show ?thesis by (metis aggregateKey_inject named_event_def)
  qed
  then show ?thesis by (auto simp: history_of_def tenant_log_set stored_events_def)
qed

lemma stored_versions:
  assumes "settled_store jcs s"
  shows "de_AggregateVersion ` set (stored_events s k) = {1..current_version s k}"
    and "inj_on de_AggregateVersion (set (stored_events s k))" and "current_version s k < 2 ^ 63"
proof -
  obtain n where n: "n < 2 ^ 63" and hist: "history_ok n s" using assms unfolding settled_store_def by blast
  then have ms: "mset (map de_AggregateVersion (stored_events s k)) = mset [1..current_version s k]"
    and "current_version s k \<le> n" unfolding history_ok_def by blast+
  with n show "current_version s k < 2 ^ 63" by simp
  from ms have "set (map de_AggregateVersion (stored_events s k)) = set [1..current_version s k]" by (rule mset_eq_setD)
  then show "de_AggregateVersion ` set (stored_events s k) = {1..current_version s k}" by simp
  have "distinct (map de_AggregateVersion (stored_events s k))"
    using ms by (metis distinct_upto mset_eq_imp_distinct_iff)
  then show "inj_on de_AggregateVersion (set (stored_events s k))" by (simp add: distinct_map)
qed

lemma log_plain:
  assumes set: "settled_store jcs s"
  shows "plain_events (set (tenant_log t s))"
proof -
  have "one_history (set (tenant_log t s))"
    unfolding one_history_def
  proof (intro ballI impI conjI)
    fix e e' assume e: "e \<in> set (tenant_log t s)" "e' \<in> set (tenant_log t s)" "event_key e = event_key e'"
    with log_event(1,2) [OF set e(1)] log_event(1,2) [OF set e(2)] show "de_AggregateType e = de_AggregateType e'"
      by (metis aggregateKey_inject named_event_def)
    assume v: "de_AggregateVersion e = de_AggregateVersion e'"
    have "e \<in> set (stored_events s (event_key e))" "e' \<in> set (stored_events s (event_key e))"
      using log_history [OF set e(1)] e unfolding history_of_def by auto
    with stored_versions(2) [OF set] v show "e = e'" by (meson inj_onD)
  qed
  moreover have "de_AggregateVersion e < 2 ^ 63" if e: "e \<in> set (tenant_log t s)" for e
  proof -
    have "e \<in> set (stored_events s (event_key e))" using log_history [OF set e] e unfolding history_of_def by auto
    with stored_versions(1) [OF set, of "event_key e"] have "de_AggregateVersion e \<le> current_version s (event_key e)" by auto
    with stored_versions(3) [OF set, of "event_key e"] show ?thesis by simp
  qed
  moreover have "de_AggregateType e \<noteq> ''budget''" if "e \<in> set (tenant_log t s)" for e
    using log_event(2) [OF set that] by (simp add: named_event_def)
  ultimately show ?thesis by (simp add: plain_events_def small_versions_def)
qed

lemma sorted_key_before:
  assumes "sorted (map f (xs @ x # ys))" and "y \<in> set (xs @ x # ys)" and "f y < f x"
  shows "y \<in> set xs"
  using assms by (auto simp: sorted_append)

lemma image_below:
  fixes n v :: int
  assumes "f ` H = {1..n}" and "v \<le> n"
  shows "f ` {x \<in> H. f x < v} = {1..v - 1}"
proof -
  have "f ` {x \<in> H. f x < v} = {i \<in> f ` H. i < v}" by auto
  with assms show ?thesis by auto
qed

lemma log_in_order:
  assumes set: "settled_store jcs s"
  shows "in_order (tenant_log t s)"
  unfolding in_order_def
proof (intro allI impI)
  fix earlier e later assume split: "tenant_log t s = earlier @ e # later"
  let ?k = "event_key e" and ?L = "set (tenant_log t s)"
  have e: "e \<in> ?L" by (simp add: split)
  have sorted: "sorted (map event_order (earlier @ e # later))" using split unfolding tenant_log_def by (metis sorted_sort_key)
  have ids: "distinct (map de_EventID (earlier @ e # later))" using log_ids [OF set, of t] by (simp add: split)
  have same: "de_AggregateType x = de_AggregateType e \<and> de_AggregateID x = de_AggregateID e" if "x \<in> history_of ?L ?k" for x
    using that log_event(1,2) [OF set, of x] log_event(1,2) [OF set e] unfolding history_of_def
    by (auto simp: aggregateKey_inject named_event_def)
  have e_hist: "e \<in> history_of ?L ?k" using e by (simp add: history_of_def)
  have versions: "de_AggregateVersion ` history_of ?L ?k = {1..current_version s ?k}"
    unfolding log_history [OF set e] by (rule stored_versions(1) [OF set])
  have inj: "inj_on de_AggregateVersion (history_of ?L ?k)"
    unfolding log_history [OF set e] by (rule stored_versions(2) [OF set])
  have "history_of (set earlier) ?k = {x \<in> history_of ?L ?k. de_AggregateVersion x < de_AggregateVersion e}"
  proof (intro set_eqI iffI)
    fix x assume x: "x \<in> history_of (set earlier) ?k"
    then have L: "x \<in> history_of ?L ?k" by (auto simp: history_of_def split)
    from x sorted have "event_order x \<le> event_order e" by (auto simp: sorted_append history_of_def)
    then have "de_AggregateVersion x \<le> de_AggregateVersion e" using same [OF L] by (auto simp: event_order_def)
    moreover have "x \<noteq> e" using x ids by (auto simp: history_of_def)
    ultimately show "x \<in> {x \<in> history_of ?L ?k. de_AggregateVersion x < de_AggregateVersion e}"
      using inj_onD [OF inj _ L e_hist] L by force
  next
    fix x assume x: "x \<in> {x \<in> history_of ?L ?k. de_AggregateVersion x < de_AggregateVersion e}"
    then have "event_order x < event_order e" using same [of x] by (auto simp: event_order_def)
    with sorted_key_before [OF sorted, of x] x show "x \<in> history_of (set earlier) ?k" by (auto simp: history_of_def split)
  qed
  moreover have "de_AggregateVersion e \<in> {1..current_version s ?k}" using e_hist versions by blast
  ultimately show "de_AggregateVersion ` history_of (set earlier) ?k = {1..de_AggregateVersion e - 1}"
    using image_below [OF versions, of "de_AggregateVersion e"] by simp
qed

end
