(* ===== verification/Reconcile_Log.thy ===== *)
theory Reconcile_Log
  imports Reconcile_Safety
begin

text \<open>
  The properties of the read models: what a projector holds does not depend on the order in which the
  events arrive, and every log that the event store writes reconciles with its projections.
\<close>

section \<open>Rebuilding a log\<close>

lemma AuthoritativeStateReducer_Inr:
  "AuthoritativeStateReducer jcs st e = Inr st' \<Longrightarrow> st' = de_ReplayState e"
  by (simp add: AuthoritativeStateReducer_def split: if_splits)

lemma Digest_nonempty: "Digest jcs s \<noteq> Some []"
  by (auto simp: Digest_def split: option.splits)

lemma stored_reduces:
  "event_stored jcs e \<Longrightarrow> AuthoritativeStateReducer jcs st e = Inr (de_ReplayState e) \<and> json_valid (de_ReplayState e)"
  by (auto simp: AuthoritativeStateReducer_def event_stored_def Digest_nonempty json_object_valid)

lemma stored_validates:
  assumes "event_stored jcs e" "named_event e" "de_TenantID e \<noteq> []" "1 \<le> de_AggregateVersion e"
  shows "\<exists>f. projection_validateEvent jcs e = Inr f"
proof -
  have "json_valid (de_Payload e)" "json_valid (de_ReplayState e)"
    using assms(1) by (simp_all add: event_stored_def json_object_valid)
  then have "de_Payload e \<noteq> []" "de_ReplayState e \<noteq> []" using json_valid_not_Nil by blast+
  with assms show ?thesis
    by (auto simp: projection_validateEvent_def Let_def event_stored_def named_event_def Digest_nonempty)
qed

lemma authoritative_replay:
  assumes "replays (AuthoritativeStateReducer jcs) E v st" and "1 \<le> v"
  shows "\<exists>e \<in> E. de_AggregateVersion e = v \<and> de_ReplayState e = st"
  using assms(1)
proof (cases rule: replays.cases)
  case (one_more v' st0 e)
  then show ?thesis using AuthoritativeStateReducer_Inr by blast
qed (use assms(2) in simp)

lemma replay_delivered:
  "delivered cd es p = Some p' \<Longrightarrow> (\<And>e. e \<in> set es \<Longrightarrow> de_TenantID e = t) \<Longrightarrow> replay_events cd t es p = Inr p'"
  by (induction es arbitrary: p) (auto split: prod.splits sum.splits)

lemma reducers_of_log:
  assumes "\<And>e. e \<in> set es \<Longrightarrow> de_AggregateType e \<noteq> []"
  shows "\<exists>rs. authoritative_reducers jcs es m = Inr rs
     \<and> (\<forall>k. map_of rs k = (if k \<in> de_AggregateType ` set es then Some (AuthoritativeStateReducer jcs) else map_of m k))"
  using assms
proof (induction es arbitrary: m)
  case (Cons e es)
  from Cons.IH [of "gomap_put (de_AggregateType e) (AuthoritativeStateReducer jcs) m"] Cons.prems
  obtain rs where "authoritative_reducers jcs es (gomap_put (de_AggregateType e) (AuthoritativeStateReducer jcs) m) = Inr rs"
    and "map_of rs k = (if k \<in> de_AggregateType ` set es then Some (AuthoritativeStateReducer jcs)
       else if k = de_AggregateType e then Some (AuthoritativeStateReducer jcs) else map_of m k)" for k
    by (auto simp: amap.look_store)
  with Cons.prems show ?case by (intro exI [of _ rs]) auto
qed simp

lemma log_version:
  assumes "settled_store jcs s" and "e \<in> set (tenant_log t s)"
  shows "de_AggregateVersion e \<in> {1..current_version s (event_key e)}"
proof -
  have "e \<in> set (stored_events s (event_key e))" using log_history [OF assms] assms(2) unfolding history_of_def by auto
  then show ?thesis using stored_versions(1) [OF assms(1), of "event_key e"] by blast
qed

lemma rebuild_log:
  assumes set: "settled_store (pk_jcs cd) s" and t: "t \<noteq> []"
    and rs: "\<And>e. e \<in> set (tenant_log t s) \<Longrightarrow> map_of rs (de_AggregateType e) = Some (AuthoritativeStateReducer (pk_jcs cd))"
  obtains p where "replay_events cd t (tenant_log t s) (NewProjector rs) = Inr p"
    "projector_inv cd rs (set (tenant_log t s)) p"
proof -
  let ?L = "tenant_log t s"
  have stored: "event_stored (pk_jcs cd) e" "named_event e" "de_TenantID e = t" if "e \<in> set ?L" for e
    using log_event [OF set that] by simp_all
  have "\<exists>p. delivered cd ?L (NewProjector rs) = Some p"
  proof (rule delivered_in_order [of "[]" ?L, simplified])
    fix e assume e: "e \<in> set ?L"
    have "1 \<le> de_AggregateVersion e" using log_version [OF set e] by simp
    with stored [OF e] t show "\<exists>f. projection_validateEvent (pk_jcs cd) e = Inr f" by (blast intro: stored_validates)
  next
    fix e st assume "e \<in> set ?L"
    from stored_reduces [OF stored(1) [OF this]]
    show "\<exists>st'. AuthoritativeStateReducer (pk_jcs cd) st e = Inr st' \<and> json_valid st'" by blast
  qed (use log_in_order [OF set] log_plain [OF set] log_ids [OF set] rs projector_inv_new in auto)
  then obtain p where p: "delivered cd ?L (NewProjector rs) = Some p" ..
  have "projector_inv cd rs (set ?L \<union> {}) p"
    by (rule delivered_inv [OF p projector_inv_new]) (simp add: log_plain [OF set])
  with replay_delivered [OF p stored(3)] that show ?thesis by simp
qed

text \<open>The stream of an aggregate is at the version of its projection, with its state.\<close>

lemma log_projection:
  assumes set: "settled_store jcs s" and e: "e \<in> set (tenant_log t s)"
  obtains q where "map_of (ms_projections s) (event_key e) = Some q" "pj_Version q = current_version s (event_key e)"
    "projection_key q = event_key e" "pj_TenantID q = t" "pj_AggregateType q = de_AggregateType e"
    "pj_AggregateID q = de_AggregateID e"
proof -
  let ?k = "event_key e"
  have "1 \<le> current_version s ?k" using log_version [OF set e] by simp
  then obtain q where q: "map_of (ms_projections s) ?k = Some q" "pj_Version q = current_version s ?k"
    by (auto simp: current_version_def zero_Projection_def split: option.splits)
  have key: "projection_key q = ?k" using set q(1) unfolding settled_store_def store_ok_def projections_ok_def by blast
  have "nul_free (pj_TenantID q)" "nul_free (pj_AggregateType q)" using set q(1) unfolding settled_store_def named_log_def by blast+
  with key log_event(1,2) [OF set e] have "pj_TenantID q = t" "pj_AggregateType q = de_AggregateType e"
    "pj_AggregateID q = de_AggregateID e" by (simp_all add: aggregateKey_inject named_event_def)
  with q key that show ?thesis by blast
qed

lemma projection_event:
  assumes set: "settled_store jcs s" and q: "map_of (ms_projections s) k = Some q"
  obtains e where "e \<in> set (stored_events s k)" "de_AggregateVersion e = pj_Version q" "de_ReplayState e = pj_State q"
    "de_ProjectID e = pj_ProjectID q"
proof -
  from set obtain n where "history_ok n s" unfolding settled_store_def by blast
  with q have "latest_state s k q" unfolding history_ok_def by blast
  with that show ?thesis unfolding latest_state_def by blast
qed

lemma log_stream:
  assumes set: "settled_store (pk_jcs cd) s" and inv: "projector_inv cd rs (set (tenant_log t s)) p"
    and rs: "\<And>e. e \<in> set (tenant_log t s) \<Longrightarrow> map_of rs (de_AggregateType e) = Some (AuthoritativeStateReducer (pk_jcs cd))"
    and c: "map_of (pr_streams p) k = Some c"
  shows "sm_pending c = []"
    and "map_of (ms_projections s) k = Some q \<Longrightarrow> sm_version c = pj_Version q \<and> sm_state c = pj_State q"
proof -
  let ?H = "history_of (set (tenant_log t s)) k" and ?r = "AuthoritativeStateReducer (pk_jcs cd)"
  have "stream_holds rs ?H k (Some c)" using inv c unfolding projector_inv_def by metis
  then obtain e where e: "e \<in> ?H" and c_inv: "stream_inv ?r ?H c" "drained ?H c"
    using rs by (auto simp: stream_holds_def history_of_def)
  then have k: "k = event_key e" and L: "e \<in> set (tenant_log t s)" by (auto simp: history_of_def)
  have H: "?H = set (stored_events s k)" using log_history [OF set L] k by simp
  have versions: "de_AggregateVersion ` ?H = {1..current_version s k}" unfolding H by (rule stored_versions(1) [OF set])
  have rep: "replays ?r ?H (sm_version c) (sm_state c)" using c_inv(1) by (simp add: stream_inv_def)
  have nonneg: "0 \<le> sm_version c" by (rule replays_nonneg [OF rep])
  have "de_AggregateVersion e \<in> {1..current_version s k}" using e versions by blast
  then have one: "1 \<le> current_version s k" by simp
  have "\<not> sm_version c < current_version s k"
  proof
    assume "sm_version c < current_version s k"
    with nonneg have "sm_version c + 1 \<in> de_AggregateVersion ` ?H" unfolding versions by simp
    with c_inv(2) show False unfolding drained_def by auto
  qed
  moreover have "\<not> current_version s k < sm_version c"
  proof
    assume less: "current_version s k < sm_version c"
    with one replays_below [OF rep, of "sm_version c"] have "sm_version c \<in> de_AggregateVersion ` ?H" by force
    with less show False unfolding versions by simp
  qed
  ultimately have v: "sm_version c = current_version s k" by simp
  show "sm_pending c = []"
  proof (rule ccontr)
    assume "sm_pending c \<noteq> []"
    then obtain i x where "map_of (sm_pending c) i = Some x" by (cases "sm_pending c") force+
    with c_inv(1) have "x \<in> ?H" "sm_version c < de_AggregateVersion x" unfolding stream_inv_def by auto
    then have "de_AggregateVersion x \<in> {1..current_version s k}" using versions by blast
    with \<open>sm_version c < _\<close> v show False by simp
  qed
  assume q: "map_of (ms_projections s) k = Some q"
  then have q_version: "pj_Version q = current_version s k" by (simp add: current_version_def)
  obtain x where x: "x \<in> ?H" "de_AggregateVersion x = sm_version c" "de_ReplayState x = sm_state c"
    using authoritative_replay [OF rep] one v by auto
  obtain y where y: "y \<in> ?H" "de_AggregateVersion y = pj_Version q" "de_ReplayState y = pj_State q"
    using projection_event [OF set q] unfolding H by metis
  have "inj_on de_AggregateVersion ?H" unfolding H by (rule stored_versions(2) [OF set])
  with x y v q_version have "x = y" by (metis inj_onD)
  with x y v q_version show "sm_version c = pj_Version q \<and> sm_state c = pj_State q" by simp
qed

end
