(* ===== verification/Reconcile_Inventory.thy ===== *)
theory Reconcile_Inventory
  imports Reconcile_Log
begin

text \<open>
  The inventories that a reconciliation compares: for a store the rebuilt one and the online one both
  list every projection of the tenant once.
\<close>

section \<open>Items\<close>

definition snapshots_encode :: "reconcile_codec \<Rightarrow> bool" where
  \<comment> \<open>the documents that are digested can be encoded\<close>
  "snapshots_encode cd \<longleftrightarrow> (\<forall>v st. rk_snapshot cd v st \<noteq> None) \<and> (\<forall>items. rk_inventory cd items \<noteq> None)
     \<and> (\<forall>report. rk_report cd report \<noteq> None)"

definition item_of :: "reconcile_codec \<Rightarrow> Projection \<Rightarrow> projectionInventoryItem" where
  "item_of cd q = \<lparr>iv_ProjectID = pj_ProjectID q, iv_AggregateType = pj_AggregateType q,
     iv_AggregateID = pj_AggregateID q, iv_Version = pj_Version q,
     iv_SHA256 = the (rk_snapshot cd (pj_Version q) (pj_State q))\<rparr>"

lemma snapshot_Digest_total:
  assumes "snapshots_encode cd" "1 \<le> v" "json_valid st"
  shows "snapshot_Digest cd \<lparr>sn_Version = v, sn_State = st\<rparr> = Inr (the (rk_snapshot cd v st))"
  using assms by (auto simp: snapshot_Digest_def snapshots_encode_def split: option.splits)

lemma projection_good:
  assumes set: "settled_store jcs s" and q: "map_of (ms_projections s) k = Some q"
  shows "projection_key q = k" "1 \<le> pj_Version q" "json_valid (pj_State q)" "pj_ProjectID q \<noteq> []"
    "pj_AggregateType q \<noteq> []" "pj_AggregateID q \<noteq> []"
    and "\<exists>e \<in> set (tenant_log (pj_TenantID q) s). event_key e = k"
proof -
  obtain e where e: "e \<in> set (stored_events s k)" "de_AggregateVersion e = pj_Version q" "de_ReplayState e = pj_State q"
    "de_ProjectID e = pj_ProjectID q" by (rule projection_event [OF set q])
  from e(1) have L: "e \<in> set (tenant_log (de_TenantID e) s)" and k: "event_key e = k"
    by (auto simp: stored_events_def tenant_log_set)
  note ev = log_event(2,3) [OF set L]
  show key: "projection_key q = k" using set q unfolding settled_store_def store_ok_def projections_ok_def by blast
  have "nul_free (pj_TenantID q)" "nul_free (pj_AggregateType q)" using set q unfolding settled_store_def named_log_def by blast+
  with key k ev(1) have same: "pj_TenantID q = de_TenantID e" "pj_AggregateType q = de_AggregateType e" "pj_AggregateID q = de_AggregateID e"
    by (auto simp: aggregateKey_inject named_event_def)
  show "1 \<le> pj_Version q" using log_version [OF set L] e(2) by simp
  show "json_valid (pj_State q)" using ev(2) e(3) by (auto simp: event_stored_def json_object_valid)
  show "pj_ProjectID q \<noteq> []" "pj_AggregateType q \<noteq> []" "pj_AggregateID q \<noteq> []"
    using ev(1) e(4) same by (simp_all add: named_event_def)
  show "\<exists>e \<in> set (tenant_log (pj_TenantID q) s). event_key e = k" using L k same(1) by auto
qed

section \<open>Online\<close>

abbreviation keyed_item :: "reconcile_codec \<Rightarrow> Projection \<Rightarrow> string \<times> projectionInventoryItem" where
  "keyed_item cd q \<equiv> (projection_key q, item_of cd q)"

lemma online_items_total:
  assumes "snapshots_encode cd"
    and "\<And>q. q \<in> set qs \<Longrightarrow> pj_TenantID q = t \<and> pj_ProjectID q \<noteq> [] \<and> pj_AggregateType q \<noteq> [] \<and> pj_AggregateID q \<noteq> []
           \<and> 1 \<le> pj_Version q \<and> json_valid (pj_State q)"
    and "distinct (map projection_key qs)" and "\<And>q. q \<in> set qs \<Longrightarrow> map_of m (projection_key q) = None"
  shows "online_items cd t qs (items, m) = Inr (items @ map (item_of cd) qs, m @ map (keyed_item cd) qs)"
  using assms(2-)
proof (induction qs arbitrary: items m)
  case (Cons q qs)
  from Cons.prems(1) [of q] have q: "pj_TenantID q = t" "pj_ProjectID q \<noteq> []" "pj_AggregateType q \<noteq> []" "pj_AggregateID q \<noteq> []"
    "1 \<le> pj_Version q" "json_valid (pj_State q)" by simp_all
  note digest = snapshot_Digest_total [OF assms(1) q(5,6)]
  have fresh: "map_of m (projection_key q) = None" using Cons.prems(3) by simp
  then have put: "gomap_put (projection_key q) (item_of cd q) m = m @ [keyed_item cd q]" by (rule gomap_put_fresh)
  have later: "map_of (m @ [keyed_item cd q]) (projection_key q') = None" if "q' \<in> set qs" for q'
    using that Cons.prems(2,3) by (auto simp: map_add_def image_iff)
  have "online_items cd t (q # qs) (items, m) = online_items cd t qs (items @ [item_of cd q], m @ [keyed_item cd q])"
    using q fresh digest put by (simp add: Let_def item_of_def gomap_has_def)
  also have "\<dots> = Inr ((items @ [item_of cd q]) @ map (item_of cd) qs, (m @ [keyed_item cd q]) @ map (keyed_item cd) qs)"
    by (rule Cons.IH) (use Cons.prems(1,2) later in auto)
  finally show ?case by simp
qed simp

definition online_map :: "reconcile_codec \<Rightarrow> MemoryStore \<Rightarrow> string \<Rightarrow> string \<Rightarrow> projectionInventoryItem option" where
  "online_map cd s t k = (case map_of (ms_projections s) k of
     Some q \<Rightarrow> if pj_TenantID q = t then Some (item_of cd q) else None | None \<Rightarrow> None)"

lemma tenant_projections_set:
  assumes "settled_store jcs s"
  shows "set (tenant_projections t s) = {q. \<exists>k. map_of (ms_projections s) k = Some q \<and> pj_TenantID q = t}"
    and "distinct (map projection_key (tenant_projections t s))"
proof -
  have ok: "gomap_ok (ms_projections s)" and key: "\<And>k q. map_of (ms_projections s) k = Some q \<Longrightarrow> projection_key q = k"
    using assms unfolding settled_store_def store_ok_def projections_ok_def by blast+
  show "set (tenant_projections t s) = {q. \<exists>k. map_of (ms_projections s) k = Some q \<and> pj_TenantID q = t}"
    using gomap_okD [OF ok] by (force simp: tenant_projections_def dest: map_of_SomeD)
  have "projection_key (snd x) = fst x" if "x \<in> set (ms_projections s)" for x
    using key gomap_okD [OF ok, of "fst x" "snd x"] that by simp
  then have "map projection_key (map snd (ms_projections s)) = map fst (ms_projections s)"
    unfolding map_map by (intro map_cong) simp_all
  with ok have "distinct (map projection_key (map snd (ms_projections s)))" by (simp only: gomap_ok_def)
  then have "distinct (map projection_key (filter (\<lambda>q. pj_TenantID q = t) (map snd (ms_projections s))))"
    by (rule distinct_map_filter)
  then show "distinct (map projection_key (tenant_projections t s))"
    by (simp add: tenant_projections_def distinct_map inj_on_def)
qed

lemma map_of_keyed:
  assumes "distinct (map f xs)"
  shows "map_of (map (\<lambda>x. (f x, g x)) xs) k = Some y \<longleftrightarrow> (\<exists>x \<in> set xs. f x = k \<and> g x = y)"
proof -
  have "distinct (map fst (map (\<lambda>x. (f x, g x)) xs))" using assms by (simp add: comp_def)
  then show ?thesis by (auto simp: map_of_eq_Some_iff)
qed

lemma online_log:
  assumes set: "settled_store jcs s" and enc: "snapshots_encode cd"
  obtains m where "onlineInventory cd (tenant_projections t s) t = Inr (sortInventory (map snd m), m)"
    "gomap_ok m" "map_of m = online_map cd s t" "length m = length (tenant_projections t s)"
proof -
  let ?qs = "tenant_projections t s" and ?m = "map (keyed_item cd) (tenant_projections t s)"
  note qs = tenant_projections_set [OF set, of t]
  have good: "pj_TenantID q = t \<and> pj_ProjectID q \<noteq> [] \<and> pj_AggregateType q \<noteq> [] \<and> pj_AggregateID q \<noteq> []
      \<and> 1 \<le> pj_Version q \<and> json_valid (pj_State q)" if "q \<in> set ?qs" for q
    using that projection_good [OF set] unfolding qs(1) by blast
  have "online_items cd t ?qs ([], []) = Inr (map (item_of cd) ?qs, ?m)"
    using online_items_total [OF enc good qs(2), of "[]" "[]"] by simp
  then have "onlineInventory cd ?qs t = Inr (sortInventory (map snd ?m), ?m)"
    by (simp add: onlineInventory_def comp_def)
  moreover have "gomap_ok ?m" using qs(2) by (simp add: gomap_ok_def comp_def)
  moreover have "map_of ?m k = online_map cd s t k" for k
  proof -
    have key: "map_of (ms_projections s) i = Some q \<Longrightarrow> projection_key q = i" for i q
      using projection_good(1) [OF set] .
    have some: "map_of ?m k = Some y \<longleftrightarrow> online_map cd s t k = Some y" for y
    proof -
      have "map_of ?m k = Some y \<longleftrightarrow> (\<exists>q \<in> set ?qs. projection_key q = k \<and> item_of cd q = y)"
        by (rule map_of_keyed [OF qs(2)])
      also have "\<dots> \<longleftrightarrow> (\<exists>q. map_of (ms_projections s) k = Some q \<and> pj_TenantID q = t \<and> item_of cd q = y)"
        unfolding qs(1) using key by blast
      also have "\<dots> \<longleftrightarrow> online_map cd s t k = Some y" by (auto simp: online_map_def split: option.splits)
      finally show ?thesis .
    qed
    then show ?thesis by (cases "online_map cd s t k") (metis not_None_eq, metis)
  qed
  moreover have "length ?m = length ?qs" by simp
  ultimately show ?thesis using that by blast
qed

section \<open>Rebuilt\<close>

definition latest_of :: "string \<Rightarrow> DomainEvent list \<Rightarrow> (string, DomainEvent) gomap \<Rightarrow> bool" where
  \<comment> \<open>each aggregate of the events is there once, with one of its latest events\<close>
  "latest_of t es m \<longleftrightarrow> gomap_ok m
     \<and> (\<forall>k e. map_of m k = Some e \<longrightarrow> e \<in> set es \<and> event_key e = k
          \<and> (\<forall>x \<in> set es. event_key x = k \<longrightarrow> de_AggregateVersion x \<le> de_AggregateVersion e))
     \<and> (\<forall>e \<in> set es. map_of m (event_key e) \<noteq> None)"

lemma latest_of_refs:
  assumes "\<And>e. e \<in> set es \<Longrightarrow> de_TenantID e = t"
  shows "latest_of t es (latest_refs t es)"
  using assms
proof (induction es rule: rev_induct)
  case Nil
  then show ?case by (simp add: latest_of_def latest_refs_def)
next
  case (snoc e es)
  then have prior: "latest_of t es (latest_refs t es)" and t: "de_TenantID e = t" by simp_all
  let ?m = "latest_refs t es"
  have step: "latest_refs t (es @ [e]) = (case map_of ?m (event_key e) of None \<Rightarrow> gomap_put (event_key e) e ?m
      | Some x \<Rightarrow> if de_AggregateVersion x < de_AggregateVersion e then gomap_put (event_key e) e ?m else ?m)"
    unfolding latest_refs_def foldl_append foldl.simps Let_def t by (rule refl)
  have taken: "latest_of t (es @ [e]) (gomap_put (event_key e) e ?m)"
    if "\<And>x. x \<in> set es \<Longrightarrow> event_key x = event_key e \<Longrightarrow> de_AggregateVersion x \<le> de_AggregateVersion e"
    using prior that unfolding latest_of_def by (auto simp: amap.look_store split: if_splits)
  show ?case
  proof (cases "map_of ?m (event_key e)")
    case None
    then have "event_key x \<noteq> event_key e" if "x \<in> set es" for x using prior that unfolding latest_of_def by metis
    with taken step None show ?thesis by simp
  next
    case (Some x)
    then have x: "x \<in> set es" "event_key x = event_key e"
      "\<And>y. y \<in> set es \<Longrightarrow> event_key y = event_key e \<Longrightarrow> de_AggregateVersion y \<le> de_AggregateVersion x"
      using prior unfolding latest_of_def by blast+
    show ?thesis
    proof (cases "de_AggregateVersion x < de_AggregateVersion e")
      case True
      then have "latest_of t (es @ [e]) (gomap_put (event_key e) e ?m)" using x(3) by (intro taken) fastforce
      with step Some True show ?thesis by simp
    next
      case False
      then have "latest_of t (es @ [e]) ?m" using prior Some unfolding latest_of_def by auto
      with step Some False show ?thesis by simp
    qed
  qed
qed

lemma rebuilt_items_total:
  assumes "snapshots_encode cd"
    and "\<And>k e. (k, e) \<in> set refs \<Longrightarrow> \<exists>q. found k = Some (item_of cd q) \<and> 1 \<le> pj_Version q \<and> json_valid (pj_State q)
           \<and> projector_Snapshot t (de_AggregateType e) (de_AggregateID e) p = Some \<lparr>sn_Version = pj_Version q, sn_State = pj_State q\<rparr>
           \<and> pj_ProjectID q = de_ProjectID e \<and> pj_AggregateType q = de_AggregateType e \<and> pj_AggregateID q = de_AggregateID e"
  shows "rebuilt_items cd p t refs = Inr (map (\<lambda>(k, e). the (found k)) refs, map (\<lambda>(k, e). (k, the (found k))) refs)"
  using assms(2)
proof (induction refs)
  case (Cons ref refs)
  obtain k e where ref: "ref = (k, e)" by (cases ref)
  from Cons.prems [of k e] ref obtain q where q: "found k = Some (item_of cd q)" "1 \<le> pj_Version q" "json_valid (pj_State q)"
    "projector_Snapshot t (de_AggregateType e) (de_AggregateID e) p = Some \<lparr>sn_Version = pj_Version q, sn_State = pj_State q\<rparr>"
    "pj_ProjectID q = de_ProjectID e" "pj_AggregateType q = de_AggregateType e" "pj_AggregateID q = de_AggregateID e" by auto
  have "rebuilt_items cd p t refs = Inr (map (\<lambda>(k, e). the (found k)) refs, map (\<lambda>(k, e). (k, the (found k))) refs)"
    by (rule Cons.IH) (use Cons.prems in auto)
  with q snapshot_Digest_total [OF assms(1) q(2,3)] show ?case by (simp add: ref Let_def item_of_def)
qed simp

end
