(* ===== verification/Reconcile_Properties.thy ===== *)
theory Reconcile_Properties
  imports Reconcile_Inventory
begin

text \<open>
  The properties of the read models: what a projector holds does not depend on the order in which the
  events arrive, and every log that the event store writes reconciles with its projections.
\<close>

section \<open>The order of delivery\<close>

definition snapshot_replayed :: "(string, reducer) gomap \<Rightarrow> DomainEvent set \<Rightarrow> string \<Rightarrow> Snapshot option \<Rightarrow> bool" where
  \<comment> \<open>the longest unbroken run of versions from 1 on has been reduced, in their order\<close>
  "snapshot_replayed rs D k found \<longleftrightarrow>
     (case found of
        None \<Rightarrow> \<forall>e \<in> history_of D k. de_AggregateVersion e \<noteq> 1
      | Some sn \<Rightarrow> \<exists>e \<in> history_of D k. \<exists>r. map_of rs (de_AggregateType e) = Some r
          \<and> replays r (history_of D k) (sn_Version sn) (sn_State sn)
          \<and> (\<forall>x \<in> history_of D k. de_AggregateVersion x \<noteq> sn_Version sn + 1))"

lemma snapshot_of_stream:
  "projector_Snapshot t ty i p = (case map_of (pr_streams p) (aggregateKey t ty i) of None \<Rightarrow> None
     | Some c \<Rightarrow> if sm_version c = 0 then None else Some \<lparr>sn_Version = sm_version c, sn_State = sm_state c\<rparr>)"
  unfolding projector_Snapshot_def cloneJSON_id by (rule refl)

lemma snapshot_replayed_inv:
  assumes "projector_inv cd rs D p"
  shows "snapshot_replayed rs D (aggregateKey t ty i) (projector_Snapshot t ty i p)"
proof -
  have "stream_holds rs (history_of D (aggregateKey t ty i)) (aggregateKey t ty i)
      (map_of (pr_streams p) (aggregateKey t ty i))" using assms unfolding projector_inv_def by metis
  then show ?thesis
    by (auto simp: stream_holds_def snapshot_replayed_def snapshot_of_stream stream_inv_def drained_def split: option.splits)
qed

lemma snapshots_agree:
  assumes "projector_inv cd rs D p" "projector_inv cd rs D p'" "one_history D"
  shows "projector_Snapshot t ty i p = projector_Snapshot t ty i p'"
  using streams_agree [OF assms, of "aggregateKey t ty i"]
  by (auto simp: snapshot_of_stream option_rel_Some1 option_rel_Some2 split: option.splits)

lemma complete_agree:
  assumes "projector_inv cd rs D p" "projector_inv cd rs D p'" "one_history D"
  shows "ensureComplete p = ensureComplete p'"
proof -
  let ?done = "\<lambda>found. case found of None \<Rightarrow> True | Some c \<Rightarrow> sm_pending c = []"
  have complete: "ensureComplete x = None \<longleftrightarrow> (\<forall>k. ?done (map_of (pr_streams x) k))" if "projector_inv cd rs D x" for x
    using that by (simp add: ensureComplete_iff projector_inv_def split: option.split)
  have "?done (map_of (pr_streams p) k) = ?done (map_of (pr_streams p') k)" for k
    using streams_agree [OF assms, of k] by (auto simp: option_rel_Some1 option_rel_Some2 split: option.splits)
  with complete [OF assms(1)] complete [OF assms(2)] have "ensureComplete p = None \<longleftrightarrow> ensureComplete p' = None" by blast
  then show ?thesis by (auto simp: ensureComplete_def split: if_splits)
qed

text \<open>
  C17: a projector holds the same snapshots after any two orders of delivery of the same events, with
  redeliveries or without, when it accepts them: the snapshot of an aggregate is the state that its
  reducer computes from the events of versions \<open>1\<close> to \<open>v\<close> in that order, \<open>v\<close> being the last version
  before the first gap, and the stream is complete in one projector exactly when it is in the other.
\<close>

theorem projection_order_free:
  assumes plain: "plain_events (set es)" and same: "set es' = set es"
    and p: "delivered cd es (NewProjector rs) = Some p" and p': "delivered cd es' (NewProjector rs) = Some p'"
  shows "projector_Snapshot t ty i p = projector_Snapshot t ty i p'
    \<and> snapshot_replayed rs (set es) (aggregateKey t ty i) (projector_Snapshot t ty i p)
    \<and> ensureComplete p = ensureComplete p'"
proof -
  have one: "one_history (set es)" using plain unfolding plain_events_def by simp
  have "projector_inv cd rs (set es \<union> {}) p" by (rule delivered_inv [OF p projector_inv_new]) (simp add: plain)
  moreover have "projector_inv cd rs (set es' \<union> {}) p'"
    by (rule delivered_inv [OF p' projector_inv_new]) (simp add: plain same)
  ultimately have inv: "projector_inv cd rs (set es) p" "projector_inv cd rs (set es) p'" by (simp_all add: same)
  from snapshots_agree [OF inv one] snapshot_replayed_inv [OF inv(1)] complete_agree [OF inv one]
  show ?thesis by blast
qed

section \<open>Reconciliation\<close>

lemma log_complete:
  assumes "settled_store (pk_jcs cd) s" and inv: "projector_inv cd rs (set (tenant_log t s)) p"
    and "\<And>e. e \<in> set (tenant_log t s) \<Longrightarrow> map_of rs (de_AggregateType e) = Some (AuthoritativeStateReducer (pk_jcs cd))"
  shows "ensureComplete p = None"
proof -
  have "gomap_ok (pr_streams p)" using inv by (simp add: projector_inv_def)
  with log_stream(1) [OF assms] show ?thesis by (simp add: ensureComplete_iff)
qed

lemma log_snapshot:
  assumes set: "settled_store (pk_jcs cd) s" and inv: "projector_inv cd rs (set (tenant_log t s)) p"
    and rs: "\<And>e. e \<in> set (tenant_log t s) \<Longrightarrow> map_of rs (de_AggregateType e) = Some (AuthoritativeStateReducer (pk_jcs cd))"
    and e: "e \<in> set (tenant_log t s)" and q: "map_of (ms_projections s) (event_key e) = Some q"
  shows "projector_Snapshot t (de_AggregateType e) (de_AggregateID e) p = Some \<lparr>sn_Version = pj_Version q, sn_State = pj_State q\<rparr>"
proof -
  have key: "event_key e = aggregateKey t (de_AggregateType e) (de_AggregateID e)" using log_event(1) [OF set e] by simp
  have "stream_holds rs (history_of (set (tenant_log t s)) (event_key e)) (event_key e) (map_of (pr_streams p) (event_key e))"
    using inv unfolding projector_inv_def by metis
  moreover have "e \<in> history_of (set (tenant_log t s)) (event_key e)" using e by (simp add: history_of_def)
  ultimately obtain c where c: "map_of (pr_streams p) (event_key e) = Some c" by (auto simp: stream_holds_def split: option.splits)
  from log_stream(2) [OF set inv rs c q] projection_good(2) [OF set q] c show ?thesis
    unfolding snapshot_of_stream key by simp
qed

lemma map_of_map_keyed: "map_of (map (\<lambda>(k, e). (k, g k)) m) k = (if map_of m k = None then None else Some (g k))"
  by (induction m) auto

lemma rebuilt_log:
  assumes set: "settled_store (pk_jcs pcd) s" and enc: "snapshots_encode cd"
    and inv: "projector_inv pcd rs (set (tenant_log t s)) p"
    and rs: "\<And>e. e \<in> set (tenant_log t s) \<Longrightarrow> map_of rs (de_AggregateType e) = Some (AuthoritativeStateReducer (pk_jcs pcd))"
  obtains m where "rebuiltInventory cd (tenant_log t s) p t = Inr (sortInventory (map snd m), m)"
    "gomap_ok m" "map_of m = online_map cd s t"
proof -
  let ?L = "tenant_log t s" and ?f = "online_map cd s t"
  let ?refs = "latest_refs t ?L"
  let ?m = "map (\<lambda>(k, e). (k, the (?f k))) ?refs"
  have refs: "latest_of t ?L ?refs" by (rule latest_of_refs) (rule log_event(1) [OF set])
  then have ok: "gomap_ok ?refs" by (simp add: latest_of_def)
  have each: "\<exists>q. ?f k = Some (item_of cd q) \<and> 1 \<le> pj_Version q \<and> json_valid (pj_State q)
      \<and> projector_Snapshot t (de_AggregateType e) (de_AggregateID e) p = Some \<lparr>sn_Version = pj_Version q, sn_State = pj_State q\<rparr>
      \<and> pj_ProjectID q = de_ProjectID e \<and> pj_AggregateType q = de_AggregateType e \<and> pj_AggregateID q = de_AggregateID e"
    if "(k, e) \<in> set ?refs" for k e
  proof -
    from gomap_okD [OF ok that] refs have e: "e \<in> set ?L" "event_key e = k"
      and latest: "\<And>x. x \<in> set ?L \<Longrightarrow> event_key x = k \<Longrightarrow> de_AggregateVersion x \<le> de_AggregateVersion e"
      unfolding latest_of_def by blast+
    obtain q where q: "map_of (ms_projections s) k = Some q" "pj_Version q = current_version s k" "pj_TenantID q = t"
      "pj_AggregateType q = de_AggregateType e" "pj_AggregateID q = de_AggregateID e"
      using log_projection [OF set e(1)] e(2) by metis
    obtain x where x: "x \<in> set (stored_events s k)" "de_AggregateVersion x = pj_Version q" "de_ProjectID x = pj_ProjectID q"
      by (rule projection_event [OF set q(1)])
    have hist: "history_of (set ?L) k = set (stored_events s k)" using log_history [OF set e(1)] e(2) by simp
    then have "x \<in> set ?L" "event_key x = k" "e \<in> set (stored_events s k)" using x(1) e by (auto simp: history_of_def)
    with latest [of x] log_version [OF set e(1)] e(2) x(2) q(2) have "de_AggregateVersion e = de_AggregateVersion x" by simp
    with stored_versions(2) [OF set] \<open>e \<in> set (stored_events s k)\<close> x(1) have "x = e" by (metis inj_onD)
    with x(3) q log_snapshot [OF set inv rs e(1)] e(2) projection_good(2,3) [OF set q(1)]
    show ?thesis by (intro exI [of _ q]) (simp add: online_map_def)
  qed
  have "rebuilt_items cd p t ?refs = Inr (map (\<lambda>(k, e). the (?f k)) ?refs, ?m)"
    by (rule rebuilt_items_total [OF enc]) (rule each)
  then have "rebuiltInventory cd ?L p t = Inr (sortInventory (map snd ?m), ?m)"
    by (simp add: rebuiltInventory_def comp_def split_def)
  moreover have "gomap_ok ?m" using ok by (simp add: gomap_ok_def comp_def split_def)
  moreover have "map_of ?m k = ?f k" for k
  proof (cases "map_of ?refs k")
    case (Some e)
    then have "?f k \<noteq> None" using each [OF map_of_SomeD] by (metis option.distinct(1))
    with Some show ?thesis by (simp add: map_of_map_keyed)
  next
    case None
    have "?f k = None"
    proof (rule ccontr)
      assume "?f k \<noteq> None"
      then obtain q where "map_of (ms_projections s) k = Some q" "pj_TenantID q = t"
        by (auto simp: online_map_def split: option.splits if_splits)
      with projection_good(7) [OF set] obtain x where "x \<in> set ?L" "event_key x = k" by blast
      with refs None show False unfolding latest_of_def by blast
    qed
    with None show ?thesis by (simp add: map_of_map_keyed)
  qed
  ultimately show ?thesis using that by blast
qed

text \<open>The two inventories agree, so the comparison finds nothing.\<close>

lemma drift_of_same: "drift_of x x = []"
  by (simp add: drift_of_def split: option.split)

lemma inventories_agree:
  assumes "gomap_ok m" "gomap_ok m'" "map_of m = online_map cd s t" "map_of m' = online_map cd s t"
    and set: "settled_store jcs s"
  shows "sortInventory (map snd m) = sortInventory (map snd m')" "inventory_drifts m m' = []"
proof -
  show "inventory_drifts m m' = []" by (simp add: inventory_drifts_def assms(3,4) drift_of_same)
  have distinct: "distinct m" "distinct m'" using assms(1,2) by (auto simp: gomap_ok_def distinct_map)
  have "x \<in> set m \<longleftrightarrow> x \<in> set m'" for x
    by (cases x) (use assms(1-4) in \<open>simp add: gomap_ok_def flip: map_of_eq_Some_iff\<close>)
  then have "set m = set m'" by blast
  then have "mset m = mset m'" by (rule set_eq_iff_mset_eq_distinct [OF distinct, THEN iffD1])
  then have same: "mset (map snd m) = mset (map snd m')" by (metis mset_map)
  let ?f = "\<lambda>i. (iv_AggregateType i, iv_AggregateID i)"
  have item: "online_map cd s t (aggregateKey t (iv_AggregateType i) (iv_AggregateID i)) = Some i" if i: "i \<in> set (map snd m)" for i
  proof -
    from i obtain k where "(k, i) \<in> set m" by auto
    then have "online_map cd s t k = Some i" using gomap_okD [OF assms(1)] assms(3) by metis
    then obtain q where q: "map_of (ms_projections s) k = Some q" "pj_TenantID q = t" "i = item_of cd q"
      by (auto simp: online_map_def split: option.splits if_splits)
    from projection_good(1) [OF set q(1)] q(2,3) have "k = aggregateKey t (iv_AggregateType i) (iv_AggregateID i)"
      by (auto simp: item_of_def)
    with \<open>online_map cd s t k = Some i\<close> show ?thesis by simp
  qed
  have "inj_on ?f (set (map snd m))"
  proof (rule inj_onI)
    fix i j assume i: "i \<in> set (map snd m)" and j: "j \<in> set (map snd m)" and "?f i = ?f j"
    then have same_name: "iv_AggregateType i = iv_AggregateType j" "iv_AggregateID i = iv_AggregateID j"
      by (simp_all only: prod.inject)
    from trans [OF sym [OF item [OF i, unfolded same_name]] item [OF j]] show "i = j" by (rule option.inject [THEN iffD1])
  qed
  moreover have "sorted (map ?f (sort_key ?f (map snd m')))" by simp
  ultimately show "sortInventory (map snd m) = sortInventory (map snd m')"
    unfolding sortInventory_def using same by (intro sort_key_inj_key_eq) simp_all
qed

lemma reconcile_log:
  assumes set: "settled_store (pk_jcs cd) s" and enc: "snapshots_encode cd" and t: "t \<noteq> []"
  shows "\<exists>report. ReconcileDurable cd (LoadReconciliationSnapshot (Some None) t s) t = Inr report
    \<and> rr_Converged report \<and> rr_Drifts report = [] \<and> rr_RebuiltSHA256 report = rr_OnlineSHA256 report
    \<and> rr_EventCount report = length (tenant_events t s)
    \<and> rr_RebuiltCount report = length (tenant_projections t s) \<and> rr_OnlineCount report = length (tenant_projections t s)"
proof -
  let ?L = "tenant_log t s" and ?pcd = "projection_codec_of cd"
  have jcs: "pk_jcs ?pcd = pk_jcs cd" by (simp add: projection_codec_of_def)
  have load: "LoadReconciliationSnapshot (Some None) t s = Inr \<lparr>rs_Events = ?L, rs_Projections = tenant_projections t s\<rparr>"
    using t by (simp add: LoadReconciliationSnapshot_def tenant_log_def map_idI)
  have type: "de_AggregateType e \<noteq> []" if "e \<in> set ?L" for e using log_event(2) [OF set that] by (simp add: named_event_def)
  obtain rs where reducers: "authoritative_reducers (pk_jcs cd) ?L [] = Inr rs"
    and rs: "\<And>e. e \<in> set ?L \<Longrightarrow> map_of rs (de_AggregateType e) = Some (AuthoritativeStateReducer (pk_jcs ?pcd))"
    using reducers_of_log [of ?L "pk_jcs cd" "[]", OF type] unfolding jcs by auto
  have set': "settled_store (pk_jcs ?pcd) s" using set jcs by simp
  obtain p where p: "replay_events ?pcd t ?L (NewProjector rs) = Inr p" and inv: "projector_inv ?pcd rs (set ?L) p"
    by (rule rebuild_log [OF set' t rs])
  have "sort_key event_order (map cloneEvent ?L) = ?L" by (simp add: tenant_log_def map_idI sort_key_id_if_sorted)
  then have rebuilt: "rebuildEvents ?pcd ?L t rs = Inr p"
    using p log_complete [OF set' inv rs] by (simp add: rebuildEvents_def)
  obtain m where m: "rebuiltInventory cd ?L p t = Inr (sortInventory (map snd m), m)" "gomap_ok m" "map_of m = online_map cd s t"
    by (rule rebuilt_log [OF set' enc inv rs])
  obtain m' where m': "onlineInventory cd (tenant_projections t s) t = Inr (sortInventory (map snd m'), m')"
    "gomap_ok m'" "map_of m' = online_map cd s t" "length m' = length (tenant_projections t s)"
    by (rule online_log [OF set enc])
  note agree = inventories_agree [OF m(2) m'(2) m(3) m'(3) set]
  obtain d where d: "rk_inventory cd (sortInventory (map snd m')) = Some d" using enc unfolding snapshots_encode_def by blast
  have count: "length (sortInventory (map snd m')) = length (tenant_projections t s)" by (simp add: sortInventory_def m'(4))
  obtain report where "compare_inventories cd t (length ?L) (sortInventory (map snd m), m) (sortInventory (map snd m'), m') = Inr report"
    "rr_Converged report" "rr_Drifts report = []" "rr_EventCount report = length ?L" "rr_RebuiltSHA256 report = rr_OnlineSHA256 report"
    "rr_RebuiltCount report = length (tenant_projections t s)" "rr_OnlineCount report = length (tenant_projections t s)"
  proof -
    let ?report = "\<lparr>rr_TenantID = t, rr_EventCount = length ?L, rr_RebuiltCount = length (tenant_projections t s),
      rr_OnlineCount = length (tenant_projections t s), rr_RebuiltSHA256 = d, rr_OnlineSHA256 = d, rr_Converged = True,
      rr_Drifts = [], rr_ReportSHA256 = []\<rparr>"
    obtain r where r: "rk_report cd ?report = Some r" using enc unfolding snapshots_encode_def by blast
    have "compare_inventories cd t (length ?L) (sortInventory (map snd m), m) (sortInventory (map snd m'), m')
        = Inr (?report\<lparr>rr_ReportSHA256 := r\<rparr>)"
      by (simp add: compare_inventories_def digested_def agree d count r Let_def)
    then show ?thesis by (rule that) simp_all
  qed
  with t reducers rebuilt m(1) m'(1) show ?thesis
    by (simp add: ReconcileDurable_def load reconcileDurableSnapshot_def reconcileLoaded_def tenant_log_def)
qed

text \<open>
  C16: whatever a run of transactions and outbox operations did to an event store, its log and its
  projections reconcile: the replay of the stored events succeeds, every rebuilt aggregate has the
  version and the state that is stored online, the verification reports no drift, and both inventories
  list each projection of the tenant once. Names have no NUL bytes, budgets are not in the store, and
  the documents that are digested can be encoded.
\<close>

theorem store_reconciles:
  assumes "list_all plain_op ops" and "int (length ops) < 2 ^ 63" and "s = store_run (pk_jcs cd) ops NewMemoryStore"
    and "snapshots_encode cd" and "t \<noteq> []"
  shows "\<exists>report. VerifyDurable cd relational_drift (LoadReconciliationSnapshot (Some None) t s) t = (Some report, None)
    \<and> rr_Converged report \<and> rr_Drifts report = [] \<and> rr_RebuiltSHA256 report = rr_OnlineSHA256 report
    \<and> rr_EventCount report = length (tenant_events t s)
    \<and> rr_RebuiltCount report = length (tenant_projections t s) \<and> rr_OnlineCount report = length (tenant_projections t s)"
proof -
  have "settled_store (pk_jcs cd) s" unfolding assms(3) by (rule run_settled [OF assms(1,2)])
  from reconcile_log [OF this assms(4,5)] obtain report where
    report: "ReconcileDurable cd (LoadReconciliationSnapshot (Some None) t s) t = Inr report"
    "rr_Converged report" "rr_Drifts report = []" "rr_RebuiltSHA256 report = rr_OnlineSHA256 report"
    "rr_EventCount report = length (tenant_events t s)"
    "rr_RebuiltCount report = length (tenant_projections t s)" "rr_OnlineCount report = length (tenant_projections t s)" by blast
  then have "VerifyDurable cd relational_drift (LoadReconciliationSnapshot (Some None) t s) t = (Some report, None)"
    using assms(5) by (auto simp: ReconcileDurable_def VerifyDurable_def verifyDurableSnapshot_def split: sum.splits)
  with report show ?thesis by blast
qed

section \<open>Instances\<close>

text \<open>The events of the project that is updated twice, and codecs that write down what they are given.\<close>

definition ex_log :: "DomainEvent list" where
  "ex_log = [hd (tq_Events (ex_bound ''k1'' ''e1'' 0)), hd (tq_Events (ex_bound ''k2'' ''e2'' 1))]"

definition ex_reconcile_codec :: reconcile_codec where
  "ex_reconcile_codec =
     \<lparr>pk_payload = (\<lambda>_. None), pk_version = (\<lambda>_. None), pk_budget = (\<lambda>_. None), pk_jcs = Some,
      rk_snapshot = (\<lambda>v st. Some (show_int v @ st)),
      rk_inventory = (\<lambda>items. Some (concat (map (\<lambda>i. iv_AggregateID i @ iv_SHA256 i) items))),
      rk_report = (\<lambda>report. Some (rr_RebuiltSHA256 report @ rr_OnlineSHA256 report))\<rparr>"

abbreviation ex_projection_codec :: projection_codec where
  "ex_projection_codec \<equiv> projection_codec_of ex_reconcile_codec"

lemma ex_projection_codec_jcs [simp]: "pk_jcs ex_projection_codec = Some"
  by (simp add: projection_codec_of_def ex_reconcile_codec_def)

definition ex_reducers :: "(string, reducer) gomap" where
  "ex_reducers = [(''project'', AuthoritativeStateReducer Some)]"

lemma ex_log_sel:
  "e \<in> set ex_log \<Longrightarrow> event_key e = aggregateKey ''t'' ''project'' ''p'' \<and> de_AggregateType e = ''project''"
  "map de_AggregateVersion ex_log = [1, 2]"
  by (auto simp: ex_log_def ex_bound_def ex_request_def Let_def)

lemma ex_log_plain: "plain_events (set ex_log)"
  by (auto simp: plain_events_def one_history_def small_versions_def ex_log_def ex_bound_def ex_request_def Let_def)

lemmas ex_projector_simps =
  ex_log_def ex_bound_def ex_request_def Let_def projector_Apply_def apply_checked_def projection_validateEvent_def
  ex_digest ex_json take_event_def drain.simps stream_of_def new_stream_def NewProjector_def ex_reducers_def
  AuthoritativeStateReducer_def amap.look_store gomap_put_def gomap_delete_def add64_def wrap64_def maxPendingPerAggregate_def

lemma ex_delivered:
  "\<exists>p. delivered ex_projection_codec ex_log (NewProjector ex_reducers) = Some p"
  "\<exists>p. delivered ex_projection_codec (rev ex_log) (NewProjector ex_reducers) = Some p
     \<and> projector_Snapshot ''t'' ''project'' ''p'' p = Some \<lparr>sn_Version = 2, sn_State = ''{}''\<rparr>"
  by (simp_all add: ex_projector_simps projector_Snapshot_def)

theorem projection_order_free_witness:
  "\<exists>p. delivered ex_projection_codec ex_log (NewProjector ex_reducers) = Some p
     \<and> projector_Snapshot ''t'' ''project'' ''p'' p = Some \<lparr>sn_Version = 2, sn_State = ''{}''\<rparr>"
proof -
  from ex_delivered obtain p p' where p: "delivered ex_projection_codec ex_log (NewProjector ex_reducers) = Some p"
    and p': "delivered ex_projection_codec (rev ex_log) (NewProjector ex_reducers) = Some p'"
      "projector_Snapshot ''t'' ''project'' ''p'' p' = Some \<lparr>sn_Version = 2, sn_State = ''{}''\<rparr>" by blast
  from projection_order_free [OF ex_log_plain _ p p'(1)] p p'(2) show ?thesis by auto
qed

theorem store_reconciles_witness:
  "\<exists>report. VerifyDurable ex_reconcile_codec (\<lambda>_. False) (LoadReconciliationSnapshot (Some None) ''t'' ex_store) ''t''
       = (Some report, None)
     \<and> rr_EventCount report = 2 \<and> rr_OnlineCount report = 1 \<and> rr_RebuiltCount report = 1"
proof -
  have ops: "list_all plain_op ex_store_ops" "int (length ex_store_ops) < 2 ^ 63"
    by (simp_all add: ex_store_ops_def plain_request_def ex_request_def Let_def nul_free_def)
  have enc: "snapshots_encode ex_reconcile_codec" by (simp add: snapshots_encode_def ex_reconcile_codec_def)
  have "ex_store = store_run (pk_jcs ex_reconcile_codec) ex_store_ops NewMemoryStore"
    by (simp add: ex_store_def ex_reconcile_codec_def)
  from store_reconciles [OF ops this enc, of "''t''" "\<lambda>_. False"]
  have "\<exists>report. VerifyDurable ex_reconcile_codec (\<lambda>_. False) (LoadReconciliationSnapshot (Some None) ''t'' ex_store) ''t''
       = (Some report, None)
     \<and> rr_EventCount report = length (tenant_events ''t'' ex_store)
     \<and> rr_OnlineCount report = length (tenant_projections ''t'' ex_store)
     \<and> rr_RebuiltCount report = length (tenant_projections ''t'' ex_store)" by auto
  moreover have "length (tenant_events ''t'' ex_store) = 2" "length (tenant_projections ''t'' ex_store) = 1"
    by (simp_all add: tenant_events_def tenant_projections_def ex_store_steps ex_store_simps gomap_put_def)
  ultimately show ?thesis by simp
qed

end
