(* ===== verification/Event_Tables.thy ===== *)
theory Event_Tables
  imports Event_Properties
begin

text \<open>
  The tables of the event store as a whole: what is in them in every reachable store, and what exactly
  a transaction does to each of them, for every outcome the caller can see.
\<close>

section \<open>Version keys\<close>

lemma digit_char_plain: "d < 10 \<Longrightarrow> digit_char d \<noteq> key_byte \<and> digit_char d \<noteq> CHR ''-''"
proof -
  assume "d < 10"
  then have "d \<in> {0, 1, 2, 3, 4, 5, 6, 7, 8, 9}" by auto
  then show ?thesis by (auto simp: digit_char_def key_byte_def char_of_def)
qed

lemma digit_char_inject: "a < 10 \<Longrightarrow> b < 10 \<Longrightarrow> digit_char a = digit_char b \<longleftrightarrow> a = b"
  by (auto simp: digit_char_def dest: arg_cong [of _ _ "of_char :: char \<Rightarrow> nat"])

lemma show_nat_plain: "key_byte \<notin> set (show_nat n) \<and> CHR ''-'' \<notin> set (show_nat n)"
proof (induction n rule: show_nat.induct)
  case (1 n)
  have "n mod 10 < 10" by simp
  with 1 digit_char_plain [of n] digit_char_plain [of "n mod 10"] show ?case
    by (subst show_nat.simps, subst (2) show_nat.simps) auto
qed

lemma show_nat_nonempty: "show_nat n \<noteq> []"
  by (subst show_nat.simps) simp

lemma show_nat_inject: "show_nat m = show_nat n \<longleftrightarrow> m = n"
proof (induction m arbitrary: n rule: show_nat.induct)
  case (1 m)
  show ?case
  proof (cases "m < 10 \<or> n < 10")
    case True
    then show ?thesis
      using show_nat_nonempty [of "m div 10"] show_nat_nonempty [of "n div 10"]
      by (subst show_nat.simps, subst (2) show_nat.simps) (auto simp: digit_char_inject)
  next
    case False
    then have "show_nat m = show_nat n \<longleftrightarrow> show_nat (m div 10) = show_nat (n div 10) \<and> m mod 10 = n mod 10"
      by (subst show_nat.simps, subst (2) show_nat.simps) (simp add: digit_char_inject)
    also have "\<dots> \<longleftrightarrow> m div 10 = n div 10 \<and> m mod 10 = n mod 10" using 1 False by simp
    also have "\<dots> \<longleftrightarrow> m = n" by (metis div_mult_mod_eq)
    finally show ?thesis .
  qed
qed

lemma show_int_inject: "show_int v = show_int w \<longleftrightarrow> v = w"
proof -
  have minus: "CHR ''-'' # x \<noteq> show_nat n" for x n using show_nat_plain [of n] by (metis list.set_intros(1))
  show ?thesis
    using minus minus [symmetric] by (auto simp: show_int_def show_nat_inject)
qed

lemma show_int_plain: "key_byte \<notin> set (show_int v)"
  using show_nat_plain by (auto simp: show_int_def key_byte_def)

text \<open>The version follows the last NUL byte, so a version key names an aggregate's key and a version.\<close>

lemma version_key: "versionKey t ty i v = aggregateKey t ty i @ [key_byte] @ show_int v"
  by (simp add: versionKey_def aggregateKey_def)

lemma versionKey_inject:
  "versionKey t ty i v = versionKey t' ty' i' v' \<longleftrightarrow> aggregateKey t ty i = aggregateKey t' ty' i' \<and> v = v'"
proof
  assume same: "versionKey t ty i v = versionKey t' ty' i' v'"
  have last_part: "takeWhile (\<lambda>c. c \<noteq> key_byte) (rev (a @ [key_byte] @ show_int w)) = rev (show_int w)" for a w
  proof -
    have "takeWhile (\<lambda>c. c \<noteq> key_byte) (rev (show_int w) @ key_byte # rev a) = rev (show_int w) @ takeWhile (\<lambda>c. c \<noteq> key_byte) (key_byte # rev a)"
      using show_int_plain [of w] by (intro takeWhile_append2) auto
    then show ?thesis by simp
  qed
  from same have "rev (show_int v) = rev (show_int v')"
    unfolding version_key by (metis last_part)
  then have "v = v'" by (simp add: show_int_inject)
  with same show "aggregateKey t ty i = aggregateKey t' ty' i' \<and> v = v'" unfolding version_key by simp
qed (simp add: version_key)

section \<open>What a commit writes\<close>

lemma map_of_put_all:
  assumes "distinct (map key xs)"
  shows "map_of (put_all key val xs m) = map_of m ++ map_of (map (\<lambda>x. (key x, val x)) xs)"
proof
  fix k
  show "map_of (put_all key val xs m) k = (map_of m ++ map_of (map (\<lambda>x. (key x, val x)) xs)) k"
  proof (cases "k \<in> key ` set xs")
    case True
    then obtain x where x: "x \<in> set xs" "k = key x" by blast
    have "distinct (map fst (map (\<lambda>x. (key x, val x)) xs))" using assms by (simp add: comp_def)
    then have "map_of (map (\<lambda>x. (key x, val x)) xs) (key x) = Some (val x)" using x(1) by (auto intro: map_of_is_SomeI)
    with put_all_same [OF assms x(1), of val m] x(2) show ?thesis by (simp add: map_add_def)
  next
    case False
    then have "map_of (map (\<lambda>x. (key x, val x)) xs) k = None" by (auto simp: map_of_eq_None_iff)
    with put_all_other [OF False, of val m] show ?thesis by (simp add: map_add_def)
  qed
qed

definition event_version :: "DomainEvent \<Rightarrow> string" where
  "event_version e = versionKey (de_TenantID e) (de_AggregateType e) (de_AggregateID e) (de_AggregateVersion e)"

lemma event_version_inject:
  "event_version e = event_version e' \<longleftrightarrow> event_key e = event_key e' \<and> de_AggregateVersion e = de_AggregateVersion e'"
  by (simp add: event_version_def versionKey_inject)

lemma good_tenant:
  assumes "good_commit jcs s r" and "e \<in> set (tq_Events r)"
  shows "de_TenantID e = tq_TenantID r" "version_of (tq_TenantID r) e = event_version e"
proof -
  from assms obtain u where "u \<in> set (tq_Updates r)" "good_event u e" "good_update (tq_TenantID r) u"
    unfolding good_commit_def by blast
  then show "de_TenantID e = tq_TenantID r" by (simp add: good_event_def good_update_def)
  then show "version_of (tq_TenantID r) e = event_version e" by (simp add: version_of_def event_version_def)
qed

definition tables_written :: "TransactionRequest \<Rightarrow> DomainEvent list \<Rightarrow> MemoryStore \<Rightarrow> MemoryStore \<Rightarrow> bool" where
  \<comment> \<open>each table holds what it held, with the records of the transaction over it\<close>
  "tables_written r bs s s' \<longleftrightarrow>
     map_of (ms_projections s') = map_of (ms_projections s) ++ map_of (map (\<lambda>u.
       (aggregateKey (pu_TenantID u) (pu_AggregateType u) (pu_AggregateID u),
        \<lparr>pj_TenantID = pu_TenantID u, pj_ProjectID = pu_ProjectID u, pj_AggregateType = pu_AggregateType u,
         pj_AggregateID = pu_AggregateID u, pj_Version = pu_NextVersion u, pj_State = pu_State u\<rparr>)) (tq_Updates r))
   \<and> map_of (ms_events s') = map_of (ms_events s) ++ map_of (map (\<lambda>b. (de_EventID b, b)) bs)
   \<and> map_of (ms_versions s') = map_of (ms_versions s) ++ map_of (map (\<lambda>b. (versionKey (de_TenantID b)
       (de_AggregateType b) (de_AggregateID b) (de_AggregateVersion b), de_EventID b)) bs)
   \<and> map_of (ms_outbox s') = map_of (ms_outbox s) ++ map_of (map (\<lambda>b. (''outbox_'' @ de_EventID b,
       \<lparr>ob_ID = ''outbox_'' @ de_EventID b, ob_Event = b, ob_PublishedAt = None, ob_Attempts = 0,
        ob_NextAttempt = de_OccurredAt b\<rparr>)) bs)
   \<and> map_of (ms_approvals s') = map_of (ms_approvals s) ++ map_of (map (\<lambda>a. (ap_ID a, a)) (tq_Approvals r))
   \<and> map_of (ms_decisions s') = map_of (ms_decisions s) ++ map_of (map (\<lambda>d. (ud_ID d, d)) (tq_UserDecisions r))
   \<and> map_of (ms_commands s') = (map_of (ms_commands s)) (commandKey (tq_TenantID r) (tq_PrincipalID r) (tq_IdempotencyKey r)
       \<mapsto> \<lparr>cm_RequestSHA256 = tq_RequestSHA256 r,
          cm_Result = \<lparr>tx_Result = tq_Result r, tx_Events = bs, tx_Duplicate = False\<rparr>\<rparr>)"

lemma commit_written:
  assumes good: "good_commit jcs s (r\<lparr>tq_Events := bs\<rparr>)"
  shows "tables_written r bs s ((commit (r\<lparr>tq_Events := bs\<rparr>) s)\<lparr>ms_failure := f\<rparr>)"
proof -
  let ?r = "r\<lparr>tq_Events := bs\<rparr>"
  have distinct: "distinct (map update_key (tq_Updates r))" "distinct (map de_EventID bs)" "distinct (map event_key bs)"
    "distinct (map ap_ID (tq_Approvals r))" "distinct (map ud_ID (tq_UserDecisions r))"
    using good unfolding good_commit_def by simp_all
  have outs: "distinct (map (outboxID \<circ> de_EventID) bs)" using distinct(2) by (simp add: distinct_map inj_on_def)
  have versions: "map (version_of (tq_TenantID r)) bs = map event_version bs"
    using good_tenant(2) [OF good] by simp
  have "distinct (map event_version bs)" using distinct(3) by (auto simp: distinct_map inj_on_def event_version_inject)
  then have version_keys: "distinct (map (version_of (tq_TenantID r)) bs)" by (simp only: versions)
  have pairs: "map (\<lambda>b. (version_of (tq_TenantID r) b, de_EventID b)) bs = map (\<lambda>b. (event_version b, de_EventID b)) bs"
    using good_tenant(2) [OF good] by simp
  show ?thesis
    unfolding tables_written_def
    using commit_projections [OF good] map_of_put_all [OF distinct(1), of projection_of "ms_projections s"]
      map_of_put_all [OF distinct(2), of "\<lambda>b. b" "ms_events s"] map_of_put_all [OF version_keys, of de_EventID "ms_versions s"]
      map_of_put_all [OF outs, of outbox_of "ms_outbox s"] map_of_put_all [OF distinct(4), of "\<lambda>a. a" "ms_approvals s"]
      map_of_put_all [OF distinct(5), of "\<lambda>d. d" "ms_decisions s"]
    by (simp add: commit_sel projection_of_def outbox_of_def outboxID_def pairs event_version_def request_key_def
        transaction_result_def fun_eq_iff amap.look_store map_idI)
qed

definition replay_bound :: "jcs_transform \<Rightarrow> ProjectionUpdate list \<Rightarrow> DomainEvent \<Rightarrow> DomainEvent \<Rightarrow> bool" where
  \<comment> \<open>the event with the state of its aggregate's update and the digest of that state\<close>
  "replay_bound jcs us e b \<longleftrightarrow>
     (\<exists>u \<in> set us. \<exists>d. event_key e = update_key u \<and> Digest jcs (pu_State u) = Some d
        \<and> b = e\<lparr>de_ReplayState := pu_State u, de_ReplayStateSHA256 := d\<rparr>)"

lemma bound_replay:
  "bound_from jcs (update_states us) e b \<Longrightarrow> replay_bound jcs us e b"
proof -
  assume "bound_from jcs (update_states us) e b"
  then obtain state d where found: "map_of (put_all update_key pu_State us []) (event_key e) = Some state"
    and b: "Digest jcs state = Some d" "b = e\<lparr>de_ReplayState := state, de_ReplayStateSHA256 := d\<rparr>"
    unfolding bound_from_def update_states_eq by blast
  from put_all_cases [OF found] obtain u where "u \<in> set us" "event_key e = update_key u" "state = pu_State u" by auto
  with b show ?thesis unfolding replay_bound_def by blast
qed

section \<open>Transactions\<close>

text \<open>
  C36: a transaction is all or nothing, and the outcome tells which. After a first success or an
  unknown commit every table holds exactly the records of the request over what it held: the
  projections, the events with the states of their aggregates bound, their versions and outbox
  records, the approvals, the user decisions and the command with its result, which is what a first
  success returns. A duplicate returns the recorded result of the same request and changes nothing.
  After any other error nothing but the injected failure point has changed.
\<close>

theorem transaction_atomic:
  assumes "Execute jcs r s = (out, s')"
  shows "case out of
      Inr result \<Rightarrow>
        if tx_Duplicate result
        then s' = s \<and> (\<exists>c. map_of (ms_commands s) (commandKey (tq_TenantID r) (tq_PrincipalID r) (tq_IdempotencyKey r)) = Some c
               \<and> cm_RequestSHA256 c = tq_RequestSHA256 r
               \<and> tx_Result result = tx_Result (cm_Result c) \<and> tx_Events result = tx_Events (cm_Result c))
        else tx_Result result = tq_Result r
          \<and> list_all2 (replay_bound jcs (tq_Updates r)) (tq_Events r) (tx_Events result)
          \<and> tables_written r (tx_Events result) s s'
    | Inl err \<Rightarrow>
        if err = ErrCommitResultUnknown
        then \<exists>bs. list_all2 (replay_bound jcs (tq_Updates r)) (tq_Events r) bs \<and> tables_written r bs s s'
        else \<exists>f. s' = s\<lparr>ms_failure := f\<rparr>"
proof (rule Execute_cases [OF assms])
  fix result assume "out = Inr result" "s' = s"
    and found: "lookupLocked (tq_TenantID r) (tq_PrincipalID r) (tq_IdempotencyKey r) (tq_RequestSHA256 r) s = Inr (Some result)"
  then show ?thesis by (auto simp: lookupLocked_def split: option.splits if_splits)
next
  fix bs f
  assume good: "good_commit jcs s (r\<lparr>tq_Events := bs\<rparr>)"
    and bound: "list_all2 (bound_from jcs (update_states (tq_Updates r))) (tq_Events r) bs"
    and s': "s' = (commit (r\<lparr>tq_Events := bs\<rparr>) s)\<lparr>ms_failure := f\<rparr>"
    and out: "out = Inl ErrCommitResultUnknown \<or> out = Inr (transaction_result (r\<lparr>tq_Events := bs\<rparr>))"
  have "list_all2 (replay_bound jcs (tq_Updates r)) (tq_Events r) bs"
    using bound bound_replay by (rule list_all2_mono)
  with commit_written [OF good, of f] out show ?thesis unfolding s' by (auto simp: transaction_result_def map_idI)
next
  fix err assume "out = Inl err" "s' = s" "err \<noteq> ErrCommitResultUnknown"
  then show ?thesis by (auto intro: exI [of _ "ms_failure s"])
next
  assume "out = Inl ErrInjectedFailure" "s' = s\<lparr>ms_failure := FailureNone\<rparr>"
  then show ?thesis by auto
qed

theorem transaction_atomic_witness:
  "tables_written (ex_request ''k1'' ''e1'' 0) (tq_Events (ex_bound ''k1'' ''e1'' 0)) NewMemoryStore
     (snd (Execute Some (ex_request ''k1'' ''e1'' 0) NewMemoryStore))"
proof -
  have "\<not> tx_Duplicate (transaction_result (ex_bound ''k1'' ''e1'' 0))"
    "tx_Events (transaction_result (ex_bound ''k1'' ''e1'' 0)) = tq_Events (ex_bound ''k1'' ''e1'' 0)"
    by (simp_all add: transaction_result_def map_idI)
  with transaction_atomic [OF ex_store_steps(1)] show ?thesis unfolding ex_store_steps(1) by simp
qed

section \<open>Every table\<close>

definition versions_ok :: "MemoryStore \<Rightarrow> bool" where
  \<comment> \<open>the version table is the index of the log by aggregate and version\<close>
  "versions_ok s \<longleftrightarrow> gomap_ok (ms_versions s)
     \<and> (\<forall>k i. map_of (ms_versions s) k = Some i \<longleftrightarrow> (\<exists>e. map_of (ms_events s) i = Some e
          \<and> k = versionKey (de_TenantID e) (de_AggregateType e) (de_AggregateID e) (de_AggregateVersion e)))"

definition commands_ok :: "MemoryStore \<Rightarrow> bool" where
  \<comment> \<open>a command is recorded under its tenant with a first result, whose events are in the log;
     every event of the log is in a recorded result\<close>
  "commands_ok s \<longleftrightarrow> gomap_ok (ms_commands s)
     \<and> (\<forall>k c. map_of (ms_commands s) k = Some c \<longrightarrow> \<not> tx_Duplicate (cm_Result c)
          \<and> (\<exists>t p key. k = commandKey t p key \<and> (\<forall>e \<in> set (tx_Events (cm_Result c)).
               de_TenantID e = t \<and> map_of (ms_events s) (de_EventID e) = Some e)))
     \<and> (\<forall>i e. map_of (ms_events s) i = Some e \<longrightarrow>
          (\<exists>k c. map_of (ms_commands s) k = Some c \<and> e \<in> set (tx_Events (cm_Result c))))"

definition tables_ok :: "jcs_transform \<Rightarrow> MemoryStore \<Rightarrow> bool" where
  "tables_ok jcs s \<longleftrightarrow> store_ok jcs s \<and> versions_ok s \<and> commands_ok s
     \<and> gomap_ok (ms_approvals s) \<and> gomap_ok (ms_decisions s)"

lemma written_events:
  assumes good: "good_commit jcs s r" and ok: "events_ok jcs s"
  shows "map_of (ms_events (commit r s)) i = Some e \<longleftrightarrow>
    map_of (ms_events s) i = Some e \<or> e \<in> set (tq_Events r) \<and> de_EventID e = i"
proof -
  have ids: "distinct (map de_EventID (tq_Events r))" and fresh: "\<And>b. b \<in> set (tq_Events r) \<Longrightarrow> map_of (ms_events s) (de_EventID b) = None"
    using good unfolding good_commit_def by blast+
  show ?thesis
  proof (cases "i \<in> de_EventID ` set (tq_Events r)")
    case True
    then obtain b where b: "b \<in> set (tq_Events r)" "i = de_EventID b" by blast
    have new: "map_of (ms_events (commit r s)) i = Some b"
      unfolding commit_sel b(2) by (rule put_all_same [OF ids b(1), of "\<lambda>e. e"])
    have "inj_on de_EventID (set (tq_Events r))" using ids by (simp only: distinct_map)
    then have "e \<in> set (tq_Events r) \<and> de_EventID e = i \<longleftrightarrow> e = b" using b inj_onD by metis
    then show ?thesis using new fresh [OF b(1)] by (auto simp: b(2))
  next
    case False
    then show ?thesis using put_all_other [OF False, of "\<lambda>e. e" "ms_events s"] by (auto simp: commit_sel)
  qed
qed

lemma versions_ok_commit:
  assumes ok: "versions_ok s" and events: "events_ok jcs s" and good: "good_commit jcs s r"
  shows "versions_ok (commit r s)"
  unfolding versions_ok_def event_version_def [symmetric]
proof (intro conjI allI)
  let ?es = "tq_Events r"
  show "gomap_ok (ms_versions (commit r s))" using ok by (simp add: versions_ok_def commit_sel)
  fix k i
  have keys: "version_of (tq_TenantID r) e = event_version e" if "e \<in> set ?es" for e by (rule good_tenant(2) [OF good that])
  have table: "map_of (ms_versions (commit r s)) = map_of (put_all event_version de_EventID ?es (ms_versions s))"
    unfolding commit_sel by (simp only: put_all_cong [OF keys])
  have "distinct (map event_key ?es)" using good unfolding good_commit_def by blast
  then have inj: "distinct (map event_version ?es)" by (auto simp: distinct_map inj_on_def event_version_inject)
  have fresh: "map_of (ms_versions s) (event_version e) = None" if "e \<in> set ?es" for e
    using good keys [OF that] that unfolding good_commit_def by metis
  have old: "map_of (ms_versions s) k = Some i \<longleftrightarrow> (\<exists>e. map_of (ms_events s) i = Some e \<and> k = event_version e)"
    using ok unfolding versions_ok_def event_version_def by blast
  show "map_of (ms_versions (commit r s)) k = Some i \<longleftrightarrow>
      (\<exists>e. map_of (ms_events (commit r s)) i = Some e \<and> k = event_version e)"
  proof (cases "k \<in> event_version ` set ?es")
    case True
    then obtain b where b: "b \<in> set ?es" "k = event_version b" by blast
    have "inj_on event_version (set ?es)" using inj by (simp only: distinct_map)
    then have one: "e \<in> set ?es \<and> k = event_version e \<longleftrightarrow> e = b" for e using b inj_onD by metis
    have "map_of (ms_versions (commit r s)) k = Some (de_EventID b)"
      unfolding table b(2) by (rule put_all_same [OF inj b(1)])
    moreover have "\<not> (\<exists>e. map_of (ms_events s) i = Some e \<and> k = event_version e)" using old fresh [OF b(1)] b(2) by simp
    moreover have "(\<exists>e. map_of (ms_events (commit r s)) i = Some e \<and> k = event_version e)
        \<longleftrightarrow> (\<exists>e. map_of (ms_events s) i = Some e \<and> k = event_version e) \<or> (\<exists>e. (e \<in> set ?es \<and> k = event_version e) \<and> de_EventID e = i)"
      unfolding written_events [OF good events] by blast
    ultimately show ?thesis unfolding one by auto
  next
    case False
    then show ?thesis
      using put_all_other [OF False, of de_EventID "ms_versions s"] old by (auto simp: table written_events [OF good events])
  qed
qed

lemma commands_ok_commit:
  assumes ok: "commands_ok s" and events: "events_ok jcs s" and good: "good_commit jcs s r"
  shows "commands_ok (commit r s)"
  unfolding commands_ok_def
proof (intro conjI allI impI)
  let ?k = "request_key r" and ?c = "\<lparr>cm_RequestSHA256 = tq_RequestSHA256 r, cm_Result = transaction_result r\<rparr>"
  have result: "tx_Events (transaction_result r) = tq_Events r" "\<not> tx_Duplicate (transaction_result r)"
    by (simp_all add: transaction_result_def map_idI)
  have kept: "map_of (ms_events (commit r s)) (de_EventID e) = Some e" if "map_of (ms_events s) (de_EventID e) = Some e" for e
    using that by (simp add: written_events [OF good events])
  have found: "map_of (ms_commands (commit r s)) k = Some c \<longleftrightarrow> (if k = ?k then c = ?c else map_of (ms_commands s) k = Some c)" for k c
    by (auto simp: commit_sel amap.look_store)
  show "gomap_ok (ms_commands (commit r s))" using ok by (simp add: commands_ok_def commit_sel)
  fix k c assume c: "map_of (ms_commands (commit r s)) k = Some c"
  have old: "map_of (ms_commands s) k = Some c \<Longrightarrow> \<not> tx_Duplicate (cm_Result c)
      \<and> (\<exists>t p key. k = commandKey t p key \<and> (\<forall>e \<in> set (tx_Events (cm_Result c)).
           de_TenantID e = t \<and> map_of (ms_events s) (de_EventID e) = Some e))"
    using ok unfolding commands_ok_def by blast
  show "\<not> tx_Duplicate (cm_Result c)" using c old result(2) by (auto simp: found split: if_splits)
  show "\<exists>t p key. k = commandKey t p key \<and> (\<forall>e \<in> set (tx_Events (cm_Result c)).
      de_TenantID e = t \<and> map_of (ms_events (commit r s)) (de_EventID e) = Some e)"
  proof (cases "k = ?k")
    case True
    with c have "c = ?c" by (simp add: found)
    moreover have "de_TenantID e = tq_TenantID r \<and> map_of (ms_events (commit r s)) (de_EventID e) = Some e"
      if "e \<in> set (tq_Events r)" for e
      using good_tenant(1) [OF good that] that by (simp add: written_events [OF good events])
    ultimately show ?thesis using True result(1)
      by (intro exI [of _ "tq_TenantID r"] exI [of _ "tq_PrincipalID r"] exI [of _ "tq_IdempotencyKey r"])
        (simp add: request_key_def)
  next
    case False
    with c old kept show ?thesis by (simp add: found) blast
  qed
next
  fix i e assume "map_of (ms_events (commit r s)) i = Some e"
  then consider "map_of (ms_events s) i = Some e" | "e \<in> set (tq_Events r)" by (auto simp: written_events [OF good events])
  then show "\<exists>k c. map_of (ms_commands (commit r s)) k = Some c \<and> e \<in> set (tx_Events (cm_Result c))"
  proof cases
    case 1
    then obtain k c where c: "map_of (ms_commands s) k = Some c" "e \<in> set (tx_Events (cm_Result c))"
      using ok unfolding commands_ok_def by blast
    moreover have "k \<noteq> request_key r" using good c(1) unfolding good_commit_def by auto
    ultimately show ?thesis by (intro exI [of _ k] exI [of _ c]) (simp add: commit_sel amap.look_store)
  next
    case 2
    then show ?thesis
      by (intro exI [of _ "request_key r"] exI)
        (auto simp: commit_sel amap.look_store transaction_result_def)
  qed
qed

lemma tables_ok_same:
  assumes "tables_ok jcs s" and "store_ok jcs s'" and "ms_events s' = ms_events s" "ms_versions s' = ms_versions s"
    "ms_commands s' = ms_commands s" "ms_approvals s' = ms_approvals s" "ms_decisions s' = ms_decisions s"
  shows "tables_ok jcs s'"
  using assms by (simp add: tables_ok_def versions_ok_def commands_ok_def)

lemma tables_ok_step:
  assumes ok: "tables_ok jcs s"
  shows "tables_ok jcs (store_after jcs op s)"
proof -
  from ok have store: "store_ok jcs s" and events: "events_ok jcs s" and outbox: "outbox_ok s"
    by (simp_all add: tables_ok_def store_ok_def)
  note after = store_ok_step [OF store, of op]
  from outbox show ?thesis
  proof (cases rule: store_step_cases [where jcs = jcs and op = op])
    case (execute r)
    show ?thesis
    proof (rule Execute_cases [of jcs r s "fst (Execute jcs r s)" "snd (Execute jcs r s)"])
      fix bs f
      let ?r = "r\<lparr>tq_Events := bs\<rparr>"
      assume good: "good_commit jcs s ?r" and s': "snd (Execute jcs r s) = (commit ?r s)\<lparr>ms_failure := f\<rparr>"
      have "tables_ok jcs (commit ?r s)"
        using ok versions_ok_commit [OF _ events good] commands_ok_commit [OF _ events good] store_ok_commit [OF store good]
        by (simp add: tables_ok_def commit_sel)
      then show ?thesis by (rule tables_ok_same) (use after in \<open>simp_all add: execute s'\<close>)
    qed (use ok after in \<open>simp_all add: execute tables_ok_same [of jcs s]\<close>)
  next
    case (failure f)
    then show ?thesis using tables_ok_same [OF ok after] by simp
  next
    case touch
    then obtain m where "store_after jcs op s = s\<lparr>ms_outbox := m\<rparr>" by (auto simp: outbox_touched_def)
    then show ?thesis using tables_ok_same [OF ok after] by simp
  qed
qed

lemma run_tables_ok: "tables_ok jcs s \<Longrightarrow> tables_ok jcs (store_run jcs ops s)"
  by (induction ops arbitrary: s) (simp_all add: store_run_def tables_ok_step)

lemma NewMemoryStore_tables: "tables_ok jcs NewMemoryStore"
  using NewMemoryStore_ok by (simp add: tables_ok_def versions_ok_def commands_ok_def NewMemoryStore_def gomap_ok_def)

text \<open>
  C34: all seven tables are well formed in every reachable store, whatever the operations. Each key
  occurs once, and each record lies under its own key. An event carries the digests of its payload and
  of the state bound to it, and exactly one outbox record; the version table is the index of the log by
  aggregate and version, with no other entry; the result of a recorded command is a first one, with
  events of the command's tenant that are in the log as the result has them, and every event of the log
  is in such a result; no approval is revoked, and a user decision has an approval of its tenant.
\<close>

theorem store_well_formed:
  assumes "s = store_run jcs ops NewMemoryStore"
  shows "gomap_ok (ms_projections s) \<and> gomap_ok (ms_events s) \<and> gomap_ok (ms_versions s) \<and> gomap_ok (ms_outbox s)
    \<and> gomap_ok (ms_approvals s) \<and> gomap_ok (ms_decisions s) \<and> gomap_ok (ms_commands s)
    \<and> (\<forall>k p. map_of (ms_projections s) k = Some p \<longrightarrow>
         k = aggregateKey (pj_TenantID p) (pj_AggregateType p) (pj_AggregateID p) \<and> pj_State p \<noteq> [])
    \<and> (\<forall>i e. map_of (ms_events s) i = Some e \<longrightarrow>
         i = de_EventID e \<and> i \<noteq> [] \<and> Digest jcs (de_Payload e) = Some (de_PayloadSHA256 e)
         \<and> json_object (de_ReplayState e) \<and> Digest jcs (de_ReplayState e) = Some (de_ReplayStateSHA256 e)
         \<and> (\<exists>r. map_of (ms_outbox s) (''outbox_'' @ i) = Some r \<and> ob_Event r = e)
         \<and> (\<exists>k c. map_of (ms_commands s) k = Some c \<and> e \<in> set (tx_Events (cm_Result c))))
    \<and> (\<forall>k r. map_of (ms_outbox s) k = Some r \<longrightarrow> k = ob_ID r \<and> k = ''outbox_'' @ de_EventID (ob_Event r)
         \<and> map_of (ms_events s) (de_EventID (ob_Event r)) = Some (ob_Event r))
    \<and> (\<forall>k i. map_of (ms_versions s) k = Some i \<longleftrightarrow> (\<exists>e. map_of (ms_events s) i = Some e
         \<and> k = versionKey (de_TenantID e) (de_AggregateType e) (de_AggregateID e) (de_AggregateVersion e)))
    \<and> (\<forall>k c. map_of (ms_commands s) k = Some c \<longrightarrow> \<not> tx_Duplicate (cm_Result c)
         \<and> (\<exists>t p key. k = commandKey t p key \<and> (\<forall>e \<in> set (tx_Events (cm_Result c)).
              de_TenantID e = t \<and> map_of (ms_events s) (de_EventID e) = Some e)))
    \<and> (\<forall>k a. map_of (ms_approvals s) k = Some a \<longrightarrow> ap_ID a = k \<and> ap_RevokedAt a = None)
    \<and> (\<forall>k d. map_of (ms_decisions s) k = Some d \<longrightarrow> ud_ID d = k
         \<and> (\<exists>a. map_of (ms_approvals s) (ud_ApprovalID d) = Some a \<and> ap_TenantID a = ud_TenantID d))"
proof -
  have ok: "tables_ok jcs s" unfolding assms by (rule run_tables_ok) (rule NewMemoryStore_tables)
  then have store: "events_ok jcs s" "outbox_ok s" "projections_ok s" "decisions_ok s" "versions_ok s" "commands_ok s"
    by (simp_all add: tables_ok_def store_ok_def)
  have out: "\<exists>r. map_of (ms_outbox s) (''outbox_'' @ i) = Some r \<and> ob_Event r = e" if e: "map_of (ms_events s) i = Some e" for i e
  proof -
    obtain r where r: "map_of (ms_outbox s) (outboxID i) = Some r" using store(2) e unfolding outbox_ok_def by fast
    then have "outboxID i = outboxID (de_EventID (ob_Event r))" "map_of (ms_events s) (de_EventID (ob_Event r)) = Some (ob_Event r)"
      using store(2) unfolding outbox_ok_def by blast+
    with e r show ?thesis by (auto simp: outboxID_def)
  qed
  have event: "i = de_EventID e" "i \<noteq> []" "event_stored jcs e" if "map_of (ms_events s) i = Some e" for i e
    using that store(1) unfolding events_ok_def event_stored_def by blast+
  show ?thesis
  proof (intro conjI)
    show "\<forall>i e. map_of (ms_events s) i = Some e \<longrightarrow>
         i = de_EventID e \<and> i \<noteq> [] \<and> Digest jcs (de_Payload e) = Some (de_PayloadSHA256 e)
         \<and> json_object (de_ReplayState e) \<and> Digest jcs (de_ReplayState e) = Some (de_ReplayStateSHA256 e)
         \<and> (\<exists>r. map_of (ms_outbox s) (''outbox_'' @ i) = Some r \<and> ob_Event r = e)
         \<and> (\<exists>k c. map_of (ms_commands s) k = Some c \<and> e \<in> set (tx_Events (cm_Result c)))"
      using event out store(6) unfolding event_stored_def commands_ok_def by blast
    show "\<forall>k r. map_of (ms_outbox s) k = Some r \<longrightarrow> k = ob_ID r \<and> k = ''outbox_'' @ de_EventID (ob_Event r)
         \<and> map_of (ms_events s) (de_EventID (ob_Event r)) = Some (ob_Event r)"
      using store(2) unfolding outbox_ok_def outboxID_def by blast
  qed (use ok store in \<open>auto simp: tables_ok_def events_ok_def outbox_ok_def projections_ok_def decisions_ok_def
      versions_ok_def commands_ok_def\<close>)
qed

theorem store_well_formed_witness:
  "map_of (ms_versions ex_store) (versionKey ''t'' ''project'' ''p'' 2) = Some ''e2''
     \<and> (\<exists>r. map_of (ms_outbox ex_store) ''outbox_e2'' = Some r \<and> de_AggregateVersion (ob_Event r) = 2)"
proof -
  have e: "map_of (ms_events ex_store) ''e2'' = Some (hd (tq_Events (ex_bound ''k2'' ''e2'' 1)))"
    by (simp add: ex_store_steps ex_store_simps gomap_put_def)
  have fields: "de_TenantID (hd (tq_Events (ex_bound ''k2'' ''e2'' 1))) = ''t''"
    "de_AggregateType (hd (tq_Events (ex_bound ''k2'' ''e2'' 1))) = ''project''"
    "de_AggregateID (hd (tq_Events (ex_bound ''k2'' ''e2'' 1))) = ''p''"
    "de_AggregateVersion (hd (tq_Events (ex_bound ''k2'' ''e2'' 1))) = 2"
    by (simp_all add: ex_bound_def ex_request_def Let_def)
  note all = store_well_formed [OF ex_store_def]
  from all have "\<forall>k i. map_of (ms_versions ex_store) k = Some i \<longleftrightarrow> (\<exists>e. map_of (ms_events ex_store) i = Some e
      \<and> k = versionKey (de_TenantID e) (de_AggregateType e) (de_AggregateID e) (de_AggregateVersion e))" by (elim conjE)
  then have "map_of (ms_versions ex_store) (versionKey ''t'' ''project'' ''p'' 2) = Some ''e2''"
    using e fields by metis
  moreover from all e have "\<exists>r. map_of (ms_outbox ex_store) (''outbox_'' @ ''e2'') = Some r
      \<and> ob_Event r = hd (tq_Events (ex_bound ''k2'' ''e2'' 1))" by blast
  ultimately show ?thesis using fields by auto
qed

end
