(* ===== verification/Spec2Isabelle.thy ===== *)
theory Spec2Isabelle
  imports Project_Properties Task_Properties Conformance Contract_Properties Contract_Audit
    Budget_Properties Outbox_Publisher Authn_Properties Policy_Properties Glob_Properties Integration_Properties Gate_Properties
    Orch_Properties Orch_Plans Orch_Queries Reconcile_Properties Event_Tables
begin

text \<open>
  A model of the deterministic core of AOR, an orchestrator that lets models plan, write, audit and
  merge the modules of a software project under human approvals, budgets and capability leases.

  \<^bold>\<open>The program.\<close> A project is an event-sourced aggregate (\<open>internal/state\<close>): commands are decided
  against the current state and give an event or an error, events are applied, and the service that
  handles a command stores projection, event, outbox record and command record in one transaction of
  the event store (\<open>internal/eventing\<close>); a publisher drains the outbox. The modules of a plan are
  module tasks, aggregates of their own. Models are called through a gateway that reserves and
  settles their cost in a budget ledger (\<open>internal/modelgateway\<close>). Who calls is established by the
  authentication boundary (\<open>internal/authn\<close>); what the caller may do by the policy engine and the
  capability leases (\<open>internal/authz\<close>). Passed modules are merged into one commit by the integration
  queue (\<open>internal/integration\<close>), behind a gate that compares every candidate with the system's own
  records and asks lease manager and policy engine. Documents exchanged between the parts are checked
  by \<open>pkg/contracts\<close>, errors are those of \<open>pkg/errors\<close>.

  \<^bold>\<open>Go.\<close> \<open>Go_Prelude\<close> (64-bit integers with \<open>add64\<close> and its fellows written out, instants, Go maps
  as association lists, the locale of finite maps), \<open>Go_Strings\<close> (byte strings, the parts of
  \<open>strings\<close>, \<open>path\<close> and \<open>regexp\<close> that are called), \<open>Go_Path\<close> (\<open>path.Match\<close>), \<open>Go_Time\<close> (RFC 3339),
  \<open>Go_Sha256\<close> (SHA-256 on 32-bit words) and \<open>Go_Json\<close> (the scanner of \<open>json.Valid\<close>) model what the
  source uses of the language and its library.

  \<^bold>\<open>Aggregates.\<close> \<open>Aor_Errors\<close> is \<open>pkg/errors/errors.go\<close>; \<open>Contract_Types\<close> the enumerations and
  references; \<open>Approval\<close> is \<open>approval.go\<close>; \<open>Dag\<close> is \<open>ValidateDAG\<close>; \<open>Aggregate\<close> the loop of decide and
  apply; \<open>Project_State\<close> is \<open>project.go\<close> with one definition per command, \<open>Task_State\<close> is \<open>task.go\<close>,
  \<open>Conformance\<close> is \<open>conformance.go\<close>. \<open>Project_Safety\<close> and \<open>Task_Safety\<close> hold the invariants,
  \<open>Project_Properties\<close> and \<open>Task_Properties\<close> the properties with concrete histories: approvals behind
  goals and completions, phases, deletions, replay and the prefixes of the log as its only other
  replays, attempts, fencing of submissions, the audits behind an integration.

  \<^bold>\<open>Contracts.\<close> \<open>Contract_Documents\<close>, \<open>Contract_Validate\<close> and \<open>Contract_Audit\<close> are
  \<open>pkg/contracts/types.go\<close> and \<open>audit_results.go\<close>: the records, the \<open>Validate\<close> methods as the message
  of the first failing guard, evidence bundles and the audit gate; \<open>Contract_Properties\<close> says what an
  accepted document guarantees.

  \<^bold>\<open>Events.\<close> \<open>Event_Store\<close> is \<open>store.go\<close>, \<open>memory.go\<close> and \<open>replay_state.go\<close>: seven tables in a record, and
  each method that takes the mutex as one function. \<open>Event_Safety\<close> and \<open>Event_Properties\<close>: contiguous
  histories, idempotent commands, fenced claims. \<open>Event_Tables\<close>: what lies in each of the seven tables of
  a reachable store, and what a transaction writes to each of them, outcome by outcome.
  \<open>Outbox_Publisher\<close> is one batch of \<open>outbox.go\<close>, over the locale of the store's laws. \<open>Trace_Context\<close> is
  the trace context carried with an event.

  \<^bold>\<open>Budget.\<close> \<open>Model_Costs\<close>, \<open>Budget_Ledger\<close> and \<open>Budget_Calls\<close> are the arithmetic, \<open>budget.go\<close>,
  \<open>model_call.go\<close> and \<open>reconcile.go\<close>; \<open>Budget_Safety\<close> reduces every operation to the moves of a small
  ledger machine, \<open>Budget_Properties\<close> states limits, conservation, single claims and final settlements.

  \<^bold>\<open>Authentication and authorization.\<close> \<open>Authn\<close> is \<open>authn.go\<close> and \<open>defaults.go\<close>; \<open>Authz_Types\<close> is
  \<open>types.go\<close>; \<open>Authz_Lease\<close> and \<open>Lease_Manager\<close> are \<open>lease.go\<close>; \<open>Policy_Engine\<close> is \<open>engine.go\<close>. A lease
  operation that reads and later swaps is a plan and a commit, and \<open>Lease_Safety\<close> interleaves plans and
  commits of any number of callers over the locale of a lease store, interpreted on the in-memory
  one. \<open>Policy_Safety\<close> inverts an ALLOW into the checks it passed. \<open>Lease_Properties\<close>,
  \<open>Policy_Properties\<close>, \<open>Glob_Properties\<close> and \<open>Authn_Properties\<close>: no side effect without an active, bound
  lease, fencing, finality of revocations, rules that only narrow, exact grants, bounded lifetimes,
  ownership globs, OIDC and workload identities.

  \<^bold>\<open>Integration.\<close> \<open>Integration_Store\<close> is \<open>types.go\<close>: results, integration tasks and the in-memory store, a
  map from tenant and integration to a \<open>memoryRecord\<close>. \<open>Integration_Queue\<close> is \<open>queue.go\<close>: audit, merge,
  recovery, checks. \<open>Integration_Gate\<close> is \<open>gate.go\<close> and \<open>authorization.go\<close>. \<open>Integration_Safety\<close> is the
  state machine of one record, \<open>Integration_Merge\<close> the laws between queue and store as locales with
  their interpretations, \<open>Integration_Properties\<close> and \<open>Gate_Properties\<close> the promises: the life of an
  integration, exact audits, what stands behind an accepted merge, repetition, recovery, the sources
  that confirm each candidate field by field, the lease behind a merge.

  \<^bold>\<open>Orchestrator.\<close> \<open>internal/orchestrator\<close> handles the commands: it loads aggregates from the event store,
  lets them decide, and commits all updates of a command in one transaction behind a commit boundary.
  \<open>Orch_Types\<close> is \<open>capability.go\<close> with the types of \<open>boundary.go\<close>, \<open>Orch_Goal\<close> and \<open>Orch_Project\<close> are
  \<open>goal.go\<close>, \<open>trace.go\<close> and \<open>HandleProject\<close>, \<open>Orch_Task\<close> is \<open>HandleTask\<close> with \<open>core_summary.go\<close> and
  \<open>query.go\<close>, \<open>Orch_Plan\<close> is \<open>plan.go\<close>, \<open>Orch_Queries\<close> holds the queries of goals and the loop around a task
  command. A handler is a plan and a commit: the plan reads a view, what each call of the store
  answered when it was made, and gives an answer or a transaction; the commit executes the transaction
  in the store as it is then. \<open>Orch_Runs\<close> and \<open>Orch_Trace\<close> let any number of handlers plan from any earlier
  stores of a trace and commit in any order. \<open>Orch_Safety\<close> states what is stored of an aggregate as a
  locale with one interpretation for projects and one for tasks. \<open>Orch_Commit\<close>, \<open>Orch_Dependents\<close> and
  \<open>Orch_Plans\<close> hold the lemmas, \<open>Orch_Examples\<close> worked examples, \<open>Orch_Properties\<close> the promises: handlers refine
  the aggregates, stored aggregates keep their invariants, commits are authorized, repeated requests
  answer alike, dependents are blocked and made ready with the task they wait for.

  \<^bold>\<open>Read models.\<close> \<open>internal/projection\<close> rebuilds states from events. \<open>Projector\<close> is \<open>projector.go\<close> and
  \<open>reducers.go\<close>: a projector holds one stream per aggregate, applies events in the order of their versions
  and keeps back those behind a gap. \<open>Projection_Reconcile\<close> is \<open>replay.go\<close>: the replay of a tenant and its
  comparison with the projections stored online. \<open>Projection_Safety\<close> holds the invariant of a stream with
  the set of events delivered for it, \<open>Reconcile_Safety\<close>, \<open>Reconcile_Log\<close> and \<open>Reconcile_Inventory\<close> follow
  the log of the event store through replay and inventories, and \<open>Reconcile_Properties\<close> states that the
  order of delivery makes no difference and that what the event store wrote reconciles. Budgets, whose
  snapshots may skip versions, are modelled and outside these two properties.

  \<^bold>\<open>Conventions.\<close> A string is its bytes. An \<open>int64\<close> or \<open>int\<close> is an \<open>int\<close> kept in range by \<open>add64\<close> where it
  can leave it; hypotheses name ranges where a caller must keep them (fencing tokens and limits below
  \<open>2 ^ 62\<close>). A time is its instant, in nanoseconds since Go's zero time; locations are lost, except
  where the code compares texts. A pointer, and a slice whose nil value matters, is an option. An enumeration
  is a string type in Go, so its datatype has a last constructor for any other string. A Go map is an
  association list, and where a loop visits one the visiting order is an argument or any permutation.
  An error is a value: the wire error of \<open>pkg/errors\<close>, or a datatype per package. A method that holds a
  mutex is one function of the state, so the interleavings of its callers are the sequences of calls.
  Receivers and contexts are not nil unless the code tests them. \<open>to_lower\<close> and \<open>to_upper\<close> are exact on
  ASCII and on the few other characters that map into it. Unused random identifiers are assumed
  fresh where a property says so.

  \<^bold>\<open>Parameters.\<close> What is not under \<open>src/\<close>: the canonical form of JSON (\<open>jcs\<close>), \<open>json.Marshal\<close> of the
  documents that are hashed, \<open>url.Parse\<close>, random bytes, clocks, the event bus, verifiers of tokens and
  certificates, the revocation service, the JSON of the orchestrator's documents (a codec record; where a
  property needs it, what it wrote it reads back), the approval verifier, custom rules, signers of leases (with
  the HMAC signer modelled), git behind the executor of merges, the artifact and evidence stores. Each
  is an argument of the definitions that use it; hypotheses about one state what its
  documentation says (a digest is not empty, a visit of a map is a permutation, the clock does not
  run behind a request).

  \<^bold>\<open>Loops.\<close> All loops over slices and maps are structural recursions. The loops of Kahn's algorithm, of
  the back-off and of the scanners end by the measures proved with them. The loop around a task command
  may run as long as others interfere; it is a partial function, and returns with the first attempt
  that is not tried again. No definition uses fuel.

  \<^bold>\<open>Not modelled.\<close> The services around this core: HTTP handlers (\<open>controlapi\<close>, \<open>a2a\<close>, \<open>mcp\<close>), clients of
  model providers, stores in PostgreSQL (their interfaces are modelled through the in-memory stores),
  JetStream, git, file systems, sandboxes and the command line; they are made of I/O whose behaviour is
  outside the repository. Of modelled packages: the stored responses of model calls
  (\<open>ModelReplay\<close>), the check that compares projections with Temporal and JetStream (\<open>convergence.go\<close>), the
  deriving of replay states, the timer loop of the publisher, the workflow, the git
  merger and the sandboxed checks around the integration queue.
\<close>

end
